(* ===== verification/Prelude.thy ===== *)
theory Prelude
  imports Main "HOL-Library.Char_ord" "HOL-Library.List_Lexorder"
begin

text \<open>
  Shared vocabulary of the development.
  \<^item> Python exceptions as values (\<open>exn\<close>), results as sums, and \<open>checks\<close>: the chain
    \<^verbatim>\<open>if cond: raise ValueError(msg)\<close> of the validators, first failing condition first.
  \<^item> \<open>eff\<close>: code that calls providers (NetBox inventory, secrets, read-only collector, device
    writer, stores). A provider is an unknown function of the history of the interaction; every
    call appends one event, with the response, to the log.
  \<^item> The string functions of Python and of the pydantic string constraints the code uses, on
    strings whose characters are code points below 256.
  \<^item> Generic list lemmas the components share.
\<close>

named_theorems eff_simps \<open>definitions of the effect combinators\<close>
named_theorems res_simps \<open>definitions of the result combinators\<close>

section \<open>Exceptions and results\<close>

datatype exn =
    ValueError string
  | OSError string
  | RuntimeError string
  | DeploymentRuntimeError string
  | OtherException string
  | BaseException string

type_synonym 'a res = "exn + 'a"

text \<open>\<^verbatim>\<open>except (ValueError, OSError, RuntimeError)\<close>; a \<open>DeploymentRuntimeError\<close> is a
  \<open>ProviderError\<close>, hence a \<open>RuntimeError\<close>.\<close>

fun provider_failure :: "exn \<Rightarrow> bool" where
  "provider_failure (ValueError _) = True"
| "provider_failure (OSError _) = True"
| "provider_failure (RuntimeError _) = True"
| "provider_failure (DeploymentRuntimeError _) = True"
| "provider_failure (OtherException _) = False"
| "provider_failure (BaseException _) = False"

text \<open>\<^verbatim>\<open>except Exception\<close>: everything but \<open>KeyboardInterrupt\<close> and the like.\<close>

fun is_exception :: "exn \<Rightarrow> bool" where
  "is_exception (BaseException _) = False"
| "is_exception _ = True"

fun exn_message :: "exn \<Rightarrow> string" where
  "exn_message (ValueError m) = m"
| "exn_message (OSError m) = m"
| "exn_message (RuntimeError m) = m"
| "exn_message (DeploymentRuntimeError m) = m"
| "exn_message (OtherException m) = m"
| "exn_message (BaseException m) = m"

lemma provider_failure_is_exception [simp]: "provider_failure e \<Longrightarrow> is_exception e"
  by (cases e) auto

definition bindS :: "'e + 'a \<Rightarrow> ('a \<Rightarrow> 'e + 'b) \<Rightarrow> 'e + 'b" where
  [res_simps]: "bindS r f = (case r of Inl e \<Rightarrow> Inl e | Inr x \<Rightarrow> f x)"

fun checks :: "(bool \<times> 'e) list \<Rightarrow> 'e + unit" where
  "checks [] = Inr ()"
| "checks ((c, e) # cs) = (if c then Inl e else checks cs)"

fun mapS :: "('a \<Rightarrow> 'e + 'b) \<Rightarrow> 'a list \<Rightarrow> 'e + 'b list" where
  "mapS f [] = Inr []"
| "mapS f (x # xs) =
     (case f x of Inl e \<Rightarrow> Inl e
      | Inr y \<Rightarrow> (case mapS f xs of Inl e \<Rightarrow> Inl e | Inr ys \<Rightarrow> Inr (y # ys)))"

definition ok :: "'e + 'a \<Rightarrow> bool" where
  [res_simps]: "ok r = (case r of Inl _ \<Rightarrow> False | Inr _ \<Rightarrow> True)"

lemma ok_simps [simp]: "ok (Inr x)" "\<not> ok (Inl e)"
  by (simp_all add: ok_def)

lemma ok_unit: "ok r \<longleftrightarrow> r = Inr ()" for r :: "'e + unit"
  by (cases r) auto

lemma bindS_simps [simp]:
  "bindS (Inl e) f = Inl e" "bindS (Inr x) f = f x"
  by (simp_all add: bindS_def)

lemma bindS_Inr_iff: "bindS r f = Inr y \<longleftrightarrow> (\<exists>x. r = Inr x \<and> f x = Inr y)"
  by (cases r) auto

lemma if_raise_ok [simp]:
  "(if c then Inl e else r) = Inr u \<longleftrightarrow> \<not> c \<and> r = Inr u"
  "Inr u = (if c then Inl e else r) \<longleftrightarrow> \<not> c \<and> r = Inr u"
  by auto

lemma checks_ok: "checks cs = Inr u \<longleftrightarrow> (\<forall>c \<in> set cs. \<not> fst c)"
  by (induction cs rule: checks.induct) auto

lemma checks_append: "checks (xs @ ys) = bindS (checks xs) (\<lambda>_. checks ys)"
  by (induction xs rule: checks.induct) auto

lemma mapS_Inr_iff:
  "mapS f xs = Inr ys \<longleftrightarrow> list_all2 (\<lambda>x y. f x = Inr y) xs ys"
proof (induction xs arbitrary: ys)
  case (Cons x xs)
  show ?case
  proof (cases "mapS f xs")
    case (Inl e)
    then have "\<not> list_all2 (\<lambda>x y. f x = Inr y) xs zs" for zs
      using Cons.IH [of zs] by simp
    with Inl show ?thesis by (auto split: sum.splits simp: list_all2_Cons1)
  next
    case (Inr us)
    then have "list_all2 (\<lambda>x y. f x = Inr y) xs zs \<longleftrightarrow> zs = us" for zs
      using Cons.IH [of zs] by auto
    with Inr show ?thesis by (auto split: sum.splits simp: list_all2_Cons1)
  qed
qed auto

lemma mapS_length: "mapS f xs = Inr ys \<Longrightarrow> length ys = length xs"
  by (simp add: mapS_Inr_iff list_all2_lengthD)

lemma mapS_nth: "mapS f xs = Inr ys \<Longrightarrow> i < length xs \<Longrightarrow> f (xs ! i) = Inr (ys ! i)"
  by (simp add: mapS_Inr_iff list_all2_conv_all_nth)

lemma mapS_total: "(\<And>x. x \<in> set xs \<Longrightarrow> f x = Inr (g x)) \<Longrightarrow> mapS f xs = Inr (map g xs)"
  by (induction xs) auto

section \<open>Effects: calls to providers, logged with their responses\<close>

type_synonym ('s, 'e, 'a) eff = "'s list \<Rightarrow> ('e + 'a) \<times> 's list"

definition ret :: "'a \<Rightarrow> ('s, 'e, 'a) eff" where
  [eff_simps]: "ret x = (\<lambda>t. (Inr x, t))"

definition raise :: "'e \<Rightarrow> ('s, 'e, 'a) eff" where
  [eff_simps]: "raise e = (\<lambda>t. (Inl e, t))"

definition liftE :: "'e + 'a \<Rightarrow> ('s, 'e, 'a) eff" where
  [eff_simps]: "liftE r = (\<lambda>t. (r, t))"

definition bindE :: "('s, 'e, 'a) eff \<Rightarrow> ('a \<Rightarrow> ('s, 'e, 'b) eff) \<Rightarrow> ('s, 'e, 'b) eff" where
  [eff_simps]: "bindE m f = (\<lambda>t. case m t of (Inl e, t') \<Rightarrow> (Inl e, t') | (Inr x, t') \<Rightarrow> f x t')"

text \<open>\<open>ask q ev\<close>: ask the provider, log the event with its response, hand the response on.\<close>

definition ask :: "('s list \<Rightarrow> 'r) \<Rightarrow> ('r \<Rightarrow> 's) \<Rightarrow> ('s, 'e, 'r) eff" where
  [eff_simps]: "ask q ev = (\<lambda>t. (Inr (q t), t @ [ev (q t)]))"

text \<open>\<open>askE\<close>: the same, with an exceptional response raised in the caller.\<close>

definition askE :: "('s list \<Rightarrow> 'e + 'a) \<Rightarrow> ('e + 'a \<Rightarrow> 's) \<Rightarrow> ('s, 'e, 'a) eff" where
  [eff_simps]: "askE q ev = (\<lambda>t. (q t, t @ [ev (q t)]))"

text \<open>\<open>tryE m\<close>: run \<open>m\<close> and hand its result, exception included, to the handler.\<close>

definition tryE :: "('s, 'e, 'a) eff \<Rightarrow> ('s, 'f, 'e + 'a) eff" where
  [eff_simps]: "tryE m = (\<lambda>t. case m t of (r, t') \<Rightarrow> (Inr r, t'))"

fun mapE :: "('a \<Rightarrow> ('s, 'e, 'b) eff) \<Rightarrow> 'a list \<Rightarrow> ('s, 'e, 'b list) eff" where
  "mapE f [] = ret []"
| "mapE f (x # xs) = bindE (f x) (\<lambda>y. bindE (mapE f xs) (\<lambda>ys. ret (y # ys)))"

text \<open>Every effect only appends to the log.\<close>

definition extends :: "('s, 'e, 'a) eff \<Rightarrow> bool" where
  "extends m \<longleftrightarrow> (\<forall>t. \<exists>u. snd (m t) = t @ u)"

lemma extendsI [intro?]: "(\<And>t. \<exists>u. snd (m t) = t @ u) \<Longrightarrow> extends m"
  by (simp add: extends_def)

lemma extendsD: "extends m \<Longrightarrow> \<exists>u. snd (m t) = t @ u"
  by (simp add: extends_def)

lemma extends_atoms [simp, intro]:
  "extends (ret x)" "extends (raise e)" "extends (liftE r)" "extends (ask q ev)"
  "extends (askE q ev')"
  by (simp_all add: extends_def eff_simps)

lemma extends_bindE [intro]:
  assumes "extends m" and "\<And>x. extends (f x)"
  shows "extends (bindE m f)"
proof
  fix t
  obtain r t' where m: "m t = (r, t')" by fastforce
  with assms(1) obtain u where u: "t' = t @ u" by (metis extendsD snd_conv)
  show "\<exists>u. snd (bindE m f t) = t @ u"
  proof (cases r)
    case (Inl e)
    with m u show ?thesis by (simp add: eff_simps)
  next
    case (Inr x)
    obtain v where "snd (f x t') = t' @ v" using assms(2) extendsD by blast
    with m u Inr show ?thesis by (simp add: eff_simps)
  qed
qed

lemma extends_tryE [intro]: "extends m \<Longrightarrow> extends (tryE m)"
  by (simp add: extends_def eff_simps split: prod.splits) (metis snd_conv)

lemma extends_mapE [intro]: "(\<And>x. extends (f x)) \<Longrightarrow> extends (mapE f xs)"
  by (induction xs) auto

text \<open>What a run appended to the log.\<close>

definition appended :: "('s, 'e, 'a) eff \<Rightarrow> 's list \<Rightarrow> 's list" where
  "appended m t = drop (length t) (snd (m t))"

lemma appended_eq: "snd (m t) = t @ u \<Longrightarrow> appended m t = u"
  by (simp add: appended_def)

section \<open>Python strings\<close>

definition code :: "char \<Rightarrow> nat" where
  "code c = of_char c"

definition is_digit :: "char \<Rightarrow> bool" where
  "is_digit c \<longleftrightarrow> 48 \<le> code c \<and> code c \<le> 57"

definition is_lower :: "char \<Rightarrow> bool" where
  "is_lower c \<longleftrightarrow> 97 \<le> code c \<and> code c \<le> 122"

definition is_lower_hex :: "char \<Rightarrow> bool" where
  "is_lower_hex c \<longleftrightarrow> is_digit c \<or> (97 \<le> code c \<and> code c \<le> 102)"

definition is_control :: "char \<Rightarrow> bool" where
  "is_control c \<longleftrightarrow> code c < 32 \<or> code c = 127"

lemma digit_chars [simp]:
  "char_of (48 :: nat) = CHR ''0''" "char_of (49 :: nat) = CHR ''1''" "char_of (50 :: nat) = CHR ''2''"
  "char_of (51 :: nat) = CHR ''3''" "char_of (52 :: nat) = CHR ''4''" "char_of (53 :: nat) = CHR ''5''"
  "char_of (54 :: nat) = CHR ''6''" "char_of (55 :: nat) = CHR ''7''" "char_of (56 :: nat) = CHR ''8''"
  "char_of (57 :: nat) = CHR ''9''"
  by code_simp+

text \<open>Python's \<open>str.isspace\<close> on code points below 256, and Unicode \<open>White_Space\<close>, which the
  \<open>strip_whitespace\<close> constraint of pydantic trims.\<close>

definition is_space :: "char \<Rightarrow> bool" where
  "is_space c \<longleftrightarrow> (9 \<le> code c \<and> code c \<le> 13) \<or> (28 \<le> code c \<and> code c \<le> 32)
     \<or> code c = 133 \<or> code c = 160"

definition is_white_space :: "char \<Rightarrow> bool" where
  "is_white_space c \<longleftrightarrow> (9 \<le> code c \<and> code c \<le> 13) \<or> code c = 32
     \<or> code c = 133 \<or> code c = 160"

definition strip_by :: "(char \<Rightarrow> bool) \<Rightarrow> string \<Rightarrow> string" where
  "strip_by p s = rev (dropWhile p (rev (dropWhile p s)))"

definition py_strip :: "string \<Rightarrow> string" where
  "py_strip = strip_by is_space"

definition trim :: "string \<Rightarrow> string" where
  "trim = strip_by is_white_space"

definition starts_with :: "string \<Rightarrow> string \<Rightarrow> bool" where
  "starts_with p s \<longleftrightarrow> take (length p) s = p"

text \<open>\<open>s.split(sep)\<close> for a one-character separator.\<close>

fun split_on :: "char \<Rightarrow> string \<Rightarrow> string list" where
  "split_on d [] = [[]]"
| "split_on d (c # cs) =
     (if c = d then [] # split_on d cs
      else (case split_on d cs of [] \<Rightarrow> [[c]] | w # ws \<Rightarrow> (c # w) # ws))"

text \<open>\<open>s.rsplit(":", 1)[1]\<close>; \<open>None\<close> is the IndexError of a string without a colon.\<close>

definition after_last_colon :: "string \<Rightarrow> string option" where
  "after_last_colon s =
     (if CHR '':'' \<in> set s then Some (rev (takeWhile (\<lambda>c. c \<noteq> CHR '':'') (rev s))) else None)"

text \<open>\<open>"".join(s.split()).casefold()\<close> on code points below 256. The micro sign folds to a Greek
  letter no other such code point folds to, so it stands for itself here.\<close>

definition fold_char :: "char \<Rightarrow> string" where
  "fold_char c =
     (if (65 \<le> code c \<and> code c \<le> 90) \<or> (192 \<le> code c \<and> code c \<le> 222 \<and> code c \<noteq> 215)
      then [char_of (code c + 32)]
      else if code c = 223 then ''ss'' else [c])"

definition casefold :: "string \<Rightarrow> string" where
  "casefold s = concat (map fold_char s)"

text \<open>Decimal printing of integers, \<open>str(int)\<close>.\<close>

fun nat_str :: "nat \<Rightarrow> string" where
  "nat_str n = (if n < 10 then [char_of (48 + n)] else nat_str (n div 10) @ [char_of (48 + n mod 10)])"

declare nat_str.simps [simp del]

text \<open>Code equations on the bits of a character, which the simplifier evaluates without arithmetic.\<close>

lemma is_digit_bits [code]:
  "is_digit (Char b0 b1 b2 b3 b4 b5 b6 b7) \<longleftrightarrow> b4 \<and> b5 \<and> \<not> b6 \<and> \<not> b7 \<and> (b3 \<longrightarrow> \<not> b1 \<and> \<not> b2)"
  by (cases b0; cases b1; cases b2; cases b3; cases b4; cases b5; cases b6; cases b7;
      simp add: is_digit_def code_def)

lemma nat_str_code [code]:
  "nat_str n = (if n < 10 then [''0123456789'' ! n] else nat_str (n div 10) @ [''0123456789'' ! (n mod 10)])"
proof -
  have "char_of (48 + k) = ''0123456789'' ! k" if "k < 10" for k :: nat
  proof -
    have "list_all (\<lambda>k. char_of (48 + k :: nat) = ''0123456789'' ! k) [0..<10]" by code_simp
    then show ?thesis using that by (simp add: list_all_iff)
  qed
  then show ?thesis by (simp add: nat_str.simps [of n])
qed

lemma starts_with_code [code]:
  "starts_with [] s = True" "starts_with (p # ps) [] = False"
  "starts_with (p # ps) (c # cs) = (p = c \<and> starts_with ps cs)"
  by (auto simp: starts_with_def)

definition int_str :: "int \<Rightarrow> string" where
  "int_str i = (if i < 0 then CHR ''-'' # nat_str (nat (- i)) else nat_str (nat i))"

section \<open>String constraints of the pydantic models\<close>

definition positive_decimal :: "string \<Rightarrow> bool" where
  "positive_decimal s \<longleftrightarrow> s \<noteq> [] \<and> list_all is_digit s \<and> hd s \<noteq> CHR ''0''"

definition netbox_identity :: "string \<Rightarrow> string \<Rightarrow> bool" where
  "netbox_identity kind s \<longleftrightarrow>
     (let p = ''netbox:'' @ kind @ '':''
      in starts_with p s \<and> positive_decimal (drop (length p) s))"

definition sha256_pattern :: "string \<Rightarrow> bool" where
  "sha256_pattern s \<longleftrightarrow>
     starts_with ''sha256:'' s \<and> length (drop 7 s) = 64 \<and> list_all is_lower_hex (drop 7 s)"

definition git_commit_pattern :: "string \<Rightarrow> bool" where
  "git_commit_pattern s \<longleftrightarrow> length s = 40 \<and> list_all is_lower_hex s"

text \<open>\<^verbatim>\<open>^[a-z0-9]+(?:-[a-z0-9]+)*$\<close>\<close>

definition slug_pattern :: "string \<Rightarrow> bool" where
  "slug_pattern s \<longleftrightarrow>
     list_all (\<lambda>w. w \<noteq> [] \<and> list_all (\<lambda>c. is_digit c \<or> is_lower c) w) (split_on CHR ''-'' s)"

text \<open>The \<open>strip_whitespace\<close> types are predicates on the value after trimming.\<close>

definition nonempty_string :: "string \<Rightarrow> bool" where
  "nonempty_string s \<longleftrightarrow> trim s = s \<and> s \<noteq> []"

definition cli_bound_string :: "string \<Rightarrow> bool" where
  "cli_bound_string s \<longleftrightarrow> nonempty_string s \<and> list_all (\<lambda>c. \<not> is_control c) s"

definition slug :: "string \<Rightarrow> bool" where
  "slug s \<longleftrightarrow> nonempty_string s \<and> length s \<le> 100 \<and> slug_pattern s"

lemma nonempty_stringI:
  assumes "s \<noteq> []" and "\<not> is_white_space (hd s)" and "\<not> is_white_space (last s)"
  shows "nonempty_string s"
proof -
  have "dropWhile is_white_space s = s" using assms by (cases s) auto
  moreover have "dropWhile is_white_space (rev s) = rev s"
    using assms by (cases "rev s") (auto simp: hd_rev [symmetric])
  ultimately show ?thesis
    using assms(1) by (simp add: nonempty_string_def trim_def strip_by_def)
qed

lemma netbox_identity_split:
  assumes "netbox_identity kind s"
  shows "s = ''netbox:'' @ kind @ '':'' @ drop (length (''netbox:'' @ kind @ '':'')) s"
    and "positive_decimal (drop (length (''netbox:'' @ kind @ '':'')) s)"
  using assms append_take_drop_id [of "length (''netbox:'' @ kind @ '':'')" s]
  by (simp_all add: netbox_identity_def starts_with_def Let_def)

lemma netbox_identity_nonempty:
  assumes "netbox_identity kind s"
  shows "nonempty_string s"
proof (rule nonempty_stringI)
  define n where "n = drop (length (''netbox:'' @ kind @ '':'')) s"
  have s: "s = ''netbox:'' @ kind @ '':'' @ n" and n: "positive_decimal n"
    using netbox_identity_split [OF assms] by (simp_all only: n_def)
  show "s \<noteq> []" and "\<not> is_white_space (hd s)"
    by (simp_all add: s is_white_space_def code_def)
  have "last s = last n" and "is_digit (last n)"
    using n by (auto simp: s positive_decimal_def list_all_iff)
  then show "\<not> is_white_space (last s)"
    by (auto simp: is_white_space_def is_digit_def)
qed

lemma netbox_identity_colon:
  assumes "netbox_identity kind s"
  shows "\<exists>n. after_last_colon s = Some n \<and> positive_decimal n \<and> s = ''netbox:'' @ kind @ '':'' @ n"
proof -
  define n where "n = drop (length (''netbox:'' @ kind @ '':'')) s"
  have s: "s = ''netbox:'' @ kind @ '':'' @ n" and n: "positive_decimal n"
    using netbox_identity_split [OF assms] by (simp_all only: n_def)
  have "\<forall>c \<in> set (rev n). c \<noteq> CHR '':''"
    using n by (auto simp: positive_decimal_def list_all_iff is_digit_def code_def)
  then have "takeWhile (\<lambda>c. c \<noteq> CHR '':'') (rev n @ CHR '':'' # rev (''netbox:'' @ kind)) = rev n"
    by (subst takeWhile_append2) auto
  with s n show ?thesis by (intro exI [of _ n]) (simp add: after_last_colon_def)
qed

section \<open>Lists\<close>

text \<open>\<^verbatim>\<open>tuple(xs[i : i + n] for i in range(0, len(xs), n))\<close>; a step of zero is a ValueError in
  Python, and every caller validates \<open>n \<ge> 1\<close> first.\<close>

function chunks :: "nat \<Rightarrow> 'a list \<Rightarrow> 'a list list" where
  "chunks n xs = (if xs = [] \<or> n = 0 then [] else take n xs # chunks n (drop n xs))"
  by pat_completeness auto
termination
  by (relation "measure (\<lambda>(n, xs). length xs)") auto

declare chunks.simps [simp del]

lemma chunks_Nil [simp]: "chunks n [] = []"
  by (simp add: chunks.simps)

lemma chunks_step: "xs \<noteq> [] \<Longrightarrow> 0 < n \<Longrightarrow> chunks n xs = take n xs # chunks n (drop n xs)"
  by (simp add: chunks.simps [of n xs])

lemma concat_chunks: "0 < n \<Longrightarrow> concat (chunks n xs) = xs"
proof (induction n xs rule: chunks.induct)
  case (1 n xs)
  then show ?case by (cases "xs = []") (auto simp: chunks_step)
qed

lemma chunks_bounds: "w \<in> set (chunks n xs) \<Longrightarrow> w \<noteq> [] \<and> length w \<le> n"
proof (induction n xs rule: chunks.induct)
  case (1 n xs)
  show ?case
  proof (cases "xs = [] \<or> n = 0")
    case True
    with "1.prems" show ?thesis by (auto simp: chunks.simps [of n xs])
  next
    case False
    with "1.prems" consider "w = take n xs" | "w \<in> set (chunks n (drop n xs))"
      by (auto simp: chunks.simps [of n xs])
    then show ?thesis using "1.IH" False by cases auto
  qed
qed

lemma chunks_full: "0 < n \<Longrightarrow> i + 1 < length (chunks n xs) \<Longrightarrow> length (chunks n xs ! i) = n"
proof (induction n xs arbitrary: i rule: chunks.induct)
  case (1 n xs)
  have ne: "xs \<noteq> []" using "1.prems" by auto
  with "1.prems" have step: "chunks n xs = take n xs # chunks n (drop n xs)"
    by (simp add: chunks_step)
  show ?case
  proof (cases i)
    case 0
    have "chunks n (drop n xs) \<noteq> []" using "1.prems" step 0 by auto
    then have "drop n xs \<noteq> []" by auto
    then show ?thesis using step 0 by (simp add: min_def)
  next
    case (Suc j)
    then show ?thesis using "1.IH" [of j] "1.prems" ne step by auto
  qed
qed

lemma map_chunks: "chunks n (map f xs) = map (map f) (chunks n xs)"
proof (induction n xs rule: chunks.induct)
  case (1 n xs)
  then show ?case
    by (cases "xs = [] \<or> n = 0")
      (auto simp: chunks.simps [of n xs] chunks.simps [of n "map f xs"] take_map drop_map)
qed

text \<open>\<^verbatim>\<open>len(xs) == len(set(xs))\<close>\<close>

lemma distinct_iff_card: "length xs = length (remdups xs) \<longleftrightarrow> distinct xs"
  by (metis length_remdups_card_conv distinct_card card_distinct)

definition subset_list :: "'a list \<Rightarrow> 'a list \<Rightarrow> bool" where
  "subset_list xs ys \<longleftrightarrow> list_all (\<lambda>x. List.member ys x) xs"

lemma subset_list_iff [simp]: "subset_list xs ys \<longleftrightarrow> set xs \<subseteq> set ys"
  by (auto simp: subset_list_def list_all_iff)

definition same_set :: "'a list \<Rightarrow> 'a list \<Rightarrow> bool" where
  "same_set xs ys \<longleftrightarrow> subset_list xs ys \<and> subset_list ys xs"

lemma same_set_iff [simp]: "same_set xs ys \<longleftrightarrow> set xs = set ys"
  by (auto simp: same_set_def)

end
