(* ===== verification/Canonical_Json.thy ===== *)
theory Canonical_Json
  imports Prelude
begin

text \<open>
  The canonical JSON form under every digest of the program:
  \<^verbatim>\<open>json.dumps(value, sort_keys=True, separators=(",", ":"))\<close> (\<open>canonical_json_bytes\<close> of
  \<^verbatim>\<open>audit.py\<close>, \<open>digest_input\<close> of the plans). \<open>json_print\<close> is the printer of the standard
  library with \<open>ensure_ascii\<close>, \<open>sort_keys\<close> its key ordering. The theorems say that the
  printer is a prefix code, so equal canonical bytes mean equal values: this is what lets a
  digest over the bytes bind every field of a plan. SHA-256 itself is a parameter
  (\<open>sha\<close>) of the definitions that use it.
\<close>

datatype json =
    JNull
  | JBool bool
  | JInt int
  | JStr string
  | JArr "json list"
  | JObj "(string \<times> json) list"

section \<open>The printer\<close>

definition hex_digit :: "nat \<Rightarrow> char" where
  "hex_digit n = (if n < 10 then char_of (48 + n) else char_of (87 + n))"

definition esc :: "char \<Rightarrow> string" where
  "esc c = (let n = code c in
     if n = 34 \<or> n = 92 then [CHR 0x5C, c]
     else if n = 10 then [CHR 0x5C, CHR ''n'']
     else if n = 13 then [CHR 0x5C, CHR ''r'']
     else if n = 9 then [CHR 0x5C, CHR ''t'']
     else if n = 12 then [CHR 0x5C, CHR ''f'']
     else if n = 8 then [CHR 0x5C, CHR ''b'']
     else if 32 \<le> n \<and> n \<le> 126 then [c]
     else [CHR 0x5C, CHR ''u'', CHR ''0'', CHR ''0'', hex_digit (n div 16), hex_digit (n mod 16)])"

definition quote :: "string \<Rightarrow> string" where
  "quote s = CHR 0x22 # concat (map esc s) @ [CHR 0x22]"

fun sep :: "string list \<Rightarrow> string" where
  "sep [] = []"
| "sep [x] = x"
| "sep (x # y # zs) = x @ CHR '','' # sep (y # zs)"

fun json_print :: "json \<Rightarrow> string" where
  "json_print JNull = ''null''"
| "json_print (JBool b) = (if b then ''true'' else ''false'')"
| "json_print (JInt i) = int_str i"
| "json_print (JStr s) = quote s"
| "json_print (JArr xs) = CHR ''['' # sep (map json_print xs) @ '']''"
| "json_print (JObj kvs) =
     CHR 0x7B # sep (map (\<lambda>kv. quote (fst kv) @ CHR '':'' # json_print (snd kv)) kvs) @ [CHR 0x7D]"

fun sort_keys :: "json \<Rightarrow> json" where
  "sort_keys (JArr xs) = JArr (map sort_keys xs)"
| "sort_keys (JObj kvs) = JObj (sort_key fst (map (\<lambda>kv. (fst kv, sort_keys (snd kv))) kvs))"
| "sort_keys j = j"

definition canonical_json_bytes :: "json \<Rightarrow> string" where
  "canonical_json_bytes j = json_print (sort_keys j)"

definition sha256_identity :: "(string \<Rightarrow> string) \<Rightarrow> string \<Rightarrow> string" where
  "sha256_identity sha value = ''sha256:'' @ sha value"

section \<open>Characters and strings form a prefix code\<close>

definition hex_val :: "char \<Rightarrow> nat" where
  "hex_val c = (if is_digit c then code c - 48 else code c - 87)"

lemma code_char_of [simp]: "n < 256 \<Longrightarrow> code (char_of n) = n"
  by (simp add: code_def)

lemma char_of_code [simp]: "char_of (code c) = c"
  by (simp add: code_def)

lemma code_less [simp]: "code c < 256"
  by (simp add: code_def)

lemma code_eq_iff: "code c = code d \<longleftrightarrow> c = d"
  by (metis char_of_code)

lemma hex_val_digit: "n < 16 \<Longrightarrow> hex_val (hex_digit n) = n"
  by (simp add: hex_val_def hex_digit_def is_digit_def)

fun unesc :: "string \<Rightarrow> (char \<times> string) option" where
  "unesc [] = None"
| "unesc (x # xs) =
     (if x \<noteq> CHR 0x5C then Some (x, xs)
      else case xs of
        [] \<Rightarrow> None
      | e # ys \<Rightarrow>
          if e = CHR ''u''
          then (case ys of _ # _ # h # l # zs \<Rightarrow> Some (char_of (16 * hex_val h + hex_val l), zs)
                | _ \<Rightarrow> None)
          else Some (if e = CHR ''n'' then CHR 0x0A else if e = CHR ''r'' then CHR 0x0D
                     else if e = CHR ''t'' then CHR 0x09 else if e = CHR ''f'' then CHR 0x0C
                     else if e = CHR ''b'' then CHR 0x08 else e, ys))"

lemma code_values [simp]:
  "code CHR 0x22 = 34" "code CHR 0x5C = 92" "code CHR 0x0A = 10" "code CHR 0x0D = 13"
  "code CHR 0x09 = 9" "code CHR 0x0C = 12" "code CHR 0x08 = 8" "code CHR '','' = 44"
  "code CHR '']'' = 93" "code CHR 0x7D = 125" "code CHR ''['' = 91" "code CHR 0x7B = 123"
  "code CHR ''-'' = 45" "code CHR ''n'' = 110" "code CHR ''t'' = 116" "code CHR ''f'' = 102"
  by (simp_all add: code_def)

lemma code_charD:
  "code c = 10 \<Longrightarrow> c = CHR 0x0A" "code c = 13 \<Longrightarrow> c = CHR 0x0D" "code c = 9 \<Longrightarrow> c = CHR 0x09"
  "code c = 12 \<Longrightarrow> c = CHR 0x0C" "code c = 8 \<Longrightarrow> c = CHR 0x08" "code c = 34 \<Longrightarrow> c = CHR 0x22"
  "code c = 92 \<Longrightarrow> c = CHR 0x5C"
  by (simp_all flip: code_eq_iff)

lemma unesc_esc: "unesc (esc c @ r) = Some (c, r)"
proof -
  have hex: "16 * hex_val (hex_digit (code c div 16)) + hex_val (hex_digit (code c mod 16)) = code c"
  proof -
    have "code c div 16 < 16" using code_less [of c] by (simp add: less_mult_imp_div_less)
    then show ?thesis by (simp add: hex_val_digit)
  qed
  consider "code c = 34" | "code c = 92" | "code c = 10" | "code c = 13" | "code c = 9"
    | "code c = 12" | "code c = 8"
    | "code c \<notin> {34, 92, 10, 13, 9, 12, 8}" "32 \<le> code c \<and> code c \<le> 126"
    | "code c \<notin> {34, 92, 10, 13, 9, 12, 8}" "\<not> (32 \<le> code c \<and> code c \<le> 126)"
    by blast
  then show ?thesis
  proof cases
    case 8
    then have "c \<noteq> CHR 0x5C" by (auto simp: code_def)
    with 8 show ?thesis by (simp add: esc_def Let_def)
  next
    case 9
    then show ?thesis using hex by (auto simp: esc_def Let_def)
  qed (auto simp: esc_def Let_def dest!: code_charD)
qed

lemma esc_inject: "esc c @ r = esc d @ s \<Longrightarrow> c = d \<and> r = s"
  using unesc_esc [of c r] unesc_esc [of d s] by (metis option.inject prod.inject)

lemma esc_not_quote: "esc c @ r \<noteq> CHR 0x22 # s"
proof -
  show ?thesis by (auto simp: esc_def Let_def)
qed

lemma escs_inject:
  "concat (map esc s) @ CHR 0x22 # r = concat (map esc s') @ CHR 0x22 # r' \<Longrightarrow> s = s' \<and> r = r'"
proof (induction s arbitrary: s')
  case Nil
  show ?case
  proof (cases s')
    case (Cons d t)
    with Nil have "esc d @ concat (map esc t) @ CHR 0x22 # r' = CHR 0x22 # r" by simp
    with esc_not_quote show ?thesis by blast
  qed (use Nil in simp)
next
  case (Cons c s)
  show ?case
  proof (cases s')
    case Nil
    with Cons.prems have "esc c @ concat (map esc s) @ CHR 0x22 # r = CHR 0x22 # r'" by simp
    with esc_not_quote show ?thesis by blast
  next
    case (Cons d t)
    with Cons.prems have "c = d \<and> concat (map esc s) @ CHR 0x22 # r = concat (map esc t) @ CHR 0x22 # r'"
      by (intro esc_inject) simp
    with Cons.IH Cons show ?thesis by blast
  qed
qed

lemma quote_inject: "quote s @ r = quote s' @ r' \<Longrightarrow> s = s' \<and> r = r'"
  using escs_inject [of s r s' r'] by (simp add: quote_def)

section \<open>Numbers\<close>

definition digits_val :: "string \<Rightarrow> nat" where
  "digits_val s = foldl (\<lambda>a c. 10 * a + (code c - 48)) 0 s"

lemma nat_str_props: "nat_str n \<noteq> [] \<and> list_all is_digit (nat_str n) \<and> digits_val (nat_str n) = n"
proof (induction n rule: nat_str.induct)
  case (1 n)
  show ?case
  proof (cases "n < 10")
    case True
    then show ?thesis by (simp add: nat_str.simps [of n] is_digit_def digits_val_def)
  next
    case False
    with 1 show ?thesis
      by (simp add: nat_str.simps [of n] is_digit_def digits_val_def)
  qed
qed

definition no_digit :: "string \<Rightarrow> bool" where
  "no_digit r \<longleftrightarrow> (case r of [] \<Rightarrow> True | c # _ \<Rightarrow> \<not> is_digit c)"

lemma digits_split:
  assumes "list_all is_digit s" and "no_digit r"
  shows "takeWhile is_digit (s @ r) = s \<and> dropWhile is_digit (s @ r) = r"
  using assms
proof (induction s)
  case Nil
  then show ?case by (cases r) (auto simp: no_digit_def)
qed auto

lemma nat_str_inject:
  assumes "nat_str n @ r = nat_str m @ r'" and "no_digit r" and "no_digit r'"
  shows "n = m \<and> r = r'"
  using digits_split [of "nat_str n" r] digits_split [of "nat_str m" r'] nat_str_props [of n]
    nat_str_props [of m] assms by metis

lemma nat_str_hd: "\<exists>c cs. nat_str n = c # cs \<and> is_digit c"
  using nat_str_props [of n] by (cases "nat_str n") auto

lemma not_digit_minus [simp]: "\<not> is_digit CHR ''-''"
  by (simp add: is_digit_def code_def)

lemma int_str_hd: "\<exists>c cs. int_str i = c # cs \<and> (is_digit c \<or> c = CHR ''-'')"
  using nat_str_hd by (auto simp: int_str_def) blast

lemma int_str_sign:
  assumes "int_str i @ r = int_str j @ r'"
  shows "i < 0 \<longleftrightarrow> j < 0"
proof -
  have neg: "hd (int_str k @ q) = CHR ''-'' \<longleftrightarrow> k < 0" for k q
    using nat_str_hd [of "nat k"] not_digit_minus by (auto simp: int_str_def)
  show ?thesis unfolding neg [of i r, symmetric] neg [of j r', symmetric] assms ..
qed

lemma int_str_inject:
  assumes eq: "int_str i @ r = int_str j @ r'" and f: "no_digit r" "no_digit r'"
  shows "i = j \<and> r = r'"
proof (cases "i < 0")
  case True
  with int_str_sign [OF eq] have "j < 0" by simp
  with True eq have "nat_str (nat (- i)) @ r = nat_str (nat (- j)) @ r'"
    by (simp add: int_str_def)
  from nat_str_inject [OF this f] True \<open>j < 0\<close> show ?thesis by auto
next
  case False
  with int_str_sign [OF eq] have "\<not> j < 0" by simp
  with False eq have "nat_str (nat i) @ r = nat_str (nat j) @ r'"
    by (simp add: int_str_def)
  from nat_str_inject [OF this f] False \<open>\<not> j < 0\<close> show ?thesis by auto
qed

section \<open>The printer is injective\<close>

text \<open>\<open>follow r\<close>: what may follow a printed value inside an array, an object or at the end.\<close>

definition follow :: "string \<Rightarrow> bool" where
  "follow r \<longleftrightarrow> (case r of [] \<Rightarrow> True | c # _ \<Rightarrow> c \<in> {CHR '','', CHR '']'', CHR 0x7D})"

lemma follow_no_digit: "follow r \<Longrightarrow> no_digit r"
  by (auto simp: follow_def no_digit_def is_digit_def code_def split: list.splits)

lemma follow_simps [simp]:
  "follow []" "follow (CHR '','' # r)" "follow (CHR '']'' # r)" "follow (CHR 0x7D # r)"
  by (simp_all add: follow_def)

definition prefix_free :: "('a \<Rightarrow> string) \<Rightarrow> 'a \<Rightarrow> bool" where
  "prefix_free f x \<longleftrightarrow>
     (\<forall>x' r r'. follow r \<longrightarrow> follow r' \<longrightarrow> f x @ r = f x' @ r' \<longrightarrow> x = x' \<and> r = r')"

lemma prefix_freeD:
  "prefix_free f x \<Longrightarrow> f x @ r = f x' @ r' \<Longrightarrow> follow r \<Longrightarrow> follow r' \<Longrightarrow> x = x' \<and> r = r'"
  unfolding prefix_free_def by blast

lemma sep_Cons: "sep (x # xs) = x @ (if xs = [] then [] else CHR '','' # sep xs)"
  by (cases xs) auto

lemma sep_inject:
  assumes pf: "\<And>x. x \<in> set xs \<Longrightarrow> prefix_free f x"
    and cl: "cl \<in> {CHR '']'', CHR 0x7D}"
    and hd: "\<And>x s t. f x @ s \<noteq> cl # t"
    and eq: "sep (map f xs) @ cl # r = sep (map f ys) @ cl # r'"
  shows "xs = ys \<and> r = r'"
  using pf eq
proof (induction xs arbitrary: ys)
  case Nil
  show ?case
  proof (cases ys)
    case (Cons y zs)
    then have "f y @ (if zs = [] then cl # r' else CHR '','' # sep (map f zs) @ cl # r') = cl # r"
      using Nil.prems by (simp add: sep_Cons split: if_splits)
    with hd show ?thesis by blast
  qed (use Nil.prems in simp)
next
  case (Cons x xs)
  show ?case
  proof (cases ys)
    case Nil
    then have "f x @ (if xs = [] then cl # r else CHR '','' # sep (map f xs) @ cl # r) = cl # r'"
      using Cons.prems(2) by (simp add: sep_Cons split: if_splits)
    with hd show ?thesis by blast
  next
    case [simp]: (Cons y zs)
    define u where "u = (if xs = [] then cl # r else CHR '','' # sep (map f xs) @ cl # r)"
    define v where "v = (if zs = [] then cl # r' else CHR '','' # sep (map f zs) @ cl # r')"
    have "f x @ u = f y @ v"
      using Cons.prems(2) by (simp add: sep_Cons u_def v_def split: if_splits)
    moreover have "follow u" "follow v" using cl by (auto simp: u_def v_def)
    ultimately have xy: "x = y" and uv: "u = v"
      using Cons.prems(1) prefix_freeD [of f x u y v] by auto
    show ?thesis
    proof (cases "xs = [] \<or> zs = []")
      case True
      with uv cl have "xs = []" "zs = []" "r = r'"
        by (auto simp: u_def v_def split: if_splits)
      with xy show ?thesis by simp
    next
      case False
      with uv have "sep (map f xs) @ cl # r = sep (map f zs) @ cl # r'"
        by (simp add: u_def v_def)
      with Cons.IH Cons.prems(1) xy show ?thesis by simp
    qed
  qed
qed

text \<open>The first character of a printed value tells its constructor.\<close>

definition kind_of_char :: "char \<Rightarrow> nat" where
  "kind_of_char c =
     (if c = CHR ''n'' then 0 else if c = CHR ''t'' then 1 else if c = CHR ''f'' then 2
      else if c = CHR 0x22 then 4 else if c = CHR ''['' then 5 else if c = CHR 0x7B then 6
      else if is_digit c \<or> c = CHR ''-'' then 3 else 7)"

fun kind :: "json \<Rightarrow> nat" where
  "kind JNull = 0"
| "kind (JBool b) = (if b then 1 else 2)"
| "kind (JInt _) = 3"
| "kind (JStr _) = 4"
| "kind (JArr _) = 5"
| "kind (JObj _) = 6"

lemma kind_of_number: "is_digit c \<or> c = CHR ''-'' \<Longrightarrow> kind_of_char c = 3"
  by (auto simp: kind_of_char_def is_digit_def)

lemma json_print_first: "\<exists>c cs. json_print j = c # cs \<and> kind_of_char c = kind j"
proof (cases j)
  case (JInt i)
  with int_str_hd [of i] kind_of_number show ?thesis by auto
qed (simp_all add: kind_of_char_def quote_def)

lemma json_print_not_close: "cl \<in> {CHR '']'', CHR 0x7D} \<Longrightarrow> json_print j @ s \<noteq> cl # t"
proof -
  assume "cl \<in> {CHR '']'', CHR 0x7D}"
  then have "kind_of_char cl = 7" by (auto simp: kind_of_char_def is_digit_def)
  moreover have "kind j \<noteq> 7" by (cases j) auto
  ultimately show ?thesis using json_print_first [of j] by auto
qed

lemma same_kind: "json_print j @ r = json_print j' @ r' \<Longrightarrow> kind j = kind j'"
  using json_print_first [of j] json_print_first [of j'] by auto

lemma kind_cases:
  "kind j = 0 \<longleftrightarrow> j = JNull" "kind j = 1 \<longleftrightarrow> j = JBool True" "kind j = 2 \<longleftrightarrow> j = JBool False"
  "kind j = 3 \<longleftrightarrow> (\<exists>i. j = JInt i)" "kind j = 4 \<longleftrightarrow> (\<exists>s. j = JStr s)"
  "kind j = 5 \<longleftrightarrow> (\<exists>xs. j = JArr xs)" "kind j = 6 \<longleftrightarrow> (\<exists>kvs. j = JObj kvs)"
  by (cases j; simp)+

lemma pair_prefix_free:
  assumes "prefix_free json_print (snd kv)"
  shows "prefix_free (\<lambda>kv. quote (fst kv) @ CHR '':'' # json_print (snd kv)) kv"
  unfolding prefix_free_def
proof (intro allI impI)
  fix kv' :: "string \<times> json" and r r'
  assume f: "follow r" "follow r'"
    and "(quote (fst kv) @ CHR '':'' # json_print (snd kv)) @ r
       = (quote (fst kv') @ CHR '':'' # json_print (snd kv')) @ r'"
  then have "fst kv = fst kv' \<and> json_print (snd kv) @ r = json_print (snd kv') @ r'"
    using quote_inject [of "fst kv" "CHR '':'' # json_print (snd kv) @ r" "fst kv'"] by simp
  with prefix_freeD [OF assms _ f] show "kv = kv' \<and> r = r'"
    by (metis prod.expand)
qed

lemma json_prefix_free: "prefix_free json_print j"
proof (induction j)
  case (JArr xs)
  have "JArr xs = j' \<and> r = r'"
    if "json_print (JArr xs) @ r = json_print j' @ r'" for j' r r'
  proof -
    from same_kind [OF that] obtain ys where [simp]: "j' = JArr ys"
      by (auto simp: kind_cases dest: sym)
    from that have "sep (map json_print xs) @ CHR '']'' # r = sep (map json_print ys) @ CHR '']'' # r'"
      by simp
    then have "xs = ys \<and> r = r'"
      by (intro sep_inject [OF JArr _ json_print_not_close]) simp_all
    then show ?thesis by simp
  qed
  then show ?case unfolding prefix_free_def by blast
next
  case (JObj kvs)
  let ?f = "\<lambda>kv. quote (fst kv) @ CHR '':'' # json_print (snd kv)"
  have pf: "prefix_free ?f kv" if "kv \<in> set kvs" for kv
    using JObj [OF that, of "snd kv"] by (intro pair_prefix_free) (cases kv; auto)
  have open_f: "?f kv @ s \<noteq> CHR 0x7D # t" for kv s t
    by (simp add: quote_def)
  have "JObj kvs = j' \<and> r = r'"
    if "json_print (JObj kvs) @ r = json_print j' @ r'" for j' r r'
  proof -
    from same_kind [OF that] obtain ys where [simp]: "j' = JObj ys"
      by (auto simp: kind_cases dest: sym)
    from that have "sep (map ?f kvs) @ CHR 0x7D # r = sep (map ?f ys) @ CHR 0x7D # r'"
      by simp
    then have "kvs = ys \<and> r = r'"
      by (intro sep_inject [OF pf _ open_f]) simp_all
    then show ?thesis by simp
  qed
  then show ?case unfolding prefix_free_def by blast
next
  case (JInt i)
  show ?case unfolding prefix_free_def
  proof (intro allI impI)
    fix j' r r'
    assume f: "follow r" "follow r'" and eq: "json_print (JInt i) @ r = json_print j' @ r'"
    from same_kind [OF eq] obtain k where [simp]: "j' = JInt k"
      by (auto simp: kind_cases dest: sym)
    from eq f int_str_inject [of i r k r'] follow_no_digit show "JInt i = j' \<and> r = r'" by simp
  qed
next
  case (JStr s)
  show ?case unfolding prefix_free_def
  proof (intro allI impI)
    fix j' r r'
    assume eq: "json_print (JStr s) @ r = json_print j' @ r'"
    from same_kind [OF eq] obtain u where [simp]: "j' = JStr u"
      by (auto simp: kind_cases dest: sym)
    from eq quote_inject [of s r u r'] show "JStr s = j' \<and> r = r'" by simp
  qed
next
  case JNull
  show ?case unfolding prefix_free_def
  proof (intro allI impI)
    fix j' r r'
    assume eq: "json_print JNull @ r = json_print j' @ r'"
    from same_kind [OF eq] have [simp]: "j' = JNull" by (cases j') (simp_all split: if_splits)
    from eq show "JNull = j' \<and> r = r'" by simp
  qed
next
  case (JBool b)
  show ?case unfolding prefix_free_def
  proof (intro allI impI)
    fix j' r r'
    assume eq: "json_print (JBool b) @ r = json_print j' @ r'"
    from same_kind [OF eq] have [simp]: "j' = JBool b"
      by (cases j') (simp_all split: if_splits)
    from eq show "JBool b = j' \<and> r = r'" by simp
  qed
qed

theorem json_print_inject: "json_print i = json_print j \<Longrightarrow> i = j"
  using prefix_freeD [OF json_prefix_free, of i "[]" j "[]"] by simp

section \<open>Reading a field back from canonical bytes\<close>

definition field :: "string \<Rightarrow> json \<Rightarrow> json option" where
  "field k j = (case j of JObj kvs \<Rightarrow> map_of kvs k | _ \<Rightarrow> None)"

lemma map_of_sort_key:
  assumes "distinct (map fst kvs)"
  shows "map_of (sort_key fst kvs) = map_of kvs"
proof (rule map_of_eqI)
  show "set (map fst (sort_key fst kvs)) = set (map fst kvs)" by simp
next
  have d: "distinct (map fst (sort_key fst kvs))"
    using assms by (simp add: distinct_map inj_on_def)
  show "\<forall>k \<in> set (map fst (sort_key fst kvs)). map_of (sort_key fst kvs) k = map_of kvs k"
  proof
    fix k assume "k \<in> set (map fst (sort_key fst kvs))"
    then obtain v where "(k, v) \<in> set kvs" by auto
    with assms d show "map_of (sort_key fst kvs) k = map_of kvs k"
      by (simp add: map_of_is_SomeI)
  qed
qed

lemma field_sort_keys:
  assumes "distinct (map fst kvs)"
  shows "field k (sort_keys (JObj kvs)) = map_option sort_keys (field k (JObj kvs))"
proof -
  have "map fst (map (\<lambda>kv. (fst kv, sort_keys (snd kv))) kvs) = map fst kvs"
    by simp
  with assms have "field k (sort_keys (JObj kvs))
      = map_of (map (\<lambda>kv. (fst kv, sort_keys (snd kv))) kvs) k"
    by (simp only: field_def sort_keys.simps json.case map_of_sort_key)
  also have "\<dots> = map_option sort_keys (map_of kvs k)"
    by (induction kvs) auto
  finally show ?thesis by (simp add: field_def)
qed

text \<open>Two objects with the same keys, sorted, agree value by value.\<close>

lemma sorted_objects_values:
  assumes "sort_keys (JObj kvs) = sort_keys (JObj kvs')"
    and "map fst kvs = map fst kvs'" and "distinct (map fst kvs)"
  shows "map (\<lambda>kv. sort_keys (snd kv)) kvs = map (\<lambda>kv. sort_keys (snd kv)) kvs'"
proof (rule nth_equalityI)
  show l: "length (map (\<lambda>kv. sort_keys (snd kv)) kvs) = length (map (\<lambda>kv. sort_keys (snd kv)) kvs')"
    using arg_cong [OF assms(2), of length] by simp
  fix i assume "i < length (map (\<lambda>kv. sort_keys (snd kv)) kvs)"
  then have i: "i < length kvs" "i < length kvs'" using l by simp_all
  have k: "fst (kvs ! i) = fst (kvs' ! i)"
    using arg_cong [OF assms(2), of "\<lambda>xs. xs ! i"] i by simp
  have d: "distinct (map fst kvs')" using assms(2,3) by simp
  have at: "map_of ys (fst (ys ! i)) = Some (snd (ys ! i))"
    if "distinct (map fst ys)" "i < length ys" for ys :: "(string \<times> json) list"
    using that by (simp add: map_of_is_SomeI)
  have "field (fst (kvs ! i)) (sort_keys (JObj kvs)) = field (fst (kvs ! i)) (sort_keys (JObj kvs'))"
    using assms(1) by simp
  then have "map_option sort_keys (map_of kvs (fst (kvs ! i))) = map_option sort_keys (map_of kvs' (fst (kvs' ! i)))"
    unfolding field_sort_keys [OF assms(3)] field_sort_keys [OF d] by (simp add: field_def k)
  then show "map (\<lambda>kv. sort_keys (snd kv)) kvs ! i = map (\<lambda>kv. sort_keys (snd kv)) kvs' ! i"
    using at [OF assms(3) i(1)] at [OF d i(2)] i by simp
qed

lemma canonical_fields_eq:
  assumes "canonical_json_bytes (JObj kvs) = canonical_json_bytes (JObj kvs')"
    and "distinct (map fst kvs)" and "distinct (map fst kvs')"
  shows "map_option sort_keys (map_of kvs k) = map_option sort_keys (map_of kvs' k)"
proof -
  from assms(1) have "sort_keys (JObj kvs) = sort_keys (JObj kvs')"
    unfolding canonical_json_bytes_def by (rule json_print_inject)
  then have "field k (sort_keys (JObj kvs)) = field k (sort_keys (JObj kvs'))" by simp
  then show ?thesis
    unfolding field_sort_keys [OF assms(2)] field_sort_keys [OF assms(3)] by (simp add: field_def)
qed

end
