(* ===== verification/Architecture_Contracts.thy ===== *)
theory Architecture_Contracts
  imports Canonical_Json "HOL-Library.Word"
begin

text \<open>
  \<^verbatim>\<open>architecture_contracts.py\<close>: the closed vocabularies, the reviewed automation and CML
  realization catalogs, management bindings, the authority table and the managed-state ownership
  envelopes. Enumerations are datatypes, pydantic models are records with a validator
  (\<open>..._valid\<close>, the field constraints and the \<open>model_validator\<close>, first failure first),
  catalogs are association lists in source order.
\<close>

section \<open>Closed vocabularies\<close>

datatype network_os = IOSXE | IOS | JUNOS

fun network_os_value :: "network_os \<Rightarrow> string" where
  "network_os_value IOSXE = ''iosxe''"
| "network_os_value IOS = ''ios''"
| "network_os_value JUNOS = ''junos''"

datatype operational_role = CORE | EDGE | TRANSIT | ACCESS

fun operational_role_value :: "operational_role \<Rightarrow> string" where
  "operational_role_value CORE = ''core''"
| "operational_role_value EDGE = ''edge''"
| "operational_role_value TRANSIT = ''transit''"
| "operational_role_value ACCESS = ''access''"

datatype capability =
    LAYER3_ROUTING | LAYER2_SWITCHING | SVI | DOT1Q_TRUNK | ACCESS_PORT | OSPF | IOS_ACL
  | JUNOS_FIREWALL_FILTER | COMMIT_CONFIRMED | SNMPV3_AUTHPRIV_SHA256_AES128

datatype automation_profile_id = CAT8000V_IOSXE | IOSV_159_3_M12 | IOSVL2_2020 | VJUNOS_ROUTER

definition automation_profile_ids :: "automation_profile_id list" where
  "automation_profile_ids = [CAT8000V_IOSXE, IOSV_159_3_M12, IOSVL2_2020, VJUNOS_ROUTER]"

fun automation_profile_id_value :: "automation_profile_id \<Rightarrow> string" where
  "automation_profile_id_value CAT8000V_IOSXE = ''cat8000v_iosxe''"
| "automation_profile_id_value IOSV_159_3_M12 = ''iosv_159_3_m12''"
| "automation_profile_id_value IOSVL2_2020 = ''iosvl2_2020''"
| "automation_profile_id_value VJUNOS_ROUTER = ''vjunos_router''"

datatype transport_family = ANSIBLE_NETWORK_CLI | JUNOS_PYEZ_NETCONF

datatype adapter_family = CISCO_IOS_Adapter | JUNOS_PYEZ

datatype renderer_family = CISCO_IOS_Renderer | JUNOS_XML

datatype collector_family = CISCO_IOS_FACTS | JUNOS_RPC

datatype recovery_family = CISCO_TARGETED_INVERSE | JUNOS_COMMIT_CONFIRMED

datatype management_service = SSH | NETCONF

fun transport_family_value :: "transport_family \<Rightarrow> string" where
  "transport_family_value ANSIBLE_NETWORK_CLI = ''ansible_network_cli''"
| "transport_family_value JUNOS_PYEZ_NETCONF = ''junos_pyez_netconf''"

fun adapter_family_value :: "adapter_family \<Rightarrow> string" where
  "adapter_family_value CISCO_IOS_Adapter = ''cisco_ios''"
| "adapter_family_value JUNOS_PYEZ = ''junos_pyez''"

fun renderer_family_value :: "renderer_family \<Rightarrow> string" where
  "renderer_family_value CISCO_IOS_Renderer = ''cisco_ios''"
| "renderer_family_value JUNOS_XML = ''junos_xml''"

fun collector_family_value :: "collector_family \<Rightarrow> string" where
  "collector_family_value CISCO_IOS_FACTS = ''cisco_ios_facts''"
| "collector_family_value JUNOS_RPC = ''junos_rpc''"

fun recovery_family_value :: "recovery_family \<Rightarrow> string" where
  "recovery_family_value CISCO_TARGETED_INVERSE = ''cisco_targeted_inverse''"
| "recovery_family_value JUNOS_COMMIT_CONFIRMED = ''junos_commit_confirmed''"

fun management_service_value :: "management_service \<Rightarrow> string" where
  "management_service_value SSH = ''ssh''"
| "management_service_value NETCONF = ''netconf''"

definition port_in_range :: "int \<Rightarrow> bool" where
  "port_in_range p \<longleftrightarrow> 1 \<le> p \<and> p \<le> 65535"

section \<open>Automation profiles\<close>

record readiness_service_expectation =
  rs_service :: management_service
  rs_port :: int

record automation_profile =
  ap_profile_id :: automation_profile_id
  ap_network_os :: network_os
  ap_admitted_capabilities :: "capability list"
  ap_transport_family :: transport_family
  ap_adapter_family :: adapter_family
  ap_renderer_family :: renderer_family
  ap_collector_family :: collector_family
  ap_readiness_services :: "readiness_service_expectation list"
  ap_recovery_family :: recovery_family

definition automation_profile_valid :: "automation_profile \<Rightarrow> unit res" where
  "automation_profile_valid p = checks
    [(\<not> list_all (\<lambda>s. port_in_range (rs_port s)) (ap_readiness_services p),
        ValueError ''readiness port out of range''),
     (ap_admitted_capabilities p = [] \<or> \<not> distinct (ap_admitted_capabilities p),
        ValueError ''automation profile capabilities must be unique and nonempty''),
     (ap_readiness_services p = []
        \<or> \<not> distinct (map (\<lambda>s. (rs_service s, rs_port s)) (ap_readiness_services p)),
        ValueError ''readiness service expectations must be unique and nonempty'')]"

definition service_expectation :: "management_service \<Rightarrow> int \<Rightarrow> readiness_service_expectation" where
  "service_expectation s p = \<lparr>rs_service = s, rs_port = p\<rparr>"

definition AUTOMATION_PROFILE_CATALOG :: "(automation_profile_id \<times> automation_profile) list" where
  "AUTOMATION_PROFILE_CATALOG =
    [(CAT8000V_IOSXE,
      \<lparr>ap_profile_id = CAT8000V_IOSXE, ap_network_os = IOSXE,
       ap_admitted_capabilities =
         [LAYER3_ROUTING, DOT1Q_TRUNK, OSPF, IOS_ACL, SNMPV3_AUTHPRIV_SHA256_AES128],
       ap_transport_family = ANSIBLE_NETWORK_CLI, ap_adapter_family = CISCO_IOS_Adapter,
       ap_renderer_family = CISCO_IOS_Renderer, ap_collector_family = CISCO_IOS_FACTS,
       ap_readiness_services = [service_expectation SSH 22],
       ap_recovery_family = CISCO_TARGETED_INVERSE\<rparr>),
     (IOSV_159_3_M12,
      \<lparr>ap_profile_id = IOSV_159_3_M12, ap_network_os = IOS,
       ap_admitted_capabilities = [LAYER3_ROUTING, OSPF, IOS_ACL],
       ap_transport_family = ANSIBLE_NETWORK_CLI, ap_adapter_family = CISCO_IOS_Adapter,
       ap_renderer_family = CISCO_IOS_Renderer, ap_collector_family = CISCO_IOS_FACTS,
       ap_readiness_services = [service_expectation SSH 22],
       ap_recovery_family = CISCO_TARGETED_INVERSE\<rparr>),
     (IOSVL2_2020,
      \<lparr>ap_profile_id = IOSVL2_2020, ap_network_os = IOS,
       ap_admitted_capabilities = [LAYER2_SWITCHING, SVI, DOT1Q_TRUNK, ACCESS_PORT],
       ap_transport_family = ANSIBLE_NETWORK_CLI, ap_adapter_family = CISCO_IOS_Adapter,
       ap_renderer_family = CISCO_IOS_Renderer, ap_collector_family = CISCO_IOS_FACTS,
       ap_readiness_services = [service_expectation SSH 22],
       ap_recovery_family = CISCO_TARGETED_INVERSE\<rparr>),
     (VJUNOS_ROUTER,
      \<lparr>ap_profile_id = VJUNOS_ROUTER, ap_network_os = JUNOS,
       ap_admitted_capabilities =
         [LAYER3_ROUTING, OSPF, JUNOS_FIREWALL_FILTER, COMMIT_CONFIRMED,
          SNMPV3_AUTHPRIV_SHA256_AES128],
       ap_transport_family = JUNOS_PYEZ_NETCONF, ap_adapter_family = JUNOS_PYEZ,
       ap_renderer_family = JUNOS_XML, ap_collector_family = JUNOS_RPC,
       ap_readiness_services = [service_expectation NETCONF 830],
       ap_recovery_family = JUNOS_COMMIT_CONFIRMED\<rparr>)]"

text \<open>\<^verbatim>\<open>AutomationProfileID(value)\<close>: the enumeration lookup, ValueError on an unknown value.\<close>

definition automation_profile_of_value :: "string \<Rightarrow> automation_profile_id option" where
  "automation_profile_of_value v =
     map_of (map (\<lambda>p. (automation_profile_id_value p, p)) automation_profile_ids) v"

definition get_automation_profile :: "automation_profile_id \<Rightarrow> automation_profile res" where
  "get_automation_profile i = (case map_of AUTOMATION_PROFILE_CATALOG i of
     Some p \<Rightarrow> Inr p | None \<Rightarrow> Inl (OtherException ''KeyError''))"

definition get_automation_profile_by_value :: "string \<Rightarrow> automation_profile res" where
  "get_automation_profile_by_value v = (case automation_profile_of_value v of
     None \<Rightarrow> Inl (ValueError ''unknown automation profile'')
   | Some i \<Rightarrow> get_automation_profile i)"

section \<open>CML realization profiles\<close>

datatype cml_realization_profile_id =
    CML_CAT8000V_17_18_02 | CML_IOL_XE_17_18_02 | CML_IOSV_159_3_M12 | CML_IOSVL2_2020
  | CML_VJUNOS_ROUTER_23_2R1_15

definition cml_realization_profile_ids :: "cml_realization_profile_id list" where
  "cml_realization_profile_ids =
     [CML_CAT8000V_17_18_02, CML_IOL_XE_17_18_02, CML_IOSV_159_3_M12, CML_IOSVL2_2020,
      CML_VJUNOS_ROUTER_23_2R1_15]"

datatype cml_resource_allocation_mode = EXPLICIT | NODE_DEFINITION_DEFAULT

record cml_resource_requirements =
  cr_allocation_mode :: cml_resource_allocation_mode
  cr_cpu_cores :: "int option"
  cr_ram_mb :: "int option"

definition cml_resource_requirements_valid :: "cml_resource_requirements \<Rightarrow> unit res" where
  "cml_resource_requirements_valid r = checks
    [(case cr_cpu_cores r of None \<Rightarrow> False | Some n \<Rightarrow> n < 1, ValueError ''cpu_cores''),
     (case cr_ram_mb r of None \<Rightarrow> False | Some n \<Rightarrow> n < 256, ValueError ''ram_mb''),
     (cr_allocation_mode r = EXPLICIT \<and> \<not> (cr_cpu_cores r \<noteq> None \<and> cr_ram_mb r \<noteq> None),
        ValueError ''explicit CML resources require CPU and RAM values''),
     (cr_allocation_mode r \<noteq> EXPLICIT \<and> (cr_cpu_cores r \<noteq> None \<or> cr_ram_mb r \<noteq> None),
        ValueError ''node-definition default resources cannot pin CPU or RAM'')]"

record cml_physical_interface_slot =
  cs_interface_name :: string
  cs_cml_slot :: int

datatype cml_bootstrap_profile_id =
    CAT8000V_MINIMAL | IOL_XE_MINIMAL | IOSV_MINIMAL | IOSVL2_ROUTED_MANAGEMENT
  | VJUNOS_ROUTER_MINIMAL

datatype cml_readiness_profile_id = IOSXE_SSH | IOSV_SSH | IOSVL2_ROUTED_SSH | JUNOS_NETCONF

datatype cml_boot_policy = NORMAL | IOSV_PERSISTENCE_RECYCLE

record cml_realization_profile =
  cp_profile_id :: cml_realization_profile_id
  cp_node_definition :: string
  cp_image_definition :: string
  cp_resources :: cml_resource_requirements
  cp_physical_interface_slots :: "cml_physical_interface_slot list"
  cp_bootstrap_profile :: cml_bootstrap_profile_id
  cp_readiness_profile :: cml_readiness_profile_id
  cp_boot_policy :: cml_boot_policy

definition cml_realization_profile_valid :: "cml_realization_profile \<Rightarrow> unit res" where
  "cml_realization_profile_valid p =
    (let slots = cp_physical_interface_slots p in
     bindS (cml_resource_requirements_valid (cp_resources p)) (\<lambda>_. checks
      [(\<not> nonempty_string (cp_node_definition p) \<or> \<not> nonempty_string (cp_image_definition p)
          \<or> \<not> list_all (\<lambda>s. nonempty_string (cs_interface_name s) \<and> 0 \<le> cs_cml_slot s) slots,
          ValueError ''CML realization field constraint''),
       (slots = [] \<or> \<not> distinct (map cs_interface_name slots),
          ValueError ''CML physical interface names must be unique and nonempty''),
       (\<not> distinct (map cs_cml_slot slots),
          ValueError ''CML physical interface slots must be unique'')]))"

text \<open>\<^verbatim>\<open>_slots(*names)\<close>: slot numbers by position.\<close>

definition interface_slots :: "string list \<Rightarrow> cml_physical_interface_slot list" where
  "interface_slots names =
     map (\<lambda>(i, n). \<lparr>cs_interface_name = n, cs_cml_slot = int i\<rparr>) (enumerate 0 names)"

definition node_default_resources :: cml_resource_requirements where
  "node_default_resources =
     \<lparr>cr_allocation_mode = NODE_DEFINITION_DEFAULT, cr_cpu_cores = None, cr_ram_mb = None\<rparr>"

definition CML_REALIZATION_PROFILE_CATALOG ::
    "(cml_realization_profile_id \<times> cml_realization_profile) list" where
  "CML_REALIZATION_PROFILE_CATALOG =
    [(CML_CAT8000V_17_18_02,
      \<lparr>cp_profile_id = CML_CAT8000V_17_18_02, cp_node_definition = ''cat8000v'',
       cp_image_definition = ''cat8000v-17-18-02'',
       cp_resources = \<lparr>cr_allocation_mode = EXPLICIT, cr_cpu_cores = Some 1, cr_ram_mb = Some 4096\<rparr>,
       cp_physical_interface_slots = interface_slots
         [''GigabitEthernet1'', ''GigabitEthernet2'', ''GigabitEthernet3'', ''GigabitEthernet4''],
       cp_bootstrap_profile = CAT8000V_MINIMAL, cp_readiness_profile = IOSXE_SSH,
       cp_boot_policy = NORMAL\<rparr>),
     (CML_IOL_XE_17_18_02,
      \<lparr>cp_profile_id = CML_IOL_XE_17_18_02, cp_node_definition = ''iol-xe'',
       cp_image_definition = ''iol-xe-17-18-02'', cp_resources = node_default_resources,
       cp_physical_interface_slots = interface_slots
         [''Ethernet0/0'', ''Ethernet0/1'', ''Ethernet0/2'', ''Ethernet0/3''],
       cp_bootstrap_profile = IOL_XE_MINIMAL, cp_readiness_profile = IOSXE_SSH,
       cp_boot_policy = NORMAL\<rparr>),
     (CML_IOSV_159_3_M12,
      \<lparr>cp_profile_id = CML_IOSV_159_3_M12, cp_node_definition = ''iosv'',
       cp_image_definition = ''iosv-159-3-m12'', cp_resources = node_default_resources,
       cp_physical_interface_slots = interface_slots [''Gi0/0'', ''Gi0/1'', ''Gi0/2'', ''Gi0/3''],
       cp_bootstrap_profile = IOSV_MINIMAL, cp_readiness_profile = IOSV_SSH,
       cp_boot_policy = IOSV_PERSISTENCE_RECYCLE\<rparr>),
     (CML_IOSVL2_2020,
      \<lparr>cp_profile_id = CML_IOSVL2_2020, cp_node_definition = ''iosvl2'',
       cp_image_definition = ''iosvl2-2020'', cp_resources = node_default_resources,
       cp_physical_interface_slots = interface_slots [''Gi0/0'', ''Gi0/1'', ''Gi0/2'', ''Gi0/3''],
       cp_bootstrap_profile = IOSVL2_ROUTED_MANAGEMENT, cp_readiness_profile = IOSVL2_ROUTED_SSH,
       cp_boot_policy = NORMAL\<rparr>),
     (CML_VJUNOS_ROUTER_23_2R1_15,
      \<lparr>cp_profile_id = CML_VJUNOS_ROUTER_23_2R1_15, cp_node_definition = ''vjunos-router'',
       cp_image_definition = ''vjunos-router-23-2r1-15'',
       cp_resources = \<lparr>cr_allocation_mode = EXPLICIT, cr_cpu_cores = Some 4, cr_ram_mb = Some 6144\<rparr>,
       cp_physical_interface_slots = interface_slots
         [''fxp0'', ''ge-0/0/0'', ''ge-0/0/1'', ''ge-0/0/2''],
       cp_bootstrap_profile = VJUNOS_ROUTER_MINIMAL, cp_readiness_profile = JUNOS_NETCONF,
       cp_boot_policy = NORMAL\<rparr>)]"

definition get_cml_realization_profile ::
    "cml_realization_profile_id \<Rightarrow> cml_realization_profile res" where
  "get_cml_realization_profile i = (case map_of CML_REALIZATION_PROFILE_CATALOG i of
     Some p \<Rightarrow> Inr p | None \<Rightarrow> Inl (OtherException ''KeyError''))"

section \<open>Stable interfaces and management endpoints\<close>

record stable_interface =
  si_device :: string
  si_interface :: string
  si_name :: string

definition stable_interface_valid :: "stable_interface \<Rightarrow> bool" where
  "stable_interface_valid i \<longleftrightarrow>
     netbox_identity ''dcim.device'' (si_device i)
     \<and> netbox_identity ''dcim.interface'' (si_interface i) \<and> nonempty_string (si_name i)"

text \<open>\<open>IPv4Address\<close> and \<open>IPv6Address\<close> of the standard library; an interface also carries its
  prefix length.\<close>

datatype ip_address = IPv4Address "32 word" | IPv6Address "128 word"

record ip_interface =
  ii_ip :: ip_address
  ii_prefix_length :: nat

record management_l3_endpoint =
  me_interface :: stable_interface
  me_ip_address_identity :: string
  me_address :: ip_interface
  me_service :: management_service
  me_port :: int

record management_binding =
  mb_physical_attachment :: stable_interface
  mb_l3_endpoint :: management_l3_endpoint

definition management_l3_endpoint_valid :: "management_l3_endpoint \<Rightarrow> bool" where
  "management_l3_endpoint_valid e \<longleftrightarrow>
     stable_interface_valid (me_interface e)
     \<and> netbox_identity ''ipam.ipaddress'' (me_ip_address_identity e) \<and> port_in_range (me_port e)"

definition management_binding_valid :: "management_binding \<Rightarrow> unit res" where
  "management_binding_valid b = checks
    [(\<not> stable_interface_valid (mb_physical_attachment b)
        \<or> \<not> management_l3_endpoint_valid (mb_l3_endpoint b),
        ValueError ''management binding field constraint''),
     (si_device (mb_physical_attachment b) \<noteq> si_device (me_interface (mb_l3_endpoint b)),
        ValueError ''management binding interfaces must belong to one device'')]"

datatype management_endpoint_purpose = LIVE | STAGING

record management_endpoint =
  mp_purpose :: management_endpoint_purpose
  mp_binding :: management_binding

record management_endpoint_set =
  ms_logical_device :: string
  ms_automation_profile_id :: automation_profile_id
  ms_live :: management_endpoint
  ms_staging :: management_endpoint

definition management_endpoint_set_valid :: "management_endpoint_set \<Rightarrow> unit res" where
  "management_endpoint_set_valid s =
    (let lb = mp_binding (ms_live s); sb = mp_binding (ms_staging s);
         le = mb_l3_endpoint lb; se = mb_l3_endpoint sb in
     bindS (management_binding_valid lb) (\<lambda>_.
     bindS (management_binding_valid sb) (\<lambda>_.
     bindS (checks
      [(\<not> netbox_identity ''dcim.device'' (ms_logical_device s), ValueError ''logical_device''),
       (mp_purpose (ms_live s) \<noteq> LIVE,
          ValueError ''live management endpoint requires LIVE purpose''),
       (mp_purpose (ms_staging s) \<noteq> STAGING,
          ValueError ''staging management endpoint requires STAGING purpose''),
       (list_ex (\<lambda>b. si_device (mb_physical_attachment b) \<noteq> ms_logical_device s
            \<or> si_device (me_interface (mb_l3_endpoint b)) \<noteq> ms_logical_device s) [lb, sb],
          ValueError ''management endpoints must belong to the logical device''),
       (mb_physical_attachment lb \<noteq> mb_physical_attachment sb,
          ValueError ''LIVE/STAGING physical management interface must match''),
       (me_interface le \<noteq> me_interface se,
          ValueError ''LIVE/STAGING L3 management interface must match''),
       (me_ip_address_identity le = me_ip_address_identity se,
          ValueError ''LIVE/STAGING management IP identities must differ''),
       (ii_ip (me_address le) = ii_ip (me_address se),
          ValueError ''LIVE/STAGING management addresses must differ'')]) (\<lambda>_.
     bindS (get_automation_profile (ms_automation_profile_id s)) (\<lambda>p. checks
      [(list_ex (\<lambda>e. (me_service e, me_port e)
            \<notin> set (map (\<lambda>r. (rs_service r, rs_port r)) (ap_readiness_services p))) [le, se],
          ValueError ''management service/port is incompatible with automation profile'')])))))"

section \<open>Authority table\<close>

datatype authority_owner = GIT | NETBOX | OPENBAO | DEVICE | TERRAFORM_CML_STATE

datatype authority_property =
    STABLE_DEVICE_IDENTITY | STABLE_INTERFACE_IDENTITY | DEVICE_PLATFORM_NOS_METADATA
  | DEVICE_TYPE_METADATA | DEVICE_ROLE | PHYSICAL_TOPOLOGY_CABLING
  | MANAGEMENT_IPAM_RELATIONSHIPS | VLAN_OBJECT_IDENTITY | VLAN_VID | CANONICAL_VLAN_NAME
  | PREFIX_IP_IDENTITY | MANAGED_DEVICE_CONFIGURATION_INTENT | VLAN_DEPLOYMENT_ATTACHMENT
  | ACCESS_TRUNK_NATIVE_ALLOWED_BEHAVIOR | GATEWAY_SUBINTERFACE_DEPLOYMENT
  | OSPF_DESIRED_BEHAVIOR | ACL_SECURITY_FLOW_POLICY | ASSURANCE_POLICY
  | PROFILE_BEHAVIOR_CATALOG | DEVICE_CREDENTIALS | OBSERVED_REALITY
  | DISPOSABLE_REALIZATION_IDENTITY_LIFECYCLE

definition authority_properties :: "authority_property list" where
  "authority_properties =
    [STABLE_DEVICE_IDENTITY, STABLE_INTERFACE_IDENTITY, DEVICE_PLATFORM_NOS_METADATA,
     DEVICE_TYPE_METADATA, DEVICE_ROLE, PHYSICAL_TOPOLOGY_CABLING, MANAGEMENT_IPAM_RELATIONSHIPS,
     VLAN_OBJECT_IDENTITY, VLAN_VID, CANONICAL_VLAN_NAME, PREFIX_IP_IDENTITY,
     MANAGED_DEVICE_CONFIGURATION_INTENT, VLAN_DEPLOYMENT_ATTACHMENT,
     ACCESS_TRUNK_NATIVE_ALLOWED_BEHAVIOR, GATEWAY_SUBINTERFACE_DEPLOYMENT,
     OSPF_DESIRED_BEHAVIOR, ACL_SECURITY_FLOW_POLICY, ASSURANCE_POLICY, PROFILE_BEHAVIOR_CATALOG,
     DEVICE_CREDENTIALS, OBSERVED_REALITY, DISPOSABLE_REALIZATION_IDENTITY_LIFECYCLE]"

record authority_assignment =
  aa_property :: authority_property
  aa_owner :: authority_owner

definition AUTHORITY_ASSIGNMENTS :: "authority_assignment list" where
  "AUTHORITY_ASSIGNMENTS = concat (map (\<lambda>(owner, properties).
      map (\<lambda>p. \<lparr>aa_property = p, aa_owner = owner\<rparr>) properties)
    [(NETBOX,
       [STABLE_DEVICE_IDENTITY, STABLE_INTERFACE_IDENTITY, DEVICE_PLATFORM_NOS_METADATA,
        DEVICE_TYPE_METADATA, DEVICE_ROLE, PHYSICAL_TOPOLOGY_CABLING,
        MANAGEMENT_IPAM_RELATIONSHIPS, VLAN_OBJECT_IDENTITY, VLAN_VID, CANONICAL_VLAN_NAME,
        PREFIX_IP_IDENTITY]),
     (GIT,
       [MANAGED_DEVICE_CONFIGURATION_INTENT, VLAN_DEPLOYMENT_ATTACHMENT,
        ACCESS_TRUNK_NATIVE_ALLOWED_BEHAVIOR, GATEWAY_SUBINTERFACE_DEPLOYMENT,
        OSPF_DESIRED_BEHAVIOR, ACL_SECURITY_FLOW_POLICY, ASSURANCE_POLICY,
        PROFILE_BEHAVIOR_CATALOG]),
     (OPENBAO, [DEVICE_CREDENTIALS]),
     (DEVICE, [OBSERVED_REALITY]),
     (TERRAFORM_CML_STATE, [DISPOSABLE_REALIZATION_IDENTITY_LIFECYCLE])])"

section \<open>Managed-state ownership envelopes\<close>

datatype managed_vertical = ROUTED_UNDERLAY | VLAN | OSPF_Vertical | ACL

datatype managed_field =
    ROUTED_UNDERLAY_L3_PRESENCE | ROUTED_UNDERLAY_ADDRESS | ROUTED_UNDERLAY_ADMIN_ENABLED
  | VLAN_PRESENCE | VLAN_PORT_MODE | VLAN_ACCESS_VLAN | VLAN_ALLOWED_VLANS | VLAN_NATIVE_VLAN
  | VLAN_GATEWAY | VLAN_INTERFACE_ADMIN_ENABLED
  | OSPF_PROCESS | OSPF_ROUTER_ID | OSPF_INTERFACE_PARTICIPATION | OSPF_AREA | OSPF_NETWORK_TYPE
  | OSPF_PASSIVE | OSPF_COST | OSPF_AUTHENTICATION | OSPF_TIMERS
  | ACL_RULE_SEMANTICS | ACL_RULE_ORDER | ACL_ATTACHMENT | ACL_DIRECTION | ACL_DEFAULT_ACTION

fun managed_vertical_value :: "managed_vertical \<Rightarrow> string" where
  "managed_vertical_value ROUTED_UNDERLAY = ''routed_underlay''"
| "managed_vertical_value VLAN = ''vlan''"
| "managed_vertical_value OSPF_Vertical = ''ospf''"
| "managed_vertical_value ACL = ''acl''"

fun managed_field_value :: "managed_field \<Rightarrow> string" where
  "managed_field_value ROUTED_UNDERLAY_L3_PRESENCE = ''routed_underlay.l3_presence''"
| "managed_field_value ROUTED_UNDERLAY_ADDRESS = ''routed_underlay.address''"
| "managed_field_value ROUTED_UNDERLAY_ADMIN_ENABLED = ''routed_underlay.admin_enabled''"
| "managed_field_value VLAN_PRESENCE = ''vlan.presence''"
| "managed_field_value VLAN_PORT_MODE = ''vlan.port_mode''"
| "managed_field_value VLAN_ACCESS_VLAN = ''vlan.access_vlan''"
| "managed_field_value VLAN_ALLOWED_VLANS = ''vlan.allowed_vlans''"
| "managed_field_value VLAN_NATIVE_VLAN = ''vlan.native_vlan''"
| "managed_field_value VLAN_GATEWAY = ''vlan.gateway''"
| "managed_field_value VLAN_INTERFACE_ADMIN_ENABLED = ''vlan.interface_admin_enabled''"
| "managed_field_value OSPF_PROCESS = ''ospf.process''"
| "managed_field_value OSPF_ROUTER_ID = ''ospf.router_id''"
| "managed_field_value OSPF_INTERFACE_PARTICIPATION = ''ospf.interface_participation''"
| "managed_field_value OSPF_AREA = ''ospf.area''"
| "managed_field_value OSPF_NETWORK_TYPE = ''ospf.network_type''"
| "managed_field_value OSPF_PASSIVE = ''ospf.passive''"
| "managed_field_value OSPF_COST = ''ospf.cost''"
| "managed_field_value OSPF_AUTHENTICATION = ''ospf.authentication''"
| "managed_field_value OSPF_TIMERS = ''ospf.timers''"
| "managed_field_value ACL_RULE_SEMANTICS = ''acl.rule_semantics''"
| "managed_field_value ACL_RULE_ORDER = ''acl.rule_order''"
| "managed_field_value ACL_ATTACHMENT = ''acl.attachment''"
| "managed_field_value ACL_DIRECTION = ''acl.direction''"
| "managed_field_value ACL_DEFAULT_ACTION = ''acl.default_action''"

text \<open>\<open>_FIELDS_BY_VERTICAL[v]\<close> contains exactly the fields whose value starts with \<open>v.value + "."\<close>.\<close>

definition field_of_vertical :: "managed_vertical \<Rightarrow> managed_field \<Rightarrow> bool" where
  "field_of_vertical v f \<longleftrightarrow> starts_with (managed_vertical_value v @ ''.'') (managed_field_value f)"

datatype managed_scope_kind =
  DEVICE_Scope | INTERFACE_Scope | IP_ADDRESS_Scope | VLAN_Scope | PREFIX_Scope | POLICY_Scope

text \<open>\<^verbatim>\<open>[a-z0-9]+(?:[._-][a-z0-9]+)*\<close>: read left to right, \<open>started\<close> says whether the current
  word has a character.\<close>

fun policy_words :: "bool \<Rightarrow> string \<Rightarrow> bool" where
  "policy_words started [] = started"
| "policy_words started (c # cs) =
     (if is_digit c \<or> is_lower c then policy_words True cs
      else c \<in> {CHR ''.'', CHR ''_'', CHR ''-''} \<and> started \<and> policy_words False cs)"

definition git_policy_pattern :: "string \<Rightarrow> bool" where
  "git_policy_pattern s \<longleftrightarrow> starts_with ''git:policy:'' s \<and> policy_words False (drop 11 s)"

fun scope_pattern :: "managed_scope_kind \<Rightarrow> string \<Rightarrow> bool" where
  "scope_pattern DEVICE_Scope s = netbox_identity ''dcim.device'' s"
| "scope_pattern INTERFACE_Scope s = netbox_identity ''dcim.interface'' s"
| "scope_pattern IP_ADDRESS_Scope s = netbox_identity ''ipam.ipaddress'' s"
| "scope_pattern VLAN_Scope s = netbox_identity ''ipam.vlan'' s"
| "scope_pattern PREFIX_Scope s = netbox_identity ''ipam.prefix'' s"
| "scope_pattern POLICY_Scope s = git_policy_pattern s"

record managed_scope_identity =
  mi_kind :: managed_scope_kind
  mi_identity :: string

definition managed_scope_identity_valid :: "managed_scope_identity \<Rightarrow> unit res" where
  "managed_scope_identity_valid m = checks
    [(\<not> list_ex (\<lambda>k. scope_pattern k (mi_identity m))
          [DEVICE_Scope, INTERFACE_Scope, IP_ADDRESS_Scope, VLAN_Scope, PREFIX_Scope]
        \<and> \<not> (git_policy_pattern (mi_identity m) \<and> 12 \<le> length (mi_identity m)
             \<and> length (mi_identity m) \<le> 128),
        ValueError ''managed scope identity''),
     (\<not> scope_pattern (mi_kind m) (mi_identity m),
        ValueError ''managed scope identity namespace does not match kind'')]"

record managed_ownership_envelope =
  oe_vertical :: managed_vertical
  oe_envelope_version :: int
  oe_targets :: "string list"
  oe_scope :: "managed_scope_identity list"
  oe_normalized_fields :: "managed_field list"

definition managed_ownership_envelope_valid :: "managed_ownership_envelope \<Rightarrow> unit res" where
  "managed_ownership_envelope_valid e =
    bindS (mapS managed_scope_identity_valid (oe_scope e)) (\<lambda>_. checks
      [(oe_envelope_version e < 1, ValueError ''envelope_version''),
       (\<not> list_all (netbox_identity ''dcim.device'') (oe_targets e), ValueError ''targets''),
       (oe_targets e = [] \<or> \<not> distinct (oe_targets e),
          ValueError ''ownership envelope targets must be unique and nonempty''),
       (oe_scope e = [] \<or> \<not> distinct (map (\<lambda>i. (mi_kind i, mi_identity i)) (oe_scope e)),
          ValueError ''ownership envelope scope must be unique and nonempty''),
       (oe_normalized_fields e = [] \<or> \<not> distinct (oe_normalized_fields e),
          ValueError ''ownership envelope fields must be unique and nonempty''),
       (\<not> list_all (field_of_vertical (oe_vertical e)) (oe_normalized_fields e),
          ValueError ''ownership envelope fields do not match its vertical'')])"

section \<open>Catalog validation at import time\<close>

definition validate_catalogs :: "unit res" where
  "validate_catalogs = checks
    [(\<not> same_set (map fst AUTOMATION_PROFILE_CATALOG) automation_profile_ids,
        RuntimeError ''automation profile catalog is incomplete''),
     (\<not> same_set (map fst CML_REALIZATION_PROFILE_CATALOG) cml_realization_profile_ids,
        RuntimeError ''CML realization profile catalog is incomplete''),
     (list_ex (\<lambda>(k, v). k \<noteq> ap_profile_id v) AUTOMATION_PROFILE_CATALOG,
        RuntimeError ''automation profile catalog key mismatch''),
     (list_ex (\<lambda>(k, v). k \<noteq> cp_profile_id v) CML_REALIZATION_PROFILE_CATALOG,
        RuntimeError ''CML realization profile catalog key mismatch''),
     (\<not> same_set (map aa_property AUTHORITY_ASSIGNMENTS) authority_properties
        \<or> \<not> distinct (map aa_property AUTHORITY_ASSIGNMENTS),
        RuntimeError ''every managed property must have exactly one authority'')]"

end
