(* ===== verification/Models.thy ===== *)
theory Models
  imports Architecture_Contracts
begin

text \<open>
  \<^verbatim>\<open>models.py\<close>, the part every delivery lifecycle shares: description safety, the reviewed
  intent, normalized interface state, the vendor artifacts, execution results, stage results and
  the outcome vocabulary.
\<close>

section \<open>Descriptions\<close>

definition validate_ios_description :: "string \<Rightarrow> string res" where
  "validate_ios_description value = bindS (checks
    [(length value > 240, ValueError ''description must contain at most 240 characters''),
     (py_strip value = [], ValueError ''description must contain a non-whitespace character''),
     (list_ex is_control value, ValueError ''description must not contain control characters'')])
    (\<lambda>_. Inr value)"

text \<open>\<open>DesiredDescription(description=value)\<close>: the field bounds, then the model validator.\<close>

definition desired_description :: "string \<Rightarrow> unit res" where
  "desired_description value = bindS (checks
    [(length value < 1 \<or> length value > 240, ValueError ''description length'')])
    (\<lambda>_. bindS (validate_ios_description value) (\<lambda>_. Inr ()))"

lemma validate_ios_description_ok:
  "validate_ios_description v = Inr w \<longleftrightarrow>
     w = v \<and> length v \<le> 240 \<and> py_strip v \<noteq> [] \<and> list_all (\<lambda>c. \<not> is_control c) v"
  by (auto simp: validate_ios_description_def bindS_Inr_iff checks_ok list_all_iff list_ex_iff)

lemma desired_description_ok:
  "desired_description v = Inr u \<longleftrightarrow>
     length v \<le> 240 \<and> py_strip v \<noteq> [] \<and> list_all (\<lambda>c. \<not> is_control c) v"
proof -
  have "py_strip v \<noteq> [] \<Longrightarrow> v \<noteq> []" by (auto simp: py_strip_def strip_by_def)
  then show ?thesis
    by (auto simp: desired_description_def bindS_Inr_iff validate_ios_description_ok checks_ok Suc_le_eq)
qed

record interface_description_intent =
  in_change_id :: string
  in_target :: string
  in_interface :: string
  in_desired :: string

definition intent_valid :: "interface_description_intent \<Rightarrow> unit res" where
  "intent_valid i = bindS (checks
    [(\<not> cli_bound_string (in_change_id i), ValueError ''change_id''),
     (\<not> cli_bound_string (in_target i), ValueError ''target''),
     (\<not> cli_bound_string (in_interface i), ValueError ''interface'')])
    (\<lambda>_. desired_description (in_desired i))"

section \<open>Time\<close>

text \<open>\<open>datetime\<close> by its calendar fields; \<open>dt_offset\<close> is the UTC offset in minutes of an aware
  value. \<open>isoformat\<close> is how the canonical JSON writes it.\<close>

record py_datetime =
  dt_date :: "nat \<times> nat \<times> nat"
  dt_time :: "nat \<times> nat \<times> nat"
  dt_microsecond :: nat
  dt_offset :: "int option"

definition padded :: "nat \<Rightarrow> nat \<Rightarrow> string" where
  "padded w n = replicate (w - length (nat_str n)) CHR ''0'' @ nat_str n"

definition isoformat :: "py_datetime \<Rightarrow> string" where
  "isoformat d =
    (case (dt_date d, dt_time d) of ((y, mo, da), (h, mi, s)) \<Rightarrow>
       padded 4 y @ ''-'' @ padded 2 mo @ ''-'' @ padded 2 da @ ''T'' @
       padded 2 h @ '':'' @ padded 2 mi @ '':'' @ padded 2 s @
       (if dt_microsecond d = 0 then [] else ''.'' @ padded 6 (dt_microsecond d)) @
       (case dt_offset d of None \<Rightarrow> []
        | Some o' \<Rightarrow> if o' = 0 then ''Z''
            else (if o' < 0 then ''-'' else ''+'') @ padded 2 (nat (\<bar>o'\<bar> div 60)) @ '':''
                 @ padded 2 (nat (\<bar>o'\<bar> mod 60))))"

section \<open>Interface state and vendor artifacts\<close>

datatype operational_status = UP | DOWN

record interface_state =
  is_observed_hostname :: string
  is_software_version :: "string option"
  is_interface :: string
  is_exists :: bool
  is_description :: "string option"
  is_protected :: bool
  is_enabled :: "bool option"
  is_operational_status :: "operational_status option"
  is_ipv4_addresses :: "string list"

record cisco_config_artifact =
  ca_parent :: string
  ca_lines :: "string list"

definition cisco_cli_preview :: "cisco_config_artifact \<Rightarrow> string" where
  "cisco_cli_preview a = ca_parent a @ concat (map (\<lambda>l. CHR 0x0A # CHR '' '' # l) (ca_lines a))"

text \<open>\<open>ElementTree\<close>'s text escaping and the one document the code builds; an element whose text
  is empty is written in the short form.\<close>

definition xml_escape :: "string \<Rightarrow> string" where
  "xml_escape s = concat (map (\<lambda>c.
     if c = CHR ''&'' then ''&amp;'' else if c = CHR ''<'' then ''&lt;''
     else if c = CHR ''>'' then ''&gt;'' else [c]) s)"

definition xml_text_element :: "string \<Rightarrow> string \<Rightarrow> string" where
  "xml_text_element tag text =
     (if text = [] then ''<'' @ tag @ '' />''
      else ''<'' @ tag @ ''>'' @ xml_escape text @ ''</'' @ tag @ ''>'')"

definition render_junos_interface_description :: "string \<Rightarrow> string \<Rightarrow> string" where
  "render_junos_interface_description interface description =
     ''<configuration><interfaces><interface>'' @ xml_text_element ''name'' interface
     @ xml_text_element ''description'' description
     @ ''</interface></interfaces></configuration>''"

record junos_config_artifact =
  ja_interface :: string
  ja_description :: string
  ja_xml :: string

definition junos_config_artifact_valid :: "junos_config_artifact \<Rightarrow> unit res" where
  "junos_config_artifact_valid a = bindS (checks
    [(\<not> cli_bound_string (ja_interface a), ValueError ''interface''),
     (\<not> nonempty_string (ja_xml a), ValueError ''xml'')]) (\<lambda>_.
   bindS (desired_description (ja_description a)) (\<lambda>_. checks
    [(ja_xml a \<noteq> render_junos_interface_description (ja_interface a) (ja_description a),
        ValueError ''Junos artifact does not match supported intent'')]))"

text \<open>\<open>CiscoConfigArtifact | JunosConfigArtifact\<close>\<close>

datatype config_artifact = Cisco cisco_config_artifact | Junos junos_config_artifact

fun artifact_cli_preview :: "config_artifact \<Rightarrow> string" where
  "artifact_cli_preview (Cisco a) = cisco_cli_preview a"
| "artifact_cli_preview (Junos a) = ja_xml a"

datatype transaction_strategy = CISCO_TARGETED_INVERSE_Strategy | JUNOS_COMMIT_CONFIRMED_Strategy

fun transaction_strategy_value :: "transaction_strategy \<Rightarrow> string" where
  "transaction_strategy_value CISCO_TARGETED_INVERSE_Strategy = ''cisco_targeted_inverse''"
| "transaction_strategy_value JUNOS_COMMIT_CONFIRMED_Strategy = ''junos_commit_confirmed''"

section \<open>Execution results, stages and outcomes\<close>

datatype execution_disposition = Succeeded | Failed | Ambiguous

record execution_result =
  er_disposition :: execution_disposition
  er_changed :: "bool option"
  er_message :: string

text \<open>\<open>provider_change_metadata\<close>: only an explicit provider boolean is kept. \<open>PyBool\<close> is the value
  whose type is exactly \<open>bool\<close>, \<open>PyOther\<close> any other object.\<close>

datatype py_object = PyBool bool | PyOther

fun provider_change_metadata :: "py_object \<Rightarrow> bool option" where
  "provider_change_metadata (PyBool b) = Some b"
| "provider_change_metadata PyOther = None"

datatype final_outcome =
    COMPLIANT | BLOCKED | STALE_PLAN | SUCCEEDED | EXECUTION_FAILED | AMBIGUOUS
  | POST_VALIDATION_FAILED | RECOVERED | RECOVERY_FAILED | RECOVERY_AMBIGUOUS
  | AUTO_ROLLBACK_PENDING | CONFIRMATION_FAILED | CONFIRMATION_AMBIGUOUS

record stage_result =
  sr_attempted :: bool
  sr_succeeded :: "bool option"
  sr_changed :: "bool option"
  sr_observed_description :: "string option"
  sr_message :: string

text \<open>\<^verbatim>\<open>_stage(message, **values)\<close> with the model defaults.\<close>

definition stage :: "string \<Rightarrow> stage_result" where
  "stage message = \<lparr>sr_attempted = False, sr_succeeded = None, sr_changed = None,
     sr_observed_description = None, sr_message = message\<rparr>"

definition attempted_stage :: "string \<Rightarrow> bool \<Rightarrow> stage_result" where
  "attempted_stage message succeeded =
     (stage message)\<lparr>sr_attempted := True, sr_succeeded := Some succeeded\<rparr>"

lemma stage_simps [simp]:
  "sr_attempted (stage m) = False" "sr_succeeded (stage m) = None" "sr_changed (stage m) = None"
  "sr_observed_description (stage m) = None" "sr_message (stage m) = m"
  by (simp_all add: stage_def)

lemma attempted_stage_simps [simp]:
  "sr_attempted (attempted_stage m b) = True" "sr_succeeded (attempted_stage m b) = Some b"
  "sr_changed (attempted_stage m b) = None" "sr_observed_description (attempted_stage m b) = None"
  "sr_message (attempted_stage m b) = m"
  by (simp_all add: attempted_stage_def)

text \<open>The stages of one attempt carry no result facts unless attempted, and a classified result
  when attempted.\<close>

definition stage_consistent :: "stage_result \<Rightarrow> bool" where
  "stage_consistent s \<longleftrightarrow>
     (if sr_attempted s then sr_succeeded s \<noteq> None
      else sr_succeeded s = None \<and> sr_changed s = None \<and> sr_observed_description s = None)"

section \<open>What the vendor artifacts mean on a device\<close>

text \<open>Rendered Cisco lines for a description and for its inverse; shared by the schema-v1 and the
  schema-v2 planners, which write the same expressions.\<close>

definition cisco_description_artifact :: "string \<Rightarrow> string \<Rightarrow> cisco_config_artifact" where
  "cisco_description_artifact interface description =
     \<lparr>ca_parent = ''interface '' @ interface, ca_lines = [''description '' @ description]\<rparr>"

definition cisco_recovery_artifact :: "string \<Rightarrow> string option \<Rightarrow> cisco_config_artifact" where
  "cisco_recovery_artifact interface current =
     \<lparr>ca_parent = ''interface '' @ interface,
      ca_lines = [case current of Some d \<Rightarrow> ''description '' @ d | None \<Rightarrow> ''no description'']\<rparr>"

definition junos_description_artifact :: "string \<Rightarrow> string \<Rightarrow> junos_config_artifact" where
  "junos_description_artifact interface description =
     \<lparr>ja_interface = interface, ja_description = description,
      ja_xml = render_junos_interface_description interface description\<rparr>"

lemma junos_description_artifact_valid:
  assumes "cli_bound_string i" and "desired_description d = Inr ()"
  shows "junos_config_artifact_valid (junos_description_artifact i d) = Inr ()"
proof -
  let ?x = "render_junos_interface_description i d"
  have last: "last ?x = CHR ''>''" and hd: "hd ?x = CHR ''<''" and ne: "?x \<noteq> []"
    by (simp_all add: render_junos_interface_description_def)
  have ws: "\<not> is_white_space CHR ''>''" "\<not> is_white_space CHR ''<''"
    by (simp_all add: is_white_space_def code_def)
  have "dropWhile is_white_space ?x = ?x"
    using hd ne ws by (cases ?x) auto
  moreover have "dropWhile is_white_space (rev ?x) = rev ?x"
    using last ne ws by (cases "rev ?x") (auto simp: last_rev hd_rev [symmetric])
  ultimately have "nonempty_string ?x"
    using ne by (simp add: nonempty_string_def trim_def strip_by_def)
  with assms show ?thesis
    by (simp add: junos_config_artifact_valid_def junos_description_artifact_def)
qed

text \<open>No field of an interface can smuggle a second command line into a Cisco artifact: the lines
  of the artifact have no control character, so none contains a line break.\<close>

lemma cisco_lines_single_line:
  assumes "desired_description d = Inr ()" and "cli_bound_string i"
  shows "list_all (list_all (\<lambda>c. \<not> is_control c))
           (ca_parent (cisco_description_artifact i d) # ca_lines (cisco_description_artifact i d))"
  using assms
  by (auto simp: cisco_description_artifact_def desired_description_ok cli_bound_string_def
      is_control_def code_def)

end
