(* ===== verification/Profile_Inventory.thy ===== *)
theory Profile_Inventory
  imports Models
begin

text \<open>
  \<^verbatim>\<open>profile_inventory.py\<close>: profile admission from factual NetBox metadata, the Git-owned
  population declaration, consumer scopes, the resolved device and its LIVE read-only target, and
  the admission of a resolved device or subject against the declaration. The HTTP resolution of
  NetBox payloads is behind the provider interface of the planners.
\<close>

section \<open>Numeric addresses: \<open>ipaddress.ip_address\<close>\<close>

definition ipv4_octet :: "string \<Rightarrow> bool" where
  "ipv4_octet s \<longleftrightarrow> s \<noteq> [] \<and> list_all is_digit s \<and> length s \<le> 3
     \<and> (s = ''0'' \<or> hd s \<noteq> CHR ''0'') \<and> digits_val s \<le> 255"

definition is_ipv4_address :: "string \<Rightarrow> bool" where
  "is_ipv4_address s \<longleftrightarrow>
     length (split_on CHR ''.'' s) = 4 \<and> list_all ipv4_octet (split_on CHR ''.'' s)"

definition is_hex_digit :: "char \<Rightarrow> bool" where
  "is_hex_digit c \<longleftrightarrow> is_lower_hex c \<or> (65 \<le> code c \<and> code c \<le> 70)"

definition hextet :: "string \<Rightarrow> bool" where
  "hextet s \<longleftrightarrow> s \<noteq> [] \<and> length s \<le> 4 \<and> list_all is_hex_digit s"

text \<open>The parts of an IPv6 address between colons, after an embedded IPv4 tail was replaced by two
  hextets: at most one empty inner part, a leading or trailing colon only as part of \<open>::\<close>.\<close>

definition ipv6_parts :: "string list \<Rightarrow> bool" where
  "ipv6_parts parts \<longleftrightarrow>
    (let n = length parts;
         inner = filter (\<lambda>i. parts ! i = []) [1..<n - 1]
     in n \<le> 9 \<and>
       (case inner of
          [] \<Rightarrow> n = 8 \<and> list_all hextet parts
        | [k] \<Rightarrow>
            (let hi = (if parts ! 0 = [] then k - 1 else k);
                 lo = (if parts ! (n - 1) = [] then n - k - 2 else n - k - 1)
             in (parts ! 0 = [] \<longrightarrow> hi = 0) \<and> (parts ! (n - 1) = [] \<longrightarrow> lo = 0)
                \<and> hi + lo < 8 \<and> list_all hextet (take hi parts)
                \<and> list_all hextet (drop (n - lo) parts))
        | _ \<Rightarrow> False))"

definition is_ipv6_address :: "string \<Rightarrow> bool" where
  "is_ipv6_address s \<longleftrightarrow>
    (let addr = takeWhile (\<lambda>c. c \<noteq> CHR ''%'') s; tail = drop (length addr) s;
         parts = split_on CHR '':'' addr; final = last parts
     in CHR ''/'' \<notin> set s
        \<and> (tail = [] \<or> (tl tail \<noteq> [] \<and> CHR ''%'' \<notin> set (tl tail)))
        \<and> 3 \<le> length parts
        \<and> (if CHR ''.'' \<in> set final
           then is_ipv4_address final \<and> ipv6_parts (butlast parts @ [''0'', ''0''])
           else ipv6_parts parts))"

definition is_ip_address :: "string \<Rightarrow> bool" where
  "is_ip_address s \<longleftrightarrow> is_ipv4_address s \<or> is_ipv6_address s"

text \<open>\<open>str(address.ip)\<close>: dotted decimal, and for IPv6 the hextets with the first longest run of two
  or more zero hextets replaced by \<open>::\<close>.\<close>

fun hex_str :: "nat \<Rightarrow> string" where
  "hex_str n = (if n < 16 then [hex_digit n] else hex_str (n div 16) @ [hex_digit (n mod 16)])"

declare hex_str.simps [simp del]

definition zero_run :: "nat list \<Rightarrow> nat \<Rightarrow> nat" where
  "zero_run hs i = length (takeWhile (\<lambda>h. h = 0) (drop i hs))"

fun join :: "string \<Rightarrow> string list \<Rightarrow> string" where
  "join d [] = []"
| "join d [x] = x"
| "join d (x # y # zs) = x @ d @ join d (y # zs)"

definition ipv6_str :: "128 word \<Rightarrow> string" where
  "ipv6_str w =
    (let hs = map (\<lambda>i. (unat w div 65536 ^ i) mod 65536) [7, 6, 5, 4, 3, 2, 1, 0 :: nat];
         best = fold max (map (zero_run hs) [0..<8]) 0
     in if best \<le> 1 then join '':'' (map hex_str hs)
        else (let k = hd (filter (\<lambda>i. zero_run hs i = best) [0..<8])
              in join '':'' (map hex_str (take k hs)) @ ''::''
                 @ join '':'' (map hex_str (drop (k + best) hs))))"

fun ip_str :: "ip_address \<Rightarrow> string" where
  "ip_str (IPv4Address w) =
     join ''.'' (map (\<lambda>i. nat_str ((unat w div 256 ^ i) mod 256)) [3, 2, 1, 0 :: nat])"
| "ip_str (IPv6Address w) = ipv6_str w"

section \<open>Profile admission\<close>

record profile_admission =
  pa_platform_slug :: string
  pa_device_type_slug :: string
  pa_automation_profile_id :: automation_profile_id
  pa_cml_realization_profile_id :: cml_realization_profile_id

definition PLATFORM_NETWORK_OS :: "(string \<times> network_os) list" where
  "PLATFORM_NETWORK_OS =
     [(''cisco-ios-xe'', IOSXE), (''cisco-ios'', IOS), (''juniper-junos'', JUNOS)]"

definition OPERATIONAL_ROLE_BY_SLUG :: "(string \<times> operational_role) list" where
  "OPERATIONAL_ROLE_BY_SLUG =
     map (\<lambda>r. (operational_role_value r, r)) [CORE, EDGE, TRANSIT, ACCESS]"

definition PROFILE_ADMISSIONS :: "profile_admission list" where
  "PROFILE_ADMISSIONS =
    [\<lparr>pa_platform_slug = ''cisco-ios-xe'', pa_device_type_slug = ''c8000v'',
      pa_automation_profile_id = CAT8000V_IOSXE,
      pa_cml_realization_profile_id = CML_CAT8000V_17_18_02\<rparr>,
     \<lparr>pa_platform_slug = ''cisco-ios'', pa_device_type_slug = ''iosv-159-3-m12'',
      pa_automation_profile_id = IOSV_159_3_M12,
      pa_cml_realization_profile_id = CML_IOSV_159_3_M12\<rparr>,
     \<lparr>pa_platform_slug = ''cisco-ios'', pa_device_type_slug = ''iosvl2-2020'',
      pa_automation_profile_id = IOSVL2_2020,
      pa_cml_realization_profile_id = CML_IOSVL2_2020\<rparr>,
     \<lparr>pa_platform_slug = ''juniper-junos'', pa_device_type_slug = ''vjunos-router-lab'',
      pa_automation_profile_id = VJUNOS_ROUTER,
      pa_cml_realization_profile_id = CML_VJUNOS_ROUTER_23_2R1_15\<rparr>]"

definition STAGING_ONLY_CML_REALIZATION_PROFILE_IDS :: "cml_realization_profile_id list" where
  "STAGING_ONLY_CML_REALIZATION_PROFILE_IDS = [CML_IOL_XE_17_18_02]"

definition build_admission_catalog :: "((string \<times> string) \<times> profile_admission) list res" where
  "build_admission_catalog =
    (let keys = map (\<lambda>r. (pa_platform_slug r, pa_device_type_slug r)) PROFILE_ADMISSIONS;
         profiles = map pa_automation_profile_id PROFILE_ADMISSIONS;
         realizations = map pa_cml_realization_profile_id PROFILE_ADMISSIONS;
         staging = STAGING_ONLY_CML_REALIZATION_PROFILE_IDS
     in bindS (checks
      [(\<not> distinct keys \<or> \<not> distinct profiles \<or> \<not> distinct realizations
         \<or> \<not> same_set profiles automation_profile_ids
         \<or> \<not> same_set realizations
              (filter (\<lambda>i. i \<notin> set staging) cml_realization_profile_ids)
         \<or> \<not> subset_list staging (map fst CML_REALIZATION_PROFILE_CATALOG)
         \<or> list_ex (\<lambda>i. i \<in> set staging) realizations,
        RuntimeError ''profile admission catalog is not exact and closed'')])
      (\<lambda>_. Inr (zip keys PROFILE_ADMISSIONS)))"

definition PROFILE_ADMISSION_CATALOG :: "((string \<times> string) \<times> profile_admission) list" where
  "PROFILE_ADMISSION_CATALOG = (case build_admission_catalog of Inr c \<Rightarrow> c | Inl _ \<Rightarrow> [])"

definition admit_profile :: "string \<Rightarrow> string \<Rightarrow> profile_admission res" where
  "admit_profile platform_slug device_type_slug =
    (case map_of PLATFORM_NETWORK_OS platform_slug of
       None \<Rightarrow> Inl (ValueError ''NetBox platform is not admitted'')
     | Some os \<Rightarrow>
        (case map_of PROFILE_ADMISSION_CATALOG (platform_slug, device_type_slug) of
           None \<Rightarrow> Inl (ValueError ''NetBox platform and device type are not admitted'')
         | Some admission \<Rightarrow>
             bindS (get_automation_profile (pa_automation_profile_id admission)) (\<lambda>p.
               if ap_network_os p \<noteq> os
               then Inl (ValueError ''NetBox platform and automation profile NOS mismatch'')
               else Inr admission)))"

section \<open>The Git-owned population declaration\<close>

record profiled_population_member =
  pm_device_identity :: string
  pm_logical_name :: string
  pm_operational_role :: operational_role
  pm_platform_slug :: string
  pm_device_type_slug :: string
  pm_network_os :: network_os
  pm_automation_profile_id :: automation_profile_id
  pm_cml_realization_profile_id :: cml_realization_profile_id
  pm_staging_cml_realization_profile_id :: "cml_realization_profile_id option"

definition profiled_logical_name :: "string \<Rightarrow> bool" where
  "profiled_logical_name s \<longleftrightarrow> 1 \<le> length s \<and> length s \<le> 100 \<and> slug_pattern s"

definition profiled_population_member_valid :: "profiled_population_member \<Rightarrow> unit res" where
  "profiled_population_member_valid m = bindS (checks
    [(\<not> netbox_identity ''dcim.device'' (pm_device_identity m)
        \<or> \<not> profiled_logical_name (pm_logical_name m) \<or> \<not> slug (pm_platform_slug m)
        \<or> \<not> slug (pm_device_type_slug m), ValueError ''population member field constraint'')])
   (\<lambda>_. bindS (admit_profile (pm_platform_slug m) (pm_device_type_slug m)) (\<lambda>admission.
    bindS (checks
    [(map_of PLATFORM_NETWORK_OS (pm_platform_slug m) \<noteq> Some (pm_network_os m)
        \<or> pa_automation_profile_id admission \<noteq> pm_automation_profile_id m
        \<or> pa_cml_realization_profile_id admission \<noteq> pm_cml_realization_profile_id m,
        ValueError ''profiled population member admission is inconsistent'')]) (\<lambda>_.
    (case pm_staging_cml_realization_profile_id m of
       None \<Rightarrow> Inr ()
     | Some s \<Rightarrow> bindS (get_cml_realization_profile s) (\<lambda>_. checks
         [(s = CML_IOL_XE_17_18_02 \<and> pm_automation_profile_id m \<noteq> CAT8000V_IOSXE,
           ValueError ''IOL staging realization requires Cisco IOS-XE'')])))))"

definition PROFILED_POPULATION_CATALOG :: "profiled_population_member list" where
  "PROFILED_POPULATION_CATALOG =
    [\<lparr>pm_device_identity = ''netbox:dcim.device:1'', pm_logical_name = ''core-02'',
      pm_operational_role = CORE, pm_platform_slug = ''cisco-ios-xe'',
      pm_device_type_slug = ''c8000v'', pm_network_os = IOSXE,
      pm_automation_profile_id = CAT8000V_IOSXE,
      pm_cml_realization_profile_id = CML_CAT8000V_17_18_02,
      pm_staging_cml_realization_profile_id = Some CML_IOL_XE_17_18_02\<rparr>,
     \<lparr>pm_device_identity = ''netbox:dcim.device:2'', pm_logical_name = ''edge-junos-01'',
      pm_operational_role = EDGE, pm_platform_slug = ''juniper-junos'',
      pm_device_type_slug = ''vjunos-router-lab'', pm_network_os = JUNOS,
      pm_automation_profile_id = VJUNOS_ROUTER,
      pm_cml_realization_profile_id = CML_VJUNOS_ROUTER_23_2R1_15,
      pm_staging_cml_realization_profile_id = None\<rparr>,
     \<lparr>pm_device_identity = ''netbox:dcim.device:8'', pm_logical_name = ''transit-ios-01'',
      pm_operational_role = TRANSIT, pm_platform_slug = ''cisco-ios'',
      pm_device_type_slug = ''iosv-159-3-m12'', pm_network_os = IOS,
      pm_automation_profile_id = IOSV_159_3_M12,
      pm_cml_realization_profile_id = CML_IOSV_159_3_M12,
      pm_staging_cml_realization_profile_id = None\<rparr>,
     \<lparr>pm_device_identity = ''netbox:dcim.device:9'', pm_logical_name = ''access-sw-01'',
      pm_operational_role = ACCESS, pm_platform_slug = ''cisco-ios'',
      pm_device_type_slug = ''iosvl2-2020'', pm_network_os = IOS,
      pm_automation_profile_id = IOSVL2_2020,
      pm_cml_realization_profile_id = CML_IOSVL2_2020,
      pm_staging_cml_realization_profile_id = None\<rparr>]"

text \<open>A \<open>ProfiledPopulationDeclaration\<close> is its member tuple.\<close>

type_synonym population_declaration = "profiled_population_member list"

definition declaration_identities :: "population_declaration \<Rightarrow> string list" where
  "declaration_identities d = map pm_device_identity d"

definition declaration_valid :: "population_declaration \<Rightarrow> unit res" where
  "declaration_valid d =
    bindS (mapS profiled_population_member_valid d) (\<lambda>_. checks
     [(d = [], ValueError ''members''),
      (\<not> distinct (declaration_identities d) \<or> \<not> distinct (map pm_logical_name d),
        ValueError ''profiled population declaration contains duplicates'')])"

definition declaration_member :: "population_declaration \<Rightarrow> string \<Rightarrow> profiled_population_member res" where
  "declaration_member d name = (case List.find (\<lambda>m. pm_logical_name m = name) d of
     Some m \<Rightarrow> Inr m
   | None \<Rightarrow> Inl (ValueError ''NetBox profile target name is not in the Git-owned population''))"

definition PROFILED_MANAGED_POPULATION :: population_declaration where
  "PROFILED_MANAGED_POPULATION = PROFILED_POPULATION_CATALOG"

record profiled_population_scope =
  ps_identity :: string
  ps_members :: population_declaration

definition population_scope_valid :: "profiled_population_scope \<Rightarrow> unit res" where
  "population_scope_valid s = bindS (checks [(\<not> slug (ps_identity s), ValueError ''identity'')])
     (\<lambda>_. declaration_valid (ps_members s))"

definition population_scope ::
    "string \<Rightarrow> string list \<Rightarrow> population_declaration \<Rightarrow> profiled_population_scope res" where
  "population_scope identity identities d = bindS (checks
    [(identities = [] \<or> \<not> distinct identities
        \<or> \<not> subset_list identities (declaration_identities d),
        ValueError ''scope identities are missing, duplicate or unknown'')]) (\<lambda>_.
     let s = \<lparr>ps_identity = identity,
              ps_members = filter (\<lambda>m. pm_device_identity m \<in> set identities) d\<rparr>
     in bindS (population_scope_valid s) (\<lambda>_. Inr s))"

section \<open>Resolved devices\<close>

record netbox_fact =
  nf_object_id :: int
  nf_slug :: string
  nf_name :: string

definition netbox_fact_valid :: "netbox_fact \<Rightarrow> bool" where
  "netbox_fact_valid f \<longleftrightarrow> 1 \<le> nf_object_id f \<and> slug (nf_slug f) \<and> nonempty_string (nf_name f)"

record profile_read_only_target =
  rt_logical_name :: string
  rt_host :: string
  rt_port :: int
  rt_expected_hostname :: string
  rt_protected_interfaces :: "string list"
  rt_automation_profile_id :: automation_profile_id
  rt_network_os :: network_os

definition profile_read_only_target_valid :: "profile_read_only_target \<Rightarrow> unit res" where
  "profile_read_only_target_valid t = bindS (checks
    [(\<not> nonempty_string (rt_logical_name t) \<or> \<not> nonempty_string (rt_host t)
        \<or> \<not> port_in_range (rt_port t) \<or> \<not> nonempty_string (rt_expected_hostname t)
        \<or> \<not> list_all nonempty_string (rt_protected_interfaces t),
        ValueError ''read-only target field constraint'')]) (\<lambda>_.
   bindS (get_automation_profile (rt_automation_profile_id t)) (\<lambda>p. checks
    [(ap_network_os p \<noteq> rt_network_os t, ValueError ''read-only target profile and NOS mismatch''),
     (rt_port t \<notin> set (map rs_port (ap_readiness_services p)),
        ValueError ''read-only target port is not admitted by profile''),
     (\<not> distinct (rt_protected_interfaces t),
        ValueError ''protected interface names must be unique''),
     (\<not> is_ip_address (rt_host t),
        ValueError ''read-only target host must be a numeric address'')]))"

record profiled_inventory_device =
  dv_device_identity :: string
  dv_logical_name :: string
  dv_expected_hostname :: string
  dv_platform :: netbox_fact
  dv_device_type :: netbox_fact
  dv_role :: netbox_fact
  dv_operational_role :: operational_role
  dv_network_os :: network_os
  dv_automation_profile_id :: automation_profile_id
  dv_cml_realization_profile_id :: cml_realization_profile_id
  dv_staging_cml_realization_profile_id :: "cml_realization_profile_id option"
  dv_management_endpoints :: management_endpoint_set
  dv_protected_interfaces :: "stable_interface list"

definition profiled_inventory_device_valid :: "profiled_inventory_device \<Rightarrow> unit res" where
  "profiled_inventory_device_valid d = bindS (checks
    [(\<not> netbox_identity ''dcim.device'' (dv_device_identity d)
        \<or> \<not> nonempty_string (dv_logical_name d) \<or> \<not> nonempty_string (dv_expected_hostname d)
        \<or> \<not> netbox_fact_valid (dv_platform d) \<or> \<not> netbox_fact_valid (dv_device_type d)
        \<or> \<not> netbox_fact_valid (dv_role d)
        \<or> \<not> list_all stable_interface_valid (dv_protected_interfaces d),
        ValueError ''inventory device field constraint'')]) (\<lambda>_.
   bindS (management_endpoint_set_valid (dv_management_endpoints d)) (\<lambda>_.
   bindS (admit_profile (nf_slug (dv_platform d)) (nf_slug (dv_device_type d))) (\<lambda>admission.
   bindS (checks
    [(pa_automation_profile_id admission \<noteq> dv_automation_profile_id d
        \<or> pa_cml_realization_profile_id admission \<noteq> dv_cml_realization_profile_id d,
        ValueError ''resolved profile admission does not match factual metadata'')]) (\<lambda>_.
   bindS (case dv_staging_cml_realization_profile_id d of None \<Rightarrow> Inr ()
          | Some s \<Rightarrow> bindS (get_cml_realization_profile s) (\<lambda>_. Inr ())) (\<lambda>_. checks
    [(map_of PLATFORM_NETWORK_OS (nf_slug (dv_platform d)) \<noteq> Some (dv_network_os d),
        ValueError ''resolved NetBox platform and NOS mismatch''),
     (map_of OPERATIONAL_ROLE_BY_SLUG (nf_slug (dv_role d)) \<noteq> Some (dv_operational_role d),
        ValueError ''resolved NetBox role does not match operational role''),
     (ms_logical_device (dv_management_endpoints d) \<noteq> dv_device_identity d
        \<or> ms_automation_profile_id (dv_management_endpoints d) \<noteq> dv_automation_profile_id d,
        ValueError ''resolved management endpoints do not match device profile''),
     (dv_protected_interfaces d = []
        \<or> \<not> distinct (map si_interface (dv_protected_interfaces d))
        \<or> \<not> distinct (map si_name (dv_protected_interfaces d))
        \<or> list_ex (\<lambda>i. si_device i \<noteq> dv_device_identity d) (dv_protected_interfaces d),
        ValueError ''protected stable interfaces are invalid'')])))))"

definition live_read_only_target :: "profiled_inventory_device \<Rightarrow> profile_read_only_target res" where
  "live_read_only_target d =
    (let e = mb_l3_endpoint (mp_binding (ms_live (dv_management_endpoints d)));
         t = \<lparr>rt_logical_name = dv_logical_name d, rt_host = ip_str (ii_ip (me_address e)),
              rt_port = me_port e, rt_expected_hostname = dv_expected_hostname d,
              rt_protected_interfaces = map si_name (dv_protected_interfaces d),
              rt_automation_profile_id = dv_automation_profile_id d,
              rt_network_os = dv_network_os d\<rparr>
     in bindS (profile_read_only_target_valid t) (\<lambda>_. Inr t))"

definition effective_staging_cml_realization_profile_id ::
    "profiled_inventory_device \<Rightarrow> cml_realization_profile_id" where
  "effective_staging_cml_realization_profile_id d =
    (case dv_staging_cml_realization_profile_id d of
       Some s \<Rightarrow> s | None \<Rightarrow> dv_cml_realization_profile_id d)"

section \<open>Admission against the declaration\<close>

definition admit_profiled_device ::
    "profiled_inventory_device \<Rightarrow> population_declaration \<Rightarrow> bool \<Rightarrow> profiled_population_member res" where
  "admit_profiled_device d decl require_staging =
    bindS (declaration_member decl (dv_logical_name d)) (\<lambda>m.
    bindS (checks
     [(dv_device_identity d \<noteq> pm_device_identity m \<or> dv_logical_name d \<noteq> pm_logical_name m
        \<or> dv_operational_role d \<noteq> pm_operational_role m
        \<or> nf_slug (dv_platform d) \<noteq> pm_platform_slug m
        \<or> nf_slug (dv_device_type d) \<noteq> pm_device_type_slug m
        \<or> dv_network_os d \<noteq> pm_network_os m
        \<or> dv_automation_profile_id d \<noteq> pm_automation_profile_id m
        \<or> dv_cml_realization_profile_id d \<noteq> pm_cml_realization_profile_id m
        \<or> (require_staging \<and> dv_staging_cml_realization_profile_id d
                              \<noteq> pm_staging_cml_realization_profile_id m),
        ValueError ''NetBox profile target does not match its Git-owned population member'')])
     (\<lambda>_. Inr m))"

definition admit_profiled_subject ::
    "string \<Rightarrow> string \<Rightarrow> string \<Rightarrow> network_os \<Rightarrow> automation_profile_id \<Rightarrow> population_declaration \<Rightarrow> unit res" where
  "admit_profiled_subject device_identity logical_name platform_slug os profile decl =
    bindS (declaration_member decl logical_name) (\<lambda>m. checks
     [(device_identity \<noteq> pm_device_identity m \<or> platform_slug \<noteq> pm_platform_slug m
        \<or> os \<noteq> pm_network_os m \<or> profile \<noteq> pm_automation_profile_id m,
        ValueError ''profiled target does not match its Git-owned subject'')])"

record profiled_inventory_population =
  ip_declaration :: population_declaration
  ip_devices :: "profiled_inventory_device list"

definition profiled_inventory_population_valid :: "profiled_inventory_population \<Rightarrow> unit res" where
  "profiled_inventory_population_valid p =
    bindS (declaration_valid (ip_declaration p)) (\<lambda>_.
    bindS (mapS profiled_inventory_device_valid (ip_devices p)) (\<lambda>_.
    bindS (checks
     [(map dv_device_identity (ip_devices p) \<noteq> declaration_identities (ip_declaration p),
        ValueError ''profiled inventory population identities are not exact'')]) (\<lambda>_.
    bindS (mapS (\<lambda>d. admit_profiled_device d (ip_declaration p) False) (ip_devices p))
     (\<lambda>_. Inr ()))))"

record profiled_inventory_scope =
  sc_scope :: profiled_population_scope
  sc_devices :: "profiled_inventory_device list"

definition require_bindings ::
    "profiled_population_scope \<Rightarrow> profiled_inventory_device list \<Rightarrow> unit res" where
  "require_bindings s devices = checks
    [(map dv_device_identity devices \<noteq> map pm_device_identity (ps_members s),
        ValueError ''consumer membership differs from its declared scope''),
     (list_ex (\<lambda>(d, m). dv_logical_name d \<noteq> pm_logical_name m
          \<or> dv_automation_profile_id d \<noteq> pm_automation_profile_id m
          \<or> dv_cml_realization_profile_id d \<noteq> pm_cml_realization_profile_id m)
        (zip devices (ps_members s)),
        ValueError ''consumer profile binding differs from declared scope'')]"

definition profiled_inventory_scope_valid :: "profiled_inventory_scope \<Rightarrow> unit res" where
  "profiled_inventory_scope_valid s =
    bindS (population_scope_valid (sc_scope s)) (\<lambda>_.
    bindS (mapS profiled_inventory_device_valid (sc_devices s)) (\<lambda>_.
    bindS (require_bindings (sc_scope s) (sc_devices s)) (\<lambda>_.
    bindS (mapS (\<lambda>d. bindS (declaration_valid (ps_members (sc_scope s))) (\<lambda>_.
              admit_profiled_device d (ps_members (sc_scope s))
                (ps_identity (sc_scope s) = ''disposable-staging''))) (sc_devices s))
      (\<lambda>_. Inr ()))))"

text \<open>\<^verbatim>\<open>population.project(scope)\<close>; a scope member without a device is a KeyError.\<close>

definition project_scope ::
    "profiled_inventory_population \<Rightarrow> profiled_population_scope \<Rightarrow> profiled_inventory_scope res" where
  "project_scope p s =
    bindS (mapS (\<lambda>m. bindS (declaration_member (ip_declaration p) (pm_logical_name m)) (\<lambda>m'.
        if m' \<noteq> m then Inl (ValueError ''scope differs from resolved managed declaration'')
        else Inr ())) (ps_members s)) (\<lambda>_.
    bindS (checks
     [(ps_members s \<noteq> filter (\<lambda>m. pm_device_identity m \<in> set (map pm_device_identity (ps_members s)))
                               (ip_declaration p),
        ValueError ''scope order differs from resolved managed declaration'')]) (\<lambda>_.
    bindS (mapS (\<lambda>m. case List.find (\<lambda>d. dv_device_identity d = pm_device_identity m) (ip_devices p) of
                   Some d \<Rightarrow> Inr d | None \<Rightarrow> Inl (OtherException ''KeyError'')) (ps_members s)) (\<lambda>ds.
    let r = \<lparr>sc_scope = s, sc_devices = ds\<rparr>
    in bindS (profiled_inventory_scope_valid r) (\<lambda>_. Inr r))))"

section \<open>Facts of admission\<close>

lemma declaration_member_Inr:
  assumes "declaration_member d n = Inr m"
  shows "m \<in> set d" and "pm_logical_name m = n"
  using assms by (auto simp: declaration_member_def find_Some_iff split: option.splits)

lemma admit_profiled_subject_Inr:
  "admit_profiled_subject i n p os pr d = Inr u \<longleftrightarrow>
    (\<exists>m. declaration_member d n = Inr m \<and> i = pm_device_identity m \<and> p = pm_platform_slug m
       \<and> os = pm_network_os m \<and> pr = pm_automation_profile_id m)"
  by (auto simp: admit_profiled_subject_def bindS_Inr_iff checks_ok)

lemma live_read_only_target_Inr:
  assumes "live_read_only_target d = Inr t"
  shows "rt_logical_name t = dv_logical_name d"
    and "rt_host t = ip_str (ii_ip (me_address (mb_l3_endpoint (mp_binding
           (ms_live (dv_management_endpoints d))))))"
    and "rt_port t = me_port (mb_l3_endpoint (mp_binding (ms_live (dv_management_endpoints d))))"
    and "rt_expected_hostname t = dv_expected_hostname d"
    and "rt_automation_profile_id t = dv_automation_profile_id d"
    and "rt_network_os t = dv_network_os d"
    and "rt_protected_interfaces t = map si_name (dv_protected_interfaces d)"
    and "is_ip_address (rt_host t)" and "port_in_range (rt_port t)"
    and "nonempty_string (rt_host t)" and "nonempty_string (rt_expected_hostname t)"
  using assms
  by (auto simp: live_read_only_target_def Let_def bindS_Inr_iff profile_read_only_target_valid_def
      checks_ok)

end
