(* ===== verification/Providers.thy ===== *)
theory Providers
  imports Profile_Inventory
begin

text \<open>
  The provider boundary of planning and execution: the protocols \<open>ProfiledInventory\<close>,
  \<open>ProfiledSecrets\<close>, \<open>ProfiledCollector\<close> (\<^verbatim>\<open>profiled_execution.py\<close>,
  \<^verbatim>\<open>profiled_planning.py\<close>). A provider is any function of the history of the interaction; an
  \<open>event\<close> is one call with its response, and \<open>EvOther\<close> carries the calls of the layers above
  (the vendor writers, the rollout).
  The history is the log every effect extends, so two calls with equal arguments may answer
  differently, as the network may.
\<close>

record credential_reference =
  cf_source :: string
  cf_reference :: string

record device_credentials =
  dc_username :: string
  dc_password :: string

datatype 'x event =
    EvResolve string "profiled_inventory_device res"
  | EvResolveInterface profiled_inventory_device string "stable_interface res"
  | EvReference profiled_inventory_device "credential_reference res"
  | EvLoad profiled_inventory_device "device_credentials res"
  | EvCollect profile_read_only_target string "interface_state res"
  | EvOther 'x

record 'x providers =
  pv_resolve :: "'x event list \<Rightarrow> string \<Rightarrow> profiled_inventory_device res"
  pv_resolve_interface ::
    "'x event list \<Rightarrow> profiled_inventory_device \<Rightarrow> string \<Rightarrow> stable_interface res"
  pv_reference :: "'x event list \<Rightarrow> profiled_inventory_device \<Rightarrow> credential_reference res"
  pv_load :: "'x event list \<Rightarrow> profiled_inventory_device \<Rightarrow> device_credentials res"
  pv_collect ::
    "'x event list \<Rightarrow> profile_read_only_target \<Rightarrow> device_credentials \<Rightarrow> string \<Rightarrow> interface_state res"
  pv_now :: "'x event list \<Rightarrow> py_datetime"

type_synonym ('x, 'a) io = "('x event, exn, 'a) eff"

definition resolve :: "'x providers \<Rightarrow> string \<Rightarrow> ('x, profiled_inventory_device) io" where
  "resolve pv name = askE (\<lambda>t. pv_resolve pv t name) (EvResolve name)"

definition resolve_interface ::
    "'x providers \<Rightarrow> profiled_inventory_device \<Rightarrow> string \<Rightarrow> ('x, stable_interface) io" where
  "resolve_interface pv d name =
     askE (\<lambda>t. pv_resolve_interface pv t d name) (EvResolveInterface d name)"

definition reference :: "'x providers \<Rightarrow> profiled_inventory_device \<Rightarrow> ('x, credential_reference) io" where
  "reference pv d = askE (\<lambda>t. pv_reference pv t d) (EvReference d)"

definition load :: "'x providers \<Rightarrow> profiled_inventory_device \<Rightarrow> ('x, device_credentials) io" where
  "load pv d = askE (\<lambda>t. pv_load pv t d) (EvLoad d)"

definition collect ::
    "'x providers \<Rightarrow> profile_read_only_target \<Rightarrow> device_credentials \<Rightarrow> string
      \<Rightarrow> ('x, interface_state) io" where
  "collect pv target credentials interface =
     askE (\<lambda>t. pv_collect pv t target credentials interface) (EvCollect target interface)"

lemma extends_providers [simp, intro]:
  "extends (resolve pv n)" "extends (resolve_interface pv d n)" "extends (reference pv d)"
  "extends (load pv d)" "extends (collect pv tg c i)"
  by (simp_all add: resolve_def resolve_interface_def reference_def load_def collect_def)

text \<open>Which events touch credentials.\<close>

fun is_credential_event :: "'x event \<Rightarrow> bool" where
  "is_credential_event (EvReference _ _) = True"
| "is_credential_event (EvLoad _ _) = True"
| "is_credential_event _ = False"

end
