(* ===== verification/Sample_Delivery.thy ===== *)
theory Sample_Delivery
  imports Providers
begin

text \<open>
  One concrete delivery, used by the witnesses of the properties: the reviewed core router
  (Cisco, targeted inverse) and the reviewed Junos edge router (commit-confirmed) with a
  description intent for each, and providers that answer for them.
\<close>

definition sample_endpoint ::
    "string \<Rightarrow> string \<Rightarrow> management_endpoint_purpose \<Rightarrow> management_service \<Rightarrow> int \<Rightarrow> 32 word
      \<Rightarrow> management_endpoint" where
  "sample_endpoint device ip purpose service port address =
     \<lparr>mp_purpose = purpose,
      mp_binding = \<lparr>mb_physical_attachment =
          \<lparr>si_device = device, si_interface = ''netbox:dcim.interface:11'', si_name = ''mgmt0''\<rparr>,
        mb_l3_endpoint = \<lparr>me_interface =
          \<lparr>si_device = device, si_interface = ''netbox:dcim.interface:11'', si_name = ''mgmt0''\<rparr>,
          me_ip_address_identity = ip,
          me_address = \<lparr>ii_ip = IPv4Address address, ii_prefix_length = 24\<rparr>,
          me_service = service, me_port = port\<rparr>\<rparr>\<rparr>"

definition sample_core :: profiled_inventory_device where
  "sample_core =
     \<lparr>dv_device_identity = ''netbox:dcim.device:1'', dv_logical_name = ''core-02'',
      dv_expected_hostname = ''core-02'',
      dv_platform = \<lparr>nf_object_id = 1, nf_slug = ''cisco-ios-xe'', nf_name = ''Cisco IOS-XE''\<rparr>,
      dv_device_type = \<lparr>nf_object_id = 1, nf_slug = ''c8000v'', nf_name = ''C8000V''\<rparr>,
      dv_role = \<lparr>nf_object_id = 1, nf_slug = ''core'', nf_name = ''Core''\<rparr>,
      dv_operational_role = CORE, dv_network_os = IOSXE,
      dv_automation_profile_id = CAT8000V_IOSXE,
      dv_cml_realization_profile_id = CML_CAT8000V_17_18_02,
      dv_staging_cml_realization_profile_id = None,
      dv_management_endpoints = \<lparr>ms_logical_device = ''netbox:dcim.device:1'',
        ms_automation_profile_id = CAT8000V_IOSXE,
        ms_live = sample_endpoint ''netbox:dcim.device:1'' ''netbox:ipam.ipaddress:5'' LIVE SSH 22 3232235777,
        ms_staging = sample_endpoint ''netbox:dcim.device:1'' ''netbox:ipam.ipaddress:6'' STAGING SSH 22 3232235778\<rparr>,
      dv_protected_interfaces =
        [\<lparr>si_device = ''netbox:dcim.device:1'', si_interface = ''netbox:dcim.interface:11'',
          si_name = ''mgmt0''\<rparr>]\<rparr>"

definition sample_edge :: profiled_inventory_device where
  "sample_edge =
     \<lparr>dv_device_identity = ''netbox:dcim.device:2'', dv_logical_name = ''edge-junos-01'',
      dv_expected_hostname = ''edge-junos-01'',
      dv_platform = \<lparr>nf_object_id = 2, nf_slug = ''juniper-junos'', nf_name = ''Junos''\<rparr>,
      dv_device_type = \<lparr>nf_object_id = 2, nf_slug = ''vjunos-router-lab'', nf_name = ''vJunos''\<rparr>,
      dv_role = \<lparr>nf_object_id = 2, nf_slug = ''edge'', nf_name = ''Edge''\<rparr>,
      dv_operational_role = EDGE, dv_network_os = JUNOS,
      dv_automation_profile_id = VJUNOS_ROUTER,
      dv_cml_realization_profile_id = CML_VJUNOS_ROUTER_23_2R1_15,
      dv_staging_cml_realization_profile_id = None,
      dv_management_endpoints = \<lparr>ms_logical_device = ''netbox:dcim.device:2'',
        ms_automation_profile_id = VJUNOS_ROUTER,
        ms_live = sample_endpoint ''netbox:dcim.device:2'' ''netbox:ipam.ipaddress:7'' LIVE NETCONF 830 3232235779,
        ms_staging = sample_endpoint ''netbox:dcim.device:2'' ''netbox:ipam.ipaddress:8'' STAGING NETCONF 830 3232235780\<rparr>,
      dv_protected_interfaces =
        [\<lparr>si_device = ''netbox:dcim.device:2'', si_interface = ''netbox:dcim.interface:11'',
          si_name = ''mgmt0''\<rparr>]\<rparr>"

definition sample_interface :: "profiled_inventory_device \<Rightarrow> string \<Rightarrow> stable_interface" where
  "sample_interface d name =
     \<lparr>si_device = dv_device_identity d, si_interface = ''netbox:dcim.interface:21'', si_name = name\<rparr>"

definition sample_intent :: "profiled_inventory_device \<Rightarrow> interface_description_intent" where
  "sample_intent d = \<lparr>in_change_id = ''CHG-1'', in_target = dv_logical_name d, in_interface = ''Gi2'',
     in_desired = ''uplink''\<rparr>"

definition sample_state :: "profiled_inventory_device \<Rightarrow> string option \<Rightarrow> interface_state" where
  "sample_state d description =
     \<lparr>is_observed_hostname = dv_expected_hostname d, is_software_version = None,
      is_interface = ''Gi2'', is_exists = True, is_description = description, is_protected = False,
      is_enabled = None, is_operational_status = None, is_ipv4_addresses = []\<rparr>"

definition sample_time :: py_datetime where
  "sample_time = \<lparr>dt_date = (2026, 1, 2), dt_time = (3, 4, 5), dt_microsecond = 0, dt_offset = Some 0\<rparr>"

definition sample_reference :: "string \<Rightarrow> credential_reference" where
  "sample_reference device_id = \<lparr>cf_source = ''openbao'',
     cf_reference = ''openbao:kv-v2:ncdp/devices/'' @ device_id @ ''/ssh''\<rparr>"

definition sample_credentials :: device_credentials where
  "sample_credentials = \<lparr>dc_username = ''ncdp'', dc_password = ''secret''\<rparr>"

text \<open>Providers for one device; \<open>description\<close> is what the collector observes after a history.\<close>

definition sample_providers ::
    "profiled_inventory_device \<Rightarrow> string \<Rightarrow> ('x event list \<Rightarrow> string option) \<Rightarrow> 'x providers" where
  "sample_providers d device_id description =
     \<lparr>pv_resolve = (\<lambda>_ _. Inr d), pv_resolve_interface = (\<lambda>_ _ n. Inr (sample_interface d n)),
      pv_reference = (\<lambda>_ _. Inr (sample_reference device_id)),
      pv_load = (\<lambda>_ _. Inr sample_credentials),
      pv_collect = (\<lambda>t _ _ _. Inr (sample_state d (description t))),
      pv_now = (\<lambda>_. sample_time)\<rparr>"

definition sample_sha :: "string \<Rightarrow> string" where
  "sample_sha s = replicate 64 CHR ''0''"

lemmas sample_defs = sample_providers_def sample_state_def sample_intent_def sample_interface_def

lemma sample_core_valid: "profiled_inventory_device_valid sample_core = Inr ()"
  by code_simp

lemma sample_edge_valid: "profiled_inventory_device_valid sample_edge = Inr ()"
  by code_simp

definition sample_target :: "profiled_inventory_device \<Rightarrow> string \<Rightarrow> int \<Rightarrow> profile_read_only_target" where
  "sample_target d host port =
     \<lparr>rt_logical_name = dv_logical_name d, rt_host = host, rt_port = port,
      rt_expected_hostname = dv_expected_hostname d, rt_protected_interfaces = [''mgmt0''],
      rt_automation_profile_id = dv_automation_profile_id d, rt_network_os = dv_network_os d\<rparr>"

lemma sample_hosts:
  "ip_str (IPv4Address 3232235777) = ''192.168.1.1''"
  "ip_str (IPv4Address 3232235779) = ''192.168.1.3''"
  by (simp_all add: nat_str.simps)

lemma sample_core_live:
  "live_read_only_target sample_core = Inr (sample_target sample_core ''192.168.1.1'' 22)"
proof -
  have "profile_read_only_target_valid (sample_target sample_core ''192.168.1.1'' 22) = Inr ()"
    by code_simp
  moreover have "ip_str (ii_ip (me_address (mb_l3_endpoint (mp_binding (ms_live
      (dv_management_endpoints sample_core)))))) = ''192.168.1.1''"
    unfolding sample_hosts(1) [symmetric] by (simp add: sample_core_def sample_endpoint_def del: ip_str.simps)
  ultimately show ?thesis
    unfolding live_read_only_target_def Let_def sample_target_def
    by (simp add: sample_core_def sample_endpoint_def del: ip_str.simps)
qed

lemma sample_edge_live:
  "live_read_only_target sample_edge = Inr (sample_target sample_edge ''192.168.1.3'' 830)"
proof -
  have "profile_read_only_target_valid (sample_target sample_edge ''192.168.1.3'' 830) = Inr ()"
    by code_simp
  moreover have "ip_str (ii_ip (me_address (mb_l3_endpoint (mp_binding (ms_live
      (dv_management_endpoints sample_edge)))))) = ''192.168.1.3''"
    unfolding sample_hosts(2) [symmetric] by (simp add: sample_edge_def sample_endpoint_def del: ip_str.simps)
  ultimately show ?thesis
    unfolding live_read_only_target_def Let_def sample_target_def
    by (simp add: sample_edge_def sample_endpoint_def del: ip_str.simps)
qed

end
