(* ===== verification/Profiled_Planning.thy ===== *)
theory Profiled_Planning
  imports Sample_Delivery
begin

text \<open>
  \<^verbatim>\<open>profiled_planning.py\<close>: operation admission per profile, the schema-v2 plan and compliance
  record with their digests and validators, and the planner. \<open>sha\<close> is the SHA-256 hex digest of
  the standard library; the digest input is the canonical JSON of \<open>Canonical_Json\<close>.
\<close>

definition hex_digest :: "(string \<Rightarrow> string) \<Rightarrow> bool" where
  "hex_digest sha \<longleftrightarrow> (\<forall>s. length (sha s) = 64 \<and> list_all is_lower_hex (sha s))"

lemma sha256_identity_pattern: "hex_digest sha \<Longrightarrow> sha256_pattern (sha256_identity sha s)"
  by (simp add: hex_digest_def sha256_pattern_def sha256_identity_def starts_with_def)

section \<open>Operation admission\<close>

datatype profiled_operation = INTERFACE_DESCRIPTION

definition profiled_operation_value :: "profiled_operation \<Rightarrow> string" where
  "profiled_operation_value op = (case op of INTERFACE_DESCRIPTION \<Rightarrow> ''interface_description'')"

record profiled_operation_admission =
  oa_operation :: profiled_operation
  oa_automation_profile_id :: automation_profile_id
  oa_network_os :: network_os
  oa_transport_family :: transport_family
  oa_adapter_family :: adapter_family
  oa_renderer_family :: renderer_family
  oa_collector_family :: collector_family
  oa_recovery_family :: recovery_family
  oa_management_service :: management_service
  oa_management_port :: int
  oa_transaction_strategy :: transaction_strategy
  oa_confirmed_timeout_minutes :: "int option"
  oa_confirmation_operation :: "string option"

definition profiled_operation_admission_valid :: "profiled_operation_admission \<Rightarrow> unit res" where
  "profiled_operation_admission_valid a =
    bindS (checks [(\<not> port_in_range (oa_management_port a)
      \<or> oa_confirmed_timeout_minutes a \<notin> {None, Some 5}
      \<or> oa_confirmation_operation a \<notin> {None, Some ''confirm_previous_commit''},
      ValueError ''operation admission field constraint'')]) (\<lambda>_.
    bindS (get_automation_profile (oa_automation_profile_id a)) (\<lambda>p.
    case ap_readiness_services p of
      [s] \<Rightarrow> checks
       [(ap_network_os p \<noteq> oa_network_os a \<or> ap_transport_family p \<noteq> oa_transport_family a
          \<or> ap_adapter_family p \<noteq> oa_adapter_family a
          \<or> ap_renderer_family p \<noteq> oa_renderer_family a
          \<or> ap_collector_family p \<noteq> oa_collector_family a
          \<or> ap_recovery_family p \<noteq> oa_recovery_family a
          \<or> rs_service s \<noteq> oa_management_service a \<or> rs_port s \<noteq> oa_management_port a,
          ValueError ''profiled operation admission disagrees with profile''),
        (oa_operation a \<noteq> INTERFACE_DESCRIPTION,
          ValueError ''profiled write operation is unsupported''),
        (oa_recovery_family a = CISCO_TARGETED_INVERSE
          \<and> (oa_transaction_strategy a \<noteq> CISCO_TARGETED_INVERSE_Strategy
             \<or> oa_confirmed_timeout_minutes a \<noteq> None \<or> oa_confirmation_operation a \<noteq> None
             \<or> oa_management_service a \<noteq> SSH),
          ValueError ''profiled Cisco operation lifecycle is invalid''),
        (oa_recovery_family a = JUNOS_COMMIT_CONFIRMED
          \<and> (oa_transaction_strategy a \<noteq> JUNOS_COMMIT_CONFIRMED_Strategy
             \<or> oa_confirmed_timeout_minutes a \<noteq> Some 5
             \<or> oa_confirmation_operation a \<noteq> Some ''confirm_previous_commit''
             \<or> oa_management_service a \<noteq> NETCONF),
          ValueError ''profiled Junos operation lifecycle is invalid'')]
    | _ \<Rightarrow> Inl (ValueError ''profiled operation management service is ambiguous'')))"

definition operation_admission :: "automation_profile_id \<Rightarrow> profiled_operation_admission res" where
  "operation_admission profile_id =
    bindS (get_automation_profile profile_id) (\<lambda>p.
    case ap_readiness_services p of
      [s] \<Rightarrow>
        (let (strategy, timeout, confirmation) =
           (case ap_recovery_family p of
              CISCO_TARGETED_INVERSE \<Rightarrow> (CISCO_TARGETED_INVERSE_Strategy, None, None)
            | JUNOS_COMMIT_CONFIRMED \<Rightarrow>
                (JUNOS_COMMIT_CONFIRMED_Strategy, Some 5, Some ''confirm_previous_commit''));
           a = \<lparr>oa_operation = INTERFACE_DESCRIPTION, oa_automation_profile_id = profile_id,
             oa_network_os = ap_network_os p, oa_transport_family = ap_transport_family p,
             oa_adapter_family = ap_adapter_family p, oa_renderer_family = ap_renderer_family p,
             oa_collector_family = ap_collector_family p,
             oa_recovery_family = ap_recovery_family p, oa_management_service = rs_service s,
             oa_management_port = rs_port s, oa_transaction_strategy = strategy,
             oa_confirmed_timeout_minutes = timeout, oa_confirmation_operation = confirmation\<rparr>
         in bindS (profiled_operation_admission_valid a) (\<lambda>_. Inr a))
    | _ \<Rightarrow> Inl (RuntimeError ''profiled write profile management service is ambiguous''))"

type_synonym admission_catalog =
  "((automation_profile_id \<times> profiled_operation) \<times> profiled_operation_admission) list"

definition PROFILED_OPERATION_ADMISSIONS :: admission_catalog where
  "PROFILED_OPERATION_ADMISSIONS =
    (case mapS (\<lambda>p. bindS (operation_admission p) (\<lambda>a. Inr ((p, INTERFACE_DESCRIPTION), a)))
            [CAT8000V_IOSXE, VJUNOS_ROUTER, IOSV_159_3_M12, IOSVL2_2020] of
       Inr c \<Rightarrow> c | Inl _ \<Rightarrow> [])"

definition admitted_operation ::
    "automation_profile_id \<Rightarrow> profiled_operation \<Rightarrow> profiled_operation_admission option" where
  "admitted_operation p op = map_of PROFILED_OPERATION_ADMISSIONS (p, op)"

definition admit_profiled_operation ::
    "profiled_inventory_device \<Rightarrow> profiled_operation \<Rightarrow> profiled_operation_admission res" where
  "admit_profiled_operation d op =
    bindS (admit_profiled_subject (dv_device_identity d) (dv_logical_name d)
             (nf_slug (dv_platform d)) (dv_network_os d) (dv_automation_profile_id d)
             PROFILED_MANAGED_POPULATION) (\<lambda>_.
    case admitted_operation (dv_automation_profile_id d) op of
      None \<Rightarrow> Inl (ValueError ''profiled target does not admit the requested write operation'')
    | Some a \<Rightarrow> bindS (live_read_only_target d) (\<lambda>t.
        if rt_port t \<noteq> oa_management_port a
        then Inl (ValueError ''profiled operation endpoint binding is invalid'')
        else Inr a))"

section \<open>The schema-v2 plan\<close>

record profiled_plan_preconditions =
  pc_observed_hostname :: string
  pc_interface_exists :: bool
  pc_interface_protected :: bool
  pc_current_description :: "string option"

record profiled_deployment_plan =
  pp_change_id :: string
  pp_target :: string
  pp_device_identity :: string
  pp_interface :: stable_interface
  pp_platform_slug :: string
  pp_network_os :: network_os
  pp_automation_profile_id :: automation_profile_id
  pp_credential_source :: string
  pp_credential_reference :: string
  pp_host :: string
  pp_port :: int
  pp_expected_hostname :: string
  pp_current_description :: "string option"
  pp_desired_description :: string
  pp_operation_admission :: profiled_operation_admission
  pp_execution_artifact :: config_artifact
  pp_recovery_artifact :: "cisco_config_artifact option"
  pp_preconditions :: profiled_plan_preconditions
  pp_created_at :: py_datetime
  pp_digest :: string

fun jopt :: "('a \<Rightarrow> json) \<Rightarrow> 'a option \<Rightarrow> json" where
  "jopt f None = JNull"
| "jopt f (Some x) = f x"

definition interface_json :: "stable_interface \<Rightarrow> json" where
  "interface_json i = JObj [(''device'', JStr (si_device i)), (''interface'', JStr (si_interface i)),
     (''name'', JStr (si_name i))]"

definition admission_json :: "profiled_operation_admission \<Rightarrow> json" where
  "admission_json a = JObj
    [(''schema_version'', JStr ''1''),
     (''operation'', JStr (profiled_operation_value (oa_operation a))),
     (''automation_profile_id'', JStr (automation_profile_id_value (oa_automation_profile_id a))),
     (''network_os'', JStr (network_os_value (oa_network_os a))),
     (''transport_family'', JStr (transport_family_value (oa_transport_family a))),
     (''adapter_family'', JStr (adapter_family_value (oa_adapter_family a))),
     (''renderer_family'', JStr (renderer_family_value (oa_renderer_family a))),
     (''collector_family'', JStr (collector_family_value (oa_collector_family a))),
     (''recovery_family'', JStr (recovery_family_value (oa_recovery_family a))),
     (''management_service'', JStr (management_service_value (oa_management_service a))),
     (''management_port'', JInt (oa_management_port a)),
     (''transaction_strategy'',
        JStr (transaction_strategy_value (oa_transaction_strategy a))),
     (''confirmed_timeout_minutes'', jopt JInt (oa_confirmed_timeout_minutes a)),
     (''confirmation_operation'', jopt JStr (oa_confirmation_operation a))]"

definition cisco_json :: "cisco_config_artifact \<Rightarrow> json" where
  "cisco_json a =
     JObj [(''parent'', JStr (ca_parent a)), (''lines'', JArr (map JStr (ca_lines a)))]"

fun artifact_json :: "config_artifact \<Rightarrow> json" where
  "artifact_json (Cisco a) = cisco_json a"
| "artifact_json (Junos a) = JObj
    [(''interface'', JStr (ja_interface a)), (''description'', JStr (ja_description a)),
     (''format'', JStr ''xml''), (''load_action'', JStr ''merge''),
     (''config_mode'', JStr ''exclusive''), (''xml'', JStr (ja_xml a))]"

definition preconditions_json :: "profiled_plan_preconditions \<Rightarrow> json" where
  "preconditions_json p = JObj
    [(''observed_hostname'', JStr (pc_observed_hostname p)),
     (''interface_exists'', JBool (pc_interface_exists p)),
     (''interface_protected'', JBool (pc_interface_protected p)),
     (''current_description'', jopt JStr (pc_current_description p))]"

definition plan_fields :: "profiled_deployment_plan \<Rightarrow> (string \<times> json) list" where
  "plan_fields p =
    [(''schema_version'', JStr ''2''), (''plan_type'', JStr ''profiled_deployment_plan''),
     (''change_id'', JStr (pp_change_id p)), (''kind'', JStr ''interface_description''),
     (''target'', JStr (pp_target p)), (''inventory_source'', JStr ''netbox''),
     (''device_identity'', JStr (pp_device_identity p)),
     (''interface'', interface_json (pp_interface p)),
     (''platform_slug'', JStr (pp_platform_slug p)),
     (''network_os'', JStr (network_os_value (pp_network_os p))),
     (''automation_profile_id'',
        JStr (automation_profile_id_value (pp_automation_profile_id p))),
     (''credential_source'', JStr (pp_credential_source p)),
     (''credential_reference'', JStr (pp_credential_reference p)),
     (''host'', JStr (pp_host p)), (''port'', JInt (pp_port p)),
     (''expected_hostname'', JStr (pp_expected_hostname p)),
     (''current_description'', jopt JStr (pp_current_description p)),
     (''desired_description'', JStr (pp_desired_description p)),
     (''operation_admission'', admission_json (pp_operation_admission p)),
     (''execution_artifact'', artifact_json (pp_execution_artifact p)),
     (''recovery_artifact'', jopt cisco_json (pp_recovery_artifact p)),
     (''preconditions'', preconditions_json (pp_preconditions p)),
     (''created_at'', JStr (isoformat (pp_created_at p)))]"

definition plan_digest_input :: "profiled_deployment_plan \<Rightarrow> string" where
  "plan_digest_input p = canonical_json_bytes (JObj (plan_fields p))"

definition plan_calculated_digest :: "(string \<Rightarrow> string) \<Rightarrow> profiled_deployment_plan \<Rightarrow> string" where
  "plan_calculated_digest sha p = sha256_identity sha (plan_digest_input p)"

definition plan_verify_digest :: "(string \<Rightarrow> string) \<Rightarrow> profiled_deployment_plan \<Rightarrow> bool" where
  "plan_verify_digest sha p \<longleftrightarrow> pp_digest p = plan_calculated_digest sha p"

definition openbao_reference :: "string \<Rightarrow> string" where
  "openbao_reference device_id = ''openbao:kv-v2:ncdp/devices/'' @ device_id @ ''/ssh''"

definition expected_credential :: "string \<Rightarrow> string res" where
  "expected_credential device_identity = (case after_last_colon device_identity of
     None \<Rightarrow> Inl (OtherException ''IndexError'')
   | Some i \<Rightarrow> Inr (openbao_reference i))"

definition plan_fields_valid :: "profiled_deployment_plan \<Rightarrow> bool" where
  "plan_fields_valid p \<longleftrightarrow>
     cli_bound_string (pp_change_id p) \<and> cli_bound_string (pp_target p)
     \<and> nonempty_string (pp_device_identity p) \<and> stable_interface_valid (pp_interface p)
     \<and> nonempty_string (pp_platform_slug p) \<and> pp_credential_source p = ''openbao''
     \<and> nonempty_string (pp_credential_reference p) \<and> nonempty_string (pp_host p)
     \<and> port_in_range (pp_port p) \<and> nonempty_string (pp_expected_hostname p)
     \<and> nonempty_string (pc_observed_hostname (pp_preconditions p)) \<and> sha256_pattern (pp_digest p)"

text \<open>The two artifacts a renderer family fixes from the interface and the descriptions.\<close>

definition expected_artifacts ::
    "renderer_family \<Rightarrow> string \<Rightarrow> string option \<Rightarrow> string
      \<Rightarrow> config_artifact \<times> cisco_config_artifact option" where
  "expected_artifacts family interface current desired = (case family of
     JUNOS_XML \<Rightarrow> (Junos (junos_description_artifact interface desired), None)
   | CISCO_IOS_Renderer \<Rightarrow> (Cisco (cisco_description_artifact interface desired),
       Some (cisco_recovery_artifact interface current)))"

definition profiled_plan_valid :: "(string \<Rightarrow> string) \<Rightarrow> profiled_deployment_plan \<Rightarrow> unit res" where
  "profiled_plan_valid sha p =
    bindS (checks [(\<not> plan_fields_valid p, ValueError ''profiled plan field constraint'')]) (\<lambda>_.
    bindS (profiled_operation_admission_valid (pp_operation_admission p)) (\<lambda>_.
    bindS (case pp_execution_artifact p of Cisco _ \<Rightarrow> Inr ()
           | Junos a \<Rightarrow> junos_config_artifact_valid a) (\<lambda>_.
    bindS (admit_profiled_subject (pp_device_identity p) (pp_target p) (pp_platform_slug p)
             (pp_network_os p) (pp_automation_profile_id p) PROFILED_MANAGED_POPULATION) (\<lambda>_.
    bindS (checks
     [(si_device (pp_interface p) \<noteq> pp_device_identity p
        \<or> pp_expected_hostname p \<noteq> pp_target p
        \<or> pc_observed_hostname (pp_preconditions p) \<noteq> pp_expected_hostname p
        \<or> \<not> pc_interface_exists (pp_preconditions p)
        \<or> pc_interface_protected (pp_preconditions p)
        \<or> pc_current_description (pp_preconditions p) \<noteq> pp_current_description p,
        ValueError ''profiled plan identity or preconditions are inconsistent''),
      (\<not> is_ip_address (pp_host p), ValueError ''profiled plan host must be a numeric address''),
      (admitted_operation (pp_automation_profile_id p) INTERFACE_DESCRIPTION
          \<noteq> Some (pp_operation_admission p)
        \<or> pp_port p \<noteq> oa_management_port (pp_operation_admission p),
        ValueError ''profiled plan operation admission is invalid'')]) (\<lambda>_.
    bindS (expected_credential (pp_device_identity p)) (\<lambda>credential.
    bindS (checks [(pp_credential_reference p \<noteq> credential,
      ValueError ''profiled plan credential binding is invalid'')]) (\<lambda>_.
    bindS (desired_description (pp_desired_description p)) (\<lambda>_.
    bindS (case pp_current_description p of None \<Rightarrow> Inr ()
           | Some d \<Rightarrow> bindS (validate_ios_description d) (\<lambda>_. Inr ())) (\<lambda>_. checks
     [((pp_execution_artifact p, pp_recovery_artifact p)
        \<noteq> expected_artifacts (oa_renderer_family (pp_operation_admission p))
            (si_name (pp_interface p)) (pp_current_description p) (pp_desired_description p),
        ValueError ''profiled artifacts are invalid''),
      (pp_digest p \<noteq> plan_calculated_digest sha p,
        ValueError ''profiled plan digest rejected'')])))))))))"

section \<open>The compliance record\<close>

record profiled_compliance_record =
  cr_change_id :: string
  cr_target :: string
  cr_device_identity :: string
  cr_interface :: stable_interface
  cr_platform_slug :: string
  cr_network_os :: network_os
  cr_automation_profile_id :: automation_profile_id
  cr_operation :: profiled_operation
  cr_host :: string
  cr_port :: int
  cr_expected_hostname :: string
  cr_observed_description :: string
  cr_desired_description :: string
  cr_credential_source :: string
  cr_credential_reference :: string
  cr_observed_at :: py_datetime
  cr_digest :: string

definition compliance_fields :: "profiled_compliance_record \<Rightarrow> (string \<times> json) list" where
  "compliance_fields r =
    [(''schema_version'', JStr ''2''), (''record_type'', JStr ''profiled_compliance_record''),
     (''outcome'', JStr ''COMPLIANT''), (''plan'', JNull), (''promotion_minted'', JBool False),
     (''execution_attempted'', JBool False), (''recovery_attempted'', JBool False),
     (''change_id'', JStr (cr_change_id r)), (''target'', JStr (cr_target r)),
     (''device_identity'', JStr (cr_device_identity r)),
     (''interface'', interface_json (cr_interface r)),
     (''platform_slug'', JStr (cr_platform_slug r)),
     (''network_os'', JStr (network_os_value (cr_network_os r))),
     (''automation_profile_id'',
        JStr (automation_profile_id_value (cr_automation_profile_id r))),
     (''operation'', JStr (profiled_operation_value (cr_operation r))),
     (''host'', JStr (cr_host r)), (''port'', JInt (cr_port r)),
     (''expected_hostname'', JStr (cr_expected_hostname r)),
     (''observed_description'', JStr (cr_observed_description r)),
     (''desired_description'', JStr (cr_desired_description r)),
     (''credential_source'', JStr (cr_credential_source r)),
     (''credential_reference'', JStr (cr_credential_reference r)),
     (''observed_at'', JStr (isoformat (cr_observed_at r)))]"

definition compliance_calculated_digest ::
    "(string \<Rightarrow> string) \<Rightarrow> profiled_compliance_record \<Rightarrow> string" where
  "compliance_calculated_digest sha r =
     sha256_identity sha (canonical_json_bytes (JObj (compliance_fields r)))"

definition compliance_fields_valid :: "profiled_compliance_record \<Rightarrow> bool" where
  "compliance_fields_valid r \<longleftrightarrow>
     cli_bound_string (cr_change_id r) \<and> cli_bound_string (cr_target r)
     \<and> nonempty_string (cr_device_identity r) \<and> stable_interface_valid (cr_interface r)
     \<and> nonempty_string (cr_platform_slug r) \<and> nonempty_string (cr_host r)
     \<and> port_in_range (cr_port r) \<and> nonempty_string (cr_expected_hostname r)
     \<and> cr_credential_source r = ''openbao'' \<and> nonempty_string (cr_credential_reference r)
     \<and> dt_offset (cr_observed_at r) \<noteq> None \<and> sha256_pattern (cr_digest r)"

definition profiled_compliance_valid ::
    "(string \<Rightarrow> string) \<Rightarrow> profiled_compliance_record \<Rightarrow> unit res" where
  "profiled_compliance_valid sha r =
    bindS (checks [(\<not> compliance_fields_valid r, ValueError ''compliance field constraint'')]) (\<lambda>_.
    bindS (admit_profiled_subject (cr_device_identity r) (cr_target r) (cr_platform_slug r)
             (cr_network_os r) (cr_automation_profile_id r) PROFILED_MANAGED_POPULATION) (\<lambda>_.
    bindS (expected_credential (cr_device_identity r)) (\<lambda>credential.
    bindS (checks
     [(case admitted_operation (cr_automation_profile_id r) (cr_operation r) of
         None \<Rightarrow> True
       | Some a \<Rightarrow> cr_network_os r \<noteq> oa_network_os a \<or> cr_port r \<noteq> oa_management_port a
           \<or> si_device (cr_interface r) \<noteq> cr_device_identity r
           \<or> cr_expected_hostname r \<noteq> cr_target r
           \<or> cr_observed_description r \<noteq> cr_desired_description r
           \<or> cr_credential_reference r \<noteq> credential
           \<or> cr_digest r \<noteq> compliance_calculated_digest sha r,
       ValueError ''profiled compliance binding rejected''),
      (\<not> is_ip_address (cr_host r), ValueError ''host'')])
     (\<lambda>_. desired_description (cr_desired_description r)))))"

definition build_compliance ::
    "(string \<Rightarrow> string) \<Rightarrow> interface_description_intent \<Rightarrow> profiled_inventory_device
      \<Rightarrow> stable_interface \<Rightarrow> interface_state \<Rightarrow> credential_reference \<Rightarrow> py_datetime
      \<Rightarrow> profiled_compliance_record res" where
  "build_compliance sha intent d interface state credential observed_at =
    bindS (live_read_only_target d) (\<lambda>t.
    case is_description state of
      None \<Rightarrow> Inl (ValueError ''observed_description'')
    | Some observed \<Rightarrow>
      (let r = \<lparr>cr_change_id = in_change_id intent, cr_target = dv_logical_name d,
            cr_device_identity = dv_device_identity d, cr_interface = interface,
            cr_platform_slug = nf_slug (dv_platform d), cr_network_os = dv_network_os d,
            cr_automation_profile_id = dv_automation_profile_id d,
            cr_operation = INTERFACE_DESCRIPTION, cr_host = rt_host t, cr_port = rt_port t,
            cr_expected_hostname = dv_expected_hostname d, cr_observed_description = observed,
            cr_desired_description = in_desired intent,
            cr_credential_source = cf_source credential,
            cr_credential_reference = cf_reference credential, cr_observed_at = observed_at,
            cr_digest = ''''\<rparr>;
         signed = r\<lparr>cr_digest := compliance_calculated_digest sha r\<rparr>
       in bindS (profiled_compliance_valid sha signed) (\<lambda>_. Inr signed)))"

section \<open>Binding assertions of the planner\<close>

definition normalized_interface :: "string \<Rightarrow> string" where
  "normalized_interface name = casefold (filter (\<lambda>c. \<not> is_space c) name)"

definition assert_profiled_target_binding ::
    "interface_description_intent \<Rightarrow> profiled_inventory_device \<Rightarrow> unit res" where
  "assert_profiled_target_binding intent d = checks
    [(dv_logical_name d \<noteq> in_target intent,
      ValueError ''profiled planning target identity rejected'')]"

definition assert_profiled_interface_binding ::
    "interface_description_intent \<Rightarrow> profiled_inventory_device \<Rightarrow> stable_interface \<Rightarrow> unit res" where
  "assert_profiled_interface_binding intent d i = checks
    [(si_device i \<noteq> dv_device_identity d \<or> si_name i \<noteq> in_interface intent,
        ValueError ''profiled interface identity rejected''),
     (si_interface i \<in> set (map si_interface (dv_protected_interfaces d))
        \<or> normalized_interface (si_name i)
            \<in> set (map (\<lambda>p. normalized_interface (si_name p)) (dv_protected_interfaces d)),
        ValueError ''requested interface is protected by inventory policy'')]"

definition assert_profiled_safe_state ::
    "interface_description_intent \<Rightarrow> profiled_inventory_device \<Rightarrow> stable_interface
      \<Rightarrow> interface_state \<Rightarrow> unit res" where
  "assert_profiled_safe_state intent d i st =
    bindS (assert_profiled_target_binding intent d) (\<lambda>_.
    bindS (admit_profiled_operation d INTERFACE_DESCRIPTION) (\<lambda>_.
    bindS (assert_profiled_interface_binding intent d i) (\<lambda>_. checks
     [(is_observed_hostname st \<noteq> dv_expected_hostname d \<or> is_interface st \<noteq> in_interface intent
        \<or> \<not> is_exists st, ValueError ''profiled planning observation identity rejected''),
      (is_protected st, ValueError ''requested interface is protected by inventory policy'')])))"

definition validate_credential_reference ::
    "profiled_inventory_device \<Rightarrow> credential_reference \<Rightarrow> credential_reference res" where
  "validate_credential_reference d c =
    bindS (expected_credential (dv_device_identity d)) (\<lambda>expected.
    bindS (checks [(cf_source c \<noteq> ''openbao'' \<or> cf_reference c \<noteq> expected,
      ValueError ''profiled credential binding rejected'')]) (\<lambda>_. Inr c))"

section \<open>Plan construction\<close>

text \<open>The values of the new plan, before and after its digest is known.\<close>

definition unsigned_plan ::
    "interface_description_intent \<Rightarrow> profiled_inventory_device \<Rightarrow> stable_interface
      \<Rightarrow> interface_state \<Rightarrow> credential_reference \<Rightarrow> py_datetime \<Rightarrow> profiled_operation_admission
      \<Rightarrow> profile_read_only_target \<Rightarrow> profiled_deployment_plan" where
  "unsigned_plan intent d i st credential created admission target =
    (let (execution, recovery) = expected_artifacts (oa_renderer_family admission) (si_name i)
           (is_description st) (in_desired intent)
     in \<lparr>pp_change_id = in_change_id intent, pp_target = dv_logical_name d,
         pp_device_identity = dv_device_identity d, pp_interface = i,
         pp_platform_slug = nf_slug (dv_platform d), pp_network_os = dv_network_os d,
         pp_automation_profile_id = dv_automation_profile_id d,
         pp_credential_source = cf_source credential,
         pp_credential_reference = cf_reference credential, pp_host = rt_host target,
         pp_port = rt_port target, pp_expected_hostname = dv_expected_hostname d,
         pp_current_description = is_description st, pp_desired_description = in_desired intent,
         pp_operation_admission = admission, pp_execution_artifact = execution,
         pp_recovery_artifact = recovery,
         pp_preconditions = \<lparr>pc_observed_hostname = is_observed_hostname st,
           pc_interface_exists = is_exists st, pc_interface_protected = is_protected st,
           pc_current_description = is_description st\<rparr>,
         pp_created_at = created, pp_digest = ''''\<rparr>)"

definition build_profiled_plan ::
    "(string \<Rightarrow> string) \<Rightarrow> interface_description_intent \<Rightarrow> profiled_inventory_device
      \<Rightarrow> stable_interface \<Rightarrow> interface_state \<Rightarrow> credential_reference \<Rightarrow> py_datetime
      \<Rightarrow> profiled_deployment_plan res" where
  "build_profiled_plan sha intent d i st credential created =
    bindS (admit_profiled_operation d INTERFACE_DESCRIPTION) (\<lambda>admission.
    bindS (assert_profiled_safe_state intent d i st) (\<lambda>_.
    bindS (validate_credential_reference d credential) (\<lambda>_.
    bindS (case is_description st of None \<Rightarrow> Inr ()
           | Some v \<Rightarrow> (case desired_description v of Inr _ \<Rightarrow> Inr ()
               | Inl _ \<Rightarrow> Inl (ValueError ''observed description is unsafe for targeted recovery'')))
     (\<lambda>_.
    bindS (checks [(is_description st = Some (in_desired intent),
      ValueError ''interface is already compliant'')]) (\<lambda>_.
    bindS (live_read_only_target d) (\<lambda>target.
    let unsigned = unsigned_plan intent d i st credential created admission target;
        plan = unsigned\<lparr>pp_digest := plan_calculated_digest sha unsigned\<rparr>
    in bindS (profiled_plan_valid sha plan) (\<lambda>_. Inr plan)))))))"

record profiled_planning_result =
  pr_plan :: "profiled_deployment_plan option"
  pr_state :: interface_state
  pr_credential :: credential_reference
  pr_message :: string
  pr_compliance :: "profiled_compliance_record option"

definition timestamp :: "'x providers \<Rightarrow> py_datetime option \<Rightarrow> ('x, py_datetime) io" where
  "timestamp pv created = (\<lambda>t. (Inr (case created of Some c \<Rightarrow> c | None \<Rightarrow> pv_now pv t), t))"

definition plan_profiled_change ::
    "(string \<Rightarrow> string) \<Rightarrow> 'x providers \<Rightarrow> interface_description_intent \<Rightarrow> py_datetime option
      \<Rightarrow> ('x, profiled_planning_result) io" where
  "plan_profiled_change sha pv intent created_at =
    bindE (resolve pv (in_target intent)) (\<lambda>d.
    bindE (liftE (assert_profiled_target_binding intent d)) (\<lambda>_.
    bindE (liftE (admit_profiled_operation d INTERFACE_DESCRIPTION)) (\<lambda>_.
    bindE (resolve_interface pv d (in_interface intent)) (\<lambda>i.
    bindE (liftE (assert_profiled_interface_binding intent d i)) (\<lambda>_.
    bindE (reference pv d) (\<lambda>offered.
    bindE (liftE (validate_credential_reference d offered)) (\<lambda>credential.
    bindE (load pv d) (\<lambda>credentials.
    bindE (liftE (live_read_only_target d)) (\<lambda>target.
    bindE (collect pv target credentials (in_interface intent)) (\<lambda>st.
    bindE (liftE (assert_profiled_safe_state intent d i st)) (\<lambda>_.
    bindE (timestamp pv created_at) (\<lambda>time.
    if is_description st = Some (in_desired intent)
    then bindE (liftE (build_compliance sha intent d i st credential time)) (\<lambda>c.
      ret \<lparr>pr_plan = None, pr_state = st, pr_credential = credential,
           pr_message = ''interface is already compliant; no profiled plan produced'',
           pr_compliance = Some c\<rparr>)
    else bindE (liftE (build_profiled_plan sha intent d i st credential time)) (\<lambda>p.
      ret \<lparr>pr_plan = Some p, pr_state = st, pr_credential = credential,
           pr_message = ''profiled immutable plan created'', pr_compliance = None\<rparr>)))))))))))))"

section \<open>The admission catalog, evaluated\<close>


lemma get_automation_profile_simps [simp]:
  "get_automation_profile CAT8000V_IOSXE = Inr (snd (AUTOMATION_PROFILE_CATALOG ! 0))"
  "get_automation_profile IOSV_159_3_M12 = Inr (snd (AUTOMATION_PROFILE_CATALOG ! 1))"
  "get_automation_profile IOSVL2_2020 = Inr (snd (AUTOMATION_PROFILE_CATALOG ! 2))"
  "get_automation_profile VJUNOS_ROUTER = Inr (snd (AUTOMATION_PROFILE_CATALOG ! 3))"
  by (simp_all add: get_automation_profile_def AUTOMATION_PROFILE_CATALOG_def)

definition cisco_admission :: "automation_profile_id \<Rightarrow> network_os \<Rightarrow> profiled_operation_admission" where
  "cisco_admission p os = \<lparr>oa_operation = INTERFACE_DESCRIPTION, oa_automation_profile_id = p,
     oa_network_os = os, oa_transport_family = ANSIBLE_NETWORK_CLI,
     oa_adapter_family = CISCO_IOS_Adapter, oa_renderer_family = CISCO_IOS_Renderer,
     oa_collector_family = CISCO_IOS_FACTS, oa_recovery_family = CISCO_TARGETED_INVERSE,
     oa_management_service = SSH, oa_management_port = 22,
     oa_transaction_strategy = CISCO_TARGETED_INVERSE_Strategy,
     oa_confirmed_timeout_minutes = None, oa_confirmation_operation = None\<rparr>"

definition junos_admission :: profiled_operation_admission where
  "junos_admission = \<lparr>oa_operation = INTERFACE_DESCRIPTION, oa_automation_profile_id = VJUNOS_ROUTER,
     oa_network_os = JUNOS, oa_transport_family = JUNOS_PYEZ_NETCONF,
     oa_adapter_family = JUNOS_PYEZ, oa_renderer_family = JUNOS_XML,
     oa_collector_family = JUNOS_RPC, oa_recovery_family = JUNOS_COMMIT_CONFIRMED,
     oa_management_service = NETCONF, oa_management_port = 830,
     oa_transaction_strategy = JUNOS_COMMIT_CONFIRMED_Strategy,
     oa_confirmed_timeout_minutes = Some 5,
     oa_confirmation_operation = Some ''confirm_previous_commit''\<rparr>"

lemma operation_admission_simps [simp]:
  "operation_admission CAT8000V_IOSXE = Inr (cisco_admission CAT8000V_IOSXE IOSXE)"
  "operation_admission IOSV_159_3_M12 = Inr (cisco_admission IOSV_159_3_M12 IOS)"
  "operation_admission IOSVL2_2020 = Inr (cisco_admission IOSVL2_2020 IOS)"
  "operation_admission VJUNOS_ROUTER = Inr junos_admission"
  by (simp_all add: operation_admission_def AUTOMATION_PROFILE_CATALOG_def service_expectation_def
      profiled_operation_admission_valid_def port_in_range_def cisco_admission_def junos_admission_def)

lemma admitted_operation_simps [simp]:
  "admitted_operation CAT8000V_IOSXE op = Some (cisco_admission CAT8000V_IOSXE IOSXE)"
  "admitted_operation IOSV_159_3_M12 op = Some (cisco_admission IOSV_159_3_M12 IOS)"
  "admitted_operation IOSVL2_2020 op = Some (cisco_admission IOSVL2_2020 IOS)"
  "admitted_operation VJUNOS_ROUTER op = Some junos_admission"
  by (cases op; simp add: admitted_operation_def PROFILED_OPERATION_ADMISSIONS_def)+

lemma admitted_operation_valid:
  "admitted_operation p op = Some a \<Longrightarrow> profiled_operation_admission_valid a = Inr ()"
  by (cases p) (auto simp: AUTOMATION_PROFILE_CATALOG_def service_expectation_def
      profiled_operation_admission_valid_def port_in_range_def cisco_admission_def junos_admission_def)


section \<open>What a digest binds\<close>

lemma value_inject [simp]:
  "network_os_value a = network_os_value b \<longleftrightarrow> a = b"
  "automation_profile_id_value c = automation_profile_id_value d \<longleftrightarrow> c = d"
  "transport_family_value e = transport_family_value f \<longleftrightarrow> e = f"
  "adapter_family_value g = adapter_family_value h \<longleftrightarrow> g = h"
  "renderer_family_value i = renderer_family_value j \<longleftrightarrow> i = j"
  "collector_family_value k = collector_family_value l \<longleftrightarrow> k = l"
  "recovery_family_value m = recovery_family_value n \<longleftrightarrow> m = n"
  "management_service_value p = management_service_value q \<longleftrightarrow> p = q"
  "transaction_strategy_value r = transaction_strategy_value s \<longleftrightarrow> r = s"
  "profiled_operation_value u = profiled_operation_value v \<longleftrightarrow> u = v"
  by ((cases a; cases b; simp add: profiled_operation_value_def),
      (cases c; cases d; simp add: profiled_operation_value_def),
      (cases e; cases f; simp add: profiled_operation_value_def),
      (cases g; cases h; simp add: profiled_operation_value_def),
      (cases i; cases j; simp add: profiled_operation_value_def),
      (cases k; cases l; simp add: profiled_operation_value_def),
      (cases m; cases n; simp add: profiled_operation_value_def),
      (cases p; cases q; simp add: profiled_operation_value_def),
      (cases r; cases s; simp add: profiled_operation_value_def),
      (cases u; cases v; simp add: profiled_operation_value_def))

lemma sort_keys_jopt [simp]:
  "sort_keys (jopt JStr x) = jopt JStr x" "sort_keys (jopt JInt y) = jopt JInt y"
  by (cases x; simp) (cases y; simp)

lemma jopt_inject [simp]:
  "jopt JStr x = jopt JStr y \<longleftrightarrow> x = y" "jopt JInt u = jopt JInt v \<longleftrightarrow> u = v"
  by (cases x; cases y; simp) (cases u; cases v; simp)

lemma sorted_objects_eq:
  assumes "sort_keys (JObj kvs) = sort_keys (JObj kvs')"
    and "distinct (map fst kvs)" and "distinct (map fst kvs')"
  shows "map_option sort_keys (map_of kvs k) = map_option sort_keys (map_of kvs' k)"
  using assms by (intro canonical_fields_eq) (simp_all add: canonical_json_bytes_def)

lemma interface_json_inject:
  assumes "sort_keys (interface_json i) = sort_keys (interface_json j)"
  shows "i = j"
proof -
  note eq = sorted_objects_eq [OF assms [unfolded interface_json_def]]
  show ?thesis
    using eq [of "''device''"] eq [of "''interface''"] eq [of "''name''"] by simp
qed

lemma cisco_json_inject:
  assumes "sort_keys (cisco_json a) = sort_keys (cisco_json b)"
  shows "a = b"
proof -
  note eq = sorted_objects_eq [OF assms [unfolded cisco_json_def]]
  have "map JStr (ca_lines a) = map JStr (ca_lines b)"
    using eq [of "''lines''"] by (simp add: comp_def)
  then have "ca_lines a = ca_lines b" by (rule map_injective) (simp add: inj_def)
  then show ?thesis using eq [of "''parent''"] by simp
qed

lemma artifact_json_inject:
  assumes "sort_keys (artifact_json a) = sort_keys (artifact_json b)"
  shows "a = b"
proof (cases a; cases b)
  fix x y assume [simp]: "a = Cisco x" "b = Cisco y"
  from assms cisco_json_inject show ?thesis by simp
next
  fix x y assume [simp]: "a = Junos x" "b = Junos y"
  note eq = sorted_objects_eq [OF assms [simplified artifact_json.simps \<open>a = _\<close> \<open>b = _\<close>]]
  show ?thesis
    using eq [of "''interface''"] eq [of "''description''"] eq [of "''xml''"] by simp
next
  fix x y assume [simp]: "a = Cisco x" "b = Junos y"
  note eq = sorted_objects_eq [OF assms [simplified artifact_json.simps \<open>a = _\<close> \<open>b = _\<close> cisco_json_def]]
  show ?thesis using eq [of "''parent''"] by simp
next
  fix x y assume [simp]: "a = Junos x" "b = Cisco y"
  note eq = sorted_objects_eq [OF assms [simplified artifact_json.simps \<open>a = _\<close> \<open>b = _\<close> cisco_json_def]]
  show ?thesis using eq [of "''parent''"] by simp
qed

lemma preconditions_json_inject:
  assumes "sort_keys (preconditions_json p) = sort_keys (preconditions_json q)"
  shows "p = q"
proof -
  note eq = sorted_objects_eq [OF assms [unfolded preconditions_json_def]]
  show ?thesis
    using eq [of "''observed_hostname''"] eq [of "''interface_exists''"]
      eq [of "''interface_protected''"] eq [of "''current_description''"] by simp
qed

lemma admission_json_inject:
  assumes "sort_keys (admission_json a) = sort_keys (admission_json b)"
  shows "a = b"
proof -
  note eq = sorted_objects_values [OF assms [unfolded admission_json_def], simplified]
  show ?thesis using eq by simp
qed

lemma jopt_cisco_inject:
  "sort_keys (jopt cisco_json x) = sort_keys (jopt cisco_json y) \<Longrightarrow> x = y"
  using cisco_json_inject by (cases x; cases y) (auto simp: cisco_json_def)

lemma plan_fields_distinct [simp]: "distinct (map fst (plan_fields p))"
  by (simp add: plan_fields_def)

lemma sort_keys_of_input:
  assumes "plan_digest_input p = plan_digest_input q"
  shows "sort_keys (JObj (plan_fields p)) = sort_keys (JObj (plan_fields q))"
  using assms unfolding plan_digest_input_def canonical_json_bytes_def by (rule json_print_inject)

lemma plan_digest_input_binds_plan:
  assumes "plan_digest_input p = plan_digest_input q"
  shows "p\<lparr>pp_digest := d, pp_created_at := c\<rparr> = q\<lparr>pp_digest := d, pp_created_at := c\<rparr>
    \<and> isoformat (pp_created_at p) = isoformat (pp_created_at q)"
proof -
  have "map fst (plan_fields p) = map fst (plan_fields q)" by (simp add: plan_fields_def)
  note pointwise = sorted_objects_values [OF sort_keys_of_input [OF assms] this plan_fields_distinct]
  note eq = pointwise [unfolded plan_fields_def list.map snd_conv list.inject]
  have "pp_interface p = pp_interface q"
    by (rule interface_json_inject) (use eq in blast)
  moreover have "pp_operation_admission p = pp_operation_admission q"
    by (rule admission_json_inject) (use eq in blast)
  moreover have "pp_execution_artifact p = pp_execution_artifact q"
    by (rule artifact_json_inject) (use eq in blast)
  moreover have "pp_recovery_artifact p = pp_recovery_artifact q"
    by (rule jopt_cisco_inject) (use eq in blast)
  moreover have "pp_preconditions p = pp_preconditions q"
    by (rule preconditions_json_inject) (use eq in blast)
  ultimately show ?thesis using eq by simp
qed


section \<open>The builder is sound and complete for its guards\<close>

lemma admit_profiled_operation_Inr:
  assumes "admit_profiled_operation d op = Inr a"
  shows "admitted_operation (dv_automation_profile_id d) op = Some a"
    and "\<exists>t. live_read_only_target d = Inr t \<and> rt_port t = oa_management_port a"
    and "admit_profiled_subject (dv_device_identity d) (dv_logical_name d) (nf_slug (dv_platform d))
           (dv_network_os d) (dv_automation_profile_id d) PROFILED_MANAGED_POPULATION = Inr ()"
  using assms by (auto simp: admit_profiled_operation_def bindS_Inr_iff split: option.splits)

lemma cli_bound_nonempty: "cli_bound_string s \<Longrightarrow> nonempty_string s"
  by (simp add: cli_bound_string_def)

lemma openbao_reference_nonempty [simp]: "nonempty_string (openbao_reference j)"
  by (rule nonempty_stringI) (simp_all add: openbao_reference_def is_white_space_def code_def)

lemma expected_artifacts_valid:
  assumes "cli_bound_string i" and "desired_description d = Inr ()"
    and "expected_artifacts family i current d = (Junos a, r)"
  shows "junos_config_artifact_valid a = Inr ()"
  using assms junos_description_artifact_valid
  by (auto simp: expected_artifacts_def split: renderer_family.splits)

lemma plan_digest_input_digest [simp]: "plan_digest_input (p\<lparr>pp_digest := x\<rparr>) = plan_digest_input p"
  by (simp add: plan_digest_input_def plan_fields_def)

lemma plan_calculated_digest_digest [simp]:
  "plan_calculated_digest sha (p\<lparr>pp_digest := x\<rparr>) = plan_calculated_digest sha p"
  by (simp add: plan_calculated_digest_def)

definition builder_inputs_valid ::
    "interface_description_intent \<Rightarrow> profiled_inventory_device \<Rightarrow> stable_interface \<Rightarrow> bool" where
  "builder_inputs_valid intent d i \<longleftrightarrow>
     intent_valid intent = Inr () \<and> profiled_inventory_device_valid d = Inr ()
     \<and> stable_interface_valid i \<and> dv_expected_hostname d = dv_logical_name d"

definition builder_guards ::
    "interface_description_intent \<Rightarrow> profiled_inventory_device \<Rightarrow> stable_interface
      \<Rightarrow> interface_state \<Rightarrow> credential_reference \<Rightarrow> bool" where
  "builder_guards intent d i st credential \<longleftrightarrow>
     ok (admit_profiled_operation d INTERFACE_DESCRIPTION)
     \<and> ok (assert_profiled_safe_state intent d i st)
     \<and> ok (validate_credential_reference d credential)
     \<and> (\<forall>v \<in> set_option (is_description st). desired_description v = Inr ())
     \<and> is_description st \<noteq> Some (in_desired intent)"

lemma ok_Inr: "ok r \<longleftrightarrow> (\<exists>x. r = Inr x)"
  by (cases r) auto

lemma build_profiled_plan_guarded:
  assumes "build_profiled_plan sha intent d i st credential created = Inr p"
  shows "builder_guards intent d i st credential"
  using assms
  by (auto simp: build_profiled_plan_def builder_guards_def bindS_Inr_iff ok_Inr Let_def
      split: option.splits sum.splits)

lemma built_plan_valid:
  assumes sha: "hex_digest sha" and valid: "builder_inputs_valid intent d i"
    and guards: "builder_guards intent d i st credential"
    and a: "admit_profiled_operation d INTERFACE_DESCRIPTION = Inr a"
    and t: "live_read_only_target d = Inr t"
    and u: "u = unsigned_plan intent d i st credential created a t"
  shows "profiled_plan_valid sha (u\<lparr>pp_digest := plan_calculated_digest sha u\<rparr>) = Inr ()"
proof -
  note adm = admit_profiled_operation_Inr [OF a]
  note live = live_read_only_target_Inr [OF t]
  from adm(2) t have port: "rt_port t = oa_management_port a" by auto
  from guards have safe: "assert_profiled_safe_state intent d i st = Inr ()"
    by (auto simp: builder_guards_def ok_Inr)
  then have bind: "dv_logical_name d = in_target intent" "si_device i = dv_device_identity d"
      "si_name i = in_interface intent" "is_observed_hostname st = dv_expected_hostname d"
      "is_exists st" "\<not> is_protected st"
    by (auto simp: assert_profiled_safe_state_def assert_profiled_target_binding_def
        assert_profiled_interface_binding_def bindS_Inr_iff)
  from guards have cred: "cf_source credential = ''openbao''"
      "expected_credential (dv_device_identity d) = Inr (cf_reference credential)"
    by (auto simp: builder_guards_def ok_Inr validate_credential_reference_def bindS_Inr_iff)
  have cred_ne: "nonempty_string (cf_reference credential)"
  proof -
    from cred(2) obtain j where "openbao_reference j = cf_reference credential"
      by (auto simp: expected_credential_def split: option.splits)
    then show ?thesis using openbao_reference_nonempty by metis
  qed
  from valid have int: "cli_bound_string (in_change_id intent)" "cli_bound_string (in_target intent)"
      "cli_bound_string (in_interface intent)" "desired_description (in_desired intent) = Inr ()"
    by (auto simp: builder_inputs_valid_def intent_valid_def bindS_Inr_iff)
  from valid have dev: "netbox_identity ''dcim.device'' (dv_device_identity d)"
      "netbox_fact_valid (dv_platform d)" "stable_interface_valid i"
      "dv_expected_hostname d = dv_logical_name d"
    by (auto simp: builder_inputs_valid_def profiled_inventory_device_valid_def bindS_Inr_iff)
  have dev_ne: "nonempty_string (dv_device_identity d)"
    using dev(1) by (rule netbox_identity_nonempty)
  have fields: "plan_fields_valid (u\<lparr>pp_digest := plan_calculated_digest sha u\<rparr>)"
    using int dev dev_ne bind cred cred_ne live sha256_identity_pattern [OF sha] cli_bound_nonempty
    by (auto simp: plan_fields_valid_def u unsigned_plan_def Let_def plan_calculated_digest_def
        netbox_fact_valid_def slug_def split: prod.splits)
  define v where "v = u\<lparr>pp_digest := plan_calculated_digest sha u\<rparr>"
  have art: "pp_execution_artifact v = fst (expected_artifacts (oa_renderer_family a) (si_name i)
      (is_description st) (in_desired intent))"
    "pp_recovery_artifact v = snd (expected_artifacts (oa_renderer_family a) (si_name i)
      (is_description st) (in_desired intent))"
    by (simp_all add: v_def u unsigned_plan_def split: prod.splits)
  have junos: "(case pp_execution_artifact v of Cisco _ \<Rightarrow> Inr () | Junos x \<Rightarrow> junos_config_artifact_valid x) = Inr ()"
    using expected_artifacts_valid [of "si_name i" "in_desired intent"] int bind art
    by (auto split: config_artifact.splits) (metis prod.collapse)
  have cur: "(case is_description st of None \<Rightarrow> Inr ()
      | Some w \<Rightarrow> bindS (validate_ios_description w) (\<lambda>_. Inr ())) = Inr ()"
    using guards
    by (auto simp: builder_guards_def desired_description_ok bindS_Inr_iff validate_ios_description_ok
        split: option.splits)
  have rest: "pp_operation_admission v = a" "pp_device_identity v = dv_device_identity d"
    "pp_target v = dv_logical_name d" "pp_platform_slug v = nf_slug (dv_platform d)"
    "pp_network_os v = dv_network_os d" "pp_automation_profile_id v = dv_automation_profile_id d"
    "pp_interface v = i" "pp_expected_hostname v = dv_expected_hostname d"
    "pp_preconditions v = \<lparr>pc_observed_hostname = is_observed_hostname st,
       pc_interface_exists = is_exists st, pc_interface_protected = is_protected st,
       pc_current_description = is_description st\<rparr>"
    "pp_current_description v = is_description st" "pp_host v = rt_host t" "pp_port v = rt_port t"
    "pp_credential_reference v = cf_reference credential"
    "pp_desired_description v = in_desired intent"
    by (simp_all add: v_def u unsigned_plan_def split: prod.splits)
  have digest: "pp_digest v = plan_calculated_digest sha v" by (simp add: v_def)
  have fields': "plan_fields_valid v" using fields by (simp add: v_def)
  have "profiled_plan_valid sha v = Inr ()"
    unfolding profiled_plan_valid_def
    using fields' admitted_operation_valid [OF adm(1)] junos adm dev bind live port cred int cur digest
    by (simp add: rest art)
  then show ?thesis by (simp add: v_def)
qed

lemma builder_succeeds:
  assumes "hex_digest sha" and "builder_inputs_valid intent d i"
    and "builder_guards intent d i st credential"
  obtains a t where "admit_profiled_operation d INTERFACE_DESCRIPTION = Inr a"
    and "live_read_only_target d = Inr t"
    and "build_profiled_plan sha intent d i st credential created
       = (let u = unsigned_plan intent d i st credential created a t
          in Inr (u\<lparr>pp_digest := plan_calculated_digest sha u\<rparr>))"
proof -
  from assms(3) obtain a where a: "admit_profiled_operation d INTERFACE_DESCRIPTION = Inr a"
    by (auto simp: builder_guards_def ok_Inr)
  then obtain t where t: "live_read_only_target d = Inr t"
    using admit_profiled_operation_Inr(2) by blast
  have "build_profiled_plan sha intent d i st credential created
     = (let u = unsigned_plan intent d i st credential created a t
        in Inr (u\<lparr>pp_digest := plan_calculated_digest sha u\<rparr>))"
    using assms(3) a t built_plan_valid [OF assms a t refl, of created]
    by (auto simp: build_profiled_plan_def builder_guards_def ok_Inr Let_def split: option.splits)
  with a t show thesis by (rule that)
qed

lemma build_profiled_plan_iff:
  assumes "hex_digest sha" and "builder_inputs_valid intent d i"
  shows "builder_guards intent d i st credential
    \<longleftrightarrow> (\<exists>p. build_profiled_plan sha intent d i st credential created = Inr p
         \<and> profiled_plan_valid sha p = Inr () \<and> pp_desired_description p = in_desired intent
         \<and> pp_current_description p = is_description st \<and> pp_interface p = i)"
proof
  assume g: "builder_guards intent d i st credential"
  from builder_succeeds [OF assms g] obtain a t where
    at: "admit_profiled_operation d INTERFACE_DESCRIPTION = Inr a" "live_read_only_target d = Inr t"
    and b: "build_profiled_plan sha intent d i st credential created
       = (let u = unsigned_plan intent d i st credential created a t
          in Inr (u\<lparr>pp_digest := plan_calculated_digest sha u\<rparr>))" .
  from b built_plan_valid [OF assms g at refl, of created]
  show "\<exists>p. build_profiled_plan sha intent d i st credential created = Inr p
         \<and> profiled_plan_valid sha p = Inr () \<and> pp_desired_description p = in_desired intent
         \<and> pp_current_description p = is_description st \<and> pp_interface p = i"
    by (simp add: Let_def unsigned_plan_def split: prod.splits)
qed (use build_profiled_plan_guarded in blast)

section \<open>The planner\<close>

datatype call_kind =
  Resolve_Call | Interface_Call | Reference_Call | Load_Call | Collect_Call | Other_Call

fun call_of :: "'x event \<Rightarrow> call_kind" where
  "call_of (EvResolve _ _) = Resolve_Call"
| "call_of (EvResolveInterface _ _ _) = Interface_Call"
| "call_of (EvReference _ _) = Reference_Call"
| "call_of (EvLoad _ _) = Load_Call"
| "call_of (EvCollect _ _ _) = Collect_Call"
| "call_of _ = Other_Call"

definition planner_calls :: "call_kind list" where
  "planner_calls = [Resolve_Call, Interface_Call, Reference_Call, Load_Call, Collect_Call]"

lemmas provider_calls = resolve_def resolve_interface_def reference_def load_def collect_def

text \<open>\<open>calls ks m\<close>: \<open>m\<close> makes the calls \<open>ks\<close> in this order, each at most once, and all of
  them when it returns normally.\<close>

definition calls :: "call_kind list \<Rightarrow> ('x event, 'e, 'a) eff \<Rightarrow> bool" where
  "calls ks m \<longleftrightarrow> (\<forall>t. \<exists>u k. snd (m t) = t @ u \<and> map call_of u = take k ks
     \<and> (ok (fst (m t)) \<longrightarrow> length ks \<le> k))"

lemma calls_pure [simp]: "calls [] (liftE r)" "calls [] (ret x)" "calls [] (timestamp pv c)"
  by (simp_all add: calls_def eff_simps timestamp_def)

lemma calls_askE: "(\<And>r. call_of (ev r) = c) \<Longrightarrow> calls [c] (askE q ev)"
  by (auto simp: calls_def eff_simps intro!: exI [of _ 1])

lemma calls_bindE:
  assumes m: "calls ks m" and f: "\<And>x. calls ls (f x)"
  shows "calls (ks @ ls) (bindE m f)"
  unfolding calls_def
proof
  fix t
  obtain r t' where mt: "m t = (r, t')" by fastforce
  with m obtain u k where u: "t' = t @ u" "map call_of u = take k ks" and k: "ok r \<longrightarrow> length ks \<le> k"
    unfolding calls_def by (metis fst_conv snd_conv)
  show "\<exists>u k. snd (bindE m f t) = t @ u \<and> map call_of u = take k (ks @ ls)
    \<and> (ok (fst (bindE m f t)) \<longrightarrow> length (ks @ ls) \<le> k)"
  proof (cases r)
    case (Inl e)
    with mt u have "bindE m f t = (Inl e, t @ u)" by (simp add: eff_simps)
    moreover have "map call_of u = take (min k (length ks)) (ks @ ls)" using u by (simp add: min_def)
    ultimately show ?thesis
      by (intro exI [of _ u] exI [of _ "min k (length ks)"]) simp
  next
    case (Inr x)
    from f [of x] obtain v j where v: "snd (f x t') = t' @ v" "map call_of v = take j ls"
      "ok (fst (f x t')) \<longrightarrow> length ls \<le> j" unfolding calls_def by blast
    from Inr mt have b: "bindE m f t = f x t'" by (simp add: eff_simps)
    from k Inr u have "map call_of u = ks" by simp
    with v have "map call_of (u @ v) = take (length ks + j) (ks @ ls)" by simp
    with b u v show ?thesis by (intro exI [of _ "u @ v"] exI [of _ "length ks + j"]) simp
  qed
qed

lemma calls_providers:
  "calls [Resolve_Call] (resolve pv n)" "calls [Interface_Call] (resolve_interface pv d i)"
  "calls [Reference_Call] (reference pv d)" "calls [Load_Call] (load pv d)"
  "calls [Collect_Call] (collect pv tg cr i)"
  unfolding provider_calls by (rule calls_askE; simp)+

lemma calls_Cons: "calls [c] m \<Longrightarrow> (\<And>x. calls ls (f x)) \<Longrightarrow> calls (c # ls) (bindE m f)"
  using calls_bindE [of "[c]" m ls f] by simp

lemma calls_skip: "calls [] m \<Longrightarrow> (\<And>x. calls ls (f x)) \<Longrightarrow> calls ls (bindE m f)"
  using calls_bindE [of "[]" m ls f] by simp

lemma calls_planner: "calls planner_calls (plan_profiled_change sha pv intent c)"
  unfolding plan_profiled_change_def planner_calls_def
  by (intro calls_Cons [OF calls_providers(1)] calls_Cons [OF calls_providers(2)]
      calls_Cons [OF calls_providers(3)] calls_Cons [OF calls_providers(4)]
      calls_Cons [OF calls_providers(5)] calls_skip [OF calls_pure(1)] calls_skip [OF calls_pure(3)])
    (auto intro!: calls_skip)

text \<open>What has been established when the planner first touches a credential.\<close>

definition admitted_before_credentials ::
    "'x providers \<Rightarrow> interface_description_intent \<Rightarrow> 'x event list \<Rightarrow> bool" where
  "admitted_before_credentials pv intent t \<longleftrightarrow>
     (\<exists>d i. pv_resolve pv t (in_target intent) = Inr d
        \<and> assert_profiled_target_binding intent d = Inr ()
        \<and> ok (admit_profiled_operation d INTERFACE_DESCRIPTION)
        \<and> assert_profiled_interface_binding intent d i = Inr ())"

lemma planner_credentials_guarded:
  assumes "snd (plan_profiled_change sha pv intent c t) = t @ u"
    and "e \<in> set u" and "is_credential_event e"
  shows "admitted_before_credentials pv intent t"
proof (rule ccontr)
  assume n: "\<not> admitted_before_credentials pv intent t"
  have "\<forall>e \<in> set u. \<not> is_credential_event e"
  proof (cases "pv_resolve pv t (in_target intent)")
    case (Inl x)
    with assms(1) show ?thesis by (auto simp: plan_profiled_change_def eff_simps provider_calls)
  next
    case d: (Inr d)
    show ?thesis
    proof (cases "assert_profiled_target_binding intent d")
      case (Inl x)
      with d assms(1) show ?thesis by (auto simp: plan_profiled_change_def eff_simps provider_calls)
    next
      case tb: (Inr x)
      show ?thesis
      proof (cases "admit_profiled_operation d INTERFACE_DESCRIPTION")
        case (Inl x)
        with d tb assms(1) show ?thesis
          by (auto simp: plan_profiled_change_def eff_simps provider_calls)
      next
        case a: (Inr a)
        let ?t = "t @ [EvResolve (in_target intent) (Inr d)]"
        show ?thesis
        proof (cases "pv_resolve_interface pv ?t d (in_interface intent)")
          case (Inl x)
          with d tb a assms(1) show ?thesis
            by (auto simp: plan_profiled_change_def eff_simps provider_calls)
        next
          case i: (Inr i)
          with d tb a n obtain x where "assert_profiled_interface_binding intent d i = Inl x"
            by (cases "assert_profiled_interface_binding intent d i")
              (auto simp: admitted_before_credentials_def)
          with d tb a i assms(1) show ?thesis
            by (auto simp: plan_profiled_change_def eff_simps provider_calls)
        qed
      qed
    qed
  qed
  with assms(2,3) show False by blast
qed

lemma plan_profiled_change_result:
  assumes "fst (plan_profiled_change sha pv intent c t) = Inr r"
  shows "(\<exists>p d i time. pr_plan r = Some p \<and> pr_compliance r = None
            \<and> build_profiled_plan sha intent d i (pr_state r) (pr_credential r) time = Inr p)
       \<or> (\<exists>q d i time. pr_plan r = None \<and> pr_compliance r = Some q
            \<and> is_description (pr_state r) = Some (in_desired intent)
            \<and> build_compliance sha intent d i (pr_state r) (pr_credential r) time = Inr q)"
  using assms
  by (auto simp: plan_profiled_change_def eff_simps provider_calls timestamp_def
      split: sum.splits prod.splits if_splits)

end
