(* ===== verification/Protocol.thy ===== *)
theory Protocol
  imports Prelude
begin

text \<open>
  Protocols as step relations: a phase, an event, the next phase. \<open>runs step s m Q\<close> says that the
  events the effect \<open>m\<close> appends to the log drive the protocol from phase \<open>s\<close> to some phase in
  which \<open>Q\<close> holds of the result; its rules follow the structure of the code. The locale
  \<open>monitored\<close> turns a step-wise law of a protocol into a law of every log of a run.
\<close>

inductive path :: "('s \<Rightarrow> 'e \<Rightarrow> 's \<Rightarrow> bool) \<Rightarrow> 's \<Rightarrow> 'e list \<Rightarrow> 's \<Rightarrow> bool" for step s where
  path_Nil [intro, simp]: "path step s [] s"
| path_snoc: "path step s es s' \<Longrightarrow> step s' e s'' \<Longrightarrow> path step s (es @ [e]) s''"

inductive_cases path_NilE: "path step s [] s'"

lemma path_single: "step s e s' \<Longrightarrow> path step s [e] s'"
  using path_snoc [OF path_Nil] by fastforce

lemma path_append:
  assumes "path step s us s'" and "path step s' vs s''"
  shows "path step s (us @ vs) s''"
  using assms(2)
proof induction
  case path_Nil
  then show ?case using assms(1) by simp
next
  case (path_snoc es p e q)
  then show ?case using path.path_snoc [of step s "us @ es" p e q] by simp
qed

definition runs ::
    "('s \<Rightarrow> 'e \<Rightarrow> 's \<Rightarrow> bool) \<Rightarrow> 's \<Rightarrow> ('e, 'x, 'a) eff \<Rightarrow> ('x + 'a \<Rightarrow> 's \<Rightarrow> bool) \<Rightarrow> bool" where
  "runs step s m Q \<longleftrightarrow>
     (\<forall>t. \<exists>u s'. snd (m t) = t @ u \<and> path step s u s' \<and> Q (fst (m t)) s')"

lemma runsD:
  assumes "runs step s m Q"
  obtains u s' where "snd (m t) = t @ u" and "path step s u s'" and "Q (fst (m t)) s'"
  using assms unfolding runs_def by blast

lemma runs_conseq: "runs step s m Q \<Longrightarrow> (\<And>r s'. Q r s' \<Longrightarrow> R r s') \<Longrightarrow> runs step s m R"
  unfolding runs_def by blast

lemma runs_pure:
  "Q r s \<Longrightarrow> runs step s (liftE r) Q"
  "Q (Inr x) s \<Longrightarrow> runs step s (ret x) Q"
  "Q (Inl e) s \<Longrightarrow> runs step s (raise e) Q"
  unfolding runs_def by (auto simp: eff_simps intro!: exI [of _ "[]"])

lemma runs_silent:
  assumes "\<And>t. snd (m t) = t" and "\<And>t. Q (fst (m t)) s"
  shows "runs step s m Q"
  unfolding runs_def using assms by (metis append_Nil2 path_Nil)

lemma runs_askE:
  assumes "\<And>t. \<exists>s'. step s (ev (q t)) s' \<and> Q (q t) s'"
  shows "runs step s (askE q ev) Q"
  unfolding runs_def askE_def using assms path_single [where step = step] by fastforce

lemma runs_ask:
  assumes "\<And>t. \<exists>s'. step s (ev (q t)) s' \<and> Q (Inr (q t)) s'"
  shows "runs step s (ask q ev) Q"
  unfolding runs_def ask_def using assms path_single [where step = step] by fastforce

lemma runs_bindE:
  assumes m: "runs step s m Q"
    and l: "\<And>e s'. Q (Inl e) s' \<Longrightarrow> R (Inl e) s'"
    and r: "\<And>x s'. Q (Inr x) s' \<Longrightarrow> runs step s' (f x) R"
  shows "runs step s (bindE m f) R"
  unfolding runs_def
proof
  fix t
  obtain u s' where u: "snd (m t) = t @ u" "path step s u s'" "Q (fst (m t)) s'"
    using m by (rule runsD)
  show "\<exists>u s'. snd (bindE m f t) = t @ u \<and> path step s u s' \<and> R (fst (bindE m f t)) s'"
  proof (cases "fst (m t)")
    case (Inl e)
    then have "bindE m f t = (Inl e, t @ u)" using u(1) by (cases "m t") (simp add: bindE_def)
    with Inl u l [of e s'] show ?thesis by auto
  next
    case (Inr x)
    then have b: "bindE m f t = f x (t @ u)" using u(1) by (cases "m t") (simp add: bindE_def)
    from Inr u r [of x s'] have "runs step s' (f x) R" by simp
    then obtain v s'' where v: "snd (f x (t @ u)) = (t @ u) @ v" "path step s' v s''"
      "R (fst (f x (t @ u))) s''" by (rule runsD)
    with b path_append [OF u(2) v(2)] show ?thesis by (auto intro!: exI [of _ "u @ v"])
  qed
qed

lemma runs_tryE:
  assumes "runs step s m (\<lambda>r. Q (Inr r))"
  shows "runs step s (tryE m) Q"
  unfolding runs_def
proof
  fix t
  obtain u s' where "snd (m t) = t @ u" "path step s u s'" "Q (Inr (fst (m t))) s'"
    using assms by (rule runsD)
  then show "\<exists>u s'. snd (tryE m t) = t @ u \<and> path step s u s' \<and> Q (fst (tryE m t)) s'"
    by (cases "m t") (auto simp: tryE_def)
qed

text \<open>A protocol with a law of its logs: the law holds at the start and every step keeps it, so it
  holds of the log of every run the protocol drives.\<close>

locale monitored =
  fixes step :: "'s \<Rightarrow> 'e \<Rightarrow> 's \<Rightarrow> bool"
    and start :: "'s"
    and law :: "'s \<Rightarrow> 'e list \<Rightarrow> bool"
  assumes start_law: "law start []"
    and step_law: "law s es \<Longrightarrow> step s e s' \<Longrightarrow> law s' (es @ [e])"
begin

lemma path_law: "path step start es s \<Longrightarrow> law s es"
  by (induction rule: path.induct) (auto intro: start_law step_law)

lemma run_law:
  assumes "runs step start m Q"
  shows "\<exists>u s. snd (m t) = t @ u \<and> path step start u s \<and> law s u \<and> Q (fst (m t)) s"
  using runsD [OF assms] path_law by metis

end

end
