(* ===== verification/Write_Adapter.thy ===== *)
theory Write_Adapter
  imports Profiled_Planning Protocol
begin

text \<open>
  \<^verbatim>\<open>profiled_write_adapter.py\<close>: the write target projected after preflight, its binding check, and
  the dispatch of a write to the one vendor family its admission names. The vendor writers
  (\<open>CiscoProfiledWriter\<close>, \<open>JunosProfiledWriter\<close>) are functions of the history, like every
  provider; their calls are the \<open>write_event\<close>s of the log.
\<close>

record profiled_write_target =
  wt_device_identity :: string
  wt_interface :: stable_interface
  wt_name :: string
  wt_host :: string
  wt_port :: int
  wt_expected_hostname :: string
  wt_protected_interfaces :: "string list"
  wt_automation_profile_id :: automation_profile_id
  wt_network_os :: network_os
  wt_operation :: profiled_operation
  wt_admission :: profiled_operation_admission

text \<open>\<open>ProfiledWriteTarget.__post_init__\<close>; a \<open>ProviderError\<close> is a \<open>RuntimeError\<close>.\<close>

definition write_target_post_init :: "profiled_write_target \<Rightarrow> unit res" where
  "write_target_post_init t =
    (let expected = admitted_operation (wt_automation_profile_id t) (wt_operation t)
     in checks
      [(si_device (wt_interface t) \<noteq> wt_device_identity t
         \<or> wt_operation t \<noteq> INTERFACE_DESCRIPTION
         \<or> oa_operation (wt_admission t) \<noteq> wt_operation t
         \<or> oa_automation_profile_id (wt_admission t) \<noteq> wt_automation_profile_id t
         \<or> oa_network_os (wt_admission t) \<noteq> wt_network_os t
         \<or> oa_management_port (wt_admission t) \<noteq> wt_port t
         \<or> expected = None \<or> Some (wt_admission t) \<noteq> expected,
        RuntimeError ''profiled write target binding is invalid'')])"

definition from_preflight ::
    "profiled_inventory_device \<Rightarrow> stable_interface \<Rightarrow> profiled_operation
      \<Rightarrow> profiled_write_target res" where
  "from_preflight d i op =
    bindS (admit_profiled_operation d op) (\<lambda>admission.
    bindS (live_read_only_target d) (\<lambda>live.
    let t = \<lparr>wt_device_identity = dv_device_identity d, wt_interface = i,
          wt_name = dv_logical_name d, wt_host = rt_host live, wt_port = rt_port live,
          wt_expected_hostname = dv_expected_hostname d,
          wt_protected_interfaces = rt_protected_interfaces live,
          wt_automation_profile_id = dv_automation_profile_id d,
          wt_network_os = dv_network_os d, wt_operation = op, wt_admission = admission\<rparr>
    in bindS (write_target_post_init t) (\<lambda>_. Inr t)))"

definition validate_cisco_target :: "profiled_write_target \<Rightarrow> unit res" where
  "validate_cisco_target t =
    bindS (write_target_post_init t) (\<lambda>_.
    let a = wt_admission t in checks
     [(oa_operation a \<noteq> INTERFACE_DESCRIPTION \<or> oa_transport_family a \<noteq> ANSIBLE_NETWORK_CLI
        \<or> oa_adapter_family a \<noteq> CISCO_IOS_Adapter \<or> oa_renderer_family a \<noteq> CISCO_IOS_Renderer
        \<or> oa_collector_family a \<noteq> CISCO_IOS_FACTS
        \<or> oa_recovery_family a \<noteq> CISCO_TARGETED_INVERSE
        \<or> oa_management_service a \<noteq> SSH \<or> oa_management_port a \<noteq> 22
        \<or> oa_transaction_strategy a \<noteq> CISCO_TARGETED_INVERSE_Strategy
        \<or> oa_confirmed_timeout_minutes a \<noteq> None \<or> oa_confirmation_operation a \<noteq> None,
       RuntimeError ''profiled Cisco write operation is unsupported'')])"

definition validate_junos_target :: "profiled_write_target \<Rightarrow> unit res" where
  "validate_junos_target t =
    bindS (write_target_post_init t) (\<lambda>_. checks
     [(wt_automation_profile_id t \<noteq> VJUNOS_ROUTER \<or> wt_network_os t \<noteq> JUNOS \<or> wt_port t \<noteq> 830,
       RuntimeError ''profiled Junos write operation is unsupported'')])"

section \<open>The vendor writers\<close>

text \<open>\<open>EvExit\<close> carries what the transaction context says after it was left: whether its session
  reported a failed close (\<open>getattr(transaction, "close_failed", False)\<close>).\<close>

datatype 'x write_event =
    EvVerifyRuntime "unit res"
  | EvExecuteCisco profiled_write_target cisco_config_artifact "execution_result res"
  | EvJunosEnter profiled_write_target junos_config_artifact "unit res"
  | EvPrepare "string res"
  | EvCommitConfirmed int "execution_result res"
  | EvExit "bool res"
  | EvConfirm profiled_write_target "execution_result res"
  | EvAbove 'x

type_synonym ('x, 'a) wio = "('x write_event, 'a) io"
type_synonym 'x history = "'x write_event event list"

record 'x writer =
  wr_verify_runtime :: "'x history \<Rightarrow> unit res"
  wr_execute :: "'x history \<Rightarrow> profiled_write_target \<Rightarrow> device_credentials \<Rightarrow> cisco_config_artifact
    \<Rightarrow> execution_result res"
  wr_enter :: "'x history \<Rightarrow> profiled_write_target \<Rightarrow> device_credentials \<Rightarrow> junos_config_artifact
    \<Rightarrow> unit res"
  wr_prepare :: "'x history \<Rightarrow> string res"
  wr_commit :: "'x history \<Rightarrow> int \<Rightarrow> execution_result res"
  wr_exit :: "'x history \<Rightarrow> bool res"
  wr_confirm :: "'x history \<Rightarrow> profiled_write_target \<Rightarrow> device_credentials \<Rightarrow> execution_result res"

definition verify_cisco_runtime :: "'x writer \<Rightarrow> ('x, unit) wio" where
  "verify_cisco_runtime wr = askE (wr_verify_runtime wr) (\<lambda>r. EvOther (EvVerifyRuntime r))"

definition execute_cisco ::
    "'x writer \<Rightarrow> profiled_write_target \<Rightarrow> device_credentials \<Rightarrow> cisco_config_artifact
      \<Rightarrow> ('x, execution_result) wio" where
  "execute_cisco wr target credentials artifact =
    bindE (liftE (validate_cisco_target target)) (\<lambda>_.
    askE (\<lambda>t. wr_execute wr t target credentials artifact)
      (\<lambda>r. EvOther (EvExecuteCisco target artifact r)))"

definition junos_enter ::
    "'x writer \<Rightarrow> profiled_write_target \<Rightarrow> device_credentials \<Rightarrow> junos_config_artifact
      \<Rightarrow> ('x, unit) wio" where
  "junos_enter wr target credentials artifact =
    bindE (liftE (validate_junos_target target)) (\<lambda>_.
    askE (\<lambda>t. wr_enter wr t target credentials artifact)
      (\<lambda>r. EvOther (EvJunosEnter target artifact r)))"

definition junos_prepare :: "'x writer \<Rightarrow> ('x, string) wio" where
  "junos_prepare wr = askE (wr_prepare wr) (\<lambda>r. EvOther (EvPrepare r))"

definition junos_commit_confirmed :: "'x writer \<Rightarrow> int \<Rightarrow> ('x, execution_result) wio" where
  "junos_commit_confirmed wr minutes =
    askE (\<lambda>t. wr_commit wr t minutes) (\<lambda>r. EvOther (EvCommitConfirmed minutes r))"

definition junos_exit :: "'x writer \<Rightarrow> ('x, bool) wio" where
  "junos_exit wr = askE (wr_exit wr) (\<lambda>r. EvOther (EvExit r))"

definition confirm_junos ::
    "'x writer \<Rightarrow> profiled_write_target \<Rightarrow> device_credentials \<Rightarrow> ('x, execution_result) wio" where
  "confirm_junos wr target credentials =
    bindE (liftE (validate_junos_target target)) (\<lambda>_.
    askE (\<lambda>t. wr_confirm wr t target credentials) (\<lambda>r. EvOther (EvConfirm target r)))"

text \<open>The calls that can change a device.\<close>

fun is_write_event :: "'x write_event event \<Rightarrow> bool" where
  "is_write_event (EvOther (EvExecuteCisco _ _ _)) = True"
| "is_write_event (EvOther (EvCommitConfirmed _ _)) = True"
| "is_write_event (EvOther (EvConfirm _ _)) = True"
| "is_write_event _ = False"

section \<open>Exceptions the callers handle\<close>

text \<open>\<open>attempt\<close>: \<^verbatim>\<open>try: x = m except (ValueError, OSError, RuntimeError): x = None\<close>; \<open>attempt_any\<close>:
  the same with \<^verbatim>\<open>except Exception\<close>.\<close>

definition handled :: "(exn \<Rightarrow> bool) \<Rightarrow> ('s, exn, 'a) eff \<Rightarrow> ('s, exn, 'a option) eff" where
  "handled p m = bindE (tryE m) (\<lambda>r. case r of
     Inr x \<Rightarrow> ret (Some x) | Inl e \<Rightarrow> if p e then ret None else raise e)"

abbreviation attempt :: "('s, exn, 'a) eff \<Rightarrow> ('s, exn, 'a option) eff" where
  "attempt \<equiv> handled provider_failure"

abbreviation attempt_any :: "('s, exn, 'a) eff \<Rightarrow> ('s, exn, 'a option) eff" where
  "attempt_any \<equiv> handled is_exception"

lemma runs_handled:
  assumes "runs step s m Q"
    and "\<And>x s'. Q (Inr x) s' \<Longrightarrow> R (Inr (Some x)) s'"
    and "\<And>e s'. Q (Inl e) s' \<Longrightarrow> p e \<Longrightarrow> R (Inr None) s'"
    and "\<And>e s'. Q (Inl e) s' \<Longrightarrow> \<not> p e \<Longrightarrow> R (Inl e) s'"
  shows "runs step s (handled p m) R"
  unfolding handled_def
proof (rule runs_bindE)
  show "runs step s (tryE m) (\<lambda>r s'. case r of Inr q \<Rightarrow> Q q s' | Inl _ \<Rightarrow> False)"
    by (rule runs_tryE) (simp add: assms(1))
qed (use assms(2-4) in \<open>auto split: sum.splits intro!: runs_pure\<close>)

section \<open>A preflighted target is accepted by its writer\<close>

lemma from_preflight_Inr:
  assumes "from_preflight d i op = Inr t"
  shows "wt_device_identity t = dv_device_identity d" and "wt_interface t = i"
    and "wt_automation_profile_id t = dv_automation_profile_id d"
    and "wt_network_os t = dv_network_os d"
    and "admit_profiled_operation d op = Inr (wt_admission t)"
    and "write_target_post_init t = Inr ()"
  using assms by (auto simp: from_preflight_def bindS_Inr_iff Let_def)

lemma admitted_operation_profile:
  assumes "admitted_operation p op = Some a"
  shows "oa_operation a = INTERFACE_DESCRIPTION" and "oa_automation_profile_id a = p"
  using assms by (cases p; auto simp: cisco_admission_def junos_admission_def)+

lemma from_preflight_ok:
  assumes a: "admit_profiled_operation d op = Inr a" and i: "si_device i = dv_device_identity d"
    and os: "oa_network_os a = dv_network_os d" and l: "live_read_only_target d = Inr l"
  obtains t where "from_preflight d i op = Inr t" and "wt_admission t = a" and "wt_interface t = i"
    and "wt_port t = rt_port l" and "wt_network_os t = dv_network_os d"
    and "wt_automation_profile_id t = dv_automation_profile_id d" and "wt_host t = rt_host l"
proof -
  note adm = admit_profiled_operation_Inr [OF a]
  from adm(2) l have "rt_port l = oa_management_port a" by auto
  then show thesis
    using a i os l adm(1) admitted_operation_profile [OF adm(1)] that
    by (cases op) (auto simp: from_preflight_def write_target_post_init_def Let_def)
qed

lemma vendor_targets:
  assumes "write_target_post_init t = Inr ()"
  shows "oa_renderer_family (wt_admission t) = CISCO_IOS_Renderer \<Longrightarrow> validate_cisco_target t = Inr ()"
    and "oa_renderer_family (wt_admission t) = JUNOS_XML \<Longrightarrow> validate_junos_target t = Inr ()"
  using assms
  by (cases "wt_automation_profile_id t"; auto simp: validate_cisco_target_def validate_junos_target_def
      write_target_post_init_def Let_def cisco_admission_def junos_admission_def)+

end
