(* ===== verification/Profiled_Execution.thy ===== *)
theory Profiled_Execution
  imports Write_Adapter
begin

text \<open>
  \<^verbatim>\<open>profiled_execution.py\<close>: the schema-v2 change record with its validator, the record/plan
  binding check, the preflight and the two execution lifecycles (Cisco with a targeted inverse,
  Junos with commit-confirmed), call by call.
\<close>

section \<open>The change record\<close>

record profiled_change_record =
  xr_generated_at :: py_datetime
  xr_change_id :: string
  xr_plan_digest :: string
  xr_approval_digest :: string
  xr_target :: string
  xr_device_identity :: string
  xr_interface :: stable_interface
  xr_platform_slug :: string
  xr_network_os :: network_os
  xr_automation_profile_id :: automation_profile_id
  xr_operation :: profiled_operation
  xr_host :: string
  xr_port :: int
  xr_expected_hostname :: string
  xr_previous_description :: "string option"
  xr_desired_description :: string
  xr_credential_source :: string
  xr_credential_reference :: string
  xr_transaction_strategy :: transaction_strategy
  xr_preflight :: stage_result
  xr_execution :: stage_result
  xr_post_validation :: stage_result
  xr_recovery :: stage_result
  xr_candidate_validation :: "stage_result option"
  xr_candidate_diff_digest :: "string option"
  xr_confirmation :: "stage_result option"
  xr_final_outcome :: final_outcome

definition change_record_fields_valid :: "profiled_change_record \<Rightarrow> bool" where
  "change_record_fields_valid r \<longleftrightarrow>
     sha256_pattern (xr_plan_digest r) \<and> sha256_pattern (xr_approval_digest r)
     \<and> stable_interface_valid (xr_interface r) \<and> xr_credential_source r = ''openbao''
     \<and> (case xr_candidate_diff_digest r of None \<Rightarrow> True | Some d \<Rightarrow> sha256_pattern d)"

definition stage_checks :: "stage_result \<Rightarrow> (bool \<times> exn) list" where
  "stage_checks s =
    [(\<not> sr_attempted s
        \<and> (sr_succeeded s \<noteq> None \<or> sr_changed s \<noteq> None \<or> sr_observed_description s \<noteq> None),
        ValueError ''unattempted stage carries result facts''),
     (sr_attempted s \<and> sr_succeeded s = None,
        ValueError ''attempted stage lacks a classified result'')]"

definition optional_stage :: "stage_result option \<Rightarrow> stage_result list" where
  "optional_stage s = (case s of None \<Rightarrow> [] | Some x \<Rightarrow> [x])"

definition recovery_outcomes :: "final_outcome list" where
  "recovery_outcomes = [RECOVERED, RECOVERY_FAILED, RECOVERY_AMBIGUOUS]"

definition confirmation_outcomes :: "final_outcome list" where
  "confirmation_outcomes = [SUCCEEDED, CONFIRMATION_FAILED, CONFIRMATION_AMBIGUOUS]"

definition attempted :: "stage_result option \<Rightarrow> bool" where
  "attempted s = (case s of None \<Rightarrow> False | Some x \<Rightarrow> sr_attempted x)"

definition succeeded_is :: "stage_result option \<Rightarrow> bool \<Rightarrow> bool" where
  "succeeded_is s b = (case s of None \<Rightarrow> False | Some x \<Rightarrow> sr_succeeded x = Some b)"

definition junos_record :: "profiled_change_record \<Rightarrow> bool" where
  "junos_record r \<longleftrightarrow> xr_transaction_strategy r = JUNOS_COMMIT_CONFIRMED_Strategy"

definition common_checks :: "profiled_change_record \<Rightarrow> (bool \<times> exn) list" where
  "common_checks r =
    (let pre = xr_preflight r; execution = xr_execution r; post = xr_post_validation r;
         recovery = xr_recovery r; outcome = xr_final_outcome r; junos = junos_record r
     in
      [(\<not> sr_attempted pre, ValueError ''record requires attempted preflight''),
       (sr_succeeded pre = Some True
          \<and> sr_observed_description pre \<noteq> xr_previous_description r,
          ValueError ''successful preflight differs from reviewed state''),
       (sr_attempted execution \<and> sr_succeeded pre \<noteq> Some True,
          ValueError ''execution without successful preflight''),
       (sr_attempted post \<and> \<not> sr_attempted execution,
          ValueError ''post-validation without execution''),
       (sr_changed post \<noteq> None \<and> sr_changed post
            \<noteq> Some (sr_observed_description post \<noteq> xr_previous_description r),
          ValueError ''observed transition contradicts observed description''),
       (sr_succeeded post = Some True \<and> outcome \<noteq> AMBIGUOUS
            \<and> sr_observed_description post \<noteq> Some (xr_desired_description r),
          ValueError ''successful post-validation did not observe desired state''),
       (sr_attempted recovery \<noteq> List.member recovery_outcomes outcome,
          ValueError ''recovery outcome/attempt mismatch''),
       (sr_attempted recovery \<and> (junos \<or> sr_succeeded execution \<noteq> Some True
            \<or> \<not> sr_attempted post \<or> sr_succeeded post \<noteq> Some False
            \<or> sr_observed_description post = Some (xr_desired_description r)),
          ValueError ''recovery is ineligible''),
       (outcome = RECOVERED \<and> (sr_succeeded recovery \<noteq> Some True
            \<or> sr_observed_description recovery \<noteq> xr_previous_description r),
          ValueError ''recovery lacks verified restoration''),
       (outcome = RECOVERY_AMBIGUOUS \<and> sr_succeeded recovery \<noteq> Some False,
          ValueError ''ambiguous recovery cannot claim success''),
       (\<not> junos \<and> (xr_candidate_validation r \<noteq> None \<or> xr_candidate_diff_digest r \<noteq> None
            \<or> xr_confirmation r \<noteq> None),
          ValueError ''Cisco record carries Junos transaction evidence'')])"

definition junos_checks :: "profiled_change_record \<Rightarrow> (bool \<times> exn) list" where
  "junos_checks r =
    (let candidate = xr_candidate_validation r; confirmation = xr_confirmation r;
         candidate_ok = succeeded_is candidate True; outcome = xr_final_outcome r
     in
      [(attempted candidate \<and> sr_succeeded (xr_preflight r) \<noteq> Some True,
          ValueError ''candidate without successful preflight''),
       (candidate_ok \<noteq> (xr_candidate_diff_digest r \<noteq> None),
          ValueError ''candidate validation/diff mismatch''),
       (sr_attempted (xr_execution r) \<noteq> candidate_ok,
          ValueError ''Junos execution/candidate mismatch''),
       (attempted confirmation \<noteq> List.member confirmation_outcomes outcome,
          ValueError ''Junos confirmation/outcome mismatch''),
       (attempted confirmation \<and> (sr_succeeded (xr_execution r) \<noteq> Some True
            \<or> sr_succeeded (xr_post_validation r) \<noteq> Some True
            \<or> \<not> succeeded_is confirmation (outcome = SUCCEEDED)),
          ValueError ''Junos confirmation lifecycle inconsistent'')])"

definition outcome_checks :: "profiled_change_record \<Rightarrow> (bool \<times> exn) list" where
  "outcome_checks r =
    (let pre = xr_preflight r; execution = xr_execution r; post = xr_post_validation r;
         recovery = xr_recovery r; outcome = xr_final_outcome r; junos = junos_record r;
         blocked =
           [(sr_attempted execution \<or> sr_attempted post \<or> sr_attempted recovery,
               ValueError ''blocked/stale record attempted execution''),
            (sr_succeeded pre = Some True \<and> \<not> (junos \<and> outcome = BLOCKED
                 \<and> attempted (xr_candidate_validation r)
                 \<and> succeeded_is (xr_candidate_validation r) False),
               ValueError ''blocked/stale record lacks failed prerequisite'')];
         failed =
           [(\<not> sr_attempted execution \<or> sr_succeeded execution \<noteq> Some False,
               ValueError ''failed/ambiguous execution facts inconsistent''),
            (sr_attempted post \<and> (junos \<or> outcome = EXECUTION_FAILED),
               ValueError ''post observation on unsupported failure path'')];
         confirmation = [(\<not> junos, ValueError ''confirmation outcome requires Junos'')]
     in case outcome of
       BLOCKED \<Rightarrow> blocked
     | STALE_PLAN \<Rightarrow> blocked
     | SUCCEEDED \<Rightarrow>
         [(sr_succeeded execution \<noteq> Some True \<or> sr_succeeded post \<noteq> Some True,
           ValueError ''success lacks execution and independent post-validation'')]
     | EXECUTION_FAILED \<Rightarrow> failed
     | AMBIGUOUS \<Rightarrow> failed
     | RECOVERED \<Rightarrow> []
     | RECOVERY_FAILED \<Rightarrow> []
     | RECOVERY_AMBIGUOUS \<Rightarrow> []
     | POST_VALIDATION_FAILED \<Rightarrow>
         [(junos \<or> sr_succeeded execution \<noteq> Some True \<or> \<not> sr_attempted post
             \<or> sr_succeeded post \<noteq> Some False,
           ValueError ''post-validation failure facts inconsistent'')]
     | AUTO_ROLLBACK_PENDING \<Rightarrow>
         [(\<not> junos \<or> sr_succeeded execution \<noteq> Some True \<or> sr_succeeded post = Some True,
           ValueError ''auto-rollback-pending facts inconsistent'')]
     | CONFIRMATION_FAILED \<Rightarrow> confirmation
     | CONFIRMATION_AMBIGUOUS \<Rightarrow> confirmation
     | COMPLIANT \<Rightarrow> [(True, ValueError ''unsupported profiled execution outcome'')])"

definition consistent_outcome :: "profiled_change_record \<Rightarrow> unit res" where
  "consistent_outcome r = checks
    ([(xr_approval_digest r \<noteq> xr_plan_digest r,
        ValueError ''record approval and plan digests differ''),
      (case admitted_operation (xr_automation_profile_id r) (xr_operation r) of
         None \<Rightarrow> True
       | Some a \<Rightarrow> xr_network_os r \<noteq> oa_network_os a
           \<or> xr_transaction_strategy r \<noteq> oa_transaction_strategy a,
        ValueError ''record operation/profile strategy rejected'')]
     @ concat (map stage_checks
        ([xr_preflight r, xr_execution r, xr_post_validation r, xr_recovery r]
         @ optional_stage (xr_candidate_validation r) @ optional_stage (xr_confirmation r)))
     @ common_checks r @ (if junos_record r then junos_checks r else []) @ outcome_checks r)"

definition change_record_valid :: "profiled_change_record \<Rightarrow> unit res" where
  "change_record_valid r =
    bindS (checks [(\<not> change_record_fields_valid r, ValueError ''change record field constraint'')])
      (\<lambda>_. consistent_outcome r)"

definition verify_profiled_record_plan ::
    "(string \<Rightarrow> string) \<Rightarrow> profiled_change_record \<Rightarrow> profiled_deployment_plan \<Rightarrow> unit res" where
  "verify_profiled_record_plan sha r p =
    bindS (change_record_valid r) (\<lambda>_.
    bindS (profiled_plan_valid sha p) (\<lambda>_. checks
     [(xr_change_id r \<noteq> pp_change_id p \<or> xr_target r \<noteq> pp_target p
        \<or> xr_device_identity r \<noteq> pp_device_identity p \<or> xr_interface r \<noteq> pp_interface p
        \<or> xr_platform_slug r \<noteq> pp_platform_slug p \<or> xr_network_os r \<noteq> pp_network_os p
        \<or> xr_automation_profile_id r \<noteq> pp_automation_profile_id p
        \<or> xr_host r \<noteq> pp_host p \<or> xr_port r \<noteq> pp_port p
        \<or> xr_expected_hostname r \<noteq> pp_expected_hostname p
        \<or> xr_desired_description r \<noteq> pp_desired_description p
        \<or> xr_credential_source r \<noteq> pp_credential_source p
        \<or> xr_credential_reference r \<noteq> pp_credential_reference p
        \<or> xr_plan_digest r \<noteq> pp_digest p \<or> xr_approval_digest r \<noteq> pp_digest p
        \<or> xr_previous_description r \<noteq> pp_current_description p
        \<or> xr_operation r \<noteq> oa_operation (pp_operation_admission p)
        \<or> xr_transaction_strategy r \<noteq> oa_transaction_strategy (pp_operation_admission p),
        ValueError ''profiled execution record/plan binding rejected'')]))"

definition observed_transition ::
    "profiled_deployment_plan \<Rightarrow> interface_state option \<Rightarrow> bool option" where
  "observed_transition p observed = (case observed of
     None \<Rightarrow> None
   | Some st \<Rightarrow>
       if \<not> is_exists st \<or> is_observed_hostname st \<noteq> pp_expected_hostname p
          \<or> is_interface st \<noteq> si_name (pp_interface p)
       then None else Some (is_description st \<noteq> pp_current_description p))"

section \<open>Building a record\<close>

text \<open>The optional stages of \<^verbatim>\<open>_record(...)\<close>.\<close>

record evidence =
  ev_execution :: "stage_result option"
  ev_post :: "stage_result option"
  ev_recovery :: "stage_result option"
  ev_candidate :: "stage_result option"
  ev_diff :: "string option"
  ev_confirmation :: "stage_result option"

definition no_evidence :: evidence where
  "no_evidence = \<lparr>ev_execution = None, ev_post = None, ev_recovery = None, ev_candidate = None,
     ev_diff = None, ev_confirmation = None\<rparr>"

definition or_not_attempted :: "stage_result option \<Rightarrow> stage_result" where
  "or_not_attempted s = (case s of None \<Rightarrow> stage ''not attempted'' | Some x \<Rightarrow> x)"

definition record_values ::
    "profiled_deployment_plan \<Rightarrow> string \<Rightarrow> final_outcome \<Rightarrow> stage_result \<Rightarrow> evidence
      \<Rightarrow> py_datetime \<Rightarrow> profiled_change_record" where
  "record_values p approval outcome pre ev time =
    \<lparr>xr_generated_at = time, xr_change_id = pp_change_id p, xr_plan_digest = pp_digest p,
     xr_approval_digest = approval, xr_target = pp_target p,
     xr_device_identity = pp_device_identity p, xr_interface = pp_interface p,
     xr_platform_slug = pp_platform_slug p, xr_network_os = pp_network_os p,
     xr_automation_profile_id = pp_automation_profile_id p,
     xr_operation = INTERFACE_DESCRIPTION, xr_host = pp_host p, xr_port = pp_port p,
     xr_expected_hostname = pp_expected_hostname p,
     xr_previous_description = pp_current_description p,
     xr_desired_description = pp_desired_description p, xr_credential_source = ''openbao'',
     xr_credential_reference = pp_credential_reference p,
     xr_transaction_strategy = oa_transaction_strategy (pp_operation_admission p),
     xr_preflight = pre, xr_execution = or_not_attempted (ev_execution ev),
     xr_post_validation = or_not_attempted (ev_post ev),
     xr_recovery = or_not_attempted (ev_recovery ev),
     xr_candidate_validation = ev_candidate ev, xr_candidate_diff_digest = ev_diff ev,
     xr_confirmation = ev_confirmation ev, xr_final_outcome = outcome\<rparr>"

text \<open>\<open>ProfiledExecutionError\<close> carries an outcome; everything else is an exception of Python.\<close>

datatype execution_error = Classified final_outcome string | Py exn

type_synonym ('x, 'a) xio = "('x write_event event, execution_error, 'a) eff"

definition py :: "('x, 'a) wio \<Rightarrow> ('x, 'a) xio" where
  "py m = (\<lambda>t. case m t of (r, t') \<Rightarrow> (map_sum Py id r, t'))"

definition record_of ::
    "'x write_event providers \<Rightarrow> profiled_deployment_plan \<Rightarrow> string \<Rightarrow> final_outcome \<Rightarrow> stage_result
      \<Rightarrow> evidence \<Rightarrow> ('x, profiled_change_record) wio" where
  "record_of pv p approval outcome pre ev = (\<lambda>t.
    let r = record_values p approval outcome pre ev (pv_now pv t)
    in (bindS (change_record_valid r) (\<lambda>_. Inr r), t))"

section \<open>Preflight\<close>

definition resolve_admitted ::
    "'x write_event providers \<Rightarrow> profiled_deployment_plan
      \<Rightarrow> ('x, profiled_inventory_device \<times> stable_interface \<times> profiled_operation_admission
            \<times> profile_read_only_target) wio" where
  "resolve_admitted pv p =
    bindE (resolve pv (pp_target p)) (\<lambda>d.
    bindE (liftE (admit_profiled_subject (dv_device_identity d) (dv_logical_name d)
             (nf_slug (dv_platform d)) (dv_network_os d) (dv_automation_profile_id d)
             PROFILED_MANAGED_POPULATION)) (\<lambda>_.
    bindE (resolve_interface pv d (si_name (pp_interface p))) (\<lambda>i.
    bindE (liftE (admit_profiled_operation d INTERFACE_DESCRIPTION)) (\<lambda>a.
    bindE (liftE (live_read_only_target d)) (\<lambda>live. ret (d, i, a, live))))))"

definition plan_binding_unchanged ::
    "profiled_deployment_plan \<Rightarrow> profiled_inventory_device \<Rightarrow> stable_interface
      \<Rightarrow> profiled_operation_admission \<Rightarrow> profile_read_only_target \<Rightarrow> bool" where
  "plan_binding_unchanged p d i a live \<longleftrightarrow>
     dv_logical_name d = pp_target p \<and> dv_device_identity d = pp_device_identity p
     \<and> i = pp_interface p \<and> nf_slug (dv_platform d) = pp_platform_slug p
     \<and> dv_network_os d = pp_network_os p
     \<and> dv_automation_profile_id d = pp_automation_profile_id p
     \<and> dv_expected_hostname d = pp_expected_hostname p
     \<and> rt_host live = pp_host p \<and> rt_port live = pp_port p \<and> a = pp_operation_admission p"

definition preconditions_unchanged :: "profiled_deployment_plan \<Rightarrow> interface_state \<Rightarrow> bool" where
  "preconditions_unchanged p st \<longleftrightarrow>
     is_observed_hostname st = pp_expected_hostname p \<and> is_interface st = si_name (pp_interface p)
     \<and> is_exists st \<and> \<not> is_protected st \<and> is_description st = pp_current_description p"

definition preflight ::
    "'x write_event providers \<Rightarrow> profiled_deployment_plan
      \<Rightarrow> ('x, profiled_inventory_device \<times> stable_interface \<times> device_credentials
            \<times> interface_state) xio" where
  "preflight pv p =
    bindE (py (attempt (resolve_admitted pv p))) (\<lambda>found.
    case found of
      None \<Rightarrow> raise (Classified BLOCKED ''profiled inventory or admission blocked'')
    | Some (d, i, a, live) \<Rightarrow>
      if \<not> plan_binding_unchanged p d i a live
      then raise (Classified STALE_PLAN ''profiled plan binding changed'')
      else
      bindE (py (attempt (reference pv d))) (\<lambda>offered.
      case offered of
        None \<Rightarrow> raise (Classified BLOCKED ''credential reference resolution blocked'')
      | Some c \<Rightarrow>
        if cf_source c \<noteq> ''openbao'' \<or> cf_reference c \<noteq> pp_credential_reference p
        then raise (Classified STALE_PLAN ''profiled credential binding changed'')
        else
        bindE (py (attempt (bindE (load pv d) (\<lambda>credentials.
                 bindE (collect pv live credentials (si_name (pp_interface p))) (\<lambda>st.
                 ret (credentials, st)))))) (\<lambda>observed.
        case observed of
          None \<Rightarrow> raise (Classified BLOCKED ''credential or read-only collection blocked'')
        | Some (credentials, st) \<Rightarrow>
          if \<not> preconditions_unchanged p st
          then raise (Classified STALE_PLAN ''profiled preconditions changed'')
          else ret (d, i, credentials, st))))"

section \<open>The Cisco lifecycle\<close>

definition result_stage :: "execution_result \<Rightarrow> stage_result" where
  "result_stage r = (attempted_stage (er_message r) (er_disposition r = Succeeded))
     \<lparr>sr_changed := er_changed r\<rparr>"

definition observed_stage ::
    "string \<Rightarrow> bool \<Rightarrow> profiled_deployment_plan \<Rightarrow> interface_state \<Rightarrow> stage_result" where
  "observed_stage message succeeded p st = (attempted_stage message succeeded)
     \<lparr>sr_observed_description := is_description st,
      sr_changed := observed_transition p (Some st)\<rparr>"

text \<open>\<^verbatim>\<open>collector.collect(device.live_read_only_target(), credentials, plan.interface.name)\<close>\<close>

definition observe ::
    "'x write_event providers \<Rightarrow> profiled_deployment_plan \<Rightarrow> profiled_inventory_device
      \<Rightarrow> device_credentials \<Rightarrow> ('x, interface_state) wio" where
  "observe pv p d credentials =
    bindE (liftE (live_read_only_target d)) (\<lambda>live.
    collect pv live credentials (si_name (pp_interface p)))"

definition identity_observed :: "profiled_deployment_plan \<Rightarrow> interface_state \<Rightarrow> bool" where
  "identity_observed p st \<longleftrightarrow> is_observed_hostname st = pp_expected_hostname p
     \<and> is_interface st = si_name (pp_interface p) \<and> is_exists st"

definition recover_cisco ::
    "'x write_event providers \<Rightarrow> 'x writer \<Rightarrow> profiled_deployment_plan \<Rightarrow> string
      \<Rightarrow> profiled_inventory_device \<Rightarrow> profiled_write_target \<Rightarrow> device_credentials \<Rightarrow> stage_result
      \<Rightarrow> stage_result \<Rightarrow> interface_state \<Rightarrow> ('x, profiled_change_record) wio" where
  "recover_cisco pv wr p approval d target credentials pre execution observed =
    (case pp_recovery_artifact p of
       None \<Rightarrow> raise (OtherException ''AttributeError'')
     | Some targeted_inverse \<Rightarrow>
       bindE (execute_cisco wr target credentials targeted_inverse) (\<lambda>result.
       let recovery = result_stage result;
           post_failed = observed_stage ''desired state not observed'' False p observed;
           facts = no_evidence\<lparr>ev_execution := Some execution, ev_post := Some post_failed,
             ev_recovery := Some recovery\<rparr>
       in case er_disposition result of
         Ambiguous \<Rightarrow> record_of pv p approval RECOVERY_AMBIGUOUS pre facts
       | Failed \<Rightarrow> record_of pv p approval RECOVERY_FAILED pre facts
       | Succeeded \<Rightarrow>
         bindE (attempt (observe pv p d credentials)) (\<lambda>again.
         case again of
           None \<Rightarrow> record_of pv p approval RECOVERY_FAILED pre facts
         | Some restored \<Rightarrow>
           (let outcome = (if is_description restored = pp_current_description p
                  \<and> identity_observed p restored then RECOVERED else RECOVERY_FAILED)
            in record_of pv p approval outcome pre
                 (facts\<lparr>ev_recovery := Some (recovery\<lparr>sr_succeeded := Some (outcome = RECOVERED),
                    sr_observed_description := is_description restored\<rparr>)\<rparr>)))))"

definition execute_cisco_plan ::
    "'x write_event providers \<Rightarrow> 'x writer \<Rightarrow> profiled_deployment_plan \<Rightarrow> string
      \<Rightarrow> profiled_inventory_device \<Rightarrow> profiled_write_target \<Rightarrow> device_credentials \<Rightarrow> stage_result
      \<Rightarrow> cisco_config_artifact \<Rightarrow> ('x, profiled_change_record) wio" where
  "execute_cisco_plan pv wr p approval d target credentials pre artifact =
    bindE (execute_cisco wr target credentials artifact) (\<lambda>result.
    let execution = result_stage result; facts = no_evidence\<lparr>ev_execution := Some execution\<rparr>
    in case er_disposition result of
      Ambiguous \<Rightarrow>
        bindE (attempt (observe pv p d credentials)) (\<lambda>again.
        record_of pv p approval AMBIGUOUS pre (facts\<lparr>ev_post := Some (case again of
            Some st \<Rightarrow> observed_stage ''reconciliation observation collected'' True p st
          | None \<Rightarrow> attempted_stage ''reconciliation observation unavailable'' False)\<rparr>))
    | Failed \<Rightarrow> record_of pv p approval EXECUTION_FAILED pre facts
    | Succeeded \<Rightarrow>
        bindE (attempt (observe pv p d credentials)) (\<lambda>again.
        case again of
          None \<Rightarrow> record_of pv p approval POST_VALIDATION_FAILED pre
            (facts\<lparr>ev_post := Some (attempted_stage ''post collection failed'' False)\<rparr>)
        | Some observed \<Rightarrow>
          if identity_observed p observed
              \<and> is_description observed = Some (pp_desired_description p)
          then record_of pv p approval SUCCEEDED pre
            (facts\<lparr>ev_post := Some (observed_stage ''desired state observed'' True p observed)\<rparr>)
          else if \<not> identity_observed p observed
          then record_of pv p approval POST_VALIDATION_FAILED pre
            (facts\<lparr>ev_post := Some (observed_stage ''post identity mismatch'' False p observed)\<rparr>)
          else recover_cisco pv wr p approval d target credentials pre execution observed))"

section \<open>The Junos lifecycle\<close>

definition junos_outcome :: "execution_disposition \<Rightarrow> final_outcome" where
  "junos_outcome x = (case x of Succeeded \<Rightarrow> SUCCEEDED | Ambiguous \<Rightarrow> CONFIRMATION_AMBIGUOUS
     | Failed \<Rightarrow> CONFIRMATION_FAILED)"

definition validate_and_confirm ::
    "'x write_event providers \<Rightarrow> 'x writer \<Rightarrow> profiled_deployment_plan \<Rightarrow> string
      \<Rightarrow> profiled_inventory_device \<Rightarrow> profiled_write_target \<Rightarrow> device_credentials \<Rightarrow> stage_result
      \<Rightarrow> evidence \<Rightarrow> ('x, profiled_change_record) wio" where
  "validate_and_confirm pv wr p approval d target credentials pre facts =
    bindE (attempt (observe pv p d credentials)) (\<lambda>again.
    case again of
      None \<Rightarrow> record_of pv p approval AUTO_ROLLBACK_PENDING pre
        (facts\<lparr>ev_post := Some (attempted_stage ''temporary commit left unconfirmed'' False)\<rparr>)
    | Some observed \<Rightarrow>
      if \<not> identity_observed p observed
          \<or> is_description observed \<noteq> Some (pp_desired_description p)
      then record_of pv p approval AUTO_ROLLBACK_PENDING pre
        (facts\<lparr>ev_post :=
           Some (observed_stage ''temporary commit left unconfirmed'' False p observed)\<rparr>)
      else
      bindE (confirm_junos wr target credentials) (\<lambda>confirmed.
      record_of pv p approval (junos_outcome (er_disposition confirmed)) pre
        (facts\<lparr>ev_post := Some (observed_stage ''desired state observed'' True p observed),
               ev_confirmation := Some (result_stage confirmed)\<rparr>)))"

definition execute_junos_plan ::
    "'x write_event providers \<Rightarrow> 'x writer \<Rightarrow> profiled_deployment_plan \<Rightarrow> string
      \<Rightarrow> profiled_inventory_device \<Rightarrow> profiled_write_target \<Rightarrow> device_credentials \<Rightarrow> stage_result
      \<Rightarrow> junos_config_artifact \<Rightarrow> ('x, profiled_change_record) wio" where
  "execute_junos_plan pv wr p approval d target credentials pre artifact =
    bindE (attempt (junos_enter wr target credentials artifact)) (\<lambda>entered.
    case entered of
      None \<Rightarrow> record_of pv p approval BLOCKED pre
        (no_evidence\<lparr>ev_candidate := Some (attempted_stage ''candidate preparation blocked'' False)\<rparr>)
    | Some _ \<Rightarrow>
    bindE (attempt (junos_prepare wr)) (\<lambda>prepared.
    case prepared of
      None \<Rightarrow>
        bindE (attempt_any (junos_exit wr)) (\<lambda>left.
        record_of pv p approval BLOCKED pre
          (no_evidence\<lparr>ev_candidate := Some (attempted_stage (case left of
              Some _ \<Rightarrow> ''candidate preparation blocked''
            | None \<Rightarrow> ''candidate preparation blocked; cleanup or unlock failed'') False)\<rparr>))
    | Some diff \<Rightarrow>
    let candidate = (attempted_stage ''candidate validated'' True)\<lparr>sr_changed := Some True\<rparr>;
        facts = no_evidence\<lparr>ev_candidate := Some candidate, ev_diff := Some diff\<rparr>
    in
    bindE (attempt_any (junos_commit_confirmed wr 5)) (\<lambda>committed.
    case committed of
      None \<Rightarrow>
        bindE (attempt_any (junos_exit wr)) (\<lambda>_.
        record_of pv p approval AMBIGUOUS pre (facts\<lparr>ev_execution :=
          Some (attempted_stage ''commit-confirmed outcome is ambiguous'' False)\<rparr>))
    | Some result \<Rightarrow>
    bindE (attempt_any (junos_exit wr)) (\<lambda>left.
    let close_failed = (case left of None \<Rightarrow> True | Some b \<Rightarrow> b);
        facts' = facts\<lparr>ev_execution := Some (result_stage result)\<rparr>
    in case er_disposition result of
      Ambiguous \<Rightarrow> record_of pv p approval AMBIGUOUS pre facts'
    | Failed \<Rightarrow> record_of pv p approval EXECUTION_FAILED pre facts'
    | Succeeded \<Rightarrow>
      if close_failed then record_of pv p approval AUTO_ROLLBACK_PENDING pre facts'
      else validate_and_confirm pv wr p approval d target credentials pre facts'))))"

section \<open>Execution of an approved plan\<close>

definition blocked_stage :: "string \<Rightarrow> stage_result" where
  "blocked_stage message = attempted_stage message False"

definition verified_stage :: "interface_state \<Rightarrow> stage_result" where
  "verified_stage st = (attempted_stage ''fresh profiled identity and preconditions verified'' True)
     \<lparr>sr_observed_description := is_description st\<rparr>"

fun is_deployment_runtime_error :: "exn \<Rightarrow> bool" where
  "is_deployment_runtime_error (DeploymentRuntimeError _) = True"
| "is_deployment_runtime_error _ = False"

definition verify_runtime ::
    "'x writer \<Rightarrow> profiled_deployment_plan \<Rightarrow> ('x, unit option) wio" where
  "verify_runtime wr p =
    (if oa_transport_family (pp_operation_admission p) = ANSIBLE_NETWORK_CLI
     then handled is_deployment_runtime_error (verify_cisco_runtime wr) else ret (Some ()))"

definition execute_preflighted ::
    "'x write_event providers \<Rightarrow> 'x writer \<Rightarrow> profiled_deployment_plan \<Rightarrow> string
      \<Rightarrow> (profiled_inventory_device \<times> device_credentials \<times> interface_state \<times> profiled_write_target)
      \<Rightarrow> ('x, profiled_change_record) wio" where
  "execute_preflighted pv wr p approval = (\<lambda>(d, credentials, st, target).
    case pp_execution_artifact p of
      Cisco a \<Rightarrow> execute_cisco_plan pv wr p approval d target credentials (verified_stage st) a
    | Junos a \<Rightarrow> execute_junos_plan pv wr p approval d target credentials (verified_stage st) a)"

definition execute_profiled_plan ::
    "(string \<Rightarrow> string) \<Rightarrow> 'x write_event providers \<Rightarrow> 'x writer \<Rightarrow> profiled_deployment_plan
      \<Rightarrow> string \<Rightarrow> ('x, profiled_change_record) xio" where
  "execute_profiled_plan sha pv wr p approval =
    (if \<not> sha256_pattern approval then raise (Py (ValueError ''approval digest is invalid''))
     else if approval \<noteq> pp_digest p
     then raise (Classified BLOCKED ''approval digest does not match plan'')
     else if \<not> plan_verify_digest sha p
     then py (record_of pv p approval BLOCKED (blocked_stage ''plan digest is invalid'') no_evidence)
     else
     bindE (py (verify_runtime wr p)) (\<lambda>ready.
     if ready = None
     then py (record_of pv p approval BLOCKED
       (blocked_stage ''deployment Ansible runtime prerequisites unavailable'') no_evidence)
     else
     bindE (tryE (bindE (preflight pv p) (\<lambda>(d, _, credentials, st).
       bindE (py (liftE (from_preflight d (pp_interface p) INTERFACE_DESCRIPTION))) (\<lambda>target.
       ret (d, credentials, st, target))))) (\<lambda>checked.
     case checked of
       Inl (Classified outcome message) \<Rightarrow>
         py (record_of pv p approval outcome (blocked_stage message) no_evidence)
     | Inl (Py e) \<Rightarrow> raise (Py e)
     | Inr found \<Rightarrow> py (execute_preflighted pv wr p approval found))))"

end
