(* ===== verification/Execution_Lifecycle.thy ===== *)
theory Execution_Lifecycle
  imports Profiled_Execution
begin

text \<open>
  The lifecycle \<open>execute_profiled_plan\<close> implements, as a step relation over the calls it makes:
  phases carry what has been established, a step is one call with its response, and \<open>verdict\<close> is
  the outcome the lifecycle allows in a phase. The code is proved to follow it, so the laws of
  the relation are laws of every log of an execution.
\<close>

datatype phase =
    Approved | Ready
  | Resolved profiled_inventory_device
  | Bound profiled_inventory_device stable_interface
  | Referenced profiled_inventory_device credential_reference
  | Loaded profiled_inventory_device
  | Verified profiled_inventory_device interface_state
  | Refused
  | Executed profiled_inventory_device execution_disposition
  | Reconciled
  | Observed profiled_inventory_device interface_state
  | Unobserved
  | Recovering profiled_inventory_device interface_state execution_disposition
  | Restored interface_state
  | Unrestored
  | Unlocked
  | Locked profiled_inventory_device
  | Unprepared
  | Released
  | Prepared profiled_inventory_device
  | Commit_Unknown
  | Left_Unknown
  | Committed profiled_inventory_device execution_disposition
  | Closed profiled_inventory_device execution_disposition bool
  | Temporary profiled_inventory_device interface_state
  | Unconfirmed
  | Confirmed execution_disposition
  | Escaped exn

definition failed_to :: "(exn \<Rightarrow> bool) \<Rightarrow> phase \<Rightarrow> exn \<Rightarrow> phase" where
  "failed_to p s e = (if p e then s else Escaped e)"

definition admitted_device :: "profiled_inventory_device \<Rightarrow> bool" where
  "admitted_device d \<longleftrightarrow> admit_profiled_subject (dv_device_identity d) (dv_logical_name d)
     (nf_slug (dv_platform d)) (dv_network_os d) (dv_automation_profile_id d)
     PROFILED_MANAGED_POPULATION = Inr ()"

definition rebound ::
    "profiled_deployment_plan \<Rightarrow> profiled_inventory_device \<Rightarrow> stable_interface \<Rightarrow> bool" where
  "rebound p d i \<longleftrightarrow> (\<exists>a l. admit_profiled_operation d INTERFACE_DESCRIPTION = Inr a
     \<and> live_read_only_target d = Inr l \<and> plan_binding_unchanged p d i a l)"

definition live_target :: "profiled_inventory_device \<Rightarrow> profile_read_only_target \<Rightarrow> bool" where
  "live_target d l \<longleftrightarrow> live_read_only_target d = Inr l"

definition write_target_of ::
    "profiled_deployment_plan \<Rightarrow> profiled_inventory_device \<Rightarrow> profiled_write_target \<Rightarrow> bool" where
  "write_target_of p d t \<longleftrightarrow> from_preflight d (pp_interface p) INTERFACE_DESCRIPTION = Inr t"

abbreviation (input) plan_interface :: "profiled_deployment_plan \<Rightarrow> string" where
  "plan_interface p \<equiv> si_name (pp_interface p)"

inductive lifecycle ::
    "profiled_deployment_plan \<Rightarrow> phase \<Rightarrow> 'x write_event event \<Rightarrow> phase \<Rightarrow> bool" for p where
  runtime: "lifecycle p Approved (EvOther (EvVerifyRuntime (Inr u))) Ready"
| no_runtime: "lifecycle p Approved (EvOther (EvVerifyRuntime (Inl e)))
    (failed_to is_deployment_runtime_error Refused e)"
| resolved: "lifecycle p Ready (EvResolve (pp_target p) (Inr d)) (Resolved d)"
| unresolved: "lifecycle p Ready (EvResolve (pp_target p) (Inl e)) (failed_to provider_failure Refused e)"
| bound: "admitted_device d
    \<Longrightarrow> lifecycle p (Resolved d) (EvResolveInterface d (plan_interface p) (Inr i)) (Bound d i)"
| unbound: "admitted_device d
    \<Longrightarrow> lifecycle p (Resolved d) (EvResolveInterface d (plan_interface p) (Inl e))
          (failed_to provider_failure Refused e)"
| referenced: "rebound p d i \<Longrightarrow> lifecycle p (Bound d i) (EvReference d (Inr c)) (Referenced d c)"
| unreferenced: "rebound p d i
    \<Longrightarrow> lifecycle p (Bound d i) (EvReference d (Inl e)) (failed_to provider_failure Refused e)"
| loaded: "cf_source c = ''openbao'' \<Longrightarrow> cf_reference c = pp_credential_reference p
    \<Longrightarrow> lifecycle p (Referenced d c) (EvLoad d (Inr cr)) (Loaded d)"
| unloaded: "cf_source c = ''openbao'' \<Longrightarrow> cf_reference c = pp_credential_reference p
    \<Longrightarrow> lifecycle p (Referenced d c) (EvLoad d (Inl e)) (failed_to provider_failure Refused e)"
| verified: "live_target d l
    \<Longrightarrow> lifecycle p (Loaded d) (EvCollect l (plan_interface p) (Inr st)) (Verified d st)"
| unverified: "live_target d l
    \<Longrightarrow> lifecycle p (Loaded d) (EvCollect l (plan_interface p) (Inl e))
          (failed_to provider_failure Refused e)"
| executed: "preconditions_unchanged p st \<Longrightarrow> write_target_of p d t \<Longrightarrow> pp_execution_artifact p = Cisco a
    \<Longrightarrow> lifecycle p (Verified d st) (EvOther (EvExecuteCisco t a (Inr r)))
          (Executed d (er_disposition r))"
| execute_raised: "preconditions_unchanged p st \<Longrightarrow> write_target_of p d t
    \<Longrightarrow> pp_execution_artifact p = Cisco a
    \<Longrightarrow> lifecycle p (Verified d st) (EvOther (EvExecuteCisco t a (Inl e))) (Escaped e)"
| reconciled: "live_target d l
    \<Longrightarrow> lifecycle p (Executed d Ambiguous) (EvCollect l (plan_interface p) (Inr st)) Reconciled"
| unreconciled: "live_target d l
    \<Longrightarrow> lifecycle p (Executed d Ambiguous) (EvCollect l (plan_interface p) (Inl e))
          (failed_to provider_failure Reconciled e)"
| observed: "live_target d l
    \<Longrightarrow> lifecycle p (Executed d Succeeded) (EvCollect l (plan_interface p) (Inr st)) (Observed d st)"
| unobserved: "live_target d l
    \<Longrightarrow> lifecycle p (Executed d Succeeded) (EvCollect l (plan_interface p) (Inl e))
          (failed_to provider_failure Unobserved e)"
| recovering: "identity_observed p st \<Longrightarrow> is_description st \<noteq> Some (pp_desired_description p)
    \<Longrightarrow> write_target_of p d t \<Longrightarrow> pp_recovery_artifact p = Some a
    \<Longrightarrow> lifecycle p (Observed d st) (EvOther (EvExecuteCisco t a (Inr r)))
          (Recovering d st (er_disposition r))"
| recovery_raised: "identity_observed p st \<Longrightarrow> is_description st \<noteq> Some (pp_desired_description p)
    \<Longrightarrow> write_target_of p d t \<Longrightarrow> pp_recovery_artifact p = Some a
    \<Longrightarrow> lifecycle p (Observed d st) (EvOther (EvExecuteCisco t a (Inl e))) (Escaped e)"
| restored: "live_target d l
    \<Longrightarrow> lifecycle p (Recovering d st0 Succeeded) (EvCollect l (plan_interface p) (Inr st)) (Restored st)"
| unrestored: "live_target d l
    \<Longrightarrow> lifecycle p (Recovering d st0 Succeeded) (EvCollect l (plan_interface p) (Inl e))
          (failed_to provider_failure Unrestored e)"
| locked: "preconditions_unchanged p st \<Longrightarrow> write_target_of p d t \<Longrightarrow> pp_execution_artifact p = Junos a
    \<Longrightarrow> lifecycle p (Verified d st) (EvOther (EvJunosEnter t a (Inr u))) (Locked d)"
| unlocked: "preconditions_unchanged p st \<Longrightarrow> write_target_of p d t
    \<Longrightarrow> pp_execution_artifact p = Junos a
    \<Longrightarrow> lifecycle p (Verified d st) (EvOther (EvJunosEnter t a (Inl e)))
          (failed_to provider_failure Unlocked e)"
| prepared: "lifecycle p (Locked d) (EvOther (EvPrepare (Inr diff))) (Prepared d)"
| unprepared: "lifecycle p (Locked d) (EvOther (EvPrepare (Inl e)))
    (failed_to provider_failure Unprepared e)"
| released: "lifecycle p Unprepared (EvOther (EvExit (Inr b))) Released"
| not_released: "lifecycle p Unprepared (EvOther (EvExit (Inl e))) (failed_to is_exception Released e)"
| committed: "lifecycle p (Prepared d) (EvOther (EvCommitConfirmed 5 (Inr r)))
    (Committed d (er_disposition r))"
| commit_raised: "lifecycle p (Prepared d) (EvOther (EvCommitConfirmed 5 (Inl e)))
    (failed_to is_exception Commit_Unknown e)"
| left_unknown: "lifecycle p Commit_Unknown (EvOther (EvExit (Inr b))) Left_Unknown"
| left_raised: "lifecycle p Commit_Unknown (EvOther (EvExit (Inl e))) (failed_to is_exception Left_Unknown e)"
| closed: "lifecycle p (Committed d x) (EvOther (EvExit (Inr b))) (Closed d x b)"
| close_raised: "lifecycle p (Committed d x) (EvOther (EvExit (Inl e)))
    (failed_to is_exception (Closed d x True) e)"
| temporary: "live_target d l
    \<Longrightarrow> lifecycle p (Closed d Succeeded False) (EvCollect l (plan_interface p) (Inr st)) (Temporary d st)"
| untemporary: "live_target d l
    \<Longrightarrow> lifecycle p (Closed d Succeeded False) (EvCollect l (plan_interface p) (Inl e))
          (failed_to provider_failure Unconfirmed e)"
| confirmed: "identity_observed p st \<Longrightarrow> is_description st = Some (pp_desired_description p)
    \<Longrightarrow> write_target_of p d t
    \<Longrightarrow> lifecycle p (Temporary d st) (EvOther (EvConfirm t (Inr r))) (Confirmed (er_disposition r))"
| confirm_raised: "identity_observed p st \<Longrightarrow> is_description st = Some (pp_desired_description p)
    \<Longrightarrow> write_target_of p d t
    \<Longrightarrow> lifecycle p (Temporary d st) (EvOther (EvConfirm t (Inl e))) (Escaped e)"

inductive_cases lifecycle_cases: "lifecycle p s e s'"

text \<open>The outcome a phase stands for; \<open>None\<close> where an execution cannot end.\<close>

fun verdict :: "profiled_deployment_plan \<Rightarrow> phase \<Rightarrow> final_outcome option" where
  "verdict p Refused = Some BLOCKED"
| "verdict p (Resolved d) = (if admitted_device d then None else Some BLOCKED)"
| "verdict p (Bound d i) =
     (case admit_profiled_operation d INTERFACE_DESCRIPTION of
        Inl _ \<Rightarrow> Some BLOCKED
      | Inr a \<Rightarrow> (case live_read_only_target d of
          Inl _ \<Rightarrow> Some BLOCKED
        | Inr l \<Rightarrow> if plan_binding_unchanged p d i a l then None else Some STALE_PLAN))"
| "verdict p (Referenced d c) =
     (if cf_source c \<noteq> ''openbao'' \<or> cf_reference c \<noteq> pp_credential_reference p
      then Some STALE_PLAN else None)"
| "verdict p (Verified d st) = (if preconditions_unchanged p st then None else Some STALE_PLAN)"
| "verdict p (Executed d x) = (if x = Failed then Some EXECUTION_FAILED else None)"
| "verdict p Reconciled = Some AMBIGUOUS"
| "verdict p (Observed d st) =
     (if \<not> identity_observed p st then Some POST_VALIDATION_FAILED
      else if is_description st = Some (pp_desired_description p) then Some SUCCEEDED else None)"
| "verdict p Unobserved = Some POST_VALIDATION_FAILED"
| "verdict p (Recovering d st x) = (case x of
      Succeeded \<Rightarrow> None | Failed \<Rightarrow> Some RECOVERY_FAILED | Ambiguous \<Rightarrow> Some RECOVERY_AMBIGUOUS)"
| "verdict p (Restored st) = Some (if is_description st = pp_current_description p
      \<and> identity_observed p st then RECOVERED else RECOVERY_FAILED)"
| "verdict p Unrestored = Some RECOVERY_FAILED"
| "verdict p Unlocked = Some BLOCKED"
| "verdict p Released = Some BLOCKED"
| "verdict p Left_Unknown = Some AMBIGUOUS"
| "verdict p (Closed d x b) = (case x of
      Ambiguous \<Rightarrow> Some AMBIGUOUS | Failed \<Rightarrow> Some EXECUTION_FAILED
    | Succeeded \<Rightarrow> if b then Some AUTO_ROLLBACK_PENDING else None)"
| "verdict p (Temporary d st) =
     (if identity_observed p st \<and> is_description st = Some (pp_desired_description p) then None
      else Some AUTO_ROLLBACK_PENDING)"
| "verdict p Unconfirmed = Some AUTO_ROLLBACK_PENDING"
| "verdict p (Confirmed x) = Some (junos_outcome x)"
| "verdict p _ = None"

section \<open>What a valid plan says about its lifecycle\<close>

definition cisco_plan :: "profiled_deployment_plan \<Rightarrow> bool" where
  "cisco_plan p \<longleftrightarrow> (\<exists>a r. pp_execution_artifact p = Cisco a \<and> pp_recovery_artifact p = Some r)
     \<and> oa_transaction_strategy (pp_operation_admission p) = CISCO_TARGETED_INVERSE_Strategy
     \<and> oa_renderer_family (pp_operation_admission p) = CISCO_IOS_Renderer
     \<and> oa_transport_family (pp_operation_admission p) = ANSIBLE_NETWORK_CLI"

definition junos_plan :: "profiled_deployment_plan \<Rightarrow> bool" where
  "junos_plan p \<longleftrightarrow> (\<exists>a. pp_execution_artifact p = Junos a) \<and> pp_recovery_artifact p = None
     \<and> oa_transaction_strategy (pp_operation_admission p) = JUNOS_COMMIT_CONFIRMED_Strategy
     \<and> oa_renderer_family (pp_operation_admission p) = JUNOS_XML
     \<and> oa_transport_family (pp_operation_admission p) = JUNOS_PYEZ_NETCONF"

lemma population_network_os:
  assumes "m \<in> set PROFILED_MANAGED_POPULATION"
    and "admitted_operation (pm_automation_profile_id m) op = Some a"
  shows "oa_network_os a = pm_network_os m"
proof -
  have "list_all (\<lambda>m. case admitted_operation (pm_automation_profile_id m) INTERFACE_DESCRIPTION of
      None \<Rightarrow> True | Some a \<Rightarrow> oa_network_os a = pm_network_os m) PROFILED_MANAGED_POPULATION"
    by code_simp
  with assms show ?thesis by (cases op) (auto simp: list_all_iff)
qed

lemma valid_plan_facts:
  assumes "profiled_plan_valid sha p = Inr ()"
  shows "sha256_pattern (pp_digest p)" and "stable_interface_valid (pp_interface p)"
    and "admitted_operation (pp_automation_profile_id p) INTERFACE_DESCRIPTION
           = Some (pp_operation_admission p)"
    and "pp_network_os p = oa_network_os (pp_operation_admission p)"
    and "pp_credential_source p = ''openbao''" and "plan_verify_digest sha p"
    and "si_device (pp_interface p) = pp_device_identity p"
    and "cisco_plan p \<or> junos_plan p"
proof -
  from assms have v: "plan_fields_valid p"
    "admit_profiled_subject (pp_device_identity p) (pp_target p) (pp_platform_slug p)
       (pp_network_os p) (pp_automation_profile_id p) PROFILED_MANAGED_POPULATION = Inr ()"
    "(pp_execution_artifact p, pp_recovery_artifact p)
       = expected_artifacts (oa_renderer_family (pp_operation_admission p))
            (si_name (pp_interface p)) (pp_current_description p) (pp_desired_description p)"
    and adm: "admitted_operation (pp_automation_profile_id p) INTERFACE_DESCRIPTION
           = Some (pp_operation_admission p)"
    and rest: "si_device (pp_interface p) = pp_device_identity p" "plan_verify_digest sha p"
    by (auto simp: profiled_plan_valid_def bindS_Inr_iff plan_verify_digest_def)
  from v(1) show "sha256_pattern (pp_digest p)" "stable_interface_valid (pp_interface p)"
    "pp_credential_source p = ''openbao''"
    by (simp_all add: plan_fields_valid_def)
  from rest show "si_device (pp_interface p) = pp_device_identity p" "plan_verify_digest sha p" .
  from adm show "admitted_operation (pp_automation_profile_id p) INTERFACE_DESCRIPTION
           = Some (pp_operation_admission p)" .
  from v(2) obtain m where "m \<in> set PROFILED_MANAGED_POPULATION"
    "pp_network_os p = pm_network_os m" "pp_automation_profile_id p = pm_automation_profile_id m"
    by (auto simp: admit_profiled_subject_Inr dest: declaration_member_Inr)
  with adm population_network_os show "pp_network_os p = oa_network_os (pp_operation_admission p)"
    by metis
  have "(\<exists>i os. pp_operation_admission p = cisco_admission i os) \<or> pp_operation_admission p = junos_admission"
    using adm by (cases "pp_automation_profile_id p") (auto dest: sym)
  then show "cisco_plan p \<or> junos_plan p"
  proof (elim disjE exE)
    fix i os assume e: "pp_operation_admission p = cisco_admission i os"
    from v(3) have "cisco_plan p" unfolding cisco_plan_def e
      by (simp add: cisco_admission_def expected_artifacts_def)
    then show ?thesis ..
  next
    assume e: "pp_operation_admission p = junos_admission"
    from v(3) have "junos_plan p" unfolding junos_plan_def e
      by (simp add: junos_admission_def expected_artifacts_def)
    then show ?thesis ..
  qed
qed

section \<open>Every record the code builds is valid\<close>

lemma stage_checks_ok: "(\<forall>c \<in> set (stage_checks s). \<not> fst c) \<longleftrightarrow> stage_consistent s"
  by (auto simp: stage_checks_def stage_consistent_def)

definition record_facts ::
    "profiled_deployment_plan \<Rightarrow> final_outcome \<Rightarrow> stage_result \<Rightarrow> evidence \<Rightarrow> bool" where
  "record_facts p outcome pre ev \<longleftrightarrow>
     (let r = record_values p (pp_digest p) outcome pre ev undefined in
      list_all stage_consistent ([pre, xr_execution r, xr_post_validation r, xr_recovery r]
        @ optional_stage (ev_candidate ev) @ optional_stage (ev_confirmation ev))
      \<and> (\<forall>d \<in> set_option (ev_diff ev). sha256_pattern d)
      \<and> list_all (\<lambda>c. \<not> fst c) (common_checks r)
      \<and> (junos_record r \<longrightarrow> list_all (\<lambda>c. \<not> fst c) (junos_checks r))
      \<and> list_all (\<lambda>c. \<not> fst c) (outcome_checks r))"

lemma record_values_time:
  "record_values p a outcome pre ev time
     = (record_values p a outcome pre ev undefined)\<lparr>xr_generated_at := time\<rparr>"
  by (simp add: record_values_def)

lemma checks_time [simp]:
  "common_checks (r\<lparr>xr_generated_at := time\<rparr>) = common_checks r"
  "junos_checks (r\<lparr>xr_generated_at := time\<rparr>) = junos_checks r"
  "outcome_checks (r\<lparr>xr_generated_at := time\<rparr>) = outcome_checks r"
  "junos_record (r\<lparr>xr_generated_at := time\<rparr>) = junos_record r"
  by (simp_all add: common_checks_def junos_checks_def outcome_checks_def junos_record_def Let_def
      cong: final_outcome.case_cong)

lemma record_values_valid:
  assumes plan: "profiled_plan_valid sha p = Inr ()" and facts: "record_facts p outcome pre ev"
  shows "change_record_valid (record_values p (pp_digest p) outcome pre ev time) = Inr ()"
proof -
  define r where "r = record_values p (pp_digest p) outcome pre ev undefined"
  note v = valid_plan_facts [OF plan]
  have fields: "change_record_fields_valid r"
    using v facts
    by (auto simp: change_record_fields_valid_def r_def record_values_def record_facts_def Let_def
        split: option.splits)
  have head: "\<not> (xr_approval_digest r \<noteq> xr_plan_digest r)"
    "\<not> (case admitted_operation (xr_automation_profile_id r) (xr_operation r) of None \<Rightarrow> True
       | Some a \<Rightarrow> xr_network_os r \<noteq> oa_network_os a
           \<or> xr_transaction_strategy r \<noteq> oa_transaction_strategy a)"
    using v by (auto simp: r_def record_values_def)
  have stages: "list_all stage_consistent
     ([xr_preflight r, xr_execution r, xr_post_validation r, xr_recovery r]
       @ optional_stage (xr_candidate_validation r) @ optional_stage (xr_confirmation r))"
    using facts by (simp add: record_facts_def Let_def r_def record_values_def)
  have stage_ok: "\<And>c. c \<in> set (concat (map stage_checks
      ([xr_preflight r, xr_execution r, xr_post_validation r, xr_recovery r]
         @ optional_stage (xr_candidate_validation r) @ optional_stage (xr_confirmation r))))
      \<Longrightarrow> \<not> fst c"
    using stages stage_checks_ok by (fastforce simp: list_all_iff)
  have rest: "list_all (\<lambda>c. \<not> fst c)
      (common_checks r @ (if junos_record r then junos_checks r else []) @ outcome_checks r)"
    using facts by (simp add: record_facts_def Let_def r_def)
  have "consistent_outcome r = Inr ()"
    unfolding consistent_outcome_def checks_ok
    using head stage_ok rest by (auto simp: list_all_iff)
  then have "consistent_outcome (r\<lparr>xr_generated_at := time\<rparr>) = Inr ()"
    by (simp add: consistent_outcome_def cong: option.case_cong split: if_splits)
  moreover have "change_record_fields_valid (r\<lparr>xr_generated_at := time\<rparr>)"
    using fields by (simp add: change_record_fields_valid_def)
  ultimately show ?thesis
    by (simp add: change_record_valid_def record_values_time [of _ _ _ _ _ time] r_def)
qed

definition bound_record :: "profiled_deployment_plan \<Rightarrow> profiled_change_record \<Rightarrow> bool" where
  "bound_record p r \<longleftrightarrow> (\<exists>outcome pre ev time. r = record_values p (pp_digest p) outcome pre ev time)"

lemma bound_record_verifies:
  assumes "profiled_plan_valid sha p = Inr ()" and "change_record_valid r = Inr ()"
    and "bound_record p r"
  shows "verify_profiled_record_plan sha r p = Inr ()"
proof -
  from valid_plan_facts(3) [OF assms(1)]
  have "oa_operation (pp_operation_admission p) = INTERFACE_DESCRIPTION"
    by (rule admitted_operation_profile)
  with assms valid_plan_facts [OF assms(1)] show ?thesis
    by (auto simp: verify_profiled_record_plan_def bound_record_def record_values_def)
qed

section \<open>The code follows the lifecycle\<close>

text \<open>How an execution may end: with a valid record bound to the plan whose outcome is the verdict
  of the phase reached, or with the exception a provider raised.\<close>

definition ends ::
    "profiled_deployment_plan \<Rightarrow> exn + profiled_change_record \<Rightarrow> phase \<Rightarrow> bool" where
  "ends p r s \<longleftrightarrow> (case r of
     Inr x \<Rightarrow> verdict p s = Some (xr_final_outcome x) \<and> change_record_valid x = Inr () \<and> bound_record p x
   | Inl e \<Rightarrow> s = Escaped e)"

lemma ends_Escaped [simp]: "ends p (Inl e) (Escaped e)"
  by (simp add: ends_def)

lemma runs_record_of:
  assumes "profiled_plan_valid sha p = Inr ()" and "record_facts p outcome pre ev"
    and "verdict p s = Some outcome"
  shows "runs (lifecycle p) s (record_of pv p (pp_digest p) outcome pre ev) (ends p)"
  using assms record_values_valid [OF assms(1,2)]
  by (intro runs_silent)
    (auto simp: record_of_def Let_def ends_def bound_record_def record_values_def)

lemma observed_transition_cases:
  "observed_transition p (Some st) = None
   \<or> observed_transition p (Some st) = Some (is_description st \<noteq> pp_current_description p)"
  by (simp add: observed_transition_def)

lemma observed_transition_eq [simp]:
  "(\<exists>y. observed_transition p (Some st) = Some y)
      \<and> observed_transition p (Some st) \<noteq> Some (is_description st \<noteq> pp_current_description p)
   \<longleftrightarrow> False"
  using observed_transition_cases [of p st] by auto

lemma stage_parts [simp]:
  "sr_attempted (result_stage x)" "sr_succeeded (result_stage x) = Some (er_disposition x = Succeeded)"
  "sr_attempted (observed_stage m b p st)" "sr_succeeded (observed_stage m b p st) = Some b"
  "sr_observed_description (observed_stage m b p st) = is_description st"
  "sr_changed (observed_stage m b p st) = observed_transition p (Some st)"
  "sr_attempted (blocked_stage m)" "sr_succeeded (blocked_stage m) = Some False"
  "sr_attempted (verified_stage st)" "sr_succeeded (verified_stage st) = Some True"
  "sr_observed_description (verified_stage st) = is_description st"
  by (simp_all add: result_stage_def observed_stage_def blocked_stage_def verified_stage_def)

lemmas record_facts_simps = record_facts_def record_values_def common_checks_def junos_checks_def
  outcome_checks_def junos_record_def recovery_outcomes_def confirmation_outcomes_def
  or_not_attempted_def no_evidence_def optional_stage_def attempted_def succeeded_is_def
  stage_consistent_def Let_def

lemma record_facts_blocked:
  "outcome \<in> {BLOCKED, STALE_PLAN} \<Longrightarrow> record_facts p outcome (blocked_stage m) no_evidence"
  by (auto simp: record_facts_simps)

definition post_ok :: "profiled_deployment_plan \<Rightarrow> stage_result \<Rightarrow> bool" where
  "post_ok p post \<longleftrightarrow> stage_consistent post \<and> sr_attempted post
     \<and> (sr_changed post = None
        \<or> sr_changed post = Some (sr_observed_description post \<noteq> pp_current_description p))"

lemma post_ok_stages [simp]:
  "post_ok p (observed_stage m b p st)" "post_ok p (attempted_stage m b)"
  using observed_transition_cases [of p st]
  by (auto simp: post_ok_def stage_consistent_def)

lemma record_facts_cisco:
  assumes "cisco_plan p" and "preconditions_unchanged p st"
  defines "pre \<equiv> verified_stage st"
  shows "er_disposition x = Failed
      \<Longrightarrow> record_facts p EXECUTION_FAILED pre (no_evidence\<lparr>ev_execution := Some (result_stage x)\<rparr>)"
    and "er_disposition x = Ambiguous \<Longrightarrow> post_ok p post
      \<Longrightarrow> record_facts p AMBIGUOUS pre
            (no_evidence\<lparr>ev_execution := Some (result_stage x), ev_post := Some post\<rparr>)"
    and "er_disposition x = Succeeded \<Longrightarrow> post_ok p post \<Longrightarrow> sr_succeeded post = Some False
      \<Longrightarrow> record_facts p POST_VALIDATION_FAILED pre
            (no_evidence\<lparr>ev_execution := Some (result_stage x), ev_post := Some post\<rparr>)"
    and "er_disposition x = Succeeded \<Longrightarrow> post_ok p post \<Longrightarrow> sr_succeeded post = Some True
      \<Longrightarrow> sr_observed_description post = Some (pp_desired_description p)
      \<Longrightarrow> record_facts p SUCCEEDED pre
            (no_evidence\<lparr>ev_execution := Some (result_stage x), ev_post := Some post\<rparr>)"
    and "er_disposition x = Succeeded \<Longrightarrow> post_ok p post \<Longrightarrow> sr_succeeded post = Some False
      \<Longrightarrow> sr_observed_description post \<noteq> Some (pp_desired_description p)
      \<Longrightarrow> stage_consistent recovery \<Longrightarrow> sr_attempted recovery
      \<Longrightarrow> outcome \<in> {RECOVERED, RECOVERY_FAILED, RECOVERY_AMBIGUOUS}
      \<Longrightarrow> outcome = RECOVERED \<longrightarrow> sr_succeeded recovery = Some True
            \<and> sr_observed_description recovery = pp_current_description p
      \<Longrightarrow> outcome = RECOVERY_AMBIGUOUS \<longrightarrow> sr_succeeded recovery = Some False
      \<Longrightarrow> record_facts p outcome pre (no_evidence\<lparr>ev_execution := Some (result_stage x),
            ev_post := Some post, ev_recovery := Some recovery\<rparr>)"
  using assms
  by (auto simp: record_facts_simps cisco_plan_def post_ok_def preconditions_unchanged_def)

lemma record_facts_junos:
  assumes "junos_plan p" and "preconditions_unchanged p st" and "sha256_pattern diff"
  defines "pre \<equiv> verified_stage st"
    and "candidate \<equiv> (attempted_stage ''candidate validated'' True)\<lparr>sr_changed := Some True\<rparr>"
  defines "facts \<equiv> no_evidence\<lparr>ev_candidate := Some candidate, ev_diff := Some diff\<rparr>"
  shows "record_facts p BLOCKED pre (no_evidence\<lparr>ev_candidate := Some (attempted_stage m False)\<rparr>)"
    and "record_facts p AMBIGUOUS pre (facts\<lparr>ev_execution := Some (attempted_stage m False)\<rparr>)"
    and "er_disposition x = Ambiguous
      \<Longrightarrow> record_facts p AMBIGUOUS pre (facts\<lparr>ev_execution := Some (result_stage x)\<rparr>)"
    and "er_disposition x = Failed
      \<Longrightarrow> record_facts p EXECUTION_FAILED pre (facts\<lparr>ev_execution := Some (result_stage x)\<rparr>)"
    and "er_disposition x = Succeeded
      \<Longrightarrow> record_facts p AUTO_ROLLBACK_PENDING pre (facts\<lparr>ev_execution := Some (result_stage x)\<rparr>)"
    and "er_disposition x = Succeeded \<Longrightarrow> post_ok p post \<Longrightarrow> sr_succeeded post = Some False
      \<Longrightarrow> record_facts p AUTO_ROLLBACK_PENDING pre
            (facts\<lparr>ev_execution := Some (result_stage x), ev_post := Some post\<rparr>)"
    and "er_disposition x = Succeeded \<Longrightarrow> post_ok p post \<Longrightarrow> sr_succeeded post = Some True
      \<Longrightarrow> sr_observed_description post = Some (pp_desired_description p)
      \<Longrightarrow> record_facts p (junos_outcome (er_disposition y)) pre
            (facts\<lparr>ev_execution := Some (result_stage x), ev_post := Some post,
              ev_confirmation := Some (result_stage y)\<rparr>)"
  using assms
  by (auto simp: record_facts_simps junos_plan_def post_ok_def preconditions_unchanged_def
      junos_outcome_def split: execution_disposition.splits)

end
