(* ===== verification/Execution_Refinement.thy ===== *)
theory Execution_Refinement
  imports Execution_Lifecycle
begin

text \<open>
  \<open>execute_profiled_plan\<close> follows the lifecycle of \<open>Execution_Lifecycle\<close>, call by call, and the laws
  of the lifecycle's logs: which writes a run can have made in each phase.
\<close>

section \<open>Calls of the lifecycle\<close>

lemma runs_handled_bind:
  assumes "\<And>x. lifecycle p s (ev (Inr x)) (f x)"
    and "\<And>e. lifecycle p s (ev (Inl e)) (failed_to h g e)"
    and "\<And>t x. q t = Inr x \<Longrightarrow> runs (lifecycle p) (f x) (k (Some x)) (ends p)"
    and "runs (lifecycle p) g (k None) (ends p)"
  shows "runs (lifecycle p) s (bindE (handled h (askE q ev)) k) (ends p)"
proof (rule runs_bindE)
  let ?Q = "\<lambda>r s'. case r of Inr (Some x) \<Rightarrow> s' = f x \<and> (\<exists>t. q t = Inr x)
    | Inr None \<Rightarrow> s' = g | Inl e \<Rightarrow> s' = Escaped e"
  show "runs (lifecycle p) s (handled h (askE q ev)) ?Q"
  proof (rule runs_handled)
    show "runs (lifecycle p) s (askE q ev)
       (\<lambda>r s'. case r of Inr x \<Rightarrow> s' = f x \<and> (\<exists>t. q t = Inr x) | Inl e \<Rightarrow> s' = failed_to h g e)"
    proof (rule runs_askE)
      fix t
      show "\<exists>s'. lifecycle p s (ev (q t)) s'
        \<and> (case q t of Inr x \<Rightarrow> s' = f x \<and> (\<exists>t. q t = Inr x) | Inl e \<Rightarrow> s' = failed_to h g e)"
        using assms(1,2) by (cases "q t") auto
    qed
  qed (auto simp: failed_to_def split: if_splits)
next
  fix x s' assume "case Inr x of Inr (Some x) \<Rightarrow> s' = f x \<and> (\<exists>t. q t = Inr x)
    | Inr None \<Rightarrow> s' = g | Inl e \<Rightarrow> s' = Escaped e"
  then show "runs (lifecycle p) s' (k x) (ends p)"
    using assms(3,4) by (cases x) auto
qed auto

lemma runs_ask_bind:
  assumes "\<And>x. lifecycle p s (ev (Inr x)) (f x)" and "\<And>e. lifecycle p s (ev (Inl e)) (Escaped e)"
    and "\<And>x. runs (lifecycle p) (f x) (k x) (ends p)"
  shows "runs (lifecycle p) s (bindE (askE q ev) k) (ends p)"
proof (rule runs_bindE)
  show "runs (lifecycle p) s (askE q ev) (\<lambda>r s'. case r of Inr x \<Rightarrow> s' = f x | Inl e \<Rightarrow> s' = Escaped e)"
  proof (rule runs_askE)
    fix t
    show "\<exists>s'. lifecycle p s (ev (q t)) s'
      \<and> (case q t of Inr x \<Rightarrow> s' = f x | Inl e \<Rightarrow> s' = Escaped e)"
      using assms(1,2) by (cases "q t") auto
  qed
qed (use assms(3) in auto)

lemma liftE_bind [simp]: "bindE (liftE (Inr x)) f = f x" "bindE (liftE (Inl e)) f = raise e"
  by (simp_all add: eff_simps)

lemma observe_live:
  "live_target d l \<Longrightarrow> observe pv p d cr = askE (\<lambda>t. pv_collect pv t l cr (plan_interface p))
     (EvCollect l (plan_interface p))"
  by (simp add: observe_def live_target_def collect_def)

lemma write_calls:
  assumes "write_target_of p d t"
  shows "oa_renderer_family (wt_admission t) = CISCO_IOS_Renderer \<Longrightarrow> execute_cisco wr t cr a
      = askE (\<lambda>h. wr_execute wr h t cr a) (\<lambda>r. EvOther (EvExecuteCisco t a r))"
    and "oa_renderer_family (wt_admission t) = JUNOS_XML \<Longrightarrow> junos_enter wr t cr b
      = askE (\<lambda>h. wr_enter wr h t cr b) (\<lambda>r. EvOther (EvJunosEnter t b r))"
    and "oa_renderer_family (wt_admission t) = JUNOS_XML \<Longrightarrow> confirm_junos wr t cr
      = askE (\<lambda>h. wr_confirm wr h t cr) (\<lambda>r. EvOther (EvConfirm t r))"
  using assms vendor_targets [of t] from_preflight_Inr(6)
  by (auto simp: write_target_of_def execute_cisco_def junos_enter_def confirm_junos_def)

section \<open>The Cisco lifecycle\<close>

lemma runs_recover_cisco:
  assumes v: "profiled_plan_valid sha p = Inr ()" and c: "cisco_plan p"
    and st: "preconditions_unchanged p st" and l: "live_target d l" and t: "write_target_of p d t"
    and a: "wt_admission t = pp_operation_admission p" and x: "er_disposition x = Succeeded"
    and o: "identity_observed p ob" "is_description ob \<noteq> Some (pp_desired_description p)"
  shows "runs (lifecycle p) (Observed d ob)
    (recover_cisco pv wr p (pp_digest p) d t cr (verified_stage st) (result_stage x) ob) (ends p)"
proof -
  from c obtain inv where inv: "pp_recovery_artifact p = Some inv" by (auto simp: cisco_plan_def)
  have ex: "execute_cisco wr t cr inv
      = askE (\<lambda>h. wr_execute wr h t cr inv) (\<lambda>r. EvOther (EvExecuteCisco t inv r))"
    using c a by (intro write_calls(1) [OF t]) (simp add: cisco_plan_def)
  note facts = record_facts_cisco(5) [OF c st x, of "observed_stage ''desired state not observed'' False p ob"]
  show ?thesis
    unfolding recover_cisco_def inv option.case ex
  proof (rule runs_ask_bind [OF lifecycle.recovering [OF o t inv] lifecycle.recovery_raised [OF o t inv]],
      goal_cases)
    case (1 y)
    show ?case
    proof (cases "er_disposition y")
      case Succeeded
      show ?thesis
        unfolding observe_live [OF l] Let_def Succeeded execution_disposition.case
        by (rule runs_handled_bind [OF lifecycle.restored [OF l] lifecycle.unrestored [OF l]])
          (auto simp: stage_consistent_def o Succeeded intro!: runs_record_of [OF v] facts)
    qed (use o in \<open>auto simp: Let_def stage_consistent_def intro!: runs_record_of [OF v] facts\<close>)
  qed
qed

lemma runs_execute_cisco:
  assumes v: "profiled_plan_valid sha p = Inr ()" and c: "cisco_plan p"
    and st: "preconditions_unchanged p st" and l: "live_target d l" and t: "write_target_of p d t"
    and a: "wt_admission t = pp_operation_admission p" and art: "pp_execution_artifact p = Cisco art"
  shows "runs (lifecycle p) (Verified d st)
    (execute_cisco_plan pv wr p (pp_digest p) d t cr (verified_stage st) art) (ends p)"
proof -
  have ex: "execute_cisco wr t cr art
      = askE (\<lambda>h. wr_execute wr h t cr art) (\<lambda>r. EvOther (EvExecuteCisco t art r))"
    using c a by (intro write_calls(1) [OF t]) (simp add: cisco_plan_def)
  note facts = record_facts_cisco [OF c st]
  show ?thesis
    unfolding execute_cisco_plan_def ex
  proof (rule runs_ask_bind [OF lifecycle.executed [OF st t art] lifecycle.execute_raised [OF st t art]],
      goal_cases)
    case (1 x)
    show ?case
    proof (cases "er_disposition x")
      case Failed
      then show ?thesis by (auto simp: Let_def intro!: runs_record_of [OF v] facts)
    next
      case Ambiguous
      show ?thesis
        unfolding observe_live [OF l] Let_def Ambiguous execution_disposition.case
        by (rule runs_handled_bind [OF lifecycle.reconciled [OF l] lifecycle.unreconciled [OF l]])
          (auto simp: Ambiguous intro!: runs_record_of [OF v] facts)
    next
      case x: Succeeded
      show ?thesis
        unfolding observe_live [OF l] Let_def x execution_disposition.case
      proof (rule runs_handled_bind [OF lifecycle.observed [OF l] lifecycle.unobserved [OF l]],
          goal_cases)
        case (1 h ob)
        show ?case
          using runs_recover_cisco [OF v c st l t a x, of ob pv wr cr]
          by (auto simp: x intro!: runs_record_of [OF v] facts)
      next
        case 2
        show ?case by (auto simp: x intro!: runs_record_of [OF v] facts)
      qed
    qed
  qed
qed

section \<open>The Junos lifecycle\<close>

definition diffs_are_digests :: "'x writer \<Rightarrow> bool" where
  "diffs_are_digests wr \<longleftrightarrow> (\<forall>h diff. wr_prepare wr h = Inr diff \<longrightarrow> sha256_pattern diff)"

lemma runs_validate_and_confirm:
  assumes v: "profiled_plan_valid sha p = Inr ()" and j: "junos_plan p"
    and st: "preconditions_unchanged p st" and l: "live_target d l" and t: "write_target_of p d t"
    and a: "wt_admission t = pp_operation_admission p" and diff: "sha256_pattern diff"
    and x: "er_disposition x = Succeeded"
    and facts: "facts = no_evidence\<lparr>ev_candidate := Some ((attempted_stage ''candidate validated'' True)
        \<lparr>sr_changed := Some True\<rparr>), ev_diff := Some diff, ev_execution := Some (result_stage x)\<rparr>"
  shows "runs (lifecycle p) (Closed d Succeeded False)
    (validate_and_confirm pv wr p (pp_digest p) d t cr (verified_stage st) facts) (ends p)"
proof -
  have cf: "confirm_junos wr t cr = askE (\<lambda>h. wr_confirm wr h t cr) (\<lambda>r. EvOther (EvConfirm t r))"
    using j a by (intro write_calls(3) [OF t]) (simp add: junos_plan_def)
  note rf = record_facts_junos [OF j st diff]
  show ?thesis
    unfolding validate_and_confirm_def observe_live [OF l]
  proof (rule runs_handled_bind [OF lifecycle.temporary [OF l] lifecycle.untemporary [OF l]], goal_cases)
    case (1 h ob)
    show ?case
    proof (cases "identity_observed p ob \<and> is_description ob = Some (pp_desired_description p)")
      case True
      then show ?thesis
        unfolding cf
        by (auto simp: facts x intro!: runs_record_of [OF v] rf
            runs_ask_bind [OF lifecycle.confirmed [OF _ _ t] lifecycle.confirm_raised [OF _ _ t]])
    next
      case False
      then show ?thesis by (auto simp: facts x intro!: runs_record_of [OF v] rf)
    qed
  next
    case 2
    show ?case by (auto simp: facts x intro!: runs_record_of [OF v] rf)
  qed
qed

lemma runs_execute_junos:
  assumes v: "profiled_plan_valid sha p = Inr ()" and j: "junos_plan p"
    and st: "preconditions_unchanged p st" and l: "live_target d l" and t: "write_target_of p d t"
    and a: "wt_admission t = pp_operation_admission p" and art: "pp_execution_artifact p = Junos art"
    and wf: "diffs_are_digests wr"
  shows "runs (lifecycle p) (Verified d st)
    (execute_junos_plan pv wr p (pp_digest p) d t cr (verified_stage st) art) (ends p)"
proof -
  have en: "junos_enter wr t cr art
      = askE (\<lambda>h. wr_enter wr h t cr art) (\<lambda>r. EvOther (EvJunosEnter t art r))"
    using j a by (intro write_calls(2) [OF t]) (simp add: junos_plan_def)
  have "sha256_pattern (''sha256:'' @ replicate 64 CHR ''0'')" by code_simp
  note blocked = record_facts_junos(1) [OF j st this]
  note calls = junos_prepare_def junos_exit_def junos_commit_confirmed_def
  show ?thesis
    unfolding execute_junos_plan_def en calls
  proof (rule runs_handled_bind [OF lifecycle.locked [OF st t art] lifecycle.unlocked [OF st t art]],
      goal_cases)
    case (1 h u)
    show ?case
      unfolding option.case
    proof (rule runs_handled_bind [OF lifecycle.prepared lifecycle.unprepared], goal_cases)
      case (1 h' diff)
      from 1 wf have diff: "sha256_pattern diff" by (auto simp: diffs_are_digests_def)
      note rf = record_facts_junos [OF j st diff]
      show ?case
        unfolding option.case Let_def
      proof (rule runs_handled_bind [OF lifecycle.committed lifecycle.commit_raised], goal_cases)
        case (1 h'' x)
        have closed: "runs (lifecycle p) (Closed d (er_disposition x) b)
           (case er_disposition x of
              Ambiguous \<Rightarrow> record_of pv p (pp_digest p) AMBIGUOUS (verified_stage st)
                (no_evidence\<lparr>ev_candidate := Some ((attempted_stage ''candidate validated'' True)
                   \<lparr>sr_changed := Some True\<rparr>), ev_diff := Some diff,
                   ev_execution := Some (result_stage x)\<rparr>)
            | Failed \<Rightarrow> record_of pv p (pp_digest p) EXECUTION_FAILED (verified_stage st)
                (no_evidence\<lparr>ev_candidate := Some ((attempted_stage ''candidate validated'' True)
                   \<lparr>sr_changed := Some True\<rparr>), ev_diff := Some diff,
                   ev_execution := Some (result_stage x)\<rparr>)
            | Succeeded \<Rightarrow>
                if b then record_of pv p (pp_digest p) AUTO_ROLLBACK_PENDING (verified_stage st)
                  (no_evidence\<lparr>ev_candidate := Some ((attempted_stage ''candidate validated'' True)
                     \<lparr>sr_changed := Some True\<rparr>), ev_diff := Some diff,
                     ev_execution := Some (result_stage x)\<rparr>)
                else validate_and_confirm pv wr p (pp_digest p) d t cr (verified_stage st)
                  (no_evidence\<lparr>ev_candidate := Some ((attempted_stage ''candidate validated'' True)
                     \<lparr>sr_changed := Some True\<rparr>), ev_diff := Some diff,
                     ev_execution := Some (result_stage x)\<rparr>)) (ends p)" for b
          using runs_validate_and_confirm [OF v j st l t a diff _ refl, of x pv wr cr]
          by (cases "er_disposition x") (auto intro!: runs_record_of [OF v] rf)
        show ?case
          unfolding option.case
        proof (rule runs_handled_bind [OF lifecycle.closed lifecycle.close_raised], goal_cases)
          case (1 h b)
          show ?case unfolding option.case by (rule closed)
        next
          case 2
          show ?case unfolding option.case by (rule closed)
        qed
      next
        case 2
        show ?case
          unfolding option.case
          by (rule runs_handled_bind [OF lifecycle.left_unknown lifecycle.left_raised])
            (auto intro!: runs_record_of [OF v] rf)
      qed
    next
      case 2
      show ?case
        unfolding option.case
        by (rule runs_handled_bind [OF lifecycle.released lifecycle.not_released])
          (auto intro!: runs_record_of [OF v] blocked)
    qed
  next
    case 2
    show ?case unfolding option.case by (auto intro!: runs_record_of [OF v] blocked)
  qed
qed

section \<open>Preflight and the whole execution\<close>

lemma checks_Inl: "checks cs = Inl e \<Longrightarrow> (True, e) \<in> set cs"
  by (induction cs rule: checks.induct) (auto split: if_splits)

lemma bindS_Inl_iff: "bindS r f = Inl e \<longleftrightarrow> r = Inl e \<or> (\<exists>x. r = Inr x \<and> f x = Inl e)"
  by (cases r) auto

lemma automation_profile_total: "\<exists>a. get_automation_profile i = Inr a"
  by (cases i) simp_all

lemma live_error: "live_read_only_target d = Inl e \<Longrightarrow> provider_failure e"
  using automation_profile_total [of "dv_automation_profile_id d"]
  by (auto simp: live_read_only_target_def Let_def profile_read_only_target_valid_def bindS_Inl_iff
      split: if_splits)

lemma subject_error:
  "admit_profiled_subject i n ps os pr decl = Inl e \<Longrightarrow> provider_failure e"
  by (auto simp: admit_profiled_subject_def bindS_Inl_iff declaration_member_def
      split: option.splits if_splits)

lemma operation_error: "admit_profiled_operation d op = Inl e \<Longrightarrow> provider_failure e"
  by (auto simp: admit_profiled_operation_def bindS_Inl_iff live_error
      dest: subject_error split: option.splits if_splits)

lemma runs_ask_call:
  assumes "\<And>x. step s (ev (Inr x)) (f x)" and "\<And>e. step s (ev (Inl e)) (g e)"
  shows "runs step s (askE q ev) (\<lambda>r s'. case r of Inr x \<Rightarrow> s' = f x | Inl e \<Rightarrow> s' = g e)"
proof (rule runs_askE)
  fix t
  show "\<exists>s'. step s (ev (q t)) s' \<and> (case q t of Inr x \<Rightarrow> s' = f x | Inl e \<Rightarrow> s' = g e)"
    using assms by (cases "q t") auto
qed

lemma runs_call_bind:
  assumes "\<And>x. step s (ev (Inr x)) (f x)" and "\<And>e. step s (ev (Inl e)) (g e)"
    and "\<And>x. runs step (f x) (k x) R" and "\<And>e. R (Inl e) (g e)"
  shows "runs step s (bindE (askE q ev) k) R"
  by (rule runs_bindE [OF runs_ask_call [where step = step and ev = ev and f = f and g = g, OF assms(1,2)]])
    (auto simp: assms(3,4))

text \<open>How the calls made before the first write may end, as a handled exception sees it.\<close>

definition refused :: "profiled_deployment_plan \<Rightarrow> final_outcome \<Rightarrow> exn \<Rightarrow> phase \<Rightarrow> bool" where
  "refused p outcome e s \<longleftrightarrow>
     (if provider_failure e then verdict p s = Some outcome else s = Escaped e)"

lemma refused_failed_to [simp]: "refused p BLOCKED e (failed_to provider_failure Refused e)"
  by (simp add: refused_def failed_to_def)

lemma runs_resolve_admitted:
  "runs (lifecycle p) Ready (resolve_admitted pv p) (\<lambda>r s. case r of
     Inr (d, i, a, l) \<Rightarrow> s = Bound d i \<and> admit_profiled_operation d INTERFACE_DESCRIPTION = Inr a
       \<and> live_read_only_target d = Inr l
   | Inl e \<Rightarrow> refused p BLOCKED e s)" (is "runs _ _ _ ?R")
  unfolding resolve_admitted_def resolve_def resolve_interface_def
proof (rule runs_call_bind [where step = "lifecycle p" and R = ?R, OF lifecycle.resolved lifecycle.unresolved], goal_cases)
  case (1 d)
  show ?case
  proof (cases "admit_profiled_subject (dv_device_identity d) (dv_logical_name d)
     (nf_slug (dv_platform d)) (dv_network_os d) (dv_automation_profile_id d)
     PROFILED_MANAGED_POPULATION")
    case (Inl e)
    then show ?thesis
      using subject_error [OF Inl] by (auto simp: refused_def admitted_device_def intro!: runs_pure)
  next
    case (Inr u)
    then have d: "admitted_device d" by (simp add: admitted_device_def)
    show ?thesis
      unfolding Inr liftE_bind
    proof (rule runs_call_bind [where step = "lifecycle p" and R = ?R, OF lifecycle.bound [OF d] lifecycle.unbound [OF d]], goal_cases)
      case (1 i)
      show ?case
      proof (cases "admit_profiled_operation d INTERFACE_DESCRIPTION")
        case (Inl e)
        then show ?thesis using operation_error [OF Inl] by (auto simp: refused_def intro!: runs_pure)
      next
        case a: (Inr a)
        show ?thesis
        proof (cases "live_read_only_target d")
          case (Inl e)
          with a show ?thesis using live_error [OF Inl] by (auto simp: refused_def intro!: runs_pure)
        next
          case (Inr l)
          with a show ?thesis by (auto intro!: runs_pure)
        qed
      qed
    qed simp
  qed
qed simp

definition preflight_ends ::
    "profiled_deployment_plan \<Rightarrow> execution_error + (profiled_inventory_device \<times> stable_interface
      \<times> device_credentials \<times> interface_state) \<Rightarrow> phase \<Rightarrow> bool" where
  "preflight_ends p r s = (case r of
     Inr (d, i, cr, st) \<Rightarrow> s = Verified d st \<and> preconditions_unchanged p st \<and> rebound p d i
   | Inl (Classified outcome m) \<Rightarrow> verdict p s = Some outcome \<and> outcome \<in> {BLOCKED, STALE_PLAN}
   | Inl (Py e) \<Rightarrow> s = Escaped e)"

lemma runs_py:
  assumes "runs step s m (\<lambda>r. Q (map_sum Py id r))"
  shows "runs step s (py m) Q"
  unfolding runs_def
proof
  fix t
  obtain u s' where "snd (m t) = t @ u" "path step s u s'" "Q (map_sum Py id (fst (m t))) s'"
    using assms by (rule runsD)
  then show "\<exists>u s'. snd (py m t) = t @ u \<and> path step s u s' \<and> Q (fst (py m t)) s'"
    by (cases "m t") (auto simp: py_def)
qed

lemma runs_py_attempt:
  assumes m: "runs (lifecycle p) s m (\<lambda>r s'. case r of Inr x \<Rightarrow> P x s' | Inl e \<Rightarrow> refused p BLOCKED e s')"
    and some: "\<And>x s'. P x s' \<Longrightarrow> runs (lifecycle p) s' (k (Some x)) (preflight_ends p)"
    and none: "k None = raise (Classified BLOCKED message)"
  shows "runs (lifecycle p) s (bindE (py (attempt m)) k) (preflight_ends p)"
proof (rule runs_bindE)
  show "runs (lifecycle p) s (py (attempt m)) (\<lambda>r s'. case r of
      Inr (Some x) \<Rightarrow> P x s' | Inr None \<Rightarrow> verdict p s' = Some BLOCKED
    | Inl (Py e) \<Rightarrow> s' = Escaped e | Inl (Classified _ _) \<Rightarrow> False)"
    by (rule runs_py, rule runs_handled [OF m]) (auto simp: refused_def)
next
  fix x s'
  assume "case Inr x of Inr (Some x) \<Rightarrow> P x s' | Inr None \<Rightarrow> verdict p s' = Some BLOCKED
    | Inl (Py e) \<Rightarrow> s' = Escaped e | Inl (Classified _ _) \<Rightarrow> False"
  then show "runs (lifecycle p) s' (k x) (preflight_ends p)"
    using some none by (cases x) (auto simp: preflight_ends_def intro!: runs_pure)
qed (auto simp: preflight_ends_def split: execution_error.splits)

lemma runs_preflight: "runs (lifecycle p) Ready (preflight pv p) (preflight_ends p)"
  unfolding preflight_def
proof (rule runs_py_attempt [where P = "\<lambda>(d, i, a, l) s. s = Bound d i
      \<and> admit_profiled_operation d INTERFACE_DESCRIPTION = Inr a \<and> live_read_only_target d = Inr l"],
    goal_cases)
  case 1
  show ?case by (rule runs_conseq [OF runs_resolve_admitted]) (auto split: sum.splits)
next
  case (2 x s)
  then obtain d i a l where x: "x = (d, i, a, l)" "s = Bound d i"
    and al: "admit_profiled_operation d INTERFACE_DESCRIPTION = Inr a" "live_read_only_target d = Inr l"
    by (cases x) auto
  show ?case
  proof (cases "plan_binding_unchanged p d i a l")
    case False
    with x al show ?thesis by (auto simp: preflight_ends_def intro!: runs_pure)
  next
    case True
    with al have rb: "rebound p d i" by (auto simp: rebound_def)
    have lt: "live_target d l" using al by (simp add: live_target_def)
    have "runs (lifecycle p) (Bound d i)
      (bindE (py (attempt (reference pv d))) (\<lambda>offered.
        case offered of
          None \<Rightarrow> raise (Classified BLOCKED ''credential reference resolution blocked'')
        | Some c \<Rightarrow>
          if cf_source c \<noteq> ''openbao'' \<or> cf_reference c \<noteq> pp_credential_reference p
          then raise (Classified STALE_PLAN ''profiled credential binding changed'')
          else
          bindE (py (attempt (bindE (load pv d) (\<lambda>credentials.
                   bindE (collect pv l credentials (si_name (pp_interface p))) (\<lambda>st.
                   ret (credentials, st)))))) (\<lambda>observed.
          case observed of
            None \<Rightarrow> raise (Classified BLOCKED ''credential or read-only collection blocked'')
          | Some (credentials, st) \<Rightarrow>
            if \<not> preconditions_unchanged p st
            then raise (Classified STALE_PLAN ''profiled preconditions changed'')
            else ret (d, i, credentials, st)))) (preflight_ends p)"
    proof (rule runs_py_attempt [where P = "\<lambda>c s. s = Referenced d c"], goal_cases)
      case 1
      show ?case
        unfolding reference_def
        by (rule runs_conseq [OF runs_ask_call [where step = "lifecycle p",
              OF lifecycle.referenced [OF rb] lifecycle.unreferenced [OF rb]]])
          (auto split: sum.splits)
    next
      case (2 c s)
      show ?case
      proof (cases "cf_source c = ''openbao'' \<and> cf_reference c = pp_credential_reference p")
        case False
        with 2 show ?thesis by (auto simp: preflight_ends_def intro!: runs_pure)
      next
        case True
        then have c: "cf_source c = ''openbao''" "cf_reference c = pp_credential_reference p" by simp_all
        have "runs (lifecycle p) (Referenced d c)
          (bindE (py (attempt (bindE (load pv d) (\<lambda>credentials.
                   bindE (collect pv l credentials (si_name (pp_interface p))) (\<lambda>st.
                   ret (credentials, st)))))) (\<lambda>observed.
          case observed of
            None \<Rightarrow> raise (Classified BLOCKED ''credential or read-only collection blocked'')
          | Some (credentials, st) \<Rightarrow>
            if \<not> preconditions_unchanged p st
            then raise (Classified STALE_PLAN ''profiled preconditions changed'')
            else ret (d, i, credentials, st))) (preflight_ends p)"
        proof (rule runs_py_attempt [where P = "\<lambda>(cr, st) s. s = Verified d st"], goal_cases)
          case 1
          show ?case (is "runs _ _ _ ?R")
            unfolding load_def
          proof (rule runs_call_bind [where step = "lifecycle p" and R = ?R,
                OF lifecycle.loaded [OF c] lifecycle.unloaded [OF c]], goal_cases)
            case (1 cr)
            show ?case
              unfolding collect_def
              by (rule runs_call_bind [where step = "lifecycle p" and R = ?R,
                    OF lifecycle.verified [OF lt] lifecycle.unverified [OF lt]])
                (auto intro!: runs_pure)
          qed simp
        next
          case (2 x s)
          then obtain cr st where "x = (cr, st)" "s = Verified d st" by (cases x) auto
          with rb show ?case by (auto simp: preflight_ends_def intro!: runs_pure)
        qed simp
        with c 2 show ?thesis by simp
      qed
    qed simp
    with True show ?thesis
      by (simp only: x option.case prod.case not_True_eq_False if_False)
  qed
qed simp

lemma py_bind: "py m = (\<lambda>t. (map_sum Py id (fst (m t)), snd (m t)))"
  by (auto simp: py_def split: prod.splits)

text \<open>How an execution ends, seen by its caller.\<close>

definition execution_ends ::
    "profiled_deployment_plan \<Rightarrow> execution_error + profiled_change_record \<Rightarrow> phase \<Rightarrow> bool" where
  "execution_ends p r s = (case r of
     Inr x \<Rightarrow> verdict p s = Some (xr_final_outcome x) \<and> change_record_valid x = Inr () \<and> bound_record p x
   | Inl (Py e) \<Rightarrow> s = Escaped e
   | Inl (Classified _ _) \<Rightarrow> False)"

lemma runs_py_ends: "runs (lifecycle p) s m (ends p) \<Longrightarrow> runs (lifecycle p) s (py m) (execution_ends p)"
  by (rule runs_py, erule runs_conseq) (auto simp: ends_def execution_ends_def split: sum.splits)

definition initial_phase :: "profiled_deployment_plan \<Rightarrow> phase" where
  "initial_phase p =
     (if oa_transport_family (pp_operation_admission p) = ANSIBLE_NETWORK_CLI then Approved else Ready)"

lemma rebound_target:
  assumes v: "profiled_plan_valid sha p = Inr ()" and "rebound p d i"
  obtains l t where "live_target d l" and "from_preflight d (pp_interface p) INTERFACE_DESCRIPTION = Inr t"
    and "wt_admission t = pp_operation_admission p"
proof -
  from assms(2) obtain a l where al: "admit_profiled_operation d INTERFACE_DESCRIPTION = Inr a"
    "live_read_only_target d = Inr l" "plan_binding_unchanged p d i a l" by (auto simp: rebound_def)
  moreover have "si_device (pp_interface p) = dv_device_identity d" "oa_network_os a = dv_network_os d"
    using al(3) valid_plan_facts(4,7) [OF v] by (auto simp: plan_binding_unchanged_def)
  ultimately obtain t where "from_preflight d (pp_interface p) INTERFACE_DESCRIPTION = Inr t"
    "wt_admission t = a" by (metis from_preflight_ok)
  with al that show thesis by (auto simp: live_target_def plan_binding_unchanged_def)
qed

lemma runs_execute_preflighted:
  assumes v: "profiled_plan_valid sha p = Inr ()" and wf: "diffs_are_digests wr"
    and st: "preconditions_unchanged p st" and l: "live_target d l"
    and t: "from_preflight d (pp_interface p) INTERFACE_DESCRIPTION = Inr t"
    and a: "wt_admission t = pp_operation_admission p"
  shows "runs (lifecycle p) (Verified d st)
    (execute_preflighted pv wr p (pp_digest p) (d, cr, st, t)) (ends p)"
proof -
  have w: "write_target_of p d t" using t by (simp add: write_target_of_def)
  from valid_plan_facts(8) [OF v] show ?thesis
  proof
    assume c: "cisco_plan p"
    then obtain art where art: "pp_execution_artifact p = Cisco art" by (auto simp: cisco_plan_def)
    show ?thesis
      using runs_execute_cisco [OF v c st l w a art] by (simp add: execute_preflighted_def art)
  next
    assume j: "junos_plan p"
    then obtain art where art: "pp_execution_artifact p = Junos art" by (auto simp: junos_plan_def)
    show ?thesis
      using runs_execute_junos [OF v j st l w a art wf] by (simp add: execute_preflighted_def art)
  qed
qed

lemma runs_verify_runtime:
  "runs (lifecycle p) (initial_phase p) (verify_runtime wr p) (\<lambda>r s. case r of
     Inr (Some _) \<Rightarrow> s = Ready | Inr None \<Rightarrow> verdict p s = Some BLOCKED | Inl e \<Rightarrow> s = Escaped e)"
proof (cases "oa_transport_family (pp_operation_admission p) = ANSIBLE_NETWORK_CLI")
  case True
  then show ?thesis
    unfolding verify_runtime_def verify_cisco_runtime_def initial_phase_def
    by (simp, intro runs_handled [OF runs_ask_call [where step = "lifecycle p",
          OF lifecycle.runtime lifecycle.no_runtime]])
      (auto simp: failed_to_def)
qed (auto simp: verify_runtime_def initial_phase_def intro!: runs_pure)

lemma runs_execute:
  assumes v: "profiled_plan_valid sha p = Inr ()" and wf: "diffs_are_digests wr"
  shows "runs (lifecycle p) (initial_phase p) (execute_profiled_plan sha pv wr p (pp_digest p))
    (execution_ends p)"
proof -
  note facts = valid_plan_facts [OF v]
  let ?checked = "\<lambda>(r :: execution_error + (profiled_inventory_device \<times> device_credentials
      \<times> interface_state \<times> profiled_write_target)) s. case r of
     Inr (d, cr, st, t) \<Rightarrow> s = Verified d st \<and> preconditions_unchanged p st
       \<and> (\<exists>l. live_target d l) \<and> from_preflight d (pp_interface p) INTERFACE_DESCRIPTION = Inr t
       \<and> wt_admission t = pp_operation_admission p
   | Inl (Classified outcome m) \<Rightarrow> verdict p s = Some outcome \<and> outcome \<in> {BLOCKED, STALE_PLAN}
   | Inl (Py e) \<Rightarrow> s = Escaped e"
  have checked: "runs (lifecycle p) Ready (bindE (preflight pv p) (\<lambda>(d, _, credentials, st).
       bindE (py (liftE (from_preflight d (pp_interface p) INTERFACE_DESCRIPTION))) (\<lambda>target.
       ret (d, credentials, st, target)))) ?checked"
  proof (rule runs_bindE [OF runs_preflight], goal_cases)
    case (1 e s)
    then show ?case by (auto simp: preflight_ends_def)
  next
    case (2 x s)
    then obtain d i cr st where x: "x = (d, i, cr, st)" "s = Verified d st"
      "preconditions_unchanged p st" and rb: "rebound p d i"
      by (cases x) (auto simp: preflight_ends_def)
    obtain l t where "live_target d l"
      "from_preflight d (pp_interface p) INTERFACE_DESCRIPTION = Inr t"
      "wt_admission t = pp_operation_admission p"
      by (rule rebound_target [OF v rb])
    with x show ?case by (auto simp: py_def eff_simps runs_def intro!: exI [of _ "[]"])
  qed
  have blocked: "runs (lifecycle p) s
      (py (record_of pv p (pp_digest p) outcome (blocked_stage m) no_evidence)) (execution_ends p)"
    if "verdict p s = Some outcome" "outcome \<in> {BLOCKED, STALE_PLAN}" for s outcome m
    using that by (intro runs_py_ends runs_record_of [OF v] record_facts_blocked) auto
  have body: "runs (lifecycle p) Ready
    (bindE (tryE (bindE (preflight pv p) (\<lambda>(d, _, credentials, st).
       bindE (py (liftE (from_preflight d (pp_interface p) INTERFACE_DESCRIPTION))) (\<lambda>target.
       ret (d, credentials, st, target))))) (\<lambda>checked.
     case checked of
       Inl (Classified outcome message) \<Rightarrow>
         py (record_of pv p (pp_digest p) outcome (blocked_stage message) no_evidence)
     | Inl (Py e) \<Rightarrow> raise (Py e)
     | Inr found \<Rightarrow> py (execute_preflighted pv wr p (pp_digest p) found))) (execution_ends p)"
  proof (rule runs_bindE [where Q = "\<lambda>r s. case r of Inr q \<Rightarrow> ?checked q s | Inl _ \<Rightarrow> False"])
    show "runs (lifecycle p) Ready (tryE (bindE (preflight pv p) (\<lambda>(d, _, credentials, st).
       bindE (py (liftE (from_preflight d (pp_interface p) INTERFACE_DESCRIPTION))) (\<lambda>target.
       ret (d, credentials, st, target))))) (\<lambda>r s. case r of Inr q \<Rightarrow> ?checked q s | Inl _ \<Rightarrow> False)"
      by (rule runs_tryE) (simp add: checked)
  next
    fix q s assume q: "case Inr q of Inr q \<Rightarrow> ?checked q s | Inl _ \<Rightarrow> False"
    show "runs (lifecycle p) s (case q of
       Inl (Classified outcome message) \<Rightarrow>
         py (record_of pv p (pp_digest p) outcome (blocked_stage message) no_evidence)
     | Inl (Py e) \<Rightarrow> raise (Py e)
     | Inr found \<Rightarrow> py (execute_preflighted pv wr p (pp_digest p) found)) (execution_ends p)"
    proof (cases q)
      case (Inl e)
      with q show ?thesis
        by (cases e) (auto simp: execution_ends_def intro!: blocked runs_pure)
    next
      case (Inr found)
      with q show ?thesis
        by (cases found) (auto intro!: runs_py_ends runs_execute_preflighted [OF v wf])
    qed
  qed auto
  show ?thesis
    unfolding execute_profiled_plan_def
    using facts(1,6)
    by (simp, intro runs_bindE [OF runs_py [where Q = "\<lambda>r s. case r of
         Inr (Some _) \<Rightarrow> s = Ready | Inr None \<Rightarrow> verdict p s = Some BLOCKED
       | Inl (Py e) \<Rightarrow> s = Escaped e | Inl (Classified _ _) \<Rightarrow> False"]])
      (auto simp: execution_ends_def body split: execution_error.splits option.splits sum.splits
        intro!: runs_conseq [OF runs_verify_runtime] blocked)
qed

end
