(* ===== verification/Execution_Laws.thy ===== *)
theory Execution_Laws
  imports Execution_Refinement
begin

text \<open>
  Two laws of the logs of an execution, as interpretations of \<open>monitored\<close>: which device writes can
  have been made in each phase (\<open>write_law\<close>), and that every contact is with the approved endpoint
  (\<open>contact_law\<close>); then what the last steps before a conclusive outcome must have been.
\<close>

section \<open>Writes\<close>

abbreviation (input) execute_event where
  "execute_event t a r \<equiv> EvOther (EvExecuteCisco t a r)"

abbreviation (input) commit_event where
  "commit_event r \<equiv> EvOther (EvCommitConfirmed 5 r)"

definition applied ::
    "profiled_deployment_plan \<Rightarrow> execution_disposition \<Rightarrow> 'x write_event event list \<Rightarrow> bool" where
  "applied p x ws \<longleftrightarrow> (\<exists>t a r. ws = [execute_event t a (Inr r)] \<and> pp_execution_artifact p = Cisco a
     \<and> er_disposition r = x)"

definition reverted ::
    "profiled_deployment_plan \<Rightarrow> execution_disposition \<Rightarrow> 'x write_event event list \<Rightarrow> bool" where
  "reverted p x ws \<longleftrightarrow> (\<exists>t a r t' b r'. ws = [execute_event t a (Inr r), execute_event t' b (Inr r')]
     \<and> pp_execution_artifact p = Cisco a \<and> er_disposition r = Succeeded
     \<and> pp_recovery_artifact p = Some b \<and> er_disposition r' = x)"

definition temporarily_committed ::
    "profiled_deployment_plan \<Rightarrow> execution_disposition \<Rightarrow> 'x write_event event list \<Rightarrow> bool" where
  "temporarily_committed p x ws \<longleftrightarrow> (\<exists>r. ws = [commit_event (Inr r)] \<and> er_disposition r = x)"

definition confirmed_commit ::
    "profiled_deployment_plan \<Rightarrow> execution_disposition \<Rightarrow> 'x write_event event list \<Rightarrow> bool" where
  "confirmed_commit p x ws \<longleftrightarrow> (\<exists>r t r'. ws = [commit_event (Inr r), EvOther (EvConfirm t (Inr r'))]
     \<and> er_disposition r = Succeeded \<and> er_disposition r' = x)"

definition is_junos_plan :: "profiled_deployment_plan \<Rightarrow> bool" where
  "is_junos_plan p \<longleftrightarrow> (\<exists>a. pp_execution_artifact p = Junos a)"

text \<open>A first write is the reviewed artifact or the commit-confirmed of a Junos plan; a second one
  follows a known success of the first, and is the reviewed inverse or the confirmation.\<close>

fun first_write :: "profiled_deployment_plan \<Rightarrow> 'x write_event event \<Rightarrow> bool" where
  "first_write p (EvOther (EvExecuteCisco t a r)) \<longleftrightarrow> pp_execution_artifact p = Cisco a"
| "first_write p (EvOther (EvCommitConfirmed m r)) \<longleftrightarrow> m = 5 \<and> is_junos_plan p"
| "first_write p _ = False"

fun second_write :: "profiled_deployment_plan \<Rightarrow> 'x write_event event \<Rightarrow> 'x write_event event \<Rightarrow> bool" where
  "second_write p (EvOther (EvExecuteCisco t a (Inr r))) (EvOther (EvExecuteCisco t' b r'))
     \<longleftrightarrow> er_disposition r = Succeeded \<and> pp_recovery_artifact p = Some b"
| "second_write p (EvOther (EvCommitConfirmed m (Inr r))) (EvOther (EvConfirm t r'))
     \<longleftrightarrow> er_disposition r = Succeeded"
| "second_write p _ _ = False"

fun allowed_writes :: "profiled_deployment_plan \<Rightarrow> 'x write_event event list \<Rightarrow> bool" where
  "allowed_writes p [] = True"
| "allowed_writes p [w] = first_write p w"
| "allowed_writes p [w, w'] = (first_write p w \<and> second_write p w w')"
| "allowed_writes p _ = False"

fun write_law :: "profiled_deployment_plan \<Rightarrow> phase \<Rightarrow> 'x write_event event list \<Rightarrow> bool" where
  "write_law p (Executed d x) ws = applied p x ws"
| "write_law p Reconciled ws = applied p Ambiguous ws"
| "write_law p (Observed d st) ws = applied p Succeeded ws"
| "write_law p Unobserved ws = applied p Succeeded ws"
| "write_law p (Recovering d st x) ws = reverted p x ws"
| "write_law p (Restored st) ws = reverted p Succeeded ws"
| "write_law p Unrestored ws = reverted p Succeeded ws"
| "write_law p (Locked d) ws = (ws = [] \<and> is_junos_plan p)"
| "write_law p (Prepared d) ws = (ws = [] \<and> is_junos_plan p)"
| "write_law p Commit_Unknown ws = (is_junos_plan p \<and> (\<exists>e. ws = [commit_event (Inl e)]))"
| "write_law p Left_Unknown ws = (is_junos_plan p \<and> (\<exists>e. ws = [commit_event (Inl e)]))"
| "write_law p (Committed d x) ws = (is_junos_plan p \<and> temporarily_committed p x ws)"
| "write_law p (Closed d x b) ws = (is_junos_plan p \<and> temporarily_committed p x ws)"
| "write_law p (Temporary d st) ws = (is_junos_plan p \<and> temporarily_committed p Succeeded ws)"
| "write_law p Unconfirmed ws = (is_junos_plan p \<and> temporarily_committed p Succeeded ws)"
| "write_law p (Confirmed x) ws = (is_junos_plan p \<and> confirmed_commit p x ws)"
| "write_law p (Escaped e) ws = allowed_writes p ws"
| "write_law p _ ws = (ws = [])"

lemmas write_shapes = applied_def reverted_def temporarily_committed_def confirmed_commit_def

lemma write_law_allowed: "write_law p s ws \<Longrightarrow> allowed_writes p ws"
  by (cases s) (auto simp: write_shapes)

lemma write_law_failed_to:
  "write_law p (failed_to h s e) ws
     \<longleftrightarrow> (if h e then write_law p s ws else allowed_writes p ws)"
  by (simp add: failed_to_def)

interpretation writes: monitored "lifecycle p" "initial_phase p"
    "\<lambda>s es. write_law p s (filter is_write_event es)" for p :: profiled_deployment_plan
proof (unfold_locales, goal_cases)
  case 1
  show ?case by (simp add: initial_phase_def)
next
  case (2 s es e s')
  from 2(2,1) show ?case
    by (cases rule: lifecycle.cases)
      (auto simp: write_law_failed_to write_shapes is_junos_plan_def)
qed

section \<open>Contacts\<close>

fun phase_device :: "phase \<Rightarrow> profiled_inventory_device option" where
  "phase_device (Referenced d c) = Some d"
| "phase_device (Loaded d) = Some d"
| "phase_device (Verified d st) = Some d"
| "phase_device (Executed d x) = Some d"
| "phase_device (Observed d st) = Some d"
| "phase_device (Recovering d st x) = Some d"
| "phase_device (Locked d) = Some d"
| "phase_device (Prepared d) = Some d"
| "phase_device (Committed d x) = Some d"
| "phase_device (Closed d x b) = Some d"
| "phase_device (Temporary d st) = Some d"
| "phase_device _ = None"

definition approved_device :: "profiled_deployment_plan \<Rightarrow> profiled_inventory_device \<Rightarrow> bool" where
  "approved_device p d \<longleftrightarrow> dv_device_identity d = pp_device_identity p
     \<and> dv_logical_name d = pp_target p \<and> dv_automation_profile_id d = pp_automation_profile_id p
     \<and> (\<exists>l. live_read_only_target d = Inr l \<and> rt_host l = pp_host p \<and> rt_port l = pp_port p)"

definition approved_target :: "profiled_deployment_plan \<Rightarrow> profiled_write_target \<Rightarrow> bool" where
  "approved_target p t \<longleftrightarrow> wt_device_identity t = pp_device_identity p
     \<and> wt_interface t = pp_interface p \<and> wt_host t = pp_host p \<and> wt_port t = pp_port p"

fun approved_contact :: "profiled_deployment_plan \<Rightarrow> 'x write_event event \<Rightarrow> bool" where
  "approved_contact p (EvResolve n r) \<longleftrightarrow> n = pp_target p"
| "approved_contact p (EvResolveInterface d n r) \<longleftrightarrow> admitted_device d \<and> n = plan_interface p"
| "approved_contact p (EvReference d r) \<longleftrightarrow> approved_device p d"
| "approved_contact p (EvLoad d r) \<longleftrightarrow> approved_device p d"
| "approved_contact p (EvCollect l n r)
     \<longleftrightarrow> rt_host l = pp_host p \<and> rt_port l = pp_port p \<and> n = plan_interface p"
| "approved_contact p (EvOther (EvVerifyRuntime r)) = True"
| "approved_contact p (EvOther (EvExecuteCisco t a r)) \<longleftrightarrow> approved_target p t
     \<and> (pp_execution_artifact p = Cisco a \<or> pp_recovery_artifact p = Some a)"
| "approved_contact p (EvOther (EvJunosEnter t a r)) \<longleftrightarrow> approved_target p t
     \<and> pp_execution_artifact p = Junos a"
| "approved_contact p (EvOther (EvPrepare r)) = True"
| "approved_contact p (EvOther (EvCommitConfirmed m r)) \<longleftrightarrow> m = 5"
| "approved_contact p (EvOther (EvExit r)) = True"
| "approved_contact p (EvOther (EvConfirm t r)) \<longleftrightarrow> approved_target p t"
| "approved_contact p (EvOther (EvAbove x)) = False"

lemma rebound_approved: "rebound p d i \<Longrightarrow> approved_device p d"
  by (auto simp: rebound_def plan_binding_unchanged_def approved_device_def)

lemma approved_target_of:
  "approved_device p d \<Longrightarrow> write_target_of p d t \<Longrightarrow> approved_target p t"
  by (auto simp: approved_device_def write_target_of_def approved_target_def from_preflight_def
      bindS_Inr_iff Let_def)

lemma approved_live: "approved_device p d \<Longrightarrow> live_target d l \<Longrightarrow> rt_host l = pp_host p \<and> rt_port l = pp_port p"
  by (auto simp: approved_device_def live_target_def)

lemma phase_device_failed_to [simp]:
  "phase_device (failed_to h s e) = (if h e then phase_device s else None)"
  by (simp add: failed_to_def)

definition contact_law :: "profiled_deployment_plan \<Rightarrow> phase \<Rightarrow> 'x write_event event list \<Rightarrow> bool" where
  "contact_law p s es \<longleftrightarrow> (\<forall>e \<in> set es. approved_contact p e)
     \<and> (\<forall>d. phase_device s = Some d \<longrightarrow> approved_device p d)"

interpretation contacts: monitored "lifecycle p" "initial_phase p" "contact_law p"
  for p :: profiled_deployment_plan
proof (unfold_locales, goal_cases)
  case 1
  show ?case by (simp add: initial_phase_def contact_law_def)
next
  case (2 s es e s')
  from 2(2,1) show ?case
    by (cases rule: lifecycle.cases)
      (auto simp: contact_law_def rebound_approved approved_target_of approved_live)
qed

section \<open>The last steps before a phase\<close>

lemma path_last:
  assumes "path step s0 es s" and "s \<noteq> s0"
  obtains es' s' e where "es = es' @ [e]" and "path step s0 es' s'" and "step s' e s"
  using assms by (cases rule: path.cases) auto

lemma initial_phase_neq [simp]:
  "Executed d x \<noteq> initial_phase p" "Observed d st \<noteq> initial_phase p"
  "Recovering d st x \<noteq> initial_phase p" "Restored st \<noteq> initial_phase p"
  "Committed d x \<noteq> initial_phase p" "Closed d x b \<noteq> initial_phase p"
  "Temporary d st \<noteq> initial_phase p" "Confirmed x \<noteq> initial_phase p"
  by (simp_all add: initial_phase_def)

abbreviation (input) reaches where
  "reaches p es s \<equiv> path (lifecycle p) (initial_phase p) es s"

lemma failed_to_neq:
  "failed_to h s e = s' \<longleftrightarrow> (if h e then s = s' else s' = Escaped e)"
  by (auto simp: failed_to_def)

lemma reach_Executed:
  assumes "reaches p es (Executed d x)"
  obtains es' t a r where "es = es' @ [execute_event t a (Inr r)]" and "er_disposition r = x"
    and "pp_execution_artifact p = Cisco a"
  using assms
proof (rule path_last)
  fix es' s e assume "es = es' @ [e]" and "lifecycle p s e (Executed d x)"
  then show thesis using that by (auto elim!: lifecycle_cases simp: failed_to_def split: if_splits)
qed simp

lemma reach_Observed:
  assumes "reaches p es (Observed d st)"
  obtains es' t a r l where "es = es' @ [execute_event t a (Inr r), EvCollect l (plan_interface p) (Inr st)]"
    and "er_disposition r = Succeeded" and "pp_execution_artifact p = Cisco a"
  using assms
proof (rule path_last)
  fix es' s e assume es: "es = es' @ [e]" "reaches p es' s" and "lifecycle p s e (Observed d st)"
  then obtain l where e: "e = EvCollect l (plan_interface p) (Inr st)" "s = Executed d Succeeded"
    by (auto elim!: lifecycle_cases simp: failed_to_def split: if_splits)
  with es obtain es'' t a r where "es' = es'' @ [execute_event t a (Inr r)]"
    "er_disposition r = Succeeded" "pp_execution_artifact p = Cisco a"
    using reach_Executed by blast
  with es e that show thesis by simp
qed simp

lemma reach_Restored:
  assumes "reaches p es (Restored st)"
  obtains es' t a r l st0 t' b r' l' where
    "es = es' @ [execute_event t a (Inr r), EvCollect l (plan_interface p) (Inr st0),
       execute_event t' b (Inr r'), EvCollect l' (plan_interface p) (Inr st)]"
    and "identity_observed p st0" and "is_description st0 \<noteq> Some (pp_desired_description p)"
    and "pp_recovery_artifact p = Some b"
  using assms
proof (rule path_last)
  fix es' s e assume es: "es = es' @ [e]" "reaches p es' s" and "lifecycle p s e (Restored st)"
  then obtain l' d st0 where e: "e = EvCollect l' (plan_interface p) (Inr st)"
    and s: "s = Recovering d st0 Succeeded"
    by (auto elim!: lifecycle_cases simp: failed_to_def split: if_splits)
  from es(2) [unfolded s] show thesis
  proof (rule path_last)
    fix es1 s1 e1 assume es1: "es' = es1 @ [e1]" "reaches p es1 s1"
      and "lifecycle p s1 e1 (Recovering d st0 Succeeded)"
    then obtain t' b r' where e1: "e1 = execute_event t' b (Inr r')" and s1: "s1 = Observed d st0"
      and "identity_observed p st0" "is_description st0 \<noteq> Some (pp_desired_description p)"
      "pp_recovery_artifact p = Some b"
      by (auto elim!: lifecycle_cases simp: failed_to_def split: if_splits)
    moreover from es1(2) [unfolded s1] obtain es'' t a r l where
      "es1 = es'' @ [execute_event t a (Inr r), EvCollect l (plan_interface p) (Inr st0)]"
      by (rule reach_Observed)
    ultimately show thesis using es es1 e that by simp
  qed simp
qed simp

lemma reach_Committed:
  assumes "reaches p es (Committed d x)"
  obtains es' r where "es = es' @ [commit_event (Inr r)]" and "er_disposition r = x"
  using assms
proof (rule path_last)
  fix es' s e assume "es = es' @ [e]" and "lifecycle p s e (Committed d x)"
  then show thesis using that by (auto elim!: lifecycle_cases simp: failed_to_def split: if_splits)
qed simp

lemma reach_Confirmed:
  assumes "reaches p es (Confirmed x)"
  obtains es' r l st t r' where
    "es = es' @ [commit_event (Inr r), EvOther (EvExit (Inr False)),
       EvCollect l (plan_interface p) (Inr st), EvOther (EvConfirm t (Inr r'))]"
    and "er_disposition r = Succeeded" and "identity_observed p st"
    and "is_description st = Some (pp_desired_description p)" and "er_disposition r' = x"
  using assms
proof (rule path_last)
  fix es1 s1 e1 assume es1: "es = es1 @ [e1]" "reaches p es1 s1" and "lifecycle p s1 e1 (Confirmed x)"
  then obtain t r' d st where e1: "e1 = EvOther (EvConfirm t (Inr r'))" "s1 = Temporary d st"
    and c: "identity_observed p st" "is_description st = Some (pp_desired_description p)"
      "er_disposition r' = x"
    by (auto elim!: lifecycle_cases simp: failed_to_def split: if_splits)
  from es1(2) [unfolded e1(2)] show thesis
  proof (rule path_last)
    fix es2 s2 e2 assume es2: "es1 = es2 @ [e2]" "reaches p es2 s2"
      and "lifecycle p s2 e2 (Temporary d st)"
    then obtain l where e2: "e2 = EvCollect l (plan_interface p) (Inr st)" "s2 = Closed d Succeeded False"
      by (auto elim!: lifecycle_cases simp: failed_to_def split: if_splits)
    from es2(2) [unfolded e2(2)] show thesis
    proof (rule path_last)
      fix es3 s3 e3 assume es3: "es2 = es3 @ [e3]" "reaches p es3 s3"
        and "lifecycle p s3 e3 (Closed d Succeeded False)"
      then have e3: "e3 = EvOther (EvExit (Inr False))" "s3 = Committed d Succeeded"
        by (auto elim!: lifecycle_cases simp: failed_to_def split: if_splits)
      from es3(2) [unfolded e3(2)] obtain es' r where "es3 = es' @ [commit_event (Inr r)]"
        "er_disposition r = Succeeded" by (rule reach_Committed)
      with es1 es2 es3 e1 e2 e3 c that show thesis by simp
    qed simp
  qed simp
qed simp

text \<open>Which phases end with which outcome.\<close>

lemma verdict_inv:
  "verdict p s = Some SUCCEEDED \<longleftrightarrow> s = Confirmed Succeeded \<or> (\<exists>d st. s = Observed d st
      \<and> identity_observed p st \<and> is_description st = Some (pp_desired_description p))"
  "verdict p s = Some RECOVERED \<longleftrightarrow> (\<exists>st. s = Restored st \<and> identity_observed p st
      \<and> is_description st = pp_current_description p)"
  by (cases s; auto simp: junos_outcome_def split: execution_disposition.splits if_splits sum.splits)+

lemma verdict_writes:
  assumes "write_law p s ws"
  shows "verdict p s \<in> {Some BLOCKED, Some STALE_PLAN} \<Longrightarrow> ws = []"
    and "verdict p s \<in> {Some AMBIGUOUS, Some EXECUTION_FAILED, Some POST_VALIDATION_FAILED,
           Some AUTO_ROLLBACK_PENDING} \<Longrightarrow> length ws = 1"
  using assms
  by (cases s; auto simp: write_shapes junos_outcome_def
      split: execution_disposition.splits if_splits sum.splits)+

end
