(* ===== verification/Planning_Properties.thy ===== *)
theory Planning_Properties
  imports Profiled_Planning
begin

text \<open>
  The properties of \<^verbatim>\<open>profiled_planning.py\<close>, each on the definitions of \<open>Profiled_Planning\<close>, with
  the sample delivery of \<open>Sample_Delivery\<close> as the concrete input of the witnesses.
\<close>

section \<open>The sample delivery\<close>

lemma sample_core_admitted:
  "admit_profiled_operation sample_core INTERFACE_DESCRIPTION
     = Inr (cisco_admission CAT8000V_IOSXE IOSXE)"
proof -
  have "admit_profiled_subject (dv_device_identity sample_core) (dv_logical_name sample_core)
      (nf_slug (dv_platform sample_core)) (dv_network_os sample_core)
      (dv_automation_profile_id sample_core) PROFILED_MANAGED_POPULATION = Inr ()"
    by code_simp
  then show ?thesis
    unfolding admit_profiled_operation_def sample_core_live
    by (simp add: sample_core_def sample_target_def cisco_admission_def)
qed

lemma sample_edge_admitted:
  "admit_profiled_operation sample_edge INTERFACE_DESCRIPTION = Inr junos_admission"
proof -
  have "admit_profiled_subject (dv_device_identity sample_edge) (dv_logical_name sample_edge)
      (nf_slug (dv_platform sample_edge)) (dv_network_os sample_edge)
      (dv_automation_profile_id sample_edge) PROFILED_MANAGED_POPULATION = Inr ()"
    by code_simp
  then show ?thesis
    unfolding admit_profiled_operation_def sample_edge_live
    by (simp add: sample_edge_def sample_target_def junos_admission_def)
qed

lemma sample_bindings:
  "assert_profiled_interface_binding (sample_intent sample_core) sample_core
     (sample_interface sample_core ''Gi2'') = Inr ()"
  "assert_profiled_interface_binding (sample_intent sample_edge) sample_edge
     (sample_interface sample_edge ''Gi2'') = Inr ()"
  "validate_credential_reference sample_core (sample_reference ''1'') = Inr (sample_reference ''1'')"
  "validate_credential_reference sample_edge (sample_reference ''2'') = Inr (sample_reference ''2'')"
  "desired_description ''old'' = Inr ()"
  by code_simp+

lemma sample_safe:
  "assert_profiled_safe_state (sample_intent sample_core) sample_core
     (sample_interface sample_core ''Gi2'') (sample_state sample_core v) = Inr ()"
  "assert_profiled_safe_state (sample_intent sample_edge) sample_edge
     (sample_interface sample_edge ''Gi2'') (sample_state sample_edge v) = Inr ()"
  unfolding assert_profiled_safe_state_def sample_core_admitted sample_edge_admitted sample_bindings
  by (simp_all add: assert_profiled_target_binding_def sample_intent_def sample_state_def)

lemma sample_inputs_valid:
  "builder_inputs_valid (sample_intent sample_core) sample_core (sample_interface sample_core ''Gi2'')"
  "builder_inputs_valid (sample_intent sample_edge) sample_edge (sample_interface sample_edge ''Gi2'')"
  unfolding builder_inputs_valid_def sample_core_valid sample_edge_valid
  by code_simp+

lemma sample_guards:
  "builder_guards (sample_intent sample_core) sample_core (sample_interface sample_core ''Gi2'')
     (sample_state sample_core (Some ''old'')) (sample_reference ''1'')"
  "builder_guards (sample_intent sample_edge) sample_edge (sample_interface sample_edge ''Gi2'')
     (sample_state sample_edge (Some ''old'')) (sample_reference ''2'')"
  unfolding builder_guards_def sample_core_admitted sample_edge_admitted sample_safe sample_bindings
  by (simp_all add: sample_state_def sample_intent_def sample_bindings)

lemma sample_sha_hex: "hex_digest sample_sha"
  by (auto simp: hex_digest_def sample_sha_def is_lower_hex_def is_digit_def code_def list_all_iff
      split: if_splits)

definition sample_plan :: "profiled_inventory_device \<Rightarrow> profiled_deployment_plan" where
  "sample_plan d =
    (case build_profiled_plan sample_sha (sample_intent d) d (sample_interface d ''Gi2'')
        (sample_state d (Some ''old'')) (sample_reference (if d = sample_core then ''1'' else ''2''))
        sample_time of Inr p \<Rightarrow> p | Inl _ \<Rightarrow> undefined)"

lemma unsigned_plan_simps [simp]:
  "pp_current_description (unsigned_plan intent d i st c time a t) = is_description st"
  "pp_desired_description (unsigned_plan intent d i st c time a t) = in_desired intent"
  by (simp_all add: unsigned_plan_def split: prod.splits)

lemma build_profiled_plan_Inr:
  assumes "build_profiled_plan sha intent d i st credential created = Inr p"
  shows "profiled_plan_valid sha p = Inr ()" and "pp_current_description p = is_description st"
    and "pp_desired_description p = in_desired intent"
  using assms by (auto simp: build_profiled_plan_def bindS_Inr_iff Let_def)

section \<open>Properties\<close>

text \<open>C8: the approval digest binds the plan. Two plans with the same calculated digest, and no SHA-256
  collision between their two canonical serialisations, agree in every field that reaches a device
  or an approver (change, target, stable identities, profile, credential reference, endpoint,
  descriptions, admission, both vendor artifacts, preconditions) and in the serialised time: the
  canonical JSON is injective on plans.\<close>

theorem approved_digest_binds_plan:
  assumes "plan_calculated_digest sha p = plan_calculated_digest sha q"
    and "sha (plan_digest_input p) = sha (plan_digest_input q) \<Longrightarrow> plan_digest_input p = plan_digest_input q"
  shows "p\<lparr>pp_digest := d, pp_created_at := c\<rparr> = q\<lparr>pp_digest := d, pp_created_at := c\<rparr>
    \<and> isoformat (pp_created_at p) = isoformat (pp_created_at q)"
  using assms
  by (intro plan_digest_input_binds_plan) (simp add: plan_calculated_digest_def sha256_identity_def)

theorem approved_digest_binds_plan_witness:
  "let p = sample_plan sample_core; q = p\<lparr>pp_digest := ''unsigned''\<rparr> in
     plan_calculated_digest id p = plan_calculated_digest id q
     \<and> pp_execution_artifact p = pp_execution_artifact q"
proof -
  let ?p = "sample_plan sample_core"
  let ?q = "?p\<lparr>pp_digest := ''unsigned''\<rparr>"
  have "pp_execution_artifact (?p\<lparr>pp_digest := [], pp_created_at := sample_time\<rparr>)
      = pp_execution_artifact (?q\<lparr>pp_digest := [], pp_created_at := sample_time\<rparr>)"
    using approved_digest_binds_plan [where sha = id and p = ?p and q = ?q and d = "[]" and c = sample_time]
    by simp
  then show ?thesis by (simp add: Let_def)
qed

text \<open>C9: the plan builder is exact. On validated inputs it returns a plan precisely when every guard of
  the code holds (operation admitted, observation bound and unprotected, credential reference
  exact, current description safe to restore, not already compliant), and the plan it returns
  passes the whole schema-v2 plan validator, digest included: no guard is redundant and the final
  validation never rejects what the guards admitted.\<close>

theorem build_profiled_plan_exact:
  assumes "hex_digest sha" and "builder_inputs_valid intent d i"
  shows "builder_guards intent d i st credential
    \<longleftrightarrow> (\<exists>p. build_profiled_plan sha intent d i st credential created = Inr p
         \<and> profiled_plan_valid sha p = Inr () \<and> pp_desired_description p = in_desired intent
         \<and> pp_current_description p = is_description st \<and> pp_interface p = i)"
  using assms by (rule build_profiled_plan_iff)

theorem build_profiled_plan_exact_witness:
  "\<exists>p. build_profiled_plan sample_sha (sample_intent sample_core) sample_core
       (sample_interface sample_core ''Gi2'') (sample_state sample_core (Some ''old''))
       (sample_reference ''1'') sample_time = Inr p
     \<and> profiled_plan_valid sample_sha p = Inr ()"
  using build_profiled_plan_exact [OF sample_sha_hex sample_inputs_valid(1)] sample_guards(1) by blast

text \<open>C10: a planning run that returns carries exactly one result. A deployment plan is returned only for
  an interface that is not compliant and has passed the plan validator; a compliance record only
  when the fresh observation equals the desired description, and it has passed its own validator;
  never both, never neither.\<close>

theorem planner_exactly_one_result:
  assumes "fst (plan_profiled_change sha pv intent created t) = Inr r"
  shows "(\<exists>p. pr_plan r = Some p \<and> pr_compliance r = None \<and> profiled_plan_valid sha p = Inr ()
            \<and> is_description (pr_state r) \<noteq> Some (in_desired intent)
            \<and> pp_current_description p = is_description (pr_state r)
            \<and> pp_desired_description p = in_desired intent)
       \<or> (\<exists>q. pr_plan r = None \<and> pr_compliance r = Some q
            \<and> profiled_compliance_valid sha q = Inr ()
            \<and> is_description (pr_state r) = Some (in_desired intent)
            \<and> cr_observed_description q = in_desired intent)"
  using plan_profiled_change_result [OF assms]
proof (elim disjE exE conjE)
  fix p d i time
  assume r: "pr_plan r = Some p" "pr_compliance r = None"
    and b: "build_profiled_plan sha intent d i (pr_state r) (pr_credential r) time = Inr p"
  from build_profiled_plan_guarded [OF b]
  have "is_description (pr_state r) \<noteq> Some (in_desired intent)" by (simp add: builder_guards_def)
  with r build_profiled_plan_Inr [OF b] show ?thesis by blast
next
  fix q d i time
  assume r: "pr_plan r = None" "pr_compliance r = Some q"
    and c: "is_description (pr_state r) = Some (in_desired intent)"
    and b: "build_compliance sha intent d i (pr_state r) (pr_credential r) time = Inr q"
  then show ?thesis by (auto simp: build_compliance_def bindS_Inr_iff Let_def)
qed

lemma sample_target_binding:
  "assert_profiled_target_binding (sample_intent d) d = Inr ()"
  by (simp add: assert_profiled_target_binding_def sample_intent_def)

lemma sample_names:
  "in_interface (sample_intent d) = ''Gi2''" "in_desired (sample_intent d) = ''uplink''"
  "is_description (sample_state d v) = v"
  by (simp_all add: sample_intent_def sample_state_def)

lemma sample_planning:
  "fst (plan_profiled_change sample_sha
      (sample_providers sample_core ''1'' (\<lambda>_. Some ''old'') :: unit providers)
      (sample_intent sample_core) None []) = Inr r \<Longrightarrow> pr_plan r \<noteq> None"
  by (auto simp: plan_profiled_change_def eff_simps provider_calls timestamp_def sample_defs
      split: sum.splits prod.splits if_splits)

lemma sample_planning_returns:
  "\<exists>r. fst (plan_profiled_change sample_sha
      (sample_providers sample_core ''1'' (\<lambda>_. Some ''old'') :: unit providers)
      (sample_intent sample_core) None []) = Inr r"
proof -
  obtain p where "build_profiled_plan sample_sha (sample_intent sample_core) sample_core
       (sample_interface sample_core ''Gi2'') (sample_state sample_core (Some ''old''))
       (sample_reference ''1'') sample_time = Inr p"
    using build_profiled_plan_iff [OF sample_sha_hex sample_inputs_valid(1)] sample_guards(1) by blast
  then show ?thesis
    using sample_core_admitted sample_core_live sample_safe(1) sample_bindings
    by (simp add: plan_profiled_change_def eff_simps provider_calls timestamp_def
        sample_providers_def sample_target_binding sample_names)
qed

theorem planner_exactly_one_result_witness:
  "\<exists>r p. fst (plan_profiled_change sample_sha
      (sample_providers sample_core ''1'' (\<lambda>_. Some ''old'') :: unit providers)
      (sample_intent sample_core) None []) = Inr r
    \<and> pr_plan r = Some p \<and> profiled_plan_valid sample_sha p = Inr ()"
proof -
  obtain r where r: "fst (plan_profiled_change sample_sha
      (sample_providers sample_core ''1'' (\<lambda>_. Some ''old'') :: unit providers)
      (sample_intent sample_core) None []) = Inr r"
    using sample_planning_returns by blast
  from planner_exactly_one_result [OF r] sample_planning [OF r] r show ?thesis by blast
qed

text \<open>C11: planning is read-only and admission comes first. Whatever the providers answer, one planning run
  makes at most the five calls resolve, interface, credential reference, credential load, collect,
  each at most once and in this order, so it never writes; all five were made when it returned a
  result; and no credential is referenced or loaded before the resolved device is the requested
  target, is admitted for the write operation and the interface is bound and unprotected.\<close>

theorem planner_reads_in_order:
  "\<exists>u k. snd (plan_profiled_change sha pv intent created t) = t @ u
     \<and> map call_of u = take k planner_calls
     \<and> (ok (fst (plan_profiled_change sha pv intent created t)) \<longrightarrow> map call_of u = planner_calls)
     \<and> (\<forall>e \<in> set u. is_credential_event e \<longrightarrow> admitted_before_credentials pv intent t)"
proof -
  from calls_planner [of sha pv intent created] obtain u k where
    u: "snd (plan_profiled_change sha pv intent created t) = t @ u"
      "map call_of u = take k planner_calls"
      "ok (fst (plan_profiled_change sha pv intent created t)) \<longrightarrow> length planner_calls \<le> k"
    unfolding calls_def by blast
  then have "ok (fst (plan_profiled_change sha pv intent created t)) \<longrightarrow> map call_of u = planner_calls"
    by simp
  with u(1,2) planner_credentials_guarded [OF u(1)] show ?thesis by blast
qed

theorem planner_reads_in_order_witness:
  "map call_of (snd (plan_profiled_change sample_sha
      (sample_providers sample_core ''1'' (\<lambda>_. Some ''old'') :: unit providers)
      (sample_intent sample_core) None [])) = planner_calls"
proof -
  let ?run = "plan_profiled_change sample_sha
      (sample_providers sample_core ''1'' (\<lambda>_. Some ''old'') :: unit providers)
      (sample_intent sample_core) None []"
  have "ok (fst ?run)" using sample_planning_returns by auto
  with planner_reads_in_order [of sample_sha
      "sample_providers sample_core ''1'' (\<lambda>_. Some ''old'') :: unit providers"
      "sample_intent sample_core" None "[]"]
  show ?thesis by auto
qed

end
