(* ===== verification/Execution_Properties.thy ===== *)
theory Execution_Properties
  imports Execution_Laws Planning_Properties
begin

text \<open>
  The properties of \<open>execute_profiled_plan\<close>: each reads off the lifecycle the code was proved to
  follow. The sample delivery is executed on a device that keeps the description last written.
\<close>

definition execution_log ::
    "(string \<Rightarrow> string) \<Rightarrow> 'x write_event providers \<Rightarrow> 'x writer \<Rightarrow> profiled_deployment_plan \<Rightarrow> string
      \<Rightarrow> 'x history \<Rightarrow> 'x history" where
  "execution_log sha pv wr p approval t = appended (execute_profiled_plan sha pv wr p approval) t"

lemma execution_log_eq:
  "snd (execute_profiled_plan sha pv wr p approval t) = t @ u
     \<Longrightarrow> execution_log sha pv wr p approval t = u"
  by (simp add: execution_log_def appended_eq)

lemma unapproved:
  assumes "approval \<noteq> pp_digest p"
  obtains e where "execute_profiled_plan sha pv wr p approval t = (Inl e, t)"
proof -
  have "\<exists>e. execute_profiled_plan sha pv wr p approval t = (Inl e, t)"
    using assms by (simp add: execute_profiled_plan_def raise_def)
  with that show thesis by blast
qed

lemma execution_run:
  assumes "profiled_plan_valid sha p = Inr ()" and "diffs_are_digests wr"
  obtains s where "snd (execute_profiled_plan sha pv wr p (pp_digest p) t)
       = t @ execution_log sha pv wr p (pp_digest p) t"
    and "reaches p (execution_log sha pv wr p (pp_digest p) t) s"
    and "execution_ends p (fst (execute_profiled_plan sha pv wr p (pp_digest p) t)) s"
  using runsD [OF runs_execute [OF assms]] execution_log_eq by metis

lemma execution_record:
  assumes "profiled_plan_valid sha p = Inr ()" and "diffs_are_digests wr"
    and "fst (execute_profiled_plan sha pv wr p approval t) = Inr r"
  obtains s where "approval = pp_digest p" and "reaches p (execution_log sha pv wr p approval t) s"
    and "verdict p s = Some (xr_final_outcome r)" and "change_record_valid r = Inr ()"
    and "bound_record p r"
    and "write_law p s (filter is_write_event (execution_log sha pv wr p approval t))"
proof -
  have a: "approval = pp_digest p"
    using unapproved [of approval p sha pv wr t] assms(3) by (metis fst_conv sum.distinct(1))
  obtain s where s: "reaches p (execution_log sha pv wr p (pp_digest p) t) s"
    "execution_ends p (fst (execute_profiled_plan sha pv wr p (pp_digest p) t)) s"
    using execution_run [OF assms(1,2)] by blast
  from s(1) have "write_law p s (filter is_write_event (execution_log sha pv wr p (pp_digest p) t))"
    by (rule writes.path_law)
  with a s assms(3) that show thesis by (auto simp: execution_ends_def)
qed

lemma unapproved_log: "approval \<noteq> pp_digest p \<Longrightarrow> execution_log sha pv wr p approval t = []"
  using unapproved [of approval p sha pv wr t]
  by (metis appended_eq append_Nil2 execution_log_def snd_conv)

section \<open>An honest environment\<close>

text \<open>Providers that answer for the planned device and a Cisco device whose description after a
  write is \<open>after\<close>.\<close>

definition answers ::
    "'x write_event providers \<Rightarrow> profiled_deployment_plan \<Rightarrow> profiled_inventory_device
      \<Rightarrow> credential_reference \<Rightarrow> device_credentials \<Rightarrow> bool" where
  "answers pv p d c cr \<longleftrightarrow> (\<forall>t. pv_resolve pv t (pp_target p) = Inr d
       \<and> pv_resolve_interface pv t d (plan_interface p) = Inr (pp_interface p)
       \<and> pv_reference pv t d = Inr c \<and> pv_load pv t d = Inr cr)
     \<and> admitted_device d \<and> rebound p d (pp_interface p)
     \<and> cf_source c = ''openbao'' \<and> cf_reference c = pp_credential_reference p"

definition cisco_world ::
    "'x write_event providers \<Rightarrow> 'x writer \<Rightarrow> device_credentials \<Rightarrow> interface_state
      \<Rightarrow> interface_state \<Rightarrow> execution_result \<Rightarrow> bool" where
  "cisco_world pv wr cr before after x \<longleftrightarrow>
     (\<forall>t. wr_verify_runtime wr t = Inr () \<and> (\<forall>tg a. wr_execute wr t tg cr a = Inr x)
       \<and> (\<forall>l n. pv_collect pv t l cr n = Inr (if list_ex is_write_event t then after else before)))"

lemma honest_run:
  assumes v: "profiled_plan_valid sha p = Inr ()" and c: "cisco_plan p" and an: "answers pv p d c cr"
    and w: "cisco_world pv wr cr before after x" and b: "preconditions_unchanged p before"
    and i: "identity_observed p after" "is_description after = Some (pp_desired_description p)"
    and x: "er_disposition x = Succeeded" and t: "\<not> list_ex is_write_event t"
  shows "\<exists>r. fst (execute_profiled_plan sha pv wr p (pp_digest p) t) = Inr r
    \<and> xr_final_outcome r = SUCCEEDED"
proof -
  from c obtain art inv where art: "pp_execution_artifact p = Cisco art" by (auto simp: cisco_plan_def)
  from an have rb: "rebound p d (pp_interface p)" by (simp add: answers_def)
  then obtain a l where al: "admit_profiled_operation d INTERFACE_DESCRIPTION = Inr a"
    "live_read_only_target d = Inr l" "plan_binding_unchanged p d (pp_interface p) a l"
    by (auto simp: rebound_def)
  obtain tg where tg: "from_preflight d (pp_interface p) INTERFACE_DESCRIPTION = Inr tg"
    "wt_admission tg = pp_operation_admission p" by (rule rebound_target [OF v rb])
  have ex: "execute_cisco wr tg cr art
      = askE (\<lambda>h. wr_execute wr h tg cr art) (\<lambda>r. EvOther (EvExecuteCisco tg art r))"
    using c tg by (intro write_calls(1)) (simp_all add: write_target_of_def cisco_plan_def)
  have rec: "change_record_valid (record_values p (pp_digest p) SUCCEEDED (verified_stage before)
      (no_evidence\<lparr>ev_execution := Some (result_stage x),
         ev_post := Some (observed_stage ''desired state observed'' True p after)\<rparr>) time) = Inr ()" for time
    by (rule record_values_valid [OF v record_facts_cisco(4) [OF c b x]]) (simp_all add: i)
  have at: "oa_transport_family (pp_operation_admission p) = ANSIBLE_NETWORK_CLI"
    using c by (simp add: cisco_plan_def)
  show ?thesis
    unfolding execute_profiled_plan_def verify_runtime_def verify_cisco_runtime_def preflight_def
      resolve_admitted_def provider_calls execute_preflighted_def execute_cisco_plan_def
      observe_def handled_def
    using valid_plan_facts(1,6) [OF v] an [unfolded answers_def admitted_device_def]
      w [unfolded cisco_world_def] b i x t al tg rec art at
    by (simp add: eff_simps py_def ex record_of_def Let_def) (simp add: record_values_def)
qed

text \<open>A Junos device whose exclusive candidate can be opened, prepared, committed and confirmed, and
  whose description after the commit-confirmed is \<open>after\<close>.\<close>

definition junos_world ::
    "'x write_event providers \<Rightarrow> 'x writer \<Rightarrow> device_credentials \<Rightarrow> interface_state
      \<Rightarrow> interface_state \<Rightarrow> execution_result \<Rightarrow> execution_result \<Rightarrow> bool" where
  "junos_world pv wr cr before after x y \<longleftrightarrow>
     (\<forall>t. (\<forall>tg a. wr_enter wr t tg cr a = Inr ()) \<and> (\<exists>diff. wr_prepare wr t = Inr diff)
       \<and> wr_commit wr t 5 = Inr x \<and> wr_exit wr t = Inr False \<and> (\<forall>tg. wr_confirm wr t tg cr = Inr y)
       \<and> (\<forall>l n. pv_collect pv t l cr n = Inr (if list_ex is_write_event t then after else before)))"

lemma honest_run_junos:
  assumes v: "profiled_plan_valid sha p = Inr ()" and c: "junos_plan p" and an: "answers pv p d c cr"
    and w: "junos_world pv wr cr before after x y" and wf: "diffs_are_digests wr"
    and b: "preconditions_unchanged p before"
    and i: "identity_observed p after" "is_description after = Some (pp_desired_description p)"
    and x: "er_disposition x = Succeeded" and y: "er_disposition y = Succeeded"
    and t: "\<not> list_ex is_write_event t"
  shows "\<exists>r. fst (execute_profiled_plan sha pv wr p (pp_digest p) t) = Inr r
    \<and> xr_final_outcome r = SUCCEEDED"
proof -
  from c obtain art where art: "pp_execution_artifact p = Junos art" by (auto simp: junos_plan_def)
  from an have rb: "rebound p d (pp_interface p)" by (simp add: answers_def)
  then obtain a l where al: "admit_profiled_operation d INTERFACE_DESCRIPTION = Inr a"
    "live_read_only_target d = Inr l" "plan_binding_unchanged p d (pp_interface p) a l"
    by (auto simp: rebound_def)
  obtain tg where tg: "from_preflight d (pp_interface p) INTERFACE_DESCRIPTION = Inr tg"
    "wt_admission tg = pp_operation_admission p" by (rule rebound_target [OF v rb])
  have tgt: "write_target_of p d tg" using tg by (simp add: write_target_of_def)
  have calls: "junos_enter wr tg cr art
      = askE (\<lambda>h. wr_enter wr h tg cr art) (\<lambda>r. EvOther (EvJunosEnter tg art r))"
    "confirm_junos wr tg cr = askE (\<lambda>h. wr_confirm wr h tg cr) (\<lambda>r. EvOther (EvConfirm tg r))"
    using write_calls(2,3) [OF tgt] c tg(2) by (simp_all add: junos_plan_def)
  have rec: "change_record_valid (record_values p (pp_digest p) SUCCEEDED (verified_stage before)
      (no_evidence\<lparr>ev_candidate := Some ((attempted_stage ''candidate validated'' True)
           \<lparr>sr_changed := Some True\<rparr>), ev_diff := Some diff, ev_execution := Some (result_stage x),
         ev_post := Some (observed_stage ''desired state observed'' True p after),
         ev_confirmation := Some (result_stage y)\<rparr>) time) = Inr ()"
    if "sha256_pattern diff" for diff time
    using record_values_valid [OF v record_facts_junos(7) [OF c b that x, of _ y]] y i
    by (simp add: junos_outcome_def)
  define diff where "diff h = projr (wr_prepare wr h)" for h
  have diff: "wr_prepare wr h = Inr (diff h)" "sha256_pattern (diff h)" for h
    using w wf unfolding junos_world_def diffs_are_digests_def diff_def by (metis sum.sel(2))+
  have at: "oa_transport_family (pp_operation_admission p) = JUNOS_PYEZ_NETCONF"
    using c by (simp add: junos_plan_def)
  show ?thesis
    unfolding execute_profiled_plan_def verify_runtime_def verify_cisco_runtime_def preflight_def
      resolve_admitted_def provider_calls execute_preflighted_def execute_junos_plan_def
      validate_and_confirm_def observe_def handled_def junos_prepare_def junos_exit_def
      junos_commit_confirmed_def
    using valid_plan_facts(1,6) [OF v] an [unfolded answers_def admitted_device_def]
      w [unfolded junos_world_def] b i x y t al tg rec [OF diff(2)] diff art at
    by (simp add: eff_simps py_def calls record_of_def Let_def junos_outcome_def)
      (simp add: record_values_def)
qed

section \<open>The sample execution\<close>

text \<open>The sample Cisco plan, and a device on which every write sets the description \<open>after\<close>.\<close>

definition sample_description :: "string \<Rightarrow> 'x history \<Rightarrow> string option" where
  "sample_description after t = (if list_ex is_write_event t then Some after else Some ''old'')"

definition sample_world :: "string \<Rightarrow> unit write_event providers" where
  "sample_world after = sample_providers sample_core ''1'' (sample_description after)"

definition sample_result :: "execution_disposition \<Rightarrow> execution_result" where
  "sample_result x = \<lparr>er_disposition = x, er_changed = Some True, er_message = ''done''\<rparr>"

definition sample_writer :: "execution_disposition \<Rightarrow> unit writer" where
  "sample_writer x = \<lparr>wr_verify_runtime = (\<lambda>_. Inr ()), wr_execute = (\<lambda>_ _ _ _. Inr (sample_result x)),
     wr_enter = (\<lambda>_ _ _ _. Inr ()), wr_prepare = (\<lambda>_. Inr (''sha256:'' @ sample_sha [])),
     wr_commit = (\<lambda>_ _. Inr (sample_result x)), wr_exit = (\<lambda>_. Inr False),
     wr_confirm = (\<lambda>_ _ _. Inr (sample_result x))\<rparr>"

lemma sample_writer_diffs: "diffs_are_digests (sample_writer x)"
proof -
  have "sha256_pattern (''sha256:'' @ sample_sha [])" by code_simp
  then show ?thesis by (simp add: diffs_are_digests_def sample_writer_def)
qed

lemma sample_plan_facts:
  shows "profiled_plan_valid sample_sha (sample_plan sample_core) = Inr ()"
    and "pp_desired_description (sample_plan sample_core) = ''uplink''"
    and "pp_current_description (sample_plan sample_core) = Some ''old''"
    and "pp_interface (sample_plan sample_core) = sample_interface sample_core ''Gi2''"
proof -
  obtain p where p: "build_profiled_plan sample_sha (sample_intent sample_core) sample_core
       (sample_interface sample_core ''Gi2'') (sample_state sample_core (Some ''old''))
       (sample_reference ''1'') sample_time = Inr p"
    "profiled_plan_valid sample_sha p = Inr ()" "pp_desired_description p = ''uplink''"
    "pp_current_description p = Some ''old''" "pp_interface p = sample_interface sample_core ''Gi2''"
    using iffD1 [OF build_profiled_plan_iff [OF sample_sha_hex sample_inputs_valid(1),
        where created = sample_time] sample_guards(1)]
    by (auto simp: sample_names)
  then have "sample_plan sample_core = p" by (simp add: sample_plan_def)
  with p show "profiled_plan_valid sample_sha (sample_plan sample_core) = Inr ()"
    "pp_desired_description (sample_plan sample_core) = ''uplink''"
    "pp_current_description (sample_plan sample_core) = Some ''old''"
    "pp_interface (sample_plan sample_core) = sample_interface sample_core ''Gi2''"
    by simp_all
qed

lemma sample_plan_fields:
  "sample_plan sample_core = (let u = unsigned_plan (sample_intent sample_core) sample_core
      (sample_interface sample_core ''Gi2'') (sample_state sample_core (Some ''old''))
      (sample_reference ''1'') sample_time (cisco_admission CAT8000V_IOSXE IOSXE)
      (sample_target sample_core ''192.168.1.1'' 22)
    in u\<lparr>pp_digest := plan_calculated_digest sample_sha u\<rparr>)"
proof -
  obtain a t where "admit_profiled_operation sample_core INTERFACE_DESCRIPTION = Inr a"
    "live_read_only_target sample_core = Inr t"
    "build_profiled_plan sample_sha (sample_intent sample_core) sample_core
       (sample_interface sample_core ''Gi2'') (sample_state sample_core (Some ''old''))
       (sample_reference ''1'') sample_time
     = (let u = unsigned_plan (sample_intent sample_core) sample_core
          (sample_interface sample_core ''Gi2'') (sample_state sample_core (Some ''old''))
          (sample_reference ''1'') sample_time a t
        in Inr (u\<lparr>pp_digest := plan_calculated_digest sample_sha u\<rparr>))"
    by (rule builder_succeeds [OF sample_sha_hex sample_inputs_valid(1) sample_guards(1)])
  then show ?thesis
    using sample_core_admitted sample_core_live by (simp add: sample_plan_def Let_def)
qed

lemma sample_plan_cisco:
  "cisco_plan (sample_plan sample_core)"
  "rebound (sample_plan sample_core) sample_core (sample_interface sample_core ''Gi2'')"
  "pp_target (sample_plan sample_core) = dv_logical_name sample_core"
  "pp_expected_hostname (sample_plan sample_core) = dv_expected_hostname sample_core"
  "pp_credential_reference (sample_plan sample_core) = cf_reference (sample_reference ''1'')"
  by (simp_all add: sample_plan_fields Let_def unsigned_plan_def expected_artifacts_def cisco_plan_def
      rebound_def sample_core_admitted sample_core_live plan_binding_unchanged_def sample_target_def
      cisco_admission_def)

lemma sample_interface_name: "si_name (sample_interface d n) = n"
  by (simp add: sample_interface_def)

lemma sample_answers:
  "answers (sample_world after) (sample_plan sample_core) sample_core (sample_reference ''1'')
     sample_credentials"
proof -
  have "admitted_device sample_core" unfolding admitted_device_def by code_simp
  then show ?thesis
    by (simp add: answers_def sample_world_def sample_providers_def sample_plan_facts sample_plan_cisco
        sample_interface_name)
      (simp add: sample_reference_def)
qed

lemma sample_cisco_world:
  "cisco_world (sample_world after) (sample_writer x) sample_credentials
     (sample_state sample_core (Some ''old'')) (sample_state sample_core (Some after)) (sample_result x)"
  by (simp add: cisco_world_def sample_world_def sample_providers_def sample_writer_def
      sample_description_def)

lemma sample_states:
  "preconditions_unchanged (sample_plan sample_core) (sample_state sample_core (Some ''old''))"
  "identity_observed (sample_plan sample_core) (sample_state sample_core v)"
  by (simp_all add: preconditions_unchanged_def identity_observed_def sample_plan_facts
      sample_plan_cisco sample_state_def sample_interface_def)

lemma sample_execution:
  "\<exists>r. fst (execute_profiled_plan sample_sha (sample_world ''uplink'') (sample_writer Succeeded)
      (sample_plan sample_core) (pp_digest (sample_plan sample_core)) []) = Inr r
    \<and> xr_final_outcome r = SUCCEEDED"
  by (rule honest_run [OF sample_plan_facts(1) sample_plan_cisco(1) sample_answers sample_cisco_world
        sample_states(1,2)])
    (simp_all add: sample_plan_facts sample_names sample_result_def)

abbreviation (input) sample_run where
  "sample_run \<equiv> execute_profiled_plan sample_sha (sample_world ''uplink'') (sample_writer Succeeded)
      (sample_plan sample_core) (pp_digest (sample_plan sample_core)) []"

abbreviation (input) sample_log where
  "sample_log \<equiv> execution_log sample_sha (sample_world ''uplink'') (sample_writer Succeeded)
      (sample_plan sample_core) (pp_digest (sample_plan sample_core)) []"

section \<open>Properties\<close>

text \<open>C1: refinement of the lifecycle. For a valid approved plan, the calls an execution makes drive the
  lifecycle from its initial phase to some phase; if it returns a record, the recorded outcome is
  the verdict of that phase, and if an exception leaves it, it is the one the last call raised. So
  the code never decides an outcome the observations do not support and never raises an exception
  of its own making after approval.\<close>

theorem execution_refines_lifecycle:
  assumes "profiled_plan_valid sha p = Inr ()" and "diffs_are_digests wr"
  shows "\<exists>s. snd (execute_profiled_plan sha pv wr p (pp_digest p) t)
         = t @ execution_log sha pv wr p (pp_digest p) t
     \<and> path (lifecycle p) (initial_phase p) (execution_log sha pv wr p (pp_digest p) t) s
     \<and> (case fst (execute_profiled_plan sha pv wr p (pp_digest p) t) of
          Inr r \<Rightarrow> verdict p s = Some (xr_final_outcome r)
        | Inl (Py e) \<Rightarrow> s = Escaped e
        | Inl (Classified _ _) \<Rightarrow> False)"
proof -
  obtain s where "snd (execute_profiled_plan sha pv wr p (pp_digest p) t)
       = t @ execution_log sha pv wr p (pp_digest p) t"
    "reaches p (execution_log sha pv wr p (pp_digest p) t) s"
    "execution_ends p (fst (execute_profiled_plan sha pv wr p (pp_digest p) t)) s"
    by (rule execution_run [OF assms])
  then show ?thesis
    by (auto simp: execution_ends_def split: sum.splits execution_error.splits intro!: exI [of _ s])
qed

theorem execution_refines_lifecycle_witness:
  "\<exists>s. path (lifecycle (sample_plan sample_core)) Approved sample_log s
     \<and> verdict (sample_plan sample_core) s = Some SUCCEEDED"
proof -
  obtain r where "fst sample_run = Inr r" "xr_final_outcome r = SUCCEEDED"
    using sample_execution by blast
  moreover have "initial_phase (sample_plan sample_core) = Approved"
    using sample_plan_cisco(1) by (simp add: initial_phase_def cisco_plan_def)
  ultimately show ?thesis
    using execution_refines_lifecycle [OF sample_plan_facts(1) sample_writer_diffs [of Succeeded],
        of "sample_world ''uplink''" "[]"]
    by auto
qed

text \<open>C5: every record an execution returns is valid evidence for its plan. On each of the exits of
  the two lifecycles the record passes the whole \<open>consistent_outcome\<close> validator and
  \<open>verify_profiled_record_plan\<close> accepts it against the plan: building the evidence never fails
  after a device was written, and no record contradicts its stages.\<close>

theorem execution_record_verifies:
  assumes "profiled_plan_valid sha p = Inr ()" and "diffs_are_digests wr"
    and "fst (execute_profiled_plan sha pv wr p approval t) = Inr r"
  shows "change_record_valid r = Inr () \<and> verify_profiled_record_plan sha r p = Inr ()
     \<and> xr_approval_digest r = approval"
proof -
  obtain s where "approval = pp_digest p" "change_record_valid r = Inr ()" "bound_record p r"
    by (rule execution_record [OF assms])
  with bound_record_verifies [OF assms(1)] show ?thesis
    by (auto simp: bound_record_def record_values_def)
qed

theorem execution_record_verifies_witness:
  "\<exists>r. fst sample_run = Inr r
     \<and> verify_profiled_record_plan sample_sha r (sample_plan sample_core) = Inr ()"
proof -
  obtain r where r: "fst sample_run = Inr r" using sample_execution by blast
  from execution_record_verifies [OF sample_plan_facts(1) sample_writer_diffs r] r show ?thesis by blast
qed

text \<open>C2: at most two device writes, each the reviewed one, never a retry. Whatever the providers and
  the device answer, one execution makes no write, or one first write (the reviewed Cisco artifact,
  or commit-confirmed with the five-minute timeout for a Junos plan), or that and one second write,
  which only follows a known success of the first and is the reviewed inverse or the
  confirmation.\<close>

theorem execution_writes_only_reviewed:
  assumes "profiled_plan_valid sha p = Inr ()" and "diffs_are_digests wr"
  shows "allowed_writes p (filter is_write_event (execution_log sha pv wr p approval t))"
proof (cases "approval = pp_digest p")
  case True
  obtain s where "reaches p (execution_log sha pv wr p (pp_digest p) t) s"
    by (rule execution_run [OF assms])
  then have "write_law p s (filter is_write_event (execution_log sha pv wr p (pp_digest p) t))"
    by (rule writes.path_law)
  with True show ?thesis by (auto intro: write_law_allowed)
qed (simp add: unapproved_log)

theorem execution_writes_only_reviewed_witness:
  "allowed_writes (sample_plan sample_core) (filter is_write_event sample_log)"
  by (rule execution_writes_only_reviewed [OF sample_plan_facts(1) sample_writer_diffs])

text \<open>C4: every contact is with the approved endpoint. Each call of an execution is bound by the plan:
  inventory is asked for the planned target and interface, credentials are referenced and loaded
  only for a device whose stable identity, profile and live host and port are the plan's, every
  observation is of the planned interface at the approved host and port, and every write carries a
  target with the approved host, port, device and interface and an artifact of the plan.\<close>

theorem execution_contacts_approved_endpoint:
  assumes "profiled_plan_valid sha p = Inr ()" and "diffs_are_digests wr"
  shows "list_all (approved_contact p) (execution_log sha pv wr p approval t)"
proof (cases "approval = pp_digest p")
  case True
  obtain s where "reaches p (execution_log sha pv wr p (pp_digest p) t) s"
    by (rule execution_run [OF assms])
  then have "contact_law p s (execution_log sha pv wr p (pp_digest p) t)" by (rule contacts.path_law)
  with True show ?thesis by (simp add: contact_law_def list_all_iff)
qed (simp add: unapproved_log)

theorem execution_contacts_approved_endpoint_witness:
  "list_all (approved_contact (sample_plan sample_core)) sample_log"
  by (rule execution_contacts_approved_endpoint [OF sample_plan_facts(1) sample_writer_diffs])

definition observed_success ::
    "profiled_deployment_plan \<Rightarrow> 'x write_event event list \<Rightarrow> bool" where
  "observed_success p u \<longleftrightarrow> (\<exists>v r l st. er_disposition r = Succeeded \<and> identity_observed p st
     \<and> is_description st = Some (pp_desired_description p)
     \<and> ((\<exists>t a. u = v @ [EvOther (EvExecuteCisco t a (Inr r)),
              EvCollect l (si_name (pp_interface p)) (Inr st)])
        \<or> (\<exists>t r'. er_disposition r' = Succeeded
              \<and> u = v @ [EvOther (EvCommitConfirmed 5 (Inr r)), EvOther (EvExit (Inr False)),
                  EvCollect l (si_name (pp_interface p)) (Inr st),
                  EvOther (EvConfirm t (Inr r'))])))"

text \<open>C3: success is freshly observed. A record says SUCCEEDED only if the log ends with a write
  known to have succeeded, followed by a read of the approved interface that verified hostname,
  interface and existence and returned exactly the desired description; on Junos the session was
  closed cleanly before that read and the confirmation after it was known to succeed. A provider's
  change flag is never the ground of success.\<close>

theorem success_is_freshly_observed:
  assumes "profiled_plan_valid sha p = Inr ()" and "diffs_are_digests wr"
    and "fst (execute_profiled_plan sha pv wr p approval t) = Inr r" and "xr_final_outcome r = SUCCEEDED"
  shows "observed_success p (execution_log sha pv wr p approval t)"
proof -
  obtain s where s: "reaches p (execution_log sha pv wr p approval t) s" "verdict p s = Some SUCCEEDED"
    by (rule execution_record [OF assms(1-3)]) (simp add: assms(4))
  from s(2) consider "s = Confirmed Succeeded"
    | d st where "s = Observed d st" "identity_observed p st"
        "is_description st = Some (pp_desired_description p)"
    by (auto simp: verdict_inv)
  then show ?thesis
  proof cases
    case 1
    with s(1) show ?thesis unfolding observed_success_def by (auto elim!: reach_Confirmed)
  next
    case 2
    with s(1) show ?thesis unfolding observed_success_def by (auto elim!: reach_Observed)
  qed
qed

theorem success_is_freshly_observed_witness:
  "observed_success (sample_plan sample_core) sample_log"
proof -
  obtain r where r: "fst sample_run = Inr r" "xr_final_outcome r = SUCCEEDED"
    using sample_execution by blast
  show ?thesis
    by (rule success_is_freshly_observed [OF sample_plan_facts(1) sample_writer_diffs r])
qed

text \<open>Outcomes count their writes. A record that says BLOCKED or STALE_PLAN follows no device write
  at all, and one that says AMBIGUOUS, EXECUTION_FAILED, POST_VALIDATION_FAILED or
  AUTO_ROLLBACK_PENDING follows exactly one: an ambiguous or failed first write is never repeated
  and never compensated.\<close>

theorem outcome_counts_writes:
  assumes "profiled_plan_valid sha p = Inr ()" and "diffs_are_digests wr"
    and "fst (execute_profiled_plan sha pv wr p approval t) = Inr r"
  shows "(xr_final_outcome r \<in> {BLOCKED, STALE_PLAN}
            \<longrightarrow> list_all (\<lambda>e. \<not> is_write_event e) (execution_log sha pv wr p approval t))
       \<and> (xr_final_outcome r \<in> {AMBIGUOUS, EXECUTION_FAILED, POST_VALIDATION_FAILED, AUTO_ROLLBACK_PENDING}
            \<longrightarrow> length (filter is_write_event (execution_log sha pv wr p approval t)) = 1)"
proof -
  obtain s where "verdict p s = Some (xr_final_outcome r)"
    "write_law p s (filter is_write_event (execution_log sha pv wr p approval t))"
    by (rule execution_record [OF assms])
  with verdict_writes [of p s "filter is_write_event (execution_log sha pv wr p approval t)"]
  show ?thesis by (simp add: filter_empty_conv list_all_iff)
qed

lemma sample_blocked:
  "\<exists>r. fst (execute_profiled_plan sample_sha (sample_world ''uplink'')
      ((sample_writer Succeeded)\<lparr>wr_verify_runtime := \<lambda>_. Inl (DeploymentRuntimeError ''missing'')\<rparr>)
      (sample_plan sample_core) (pp_digest (sample_plan sample_core)) []) = Inr r
    \<and> xr_final_outcome r = BLOCKED"
  using valid_plan_facts(1,6) [OF sample_plan_facts(1)] sample_plan_cisco(1)
    record_values_valid [OF sample_plan_facts(1) record_facts_blocked [of BLOCKED]]
  by (simp add: execute_profiled_plan_def verify_runtime_def verify_cisco_runtime_def handled_def
      eff_simps py_def record_of_def Let_def cisco_plan_def)
    (simp add: record_values_def)

theorem outcome_counts_writes_witness:
  "list_all (\<lambda>e. \<not> is_write_event e) (execution_log sample_sha (sample_world ''uplink'')
      ((sample_writer Succeeded)\<lparr>wr_verify_runtime := \<lambda>_. Inl (DeploymentRuntimeError ''missing'')\<rparr>)
      (sample_plan sample_core) (pp_digest (sample_plan sample_core)) [])"
proof -
  obtain r where r: "fst (execute_profiled_plan sample_sha (sample_world ''uplink'')
      ((sample_writer Succeeded)\<lparr>wr_verify_runtime := \<lambda>_. Inl (DeploymentRuntimeError ''missing'')\<rparr>)
      (sample_plan sample_core) (pp_digest (sample_plan sample_core)) []) = Inr r"
    "xr_final_outcome r = BLOCKED"
    using sample_blocked by blast
  have "diffs_are_digests
      ((sample_writer Succeeded)\<lparr>wr_verify_runtime := \<lambda>_. Inl (DeploymentRuntimeError ''missing'')\<rparr>)"
    using sample_writer_diffs [of Succeeded] by (simp add: diffs_are_digests_def)
  from outcome_counts_writes [OF sample_plan_facts(1) this r(1)] r(2) show ?thesis by simp
qed

lemma map_sum_Inr: "map_sum f id r = Inr y \<longleftrightarrow> r = Inr y"
  by (cases r) auto

lemma record_values_outcome [simp]: "xr_final_outcome (record_values p a outcome pre ev time) = outcome"
  by (simp add: record_values_def)

text \<open>The approval gate. With an approval digest that is malformed or is not the plan's, or a plan
  whose digest does not verify, no call is made at all (no inventory, credential, device or runtime
  call), and no outcome but BLOCKED can be recorded.\<close>

theorem approval_gate:
  assumes "approval \<noteq> pp_digest p \<or> \<not> plan_verify_digest sha p"
  shows "snd (execute_profiled_plan sha pv wr p approval t) = t
     \<and> (\<forall>r. fst (execute_profiled_plan sha pv wr p approval t) = Inr r \<longrightarrow> xr_final_outcome r = BLOCKED)"
proof (cases "approval = pp_digest p")
  case False
  then obtain e where "execute_profiled_plan sha pv wr p approval t = (Inl e, t)" by (rule unapproved)
  then show ?thesis by simp
next
  case True
  with assms have "\<not> plan_verify_digest sha p" by simp
  then show ?thesis
    using True
    by (auto simp: execute_profiled_plan_def raise_def py_def record_of_def Let_def bindS_Inr_iff
        map_sum_Inr)
qed

lemma sample_malformed: "\<not> sha256_pattern ''sha256:other''"
  by code_simp

theorem approval_gate_witness:
  "snd (execute_profiled_plan sample_sha (sample_world ''uplink'') (sample_writer Succeeded)
     (sample_plan sample_core) ''sha256:other'' []) = []"
proof -
  have "''sha256:other'' \<noteq> pp_digest (sample_plan sample_core)"
    using valid_plan_facts(1) [OF sample_plan_facts(1)] sample_malformed by metis
  then show ?thesis
    using approval_gate [of "''sha256:other''" "sample_plan sample_core" sample_sha
        "sample_world ''uplink''" "sample_writer Succeeded" "[]"] by blast
qed

definition restored_state ::
    "profiled_deployment_plan \<Rightarrow> 'x write_event event list \<Rightarrow> bool" where
  "restored_state p u \<longleftrightarrow> (\<exists>v t a r l st0 t' b r' l' st.
     u = v @ [EvOther (EvExecuteCisco t a (Inr r)), EvCollect l (si_name (pp_interface p)) (Inr st0),
        EvOther (EvExecuteCisco t' b (Inr r')), EvCollect l' (si_name (pp_interface p)) (Inr st)]
     \<and> identity_observed p st0 \<and> is_description st0 \<noteq> Some (pp_desired_description p)
     \<and> pp_recovery_artifact p = Some b
     \<and> identity_observed p st \<and> is_description st = pp_current_description p)"

text \<open>C6: recovery is honest. A record says RECOVERED only if the log ends with the reviewed write, an
  identity-verified read that did not show the desired description, the reviewed inverse, and a
  fresh identity-verified read that shows exactly the description the plan was reviewed with.\<close>

theorem recovered_is_restored:
  assumes "profiled_plan_valid sha p = Inr ()" and "diffs_are_digests wr"
    and "fst (execute_profiled_plan sha pv wr p approval t) = Inr r" and "xr_final_outcome r = RECOVERED"
  shows "restored_state p (execution_log sha pv wr p approval t)"
proof -
  obtain s where s: "reaches p (execution_log sha pv wr p approval t) s" "verdict p s = Some RECOVERED"
    by (rule execution_record [OF assms(1-3)]) (simp add: assms(4))
  then show ?thesis
    unfolding restored_state_def by (auto simp: verdict_inv elim!: reach_Restored)
qed

text \<open>A device that takes the first write wrongly and the inverse rightly.\<close>

definition drifting_world :: "unit write_event providers" where
  "drifting_world = sample_providers sample_core ''1'' (\<lambda>t.
     if length (filter is_write_event t) = 1 then Some ''drift'' else Some ''old'')"

lemma sample_drift:
  "\<exists>r. fst (execute_profiled_plan sample_sha drifting_world (sample_writer Succeeded)
      (sample_plan sample_core) (pp_digest (sample_plan sample_core)) []) = Inr r
    \<and> xr_final_outcome r = RECOVERED"
proof -
  let ?p = "sample_plan sample_core"
  obtain art inv where art: "pp_execution_artifact ?p = Cisco art" "pp_recovery_artifact ?p = Some inv"
    using sample_plan_cisco(1) by (auto simp: cisco_plan_def)
  from sample_plan_cisco(2) obtain a l where al:
    "admit_profiled_operation sample_core INTERFACE_DESCRIPTION = Inr a"
    "live_read_only_target sample_core = Inr l"
    "plan_binding_unchanged ?p sample_core (sample_interface sample_core ''Gi2'') a l"
    by (auto simp: rebound_def)
  obtain tg where tg: "from_preflight sample_core (pp_interface ?p) INTERFACE_DESCRIPTION = Inr tg"
    "wt_admission tg = pp_operation_admission ?p"
    using rebound_target [OF sample_plan_facts(1) sample_plan_cisco(2) [folded sample_plan_facts(4)]] .
  have ex: "execute_cisco wr tg cr b
      = askE (\<lambda>h. wr_execute wr h tg cr b) (\<lambda>r. EvOther (EvExecuteCisco tg b r))"
    for wr :: "unit writer" and cr b
    using sample_plan_cisco(1) tg by (intro write_calls(1)) (simp_all add: write_target_of_def cisco_plan_def)
  have "sample_state sample_core v = sample_state sample_core w \<longleftrightarrow> v = w" for v w
    by (simp add: sample_state_def)
  have rec: "change_record_valid (record_values ?p (pp_digest ?p) RECOVERED
      (verified_stage (sample_state sample_core (Some ''old'')))
      (no_evidence\<lparr>ev_execution := Some (result_stage (sample_result Succeeded)),
         ev_post := Some (observed_stage ''desired state not observed'' False ?p
            (sample_state sample_core (Some ''drift''))),
         ev_recovery := Some ((result_stage (sample_result Succeeded))
           \<lparr>sr_succeeded := Some True, sr_observed_description := Some ''old''\<rparr>)\<rparr>) time) = Inr ()" for time
    by (rule record_values_valid [OF sample_plan_facts(1)
          record_facts_cisco(5) [OF sample_plan_cisco(1) sample_states(1)]])
      (simp_all add: sample_result_def sample_names sample_plan_facts stage_consistent_def)
  have at: "oa_transport_family (pp_operation_admission ?p) = ANSIBLE_NETWORK_CLI"
    using sample_plan_cisco(1) by (simp add: cisco_plan_def)
  show ?thesis
    unfolding execute_profiled_plan_def verify_runtime_def verify_cisco_runtime_def preflight_def
      resolve_admitted_def provider_calls execute_preflighted_def execute_cisco_plan_def
      recover_cisco_def observe_def handled_def drifting_world_def sample_writer_def
    using valid_plan_facts(1,6) [OF sample_plan_facts(1)]
      sample_answers [of "''uplink''", unfolded answers_def admitted_device_def sample_world_def]
      sample_states al tg rec art at sample_plan_facts(2,3)
    by (simp add: eff_simps py_def ex record_of_def Let_def sample_providers_def sample_names
        sample_result_def sample_plan_facts sample_interface_name)
qed

theorem recovered_is_restored_witness:
  "restored_state (sample_plan sample_core) (execution_log sample_sha drifting_world
     (sample_writer Succeeded) (sample_plan sample_core) (pp_digest (sample_plan sample_core)) [])"
proof -
  obtain r where r: "fst (execute_profiled_plan sample_sha drifting_world (sample_writer Succeeded)
      (sample_plan sample_core) (pp_digest (sample_plan sample_core)) []) = Inr r"
    "xr_final_outcome r = RECOVERED"
    using sample_drift by blast
  show ?thesis
    by (rule recovered_is_restored [OF sample_plan_facts(1) sample_writer_diffs r])
qed

definition honest_world ::
    "'x write_event providers \<Rightarrow> 'x writer \<Rightarrow> profiled_deployment_plan \<Rightarrow> device_credentials
      \<Rightarrow> interface_state \<Rightarrow> interface_state \<Rightarrow> execution_result \<Rightarrow> execution_result \<Rightarrow> bool" where
  "honest_world pv wr p cr before after x y \<longleftrightarrow>
     (case pp_execution_artifact p of Cisco _ \<Rightarrow> cisco_world pv wr cr before after x
      | Junos _ \<Rightarrow> junos_world pv wr cr before after x y)"

text \<open>The writes of a successful delivery: one execution of the reviewed artifact on a Cisco device, a
  commit-confirmed of five minutes and its confirmation on a Junos device.\<close>

definition successful_writes :: "profiled_deployment_plan \<Rightarrow> 'x write_event event list \<Rightarrow> bool" where
  "successful_writes p ws \<longleftrightarrow> (case pp_execution_artifact p of
       Cisco a \<Rightarrow> (\<exists>t r. ws = [EvOther (EvExecuteCisco t a (Inr r))] \<and> er_disposition r = Succeeded)
     | Junos a \<Rightarrow> (\<exists>t r r'. ws = [EvOther (EvCommitConfirmed 5 (Inr r)), EvOther (EvConfirm t (Inr r'))]
         \<and> er_disposition r = Succeeded \<and> er_disposition r' = Succeeded))"

lemma verdict_succeeded_writes:
  assumes "verdict p s = Some SUCCEEDED" and "write_law p s ws"
    and "profiled_plan_valid sha p = Inr ()"
    and "reaches p es s" and "ws = filter is_write_event es"
  shows "successful_writes p ws"
  using assms valid_plan_facts(8) [OF assms(3)]
  by (auto simp: verdict_inv write_shapes successful_writes_def is_junos_plan_def cisco_plan_def
      junos_plan_def)

text \<open>C7: nothing stands in the way of an honest delivery, on either family of devices. When
  inventory, secrets and (for Cisco) the runtime answer for the plan, the read before the write
  matches it, the writes succeed (for Junos: the candidate opens, is prepared, commits, closes and is
  confirmed) and the device shows the desired description after the first of them, the execution
  returns, its record says SUCCEEDED, and the writes made are exactly one execution of the reviewed
  artifact (Cisco), or one commit-confirmed of five minutes and its confirmation (Junos).\<close>

theorem honest_execution_succeeds:
  assumes "profiled_plan_valid sha p = Inr ()" and "diffs_are_digests wr"
    and "answers pv p d c cr" and "honest_world pv wr p cr before after x y"
    and "preconditions_unchanged p before" and "identity_observed p after"
    and "is_description after = Some (pp_desired_description p)"
    and "er_disposition x = Succeeded" and "er_disposition y = Succeeded"
  shows "\<exists>r. fst (execute_profiled_plan sha pv wr p (pp_digest p) []) = Inr r
    \<and> xr_final_outcome r = SUCCEEDED
    \<and> successful_writes p
        (filter is_write_event (snd (execute_profiled_plan sha pv wr p (pp_digest p) [])))"
proof -
  obtain r where r: "fst (execute_profiled_plan sha pv wr p (pp_digest p) []) = Inr r"
    "xr_final_outcome r = SUCCEEDED"
    using valid_plan_facts(8) [OF assms(1)]
  proof
    assume c: "cisco_plan p"
    with assms(4) have "cisco_world pv wr cr before after x"
      by (auto simp: honest_world_def cisco_plan_def)
    from honest_run [OF assms(1) c assms(3) this assms(5-8), of "[]"] that show thesis by auto
  next
    assume j: "junos_plan p"
    with assms(4) have "junos_world pv wr cr before after x y"
      by (auto simp: honest_world_def junos_plan_def)
    from honest_run_junos [OF assms(1) j assms(3) this assms(2,5-9), of "[]"] that show thesis
      by auto
  qed
  obtain s where s: "reaches p (execution_log sha pv wr p (pp_digest p) []) s"
    "verdict p s = Some SUCCEEDED"
    "write_law p s (filter is_write_event (execution_log sha pv wr p (pp_digest p) []))"
    by (rule execution_record [OF assms(1,2) r(1)]) (simp add: r(2))
  have log: "snd (execute_profiled_plan sha pv wr p (pp_digest p) [])
      = execution_log sha pv wr p (pp_digest p) []"
    by (rule execution_run [OF assms(1,2), where t = "[]"]) simp
  have "successful_writes p (filter is_write_event (execution_log sha pv wr p (pp_digest p) []))"
    by (rule verdict_succeeded_writes [OF s(2,3) assms(1) s(1) refl])
  with r log show ?thesis by auto
qed

text \<open>The sample Junos plan, and a router that takes its candidate.\<close>

lemma sample_edge_plan_fields:
  "sample_plan sample_edge = (let u = unsigned_plan (sample_intent sample_edge) sample_edge
      (sample_interface sample_edge ''Gi2'') (sample_state sample_edge (Some ''old''))
      (sample_reference ''2'') sample_time junos_admission
      (sample_target sample_edge ''192.168.1.3'' 830)
    in u\<lparr>pp_digest := plan_calculated_digest sample_sha u\<rparr>)"
  "profiled_plan_valid sample_sha (sample_plan sample_edge) = Inr ()"
proof -
  have ne: "sample_edge \<noteq> sample_core" by (simp add: sample_edge_def sample_core_def)
  obtain a t where at: "admit_profiled_operation sample_edge INTERFACE_DESCRIPTION = Inr a"
    "live_read_only_target sample_edge = Inr t"
    "build_profiled_plan sample_sha (sample_intent sample_edge) sample_edge
       (sample_interface sample_edge ''Gi2'') (sample_state sample_edge (Some ''old''))
       (sample_reference ''2'') sample_time
     = (let u = unsigned_plan (sample_intent sample_edge) sample_edge
          (sample_interface sample_edge ''Gi2'') (sample_state sample_edge (Some ''old''))
          (sample_reference ''2'') sample_time a t
        in Inr (u\<lparr>pp_digest := plan_calculated_digest sample_sha u\<rparr>))"
    by (rule builder_succeeds [OF sample_sha_hex sample_inputs_valid(2) sample_guards(2)])
  then show "sample_plan sample_edge = (let u = unsigned_plan (sample_intent sample_edge) sample_edge
      (sample_interface sample_edge ''Gi2'') (sample_state sample_edge (Some ''old''))
      (sample_reference ''2'') sample_time junos_admission
      (sample_target sample_edge ''192.168.1.3'' 830)
    in u\<lparr>pp_digest := plan_calculated_digest sample_sha u\<rparr>)"
    using sample_edge_admitted sample_edge_live ne by (simp add: sample_plan_def Let_def)
  from at(3) have "build_profiled_plan sample_sha (sample_intent sample_edge) sample_edge
       (sample_interface sample_edge ''Gi2'') (sample_state sample_edge (Some ''old''))
       (sample_reference ''2'') sample_time = Inr (sample_plan sample_edge)"
    using ne by (simp add: sample_plan_def Let_def)
  then show "profiled_plan_valid sample_sha (sample_plan sample_edge) = Inr ()"
    by (rule build_profiled_plan_Inr)
qed

lemma sample_junos_plan:
  "junos_plan (sample_plan sample_edge)"
  "rebound (sample_plan sample_edge) sample_edge (sample_interface sample_edge ''Gi2'')"
  "pp_interface (sample_plan sample_edge) = sample_interface sample_edge ''Gi2''"
  "pp_target (sample_plan sample_edge) = dv_logical_name sample_edge"
  "pp_expected_hostname (sample_plan sample_edge) = dv_expected_hostname sample_edge"
  "pp_credential_reference (sample_plan sample_edge) = cf_reference (sample_reference ''2'')"
  "pp_current_description (sample_plan sample_edge) = Some ''old''"
  "pp_desired_description (sample_plan sample_edge) = ''uplink''"
  by (simp_all add: sample_edge_plan_fields(1) Let_def unsigned_plan_def expected_artifacts_def
      junos_plan_def rebound_def sample_edge_admitted sample_edge_live plan_binding_unchanged_def
      sample_target_def junos_admission_def sample_names sample_state_def)

definition sample_edge_world :: "unit write_event providers" where
  "sample_edge_world = sample_providers sample_edge ''2'' (sample_description ''uplink'')"

lemma sample_edge_answers:
  "answers sample_edge_world (sample_plan sample_edge) sample_edge (sample_reference ''2'')
     sample_credentials"
proof -
  have "admitted_device sample_edge" unfolding admitted_device_def by code_simp
  then show ?thesis
    by (simp add: answers_def sample_edge_world_def sample_providers_def sample_junos_plan
        sample_interface_name)
      (simp add: sample_reference_def)
qed

lemma sample_honest_worlds:
  "honest_world (sample_world ''uplink'') (sample_writer Succeeded) (sample_plan sample_core)
     sample_credentials (sample_state sample_core (Some ''old''))
     (sample_state sample_core (Some ''uplink'')) (sample_result Succeeded) (sample_result Succeeded)"
  "honest_world sample_edge_world (sample_writer Succeeded) (sample_plan sample_edge)
     sample_credentials (sample_state sample_edge (Some ''old''))
     (sample_state sample_edge (Some ''uplink'')) (sample_result Succeeded) (sample_result Succeeded)"
  using sample_plan_cisco(1) sample_junos_plan(1) sample_cisco_world
  by (auto simp: honest_world_def cisco_plan_def junos_plan_def junos_world_def sample_edge_world_def
      sample_providers_def sample_writer_def sample_description_def)

lemma sample_edge_states:
  "preconditions_unchanged (sample_plan sample_edge) (sample_state sample_edge (Some ''old''))"
  "identity_observed (sample_plan sample_edge) (sample_state sample_edge v)"
  by (simp_all add: preconditions_unchanged_def identity_observed_def sample_junos_plan
      sample_state_def sample_interface_def)

theorem honest_execution_succeeds_witness:
  "(\<exists>r. fst sample_run = Inr r \<and> xr_final_outcome r = SUCCEEDED
      \<and> successful_writes (sample_plan sample_core) (filter is_write_event (snd sample_run)))
   \<and> (\<exists>r. fst (execute_profiled_plan sample_sha sample_edge_world (sample_writer Succeeded)
          (sample_plan sample_edge) (pp_digest (sample_plan sample_edge)) []) = Inr r
      \<and> xr_final_outcome r = SUCCEEDED
      \<and> successful_writes (sample_plan sample_edge) (filter is_write_event (snd
          (execute_profiled_plan sample_sha sample_edge_world (sample_writer Succeeded)
            (sample_plan sample_edge) (pp_digest (sample_plan sample_edge)) []))))"
proof (rule conjI, goal_cases)
  case 1
  show ?case
    by (rule honest_execution_succeeds [OF sample_plan_facts(1) sample_writer_diffs sample_answers
          sample_honest_worlds(1) sample_states(1,2)])
      (simp_all add: sample_plan_facts sample_names sample_result_def)
next
  case 2
  show ?case
    by (rule honest_execution_succeeds [OF sample_edge_plan_fields(2) sample_writer_diffs
          sample_edge_answers sample_honest_worlds(2) sample_edge_states])
      (simp_all add: sample_junos_plan sample_names sample_state_def sample_result_def)
qed

end
