(* ===== verification/Junos_Transaction.thy ===== *)
theory Junos_Transaction
  imports Write_Adapter
begin

text \<open>
  The Junos side of a write, \<^verbatim>\<open>junos_adapter.py\<close>: \<open>JunosTransaction\<close> (exclusive candidate, prepare,
  commit-confirmed, cleanup), the context \<open>profiled_transaction\<close> that holds it and
  \<open>confirm_profiled\<close>. The NETCONF session and PyEZ \<open>Config\<close> object are functions of the history of
  RPCs; \<open>_session\<close> maps every failure of its own to a \<open>ProviderError\<close>.
\<close>

section \<open>Text and XML helpers\<close>

definition is_line_break :: "char \<Rightarrow> bool" where
  "is_line_break c \<longleftrightarrow> (10 \<le> code c \<and> code c \<le> 13) \<or> (28 \<le> code c \<and> code c \<le> 30) \<or> code c = 133"

fun lines_from :: "string \<Rightarrow> string \<Rightarrow> string list" where
  "lines_from w [] = (if w = [] then [] else [rev w])"
| "lines_from w [c] = (if is_line_break c then [rev w] else [rev (c # w)])"
| "lines_from w (c # d # cs) =
     (if code c = 13 \<and> code d = 10 then rev w # lines_from [] cs
      else if is_line_break c then rev w # lines_from [] (d # cs)
      else lines_from (c # w) (d # cs))"

text \<open>\<open>str.splitlines\<close>, \<open>str.lstrip\<close> and \<open>" ".join(s.split())\<close>\<close>

definition splitlines :: "string \<Rightarrow> string list" where
  "splitlines s = lines_from [] s"

definition lstrip :: "string \<Rightarrow> string" where
  "lstrip = dropWhile is_space"

fun words_from :: "string \<Rightarrow> string \<Rightarrow> string list" where
  "words_from w [] = (if w = [] then [] else [rev w])"
| "words_from w (c # cs) =
     (if is_space c then (if w = [] then [] else [rev w]) @ words_from [] cs
      else words_from (c # w) cs)"

definition squeeze :: "string \<Rightarrow> string" where
  "squeeze s = join '' '' (words_from [] s)"

definition ends_with :: "string \<Rightarrow> string \<Rightarrow> bool" where
  "ends_with p s \<longleftrightarrow> starts_with (rev p) (rev s)"

datatype xml = Elem (xml_tag: string) (xml_text: "string option") (xml_children: "xml list")

fun xml_iter :: "xml \<Rightarrow> xml list" where
  "xml_iter (Elem t x cs) = Elem t x cs # concat (map xml_iter cs)"

definition local_name :: "string \<Rightarrow> string" where
  "local_name tag = rev (takeWhile (\<lambda>c. c \<noteq> CHR ''}'') (rev tag))"

definition child_text :: "xml \<Rightarrow> string \<Rightarrow> string option" where
  "child_text e name = (case List.find (\<lambda>c. local_name (xml_tag c) = name) (xml_children e) of
     None \<Rightarrow> None
   | Some c \<Rightarrow> (case xml_text c of None \<Rightarrow> None
       | Some v \<Rightarrow> if py_strip v = [] then None else Some (py_strip v)))"

definition changed_line :: "string \<Rightarrow> string" where
  "changed_line line = (case lstrip line of [] \<Rightarrow> [] | c # cs \<Rightarrow> c # CHR '' '' # squeeze cs)"

definition diff_is_scoped :: "string \<Rightarrow> junos_config_artifact \<Rightarrow> bool" where
  "diff_is_scoped diff a =
    (let header = ''[edit interfaces '' @ ja_interface a @ '']'';
         headers = filter (starts_with ''[edit '') (map py_strip (splitlines diff));
         changed = map changed_line (filter (\<lambda>line. starts_with ''+'' (lstrip line)
             \<or> starts_with ''-'' (lstrip line)) (splitlines diff));
         additions = filter (\<lambda>line. starts_with ''+ description '' line \<and> ends_with '';'' line) changed;
         existing = (headers = [header] \<and> length additions = 1
           \<and> list_all (\<lambda>line. List.member additions line \<or> starts_with ''- description '' line) changed);
         created = (headers = [''[edit interfaces]''] \<and> length changed = 3
           \<and> changed ! 0 = ''+ '' @ ja_interface a @ '' {''
           \<and> starts_with ''+ description '' (changed ! 1) \<and> ends_with '';'' (changed ! 1)
           \<and> changed ! 2 = ''+ }'')
     in existing \<or> created)"

section \<open>The session\<close>

text \<open>Failures of an RPC: \<open>Connection_Lost\<close> is \<open>ConnectClosedError\<close>, \<open>ConnectError\<close> or
  \<open>RpcTimeoutError\<close>; \<open>Rejected\<close> is \<open>CommitError\<close> or another \<open>RpcError\<close>; \<open>Interrupted\<close> is no
  \<open>Exception\<close>. A diff is \<open>None\<close>, a string or some other object.\<close>

datatype pyez_error = Connection_Lost | Rejected | Other_Error | Interrupted string

datatype pyez_diff = No_Diff | Diff_Text string | Diff_Object

datatype pyez_event =
    PyConnect "unit res"
  | PyDisconnect "unit res"
  | PyEnter "pyez_error + unit"
  | PyExit "pyez_error + unit"
  | PyDiff "pyez_error + pyez_diff"
  | PyRollback "pyez_error + unit"
  | PyLoad string "pyez_error + unit"
  | PyCommitCheck "pyez_error + bool"
  | PyGetConfig string "pyez_error + xml"
  | PyCommit "int option" "pyez_error + bool"

type_synonym pyez_history = "pyez_event list"

record pyez =
  pz_connect :: "pyez_history \<Rightarrow> unit res"
  pz_disconnect :: "pyez_history \<Rightarrow> unit res"
  pz_enter :: "pyez_history \<Rightarrow> pyez_error + unit"
  pz_exit :: "pyez_history \<Rightarrow> pyez_error + unit"
  pz_diff :: "pyez_history \<Rightarrow> pyez_error + pyez_diff"
  pz_rollback :: "pyez_history \<Rightarrow> pyez_error + unit"
  pz_load :: "pyez_history \<Rightarrow> string \<Rightarrow> pyez_error + unit"
  pz_commit_check :: "pyez_history \<Rightarrow> pyez_error + bool"
  pz_get_config :: "pyez_history \<Rightarrow> string \<Rightarrow> pyez_error + xml"
  pz_commit :: "pyez_history \<Rightarrow> int option \<Rightarrow> pyez_error + bool"

type_synonym 'a pio = "(pyez_event, exn, 'a) eff"

definition provider_error :: "string \<Rightarrow> exn" where
  "provider_error m = RuntimeError m"

text \<open>\<^verbatim>\<open>try: x = rpc except Exception: ...\<close>: \<open>None\<close> is a failure the code handles, an interruption
  leaves the code.\<close>

definition rpc :: "(pyez_history \<Rightarrow> pyez_error + 'a) \<Rightarrow> (pyez_error + 'a \<Rightarrow> pyez_event) \<Rightarrow> 'a option pio" where
  "rpc q ev = bindE (ask q ev) (\<lambda>r. case r of
     Inr x \<Rightarrow> ret (Some x) | Inl (Interrupted m) \<Rightarrow> raise (BaseException m) | Inl _ \<Rightarrow> ret None)"

section \<open>\<open>JunosTransaction\<close>\<close>

record junos_transaction =
  jt_loaded :: bool
  jt_commit_attempted :: bool
  jt_commit_result :: "execution_result option"
  jt_close_failed :: bool

definition new_transaction :: junos_transaction where
  "new_transaction = \<lparr>jt_loaded = False, jt_commit_attempted = False, jt_commit_result = None,
     jt_close_failed = False\<rparr>"

definition transaction_enter :: "pyez \<Rightarrow> unit pio" where
  "transaction_enter pz =
    bindE (rpc (pz_enter pz) PyEnter) (\<lambda>entered.
    if entered = None then raise (provider_error ''unable to acquire exclusive Junos candidate'')
    else
    bindE (rpc (pz_diff pz) PyDiff) (\<lambda>existing.
    case existing of
      None \<Rightarrow>
        bindE (rpc (pz_exit pz) PyExit) (\<lambda>_.
        raise (provider_error ''unable to verify clean Junos candidate''))
    | Some d \<Rightarrow>
      if d \<notin> {No_Diff, Diff_Text []}
      then bindE (rpc (pz_exit pz) PyExit) (\<lambda>left.
        raise (provider_error (if left = None then ''unable to release exclusive Junos candidate''
          else ''Junos candidate contains pre-existing changes'')))
      else ret ()))"

text \<open>The operations on the open transaction return the new state with the result, as the object
  keeps what it recorded before an exception.\<close>

definition transaction_exit :: "pyez \<Rightarrow> junos_transaction \<Rightarrow> (junos_transaction \<times> unit res) pio" where
  "transaction_exit pz jt =
    bindE (if jt_loaded jt \<and> \<not> jt_commit_attempted jt
           then bindE (rpc (pz_rollback pz) PyRollback) (\<lambda>r. ret (r = None)) else ret False)
      (\<lambda>cleanup_failed.
    bindE (rpc (pz_exit pz) PyExit) (\<lambda>left.
    if left = None
    then if jt_commit_attempted jt \<and> jt_commit_result jt \<noteq> None
         then ret (jt\<lparr>jt_close_failed := True\<rparr>, Inr ())
         else ret (jt, Inl (provider_error ''Junos candidate cleanup or unlock failed''))
    else if cleanup_failed \<and> jt_commit_result jt = None
    then ret (jt, Inl (provider_error ''Junos uncommitted candidate cleanup failed''))
    else ret (jt, Inr ())))"

definition candidate_descriptions :: "xml \<Rightarrow> junos_config_artifact \<Rightarrow> string option list" where
  "candidate_descriptions candidate a =
     map (\<lambda>e. child_text e ''description'')
       (filter (\<lambda>e. local_name (xml_tag e) = ''interface''
           \<and> child_text e ''name'' = Some (ja_interface a)) (xml_iter candidate))"

definition prepared_ok :: "pyez_diff \<Rightarrow> xml \<Rightarrow> junos_config_artifact \<Rightarrow> bool" where
  "prepared_ok d candidate a \<longleftrightarrow> (case d of
     Diff_Text diff \<Rightarrow> py_strip diff \<noteq> [] \<and> diff_is_scoped diff a
       \<and> candidate_descriptions candidate a = [Some (ja_description a)]
   | _ \<Rightarrow> False)"

definition interface_filter :: "string \<Rightarrow> string" where
  "interface_filter interface = ''<configuration><interfaces><interface>''
     @ xml_text_element ''name'' interface @ ''</interface></interfaces></configuration>''"

definition transaction_prepare ::
    "(string \<Rightarrow> string) \<Rightarrow> pyez \<Rightarrow> junos_config_artifact \<Rightarrow> junos_transaction
      \<Rightarrow> (junos_transaction \<times> string res) pio" where
  "transaction_prepare sha pz a jt =
    (let failed = Inl (provider_error ''Junos candidate preparation failed'') in
    bindE (rpc (\<lambda>h. pz_load pz h (ja_xml a)) (PyLoad (ja_xml a))) (\<lambda>loaded.
    if loaded = None then ret (jt, failed)
    else let jt = jt\<lparr>jt_loaded := True\<rparr> in
    bindE (rpc (pz_commit_check pz) PyCommitCheck) (\<lambda>checked.
    case checked of
      None \<Rightarrow> ret (jt, failed)
    | Some ok' \<Rightarrow>
      if \<not> ok' then ret (jt, Inl (provider_error ''Junos commit check failed''))
      else
      bindE (rpc (pz_diff pz) PyDiff) (\<lambda>diff.
      case diff of
        None \<Rightarrow> ret (jt, failed)
      | Some d \<Rightarrow>
        bindE (rpc (\<lambda>h. pz_get_config pz h (interface_filter (ja_interface a)))
                 (PyGetConfig (interface_filter (ja_interface a)))) (\<lambda>got.
        case got of
          None \<Rightarrow> ret (jt, failed)
        | Some candidate \<Rightarrow>
          if \<not> prepared_ok d candidate a
          then ret (jt, Inl (provider_error ''prepared Junos candidate is not the approved operation''))
          else ret (jt, Inr (''sha256:'' @ sha (case d of Diff_Text diff \<Rightarrow> diff | _ \<Rightarrow> []))))))))"

definition commit_result :: "execution_disposition \<Rightarrow> bool option \<Rightarrow> string \<Rightarrow> execution_result" where
  "commit_result x changed m = \<lparr>er_disposition = x, er_changed = changed, er_message = m\<rparr>"

fun classify_commit :: "pyez_error + bool \<Rightarrow> execution_result" where
  "classify_commit (Inl Connection_Lost) = commit_result Ambiguous None
     ''commit-confirmed result is ambiguous; no retry or confirmation''"
| "classify_commit (Inl Rejected) = commit_result Failed None
     ''commit-confirmed failed with known failure''"
| "classify_commit (Inl e) = commit_result Ambiguous None
     ''commit-confirmed result is ambiguous; no retry or confirmation''"
| "classify_commit (Inr True) = commit_result Succeeded (Some True)
     ''temporary commit confirmed 5 is active''"
| "classify_commit (Inr False) = commit_result Failed None
     ''commit-confirmed did not report known success''"

definition transaction_commit ::
    "pyez \<Rightarrow> int \<Rightarrow> junos_transaction \<Rightarrow> (junos_transaction \<times> execution_result res) pio" where
  "transaction_commit pz minutes jt =
    (if minutes \<noteq> 5
     then let r = commit_result Failed None ''Junos confirmed-commit timeout contract is invalid''
          in ret (jt\<lparr>jt_commit_result := Some r\<rparr>, Inr r)
     else let jt = jt\<lparr>jt_commit_attempted := True\<rparr> in
     bindE (ask (\<lambda>h. pz_commit pz h (Some 5)) (PyCommit (Some 5))) (\<lambda>committed.
     case committed of
       Inl (Interrupted m) \<Rightarrow> ret (jt, Inl (BaseException m))
     | _ \<Rightarrow> let r = classify_commit committed
            in ret (jt\<lparr>jt_commit_result := Some r\<rparr>, Inr r)))"

section \<open>The context \<open>profiled_transaction\<close>\<close>

definition profiled_enter :: "pyez \<Rightarrow> junos_transaction pio" where
  "profiled_enter pz =
    bindE (askE (pz_connect pz) PyConnect) (\<lambda>_.
    bindE (tryE (transaction_enter pz)) (\<lambda>entered.
    case entered of
      Inr _ \<Rightarrow> ret new_transaction
    | Inl e \<Rightarrow> bindE (askE (pz_disconnect pz) PyDisconnect) (\<lambda>_. raise e)))"

text \<open>Leaving the context: the transaction, then the session; a failure of either is suppressed, and
  remembered, once a commit was attempted.\<close>

definition profiled_exit :: "pyez \<Rightarrow> junos_transaction \<Rightarrow> (junos_transaction \<times> unit res) pio" where
  "profiled_exit pz jt =
    bindE (transaction_exit pz jt) (\<lambda>(jt, left).
    bindE (tryE (askE (pz_disconnect pz) PyDisconnect)) (\<lambda>closed.
    case bindS closed (\<lambda>_. left) of
      Inr _ \<Rightarrow> ret (jt, Inr ())
    | Inl (RuntimeError m) \<Rightarrow>
        if jt_commit_attempted jt then ret (jt\<lparr>jt_close_failed := True\<rparr>, Inr ())
        else ret (jt, Inl (RuntimeError m))
    | Inl e \<Rightarrow> raise e))"

section \<open>Confirmation\<close>

fun classify_confirmation :: "pyez_error + bool \<Rightarrow> execution_result" where
  "classify_confirmation (Inl Connection_Lost) = commit_result Ambiguous None
     ''confirmation result is ambiguous; final persistence uncertain''"
| "classify_confirmation (Inl Rejected) = commit_result Failed None
     ''confirmation failed; automatic rollback remains expected''"
| "classify_confirmation (Inl e) = commit_result Ambiguous None
     ''confirmation result is ambiguous; final persistence uncertain''"
| "classify_confirmation (Inr True) = commit_result Succeeded None
     ''pending commit confirmed with known success''"
| "classify_confirmation (Inr False) = commit_result Failed None
     ''confirmation failed; automatic rollback remains expected''"

definition confirmation_failed :: execution_result where
  "confirmation_failed = classify_confirmation (Inl Rejected)"

definition warned :: "bool \<Rightarrow> string \<Rightarrow> execution_result \<Rightarrow> execution_result" where
  "warned failed m r =
     (if failed \<and> er_disposition r = Succeeded then r\<lparr>er_message := m\<rparr> else r)"

definition confirm_in_session :: "pyez \<Rightarrow> execution_result pio" where
  "confirm_in_session pz =
    bindE (rpc (pz_enter pz) PyEnter) (\<lambda>entered.
    if entered = None then ret confirmation_failed
    else
    bindE (ask (\<lambda>h. pz_commit pz h None) (PyCommit None)) (\<lambda>confirmed.
    case confirmed of
      Inl (Interrupted m) \<Rightarrow> raise (BaseException m)
    | _ \<Rightarrow>
      bindE (rpc (pz_exit pz) PyExit) (\<lambda>left.
      ret (warned (left = None) ''pending commit confirmed; config cleanup warning''
        (classify_confirmation confirmed)))))"

definition confirm_profiled :: "pyez \<Rightarrow> execution_result pio" where
  "confirm_profiled pz =
    bindE (attempt_any (askE (pz_connect pz) PyConnect)) (\<lambda>connected.
    if connected = None then ret confirmation_failed
    else
    bindE (tryE (confirm_in_session pz)) (\<lambda>result.
    bindE (attempt_any (askE (pz_disconnect pz) PyDisconnect)) (\<lambda>closed.
    case result of
      Inl e \<Rightarrow> raise e
    | Inr r \<Rightarrow>
        ret (warned (closed = None) ''pending commit confirmed; session cleanup warning'' r))))"

section \<open>The lock on the exclusive candidate\<close>

text \<open>\<open>locked\<close>: an exclusive candidate was acquired and no release of it succeeded since; a failed
  exit RPC leaves the lock where it was.\<close>

definition lock_step :: "bool \<Rightarrow> pyez_event \<Rightarrow> bool" where
  "lock_step b e = (case e of PyEnter (Inr _) \<Rightarrow> True | PyExit (Inr _) \<Rightarrow> False | _ \<Rightarrow> b)"

definition locked :: "bool \<Rightarrow> pyez_event list \<Rightarrow> bool" where
  "locked b es = foldl lock_step b es"

lemma locked_simps [simp]:
  "locked b [] = b" "locked b (e # es) = locked (lock_step b e) es"
  by (simp_all add: locked_def)

lemma lock_step_simps [simp]:
  "lock_step b (PyEnter (Inr u)) = True" "lock_step b (PyEnter (Inl x)) = b"
  "lock_step b (PyExit (Inr u)) = False" "lock_step b (PyExit (Inl x)) = b"
  "lock_step b (PyDiff q) = b" "lock_step b (PyRollback r) = b"
  by (simp_all add: lock_step_def)

text \<open>The attempts to release it, with their answers.\<close>

definition releases :: "pyez_event list \<Rightarrow> (pyez_error + unit) list" where
  "releases es = concat (map (\<lambda>e. case e of PyExit r \<Rightarrow> [r] | _ \<Rightarrow> []) es)"

lemma releases_simps [simp]:
  "releases [] = []" "releases (PyExit r # es) = r # releases es"
  "releases (PyEnter v # es) = releases es" "releases (PyDiff q # es) = releases es"
  "releases (PyRollback v # es) = releases es"
  by (simp_all add: releases_def)

lemmas pio_simps = eff_simps rpc_def handled_def

text \<open>The protocol whose state is the log itself.\<close>

definition traced :: "pyez_event list \<Rightarrow> pyez_event \<Rightarrow> pyez_event list \<Rightarrow> bool" where
  "traced s e s' \<longleftrightarrow> s' = s @ [e]"

lemma traced_path: "path traced s es s' \<Longrightarrow> s' = s @ es"
  by (induction rule: path.induct) (simp_all add: traced_def)

lemma runs_rpc_bind:
  assumes ok: "\<And>x. step s (ev (Inr x)) (f x)" and no: "\<And>e. step s (ev (Inl e)) (g e)"
    and some: "\<And>x. runs step (f x) (k (Some x)) R" and none: "\<And>e. runs step (g e) (k None) R"
    and base: "\<And>m. R (Inl (BaseException m)) (g (Interrupted m))"
  shows "runs step s (bindE (rpc q ev) k) R"
proof -
  let ?Q = "\<lambda>r s'. case r of Inr (Inr x) \<Rightarrow> s' = f x | Inr (Inl e) \<Rightarrow> s' = g e | Inl _ \<Rightarrow> False"
  have assoc: "bindE (rpc q ev) k = bindE (ask q ev) (\<lambda>r. case r of
     Inr x \<Rightarrow> k (Some x) | Inl (Interrupted m) \<Rightarrow> raise (BaseException m) | Inl _ \<Rightarrow> k None)"
    by (rule ext) (simp add: rpc_def eff_simps split: sum.splits pyez_error.splits)
  show ?thesis
    unfolding assoc
  proof (rule runs_bindE [where Q = ?Q])
    show "runs step s (ask q ev) ?Q"
    proof (rule runs_ask)
      fix t
      show "\<exists>s'. step s (ev (q t)) s' \<and> ?Q (Inr (q t)) s'"
      proof (cases "q t")
        case (Inl e)
        with no show ?thesis by (intro exI [of _ "g e"]) simp
      next
        case (Inr x)
        with ok show ?thesis by (intro exI [of _ "f x"]) simp
      qed
    qed
  next
    fix x s' assume "?Q (Inr x) s'"
    then show "runs step s' (case x of Inr x \<Rightarrow> k (Some x)
      | Inl (Interrupted m) \<Rightarrow> raise (BaseException m) | Inl _ \<Rightarrow> k None) R"
      using some none base
      by (cases x) (auto split: pyez_error.splits intro!: runs_pure)
  qed simp
qed

lemma runs_rpc_traced:
  assumes "\<And>x. runs traced (s @ [ev (Inr x)]) (k (Some x)) R"
    and "\<And>e. runs traced (s @ [ev (Inl e)]) (k None) R"
    and "\<And>m. R (Inl (BaseException m)) (s @ [ev (Inl (Interrupted m))])"
  shows "runs traced s (bindE (rpc q ev) k) R"
  by (rule runs_rpc_bind [where f = "\<lambda>x. s @ [ev (Inr x)]" and g = "\<lambda>e. s @ [ev (Inl e)]"])
    (simp_all add: traced_def assms)

definition entered_or_released :: "exn + unit \<Rightarrow> pyez_event list \<Rightarrow> bool" where
  "entered_or_released r u \<longleftrightarrow> (case r of
     Inr _ \<Rightarrow> locked False u \<and> releases u = []
   | Inl e \<Rightarrow> locked False u \<longrightarrow> \<not> is_exception e \<or> (\<exists>x. releases u = [Inl x]))"

lemma transaction_enter_lock: "runs traced [] (transaction_enter pz) entered_or_released"
proof -
  have leave: "runs traced [PyEnter (Inr v), d]
      (bindE (rpc (pz_exit pz) PyExit) (\<lambda>left. raise (e left))) entered_or_released"
    if "d = PyDiff q" for v d q e
    by (rule runs_rpc_traced) (auto simp: that entered_or_released_def intro!: runs_pure)
  show ?thesis
    unfolding transaction_enter_def
    by (rule runs_rpc_traced; simp add: entered_or_released_def [abs_def])
      (auto intro!: runs_rpc_traced runs_pure leave [unfolded entered_or_released_def [abs_def]])
qed

text \<open>Leaving attempts one release, unless the process is interrupted; a lock that stays is reported.\<close>

definition left_or_reported :: "exn + junos_transaction \<times> unit res \<Rightarrow> pyez_event list \<Rightarrow> bool" where
  "left_or_reported r v \<longleftrightarrow> (case r of
     Inr (jt, q) \<Rightarrow> length (releases v) = 1 \<and> (locked True v \<longrightarrow> jt_close_failed jt
         \<or> q = Inl (provider_error ''Junos candidate cleanup or unlock failed''))
   | Inl e \<Rightarrow> \<not> is_exception e)"

lemma transaction_exit_lock: "runs traced [] (transaction_exit pz jt) left_or_reported"
proof -
  define k where "k failed left = (if left = None
      then if jt_commit_attempted jt \<and> jt_commit_result jt \<noteq> None
           then ret (jt\<lparr>jt_close_failed := True\<rparr>, Inr ())
           else ret (jt, Inl (provider_error ''Junos candidate cleanup or unlock failed''))
      else if failed \<and> jt_commit_result jt = None
      then ret (jt, Inl (provider_error ''Junos uncommitted candidate cleanup failed''))
      else (ret (jt, Inr ()) :: (junos_transaction \<times> unit res) pio))"
    for failed and left :: "unit option"
  have leave: "runs traced s (bindE (rpc (pz_exit pz) PyExit) (k failed)) left_or_reported"
    if "s = [] \<or> (\<exists>v. s = [PyRollback v])" for s failed
    using that
    by (intro runs_rpc_traced) (auto simp: k_def left_or_reported_def intro!: runs_pure)
  have exit: "transaction_exit pz jt = (if jt_loaded jt \<and> \<not> jt_commit_attempted jt
      then bindE (rpc (pz_rollback pz) PyRollback) (\<lambda>r. bindE (rpc (pz_exit pz) PyExit) (k (r = None)))
      else bindE (rpc (pz_exit pz) PyExit) (k False))"
    by (rule ext) (simp add: transaction_exit_def k_def [abs_def] eff_simps split: sum.split prod.split)
  have "runs traced [] (bindE (rpc (pz_rollback pz) PyRollback)
      (\<lambda>r. bindE (rpc (pz_exit pz) PyExit) (k (r = None)))) left_or_reported"
    by (rule runs_rpc_traced) (simp_all add: leave left_or_reported_def)
  then show ?thesis unfolding exit by (simp add: leave)
qed

text \<open>After an attempted commit the clean-up makes one exit RPC and nothing else.\<close>

lemma transaction_exit_attempted:
  assumes "jt_commit_attempted jt"
  shows "\<exists>y. snd (transaction_exit pz jt h) = h @ [PyExit y]"
  using assms by (auto simp: transaction_exit_def pio_simps split: sum.splits pyez_error.splits)

section \<open>What prepare and commit promise\<close>

lemma transaction_prepare_Inr:
  assumes "transaction_prepare sha pz a jt t = (Inr (jt', Inr digest), t')"
  shows "\<exists>diff candidate. digest = ''sha256:'' @ sha diff \<and> jt' = jt\<lparr>jt_loaded := True\<rparr>
    \<and> t' = t @ [PyLoad (ja_xml a) (Inr ()), PyCommitCheck (Inr True), PyDiff (Inr (Diff_Text diff)),
        PyGetConfig (interface_filter (ja_interface a)) (Inr candidate)]
    \<and> diff_is_scoped diff a \<and> candidate_descriptions candidate a = [Some (ja_description a)]"
  using assms
  by (auto simp: transaction_prepare_def pio_simps Let_def prepared_ok_def
      split: sum.splits pyez_error.splits pyez_diff.splits option.splits if_splits)

text \<open>What a commit RPC's answer says of the device: a reported success, a known failure, or nothing
  that is known.\<close>

definition commit_disposition :: "pyez_error + bool \<Rightarrow> execution_disposition" where
  "commit_disposition x = (if x = Inr True then Succeeded
     else if x \<in> {Inr False, Inl Rejected} then Failed else Ambiguous)"

lemma classify_commit_disposition: "er_disposition (classify_commit x) = commit_disposition x"
  by (cases x rule: classify_commit.cases) (simp_all add: commit_disposition_def commit_result_def)

lemma classify_commit_succeeded [simp]:
  "er_disposition (classify_commit x) = Succeeded \<longleftrightarrow> x = Inr True"
  "er_disposition (classify_confirmation x) = Succeeded \<longleftrightarrow> x = Inr True"
  by (cases x rule: classify_commit.cases; simp add: commit_result_def)+

lemma warned_disposition [simp]: "er_disposition (warned b m r) = er_disposition r"
  by (simp add: warned_def)

definition prepared_digest_of ::
    "(string \<Rightarrow> string) \<Rightarrow> pyez \<Rightarrow> junos_config_artifact \<Rightarrow> junos_transaction \<times> pyez_history \<Rightarrow> string res" where
  "prepared_digest_of sha pz a = (\<lambda>(jt, t). case fst (transaction_prepare sha pz a jt t) of
     Inl e \<Rightarrow> Inl e | Inr (_, r) \<Rightarrow> r)"

lemma prepared_digest_pattern:
  assumes "hex_digest sha" and "prepared_digest_of sha pz a h = Inr diff"
  shows "sha256_pattern diff"
proof -
  obtain jt t where h: "h = (jt, t)" by fastforce
  obtain r t' where p: "transaction_prepare sha pz a jt t = (r, t')" by fastforce
  with assms(2) h obtain jt' where "r = Inr (jt', Inr diff)"
    by (auto simp: prepared_digest_of_def split: sum.splits)
  with p transaction_prepare_Inr obtain d where "diff = sha256_identity sha d"
    unfolding sha256_identity_def by metis
  then show ?thesis by (simp add: sha256_identity_pattern [OF assms(1)])
qed

end
