(* ===== verification/Junos_Properties.thy ===== *)
theory Junos_Properties
  imports Junos_Transaction Execution_Properties
begin

text \<open>The properties of the Junos transaction, with a sample session for the witnesses.\<close>

section \<open>A sample session\<close>

definition sample_junos_artifact :: junos_config_artifact where
  "sample_junos_artifact = junos_description_artifact ''ge-0/0/2'' ''uplink''"

definition sample_diff :: string where
  "sample_diff = ''[edit interfaces ge-0/0/2]'' @ [CHR 0x0A] @ ''-   description old;'' @ [CHR 0x0A]
     @ ''+   description uplink;'' @ [CHR 0x0A]"

definition sample_candidate :: xml where
  "sample_candidate = Elem ''rpc-reply'' None [Elem ''{ns}configuration'' None [Elem ''{ns}interfaces'' None
     [Elem ''{ns}interface'' None [Elem ''{ns}name'' (Some ''ge-0/0/2'') [],
        Elem ''{ns}description'' (Some ''uplink'') []]]]]"

text \<open>The diff before a load is empty; \<open>commits\<close> is what a commit answers.\<close>

definition sample_pyez :: "(pyez_error + bool) \<Rightarrow> pyez" where
  "sample_pyez commits = \<lparr>pz_connect = (\<lambda>_. Inr ()), pz_disconnect = (\<lambda>_. Inr ()),
     pz_enter = (\<lambda>_. Inr ()), pz_exit = (\<lambda>_. Inr ()),
     pz_diff = (\<lambda>h. Inr (if h = [] then No_Diff else Diff_Text sample_diff)),
     pz_rollback = (\<lambda>_. Inr ()), pz_load = (\<lambda>_ _. Inr ()), pz_commit_check = (\<lambda>_. Inr True),
     pz_get_config = (\<lambda>_ _. Inr sample_candidate), pz_commit = (\<lambda>_ _. commits)\<rparr>"

lemma sample_prepared_ok:
  "prepared_ok (Diff_Text sample_diff) sample_candidate sample_junos_artifact"
  by code_simp

lemma sample_prepared:
  "\<exists>jt t. transaction_prepare sample_sha (sample_pyez c) sample_junos_artifact new_transaction []
     = (Inr (jt, Inr (''sha256:'' @ sample_sha sample_diff)), t)"
  using sample_prepared_ok
  by (simp add: transaction_prepare_def pio_simps sample_pyez_def Let_def)

section \<open>Properties\<close>

text \<open>C13: a prepared candidate is the approved one. \<open>prepare\<close> returns a digest only after it loaded
  exactly the artifact's XML, the commit check passed, the diff is scoped to the one interface
  description and the candidate configuration read back holds exactly one description for the
  interface, the approved one; the digest it returns is the SHA-256 identity of that diff.\<close>

theorem prepared_candidate_is_approved:
  assumes "hex_digest sha" and "transaction_prepare sha pz a jt t = (Inr (jt', Inr digest), t')"
  shows "sha256_pattern digest \<and> jt_loaded jt'
    \<and> (\<exists>diff candidate. digest = sha256_identity sha diff \<and> diff_is_scoped diff a
        \<and> t' = t @ [PyLoad (ja_xml a) (Inr ()), PyCommitCheck (Inr True), PyDiff (Inr (Diff_Text diff)),
             PyGetConfig (interface_filter (ja_interface a)) (Inr candidate)]
        \<and> candidate_descriptions candidate a = [Some (ja_description a)])"
proof -
  from transaction_prepare_Inr [OF assms(2)] obtain diff candidate where
    d: "digest = sha256_identity sha diff" "jt' = jt\<lparr>jt_loaded := True\<rparr>"
    and rest: "t' = t @ [PyLoad (ja_xml a) (Inr ()), PyCommitCheck (Inr True), PyDiff (Inr (Diff_Text diff)),
        PyGetConfig (interface_filter (ja_interface a)) (Inr candidate)]"
      "diff_is_scoped diff a" "candidate_descriptions candidate a = [Some (ja_description a)]"
    by (auto simp: sha256_identity_def)
  then show ?thesis using sha256_identity_pattern [OF assms(1)] by auto
qed

theorem prepared_candidate_is_approved_witness:
  "\<exists>diff. diff_is_scoped diff sample_junos_artifact"
proof -
  obtain jt t where "transaction_prepare sample_sha (sample_pyez (Inr True)) sample_junos_artifact
     new_transaction [] = (Inr (jt, Inr (''sha256:'' @ sample_sha sample_diff)), t)"
    using sample_prepared by blast
  from prepared_candidate_is_approved [OF sample_sha_hex this] show ?thesis by blast
qed

text \<open>A writer whose \<open>prepare\<close> is the transaction's satisfies the one assumption the execution
  properties make on vendor writers.\<close>

lemma transaction_provides_digests:
  assumes "hex_digest sha" and "\<And>h. wr_prepare wr h = prepared_digest_of sha pz a (view h)"
  shows "diffs_are_digests wr"
  using assms prepared_digest_pattern by (auto simp: diffs_are_digests_def)

text \<open>C12: the lock on the exclusive candidate. A candidate is locked from a successful acquisition to a
  successful release; a failed exit RPC does not release it. Opening the transaction returns holding
  the lock; when it raises, the lock is not held, unless the one release it attempted failed or the
  process was interrupted. Leaving the transaction attempts exactly one release, whatever the
  rollback answers, unless the process is interrupted; and if the lock is still held after that, the
  caller is told: the exit raises the clean-up error, or, once a commit was attempted and its result
  recorded, marks the transaction as not closed.\<close>

theorem exclusive_lock_released:
  "(\<exists>u. snd (transaction_enter pz t) = t @ u
      \<and> (case fst (transaction_enter pz t) of
           Inr _ \<Rightarrow> locked False u \<and> releases u = []
         | Inl e \<Rightarrow> locked False u \<longrightarrow> \<not> is_exception e \<or> (\<exists>x. releases u = [Inl x])))
   \<and> (\<exists>v. snd (transaction_exit pz jt t') = t' @ v
      \<and> (case fst (transaction_exit pz jt t') of
           Inr (jt', r) \<Rightarrow> length (releases v) = 1 \<and> (locked True v \<longrightarrow> jt_close_failed jt'
             \<or> r = Inl (provider_error ''Junos candidate cleanup or unlock failed''))
         | Inl e \<Rightarrow> \<not> is_exception e))"
proof -
  obtain u s where u: "snd (transaction_enter pz t) = t @ u" "path traced [] u s"
    "entered_or_released (fst (transaction_enter pz t)) s"
    by (rule runsD [OF transaction_enter_lock])
  obtain v s' where v: "snd (transaction_exit pz jt t') = t' @ v" "path traced [] v s'"
    "left_or_reported (fst (transaction_exit pz jt t')) s'"
    by (rule runsD [OF transaction_exit_lock])
  from u(3) traced_path [OF u(2)] v(3) traced_path [OF v(2)] show ?thesis
    by (intro conjI exI [of _ u] exI [of _ v] u(1) v(1))
      (simp_all add: entered_or_released_def left_or_reported_def)
qed

text \<open>On a session whose exit fails, leaving after a failed load keeps the lock and raises.\<close>

theorem exclusive_lock_released_witness:
  "\<exists>v. snd (transaction_exit ((sample_pyez (Inr True))\<lparr>pz_exit := \<lambda>_. Inl Connection_Lost\<rparr>)
       new_transaction []) = v \<and> length (releases v) = 1"
proof -
  let ?pz = "(sample_pyez (Inr True))\<lparr>pz_exit := \<lambda>_. Inl Connection_Lost\<rparr>"
  have "fst (transaction_exit ?pz new_transaction [])
      = Inr (new_transaction, Inl (provider_error ''Junos candidate cleanup or unlock failed''))"
    by (simp add: transaction_exit_def new_transaction_def pio_simps)
  with exclusive_lock_released [of ?pz "[]" new_transaction "[]"] show ?thesis by auto
qed

text \<open>C14: the first active write is sent once and classified. \<open>commit_confirmed\<close> sends no RPC and says
  Failed for any timeout but five minutes. With five it sends exactly one, and marks the transaction
  as attempted whatever comes back: a reported success is Succeeded, a rejected or unsuccessful
  commit is Failed, and a lost connection or any other failure is Ambiguous; an interruption leaves
  the method with no result recorded. After an attempted commit, in every one of these cases,
  leaving the transaction makes one exit RPC: no rollback and no second commit.\<close>

theorem commit_confirmed_sent_once:
  "\<exists>jt' r u. transaction_commit pz minutes jt t = (Inr (jt', r), t @ u)
    \<and> (minutes \<noteq> 5 \<longrightarrow> u = [] \<and> jt_commit_attempted jt' = jt_commit_attempted jt
        \<and> (\<exists>x. r = Inr x \<and> er_disposition x = Failed \<and> jt_commit_result jt' = Some x))
    \<and> (minutes = 5 \<longrightarrow> jt_commit_attempted jt' \<and> (\<exists>answer. u = [PyCommit (Some 5) answer]
        \<and> (case answer of
             Inl (Interrupted m) \<Rightarrow> r = Inl (BaseException m) \<and> jt_commit_result jt' = jt_commit_result jt
           | _ \<Rightarrow> \<exists>x. r = Inr x \<and> er_disposition x = commit_disposition answer
                \<and> jt_commit_result jt' = Some x)))
    \<and> (jt_commit_attempted jt' \<longrightarrow> (\<forall>h. \<exists>y. snd (transaction_exit pz jt' h) = h @ [PyExit y]))"
  using transaction_exit_attempted [where pz = pz]
  by (cases "minutes = 5"; cases "pz_commit pz t (Some 5)")
    (auto simp: transaction_commit_def pio_simps Let_def commit_result_def
      classify_commit_disposition [symmetric] simp del: classify_commit.simps
      split: pyez_error.splits)

theorem commit_confirmed_sent_once_witness:
  "(\<exists>jt r. fst (transaction_commit (sample_pyez (Inl Rejected)) 5 new_transaction []) = Inr (jt, Inr r)
      \<and> er_disposition r = Failed)
   \<and> (\<exists>jt r. fst (transaction_commit (sample_pyez (Inl Other_Error)) 5 new_transaction []) = Inr (jt, Inr r)
      \<and> er_disposition r = Ambiguous)"
proof -
  have sent: "snd (transaction_commit (sample_pyez (Inl Rejected)) 5 new_transaction [])
      = [PyCommit (Some 5) (Inl Rejected)]"
    "snd (transaction_commit (sample_pyez (Inl Other_Error)) 5 new_transaction [])
      = [PyCommit (Some 5) (Inl Other_Error)]"
    by (simp_all add: transaction_commit_def pio_simps sample_pyez_def Let_def)
  show ?thesis
    using commit_confirmed_sent_once [of "sample_pyez (Inl Rejected)" 5 new_transaction "[]"]
      commit_confirmed_sent_once [of "sample_pyez (Inl Other_Error)" 5 new_transaction "[]"] sent
    by (auto simp: commit_disposition_def)
qed

text \<open>The commit RPCs of a log: the timeout each asked for and its answer.\<close>

type_synonym commit_call = "int option \<times> (pyez_error + bool)"

definition commits_of :: "pyez_event list \<Rightarrow> commit_call list" where
  "commits_of es = concat (map (\<lambda>e. case e of PyCommit m x \<Rightarrow> [(m, x)] | _ \<Rightarrow> []) es)"

definition commit_protocol ::
    "commit_call list \<Rightarrow> pyez_event \<Rightarrow> commit_call list \<Rightarrow> bool" where
  "commit_protocol xs e ys \<longleftrightarrow> ys = xs @ commits_of [e]"

lemma commit_protocol_path: "path commit_protocol xs es ys \<Longrightarrow> ys = xs @ commits_of es"
  by (induction rule: path.induct) (simp_all add: commit_protocol_def commits_of_def)

lemma commits_of_single [simp]:
  "commits_of [PyCommit m x] = [(m, x)]" "commits_of [PyConnect u] = []" "commits_of [PyDisconnect u] = []"
  "commits_of [PyEnter v] = []" "commits_of [PyExit v] = []"
  by (simp_all add: commits_of_def)

definition confirmed_by :: "exn + execution_result \<Rightarrow> commit_call list \<Rightarrow> bool" where
  "confirmed_by r xs \<longleftrightarrow> (case r of
       Inr x \<Rightarrow> (xs = [] \<and> er_disposition x = Failed)
         \<or> (\<exists>answer. xs = [(None, answer)] \<and> er_disposition x = commit_disposition answer)
     | Inl e \<Rightarrow> \<not> is_exception e \<and> (xs = [] \<or> (\<exists>answer. xs = [(None, answer)])))"

lemma classify_confirmation_disposition:
  "er_disposition (classify_confirmation x) = commit_disposition x"
  by (cases x rule: classify_confirmation.cases) (simp_all add: commit_disposition_def commit_result_def)

lemma runs_rpc_commits:
  assumes "\<And>r. commits_of [ev r] = []" and "\<And>x. runs commit_protocol xs (k x) R"
    and "\<And>m. R (Inl (BaseException m)) xs"
  shows "runs commit_protocol xs (bindE (rpc q ev) k) R"
  by (rule runs_rpc_bind [where f = "\<lambda>_. xs" and g = "\<lambda>_. xs"])
    (simp_all add: commit_protocol_def assms)

lemma runs_attempt_commits:
  assumes "\<And>r. commits_of [ev r] = []" and "\<And>x. runs commit_protocol xs (k x) R"
    and "\<And>e. \<not> is_exception e \<Longrightarrow> R (Inl e) xs"
  shows "runs commit_protocol xs (bindE (attempt_any (askE q ev)) k) R"
proof (rule runs_bindE [where Q = "\<lambda>r s. s = xs \<and> (case r of Inr _ \<Rightarrow> True | Inl e \<Rightarrow> \<not> is_exception e)"])
  show "runs commit_protocol xs (attempt_any (askE q ev))
     (\<lambda>r s. s = xs \<and> (case r of Inr _ \<Rightarrow> True | Inl e \<Rightarrow> \<not> is_exception e))"
    by (rule runs_handled [OF runs_ask_call [where step = commit_protocol and f = "\<lambda>_. xs" and g = "\<lambda>_. xs"]])
      (auto simp: commit_protocol_def assms(1))
qed (use assms(2,3) in auto)

lemma confirmation_failed_disposition [simp]: "er_disposition confirmation_failed = Failed"
  by (simp add: confirmation_failed_def commit_result_def)

lemma runs_confirm_in_session: "runs commit_protocol [] (confirm_in_session pz) confirmed_by"
  unfolding confirm_in_session_def
proof (rule runs_rpc_commits, goal_cases)
  case (2 entered)
  have "runs commit_protocol [] (bindE (ask (\<lambda>h. pz_commit pz h None) (PyCommit None)) (\<lambda>confirmed.
    case confirmed of
      Inl (Interrupted m) \<Rightarrow> raise (BaseException m)
    | _ \<Rightarrow>
      bindE (rpc (pz_exit pz) PyExit) (\<lambda>left.
      ret (warned (left = None) ''pending commit confirmed; config cleanup warning''
        (classify_confirmation confirmed))))) confirmed_by"
  proof (rule runs_bindE [where Q = "\<lambda>r s. case r of Inr x \<Rightarrow> s = [(None, x)] | Inl _ \<Rightarrow> False"])
    show "runs commit_protocol [] (ask (\<lambda>h. pz_commit pz h None) (PyCommit None))
       (\<lambda>r s. case r of Inr x \<Rightarrow> s = [(None, x)] | Inl _ \<Rightarrow> False)"
      by (rule runs_ask) (simp add: commit_protocol_def)
  next
    fix x :: "pyez_error + bool" and s :: "commit_call list" assume "case Inr x of Inr x \<Rightarrow> s = [(None, x)] | Inl _ \<Rightarrow> False"
    then have s: "s = [(None, x)]" by simp
    have "runs commit_protocol [(None, x)] (bindE (rpc (pz_exit pz) PyExit) (\<lambda>left.
      ret (warned (left = None) ''pending commit confirmed; config cleanup warning''
        (classify_confirmation x)))) confirmed_by"
      by (rule runs_rpc_commits)
        (auto simp: confirmed_by_def classify_confirmation_disposition intro!: runs_pure)
    then show "runs commit_protocol s (case x of
      Inl (Interrupted m) \<Rightarrow> raise (BaseException m)
    | _ \<Rightarrow>
      bindE (rpc (pz_exit pz) PyExit) (\<lambda>left.
      ret (warned (left = None) ''pending commit confirmed; config cleanup warning''
        (classify_confirmation x)))) confirmed_by"
      using s by (cases x) (auto simp: confirmed_by_def split: pyez_error.split intro!: runs_pure)
  qed simp
  then show ?case by (auto simp: confirmed_by_def intro!: runs_pure)
qed (auto simp: confirmed_by_def)

lemma runs_confirm_profiled:
  "runs commit_protocol [] (confirm_profiled pz) confirmed_by"
  unfolding confirm_profiled_def
proof (rule runs_attempt_commits, goal_cases)
  case (2 connected)
  have "runs commit_protocol [] (bindE (tryE (confirm_in_session pz)) (\<lambda>result.
    bindE (attempt_any (askE (pz_disconnect pz) PyDisconnect)) (\<lambda>closed.
    case result of
      Inl e \<Rightarrow> raise e
    | Inr r \<Rightarrow>
        ret (warned (closed = None) ''pending commit confirmed; session cleanup warning'' r)))) confirmed_by"
  proof (rule runs_bindE [where Q = "\<lambda>r s. case r of Inr q \<Rightarrow> confirmed_by q s | Inl _ \<Rightarrow> False"])
    show "runs commit_protocol [] (tryE (confirm_in_session pz))
      (\<lambda>r s. case r of Inr q \<Rightarrow> confirmed_by q s | Inl _ \<Rightarrow> False)"
      by (rule runs_tryE) (simp add: runs_confirm_in_session)
  next
    fix q s assume "case Inr q of Inr q \<Rightarrow> confirmed_by q s | Inl _ \<Rightarrow> False"
    then show "runs commit_protocol s (bindE (attempt_any (askE (pz_disconnect pz) PyDisconnect)) (\<lambda>closed.
      case q of
        Inl e \<Rightarrow> raise e
      | Inr r \<Rightarrow>
          ret (warned (closed = None) ''pending commit confirmed; session cleanup warning'' r))) confirmed_by"
      by (intro runs_attempt_commits)
        (auto simp: confirmed_by_def split: sum.splits intro!: runs_pure)
  qed simp
  then show ?case by (auto simp: confirmed_by_def intro!: runs_pure)
qed (auto simp: confirmed_by_def)

text \<open>C15: the confirmation is sent at most once and says what the device said. One confirmation makes
  at most one commit RPC, on a fresh session and without a timeout. With none sent it reports Failed;
  with one, a reported success is Succeeded, a rejected or unsuccessful commit is Failed, and a lost
  connection or any other failure is Ambiguous, whatever the clean-up afterwards does; it raises
  nothing but an interruption of the process.\<close>

theorem confirmation_sent_once:
  "\<exists>u. snd (confirm_profiled pz t) = t @ u
     \<and> (case fst (confirm_profiled pz t) of
          Inr r \<Rightarrow> (commits_of u = [] \<and> er_disposition r = Failed)
            \<or> (\<exists>answer. commits_of u = [(None, answer)] \<and> er_disposition r = commit_disposition answer)
        | Inl e \<Rightarrow> \<not> is_exception e \<and> (commits_of u = [] \<or> (\<exists>answer. commits_of u = [(None, answer)])))"
proof -
  obtain u ys where u: "snd (confirm_profiled pz t) = t @ u" "path commit_protocol [] u ys"
    "confirmed_by (fst (confirm_profiled pz t)) ys"
    by (rule runsD [OF runs_confirm_profiled])
  with commit_protocol_path [OF u(2)] show ?thesis
    by (intro exI [of _ u]) (simp add: confirmed_by_def)
qed

theorem confirmation_sent_once_witness:
  "\<exists>u. snd (confirm_profiled (sample_pyez (Inr True)) []) = u \<and> commits_of u = [(None, Inr True)]"
proof -
  have "\<exists>r. fst (confirm_profiled (sample_pyez (Inr True)) []) = Inr r \<and> er_disposition r = Succeeded"
    by (simp add: confirm_profiled_def confirm_in_session_def pio_simps sample_pyez_def commit_result_def
        warned_def)
  with confirmation_sent_once [of "sample_pyez (Inr True)" "[]"] show ?thesis
    by (auto simp: commit_disposition_def split: if_splits)
qed

end
