(* ===== verification/Profiled_Rollout.thy ===== *)
theory Profiled_Rollout
  imports Write_Adapter
begin

text \<open>
  \<^verbatim>\<open>profiled_rollout.py\<close> and \<open>admit_intent_result\<close> of \<^verbatim>\<open>profiled_intent.py\<close>: reviewed rollout
  intents, selector expansion, child artifacts, canary and wave cohorts, the parent artifacts of
  both schema versions with their validators, and the rollout planner. The decoding and
  serialization of child artifacts (the JSON reader and pydantic) are the parameter \<open>child_codec\<close>.
\<close>

section \<open>Reviewed intents\<close>

definition MAX_MEMBERS :: nat where "MAX_MEMBERS = 100"
definition MAX_CHILD_BYTES :: nat where "MAX_CHILD_BYTES = 128 * 1024"

record rollout_member_intent =
  mi_target :: string
  mi_interface :: string
  mi_desired :: string

definition rollout_member_intent_valid :: "rollout_member_intent \<Rightarrow> unit res" where
  "rollout_member_intent_valid m =
    bindS (checks
     [(\<not> profiled_logical_name (mi_target m), ValueError ''target''),
      (\<not> cli_bound_string (mi_interface m) \<or> length (mi_interface m) > 100, ValueError ''interface'')])
    (\<lambda>_. desired_description (mi_desired m))"

definition child_intent :: "string \<Rightarrow> rollout_member_intent \<Rightarrow> interface_description_intent" where
  "child_intent change_id m = \<lparr>in_change_id = change_id, in_target = mi_target m,
     in_interface = mi_interface m, in_desired = mi_desired m\<rparr>"

record rollout_policy =
  rp_wave_size :: int
  rp_canaries :: "string list option"

definition rollout_policy_valid :: "rollout_policy \<Rightarrow> unit res" where
  "rollout_policy_valid p = checks
    [(rp_wave_size p < 1 \<or> rp_wave_size p > int MAX_MEMBERS, ValueError ''wave_size''),
     (case rp_canaries p of None \<Rightarrow> False
      | Some cs \<Rightarrow> \<not> list_all profiled_logical_name cs \<or> length cs > MAX_MEMBERS, ValueError ''canaries'')]"

record rollout_selector =
  sl_operational_roles :: "operational_role list option"
  sl_network_oses :: "network_os list option"
  sl_automation_profile_ids :: "automation_profile_id list option"

text \<open>One dimension: at least one value, at most as many as the closed type has, no duplicates.\<close>

definition dimension_valid :: "nat \<Rightarrow> 'a list option \<Rightarrow> bool" where
  "dimension_valid n d = (case d of None \<Rightarrow> True | Some vs \<Rightarrow> 1 \<le> length vs \<and> length vs \<le> n)"

definition dimension_unique :: "'a list option \<Rightarrow> bool" where
  "dimension_unique d = (case d of None \<Rightarrow> True | Some vs \<Rightarrow> distinct vs)"

definition rollout_selector_valid :: "rollout_selector \<Rightarrow> unit res" where
  "rollout_selector_valid s = checks
    [(\<not> dimension_valid 4 (sl_operational_roles s) \<or> \<not> dimension_valid 3 (sl_network_oses s)
        \<or> \<not> dimension_valid 4 (sl_automation_profile_ids s), ValueError ''selector dimension length''),
     (sl_operational_roles s = None \<and> sl_network_oses s = None \<and> sl_automation_profile_ids s = None
        \<or> \<not> dimension_unique (sl_operational_roles s) \<or> \<not> dimension_unique (sl_network_oses s)
        \<or> \<not> dimension_unique (sl_automation_profile_ids s),
        ValueError ''selector needs nonempty unique closed dimensions'')]"

definition admits :: "'a list option \<Rightarrow> 'a \<Rightarrow> bool" where
  "admits d v = (case d of None \<Rightarrow> True | Some vs \<Rightarrow> List.member vs v)"

definition selects :: "rollout_selector \<Rightarrow> profiled_population_member \<Rightarrow> bool" where
  "selects s m \<longleftrightarrow> admits (sl_operational_roles s) (pm_operational_role m)
     \<and> admits (sl_network_oses s) (pm_network_os m)
     \<and> admits (sl_automation_profile_ids s) (pm_automation_profile_id m)"

definition select_members ::
    "rollout_selector \<Rightarrow> population_declaration \<Rightarrow> profiled_population_member list res" where
  "select_members s declared =
    (let selected = filter (selects s) declared
     in if selected = [] then Inl (ValueError ''rollout selector matches no declared members'')
        else Inr selected)"

record rollout_intent =
  ri_change_id :: string
  ri_members :: "rollout_member_intent list"
  ri_policy :: rollout_policy

definition change_id_valid :: "string \<Rightarrow> bool" where
  "change_id_valid s \<longleftrightarrow> cli_bound_string s \<and> length s \<le> 100"

definition rollout_intent_valid :: "rollout_intent \<Rightarrow> unit res" where
  "rollout_intent_valid r =
    bindS (checks
     [(\<not> change_id_valid (ri_change_id r), ValueError ''change_id''),
      (ri_members r = [] \<or> length (ri_members r) > MAX_MEMBERS, ValueError ''members'')]) (\<lambda>_.
    bindS (mapS rollout_member_intent_valid (ri_members r)) (\<lambda>_.
    bindS (rollout_policy_valid (ri_policy r)) (\<lambda>_. checks
     [(\<not> distinct (map mi_target (ri_members r)), ValueError ''rollout targets must be unique''),
      (case rp_canaries (ri_policy r) of None \<Rightarrow> False
       | Some cs \<Rightarrow> \<not> distinct cs \<or> \<not> subset_list cs (map mi_target (ri_members r)),
        ValueError ''rollout canaries must be unique selected targets'')])))"

record selector_clause =
  cl_selector :: rollout_selector
  cl_interface :: string
  cl_desired :: string

definition selector_clause_valid :: "selector_clause \<Rightarrow> unit res" where
  "selector_clause_valid c =
    bindS (rollout_selector_valid (cl_selector c)) (\<lambda>_.
    bindS (checks [(\<not> cli_bound_string (cl_interface c) \<or> length (cl_interface c) > 100,
      ValueError ''interface'')]) (\<lambda>_. desired_description (cl_desired c)))"

datatype source_kind = Explicit_Source | Selector_Source

record expanded_member =
  em_member :: rollout_member_intent
  em_source_kind :: source_kind
  em_source_index :: int

definition expanded_member_valid :: "expanded_member \<Rightarrow> unit res" where
  "expanded_member_valid e =
    bindS (rollout_member_intent_valid (em_member e)) (\<lambda>_. checks
     [(em_source_index e < 0 \<or> em_source_index e \<ge> int MAX_MEMBERS, ValueError ''source_index'')])"

record selection_intent =
  se_change_id :: string
  se_explicit_members :: "rollout_member_intent list"
  se_selectors :: "selector_clause list"
  se_policy :: rollout_policy

definition selection_intent_valid :: "selection_intent \<Rightarrow> unit res" where
  "selection_intent_valid s =
    bindS (checks
     [(\<not> change_id_valid (se_change_id s), ValueError ''change_id''),
      (length (se_explicit_members s) > MAX_MEMBERS \<or> length (se_selectors s) > MAX_MEMBERS,
        ValueError ''selection sources'')]) (\<lambda>_.
    bindS (mapS rollout_member_intent_valid (se_explicit_members s)) (\<lambda>_.
    bindS (mapS selector_clause_valid (se_selectors s)) (\<lambda>_.
    bindS (rollout_policy_valid (se_policy s)) (\<lambda>_. checks
     [(se_explicit_members s = [] \<and> se_selectors s = [],
        ValueError ''rollout requires at least one selection source''),
      (\<not> distinct (map mi_target (se_explicit_members s)),
        ValueError ''rollout explicit targets must be unique'')]))))"

text \<open>\<^verbatim>\<open>enumerate(xs)\<close>\<close>

definition enumerated :: "'a list \<Rightarrow> (int \<times> 'a) list" where
  "enumerated xs = zip (map int [0..<length xs]) xs"

definition expand_explicit ::
    "population_declaration \<Rightarrow> int \<times> rollout_member_intent \<Rightarrow> expanded_member res" where
  "expand_explicit declared = (\<lambda>(index, m).
    bindS (declaration_member declared (mi_target m)) (\<lambda>_.
    let e = \<lparr>em_member = m, em_source_kind = Explicit_Source, em_source_index = index\<rparr>
    in bindS (expanded_member_valid e) (\<lambda>_. Inr e)))"

definition expand_clause ::
    "population_declaration \<Rightarrow> int \<times> selector_clause \<Rightarrow> expanded_member list res" where
  "expand_clause declared = (\<lambda>(index, c).
    bindS (select_members (cl_selector c) declared) (\<lambda>selected.
    mapS (\<lambda>m. let e = \<lparr>em_member = \<lparr>mi_target = pm_logical_name m, mi_interface = cl_interface c,
             mi_desired = cl_desired c\<rparr>, em_source_kind = Selector_Source, em_source_index = index\<rparr>
      in bindS (expanded_member_valid e) (\<lambda>_. Inr e)) selected))"

definition expand :: "selection_intent \<Rightarrow> population_declaration \<Rightarrow> expanded_member list res" where
  "expand s declared =
    bindS (mapS (expand_explicit declared) (enumerated (se_explicit_members s))) (\<lambda>explicit.
    bindS (mapS (expand_clause declared) (enumerated (se_selectors s))) (\<lambda>selected.
    let expanded = explicit @ concat selected
    in bindS (checks
     [(\<not> distinct (map (mi_target \<circ> em_member) expanded),
        ValueError ''rollout selection sources overlap''),
      (length expanded > MAX_MEMBERS,
        ValueError ''rollout expansion exceeds the bounded population'')])
      (\<lambda>_. Inr expanded)))"

definition explicit_intent :: "selection_intent \<Rightarrow> expanded_member list \<Rightarrow> rollout_intent res" where
  "explicit_intent s expansion =
    (let r = \<lparr>ri_change_id = se_change_id s, ri_members = map em_member expansion,
          ri_policy = se_policy s\<rparr>
     in bindS (rollout_intent_valid r) (\<lambda>_. Inr r))"

section \<open>Children\<close>

record rollout_credential_admission =
  cm_authority :: string
  cm_device_identity :: string
  cm_credential_reference :: string

definition rollout_credential_admission_valid :: "rollout_credential_admission \<Rightarrow> unit res" where
  "rollout_credential_admission_valid c =
    bindS (checks
     [(\<not> slug (cm_authority c), ValueError ''authority''),
      (\<not> netbox_identity ''dcim.device'' (cm_device_identity c), ValueError ''device_identity''),
      (length (cm_credential_reference c) > 200, ValueError ''credential_reference'')]) (\<lambda>_.
    bindS (expected_credential (cm_device_identity c)) (\<lambda>expected. checks
     [(cm_credential_reference c \<noteq> expected,
        ValueError ''rollout credential authority reference mismatch'')]))"

datatype child_kind = DEPLOYABLE | COMPLIANT_Child

datatype child_result = Plan_Result profiled_deployment_plan | Compliance_Result profiled_compliance_record

fun kind_of_result :: "child_result \<Rightarrow> child_kind" where
  "kind_of_result (Plan_Result _) = DEPLOYABLE"
| "kind_of_result (Compliance_Result _) = COMPLIANT_Child"

fun result_valid :: "(string \<Rightarrow> string) \<Rightarrow> child_result \<Rightarrow> unit res" where
  "result_valid sha (Plan_Result p) = profiled_plan_valid sha p"
| "result_valid sha (Compliance_Result r) = profiled_compliance_valid sha r"

text \<open>The facts both results carry.\<close>

record result_facts =
  rf_digest :: string
  rf_change_id :: string
  rf_target :: string
  rf_device_identity :: string
  rf_interface :: stable_interface
  rf_platform_slug :: string
  rf_network_os :: network_os
  rf_automation_profile_id :: automation_profile_id
  rf_host :: string
  rf_port :: int
  rf_expected_hostname :: string
  rf_credential_reference :: string
  rf_desired_description :: string

fun facts_of :: "child_result \<Rightarrow> result_facts" where
  "facts_of (Plan_Result p) = \<lparr>rf_digest = pp_digest p, rf_change_id = pp_change_id p,
     rf_target = pp_target p, rf_device_identity = pp_device_identity p, rf_interface = pp_interface p,
     rf_platform_slug = pp_platform_slug p, rf_network_os = pp_network_os p,
     rf_automation_profile_id = pp_automation_profile_id p, rf_host = pp_host p, rf_port = pp_port p,
     rf_expected_hostname = pp_expected_hostname p,
     rf_credential_reference = pp_credential_reference p,
     rf_desired_description = pp_desired_description p\<rparr>"
| "facts_of (Compliance_Result r) = \<lparr>rf_digest = cr_digest r, rf_change_id = cr_change_id r,
     rf_target = cr_target r, rf_device_identity = cr_device_identity r, rf_interface = cr_interface r,
     rf_platform_slug = cr_platform_slug r, rf_network_os = cr_network_os r,
     rf_automation_profile_id = cr_automation_profile_id r, rf_host = cr_host r, rf_port = cr_port r,
     rf_expected_hostname = cr_expected_hostname r,
     rf_credential_reference = cr_credential_reference r,
     rf_desired_description = cr_desired_description r\<rparr>"

definition admit_intent_result :: "interface_description_intent \<Rightarrow> child_result \<Rightarrow> unit res" where
  "admit_intent_result intent result =
    bindS (intent_valid intent) (\<lambda>_. checks
     [(in_change_id intent \<noteq> rf_change_id (facts_of result)
        \<or> in_target intent \<noteq> rf_target (facts_of result)
        \<or> in_interface intent \<noteq> si_name (rf_interface (facts_of result))
        \<or> in_desired intent \<noteq> rf_desired_description (facts_of result),
        ValueError ''committed intent and planning result disagree'')])"

text \<open>The JSON reader and the serializer of child artifacts.\<close>

record child_codec =
  cd_dump :: "child_result \<Rightarrow> string"
  cd_decode :: "child_kind \<Rightarrow> string \<Rightarrow> child_result res"

definition utf8_length :: "string \<Rightarrow> nat" where
  "utf8_length s = sum_list (map (\<lambda>c. if code c < 128 then 1 else 2) s)"

record rollout_child =
  ch_device :: profiled_inventory_device
  ch_interface :: stable_interface
  ch_operation_admission :: profiled_operation_admission
  ch_credential_admission :: rollout_credential_admission
  ch_kind :: child_kind
  ch_artifact_json :: string
  ch_artifact_digest :: string
  ch_result_digest :: string

definition child_result_of ::
    "(string \<Rightarrow> string) \<Rightarrow> child_codec \<Rightarrow> rollout_child \<Rightarrow> child_result res" where
  "child_result_of sha cd c =
    bindS (checks
     [(utf8_length (ch_artifact_json c) > MAX_CHILD_BYTES
        \<or> sha256_identity sha (ch_artifact_json c) \<noteq> ch_artifact_digest c,
        ValueError ''rollout child artifact bytes rejected'')]) (\<lambda>_.
    bindS (cd_decode cd (ch_kind c) (ch_artifact_json c)) (\<lambda>result.
    bindS (checks [(kind_of_result result \<noteq> ch_kind c, ValueError ''rollout child artifact type'')]) (\<lambda>_.
    bindS (result_valid sha result) (\<lambda>_.
    bindS (checks
     [(rf_digest (facts_of result) \<noteq> ch_result_digest c,
        ValueError ''rollout child result digest rejected'')]) (\<lambda>_. Inr result)))))"

definition child_facts_agree ::
    "rollout_child \<Rightarrow> result_facts \<Rightarrow> profile_read_only_target \<Rightarrow> profiled_operation_admission \<Rightarrow> bool" where
  "child_facts_agree c f target admission \<longleftrightarrow>
     ch_operation_admission c = admission
     \<and> cm_device_identity (ch_credential_admission c) = dv_device_identity (ch_device c)
     \<and> cm_credential_reference (ch_credential_admission c) = rf_credential_reference f
     \<and> rf_device_identity f = dv_device_identity (ch_device c)
     \<and> rf_target f = dv_logical_name (ch_device c) \<and> rf_interface f = ch_interface c
     \<and> rf_platform_slug f = nf_slug (dv_platform (ch_device c))
     \<and> rf_automation_profile_id f = dv_automation_profile_id (ch_device c)
     \<and> rf_network_os f = dv_network_os (ch_device c)
     \<and> rf_host f = rt_host target \<and> rf_port f = rt_port target
     \<and> rf_expected_hostname f = dv_expected_hostname (ch_device c)"

definition rollout_child_valid ::
    "(string \<Rightarrow> string) \<Rightarrow> child_codec \<Rightarrow> rollout_child \<Rightarrow> unit res" where
  "rollout_child_valid sha cd c =
    bindS (profiled_inventory_device_valid (ch_device c)) (\<lambda>_.
    bindS (profiled_operation_admission_valid (ch_operation_admission c)) (\<lambda>_.
    bindS (rollout_credential_admission_valid (ch_credential_admission c)) (\<lambda>_.
    bindS (checks
     [(\<not> stable_interface_valid (ch_interface c), ValueError ''interface''),
      (ch_artifact_json c = [] \<or> length (ch_artifact_json c) > MAX_CHILD_BYTES,
        ValueError ''artifact_json''),
      (\<not> sha256_pattern (ch_artifact_digest c) \<or> \<not> sha256_pattern (ch_result_digest c),
        ValueError ''child digest'')]) (\<lambda>_.
    bindS (child_result_of sha cd c) (\<lambda>result.
    bindS (admit_profiled_device (ch_device c) PROFILED_MANAGED_POPULATION False) (\<lambda>_.
    bindS (live_read_only_target (ch_device c)) (\<lambda>target.
    bindS (admit_profiled_operation (ch_device c) INTERFACE_DESCRIPTION) (\<lambda>admission.
    bindS (checks
     [(\<not> child_facts_agree c (facts_of result) target admission,
        ValueError ''rollout child resolved facts disagree'')]) (\<lambda>_.
    let f = facts_of result;
        intent = \<lparr>in_change_id = rf_change_id f, in_target = rf_target f,
          in_interface = si_name (rf_interface f), in_desired = rf_desired_description f\<rparr>
    in bindS (intent_valid intent) (\<lambda>_.
       assert_profiled_interface_binding intent (ch_device c) (ch_interface c)))))))))))"

definition family :: "rollout_child \<Rightarrow> adapter_family \<times> recovery_family" where
  "family c = (oa_adapter_family (ch_operation_admission c), oa_recovery_family (ch_operation_admission c))"

section \<open>Cohorts\<close>

text \<open>Insertion order of the keys of a dict built from a list, and its value for a key (the last
  one written).\<close>

definition dict_keys :: "'a list \<Rightarrow> 'a list" where
  "dict_keys ks = rev (remdups (rev ks))"

definition dict_get :: "('k \<times> 'v) list \<Rightarrow> 'k \<Rightarrow> 'v option" where
  "dict_get kvs k = map_of (rev kvs) k"

fun first_per_family :: "(adapter_family \<times> recovery_family) list \<Rightarrow> rollout_child list \<Rightarrow> string list" where
  "first_per_family seen [] = []"
| "first_per_family seen (c # cs) =
     (if List.member seen (family c) then first_per_family seen cs
      else dv_logical_name (ch_device c) # first_per_family (family c # seen) cs)"

definition child_name :: "rollout_child \<Rightarrow> string" where
  "child_name c = dv_logical_name (ch_device c)"

definition child_identity :: "rollout_child \<Rightarrow> string" where
  "child_identity c = dv_device_identity (ch_device c)"

definition deployables :: "rollout_child list \<Rightarrow> rollout_child list" where
  "deployables children = filter (\<lambda>c. ch_kind c = DEPLOYABLE) children"

text \<open>\<open>by_name[name]\<close> and \<open>identities[name]\<close>; a missing key is a KeyError.\<close>

definition by_name :: "rollout_child list \<Rightarrow> string \<Rightarrow> rollout_child option" where
  "by_name cs = dict_get (map (\<lambda>c. (child_name c, c)) cs)"

definition identity_of_name :: "rollout_child list \<Rightarrow> string \<Rightarrow> string res" where
  "identity_of_name children name = (case by_name children name of
     Some c \<Rightarrow> Inr (child_identity c) | None \<Rightarrow> Inl (OtherException ''KeyError''))"

definition cohort_canaries :: "rollout_policy \<Rightarrow> rollout_child list \<Rightarrow> string list" where
  "cohort_canaries policy deployable = (case rp_canaries policy of
     Some cs \<Rightarrow> cs | None \<Rightarrow> first_per_family [] deployable)"

definition cohorts ::
    "rollout_policy \<Rightarrow> rollout_child list \<Rightarrow> (string list \<times> string list list) res" where
  "cohorts policy children =
    (let deployable = deployables children;
         names = dict_keys (map child_name deployable);
         families = remdups (map family deployable);
         canaries = cohort_canaries policy deployable
     in bindS (checks
      [(\<not> subset_list canaries names \<or> \<not> distinct canaries
          \<or> \<not> same_set (map (\<lambda>n. map_option family (by_name deployable n)) canaries)
                        (map Some families),
         ValueError ''rollout canaries must cover deployable families exactly''),
       (length deployable > length families \<and> length canaries = length deployable,
         ValueError ''rollout must retain a deployable wave when possible'')]) (\<lambda>_.
     let remaining = filter (\<lambda>n. \<not> List.member canaries n) names;
         waves = chunks (nat (rp_wave_size policy)) remaining
     in bindS (mapS (identity_of_name children) canaries) (\<lambda>cs.
        bindS (mapS (mapS (identity_of_name children)) waves) (\<lambda>ws. Inr (cs, ws)))))"

end
