(* ===== verification/Observation.thy ===== *)
theory Observation
  imports Protocol Models
begin

text \<open>
  Observed-configuration evidence: \<^verbatim>\<open>configuration_observation.py\<close> (revisions, attempts and their
  validators), \<^verbatim>\<open>bind_collection_result\<close> of \<^verbatim>\<open>oxidized_observation.py\<close> (settling one collection
  against the private Git history), and the capture of \<^verbatim>\<open>profiled_configuration_observation.py\<close>
  (PRE and POST attempts). Git, the collection controller and the clocks are an \<open>observer\<close>: any
  function of the history of the interaction. UUIDs are strings.
\<close>

section \<open>Instants\<close>

text \<open>\<^verbatim>\<open>datetime.toordinal\<close>, and the UTC instant of an aware value in microseconds, by which Python
  compares aware values.\<close>

definition is_leap :: "int \<Rightarrow> bool" where
  "is_leap y \<longleftrightarrow> y mod 4 = 0 \<and> (y mod 100 \<noteq> 0 \<or> y mod 400 = 0)"

definition days_before_month :: "nat \<Rightarrow> int" where
  "days_before_month m = [0, 0, 31, 59, 90, 120, 151, 181, 212, 243, 273, 304, 334] ! m"

definition toordinal :: "nat \<times> nat \<times> nat \<Rightarrow> int" where
  "toordinal = (\<lambda>(y, m, d). let y' = int y - 1 in
     y' * 365 + y' div 4 - y' div 100 + y' div 400
       + (if m \<le> 12 then days_before_month m else 0)
       + (if m > 2 \<and> is_leap (int y) then 1 else 0) + int d)"

definition instant :: "py_datetime \<Rightarrow> int" where
  "instant t = (case dt_time t of (h, mi, s) \<Rightarrow>
     (((toordinal (dt_date t) * 24 + int h) * 60 + int mi
         - (case dt_offset t of None \<Rightarrow> 0 | Some z \<Rightarrow> z)) * 60 + int s) * 1000000
       + int (dt_microsecond t))"

definition is_utc :: "py_datetime \<Rightarrow> bool" where
  "is_utc t \<longleftrightarrow> dt_offset t = Some 0"

section \<open>Revisions and attempts\<close>

datatype observation_status = CHANGED | UNCHANGED | FAILED_Attempt | TIMED_OUT | AMBIGUOUS_Attempt

datatype observation_failure =
    SOURCE_UNAVAILABLE | NODE_UNAVAILABLE | AUTHENTICATION_FAILED | CONNECTION_FAILED
  | COLLECTION_FAILED | COLLECTION_TIMED_OUT | OUTPUT_FAILED | HISTORY_UNAVAILABLE
  | CONCURRENT_COLLECTION | INCONSISTENT_EVIDENCE

datatype observation_overall = SUCCEEDED_Overall | PARTIAL_Overall | FAILED_Overall | AMBIGUOUS_Overall

definition oxidized_object_id :: "string \<Rightarrow> bool" where
  "oxidized_object_id s \<longleftrightarrow> (length s = 40 \<or> length s = 64) \<and> list_all is_lower_hex s"

record oxidized_revision =
  rv_commit :: string
  rv_config_path :: string
  rv_blob :: string
  rv_collected_at :: py_datetime

text \<open>\<^verbatim>\<open>PurePosixPath(s)\<close>: its parts, whether it is absolute, and \<^verbatim>\<open>as_posix()\<close> of a relative one.\<close>

definition posix_parts :: "string \<Rightarrow> string list" where
  "posix_parts s = filter (\<lambda>p. p \<noteq> [] \<and> p \<noteq> ''.'') (split_on CHR ''/'' s)"

definition join_with :: "char \<Rightarrow> string list \<Rightarrow> string" where
  "join_with c ps = (case ps of [] \<Rightarrow> [] | p # qs \<Rightarrow> p @ concat (map (\<lambda>q. c # q) qs))"

definition is_absolute_path :: "string \<Rightarrow> bool" where
  "is_absolute_path s \<longleftrightarrow> starts_with ''/'' s"

definition relative_posix :: "string \<Rightarrow> string" where
  "relative_posix s = (if posix_parts s = [] then ''.'' else join_with CHR ''/'' (posix_parts s))"

definition config_path_char :: "char \<Rightarrow> bool" where
  "config_path_char c \<longleftrightarrow> is_digit c \<or> is_lower c \<or> (65 \<le> code c \<and> code c \<le> 90)
     \<or> List.member ''._-/'' c"

definition config_path_ok :: "string \<Rightarrow> bool" where
  "config_path_ok s \<longleftrightarrow> s \<noteq> ''.'' \<and> \<not> is_absolute_path s \<and> relative_posix s = s
     \<and> \<not> list_ex (\<lambda>p. p = [] \<or> p = ''.'' \<or> p = ''..'') (posix_parts s)
     \<and> \<not> list_ex (starts_with ''.'') (posix_parts s) \<and> list_all config_path_char s"

definition revision_valid :: "oxidized_revision \<Rightarrow> unit res" where
  "revision_valid r = checks
    [(\<not> oxidized_object_id (rv_commit r) \<or> \<not> oxidized_object_id (rv_blob r)
        \<or> rv_config_path r = [] \<or> length (rv_config_path r) > 255, ValueError ''revision field''),
     (length (rv_commit r) \<noteq> length (rv_blob r) \<or> \<not> config_path_ok (rv_config_path r)
        \<or> \<not> is_utc (rv_collected_at r),
        ValueError ''Oxidized revision metadata is invalid'')]"

record oxidized_observation =
  ob_request_id :: string
  ob_requested_at :: py_datetime
  ob_completed_at :: "py_datetime option"
  ob_status :: observation_status
  ob_before :: "oxidized_revision option"
  ob_after :: "oxidized_revision option"
  ob_failure :: "observation_failure option"

definition successful :: "observation_status \<Rightarrow> bool" where
  "successful s \<longleftrightarrow> s = CHANGED \<or> s = UNCHANGED"

definition ambiguous_failure :: "observation_failure \<Rightarrow> bool" where
  "ambiguous_failure f \<longleftrightarrow> f = CONCURRENT_COLLECTION \<or> f = INCONSISTENT_EVIDENCE"

definition same_revision :: "oxidized_revision \<Rightarrow> oxidized_revision \<Rightarrow> bool" where
  "same_revision a b \<longleftrightarrow> rv_commit a = rv_commit b \<and> rv_config_path a = rv_config_path b
     \<and> rv_blob a = rv_blob b"

definition option_holds :: "('a \<Rightarrow> bool) \<Rightarrow> 'a option \<Rightarrow> bool" where
  "option_holds p x = (case x of None \<Rightarrow> False | Some v \<Rightarrow> p v)"

lemma option_holds_simps [simp]:
  "\<not> option_holds p None" "option_holds p (Some v) = p v"
  by (simp_all add: option_holds_def)

text \<open>\<^verbatim>\<open>completed_at or requested_at\<close>\<close>

definition finished_at :: "oxidized_observation \<Rightarrow> py_datetime" where
  "finished_at a = (case ob_completed_at a of Some t \<Rightarrow> t | None \<Rightarrow> ob_requested_at a)"

definition chronology_checks :: "oxidized_observation \<Rightarrow> (bool \<times> exn) list" where
  "chronology_checks a =
    [(\<not> is_utc (ob_requested_at a) \<or> option_holds (\<lambda>t. \<not> is_utc t) (ob_completed_at a),
        ValueError ''observation timestamps must be timezone-aware UTC''),
     (option_holds (\<lambda>t. instant t < instant (ob_requested_at a)) (ob_completed_at a),
        ValueError ''observation completion precedes request''),
     (option_holds (\<lambda>r. instant (rv_collected_at r) > instant (ob_requested_at a)) (ob_before a),
        ValueError ''before revision was collected after the request''),
     (option_holds (\<lambda>r. instant (rv_collected_at r) > instant (finished_at a)) (ob_before a)
        \<or> option_holds (\<lambda>r. instant (rv_collected_at r) > instant (finished_at a)) (ob_after a),
        ValueError ''observation revision timestamp is inconsistent'')]"

definition success_checks :: "oxidized_observation \<Rightarrow> (bool \<times> exn) list" where
  "success_checks a = (case (ob_before a, ob_after a) of
     (Some before, Some after) \<Rightarrow>
       [(ob_completed_at a = None \<or> ob_failure a \<noteq> None,
          ValueError ''successful observation evidence is incomplete''),
        (ob_status a = UNCHANGED \<and> \<not> same_revision before after,
          ValueError ''unchanged observation has conflicting revisions''),
        (ob_status a = CHANGED \<and> (rv_config_path before \<noteq> rv_config_path after
            \<or> rv_blob before = rv_blob after
            \<or> length (rv_commit before) \<noteq> length (rv_commit after)
            \<or> instant (rv_collected_at after) < instant (ob_requested_at a)),
          ValueError ''changed observation has inconsistent revisions'')]
   | _ \<Rightarrow> [(True, ValueError ''successful observation evidence is incomplete'')])"

definition failure_checks :: "oxidized_observation \<Rightarrow> (bool \<times> exn) list" where
  "failure_checks a =
    [(ob_failure a = None, ValueError ''unsuccessful observation requires a failure category''),
     (ob_status a = AMBIGUOUS_Attempt \<and> option_holds (\<lambda>f. \<not> ambiguous_failure f) (ob_failure a),
        ValueError ''ambiguous observation category is inconsistent''),
     (ob_status a = FAILED_Attempt
        \<and> option_holds (\<lambda>f. f = COLLECTION_TIMED_OUT \<or> ambiguous_failure f) (ob_failure a),
        ValueError ''failed observation category is inconsistent''),
     ((ob_status a = FAILED_Attempt \<or> ob_status a = TIMED_OUT) \<and> ob_after a \<noteq> None,
        ValueError ''failed observation cannot claim an after revision''),
     (ob_status a = FAILED_Attempt \<and> ob_completed_at a = None,
        ValueError ''failed observation requires completion time''),
     (ob_status a = TIMED_OUT \<and> ob_failure a \<noteq> Some COLLECTION_TIMED_OUT,
        ValueError ''timed-out observation category is inconsistent'')]"

definition revisions_valid :: "oxidized_revision option \<Rightarrow> unit res" where
  "revisions_valid r = (case r of None \<Rightarrow> Inr () | Some v \<Rightarrow> revision_valid v)"

definition observation_valid :: "oxidized_observation \<Rightarrow> unit res" where
  "observation_valid a =
    bindS (revisions_valid (ob_before a)) (\<lambda>_.
    bindS (revisions_valid (ob_after a)) (\<lambda>_.
    bindS (checks (chronology_checks a)) (\<lambda>_.
    if successful (ob_status a) then checks (success_checks a) else checks (failure_checks a))))"

text \<open>\<^verbatim>\<open>OxidizedObservation(...)\<close>: construction validates.\<close>

definition observed :: "oxidized_observation \<Rightarrow> oxidized_observation res" where
  "observed a = bindS (observation_valid a) (\<lambda>_. Inr a)"

definition overall_status :: "observation_status \<Rightarrow> observation_overall" where
  "overall_status s = (if successful s then SUCCEEDED_Overall
     else if s = AMBIGUOUS_Attempt then AMBIGUOUS_Overall else PARTIAL_Overall)"

text \<open>\<^verbatim>\<open>node_for_target\<close> and the path of its configuration.\<close>

definition node_for_target :: "string \<Rightarrow> string res" where
  "node_for_target target =
    bindS (checks [(\<not> netbox_identity ''dcim.device'' target, ValueError ''NetBoxDeviceIdentity'')]) (\<lambda>_.
    case after_last_colon target of
      None \<Rightarrow> Inl (OtherException ''IndexError'')
    | Some n \<Rightarrow> (let node = ''netbox-device-'' @ n
        in if length node > 64 then Inl (ValueError ''OxidizedNodeName'') else Inr node))"

definition managed_path :: "string \<Rightarrow> string" where
  "managed_path node = ''managed/'' @ node"

section \<open>The correlated record (schema 1)\<close>

datatype observation_relationship = TEMPORALLY_BRACKETED | POST_ONLY | UNCORRELATED

record configuration_observation_record =
  co_generated_at :: py_datetime
  co_target :: string
  co_oxidized_node :: string
  co_pre :: "oxidized_observation option"
  co_post :: "oxidized_observation option"
  co_relationship :: observation_relationship
  co_overall :: observation_overall

definition relationship_checks :: "configuration_observation_record \<Rightarrow> (bool \<times> exn) list" where
  "relationship_checks r = (case co_relationship r of
     TEMPORALLY_BRACKETED \<Rightarrow> (case (co_pre r, co_post r) of
         (Some pre, Some post) \<Rightarrow>
           [(ob_completed_at pre = None
               \<or> option_holds (\<lambda>t. instant t > instant (ob_requested_at post)) (ob_completed_at pre),
             ValueError ''temporally bracketed evidence is not ordered'')]
       | _ \<Rightarrow> [(True, ValueError ''temporally bracketed evidence requires pre and post'')])
   | POST_ONLY \<Rightarrow> [(co_pre r \<noteq> None \<or> co_post r = None,
        ValueError ''post-only relationship is inconsistent'')]
   | UNCORRELATED \<Rightarrow> [(co_post r \<noteq> None,
        ValueError ''uncorrelated schema-1 evidence is pre-only'')])"

definition attempts :: "configuration_observation_record \<Rightarrow> oxidized_observation list" where
  "attempts r = (case co_pre r of None \<Rightarrow> [] | Some a \<Rightarrow> [a])
     @ (case co_post r of None \<Rightarrow> [] | Some a \<Rightarrow> [a])"

definition expected_overall :: "observation_status list \<Rightarrow> observation_overall" where
  "expected_overall ss =
    (if List.member ss AMBIGUOUS_Attempt then AMBIGUOUS_Overall
     else if list_all successful ss then SUCCEEDED_Overall
     else if list_all (\<lambda>s. \<not> successful s) ss then FAILED_Overall
     else PARTIAL_Overall)"

definition observation_record_valid :: "configuration_observation_record \<Rightarrow> unit res" where
  "observation_record_valid r = checks
    ([(\<not> is_utc (co_generated_at r),
         ValueError ''observation record timestamp must be timezone-aware UTC''),
      (co_pre r = None \<and> co_post r = None,
         ValueError ''observation record requires pre or post evidence''),
      (co_oxidized_node r \<noteq> ''netbox-device-'' @ (let p = ''netbox:dcim.device:'' in
           if starts_with p (co_target r) then drop (length p) (co_target r) else co_target r),
         ValueError ''Oxidized node does not match stable NetBox identity'')]
     @ relationship_checks r @
     [(list_ex (\<lambda>a. instant (co_generated_at r) < instant (finished_at a)) (attempts r),
         ValueError ''observation record predates its evidence''),
      (co_overall r \<noteq> expected_overall (map ob_status (attempts r)),
         ValueError ''observation overall status is inconsistent'')])"

end
