(* ===== verification/Capture.thy ===== *)
theory Capture
  imports Observation
begin

text \<open>
  Capturing one attempt: \<^verbatim>\<open>bind_collection_result\<close> (\<^verbatim>\<open>oxidized_observation.py\<close>), \<^verbatim>\<open>_failure\<close>,
  \<^verbatim>\<open>capture_attempt\<close>, \<^verbatim>\<open>capture_profiled_attempt\<close> and \<^verbatim>\<open>validate_pre\<close>
  (\<^verbatim>\<open>profiled_configuration_observation.py\<close>). The settlement loop polls the history until the
  monotonic clock reaches its deadline; the clock need not advance, so the loop carries fuel, and
  running out of it is the exception \<open>diverged\<close>, which no handler catches.
\<close>

datatype collection_outcome =
    SUCCEEDED_Collection | FAILED_Collection | TIMED_OUT_Collection | CONCURRENT_Collection
  | INCONSISTENT_Collection

record collection_result =
  cl_request_id :: string
  cl_requested_at :: py_datetime
  cl_completed_at :: "py_datetime option"
  cl_outcome :: collection_outcome
  cl_started :: "py_datetime option"
  cl_ended :: "py_datetime option"

text \<open>What reading the history may raise beyond other exceptions: \<open>OxidizedHistoryError\<close>, and the two
  errors of the binding the capture distinguishes.\<close>

datatype capture_error = History string | Unavailable string | Chronology string | Raised exn

definition diverged :: exn where
  "diverged = BaseException ''settlement does not end''"

datatype observation_event =
    EvController "unit res"
  | EvRepository "unit res"
  | EvLatest string "capture_error + oxidized_revision option"
  | EvCollection string "collection_result res"

record 's observer =
  os_event :: "observation_event \<Rightarrow> 's"
  os_controller :: "'s list \<Rightarrow> unit res"
  os_repository :: "'s list \<Rightarrow> unit res"
  os_latest :: "'s list \<Rightarrow> string \<Rightarrow> capture_error + oxidized_revision option"
  os_collect :: "'s list \<Rightarrow> string \<Rightarrow> collection_result res"
  os_now :: "'s list \<Rightarrow> py_datetime"
  os_later :: "'s list \<Rightarrow> py_datetime"
  os_monotonic :: "'s list \<Rightarrow> int"
  os_uuid :: "'s list \<Rightarrow> string"

definition latest_or_none ::
    "'s observer \<Rightarrow> string \<Rightarrow> ('s, capture_error, oxidized_revision option) eff" where
  "latest_or_none ob node = askE (\<lambda>t. os_latest ob t node) (\<lambda>r. os_event ob (EvLatest node r))"

text \<open>\<^verbatim>\<open>latest_revision\<close>: absence is a history error.\<close>

definition latest_revision :: "'s observer \<Rightarrow> string \<Rightarrow> ('s, capture_error, oxidized_revision) eff" where
  "latest_revision ob node = bindE (latest_or_none ob node) (\<lambda>r. case r of
     None \<Rightarrow> raise (History ''Oxidized history unavailable'') | Some v \<Rightarrow> ret v)"

section \<open>Settling a collection\<close>

record bound_collection =
  bd_after :: oxidized_revision
  bd_changed :: bool
  bd_settled_at :: py_datetime

definition REVISION_WAIT_SECONDS :: int where "REVISION_WAIT_SECONDS = 10000000"
definition REVISION_CLOCK_TOLERANCE :: int where "REVISION_CLOCK_TOLERANCE = 5000000"

text \<open>\<open>_settlement_completed_at\<close>: wait at most the tolerance for the clock to pass the evidence. No
  call separates the two clock readings, so the one after the sleep is an answer of its own,
  \<open>os_later\<close>.\<close>

definition settlement_completed_at ::
    "collection_result \<Rightarrow> oxidized_revision \<Rightarrow> py_datetime \<Rightarrow> py_datetime
      \<Rightarrow> capture_error + py_datetime" where
  "settlement_completed_at c after now later = (case cl_completed_at c of
     None \<Rightarrow> Inl (Raised (ValueError ''Oxidized observation completion unavailable''))
   | Some completed \<Rightarrow>
       let evidence = max (instant completed) (instant (rv_collected_at after))
       in if evidence \<le> instant now then Inr now
          else if evidence - instant now > REVISION_CLOCK_TOLERANCE
            then Inl (Chronology ''Oxidized observation chronology rejected'')
          else if instant later < evidence
            then Inl (Chronology ''Oxidized observation chronology rejected'')
          else Inr later)"

definition settlement_valid :: "collection_result \<Rightarrow> oxidized_revision \<Rightarrow> py_datetime \<Rightarrow> unit res" where
  "settlement_valid c after settled = checks
    [(\<not> is_utc settled \<or> cl_completed_at c = None
        \<or> option_holds (\<lambda>t. instant settled < instant t) (cl_completed_at c)
        \<or> instant settled < instant (rv_collected_at after),
      ValueError ''Oxidized observation settlement is inconsistent'')]"

definition settled ::
    "'s observer \<Rightarrow> collection_result \<Rightarrow> oxidized_revision \<Rightarrow> bool
      \<Rightarrow> ('s, capture_error, bound_collection) eff" where
  "settled ob c after changed = (\<lambda>t.
     liftE (bindS (settlement_completed_at c after (os_now ob t) (os_later ob t)) (\<lambda>at.
       case settlement_valid c after at of
         Inl e \<Rightarrow> Inl (Raised e)
       | Inr _ \<Rightarrow> Inr \<lparr>bd_after = after, bd_changed = changed, bd_settled_at = at\<rparr>)) t)"

definition revision_changed :: "oxidized_revision option \<Rightarrow> oxidized_revision \<Rightarrow> bool" where
  "revision_changed before after = (case before of None \<Rightarrow> True
     | Some b \<Rightarrow> rv_commit after \<noteq> rv_commit b \<or> rv_blob after \<noteq> rv_blob b)"

definition inside_window :: "collection_result \<Rightarrow> oxidized_revision \<Rightarrow> bool" where
  "inside_window c after = (case (cl_started c, cl_ended c) of
     (Some _, Some ended) \<Rightarrow>
       instant (cl_requested_at c) - REVISION_CLOCK_TOLERANCE \<le> instant (rv_collected_at after)
       \<and> instant (rv_collected_at after) \<le> instant ended + REVISION_CLOCK_TOLERANCE
   | _ \<Rightarrow> False)"

fun settle_loop ::
    "nat \<Rightarrow> 's observer \<Rightarrow> string \<Rightarrow> oxidized_revision option
      \<Rightarrow> collection_result \<Rightarrow> int \<Rightarrow> ('s, capture_error, bound_collection) eff" where
  "settle_loop 0 ob node before c deadline = raise (Raised diverged)"
| "settle_loop (Suc fuel) ob node before c deadline =
     bindE (latest_or_none ob node) (\<lambda>found. \<lambda>t.
     (case found of
        None \<Rightarrow>
          if before \<noteq> None \<or> os_monotonic ob t \<ge> deadline
          then raise (Unavailable ''Oxidized observation revision unavailable'')
          else settle_loop fuel ob node before c deadline
      | Some after \<Rightarrow>
          if revision_changed before after
          then if inside_window c after then settled ob c after True
               else raise (Chronology ''Oxidized observation chronology rejected'')
          else if os_monotonic ob t \<ge> deadline then settled ob c after False
          else settle_loop fuel ob node before c deadline) t)"

definition bind_collection_result ::
    "nat \<Rightarrow> 's observer \<Rightarrow> string \<Rightarrow> oxidized_revision option
      \<Rightarrow> collection_result \<Rightarrow> ('s, capture_error, bound_collection) eff" where
  "bind_collection_result fuel ob node before c =
     (if cl_outcome c \<noteq> SUCCEEDED_Collection
      then raise (Raised (ValueError ''Oxidized observation collection failed''))
      else (\<lambda>t. settle_loop fuel ob node before c (os_monotonic ob t + REVISION_WAIT_SECONDS) t))"

section \<open>Capturing an attempt\<close>

definition failure_status :: "observation_failure \<Rightarrow> observation_status" where
  "failure_status category = (if ambiguous_failure category then AMBIGUOUS_Attempt
     else if category = COLLECTION_TIMED_OUT then TIMED_OUT else FAILED_Attempt)"

definition failure_attempt ::
    "'s observer \<Rightarrow> observation_failure \<Rightarrow> oxidized_revision option \<Rightarrow> py_datetime option
      \<Rightarrow> string option \<Rightarrow> ('s, exn, oxidized_observation) eff" where
  "failure_attempt ob category before request request_id = (\<lambda>t.
     let now = os_now ob t in
     liftE (observed
      \<lparr>ob_request_id = (case request_id of Some i \<Rightarrow> i | None \<Rightarrow> os_uuid ob t),
       ob_requested_at = (case request of Some r \<Rightarrow> r | None \<Rightarrow> now),
       ob_completed_at = Some now, ob_status = failure_status category, ob_before = before,
       ob_after = None, ob_failure = Some category\<rparr>) t)"

fun outcome_failure :: "collection_outcome \<Rightarrow> observation_failure" where
  "outcome_failure FAILED_Collection = COLLECTION_FAILED"
| "outcome_failure TIMED_OUT_Collection = COLLECTION_TIMED_OUT"
| "outcome_failure CONCURRENT_Collection = CONCURRENT_COLLECTION"
| "outcome_failure INCONSISTENT_Collection = INCONSISTENT_EVIDENCE"
| "outcome_failure SUCCEEDED_Collection = COLLECTION_FAILED"

text \<open>\<^verbatim>\<open>except (OSError, OxidizedHistoryError)\<close> of the first read, \<^verbatim>\<open>except (OSError, ValueError)\<close> of
  the collection, and the two handlers around the binding. The binding errors are ValueErrors.\<close>

fun history_failure :: "capture_error \<Rightarrow> bool" where
  "history_failure (History _) = True"
| "history_failure (Raised (OSError _)) = True"
| "history_failure _ = False"

fun source_failure :: "exn \<Rightarrow> bool" where
  "source_failure (OSError _) = True"
| "source_failure (ValueError _) = True"
| "source_failure _ = False"

fun escaping :: "capture_error \<Rightarrow> exn" where
  "escaping (History m) = ValueError m"
| "escaping (Unavailable m) = ValueError m"
| "escaping (Chronology m) = ValueError m"
| "escaping (Raised e) = e"

definition bound_attempt ::
    "collection_result \<Rightarrow> oxidized_revision \<Rightarrow> bound_collection \<Rightarrow> oxidized_observation res" where
  "bound_attempt c before b = observed
     \<lparr>ob_request_id = cl_request_id c, ob_requested_at = cl_requested_at c,
      ob_completed_at = Some (bd_settled_at b),
      ob_status = (if bd_changed b then CHANGED else UNCHANGED), ob_before = Some before,
      ob_after = Some (bd_after b), ob_failure = None\<rparr>"

definition capture_collected ::
    "nat \<Rightarrow> 's observer \<Rightarrow> string \<Rightarrow> oxidized_revision \<Rightarrow> collection_result
      \<Rightarrow> ('s, exn, oxidized_observation) eff" where
  "capture_collected fuel ob node before c =
    (if cl_outcome c \<noteq> SUCCEEDED_Collection
     then bindE (failure_attempt ob (outcome_failure (cl_outcome c)) (Some before)
                  (Some (cl_requested_at c)) None) (\<lambda>a.
          liftE (observed (a\<lparr>ob_request_id := cl_request_id c, ob_completed_at := cl_completed_at c\<rparr>)))
     else bindE (tryE (bind_collection_result fuel ob node (Some before) c)) (\<lambda>bound.
       case bound of
         Inr b \<Rightarrow> liftE (bound_attempt c before b)
       | Inl (Chronology _) \<Rightarrow> failure_attempt ob INCONSISTENT_EVIDENCE (Some before)
           (Some (cl_requested_at c)) (Some (cl_request_id c))
       | Inl (Unavailable _) \<Rightarrow> failure_attempt ob HISTORY_UNAVAILABLE (Some before)
           (Some (cl_requested_at c)) (Some (cl_request_id c))
       | Inl (History _) \<Rightarrow> failure_attempt ob HISTORY_UNAVAILABLE (Some before)
           (Some (cl_requested_at c)) (Some (cl_request_id c))
       | Inl e \<Rightarrow> raise (escaping e)))"

definition capture_attempt ::
    "nat \<Rightarrow> 's observer \<Rightarrow> string \<Rightarrow> oxidized_revision option
      \<Rightarrow> ('s, exn, oxidized_observation) eff" where
  "capture_attempt fuel ob node expected_before =
    bindE (tryE (latest_revision ob node)) (\<lambda>found. case found of
      Inl e \<Rightarrow> if history_failure e then failure_attempt ob HISTORY_UNAVAILABLE None None None
               else raise (escaping e)
    | Inr before \<Rightarrow>
        if expected_before \<noteq> None \<and> expected_before \<noteq> Some before
        then failure_attempt ob INCONSISTENT_EVIDENCE (Some before) None None
        else bindE (tryE (askE (\<lambda>t. os_collect ob t node) (\<lambda>r. os_event ob (EvCollection node r))))
          (\<lambda>collection. case collection of
             Inl e \<Rightarrow> if source_failure e
               then failure_attempt ob SOURCE_UNAVAILABLE (Some before) None None else raise e
           | Inr c \<Rightarrow> capture_collected fuel ob node before c))"

definition capture_target ::
    "nat \<Rightarrow> 's observer \<Rightarrow> string \<Rightarrow> oxidized_revision option
      \<Rightarrow> ('s, exn, oxidized_observation) eff" where
  "capture_target fuel ob device expected_before =
    bindE (liftE (node_for_target device)) (\<lambda>node.
    bindE (tryE (askE (os_controller ob) (\<lambda>r. os_event ob (EvController r)))) (\<lambda>controller. case controller of
      Inl e \<Rightarrow> if source_failure e then failure_attempt ob SOURCE_UNAVAILABLE None None None
               else raise e
    | Inr _ \<Rightarrow>
    bindE (tryE (askE (os_repository ob) (\<lambda>r. os_event ob (EvRepository r)))) (\<lambda>repository. case repository of
      Inl e \<Rightarrow> if source_failure e then failure_attempt ob HISTORY_UNAVAILABLE None None None
               else raise e
    | Inr _ \<Rightarrow> capture_attempt fuel ob node expected_before)))"

definition validate_pre :: "string \<Rightarrow> oxidized_observation \<Rightarrow> unit res" where
  "validate_pre device a =
    bindS (observation_valid a) (\<lambda>_.
    bindS (node_for_target device) (\<lambda>node. checks
     [(\<not> successful (ob_status a) \<or> ob_before a = None \<or> ob_after a = None
         \<or> ob_completed_at a = None
         \<or> option_holds (\<lambda>r. rv_config_path r \<noteq> managed_path node) (ob_before a)
         \<or> option_holds (\<lambda>r. rv_config_path r \<noteq> managed_path node) (ob_after a),
       ValueError ''successful target-bound PRE required'')]))"

section \<open>What a capture returns\<close>

text \<open>\<open>returns m Q\<close>: whenever \<open>m\<close> returns normally, \<open>Q\<close> holds of its result.\<close>

definition returns :: "('s, 'e, 'a) eff \<Rightarrow> ('a \<Rightarrow> bool) \<Rightarrow> bool" where
  "returns m Q \<longleftrightarrow> (\<forall>t x. fst (m t) = Inr x \<longrightarrow> Q x)"

lemma returns_pure [simp]:
  "returns (liftE r) Q \<longleftrightarrow> (\<forall>x. r = Inr x \<longrightarrow> Q x)" "returns (ret y) Q \<longleftrightarrow> Q y" "returns (raise e) Q"
  by (auto simp: returns_def eff_simps)

lemma returns_bindE: "(\<And>x. returns (f x) Q) \<Longrightarrow> returns (bindE m f) Q"
  by (fastforce simp: returns_def eff_simps split: sum.splits prod.splits)

lemma returns_seq: "returns m P \<Longrightarrow> (\<And>x. P x \<Longrightarrow> returns (f x) Q) \<Longrightarrow> returns (bindE m f) Q"
  unfolding returns_def
proof (intro allI impI)
  fix t y
  assume m: "\<forall>t x. fst (m t) = Inr x \<longrightarrow> P x" and f: "\<And>x. P x \<Longrightarrow> \<forall>t y. fst (f x t) = Inr y \<longrightarrow> Q y"
    and y: "fst (bindE m f t) = Inr y"
  obtain r t' where r: "m t = (r, t')" by fastforce
  with y obtain x where x: "r = Inr x" "fst (f x t') = Inr y"
    by (cases r) (auto simp: bindE_def)
  from m r x(1) have "P x" by (metis fst_conv)
  with f x(2) show "Q y" by blast
qed

lemma observed_Inr: "observed a = Inr b \<longleftrightarrow> b = a \<and> observation_valid a = Inr ()"
  by (auto simp: observed_def bindS_Inr_iff)

definition evidence_for :: "oxidized_revision option \<Rightarrow> oxidized_observation \<Rightarrow> bool" where
  "evidence_for expected a \<longleftrightarrow> observation_valid a = Inr ()
     \<and> (successful (ob_status a) \<and> expected \<noteq> None \<longrightarrow> ob_before a = expected)"

lemma failure_status_unsuccessful: "\<not> successful (failure_status c)"
  by (simp add: failure_status_def successful_def)

lemma returns_failure: "returns (failure_attempt ob c b r i) (evidence_for e)"
  using failure_status_unsuccessful [of c]
  by (auto simp: returns_def failure_attempt_def eff_simps Let_def observed_Inr evidence_for_def)

lemma returns_failure_status:
  "returns (failure_attempt ob c b r i) (\<lambda>a. \<not> successful (ob_status a))"
  using failure_status_unsuccessful [of c]
  by (auto simp: returns_def failure_attempt_def eff_simps Let_def observed_Inr)

lemma returns_capture_collected:
  assumes "e = None \<or> e = Some before"
  shows "returns (capture_collected fuel ob node before c) (evidence_for e)"
proof (cases "cl_outcome c = SUCCEEDED_Collection")
  case False
  show ?thesis
    unfolding capture_collected_def if_P [OF False]
    by (rule returns_seq [OF returns_failure_status])
      (auto simp: observed_Inr evidence_for_def)
next
  case True
  then have "\<not> cl_outcome c \<noteq> SUCCEEDED_Collection" by simp
  show ?thesis
    unfolding capture_collected_def if_not_P [OF \<open>\<not> cl_outcome c \<noteq> _\<close>]
  proof (rule returns_bindE)
    fix b
    show "returns (case b of
         Inr b \<Rightarrow> liftE (bound_attempt c before b)
       | Inl (Chronology _) \<Rightarrow> failure_attempt ob INCONSISTENT_EVIDENCE (Some before)
           (Some (cl_requested_at c)) (Some (cl_request_id c))
       | Inl (Unavailable _) \<Rightarrow> failure_attempt ob HISTORY_UNAVAILABLE (Some before)
           (Some (cl_requested_at c)) (Some (cl_request_id c))
       | Inl (History _) \<Rightarrow> failure_attempt ob HISTORY_UNAVAILABLE (Some before)
           (Some (cl_requested_at c)) (Some (cl_request_id c))
       | Inl e \<Rightarrow> raise (escaping e)) (evidence_for e)"
      using assms returns_failure
      by (auto split: sum.splits capture_error.splits
          simp: bound_attempt_def observed_Inr evidence_for_def)
  qed
qed

lemma returns_capture_attempt: "returns (capture_attempt fuel ob node e) (evidence_for e)"
  unfolding capture_attempt_def
proof (rule returns_bindE)
  fix found
  show "returns (case found of
      Inl e \<Rightarrow> if history_failure e then failure_attempt ob HISTORY_UNAVAILABLE None None None
               else raise (escaping e)
    | Inr before \<Rightarrow>
        if e \<noteq> None \<and> e \<noteq> Some before
        then failure_attempt ob INCONSISTENT_EVIDENCE (Some before) None None
        else bindE (tryE (askE (\<lambda>t. os_collect ob t node) (\<lambda>r. os_event ob (EvCollection node r))))
          (\<lambda>collection. case collection of
             Inl e \<Rightarrow> if source_failure e
               then failure_attempt ob SOURCE_UNAVAILABLE (Some before) None None else raise e
           | Inr c \<Rightarrow> capture_collected fuel ob node before c)) (evidence_for e)"
    using returns_failure
    by (auto split: sum.splits intro!: returns_bindE returns_capture_collected)
qed

lemma returns_capture_target: "returns (capture_target fuel ob device e) (evidence_for e)"
  unfolding capture_target_def
  using returns_failure returns_capture_attempt
  by (auto split: sum.splits intro!: returns_bindE)

section \<open>The settlement loop ends\<close>

text \<open>The clock reaches the deadline within \<open>n\<close> polls of the history, whatever they answer.\<close>

definition clock_advances :: "nat \<Rightarrow> 's observer \<Rightarrow> bool" where
  "clock_advances n ob \<longleftrightarrow> (\<forall>t u. n \<le> length u \<longrightarrow>
     os_monotonic ob t + REVISION_WAIT_SECONDS \<le> os_monotonic ob (t @ u))"

text \<open>No provider raises the exception that stands for not returning.\<close>

definition history_answers :: "'s observer \<Rightarrow> bool" where
  "history_answers ob \<longleftrightarrow> (\<forall>t node. os_latest ob t node \<noteq> Inl (Raised diverged))"

lemma settled_not_diverged: "fst (settled ob c after changed t) \<noteq> Inl (Raised diverged)"
  by (auto simp: settled_def eff_simps bindS_def settlement_completed_at_def settlement_valid_def
      diverged_def Let_def split: option.splits sum.splits)

lemma settle_loop_ends:
  assumes "history_answers ob"
    and "\<And>u. n \<le> length u \<Longrightarrow> deadline \<le> os_monotonic ob (t @ u)" and "n < fuel"
  shows "fst (settle_loop fuel ob node before c deadline t) \<noteq> Inl (Raised diverged)"
  using assms(2,3)
proof (induction fuel arbitrary: n t)
  case (Suc fuel)
  obtain r where r: "os_latest ob t node = r" "r \<noteq> Inl (Raised diverged)"
    using assms(1) by (auto simp: history_answers_def)
  let ?t = "t @ [os_event ob (EvLatest node r)]"
  have rest: "fst (settle_loop fuel ob node before c deadline ?t) \<noteq> Inl (Raised diverged)"
    if "os_monotonic ob ?t < deadline"
  proof (rule Suc.IH [where n = "n - 1"])
    have "\<not> n \<le> 1" using Suc.prems(1) [of "[os_event ob (EvLatest node r)]"] that by auto
    then show "n - 1 < fuel" using Suc.prems(2) by simp
    fix u :: "'a list" assume "n - 1 \<le> length u"
    then show "deadline \<le> os_monotonic ob (?t @ u)"
      using Suc.prems(1) [of "os_event ob (EvLatest node r) # u"] by simp
  qed
  show ?case
  proof (cases r)
    case (Inl e)
    with r show ?thesis by (auto simp: latest_or_none_def eff_simps)
  next
    case (Inr found)
    show ?thesis
      using r(1) Inr rest
      by (cases found) (auto simp: latest_or_none_def bindE_def askE_def raise_def settled_not_diverged)
  qed
qed simp

lemma bind_collection_ends:
  assumes "history_answers ob" and "clock_advances n ob" and "n < fuel"
  shows "fst (bind_collection_result fuel ob node before c t) \<noteq> Inl (Raised diverged)"
proof (cases "cl_outcome c = SUCCEEDED_Collection")
  case True
  then show ?thesis
    using settle_loop_ends [OF assms(1) _ assms(3)] assms(2)
    by (simp add: bind_collection_result_def clock_advances_def)
qed (simp add: bind_collection_result_def raise_def diverged_def)

section \<open>A collection that ended before it was requested\<close>

text \<open>The controller reports \<open>INCONSISTENT_EVIDENCE\<close> when the job it saw began before the request;
  when that job also ended before the request, the attempt cannot be built.\<close>

lemma early_completion_rejected:
  assumes "cl_outcome c \<noteq> SUCCEEDED_Collection" and "cl_completed_at c = Some done"
    and "instant done < instant (cl_requested_at c)"
  shows "\<not> ok (fst (capture_collected fuel ob node before c t))"
proof -
  have "observation_valid a \<noteq> Inr ()"
    if "ob_requested_at a = cl_requested_at c" "ob_completed_at a = cl_completed_at c" for a
    using that assms(2,3)
    by (auto simp: observation_valid_def bindS_Inr_iff chronology_checks_def)
  then show ?thesis
    using assms(1)
    by (auto simp: capture_collected_def failure_attempt_def eff_simps observed_def bindS_Inr_iff Let_def
        ok_def bindS_def split: sum.splits)
qed

end
