(* ===== verification/Reservation.thy ===== *)
theory Reservation
  imports Profiled_Rollout Protocol
begin

text \<open>
  \<^verbatim>\<open>profiled_rollout_reservation.py\<close>: all selected devices are reserved by nonblocking kernel locks, in
  lexical order of their stable identities, or none is. The file system is a record of functions of
  the history; each system call appends its event. A descriptor names a lock file, or one of the
  two directories.
\<close>

section \<open>System calls\<close>

datatype descriptor = Root_Directory | Lock_Directory | Lock_File string

datatype made = Made | Already_Exists | Not_Made exn
datatype flocked = Granted | Busy | Not_Locked exn

datatype lock_event =
    EvOpen descriptor "unit res"
  | EvInspect descriptor bool
  | EvMkdir made
  | EvFlock descriptor flocked
  | EvClose descriptor "unit res"

record 's lock_files =
  lk_event :: "lock_event \<Rightarrow> 's"
  lk_root_private :: "'s list \<Rightarrow> bool"
  lk_open :: "'s list \<Rightarrow> descriptor \<Rightarrow> unit res"
  lk_inspect :: "'s list \<Rightarrow> descriptor \<Rightarrow> bool"
  lk_mkdir :: "'s list \<Rightarrow> made"
  lk_flock :: "'s list \<Rightarrow> descriptor \<Rightarrow> flocked"
  lk_close :: "'s list \<Rightarrow> descriptor \<Rightarrow> unit res"

definition open_fd :: "'s lock_files \<Rightarrow> descriptor \<Rightarrow> ('s, exn, unit) eff" where
  "open_fd lk d = askE (\<lambda>t. lk_open lk t d) (\<lambda>r. lk_event lk (EvOpen d r))"

definition close_fd :: "'s lock_files \<Rightarrow> descriptor \<Rightarrow> ('s, exn, unit) eff" where
  "close_fd lk d = askE (\<lambda>t. lk_close lk t d) (\<lambda>r. lk_event lk (EvClose d r))"

text \<open>\<open>fstat\<close> and the rejection of an unexpected inode.\<close>

definition inspect_fd :: "'s lock_files \<Rightarrow> descriptor \<Rightarrow> string \<Rightarrow> ('s, exn, unit) eff" where
  "inspect_fd lk d message = bindE (ask (\<lambda>t. lk_inspect lk t d) (\<lambda>b. lk_event lk (EvInspect d b)))
     (\<lambda>b. liftE (checks [(\<not> b, ValueError message)]))"

definition make_directory :: "'s lock_files \<Rightarrow> ('s, exn, unit) eff" where
  "make_directory lk = bindE (ask (lk_mkdir lk) (\<lambda>m. lk_event lk (EvMkdir m))) (\<lambda>m. case m of
     Not_Made e \<Rightarrow> raise e | _ \<Rightarrow> ret ())"

definition flock_fd :: "'s lock_files \<Rightarrow> descriptor \<Rightarrow> ('s, exn, unit) eff" where
  "flock_fd lk d = bindE (ask (\<lambda>t. lk_flock lk t d) (\<lambda>r. lk_event lk (EvFlock d r))) (\<lambda>r. case r of
     Granted \<Rightarrow> ret () | Busy \<Rightarrow> raise (ValueError ''rollout device already reserved'')
   | Not_Locked e \<Rightarrow> raise e)"

section \<open>Reserving all devices\<close>

definition reservation_identities :: "string list \<Rightarrow> unit res" where
  "reservation_identities devices = checks
    [(devices = [] \<or> length devices > MAX_MEMBERS \<or> list_ex (\<lambda>d. length d > 100) devices,
       ValueError ''rollout reservation identities rejected''),
     (\<not> list_all (netbox_identity ''dcim.device'') devices, ValueError ''DeviceIdentity''),
     (\<not> distinct devices, ValueError ''duplicate rollout reservation identity'')]"

definition lock_file :: "string \<Rightarrow> descriptor" where
  "lock_file device = Lock_File (''netbox-device-''
     @ (case after_last_colon device of None \<Rightarrow> [] | Some n \<Rightarrow> n) @ ''.lock'')"

text \<open>The loop over the sorted devices: the descriptors held, in the order of their opening, and the
  exception that stopped it.\<close>

fun hold_all ::
    "'s lock_files \<Rightarrow> descriptor list \<Rightarrow> descriptor list \<Rightarrow> ('s, exn, descriptor list \<times> exn option) eff" where
  "hold_all lk held [] = ret (held, None)"
| "hold_all lk held (f # fs) =
     bindE (tryE (open_fd lk f)) (\<lambda>opened. case opened of
       Inl e \<Rightarrow> ret (held, Some e)
     | Inr _ \<Rightarrow>
         bindE (tryE (bindE (inspect_fd lk f ''rollout reservation file rejected'') (\<lambda>_. flock_fd lk f)))
           (\<lambda>locked. case locked of
              Inl e \<Rightarrow> ret (held @ [f], Some e)
            | Inr _ \<Rightarrow> hold_all lk (held @ [f]) fs))"

text \<open>The body of the \<open>try\<close> up to \<open>yield\<close>: what is open, and the exception.\<close>

definition acquire ::
    "'s lock_files \<Rightarrow> string list \<Rightarrow> ('s, exn, descriptor list \<times> exn option) eff" where
  "acquire lk devices =
    bindE (tryE (bindE (inspect_fd lk Root_Directory ''rollout reservation directory rejected'') (\<lambda>_.
      bindE (make_directory lk) (\<lambda>_. open_fd lk Lock_Directory)))) (\<lambda>directory. case directory of
      Inl e \<Rightarrow> ret ([Root_Directory], Some e)
    | Inr _ \<Rightarrow>
        bindE (tryE (inspect_fd lk Lock_Directory ''rollout reservation directory rejected'')) (\<lambda>private.
        case private of
          Inl e \<Rightarrow> ret ([Root_Directory, Lock_Directory], Some e)
        | Inr _ \<Rightarrow> hold_all lk [Root_Directory, Lock_Directory] (map lock_file (sort devices))))"

fun close_all :: "'s lock_files \<Rightarrow> descriptor list \<Rightarrow> ('s, exn, unit) eff" where
  "close_all lk [] = ret ()"
| "close_all lk (f # fs) = bindE (close_fd lk f) (\<lambda>_. close_all lk fs)"

text \<open>\<^verbatim>\<open>with reserve_rollout_devices(root, devices): body\<close>. An exception of a \<open>close\<close> replaces the one
  in flight, as in Python.\<close>

definition with_reservation ::
    "'s lock_files \<Rightarrow> string list \<Rightarrow> ('s, exn, 'a) eff \<Rightarrow> ('s, exn, 'a) eff" where
  "with_reservation lk devices body =
    bindE (liftE (reservation_identities devices)) (\<lambda>_. \<lambda>t.
    (bindE (liftE (checks [(\<not> lk_root_private lk t,
       ValueError ''private external reservation root required'')])) (\<lambda>_.
     bindE (open_fd lk Root_Directory) (\<lambda>_.
     bindE (acquire lk devices) (\<lambda>(held, stopped).
     bindE (tryE (case stopped of Some e \<Rightarrow> raise e | None \<Rightarrow> body)) (\<lambda>result.
     bindE (close_all lk (rev held)) (\<lambda>_. liftE result)))))) t)"

section \<open>The discipline of descriptors and locks\<close>

text \<open>A state is the stack of open descriptors and the locks granted on them. A lock is granted on the
  descriptor opened last, descriptors are closed in the reverse order of their opening, and any
  other event (one \<open>view\<close> does not see) happens only while exactly the locks \<open>fs\<close> are held.\<close>

type_synonym holdings = "descriptor list \<times> descriptor list"

inductive holding ::
    "('s \<Rightarrow> lock_event option) \<Rightarrow> descriptor list \<Rightarrow> holdings \<Rightarrow> 's \<Rightarrow> holdings \<Rightarrow> bool" for view fs where
  opened: "view e = Some (EvOpen d (Inr ())) \<Longrightarrow> holding view fs (os, ls) e (os @ [d], ls)"
| not_opened: "view e = Some (EvOpen d (Inl x)) \<Longrightarrow> holding view fs s e s"
| inspected: "view e = Some (EvInspect d b) \<Longrightarrow> holding view fs s e s"
| directory: "view e = Some (EvMkdir m) \<Longrightarrow> holding view fs s e s"
| granted: "view e = Some (EvFlock d Granted) \<Longrightarrow> holding view fs (os @ [d], ls) e (os @ [d], ls @ [d])"
| not_granted: "view e = Some (EvFlock d r) \<Longrightarrow> r \<noteq> Granted \<Longrightarrow> holding view fs s e s"
| closed: "view e = Some (EvClose d (Inr ())) \<Longrightarrow> holding view fs (os @ [d], ls) e (os, removeAll d ls)"
| working: "view e = None \<Longrightarrow> ls = fs \<Longrightarrow> holding view fs (os, ls) e (os, ls)"

fun held_after :: "('s \<Rightarrow> lock_event option) \<Rightarrow> holdings \<Rightarrow> 's list \<Rightarrow> holdings" where
  "held_after view s [] = s"
| "held_after view (os, ls) (e # es) = held_after view (case view e of
      Some (EvOpen d (Inr _)) \<Rightarrow> (os @ [d], ls)
    | Some (EvFlock d Granted) \<Rightarrow> (os, ls @ [d])
    | Some (EvClose d (Inr _)) \<Rightarrow> (butlast os, removeAll d ls)
    | _ \<Rightarrow> (os, ls)) es"

lemma held_after_append: "held_after view s (es @ gs) = held_after view (held_after view s es) gs"
  by (induction view s es rule: held_after.induct) auto

definition reserved_log :: "('s \<Rightarrow> lock_event option) \<Rightarrow> descriptor list \<Rightarrow> holdings \<Rightarrow> 's list \<Rightarrow> bool" where
  "reserved_log view fs s es \<longleftrightarrow> held_after view ([], []) es = s
     \<and> (\<forall>a e b. es = a @ e # b \<and> view e = None \<longrightarrow> snd (held_after view ([], []) a) = fs)"

interpretation reservation: monitored "holding view fs" "([], [])" "reserved_log view fs" for view fs
proof (unfold_locales, goal_cases)
  case 1
  show ?case by (simp add: reserved_log_def)
next
  case (2 s es e s')
  from 2(2) have "held_after view s [e] = s'"
    by (cases rule: holding.cases) (cases s, simp split: flocked.splits)+
  moreover from 2(2) have n: "view e = None \<longrightarrow> snd s = fs"
    by (cases rule: holding.cases) simp_all
  ultimately
  have "held_after view ([], []) (es @ [e]) = s'"
    using 2(1) by (simp add: reserved_log_def held_after_append)
  moreover have "snd (held_after view ([], []) a) = fs" if "es @ [e] = a @ x # b" "view x = None" for a x b
  proof (cases b rule: rev_cases)
    case Nil
    with that n 2(1) show ?thesis by (simp add: reserved_log_def)
  next
    case (snoc c y)
    with that have "es = a @ x # c" by simp
    with that 2(1) show ?thesis by (simp add: reserved_log_def)
  qed
  ultimately show ?case by (auto simp: reserved_log_def)
qed

text \<open>The file system: \<open>view\<close> recognises its events, and every \<open>close\<close> answers.\<close>

definition seen_by :: "('s \<Rightarrow> lock_event option) \<Rightarrow> 's lock_files \<Rightarrow> bool" where
  "seen_by view lk \<longleftrightarrow> (\<forall>e. view (lk_event lk e) = Some e)"

definition closes_answer :: "'s lock_files \<Rightarrow> bool" where
  "closes_answer lk \<longleftrightarrow> (\<forall>t d. lk_close lk t d = Inr ())"

lemma runs_open_fd:
  assumes "seen_by view lk"
  shows "runs (holding view fs) (os, ls) (open_fd lk d)
    (\<lambda>r s'. case r of Inr _ \<Rightarrow> s' = (os @ [d], ls) | Inl _ \<Rightarrow> s' = (os, ls))"
  unfolding open_fd_def
proof (rule runs_askE)
  fix t
  show "\<exists>s'. holding view fs (os, ls) (lk_event lk (EvOpen d (lk_open lk t d))) s'
      \<and> (case lk_open lk t d of Inr _ \<Rightarrow> s' = (os @ [d], ls) | Inl _ \<Rightarrow> s' = (os, ls))"
    using assms by (cases "lk_open lk t d")
      (auto simp: seen_by_def intro: holding.opened holding.not_opened)
qed

lemma runs_inspect_fd:
  assumes "seen_by view lk"
  shows "runs (holding view fs) s (inspect_fd lk d m) (\<lambda>_ s'. s' = s)"
  unfolding inspect_fd_def
proof (rule runs_bindE [OF runs_ask [where Q = "\<lambda>_ s'. s' = s"]], goal_cases)
  case (1 t)
  show ?case using assms by (intro exI [of _ s] conjI refl holding.inspected) (simp add: seen_by_def)
qed (auto intro: runs_pure)

lemma runs_make_directory:
  assumes "seen_by view lk"
  shows "runs (holding view fs) s (make_directory lk) (\<lambda>_ s'. s' = s)"
  unfolding make_directory_def
proof (rule runs_bindE [OF runs_ask [where Q = "\<lambda>_ s'. s' = s"]], goal_cases)
  case (1 t)
  show ?case using assms by (intro exI [of _ s] conjI refl holding.directory) (simp add: seen_by_def)
qed (auto intro: runs_pure split: made.splits)

lemma runs_flock_fd:
  assumes "seen_by view lk"
  shows "runs (holding view fs) (os @ [d], ls) (flock_fd lk d)
    (\<lambda>r s'. case r of Inr _ \<Rightarrow> s' = (os @ [d], ls @ [d]) | Inl _ \<Rightarrow> s' = (os @ [d], ls))"
  unfolding flock_fd_def
proof (rule runs_bindE [OF runs_ask [where Q = "\<lambda>r s'. \<exists>x. r = Inr x
      \<and> s' = (os @ [d], if x = Granted then ls @ [d] else ls)"]], goal_cases)
  case (1 t)
  show ?case
    using assms by (cases "lk_flock lk t d = Granted")
      (auto simp: seen_by_def intro: holding.granted holding.not_granted)
next
  case (3 x s')
  then show ?case by (auto intro!: runs_pure split: flocked.splits)
qed auto

text \<open>The locks held are those of the files opened so far, all of them when nothing stopped the loop.\<close>

lemma runs_hold_all:
  assumes "seen_by view lk"
  shows "runs (holding view fs) (ds @ gs, gs) (hold_all lk (ds @ gs) ns)
    (\<lambda>r s'. \<exists>held stopped ls. r = Inr (held, stopped) \<and> s' = (held, ls)
       \<and> set ls \<subseteq> set held \<and> (stopped = None \<longrightarrow> ls = gs @ ns))"
  (is "runs _ _ _ ?Q")
proof (induction ns arbitrary: gs)
  case Nil
  show ?case by (auto intro!: runs_pure)
next
  case (Cons n ns)
  have locked: "runs (holding view fs) ((ds @ gs) @ [n], gs)
      (tryE (bindE (inspect_fd lk n ''rollout reservation file rejected'') (\<lambda>_. flock_fd lk n)))
      (\<lambda>r s'. case r of Inl _ \<Rightarrow> False | Inr q \<Rightarrow>
         (case q of Inr _ \<Rightarrow> s' = ((ds @ gs) @ [n], gs @ [n]) | Inl _ \<Rightarrow> s' = ((ds @ gs) @ [n], gs)))"
    by (rule runs_tryE, unfold sum.case, rule runs_bindE [OF runs_inspect_fd [OF assms]])
      (use runs_flock_fd [OF assms, of fs "ds @ gs" n gs] in simp_all)
  have opened: "runs (holding view fs) (ds @ gs, gs) (tryE (open_fd lk n))
      (\<lambda>r s'. case r of Inl _ \<Rightarrow> False | Inr q \<Rightarrow>
         (case q of Inr _ \<Rightarrow> s' = ((ds @ gs) @ [n], gs) | Inl _ \<Rightarrow> s' = (ds @ gs, gs)))"
    by (rule runs_tryE) (use runs_open_fd [OF assms] in simp)
  show ?case
    unfolding hold_all.simps
  proof (rule runs_bindE [OF opened], goal_cases)
    case (2 x s')
    show ?case
    proof (cases x)
      case (Inl e)
      with 2 show ?thesis by (auto intro!: runs_pure)
    next
      case (Inr u)
      with 2 have s': "s' = ((ds @ gs) @ [n], gs)" by simp
      show ?thesis
        unfolding Inr sum.case s'
      proof (rule runs_bindE [OF locked], goal_cases)
        case (2 y s'')
        then show ?case
          using Cons.IH [of "gs @ [n]"] by (cases y) (auto intro!: runs_pure)
      qed simp
    qed
  qed simp
qed

lemma runs_close_all:
  assumes "seen_by view lk" and "closes_answer lk"
  shows "runs (holding view fs) (rev ds, ls) (close_all lk ds)
    (\<lambda>r s'. r = Inr () \<and> s' = ([], filter (\<lambda>l. l \<notin> set ds) ls))"
proof (induction ds arbitrary: ls)
  case Nil
  show ?case by (auto intro!: runs_pure)
next
  case (Cons d ds)
  have "runs (holding view fs) (rev ds @ [d], ls) (close_fd lk d)
      (\<lambda>r s'. r = Inr () \<and> s' = (rev ds, removeAll d ls))"
    unfolding close_fd_def
    by (rule runs_askE) (use assms in \<open>auto simp: seen_by_def closes_answer_def intro: holding.closed\<close>)
  then show ?case
    unfolding close_all.simps rev.simps
  proof (rule runs_bindE, goal_cases)
    case (2 x s')
    have "filter (\<lambda>l. l \<notin> set ds) (removeAll d ls) = filter (\<lambda>l. l \<notin> set (d # ds)) ls"
      by (induction ls) auto
    with 2 Cons.IH [of "removeAll d ls"] show ?case by simp
  qed auto
qed

lemma runs_acquire:
  assumes "seen_by view lk"
  shows "runs (holding view fs) ([Root_Directory], []) (acquire lk devices)
    (\<lambda>r s'. \<exists>held stopped ls. r = Inr (held, stopped) \<and> s' = (held, ls)
       \<and> set ls \<subseteq> set held \<and> (stopped = None \<longrightarrow> ls = map lock_file (sort devices)))"
  (is "runs _ _ _ ?Q")
proof -
  let ?root = "([Root_Directory], [])" and ?both = "([Root_Directory, Lock_Directory], [])"
  have directory: "runs (holding view fs) ?root
      (tryE (bindE (inspect_fd lk Root_Directory m) (\<lambda>_.
        bindE (make_directory lk) (\<lambda>_. open_fd lk Lock_Directory))))
      (\<lambda>r s'. case r of Inl _ \<Rightarrow> False | Inr q \<Rightarrow>
         (case q of Inr _ \<Rightarrow> s' = ?both | Inl _ \<Rightarrow> s' = ?root))" for m
    by (rule runs_tryE, unfold sum.case, rule runs_bindE [OF runs_inspect_fd [OF assms]], simp,
        rule runs_bindE [OF runs_make_directory [OF assms]])
      (use runs_open_fd [OF assms, of fs "[Root_Directory]" "[]" Lock_Directory, unfolded append.simps]
        in simp_all)
  have inode: "runs (holding view fs) ?both (tryE (inspect_fd lk Lock_Directory m))
      (\<lambda>r s'. s' = ?both \<and> (\<exists>q. r = Inr q))" for m
    by (rule runs_tryE) (use runs_inspect_fd [OF assms] in simp)
  show ?thesis
    unfolding acquire_def
  proof (rule runs_bindE [OF directory], goal_cases)
    case (2 x s')
    show ?case
    proof (cases x)
      case (Inl e)
      with 2 show ?thesis by (auto intro!: runs_pure)
    next
      case (Inr u)
      with 2 have s': "s' = ?both" by simp
      show ?thesis
        unfolding Inr sum.case s'
      proof (rule runs_bindE [OF inode], goal_cases)
        case (2 y s'')
        then show ?case
          using runs_hold_all [OF assms, of fs "[Root_Directory, Lock_Directory]" "[]"
              "map lock_file (sort devices)"]
          by (cases y) (auto intro!: runs_pure)
      qed simp
    qed
  qed simp
qed

text \<open>The whole statement: whatever the body does, it does it holding every lock, and everything is
  closed and released at the end, whether the body, a refusal or an error of the file system ended
  it.\<close>

lemma runs_with_reservation:
  assumes v: "seen_by view lk" and c: "closes_answer lk"
    and body: "\<And>s. snd s = map lock_file (sort devices)
      \<Longrightarrow> runs (holding view (map lock_file (sort devices))) s body (\<lambda>_ s'. s' = s)"
  shows "runs (holding view (map lock_file (sort devices))) ([], []) (with_reservation lk devices body)
    (\<lambda>_ s'. s' = ([], []))"
  (is "runs ?step _ _ ?Q")
proof -
  have closing: "runs ?step (held, ls) (bindE (close_all lk (rev held)) (\<lambda>_. liftE result)) ?Q"
    if "set ls \<subseteq> set held" for held ls result
  proof (rule runs_bindE [OF runs_close_all [OF v c, of _ "rev held" ls, unfolded rev_rev_ident]], goal_cases)
    case (2 x s')
    with that show ?case by (auto intro!: runs_pure simp: filter_empty_conv)
  qed simp
  have inside: "runs ?step (held, ls) (tryE (case stopped of Some e \<Rightarrow> raise e | None \<Rightarrow> body))
      (\<lambda>r s'. s' = (held, ls) \<and> (\<exists>q. r = Inr q))"
    if "stopped = None \<longrightarrow> ls = map lock_file (sort devices)" for held ls stopped
    by (rule runs_tryE) (use that body in \<open>auto intro!: runs_pure split: option.splits\<close>)
  have held: "runs ?step ([Root_Directory], []) (bindE (acquire lk devices) (\<lambda>(held, stopped).
      bindE (tryE (case stopped of Some e \<Rightarrow> raise e | None \<Rightarrow> body)) (\<lambda>result.
      bindE (close_all lk (rev held)) (\<lambda>_. liftE result)))) ?Q"
  proof (rule runs_bindE [OF runs_acquire [OF v]], goal_cases)
    case (2 x s')
    then obtain held stopped ls where x: "x = (held, stopped)" and s': "s' = (held, ls)"
      and ls: "set ls \<subseteq> set held" "stopped = None \<longrightarrow> ls = map lock_file (sort devices)" by auto
    show ?case
      unfolding x prod.case s'
      by (rule runs_bindE [OF inside [OF ls(2)]]) (use closing [OF ls(1)] in auto)
  qed auto
  have open_root: "runs ?step ([], []) (bindE (open_fd lk Root_Directory) (\<lambda>_.
      bindE (acquire lk devices) (\<lambda>(held, stopped).
      bindE (tryE (case stopped of Some e \<Rightarrow> raise e | None \<Rightarrow> body)) (\<lambda>result.
      bindE (close_all lk (rev held)) (\<lambda>_. liftE result))))) ?Q"
    by (rule runs_bindE [OF runs_open_fd [OF v, of _ "[]" "[]" Root_Directory]]) (use held in auto)
  have at: "runs ?step s (\<lambda>t. f t t) Q" if "\<And>u. runs ?step s (f u) Q" for f s Q
    using that unfolding runs_def by blast
  show ?thesis
    unfolding with_reservation_def
    by (rule runs_bindE [OF runs_pure(1) [of "\<lambda>_ s'. s' = ([], [])"]], simp_all, rule at)
      (auto intro!: runs_bindE [OF runs_pure(1) [of "\<lambda>_ s'. s' = ([], [])"]] open_root)
qed

lemma reserved_run:
  assumes "seen_by view lk" and "closes_answer lk"
    and "\<And>t. \<exists>u. snd (body t) = t @ u \<and> list_all (\<lambda>e. view e = None) u"
  shows "\<exists>u. snd (with_reservation lk devices body t) = t @ u
     \<and> reserved_log view (map lock_file (sort devices)) ([], []) u"
proof -
  let ?fs = "map lock_file (sort devices)"
  have path: "path (holding view ?fs) s u s" if "list_all (\<lambda>e. view e = None) u" "snd s = ?fs" for s u
    using that
  proof (induction u rule: rev_induct)
    case (snoc e u)
    then show ?case by (cases s) (auto intro!: path_snoc [where s' = s] holding.working)
  qed simp
  have "runs (holding view ?fs) s body (\<lambda>_ s'. s' = s)" if "snd s = ?fs" for s
    unfolding runs_def using assms(3) path [OF _ that] by metis
  from runs_with_reservation [OF assms(1,2) this] show ?thesis
    using reservation.run_law [of view ?fs "with_reservation lk devices body" "\<lambda>_ s'. s' = ([], [])" t]
    by blast
qed

end
