(* ===== verification/Rollout_Events.thy ===== *)
theory Rollout_Events
  imports Profiled_Rollout Profiled_Execution Capture Reservation
begin

text \<open>
  The calls a rollout makes beyond those of its children: population and credential admission,
  configuration observation, reservation, the audit store, private evidence files and the writer
  factory. They are carried by the events of the child layers, so that one log holds them all.
\<close>

datatype store_call =
    Prepare_Rollout string
  | Put_Bytes string string
  | Put_Model string string
  | Persist_Artifact string string
  | Persist_Record string string

datatype rollout_event =
    EvPopulation "profiled_inventory_population res"
  | EvAdmit string "rollout_credential_admission res"
  | EvObserved observation_event
  | EvReserved lock_event
  | EvStore store_call "string res"
  | EvReadChild string "child_result res"
  | EvReadRecord string "profiled_change_record res"
  | EvFile string "unit res"
  | EvWriter "unit res"

type_synonym revent = "rollout_event write_event event"
type_synonym 'a rio = "(revent, exn, 'a) eff"

end
