(* ===== verification/Rollout_Planning.thy ===== *)
theory Rollout_Planning
  imports Rollout_Events
begin

text \<open>
  The parent artifacts of a rollout (plan and compliance, schema versions 1 and 2) with their
  digests and validators, the admission of all members, and \<open>plan_profiled_rollout\<close>, of
  \<^verbatim>\<open>profiled_rollout.py\<close>.
\<close>

section \<open>Serialization of a parent\<close>

fun cml_realization_profile_id_value :: "cml_realization_profile_id \<Rightarrow> string" where
  "cml_realization_profile_id_value CML_CAT8000V_17_18_02 = ''cml_cat8000v_17_18_02''"
| "cml_realization_profile_id_value CML_IOL_XE_17_18_02 = ''cml_iol_xe_17_18_02''"
| "cml_realization_profile_id_value CML_IOSV_159_3_M12 = ''cml_iosv_159_3_m12''"
| "cml_realization_profile_id_value CML_IOSVL2_2020 = ''cml_iosvl2_2020''"
| "cml_realization_profile_id_value CML_VJUNOS_ROUTER_23_2R1_15 = ''cml_vjunos_router_23_2r1_15''"

definition fact_json :: "string \<Rightarrow> netbox_fact \<Rightarrow> json" where
  "fact_json label f = JObj [(''object_id'', JInt (nf_object_id f)), (''slug'', JStr (nf_slug f)),
     (label, JStr (nf_name f))]"

definition endpoint_json :: "management_endpoint \<Rightarrow> json" where
  "endpoint_json e =
    (let b = mp_binding e; l = mb_l3_endpoint b in JObj
      [(''purpose'', JStr (case mp_purpose e of LIVE \<Rightarrow> ''LIVE'' | STAGING \<Rightarrow> ''STAGING'')),
       (''binding'', JObj
         [(''schema_version'', JStr ''1''),
          (''physical_attachment'', JObj [(''interface'', interface_json (mb_physical_attachment b))]),
          (''l3_endpoint'', JObj
            [(''interface'', interface_json (me_interface l)),
             (''ip_address_identity'', JStr (me_ip_address_identity l)),
             (''address'', JStr (ip_str (ii_ip (me_address l)) @ ''/''
                @ nat_str (ii_prefix_length (me_address l)))),
             (''service'', JStr (management_service_value (me_service l))),
             (''port'', JInt (me_port l))])])])"

text \<open>The staging realization is excluded from every dump of a device.\<close>

definition device_json :: "profiled_inventory_device \<Rightarrow> json" where
  "device_json d = JObj
    [(''schema_version'', JStr ''1''), (''inventory_source'', JStr ''netbox''),
     (''device_identity'', JStr (dv_device_identity d)), (''logical_name'', JStr (dv_logical_name d)),
     (''expected_hostname'', JStr (dv_expected_hostname d)),
     (''platform'', fact_json ''name'' (dv_platform d)),
     (''device_type'', fact_json ''model'' (dv_device_type d)),
     (''role'', fact_json ''name'' (dv_role d)),
     (''operational_role'', JStr (operational_role_value (dv_operational_role d))),
     (''network_os'', JStr (network_os_value (dv_network_os d))),
     (''automation_profile_id'', JStr (automation_profile_id_value (dv_automation_profile_id d))),
     (''cml_realization_profile_id'',
        JStr (cml_realization_profile_id_value (dv_cml_realization_profile_id d))),
     (''management_endpoints'', JObj
       [(''schema_version'', JStr ''1''),
        (''logical_device'', JStr (ms_logical_device (dv_management_endpoints d))),
        (''automation_profile_id'',
           JStr (automation_profile_id_value (ms_automation_profile_id (dv_management_endpoints d)))),
        (''live'', endpoint_json (ms_live (dv_management_endpoints d))),
        (''staging'', endpoint_json (ms_staging (dv_management_endpoints d)))]),
     (''protected_interfaces'', JArr (map interface_json (dv_protected_interfaces d)))]"

definition child_json :: "rollout_child \<Rightarrow> json" where
  "child_json c = JObj
    [(''device'', device_json (ch_device c)), (''interface'', interface_json (ch_interface c)),
     (''operation_admission'', admission_json (ch_operation_admission c)),
     (''credential_admission'', JObj
       [(''authority'', JStr (cm_authority (ch_credential_admission c))),
        (''device_identity'', JStr (cm_device_identity (ch_credential_admission c))),
        (''credential_reference'', JStr (cm_credential_reference (ch_credential_admission c))),
        (''permitted'', JBool True)]),
     (''kind'', JStr (case ch_kind c of DEPLOYABLE \<Rightarrow> ''DEPLOYABLE'' | COMPLIANT_Child \<Rightarrow> ''COMPLIANT'')),
     (''artifact_json'', JStr (ch_artifact_json c)),
     (''artifact_digest'', JStr (ch_artifact_digest c)),
     (''result_digest'', JStr (ch_result_digest c))]"

definition strings_json :: "string list \<Rightarrow> json" where
  "strings_json ss = JArr (map JStr ss)"

definition desired_json :: "string \<Rightarrow> json" where
  "desired_json d = JObj [(''description'', JStr d)]"

definition member_fields :: "rollout_member_intent \<Rightarrow> (string \<times> json) list" where
  "member_fields m = [(''target'', JStr (mi_target m)), (''interface'', JStr (mi_interface m)),
     (''desired'', desired_json (mi_desired m))]"

definition policy_json :: "rollout_policy \<Rightarrow> json" where
  "policy_json p = JObj [(''wave_size'', JInt (rp_wave_size p)),
     (''canaries'', jopt strings_json (rp_canaries p))]"

definition intent_json :: "rollout_intent \<Rightarrow> json" where
  "intent_json r = JObj
    [(''change_id'', JStr (ri_change_id r)), (''operation'', JStr ''interface_description''),
     (''members'', JArr (map (\<lambda>m. JObj (member_fields m)) (ri_members r))),
     (''policy'', policy_json (ri_policy r))]"

definition selector_json :: "rollout_selector \<Rightarrow> json" where
  "selector_json s = JObj
    [(''operational_roles'', jopt strings_json (map_option (map operational_role_value) (sl_operational_roles s))),
     (''network_oses'', jopt strings_json (map_option (map network_os_value) (sl_network_oses s))),
     (''automation_profile_ids'',
        jopt strings_json (map_option (map automation_profile_id_value) (sl_automation_profile_ids s)))]"

definition selection_json :: "selection_intent \<Rightarrow> json" where
  "selection_json s = JObj
    [(''change_id'', JStr (se_change_id s)), (''operation'', JStr ''interface_description''),
     (''explicit_members'', JArr (map (\<lambda>m. JObj (member_fields m)) (se_explicit_members s))),
     (''selectors'', JArr (map (\<lambda>c. JObj [(''selector'', selector_json (cl_selector c)),
        (''interface'', JStr (cl_interface c)), (''desired'', desired_json (cl_desired c))])
        (se_selectors s))),
     (''policy'', policy_json (se_policy s))]"

definition expanded_json :: "expanded_member \<Rightarrow> json" where
  "expanded_json e = JObj (member_fields (em_member e) @
    [(''source_kind'', JStr (case em_source_kind e of
        Explicit_Source \<Rightarrow> ''explicit'' | Selector_Source \<Rightarrow> ''selector'')),
     (''source_index'', JInt (em_source_index e))])"

definition population_member_json :: "profiled_population_member \<Rightarrow> json" where
  "population_member_json m = JObj
    [(''device_identity'', JStr (pm_device_identity m)), (''logical_name'', JStr (pm_logical_name m)),
     (''operational_role'', JStr (operational_role_value (pm_operational_role m))),
     (''platform_slug'', JStr (pm_platform_slug m)),
     (''device_type_slug'', JStr (pm_device_type_slug m)),
     (''network_os'', JStr (network_os_value (pm_network_os m))),
     (''automation_profile_id'', JStr (automation_profile_id_value (pm_automation_profile_id m))),
     (''cml_realization_profile_id'',
        JStr (cml_realization_profile_id_value (pm_cml_realization_profile_id m))),
     (''staging_cml_realization_profile_id'',
        jopt (\<lambda>i. JStr (cml_realization_profile_id_value i)) (pm_staging_cml_realization_profile_id m))]"

section \<open>Parents\<close>

text \<open>The intent of a version 1 parent, or of a version 2 parent with its frozen population and
  expansion.\<close>

datatype rollout_body =
    Explicit_Body rollout_intent
  | Selected_Body selection_intent population_declaration "expanded_member list"

text \<open>A rollout plan has cohorts (canaries, waves); a compliance artifact has none.\<close>

record rollout_parent =
  ro_source_commit :: string
  ro_body :: rollout_body
  ro_children :: "rollout_child list"
  ro_cohorts :: "(string list \<times> string list list) option"
  ro_digest :: string

fun body_policy :: "rollout_body \<Rightarrow> rollout_policy" where
  "body_policy (Explicit_Body r) = ri_policy r"
| "body_policy (Selected_Body s _ _) = se_policy s"

fun body_change_id :: "rollout_body \<Rightarrow> string" where
  "body_change_id (Explicit_Body r) = ri_change_id r"
| "body_change_id (Selected_Body s _ _) = se_change_id s"

fun body_fields :: "rollout_body \<Rightarrow> (string \<times> json) list" where
  "body_fields (Explicit_Body r) = [(''schema_version'', JStr ''1''), (''intent'', intent_json r)]"
| "body_fields (Selected_Body s declared expansion) =
     [(''schema_version'', JStr ''2''), (''intent'', selection_json s),
      (''selected_population'', JObj [(''members'', JArr (map population_member_json declared))]),
      (''expansion'', JArr (map expanded_json expansion))]"

definition cohort_fields :: "(string list \<times> string list list) option \<Rightarrow> (string \<times> json) list" where
  "cohort_fields c = (case c of
     Some (canaries, waves) \<Rightarrow>
       [(''result_type'', JStr ''profiled_rollout_plan''), (''canaries'', strings_json canaries),
        (''waves'', JArr (map strings_json waves))]
   | None \<Rightarrow>
       [(''result_type'', JStr ''profiled_rollout_compliance''), (''outcome'', JStr ''COMPLIANT''),
        (''plan'', JNull), (''promotion_minted'', JBool False),
        (''execution_attempted'', JBool False), (''recovery_attempted'', JBool False),
        (''chronology_required'', JBool False)])"

definition parent_fields :: "rollout_parent \<Rightarrow> (string \<times> json) list" where
  "parent_fields r =
     [(''source_commit'', JStr (ro_source_commit r)),
      (''children'', JArr (map child_json (ro_children r)))]
     @ body_fields (ro_body r) @ cohort_fields (ro_cohorts r)"

definition parent_calculated_digest :: "(string \<Rightarrow> string) \<Rightarrow> rollout_parent \<Rightarrow> string" where
  "parent_calculated_digest sha r =
     sha256_identity sha (canonical_json_bytes (JObj (parent_fields r)))"

text \<open>\<open>_member_intents()\<close> of either version.\<close>

definition selected_member_intents ::
    "selection_intent \<Rightarrow> population_declaration \<Rightarrow> expanded_member list \<Rightarrow> rollout_child list
      \<Rightarrow> rollout_member_intent list res" where
  "selected_member_intents s declared expansion children =
    bindS (checks
     [(se_selectors s = [], ValueError ''selector-capable parent requires selector clauses''),
      (\<not> same_set (declaration_identities declared) (map child_identity children),
        ValueError ''frozen selected population must equal child membership'')]) (\<lambda>_.
    bindS (mapS (\<lambda>c.
        bindS (declaration_member declared (child_name c)) (\<lambda>m.
        bindS (admit_profiled_device (ch_device c) PROFILED_MANAGED_POPULATION False) (\<lambda>m'. checks
         [(m \<noteq> m', ValueError ''frozen selected population facts disagree'')]))) children) (\<lambda>_.
    bindS (expand s declared) (\<lambda>expected.
    bindS (checks
     [(expected \<noteq> expansion, ValueError ''rollout expansion provenance or payload rejected'')]) (\<lambda>_.
    bindS (explicit_intent s expected) (\<lambda>r. Inr (ri_members r))))))"

fun member_intents :: "rollout_body \<Rightarrow> rollout_child list \<Rightarrow> rollout_member_intent list res" where
  "member_intents (Explicit_Body r) children = Inr (ri_members r)"
| "member_intents (Selected_Body s declared expansion) children =
     selected_member_intents s declared expansion children"

fun body_valid :: "rollout_body \<Rightarrow> unit res" where
  "body_valid (Explicit_Body r) = rollout_intent_valid r"
| "body_valid (Selected_Body s declared expansion) =
     bindS (selection_intent_valid s) (\<lambda>_.
     bindS (declaration_valid declared) (\<lambda>_.
     bindS (mapS expanded_member_valid expansion) (\<lambda>_. checks
      [(expansion = [] \<or> length expansion > MAX_MEMBERS, ValueError ''expansion'')])))"

definition exact_population ::
    "(string \<Rightarrow> string) \<Rightarrow> child_codec \<Rightarrow> rollout_parent \<Rightarrow> unit res" where
  "exact_population sha cd r =
    bindS (member_intents (ro_body r) (ro_children r)) (\<lambda>members.
    bindS (checks
     [(length (ro_children r) \<noteq> length members,
        ValueError ''rollout must positively represent every selected member''),
      (\<not> distinct (map child_identity (ro_children r))
        \<or> \<not> distinct (map (\<lambda>c. si_interface (ch_interface c)) (ro_children r)),
        ValueError ''rollout stable identities must be unique'')]) (\<lambda>_.
    bindS (mapS (\<lambda>(m, c). bindS (child_result_of sha cd c) (\<lambda>result.
        admit_intent_result (child_intent (body_change_id (ro_body r)) m) result))
      (zip members (ro_children r))) (\<lambda>_. checks
     [(ro_digest r \<noteq> parent_calculated_digest sha r,
        ValueError ''rollout parent digest rejected'')])))"

definition exact_cohorts :: "rollout_parent \<Rightarrow> unit res" where
  "exact_cohorts r = (case ro_cohorts r of
     Some cw \<Rightarrow> bindS (cohorts (body_policy (ro_body r)) (ro_children r)) (\<lambda>expected. checks
       [(cw \<noteq> expected, ValueError ''rollout cohorts differ from frozen policy and children'')])
   | None \<Rightarrow> bindS (checks
       [(list_ex (\<lambda>c. ch_kind c \<noteq> COMPLIANT_Child) (ro_children r),
         ValueError ''rollout compliance requires every child COMPLIANT'')]) (\<lambda>_.
       bindS (cohorts (body_policy (ro_body r)) (ro_children r)) (\<lambda>expected. checks
       [(expected \<noteq> ([], []), ValueError ''compliance cannot contain write cohorts'')])))"

definition cohort_fields_valid :: "(string list \<times> string list list) option \<Rightarrow> bool" where
  "cohort_fields_valid c = (case c of None \<Rightarrow> True
     | Some (canaries, waves) \<Rightarrow> canaries \<noteq> []
         \<and> list_all (netbox_identity ''dcim.device'') (canaries @ concat waves))"

definition rollout_parent_valid ::
    "(string \<Rightarrow> string) \<Rightarrow> child_codec \<Rightarrow> rollout_parent \<Rightarrow> unit res" where
  "rollout_parent_valid sha cd r =
    bindS (checks
     [(\<not> git_commit_pattern (ro_source_commit r), ValueError ''source_commit''),
      (ro_children r = [] \<or> length (ro_children r) > MAX_MEMBERS, ValueError ''children''),
      (\<not> sha256_pattern (ro_digest r), ValueError ''digest''),
      (\<not> cohort_fields_valid (ro_cohorts r), ValueError ''cohorts'')]) (\<lambda>_.
    bindS (body_valid (ro_body r)) (\<lambda>_.
    bindS (mapS (rollout_child_valid sha cd) (ro_children r)) (\<lambda>_.
    bindS (exact_population sha cd r) (\<lambda>_. exact_cohorts r))))"

section \<open>Admission of all members\<close>

datatype rollout_request = Explicit_Request rollout_intent | Selection_Request selection_intent

fun request_change_id :: "rollout_request \<Rightarrow> string" where
  "request_change_id (Explicit_Request r) = ri_change_id r"
| "request_change_id (Selection_Request s) = se_change_id s"

fun request_valid :: "rollout_request \<Rightarrow> unit res" where
  "request_valid (Explicit_Request r) = rollout_intent_valid r"
| "request_valid (Selection_Request s) = selection_intent_valid s"

record rollout_providers =
  rv_member :: "rollout_event write_event providers"
  rv_population :: "revent list \<Rightarrow> profiled_inventory_population res"
  rv_admit :: "revent list \<Rightarrow> string \<Rightarrow> rollout_credential_admission res"

text \<open>\<^verbatim>\<open>model_validate(x.model_dump())\<close> drops the staging realization of a device.\<close>

definition redumped :: "profiled_inventory_device \<Rightarrow> profiled_inventory_device" where
  "redumped d = d\<lparr>dv_staging_cml_realization_profile_id := None\<rparr>"

definition redumped_population :: "profiled_inventory_population \<Rightarrow> profiled_inventory_population" where
  "redumped_population p = p\<lparr>ip_devices := map redumped (ip_devices p)\<rparr>"

definition resolve_population :: "rollout_providers \<Rightarrow> profiled_inventory_population rio" where
  "resolve_population rv = askE (rv_population rv) (\<lambda>r. EvOther (EvAbove (EvPopulation r)))"

definition admit_credential :: "rollout_providers \<Rightarrow> string \<Rightarrow> rollout_credential_admission rio" where
  "admit_credential rv device_identity =
     askE (\<lambda>t. rv_admit rv t device_identity) (\<lambda>r. EvOther (EvAbove (EvAdmit device_identity r)))"

type_synonym admitted_member =
  "rollout_member_intent \<times> profiled_inventory_device \<times> stable_interface
     \<times> profiled_operation_admission \<times> rollout_credential_admission"

definition population_device ::
    "profiled_inventory_population \<Rightarrow> string \<Rightarrow> profiled_inventory_device option" where
  "population_device p name = dict_get (map (\<lambda>d. (dv_logical_name d, d)) (ip_devices p)) name"

definition admit_member ::
    "rollout_providers \<Rightarrow> string \<Rightarrow> profiled_inventory_population \<Rightarrow> string list \<Rightarrow> string list
      \<Rightarrow> rollout_member_intent \<Rightarrow> admitted_member rio" where
  "admit_member rv change_id p identities interface_ids m =
    bindE (liftE (declaration_member (ip_declaration p) (mi_target m))) (\<lambda>declared.
    bindE (resolve (rv_member rv) (mi_target m)) (\<lambda>raw.
    let d = redumped raw in
    bindE (liftE (profiled_inventory_device_valid d)) (\<lambda>_.
    bindE (liftE (case population_device p (mi_target m) of
        None \<Rightarrow> Inl (OtherException ''KeyError'')
      | Some d' \<Rightarrow> checks [(d \<noteq> d' \<or> dv_device_identity d \<noteq> pm_device_identity declared,
          ValueError ''rollout resolution differs from admitted managed population'')])) (\<lambda>_.
    bindE (liftE (admit_profiled_operation d INTERFACE_DESCRIPTION)) (\<lambda>operation.
    bindE (resolve_interface (rv_member rv) d (mi_interface m)) (\<lambda>i.
    bindE (liftE (checks [(\<not> stable_interface_valid i, ValueError ''interface'')])) (\<lambda>_.
    bindE (liftE (intent_valid (child_intent change_id m))) (\<lambda>_.
    bindE (liftE (assert_profiled_interface_binding (child_intent change_id m) d i)) (\<lambda>_.
    bindE (liftE (checks
      [(List.member identities (dv_device_identity d) \<or> List.member interface_ids (si_interface i),
        ValueError ''rollout stable identities must be unique'')])) (\<lambda>_.
    bindE (admit_credential rv (dv_device_identity d)) (\<lambda>authority.
    bindE (liftE (rollout_credential_admission_valid authority)) (\<lambda>_.
    bindE (liftE (checks
      [(cm_device_identity authority \<noteq> dv_device_identity d,
        ValueError ''rollout credential decision is for another device'')])) (\<lambda>_.
    ret (m, d, i, operation, authority))))))))))))))"

fun admit_members ::
    "rollout_providers \<Rightarrow> string \<Rightarrow> profiled_inventory_population \<Rightarrow> string list \<Rightarrow> string list
      \<Rightarrow> rollout_member_intent list \<Rightarrow> admitted_member list rio" where
  "admit_members rv change_id p identities interface_ids [] = ret []"
| "admit_members rv change_id p identities interface_ids (m # ms) =
     bindE (admit_member rv change_id p identities interface_ids m) (\<lambda>a.
     bindE (admit_members rv change_id p (dv_device_identity (fst (snd a)) # identities)
              (si_interface (fst (snd (snd a))) # interface_ids) ms) (\<lambda>as.
     ret (a # as)))"

fun planning_intent ::
    "rollout_request \<Rightarrow> population_declaration \<Rightarrow> (expanded_member list option \<times> rollout_intent) res" where
  "planning_intent (Explicit_Request r) declared = Inr (None, r)"
| "planning_intent (Selection_Request s) declared =
     bindS (expand s declared) (\<lambda>expansion.
     bindS (explicit_intent s expansion) (\<lambda>r. Inr (Some expansion, r)))"

definition admit_rollout_members ::
    "rollout_providers \<Rightarrow> rollout_request \<Rightarrow> string list option
      \<Rightarrow> (profiled_inventory_population \<times> expanded_member list option \<times> rollout_intent
           \<times> admitted_member list) rio" where
  "admit_rollout_members rv request expected_targets =
    bindE (resolve_population rv) (\<lambda>raw.
    let p = redumped_population raw in
    bindE (liftE (profiled_inventory_population_valid p)) (\<lambda>_.
    bindE (liftE (planning_intent request (ip_declaration p))) (\<lambda>(expansion, r).
    bindE (liftE (checks
      [(expected_targets \<noteq> None \<and> Some (map mi_target (ri_members r)) \<noteq> expected_targets,
        ValueError ''stale rollout membership/order'')])) (\<lambda>_.
    bindE (admit_members rv (request_change_id request) p [] [] (ri_members r)) (\<lambda>admitted.
    ret (p, expansion, r, admitted))))))"

section \<open>Planning a rollout\<close>

text \<open>\<open>_ResolvedInventory\<close>: the child planner asks the admitted resolution, not NetBox.\<close>

definition resolved_providers ::
    "'x providers \<Rightarrow> profiled_inventory_device \<Rightarrow> stable_interface \<Rightarrow> 'x providers" where
  "resolved_providers pv d i = pv
     \<lparr>pv_resolve := \<lambda>_ target. (if target \<noteq> dv_logical_name d
        then Inl (ValueError ''rollout resolved target changed'') else Inr d),
      pv_resolve_interface := \<lambda>_ d' name. (if d' \<noteq> d \<or> name \<noteq> si_name i
        then Inl (ValueError ''rollout resolved interface changed'') else Inr i)\<rparr>"

definition exactly_one :: "profiled_planning_result \<Rightarrow> child_result res" where
  "exactly_one r = (case (pr_plan r, pr_compliance r) of
     (Some p, None) \<Rightarrow> Inr (Plan_Result p)
   | (None, Some c) \<Rightarrow> Inr (Compliance_Result c)
   | _ \<Rightarrow> Inl (ValueError ''rollout child planning must return exactly one result''))"

definition make_child ::
    "(string \<Rightarrow> string) \<Rightarrow> child_codec \<Rightarrow> admitted_member \<Rightarrow> child_result \<Rightarrow> rollout_child res" where
  "make_child sha cd = (\<lambda>(m, d, i, operation, authority) result.
    let raw = cd_dump cd result;
        c = \<lparr>ch_device = d, ch_interface = i, ch_operation_admission = operation,
             ch_credential_admission = authority, ch_kind = kind_of_result result,
             ch_artifact_json = raw, ch_artifact_digest = sha256_identity sha raw,
             ch_result_digest = rf_digest (facts_of result)\<rparr>
    in bindS (rollout_child_valid sha cd c) (\<lambda>_. Inr c))"

definition plan_child ::
    "(string \<Rightarrow> string) \<Rightarrow> child_codec \<Rightarrow> rollout_providers \<Rightarrow> string \<Rightarrow> py_datetime option
      \<Rightarrow> admitted_member \<Rightarrow> rollout_child rio" where
  "plan_child sha cd rv change_id created_at a = (case a of (m, d, i, operation, authority) \<Rightarrow>
    bindE (plan_profiled_change sha (resolved_providers (rv_member rv) d i)
             (child_intent change_id m) created_at) (\<lambda>planned.
    bindE (liftE (exactly_one planned)) (\<lambda>result.
    liftE (make_child sha cd a result))))"

text \<open>The parent frozen from the request and the children.\<close>

definition rollout_body_of ::
    "rollout_request \<Rightarrow> rollout_intent \<Rightarrow> expanded_member list option \<Rightarrow> profiled_inventory_population
      \<Rightarrow> rollout_child list \<Rightarrow> rollout_body res" where
  "rollout_body_of request r expansion p children = (case request of
     Explicit_Request _ \<Rightarrow> Inr (Explicit_Body r)
   | Selection_Request s \<Rightarrow>
       if se_selectors s = [] then Inr (Explicit_Body r)
       else let declared = filter (\<lambda>m. List.member (map child_identity children) (pm_device_identity m))
              (ip_declaration p)
            in bindS (declaration_valid declared) (\<lambda>_.
               Inr (Selected_Body s declared (case expansion of Some e \<Rightarrow> e | None \<Rightarrow> []))))"

definition freeze_parent ::
    "(string \<Rightarrow> string) \<Rightarrow> child_codec \<Rightarrow> string \<Rightarrow> rollout_body \<Rightarrow> rollout_child list
      \<Rightarrow> string list \<times> string list list \<Rightarrow> rollout_parent res" where
  "freeze_parent sha cd source_commit body children cw =
    (let r = \<lparr>ro_source_commit = source_commit, ro_body = body, ro_children = children,
          ro_cohorts = (if fst cw = [] then None else Some cw), ro_digest = ''''\<rparr>;
         signed = r\<lparr>ro_digest := parent_calculated_digest sha r\<rparr>
     in bindS (rollout_parent_valid sha cd signed) (\<lambda>_. Inr signed))"

definition aware :: "py_datetime option \<Rightarrow> bool" where
  "aware t = (case t of None \<Rightarrow> True | Some d \<Rightarrow> dt_offset d \<noteq> None)"

definition plan_profiled_rollout ::
    "(string \<Rightarrow> string) \<Rightarrow> child_codec \<Rightarrow> rollout_providers \<Rightarrow> rollout_request \<Rightarrow> string
      \<Rightarrow> py_datetime option \<Rightarrow> rollout_parent rio" where
  "plan_profiled_rollout sha cd rv request source_commit created_at =
    bindE (liftE (request_valid request)) (\<lambda>_.
    bindE (liftE (checks
      [(\<not> git_commit_pattern source_commit, ValueError ''source_commit''),
       (\<not> aware created_at, ValueError ''created_at'')])) (\<lambda>_.
    bindE (admit_rollout_members rv request None) (\<lambda>(p, expansion, r, admitted).
    bindE (mapE (plan_child sha cd rv (request_change_id request) created_at) admitted) (\<lambda>children.
    bindE (liftE (cohorts (ri_policy r) children)) (\<lambda>cw.
    bindE (liftE (rollout_body_of request r expansion p children)) (\<lambda>body.
    liftE (freeze_parent sha cd source_commit body children cw)))))))"

end
