(* ===== verification/Rollout_Laws.thy ===== *)
theory Rollout_Laws
  imports Rollout_Planning
begin

text \<open>
  Lemmas of rollout planning: dictionaries built from lists with unique keys, the partition of the
  deployable members into canaries and waves, selector expansion, and the order of the calls.
\<close>

section \<open>Dictionaries\<close>

lemma dict_keys_distinct: "distinct ks \<Longrightarrow> dict_keys ks = ks"
  by (simp add: dict_keys_def distinct_remdups_id)

lemma set_dict_keys [simp]: "set (dict_keys ks) = set ks"
  by (simp add: dict_keys_def)

lemma distinct_dict_keys [simp]: "distinct (dict_keys ks)"
  by (simp add: dict_keys_def)

lemma dict_get_map:
  assumes "distinct (map f xs)" and "x \<in> set xs"
  shows "dict_get (map (\<lambda>x. (f x, x)) xs) (f x) = Some x"
  unfolding dict_get_def
  using assms by (intro map_of_is_SomeI) (auto simp: rev_map [symmetric] comp_def)

lemma dict_get_Some:
  "dict_get (map (\<lambda>x. (f x, x)) xs) k = Some x \<Longrightarrow> x \<in> set xs \<and> f x = k"
  unfolding dict_get_def by (drule map_of_SomeD) auto

lemma dict_get_None:
  "dict_get (map (\<lambda>x. (f x, x)) xs) k = None \<longleftrightarrow> k \<notin> f ` set xs"
  unfolding dict_get_def by (simp add: map_of_eq_None_iff image_image)

lemma by_name_child:
  "distinct (map child_name cs) \<Longrightarrow> c \<in> set cs \<Longrightarrow> by_name cs (child_name c) = Some c"
  unfolding by_name_def by (rule dict_get_map)

lemma set_deployables: "set (deployables cs) \<subseteq> set cs"
  by (auto simp: deployables_def)

lemma distinct_deployables: "distinct (map f cs) \<Longrightarrow> distinct (map f (deployables cs))"
  by (simp add: deployables_def distinct_map_filter)

section \<open>Cohorts\<close>

lemma mapS_map: "(\<And>x. x \<in> set xs \<Longrightarrow> f (g x) = Inr (h x)) \<Longrightarrow> mapS f (map g xs) = Inr (map h xs)"
  by (induction xs) auto

lemma identity_of_child:
  "distinct (map child_name cs) \<Longrightarrow> c \<in> set cs \<Longrightarrow> identity_of_name cs (child_name c) = Inr (child_identity c)"
  by (simp add: identity_of_name_def by_name_child)

text \<open>The children behind a list of names.\<close>

lemma names_children:
  assumes "set ns \<subseteq> child_name ` set cs"
  obtains xs where "ns = map child_name xs" and "set xs \<subseteq> set cs"
proof -
  from assms have "\<exists>xs. ns = map child_name xs \<and> set xs \<subseteq> set cs"
  proof (induction ns)
    case (Cons n ns)
    then obtain xs c where "ns = map child_name xs" "set xs \<subseteq> set cs" "c \<in> set cs" "n = child_name c"
      by auto
    then show ?case by (intro exI [of _ "c # xs"]) auto
  qed simp
  with that show thesis by blast
qed

lemma cohorts_Inr:
  assumes c: "cohorts policy children = Inr (cs, ws)"
    and dn: "distinct (map child_name children)"
  obtains canaries where
    "set canaries \<subseteq> set (deployables children)" and "distinct (map child_name canaries)"
    and "map child_name canaries = cohort_canaries policy (deployables children)"
    and "family ` set canaries = family ` set (deployables children)"
    and "length (deployables children) > length (remdups (map family (deployables children)))
           \<longrightarrow> length canaries \<noteq> length (deployables children)"
    and "cs = map child_identity canaries"
    and "ws = map (map child_identity) (chunks (nat (rp_wave_size policy))
           (filter (\<lambda>d. child_name d \<notin> child_name ` set canaries) (deployables children)))"
proof -
  let ?D = "deployables children"
  let ?names = "dict_keys (map child_name ?D)"
  let ?cn = "cohort_canaries policy ?D"
  have dD: "distinct (map child_name ?D)" using dn by (rule distinct_deployables)
  have names: "?names = map child_name ?D" using dD by (rule dict_keys_distinct)
  from c have sub: "set ?cn \<subseteq> child_name ` set ?D" and dc: "distinct ?cn"
    and fam: "set (map (\<lambda>n. map_option family (by_name ?D n)) ?cn) = Some ` family ` set ?D"
    and keep: "\<not> (length ?D > length (remdups (map family ?D)) \<and> length ?cn = length ?D)"
    and maps: "mapS (identity_of_name children) ?cn = Inr cs"
      "mapS (mapS (identity_of_name children)) (chunks (nat (rp_wave_size policy))
         (filter (\<lambda>n. n \<notin> set ?cn) (map child_name ?D))) = Inr ws"
    by (auto simp: cohorts_def Let_def bindS_Inr_iff names)
  from sub obtain xs where xs: "?cn = map child_name xs" "set xs \<subseteq> set ?D" by (rule names_children)
  have "map (\<lambda>n. map_option family (by_name ?D n)) ?cn = map (\<lambda>x. Some (family x)) xs"
    using xs by_name_child [OF dD] by auto
  with fam have "Some ` family ` set xs = Some ` family ` set ?D" by (simp add: image_image)
  then have fam': "family ` set xs = family ` set ?D" by (simp add: inj_image_eq_iff)
  have sub': "set xs \<subseteq> set children" using xs(2) set_deployables by blast
  have "mapS (identity_of_name children) ?cn = Inr (map child_identity xs)"
    unfolding xs(1) using sub' identity_of_child [OF dn] by (intro mapS_map) auto
  with maps(1) have cs: "cs = map child_identity xs" by simp
  let ?rest = "filter (\<lambda>d. child_name d \<notin> child_name ` set xs) ?D"
  have rest: "filter (\<lambda>n. n \<notin> set ?cn) (map child_name ?D) = map child_name ?rest"
    unfolding xs(1) by (simp add: filter_map comp_def)
  have inchunk: "w \<in> set (chunks k ?rest) \<Longrightarrow> 0 < k \<Longrightarrow> d \<in> set w \<Longrightarrow> d \<in> set children" for w d k
  proof -
    assume w: "w \<in> set (chunks k ?rest)" and k: "0 < k" and d: "d \<in> set w"
    then have "d \<in> set (concat (chunks k ?rest))" by auto
    then have "d \<in> set ?D" unfolding concat_chunks [OF k] by simp
    then show "d \<in> set children" using set_deployables by blast
  qed
  have "mapS (mapS (identity_of_name children)) (chunks (nat (rp_wave_size policy)) (map child_name ?rest))
    = Inr (map (map child_identity) (chunks (nat (rp_wave_size policy)) ?rest))"
  proof (cases "nat (rp_wave_size policy) = 0")
    case True
    then show ?thesis by (simp add: chunks.simps)
  next
    case False
    then show ?thesis
      unfolding map_chunks
      by (intro mapS_map) (use inchunk identity_of_child [OF dn] in blast)
  qed
  with maps(2) rest have ws: "ws = map (map child_identity) (chunks (nat (rp_wave_size policy)) ?rest)"
    by simp
  show thesis
    using xs dc fam' keep cs ws by (intro that [of xs]) auto
qed

lemma cohorts_partition_lemma:
  assumes c: "cohorts policy children = Inr (cs, ws)" and w: "1 \<le> rp_wave_size policy"
    and dn: "distinct (map child_name children)" and di: "distinct (map child_identity children)"
  shows "distinct (cs @ concat ws)"
    and "set (cs @ concat ws) = child_identity ` set (deployables children)"
    and "concat ws = filter (\<lambda>i. i \<notin> set cs) (map child_identity (deployables children))"
    and "\<forall>wave \<in> set ws. wave \<noteq> [] \<and> length wave \<le> nat (rp_wave_size policy)"
    and "\<forall>i. i + 1 < length ws \<longrightarrow> length (ws ! i) = nat (rp_wave_size policy)"
    and "family ` {d \<in> set (deployables children). child_identity d \<in> set cs}
           = family ` set (deployables children)"
    and "length (deployables children) > card (family ` set (deployables children)) \<Longrightarrow> ws \<noteq> []"
proof -
  let ?D = "deployables children"
  obtain xs where x: "set xs \<subseteq> set ?D" "distinct (map child_name xs)"
    "map child_name xs = cohort_canaries policy ?D" "family ` set xs = family ` set ?D"
    "length ?D > length (remdups (map family ?D)) \<longrightarrow> length xs \<noteq> length ?D"
    "cs = map child_identity xs"
    "ws = map (map child_identity) (chunks (nat (rp_wave_size policy))
        (filter (\<lambda>d. child_name d \<notin> child_name ` set xs) ?D))"
    by (rule cohorts_Inr [OF c dn])
  note xs = x(1,2,4-7)
  let ?rest = "filter (\<lambda>d. child_name d \<notin> child_name ` set xs) ?D"
  have k: "0 < nat (rp_wave_size policy)" using w by simp
  have dD: "distinct (map child_name ?D)" "distinct (map child_identity ?D)"
    using dn di by (auto intro: distinct_deployables)
  have injn: "inj_on child_name (set ?D)" and inji: "inj_on child_identity (set ?D)"
    using dD by (auto simp: distinct_map)
  have same: "child_name d \<in> child_name ` set xs \<longleftrightarrow> child_identity d \<in> child_identity ` set xs"
    if "d \<in> set ?D" for d
    unfolding inj_on_image_mem_iff [OF injn that xs(1)] inj_on_image_mem_iff [OF inji that xs(1)] ..
  have rest: "?rest = filter (\<lambda>d. child_identity d \<notin> child_identity ` set xs) ?D"
    by (rule filter_cong) (use same in auto)
  have cw: "concat ws = map child_identity ?rest"
    unfolding xs(6) map_concat [symmetric] concat_chunks [OF k] ..
  show eq: "concat ws = filter (\<lambda>i. i \<notin> set cs) (map child_identity ?D)"
    unfolding cw rest xs(5) by (simp add: filter_map comp_def)
  have "distinct xs" using xs(2) by (simp add: distinct_map)
  then have dcs: "distinct cs" unfolding xs(5) using xs(1) inji
    by (simp add: distinct_map inj_on_subset)
  have "distinct (concat ws)" unfolding eq using dD(2) by simp
  with dcs eq show "distinct (cs @ concat ws)" by auto
  have "set cs \<subseteq> child_identity ` set ?D" using xs by auto
  with eq show "set (cs @ concat ws) = child_identity ` set ?D" by auto
  show "\<forall>wave \<in> set ws. wave \<noteq> [] \<and> length wave \<le> nat (rp_wave_size policy)"
    unfolding xs(6) using chunks_bounds by fastforce
  show "\<forall>i. i + 1 < length ws \<longrightarrow> length (ws ! i) = nat (rp_wave_size policy)"
    unfolding xs(6) using chunks_full [OF k] by auto
  have "{d \<in> set ?D. child_identity d \<in> set cs} = set xs"
    using xs(1) inji unfolding xs(5) by (auto simp: inj_on_def)
  then show "family ` {d \<in> set ?D. child_identity d \<in> set cs} = family ` set ?D"
    using xs(3) by simp
  assume more: "length ?D > card (family ` set ?D)"
  show "ws \<noteq> []"
  proof
    assume "ws = []"
    then have "?rest = []" using concat_chunks [OF k, of ?rest] unfolding xs(6) by simp
    then have "\<forall>d \<in> set ?D. child_identity d \<in> child_identity ` set xs"
      unfolding rest by (simp add: filter_empty_conv)
    then have "set ?D \<subseteq> set xs" using inj_on_image_mem_iff [OF inji _ xs(1)] by blast
    with xs(1) have "set ?D = set xs" by auto
    then have "length ?D = length xs"
      using dD(1) \<open>distinct xs\<close> by (metis distinct_card distinct_map)
    moreover have "length ?D > length (remdups (map family ?D))"
      using more by (simp add: length_remdups_card_conv)
    ultimately show False using xs(4) by simp
  qed
qed

section \<open>The default canaries\<close>

fun family_representatives ::
    "(adapter_family \<times> recovery_family) list \<Rightarrow> rollout_child list \<Rightarrow> rollout_child list" where
  "family_representatives seen [] = []"
| "family_representatives seen (c # cs) =
     (if List.member seen (family c) then family_representatives seen cs
      else c # family_representatives (family c # seen) cs)"

lemma first_per_family_eq:
  "first_per_family seen cs = map child_name (family_representatives seen cs)"
  by (induction seen cs rule: first_per_family.induct) (auto simp: child_name_def)

lemma family_representatives_facts:
  "set (family_representatives seen cs) \<subseteq> set cs"
  "distinct (map family (family_representatives seen cs))"
  "family ` set (family_representatives seen cs) = family ` set cs - set seen"
proof -
  show "set (family_representatives seen cs) \<subseteq> set cs"
    by (induction seen cs rule: family_representatives.induct) auto
  show fam: "family ` set (family_representatives seen cs) = family ` set cs - set seen"
    by (induction seen cs rule: family_representatives.induct) auto
  have fam': "family ` set (family_representatives sn ds) = family ` set ds - set sn" for sn ds
    by (induction sn ds rule: family_representatives.induct) auto
  show "distinct (map family (family_representatives seen cs))"
    by (induction seen cs rule: family_representatives.induct) (auto simp: fam')
qed

lemma cohorts_default_total:
  assumes p: "rp_canaries policy = None" and dn: "distinct (map child_name children)"
  shows "\<exists>cw. cohorts policy children = Inr cw"
proof -
  let ?D = "deployables children"
  let ?R = "family_representatives [] ?D"
  have dD: "distinct (map child_name ?D)" using dn by (rule distinct_deployables)
  have names: "dict_keys (map child_name ?D) = map child_name ?D" using dD by (rule dict_keys_distinct)
  note R = family_representatives_facts [of "[]" ?D]
  have can: "cohort_canaries policy ?D = map child_name ?R"
    by (simp add: cohort_canaries_def p first_per_family_eq)
  have sub: "set ?R \<subseteq> set children" using R(1) set_deployables by blast
  have dR: "distinct (map child_name ?R)"
    using R(1,2) dD by (auto simp: distinct_map intro: inj_on_subset)
  have fam: "set (map (\<lambda>n. map_option family (by_name ?D n)) (map child_name ?R)) = Some ` family ` set ?D"
  proof -
    have pt: "map_option family (by_name ?D (child_name c)) = Some (family c)" if "c \<in> set ?R" for c
      using by_name_child [OF dD, of c] R(1) that by auto
    have "set (map (\<lambda>n. map_option family (by_name ?D n)) (map child_name ?R))
        = (\<lambda>c. map_option family (by_name ?D (child_name c))) ` set ?R"
      by (simp only: set_map image_image)
    also have "\<dots> = (\<lambda>c. Some (family c)) ` set ?R" by (rule image_cong [OF refl pt])
    also have "\<dots> = Some ` family ` set ?R" by (simp only: image_image)
    finally show ?thesis using R(3) by simp
  qed
  have len: "length ?R = length (remdups (map family ?D))"
  proof -
    have "length ?R = card (family ` set ?R)" using distinct_card [OF R(2)] by simp
    with R(3) show ?thesis by (simp add: length_remdups_card_conv)
  qed
  have wave: "mapS (mapS (identity_of_name children)) (chunks k (map child_name xs))
     = Inr (map (map child_identity) (chunks k xs))" if "set xs \<subseteq> set children" for k xs
  proof (cases "k = 0")
    case True
    then show ?thesis by (simp add: chunks.simps)
  next
    case False
    have "\<Union> (set ` set (chunks k xs)) = set xs"
      using concat_chunks [of k xs] False by (metis bot_nat_0.not_eq_extremum set_concat)
    then show ?thesis
      unfolding map_chunks using that identity_of_child [OF dn] by (intro mapS_map) blast
  qed
  have rest: "filter (\<lambda>n. n \<notin> set (map child_name ?R)) (map child_name ?D)
     = map child_name (filter (\<lambda>d. child_name d \<notin> set (map child_name ?R)) ?D)"
    by (simp add: filter_map comp_def)
  have "mapS (identity_of_name children) (map child_name ?R) = Inr (map child_identity ?R)"
    using sub identity_of_child [OF dn] by (intro mapS_map) auto
  moreover have "mapS (mapS (identity_of_name children)) (chunks (nat (rp_wave_size policy))
      (filter (\<lambda>n. n \<notin> set (map child_name ?R)) (map child_name ?D)))
    = Inr (map (map child_identity) (chunks (nat (rp_wave_size policy))
        (filter (\<lambda>d. child_name d \<notin> set (map child_name ?R)) ?D)))"
    unfolding rest using set_deployables [of children] by (intro wave) auto
  ultimately show ?thesis
    unfolding cohorts_def Let_def names can
    using imageI [OF subsetD [OF R(1)], of _ child_name] dR fam len
    by (auto simp: image_subset_iff)
qed

section \<open>Selection\<close>

lemma enumerated_snd [simp]: "map snd (enumerated xs) = xs"
  by (simp add: enumerated_def)

lemma expand_explicit_Inr:
  assumes "expand_explicit declared (i, m) = Inr e"
  shows "em_member e = m \<and> em_source_kind e = Explicit_Source
     \<and> em_source_index e = i \<and> mi_target m \<in> pm_logical_name ` set declared"
proof -
  from assms obtain x where x: "declaration_member declared (mi_target m) = Inr x"
    and e: "e = \<lparr>em_member = m, em_source_kind = Explicit_Source, em_source_index = i\<rparr>"
    by (auto simp: expand_explicit_def bindS_Inr_iff Let_def)
  have "mi_target m \<in> pm_logical_name ` set declared"
    using declaration_member_Inr [OF x] by (metis image_eqI)
  with e show ?thesis by simp
qed

lemma expand_clause_Inr:
  assumes "expand_clause declared (i, c) = Inr es"
  shows "map (mi_target \<circ> em_member) es = map pm_logical_name (filter (selects (cl_selector c)) declared)"
    and "filter (selects (cl_selector c)) declared \<noteq> []"
    and "\<forall>e \<in> set es. mi_interface (em_member e) = cl_interface c \<and> mi_desired (em_member e) = cl_desired c
           \<and> em_source_kind e = Selector_Source \<and> em_source_index e = i"
proof -
  let ?sel = "filter (selects (cl_selector c)) declared"
  let ?f = "\<lambda>m. \<lparr>em_member = \<lparr>mi_target = pm_logical_name m, mi_interface = cl_interface c,
     mi_desired = cl_desired c\<rparr>, em_source_kind = Selector_Source, em_source_index = i\<rparr>"
  from assms have ne: "?sel \<noteq> []" and m: "mapS (\<lambda>m. bindS (expanded_member_valid (?f m)) (\<lambda>_. Inr (?f m))) ?sel = Inr es"
    by (auto simp: expand_clause_def select_members_def Let_def bindS_Inr_iff split: if_splits)
  have "es = map ?f ?sel"
    using m unfolding mapS_Inr_iff
    by (auto simp: bindS_Inr_iff list_all2_conv_all_nth intro!: nth_equalityI)
  with ne show "map (mi_target \<circ> em_member) es = map pm_logical_name ?sel" "?sel \<noteq> []"
    "\<forall>e \<in> set es. mi_interface (em_member e) = cl_interface c \<and> mi_desired (em_member e) = cl_desired c
           \<and> em_source_kind e = Selector_Source \<and> em_source_index e = i"
    by auto
qed

lemma expand_Inr:
  assumes "expand s declared = Inr es"
  shows "distinct (map (mi_target \<circ> em_member) es)" and "length es \<le> MAX_MEMBERS"
    and "map (mi_target \<circ> em_member) es
       = map mi_target (se_explicit_members s)
         @ concat (map (\<lambda>c. map pm_logical_name (filter (selects (cl_selector c)) declared)) (se_selectors s))"
    and "set (map (mi_target \<circ> em_member) es) \<subseteq> pm_logical_name ` set declared"
proof -
  from assms obtain ex sel where
    ex: "mapS (expand_explicit declared) (enumerated (se_explicit_members s)) = Inr ex"
    and sel: "mapS (expand_clause declared) (enumerated (se_selectors s)) = Inr sel"
    and es: "es = ex @ concat sel" and d: "distinct (map (mi_target \<circ> em_member) es)"
    and l: "length es \<le> MAX_MEMBERS"
    by (auto simp: expand_def bindS_Inr_iff Let_def)
  show "distinct (map (mi_target \<circ> em_member) es)" "length es \<le> MAX_MEMBERS" by (rule d, rule l)
  have e1: "list_all2 (\<lambda>x e. em_member e = snd x \<and> mi_target (snd x) \<in> pm_logical_name ` set declared)
     (enumerated (se_explicit_members s)) ex"
    using ex [unfolded mapS_Inr_iff] by (rule list_all2_mono) (metis expand_explicit_Inr prod.collapse)
  then have "map em_member ex = map snd (enumerated (se_explicit_members s))"
    by (induction rule: list_all2_induct) auto
  then have m1: "map em_member ex = se_explicit_members s" by simp
  have e2: "list_all2 (\<lambda>x e. map (mi_target \<circ> em_member) e
     = map pm_logical_name (filter (selects (cl_selector (snd x))) declared))
     (enumerated (se_selectors s)) sel"
    using sel [unfolded mapS_Inr_iff] by (rule list_all2_mono) (metis expand_clause_Inr(1) prod.collapse)
  then have "map (map (mi_target \<circ> em_member)) sel
     = map (\<lambda>x. map pm_logical_name (filter (selects (cl_selector (snd x))) declared)) (enumerated (se_selectors s))"
    by (induction rule: list_all2_induct) (simp_all only: list.map)
  also have "\<dots> = map (\<lambda>c. map pm_logical_name (filter (selects (cl_selector c)) declared))
       (map snd (enumerated (se_selectors s)))"
    by (simp only: map_map comp_def)
  also have "\<dots> = map (\<lambda>c. map pm_logical_name (filter (selects (cl_selector c)) declared)) (se_selectors s)"
    by (simp only: enumerated_snd)
  finally have m2: "map (map (mi_target \<circ> em_member)) sel
     = map (\<lambda>c. map pm_logical_name (filter (selects (cl_selector c)) declared)) (se_selectors s)" .
  have "map (mi_target \<circ> em_member) es = map mi_target (map em_member ex)
     @ concat (map (map (mi_target \<circ> em_member)) sel)"
    by (simp add: es map_concat)
  then show eq: "map (mi_target \<circ> em_member) es
       = map mi_target (se_explicit_members s)
         @ concat (map (\<lambda>c. map pm_logical_name (filter (selects (cl_selector c)) declared)) (se_selectors s))"
    by (simp only: m1 m2)
  have "set (map mi_target (se_explicit_members s)) \<subseteq> pm_logical_name ` set declared"
  proof -
    have "\<forall>x \<in> set (enumerated (se_explicit_members s)). mi_target (snd x) \<in> pm_logical_name ` set declared"
      using e1 by (induction rule: list_all2_induct) simp_all
    then have "\<forall>m \<in> set (map snd (enumerated (se_explicit_members s))). mi_target m \<in> pm_logical_name ` set declared"
      by (simp only: set_map ball_simps)
    then show ?thesis by (auto simp only: enumerated_snd set_map)
  qed
  then show "set (map (mi_target \<circ> em_member) es) \<subseteq> pm_logical_name ` set declared"
    unfolding eq by auto
qed

section \<open>The order of the calls\<close>

text \<open>Planning a rollout in two phases: while members are admitted no credential is touched, and once
  the planning of a child has begun nothing is admitted any more. A phase carries the population
  the inventory answered and the credential decisions made so far, one per admitted device.\<close>

type_synonym decisions = "(string \<times> rollout_credential_admission) list"

datatype rollout_phase =
    Starting
  | Unpopulated
  | Admitting profiled_inventory_population decisions
  | Delegating profiled_inventory_population decisions

fun admission_event :: "revent \<Rightarrow> bool" where
  "admission_event (EvResolve _ _) = True"
| "admission_event (EvResolveInterface _ _ _) = True"
| "admission_event (EvOther (EvAbove (EvAdmit _ _))) = True"
| "admission_event _ = False"

fun decided :: "revent \<Rightarrow> decisions" where
  "decided (EvOther (EvAbove (EvAdmit d (Inr c)))) = [(d, c)]"
| "decided _ = []"

definition decisions :: "revent list \<Rightarrow> decisions" where
  "decisions es = concat (map decided es)"

definition child_event :: "revent \<Rightarrow> bool" where
  "child_event e \<longleftrightarrow> call_of e \<noteq> Other_Call"

abbreviation (input) population_event where
  "population_event r \<equiv> EvOther (EvAbove (EvPopulation r))"

text \<open>What a phase in which members are or were admitted has established.\<close>

fun progress :: "rollout_phase \<Rightarrow> (profiled_inventory_population \<times> decisions) option" where
  "progress (Admitting p g) = Some (p, g)"
| "progress (Delegating p g) = Some (p, g)"
| "progress _ = None"

inductive planning_step :: "rollout_phase \<Rightarrow> revent \<Rightarrow> rollout_phase \<Rightarrow> bool" where
  populated: "planning_step Starting (population_event (Inr p)) (Admitting p [])"
| unpopulated: "planning_step Starting (population_event (Inl e)) Unpopulated"
| admitting: "admission_event e \<Longrightarrow> planning_step (Admitting p g) e (Admitting p (g @ decided e))"
| delegating: "child_event e \<Longrightarrow> progress s = Some (p, g) \<Longrightarrow> planning_step s e (Delegating p g)"

fun planning_law :: "rollout_phase \<Rightarrow> revent list \<Rightarrow> bool" where
  "planning_law Starting es \<longleftrightarrow> es = []"
| "planning_law Unpopulated es \<longleftrightarrow> (\<exists>e. es = [population_event (Inl e)])"
| "planning_law (Admitting p g) es \<longleftrightarrow> (\<exists>a. es = population_event (Inr p) # a
     \<and> list_all admission_event a \<and> g = decisions a)"
| "planning_law (Delegating p g) es \<longleftrightarrow> (\<exists>a b. es = population_event (Inr p) # a @ b
     \<and> list_all admission_event a \<and> g = decisions a \<and> list_all child_event b)"

lemma planning_law_delegating:
  assumes "planning_law s es" and "child_event e" and "progress s = Some (p, g)"
  shows "planning_law (Delegating p g) (es @ [e])"
proof (cases s)
  case (Admitting q h)
  with assms obtain a where "es = population_event (Inr p) # a" "list_all admission_event a"
    "g = decisions a" by auto
  with assms(2) show ?thesis
    unfolding planning_law.simps by (intro exI [of _ a] exI [of _ "[e]"]) simp
next
  case (Delegating q h)
  with assms obtain a b where "es = population_event (Inr p) # a @ b" "list_all admission_event a"
    "g = decisions a" "list_all child_event b" by auto
  with assms(2) show ?thesis
    unfolding planning_law.simps by (intro exI [of _ a] exI [of _ "b @ [e]"]) simp
qed (use assms in auto)

interpretation planning: monitored planning_step Starting planning_law
proof (unfold_locales, goal_cases)
  case 1
  show ?case by simp
next
  case (2 s es e s')
  from 2(2,1) show ?case
  proof (cases rule: planning_step.cases)
    case (admitting p g)
    with 2(1) show ?thesis by (auto simp: decisions_def)
  next
    case (delegating p g)
    with 2(1) planning_law_delegating show ?thesis by blast
  qed (auto simp: decisions_def)
qed

lemma path_delegating:
  assumes "progress s = Some (p, g)"
  shows "list_all child_event u \<Longrightarrow> \<exists>s'. path planning_step s u s' \<and> progress s' = Some (p, g)"
proof (induction u rule: rev_induct)
  case (snoc e u)
  then obtain s' where s': "path planning_step s u s'" "progress s' = Some (p, g)" by auto
  from snoc.prems s'(2) have "planning_step s' e (Delegating p g)" by (auto intro: delegating)
  then have "path planning_step s (u @ [e]) (Delegating p g)" by (rule path_snoc [OF s'(1)])
  then show ?case by (intro exI [of _ "Delegating p g"]) simp
qed (use assms in \<open>auto intro: path_Nil\<close>)

lemma runs_planner:
  assumes "progress s = Some (p, g)"
  shows "runs planning_step s (plan_profiled_change sha pv intent c)
     (\<lambda>_ s'. progress s' = Some (p, g))"
  unfolding runs_def
proof
  fix t
  from calls_planner [of sha pv intent c] obtain u k where
    u: "snd (plan_profiled_change sha pv intent c t) = t @ u" "map call_of u = take k planner_calls"
    unfolding calls_def by blast
  have "Other_Call \<notin> set planner_calls" by (simp add: planner_calls_def)
  with u(2) have "Other_Call \<notin> set (map call_of u)" by (metis in_set_takeD)
  then have "list_all child_event u" by (auto simp: list_all_iff child_event_def image_iff)
  with u(1) path_delegating [OF assms, of u] show "\<exists>u s'. snd (plan_profiled_change sha pv intent c t) = t @ u
      \<and> path planning_step s u s' \<and> progress s' = Some (p, g)" by blast
qed

lemma runs_lift:
  assumes "\<And>e. r = Inl e \<Longrightarrow> R (Inl e) s" and "\<And>x. r = Inr x \<Longrightarrow> runs step s (f x) R"
  shows "runs step s (bindE (liftE r) f) R"
  by (rule runs_bindE [OF runs_pure(1) [of "\<lambda>x s'. x = r \<and> s' = s"]]) (use assms in auto)

lemma runs_plan_child:
  assumes "progress s = Some (p, g)"
  shows "runs planning_step s (plan_child sha cd rv ch c a) (\<lambda>_ s'. progress s' = Some (p, g))"
proof -
  obtain m d i op authority where a: "a = (m, d, i, op, authority)" by (cases a)
  show ?thesis
    unfolding plan_child_def a prod.case
    by (rule runs_bindE [OF runs_planner [OF assms]]) (auto intro!: runs_lift runs_pure)
qed

lemma runs_plan_children:
  assumes "progress s = Some (p, g)"
  shows "runs planning_step s (mapE (plan_child sha cd rv ch c) as) (\<lambda>_ s'. progress s' = Some (p, g))"
  using assms
proof (induction as arbitrary: s)
  case (Cons a as)
  show ?case
    unfolding mapE.simps
  proof (rule runs_bindE [OF runs_plan_child [OF Cons.prems]], goal_cases)
    case (2 y s')
    show ?case by (rule runs_bindE [OF Cons.IH [OF 2]]) (auto intro!: runs_pure)
  qed
qed (auto intro: runs_pure)

text \<open>Admission: one decision per member, on its resolved device.\<close>

lemma runs_answer:
  assumes "\<And>r. step s (ev r) (nx r)"
    and "\<And>e. R (Inl e) (nx (Inl e))" and "\<And>x. runs step (nx (Inr x)) (f x) R"
  shows "runs step s (bindE (askE q ev) f) R"
  by (rule runs_bindE [OF runs_askE [of step s ev q "\<lambda>r s'. s' = nx r"]]) (use assms in auto)

definition admitted_decision :: "admitted_member \<Rightarrow> string \<times> rollout_credential_admission" where
  "admitted_decision = (\<lambda>(m, d, i, op, c). (dv_device_identity d, c))"

definition decision_valid :: "string \<times> rollout_credential_admission \<Rightarrow> bool" where
  "decision_valid = (\<lambda>(d, c). cm_device_identity c = d \<and> rollout_credential_admission_valid c = Inr ())"

lemma runs_admit_member:
  "runs planning_step (Admitting p g) (admit_member rv change_id q ids iids m)
     (\<lambda>r s'. (\<exists>g'. s' = Admitting p g') \<and> (\<forall>a. r = Inr a \<longrightarrow> s' = Admitting p (g @ [admitted_decision a])
        \<and> fst a = m \<and> decision_valid (admitted_decision a)
        \<and> fst (admitted_decision a) \<notin> set ids))"
  (is "runs _ _ _ ?Q")
proof -
  have ev: "planning_step (Admitting p g) e (Admitting p (g @ decided e))" if "admission_event e" for g e
    using that by (rule admitting)
  have last: "runs planning_step (Admitting p g)
     (bindE (admit_credential rv (dv_device_identity d)) (\<lambda>authority.
      bindE (liftE (rollout_credential_admission_valid authority)) (\<lambda>_.
      bindE (liftE (checks
        [(cm_device_identity authority \<noteq> dv_device_identity d,
          ValueError ''rollout credential decision is for another device'')])) (\<lambda>_.
      ret (m, d, i, op, authority))))) ?Q" if "dv_device_identity d \<notin> set ids" for d i op
    unfolding admit_credential_def
    by (rule runs_answer [where nx = "\<lambda>r. Admitting p (g @ decided
          (EvOther (EvAbove (EvAdmit (dv_device_identity d) r))))"])
      (use that in \<open>auto intro!: ev runs_lift runs_pure simp: admitted_decision_def decision_valid_def\<close>)
  show ?thesis
    unfolding admit_member_def resolve_def resolve_interface_def
    apply (rule runs_lift)
     apply simp
    apply (rule runs_answer [where nx = "\<lambda>_. Admitting p g"])
      apply (use ev [of "EvResolve _ _"] in simp)
     apply simp
    apply (unfold Let_def)
    apply ((rule runs_lift, simp)+)
    apply (rule runs_answer [where nx = "\<lambda>_. Admitting p g"])
      apply (use ev [of "EvResolveInterface _ _ _"] in simp)
     apply simp
    apply ((rule runs_lift, simp)+)
    apply (rule last)
    apply auto
    done
qed

text \<open>What the admission of members has established: one decision for each, on distinct devices.\<close>

definition all_decided :: "decisions \<Rightarrow> rollout_member_intent list \<Rightarrow> bool" where
  "all_decided g ms \<longleftrightarrow> length g = length ms \<and> distinct (map fst g) \<and> list_all decision_valid g"

lemma runs_admit_members:
  "runs planning_step (Admitting p g) (admit_members rv change_id q ids iids ms)
     (\<lambda>r s'. (\<exists>g'. s' = Admitting p g') \<and> (\<forall>as. r = Inr as \<longrightarrow>
        (\<exists>h. s' = Admitting p (g @ h) \<and> map fst as = ms
           \<and> all_decided h ms \<and> set (map fst h) \<inter> set ids = {})))"
proof (induction ms arbitrary: g ids iids)
  case Nil
  show ?case by (auto intro!: runs_pure simp: all_decided_def)
next
  case (Cons m ms)
  show ?case
    unfolding admit_members.simps
  proof (rule runs_bindE [OF runs_admit_member], goal_cases)
    case (2 a s')
    obtain m' d i op c where a: "a = (m', d, i, op, c)" by (cases a)
    from 2 a have s': "s' = Admitting p (g @ [(dv_device_identity d, c)])" and m: "m' = m"
      and v: "decision_valid (dv_device_identity d, c)" and n: "dv_device_identity d \<notin> set ids"
      by (auto simp: admitted_decision_def)
    show ?case
      unfolding s' a fst_conv snd_conv
      by (rule runs_bindE [OF Cons.IH]) (use m v n in \<open>auto intro!: runs_pure simp: all_decided_def\<close>)
  qed auto
qed

definition admission_complete ::
    "rollout_request \<Rightarrow> profiled_inventory_population \<Rightarrow> decisions \<Rightarrow> bool" where
  "admission_complete request raw g \<longleftrightarrow> (\<exists>expansion r.
     profiled_inventory_population_valid (redumped_population raw) = Inr ()
     \<and> planning_intent request (ip_declaration (redumped_population raw)) = Inr (expansion, r)
     \<and> all_decided g (ri_members r))"

lemma runs_admission:
  "runs planning_step Starting (admit_rollout_members rv request None)
     (\<lambda>r s'. case r of
        Inl _ \<Rightarrow> s' = Unpopulated \<or> (\<exists>p g. s' = Admitting p g)
      | Inr _ \<Rightarrow> \<exists>p g. s' = Admitting p g \<and> admission_complete request p g)"
  (is "runs _ _ _ ?Q")
proof -
  have pop: "runs planning_step Starting (resolve_population rv)
     (\<lambda>r s'. case r of Inl _ \<Rightarrow> s' = Unpopulated | Inr p \<Rightarrow> s' = Admitting p [])"
    unfolding resolve_population_def
  proof (rule runs_askE)
    fix t
    show "\<exists>s'. planning_step Starting (population_event (rv_population rv t)) s'
       \<and> (case rv_population rv t of Inl _ \<Rightarrow> s' = Unpopulated | Inr p \<Rightarrow> s' = Admitting p [])"
      by (cases "rv_population rv t") (auto intro: planning_step.intros)
  qed
  show ?thesis
    unfolding admit_rollout_members_def Let_def
  proof (rule runs_bindE [OF pop], goal_cases)
    case (2 raw s')
    then have s': "s' = Admitting raw []" by simp
    show ?case
      unfolding s'
    proof (rule runs_lift, goal_cases)
      case (2 u)
      then have v: "profiled_inventory_population_valid (redumped_population raw) = Inr ()" by simp
      show ?case
      proof (rule runs_lift, goal_cases)
        case (2 er)
        obtain expansion r where er: "er = (expansion, r)" by (cases er)
        from 2 v have "admission_complete request raw g" if "all_decided g (ri_members r)" for g
          using that by (auto simp: admission_complete_def er)
        then show ?case
          unfolding er prod.case
          by (intro runs_lift runs_bindE [OF runs_admit_members]) (auto intro!: runs_pure)
      qed simp
    qed simp
  qed simp
qed

lemma runs_rollout_planner:
  "runs planning_step Starting (plan_profiled_rollout sha cd rv request commit created)
     (\<lambda>r s'. (\<forall>p g. s' = Delegating p g \<longrightarrow> admission_complete request p g)
        \<and> (ok r \<longrightarrow> (\<exists>p g. progress s' = Some (p, g) \<and> admission_complete request p g)))"
  unfolding plan_profiled_rollout_def
proof (intro runs_lift, goal_cases)
  case (3 u v)
  show ?case
  proof (rule runs_bindE [OF runs_admission], goal_cases)
    case (2 x s')
    obtain q expansion r admitted where x: "x = (q, expansion, r, admitted)" by (cases x)
    from 2 obtain p g where "s' = Admitting p g" and c: "admission_complete request p g" by auto
    then have s': "progress s' = Some (p, g)" by simp
    show ?case
      unfolding x prod.case
    proof (rule runs_bindE [OF runs_plan_children [OF s']], goal_cases)
      case (1 e s'')
      with c show ?case by auto
    next
      case (2 y s'')
      with c show ?case by (intro runs_lift) (auto intro!: runs_pure)
    qed
  qed auto
qed auto

lemma rollout_planning_log:
  "\<exists>u s. snd (plan_profiled_rollout sha cd rv request commit created t) = t @ u \<and> planning_law s u
     \<and> (\<forall>p g. s = Delegating p g \<longrightarrow> admission_complete request p g)
     \<and> (ok (fst (plan_profiled_rollout sha cd rv request commit created t))
          \<longrightarrow> (\<exists>p g. progress s = Some (p, g) \<and> admission_complete request p g))"
  using planning.run_law [OF runs_rollout_planner [of sha cd rv request commit created], of t] by blast

end
