(* ===== verification/Json_Binding.thy ===== *)
theory Json_Binding
  imports Profiled_Planning
begin

text \<open>
  Serializers whose canonical JSON determines their argument. Every digest of the program is taken
  over the canonical bytes of such a serializer, so equal digests mean equal values up to a
  SHA-256 collision.
\<close>

section \<open>Serializers that determine their argument\<close>

definition binds :: "('a \<Rightarrow> json) \<Rightarrow> bool" where
  "binds f \<longleftrightarrow> (\<forall>x y. sort_keys (f x) = sort_keys (f y) \<longrightarrow> x = y)"

lemma bindsI: "(\<And>x y. sort_keys (f x) = sort_keys (f y) \<Longrightarrow> x = y) \<Longrightarrow> binds f"
  by (simp add: binds_def)

lemma bindsD: "binds f \<Longrightarrow> sort_keys (f x) = sort_keys (f y) \<Longrightarrow> x = y"
  by (simp add: binds_def)

lemma binds_list:
  assumes "binds f"
  shows "binds (\<lambda>xs. JArr (map f xs))"
proof (rule bindsI)
  fix xs ys assume "sort_keys (JArr (map f xs)) = sort_keys (JArr (map f ys))"
  then have "map (sort_keys \<circ> f) xs = map (sort_keys \<circ> f) ys" by (simp add: comp_def)
  then show "xs = ys"
    by (rule map_injective) (use assms in \<open>auto simp: binds_def inj_def\<close>)
qed

lemma binds_opt:
  assumes "binds f" and "\<And>x. sort_keys (f x) \<noteq> JNull"
  shows "binds (jopt f)"
proof (rule bindsI)
  fix x y assume "sort_keys (jopt f x) = sort_keys (jopt f y)"
  then show "x = y"
    using bindsD [OF assms(1)] assms(2) assms(2) [symmetric] by (cases x; cases y) auto
qed

lemma binds_str: "binds JStr"
  by (rule bindsI) simp

lemma binds_interface: "binds interface_json"
  by (rule bindsI) (rule interface_json_inject)

lemma binds_bytes: "binds f \<Longrightarrow> canonical_json_bytes (f x) = canonical_json_bytes (f y) \<longleftrightarrow> x = y"
  using json_print_inject by (auto simp: canonical_json_bytes_def dest: bindsD)

end
