(* ===== verification/Rollout_Digest.thy ===== *)
theory Rollout_Digest
  imports Rollout_Planning Json_Binding
begin

text \<open>
  What the digest of a rollout parent binds: the canonical JSON of its intent, population,
  expansion and cohorts is injective, and that of a child determines its stored artifact.
\<close>

section \<open>Lists of strings\<close>

lemma binds_strings: "binds strings_json"
  unfolding strings_json_def by (rule binds_list [OF binds_str])

lemma strings_json_eq [simp]: "sort_keys (strings_json a) = sort_keys (strings_json b) \<longleftrightarrow> a = b"
  using bindsD [OF binds_strings] by auto

lemma binds_opt_strings: "binds (jopt strings_json)"
  by (rule binds_opt [OF binds_strings]) (simp add: strings_json_def)

lemma opt_strings_eq [simp]:
  "sort_keys (jopt strings_json a) = sort_keys (jopt strings_json b) \<longleftrightarrow> a = b"
  using bindsD [OF binds_opt_strings] by auto

lemma rollout_value_inject [simp]:
  "operational_role_value a = operational_role_value b \<longleftrightarrow> a = b"
  "cml_realization_profile_id_value c = cml_realization_profile_id_value d \<longleftrightarrow> c = d"
  by (cases a; cases b; simp) (cases c; cases d; simp)

section \<open>Intents, selections and populations\<close>

lemma desired_json_eq [simp]: "sort_keys (desired_json a) = sort_keys (desired_json b) \<longleftrightarrow> a = b"
  by (simp add: desired_json_def)

lemma binds_member: "binds (\<lambda>m. JObj (member_fields m))"
proof (rule bindsI)
  fix m n assume "sort_keys (JObj (member_fields m)) = sort_keys (JObj (member_fields n))"
  note eq = sorted_objects_eq [OF this [unfolded member_fields_def]]
  show "m = n"
    using eq [of "''target''"] eq [of "''interface''"] eq [of "''desired''"] by simp
qed

lemma binds_policy: "binds policy_json"
proof (rule bindsI)
  fix p q assume "sort_keys (policy_json p) = sort_keys (policy_json q)"
  note eq = sorted_objects_eq [OF this [unfolded policy_json_def]]
  show "p = q" using eq [of "''wave_size''"] eq [of "''canaries''"] by simp
qed

lemma policy_json_eq [simp]: "sort_keys (policy_json a) = sort_keys (policy_json b) \<longleftrightarrow> a = b"
  using bindsD [OF binds_policy] by auto

lemma members_json_eq [simp]:
  "map (sort_keys \<circ> (\<lambda>m. JObj (member_fields m))) a = map (sort_keys \<circ> (\<lambda>m. JObj (member_fields m))) b
     \<longleftrightarrow> a = b"
  using bindsD [OF binds_list [OF binds_member], of a b] by (auto simp: comp_def)

lemma binds_intent: "binds intent_json"
proof (rule bindsI)
  fix r s assume "sort_keys (intent_json r) = sort_keys (intent_json s)"
  note eq = sorted_objects_eq [OF this [unfolded intent_json_def]]
  have "ri_members r = ri_members s"
    by (rule bindsD [OF binds_list [OF binds_member]]) (use eq [of "''members''"] in simp)
  then show "r = s" using eq [of "''change_id''"] eq [of "''policy''"] by simp
qed

lemma values_inject:
  assumes "map_option (map f) a = map_option (map f) b" and "\<And>x y. f x = f y \<Longrightarrow> x = y"
  shows "a = b"
proof -
  have "inj f" using assms(2) by (rule injI)
  then have "inj (map_option (map f))" by (intro option.inj_map list.inj_map)
  with assms(1) show ?thesis by (simp add: inj_eq)
qed

lemma binds_selector: "binds selector_json"
proof (rule bindsI)
  fix s t assume "sort_keys (selector_json s) = sort_keys (selector_json t)"
  note eq = sorted_objects_values [OF this [unfolded selector_json_def], simplified]
  have "sl_operational_roles s = sl_operational_roles t"
    by (rule values_inject [where f = operational_role_value]) (use eq in simp_all)
  moreover have "sl_network_oses s = sl_network_oses t"
    by (rule values_inject [where f = network_os_value]) (use eq in simp_all)
  moreover have "sl_automation_profile_ids s = sl_automation_profile_ids t"
    by (rule values_inject [where f = automation_profile_id_value]) (use eq in simp_all)
  ultimately show "s = t" by simp
qed

lemma binds_clause: "binds (\<lambda>c :: selector_clause. JObj [(''selector'', selector_json (cl_selector c)),
    (''interface'', JStr (cl_interface c)), (''desired'', desired_json (cl_desired c))])"
proof (rule bindsI)
  fix c d :: selector_clause
  let ?f = "\<lambda>c :: selector_clause. [(''selector'', selector_json (cl_selector c)),
    (''interface'', JStr (cl_interface c)), (''desired'', desired_json (cl_desired c))]"
  assume "sort_keys (JObj (?f c)) = sort_keys (JObj (?f d))"
  note eq = sorted_objects_values [OF this, simplified]
  have "cl_selector c = cl_selector d"
    by (rule bindsD [OF binds_selector]) (use eq in simp)
  then show "c = d" using eq by simp
qed

lemma binds_selection: "binds selection_json"
proof (rule bindsI)
  fix s t assume "sort_keys (selection_json s) = sort_keys (selection_json t)"
  note eq = sorted_objects_eq [OF this [unfolded selection_json_def]]
  have "se_explicit_members s = se_explicit_members t"
    by (rule bindsD [OF binds_list [OF binds_member]]) (use eq [of "''explicit_members''"] in simp)
  moreover have "se_selectors s = se_selectors t"
    by (rule bindsD [OF binds_list [OF binds_clause]]) (use eq [of "''selectors''"] in simp)
  ultimately show "s = t" using eq [of "''change_id''"] eq [of "''policy''"] by simp
qed

lemma binds_expanded: "binds expanded_json"
proof (rule bindsI)
  fix d e assume "sort_keys (expanded_json d) = sort_keys (expanded_json e)"
  note eq = sorted_objects_values [OF this [unfolded expanded_json_def member_fields_def append.simps],
      simplified]
  show "d = e"
    using eq by (cases "em_source_kind d"; cases "em_source_kind e") simp_all
qed

lemma binds_population_member: "binds population_member_json"
proof (rule bindsI)
  fix m n assume "sort_keys (population_member_json m) = sort_keys (population_member_json n)"
  note eq = sorted_objects_values [OF this [unfolded population_member_json_def], simplified]
  have "pm_staging_cml_realization_profile_id m = pm_staging_cml_realization_profile_id n"
    using eq
    by (cases "pm_staging_cml_realization_profile_id m"; cases "pm_staging_cml_realization_profile_id n")
      simp_all
  then show "m = n" using eq by simp
qed

section \<open>Children and parents\<close>

text \<open>What a child contributes to an approval: the exact artifact and its digests, the bound
  interface, both admissions and the device.\<close>

definition sealed_child where
  "sealed_child c = (ch_kind c, ch_artifact_json c, ch_artifact_digest c, ch_result_digest c,
     ch_interface c, ch_operation_admission c, ch_credential_admission c,
     dv_device_identity (ch_device c), dv_logical_name (ch_device c),
     dv_expected_hostname (ch_device c))"

lemma credential_admission_json_inject:
  fixes c d :: rollout_credential_admission
  assumes "sort_keys (JObj [(''authority'', JStr (cm_authority c)),
        (''device_identity'', JStr (cm_device_identity c)),
        (''credential_reference'', JStr (cm_credential_reference c)),
        (''permitted'', JBool True)])
      = sort_keys (JObj [(''authority'', JStr (cm_authority d)),
        (''device_identity'', JStr (cm_device_identity d)),
        (''credential_reference'', JStr (cm_credential_reference d)),
        (''permitted'', JBool True)])"
  shows "c = d"
proof -
  note eq = sorted_objects_eq [OF assms]
  show ?thesis
    using eq [of "''authority''"] eq [of "''device_identity''"] eq [of "''credential_reference''"]
    by simp
qed

lemma device_json_facts:
  assumes "sort_keys (device_json d) = sort_keys (device_json e)"
  shows "dv_device_identity d = dv_device_identity e \<and> dv_logical_name d = dv_logical_name e
     \<and> dv_expected_hostname d = dv_expected_hostname e"
proof -
  note eq = sorted_objects_values [OF assms [unfolded device_json_def], simplified]
  show ?thesis using eq by simp
qed

lemma child_json_seals:
  assumes "sort_keys (child_json c) = sort_keys (child_json d)"
  shows "sealed_child c = sealed_child d"
proof -
  note eq = sorted_objects_eq [OF assms [unfolded child_json_def]]
  have "ch_interface c = ch_interface d"
    by (rule interface_json_inject) (use eq [of "''interface''"] in simp)
  moreover have "ch_operation_admission c = ch_operation_admission d"
    by (rule admission_json_inject) (use eq [of "''operation_admission''"] in simp)
  moreover have "ch_credential_admission c = ch_credential_admission d"
    by (rule credential_admission_json_inject) (use eq [of "''credential_admission''"] in simp)
  moreover have "dv_device_identity (ch_device c) = dv_device_identity (ch_device d)
      \<and> dv_logical_name (ch_device c) = dv_logical_name (ch_device d)
      \<and> dv_expected_hostname (ch_device c) = dv_expected_hostname (ch_device d)"
    by (rule device_json_facts) (use eq [of "''device''"] in simp)
  moreover have "ch_kind c = ch_kind d"
    using eq [of "''kind''"] by (cases "ch_kind c"; cases "ch_kind d") simp_all
  ultimately show ?thesis
    using eq [of "''artifact_json''"] eq [of "''artifact_digest''"] eq [of "''result_digest''"]
    by (simp add: sealed_child_def)
qed

lemma parent_fields_distinct: "distinct (map fst (parent_fields r))"
  by (cases "ro_body r"; cases "ro_cohorts r") (auto simp: parent_fields_def cohort_fields_def)

lemma parent_field_eq:
  assumes "canonical_json_bytes (JObj (parent_fields r)) = canonical_json_bytes (JObj (parent_fields s))"
  shows "map_option sort_keys (map_of (parent_fields r) k) = map_option sort_keys (map_of (parent_fields s) k)"
  using assms by (rule canonical_fields_eq) (rule parent_fields_distinct)+

lemmas parent_fields_cases = parent_fields_def cohort_fields_def

lemma parent_bytes_bind_body:
  assumes "canonical_json_bytes (JObj (parent_fields r)) = canonical_json_bytes (JObj (parent_fields s))"
  shows "ro_body r = ro_body s"
proof -
  note eq = parent_field_eq [OF assms]
  note key = eq [unfolded parent_fields_def]
  show ?thesis
  proof (cases "ro_body r"; cases "ro_body s")
    fix a b assume [simp]: "ro_body r = Explicit_Body a" "ro_body s = Explicit_Body b"
    have "a = b" by (rule bindsD [OF binds_intent]) (use key [of "''intent''"] in simp)
    then show ?thesis by simp
  next
    fix a d e b d' e'
    assume [simp]: "ro_body r = Selected_Body a d e" "ro_body s = Selected_Body b d' e'"
    have "a = b" by (rule bindsD [OF binds_selection]) (use key [of "''intent''"] in simp)
    moreover have "d = d'"
    proof (rule bindsD [OF binds_list [OF binds_population_member]])
      have "sort_keys (JObj [(''members'', JArr (map population_member_json d))])
          = sort_keys (JObj [(''members'', JArr (map population_member_json d'))])"
        using key [of "''selected_population''"] by simp
      from sorted_objects_eq [OF this, of "''members''"]
      show "sort_keys (JArr (map population_member_json d)) = sort_keys (JArr (map population_member_json d'))"
        by simp
    qed
    moreover have "e = e'"
      by (rule bindsD [OF binds_list [OF binds_expanded]]) (use key [of "''expansion''"] in simp)
    ultimately show ?thesis by simp
  qed (use key [of "''schema_version''"] in simp_all)
qed

lemma parent_bytes_bind:
  assumes "canonical_json_bytes (JObj (parent_fields r)) = canonical_json_bytes (JObj (parent_fields s))"
  shows "ro_source_commit r = ro_source_commit s" and "ro_cohorts r = ro_cohorts s"
    and "map sealed_child (ro_children r) = map sealed_child (ro_children s)"
proof -
  note key = parent_field_eq [OF assms, unfolded parent_fields_def]
  show "ro_source_commit r = ro_source_commit s" using key [of "''source_commit''"] by simp
  have "map (sort_keys \<circ> child_json) (ro_children r) = map (sort_keys \<circ> child_json) (ro_children s)"
    using key [of "''children''"] by (simp add: comp_def)
  then have "list_all2 (\<lambda>c d. sort_keys (child_json c) = sort_keys (child_json d))
      (ro_children r) (ro_children s)"
    by (simp add: list_all2_conv_all_nth list_eq_iff_nth_eq)
  then have "list_all2 (\<lambda>c d. sealed_child c = sealed_child d) (ro_children r) (ro_children s)"
    by (rule list_all2_mono) (rule child_json_seals)
  then show "map sealed_child (ro_children r) = map sealed_child (ro_children s)"
    by (simp add: list_all2_conv_all_nth list_eq_iff_nth_eq)
  note body = parent_bytes_bind_body [OF assms]
  show "ro_cohorts r = ro_cohorts s"
  proof (cases "ro_cohorts r"; cases "ro_cohorts s")
    fix a b assume "ro_cohorts r = Some a" "ro_cohorts s = Some b"
    moreover obtain ca wa cb wb where "a = (ca, wa)" "b = (cb, wb)" by (cases a; cases b)
    ultimately have [simp]: "ro_cohorts r = Some (ca, wa)" "ro_cohorts s = Some (cb, wb)" by simp_all
    have "wa = wb"
      by (rule bindsD [OF binds_list [OF binds_strings]])
        (use key [of "''waves''"] body in \<open>cases "ro_body s"; simp add: cohort_fields_def\<close>)
    moreover have "ca = cb"
      by (rule bindsD [OF binds_strings])
        (use key [of "''canaries''"] body in \<open>cases "ro_body s"; simp add: cohort_fields_def\<close>)
    ultimately show ?thesis by simp
  qed (use key [of "''result_type''"] body in
    \<open>cases "ro_body s"; simp add: cohort_fields_def split: option.splits prod.splits\<close>)+
qed

end
