(* ===== verification/Rollout_Parents.thy ===== *)
theory Rollout_Parents
  imports Rollout_Laws Rollout_Digest
begin

text \<open>
  What the validators of a rollout parent establish: every member of the intent is represented by
  one child whose stored artifact says exactly what the intent asks, and the cohorts of a plan
  partition its deployable children.
\<close>

section \<open>Members\<close>

lemma rollout_intent_members:
  assumes "rollout_intent_valid r = Inr u"
  shows "distinct (map mi_target (ri_members r))" and "ri_members r \<noteq> []"
    and "length (ri_members r) \<le> MAX_MEMBERS" and "1 \<le> rp_wave_size (ri_policy r)"
  using assms
  by (auto simp: rollout_intent_valid_def rollout_policy_valid_def bindS_Inr_iff)

lemma member_intents_Inr:
  assumes "body_valid b = Inr u" and "member_intents b cs = Inr ms"
  shows "distinct (map mi_target ms) \<and> ms \<noteq> [] \<and> length ms \<le> MAX_MEMBERS
    \<and> 1 \<le> rp_wave_size (body_policy b)"
proof (cases b)
  case (Explicit_Body r)
  with assms rollout_intent_members [of r] show ?thesis by auto
next
  case (Selected_Body s declared expansion)
  with assms(2) obtain expected r where
    "explicit_intent s expected = Inr r" and ms: "ms = ri_members r"
    by (auto simp: selected_member_intents_def bindS_Inr_iff)
  then have "rollout_intent_valid r = Inr ()" and "ri_policy r = se_policy s"
    by (auto simp: explicit_intent_def Let_def bindS_Inr_iff)
  with rollout_intent_members [of r] ms Selected_Body show ?thesis by auto
qed

text \<open>A child stands for a member: its stored artifact decodes to a valid result that carries the
  requested target, interface and description on the child's device.\<close>

definition represents ::
    "(string \<Rightarrow> string) \<Rightarrow> child_codec \<Rightarrow> string \<Rightarrow> rollout_member_intent \<Rightarrow> rollout_child \<Rightarrow> bool" where
  "represents sha cd change m c \<longleftrightarrow> (\<exists>result. child_result_of sha cd c = Inr result
     \<and> kind_of_result result = ch_kind c \<and> result_valid sha result = Inr ()
     \<and> rf_change_id (facts_of result) = change \<and> rf_target (facts_of result) = mi_target m
     \<and> rf_desired_description (facts_of result) = mi_desired m
     \<and> rf_device_identity (facts_of result) = child_identity c
     \<and> rf_interface (facts_of result) = ch_interface c
     \<and> child_name c = mi_target m \<and> si_name (ch_interface c) = mi_interface m)"

lemma child_result_of_Inr:
  assumes "child_result_of sha cd c = Inr result"
  shows "kind_of_result result = ch_kind c" and "result_valid sha result = Inr ()"
    and "rf_digest (facts_of result) = ch_result_digest c"
    and "sha256_identity sha (ch_artifact_json c) = ch_artifact_digest c"
  using assms by (auto simp: child_result_of_def bindS_Inr_iff)

lemma rollout_child_result:
  assumes "rollout_child_valid sha cd c = Inr u"
  obtains result where "child_result_of sha cd c = Inr result"
    and "rf_target (facts_of result) = child_name c"
    and "rf_device_identity (facts_of result) = child_identity c"
    and "rf_interface (facts_of result) = ch_interface c"
proof -
  from assms obtain result target admission where "child_result_of sha cd c = Inr result"
    "child_facts_agree c (facts_of result) target admission"
    by (auto simp: rollout_child_valid_def bindS_Inr_iff)
  then show thesis
    by (intro that [of result]) (auto simp: child_facts_agree_def child_name_def child_identity_def)
qed

lemma represents_member:
  assumes "rollout_child_valid sha cd c = Inr u"
    and "child_result_of sha cd c = Inr result"
    and "admit_intent_result (child_intent change m) result = Inr v"
  shows "represents sha cd change m c"
proof -
  obtain result' where "child_result_of sha cd c = Inr result'"
    and f: "rf_target (facts_of result') = child_name c"
      "rf_device_identity (facts_of result') = child_identity c"
      "rf_interface (facts_of result') = ch_interface c"
    by (rule rollout_child_result [OF assms(1)])
  with assms(2) have "result' = result" by simp
  moreover from assms(3) have "rf_change_id (facts_of result) = change
      \<and> rf_target (facts_of result) = mi_target m \<and> si_name (rf_interface (facts_of result)) = mi_interface m
      \<and> rf_desired_description (facts_of result) = mi_desired m"
    by (auto simp: admit_intent_result_def bindS_Inr_iff child_intent_def)
  ultimately show ?thesis
    using f assms(2) child_result_of_Inr [OF assms(2)]
    unfolding represents_def by (intro exI [of _ result]) auto
qed

lemma list_all2_zip_mapS:
  assumes "mapS (\<lambda>(x, y). f x y) (zip xs ys) = Inr us" and "length ys = length xs"
    and "\<And>x y u. y \<in> set ys \<Longrightarrow> f x y = Inr u \<Longrightarrow> P x y"
  shows "list_all2 P xs ys"
proof -
  have "P (xs ! i) (ys ! i)" if "i < length xs" for i
    using mapS_nth [OF assms(1), of i] that assms(2,3) by auto
  then show ?thesis using assms(2) by (simp add: list_all2_conv_all_nth)
qed

definition parent_represents ::
    "(string \<Rightarrow> string) \<Rightarrow> child_codec \<Rightarrow> rollout_parent \<Rightarrow> rollout_member_intent list \<Rightarrow> bool" where
  "parent_represents sha cd r ms \<longleftrightarrow> member_intents (ro_body r) (ro_children r) = Inr ms
     \<and> ms \<noteq> [] \<and> length ms \<le> MAX_MEMBERS \<and> distinct (map mi_target ms)
     \<and> list_all2 (represents sha cd (body_change_id (ro_body r))) ms (ro_children r)
     \<and> distinct (map child_identity (ro_children r))
     \<and> distinct (map (\<lambda>c. si_interface (ch_interface c)) (ro_children r))"

lemma rollout_parent_members:
  assumes "rollout_parent_valid sha cd r = Inr u"
  obtains ms where "parent_represents sha cd r ms"
    and "ro_digest r = parent_calculated_digest sha r"
proof -
  from assms have b: "body_valid (ro_body r) = Inr ()"
    and c: "mapS (rollout_child_valid sha cd) (ro_children r) \<in> range Inr"
    and e: "exact_population sha cd r = Inr ()"
    by (auto simp: rollout_parent_valid_def bindS_Inr_iff)
  from c have kids: "rollout_child_valid sha cd k = Inr ()" if "k \<in> set (ro_children r)" for k
    using that by (auto simp: mapS_Inr_iff list_all2_conv_all_nth in_set_conv_nth)
  from e obtain ms us where ms: "member_intents (ro_body r) (ro_children r) = Inr ms"
    and l: "length (ro_children r) = length ms"
    and d: "distinct (map child_identity (ro_children r))"
      "distinct (map (\<lambda>c. si_interface (ch_interface c)) (ro_children r))"
    and m: "mapS (\<lambda>(m, c). bindS (child_result_of sha cd c) (\<lambda>result.
        admit_intent_result (child_intent (body_change_id (ro_body r)) m) result))
      (zip ms (ro_children r)) = Inr us"
    and dig: "ro_digest r = parent_calculated_digest sha r"
    by (auto simp: exact_population_def bindS_Inr_iff)
  have "list_all2 (represents sha cd (body_change_id (ro_body r))) ms (ro_children r)"
    by (rule list_all2_zip_mapS [OF m l]) (auto simp: bindS_Inr_iff intro: represents_member [OF kids])
  with ms d dig member_intents_Inr [OF b ms] show thesis
    by (intro that [of ms]) (simp_all add: parent_represents_def)
qed

lemma represented_names:
  assumes "list_all2 (represents sha cd change) ms cs"
  shows "map child_name cs = map mi_target ms"
  using assms by (induction rule: list_all2_induct) (auto simp: represents_def)

section \<open>Cohorts of a valid plan\<close>

definition partitions :: "rollout_policy \<Rightarrow> rollout_child list \<Rightarrow> string list \<Rightarrow> string list list \<Rightarrow> bool" where
  "partitions policy children cs ws \<longleftrightarrow> distinct (cs @ concat ws)
     \<and> set (cs @ concat ws) = child_identity ` set (deployables children)
     \<and> concat ws = filter (\<lambda>i. i \<notin> set cs) (map child_identity (deployables children))
     \<and> (\<forall>wave \<in> set ws. wave \<noteq> [] \<and> length wave \<le> nat (rp_wave_size policy))
     \<and> (\<forall>i. i + 1 < length ws \<longrightarrow> length (ws ! i) = nat (rp_wave_size policy))
     \<and> family ` {d \<in> set (deployables children). child_identity d \<in> set cs}
         = family ` set (deployables children)
     \<and> (length (deployables children) > card (family ` set (deployables children)) \<longrightarrow> ws \<noteq> [])"

lemma cohorts_partitions:
  assumes "cohorts policy children = Inr (cs, ws)" and "1 \<le> rp_wave_size policy"
    and "distinct (map child_name children)" and "distinct (map child_identity children)"
  shows "partitions policy children cs ws"
  unfolding partitions_def using cohorts_partition_lemma [OF assms] by blast

lemma parent_cohorts:
  assumes v: "rollout_parent_valid sha cd r = Inr u" and c: "ro_cohorts r = Some (cs, ws)"
  shows "partitions (body_policy (ro_body r)) (ro_children r) cs ws" and "cs \<noteq> []"
proof -
  obtain ms where ms: "parent_represents sha cd r ms" by (rule rollout_parent_members [OF v])
  then have names: "distinct (map child_name (ro_children r))"
    using represented_names unfolding parent_represents_def by metis
  from ms have ids: "distinct (map child_identity (ro_children r))"
    and mi: "member_intents (ro_body r) (ro_children r) = Inr ms"
    by (simp_all add: parent_represents_def)
  from v c have "cohorts (body_policy (ro_body r)) (ro_children r) = Inr (cs, ws)"
    and ne: "cs \<noteq> []" and b: "body_valid (ro_body r) = Inr ()"
    by (auto simp: rollout_parent_valid_def exact_cohorts_def cohort_fields_valid_def bindS_Inr_iff)
  then show "partitions (body_policy (ro_body r)) (ro_children r) cs ws"
    using cohorts_partitions names ids member_intents_Inr [OF b mi] by blast
  show "cs \<noteq> []" by (rule ne)
qed

lemma parent_without_cohorts:
  assumes "rollout_parent_valid sha cd r = Inr u" and "ro_cohorts r = None"
  shows "deployables (ro_children r) = []"
  using assms
  by (auto simp: rollout_parent_valid_def exact_cohorts_def bindS_Inr_iff deployables_def
      list_ex_iff filter_empty_conv)

section \<open>What the planner returns\<close>

lemma planned_parent:
  assumes "fst (plan_profiled_rollout sha cd rv request commit created t) = Inr r"
  shows "rollout_parent_valid sha cd r = Inr ()" and "ro_source_commit r = commit"
    and "request_valid request = Inr ()"
  using assms
  by (auto simp: plan_profiled_rollout_def eff_simps freeze_parent_def bindS_Inr_iff Let_def
      split: sum.splits prod.splits)

section \<open>Cohorts chosen by default\<close>

lemma default_cohorts:
  assumes p: "rp_canaries policy = None" and dn: "distinct (map child_name children)"
  shows "\<exists>cs ws. cohorts policy children = Inr (cs, ws)
    \<and> length cs = card (family ` set (deployables children))"
proof -
  obtain cs ws where c: "cohorts policy children = Inr (cs, ws)"
    using cohorts_default_total [OF p dn] by (metis surj_pair)
  obtain canaries where names: "map child_name canaries = cohort_canaries policy (deployables children)"
    and cs: "cs = map child_identity canaries"
    by (rule cohorts_Inr [OF c dn])
  let ?R = "family_representatives [] (deployables children)"
  have "length cs = length ?R"
    using cs arg_cong [OF names, of length] by (simp add: cohort_canaries_def p first_per_family_eq)
  also have "\<dots> = card (family ` set ?R)"
    using distinct_card [OF family_representatives_facts(2)] by (metis length_map list.set_map)
  finally show ?thesis using c family_representatives_facts(3) [of "[]"] by auto
qed

section \<open>Admission comes first\<close>

text \<open>Admission first: a log is empty, or one refused population, or a population, the admissions and
  the calls of the children, in this order; the children have begun, or a rollout was returned,
  only when every member had its decision.\<close>

definition admission_first :: "rollout_request \<Rightarrow> bool \<Rightarrow> revent list \<Rightarrow> bool" where
  "admission_first request success u \<longleftrightarrow>
     \<not> success \<and> (u = [] \<or> (\<exists>e. u = [population_event (Inl e)]))
     \<or> (\<exists>p a b. u = population_event (Inr p) # a @ b \<and> list_all admission_event a
          \<and> list_all child_event b
          \<and> (admission_complete request p (decisions a) \<or> b = [] \<and> \<not> success))"

lemma rollout_planning_admits_first:
  "\<exists>u. snd (plan_profiled_rollout sha cd rv request commit created t) = t @ u
     \<and> admission_first request (ok (fst (plan_profiled_rollout sha cd rv request commit created t))) u"
proof -
  let ?run = "plan_profiled_rollout sha cd rv request commit created t"
  obtain u s where u: "snd ?run = t @ u" and law: "planning_law s u"
    and d: "\<forall>p g. s = Delegating p g \<longrightarrow> admission_complete request p g"
    and k: "ok (fst ?run) \<longrightarrow> (\<exists>p g. progress s = Some (p, g) \<and> admission_complete request p g)"
    using rollout_planning_log [of sha cd rv request commit created t] by blast
  have "admission_first request (ok (fst ?run)) u"
  proof (cases s)
    case (Admitting p g)
    with law obtain a where "u = population_event (Inr p) # a @ []" "list_all admission_event a"
      "g = decisions a" by auto
    moreover have "admission_complete request p g \<or> \<not> ok (fst ?run)" using k Admitting by auto
    ultimately have "u = population_event (Inr p) # a @ [] \<and> list_all admission_event a
        \<and> list_all child_event []
        \<and> (admission_complete request p (decisions a) \<or> [] = [] \<and> \<not> ok (fst ?run))" by simp
    then show ?thesis unfolding admission_first_def by blast
  next
    case (Delegating p g)
    with law obtain a b where "u = population_event (Inr p) # a @ b" "list_all admission_event a"
      "g = decisions a" "list_all child_event b" by auto
    moreover have "admission_complete request p g" using d Delegating by simp
    ultimately show ?thesis unfolding admission_first_def by blast
  qed (use law k in \<open>auto simp: admission_first_def\<close>)
  with u show ?thesis by blast
qed

end
