(* ===== verification/Rollout_Properties.thy ===== *)
theory Rollout_Properties
  imports Rollout_Parents Execution_Properties
begin

text \<open>
  The properties of rollout planning (\<^verbatim>\<open>profiled_rollout.py\<close>), with a rollout of the sample core
  router as the concrete input of the witnesses.
\<close>

section \<open>The sample rollout\<close>

definition sample_codec :: child_codec where
  "sample_codec = \<lparr>cd_dump = (\<lambda>_. ''plan''),
     cd_decode = (\<lambda>k s. if k = DEPLOYABLE \<and> s = ''plan'' then Inr (Plan_Result (sample_plan sample_core))
        else Inl (ValueError ''json''))\<rparr>"

definition sample_child :: rollout_child where
  "sample_child = \<lparr>ch_device = sample_core, ch_interface = sample_interface sample_core ''Gi2'',
     ch_operation_admission = cisco_admission CAT8000V_IOSXE IOSXE,
     ch_credential_admission = \<lparr>cm_authority = ''ncdp-buildkite-profiled-deploy'', cm_device_identity = ''netbox:dcim.device:1'',
       cm_credential_reference = cf_reference (sample_reference ''1'')\<rparr>,
     ch_kind = DEPLOYABLE, ch_artifact_json = ''plan'',
     ch_artifact_digest = sha256_identity sample_sha ''plan'',
     ch_result_digest = pp_digest (sample_plan sample_core)\<rparr>"

definition sample_policy :: rollout_policy where
  "sample_policy = \<lparr>rp_wave_size = 1, rp_canaries = None\<rparr>"

definition sample_member :: rollout_member_intent where
  "sample_member = \<lparr>mi_target = ''core-02'', mi_interface = ''Gi2'', mi_desired = ''uplink''\<rparr>"

definition sample_rollout_intent :: rollout_intent where
  "sample_rollout_intent = \<lparr>ri_change_id = ''CHG-1'', ri_members = [sample_member],
     ri_policy = sample_policy\<rparr>"

definition sample_unsigned_parent :: rollout_parent where
  "sample_unsigned_parent = \<lparr>ro_source_commit = replicate 40 CHR ''a'',
     ro_body = Explicit_Body sample_rollout_intent, ro_children = [sample_child],
     ro_cohorts = Some ([''netbox:dcim.device:1''], []), ro_digest = ''''\<rparr>"

definition sample_parent :: rollout_parent where
  "sample_parent = sample_unsigned_parent
     \<lparr>ro_digest := parent_calculated_digest sample_sha sample_unsigned_parent\<rparr>"

lemma sample_digest: "sha256_pattern (sha256_identity sample_sha x)"
proof -
  have "sha256_pattern (''sha256:'' @ replicate 64 CHR ''0'')" by code_simp
  then show ?thesis by (simp add: sha256_identity_def sample_sha_def)
qed

lemma facts_of_unsigned:
  "facts_of (Plan_Result ((unsigned_plan intent d i st c time a t)\<lparr>pp_digest := g\<rparr>)) =
     \<lparr>rf_digest = g, rf_change_id = in_change_id intent, rf_target = dv_logical_name d,
      rf_device_identity = dv_device_identity d, rf_interface = i,
      rf_platform_slug = nf_slug (dv_platform d), rf_network_os = dv_network_os d,
      rf_automation_profile_id = dv_automation_profile_id d, rf_host = rt_host t, rf_port = rt_port t,
      rf_expected_hostname = dv_expected_hostname d, rf_credential_reference = cf_reference c,
      rf_desired_description = in_desired intent\<rparr>"
  by (simp add: unsigned_plan_def split: prod.splits)

lemma sample_child_facts:
  "\<exists>g. pp_digest (sample_plan sample_core) = g \<and> sha256_pattern g
     \<and> facts_of (Plan_Result (sample_plan sample_core)) =
     \<lparr>rf_digest = g, rf_change_id = ''CHG-1'', rf_target = dv_logical_name sample_core,
      rf_device_identity = dv_device_identity sample_core, rf_interface = sample_interface sample_core ''Gi2'',
      rf_platform_slug = nf_slug (dv_platform sample_core), rf_network_os = dv_network_os sample_core,
      rf_automation_profile_id = dv_automation_profile_id sample_core,
      rf_host = ''192.168.1.1'', rf_port = 22,
      rf_expected_hostname = dv_expected_hostname sample_core,
      rf_credential_reference = cf_reference (sample_reference ''1''), rf_desired_description = ''uplink''\<rparr>"
proof -
  define g where "g = plan_calculated_digest sample_sha (unsigned_plan (sample_intent sample_core) sample_core
      (sample_interface sample_core ''Gi2'') (sample_state sample_core (Some ''old''))
      (sample_reference ''1'') sample_time (cisco_admission CAT8000V_IOSXE IOSXE)
      (sample_target sample_core ''192.168.1.1'' 22))"
  have p: "sample_plan sample_core = (unsigned_plan (sample_intent sample_core) sample_core
      (sample_interface sample_core ''Gi2'') (sample_state sample_core (Some ''old''))
      (sample_reference ''1'') sample_time (cisco_admission CAT8000V_IOSXE IOSXE)
      (sample_target sample_core ''192.168.1.1'' 22))\<lparr>pp_digest := g\<rparr>"
    unfolding g_def sample_plan_fields Let_def ..
  have "sha256_pattern g" unfolding g_def plan_calculated_digest_def by (rule sample_digest)
  moreover have "pp_digest (sample_plan sample_core) = g" unfolding p by simp
  ultimately show ?thesis
    unfolding p facts_of_unsigned by (simp add: sample_intent_def sample_target_def)
qed

lemma sample_child_result:
  "child_result_of sample_sha sample_codec sample_child = Inr (Plan_Result (sample_plan sample_core))"
proof -
  have "utf8_length ''plan'' = 4" by code_simp
  then have "utf8_length ''plan'' \<le> MAX_CHILD_BYTES" by (simp add: MAX_CHILD_BYTES_def)
  then show ?thesis
    unfolding child_result_of_def
    using sample_plan_facts(1) by (simp add: sample_child_def sample_codec_def)
qed

lemma sample_child_valid: "rollout_child_valid sample_sha sample_codec sample_child = Inr ()"
proof -
  have a: "profiled_operation_admission_valid (ch_operation_admission sample_child) = Inr ()"
    using admitted_operation_valid [of CAT8000V_IOSXE INTERFACE_DESCRIPTION] by (simp add: sample_child_def)
  have c: "rollout_credential_admission_valid (ch_credential_admission sample_child) = Inr ()"
    unfolding sample_child_def rollout_child.select_convs by code_simp
  have i: "stable_interface_valid (ch_interface sample_child)"
    unfolding sample_child_def rollout_child.select_convs by code_simp
  have "ok (admit_profiled_device sample_core PROFILED_MANAGED_POPULATION False)" by code_simp
  then obtain m where d: "admit_profiled_device sample_core PROFILED_MANAGED_POPULATION False = Inr m"
    by (cases "admit_profiled_device sample_core PROFILED_MANAGED_POPULATION False") auto
  obtain g where g: "pp_digest (sample_plan sample_core) = g" "sha256_pattern g"
    and fs: "facts_of (Plan_Result (sample_plan sample_core)) =
     \<lparr>rf_digest = g, rf_change_id = ''CHG-1'', rf_target = dv_logical_name sample_core,
      rf_device_identity = dv_device_identity sample_core, rf_interface = sample_interface sample_core ''Gi2'',
      rf_platform_slug = nf_slug (dv_platform sample_core), rf_network_os = dv_network_os sample_core,
      rf_automation_profile_id = dv_automation_profile_id sample_core,
      rf_host = ''192.168.1.1'', rf_port = 22,
      rf_expected_hostname = dv_expected_hostname sample_core,
      rf_credential_reference = cf_reference (sample_reference ''1''), rf_desired_description = ''uplink''\<rparr>"
    using sample_child_facts by blast
  have f: "child_facts_agree sample_child (facts_of (Plan_Result (sample_plan sample_core)))
      (sample_target sample_core ''192.168.1.1'' 22) (cisco_admission CAT8000V_IOSXE IOSXE)"
    unfolding fs child_facts_agree_def
    unfolding sample_child_def rollout_child.select_convs sample_target_def
    by (simp add: result_facts.defs, code_simp)
  have dev: "ch_device sample_child = sample_core"
    and int: "ch_interface sample_child = sample_interface sample_core ''Gi2''"
    by (simp_all add: sample_child_def)
  have fields: "checks
     [(\<not> stable_interface_valid (ch_interface sample_child), ValueError ''interface''),
      (ch_artifact_json sample_child = [] \<or> length (ch_artifact_json sample_child) > MAX_CHILD_BYTES,
        ValueError ''artifact_json''),
      (\<not> sha256_pattern (ch_artifact_digest sample_child) \<or> \<not> sha256_pattern (ch_result_digest sample_child),
        ValueError ''child digest'')] = Inr ()"
    using i g sample_digest by (simp add: sample_child_def MAX_CHILD_BYTES_def)
  have intent: "intent_valid (sample_intent sample_core) = Inr ()" by code_simp
  have "\<lparr>in_change_id = ''CHG-1'', in_target = dv_logical_name sample_core,
      in_interface = si_name (sample_interface sample_core ''Gi2''), in_desired = ''uplink''\<rparr>
      = sample_intent sample_core"
    by (simp add: sample_intent_def sample_interface_def)
  then show ?thesis
    using a c d f fields intent sample_bindings(1)
    unfolding rollout_child_valid_def sample_child_result dev sample_core_valid sample_core_live
      sample_core_admitted
    by (simp add: Let_def int fs del: facts_of.simps)
qed

lemma sample_body_valid:
  "rollout_intent_valid sample_rollout_intent = Inr ()"
  "git_commit_pattern (ro_source_commit sample_parent)"
  "cohort_fields_valid (ro_cohorts sample_parent)"
  by (simp_all only: sample_parent_def sample_unsigned_parent_def rollout_parent.simps) code_simp+

lemma sample_child_shape:
  "ch_kind sample_child = DEPLOYABLE" "child_name sample_child = ''core-02''"
  "child_identity sample_child = ''netbox:dcim.device:1''"
  by (simp_all add: sample_child_def child_name_def child_identity_def sample_core_def)

lemma sample_cohorts: "cohorts sample_policy [sample_child] = Inr ([''netbox:dcim.device:1''], [])"
  by (simp add: cohorts_def deployables_def sample_child_shape dict_keys_def cohort_canaries_def
      sample_policy_def identity_of_name_def by_name_def dict_get_def Let_def
      child_name_def [symmetric])

lemma sample_parent_valid: "rollout_parent_valid sample_sha sample_codec sample_parent = Inr ()"
proof -
  have sel: "ro_children sample_parent = [sample_child]"
    "ro_body sample_parent = Explicit_Body sample_rollout_intent"
    "ro_cohorts sample_parent = Some ([''netbox:dcim.device:1''], [])"
    by (simp_all add: sample_parent_def sample_unsigned_parent_def)
  have digest: "ro_digest sample_parent = parent_calculated_digest sample_sha sample_parent"
    by (simp add: sample_parent_def parent_calculated_digest_def parent_fields_def
        del: body_fields.simps)
  then have "sha256_pattern (ro_digest sample_parent)"
    by (simp only: parent_calculated_digest_def sample_digest)
  moreover have "admit_intent_result (child_intent ''CHG-1'' sample_member)
      (Plan_Result (sample_plan sample_core)) = Inr ()"
  proof -
    have intent: "intent_valid (child_intent ''CHG-1'' sample_member) = Inr ()" by code_simp
    have name: "dv_logical_name sample_core = ''core-02''"
      "si_name (sample_interface sample_core ''Gi2'') = ''Gi2''"
      by (simp_all add: sample_core_def sample_interface_def)
    show ?thesis
      using sample_child_facts intent
      by (auto simp: admit_intent_result_def child_intent_def sample_member_def name
          simp del: facts_of.simps)
  qed
  ultimately show ?thesis
    unfolding rollout_parent_valid_def exact_population_def exact_cohorts_def sel
    using sample_body_valid digest sample_child_valid sample_child_result sample_cohorts
    by (simp add: sel sample_rollout_intent_def MAX_MEMBERS_def)
qed

section \<open>Properties\<close>

text \<open>C21: planning a rollout admits first. Whatever the providers answer, the calls of
  \<^verbatim>\<open>plan_profiled_rollout\<close> are the population, then the resolutions and credential decisions of
  the members, then the read calls of the child plannings, in this order and without any write; no
  child is planned, so no credential is referenced or loaded, and no rollout is returned, unless the
  population was valid and every member of the intent, expanded over that population, had a valid
  decision for its own device, all devices distinct.\<close>

theorem rollout_admits_before_planning:
  "\<exists>u. snd (plan_profiled_rollout sha cd rv request commit created t) = t @ u
     \<and> admission_first request (ok (fst (plan_profiled_rollout sha cd rv request commit created t))) u"
  by (rule rollout_planning_admits_first)

text \<open>C22: a valid rollout parent positively represents every selected member. Its children stand one for
  one, in order, for the members of the intent (re-expanded over the frozen population for a
  selection), on distinct devices and interfaces; each child's stored bytes decode to a valid plan
  or compliance record which carries the member's target, interface and description on that
  device; and the digest is the one of the contents. Every parent the planner returns is valid.\<close>

theorem parent_represents_every_member:
  assumes "rollout_parent_valid sha cd r = Inr ()
    \<or> fst (plan_profiled_rollout sha cd rv request commit created t) = Inr r"
  shows "\<exists>ms. parent_represents sha cd r ms \<and> ro_digest r = parent_calculated_digest sha r"
proof -
  from assms have "rollout_parent_valid sha cd r = Inr ()" using planned_parent(1) by blast
  then show ?thesis by (rule rollout_parent_members) blast
qed

theorem parent_represents_every_member_witness:
  "\<exists>ms. parent_represents sample_sha sample_codec sample_parent ms"
  using parent_represents_every_member [OF disjI1 [OF sample_parent_valid]] by blast

text \<open>C23: the cohorts of a valid rollout plan partition its deployable children. Canaries and waves
  together name each deployable device exactly once and no compliant one; the waves keep the order
  of the children, are non-empty, none is longer than the reviewed wave size and all but the last
  are full; the canaries are not empty and cover exactly the adapter and recovery families of the
  deployable children; and a wave is left whenever there are more devices than families.\<close>

theorem rollout_cohorts_partition:
  assumes "rollout_parent_valid sha cd r = Inr ()" and "ro_cohorts r = Some (cs, ws)"
  shows "partitions (body_policy (ro_body r)) (ro_children r) cs ws \<and> cs \<noteq> []"
  using parent_cohorts [OF assms] by blast

theorem rollout_cohorts_partition_witness:
  "partitions sample_policy [sample_child] [''netbox:dcim.device:1''] []"
  using rollout_cohorts_partition [OF sample_parent_valid, of "[''netbox:dcim.device:1'']" "[]"]
  by (simp add: sample_parent_def sample_unsigned_parent_def sample_rollout_intent_def)

text \<open>Without explicit canaries the cohort rule never rejects. On children with distinct names the
  first deployable child of each family becomes a canary, the exact-cover and the remaining-wave
  checks always pass, and there are exactly as many canaries as deployable families.\<close>

theorem default_canaries_never_reject:
  assumes "rp_canaries policy = None" and "distinct (map child_name children)"
  shows "\<exists>cs ws. cohorts policy children = Inr (cs, ws)
    \<and> length cs = card (family ` set (deployables children))"
  using assms by (rule default_cohorts)

theorem default_canaries_never_reject_witness:
  "\<exists>cs ws. cohorts sample_policy [sample_child] = Inr (cs, ws)
    \<and> length cs = card (family ` set (deployables [sample_child]))"
  by (rule default_canaries_never_reject) (simp_all add: sample_policy_def)

text \<open>C24: selector expansion is exact. The expansion of a selection is the explicit members in their
  order followed, clause by clause, by the declared members the clause selects in the order of the
  declaration; every target is declared, no target occurs twice, and there are at most a hundred.\<close>

theorem expansion_is_exact:
  assumes "expand s declared = Inr es"
  shows "map (mi_target \<circ> em_member) es = map mi_target (se_explicit_members s)
         @ concat (map (\<lambda>c. map pm_logical_name (filter (selects (cl_selector c)) declared)) (se_selectors s))
     \<and> set (map (mi_target \<circ> em_member) es) \<subseteq> pm_logical_name ` set declared
     \<and> distinct (map (mi_target \<circ> em_member) es) \<and> length es \<le> 100"
  using expand_Inr [OF assms] by (simp only: MAX_MEMBERS_def simp_thms)

definition sample_selection :: selection_intent where
  "sample_selection = \<lparr>se_change_id = ''CHG-2'', se_explicit_members = [sample_member],
     se_selectors = [\<lparr>cl_selector = \<lparr>sl_operational_roles = Some [EDGE], sl_network_oses = None,
        sl_automation_profile_ids = None\<rparr>, cl_interface = ''ge-0/0/1'', cl_desired = ''uplink''\<rparr>],
     se_policy = sample_policy\<rparr>"

theorem expansion_is_exact_witness:
  "case expand sample_selection PROFILED_MANAGED_POPULATION of
     Inr es \<Rightarrow> distinct (map (mi_target \<circ> em_member) es) \<and> es \<noteq> [] | Inl _ \<Rightarrow> False"
proof -
  have "\<not> (case expand sample_selection PROFILED_MANAGED_POPULATION of Inr es \<Rightarrow> es = [] | Inl _ \<Rightarrow> True)"
    by code_simp
  then obtain es where es: "expand sample_selection PROFILED_MANAGED_POPULATION = Inr es" "es \<noteq> []"
    by (cases "expand sample_selection PROFILED_MANAGED_POPULATION") auto
  show ?thesis using expansion_is_exact [OF es(1)] unfolding es(1) sum.case by (intro conjI es(2)) blast
qed

text \<open>C25: the digest of a rollout parent binds what was approved. Two parents with the same calculated
  digest, and no SHA-256 collision between their canonical bytes, have the same commit, the same
  intent (members, descriptions, policy; for a selection also the frozen population and the
  expansion), the same canaries and waves in the same order, and child by child the same artifact
  bytes, digests, interface, admissions and device.\<close>

theorem rollout_digest_binds_parent:
  assumes "parent_calculated_digest sha r = parent_calculated_digest sha s"
    and "sha (canonical_json_bytes (JObj (parent_fields r))) = sha (canonical_json_bytes (JObj (parent_fields s)))
      \<Longrightarrow> canonical_json_bytes (JObj (parent_fields r)) = canonical_json_bytes (JObj (parent_fields s))"
  shows "ro_source_commit r = ro_source_commit s \<and> ro_body r = ro_body s
    \<and> ro_cohorts r = ro_cohorts s \<and> map sealed_child (ro_children r) = map sealed_child (ro_children s)"
proof -
  have "canonical_json_bytes (JObj (parent_fields r)) = canonical_json_bytes (JObj (parent_fields s))"
    using assms by (simp add: parent_calculated_digest_def sha256_identity_def)
  then show ?thesis using parent_bytes_bind parent_bytes_bind_body by blast
qed

theorem rollout_digest_binds_parent_witness:
  "ro_cohorts sample_parent = ro_cohorts sample_unsigned_parent"
proof -
  have "parent_calculated_digest id sample_parent = parent_calculated_digest id sample_unsigned_parent"
    by (simp add: sample_parent_def parent_calculated_digest_def parent_fields_def del: body_fields.simps)
  then show ?thesis
    using rollout_digest_binds_parent [where sha = id and r = sample_parent and s = sample_unsigned_parent]
    by simp
qed

end
