(* ===== verification/Approval.thy ===== *)
theory Approval
  imports Profiled_Rollout
begin

text \<open>
  \<^verbatim>\<open>profiled_promotion.py\<close>: the Buildkite context, engineering receipts, the promotion of one
  profiled plan and its authorization. \<^verbatim>\<open>hashlib.sha256(...).hexdigest()\<close> is the parameter \<open>sha\<close>; the
  JSON readers of stored artifacts are the parameter \<open>approval_codec\<close>, whose values the code
  validates again.
\<close>

section \<open>Identities and context\<close>

definition checked_digest :: "string \<Rightarrow> string res" where
  "checked_digest v = (if sha256_pattern v then Inr v
     else Inl (ValueError ''required success digest missing or invalid''))"

text \<open>\<^verbatim>\<open>str(UUID(value)) == value\<close>: the canonical form, lower-case hexadecimal in groups of
  8, 4, 4, 4 and 12.\<close>

definition canonical_uuid :: "string \<Rightarrow> bool" where
  "canonical_uuid s \<longleftrightarrow> map length (split_on CHR ''-'' s) = [8, 4, 4, 4, 12]
     \<and> list_all (list_all is_lower_hex) (split_on CHR ''-'' s)"

definition checked_uuid :: "string \<Rightarrow> string res" where
  "checked_uuid v = (if canonical_uuid v then Inr v
     else Inl (ValueError ''Buildkite identity rejected''))"

definition VALIDATION_KEYS :: "string list" where
  "VALIDATION_KEYS =
    [''quality-env'', ''quality-committed-diff'', ''quality-ruff-lint'', ''quality-ruff-format'',
     ''quality-pytest'', ''quality-ansible-lint'', ''quality-package-build'',
     ''quality-terraform-profiled-staging'', ''quality-snmp-generator'',
     ''quality-observability-runtime'', ''quality-snmpv3-synthetic'', ''buildkite-definition'',
     ''ncdp-pipeline-contract'']"

definition MAIN_KEYS :: "string list" where
  "MAIN_KEYS = [''profiled-live-plan'', ''profiled-promotion'', ''profiled-human-authorization'',
     ''profiled-deploy'', ''profiled-deployment-evidence'']"

definition ROLLOUT_KEYS :: "string list" where
  "ROLLOUT_KEYS = [''profiled-rollout-live-plan'', ''profiled-rollout-promotion'',
     ''profiled-rollout-human-authorization'', ''profiled-rollout-deploy'']"

definition CANONICAL_REPOSITORIES :: "string list" where
  "CANONICAL_REPOSITORIES =
    [''https://github.com/Atheer-Kareem/network-change-delivery-platform.git'',
     ''git@github.com:Atheer-Kareem/network-change-delivery-platform.git'']"

record build_context =
  bc_build_id :: string
  bc_commit :: string
  bc_job_id :: string
  bc_step :: string

type_synonym environment = "string \<Rightarrow> string option"

definition env_or :: "environment \<Rightarrow> string \<Rightarrow> string" where
  "env_or env k = (case env k of None \<Rightarrow> [] | Some v \<Rightarrow> v)"

definition DEPLOY_STEPS :: "string list" where
  "DEPLOY_STEPS = [''profiled-live-plan'', ''profiled-rollout-live-plan'', ''profiled-deploy'',
     ''profiled-rollout-deploy'']"

definition expected_queue :: "string \<Rightarrow> string" where
  "expected_queue step = (if List.member DEPLOY_STEPS step then ''ncdp-deploy'' else ''ncdp-validation'')"

definition context_from_environment :: "environment \<Rightarrow> bool \<Rightarrow> build_context res" where
  "context_from_environment env main =
    (let step = env_or env ''BUILDKITE_STEP_KEY'' in
     bindS (checks
      [((case env ''BUILDKITE_REPO'' of None \<Rightarrow> True
           | Some r \<Rightarrow> \<not> List.member CANONICAL_REPOSITORIES r)
         \<or> env ''BUILDKITE_RETRY_COUNT'' \<noteq> Some ''0''
         \<or> env ''BUILDKITE_AGENT_META_DATA_QUEUE'' \<noteq> Some (expected_queue step)
         \<or> \<not> git_commit_pattern (env_or env ''BUILDKITE_COMMIT'')
         \<or> main \<and> (\<not> List.member (MAIN_KEYS @ ROLLOUT_KEYS) step
              \<or> env ''BUILDKITE_BRANCH'' \<noteq> Some ''main''
              \<or> env ''BUILDKITE_PULL_REQUEST'' \<noteq> Some ''false''
              \<or> env_or env ''BUILDKITE_PULL_REQUEST_REPO'' \<noteq> [])
         \<or> \<not> main \<and> \<not> List.member VALIDATION_KEYS step,
        ValueError ''profiled Buildkite context rejected'')]) (\<lambda>_.
     bindS (checked_uuid (env_or env ''BUILDKITE_BUILD_ID'')) (\<lambda>build.
     bindS (checked_uuid (env_or env ''BUILDKITE_JOB_ID'')) (\<lambda>job.
     Inr \<lparr>bc_build_id = build, bc_commit = env_or env ''BUILDKITE_COMMIT'', bc_job_id = job,
          bc_step = step\<rparr>))))"

section \<open>Engineering receipts\<close>

definition validation_receipt :: "(string \<Rightarrow> string) \<Rightarrow> string \<Rightarrow> string \<Rightarrow> string \<Rightarrow> string res" where
  "validation_receipt sha build commit step =
    (if \<not> List.member VALIDATION_KEYS step then Inl (ValueError ''unknown validation receipt'')
     else Inr (sha256_identity sha
       (''profiled-validation:'' @ build @ '':'' @ commit @ '':'' @ step)))"

text \<open>\<^verbatim>\<open>json.dumps(d, sort_keys=True)\<close> of a dict of strings, with the default separators.\<close>

fun spaced :: "string list \<Rightarrow> string" where
  "spaced [] = []"
| "spaced [x] = x"
| "spaced (x # y # zs) = x @ '', '' @ spaced (y # zs)"

definition dumps_strings :: "(string \<times> string) list \<Rightarrow> string" where
  "dumps_strings d = CHR 0x7B # spaced (map (\<lambda>(k, v). quote k @ '': '' @ quote v) (sort_key fst d)) @ [CHR 0x7D]"

text \<open>A mapping is its list of items, with distinct keys.\<close>

definition verify_validation ::
    "(string \<Rightarrow> string) \<Rightarrow> build_context \<Rightarrow> (string \<times> string) list \<Rightarrow> string res" where
  "verify_validation sha ctx receipts =
    bindS (checks
     [(\<not> same_set (map fst receipts) VALIDATION_KEYS
        \<or> list_ex (\<lambda>k. map_option Inr (map_of receipts k)
             \<noteq> Some (validation_receipt sha (bc_build_id ctx) (bc_commit ctx) k)) VALIDATION_KEYS,
       ValueError ''engineering validation prerequisites missing or invalid'')])
    (\<lambda>_. Inr (sha256_identity sha (dumps_strings receipts)))"

section \<open>Promotion of one plan\<close>

record profiled_promotion =
  pm2_build_id :: string
  pm2_commit :: string
  pm2_change_id :: string
  pm2_target :: string
  pm2_device_identity :: string
  pm2_plan_digest :: string
  pm2_plan_artifact_digest :: string
  pm2_validation_digest :: string
  pm2_batfish_digest :: string
  pm2_cml_digest :: string
  pm2_digest :: string

definition promotion_fields :: "profiled_promotion \<Rightarrow> (string \<times> json) list" where
  "promotion_fields p =
    [(''schema_version'', JStr ''2''), (''promotion_type'', JStr ''profiled_buildkite_promotion''),
     (''build_id'', JStr (pm2_build_id p)), (''commit'', JStr (pm2_commit p)),
     (''change_id'', JStr (pm2_change_id p)), (''target'', JStr (pm2_target p)),
     (''device_identity'', JStr (pm2_device_identity p)),
     (''plan_digest'', JStr (pm2_plan_digest p)),
     (''plan_artifact_digest'', JStr (pm2_plan_artifact_digest p)),
     (''validation_digest'', JStr (pm2_validation_digest p)),
     (''batfish_digest'', JStr (pm2_batfish_digest p)),
     (''cml_digest'', JStr (pm2_cml_digest p))]"

definition promotion_digest :: "(string \<Rightarrow> string) \<Rightarrow> profiled_promotion \<Rightarrow> string" where
  "promotion_digest sha p = sha256_identity sha (canonical_json_bytes (JObj (promotion_fields p)))"

definition promotion_valid :: "(string \<Rightarrow> string) \<Rightarrow> profiled_promotion \<Rightarrow> unit res" where
  "promotion_valid sha p =
    bindS (checks
     [(\<not> cli_bound_string (pm2_change_id p) \<or> length (pm2_change_id p) > 255, ValueError ''change_id''),
      (\<not> profiled_logical_name (pm2_target p), ValueError ''target''),
      (\<not> netbox_identity ''dcim.device'' (pm2_device_identity p), ValueError ''device_identity''),
      (\<not> list_all sha256_pattern [pm2_plan_digest p, pm2_plan_artifact_digest p,
          pm2_validation_digest p, pm2_batfish_digest p, pm2_cml_digest p, pm2_digest p],
        ValueError ''digest'')]) (\<lambda>_.
    bindS (checked_uuid (pm2_build_id p)) (\<lambda>_.
    bindS (declaration_member PROFILED_MANAGED_POPULATION (pm2_target p)) (\<lambda>m. checks
     [(pm_device_identity m \<noteq> pm2_device_identity p,
        ValueError ''promotion population pairing rejected''),
      (\<not> git_commit_pattern (pm2_commit p) \<or> pm2_digest p \<noteq> promotion_digest sha p,
        ValueError ''profiled promotion binding rejected'')])))"

record approval_codec =
  ac_plan :: "string \<Rightarrow> profiled_deployment_plan res"
  ac_promotion :: "string \<Rightarrow> profiled_promotion res"

definition read_plan ::
    "(string \<Rightarrow> string) \<Rightarrow> approval_codec \<Rightarrow> string \<Rightarrow> profiled_deployment_plan res" where
  "read_plan sha ac raw = bindS (ac_plan ac raw) (\<lambda>p. bindS (profiled_plan_valid sha p) (\<lambda>_. Inr p))"

definition read_promotion ::
    "(string \<Rightarrow> string) \<Rightarrow> approval_codec \<Rightarrow> string \<Rightarrow> profiled_promotion res" where
  "read_promotion sha ac raw = bindS (ac_promotion ac raw) (\<lambda>p. bindS (promotion_valid sha p) (\<lambda>_. Inr p))"

definition promote ::
    "(string \<Rightarrow> string) \<Rightarrow> approval_codec \<Rightarrow> build_context \<Rightarrow> string \<Rightarrow> (string \<times> string) list
      \<Rightarrow> string \<Rightarrow> string \<Rightarrow> interface_description_intent \<Rightarrow> profiled_promotion res" where
  "promote sha ac ctx plan_bytes receipts batfish cml intent =
    bindS (intent_valid intent) (\<lambda>_.
    bindS (read_plan sha ac plan_bytes) (\<lambda>plan.
    bindS (admit_intent_result intent (Plan_Result plan)) (\<lambda>_.
    bindS (verify_validation sha ctx receipts) (\<lambda>validation.
    bindS (checked_digest batfish) (\<lambda>batfish.
    bindS (checked_digest cml) (\<lambda>cml.
    let unsigned = \<lparr>pm2_build_id = bc_build_id ctx, pm2_commit = bc_commit ctx,
          pm2_change_id = pp_change_id plan, pm2_target = pp_target plan,
          pm2_device_identity = pp_device_identity plan, pm2_plan_digest = pp_digest plan,
          pm2_plan_artifact_digest = sha256_identity sha plan_bytes,
          pm2_validation_digest = validation, pm2_batfish_digest = batfish,
          pm2_cml_digest = cml, pm2_digest = ''sha256:'' @ replicate 64 CHR ''0''\<rparr>;
        p = unsigned\<lparr>pm2_digest := promotion_digest sha unsigned\<rparr>
    in bindS (promotion_valid sha p) (\<lambda>_. Inr p)))))))"

definition authorize ::
    "(string \<Rightarrow> string) \<Rightarrow> approval_codec \<Rightarrow> build_context \<Rightarrow> string \<Rightarrow> string
      \<Rightarrow> (string \<times> string) list \<Rightarrow> string \<Rightarrow> string \<Rightarrow> string \<Rightarrow> string
      \<Rightarrow> interface_description_intent \<Rightarrow> profiled_deployment_plan res" where
  "authorize sha ac ctx promotion_bytes plan_bytes receipts batfish cml promoted_digest unblocker intent =
    bindS (checks [(bc_step ctx \<noteq> ''profiled-deploy'', ValueError ''deployment step rejected'')]) (\<lambda>_.
    bindS (checked_uuid unblocker) (\<lambda>_.
    bindS (read_promotion sha ac promotion_bytes) (\<lambda>promotion.
    bindS (promote sha ac ctx plan_bytes receipts batfish cml intent) (\<lambda>expected.
    bindS (checks [(promotion \<noteq> expected, ValueError ''same-build promotion authorization rejected'')]) (\<lambda>_.
    bindS (checked_digest promoted_digest) (\<lambda>promoted.
    bindS (checks [(pm2_digest promotion \<noteq> promoted,
      ValueError ''same-build promotion authorization rejected'')]) (\<lambda>_.
    read_plan sha ac plan_bytes)))))))"

record planning_publication =
  pb_build_id :: string
  pb_commit :: string
  pb_is_plan :: bool
  pb_artifact_digest :: string
  pb_result_digest :: string

definition publication_verify_context :: "planning_publication \<Rightarrow> build_context \<Rightarrow> unit res" where
  "publication_verify_context p ctx =
    bindS (checked_uuid (pb_build_id p)) (\<lambda>_. checks
     [(pb_build_id p \<noteq> bc_build_id ctx \<or> pb_commit p \<noteq> bc_commit ctx,
        ValueError ''planning publication context rejected'')])"

section \<open>What an approval binds\<close>

lemma promotion_fields_distinct: "distinct (map fst (promotion_fields p))"
  by (simp add: promotion_fields_def)

lemma promotion_bytes_bind:
  assumes "canonical_json_bytes (JObj (promotion_fields p)) = canonical_json_bytes (JObj (promotion_fields q))"
  shows "p\<lparr>pm2_digest := d\<rparr> = q\<lparr>pm2_digest := d\<rparr>"
proof -
  note eq = canonical_fields_eq [OF assms promotion_fields_distinct promotion_fields_distinct,
      unfolded promotion_fields_def]
  show ?thesis
    using eq [of "''build_id''"] eq [of "''commit''"] eq [of "''change_id''"] eq [of "''target''"]
      eq [of "''device_identity''"] eq [of "''plan_digest''"] eq [of "''plan_artifact_digest''"]
      eq [of "''validation_digest''"] eq [of "''batfish_digest''"] eq [of "''cml_digest''"]
    by simp
qed

lemma checked_Inr:
  "checked_digest v = Inr w \<longleftrightarrow> w = v \<and> sha256_pattern v"
  "checked_uuid v = Inr w \<longleftrightarrow> w = v \<and> canonical_uuid v"
  by (auto simp: checked_digest_def checked_uuid_def)

lemma promotion_valid_digest:
  "promotion_valid sha q = Inr u \<Longrightarrow> pm2_digest q = promotion_digest sha q"
  by (auto simp: promotion_valid_def bindS_Inr_iff)

lemma promote_Inr:
  assumes "promote sha ac ctx plan_bytes receipts batfish cml intent = Inr q"
  obtains plan validation where "read_plan sha ac plan_bytes = Inr plan"
    and "admit_intent_result intent (Plan_Result plan) = Inr ()"
    and "verify_validation sha ctx receipts = Inr validation"
    and "promotion_valid sha q = Inr ()" and "pm2_digest q = promotion_digest sha q"
    and "pm2_plan_digest q = pp_digest plan"
    and "pm2_plan_artifact_digest q = sha256_identity sha plan_bytes"
    and "pm2_build_id q = bc_build_id ctx" and "pm2_commit q = bc_commit ctx"
    and "pm2_batfish_digest q = batfish" and "pm2_cml_digest q = cml"
proof -
  from assms obtain plan validation u where plan: "read_plan sha ac plan_bytes = Inr plan"
    "admit_intent_result intent (Plan_Result plan) = Inr ()"
    "verify_validation sha ctx receipts = Inr validation"
    and u: "u = \<lparr>pm2_build_id = bc_build_id ctx, pm2_commit = bc_commit ctx,
          pm2_change_id = pp_change_id plan, pm2_target = pp_target plan,
          pm2_device_identity = pp_device_identity plan, pm2_plan_digest = pp_digest plan,
          pm2_plan_artifact_digest = sha256_identity sha plan_bytes,
          pm2_validation_digest = validation, pm2_batfish_digest = batfish,
          pm2_cml_digest = cml, pm2_digest = ''sha256:'' @ replicate 64 CHR ''0''\<rparr>"
    and q: "q = u\<lparr>pm2_digest := promotion_digest sha u\<rparr>" and v: "promotion_valid sha q = Inr ()"
    unfolding promote_def Let_def bindS_Inr_iff checked_Inr by auto
  from v have "pm2_digest q = promotion_digest sha q" by (rule promotion_valid_digest)
  with plan v q u that show thesis by simp
qed

lemma authorize_Inr:
  assumes "authorize sha ac ctx promotion_bytes plan_bytes receipts batfish cml promoted unblocker intent
    = Inr plan"
  obtains q where "bc_step ctx = ''profiled-deploy''" and "canonical_uuid unblocker"
    and "read_promotion sha ac promotion_bytes = Inr q"
    and "promote sha ac ctx plan_bytes receipts batfish cml intent = Inr q"
    and "pm2_digest q = promoted" and "read_plan sha ac plan_bytes = Inr plan"
  using assms
  by (auto simp: authorize_def bindS_Inr_iff checked_Inr)

lemma verify_validation_Inr:
  assumes "verify_validation sha ctx receipts = Inr v" and "k \<in> set VALIDATION_KEYS"
  shows "map_of receipts k = Some (sha256_identity sha
     (''profiled-validation:'' @ bc_build_id ctx @ '':'' @ bc_commit ctx @ '':'' @ k))"
  using assms
  by (auto simp: verify_validation_def bindS_Inr_iff list_ex_iff validation_receipt_def)

end
