(* ===== verification/Rollout_Approval.thy ===== *)
theory Rollout_Approval
  imports Approval Rollout_Parents
begin

text \<open>
  \<^verbatim>\<open>profiled_rollout_promotion.py\<close>, \<^verbatim>\<open>profiled_rollout_authorization.py\<close> and the static credential
  authority of \<^verbatim>\<open>openbao_profiled_deploy_config.py\<close>: admission of a planned parent against the
  committed intent, its publication, promotion and human authorization. Reading stored artifacts
  is the parameter \<open>rollout_codec\<close>; what it returns is validated again, as the code does.
\<close>

section \<open>The protected credential authority\<close>

definition DEVICE_IDS :: "nat list" where "DEVICE_IDS = [1, 2, 8, 9]"

definition ROLE_NAME :: string where "ROLE_NAME = ''ncdp-buildkite-profiled-deploy''"

definition protected_admit :: "string \<Rightarrow> rollout_credential_admission res" where
  "protected_admit device =
    bindS (checks [(\<not> List.member (map (\<lambda>i. ''netbox:dcim.device:'' @ nat_str i) DEVICE_IDS) device,
      ValueError ''protected rollout credential permission denied'')]) (\<lambda>_.
    bindS (expected_credential device) (\<lambda>reference.
    let c = \<lparr>cm_authority = ROLE_NAME, cm_device_identity = device, cm_credential_reference = reference\<rparr>
    in bindS (rollout_credential_admission_valid c) (\<lambda>_. Inr c)))"

section \<open>Publication\<close>

record rollout_codec =
  rc_child :: child_codec
  rc_parent :: "string \<Rightarrow> rollout_parent res"

definition read_profiled_rollout ::
    "(string \<Rightarrow> string) \<Rightarrow> rollout_codec \<Rightarrow> string \<Rightarrow> rollout_parent res" where
  "read_profiled_rollout sha rc raw =
    bindS (rc_parent rc raw) (\<lambda>r. bindS (rollout_parent_valid sha (rc_child rc) r) (\<lambda>_. Inr r))"

text \<open>A selection without selectors stands for its explicit members.\<close>

definition explicit_request :: "rollout_request \<Rightarrow> rollout_request res" where
  "explicit_request request = (case request of
     Explicit_Request r \<Rightarrow> Inr request
   | Selection_Request s \<Rightarrow>
       if se_selectors s \<noteq> [] then Inr request
       else (let r = \<lparr>ri_change_id = se_change_id s, ri_members = se_explicit_members s,
                 ri_policy = se_policy s\<rparr>
             in bindS (rollout_intent_valid r) (\<lambda>_. Inr (Explicit_Request r))))"

fun body_request :: "rollout_body \<Rightarrow> rollout_request" where
  "body_request (Explicit_Body r) = Explicit_Request r"
| "body_request (Selected_Body s _ _) = Selection_Request s"

definition expansion_current :: "rollout_request \<Rightarrow> rollout_body \<Rightarrow> unit res" where
  "expansion_current request body = (case request of
     Explicit_Request _ \<Rightarrow> Inr ()
   | Selection_Request s \<Rightarrow> bindS (expand s PROFILED_MANAGED_POPULATION) (\<lambda>e. checks
       [(case body of Selected_Body _ _ expansion \<Rightarrow> e \<noteq> expansion | Explicit_Body _ \<Rightarrow> True,
         ValueError ''rollout expansion differs from current Git declaration'')]))"

definition admit_rollout_result ::
    "rollout_request \<Rightarrow> rollout_parent \<Rightarrow> string \<Rightarrow> unit res" where
  "admit_rollout_result request r commit =
    bindS (request_valid request) (\<lambda>_.
    bindS (explicit_request request) (\<lambda>intent.
    bindS (checks
     [(ro_source_commit r \<noteq> commit \<or> body_request (ro_body r) \<noteq> intent,
       ValueError ''committed rollout intent/source disagrees with parent'')]) (\<lambda>_.
    bindS (expansion_current intent (ro_body r)) (\<lambda>_.
    bindS (mapS (\<lambda>c. bindS (protected_admit (child_identity c)) (\<lambda>a. checks
      [(a \<noteq> ch_credential_admission c,
        ValueError ''rollout protected credential admission disagrees'')])) (ro_children r))
    (\<lambda>_. Inr ())))))"

fun body_version :: "rollout_body \<Rightarrow> string" where
  "body_version (Explicit_Body _) = ''1''"
| "body_version (Selected_Body _ _ _) = ''2''"

record rollout_publication =
  rp2_build_id :: string
  rp2_commit :: string
  rp2_is_plan :: bool
  rp2_parent_version :: string
  rp2_artifact_digest :: string
  rp2_result_digest :: string

definition publication_valid :: "rollout_publication \<Rightarrow> unit res" where
  "publication_valid p =
    bindS (checks
     [(\<not> git_commit_pattern (rp2_commit p), ValueError ''commit''),
      (\<not> List.member [''1'', ''2''] (rp2_parent_version p), ValueError ''parent_schema_version''),
      (\<not> sha256_pattern (rp2_artifact_digest p) \<or> \<not> sha256_pattern (rp2_result_digest p),
        ValueError ''digest'')]) (\<lambda>_.
    bindS (checked_uuid (rp2_build_id p)) (\<lambda>_. Inr ()))"

definition publication_read ::
    "(string \<Rightarrow> string) \<Rightarrow> rollout_codec \<Rightarrow> rollout_publication \<Rightarrow> build_context \<Rightarrow> string
      \<Rightarrow> rollout_request \<Rightarrow> rollout_parent res" where
  "publication_read sha rc p ctx raw request =
    bindS (checks
     [(rp2_build_id p \<noteq> bc_build_id ctx \<or> rp2_commit p \<noteq> bc_commit ctx,
        ValueError ''rollout publication context rejected''),
      (sha256_identity sha raw \<noteq> rp2_artifact_digest p,
        ValueError ''rollout publication bytes rejected'')]) (\<lambda>_.
    bindS (read_profiled_rollout sha rc raw) (\<lambda>r.
    bindS (checks
     [(body_version (ro_body r) \<noteq> rp2_parent_version p \<or> ro_digest r \<noteq> rp2_result_digest p
        \<or> rp2_is_plan p \<noteq> (ro_cohorts r \<noteq> None),
       ValueError ''rollout publication result rejected'')]) (\<lambda>_.
    bindS (admit_rollout_result request r (bc_commit ctx)) (\<lambda>_. Inr r))))"

section \<open>Promotion\<close>

record promoted_child =
  pc_device_identity :: string
  pc_interface_identity :: string
  pc_kind :: child_kind
  pc_artifact_digest :: string
  pc_result_digest :: string

definition promoted_child_of :: "rollout_child \<Rightarrow> promoted_child" where
  "promoted_child_of c = \<lparr>pc_device_identity = child_identity c,
     pc_interface_identity = si_interface (ch_interface c), pc_kind = ch_kind c,
     pc_artifact_digest = ch_artifact_digest c, pc_result_digest = ch_result_digest c\<rparr>"

record rollout_promotion =
  rm_build_id :: string
  rm_source_commit :: string
  rm_change_id :: string
  rm_parent_version :: string
  rm_parent_digest :: string
  rm_parent_artifact_digest :: string
  rm_children :: "promoted_child list"
  rm_canaries :: "string list"
  rm_waves :: "string list list"
  rm_validation_digest :: string
  rm_batfish_digest :: string
  rm_cml_digest :: string
  rm_digest :: string

definition kind_value :: "child_kind \<Rightarrow> string" where
  "kind_value k = (case k of DEPLOYABLE \<Rightarrow> ''DEPLOYABLE'' | COMPLIANT_Child \<Rightarrow> ''COMPLIANT'')"

definition promoted_child_json :: "promoted_child \<Rightarrow> json" where
  "promoted_child_json c = JObj
    [(''device_identity'', JStr (pc_device_identity c)),
     (''interface_identity'', JStr (pc_interface_identity c)), (''kind'', JStr (kind_value (pc_kind c))),
     (''artifact_digest'', JStr (pc_artifact_digest c)), (''result_digest'', JStr (pc_result_digest c))]"

definition rollout_promotion_fields :: "rollout_promotion \<Rightarrow> (string \<times> json) list" where
  "rollout_promotion_fields p =
    [(''schema_version'', JStr ''1''), (''promotion_type'', JStr ''profiled_rollout_promotion''),
     (''build_id'', JStr (rm_build_id p)), (''source_commit'', JStr (rm_source_commit p)),
     (''change_id'', JStr (rm_change_id p)), (''parent_schema_version'', JStr (rm_parent_version p)),
     (''parent_result_type'', JStr ''profiled_rollout_plan''),
     (''parent_digest'', JStr (rm_parent_digest p)),
     (''parent_artifact_digest'', JStr (rm_parent_artifact_digest p)),
     (''children'', JArr (map promoted_child_json (rm_children p))),
     (''canaries'', strings_json (rm_canaries p)), (''waves'', JArr (map strings_json (rm_waves p))),
     (''validation_digest'', JStr (rm_validation_digest p)),
     (''batfish_digest'', JStr (rm_batfish_digest p)), (''cml_digest'', JStr (rm_cml_digest p))]"

definition rollout_promotion_digest :: "(string \<Rightarrow> string) \<Rightarrow> rollout_promotion \<Rightarrow> string" where
  "rollout_promotion_digest sha p =
     sha256_identity sha (canonical_json_bytes (JObj (rollout_promotion_fields p)))"

definition promoted_deployables :: "promoted_child list \<Rightarrow> string list" where
  "promoted_deployables cs = map pc_device_identity (filter (\<lambda>c. pc_kind c = DEPLOYABLE) cs)"

definition promoted_child_valid :: "promoted_child \<Rightarrow> bool" where
  "promoted_child_valid c \<longleftrightarrow> netbox_identity ''dcim.device'' (pc_device_identity c)
     \<and> netbox_identity ''dcim.interface'' (pc_interface_identity c)
     \<and> sha256_pattern (pc_artifact_digest c) \<and> sha256_pattern (pc_result_digest c)"

definition rollout_promotion_valid :: "(string \<Rightarrow> string) \<Rightarrow> rollout_promotion \<Rightarrow> unit res" where
  "rollout_promotion_valid sha p =
    bindS (checks
     [(\<not> git_commit_pattern (rm_source_commit p) \<or> \<not> change_id_valid (rm_change_id p)
        \<or> \<not> List.member [''1'', ''2''] (rm_parent_version p)
        \<or> \<not> list_all sha256_pattern [rm_parent_digest p, rm_parent_artifact_digest p,
             rm_validation_digest p, rm_batfish_digest p, rm_cml_digest p, rm_digest p],
        ValueError ''promotion field''),
      (rm_children p = [] \<or> length (rm_children p) > MAX_MEMBERS
        \<or> \<not> list_all promoted_child_valid (rm_children p), ValueError ''children''),
      (rm_canaries p = [] \<or> length (rm_canaries p) > MAX_MEMBERS \<or> length (rm_waves p) > MAX_MEMBERS
        \<or> \<not> list_all (netbox_identity ''dcim.device'') (rm_canaries p @ concat (rm_waves p)),
        ValueError ''cohorts'')]) (\<lambda>_.
    bindS (checked_uuid (rm_build_id p)) (\<lambda>_.
    let deployable = promoted_deployables (rm_children p);
        members = rm_canaries p @ concat (rm_waves p)
    in checks
     [(\<not> distinct (map pc_device_identity (rm_children p))
        \<or> \<not> distinct (map pc_interface_identity (rm_children p))
        \<or> deployable = [] \<or> \<not> same_set members deployable \<or> \<not> distinct members
        \<or> list_ex (\<lambda>w. w = []) (rm_waves p)
        \<or> rm_digest p \<noteq> rollout_promotion_digest sha p,
       ValueError ''rollout promotion binding rejected'')]))"

definition minted_promotion ::
    "(string \<Rightarrow> string) \<Rightarrow> build_context \<Rightarrow> string \<Rightarrow> rollout_parent \<Rightarrow> string list \<Rightarrow> string list list
      \<Rightarrow> string \<Rightarrow> string \<Rightarrow> string \<Rightarrow> rollout_promotion" where
  "minted_promotion sha ctx raw r canaries waves validation batfish cml =
    (let unsigned = \<lparr>rm_build_id = bc_build_id ctx, rm_source_commit = bc_commit ctx,
          rm_change_id = body_change_id (ro_body r), rm_parent_version = body_version (ro_body r),
          rm_parent_digest = ro_digest r, rm_parent_artifact_digest = sha256_identity sha raw,
          rm_children = map promoted_child_of (ro_children r), rm_canaries = canaries,
          rm_waves = waves, rm_validation_digest = validation, rm_batfish_digest = batfish,
          rm_cml_digest = cml, rm_digest = ''''\<rparr>
     in unsigned\<lparr>rm_digest := rollout_promotion_digest sha unsigned\<rparr>)"

definition promote_rollout ::
    "(string \<Rightarrow> string) \<Rightarrow> rollout_codec \<Rightarrow> build_context \<Rightarrow> string \<Rightarrow> rollout_publication
      \<Rightarrow> (string \<times> string) list \<Rightarrow> string \<Rightarrow> string \<Rightarrow> rollout_request \<Rightarrow> rollout_promotion res" where
  "promote_rollout sha rc ctx raw publication receipts batfish cml request =
    bindS (checks [(bc_step ctx \<noteq> ''profiled-rollout-promotion'',
      ValueError ''rollout promotion step rejected'')]) (\<lambda>_.
    bindS (publication_valid publication) (\<lambda>_.
    bindS (publication_read sha rc publication ctx raw request) (\<lambda>r.
    case ro_cohorts r of
      None \<Rightarrow> Inl (ValueError ''COMPLIANT rollout cannot mint promotion'')
    | Some (canaries, waves) \<Rightarrow>
    bindS (verify_validation sha ctx receipts) (\<lambda>validation.
    bindS (checked_digest batfish) (\<lambda>batfish.
    bindS (checked_digest cml) (\<lambda>cml.
    let p = minted_promotion sha ctx raw r canaries waves validation batfish cml
    in bindS (rollout_promotion_valid sha p) (\<lambda>_. Inr p)))))))"

section \<open>Authorization\<close>

record rollout_authorization =
  ra_build_id :: string
  ra_source_commit :: string
  ra_change_id :: string
  ra_parent_digest :: string
  ra_parent_artifact_digest :: string
  ra_promotion_digest :: string
  ra_promotion_artifact_digest :: string
  ra_selected_devices :: "string list"
  ra_canaries :: "string list"
  ra_waves :: "string list list"
  ra_unblocker_id :: string
  ra_digest :: string

definition authorization_fields :: "rollout_authorization \<Rightarrow> (string \<times> json) list" where
  "authorization_fields a =
    [(''schema_version'', JStr ''1''),
     (''authorization_type'', JStr ''profiled_rollout_authorization''),
     (''build_id'', JStr (ra_build_id a)), (''source_commit'', JStr (ra_source_commit a)),
     (''change_id'', JStr (ra_change_id a)), (''parent_digest'', JStr (ra_parent_digest a)),
     (''parent_artifact_digest'', JStr (ra_parent_artifact_digest a)),
     (''promotion_digest'', JStr (ra_promotion_digest a)),
     (''promotion_artifact_digest'', JStr (ra_promotion_artifact_digest a)),
     (''selected_devices'', strings_json (ra_selected_devices a)),
     (''canaries'', strings_json (ra_canaries a)), (''waves'', JArr (map strings_json (ra_waves a))),
     (''unblocker_id'', JStr (ra_unblocker_id a))]"

definition authorization_digest :: "(string \<Rightarrow> string) \<Rightarrow> rollout_authorization \<Rightarrow> string" where
  "authorization_digest sha a =
     sha256_identity sha (canonical_json_bytes (JObj (authorization_fields a)))"

definition authorization_valid :: "(string \<Rightarrow> string) \<Rightarrow> rollout_authorization \<Rightarrow> unit res" where
  "authorization_valid sha a =
    bindS (checks
     [(\<not> git_commit_pattern (ra_source_commit a) \<or> \<not> change_id_valid (ra_change_id a)
        \<or> \<not> list_all sha256_pattern [ra_parent_digest a, ra_parent_artifact_digest a,
             ra_promotion_digest a, ra_promotion_artifact_digest a, ra_digest a],
        ValueError ''authorization field''),
      (ra_selected_devices a = [] \<or> length (ra_selected_devices a) > MAX_MEMBERS
        \<or> ra_canaries a = [] \<or> length (ra_canaries a) > MAX_MEMBERS
        \<or> length (ra_waves a) > MAX_MEMBERS
        \<or> \<not> list_all (netbox_identity ''dcim.device'')
             (ra_selected_devices a @ ra_canaries a @ concat (ra_waves a)),
        ValueError ''authorization devices'')]) (\<lambda>_.
    bindS (checked_uuid (ra_build_id a)) (\<lambda>_.
    bindS (checked_uuid (ra_unblocker_id a)) (\<lambda>_.
    let members = ra_canaries a @ concat (ra_waves a)
    in checks
     [(\<not> distinct (ra_selected_devices a) \<or> \<not> distinct members
        \<or> \<not> subset_list members (ra_selected_devices a) \<or> list_ex (\<lambda>w. w = []) (ra_waves a)
        \<or> ra_digest a \<noteq> authorization_digest sha a,
       ValueError ''rollout authorization binding rejected'')])))"

definition verify_rollout_promotion ::
    "(string \<Rightarrow> string) \<Rightarrow> rollout_codec \<Rightarrow> (string \<Rightarrow> rollout_promotion res) \<Rightarrow> string
      \<Rightarrow> build_context \<Rightarrow> string \<Rightarrow> rollout_publication \<Rightarrow> (string \<times> string) list
      \<Rightarrow> string \<Rightarrow> string \<Rightarrow> rollout_request \<Rightarrow> rollout_promotion res" where
  "verify_rollout_promotion sha rc decode raw_promotion ctx raw publication receipts batfish cml request =
    bindS (decode raw_promotion) (\<lambda>value.
    bindS (rollout_promotion_valid sha value) (\<lambda>_.
    bindS (promote_rollout sha rc ctx raw publication receipts batfish cml request) (\<lambda>expected.
    bindS (checks [(value \<noteq> expected, ValueError ''rollout promotion readback rejected'')]) (\<lambda>_.
    Inr value))))"

text \<open>What a protected caller hands over: the stored artifacts and the same-build prerequisites.\<close>

record approval_inputs =
  ai_context :: build_context
  ai_parent_bytes :: string
  ai_publication :: rollout_publication
  ai_promotion_bytes :: string
  ai_receipts :: "(string \<times> string) list"
  ai_batfish :: string
  ai_cml :: string
  ai_request :: rollout_request

definition minted_authorization ::
    "(string \<Rightarrow> string) \<Rightarrow> rollout_promotion \<Rightarrow> string \<Rightarrow> string \<Rightarrow> rollout_authorization" where
  "minted_authorization sha promotion artifact unblocker =
    (let unsigned = \<lparr>ra_build_id = rm_build_id promotion, ra_source_commit = rm_source_commit promotion,
          ra_change_id = rm_change_id promotion, ra_parent_digest = rm_parent_digest promotion,
          ra_parent_artifact_digest = rm_parent_artifact_digest promotion,
          ra_promotion_digest = rm_digest promotion, ra_promotion_artifact_digest = artifact,
          ra_selected_devices = map pc_device_identity (rm_children promotion),
          ra_canaries = rm_canaries promotion, ra_waves = rm_waves promotion,
          ra_unblocker_id = unblocker, ra_digest = ''''\<rparr>
     in unsigned\<lparr>ra_digest := authorization_digest sha unsigned\<rparr>)"

definition authorize_rollout ::
    "(string \<Rightarrow> string) \<Rightarrow> rollout_codec \<Rightarrow> (string \<Rightarrow> rollout_promotion res) \<Rightarrow> approval_inputs
      \<Rightarrow> string \<Rightarrow> string \<Rightarrow> string \<Rightarrow> rollout_authorization res" where
  "authorize_rollout sha rc decode inp semantic artifact unblocker =
    bindS (checked_uuid unblocker) (\<lambda>_.
    bindS (checked_uuid (bc_build_id (ai_context inp))) (\<lambda>_.
    bindS (checked_uuid (bc_job_id (ai_context inp))) (\<lambda>_.
    bindS (checks [(sha256_identity sha (ai_promotion_bytes inp) \<noteq> artifact,
      ValueError ''rollout promotion artifact metadata rejected'')]) (\<lambda>_.
    bindS (verify_rollout_promotion sha rc decode (ai_promotion_bytes inp)
        ((ai_context inp)\<lparr>bc_step := ''profiled-rollout-promotion''\<rparr>) (ai_parent_bytes inp)
        (ai_publication inp) (ai_receipts inp) (ai_batfish inp) (ai_cml inp) (ai_request inp))
    (\<lambda>promotion.
    bindS (checks [(rm_digest promotion \<noteq> semantic,
      ValueError ''rollout promotion semantic metadata rejected'')]) (\<lambda>_.
    let a = minted_authorization sha promotion artifact unblocker
    in bindS (authorization_valid sha a) (\<lambda>_. Inr a)))))))"

section \<open>What minting keeps\<close>

lemma promotion_fields_digest [simp]:
  "rollout_promotion_fields (p\<lparr>rm_digest := d\<rparr>) = rollout_promotion_fields p"
  by (simp add: rollout_promotion_fields_def)

lemma minted_promotion_simps [simp]:
  "rm_digest (minted_promotion sha ctx raw r cs ws v b c)
     = rollout_promotion_digest sha (minted_promotion sha ctx raw r cs ws v b c)"
  "rm_build_id (minted_promotion sha ctx raw r cs ws v b c) = bc_build_id ctx"
  "rm_source_commit (minted_promotion sha ctx raw r cs ws v b c) = bc_commit ctx"
  "rm_change_id (minted_promotion sha ctx raw r cs ws v b c) = body_change_id (ro_body r)"
  "rm_parent_version (minted_promotion sha ctx raw r cs ws v b c) = body_version (ro_body r)"
  "rm_parent_digest (minted_promotion sha ctx raw r cs ws v b c) = ro_digest r"
  "rm_parent_artifact_digest (minted_promotion sha ctx raw r cs ws v b c) = sha256_identity sha raw"
  "rm_children (minted_promotion sha ctx raw r cs ws v b c) = map promoted_child_of (ro_children r)"
  "rm_canaries (minted_promotion sha ctx raw r cs ws v b c) = cs"
  "rm_waves (minted_promotion sha ctx raw r cs ws v b c) = ws"
  "rm_validation_digest (minted_promotion sha ctx raw r cs ws v b c) = v"
  "rm_batfish_digest (minted_promotion sha ctx raw r cs ws v b c) = b"
  "rm_cml_digest (minted_promotion sha ctx raw r cs ws v b c) = c"
  by (simp_all add: minted_promotion_def Let_def rollout_promotion_digest_def rollout_promotion_fields_def)

lemma minted_authorization_simps [simp]:
  "ra_digest (minted_authorization sha p a u)
     = authorization_digest sha (minted_authorization sha p a u)"
  "ra_build_id (minted_authorization sha p a u) = rm_build_id p"
  "ra_source_commit (minted_authorization sha p a u) = rm_source_commit p"
  "ra_change_id (minted_authorization sha p a u) = rm_change_id p"
  "ra_parent_digest (minted_authorization sha p a u) = rm_parent_digest p"
  "ra_parent_artifact_digest (minted_authorization sha p a u) = rm_parent_artifact_digest p"
  "ra_promotion_digest (minted_authorization sha p a u) = rm_digest p"
  "ra_promotion_artifact_digest (minted_authorization sha p a u) = a"
  "ra_selected_devices (minted_authorization sha p a u) = map pc_device_identity (rm_children p)"
  "ra_canaries (minted_authorization sha p a u) = rm_canaries p"
  "ra_waves (minted_authorization sha p a u) = rm_waves p"
  "ra_unblocker_id (minted_authorization sha p a u) = u"
  by (simp_all add: minted_authorization_def Let_def authorization_digest_def authorization_fields_def)

end
