(* ===== verification/Approval_Laws.thy ===== *)
theory Approval_Laws
  imports Rollout_Approval
begin

text \<open>
  What the approval of a rollout guarantees: the promotion of a valid published plan is never
  rejected by its own validator, nor the authorization of a promotion read back, and both carry
  the devices and cohorts of the plan.
\<close>

section \<open>The promotion of a valid plan\<close>

lemma cohorts_bounded:
  assumes "distinct (cs @ concat ws)" and "set (cs @ concat ws) \<subseteq> f ` set xs"
    and "length xs \<le> n" and "\<forall>w \<in> set ws. w \<noteq> []"
  shows "length cs \<le> n" and "length ws \<le> n"
proof -
  have "length (cs @ concat ws) = card (set (cs @ concat ws))"
    using distinct_card [OF assms(1)] by simp
  also have "\<dots> \<le> card (f ` set xs)" by (rule card_mono [OF _ assms(2)]) simp
  also have "\<dots> \<le> n"
    using card_image_le [of "set xs" f] card_length [of xs] assms(3) by simp
  finally have l: "length cs + length (concat ws) \<le> n" by simp
  have "length ws \<le> length (concat ws)"
    using assms(4)
  proof (induction ws)
    case (Cons w ws)
    then have "length ws \<le> length (concat ws)" and "1 \<le> length w" by (auto simp: Suc_le_eq)
    then show ?case by simp
  qed simp
  with l show "length cs \<le> n" and "length ws \<le> n" by simp_all
qed

lemma child_promotes:
  "rollout_child_valid sha cd c = Inr u \<Longrightarrow> promoted_child_valid (promoted_child_of c)"
  by (auto simp: rollout_child_valid_def bindS_Inr_iff promoted_child_valid_def promoted_child_of_def
      stable_interface_valid_def profiled_inventory_device_valid_def child_identity_def)

lemma body_change_id_valid: "body_valid b = Inr u \<Longrightarrow> change_id_valid (body_change_id b)"
  by (cases b) (auto simp: rollout_intent_valid_def selection_intent_valid_def bindS_Inr_iff)

lemma promoted_deployables_of:
  "promoted_deployables (map promoted_child_of cs) = map child_identity (deployables cs)"
  by (simp add: promoted_deployables_def deployables_def promoted_child_of_def filter_map comp_def)

lemma promoted_identities [simp]:
  "map pc_device_identity (map promoted_child_of cs) = map child_identity cs"
  "map pc_interface_identity (map promoted_child_of cs) = map (\<lambda>c. si_interface (ch_interface c)) cs"
  by (simp_all add: promoted_child_of_def)

lemma minted_promotion_valid:
  assumes v: "rollout_parent_valid sha cd r = Inr u" and c: "ro_cohorts r = Some (cs, ws)"
    and h: "hex_digest sha" and ctx: "git_commit_pattern (bc_commit ctx)" "canonical_uuid (bc_build_id ctx)"
    and d: "sha256_pattern validation" "sha256_pattern batfish" "sha256_pattern cml"
  shows "rollout_promotion_valid sha (minted_promotion sha ctx raw r cs ws validation batfish cml) = Inr ()"
proof -
  obtain ms where ms: "parent_represents sha cd r ms" by (rule rollout_parent_members [OF v])
  have p: "partitions (body_policy (ro_body r)) (ro_children r) cs ws" and ne: "cs \<noteq> []"
    by (rule parent_cohorts [OF v c])+
  from v c have fields: "list_all (netbox_identity ''dcim.device'') (cs @ concat ws)"
    "ro_children r \<noteq> []" "length (ro_children r) \<le> MAX_MEMBERS" "sha256_pattern (ro_digest r)"
    "body_valid (ro_body r) = Inr ()"
    and kids: "mapS (rollout_child_valid sha cd) (ro_children r) \<in> range Inr"
    by (auto simp: rollout_parent_valid_def cohort_fields_valid_def bindS_Inr_iff not_less)
  have "list_all promoted_child_valid (map promoted_child_of (ro_children r))"
    using kids child_promotes [of sha cd]
    by (fastforce simp: mapS_Inr_iff list_all2_conv_all_nth list_all_length)
  moreover have "set (cs @ concat ws) = child_identity ` set (deployables (ro_children r))"
    and dist: "distinct (cs @ concat ws)" and waves: "\<forall>w \<in> set ws. w \<noteq> []"
    using p unfolding partitions_def by blast+
  moreover from this(1) have "set (cs @ concat ws) \<subseteq> child_identity ` set (ro_children r)"
    by (auto simp: deployables_def)
  note bounds = cohorts_bounded [OF dist this fields(3) waves]
  moreover have "deployables (ro_children r) \<noteq> []" using \<open>set (cs @ concat ws) = _\<close> ne by auto
  moreover have "distinct (map child_identity (ro_children r))"
    "distinct (map (\<lambda>c. si_interface (ch_interface c)) (ro_children r))"
    using ms by (simp_all add: parent_represents_def)
  moreover have "body_version (ro_body r) \<in> {''1'', ''2''}" by (cases "ro_body r") simp_all
  ultimately show ?thesis
    using ne fields ctx d body_change_id_valid [OF fields(5)] sha256_identity_pattern [OF h]
    by (auto simp: rollout_promotion_valid_def bindS_Inr_iff Let_def promoted_deployables_of
        rollout_promotion_digest_def checked_Inr list_ex_iff simp del: map_map)
qed

text \<open>Promotion is complete: a valid published plan with its prerequisites in place is promoted.\<close>

lemma promote_rollout_total:
  assumes "bc_step ctx = ''profiled-rollout-promotion''" and "publication_valid publication = Inr ()"
    and p: "publication_read sha rc publication ctx raw request = Inr r"
    and c: "ro_cohorts r = Some (cs, ws)" and "verify_validation sha ctx receipts = Inr validation"
    and "sha256_pattern batfish" and "sha256_pattern cml" and h: "hex_digest sha"
  shows "promote_rollout sha rc ctx raw publication receipts batfish cml request
    = Inr (minted_promotion sha ctx raw r cs ws validation batfish cml)"
proof -
  from p have "rollout_parent_valid sha (rc_child rc) r = Inr ()"
    and "bc_build_id ctx = rp2_build_id publication" and "bc_commit ctx = rp2_commit publication"
    by (auto simp: publication_read_def read_profiled_rollout_def bindS_Inr_iff)
  moreover have "sha256_pattern validation"
    using assms(5) sha256_identity_pattern [OF h] by (auto simp: verify_validation_def bindS_Inr_iff)
  ultimately have "rollout_promotion_valid sha
      (minted_promotion sha ctx raw r cs ws validation batfish cml) = Inr ()"
    using assms(2,6,7) by (intro minted_promotion_valid [OF _ c h])
      (auto simp: publication_valid_def bindS_Inr_iff checked_Inr)
  then show ?thesis
    using assms(1-7) by (simp add: promote_rollout_def checked_digest_def Let_def)
qed

lemma minted_authorization_valid:
  assumes p: "rollout_promotion_valid sha p = Inr u" and "canonical_uuid unblocker"
    and h: "hex_digest sha" and "sha256_pattern artifact"
  shows "authorization_valid sha (minted_authorization sha p artifact unblocker) = Inr ()"
proof -
  have "authorization_digest sha (minted_authorization sha p artifact unblocker)
      = ra_digest (minted_authorization sha p artifact unblocker)" by simp
  moreover have "sha256_pattern (authorization_digest sha (minted_authorization sha p artifact unblocker))"
    unfolding authorization_digest_def by (rule sha256_identity_pattern [OF h])
  moreover have "set (promoted_deployables (rm_children p)) \<subseteq> pc_device_identity ` set (rm_children p)"
    by (auto simp: promoted_deployables_def)
  moreover have "list_all (netbox_identity ''dcim.device'') (map pc_device_identity (rm_children p))"
    using p by (auto simp: rollout_promotion_valid_def bindS_Inr_iff promoted_child_valid_def list_all_iff)
  ultimately show ?thesis
    using p assms(2,4)
    by (auto simp: rollout_promotion_valid_def authorization_valid_def bindS_Inr_iff checked_Inr Let_def)
qed

section \<open>What an authorization rests on\<close>

lemma promote_rollout_Inr:
  assumes "promote_rollout sha rc ctx raw publication receipts batfish cml request = Inr p"
  obtains r cs ws validation where "publication_read sha rc publication ctx raw request = Inr r"
    and "ro_cohorts r = Some (cs, ws)" and "verify_validation sha ctx receipts = Inr validation"
    and "p = minted_promotion sha ctx raw r cs ws validation batfish cml"
    and "rollout_promotion_valid sha p = Inr ()"
  using assms
  by (fastforce simp: promote_rollout_def bindS_Inr_iff checked_Inr Let_def split: option.splits)

lemma publication_read_Inr:
  assumes "publication_read sha rc publication ctx raw request = Inr r"
  shows "rollout_parent_valid sha (rc_child rc) r = Inr ()" and "rc_parent rc raw = Inr r"
    and "sha256_identity sha raw = rp2_artifact_digest publication"
    and "ro_source_commit r = bc_commit ctx" and "explicit_request request = Inr (body_request (ro_body r))"
    and "ro_digest r = rp2_result_digest publication"
  using assms
  by (auto simp: publication_read_def read_profiled_rollout_def admit_rollout_result_def bindS_Inr_iff)

text \<open>The authority an authorization confers: the plan it was derived from, the promotion of that
  plan, and the devices and cohorts, which are those of the plan.\<close>

definition authorizes ::
    "(string \<Rightarrow> string) \<Rightarrow> rollout_codec \<Rightarrow> approval_inputs \<Rightarrow> rollout_authorization \<Rightarrow> rollout_parent \<Rightarrow> bool" where
  "authorizes sha rc inp a r \<longleftrightarrow>
     rollout_parent_valid sha (rc_child rc) r = Inr () \<and> rc_parent rc (ai_parent_bytes inp) = Inr r
     \<and> ra_parent_artifact_digest a = sha256_identity sha (ai_parent_bytes inp)
     \<and> ra_parent_digest a = ro_digest r
     \<and> ra_promotion_artifact_digest a = sha256_identity sha (ai_promotion_bytes inp)
     \<and> ro_source_commit r = bc_commit (ai_context inp) \<and> ra_source_commit a = ro_source_commit r
     \<and> ra_build_id a = bc_build_id (ai_context inp)
     \<and> explicit_request (ai_request inp) = Inr (body_request (ro_body r))
     \<and> ra_change_id a = body_change_id (ro_body r)
     \<and> ra_selected_devices a = map child_identity (ro_children r)
     \<and> ro_cohorts r = Some (ra_canaries a, ra_waves a)
     \<and> authorization_valid sha a = Inr ()"

lemma authorize_rollout_Inr:
  assumes "authorize_rollout sha rc decode inp semantic artifact unblocker = Inr a"
  obtains r p where "authorizes sha rc inp a r" and "decode (ai_promotion_bytes inp) = Inr p"
    and "promote_rollout sha rc ((ai_context inp)\<lparr>bc_step := ''profiled-rollout-promotion''\<rparr>)
       (ai_parent_bytes inp) (ai_publication inp) (ai_receipts inp) (ai_batfish inp) (ai_cml inp)
       (ai_request inp) = Inr p"
    and "rm_digest p = semantic" and "a = minted_authorization sha p artifact unblocker"
    and "canonical_uuid unblocker" and "canonical_uuid (bc_job_id (ai_context inp))"
proof -
  let ?ctx = "(ai_context inp)\<lparr>bc_step := ''profiled-rollout-promotion''\<rparr>"
  from assms obtain p where p: "decode (ai_promotion_bytes inp) = Inr p"
    "promote_rollout sha rc ?ctx (ai_parent_bytes inp) (ai_publication inp) (ai_receipts inp)
       (ai_batfish inp) (ai_cml inp) (ai_request inp) = Inr p"
    "rm_digest p = semantic" "a = minted_authorization sha p artifact unblocker"
    "canonical_uuid unblocker" "canonical_uuid (bc_job_id (ai_context inp))"
    "sha256_identity sha (ai_promotion_bytes inp) = artifact" "authorization_valid sha a = Inr ()"
    by (auto simp: authorize_rollout_def verify_rollout_promotion_def bindS_Inr_iff checked_Inr Let_def)
  obtain r cs ws v where r: "publication_read sha rc (ai_publication inp) ?ctx (ai_parent_bytes inp)
        (ai_request inp) = Inr r" "ro_cohorts r = Some (cs, ws)"
      "p = minted_promotion sha ?ctx (ai_parent_bytes inp) r cs ws v (ai_batfish inp) (ai_cml inp)"
    by (rule promote_rollout_Inr [OF p(2)])
  have "authorizes sha rc inp a r"
    using publication_read_Inr [OF r(1)] r(2) p(4,7,8)
    by (simp add: authorizes_def r(3) del: map_map)
  then show thesis by (rule that [OF _ p(1-6)])
qed

text \<open>Approval is complete: a promotion minted for these inputs and read back is authorized for any
  human, in any job of the build.\<close>

lemma authorize_rollout_total:
  assumes "promote_rollout sha rc ((ai_context inp)\<lparr>bc_step := ''profiled-rollout-promotion''\<rparr>)
       (ai_parent_bytes inp) (ai_publication inp) (ai_receipts inp) (ai_batfish inp) (ai_cml inp)
       (ai_request inp) = Inr p"
    and "decode (ai_promotion_bytes inp) = Inr p" and "hex_digest sha"
    and "canonical_uuid unblocker" and "canonical_uuid (bc_job_id (ai_context inp))"
  shows "authorize_rollout sha rc decode inp (rm_digest p)
      (sha256_identity sha (ai_promotion_bytes inp)) unblocker
    = Inr (minted_authorization sha p (sha256_identity sha (ai_promotion_bytes inp)) unblocker)"
proof -
  obtain r cs ws v where v: "rollout_promotion_valid sha p = Inr ()"
    and p: "p = minted_promotion sha ((ai_context inp)\<lparr>bc_step := ''profiled-rollout-promotion''\<rparr>)
       (ai_parent_bytes inp) r cs ws v (ai_batfish inp) (ai_cml inp)"
    by (rule promote_rollout_Inr [OF assms(1)])
  have "canonical_uuid (bc_build_id (ai_context inp))"
    using v p by (auto simp: rollout_promotion_valid_def bindS_Inr_iff checked_Inr)
  then show ?thesis
    using assms minted_authorization_valid [OF v assms(4,3) sha256_identity_pattern [OF assms(3)]] v
    by (simp add: authorize_rollout_def verify_rollout_promotion_def checked_uuid_def Let_def)
qed

end
