(* ===== verification/Approval_Properties.thy ===== *)
theory Approval_Properties
  imports Approval_Laws Rollout_Properties
begin

text \<open>
  The properties of promotion and human authorization, for one plan (\<^verbatim>\<open>profiled_promotion.py\<close>) and
  for a rollout (\<^verbatim>\<open>profiled_rollout_promotion.py\<close>, \<^verbatim>\<open>profiled_rollout_authorization.py\<close>).
\<close>

section \<open>The sample approval\<close>

definition sample_uuid :: string where
  "sample_uuid = ''9f29f54c-f239-58c9-b28e-d604a3fa86b1''"

definition sample_context :: "string \<Rightarrow> build_context" where
  "sample_context step = \<lparr>bc_build_id = sample_uuid, bc_commit = replicate 40 CHR ''a'',
     bc_job_id = sample_uuid, bc_step = step\<rparr>"

definition sample_receipts :: "(string \<times> string) list" where
  "sample_receipts = map (\<lambda>k. (k, sha256_identity sample_sha (''profiled-validation:'' @ sample_uuid
     @ '':'' @ replicate 40 CHR ''a'' @ '':'' @ k))) VALIDATION_KEYS"

definition sample_rollout_codec :: rollout_codec where
  "sample_rollout_codec = \<lparr>rc_child = sample_codec,
     rc_parent = (\<lambda>s. if s = ''parent'' then Inr sample_parent else Inl (ValueError ''json''))\<rparr>"

definition sample_publication :: rollout_publication where
  "sample_publication = \<lparr>rp2_build_id = sample_uuid, rp2_commit = replicate 40 CHR ''a'',
     rp2_is_plan = True, rp2_parent_version = ''1'',
     rp2_artifact_digest = sha256_identity sample_sha ''parent'',
     rp2_result_digest = ro_digest sample_parent\<rparr>"

definition sample_inputs :: approval_inputs where
  "sample_inputs = \<lparr>ai_context = sample_context ''profiled-rollout-promotion'',
     ai_parent_bytes = ''parent'', ai_publication = sample_publication,
     ai_promotion_bytes = ''promotion'', ai_receipts = sample_receipts,
     ai_batfish = sha256_identity sample_sha '''', ai_cml = sha256_identity sample_sha '''',
     ai_request = Explicit_Request sample_rollout_intent\<rparr>"

lemma sample_uuid_canonical: "canonical_uuid sample_uuid"
  by code_simp

lemma sample_validation:
  "verify_validation sample_sha (sample_context step) sample_receipts
    = Inr (sha256_identity sample_sha (dumps_strings sample_receipts))"
proof -
  have "map fst sample_receipts = VALIDATION_KEYS" by (simp add: sample_receipts_def comp_def)
  moreover have "map_of sample_receipts k
      = (if k \<in> set VALIDATION_KEYS then Some (sha256_identity sample_sha (''profiled-validation:''
          @ sample_uuid @ '':'' @ replicate 40 CHR ''a'' @ '':'' @ k)) else None)" for k
    unfolding sample_receipts_def map_of_map_restrict by (simp add: restrict_map_def)
  ultimately show ?thesis
    by (simp add: verify_validation_def validation_receipt_def sample_context_def list_ex_iff)
qed

lemma sample_parent_shape:
  "ro_body sample_parent = Explicit_Body sample_rollout_intent"
  "ro_source_commit sample_parent = replicate 40 CHR ''a''"
  "ro_children sample_parent = [sample_child]"
  "ro_cohorts sample_parent = Some ([''netbox:dcim.device:1''], [])"
  by (simp_all add: sample_parent_def sample_unsigned_parent_def)

lemma sample_protected_admit:
  "protected_admit (child_identity sample_child) = Inr (ch_credential_admission sample_child)"
  unfolding sample_child_shape(3) unfolding sample_child_def rollout_child.select_convs by code_simp

lemma sample_publication_read:
  "publication_read sample_sha sample_rollout_codec sample_publication (sample_context step)
     ''parent'' (Explicit_Request sample_rollout_intent) = Inr sample_parent"
  using sample_parent_valid sample_protected_admit sample_body_valid(1)
  by (simp add: publication_read_def read_profiled_rollout_def sample_publication_def
      sample_rollout_codec_def admit_rollout_result_def explicit_request_def expansion_current_def
      sample_parent_shape sample_context_def)

lemma sample_publication_valid: "publication_valid sample_publication = Inr ()"
proof -
  have "git_commit_pattern (replicate 40 CHR ''a'')" by code_simp
  moreover have "sha256_pattern (ro_digest sample_parent)"
    using sample_parent_valid by (auto simp: rollout_parent_valid_def bindS_Inr_iff)
  ultimately show ?thesis
    using sample_uuid_canonical sample_digest
    by (simp add: publication_valid_def sample_publication_def checked_uuid_def)
qed

definition sample_codec_for :: "profiled_promotion res \<Rightarrow> approval_codec" where
  "sample_codec_for promotion = \<lparr>ac_plan = (\<lambda>s. if s = ''plan'' then Inr (sample_plan sample_core)
     else Inl (ValueError ''json'')), ac_promotion = (\<lambda>_. promotion)\<rparr>"

definition sample_promotion :: "profiled_promotion res" where
  "sample_promotion = promote sample_sha (sample_codec_for (Inl (ValueError ''unused'')))
     (sample_context ''profiled-deploy'') ''plan'' sample_receipts (sha256_identity sample_sha '''')
     (sha256_identity sample_sha '''') (sample_intent sample_core)"

lemma sample_promote:
  "promote sample_sha (sample_codec_for c) (sample_context ''profiled-deploy'') ''plan''
     sample_receipts (sha256_identity sample_sha '''') (sha256_identity sample_sha '''')
     (sample_intent sample_core) = sample_promotion"
  by (simp add: sample_promotion_def promote_def read_plan_def sample_codec_for_def)

lemma sample_promotion_ok: "ok sample_promotion"
proof -
  have intent: "intent_valid (sample_intent sample_core) = Inr ()" by code_simp
  obtain g where g: "pp_digest (sample_plan sample_core) = g" "sha256_pattern g"
    and fs: "rf_change_id (facts_of (Plan_Result (sample_plan sample_core))) = ''CHG-1''"
      "rf_target (facts_of (Plan_Result (sample_plan sample_core))) = ''core-02''"
      "rf_device_identity (facts_of (Plan_Result (sample_plan sample_core))) = ''netbox:dcim.device:1''"
      "rf_desired_description (facts_of (Plan_Result (sample_plan sample_core))) = ''uplink''"
      "si_name (rf_interface (facts_of (Plan_Result (sample_plan sample_core)))) = ''Gi2''"
    using sample_child_facts
    by (auto simp: sample_interface_def sample_core_def simp del: facts_of.simps)
  have plan: "pp_change_id (sample_plan sample_core) = ''CHG-1''"
    "pp_target (sample_plan sample_core) = ''core-02''"
    "pp_device_identity (sample_plan sample_core) = ''netbox:dcim.device:1''"
    using fs by simp_all
  have "admit_intent_result (sample_intent sample_core) (Plan_Result (sample_plan sample_core)) = Inr ()"
    using fs intent
    by (simp add: admit_intent_result_def sample_intent_def sample_core_def del: facts_of.simps)
  moreover have "git_commit_pattern (replicate 40 CHR ''a'')" "cli_bound_string ''CHG-1''"
    "profiled_logical_name ''core-02''" "netbox_identity ''dcim.device'' ''netbox:dcim.device:1''"
    by code_simp+
  moreover have "case declaration_member PROFILED_MANAGED_POPULATION ''core-02'' of
      Inr m \<Rightarrow> pm_device_identity m = ''netbox:dcim.device:1'' | Inl _ \<Rightarrow> False"
    by code_simp
  then obtain m where "declaration_member PROFILED_MANAGED_POPULATION ''core-02'' = Inr m"
    "pm_device_identity m = ''netbox:dcim.device:1''"
    by (auto split: sum.splits)
  ultimately show ?thesis
    using sample_plan_facts(1) intent sample_digest g plan sample_validation sample_uuid_canonical
    by (auto simp: sample_promotion_def promote_def read_plan_def sample_codec_for_def checked_digest_def
        promotion_valid_def promotion_digest_def promotion_fields_def checked_uuid_def Let_def
        sample_context_def bindS_def ok_def split: sum.splits)
qed

lemma sample_authorized:
  obtains q where "sample_promotion = Inr q"
    and "authorize sample_sha (sample_codec_for (Inr q)) (sample_context ''profiled-deploy'') ''promotion''
      ''plan'' sample_receipts (sha256_identity sample_sha '''') (sha256_identity sample_sha '''')
      (pm2_digest q) sample_uuid (sample_intent sample_core) = Inr (sample_plan sample_core)"
proof -
  obtain q where q: "sample_promotion = Inr q"
    using sample_promotion_ok by (auto simp: ok_def split: sum.splits)
  have v: "promotion_valid sample_sha q = Inr ()"
    by (rule promote_Inr [OF sample_promote [unfolded q]])
  then have "sha256_pattern (pm2_digest q)" by (auto simp: promotion_valid_def bindS_Inr_iff)
  then have "authorize sample_sha (sample_codec_for (Inr q)) (sample_context ''profiled-deploy'')
      ''promotion'' ''plan'' sample_receipts (sha256_identity sample_sha '''')
      (sha256_identity sample_sha '''') (pm2_digest q) sample_uuid (sample_intent sample_core)
      = Inr (sample_plan sample_core)"
    unfolding authorize_def sample_promote q
    using v sample_uuid_canonical sample_plan_facts(1)
    by (simp add: checked_uuid_def checked_digest_def read_promotion_def read_plan_def
        sample_codec_for_def sample_context_def)
  with q show thesis by (rule that)
qed

section \<open>Properties\<close>

text \<open>C27: approval of a rollout is complete. A publication whose parent bytes read back as a valid plan
  for the current intent, with every engineering receipt and both assurance digests, is promoted;
  the promotion read back from its stored bytes is authorized for any human identity in any job of
  the build: none of the validators on the way rejects what the steps before admitted.\<close>

theorem rollout_approval_completes:
  assumes "publication_valid (ai_publication inp) = Inr ()" and "hex_digest sha"
    and "publication_read sha rc (ai_publication inp) (ai_context inp) (ai_parent_bytes inp)
       (ai_request inp) = Inr r" and "ro_cohorts r = Some (cs, ws)"
    and "verify_validation sha (ai_context inp) (ai_receipts inp) = Inr validation"
    and "sha256_pattern (ai_batfish inp)" and "sha256_pattern (ai_cml inp)"
    and "bc_step (ai_context inp) = ''profiled-rollout-promotion''"
    and "canonical_uuid (bc_job_id (ai_context inp))" and "canonical_uuid unblocker"
  shows "\<exists>p a. promote_rollout sha rc (ai_context inp) (ai_parent_bytes inp) (ai_publication inp)
        (ai_receipts inp) (ai_batfish inp) (ai_cml inp) (ai_request inp) = Inr p
     \<and> (\<forall>decode. decode (ai_promotion_bytes inp) = Inr p \<longrightarrow>
        authorize_rollout sha rc decode inp (rm_digest p)
          (sha256_identity sha (ai_promotion_bytes inp)) unblocker = Inr a)
     \<and> ra_canaries a = cs \<and> ra_waves a = ws
     \<and> ra_selected_devices a = map child_identity (ro_children r)"
proof -
  let ?p = "minted_promotion sha (ai_context inp) (ai_parent_bytes inp) r cs ws validation
      (ai_batfish inp) (ai_cml inp)"
  have step: "(ai_context inp)\<lparr>bc_step := ''profiled-rollout-promotion''\<rparr> = ai_context inp"
    using assms(8) by simp
  let ?a = "minted_authorization sha ?p (sha256_identity sha (ai_promotion_bytes inp)) unblocker"
  have p: "promote_rollout sha rc (ai_context inp) (ai_parent_bytes inp) (ai_publication inp)
        (ai_receipts inp) (ai_batfish inp) (ai_cml inp) (ai_request inp) = Inr ?p"
    by (rule promote_rollout_total [OF assms(8,1,3-7,2)])
  then have "authorize_rollout sha rc decode inp (rm_digest ?p)
      (sha256_identity sha (ai_promotion_bytes inp)) unblocker = Inr ?a"
    if "decode (ai_promotion_bytes inp) = Inr ?p" for decode
    using that assms(2,9,10) by (intro authorize_rollout_total) (simp_all only: step)
  with p show ?thesis by (intro exI [of _ ?p] exI [of _ ?a]) (simp add: promoted_child_of_def)
qed

theorem rollout_approval_completes_witness:
  "\<exists>p. promote_rollout sample_sha sample_rollout_codec (sample_context ''profiled-rollout-promotion'')
     ''parent'' sample_publication sample_receipts (sha256_identity sample_sha '''')
     (sha256_identity sample_sha '''') (Explicit_Request sample_rollout_intent) = Inr p"
proof -
  have ctx: "sample_context s = \<lparr>bc_build_id = sample_uuid, bc_commit = replicate 40 CHR ''a'',
      bc_job_id = sample_uuid, bc_step = s\<rparr>" for s by (rule sample_context_def)
  have sel: "ai_context sample_inputs = sample_context ''profiled-rollout-promotion''"
    "ai_parent_bytes sample_inputs = ''parent''" "ai_publication sample_inputs = sample_publication"
    "ai_receipts sample_inputs = sample_receipts"
    "ai_batfish sample_inputs = sha256_identity sample_sha ''''"
    "ai_cml sample_inputs = sha256_identity sample_sha ''''"
    "ai_request sample_inputs = Explicit_Request sample_rollout_intent"
    by (simp_all add: sample_inputs_def)
  have c: "bc_step (sample_context s) = s" "bc_job_id (sample_context s) = sample_uuid" for s
    by (simp_all add: ctx)
  show ?thesis
    using rollout_approval_completes [where inp = sample_inputs, unfolded sel c,
        OF sample_publication_valid sample_sha_hex sample_publication_read sample_parent_shape(4)
          sample_validation sample_digest sample_digest refl sample_uuid_canonical sample_uuid_canonical]
    by blast
qed

text \<open>C26: an authorization confers exactly the authority of the plan it was derived from. Whatever the
  stored bytes and metadata, when \<^verbatim>\<open>authorize_rollout\<close> returns, the parent bytes decode to a valid
  rollout plan of the context's commit for the currently committed intent, the authorization
  carries the digests of those bytes and of the promotion bytes, its devices are the children of
  the plan in order, its canaries and waves are those of the plan (so they partition the deployable
  children), and every engineering receipt was the one of this build and commit.\<close>

theorem rollout_authorization_binds:
  assumes "authorize_rollout sha rc decode inp semantic artifact unblocker = Inr a"
  shows "\<exists>r. authorizes sha rc inp a r \<and> artifact = sha256_identity sha (ai_promotion_bytes inp)
     \<and> partitions (body_policy (ro_body r)) (ro_children r) (ra_canaries a) (ra_waves a)
     \<and> (\<forall>k \<in> set VALIDATION_KEYS. map_of (ai_receipts inp) k
          = Some (sha256_identity sha (''profiled-validation:'' @ bc_build_id (ai_context inp)
              @ '':'' @ bc_commit (ai_context inp) @ '':'' @ k)))"
proof -
  obtain r p where r: "authorizes sha rc inp a r"
    and p: "promote_rollout sha rc ((ai_context inp)\<lparr>bc_step := ''profiled-rollout-promotion''\<rparr>)
       (ai_parent_bytes inp) (ai_publication inp) (ai_receipts inp) (ai_batfish inp) (ai_cml inp)
       (ai_request inp) = Inr p" and a: "a = minted_authorization sha p artifact unblocker"
    by (rule authorize_rollout_Inr [OF assms])
  obtain v where "verify_validation sha ((ai_context inp)\<lparr>bc_step := ''profiled-rollout-promotion''\<rparr>)
      (ai_receipts inp) = Inr v"
    using promote_rollout_Inr [OF p] by metis
  then have "\<forall>k \<in> set VALIDATION_KEYS. map_of (ai_receipts inp) k
      = Some (sha256_identity sha (''profiled-validation:'' @ bc_build_id (ai_context inp)
          @ '':'' @ bc_commit (ai_context inp) @ '':'' @ k))"
    using verify_validation_Inr by fastforce
  moreover have "partitions (body_policy (ro_body r)) (ro_children r) (ra_canaries a) (ra_waves a)"
    using r parent_cohorts(1) unfolding authorizes_def by blast
  moreover have "artifact = sha256_identity sha (ai_promotion_bytes inp)"
    using r unfolding authorizes_def a by simp
  ultimately show ?thesis using r by blast
qed

theorem rollout_authorization_binds_witness:
  "\<exists>p a. authorizes sample_sha sample_rollout_codec sample_inputs a sample_parent
     \<and> authorize_rollout sample_sha sample_rollout_codec (\<lambda>_. Inr p) sample_inputs (rm_digest p)
         (sha256_identity sample_sha ''promotion'') sample_uuid = Inr a"
proof -
  have sel: "ai_context sample_inputs = sample_context ''profiled-rollout-promotion''"
    "ai_parent_bytes sample_inputs = ''parent''" "ai_publication sample_inputs = sample_publication"
    "ai_receipts sample_inputs = sample_receipts" "ai_promotion_bytes sample_inputs = ''promotion''"
    "ai_batfish sample_inputs = sha256_identity sample_sha ''''"
    "ai_cml sample_inputs = sha256_identity sample_sha ''''"
    "ai_request sample_inputs = Explicit_Request sample_rollout_intent"
    by (simp_all add: sample_inputs_def)
  have c: "bc_step (sample_context s) = s" "bc_job_id (sample_context s) = sample_uuid"
    "(sample_context s)\<lparr>bc_step := s'\<rparr> = sample_context s'" for s s'
    by (simp_all add: sample_context_def)
  note p = promote_rollout_total [OF c(1) sample_publication_valid sample_publication_read
      sample_parent_shape(4) sample_validation sample_digest sample_digest sample_sha_hex]
  let ?p = "minted_promotion sample_sha (sample_context ''profiled-rollout-promotion'') ''parent''
      sample_parent [''netbox:dcim.device:1''] []
      (sha256_identity sample_sha (dumps_strings sample_receipts)) (sha256_identity sample_sha '''')
      (sha256_identity sample_sha '''')"
  obtain a where a: "authorize_rollout sample_sha sample_rollout_codec (\<lambda>_. Inr ?p) sample_inputs
      (rm_digest ?p) (sha256_identity sample_sha ''promotion'') sample_uuid = Inr a"
    using authorize_rollout_total [where inp = sample_inputs and decode = "\<lambda>_. Inr ?p" and p = ?p,
        unfolded sel c, OF p refl sample_sha_hex sample_uuid_canonical sample_uuid_canonical] by blast
  obtain r where "authorizes sample_sha sample_rollout_codec sample_inputs a r"
    using rollout_authorization_binds [OF a] by blast
  moreover from this have "r = sample_parent"
    by (simp add: authorizes_def sel sample_rollout_codec_def)
  ultimately show ?thesis using a by blast
qed

text \<open>C28: one plan is released to a deployment only for the bytes that were approved. When
  \<^verbatim>\<open>authorize\<close> returns a plan, the step is the deployment step, the human identity is canonical,
  the plan bytes decode to that valid plan for the currently committed intent, every engineering
  receipt is the one of this build and commit, and the promotion carries the digest of those bytes
  and of the plan and is the one the metadata names.\<close>

theorem deployment_authorization_binds:
  assumes "authorize sha ac ctx promotion_bytes plan_bytes receipts batfish cml promoted unblocker intent
    = Inr plan"
  shows "\<exists>q. read_promotion sha ac promotion_bytes = Inr q
     \<and> pm2_plan_artifact_digest q = sha256_identity sha plan_bytes \<and> pm2_plan_digest q = pp_digest plan
     \<and> pm2_build_id q = bc_build_id ctx \<and> pm2_commit q = bc_commit ctx
     \<and> pm2_digest q = promoted \<and> promoted = promotion_digest sha q
     \<and> ac_plan ac plan_bytes = Inr plan \<and> profiled_plan_valid sha plan = Inr ()
     \<and> admit_intent_result intent (Plan_Result plan) = Inr ()
     \<and> bc_step ctx = ''profiled-deploy'' \<and> canonical_uuid unblocker
     \<and> (\<forall>k \<in> set VALIDATION_KEYS. map_of receipts k
          = Some (sha256_identity sha (''profiled-validation:'' @ bc_build_id ctx
              @ '':'' @ bc_commit ctx @ '':'' @ k)))"
proof -
  obtain q where q: "bc_step ctx = ''profiled-deploy''" "canonical_uuid unblocker"
    "read_promotion sha ac promotion_bytes = Inr q"
    "promote sha ac ctx plan_bytes receipts batfish cml intent = Inr q"
    "pm2_digest q = promoted" "read_plan sha ac plan_bytes = Inr plan"
    by (rule authorize_Inr [OF assms])
  obtain plan' v where p: "read_plan sha ac plan_bytes = Inr plan'"
    "admit_intent_result intent (Plan_Result plan') = Inr ()"
    "verify_validation sha ctx receipts = Inr v" "pm2_digest q = promotion_digest sha q"
    "pm2_plan_digest q = pp_digest plan'" "pm2_plan_artifact_digest q = sha256_identity sha plan_bytes"
    "pm2_build_id q = bc_build_id ctx" "pm2_commit q = bc_commit ctx"
    by (rule promote_Inr [OF q(4)])
  then have "plan' = plan" using q(6) by simp
  moreover have "ac_plan ac plan_bytes = Inr plan" "profiled_plan_valid sha plan = Inr ()"
    using q(6) by (auto simp: read_plan_def bindS_Inr_iff)
  ultimately show ?thesis using q p verify_validation_Inr [OF p(3)] by metis
qed

theorem deployment_authorization_binds_witness:
  "\<exists>q. sample_promotion = Inr q \<and> pm2_plan_digest q = pp_digest (sample_plan sample_core)"
proof (rule sample_authorized)
  fix q assume q: "sample_promotion = Inr q" and "authorize sample_sha (sample_codec_for (Inr q))
      (sample_context ''profiled-deploy'') ''promotion'' ''plan'' sample_receipts
      (sha256_identity sample_sha '''') (sha256_identity sample_sha '''')
      (pm2_digest q) sample_uuid (sample_intent sample_core) = Inr (sample_plan sample_core)"
  from deployment_authorization_binds [OF this(2)] q show ?thesis
    by (auto simp: read_promotion_def sample_codec_for_def bindS_Inr_iff)
qed

text \<open>A promotion approves one plan. When the same promotion bytes authorize two deployments,
  whatever their contexts, receipts and humans, and the two plan byte strings do not collide under
  SHA-256, both deployments execute the same bytes: the same plan, of the same build and commit.\<close>

theorem promotion_approves_one_plan:
  assumes "authorize sha ac ctx promotion_bytes plan_bytes receipts batfish cml promoted unblocker intent
      = Inr plan"
    and "authorize sha ac ctx' promotion_bytes plan_bytes' receipts' batfish' cml' promoted' unblocker' intent'
      = Inr plan'"
    and "sha plan_bytes = sha plan_bytes' \<Longrightarrow> plan_bytes = plan_bytes'"
  shows "plan_bytes = plan_bytes' \<and> plan = plan' \<and> bc_build_id ctx = bc_build_id ctx'
     \<and> bc_commit ctx = bc_commit ctx' \<and> batfish = batfish' \<and> cml = cml' \<and> promoted = promoted'"
proof -
  obtain q where q: "read_promotion sha ac promotion_bytes = Inr q"
    "promote sha ac ctx plan_bytes receipts batfish cml intent = Inr q" "pm2_digest q = promoted"
    "read_plan sha ac plan_bytes = Inr plan"
    by (rule authorize_Inr [OF assms(1)])
  obtain q' where q': "read_promotion sha ac promotion_bytes = Inr q'"
    "promote sha ac ctx' plan_bytes' receipts' batfish' cml' intent' = Inr q'" "pm2_digest q' = promoted'"
    "read_plan sha ac plan_bytes' = Inr plan'"
    by (rule authorize_Inr [OF assms(2)])
  have "q' = q" using q(1) q'(1) by simp
  moreover have "pm2_plan_artifact_digest q = sha256_identity sha plan_bytes \<and> pm2_batfish_digest q = batfish
      \<and> pm2_cml_digest q = cml \<and> pm2_build_id q = bc_build_id ctx \<and> pm2_commit q = bc_commit ctx"
    by (rule promote_Inr [OF q(2)]) blast
  moreover have "pm2_plan_artifact_digest q' = sha256_identity sha plan_bytes' \<and> pm2_batfish_digest q' = batfish'
      \<and> pm2_cml_digest q' = cml' \<and> pm2_build_id q' = bc_build_id ctx' \<and> pm2_commit q' = bc_commit ctx'"
    by (rule promote_Inr [OF q'(2)]) blast
  ultimately have "plan_bytes = plan_bytes'" using assms(3) by (simp add: sha256_identity_def)
  with \<open>q' = q\<close> q q' \<open>pm2_plan_artifact_digest q = _ \<and> _\<close> \<open>pm2_plan_artifact_digest q' = _ \<and> _\<close>
  show ?thesis by simp
qed

theorem promotion_approves_one_plan_witness:
  "\<exists>q. sample_promotion = Inr q \<and> (\<forall>unblocker bytes plan.
     authorize sample_sha (sample_codec_for (Inr q)) (sample_context ''profiled-deploy'') ''promotion''
       bytes sample_receipts (sha256_identity sample_sha '''') (sha256_identity sample_sha '''')
       (pm2_digest q) unblocker (sample_intent sample_core) = Inr plan
     \<longrightarrow> bytes = ''plan'' \<and> plan = sample_plan sample_core)"
proof (rule sample_authorized)
  fix q assume q: "sample_promotion = Inr q" and a: "authorize sample_sha (sample_codec_for (Inr q))
      (sample_context ''profiled-deploy'') ''promotion'' ''plan'' sample_receipts
      (sha256_identity sample_sha '''') (sha256_identity sample_sha '''')
      (pm2_digest q) sample_uuid (sample_intent sample_core) = Inr (sample_plan sample_core)"
  have "bytes = ''plan'' \<and> plan = sample_plan sample_core"
    if "authorize sample_sha (sample_codec_for (Inr q)) (sample_context ''profiled-deploy'') ''promotion''
       bytes sample_receipts (sha256_identity sample_sha '''') (sha256_identity sample_sha '''')
       (pm2_digest q) unblocker (sample_intent sample_core) = Inr plan" for unblocker bytes plan
  proof -
    have "bytes = ''plan''"
      using that by (auto simp: authorize_def read_plan_def sample_codec_for_def bindS_Inr_iff split: if_splits)
    with promotion_approves_one_plan [OF that a] show ?thesis by simp
  qed
  with q show ?thesis by blast
qed

end
