(* ===== verification/Observation_Properties.thy ===== *)
theory Observation_Properties
  imports Capture
begin

text \<open>
  The properties of configuration evidence (\<^verbatim>\<open>profiled_configuration_observation.py\<close>,
  \<^verbatim>\<open>oxidized_observation.py\<close>), with a history that always answers one revision as the concrete
  input of the witnesses.
\<close>

definition noon :: "nat \<Rightarrow> py_datetime" where
  "noon s = \<lparr>dt_date = (2026, 1, 2), dt_time = (12, 0, s), dt_microsecond = 0, dt_offset = Some 0\<rparr>"

definition sample_revision :: oxidized_revision where
  "sample_revision = \<lparr>rv_commit = replicate 40 CHR ''a'', rv_config_path = ''managed/netbox-device-1'',
     rv_blob = replicate 40 CHR ''b'', rv_collected_at = noon 0\<rparr>"

definition sample_collection :: "collection_outcome \<Rightarrow> nat \<Rightarrow> collection_result" where
  "sample_collection outcome ended = \<lparr>cl_request_id = ''r'', cl_requested_at = noon 10,
     cl_completed_at = Some (noon ended), cl_outcome = outcome, cl_started = Some (noon 9),
     cl_ended = Some (noon ended)\<rparr>"

definition sample_observer :: "collection_result \<Rightarrow> observation_event observer" where
  "sample_observer c = \<lparr>os_event = (\<lambda>e. e), os_controller = (\<lambda>_. Inr ()), os_repository = (\<lambda>_. Inr ()),
     os_latest = (\<lambda>_ _. Inr (Some sample_revision)), os_collect = (\<lambda>_ _. Inr c),
     os_now = (\<lambda>_. noon 30), os_later = (\<lambda>_. noon 30),
     os_monotonic = (\<lambda>t. 10000000 * int (length t)), os_uuid = (\<lambda>_. ''u'')\<rparr>"

text \<open>C29: whatever the controller, the Git history and the clocks answer, an attempt that
  \<^verbatim>\<open>capture_profiled_attempt\<close> returns satisfies the whole evidence contract (ordered UTC
  timestamps, revisions that fit the status, a failure category that fits it), and a POST capture
  never rebases: when it succeeds against an expected baseline, the baseline it reports is that
  one.\<close>

theorem captured_evidence_is_valid:
  assumes "fst (capture_target fuel ob device expected t) = Inr a"
  shows "observation_valid a = Inr ()
    \<and> (successful (ob_status a) \<and> expected \<noteq> None \<longrightarrow> ob_before a = expected)"
  using returns_capture_target [of fuel ob device expected] assms
  unfolding returns_def evidence_for_def by blast

lemma sample_instants: "instant (noon s) = instant (noon 0) + int s * 1000000"
  by (simp add: instant_def noon_def)

lemma sample_revision_valid: "revision_valid sample_revision = Inr ()"
proof -
  have "oxidized_object_id (replicate 40 CHR ''a'')" "oxidized_object_id (replicate 40 CHR ''b'')"
    "config_path_ok ''managed/netbox-device-1''"
    by code_simp+
  then show ?thesis by (simp add: revision_valid_def sample_revision_def is_utc_def noon_def)
qed

lemma sample_capture:
  "\<exists>a. fst (capture_target 3 (sample_observer (sample_collection SUCCEEDED_Collection 20))
      ''netbox:dcim.device:1'' (Some sample_revision) []) = Inr a \<and> successful (ob_status a)"
proof -
  have node: "node_for_target ''netbox:dcim.device:1'' = Inr ''netbox-device-1''" by code_simp
  have utc: "is_utc (noon s)" for s by (simp add: is_utc_def noon_def)
  note times = sample_instants [of 9] sample_instants [of 10] sample_instants [of 20]
    sample_instants [of 30]
  show ?thesis
    using node sample_revision_valid utc times
    by (simp add: capture_target_def capture_attempt_def latest_revision_def latest_or_none_def
        capture_collected_def bind_collection_result_def numeral_3_eq_3 settle_loop.simps
        revision_changed_def settled_def settlement_completed_at_def settlement_valid_def
        bound_attempt_def observed_def observation_valid_def revisions_valid_def chronology_checks_def
        success_checks_def finished_at_def same_revision_def successful_def sample_observer_def
        sample_collection_def sample_revision_def REVISION_WAIT_SECONDS_def eff_simps)
qed

theorem captured_evidence_is_valid_witness:
  "\<exists>a. fst (capture_target 3 (sample_observer (sample_collection SUCCEEDED_Collection 20))
      ''netbox:dcim.device:1'' (Some sample_revision) []) = Inr a \<and> successful (ob_status a)
      \<and> observation_valid a = Inr () \<and> ob_before a = Some sample_revision"
  using sample_capture captured_evidence_is_valid by blast

text \<open>C30: settling a collection ends. Whatever the history answers (absence, the old revision, a new
  one), when the monotonic clock passes the ten seconds of the deadline within \<open>n\<close> polls, more
  than \<open>n\<close> steps of the loop are enough: the binding returns or raises one of the code's errors.\<close>

theorem settlement_ends:
  assumes "history_answers ob" and "clock_advances n ob" and "n < fuel"
  shows "fst (bind_collection_result fuel ob node before c t) \<noteq> Inl (Raised diverged)"
  using assms by (rule bind_collection_ends)

theorem settlement_ends_witness:
  "\<forall>c. fst (bind_collection_result 2 (sample_observer c) ''netbox-device-1'' None c [])
     \<noteq> Inl (Raised diverged)"
proof (intro allI settlement_ends [where n = 1])
  fix c
  show "history_answers (sample_observer c)"
    by (simp add: history_answers_def sample_observer_def)
  show "clock_advances 1 (sample_observer c)"
    by (auto simp: clock_advances_def sample_observer_def REVISION_WAIT_SECONDS_def)
qed simp

text \<open>C31: a collection that ended before it was requested leaves no evidence. The controller reports an
  unsuccessful collection with the upstream job's own end time, which its clock tolerance lets lie
  before the request; then no attempt is recorded at all: \<^verbatim>\<open>capture_attempt\<close> raises instead of
  returning the failed or ambiguous attempt it builds.\<close>

theorem early_completion_leaves_no_evidence:
  assumes "cl_outcome c \<noteq> SUCCEEDED_Collection" and "cl_completed_at c = Some ended"
    and "instant ended < instant (cl_requested_at c)"
  shows "\<not> ok (fst (capture_collected fuel ob node before c t))"
  using assms by (rule early_completion_rejected)

theorem early_completion_leaves_no_evidence_witness:
  "\<not> ok (fst (capture_collected 3 (sample_observer (sample_collection INCONSISTENT_Collection 8))
     ''netbox-device-1'' sample_revision (sample_collection INCONSISTENT_Collection 8) []))
   \<and> cl_completed_at (sample_collection INCONSISTENT_Collection 8) = Some (noon 8)"
proof (intro conjI)
  have "instant (noon 8) < instant (cl_requested_at (sample_collection INCONSISTENT_Collection 8))"
    by code_simp
  then show "\<not> ok (fst (capture_collected 3 (sample_observer (sample_collection INCONSISTENT_Collection 8))
     ''netbox-device-1'' sample_revision (sample_collection INCONSISTENT_Collection 8) []))"
    by (rule early_completion_leaves_no_evidence [rotated -1]) (simp_all add: sample_collection_def)
qed (simp add: sample_collection_def)

end
