(* ===== verification/Rollout_Audit.thy ===== *)
theory Rollout_Audit
  imports Rollout_Approval
begin

text \<open>
  \<^verbatim>\<open>profiled_rollout_audit.py\<close>: the signed records of one rollout (child, chronology, parent), their
  digests and the validators that correlate them. \<^verbatim>\<open>uuid5\<close> is a parameter. UUIDs are strings.
\<close>

section \<open>Serialization of evidence\<close>

fun observation_status_value :: "observation_status \<Rightarrow> string" where
  "observation_status_value CHANGED = ''CHANGED''"
| "observation_status_value UNCHANGED = ''UNCHANGED''"
| "observation_status_value FAILED_Attempt = ''FAILED''"
| "observation_status_value TIMED_OUT = ''TIMED_OUT''"
| "observation_status_value AMBIGUOUS_Attempt = ''AMBIGUOUS''"

fun observation_failure_value :: "observation_failure \<Rightarrow> string" where
  "observation_failure_value SOURCE_UNAVAILABLE = ''SOURCE_UNAVAILABLE''"
| "observation_failure_value NODE_UNAVAILABLE = ''NODE_UNAVAILABLE''"
| "observation_failure_value AUTHENTICATION_FAILED = ''AUTHENTICATION_FAILED''"
| "observation_failure_value CONNECTION_FAILED = ''CONNECTION_FAILED''"
| "observation_failure_value COLLECTION_FAILED = ''COLLECTION_FAILED''"
| "observation_failure_value COLLECTION_TIMED_OUT = ''COLLECTION_TIMED_OUT''"
| "observation_failure_value OUTPUT_FAILED = ''OUTPUT_FAILED''"
| "observation_failure_value HISTORY_UNAVAILABLE = ''HISTORY_UNAVAILABLE''"
| "observation_failure_value CONCURRENT_COLLECTION = ''CONCURRENT_COLLECTION''"
| "observation_failure_value INCONSISTENT_EVIDENCE = ''INCONSISTENT_EVIDENCE''"

fun observation_overall_value :: "observation_overall \<Rightarrow> string" where
  "observation_overall_value SUCCEEDED_Overall = ''SUCCEEDED''"
| "observation_overall_value PARTIAL_Overall = ''PARTIAL''"
| "observation_overall_value FAILED_Overall = ''FAILED''"
| "observation_overall_value AMBIGUOUS_Overall = ''AMBIGUOUS''"

fun final_outcome_value :: "final_outcome \<Rightarrow> string" where
  "final_outcome_value COMPLIANT = ''COMPLIANT''"
| "final_outcome_value BLOCKED = ''BLOCKED''"
| "final_outcome_value STALE_PLAN = ''STALE_PLAN''"
| "final_outcome_value SUCCEEDED = ''SUCCEEDED''"
| "final_outcome_value EXECUTION_FAILED = ''EXECUTION_FAILED''"
| "final_outcome_value AMBIGUOUS = ''AMBIGUOUS''"
| "final_outcome_value POST_VALIDATION_FAILED = ''POST_VALIDATION_FAILED''"
| "final_outcome_value RECOVERED = ''RECOVERED''"
| "final_outcome_value RECOVERY_FAILED = ''RECOVERY_FAILED''"
| "final_outcome_value RECOVERY_AMBIGUOUS = ''RECOVERY_AMBIGUOUS''"
| "final_outcome_value AUTO_ROLLBACK_PENDING = ''AUTO_ROLLBACK_PENDING''"
| "final_outcome_value CONFIRMATION_FAILED = ''CONFIRMATION_FAILED''"
| "final_outcome_value CONFIRMATION_AMBIGUOUS = ''CONFIRMATION_AMBIGUOUS''"

definition time_json :: "py_datetime \<Rightarrow> json" where
  "time_json t = JStr (isoformat t)"

definition revision_json :: "oxidized_revision \<Rightarrow> json" where
  "revision_json r = JObj [(''commit'', JStr (rv_commit r)), (''config_path'', JStr (rv_config_path r)),
     (''blob'', JStr (rv_blob r)), (''collected_at'', time_json (rv_collected_at r))]"

definition observation_json :: "oxidized_observation \<Rightarrow> json" where
  "observation_json a = JObj
    [(''request_id'', JStr (ob_request_id a)), (''requested_at'', time_json (ob_requested_at a)),
     (''completed_at'', jopt time_json (ob_completed_at a)),
     (''status'', JStr (observation_status_value (ob_status a))),
     (''before_revision'', jopt revision_json (ob_before a)),
     (''after_revision'', jopt revision_json (ob_after a)),
     (''failure_category'', jopt (\<lambda>f. JStr (observation_failure_value f)) (ob_failure a))]"

definition stage_json :: "stage_result \<Rightarrow> json" where
  "stage_json s = JObj [(''attempted'', JBool (sr_attempted s)), (''succeeded'', jopt JBool (sr_succeeded s)),
     (''changed'', jopt JBool (sr_changed s)),
     (''observed_description'', jopt JStr (sr_observed_description s)), (''message'', JStr (sr_message s))]"

definition change_record_json :: "profiled_change_record \<Rightarrow> json" where
  "change_record_json r = JObj
    [(''schema_version'', JStr ''2''), (''record_type'', JStr ''profiled_change_record''),
     (''generated_at'', time_json (xr_generated_at r)), (''change_id'', JStr (xr_change_id r)),
     (''plan_digest'', JStr (xr_plan_digest r)), (''approval_digest'', JStr (xr_approval_digest r)),
     (''target'', JStr (xr_target r)), (''device_identity'', JStr (xr_device_identity r)),
     (''interface'', interface_json (xr_interface r)), (''platform_slug'', JStr (xr_platform_slug r)),
     (''network_os'', JStr (network_os_value (xr_network_os r))),
     (''automation_profile_id'', JStr (automation_profile_id_value (xr_automation_profile_id r))),
     (''operation'', JStr (profiled_operation_value (xr_operation r))), (''host'', JStr (xr_host r)),
     (''port'', JInt (xr_port r)), (''expected_hostname'', JStr (xr_expected_hostname r)),
     (''previous_description'', jopt JStr (xr_previous_description r)),
     (''desired_description'', JStr (xr_desired_description r)),
     (''credential_source'', JStr (xr_credential_source r)),
     (''credential_reference'', JStr (xr_credential_reference r)),
     (''transaction_strategy'', JStr (transaction_strategy_value (xr_transaction_strategy r))),
     (''preflight'', stage_json (xr_preflight r)), (''execution'', stage_json (xr_execution r)),
     (''post_validation'', stage_json (xr_post_validation r)), (''recovery'', stage_json (xr_recovery r)),
     (''candidate_validation'', jopt stage_json (xr_candidate_validation r)),
     (''candidate_diff_digest'', jopt JStr (xr_candidate_diff_digest r)),
     (''confirmation'', jopt stage_json (xr_confirmation r)),
     (''managed_state_acceptance_attempted'', JBool False),
     (''final_outcome'', JStr (final_outcome_value (xr_final_outcome r)))]"

section \<open>Identities\<close>

definition CHRONOLOGY_NAMESPACE :: string where
  "CHRONOLOGY_NAMESPACE = ''9f29f54c-f239-58c9-b28e-d604a3fa86b1''"

type_synonym uuid5 = "string \<Rightarrow> string \<Rightarrow> string"

definition child_record_id :: "uuid5 \<Rightarrow> string \<Rightarrow> string \<Rightarrow> string" where
  "child_record_id u parent device = u parent device"

definition chronology_record_id :: "uuid5 \<Rightarrow> string \<Rightarrow> string" where
  "chronology_record_id u child = u child CHRONOLOGY_NAMESPACE"

record record_reference =
  rr_record_id :: string
  rr_digest :: string

definition reference_json :: "record_reference \<Rightarrow> json" where
  "reference_json r = JObj [(''record_id'', JStr (rr_record_id r)), (''digest'', JStr (rr_digest r))]"

text \<open>\<open>RolloutChildBinding\<close> has the fields and constraints of a promoted child.\<close>

type_synonym rollout_child_binding = promoted_child

section \<open>The child record\<close>

datatype cohort_kind = CANARY | WAVE

record child_audit =
  ca_record_id :: string
  ca_parent_record_id :: string
  ca_build_id :: string
  ca_job_id :: string
  ca_source_commit :: string
  ca_parent_digest :: string
  ca_promotion_digest :: string
  ca_authorization_digest :: string
  ca_preflight_digest :: string
  ca_child :: rollout_child_binding
  ca_cohort_kind :: cohort_kind
  ca_cohort_index :: nat
  ca_execution_order :: nat
  ca_write_attempted :: "bool option"
  ca_execution_digest :: "string option"
  ca_final_outcome :: "final_outcome option"
  ca_pre_status :: observation_status
  ca_post_status :: "observation_status option"
  ca_digest :: string

definition child_audit_fields :: "child_audit \<Rightarrow> (string \<times> json) list" where
  "child_audit_fields r =
    [(''schema_version'', JStr ''1''), (''record_type'', JStr ''profiled_rollout_child_audit_record''),
     (''record_id'', JStr (ca_record_id r)), (''parent_record_id'', JStr (ca_parent_record_id r)),
     (''build_id'', JStr (ca_build_id r)), (''job_id'', JStr (ca_job_id r)),
     (''source_commit'', JStr (ca_source_commit r)), (''parent_digest'', JStr (ca_parent_digest r)),
     (''promotion_digest'', JStr (ca_promotion_digest r)),
     (''authorization_digest'', JStr (ca_authorization_digest r)),
     (''preflight_digest'', JStr (ca_preflight_digest r)), (''child'', promoted_child_json (ca_child r)),
     (''cohort_kind'', JStr (case ca_cohort_kind r of CANARY \<Rightarrow> ''CANARY'' | WAVE \<Rightarrow> ''WAVE'')),
     (''cohort_index'', JInt (int (ca_cohort_index r))),
     (''execution_order'', JInt (int (ca_execution_order r))), (''child_lifecycle_entered'', JBool True),
     (''write_attempted'', jopt JBool (ca_write_attempted r)),
     (''execution_digest'', jopt JStr (ca_execution_digest r)),
     (''final_outcome'', jopt (\<lambda>x. JStr (final_outcome_value x)) (ca_final_outcome r)),
     (''pre_status'', JStr (observation_status_value (ca_pre_status r))),
     (''post_status'', jopt (\<lambda>x. JStr (observation_status_value x)) (ca_post_status r))]"

definition child_audit_digest :: "(string \<Rightarrow> string) \<Rightarrow> child_audit \<Rightarrow> string" where
  "child_audit_digest sha r = sha256_identity sha (canonical_json_bytes (JObj (child_audit_fields r)))"

definition child_audit_correlated :: "uuid5 \<Rightarrow> child_audit \<Rightarrow> bool" where
  "child_audit_correlated u r \<longleftrightarrow>
     ca_record_id r = child_record_id u (ca_parent_record_id r) (pc_device_identity (ca_child r))
     \<and> ca_job_id r = ca_parent_record_id r \<and> pc_kind (ca_child r) = DEPLOYABLE
     \<and> (ca_execution_digest r = None) = (ca_final_outcome r = None)
     \<and> (ca_execution_digest r = None) = (ca_write_attempted r = None)
     \<and> successful (ca_pre_status r)"

definition digest_option :: "string option \<Rightarrow> bool" where
  "digest_option d = (case d of None \<Rightarrow> True | Some v \<Rightarrow> sha256_pattern v)"

definition child_audit_valid :: "(string \<Rightarrow> string) \<Rightarrow> uuid5 \<Rightarrow> child_audit \<Rightarrow> unit res" where
  "child_audit_valid sha u r = checks
    [(\<not> git_commit_pattern (ca_source_commit r)
       \<or> \<not> list_all sha256_pattern [ca_parent_digest r, ca_promotion_digest r,
            ca_authorization_digest r, ca_preflight_digest r, ca_digest r]
       \<or> \<not> digest_option (ca_execution_digest r) \<or> \<not> promoted_child_valid (ca_child r)
       \<or> ca_cohort_index r > MAX_MEMBERS \<or> ca_execution_order r \<ge> MAX_MEMBERS,
       ValueError ''child record field''),
     (ca_digest r \<noteq> child_audit_digest sha r, ValueError ''rollout evidence digest rejected''),
     (\<not> child_audit_correlated u r, ValueError ''rollout child correlation rejected'')]"

text \<open>\<open>_signed\<close>: the digest of the values, then the validators of the model.\<close>

definition child_audit_signed ::
    "(string \<Rightarrow> string) \<Rightarrow> uuid5 \<Rightarrow> child_audit \<Rightarrow> child_audit res" where
  "child_audit_signed sha u r = (let s = r\<lparr>ca_digest := child_audit_digest sha r\<rparr>
     in bindS (child_audit_valid sha u s) (\<lambda>_. Inr s))"

section \<open>The chronology record\<close>

record chronology =
  cy_record_id :: string
  cy_child_audit :: record_reference
  cy_device_identity :: string
  cy_pre :: oxidized_observation
  cy_post :: oxidized_observation
  cy_overall :: observation_overall
  cy_digest :: string

definition chronology_fields :: "chronology \<Rightarrow> (string \<times> json) list" where
  "chronology_fields r =
    [(''schema_version'', JStr ''1''), (''record_type'', JStr ''profiled_rollout_chronology_record''),
     (''record_id'', JStr (cy_record_id r)), (''child_audit'', reference_json (cy_child_audit r)),
     (''device_identity'', JStr (cy_device_identity r)), (''pre'', observation_json (cy_pre r)),
     (''post'', observation_json (cy_post r)), (''relationship'', JStr ''TEMPORALLY_BRACKETED''),
     (''causality'', JStr ''NOT_PROVEN''),
     (''overall_status'', JStr (observation_overall_value (cy_overall r)))]"

definition chronology_digest :: "(string \<Rightarrow> string) \<Rightarrow> chronology \<Rightarrow> string" where
  "chronology_digest sha r = sha256_identity sha (canonical_json_bytes (JObj (chronology_fields r)))"

definition brackets :: "oxidized_observation \<Rightarrow> oxidized_observation \<Rightarrow> bool" where
  "brackets pre post \<longleftrightarrow> successful (ob_status pre) \<and> ob_completed_at pre \<noteq> None \<and> ob_after pre \<noteq> None
     \<and> \<not> option_holds (\<lambda>t. instant t > instant (ob_requested_at post)) (ob_completed_at pre)
     \<and> (successful (ob_status post) \<longrightarrow> ob_before post = ob_after pre)"

definition targets_node :: "string \<Rightarrow> oxidized_observation \<Rightarrow> bool" where
  "targets_node node a \<longleftrightarrow>
     \<not> option_holds (\<lambda>r. rv_config_path r \<noteq> managed_path node) (ob_before a)
     \<and> \<not> option_holds (\<lambda>r. rv_config_path r \<noteq> managed_path node) (ob_after a)"

definition chronology_valid :: "(string \<Rightarrow> string) \<Rightarrow> uuid5 \<Rightarrow> chronology \<Rightarrow> unit res" where
  "chronology_valid sha u r =
    bindS (checks
     [(\<not> sha256_pattern (rr_digest (cy_child_audit r)) \<or> \<not> sha256_pattern (cy_digest r)
        \<or> \<not> netbox_identity ''dcim.device'' (cy_device_identity r) \<or> cy_overall r = FAILED_Overall,
        ValueError ''chronology field'')]) (\<lambda>_.
    bindS (observation_valid (cy_pre r)) (\<lambda>_.
    bindS (observation_valid (cy_post r)) (\<lambda>_.
    bindS (checks
     [(cy_digest r \<noteq> chronology_digest sha r, ValueError ''rollout evidence digest rejected''),
      (cy_record_id r \<noteq> chronology_record_id u (rr_record_id (cy_child_audit r))
        \<or> \<not> brackets (cy_pre r) (cy_post r) \<or> cy_overall r \<noteq> overall_status (ob_status (cy_post r)),
        ValueError ''rollout chronology bracket rejected'')]) (\<lambda>_.
    bindS (node_for_target (cy_device_identity r)) (\<lambda>node. checks
     [(\<not> targets_node node (cy_pre r) \<or> \<not> targets_node node (cy_post r),
        ValueError ''rollout chronology target rejected'')])))))"

definition chronology_signed ::
    "(string \<Rightarrow> string) \<Rightarrow> uuid5 \<Rightarrow> chronology \<Rightarrow> chronology res" where
  "chronology_signed sha u r = (let s = r\<lparr>cy_digest := chronology_digest sha r\<rparr>
     in bindS (chronology_valid sha u s) (\<lambda>_. Inr s))"

end
