(* ===== verification/Rollout_Record.thy ===== *)
theory Rollout_Record
  imports Rollout_Audit
begin

text \<open>
  The parent audit record of a rollout (\<^verbatim>\<open>profiled_rollout_audit.py\<close>): the population it was run on,
  the attempted prefix of the frozen order with its evidence, where and why it stopped, and the
  outcome, all correlated by one validator.
\<close>

datatype rollout_outcome =
    SUCCEEDED_Rollout | STOPPED | PARTIAL | EVIDENCE_FAILED | FINAL_VALIDATION_FAILED

datatype stopping_reason =
    PREFLIGHT | PRE_CHRONOLOGY | CHILD_NON_SUCCESS | CHILD_EXECUTION_UNCERTAIN | CHILD_EVIDENCE
  | FINAL_VALIDATION

datatype validation_status = PASSED | FAILED

fun rollout_outcome_value :: "rollout_outcome \<Rightarrow> string" where
  "rollout_outcome_value SUCCEEDED_Rollout = ''SUCCEEDED''"
| "rollout_outcome_value STOPPED = ''STOPPED''"
| "rollout_outcome_value PARTIAL = ''PARTIAL''"
| "rollout_outcome_value EVIDENCE_FAILED = ''EVIDENCE_FAILED''"
| "rollout_outcome_value FINAL_VALIDATION_FAILED = ''FINAL_VALIDATION_FAILED''"

fun stopping_reason_value :: "stopping_reason \<Rightarrow> string" where
  "stopping_reason_value PREFLIGHT = ''PREFLIGHT''"
| "stopping_reason_value PRE_CHRONOLOGY = ''PRE_CHRONOLOGY''"
| "stopping_reason_value CHILD_NON_SUCCESS = ''CHILD_NON_SUCCESS''"
| "stopping_reason_value CHILD_EXECUTION_UNCERTAIN = ''CHILD_EXECUTION_UNCERTAIN''"
| "stopping_reason_value CHILD_EVIDENCE = ''CHILD_EVIDENCE''"
| "stopping_reason_value FINAL_VALIDATION = ''FINAL_VALIDATION''"

fun validation_status_value :: "validation_status \<Rightarrow> string" where
  "validation_status_value PASSED = ''PASSED''"
| "validation_status_value FAILED = ''FAILED''"

record rollout_audit =
  au_record_id :: string
  au_pipeline_id :: string
  au_build_id :: string
  au_build_number :: int
  au_job_id :: string
  au_source_commit :: string
  au_generated_at :: py_datetime
  au_change_id :: string
  au_parent_digest :: string
  au_parent_artifact_digest :: string
  au_promotion_digest :: string
  au_promotion_artifact_digest :: string
  au_authorization_digest :: string
  au_unblocker_id :: string
  au_preflight_digest :: "string option"
  au_children :: "rollout_child_binding list"
  au_canaries :: "string list"
  au_waves :: "string list list"
  au_child_records :: "record_reference list"
  au_chronology_records :: "record_reference list"
  au_child_evidence_complete :: bool
  au_evidence_failed :: bool
  au_compliant :: "string list"
  au_attempted :: "string list"
  au_successful :: "string list"
  au_untouched :: "string list"
  au_stopping_member :: "string option"
  au_stopping_reason :: "stopping_reason option"
  au_stopping_outcome :: "final_outcome option"
  au_completed_canaries :: "string list"
  au_completed_waves :: "string list list"
  au_remaining_waves :: "string list list"
  au_final_validation_digest :: "string option"
  au_final_validation_status :: "validation_status option"
  au_outcome :: rollout_outcome
  au_digest :: string

definition rollout_audit_fields :: "rollout_audit \<Rightarrow> (string \<times> json) list" where
  "rollout_audit_fields r =
    [(''schema_version'', JStr ''1''), (''record_type'', JStr ''profiled_rollout_audit_record''),
     (''record_id'', JStr (au_record_id r)), (''pipeline_id'', JStr (au_pipeline_id r)),
     (''build_id'', JStr (au_build_id r)), (''build_number'', JInt (au_build_number r)),
     (''job_id'', JStr (au_job_id r)), (''source_commit'', JStr (au_source_commit r)),
     (''generated_at'', time_json (au_generated_at r)), (''change_id'', JStr (au_change_id r)),
     (''parent_digest'', JStr (au_parent_digest r)),
     (''parent_artifact_digest'', JStr (au_parent_artifact_digest r)),
     (''promotion_digest'', JStr (au_promotion_digest r)),
     (''promotion_artifact_digest'', JStr (au_promotion_artifact_digest r)),
     (''authorization_digest'', JStr (au_authorization_digest r)),
     (''unblocker_id'', JStr (au_unblocker_id r)),
     (''preflight_digest'', jopt JStr (au_preflight_digest r)),
     (''children'', JArr (map promoted_child_json (au_children r))),
     (''canaries'', strings_json (au_canaries r)), (''waves'', JArr (map strings_json (au_waves r))),
     (''child_records'', JArr (map reference_json (au_child_records r))),
     (''chronology_records'', JArr (map reference_json (au_chronology_records r))),
     (''child_evidence_complete'', JBool (au_child_evidence_complete r)),
     (''evidence_failed'', JBool (au_evidence_failed r)), (''compliant'', strings_json (au_compliant r)),
     (''attempted'', strings_json (au_attempted r)), (''successful'', strings_json (au_successful r)),
     (''untouched'', strings_json (au_untouched r)),
     (''stopping_member'', jopt JStr (au_stopping_member r)),
     (''stopping_reason'', jopt (\<lambda>x. JStr (stopping_reason_value x)) (au_stopping_reason r)),
     (''stopping_outcome'', jopt (\<lambda>x. JStr (final_outcome_value x)) (au_stopping_outcome r)),
     (''completed_canaries'', strings_json (au_completed_canaries r)),
     (''completed_waves'', JArr (map strings_json (au_completed_waves r))),
     (''remaining_waves'', JArr (map strings_json (au_remaining_waves r))),
     (''final_validation_digest'', jopt JStr (au_final_validation_digest r)),
     (''final_validation_status'', jopt (\<lambda>x. JStr (validation_status_value x)) (au_final_validation_status r)),
     (''outcome'', JStr (rollout_outcome_value (au_outcome r)))]"

definition rollout_audit_digest :: "(string \<Rightarrow> string) \<Rightarrow> rollout_audit \<Rightarrow> string" where
  "rollout_audit_digest sha r = sha256_identity sha (canonical_json_bytes (JObj (rollout_audit_fields r)))"

section \<open>Correlation\<close>

definition audit_deployable :: "rollout_audit \<Rightarrow> string list" where
  "audit_deployable r = promoted_deployables (au_children r)"

definition audit_order :: "rollout_audit \<Rightarrow> string list" where
  "audit_order r = au_canaries r @ concat (au_waves r)"

definition audit_population :: "rollout_audit \<Rightarrow> bool" where
  "audit_population r \<longleftrightarrow>
     (let deployable = audit_deployable r; order = audit_order r;
          done = (\<lambda>d. List.member (au_successful r) d)
      in au_record_id r = au_job_id r \<and> dt_offset (au_generated_at r) \<noteq> None
       \<and> distinct (map rr_record_id (au_child_records r))
       \<and> distinct (map rr_record_id (au_chronology_records r))
       \<and> distinct (map pc_device_identity (au_children r)) \<and> distinct order
       \<and> same_set order deployable
       \<and> au_compliant r = map pc_device_identity (filter (\<lambda>c. pc_kind c = COMPLIANT_Child) (au_children r))
       \<and> au_attempted r = take (length (au_attempted r)) order
       \<and> au_successful r = take (length (au_successful r)) (au_attempted r)
       \<and> au_untouched r = filter (\<lambda>d. \<not> List.member (au_attempted r) d) deployable
       \<and> au_completed_canaries r = filter done (au_canaries r)
       \<and> au_completed_waves r = filter (list_all done) (au_waves r)
       \<and> au_remaining_waves r = filter (\<lambda>w. \<not> list_all done w) (au_waves r)
       \<and> (au_final_validation_digest r = None) = (au_final_validation_status r = None)
       \<and> \<not> (au_preflight_digest r = None \<and> au_attempted r \<noteq> [])
       \<and> (case au_stopping_member r of None \<Rightarrow> True | Some m \<Rightarrow> List.member deployable m))"

definition stopped_at_last :: "rollout_audit \<Rightarrow> bool" where
  "stopped_at_last r \<longleftrightarrow> au_attempted r \<noteq> [] \<and> au_stopping_member r = Some (last (au_attempted r))"

definition audit_coverage :: "uuid5 \<Rightarrow> rollout_audit \<Rightarrow> bool" where
  "audit_coverage u r \<longleftrightarrow>
     (let expected = map (child_record_id u (au_record_id r)) (au_attempted r);
          chronologies = map (chronology_record_id u) expected;
          ids = map rr_record_id (au_child_records r);
          times = map rr_record_id (au_chronology_records r);
          incomplete = au_evidence_failed r \<and> stopped_at_last r
            \<and> List.member (map Some [CHILD_EVIDENCE, CHILD_EXECUTION_UNCERTAIN]) (au_stopping_reason r);
          required = length (au_attempted r) - (if incomplete then 1 else 0)
      in ids = take (length ids) expected \<and> times = take (length times) chronologies
       \<and> required \<le> length times \<and> length times \<le> length ids \<and> length ids \<le> length (au_attempted r)
       \<and> au_child_evidence_complete r = (ids = expected \<and> times = chronologies))"

definition all_succeeded :: "rollout_audit \<Rightarrow> bool" where
  "all_succeeded r \<longleftrightarrow> length (au_successful r) = length (audit_deployable r)"

definition audit_reason :: "rollout_audit \<Rightarrow> bool" where
  "audit_reason r \<longleftrightarrow> (case au_stopping_reason r of
     Some PREFLIGHT \<Rightarrow> au_attempted r = [] \<and> au_stopping_member r = None
   | Some PRE_CHRONOLOGY \<Rightarrow> length (au_attempted r) < length (audit_order r)
       \<and> au_stopping_member r = Some (audit_order r ! length (au_attempted r))
       \<and> au_successful r = au_attempted r
   | Some CHILD_NON_SUCCESS \<Rightarrow> stopped_at_last r \<and> au_successful r = butlast (au_attempted r)
       \<and> au_stopping_outcome r \<noteq> None \<and> au_stopping_outcome r \<noteq> Some SUCCEEDED
   | Some CHILD_EXECUTION_UNCERTAIN \<Rightarrow> stopped_at_last r \<and> au_successful r = butlast (au_attempted r)
       \<and> au_stopping_outcome r = None
   | Some CHILD_EVIDENCE \<Rightarrow> au_evidence_failed r \<and> au_attempted r \<noteq> []
       \<and> (stopped_at_last r \<or> au_stopping_member r = None \<and> all_succeeded r)
   | _ \<Rightarrow> all_succeeded r \<and> au_stopping_member r = None)
   \<and> (au_evidence_failed r
       \<longrightarrow> List.member (map Some [CHILD_EVIDENCE, CHILD_EXECUTION_UNCERTAIN]) (au_stopping_reason r))"

definition audit_outcome :: "rollout_audit \<Rightarrow> bool" where
  "audit_outcome r \<longleftrightarrow> (case au_outcome r of
     SUCCEEDED_Rollout \<Rightarrow> all_succeeded r \<and> au_final_validation_status r = Some PASSED
       \<and> au_stopping_reason r = None
   | FINAL_VALIDATION_FAILED \<Rightarrow> all_succeeded r \<and> au_final_validation_status r = Some FAILED
       \<and> au_stopping_reason r = Some FINAL_VALIDATION
   | EVIDENCE_FAILED \<Rightarrow> all_succeeded r \<and> au_evidence_failed r
       \<and> au_stopping_reason r = Some CHILD_EVIDENCE
   | PARTIAL \<Rightarrow> au_successful r \<noteq> [] \<and> \<not> all_succeeded r \<and> au_stopping_reason r \<noteq> None
   | STOPPED \<Rightarrow> au_successful r = [] \<and> au_stopping_reason r \<noteq> None)"

definition rollout_audit_fields_valid :: "rollout_audit \<Rightarrow> bool" where
  "rollout_audit_fields_valid r \<longleftrightarrow>
     au_build_number r > 0 \<and> git_commit_pattern (au_source_commit r)
     \<and> au_change_id r \<noteq> [] \<and> length (au_change_id r) \<le> 100
     \<and> list_all sha256_pattern [au_parent_digest r, au_parent_artifact_digest r, au_promotion_digest r,
         au_promotion_artifact_digest r, au_authorization_digest r, au_digest r]
     \<and> digest_option (au_preflight_digest r) \<and> digest_option (au_final_validation_digest r)
     \<and> au_children r \<noteq> [] \<and> length (au_children r) \<le> MAX_MEMBERS
     \<and> list_all promoted_child_valid (au_children r)
     \<and> list_all (\<lambda>x. sha256_pattern (rr_digest x)) (au_child_records r @ au_chronology_records r)
     \<and> list_all (netbox_identity ''dcim.device'')
         (au_canaries r @ concat (au_waves r) @ au_compliant r @ au_attempted r @ au_successful r
           @ au_untouched r @ au_completed_canaries r @ concat (au_completed_waves r)
           @ concat (au_remaining_waves r))
     \<and> (case au_stopping_member r of None \<Rightarrow> True | Some m \<Rightarrow> netbox_identity ''dcim.device'' m)"

definition rollout_audit_valid :: "(string \<Rightarrow> string) \<Rightarrow> uuid5 \<Rightarrow> rollout_audit \<Rightarrow> unit res" where
  "rollout_audit_valid sha u r = checks
    [(\<not> rollout_audit_fields_valid r, ValueError ''rollout record field''),
     (au_digest r \<noteq> rollout_audit_digest sha r, ValueError ''rollout evidence digest rejected''),
     (\<not> audit_population r, ValueError ''rollout parent population/outcome rejected''),
     (\<not> audit_coverage u r, ValueError ''rollout attempted-prefix evidence coverage rejected''),
     (\<not> audit_reason r, ValueError ''rollout stopping/evidence facts rejected''),
     (\<not> audit_outcome r, ValueError ''rollout parent outcome truth rejected'')]"

definition rollout_audit_signed ::
    "(string \<Rightarrow> string) \<Rightarrow> uuid5 \<Rightarrow> rollout_audit \<Rightarrow> rollout_audit res" where
  "rollout_audit_signed sha u r = (let s = r\<lparr>au_digest := rollout_audit_digest sha r\<rparr>
     in bindS (rollout_audit_valid sha u s) (\<lambda>_. Inr s))"

record rollout_receipt =
  rc_record_id :: string
  rc_record_digest :: string
  rc_build_id :: string
  rc_source_commit :: string
  rc_outcome :: rollout_outcome
  rc_digest :: string

definition rollout_receipt_fields :: "rollout_receipt \<Rightarrow> (string \<times> json) list" where
  "rollout_receipt_fields r =
    [(''schema_version'', JStr ''1''), (''record_type'', JStr ''profiled_rollout_durable_publication''),
     (''record_id'', JStr (rc_record_id r)), (''record_digest'', JStr (rc_record_digest r)),
     (''build_id'', JStr (rc_build_id r)), (''source_commit'', JStr (rc_source_commit r)),
     (''outcome'', JStr (rollout_outcome_value (rc_outcome r)))]"

definition rollout_receipt_valid :: "(string \<Rightarrow> string) \<Rightarrow> rollout_receipt \<Rightarrow> unit res" where
  "rollout_receipt_valid sha r = checks
    [(\<not> sha256_pattern (rc_record_digest r) \<or> \<not> git_commit_pattern (rc_source_commit r)
        \<or> \<not> sha256_pattern (rc_digest r), ValueError ''receipt field''),
     (rc_digest r \<noteq> sha256_identity sha (canonical_json_bytes (JObj (rollout_receipt_fields r))),
        ValueError ''rollout evidence digest rejected'')]"

end
