(* ===== verification/Rollout_Validation.thy ===== *)
theory Rollout_Validation
  imports Rollout_Record
begin

text \<open>
  \<^verbatim>\<open>profiled_rollout_preflight.py\<close> and \<^verbatim>\<open>profiled_rollout_final_validation.py\<close>: the whole approved
  population is admitted again, every credential is loaded, and every child is planned freshly,
  before the first write and after the last. Both are read-only. The calls the child planner makes
  to an admitted resolution or a loaded credential are answered by the code itself; they appear in
  the log with those answers.
\<close>

section \<open>What a fresh observation is compared with\<close>

fun execution_basis :: "child_result \<Rightarrow> (string \<times> json) list" where
  "execution_basis (Plan_Result p) = filter (\<lambda>f. fst f \<noteq> ''created_at'') (plan_fields p)"
| "execution_basis (Compliance_Result r) = filter (\<lambda>f. fst f \<noteq> ''observed_at'') (compliance_fields r)"

fun result_time :: "child_result \<Rightarrow> py_datetime" where
  "result_time (Plan_Result p) = pp_created_at p"
| "result_time (Compliance_Result r) = cr_observed_at r"

definition members_unchanged :: "rollout_child list \<Rightarrow> admitted_member list \<Rightarrow> bool" where
  "members_unchanged children admitted \<longleftrightarrow> list_all2 (\<lambda>c (m, d, i, operation, decision).
     d = ch_device c \<and> i = ch_interface c \<and> operation = ch_operation_admission c
     \<and> decision = ch_credential_admission c) children admitted"

text \<open>For a selection, the frozen expansion and the declarations of the selected devices.\<close>

definition selection_unchanged ::
    "rollout_body \<Rightarrow> string list \<Rightarrow> profiled_inventory_population \<Rightarrow> expanded_member list option \<Rightarrow> bool" where
  "selection_unchanged body selected p expansion \<longleftrightarrow> (case body of
     Explicit_Body _ \<Rightarrow> True
   | Selected_Body _ declared frozen \<Rightarrow> expansion = Some frozen
       \<and> filter (\<lambda>m. List.member selected (pm_device_identity m)) (ip_declaration p) = declared)"

definition admitted_reference ::
    "rollout_providers \<Rightarrow> string \<Rightarrow> rollout_child \<times> admitted_member \<Rightarrow> credential_reference rio" where
  "admitted_reference rv message = (\<lambda>(c, m, d, i, operation, decision).
     bindE (reference (rv_member rv) d) (\<lambda>offered.
     bindE (liftE (validate_credential_reference d offered)) (\<lambda>ref.
     bindE (liftE (checks [(cf_reference ref \<noteq> cm_credential_reference (ch_credential_admission c),
       ValueError message)])) (\<lambda>_. ret ref))))"

type_synonym loaded_secret = "profiled_inventory_device \<times> credential_reference \<times> device_credentials"

definition load_secret ::
    "rollout_providers \<Rightarrow> admitted_member \<times> credential_reference \<Rightarrow> loaded_secret rio" where
  "load_secret rv = (\<lambda>((m, d, i, operation, decision), ref).
     bindE (load (rv_member rv) d) (\<lambda>credentials.
     bindE (liftE (checks [(dc_username credentials = [] \<or> dc_password credentials = [],
       ValueError ''rollout credential availability rejected'')])) (\<lambda>_.
     ret (d, ref, credentials))))"

text \<open>\<open>_LoadedSecret\<close>\<close>

definition loaded_providers :: "'x providers \<Rightarrow> loaded_secret \<Rightarrow> 'x providers" where
  "loaded_providers pv = (\<lambda>(d, ref, credentials). pv
     \<lparr>pv_reference := \<lambda>_ d'. (if d' \<noteq> d then Inl (ValueError ''preflight credential target changed'')
        else Inr ref),
      pv_load := \<lambda>_ d'. (if d' \<noteq> d then Inl (ValueError ''preflight credential target changed'')
        else Inr credentials)\<rparr>)"

definition plan_again ::
    "(string \<Rightarrow> string) \<Rightarrow> rollout_providers \<Rightarrow> string \<Rightarrow> admitted_member \<Rightarrow> loaded_secret
      \<Rightarrow> profiled_planning_result rio" where
  "plan_again sha rv change = (\<lambda>(m, d, i, operation, decision) secret.
     plan_profiled_change sha (resolved_providers (loaded_providers (rv_member rv) secret) d i)
       (child_intent change m) None)"

section \<open>Preflight\<close>

record preflight_child =
  pf_device_identity :: string
  pf_interface_identity :: string
  pf_kind :: child_kind
  pf_approved_artifact_digest :: string
  pf_approved_result_digest :: string
  pf_execution_basis_digest :: string
  pf_observed_at :: py_datetime

record rollout_preflight =
  pf_parent_digest :: string
  pf_promotion_digest :: string
  pf_authorization_digest :: string
  pf_children :: "preflight_child list"
  pf_digest :: string

definition preflight_child_json :: "preflight_child \<Rightarrow> json" where
  "preflight_child_json c = JObj
    [(''device_identity'', JStr (pf_device_identity c)),
     (''interface_identity'', JStr (pf_interface_identity c)),
     (''kind'', JStr (kind_value (pf_kind c))),
     (''approved_artifact_digest'', JStr (pf_approved_artifact_digest c)),
     (''approved_result_digest'', JStr (pf_approved_result_digest c)),
     (''execution_basis_digest'', JStr (pf_execution_basis_digest c)),
     (''observed_at'', time_json (pf_observed_at c))]"

definition preflight_digest :: "(string \<Rightarrow> string) \<Rightarrow> rollout_preflight \<Rightarrow> string" where
  "preflight_digest sha p = sha256_identity sha (canonical_json_bytes (JObj
    [(''schema_version'', JStr ''1''), (''record_type'', JStr ''profiled_rollout_preflight''),
     (''outcome'', JStr ''PASSED''), (''execution_attempted'', JBool False),
     (''parent_digest'', JStr (pf_parent_digest p)), (''promotion_digest'', JStr (pf_promotion_digest p)),
     (''authorization_digest'', JStr (pf_authorization_digest p)),
     (''children'', JArr (map preflight_child_json (pf_children p)))]))"

definition preflight_child_valid :: "preflight_child \<Rightarrow> bool" where
  "preflight_child_valid c \<longleftrightarrow> netbox_identity ''dcim.device'' (pf_device_identity c)
     \<and> netbox_identity ''dcim.interface'' (pf_interface_identity c)
     \<and> list_all sha256_pattern [pf_approved_artifact_digest c, pf_approved_result_digest c,
         pf_execution_basis_digest c] \<and> dt_offset (pf_observed_at c) \<noteq> None"

definition rollout_preflight_valid :: "(string \<Rightarrow> string) \<Rightarrow> rollout_preflight \<Rightarrow> unit res" where
  "rollout_preflight_valid sha p = checks
    [(\<not> list_all sha256_pattern [pf_parent_digest p, pf_promotion_digest p, pf_authorization_digest p,
         pf_digest p] \<or> pf_children p = [] \<or> length (pf_children p) > MAX_MEMBERS
       \<or> \<not> list_all preflight_child_valid (pf_children p), ValueError ''preflight field''),
     (\<not> distinct (map pf_device_identity (pf_children p))
       \<or> \<not> distinct (map pf_interface_identity (pf_children p))
       \<or> \<not> list_ex (\<lambda>c. pf_kind c = DEPLOYABLE) (pf_children p) \<or> pf_digest p \<noteq> preflight_digest sha p,
       ValueError ''rollout preflight binding rejected'')]"

definition fresh_result :: "profiled_planning_result \<Rightarrow> child_result res" where
  "fresh_result r = (case (pr_plan r, pr_compliance r) of
     (Some p, None) \<Rightarrow> Inr (Plan_Result p)
   | (None, Some c) \<Rightarrow> Inr (Compliance_Result c)
   | _ \<Rightarrow> Inl (ValueError ''preflight child result is ambiguous''))"

definition preflight_observation ::
    "(string \<Rightarrow> string) \<Rightarrow> rollout_child \<Rightarrow> child_result \<Rightarrow> child_result \<Rightarrow> preflight_child res" where
  "preflight_observation sha c approved result =
    bindS (checks [(kind_of_result result \<noteq> kind_of_result approved,
      ValueError ''stale rollout child classification'')]) (\<lambda>_.
    bindS (result_valid sha result) (\<lambda>_.
    bindS (checks [(execution_basis result \<noteq> execution_basis approved,
      ValueError ''stale rollout child execution basis/classification'')]) (\<lambda>_.
    Inr \<lparr>pf_device_identity = child_identity c, pf_interface_identity = si_interface (ch_interface c),
         pf_kind = ch_kind c, pf_approved_artifact_digest = ch_artifact_digest c,
         pf_approved_result_digest = ch_result_digest c,
         pf_execution_basis_digest =
           sha256_identity sha (canonical_json_bytes (JObj (execution_basis result))),
         pf_observed_at = result_time result\<rparr>)))"

definition observe_child ::
    "(string \<Rightarrow> string) \<Rightarrow> child_codec \<Rightarrow> rollout_providers \<Rightarrow> string
      \<Rightarrow> rollout_child \<times> admitted_member \<times> loaded_secret \<Rightarrow> preflight_child rio" where
  "observe_child sha cd rv change = (\<lambda>(c, member, secret).
     bindE (plan_again sha rv change member secret) (\<lambda>fresh.
     bindE (liftE (fresh_result fresh)) (\<lambda>result.
     bindE (liftE (child_result_of sha cd c)) (\<lambda>approved.
     liftE (preflight_observation sha c approved result)))))"

definition passed_preflight ::
    "(string \<Rightarrow> string) \<Rightarrow> rollout_parent \<Rightarrow> rollout_authorization \<Rightarrow> preflight_child list
      \<Rightarrow> rollout_preflight res" where
  "passed_preflight sha r a seen =
    (let p = \<lparr>pf_parent_digest = ro_digest r, pf_promotion_digest = ra_promotion_digest a,
          pf_authorization_digest = ra_digest a, pf_children = seen, pf_digest = ''''\<rparr>;
         signed = p\<lparr>pf_digest := preflight_digest sha p\<rparr>
     in bindS (rollout_preflight_valid sha signed) (\<lambda>_. Inr signed))"

definition approved_parent ::
    "(string \<Rightarrow> string) \<Rightarrow> rollout_codec \<Rightarrow> (string \<Rightarrow> rollout_promotion res) \<Rightarrow> approval_inputs
      \<Rightarrow> rollout_authorization \<Rightarrow> rollout_parent res" where
  "approved_parent sha rc decode inp a =
    bindS (authorization_valid sha a) (\<lambda>_.
    bindS (authorize_rollout sha rc decode inp (ra_promotion_digest a) (ra_promotion_artifact_digest a)
      (ra_unblocker_id a)) (\<lambda>expected.
    bindS (checks [(a \<noteq> expected,
      ValueError ''preflight authorization disagrees with approved inputs'')]) (\<lambda>_.
    read_profiled_rollout sha rc (ai_parent_bytes inp))))"

definition preflight_profiled_rollout ::
    "(string \<Rightarrow> string) \<Rightarrow> rollout_codec \<Rightarrow> (string \<Rightarrow> rollout_promotion res) \<Rightarrow> rollout_providers
      \<Rightarrow> approval_inputs \<Rightarrow> rollout_authorization \<Rightarrow> rollout_preflight rio" where
  "preflight_profiled_rollout sha rc decode rv inp a =
    bindE (liftE (approved_parent sha rc decode inp a)) (\<lambda>r.
    bindE (admit_rollout_members rv (ai_request inp) (Some (map child_name (ro_children r))))
      (\<lambda>(p, expansion, _, admitted).
    bindE (liftE (checks
      [(\<not> selection_unchanged (ro_body r) (map child_identity (ro_children r)) p expansion,
         ValueError ''stale rollout expansion/order''),
       (length admitted \<noteq> length (ro_children r), ValueError ''stale rollout membership''),
       (\<not> members_unchanged (ro_children r) admitted,
         ValueError ''stale rollout identity/profile/operation/credential basis'')])) (\<lambda>_.
    bindE (mapE (admitted_reference rv ''stale rollout credential reference'')
      (zip (ro_children r) admitted)) (\<lambda>references.
    bindE (mapE (load_secret rv) (zip admitted references)) (\<lambda>loaded.
    bindE (mapE (observe_child sha (rc_child rc) rv (body_change_id (ro_body r)))
      (zip (ro_children r) (zip admitted loaded))) (\<lambda>seen.
    liftE (passed_preflight sha r a seen)))))))"

section \<open>Final validation\<close>

datatype final_failure = ADMISSION | CREDENTIAL | OBSERVATION | D1_MISMATCH

fun final_failure_value :: "final_failure \<Rightarrow> string" where
  "final_failure_value ADMISSION = ''ADMISSION''"
| "final_failure_value CREDENTIAL = ''CREDENTIAL''"
| "final_failure_value OBSERVATION = ''OBSERVATION''"
| "final_failure_value D1_MISMATCH = ''D1_MISMATCH''"

record final_validation =
  fv_parent_digest :: string
  fv_authorization_digest :: string
  fv_preflight_digest :: string
  fv_selected_devices :: "string list"
  fv_observations :: "profiled_compliance_record list"
  fv_status :: validation_status
  fv_failure :: "final_failure option"
  fv_digest :: string

definition compliance_json :: "profiled_compliance_record \<Rightarrow> json" where
  "compliance_json r = JObj (compliance_fields r @ [(''digest'', JStr (cr_digest r))])"

definition final_validation_digest :: "(string \<Rightarrow> string) \<Rightarrow> final_validation \<Rightarrow> string" where
  "final_validation_digest sha v = sha256_identity sha (canonical_json_bytes (JObj
    [(''schema_version'', JStr ''1''), (''record_type'', JStr ''profiled_rollout_final_validation''),
     (''parent_digest'', JStr (fv_parent_digest v)),
     (''authorization_digest'', JStr (fv_authorization_digest v)),
     (''preflight_digest'', JStr (fv_preflight_digest v)),
     (''selected_devices'', strings_json (fv_selected_devices v)),
     (''observations'', JArr (map compliance_json (fv_observations v))),
     (''status'', JStr (validation_status_value (fv_status v))),
     (''failure'', jopt (\<lambda>f. JStr (final_failure_value f)) (fv_failure v))]))"

definition final_validation_valid :: "(string \<Rightarrow> string) \<Rightarrow> final_validation \<Rightarrow> unit res" where
  "final_validation_valid sha v =
    bindS (checks
     [(\<not> list_all sha256_pattern [fv_parent_digest v, fv_authorization_digest v, fv_preflight_digest v,
          fv_digest v] \<or> fv_selected_devices v = [] \<or> length (fv_selected_devices v) > MAX_MEMBERS
        \<or> \<not> list_all (netbox_identity ''dcim.device'') (fv_selected_devices v)
        \<or> length (fv_observations v) > MAX_MEMBERS, ValueError ''final validation field'')]) (\<lambda>_.
    bindS (mapS (profiled_compliance_valid sha) (fv_observations v)) (\<lambda>_.
    let seen = map cr_device_identity (fv_observations v) in checks
     [(\<not> distinct (fv_selected_devices v)
        \<or> seen \<noteq> take (length seen) (fv_selected_devices v)
        \<or> fv_digest v \<noteq> final_validation_digest sha v
        \<or> fv_status v = PASSED \<and> (fv_failure v \<noteq> None \<or> seen \<noteq> fv_selected_devices v)
        \<or> fv_status v = FAILED \<and> fv_failure v = None,
       ValueError ''rollout final validation binding rejected'')]))"

definition final_admission ::
    "rollout_providers \<Rightarrow> rollout_request \<Rightarrow> rollout_parent \<Rightarrow> rollout_authorization
      \<Rightarrow> rollout_preflight \<Rightarrow> admitted_member list rio" where
  "final_admission rv request r a pf =
    bindE (liftE (checks
      [(ra_parent_digest a \<noteq> ro_digest r \<or> pf_parent_digest pf \<noteq> ro_digest r
         \<or> pf_authorization_digest pf \<noteq> ra_digest a,
        ValueError ''final validation approval binding rejected'')])) (\<lambda>_.
    bindE (admit_rollout_members rv request (Some (map child_name (ro_children r))))
      (\<lambda>(p, expansion, _, admitted).
    bindE (liftE (checks
      [(\<not> selection_unchanged (ro_body r) (ra_selected_devices a) p expansion,
         ValueError ''final population expansion changed''),
       (length admitted \<noteq> length (ro_children r), ValueError ''final membership changed''),
       (\<not> members_unchanged (ro_children r) admitted,
         ValueError ''final identity/admission changed'')])) (\<lambda>_. ret admitted)))"

definition final_credentials ::
    "rollout_providers \<Rightarrow> rollout_parent \<Rightarrow> admitted_member list \<Rightarrow> loaded_secret list rio" where
  "final_credentials rv r admitted =
    bindE (mapE (admitted_reference rv ''final credential reference changed'')
      (zip (ro_children r) admitted)) (\<lambda>references.
    mapE (load_secret rv) (zip admitted references))"

text \<open>One child: \<open>Inl\<close> carries the phase in which it failed.\<close>

definition proved_desired ::
    "(string \<Rightarrow> string) \<Rightarrow> child_codec \<Rightarrow> rollout_child \<Rightarrow> profiled_planning_result
      \<Rightarrow> (final_failure \<times> exn) + profiled_compliance_record" where
  "proved_desired sha cd c result = (case (pr_plan result, pr_compliance result) of
     (None, Some seen) \<Rightarrow>
       (case bindS (profiled_compliance_valid sha seen) (\<lambda>_. child_result_of sha cd c) of
          Inl e \<Rightarrow> Inl (OBSERVATION, e)
        | Inr approved \<Rightarrow>
            if cr_desired_description seen \<noteq> rf_desired_description (facts_of approved)
            then Inl (D1_MISMATCH, ValueError ''final desired state changed'') else Inr seen)
   | _ \<Rightarrow> Inl (D1_MISMATCH, ValueError ''final D1 not proved''))"

definition final_child ::
    "(string \<Rightarrow> string) \<Rightarrow> child_codec \<Rightarrow> rollout_providers \<Rightarrow> string
      \<Rightarrow> rollout_child \<times> admitted_member \<times> loaded_secret
      \<Rightarrow> (revent, exn, (final_failure \<times> exn) + profiled_compliance_record) eff" where
  "final_child sha cd rv change = (\<lambda>(c, member, secret).
     bindE (tryE (plan_again sha rv change member secret)) (\<lambda>planned. ret (case planned of
       Inl e \<Rightarrow> Inl (OBSERVATION, e) | Inr result \<Rightarrow> proved_desired sha cd c result)))"

fun final_observations ::
    "(string \<Rightarrow> string) \<Rightarrow> child_codec \<Rightarrow> rollout_providers \<Rightarrow> string
      \<Rightarrow> (rollout_child \<times> admitted_member \<times> loaded_secret) list
      \<Rightarrow> (profiled_compliance_record list \<times> (final_failure \<times> exn) option) rio" where
  "final_observations sha cd rv change [] = ret ([], None)"
| "final_observations sha cd rv change (x # xs) =
     bindE (final_child sha cd rv change x) (\<lambda>q. case q of
       Inl stop \<Rightarrow> ret ([], Some stop)
     | Inr seen \<Rightarrow> bindE (final_observations sha cd rv change xs)
         (\<lambda>(rest, stop). ret (seen # rest, stop)))"

definition final_record ::
    "(string \<Rightarrow> string) \<Rightarrow> rollout_parent \<Rightarrow> rollout_authorization \<Rightarrow> rollout_preflight
      \<Rightarrow> profiled_compliance_record list \<Rightarrow> final_failure option \<Rightarrow> final_validation res" where
  "final_record sha r a pf observations failure =
    (let v = \<lparr>fv_parent_digest = ro_digest r, fv_authorization_digest = ra_digest a,
          fv_preflight_digest = pf_digest pf, fv_selected_devices = map child_identity (ro_children r),
          fv_observations = observations, fv_status = (if failure = None then PASSED else FAILED),
          fv_failure = failure, fv_digest = ''''\<rparr>;
         signed = v\<lparr>fv_digest := final_validation_digest sha v\<rparr>
     in bindS (final_validation_valid sha signed) (\<lambda>_. Inr signed))"

text \<open>\<^verbatim>\<open>except Exception: failure = phase\<close>\<close>

definition failing ::
    "final_failure \<Rightarrow> ('s, exn, 'a) eff \<Rightarrow> ('s, exn, (final_failure \<times> exn) + 'a) eff" where
  "failing phase m = bindE (tryE m) (\<lambda>r. ret (case r of Inl e \<Rightarrow> Inl (phase, e) | Inr x \<Rightarrow> Inr x))"

definition final_evidence ::
    "(string \<Rightarrow> string) \<Rightarrow> child_codec \<Rightarrow> rollout_providers \<Rightarrow> rollout_request \<Rightarrow> rollout_parent
      \<Rightarrow> rollout_authorization \<Rightarrow> rollout_preflight
      \<Rightarrow> (profiled_compliance_record list \<times> (final_failure \<times> exn) option) rio" where
  "final_evidence sha cd rv request r a pf =
    bindE (failing ADMISSION (final_admission rv request r a pf)) (\<lambda>admission. case admission of
      Inl stop \<Rightarrow> ret ([], Some stop)
    | Inr admitted \<Rightarrow>
    bindE (failing CREDENTIAL (final_credentials rv r admitted)) (\<lambda>credentials. case credentials of
      Inl stop \<Rightarrow> ret ([], Some stop)
    | Inr loaded \<Rightarrow>
        final_observations sha cd rv (body_change_id (ro_body r))
          (zip (ro_children r) (zip admitted loaded))))"

definition validate_rollout_final_state ::
    "(string \<Rightarrow> string) \<Rightarrow> child_codec \<Rightarrow> rollout_providers \<Rightarrow> rollout_request \<Rightarrow> rollout_parent
      \<Rightarrow> rollout_authorization \<Rightarrow> rollout_preflight \<Rightarrow> final_validation rio" where
  "validate_rollout_final_state sha cd rv request r a pf =
    bindE (final_evidence sha cd rv request r a pf) (\<lambda>(observations, stop). case stop of
      None \<Rightarrow> liftE (final_record sha r a pf observations None)
    | Some (phase, e) \<Rightarrow> if is_exception e then liftE (final_record sha r a pf observations (Some phase))
        else raise e)"

end
