(* ===== verification/Rollout_Execution.thy ===== *)
theory Rollout_Execution
  imports Rollout_Validation
begin

text \<open>
  \<^verbatim>\<open>profiled_rollout_execution.py\<close>: the sequential coordination of an approved rollout. Providers,
  vendor writers, the observer, the audit store, the evidence files and the kernel locks are
  functions of the history; what the setup fixes are the digests, \<^verbatim>\<open>uuid5\<close>, the standard
  constructor of UUIDs, the readers of stored artifacts, the approval inputs and the fuel of the
  settlement loop.
\<close>

record rollout_setup =
  rs_sha :: "string \<Rightarrow> string"
  rs_uuid5 :: uuid5
  rs_uuid :: "string \<Rightarrow> string res"
  rs_codec :: rollout_codec
  rs_promotion :: "string \<Rightarrow> rollout_promotion res"
  rs_fuel :: nat
  rs_inputs :: approval_inputs
  rs_pipeline_id :: string
  rs_build_number :: int

record rollout_world =
  rw_rollout :: rollout_providers
  rw_writer :: "rollout_event writer"
  rw_observer :: "revent observer"
  rw_locks :: "revent lock_files"
  rw_store :: "revent list \<Rightarrow> store_call \<Rightarrow> string res"
  rw_read_child :: "revent list \<Rightarrow> string \<Rightarrow> child_result res"
  rw_read_record :: "revent list \<Rightarrow> string \<Rightarrow> profiled_change_record res"
  rw_file :: "revent list \<Rightarrow> string \<Rightarrow> unit res"
  rw_writer_factory :: "revent list \<Rightarrow> unit res"
  rw_now :: "revent list \<Rightarrow> py_datetime"

abbreviation (input) rollout_call :: "rollout_event \<Rightarrow> revent" where
  "rollout_call e \<equiv> EvOther (EvAbove e)"

definition store :: "rollout_world \<Rightarrow> store_call \<Rightarrow> string rio" where
  "store w call = askE (\<lambda>t. rw_store w t call) (\<lambda>r. rollout_call (EvStore call r))"

definition read_child :: "rollout_world \<Rightarrow> string \<Rightarrow> child_result rio" where
  "read_child w ref = askE (\<lambda>t. rw_read_child w t ref) (\<lambda>r. rollout_call (EvReadChild ref r))"

definition read_record :: "rollout_world \<Rightarrow> string \<Rightarrow> profiled_change_record rio" where
  "read_record w ref = askE (\<lambda>t. rw_read_record w t ref) (\<lambda>r. rollout_call (EvReadRecord ref r))"

definition write_file :: "rollout_world \<Rightarrow> string \<Rightarrow> unit rio" where
  "write_file w name = askE (\<lambda>t. rw_file w t name) (\<lambda>r. rollout_call (EvFile name r))"

definition make_writer :: "rollout_world \<Rightarrow> unit rio" where
  "make_writer w = askE (rw_writer_factory w) (\<lambda>r. rollout_call (EvWriter r))"

definition observer_of :: "rollout_world \<Rightarrow> revent observer" where
  "observer_of w = (rw_observer w)\<lparr>os_event := \<lambda>e. rollout_call (EvObserved e)\<rparr>"

definition locks_of :: "rollout_world \<Rightarrow> revent lock_files" where
  "locks_of w = (rw_locks w)\<lparr>lk_event := \<lambda>e. rollout_call (EvReserved e)\<rparr>"

section \<open>One child\<close>

definition capture ::
    "rollout_setup \<Rightarrow> rollout_world \<Rightarrow> profiled_deployment_plan \<Rightarrow> oxidized_revision option
      \<Rightarrow> oxidized_observation rio" where
  "capture s w p expected =
    bindE (liftE (profiled_plan_valid (rs_sha s) p)) (\<lambda>_.
    capture_target (rs_fuel s) (observer_of w) (pp_device_identity p) expected)"

text \<open>The checks of the private directory, the exclusive creation of the file and its synchronisation are
  one answer of the file system.\<close>

definition MAX_ATTEMPT_BYTES :: nat where "MAX_ATTEMPT_BYTES = 64 * 1024"

definition persist_attempt :: "rollout_world \<Rightarrow> string \<Rightarrow> oxidized_observation \<Rightarrow> unit rio" where
  "persist_attempt w name a =
    bindE (liftE (observation_valid a)) (\<lambda>_.
    bindE (liftE (checks [(\<not> (0 < length (canonical_json_bytes (observation_json a))
        \<and> length (canonical_json_bytes (observation_json a)) \<le> MAX_ATTEMPT_BYTES),
      ValueError ''profiled attempt size rejected'')])) (\<lambda>_.
    write_file w name))"

text \<open>An error of \<^verbatim>\<open>execute_profiled_plan\<close> as the exception it is: \<open>ProfiledExecutionError\<close> is a
  \<open>ValueError\<close>.\<close>

definition as_rio :: "(revent, execution_error, 'a) eff \<Rightarrow> 'a rio" where
  "as_rio m = (\<lambda>t. case m t of
     (Inr x, t') \<Rightarrow> (Inr x, t')
   | (Inl (Classified _ message), t') \<Rightarrow> (Inl (ValueError message), t')
   | (Inl (Py e), t') \<Rightarrow> (Inl e, t'))"

definition execute_child ::
    "rollout_setup \<Rightarrow> rollout_world \<Rightarrow> profiled_deployment_plan \<Rightarrow> profiled_change_record rio" where
  "execute_child s w p =
    bindE (make_writer w) (\<lambda>_.
    bindE (as_rio (execute_profiled_plan (rs_sha s) (rv_member (rw_rollout w)) (rw_writer w) p
      (pp_digest p))) (\<lambda>execution.
    bindE (liftE (verify_profiled_record_plan (rs_sha s) execution p)) (\<lambda>_. ret execution)))"

text \<open>The approved original bytes of a child, read again.\<close>

definition approved_plan ::
    "(string \<Rightarrow> string) \<Rightarrow> child_codec \<Rightarrow> rollout_child list \<Rightarrow> string
      \<Rightarrow> (rollout_child \<times> profiled_deployment_plan) res" where
  "approved_plan sha cd children identity =
    (case dict_get (map (\<lambda>c. (child_identity c, c)) children) identity of
       None \<Rightarrow> Inl (OtherException ''KeyError'')
     | Some c \<Rightarrow>
       bindS (cd_decode cd DEPLOYABLE (ch_artifact_json c)) (\<lambda>decoded. case decoded of
         Compliance_Result _ \<Rightarrow> Inl (ValueError ''ProfiledDeploymentPlan'')
       | Plan_Result p \<Rightarrow>
         bindS (profiled_plan_valid sha p) (\<lambda>_.
         bindS (child_result_of sha cd c) (\<lambda>result.
         bindS (checks
          [(sha256_identity sha (ch_artifact_json c) \<noteq> ch_artifact_digest c
             \<or> pp_digest p \<noteq> ch_result_digest c \<or> Plan_Result p \<noteq> result,
            ValueError ''approved child original bytes rejected'')]) (\<lambda>_. Inr (c, p))))))"

record progress =
  pg_attempted :: "string list"
  pg_successful :: "string list"
  pg_children :: "record_reference list"
  pg_chronologies :: "record_reference list"
  pg_member :: "string option"
  pg_outcome :: "final_outcome option"
  pg_reason :: "stopping_reason option"
  pg_failed :: bool

definition no_progress :: "stopping_reason option \<Rightarrow> progress" where
  "no_progress reason = \<lparr>pg_attempted = [], pg_successful = [], pg_children = [], pg_chronologies = [],
     pg_member = None, pg_outcome = None, pg_reason = reason, pg_failed = False\<rparr>"

definition evidence_failure :: "string \<Rightarrow> progress \<Rightarrow> progress" where
  "evidence_failure identity g = g\<lparr>pg_failed := True,
     pg_reason := Some (if pg_reason g = Some CHILD_EXECUTION_UNCERTAIN
       then CHILD_EXECUTION_UNCERTAIN else CHILD_EVIDENCE),
     pg_member := Some identity\<rparr>"

definition entered :: "string \<Rightarrow> profiled_change_record option \<Rightarrow> progress \<Rightarrow> progress" where
  "entered identity execution g =
    (let g = g\<lparr>pg_attempted := pg_attempted g @ [identity]\<rparr>
     in case execution of
       None \<Rightarrow> g\<lparr>pg_reason := Some CHILD_EXECUTION_UNCERTAIN, pg_member := Some identity\<rparr>
     | Some r \<Rightarrow>
         if xr_final_outcome r = SUCCEEDED then g\<lparr>pg_successful := pg_successful g @ [identity]\<rparr>
         else g\<lparr>pg_reason := Some CHILD_NON_SUCCESS, pg_member := Some identity,
                pg_outcome := Some (xr_final_outcome r)\<rparr>)"

text \<open>What identifies the run in every record: \<^verbatim>\<open>record_id\<close> is the job.\<close>

definition run_id :: "rollout_setup \<Rightarrow> string" where
  "run_id s = bc_job_id (ai_context (rs_inputs s))"

record approval =
  ap_parent :: rollout_parent
  ap_authorization :: rollout_authorization

definition persist_execution ::
    "rollout_world \<Rightarrow> string \<Rightarrow> profiled_change_record \<Rightarrow> string rio" where
  "persist_execution w child_id execution =
    (let raw = canonical_json_bytes (change_record_json execution) in
     bindE (write_file w (child_id @ ''-execution.json'')) (\<lambda>_.
     bindE (store w (Put_Bytes ''execution'' raw)) (\<lambda>digest.
     bindE (store w (Persist_Artifact ''profiled_change_record'' raw)) (\<lambda>ref.
     bindE (read_record w ref) (\<lambda>found.
     bindE (liftE (checks [(found \<noteq> execution,
       ValueError ''child execution canonical readback failed'')])) (\<lambda>_. ret digest))))))"

definition child_audit_of ::
    "rollout_setup \<Rightarrow> approval \<Rightarrow> rollout_preflight \<Rightarrow> rollout_child \<Rightarrow> cohort_kind \<Rightarrow> nat \<Rightarrow> nat
      \<Rightarrow> oxidized_observation \<Rightarrow> oxidized_observation option \<Rightarrow> profiled_change_record option
      \<Rightarrow> string option \<Rightarrow> child_audit" where
  "child_audit_of s ap pf c cohort index order pre post execution digest =
    \<lparr>ca_record_id = child_record_id (rs_uuid5 s) (run_id s) (child_identity c),
     ca_parent_record_id = run_id s, ca_build_id = bc_build_id (ai_context (rs_inputs s)),
     ca_job_id = run_id s, ca_source_commit = bc_commit (ai_context (rs_inputs s)),
     ca_parent_digest = ro_digest (ap_parent ap),
     ca_promotion_digest = ra_promotion_digest (ap_authorization ap),
     ca_authorization_digest = ra_digest (ap_authorization ap), ca_preflight_digest = pf_digest pf,
     ca_child = promoted_child_of c, ca_cohort_kind = cohort, ca_cohort_index = index,
     ca_execution_order = order,
     ca_write_attempted = map_option (\<lambda>r. sr_attempted (xr_execution r)) execution,
     ca_execution_digest = digest, ca_final_outcome = map_option xr_final_outcome execution,
     ca_pre_status = ob_status pre, ca_post_status = map_option ob_status post, ca_digest = ''''\<rparr>"

definition chronology_of ::
    "rollout_setup \<Rightarrow> string \<Rightarrow> record_reference \<Rightarrow> oxidized_observation \<Rightarrow> oxidized_observation
      \<Rightarrow> chronology" where
  "chronology_of s identity ref pre post =
    \<lparr>cy_record_id = chronology_record_id (rs_uuid5 s) (rr_record_id ref), cy_child_audit = ref,
     cy_device_identity = identity, cy_pre = pre, cy_post = post,
     cy_overall = overall_status (ob_status post), cy_digest = ''''\<rparr>"

definition persist_child_audit ::
    "rollout_setup \<Rightarrow> rollout_world \<Rightarrow> approval \<Rightarrow> rollout_preflight \<Rightarrow> rollout_child \<Rightarrow> cohort_kind
      \<Rightarrow> nat \<Rightarrow> nat \<Rightarrow> oxidized_observation \<Rightarrow> oxidized_observation option
      \<Rightarrow> profiled_change_record option \<Rightarrow> record_reference rio" where
  "persist_child_audit s w ap pf c cohort index order pre post execution =
    bindE (case execution of None \<Rightarrow> ret None
      | Some r \<Rightarrow> bindE (persist_execution w (child_record_id (rs_uuid5 s) (run_id s) (child_identity c)) r)
          (\<lambda>d. ret (Some d))) (\<lambda>digest.
    bindE (liftE (child_audit_signed (rs_sha s) (rs_uuid5 s)
      (child_audit_of s ap pf c cohort index order pre post execution digest))) (\<lambda>audit.
    bindE (store w (Persist_Record (ca_record_id audit) (ca_digest audit))) (\<lambda>_.
    ret \<lparr>rr_record_id = ca_record_id audit, rr_digest = ca_digest audit\<rparr>)))"

definition persist_chronology ::
    "rollout_setup \<Rightarrow> rollout_world \<Rightarrow> string \<Rightarrow> record_reference \<Rightarrow> oxidized_observation
      \<Rightarrow> oxidized_observation \<Rightarrow> record_reference rio" where
  "persist_chronology s w identity ref pre post =
    bindE (liftE (chronology_signed (rs_sha s) (rs_uuid5 s) (chronology_of s identity ref pre post)))
      (\<lambda>record.
    bindE (store w (Persist_Record (cy_record_id record) (cy_digest record))) (\<lambda>_.
    ret \<lparr>rr_record_id = cy_record_id record, rr_digest = cy_digest record\<rparr>))"

text \<open>The evidence of one child: what was recorded before an exception stays recorded.\<close>

definition record_child ::
    "rollout_setup \<Rightarrow> rollout_world \<Rightarrow> approval \<Rightarrow> rollout_preflight \<Rightarrow> rollout_child \<Rightarrow> cohort_kind
      \<Rightarrow> nat \<Rightarrow> nat \<Rightarrow> oxidized_observation \<Rightarrow> oxidized_observation option
      \<Rightarrow> profiled_change_record option \<Rightarrow> progress \<Rightarrow> progress rio" where
  "record_child s w ap pf c cohort index order pre post execution g =
    bindE (attempt_any (persist_child_audit s w ap pf c cohort index order pre post execution)) (\<lambda>audit.
    case audit of
      None \<Rightarrow> ret (evidence_failure (child_identity c) g)
    | Some ref \<Rightarrow>
      let g = g\<lparr>pg_children := pg_children g @ [ref]\<rparr> in
      case post of
        None \<Rightarrow> ret g
      | Some a \<Rightarrow>
        bindE (attempt_any (persist_chronology s w (child_identity c) ref pre a)) (\<lambda>chronology.
        ret (case chronology of
          None \<Rightarrow> evidence_failure (child_identity c) g
        | Some cref \<Rightarrow> g\<lparr>pg_chronologies := pg_chronologies g @ [cref]\<rparr>)))"

text \<open>The POST capture: the attempt, and whether the evidence failed.\<close>

definition capture_post ::
    "rollout_setup \<Rightarrow> rollout_world \<Rightarrow> profiled_deployment_plan \<Rightarrow> string \<Rightarrow> oxidized_observation
      \<Rightarrow> (oxidized_observation option \<times> bool) rio" where
  "capture_post s w p name pre =
    bindE (attempt_any (capture s w p (ob_after pre))) (\<lambda>post. case post of
      None \<Rightarrow> ret (None, True)
    | Some a \<Rightarrow> bindE (attempt_any (persist_attempt w name a)) (\<lambda>stored.
        ret (Some a, stored = None \<or> \<not> successful (ob_status a))))"

definition capture_pre ::
    "rollout_setup \<Rightarrow> rollout_world \<Rightarrow> profiled_deployment_plan \<Rightarrow> string
      \<Rightarrow> oxidized_observation rio" where
  "capture_pre s w p name =
    bindE (capture s w p None) (\<lambda>a.
    bindE (liftE (validate_pre (pp_device_identity p) a)) (\<lambda>_.
    bindE (persist_attempt w name a) (\<lambda>_. ret a)))"

definition rollout_step ::
    "rollout_setup \<Rightarrow> rollout_world \<Rightarrow> approval \<Rightarrow> rollout_preflight \<Rightarrow> nat
      \<Rightarrow> string \<times> cohort_kind \<times> nat \<Rightarrow> progress \<Rightarrow> progress rio" where
  "rollout_step s w ap pf order = (\<lambda>(identity, cohort, index) g.
    let child_id = child_record_id (rs_uuid5 s) (run_id s) identity in
    bindE (liftE (approved_plan (rs_sha s) (rc_child (rs_codec s)) (ro_children (ap_parent ap)) identity))
      (\<lambda>(c, p).
    bindE (attempt_any (capture_pre s w p (child_id @ ''-pre.json''))) (\<lambda>captured.
    case captured of
      None \<Rightarrow> ret (g\<lparr>pg_reason := Some PRE_CHRONOLOGY, pg_member := Some identity\<rparr>)
    | Some pre \<Rightarrow>
      bindE (attempt_any (execute_child s w p)) (\<lambda>execution.
      let g = entered identity execution g in
      bindE (capture_post s w p (child_id @ ''-post.json'') pre) (\<lambda>(post, failed).
      let g = (if failed then evidence_failure identity g else g) in
      record_child s w ap pf c cohort index order pre post execution g)))))"

section \<open>The rollout\<close>

fun enumerate_waves :: "nat \<Rightarrow> string list list \<Rightarrow> (string \<times> cohort_kind \<times> nat) list" where
  "enumerate_waves i [] = []"
| "enumerate_waves i (wave # waves) = map (\<lambda>d. (d, WAVE, i)) wave @ enumerate_waves (Suc i) waves"

definition cohort_list :: "string list \<Rightarrow> string list list \<Rightarrow> (string \<times> cohort_kind \<times> nat) list" where
  "cohort_list canaries waves = map (\<lambda>d. (d, CANARY, 0)) canaries @ enumerate_waves 0 waves"

fun rollout_loop ::
    "rollout_setup \<Rightarrow> rollout_world \<Rightarrow> approval \<Rightarrow> rollout_preflight \<Rightarrow> nat
      \<Rightarrow> (string \<times> cohort_kind \<times> nat) list \<Rightarrow> progress \<Rightarrow> progress rio" where
  "rollout_loop s w ap pf order [] g = ret g"
| "rollout_loop s w ap pf order (x # xs) g =
     (if pg_reason g \<noteq> None then ret g
      else bindE (rollout_step s w ap pf order x g) (\<lambda>g'. rollout_loop s w ap pf (Suc order) xs g'))"

definition preflight_stage ::
    "rollout_setup \<Rightarrow> rollout_world \<Rightarrow> approval
      \<Rightarrow> (rollout_preflight option \<times> stopping_reason option) rio" where
  "preflight_stage s w ap =
    bindE (attempt_any (preflight_profiled_rollout (rs_sha s) (rs_codec s) (rs_promotion s)
      (rw_rollout w) (rs_inputs s) (ap_authorization ap))) (\<lambda>checked. case checked of
      None \<Rightarrow> ret (None, Some PREFLIGHT)
    | Some pf \<Rightarrow> bindE (attempt_any (store w (Put_Model ''preflight'' (pf_digest pf)))) (\<lambda>stored.
        ret (Some pf, if stored = None then Some PREFLIGHT else None)))"

text \<open>\<^verbatim>\<open>validate_rollout_final_state\<close> is outside the handler: what it raises escapes.\<close>

definition final_stage ::
    "rollout_setup \<Rightarrow> rollout_world \<Rightarrow> approval \<Rightarrow> rollout_preflight \<Rightarrow> progress
      \<Rightarrow> (final_validation option \<times> progress) rio" where
  "final_stage s w ap pf g =
    bindE (validate_rollout_final_state (rs_sha s) (rc_child (rs_codec s)) (rw_rollout w)
      (ai_request (rs_inputs s)) (ap_parent ap) (ap_authorization ap) pf) (\<lambda>final.
    bindE (attempt_any (store w (Put_Model ''final'' (fv_digest final)))) (\<lambda>stored.
    ret (case stored of
      None \<Rightarrow> (None, g\<lparr>pg_failed := True, pg_reason := Some CHILD_EVIDENCE\<rparr>)
    | Some _ \<Rightarrow> (Some final,
        if fv_status final \<noteq> PASSED then g\<lparr>pg_reason := Some FINAL_VALIDATION\<rparr> else g))))"

definition outcome_of :: "nat \<Rightarrow> progress \<Rightarrow> rollout_outcome" where
  "outcome_of n g =
    (if pg_reason g = None then SUCCEEDED_Rollout
     else if pg_reason g = Some FINAL_VALIDATION then FINAL_VALIDATION_FAILED
     else if pg_failed g \<and> length (pg_successful g) = n then EVIDENCE_FAILED
     else if pg_successful g \<noteq> [] then PARTIAL else STOPPED)"

definition rollout_audit_of ::
    "rollout_setup \<Rightarrow> approval \<Rightarrow> string \<Rightarrow> string \<Rightarrow> py_datetime \<Rightarrow> rollout_preflight option
      \<Rightarrow> string list \<Rightarrow> string list list \<Rightarrow> progress \<Rightarrow> final_validation option \<Rightarrow> rollout_audit" where
  "rollout_audit_of s ap pipeline unblocker time pf canaries waves g final =
    (let r = ap_parent ap; a = ap_authorization ap; ctx = ai_context (rs_inputs s);
         done = (\<lambda>d. List.member (pg_successful g) d)
     in \<lparr>au_record_id = run_id s, au_pipeline_id = pipeline, au_build_id = bc_build_id ctx,
      au_build_number = rs_build_number s, au_job_id = run_id s, au_source_commit = bc_commit ctx,
      au_generated_at = time, au_change_id = body_change_id (ro_body r),
      au_parent_digest = ro_digest r, au_parent_artifact_digest = ra_parent_artifact_digest a,
      au_promotion_digest = ra_promotion_digest a,
      au_promotion_artifact_digest = ra_promotion_artifact_digest a,
      au_authorization_digest = ra_digest a, au_unblocker_id = unblocker,
      au_preflight_digest = map_option pf_digest pf,
      au_children = map promoted_child_of (ro_children r), au_canaries = canaries, au_waves = waves,
      au_child_records = pg_children g, au_chronology_records = pg_chronologies g,
      au_child_evidence_complete = (length (pg_children g) = length (pg_chronologies g)
        \<and> length (pg_chronologies g) = length (pg_attempted g)),
      au_evidence_failed = pg_failed g,
      au_compliant = map child_identity (filter (\<lambda>c. ch_kind c = COMPLIANT_Child) (ro_children r)),
      au_attempted = pg_attempted g, au_successful = pg_successful g,
      au_untouched = filter (\<lambda>d. \<not> List.member (pg_attempted g) d)
        (map child_identity (deployables (ro_children r))),
      au_stopping_member = pg_member g, au_stopping_reason = pg_reason g,
      au_stopping_outcome = pg_outcome g, au_completed_canaries = filter done canaries,
      au_completed_waves = filter (list_all done) waves,
      au_remaining_waves = filter (\<lambda>wave. \<not> list_all done wave) waves,
      au_final_validation_digest = map_option fv_digest final,
      au_final_validation_status = map_option fv_status final,
      au_outcome = outcome_of (length (cohort_list canaries waves)) g, au_digest = ''''\<rparr>)"

definition publish_record ::
    "rollout_setup \<Rightarrow> rollout_world \<Rightarrow> approval \<Rightarrow> rollout_preflight option \<Rightarrow> string list
      \<Rightarrow> string list list \<Rightarrow> progress \<Rightarrow> final_validation option \<Rightarrow> rollout_audit rio" where
  "publish_record s w ap pf canaries waves g final =
    bindE (liftE (rs_uuid s (rs_pipeline_id s))) (\<lambda>pipeline.
    bindE (liftE (rs_uuid s (ra_unblocker_id (ap_authorization ap)))) (\<lambda>unblocker. \<lambda>t.
    bindE (liftE (rollout_audit_signed (rs_sha s) (rs_uuid5 s)
      (rollout_audit_of s ap pipeline unblocker (rw_now w t) pf canaries waves g final))) (\<lambda>record.
    bindE (store w (Persist_Record (au_record_id record) (au_digest record))) (\<lambda>_. ret record)) t))"

definition reserved_rollout ::
    "rollout_setup \<Rightarrow> rollout_world \<Rightarrow> approval \<Rightarrow> rollout_audit rio" where
  "reserved_rollout s w ap =
    bindE (preflight_stage s w ap) (\<lambda>(pf, reason).
    case ro_cohorts (ap_parent ap) of
      None \<Rightarrow> raise (OtherException ''AttributeError'')
    | Some (canaries, waves) \<Rightarrow>
    case (pf, reason) of
      (Some p, None) \<Rightarrow>
        bindE (rollout_loop s w ap p 0 (cohort_list canaries waves) (no_progress None)) (\<lambda>g.
        if pg_reason g = None
        then bindE (final_stage s w ap p g) (\<lambda>(final, g). publish_record s w ap pf canaries waves g final)
        else publish_record s w ap pf canaries waves g None)
    | _ \<Rightarrow> publish_record s w ap pf canaries waves (no_progress reason) None)"

definition persist_approved_child ::
    "rollout_setup \<Rightarrow> rollout_world \<Rightarrow> rollout_child \<Rightarrow> unit rio" where
  "persist_approved_child s w c =
    bindE (store w (Put_Bytes ''child'' (ch_artifact_json c))) (\<lambda>_.
    bindE (liftE (child_result_of (rs_sha s) (rc_child (rs_codec s)) c)) (\<lambda>result.
    bindE (store w (Persist_Artifact (case ch_kind c of DEPLOYABLE \<Rightarrow> ''profiled_deployment_plan''
        | COMPLIANT_Child \<Rightarrow> ''profiled_compliance_record'') (rf_digest (facts_of result)))) (\<lambda>ref.
    bindE (read_child w ref) (\<lambda>found.
    liftE (checks [(found \<noteq> result,
      ValueError ''rollout approved child canonical readback failed'')])))))"

definition prepare_store ::
    "rollout_setup \<Rightarrow> rollout_world \<Rightarrow> approval \<Rightarrow> unit rio" where
  "prepare_store s w ap =
    bindE (store w (Prepare_Rollout (run_id s))) (\<lambda>_.
    bindE (store w (Put_Bytes ''parent'' (ai_parent_bytes (rs_inputs s)))) (\<lambda>_.
    bindE (store w (Put_Bytes ''promotion'' (ai_promotion_bytes (rs_inputs s)))) (\<lambda>_.
    bindE (store w (Put_Model ''authorization'' (ra_digest (ap_authorization ap)))) (\<lambda>_.
    bindE (mapE (persist_approved_child s w) (ro_children (ap_parent ap))) (\<lambda>_. ret ())))))"

definition execute_rollout ::
    "rollout_setup \<Rightarrow> rollout_world \<Rightarrow> string \<Rightarrow> string \<Rightarrow> string \<Rightarrow> rollout_audit rio" where
  "execute_rollout s w semantic artifact unblocker =
    bindE (liftE (authorize_rollout (rs_sha s) (rs_codec s) (rs_promotion s) (rs_inputs s) semantic
      artifact unblocker)) (\<lambda>a.
    bindE (liftE (read_profiled_rollout (rs_sha s) (rs_codec s) (ai_parent_bytes (rs_inputs s)))) (\<lambda>r.
    let ap = \<lparr>ap_parent = r, ap_authorization = a\<rparr> in
    bindE (prepare_store s w ap) (\<lambda>_.
    with_reservation (locks_of w) (ra_selected_devices a) (reserved_rollout s w ap))))"

end
