(* ===== verification/Rollout_Emissions.thy ===== *)
theory Rollout_Emissions
  imports Rollout_Execution
begin

text \<open>
  Which calls the parts of a rollout may make. \<open>emits P m\<close>: every event \<open>m\<close> appends to the log
  satisfies \<open>P\<close>. The coordination of a rollout is quiet: it writes to no device and takes no lock;
  and the execution of a child takes no lock.
\<close>

named_theorems emits_intros \<open>what the effects of a rollout emit\<close>

definition emits :: "('s \<Rightarrow> bool) \<Rightarrow> ('s, 'e, 'a) eff \<Rightarrow> bool" where
  "emits P m \<longleftrightarrow> (\<forall>t. \<exists>u. snd (m t) = t @ u \<and> list_all P u)"

lemma emitsD: "emits P m \<Longrightarrow> \<exists>u. snd (m t) = t @ u \<and> list_all P u"
  by (simp add: emits_def)

lemma emits_mono: "emits P m \<Longrightarrow> (\<And>e. P e \<Longrightarrow> Q e) \<Longrightarrow> emits Q m"
  unfolding emits_def by (metis (mono_tags) list_all_iff)

lemma emits_silent: "(\<And>t. snd (m t) = t) \<Longrightarrow> emits P m"
  by (simp add: emits_def)

lemma emits_pure [emits_intros]: "emits P (ret x)" "emits P (raise e)" "emits P (liftE r)"
  by (simp_all add: emits_def eff_simps)

lemma emits_ask [emits_intros]: "(\<And>r. P (ev r)) \<Longrightarrow> emits P (askE q ev)"
  "(\<And>r. P (ev' r)) \<Longrightarrow> emits P (ask q' ev')"
  by (simp_all add: emits_def eff_simps)

lemma emits_bindE [emits_intros]:
  assumes m: "emits P m" and f: "\<And>x. emits P (f x)"
  shows "emits P (bindE m f)"
  unfolding emits_def
proof
  fix t
  obtain u where u: "snd (m t) = t @ u" "list_all P u" using emitsD [OF m] by blast
  show "\<exists>u. snd (bindE m f t) = t @ u \<and> list_all P u"
  proof (cases "fst (m t)")
    case (Inl e)
    with u show ?thesis by (cases "m t") (simp add: bindE_def)
  next
    case (Inr x)
    obtain v where "snd (f x (t @ u)) = (t @ u) @ v" "list_all P v" using emitsD [OF f] by blast
    with Inr u show ?thesis by (cases "m t") (simp add: bindE_def)
  qed
qed

lemma emits_tryE [emits_intros]: "emits P m \<Longrightarrow> emits P (tryE m)"
  by (simp add: emits_def tryE_def split_beta)

lemma emits_handled [emits_intros]: "emits P m \<Longrightarrow> emits P (handled p m)"
  unfolding handled_def by (intro emits_bindE emits_tryE) (auto split: sum.split intro: emits_pure)

lemma emits_mapE [emits_intros]: "(\<And>x. x \<in> set xs \<Longrightarrow> emits P (f x)) \<Longrightarrow> emits P (mapE f xs)"
  by (induction xs) (auto intro!: emits_intros)

lemma emits_at: "(\<And>u. emits P (f u)) \<Longrightarrow> emits P (\<lambda>t. f t t)"
  by (simp add: emits_def)

lemma emits_py [emits_intros]: "emits P m \<Longrightarrow> emits P (py m)"
  by (simp add: emits_def py_def split_beta)

lemma emits_record_of [emits_intros]: "emits P (record_of pv p a outcome pre ev)"
  by (rule emits_silent) (simp add: record_of_def Let_def)

lemma emits_as_rio [emits_intros]: "emits P m \<Longrightarrow> emits P (as_rio m)"
  unfolding emits_def as_rio_def
  by (auto split: prod.split sum.split execution_error.split) (metis snd_conv)+

text \<open>The events the layers below the rollout never make.\<close>

fun lock_view :: "revent \<Rightarrow> lock_event option" where
  "lock_view (EvOther (EvAbove (EvReserved e))) = Some e"
| "lock_view _ = None"

definition quiet :: "revent \<Rightarrow> bool" where
  "quiet e \<longleftrightarrow> \<not> is_write_event e \<and> lock_view e = None"

abbreviation (input) unlocking :: "revent \<Rightarrow> bool" where
  "unlocking e \<equiv> lock_view e = None"

lemma quiet_calls [simp]:
  "quiet (EvResolve n a)" "quiet (EvResolveInterface d n b)" "quiet (EvReference d c)"
  "quiet (EvLoad d l)" "quiet (EvCollect tg i st)" "quiet (rollout_call (EvPopulation p))"
  "quiet (rollout_call (EvAdmit n ad))" "quiet (rollout_call (EvObserved ob))"
  "quiet (rollout_call (EvStore call r))" "quiet (rollout_call (EvReadChild ref cr))"
  "quiet (rollout_call (EvReadRecord ref rr))" "quiet (rollout_call (EvFile f u))"
  "quiet (rollout_call (EvWriter u))"
  by (simp_all add: quiet_def)

lemma quiet_unlocking: "quiet e \<Longrightarrow> unlocking e"
  by (simp add: quiet_def)

section \<open>The execution of a child takes no lock\<close>

lemma emits_providers [emits_intros]:
  "(\<And>r. P (EvResolve n r)) \<Longrightarrow> emits P (resolve pv n)"
  "(\<And>r. P (EvResolveInterface d n r)) \<Longrightarrow> emits P (resolve_interface pv d n)"
  "(\<And>r. P (EvReference d r)) \<Longrightarrow> emits P (reference pv d)"
  "(\<And>r. P (EvLoad d r)) \<Longrightarrow> emits P (load pv d)"
  "(\<And>r. P (EvCollect tg i r)) \<Longrightarrow> emits P (collect pv tg c i)"
  by (simp_all add: provider_calls emits_ask)

lemma emits_writer [emits_intros]:
  "emits unlocking (verify_cisco_runtime wr)" "emits unlocking (execute_cisco wr tg c a)"
  "emits unlocking (junos_enter wr tg c b)" "emits unlocking (junos_prepare wr)"
  "emits unlocking (junos_commit_confirmed wr m)" "emits unlocking (junos_exit wr)"
  "emits unlocking (confirm_junos wr tg c)"
  unfolding verify_cisco_runtime_def execute_cisco_def junos_enter_def junos_prepare_def
    junos_commit_confirmed_def junos_exit_def confirm_junos_def
  by (auto intro!: emits_intros)

lemma emits_observe [emits_intros]: "emits unlocking (observe pv p d c)"
  unfolding observe_def by (auto intro!: emits_intros)

lemma emits_preflight [emits_intros]: "emits unlocking (preflight pv p)"
  unfolding preflight_def resolve_admitted_def
  by (auto intro!: emits_intros split: option.split)

lemma emits_cisco [emits_intros]: "emits unlocking (execute_cisco_plan pv wr p a d tg c pre art)"
  unfolding execute_cisco_plan_def recover_cisco_def Let_def
  by (auto intro!: emits_intros split: option.split execution_disposition.split)

lemma emits_junos [emits_intros]: "emits unlocking (execute_junos_plan pv wr p a d tg c pre art)"
  unfolding execute_junos_plan_def validate_and_confirm_def Let_def
  by (auto intro!: emits_intros split: option.split execution_disposition.split)

lemma emits_execute [emits_intros]: "emits unlocking (execute_profiled_plan sha pv wr p a)"
  unfolding execute_profiled_plan_def verify_runtime_def execute_preflighted_def
  by (auto intro!: emits_intros split: sum.split execution_error.split config_artifact.split)

section \<open>The coordination is quiet\<close>

lemma emits_planner [emits_intros]: "emits quiet (plan_profiled_change sha pv intent created)"
  unfolding emits_def
proof
  fix t
  obtain u k where u: "snd (plan_profiled_change sha pv intent created t) = t @ u"
    "map call_of u = take k planner_calls"
    using calls_planner [of sha pv intent created] unfolding calls_def by blast
  have "Other_Call \<notin> set (map call_of u)"
    unfolding u(2) by (auto simp: planner_calls_def dest: in_set_takeD)
  moreover have "quiet e" if "call_of e \<noteq> Other_Call" for e :: revent
    using that by (cases e) simp_all
  ultimately have "list_all quiet u" by (auto simp: list_all_iff image_iff)
  with u(1) show "\<exists>u. snd (plan_profiled_change sha pv intent created t) = t @ u \<and> list_all quiet u"
    by blast
qed

lemma emits_admit_members [emits_intros]: "emits quiet (admit_members rv ch p ids ifs ms)"
  by (induction ms arbitrary: ids ifs)
    (auto intro!: emits_intros simp: admit_member_def admit_credential_def Let_def split: option.split)

lemma emits_admission [emits_intros]: "emits quiet (admit_rollout_members rv request expected)"
  unfolding admit_rollout_members_def resolve_population_def Let_def
  by (auto intro!: emits_intros split: prod.split)

lemma emits_plan_again [emits_intros]: "emits quiet (plan_again sha rv ch a secret)"
  unfolding plan_again_def by (auto intro!: emits_intros split: prod.split)

lemma emits_references [emits_intros]: "emits quiet (admitted_reference rv m ca)"
  unfolding admitted_reference_def by (auto intro!: emits_intros split: prod.split)

lemma emits_secrets [emits_intros]: "emits quiet (load_secret rv ar)"
  unfolding load_secret_def by (auto intro!: emits_intros split: prod.split)

lemma emits_rollout_preflight [emits_intros]:
  "emits quiet (preflight_profiled_rollout sha rc decode rv inp a)"
  unfolding preflight_profiled_rollout_def observe_child_def
  by (auto intro!: emits_intros split: prod.split)

lemma emits_final_observations [emits_intros]: "emits quiet (final_observations sha cd rv ch xs)"
proof (induction xs)
  case (Cons x xs)
  then show ?case
    by (auto intro!: emits_intros simp: final_child_def split: prod.split sum.split)
qed (auto intro!: emits_intros)

lemma emits_final [emits_intros]:
  "emits quiet (validate_rollout_final_state sha cd rv request r a pf)"
  unfolding validate_rollout_final_state_def final_evidence_def failing_def final_admission_def
    final_credentials_def
  by (auto intro!: emits_intros split: prod.split sum.split option.split)

lemma emits_settled [emits_intros]: "emits P (settled ob c after changed)"
  by (rule emits_silent) (simp add: settled_def liftE_def)

lemma quiet_observed [simp]: "quiet (os_event (observer_of w) e)"
  by (simp add: observer_of_def)

lemma emits_latest [emits_intros]: "emits quiet (latest_or_none (observer_of w) node)"
  unfolding latest_or_none_def by (auto intro!: emits_intros)

lemma emits_settle_loop [emits_intros]:
  "emits quiet (settle_loop fuel (observer_of w) node before c deadline)"
proof (induction fuel arbitrary: before)
  case (Suc fuel)
  show ?case
    unfolding settle_loop.simps
    by (rule emits_bindE [OF emits_latest], rule emits_at [where f = "\<lambda>t. case found of
        None \<Rightarrow>
          if before \<noteq> None \<or> os_monotonic (observer_of w) t \<ge> deadline
          then raise (Unavailable ''Oxidized observation revision unavailable'')
          else settle_loop fuel (observer_of w) node before c deadline
      | Some after \<Rightarrow>
          if revision_changed before after
          then if inside_window c after then settled (observer_of w) c after True
               else raise (Chronology ''Oxidized observation chronology rejected'')
          else if os_monotonic (observer_of w) t \<ge> deadline then settled (observer_of w) c after False
          else settle_loop fuel (observer_of w) node before c deadline" for found])
      (auto intro!: emits_intros Suc.IH split: option.split)
qed (auto intro!: emits_intros)

lemma emits_bind_collection [emits_intros]:
  "emits quiet (bind_collection_result fuel (observer_of w) node before c)"
proof (cases "cl_outcome c = SUCCEEDED_Collection")
  case True
  then show ?thesis
    unfolding bind_collection_result_def by simp (rule emits_at, rule emits_settle_loop)
qed (auto intro!: emits_intros simp: bind_collection_result_def)

lemma emits_failure_attempt [emits_intros]: "emits P (failure_attempt ob c b r i)"
  by (rule emits_silent) (simp add: failure_attempt_def liftE_def Let_def)

lemma emits_capture [emits_intros]: "emits quiet (capture s w p expected)"
  unfolding capture_def capture_target_def capture_attempt_def capture_collected_def
    latest_revision_def
  by (auto intro!: emits_intros split: sum.split option.split capture_error.split)

lemma emits_world [emits_intros]:
  "emits quiet (store w call)" "emits quiet (read_child w ref)" "emits quiet (read_record w ref)"
  "emits quiet (write_file w name)" "emits quiet (make_writer w)"
  unfolding store_def read_child_def read_record_def write_file_def make_writer_def
  by (auto intro!: emits_intros)

lemma emits_evidence [emits_intros]:
  "emits quiet (persist_attempt w name a)" "emits quiet (capture_pre s w p name)"
  "emits quiet (capture_post s w p name pre)"
  "emits quiet (record_child s w ap pf c cohort index order pre post execution g)"
  unfolding persist_attempt_def capture_pre_def capture_post_def record_child_def
    persist_child_audit_def persist_execution_def persist_chronology_def Let_def
  by (auto intro!: emits_intros split: option.split)

lemma emits_stages [emits_intros]:
  "emits quiet (preflight_stage s w ap)" "emits quiet (final_stage s w ap pf' g)"
  unfolding preflight_stage_def final_stage_def
  by (auto intro!: emits_intros split: option.split)

lemma emits_publish [emits_intros]:
  "emits quiet (publish_record s w ap pf canaries waves g final)"
  unfolding publish_record_def
  by (rule emits_bindE [OF emits_pure(3)], rule emits_bindE [OF emits_pure(3)], rule emits_at)
    (auto intro!: emits_intros)

lemma emits_prepare [emits_intros]: "emits quiet (prepare_store s w ap)"
  unfolding prepare_store_def persist_approved_child_def by (auto intro!: emits_intros)

section \<open>No part of a rollout but the reservation takes a lock\<close>

lemmas emits_unlocking = emits_mono [where Q = unlocking, OF _ quiet_unlocking]

lemma emits_execute_child: "emits unlocking (execute_child s w p)"
  unfolding execute_child_def
  by (auto intro!: emits_intros intro: emits_mono [OF emits_world(5)] quiet_unlocking)

lemma emits_step: "emits unlocking (rollout_step s w ap pf order x g)"
  unfolding rollout_step_def Let_def
  by (auto intro!: emits_bindE emits_handled emits_pure emits_execute_child
      emits_evidence [THEN emits_unlocking] split: prod.split option.split)

lemma emits_loop: "emits unlocking (rollout_loop s w ap pf order xs g)"
  by (induction xs arbitrary: order g) (auto intro!: emits_bindE emits_pure emits_step)

lemma emits_reserved: "emits unlocking (reserved_rollout s w ap)"
  unfolding reserved_rollout_def
  by (auto intro!: emits_bindE emits_pure emits_loop emits_stages [THEN emits_unlocking]
      emits_publish [THEN emits_unlocking] split: prod.split option.split)

end
