(* ===== verification/Rollout_Run_Laws.thy ===== *)
theory Rollout_Run_Laws
  imports Rollout_Emissions Approval_Laws
begin

text \<open>
  The laws of a rollout run: what the loop over the frozen order has established when it stops, that
  the parent record built from it satisfies every validator of the record, and the shape of the
  log, one child execution after the other.
\<close>

lemma returnsD: "returns m Q \<Longrightarrow> fst (m t) = Inr x \<Longrightarrow> Q x"
  by (simp add: returns_def)

lemma returns_conseq: "returns m P \<Longrightarrow> (\<And>x. P x \<Longrightarrow> Q x) \<Longrightarrow> returns m Q"
  by (simp add: returns_def)

lemma returns_handled:
  "returns m P \<Longrightarrow> returns (handled p m) (\<lambda>r. case r of None \<Rightarrow> True | Some x \<Rightarrow> P x)"
  unfolding handled_def
  by (rule returns_seq [where P = "\<lambda>r. case r of Inl _ \<Rightarrow> True | Inr x \<Rightarrow> P x"])
    (auto simp: returns_def tryE_def split_beta split: sum.splits intro: prod_eqI simp: liftE_def
      ret_def raise_def)

lemma returns_askE: "returns (askE q ev) (\<lambda>_. True)"
  by (simp add: returns_def)

section \<open>The evidence of one child\<close>

definition reference_to :: "string \<Rightarrow> record_reference \<Rightarrow> bool" where
  "reference_to i ref \<longleftrightarrow> rr_record_id ref = i \<and> sha256_pattern (rr_digest ref)"

lemma child_audit_signed_Inr:
  "child_audit_signed sha u r = Inr a \<Longrightarrow> ca_record_id a = ca_record_id r \<and> sha256_pattern (ca_digest a)"
  by (auto simp: child_audit_signed_def bindS_Inr_iff Let_def child_audit_valid_def)

lemma returns_child_audit:
  "returns (persist_child_audit s w ap pf c cohort index order pre post execution)
     (reference_to (child_record_id (rs_uuid5 s) (run_id s) (child_identity c)))"
  unfolding persist_child_audit_def
proof (rule returns_bindE, goal_cases)
  case (1 digest)
  show ?case
    by (rule returns_seq [of _ "\<lambda>a. ca_record_id a
        = child_record_id (rs_uuid5 s) (run_id s) (child_identity c) \<and> sha256_pattern (ca_digest a)"])
      (auto simp: reference_to_def child_audit_of_def dest: child_audit_signed_Inr intro!: returns_bindE)
qed

lemma returns_chronology:
  "returns (persist_chronology s w i ref pre post)
     (reference_to (chronology_record_id (rs_uuid5 s) (rr_record_id ref)))"
  unfolding persist_chronology_def
  by (auto simp: reference_to_def returns_def chronology_signed_def bindS_Inr_iff Let_def eff_simps
      chronology_valid_def chronology_of_def split: sum.splits prod.splits)

section \<open>Where a run stands\<close>

definition full :: "progress \<Rightarrow> bool" where
  "full g \<longleftrightarrow> length (pg_chronologies g) = length (pg_attempted g)"

definition traced :: "rollout_setup \<Rightarrow> progress \<Rightarrow> bool" where
  "traced s g \<longleftrightarrow>
     list_all2 (\<lambda>d. reference_to (child_record_id (rs_uuid5 s) (run_id s) d))
       (take (length (pg_children g)) (pg_attempted g)) (pg_children g)
     \<and> list_all2 (\<lambda>d. reference_to (chronology_record_id (rs_uuid5 s) (child_record_id (rs_uuid5 s) (run_id s) d)))
       (take (length (pg_chronologies g)) (pg_attempted g)) (pg_chronologies g)
     \<and> length (pg_chronologies g) \<le> length (pg_children g)
     \<and> length (pg_children g) \<le> length (pg_attempted g)
     \<and> length (pg_attempted g) \<le> Suc (length (pg_chronologies g))"

definition stopped_last :: "progress \<Rightarrow> bool" where
  "stopped_last g \<longleftrightarrow> pg_attempted g \<noteq> [] \<and> pg_member g = Some (last (pg_attempted g))"

definition standing :: "string list \<Rightarrow> progress \<Rightarrow> bool" where
  "standing order g \<longleftrightarrow> pg_attempted g = take (length (pg_attempted g)) order
     \<and> (case pg_reason g of
        None \<Rightarrow> pg_successful g = pg_attempted g \<and> \<not> pg_failed g \<and> pg_member g = None
          \<and> pg_outcome g = None
      | Some PRE_CHRONOLOGY \<Rightarrow> pg_successful g = pg_attempted g \<and> \<not> pg_failed g
          \<and> length (pg_attempted g) < length order
          \<and> pg_member g = Some (order ! length (pg_attempted g)) \<and> pg_outcome g = None
      | Some CHILD_NON_SUCCESS \<Rightarrow> \<not> pg_failed g \<and> stopped_last g
          \<and> pg_successful g = butlast (pg_attempted g)
          \<and> pg_outcome g \<noteq> None \<and> pg_outcome g \<noteq> Some SUCCEEDED
      | Some CHILD_EXECUTION_UNCERTAIN \<Rightarrow> stopped_last g
          \<and> pg_successful g = butlast (pg_attempted g) \<and> pg_outcome g = None
      | Some CHILD_EVIDENCE \<Rightarrow> pg_failed g \<and> stopped_last g
          \<and> (pg_successful g = pg_attempted g \<or> pg_successful g = butlast (pg_attempted g))
      | _ \<Rightarrow> False)"

definition sound_progress :: "rollout_setup \<Rightarrow> string list \<Rightarrow> progress \<Rightarrow> bool" where
  "sound_progress s order g \<longleftrightarrow> standing order g \<and> traced s g \<and> (pg_failed g \<or> full g)"

lemma sound_start: "sound_progress s order (no_progress None)"
  by (simp add: sound_progress_def standing_def traced_def full_def no_progress_def)

lemma sound_pre_chronology:
  assumes "sound_progress s order g" and "pg_reason g = None"
    and "length (pg_attempted g) < length order" and "identity = order ! length (pg_attempted g)"
  shows "sound_progress s order (g\<lparr>pg_reason := Some PRE_CHRONOLOGY, pg_member := Some identity\<rparr>)"
  using assms by (auto simp: sound_progress_def standing_def traced_def full_def)

text \<open>The state between the entry of a child and the recording of its evidence.\<close>

definition pending :: "rollout_setup \<Rightarrow> string list \<Rightarrow> string \<Rightarrow> progress \<Rightarrow> bool" where
  "pending s order identity g \<longleftrightarrow> standing order g \<and> traced s g
     \<and> pg_reason g \<noteq> Some PRE_CHRONOLOGY \<and> pg_attempted g \<noteq> [] \<and> last (pg_attempted g) = identity
     \<and> length (pg_children g) < length (pg_attempted g)"

lemma entered_fields:
  "pg_attempted (entered d x g) = pg_attempted g @ [d]" "pg_children (entered d x g) = pg_children g"
  "pg_chronologies (entered d x g) = pg_chronologies g" "pg_failed (entered d x g) = pg_failed g"
  by (auto simp: entered_def Let_def split: option.splits)

lemma pending_entered:
  assumes "sound_progress s order g" and "pg_reason g = None"
    and "length (pg_attempted g) < length order" and "d = order ! length (pg_attempted g)"
  shows "pending s order d (entered d x g)"
proof -
  from assms(1,2) have g: "pg_attempted g = take (length (pg_attempted g)) order"
    "pg_successful g = pg_attempted g" "\<not> pg_failed g" "full g" "traced s g"
    "pg_member g = None" "pg_outcome g = None"
    by (auto simp: sound_progress_def standing_def)
  have "take (Suc (length (pg_attempted g))) order = pg_attempted g @ [d]"
    using g(1) assms(3,4) by (simp add: take_Suc_conv_app_nth)
  then have "standing order (entered d x g) \<and> pg_reason (entered d x g) \<noteq> Some PRE_CHRONOLOGY"
    using assms(2) g by (auto simp: entered_def Let_def standing_def stopped_last_def split: option.splits)
  moreover have "traced s (entered d x g)"
    using g(4,5) by (auto simp: traced_def full_def entered_fields)
  ultimately show ?thesis using g(4,5) by (auto simp: pending_def entered_fields full_def traced_def)
qed

lemma pending_failure: "pending s order d g \<Longrightarrow> pending s order d (evidence_failure d g)"
  by (auto simp: pending_def standing_def stopped_last_def traced_def evidence_failure_def
      split: option.splits stopping_reason.splits)

lemma failure_fields [simp]:
  "pg_failed (evidence_failure d g)" "pg_attempted (evidence_failure d g) = pg_attempted g"
  "pg_successful (evidence_failure d g) = pg_successful g"
  "pg_children (evidence_failure d g) = pg_children g"
  "pg_chronologies (evidence_failure d g) = pg_chronologies g"
  by (simp_all add: evidence_failure_def)

lemma sound_failed: "pending s order d g \<Longrightarrow> pg_failed g \<Longrightarrow> sound_progress s order g"
  by (simp add: pending_def sound_progress_def)

lemma standing_evidence [simp]:
  "standing order (g\<lparr>pg_children := cs\<rparr>) = standing order g"
  "standing order (g\<lparr>pg_chronologies := ts\<rparr>) = standing order g"
  by (simp_all add: standing_def stopped_last_def cong: option.case_cong stopping_reason.case_cong)


lemma standing_failure:
  "standing order g \<Longrightarrow> pg_reason g \<noteq> Some PRE_CHRONOLOGY \<Longrightarrow> pg_attempted g \<noteq> []
    \<Longrightarrow> d = last (pg_attempted g) \<Longrightarrow> standing order (evidence_failure d g)"
  by (auto simp: standing_def stopped_last_def evidence_failure_def
      split: option.splits stopping_reason.splits)

lemma traced_evidence:
  assumes p: "pending s order d g"
    and r: "reference_to (child_record_id (rs_uuid5 s) (run_id s) d) ref"
    and c: "reference_to (chronology_record_id (rs_uuid5 s) (child_record_id (rs_uuid5 s) (run_id s) d)) cref"
  shows "traced s (g\<lparr>pg_children := pg_children g @ [ref]\<rparr>)"
    and "traced s (g\<lparr>pg_children := pg_children g @ [ref],
           pg_chronologies := pg_chronologies g @ [cref]\<rparr>)"
    and "full (g\<lparr>pg_children := pg_children g @ [ref], pg_chronologies := pg_chronologies g @ [cref]\<rparr>)"
proof -
  from p obtain a where a: "pg_attempted g = a @ [d]"
    by (metis append_butlast_last_id pending_def)
  with p have l: "length (pg_children g) = length a" "length (pg_chronologies g) = length a"
    by (auto simp: pending_def traced_def)
  from p r c show
    "traced s (g\<lparr>pg_children := pg_children g @ [ref]\<rparr>)"
    "traced s (g\<lparr>pg_children := pg_children g @ [ref], pg_chronologies := pg_chronologies g @ [cref]\<rparr>)"
    by (simp_all add: pending_def traced_def a l list_all2_appendI)
  show "full (g\<lparr>pg_children := pg_children g @ [ref], pg_chronologies := pg_chronologies g @ [cref]\<rparr>)"
    by (simp add: full_def a l)
qed

text \<open>Recording evidence changes neither who was attempted nor who succeeded, and clears no reason.\<close>

definition kept :: "progress \<Rightarrow> progress \<Rightarrow> bool" where
  "kept g g' \<longleftrightarrow> pg_attempted g' = pg_attempted g \<and> pg_successful g' = pg_successful g
     \<and> (pg_reason g' = None \<longrightarrow> pg_reason g = None)"

lemma kept_evidence [simp]:
  "kept g g" "kept g (evidence_failure d g)" "kept g (g\<lparr>pg_children := cs\<rparr>)"
  "kept g (evidence_failure d (g\<lparr>pg_children := cs\<rparr>))"
  "kept g (g\<lparr>pg_children := cs, pg_chronologies := ts\<rparr>)"
  by (simp_all add: kept_def evidence_failure_def)

lemma returns_record_child:
  assumes p: "pending s order (child_identity c) g" and post: "post = None \<longrightarrow> pg_failed g"
  shows "returns (record_child s w ap pf c cohort index n pre post execution g)
     (\<lambda>g'. sound_progress s order g' \<and> kept g g')"
  unfolding record_child_def
proof (rule returns_seq [OF returns_handled [OF returns_child_audit]], goal_cases)
  case (1 audit)
  show ?case
  proof (cases audit)
    case None
    then show ?thesis using sound_failed [OF pending_failure [OF p]] by simp
  next
    case (Some ref)
    with 1 have r: "reference_to (child_record_id (rs_uuid5 s) (run_id s) (child_identity c)) ref" by simp
    let ?g = "g\<lparr>pg_children := pg_children g @ [ref]\<rparr>"
    note ev = traced_evidence [OF p r]
    from p have st: "standing order g" and failed: "standing order (evidence_failure (child_identity c) ?g)"
      by (auto simp: pending_def intro!: standing_failure)
    have tr: "traced s (evidence_failure (child_identity c) ?g)" if "traced s ?g"
      using that by (simp add: traced_def)
    obtain cref where cref: "reference_to (chronology_record_id (rs_uuid5 s)
        (child_record_id (rs_uuid5 s) (run_id s) (child_identity c))) cref"
      using r by (auto simp: reference_to_def intro!: that [of "\<lparr>rr_record_id = _, rr_digest = rr_digest ref\<rparr>"])
    have unbracketed: "sound_progress s order (evidence_failure (child_identity c) ?g)"
      using failed tr [OF ev(1) [OF cref]] by (simp add: sound_progress_def)
    have bracketed: "sound_progress s order (?g\<lparr>pg_chronologies := pg_chronologies ?g @ [t]\<rparr>)"
      if "reference_to (chronology_record_id (rs_uuid5 s) (rr_record_id ref)) t" for t
      using st ev(2,3) [of t] that r by (simp add: sound_progress_def reference_to_def)
    show ?thesis
    proof (cases post)
      case None
      with post ev(1) [OF cref] st have "sound_progress s order ?g" by (simp add: sound_progress_def)
      with Some None show ?thesis by (simp add: Let_def)
    next
      case (Some a)
      show ?thesis
        unfolding \<open>audit = Some ref\<close> Some option.case Let_def
        by (rule returns_seq [OF returns_handled [OF returns_chronology]])
          (use unbracketed bracketed in \<open>auto split: option.splits\<close>)
    qed
  qed
qed

lemma returns_capture_post:
  "returns (capture_post s w p name pre) (\<lambda>(post, failed). post = None \<longrightarrow> failed)"
  unfolding capture_post_def
  by (rule returns_bindE) (auto split: option.split intro!: returns_bindE)

lemma approved_plan_identity:
  assumes "approved_plan sha cd children identity = Inr (c, p)"
  shows "child_identity c = identity"
proof -
  from assms have "dict_get (map (\<lambda>c. (child_identity c, c)) children) identity = Some c"
    by (auto simp: approved_plan_def bindS_Inr_iff split: option.splits child_result.splits)
      (metis child_result.exhaust)
  then show ?thesis using dict_get_Some [of child_identity] by blast
qed

text \<open>A step leaves a sound progress, and the run goes on only after this device succeeded.\<close>

definition advanced :: "progress \<Rightarrow> string \<Rightarrow> progress \<Rightarrow> bool" where
  "advanced g d g' \<longleftrightarrow> (pg_reason g' = None \<longrightarrow> pg_attempted g' = pg_attempted g @ [d])"

lemma returns_step:
  assumes g: "sound_progress s order g" "pg_reason g = None"
    and d: "length (pg_attempted g) < length order" "fst x = order ! length (pg_attempted g)"
  shows "returns (rollout_step s w ap pf n x g) (\<lambda>g'. sound_progress s order g' \<and> advanced g (fst x) g')"
proof -
  obtain identity cohort index where x: "x = (identity, cohort, index)" by (cases x)
  show ?thesis
    unfolding rollout_step_def x prod.case Let_def
  proof (rule returns_seq [of _ "\<lambda>(c, p). child_identity c = identity"], goal_cases)
    case 1
    show ?case using approved_plan_identity by (auto simp: returns_def liftE_def)
  next
    case (2 cp)
    then obtain c p where cp: "cp = (c, p)" "child_identity c = identity" by (cases cp) auto
    show ?case
      unfolding cp(1) prod.case
    proof (rule returns_bindE, goal_cases)
      case (1 captured)
      show ?case
      proof (cases captured)
        case None
        then show ?thesis using sound_pre_chronology [OF g d(1)] d(2) x by (simp add: advanced_def)
      next
        case (Some pre)
        show ?thesis
          unfolding Some option.case
        proof (rule returns_bindE, rule returns_seq [OF returns_capture_post], goal_cases)
          case (1 execution found)
          obtain post failed where f: "found = (post, failed)" by (cases found)
          have p: "pending s order identity (entered identity execution g)"
            by (rule pending_entered [OF g d(1)]) (use d(2) x in simp)
          let ?g = "if failed then evidence_failure identity (entered identity execution g)
            else entered identity execution g"
          have "returns (record_child s w ap pf c cohort index n pre post execution ?g)
              (\<lambda>g'. sound_progress s order g' \<and> kept ?g g')"
            using 1 p pending_failure [OF p] cp(2) f
            by (intro returns_record_child) auto
          then show ?case
            unfolding f prod.case
            by (rule returns_conseq) (auto simp: kept_def advanced_def x entered_fields)
        qed
      qed
    qed
  qed
qed

lemma returns_loop:
  assumes "sound_progress s order g" and "pg_attempted g = take k order"
    and "pg_reason g = None \<longrightarrow> map fst xs = drop k order" and "k \<le> length order"
  shows "returns (rollout_loop s w ap pf n xs g)
     (\<lambda>g'. sound_progress s order g' \<and> (pg_reason g' = None \<longrightarrow> pg_attempted g' = order))"
  using assms
proof (induction xs arbitrary: n g k)
  case Nil
  then show ?case by simp
next
  case (Cons x xs)
  show ?case
  proof (cases "pg_reason g")
    case None
    with Cons.prems(3) have x: "fst x # map fst xs = drop k order" by simp
    then have k: "k < length order" by (metis drop_all list.distinct(1) not_le)
    then have d: "fst x = order ! k" "map fst xs = drop (Suc k) order"
      using x by (simp_all add: Cons_nth_drop_Suc [symmetric])
    have l: "length (pg_attempted g) = k" using Cons.prems(2) k by simp
    have "returns (rollout_step s w ap pf n x g)
        (\<lambda>g'. sound_progress s order g' \<and> advanced g (fst x) g')"
      by (rule returns_step [OF Cons.prems(1) None]) (use l k d in simp_all)
    then have "returns (bindE (rollout_step s w ap pf n x g) (rollout_loop s w ap pf (Suc n) xs))
        (\<lambda>g'. sound_progress s order g' \<and> (pg_reason g' = None \<longrightarrow> pg_attempted g' = order))"
    proof (rule returns_seq, goal_cases)
      case (1 g')
      note 2 = this
      show ?case
      proof (cases "pg_reason g'")
        case None
        with 2 have "pg_attempted g' = take (Suc k) order"
          using Cons.prems(2) d k by (simp add: advanced_def take_Suc_conv_app_nth)
        with 2 d k show ?thesis by (intro Cons.IH [of g' "Suc k"]) auto
      next
        case (Some y)
        with 2 show ?thesis by (cases xs) simp_all
      qed
    qed
    with None show ?thesis by simp
  next
    case (Some y)
    with Cons.prems show ?thesis by simp
  qed
qed

lemma cohort_order: "map fst (cohort_list canaries waves) = canaries @ concat waves"
proof -
  have "map fst (enumerate_waves i waves) = concat waves" for i
    by (induction waves arbitrary: i) (simp_all add: comp_def)
  then show ?thesis by (simp add: cohort_list_def comp_def)
qed

lemma returns_rollout_loop:
  "returns (rollout_loop s w ap pf 0 (cohort_list canaries waves) (no_progress None))
     (\<lambda>g. sound_progress s (canaries @ concat waves) g
        \<and> (pg_reason g = None \<longrightarrow> pg_attempted g = canaries @ concat waves))"
  by (rule returns_loop [where k = 0]) (simp_all add: sound_start cohort_order, simp add: no_progress_def)

end
