(* ===== verification/Rollout_Audit_Laws.thy ===== *)
theory Rollout_Audit_Laws
  imports Rollout_Run_Laws
begin

text \<open>
  The parent record of a run is always one its own validators accept: population, evidence coverage,
  stopping facts and outcome follow from where a sound run can stand when it ends.
\<close>

definition approved :: "rollout_setup \<Rightarrow> approval \<Rightarrow> bool" where
  "approved s ap \<longleftrightarrow>
     authorizes (rs_sha s) (rs_codec s) (rs_inputs s) (ap_authorization ap) (ap_parent ap)"

abbreviation deployable_devices :: "approval \<Rightarrow> string list" where
  "deployable_devices ap \<equiv> map child_identity (deployables (ro_children (ap_parent ap)))"

lemma approved_cohorts:
  assumes "approved s ap" and "ro_cohorts (ap_parent ap) = Some (canaries, waves)"
  shows "distinct (canaries @ concat waves)"
    and "set (canaries @ concat waves) = set (deployable_devices ap)"
    and "distinct (map child_identity (ro_children (ap_parent ap)))"
    and "length (canaries @ concat waves) = length (deployable_devices ap)"
    and "list_all (netbox_identity ''dcim.device'') (canaries @ concat waves)"
    and "canaries \<noteq> []"
proof -
  let ?r = "ap_parent ap"
  from assms(1) have v: "rollout_parent_valid (rs_sha s) (rc_child (rs_codec s)) ?r = Inr ()"
    by (simp add: approved_def authorizes_def)
  obtain ms where ms: "parent_represents (rs_sha s) (rc_child (rs_codec s)) ?r ms"
    by (rule rollout_parent_members [OF v])
  from parent_cohorts(1) [OF v assms(2)] show d: "distinct (canaries @ concat waves)"
    unfolding partitions_def by blast
  from parent_cohorts(1) [OF v assms(2)]
  show e: "set (canaries @ concat waves) = set (deployable_devices ap)"
    unfolding partitions_def list.set_map by blast
  from ms show i: "distinct (map child_identity (ro_children ?r))" by (simp add: parent_represents_def)
  have "distinct (deployable_devices ap)" by (rule distinct_deployables [OF i])
  with d e show "length (canaries @ concat waves) = length (deployable_devices ap)"
    by (metis distinct_card)
  from v assms(2) show "list_all (netbox_identity ''dcim.device'') (canaries @ concat waves)"
    by (auto simp: rollout_parent_valid_def cohort_fields_valid_def bindS_Inr_iff)
  show "canaries \<noteq> []" by (rule parent_cohorts(2) [OF v assms(2)])
qed

text \<open>\<open>uuid5\<close> gives the devices of the run, and their chronologies, distinct record identities.\<close>

definition distinct_records :: "rollout_setup \<Rightarrow> string list \<Rightarrow> bool" where
  "distinct_records s devices \<longleftrightarrow>
     distinct (map (child_record_id (rs_uuid5 s) (run_id s)) devices)
     \<and> distinct (map (chronology_record_id (rs_uuid5 s) \<circ> child_record_id (rs_uuid5 s) (run_id s)) devices)"

section \<open>How a run ends\<close>

definition preflight_stopped :: "progress \<Rightarrow> bool" where
  "preflight_stopped g \<longleftrightarrow> g = no_progress (Some PREFLIGHT)"

definition finally_checked :: "rollout_setup \<Rightarrow> string list \<Rightarrow> progress \<Rightarrow> final_validation option \<Rightarrow> bool" where
  "finally_checked s order g final \<longleftrightarrow> (\<exists>h. sound_progress s order h \<and> pg_reason h = None
     \<and> pg_attempted h = order
     \<and> (case final of
          None \<Rightarrow> g = h\<lparr>pg_failed := True, pg_reason := Some CHILD_EVIDENCE\<rparr>
        | Some f \<Rightarrow> sha256_pattern (fv_digest f)
            \<and> g = (if fv_status f = PASSED then h else h\<lparr>pg_reason := Some FINAL_VALIDATION\<rparr>)))"

definition run_ended ::
    "rollout_setup \<Rightarrow> string list \<Rightarrow> rollout_preflight option \<Rightarrow> progress \<Rightarrow> final_validation option \<Rightarrow> bool" where
  "run_ended s order pf g final \<longleftrightarrow>
     (case pf of None \<Rightarrow> preflight_stopped g | Some p \<Rightarrow> sha256_pattern (pf_digest p))
     \<and> (preflight_stopped g \<and> final = None
        \<or> sound_progress s order g \<and> pg_reason g \<noteq> None \<and> final = None
        \<or> finally_checked s order g final)"

text \<open>What the ways of ending have in common.\<close>

definition evidence_ids :: "rollout_setup \<Rightarrow> progress \<Rightarrow> bool" where
  "evidence_ids s g \<longleftrightarrow>
     map rr_record_id (pg_children g)
       = take (length (pg_children g)) (map (child_record_id (rs_uuid5 s) (run_id s)) (pg_attempted g))
     \<and> map rr_record_id (pg_chronologies g)
       = take (length (pg_chronologies g)) (map (chronology_record_id (rs_uuid5 s))
           (map (child_record_id (rs_uuid5 s) (run_id s)) (pg_attempted g)))
     \<and> list_all (\<lambda>x. sha256_pattern (rr_digest x)) (pg_children g @ pg_chronologies g)"

lemma referenced:
  assumes "list_all2 (\<lambda>d. reference_to (f d)) ds refs"
  shows "map rr_record_id refs = map f ds" and "list_all (\<lambda>x. sha256_pattern (rr_digest x)) refs"
  using assms by (induction rule: list_all2_induct) (simp_all add: reference_to_def)

lemma traced_ids: "traced s g \<Longrightarrow> evidence_ids s g"
  using referenced [of "child_record_id (rs_uuid5 s) (run_id s)"]
    referenced [of "\<lambda>d. chronology_record_id (rs_uuid5 s) (child_record_id (rs_uuid5 s) (run_id s) d)"]
  by (auto simp: traced_def evidence_ids_def take_map comp_def)

definition well_traced :: "rollout_setup \<Rightarrow> string list \<Rightarrow> progress \<Rightarrow> bool" where
  "well_traced s order g \<longleftrightarrow> evidence_ids s g
     \<and> pg_attempted g = take (length (pg_attempted g)) order
     \<and> pg_successful g = take (length (pg_successful g)) (pg_attempted g)
     \<and> length (pg_chronologies g) \<le> length (pg_children g)
     \<and> length (pg_children g) \<le> length (pg_attempted g)
     \<and> (pg_failed g \<or> length (pg_chronologies g) = length (pg_attempted g))
     \<and> length (pg_attempted g) \<le> Suc (length (pg_chronologies g))"

lemma well_traced_updates:
  "well_traced s order g \<Longrightarrow> well_traced s order (g\<lparr>pg_reason := x\<rparr>)"
  "well_traced s order g \<Longrightarrow> well_traced s order (g\<lparr>pg_failed := True, pg_reason := x\<rparr>)"
  by (simp_all add: well_traced_def evidence_ids_def)

lemma well_traced_sound:
  assumes "sound_progress s order g"
  shows "well_traced s order g"
proof -
  have "pg_successful g = pg_attempted g \<or> pg_successful g = butlast (pg_attempted g)"
    using assms by (auto simp: sound_progress_def standing_def split: option.splits stopping_reason.splits)
  then have "pg_successful g = take (length (pg_successful g)) (pg_attempted g)"
    by (auto simp: butlast_conv_take)
  moreover have "pg_attempted g = take (length (pg_attempted g)) order"
    using assms by (simp add: sound_progress_def standing_def)
  ultimately show ?thesis
    using assms traced_ids [of s g] unfolding well_traced_def
    by (auto simp only: sound_progress_def traced_def full_def)
qed

lemma run_ended_traced: "run_ended s order pf g final \<Longrightarrow> well_traced s order g"
proof -
  have "well_traced s order (no_progress r)" for r
    by (simp add: well_traced_def no_progress_def evidence_ids_def)
  moreover assume "run_ended s order pf g final"
  ultimately show ?thesis
    using well_traced_sound [of s order] well_traced_updates [of s order]
    by (auto simp: run_ended_def preflight_stopped_def finally_checked_def split: option.splits if_splits)
qed

lemma run_ended_unprepared: "run_ended s order None g final \<Longrightarrow> pg_attempted g = []"
  by (auto simp: run_ended_def preflight_stopped_def no_progress_def)

section \<open>The record of an ended run is valid\<close>

lemma audit_selects [simp]:
  fixes s ap pipeline unblocker time pf canaries waves g final
  defines "R \<equiv> rollout_audit_of s ap pipeline unblocker time pf canaries waves g final"
  shows "au_record_id R = run_id s" and "au_job_id R = run_id s" and "au_generated_at R = time"
    and "au_children R = map promoted_child_of (ro_children (ap_parent ap))"
    and "au_canaries R = canaries" and "au_waves R = waves"
    and "au_child_records R = pg_children g" and "au_chronology_records R = pg_chronologies g"
    and "au_evidence_failed R = pg_failed g" and "au_attempted R = pg_attempted g"
    and "au_successful R = pg_successful g" and "au_stopping_member R = pg_member g"
    and "au_stopping_reason R = pg_reason g" and "au_stopping_outcome R = pg_outcome g"
    and "au_preflight_digest R = map_option pf_digest pf"
    and "au_final_validation_digest R = map_option fv_digest final"
    and "au_final_validation_status R = map_option fv_status final"
    and "au_outcome R = outcome_of (length (canaries @ concat waves)) g"
    and "au_child_evidence_complete R = (length (pg_children g) = length (pg_chronologies g)
        \<and> length (pg_chronologies g) = length (pg_attempted g))"
proof -
  have "length (cohort_list canaries waves) = length (canaries @ concat waves)"
    using cohort_order [of canaries waves] by (metis length_map)
  then show "au_outcome R = outcome_of (length (canaries @ concat waves)) g"
    by (simp add: R_def rollout_audit_of_def Let_def)
qed (simp_all add: R_def rollout_audit_of_def Let_def)

lemma audit_order_of [simp]:
  "audit_order (rollout_audit_of s ap pipeline unblocker time pf canaries waves g final)
     = canaries @ concat waves"
  "audit_deployable (rollout_audit_of s ap pipeline unblocker time pf canaries waves g final)
     = deployable_devices ap"
  by (simp_all add: audit_order_def audit_deployable_def promoted_deployables_of)

lemma ended_coverage:
  assumes t: "well_traced s (canaries @ concat waves) g" and u: "distinct_records s (canaries @ concat waves)"
    and e: "run_ended s (canaries @ concat waves) pf g final"
  shows "audit_coverage (rs_uuid5 s)
    (rollout_audit_of s ap pipeline unblocker time pf canaries waves g final)"
proof -
  have last: "stopped_last g \<and> pg_reason g \<in> {Some CHILD_EVIDENCE, Some CHILD_EXECUTION_UNCERTAIN}
      \<or> length (pg_chronologies g) = length (pg_attempted g)" if "pg_failed g"
    using e that
    by (auto simp: run_ended_def finally_checked_def preflight_stopped_def no_progress_def
        sound_progress_def standing_def full_def split: option.splits stopping_reason.splits if_splits)
  let ?f = "child_record_id (rs_uuid5 s) (run_id s)" and ?c = "chronology_record_id (rs_uuid5 s)"
  let ?a = "pg_attempted g"
  have ids: "map rr_record_id (pg_children g) = map ?f ?a \<longleftrightarrow> length (pg_children g) = length ?a"
    "map rr_record_id (pg_chronologies g) = map ?c (map ?f ?a)
      \<longleftrightarrow> length (pg_chronologies g) = length ?a"
    using t unfolding well_traced_def evidence_ids_def
    by (metis length_map take_all order_refl)+
  have le: "length (pg_chronologies g) \<le> length (pg_children g)"
    "length (pg_children g) \<le> length ?a" "length ?a \<le> Suc (length (pg_chronologies g))"
    and fl: "pg_failed g \<or> length (pg_chronologies g) = length ?a"
    using t by (simp_all add: well_traced_def)
  have trace: "map rr_record_id (pg_children g) = take (length (pg_children g)) (map ?f ?a)"
    "map rr_record_id (pg_chronologies g) = take (length (pg_chronologies g)) (map ?c (map ?f ?a))"
    using t by (simp_all only: well_traced_def evidence_ids_def)
  define R where "R = rollout_audit_of s ap pipeline unblocker time pf canaries waves g final"
  have sl: "stopped_at_last R \<longleftrightarrow> stopped_last g"
    by (simp add: R_def stopped_at_last_def stopped_last_def)
  have "length ?a - (if pg_failed g \<and> stopped_last g
      \<and> pg_reason g \<in> {Some CHILD_EVIDENCE, Some CHILD_EXECUTION_UNCERTAIN} then 1 else 0)
      \<le> length (pg_chronologies g)"
    using le fl last by auto
  then have required: "length ?a - (if au_evidence_failed R \<and> stopped_at_last R
      \<and> List.member (map Some [CHILD_EVIDENCE, CHILD_EXECUTION_UNCERTAIN]) (au_stopping_reason R)
      then 1 else 0) \<le> length (map rr_record_id (pg_chronologies g))"
    unfolding sl by (simp add: R_def)
  have sel: "au_record_id R = run_id s" "au_attempted R = ?a" "au_child_records R = pg_children g"
    "au_chronology_records R = pg_chronologies g"
    by (simp_all add: R_def)
  have complete: "au_child_evidence_complete R = (map rr_record_id (pg_children g) = map ?f ?a
      \<and> map rr_record_id (pg_chronologies g) = map ?c (map ?f ?a))"
    unfolding ids by (auto simp: R_def)
  show ?thesis
    unfolding audit_coverage_def Let_def R_def [symmetric] sel
    by (intro conjI complete required) (simp_all only: length_map le trace [symmetric])
qed

lemma length_less_one [simp]: "length xs - Suc 0 = length xs \<longleftrightarrow> xs = []"
  by (cases xs) auto

lemma ended_reason:
  assumes e: "run_ended s (canaries @ concat waves) pf g final" and "approved s ap"
    and "ro_cohorts (ap_parent ap) = Some (canaries, waves)"
  shows "audit_reason (rollout_audit_of s ap pipeline unblocker time pf canaries waves g final)"
    and "audit_outcome (rollout_audit_of s ap pipeline unblocker time pf canaries waves g final)"
proof -
  note c = approved_cohorts [OF assms(2,3)]
  define order where "order = canaries @ concat waves"
  have len: "length (deployable_devices ap) = length order" and ne: "order \<noteq> []"
    using c(4,6) by (simp_all add: order_def)
  define R where "R = rollout_audit_of s ap pipeline unblocker time pf canaries waves g final"
  have sel: "au_stopping_reason R = pg_reason g" "au_attempted R = pg_attempted g"
    "au_successful R = pg_successful g" "au_stopping_member R = pg_member g"
    "au_stopping_outcome R = pg_outcome g" "au_evidence_failed R = pg_failed g"
    "au_final_validation_status R = map_option fv_status final"
    "audit_order R = order" "all_succeeded R = (length (pg_successful g) = length order)"
    "stopped_at_last R = stopped_last g" "au_outcome R = outcome_of (length order) g"
    using c(4) by (simp_all add: R_def order_def all_succeeded_def stopped_at_last_def stopped_last_def)
  have "audit_reason R \<and> audit_outcome R"
  proof -
    from e [folded order_def] consider (unprepared) "preflight_stopped g" "final = None"
      | (stopped) "sound_progress s order g" "pg_reason g \<noteq> None" "final = None"
      | (checked) "finally_checked s order g final"
      by (auto simp: run_ended_def)
    then show ?thesis
    proof cases
      case unprepared
      then show ?thesis
        by (simp add: preflight_stopped_def no_progress_def audit_reason_def audit_outcome_def sel
            outcome_of_def ne)
    next
      case stopped
      have "length (pg_attempted g) \<le> length order"
        using stopped(1) by (metis length_take min.cobounded1 min.commute sound_progress_def standing_def)
      with stopped show ?thesis
        by (auto simp: sound_progress_def standing_def audit_reason_def audit_outcome_def sel outcome_of_def
            stopped_last_def split: option.splits stopping_reason.splits)
    next
      case checked
      then show ?thesis
        using ne
        by (cases final; cases "fv_status (the final)")
          (auto simp: finally_checked_def sound_progress_def standing_def audit_reason_def
            audit_outcome_def sel outcome_of_def split: if_splits)
    qed
  qed
  then show "audit_reason R" and "audit_outcome R" by simp_all
qed

lemma ended_population:
  assumes t: "well_traced s (canaries @ concat waves) g" and u: "distinct_records s (canaries @ concat waves)"
    and e: "run_ended s (canaries @ concat waves) pf g final" and a: "approved s ap"
    and c: "ro_cohorts (ap_parent ap) = Some (canaries, waves)" and time: "dt_offset time \<noteq> None"
  shows "audit_population (rollout_audit_of s ap pipeline unblocker time pf canaries waves g final)"
proof -
  note co = approved_cohorts [OF a c]
  define order where "order = canaries @ concat waves"
  let ?f = "child_record_id (rs_uuid5 s) (run_id s)" and ?c = "chronology_record_id (rs_uuid5 s)"
  let ?a = "pg_attempted g"
  have trace: "map rr_record_id (pg_children g) = take (length (pg_children g)) (map ?f ?a)"
    "map rr_record_id (pg_chronologies g) = take (length (pg_chronologies g)) (map ?c (map ?f ?a))"
    and att: "?a = take (length ?a) order" and suc: "pg_successful g = take (length (pg_successful g)) ?a"
    using t unfolding well_traced_def evidence_ids_def order_def by blast+
  have d: "distinct (map ?f ?a)" "distinct (map ?c (map ?f ?a))"
    using u unfolding distinct_records_def order_def [symmetric]
    by (subst att, simp add: take_map [symmetric])+
  then have ids: "distinct (map rr_record_id (pg_children g))"
    "distinct (map rr_record_id (pg_chronologies g))"
    unfolding trace by (simp_all only: distinct_take)
  have member: "pg_member g = Some m \<Longrightarrow> m \<in> set order" for m
  proof -
    have l: "last ?a \<in> set order" if "?a \<noteq> []"
      using that att by (metis in_set_takeD last_in_set)
    assume "pg_member g = Some m"
    then show ?thesis
      using e [folded order_def] l
      by (auto simp: run_ended_def preflight_stopped_def no_progress_def finally_checked_def
          sound_progress_def standing_def stopped_last_def split: option.splits stopping_reason.splits
          if_splits)
  qed
  define R where "R = rollout_audit_of s ap pipeline unblocker time pf canaries waves g final"
  have more: "au_compliant R = map pc_device_identity
        (filter (\<lambda>c. pc_kind c = COMPLIANT_Child) (au_children R))"
    "au_untouched R = filter (\<lambda>d. \<not> List.member (au_attempted R) d) (audit_deployable R)"
    "au_completed_canaries R = filter (\<lambda>d. List.member (au_successful R) d) (au_canaries R)"
    "au_completed_waves R = filter (list_all (\<lambda>d. List.member (au_successful R) d)) (au_waves R)"
    "au_remaining_waves R = filter (\<lambda>w. \<not> list_all (\<lambda>d. List.member (au_successful R) d) w) (au_waves R)"
    by (simp_all add: R_def rollout_audit_of_def Let_def filter_map comp_def promoted_child_of_def
        audit_deployable_def promoted_deployables_def deployables_def)
  have sel: "audit_order R = order" "audit_deployable R = deployable_devices ap"
    "au_attempted R = ?a" "au_successful R = pg_successful g" "au_record_id R = au_job_id R"
    "au_generated_at R = time" "au_child_records R = pg_children g"
    "au_chronology_records R = pg_chronologies g" "au_stopping_member R = pg_member g"
    "map pc_device_identity (au_children R) = map child_identity (ro_children (ap_parent ap))"
    "au_preflight_digest R = map_option pf_digest pf"
    "(au_final_validation_digest R = None) = (au_final_validation_status R = None)"
    by (simp_all add: R_def order_def promoted_child_of_def)
  have "distinct order" "same_set order (deployable_devices ap)"
    "distinct (map child_identity (ro_children (ap_parent ap)))"
    using co(1-3) by (simp_all only: order_def same_set_iff)
  moreover have "case pg_member g of None \<Rightarrow> True | Some m \<Rightarrow> List.member (deployable_devices ap) m"
    using member co(2) [folded order_def] by (auto split: option.split simp del: list.set_map)
  moreover have "\<not> (map_option pf_digest pf = None \<and> ?a \<noteq> [])"
    using run_ended_unprepared e by (cases pf) auto
  ultimately have "audit_population R"
    unfolding audit_population_def Let_def sel
    using ids att suc time more [unfolded sel] by (intro conjI) (assumption | simp only: sel | rule)+
  then show ?thesis by (simp only: R_def)
qed

lemma ended_digests:
  "run_ended s order pf g final \<Longrightarrow> digest_option (map_option pf_digest pf)"
  "run_ended s order pf g final \<Longrightarrow> digest_option (map_option fv_digest final)"
  by (auto simp: run_ended_def digest_option_def finally_checked_def split: option.splits)

lemma ended_fields:
  assumes t: "well_traced s (canaries @ concat waves) g"
    and e: "run_ended s (canaries @ concat waves) pf g final" and a: "approved s ap"
    and c: "ro_cohorts (ap_parent ap) = Some (canaries, waves)" and n: "rs_build_number s > 0"
    and d: "sha256_pattern d"
  shows "rollout_audit_fields_valid
    ((rollout_audit_of s ap pipeline unblocker time pf canaries waves g final)\<lparr>au_digest := d\<rparr>)"
proof -
  let ?r = "ap_parent ap" and ?dev = "netbox_identity ''dcim.device''"
  note co = approved_cohorts [OF a c]
  have v: "rollout_parent_valid (rs_sha s) (rc_child (rs_codec s)) ?r = Inr ()"
    and av: "authorization_valid (rs_sha s) (ap_authorization ap) = Inr ()"
    and commit: "ro_source_commit ?r = bc_commit (ai_context (rs_inputs s))"
    using a by (simp_all add: approved_def authorizes_def)
  from v have parent: "git_commit_pattern (ro_source_commit ?r)" "sha256_pattern (ro_digest ?r)"
    "ro_children ?r \<noteq> []" "length (ro_children ?r) \<le> MAX_MEMBERS" "body_valid (ro_body ?r) = Inr ()"
    and kids: "mapS (rollout_child_valid (rs_sha s) (rc_child (rs_codec s))) (ro_children ?r) \<in> range Inr"
    by (auto simp: rollout_parent_valid_def bindS_Inr_iff)
  have children: "list_all promoted_child_valid (map promoted_child_of (ro_children ?r))"
    using kids child_promotes [of "rs_sha s" "rc_child (rs_codec s)"]
    by (fastforce simp: mapS_Inr_iff list_all2_conv_all_nth list_all_length)
  then have ids: "list_all ?dev (map child_identity (ro_children ?r))"
    by (simp add: list_all_iff promoted_child_valid_def promoted_child_of_def)
  then have deployable: "list_all ?dev (deployable_devices ap)"
    by (simp add: list_all_iff deployables_def)
  have auth: "sha256_pattern (ra_parent_artifact_digest (ap_authorization ap))"
    "sha256_pattern (ra_promotion_digest (ap_authorization ap))"
    "sha256_pattern (ra_promotion_artifact_digest (ap_authorization ap))"
    "sha256_pattern (ra_digest (ap_authorization ap))"
    using av by (auto simp: authorization_valid_def bindS_Inr_iff)
  have change: "body_change_id (ro_body ?r) \<noteq> []" "length (body_change_id (ro_body ?r)) \<le> 100"
    using body_change_id_valid [OF parent(5)]
    by (simp_all add: change_id_valid_def cli_bound_string_def nonempty_string_def)
  have order: "\<forall>x \<in> set (canaries @ concat waves). ?dev x" using co(5) by (simp only: list_all_iff)
  then have att: "\<forall>x \<in> set (pg_attempted g). ?dev x"
    using t unfolding well_traced_def by (metis in_set_takeD)
  then have suc: "\<forall>x \<in> set (pg_successful g). ?dev x"
    using t unfolding well_traced_def by (metis in_set_takeD)
  have member: "\<forall>m. pg_member g = Some m \<longrightarrow> ?dev m"
  proof (intro allI impI)
    fix m assume m: "pg_member g = Some m"
    have "m \<in> set (pg_attempted g) \<or> m \<in> set (canaries @ concat waves)"
      using e m by (auto simp: run_ended_def preflight_stopped_def no_progress_def finally_checked_def
          sound_progress_def standing_def stopped_last_def split: option.splits stopping_reason.splits
          if_splits simp del: set_append)
    then show "?dev m" using order att by blast
  qed
  have records: "list_all (\<lambda>x. sha256_pattern (rr_digest x)) (pg_children g @ pg_chronologies g)"
    using t by (simp add: well_traced_def evidence_ids_def)
  define F where "F = (rollout_audit_of s ap pipeline unblocker time pf canaries waves g final)
    \<lparr>au_digest := d\<rparr>"
  have lists: "\<forall>x \<in> set (au_canaries F @ concat (au_waves F) @ au_compliant F @ au_attempted F
      @ au_successful F @ au_untouched F @ au_completed_canaries F @ concat (au_completed_waves F)
      @ concat (au_remaining_waves F)). ?dev x"
    using order att suc ids deployable
    by (auto simp: F_def rollout_audit_of_def Let_def list_all_iff)
  have "case au_stopping_member F of None \<Rightarrow> True | Some m \<Rightarrow> ?dev m"
    using member by (simp add: F_def split: option.split)
  moreover have "au_children F \<noteq> []" "length (au_children F) \<le> MAX_MEMBERS"
    "list_all promoted_child_valid (au_children F)"
    "list_all (\<lambda>x. sha256_pattern (rr_digest x)) (au_child_records F @ au_chronology_records F)"
    "digest_option (au_preflight_digest F)" "digest_option (au_final_validation_digest F)"
    using children records ended_digests [OF e] parent by (simp_all add: F_def)
  moreover have "au_build_number F > 0" "git_commit_pattern (au_source_commit F)"
    "au_change_id F \<noteq> []" "length (au_change_id F) \<le> 100"
    "list_all sha256_pattern [au_parent_digest F, au_parent_artifact_digest F, au_promotion_digest F,
         au_promotion_artifact_digest F, au_authorization_digest F, au_digest F]"
    using n parent commit change auth d by (simp_all add: F_def rollout_audit_of_def Let_def)
  ultimately have "rollout_audit_fields_valid F"
    using lists by (simp only: rollout_audit_fields_valid_def list_all_iff simp_thms)
  then show ?thesis by (simp only: F_def)
qed

text \<open>No run that ended is rejected by the record it leaves.\<close>

lemma audit_unsigned:
  "audit_population (R\<lparr>au_digest := d\<rparr>) = audit_population R"
  "audit_coverage u (R\<lparr>au_digest := d\<rparr>) = audit_coverage u R"
  "audit_reason (R\<lparr>au_digest := d\<rparr>) = audit_reason R"
  "audit_outcome (R\<lparr>au_digest := d\<rparr>) = audit_outcome R"
  "rollout_audit_digest sha (R\<lparr>au_digest := d\<rparr>) = rollout_audit_digest sha R"
  by (simp_all add: audit_population_def audit_coverage_def audit_reason_def audit_outcome_def
      audit_order_def audit_deployable_def all_succeeded_def stopped_at_last_def rollout_audit_digest_def
      rollout_audit_fields_def cong: option.case_cong stopping_reason.case_cong rollout_outcome.case_cong)

lemma ended_record_accepted:
  assumes e: "run_ended s (canaries @ concat waves) pf g final" and a: "approved s ap"
    and c: "ro_cohorts (ap_parent ap) = Some (canaries, waves)" and n: "rs_build_number s > 0"
    and u: "distinct_records s (canaries @ concat waves)" and time: "dt_offset time \<noteq> None"
    and h: "hex_digest (rs_sha s)"
  shows "\<exists>R. rollout_audit_signed (rs_sha s) (rs_uuid5 s)
      (rollout_audit_of s ap pipeline unblocker time pf canaries waves g final) = Inr R
    \<and> (\<exists>d. R = (rollout_audit_of s ap pipeline unblocker time pf canaries waves g final)\<lparr>au_digest := d\<rparr>)
    \<and> rollout_audit_valid (rs_sha s) (rs_uuid5 s) R = Inr ()"
proof -
  define R where "R = rollout_audit_of s ap pipeline unblocker time pf canaries waves g final"
  define d where "d = rollout_audit_digest (rs_sha s) R"
  note t = run_ended_traced [OF e]
  have "sha256_pattern d"
    unfolding d_def rollout_audit_digest_def by (rule sha256_identity_pattern [OF h])
  then have "rollout_audit_valid (rs_sha s) (rs_uuid5 s) (R\<lparr>au_digest := d\<rparr>) = Inr ()"
    using ended_fields [OF t e a c n] ended_population [OF t u e a c time] ended_coverage [OF t u e]
      ended_reason [OF e a c]
    unfolding rollout_audit_valid_def by (simp add: audit_unsigned R_def d_def)
  then show ?thesis
    by (auto simp: rollout_audit_signed_def Let_def R_def [symmetric] d_def)
qed

end
