(* ===== verification/Rollout_Validation_Laws.thy ===== *)
theory Rollout_Validation_Laws
  imports Rollout_Run_Laws
begin

text \<open>
  What a passed preflight and a final validation return, and that a final validation always ends in
  a record its validators accept. That their observations are fresh is a statement on their calls,
  in \<open>Rollout_Freshness\<close>.
\<close>

text \<open>\<open>fails_only P m\<close>: the exceptions that escape \<open>m\<close> satisfy \<open>P\<close>.\<close>

definition fails_only :: "('e \<Rightarrow> bool) \<Rightarrow> ('s, 'e, 'a) eff \<Rightarrow> bool" where
  "fails_only P m \<longleftrightarrow> (\<forall>t e. fst (m t) = Inl e \<longrightarrow> P e)"

lemma fails_only_pure [simp]:
  "fails_only P (ret x)" "fails_only P (raise e) \<longleftrightarrow> P e"
  "fails_only P (liftE r) \<longleftrightarrow> (\<forall>e. r = Inl e \<longrightarrow> P e)"
  by (auto simp: fails_only_def eff_simps)

lemma fails_only_bindE:
  assumes "fails_only P m" and "returns m Q" and "\<And>x. Q x \<Longrightarrow> fails_only P (f x)"
  shows "fails_only P (bindE m f)"
  unfolding fails_only_def
proof (intro allI impI)
  fix t e
  assume e: "fst (bindE m f t) = Inl e"
  obtain r t' where m: "m t = (r, t')" by fastforce
  show "P e"
  proof (cases r)
    case (Inl x)
    with m e assms(1) show ?thesis by (auto simp: fails_only_def bindE_def) (metis fst_conv)
  next
    case (Inr x)
    with m assms(2) have "Q x" unfolding returns_def by (metis fst_conv)
    with assms(3) m Inr e show ?thesis by (simp add: fails_only_def bindE_def)
  qed
qed

lemma fails_only_seq: "fails_only P m \<Longrightarrow> (\<And>x. fails_only P (f x)) \<Longrightarrow> fails_only P (bindE m f)"
  by (rule fails_only_bindE [where Q = "\<lambda>_. True"]) (simp_all add: returns_def)

lemma fails_only_handled: "fails_only (\<lambda>e. \<not> p e) (handled p m)"
  by (auto simp: fails_only_def handled_def eff_simps split: sum.splits prod.splits if_splits)

lemma fails_only_tryE [simp]: "fails_only P (tryE m)"
  by (auto simp: fails_only_def tryE_def split: prod.splits)

lemma returns_lift: "(\<And>x. r = Inr x \<Longrightarrow> returns (f x) Q) \<Longrightarrow> returns (bindE (liftE r) f) Q"
  by (rule returns_seq [of _ "\<lambda>x. r = Inr x"]) simp_all

section \<open>One child\<close>

lemma returns_resolved: "returns (resolve (resolved_providers pv d i) n) (\<lambda>d'. d' = d)"
  by (auto simp: returns_def resolve_def resolved_providers_def askE_def split: if_splits)

lemma returns_planned_device:
  "returns (plan_again sha rv ch (m, d, i, op, authority) secret)
     (\<lambda>r. \<forall>q. pr_compliance r = Some q \<longrightarrow> cr_device_identity q = dv_device_identity d)"
proof -
  have q: "build_compliance sha intent d j st c time = Inr q \<Longrightarrow> cr_device_identity q = dv_device_identity d"
    for intent j st c time q
    by (auto simp: build_compliance_def bindS_Inr_iff Let_def split: option.splits)
  show ?thesis
    unfolding plan_again_def prod.case plan_profiled_change_def
    by (rule returns_seq [OF returns_resolved], hypsubst,
        (rule returns_lift | rule returns_bindE)+)
      (auto intro!: returns_lift dest: q)
qed

text \<open>One child is proved by a compliance record for its device and the approved description.\<close>

definition proved_child ::
    "(string \<Rightarrow> string) \<Rightarrow> child_codec \<Rightarrow> rollout_child \<Rightarrow> profiled_compliance_record \<Rightarrow> bool" where
  "proved_child sha cd c seen \<longleftrightarrow> profiled_compliance_valid sha seen = Inr ()
     \<and> cr_device_identity seen = child_identity c
     \<and> (\<exists>approved. child_result_of sha cd c = Inr approved
          \<and> cr_desired_description seen = rf_desired_description (facts_of approved))"

lemma returns_final_child:
  assumes "dv_device_identity (fst (snd member)) = child_identity c"
  shows "returns (final_child sha cd rv ch (c, member, secret))
     (\<lambda>q. \<forall>seen. q = Inr seen \<longrightarrow> proved_child sha cd c seen)"
proof -
  obtain m d i op authority where a: "member = (m, d, i, op, authority)" by (cases member)
  have r: "returns (tryE (plan_again sha rv ch member secret))
      (\<lambda>x. \<forall>r q. x = Inr r \<and> pr_compliance r = Some q \<longrightarrow> cr_device_identity q = child_identity c)"
    using returns_planned_device [of sha rv ch m d i op authority secret] assms
    by (auto simp: returns_def tryE_def a split: prod.splits) (metis fst_conv)
  show ?thesis
    unfolding final_child_def prod.case
  proof (rule returns_seq [OF r], goal_cases)
    case (1 x)
    have "proved_child sha cd c seen"
      if p: "(case x of Inl e \<Rightarrow> Inl (OBSERVATION, e) | Inr x \<Rightarrow> proved_desired sha cd c x) = Inr seen" for seen
    proof -
      obtain planned where x: "x = Inr planned" using p by (cases x) auto
      with p have q: "pr_compliance planned = Some seen" "profiled_compliance_valid sha seen = Inr ()"
        "\<exists>approved. child_result_of sha cd c = Inr approved
           \<and> cr_desired_description seen = rf_desired_description (facts_of approved)"
        by (auto simp: proved_desired_def bindS_Inr_iff split: sum.splits option.splits if_splits)
      then show ?thesis
        unfolding proved_child_def using 1 [rule_format, of planned seen] x by blast
    qed
    then show ?case by simp
  qed
qed

lemma returns_final_observations:
  assumes "list_all (\<lambda>(c, member, _). dv_device_identity (fst (snd member)) = child_identity c) xs"
  shows "returns (final_observations sha cd rv ch xs)
     (\<lambda>(obs, stop). list_all2 (proved_child sha cd) (take (length obs) (map fst xs)) obs
        \<and> (stop = None \<longrightarrow> length obs = length xs))"
  using assms
proof (induction xs)
  case (Cons x xs)
  obtain c member secret where x: "x = (c, member, secret)" by (cases x)
  with Cons.prems have d: "dv_device_identity (fst (snd member)) = child_identity c" by simp
  show ?case
    unfolding final_observations.simps x
  proof (rule returns_seq [OF returns_final_child [OF d]], goal_cases)
    case (1 q)
    show ?case
    proof (cases q)
      case (Inr seen)
      have "returns (final_observations sha cd rv ch xs)
          (\<lambda>(obs, stop). list_all2 (proved_child sha cd) (take (length obs) (map fst xs)) obs
            \<and> (stop = None \<longrightarrow> length obs = length xs))"
        by (rule Cons.IH) (use Cons.prems in simp)
      then show ?thesis
        unfolding Inr sum.case
        by (rule returns_seq) (use 1 Inr in auto)
    qed simp
  qed
qed simp

section \<open>The final validation\<close>

lemma returns_mapE:
  assumes "\<And>x. x \<in> set xs \<Longrightarrow> returns (f x) (P x)"
  shows "returns (mapE f xs) (list_all2 P xs)"
  using assms
proof (induction xs)
  case (Cons x xs)
  have "returns (mapE f xs) (list_all2 P xs)" using Cons by simp
  then show ?case
    unfolding mapE.simps
    by (intro returns_seq [OF Cons.prems]) (auto intro!: returns_seq)
qed simp

lemma returns_mapE_length: "returns (mapE f xs) (\<lambda>ys. length ys = length xs)"
  by (rule returns_conseq [OF returns_mapE [where P = "\<lambda>_ _. True"]])
    (auto simp: returns_def dest: list_all2_lengthD)

lemma members_devices:
  assumes "members_unchanged cs admitted"
  shows "list_all2 (\<lambda>c member. fst (snd member) = ch_device c) cs admitted"
  using assms by (auto simp: members_unchanged_def list_all2_iff split: prod.splits)

lemma zipped_devices:
  assumes "members_unchanged cs admitted" and "length secrets = length admitted"
  shows "list_all (\<lambda>(c, member, _). dv_device_identity (fst (snd member)) = child_identity c)
      (zip cs (zip admitted secrets))"
    and "length (zip cs (zip admitted secrets)) = length cs"
    and "map fst (zip cs (zip admitted secrets)) = cs"
proof -
  have l: "length admitted = length cs" using members_devices [OF assms(1)] by (simp add: list_all2_lengthD)
  show "list_all (\<lambda>(c, member, _). dv_device_identity (fst (snd member)) = child_identity c)
      (zip cs (zip admitted secrets))"
    using members_devices [OF assms(1)] assms(2) l
    by (auto simp: list_all_length list_all2_conv_all_nth child_identity_def)
  show "length (zip cs (zip admitted secrets)) = length cs" and "map fst (zip cs (zip admitted secrets)) = cs"
    using assms(2) l by simp_all
qed

definition proved_prefix ::
    "(string \<Rightarrow> string) \<Rightarrow> child_codec \<Rightarrow> rollout_child list
      \<Rightarrow> profiled_compliance_record list \<times> (final_failure \<times> exn) option \<Rightarrow> bool" where
  "proved_prefix sha cd cs = (\<lambda>(obs, stop).
     list_all2 (proved_child sha cd) (take (length obs) cs) obs \<and> (stop = None \<longrightarrow> length obs = length cs))"

lemma returns_failing:
  "returns m P \<Longrightarrow> returns (failing phase m) (\<lambda>q. \<forall>x. q = Inr x \<longrightarrow> P x)"
  unfolding failing_def
  by (rule returns_seq [where P = "\<lambda>r. \<forall>x. r = Inr x \<longrightarrow> P x"])
    (auto simp: returns_def tryE_def split_beta ret_def split: sum.splits)

lemma returns_final_evidence:
  "returns (final_evidence sha cd rv request r a pf) (proved_prefix sha cd (ro_children r))"
proof -
  have admission: "returns (final_admission rv request r a pf) (members_unchanged (ro_children r))"
    unfolding final_admission_def
    by (auto intro!: returns_bindE returns_lift split: prod.split simp: checks_ok)
  have credentials: "returns (final_credentials rv r admitted) (\<lambda>ss. length ss = length admitted)"
    if "members_unchanged (ro_children r) admitted" for admitted
  proof -
    have l: "length admitted = length (ro_children r)"
      using members_devices [OF that] by (simp add: list_all2_lengthD)
    show ?thesis
      unfolding final_credentials_def
    proof (rule returns_seq [OF returns_mapE_length], goal_cases)
      case (1 references)
      then show ?case using l by (intro returns_conseq [OF returns_mapE_length]) simp
    qed
  qed
  show ?thesis
    unfolding final_evidence_def
  proof (rule returns_seq [OF returns_failing [OF admission]], goal_cases)
    case (1 q)
    show ?case
    proof (cases q)
      case (Inr admitted)
      with 1 have m: "members_unchanged (ro_children r) admitted" by simp
      show ?thesis
        unfolding Inr sum.case
      proof (rule returns_seq [OF returns_failing [OF credentials [OF m]]], goal_cases)
        case (1 x)
        show ?case
        proof (cases x)
          case (Inr loaded)
          with 1 have l: "length loaded = length admitted" by simp
          note z = zipped_devices [OF m l]
          show ?thesis
            unfolding Inr sum.case proved_prefix_def
            using returns_final_observations [OF z(1)] by (simp only: z(2,3))
        qed (simp add: proved_prefix_def)
      qed
    qed (simp add: proved_prefix_def)
  qed
qed

text \<open>What a final validation says.\<close>

definition final_truth ::
    "(string \<Rightarrow> string) \<Rightarrow> child_codec \<Rightarrow> rollout_child list \<Rightarrow> final_validation \<Rightarrow> bool" where
  "final_truth sha cd cs v \<longleftrightarrow> final_validation_valid sha v = Inr ()
     \<and> list_all2 (proved_child sha cd) (take (length (fv_observations v)) cs) (fv_observations v)
     \<and> (fv_status v = PASSED) = (fv_failure v = None)
     \<and> (fv_status v = PASSED \<longrightarrow> list_all2 (proved_child sha cd) cs (fv_observations v))"

lemma returns_final:
  "returns (validate_rollout_final_state sha cd rv request r a pf) (final_truth sha cd (ro_children r))"
  unfolding validate_rollout_final_state_def
proof (rule returns_seq [OF returns_final_evidence], goal_cases)
  case (1 q)
  obtain obs stop where q: "q = (obs, stop)" by (cases q)
  have "final_record sha r a pf obs f = Inr v \<Longrightarrow> final_validation_valid sha v = Inr ()
      \<and> fv_observations v = obs \<and> (fv_status v = PASSED) = (f = None) \<and> fv_failure v = f" for f v
    by (auto simp: final_record_def bindS_Inr_iff Let_def split: if_splits)
  with 1 q show ?case
    by (fastforce simp: final_truth_def proved_prefix_def split: option.split)
qed

text \<open>Its record is never rejected: the observations are those of a prefix of the children.\<close>

lemma final_record_accepted:
  assumes h: "hex_digest sha" and v: "rollout_parent_valid sha cd r = Inr u"
    and "sha256_pattern (ra_digest a)" and "sha256_pattern (pf_digest pf)"
    and p: "proved_prefix sha cd (ro_children r) (obs, stop)"
    and f: "(f = None) = (stop = None)"
  shows "\<exists>w. final_record sha r a pf obs f = Inr w \<and> sha256_pattern (fv_digest w)"
proof -
  define V where "V = \<lparr>fv_parent_digest = ro_digest r, fv_authorization_digest = ra_digest a,
          fv_preflight_digest = pf_digest pf, fv_selected_devices = map child_identity (ro_children r),
          fv_observations = obs, fv_status = (if f = None then PASSED else FAILED),
          fv_failure = f, fv_digest = ''''\<rparr>"
  define W where "W = V\<lparr>fv_digest := final_validation_digest sha V\<rparr>"
  obtain ms where ms: "parent_represents sha cd r ms" by (rule rollout_parent_members [OF v])
  from v have parent: "sha256_pattern (ro_digest r)" "ro_children r \<noteq> []"
    "length (ro_children r) \<le> MAX_MEMBERS"
    and kids: "mapS (rollout_child_valid sha cd) (ro_children r) \<in> range Inr"
    by (auto simp: rollout_parent_valid_def bindS_Inr_iff)
  have "list_all promoted_child_valid (map promoted_child_of (ro_children r))"
    using kids child_promotes [of sha cd]
    by (fastforce simp: mapS_Inr_iff list_all2_conv_all_nth list_all_length)
  then have ids: "list_all (netbox_identity ''dcim.device'') (map child_identity (ro_children r))"
    by (simp add: list_all_iff promoted_child_valid_def promoted_child_of_def)
  have dg: "final_validation_digest sha W = final_validation_digest sha V" "sha256_pattern (fv_digest W)"
    using sha256_identity_pattern [OF h]
    by (simp_all add: W_def final_validation_digest_def)
  have ob: "list_all2 (proved_child sha cd) (take (length obs) (ro_children r)) obs"
    using p by (simp add: proved_prefix_def)
  then have valid: "mapS (profiled_compliance_valid sha) obs = Inr (map (\<lambda>_. ()) obs)"
    by (intro mapS_total) (auto simp: list_all2_conv_all_nth in_set_conv_nth proved_child_def)
  from ob have len: "length obs \<le> length (ro_children r)" by (auto dest!: list_all2_lengthD)
  from ob have seen: "map cr_device_identity obs = take (length obs) (map child_identity (ro_children r))"
    by (auto simp: list_all2_conv_all_nth proved_child_def intro!: nth_equalityI)
  have passed: "map cr_device_identity obs = map child_identity (ro_children r)" if "f = None"
    using seen p f that by (simp add: proved_prefix_def)
  have "final_validation_valid sha W = Inr ()"
    using parent ids assms(3,4) dg valid len seen passed ms
    by (simp add: final_validation_valid_def W_def V_def parent_represents_def)
  then show ?thesis
    using dg(2) by (auto simp: final_record_def Let_def V_def [symmetric] W_def [symmetric])
qed

lemma fails_only_final_observations: "fails_only P (final_observations sha cd rv ch xs)"
proof (induction xs)
  case (Cons x xs)
  obtain c member secret where "x = (c, member, secret)" by (cases x)
  with Cons show ?case
    by (auto simp: final_child_def intro!: fails_only_seq split: sum.split)
qed simp

lemma fails_only_final_evidence: "fails_only P (final_evidence sha cd rv request r a pf)"
  unfolding final_evidence_def failing_def
  by (auto intro!: fails_only_seq fails_only_final_observations split: sum.split)

lemma fails_only_final:
  assumes "hex_digest sha" and "rollout_parent_valid sha cd r = Inr u"
    and "sha256_pattern (ra_digest a)" and "sha256_pattern (pf_digest pf)"
  shows "fails_only (\<lambda>e. \<not> is_exception e) (validate_rollout_final_state sha cd rv request r a pf)"
  unfolding validate_rollout_final_state_def
proof (rule fails_only_bindE [OF fails_only_final_evidence returns_final_evidence], goal_cases)
  case (1 q)
  obtain obs stop where q: "q = (obs, stop)" by (cases q)
  show ?case
  proof (cases stop)
    case None
    then show ?thesis
      using final_record_accepted [OF assms 1 [unfolded q], of None] by (auto simp: q)
  next
    case (Some pe)
    obtain phase e where pe: "pe = (phase, e)" by (cases pe)
    show ?thesis
      using final_record_accepted [OF assms 1 [unfolded q], of "Some phase"] by (auto simp: q Some pe)
  qed
qed

section \<open>The preflight\<close>

lemma returns_preflight:
  "returns (preflight_profiled_rollout sha rc decode rv inp a)
     (\<lambda>pf. rollout_preflight_valid sha pf = Inr ())"
  unfolding preflight_profiled_rollout_def
  by (auto intro!: returns_lift returns_bindE split: prod.split
      simp: passed_preflight_def Let_def bindS_Inr_iff)

end
