(* ===== verification/Rollout_Report.thy ===== *)
theory Rollout_Report
  imports Rollout_Audit_Laws Rollout_Validation_Laws
begin

text \<open>
  No run of a reserved rollout is lost: whatever the devices, the inventory, the observer and the
  file system answer, a rollout that was approved ends in a published parent record, unless
  publication itself or an exception outside \<^verbatim>\<open>Exception\<close> prevents it.
\<close>

section \<open>The approved bytes are readable\<close>

lemma approved_children:
  assumes "approved s ap" and "c \<in> set (ro_children (ap_parent ap))"
  shows "rollout_child_valid (rs_sha s) (rc_child (rs_codec s)) c = Inr ()"
proof -
  from assms(1) have "rollout_parent_valid (rs_sha s) (rc_child (rs_codec s)) (ap_parent ap) = Inr ()"
    by (simp add: approved_def authorizes_def)
  then have "mapS (rollout_child_valid (rs_sha s) (rc_child (rs_codec s))) (ro_children (ap_parent ap))
      \<in> range Inr"
    by (auto simp: rollout_parent_valid_def bindS_Inr_iff)
  with assms(2) show ?thesis by (auto simp: mapS_Inr_iff list_all2_conv_all_nth in_set_conv_nth)
qed

lemma approved_plan_readable:
  assumes a: "approved s ap" and d: "d \<in> set (deployable_devices ap)"
    and u: "distinct (map child_identity (ro_children (ap_parent ap)))"
  shows "\<exists>c p. approved_plan (rs_sha s) (rc_child (rs_codec s)) (ro_children (ap_parent ap)) d = Inr (c, p)
    \<and> profiled_plan_valid (rs_sha s) p = Inr () \<and> child_result_of (rs_sha s) (rc_child (rs_codec s)) c
        = Inr (Plan_Result p)"
proof -
  from d obtain c where c: "c \<in> set (ro_children (ap_parent ap))" "ch_kind c = DEPLOYABLE"
    "child_identity c = d" by (auto simp: deployables_def)
  have get: "dict_get (map (\<lambda>c. (child_identity c, c)) (ro_children (ap_parent ap))) d = Some c"
    using dict_get_map [OF u c(1)] c(3) by simp
  obtain r where r: "child_result_of (rs_sha s) (rc_child (rs_codec s)) c = Inr r"
    using approved_children [OF a c(1)] by (auto simp: rollout_child_valid_def bindS_Inr_iff)
  then have k: "kind_of_result r = DEPLOYABLE" and v: "result_valid (rs_sha s) r = Inr ()"
    and dec: "cd_decode (rc_child (rs_codec s)) DEPLOYABLE (ch_artifact_json c) = Inr r"
    and dig: "sha256_identity (rs_sha s) (ch_artifact_json c) = ch_artifact_digest c"
      "rf_digest (facts_of r) = ch_result_digest c"
    using c(2) by (auto simp: child_result_of_def bindS_Inr_iff)
  from k obtain p where p: "r = Plan_Result p" by (cases r) auto
  have "approved_plan (rs_sha s) (rc_child (rs_codec s)) (ro_children (ap_parent ap)) d = Inr (c, p)"
    using get r dec v dig by (simp add: approved_plan_def p)
  with v r show ?thesis by (auto simp: p)
qed

section \<open>What escapes a run\<close>

abbreviation fatal_only :: "('s, exn, 'a) eff \<Rightarrow> bool" where
  "fatal_only \<equiv> fails_only (\<lambda>e. \<not> is_exception e)"

lemma fatal_handled [simp]: "fatal_only (attempt_any m)"
  by (rule fails_only_handled)

lemma fatal_record_child: "fatal_only (record_child s w ap pf c cohort index n pre post execution g)"
  unfolding record_child_def Let_def
  by (auto intro!: fails_only_seq split: option.split)

lemma fatal_capture_post: "fatal_only (capture_post s w p name pre)"
  unfolding capture_post_def by (auto intro!: fails_only_seq split: option.split)

lemma fatal_step:
  assumes "approved_plan (rs_sha s) (rc_child (rs_codec s)) (ro_children (ap_parent ap)) (fst x) = Inr cp"
  shows "fatal_only (rollout_step s w ap pf n x g)"
  unfolding rollout_step_def Let_def
  using assms fatal_record_child fatal_capture_post
  by (cases x; cases cp) (auto intro!: fails_only_seq split: option.split)

lemma fatal_loop:
  assumes "\<And>x. x \<in> set xs \<Longrightarrow>
    \<exists>cp. approved_plan (rs_sha s) (rc_child (rs_codec s)) (ro_children (ap_parent ap)) (fst x) = Inr cp"
  shows "fatal_only (rollout_loop s w ap pf n xs g)"
  using assms
proof (induction xs arbitrary: n g)
  case (Cons x xs)
  obtain cp where
    "approved_plan (rs_sha s) (rc_child (rs_codec s)) (ro_children (ap_parent ap)) (fst x) = Inr cp"
    using Cons.prems [of x] by auto
  then show ?case using Cons by (auto intro!: fails_only_seq fatal_step)
qed simp

lemma fatal_preflight_stage: "fatal_only (preflight_stage s w ap)"
  unfolding preflight_stage_def by (auto intro!: fails_only_seq split: option.split)

text \<open>What the preflight stage leaves.\<close>

definition preflight_left :: "rollout_preflight option \<times> stopping_reason option \<Rightarrow> bool" where
  "preflight_left = (\<lambda>(pf, reason). reason \<in> {None, Some PREFLIGHT}
     \<and> (case pf of None \<Rightarrow> reason = Some PREFLIGHT | Some p \<Rightarrow> sha256_pattern (pf_digest p)))"

lemma returns_preflight_stage: "returns (preflight_stage s w ap) preflight_left"
  unfolding preflight_stage_def
proof (rule returns_seq [OF returns_handled [OF returns_preflight]], goal_cases)
  case (1 checked)
  then show ?case
    by (cases checked)
      (auto simp: preflight_left_def rollout_preflight_valid_def intro!: returns_bindE)
qed

lemma final_stage_ends:
  assumes h: "hex_digest (rs_sha s)" and a: "approved s ap" and pf: "sha256_pattern (pf_digest p)"
    and g: "sound_progress s order g" "pg_reason g = None" "pg_attempted g = order"
  shows "fatal_only (final_stage s w ap p g)"
    and "returns (final_stage s w ap p g) (\<lambda>(final, g'). finally_checked s order g' final)"
proof -
  have v: "rollout_parent_valid (rs_sha s) (rc_child (rs_codec s)) (ap_parent ap) = Inr ()"
    and "sha256_pattern (ra_digest (ap_authorization ap))"
    using a by (auto simp: approved_def authorizes_def authorization_valid_def bindS_Inr_iff)
  note fatal = fails_only_final [OF h v this(2) pf]
  show "fatal_only (final_stage s w ap p g)"
    unfolding final_stage_def by (intro fails_only_seq fatal fatal_handled) simp
  show "returns (final_stage s w ap p g) (\<lambda>(final, g'). finally_checked s order g' final)"
    unfolding final_stage_def
  proof (rule returns_seq [OF returns_final], rule returns_bindE, goal_cases)
    case (1 final stored)
    then have "sha256_pattern (fv_digest final)"
      by (auto simp: final_truth_def final_validation_valid_def bindS_Inr_iff Let_def)
    with g show ?case
      by (auto simp: finally_checked_def intro!: exI [of _ g] split: option.split)
  qed
qed

section \<open>Publication\<close>

text \<open>The identities of the build a record must carry: a positive build number, and pipeline and
  unblocker identities that parse as UUIDs. Nothing checks them before the run.\<close>

definition identified :: "rollout_setup \<Rightarrow> approval \<Rightarrow> bool" where
  "identified s ap \<longleftrightarrow> rs_build_number s > 0 \<and> ok (rs_uuid s (rs_pipeline_id s))
     \<and> ok (rs_uuid s (ra_unblocker_id (ap_authorization ap)))"

text \<open>The three ways in which a run leaves no record: an exception outside \<open>Exception\<close>, the store
  refused the record, in the last call of the run, or the build is not identified. Otherwise the
  record returned is valid and the last call stored it.\<close>

definition published :: "rollout_setup \<Rightarrow> approval \<Rightarrow> rollout_audit res \<Rightarrow> revent list \<Rightarrow> bool" where
  "published s ap q u \<longleftrightarrow> (case q of
     Inl e \<Rightarrow> \<not> is_exception e
       \<or> (\<exists>v i d. u = v @ [rollout_call (EvStore (Persist_Record i d) (Inl e))])
       \<or> \<not> identified s ap
   | Inr R \<Rightarrow> rollout_audit_valid (rs_sha s) (rs_uuid5 s) R = Inr ()
       \<and> (\<exists>v path. u = v @ [rollout_call (EvStore (Persist_Record (au_record_id R) (au_digest R)) (Inr path))]))"

definition publishes :: "rollout_setup \<Rightarrow> approval \<Rightarrow> rollout_audit rio \<Rightarrow> bool" where
  "publishes s ap m \<longleftrightarrow> (\<forall>t. published s ap (fst (m t)) (snd (m t)))"

lemma publishes_bindE:
  assumes m: "fatal_only m" and q: "returns m Q" and f: "\<And>x. Q x \<Longrightarrow> publishes s ap (f x)"
  shows "publishes s ap (bindE m f)"
  unfolding publishes_def
proof
  fix t
  obtain r t' where mt: "m t = (r, t')" by fastforce
  show "published s ap (fst (bindE m f t)) (snd (bindE m f t))"
  proof (cases r)
    case (Inl e)
    with m mt have "\<not> is_exception e" unfolding fails_only_def by (metis fst_conv)
    with mt Inl show ?thesis by (simp add: bindE_def published_def)
  next
    case (Inr x)
    with mt q have "Q x" unfolding returns_def by (metis fst_conv)
    from f [OF this] mt Inr show ?thesis by (simp add: publishes_def bindE_def)
  qed
qed

text \<open>What the run relies on of the standard library: SHA-256 printing 64 hexadecimal digits, an aware
  clock (\<^verbatim>\<open>datetime.now(UTC)\<close>), and \<open>uuid5\<close> telling the devices of the run apart; and the approval
  \<^verbatim>\<open>execute_rollout\<close> checked before.\<close>

definition reportable :: "rollout_setup \<Rightarrow> rollout_world \<Rightarrow> approval \<Rightarrow> bool" where
  "reportable s w ap \<longleftrightarrow> approved s ap \<and> hex_digest (rs_sha s)
     \<and> (\<forall>t. dt_offset (rw_now w t) \<noteq> None) \<and> distinct_records s (deployable_devices ap)"

lemma distinct_records_order:
  "distinct_records s ds \<Longrightarrow> set order = set ds \<Longrightarrow> distinct order \<Longrightarrow> distinct_records s order"
  by (auto simp: distinct_records_def distinct_map)

lemma unidentified_fails:
  assumes "\<not> identified s ap"
  shows "\<exists>e h. publish_record s w ap pf canaries waves g final t = (Inl e, h)"
proof (cases "ok (rs_uuid s (rs_pipeline_id s)) \<and> ok (rs_uuid s (ra_unblocker_id (ap_authorization ap)))")
  case False
  then show ?thesis
    by (auto simp: publish_record_def bindE_def liftE_def ok_Inr split: sum.split)
next
  case True
  with assms have "rs_build_number s \<le> 0" by (simp add: identified_def)
  then have "rollout_audit_signed (rs_sha s) (rs_uuid5 s) (rollout_audit_of s ap pipeline
      unblocker time pf canaries waves g final) \<noteq> Inr R" for pipeline unblocker time R
    by (simp add: rollout_audit_signed_def rollout_audit_valid_def rollout_audit_fields_valid_def
        rollout_audit_of_def Let_def)
  with True show ?thesis
    by (auto simp: publish_record_def bindE_def liftE_def ok_Inr split: sum.split)
qed

lemma publishes_record:
  assumes r: "reportable s w ap" and c: "ro_cohorts (ap_parent ap) = Some (canaries, waves)"
    and e: "run_ended s (canaries @ concat waves) pf g final"
  shows "publishes s ap (publish_record s w ap pf canaries waves g final)"
proof (cases "identified s ap")
  case False
  show ?thesis
    unfolding publishes_def
  proof
    fix t
    obtain e h where "publish_record s w ap pf canaries waves g final t = (Inl e, h)"
      using unidentified_fails [OF False] by blast
    with False show "published s ap (fst (publish_record s w ap pf canaries waves g final t))
        (snd (publish_record s w ap pf canaries waves g final t))"
      by (simp add: published_def)
  qed
next
  case True
  then have n: "rs_build_number s > 0" by (simp add: identified_def)
  from r have a: "approved s ap" and h: "hex_digest (rs_sha s)"
    and time: "\<And>t. dt_offset (rw_now w t) \<noteq> None"
    by (simp_all add: reportable_def)
  note co = approved_cohorts [OF a c]
  have u: "distinct_records s (canaries @ concat waves)"
    by (rule distinct_records_order [OF _ co(2,1)]) (use r in \<open>simp only: reportable_def\<close>)
  obtain pipeline unblocker where ids: "rs_uuid s (rs_pipeline_id s) = Inr pipeline"
    "rs_uuid s (ra_unblocker_id (ap_authorization ap)) = Inr unblocker"
    using True by (auto simp: identified_def ok_Inr)
  show ?thesis
    unfolding publishes_def
  proof
    fix t
    obtain R where R: "rollout_audit_signed (rs_sha s) (rs_uuid5 s) (rollout_audit_of s ap pipeline
        unblocker (rw_now w t) pf canaries waves g final) = Inr R"
      "rollout_audit_valid (rs_sha s) (rs_uuid5 s) R = Inr ()"
      using ended_record_accepted [OF e a c n u time h] by blast
    then show "published s ap (fst (publish_record s w ap pf canaries waves g final t))
        (snd (publish_record s w ap pf canaries waves g final t))"
      by (simp only: publish_record_def bindE_def liftE_def ids store_def askE_def ret_def published_def
          prod.case sum.case fst_conv snd_conv split: sum.split) auto
  qed
qed

text \<open>A reserved rollout always ends in a published record.\<close>

lemma reserved_publishes:
  assumes r: "reportable s w ap" and c: "ro_cohorts (ap_parent ap) = Some (canaries, waves)"
  shows "publishes s ap (reserved_rollout s w ap)"
proof -
  from r have a: "approved s ap" and h: "hex_digest (rs_sha s)" by (simp_all add: reportable_def)
  note co = approved_cohorts [OF a c]
  let ?order = "canaries @ concat waves"
  have readable: "\<exists>cp. approved_plan (rs_sha s) (rc_child (rs_codec s)) (ro_children (ap_parent ap)) (fst x)
      = Inr cp" if "x \<in> set (cohort_list canaries waves)" for x
  proof -
    have "fst x \<in> set ?order"
      using that unfolding cohort_order [of canaries waves, symmetric] by simp
    then show ?thesis using approved_plan_readable [OF a _ co(3)] co(2) by blast
  qed
  show ?thesis
    unfolding reserved_rollout_def
  proof (rule publishes_bindE [OF fatal_preflight_stage returns_preflight_stage], goal_cases)
    case (1 x)
    obtain pf reason where x: "x = (pf, reason)" by (cases x)
    show ?case
    proof (cases "\<exists>p. pf = Some p \<and> reason = None")
      case False
      with 1 x have "reason = Some PREFLIGHT" by (auto simp: preflight_left_def split: option.splits)
      moreover have "run_ended s ?order pf (no_progress reason) None"
        using 1 x calculation
        by (auto simp: preflight_left_def run_ended_def preflight_stopped_def split: option.splits)
      ultimately show ?thesis
        using publishes_record [OF r c] by (cases pf) (simp_all add: x c)
    next
      case True
      then obtain p where p: "pf = Some p" "reason = None" by blast
      with 1 x have pd: "sha256_pattern (pf_digest p)" by (simp add: preflight_left_def)
      have "publishes s ap (bindE (rollout_loop s w ap p 0 (cohort_list canaries waves) (no_progress None)) (\<lambda>g.
          if pg_reason g = None
          then bindE (final_stage s w ap p g) (\<lambda>(final, g). publish_record s w ap pf canaries waves g final)
          else publish_record s w ap pf canaries waves g None))"
      proof (rule publishes_bindE [OF fatal_loop returns_rollout_loop], fact readable, goal_cases)
        case (1 g)
        show ?case
        proof (cases "pg_reason g = None")
          case True
          note fs = final_stage_ends [OF h a pd, where g = g and order = ?order and w = w]
          have "publishes s ap (bindE (final_stage s w ap p g)
              (\<lambda>(final, g). publish_record s w ap pf canaries waves g final))"
          proof (rule publishes_bindE [OF fs(1) fs(2)], goal_cases)
            case (7 q)
            then show ?case
              using publishes_record [OF r c] pd by (auto simp: run_ended_def p split: prod.split)
          qed (use 1 True in auto)
          with True show ?thesis by simp
        next
          case False
          with 1 pd have "run_ended s ?order pf g None" by (auto simp: run_ended_def p)
          from publishes_record [OF r c this] False show ?thesis by (simp only: if_False)
        qed
      qed
      then show ?thesis by (simp add: x c p cong: if_cong)
    qed
  qed
qed

end
