(* ===== verification/Rollout_Sequence.thy ===== *)
theory Rollout_Sequence
  imports Rollout_Report Execution_Properties
begin

text \<open>
  The order of a rollout: devices are written one after the other, in the frozen order, each by one
  run of the child executor on its approved plan, and only after the run before it succeeded.
\<close>

abbreviation child_run ::
    "rollout_setup \<Rightarrow> rollout_world \<Rightarrow> profiled_deployment_plan \<Rightarrow> revent list
      \<Rightarrow> (execution_error + profiled_change_record) \<times> revent list" where
  "child_run s w p t \<equiv>
     execute_profiled_plan (rs_sha s) (rv_member (rw_rollout w)) (rw_writer w) p (pp_digest p) t"

abbreviation child_log ::
    "rollout_setup \<Rightarrow> rollout_world \<Rightarrow> profiled_deployment_plan \<Rightarrow> revent list \<Rightarrow> revent list" where
  "child_log s w p t \<equiv>
     execution_log (rs_sha s) (rv_member (rw_rollout w)) (rw_writer w) p (pp_digest p) t"

definition child_succeeds ::
    "rollout_setup \<Rightarrow> rollout_world \<Rightarrow> profiled_deployment_plan \<Rightarrow> revent list \<Rightarrow> bool" where
  "child_succeeds s w p t \<longleftrightarrow> (\<exists>r. fst (child_run s w p t) = Inr r
     \<and> verify_profiled_record_plan (rs_sha s) r p = Inr () \<and> xr_final_outcome r = SUCCEEDED)"

text \<open>From history \<open>t\<close> the events \<open>v\<close> are one run of the executor on \<open>p\<close>, between quiet events.\<close>

definition executes ::
    "rollout_setup \<Rightarrow> rollout_world \<Rightarrow> profiled_deployment_plan \<Rightarrow> revent list \<Rightarrow> revent list \<Rightarrow> bool \<Rightarrow> bool" where
  "executes s w p t v success \<longleftrightarrow> (\<exists>a b. v = a @ child_log s w p (t @ a) @ b
     \<and> list_all quiet a \<and> list_all quiet b \<and> success = child_succeeds s w p (t @ a))"

text \<open>\<open>in_sequence s w ps t u m k\<close>: from \<open>t\<close>, the events \<open>u\<close> run the plans \<open>ps\<close> in their order; \<open>m\<close>
  plans were entered and the first \<open>k\<close> of them succeeded.\<close>

inductive in_sequence ::
    "rollout_setup \<Rightarrow> rollout_world \<Rightarrow> profiled_deployment_plan list \<Rightarrow> revent list \<Rightarrow> revent list
      \<Rightarrow> nat \<Rightarrow> nat \<Rightarrow> bool" for s w where
  not_entered: "list_all quiet u \<Longrightarrow> in_sequence s w ps t u 0 0"
| no_writer: "list_all quiet u \<Longrightarrow> in_sequence s w (p # ps) t u (Suc 0) 0"
| unsuccessful: "executes s w p t u False \<Longrightarrow> in_sequence s w (p # ps) t u (Suc 0) 0"
| succeeded: "executes s w p t v True \<Longrightarrow> in_sequence s w ps (t @ v) u m k
    \<Longrightarrow> in_sequence s w (p # ps) t (v @ u) (Suc m) (Suc k)"

inductive_cases in_sequence_NilE: "in_sequence s w [] t u m k"
inductive_cases in_sequence_ConsE: "in_sequence s w (p # ps) t u m k"

lemma in_sequence_counts: "in_sequence s w ps t u m k \<Longrightarrow> k \<le> m \<and> m \<le> Suc k \<and> m \<le> length ps"
  by (induction rule: in_sequence.induct) auto

lemma in_sequence_quiet:
  assumes "in_sequence s w ps t u m k" and "list_all quiet b"
  shows "in_sequence s w ps t (u @ b) m k"
  using assms
proof (induction rule: in_sequence.induct)
  case (unsuccessful p t u ps)
  then obtain a c where "u = a @ child_log s w p (t @ a) @ c" "list_all quiet a" "list_all quiet c"
    "\<not> child_succeeds s w p (t @ a)" by (auto simp: executes_def)
  then have "executes s w p t (u @ b) False"
    unfolding executes_def using unsuccessful.prems by (intro exI [of _ a] exI [of _ "c @ b"]) simp
  then show ?case by (rule in_sequence.unsuccessful)
qed (auto intro: in_sequence.intros)

section \<open>The run of one child\<close>

lemma bind_run:
  assumes "snd (m t) = t @ a"
  shows "bindE m f t = (case fst (m t) of Inl e \<Rightarrow> (Inl e, t @ a) | Inr x \<Rightarrow> f x (t @ a))"
  using assms by (cases "m t") (simp add: bindE_def)

lemma bind_lift [simp]: "bindE (liftE (Inr x)) f = f x"
  by (simp add: bindE_def liftE_def)

lemma child_run_log: "snd (child_run s w p t) = t @ child_log s w p t"
  using emitsD [OF emits_execute] execution_log_eq by metis

lemma execute_child_run:
  "\<exists>v. snd (execute_child s w p t) = t @ v
     \<and> (list_all quiet v \<and> (\<exists>e. fst (execute_child s w p t) = Inl e)
        \<or> (\<exists>a. list_all quiet a \<and> v = a @ child_log s w p (t @ a)
             \<and> (child_succeeds s w p (t @ a)
                  \<longleftrightarrow> (\<exists>r. fst (execute_child s w p t) = Inr r \<and> xr_final_outcome r = SUCCEEDED))))"
proof -
  obtain a where a: "snd (make_writer w t) = t @ a" "list_all quiet a"
    using emitsD [OF emits_world(5)] by blast
  show ?thesis
  proof (cases "fst (make_writer w t)")
    case (Inl e)
    with a show ?thesis by (simp add: execute_child_def bind_run [of "make_writer w" t a, OF a(1)])
  next
    case (Inr x)
    obtain q h where q: "child_run s w p (t @ a) = (q, h)" by fastforce
    with child_run_log [of s w p "t @ a"] have h: "h = (t @ a) @ child_log s w p (t @ a)" by simp
    have "snd (execute_child s w p t) = t @ a @ child_log s w p (t @ a)
      \<and> (child_succeeds s w p (t @ a)
          \<longleftrightarrow> (\<exists>r. fst (execute_child s w p t) = Inr r \<and> xr_final_outcome r = SUCCEEDED))"
      by (simp add: execute_child_def bind_run [of "make_writer w" t a, OF a(1)] Inr child_succeeds_def q)
        (auto simp: bindE_def as_rio_def q h liftE_def ret_def split: sum.split execution_error.split)
    with a(2) show ?thesis by blast
  qed
qed

lemma returns_kept:
  "returns (record_child s w ap pf c cohort index n pre post execution g) (kept g)"
  unfolding record_child_def Let_def
  by (auto intro!: returns_bindE split: option.split)

definition one_step ::
    "rollout_setup \<Rightarrow> rollout_world \<Rightarrow> profiled_deployment_plan \<Rightarrow> revent list \<Rightarrow> revent list \<Rightarrow> nat \<Rightarrow> nat \<Rightarrow> bool" where
  "one_step s w p t u m k \<longleftrightarrow> m = 0 \<and> k = 0 \<and> list_all quiet u
     \<or> m = 1 \<and> k = 0 \<and> (list_all quiet u \<or> executes s w p t u False)
     \<or> m = 1 \<and> k = 1 \<and> executes s w p t u True"

definition counted :: "string \<Rightarrow> progress \<Rightarrow> nat \<Rightarrow> nat \<Rightarrow> progress res \<Rightarrow> bool" where
  "counted d g m k q \<longleftrightarrow> (\<forall>g'. q = Inr g' \<longrightarrow> pg_attempted g' = pg_attempted g @ replicate m d
     \<and> pg_successful g' = pg_successful g @ replicate k d
     \<and> (pg_reason g' = None \<longrightarrow> m = 1 \<and> k = 1))"

lemma one_step_quiet:
  assumes "one_step s w p t u m k" and "list_all quiet b"
  shows "one_step s w p t (u @ b) m k"
proof -
  have "executes s w p t (u @ b) q" if e: "executes s w p t u q" for q
  proof -
    obtain a c where "u = a @ child_log s w p (t @ a) @ c" "list_all quiet a" "list_all quiet c"
      "q = child_succeeds s w p (t @ a)" using e by (auto simp: executes_def)
    then show ?thesis
      unfolding executes_def using assms(2) by (intro exI [of _ a] exI [of _ "c @ b"]) simp
  qed
  with assms show ?thesis by (auto simp: one_step_def)
qed

lemma executes_after:
  assumes "list_all quiet a" and "list_all quiet b" and "v = b @ child_log s w p ((t @ a) @ b)"
    and "q = child_succeeds s w p ((t @ a) @ b)"
  shows "executes s w p t (a @ v) q"
  unfolding executes_def using assms by (intro exI [of _ "a @ b"] exI [of _ "[]"]) simp

text \<open>A child once entered: what is recorded of it afterwards is quiet and keeps the counts.\<close>

lemma entered_step:
  assumes "one_step s w p t u (Suc 0) k"
    and "emits quiet m" and "returns m (kept g)"
    and "pg_attempted g = pg_attempted h @ [d]" and "pg_successful g = pg_successful h @ replicate k d"
    and "pg_reason g = None \<longrightarrow> k = 1"
  shows "\<exists>v. snd (m (t @ u)) = t @ u @ v \<and> one_step s w p t (u @ v) (Suc 0) k
    \<and> counted d h (Suc 0) k (fst (m (t @ u)))"
proof -
  obtain b where b: "snd (m (t @ u)) = (t @ u) @ b" "list_all quiet b"
    using emitsD [OF assms(2)] by blast
  have "counted d h (Suc 0) k (fst (m (t @ u)))"
    unfolding counted_def
  proof (intro allI impI)
    fix g' assume "fst (m (t @ u)) = Inr g'"
    with assms(3) have "kept g g'" by (simp add: returns_def)
    with assms(4-6) show "pg_attempted g' = pg_attempted h @ replicate (Suc 0) d
      \<and> pg_successful g' = pg_successful h @ replicate k d
      \<and> (pg_reason g' = None \<longrightarrow> Suc 0 = 1 \<and> k = 1)" by (simp add: kept_def)
  qed
  with b one_step_quiet [OF assms(1) b(2)] show ?thesis by (intro exI [of _ b]) simp
qed

lemma entered_run:
  assumes a: "list_all quiet a" "snd (attempt_any (execute_child s w p) (t @ a)) = (t @ a) @ v"
    and x: "fst (attempt_any (execute_child s w p) (t @ a)) = q"
  shows "\<exists>k. one_step s w p t (a @ v) (Suc 0) k \<and> k \<le> 1
    \<and> (k = 1 \<longleftrightarrow> (\<exists>r. q = Inr (Some r) \<and> xr_final_outcome r = SUCCEEDED))"
proof -
  have h: "snd (attempt_any (execute_child s w p) (t @ a)) = snd (execute_child s w p (t @ a))"
    "q = Inr (Some r) \<longleftrightarrow> fst (execute_child s w p (t @ a)) = Inr r" for r
    unfolding x [symmetric]
    by (auto simp: handled_def bindE_def tryE_def ret_def raise_def split: prod.split sum.split)
  obtain v' where v': "snd (execute_child s w p (t @ a)) = (t @ a) @ v'"
    "list_all quiet v' \<and> (\<exists>e. fst (execute_child s w p (t @ a)) = Inl e)
      \<or> (\<exists>b. list_all quiet b \<and> v' = b @ child_log s w p ((t @ a) @ b)
           \<and> (child_succeeds s w p ((t @ a) @ b)
                \<longleftrightarrow> (\<exists>r. fst (execute_child s w p (t @ a)) = Inr r \<and> xr_final_outcome r = SUCCEEDED)))"
    using execute_child_run [of s w p "t @ a"] by blast
  with h(1) a(2) have vv: "v' = v" by simp
  from v'(2) show ?thesis
  proof (elim disjE exE conjE)
    fix e assume "list_all quiet v'" "fst (execute_child s w p (t @ a)) = Inl e"
    with a(1) vv h(2) show ?thesis by (intro exI [of _ 0]) (simp add: one_step_def)
  next
    fix b assume b: "list_all quiet b" "v' = b @ child_log s w p ((t @ a) @ b)"
      and k: "child_succeeds s w p ((t @ a) @ b)
        \<longleftrightarrow> (\<exists>r. fst (execute_child s w p (t @ a)) = Inr r \<and> xr_final_outcome r = SUCCEEDED)"
    have e: "executes s w p t (a @ v) (child_succeeds s w p ((t @ a) @ b))"
      by (rule executes_after [OF a(1) b(1)]) (use b(2) vv in simp_all)
    show ?thesis
    proof (cases "child_succeeds s w p ((t @ a) @ b)")
      case True
      with e k h(2) show ?thesis by (intro exI [of _ 1]) (simp add: one_step_def)
    next
      case False
      with e have "one_step s w p t (a @ v) (Suc 0) 0" by (simp add: one_step_def)
      with False k h(2) show ?thesis by (intro exI [of _ 0]) auto
    qed
  qed
qed

lemma step_log:
  assumes ap: "approved_plan (rs_sha s) (rc_child (rs_codec s)) (ro_children (ap_parent ap)) (fst x) = Inr (c, p)"
    and g: "pg_reason g = None"
  shows "\<exists>u m k. snd (rollout_step s w ap pf n x g t) = t @ u \<and> one_step s w p t u m k
    \<and> counted (fst x) g m k (fst (rollout_step s w ap pf n x g t))"
proof -
  obtain d cohort i where x: "x = (d, cohort, i)" by (cases x)
  define name where "name = child_record_id (rs_uuid5 s) (run_id s) d"
  let ?pre = "attempt_any (capture_pre s w p (name @ ''-pre.json''))"
  define rest where "rest pre execution = bindE (capture_post s w p (name @ ''-post.json'') pre) (\<lambda>(post, failed).
      record_child s w ap pf c cohort i n pre post execution
        (if failed then evidence_failure d (entered d execution g) else entered d execution g))"
    for pre execution
  define run where "run captured = (case captured of
      None \<Rightarrow> ret (g\<lparr>pg_reason := Some PRE_CHRONOLOGY, pg_member := Some d\<rparr>)
    | Some pre \<Rightarrow> bindE (attempt_any (execute_child s w p)) (rest pre))" for captured
  have step: "rollout_step s w ap pf n x g = bindE ?pre run"
    using ap unfolding rollout_step_def x run_def rest_def name_def
    by (simp add: Let_def bind_lift)
  have kept: "returns (rest pre execution) (kept (entered d execution g))" for pre execution
    unfolding rest_def
  proof (rule returns_bindE)
    fix q :: "oxidized_observation option \<times> bool"
    obtain post failed where q: "q = (post, failed)" by (cases q)
    show "returns (case q of (post, failed) \<Rightarrow> record_child s w ap pf c cohort i n pre post execution
        (if failed then evidence_failure d (entered d execution g) else entered d execution g))
        (kept (entered d execution g))"
      unfolding q prod.case
      by (rule returns_conseq [OF returns_kept]) (auto simp: kept_def evidence_failure_def split: if_splits)
  qed
  have quiet_rest: "emits quiet (rest pre execution)" for pre execution
    unfolding rest_def by (auto intro!: emits_intros split: prod.split)
  obtain a where a: "snd (?pre t) = t @ a" "list_all quiet a"
    using emitsD [OF emits_handled [OF emits_evidence(2)]] by blast
  note pre_run = bind_run [of ?pre t a, OF a(1)]
  show ?thesis
  proof (cases "fst (?pre t)")
    case (Inl e)
    with a show ?thesis
      by (intro exI [of _ a] exI [of _ 0]) (simp add: step pre_run one_step_def counted_def)
  next
    case (Inr captured)
    show ?thesis
    proof (cases captured)
      case None
      with Inr a show ?thesis
        by (intro exI [of _ a] exI [of _ 0])
          (simp add: step pre_run run_def ret_def one_step_def counted_def)
    next
      case (Some pre)
      let ?exec = "attempt_any (execute_child s w p)"
      obtain v where v: "snd (?exec (t @ a)) = (t @ a) @ v"
        using emitsD [OF emits_handled [OF emits_execute_child]] by blast
      obtain k where k: "one_step s w p t (a @ v) (Suc 0) k" "k \<le> 1"
        "k = 1 \<longleftrightarrow> (\<exists>r. fst (?exec (t @ a)) = Inr (Some r) \<and> xr_final_outcome r = SUCCEEDED)"
        using entered_run [OF a(2) v refl] by blast
      have run: "rollout_step s w ap pf n x g t = bindE ?exec (rest pre) (t @ a)"
        by (simp add: step pre_run Inr Some run_def)
      show ?thesis
      proof (cases "fst (?exec (t @ a))")
        case (Inl e)
        with k show ?thesis
          by (intro exI [of _ "a @ v"] exI [of _ "Suc 0"] exI [of _ k])
            (simp add: run bind_run [of ?exec "t @ a" v, OF v] counted_def)
      next
        case (Inr execution)
        have "\<exists>b. snd (rest pre execution (t @ a @ v)) = t @ (a @ v) @ b
            \<and> one_step s w p t ((a @ v) @ b) (Suc 0) k
            \<and> counted d g (Suc 0) k (fst (rest pre execution (t @ a @ v)))"
          using k(2,3) Inr g
          by (intro entered_step [OF k(1) quiet_rest kept])
            (auto simp: entered_fields entered_def Let_def le_Suc_eq split: option.splits)
        moreover have "rollout_step s w ap pf n x g t = rest pre execution (t @ a @ v)"
          by (simp add: run bind_run [of ?exec "t @ a" v, OF v] Inr)
        moreover have "fst x = d" by (simp add: x)
        ultimately show ?thesis by (metis append_assoc)
      qed
    qed
  qed
qed

section \<open>The whole loop\<close>

lemma in_sequence_step:
  assumes "one_step s w p t u m k" and "\<not> (m = 1 \<and> k = 1)"
  shows "in_sequence s w (p # ps) t u m k"
  using assms by (auto simp: one_step_def intro: in_sequence.intros)

lemma loop_log:
  assumes "list_all2 (\<lambda>x p. \<exists>c. approved_plan (rs_sha s) (rc_child (rs_codec s))
      (ro_children (ap_parent ap)) (fst x) = Inr (c, p)) xs ps"
    and "pg_reason g = None"
  shows "\<exists>u m k. snd (rollout_loop s w ap pf n xs g t) = t @ u \<and> in_sequence s w ps t u m k
    \<and> (\<forall>g'. fst (rollout_loop s w ap pf n xs g t) = Inr g'
         \<longrightarrow> pg_attempted g' = pg_attempted g @ take m (map fst xs)
           \<and> pg_successful g' = pg_successful g @ take k (map fst xs))"
  using assms
proof (induction arbitrary: n g t rule: list_all2_induct)
  case Nil
  show ?case
    by (intro exI [of _ "[]"] exI [of _ 0]) (simp add: ret_def in_sequence.not_entered)
next
  case (Cons x xs p ps)
  obtain c where c: "approved_plan (rs_sha s) (rc_child (rs_codec s)) (ro_children (ap_parent ap)) (fst x)
      = Inr (c, p)" using Cons.hyps(1) by blast
  let ?step = "rollout_step s w ap pf n x g"
  obtain u m k where u: "snd (?step t) = t @ u" "one_step s w p t u m k" "counted (fst x) g m k (fst (?step t))"
    using step_log [OF c Cons.prems] by blast
  have loop: "rollout_loop s w ap pf n (x # xs) g t
      = (case fst (?step t) of Inl e \<Rightarrow> (Inl e, t @ u) | Inr g' \<Rightarrow> rollout_loop s w ap pf (Suc n) xs g' (t @ u))"
    using Cons.prems by (simp add: bind_run [of ?step t u, OF u(1)])
  have bounds: "m \<le> 1" "k \<le> 1" using u(2) by (auto simp: one_step_def)
  then have take: "take m (map fst (x # xs)) = replicate m (fst x)"
    "take k (map fst (x # xs)) = replicate k (fst x)" by (auto simp: le_Suc_eq)
  have done_here: ?case if "\<not> (m = 1 \<and> k = 1)"
    "snd (rollout_loop s w ap pf n (x # xs) g t) = t @ u"
    "\<And>g'. fst (rollout_loop s w ap pf n (x # xs) g t) = Inr g' \<Longrightarrow> fst (?step t) = Inr g'"
    using that in_sequence_step [OF u(2)] u(3) take unfolding counted_def by metis
  show ?case
  proof (cases "fst (?step t)")
    case (Inl e)
    show ?thesis
    proof (cases "m = 1 \<and> k = 1")
      case False
      with Inl loop show ?thesis by (intro done_here) simp_all
    next
      case True
      with u(2) have "executes s w p t u True" by (simp add: one_step_def)
      then have "in_sequence s w (p # ps) t (u @ []) (Suc 0) (Suc 0)"
        by (rule in_sequence.succeeded) (simp add: in_sequence.not_entered)
      with Inl loop show ?thesis by (intro exI [of _ u] exI [of _ "Suc 0"]) simp
    qed
  next
    case (Inr g')
    show ?thesis
    proof (cases "m = 1 \<and> k = 1")
      case False
      with u(3) Inr have "pg_reason g' \<noteq> None" by (auto simp: counted_def)
      then have "rollout_loop s w ap pf (Suc n) xs g' (t @ u) = (Inr g', t @ u)"
        by (cases xs) (simp_all add: ret_def)
      with False Inr loop show ?thesis by (intro done_here) simp_all
    next
      case True
      with u(2) have e: "executes s w p t u True" by (simp add: one_step_def)
      from True u(3) Inr have g': "pg_attempted g' = pg_attempted g @ [fst x]"
        "pg_successful g' = pg_successful g @ [fst x]" by (simp_all add: counted_def)
      show ?thesis
      proof (cases "pg_reason g'")
        case None
        obtain v m' k' where v: "snd (rollout_loop s w ap pf (Suc n) xs g' (t @ u)) = (t @ u) @ v"
          "in_sequence s w ps (t @ u) v m' k'"
          "\<forall>h. fst (rollout_loop s w ap pf (Suc n) xs g' (t @ u)) = Inr h
             \<longrightarrow> pg_attempted h = pg_attempted g' @ take m' (map fst xs)
               \<and> pg_successful h = pg_successful g' @ take k' (map fst xs)"
          using Cons.IH [OF None, of "Suc n" "t @ u"] by blast
        have seq: "in_sequence s w (p # ps) t (u @ v) (Suc m') (Suc k')"
          by (rule in_sequence.succeeded [OF e v(2)])
        have loop': "rollout_loop s w ap pf n (x # xs) g t = rollout_loop s w ap pf (Suc n) xs g' (t @ u)"
          unfolding loop Inr by simp
        show ?thesis
          unfolding loop' by (intro exI [of _ "u @ v"] exI [of _ "Suc m'"] exI [of _ "Suc k'"] conjI seq)
            (use v(1) in simp, use v(3) g' in \<open>simp only: list.map take_Suc_Cons append_Cons append_Nil
              append_assoc\<close>)
      next
        case (Some y)
        then have "rollout_loop s w ap pf (Suc n) xs g' (t @ u) = (Inr g', t @ u)"
          by (cases xs) (simp_all add: ret_def)
        moreover have "in_sequence s w (p # ps) t (u @ []) (Suc 0) (Suc 0)"
          by (rule in_sequence.succeeded [OF e]) (simp add: in_sequence.not_entered)
        ultimately show ?thesis
          using g' Inr loop by (intro exI [of _ u] exI [of _ "Suc 0"]) simp
      qed
    qed
  qed
qed

section \<open>The reserved rollout\<close>

definition approved_plans :: "rollout_setup \<Rightarrow> approval \<Rightarrow> string list \<Rightarrow> profiled_deployment_plan list \<Rightarrow> bool" where
  "approved_plans s ap order ps \<longleftrightarrow> list_all2 (\<lambda>d p. \<exists>c. approved_plan (rs_sha s) (rc_child (rs_codec s))
     (ro_children (ap_parent ap)) d = Inr (c, p)) order ps"

lemma approved_plans_exist:
  assumes a: "approved s ap" and c: "ro_cohorts (ap_parent ap) = Some (canaries, waves)"
  obtains ps where "approved_plans s ap (canaries @ concat waves) ps"
proof -
  note co = approved_cohorts [OF a c]
  have "\<forall>d \<in> set (canaries @ concat waves). \<exists>p c. approved_plan (rs_sha s) (rc_child (rs_codec s))
      (ro_children (ap_parent ap)) d = Inr (c, p)"
    using approved_plan_readable [OF a _ co(3)] co(2) by blast
  then obtain f where "\<forall>d \<in> set (canaries @ concat waves). \<exists>c. approved_plan (rs_sha s)
      (rc_child (rs_codec s)) (ro_children (ap_parent ap)) d = Inr (c, f d)"
    by metis
  then have "approved_plans s ap (canaries @ concat waves) (map f (canaries @ concat waves))"
    by (auto simp only: approved_plans_def list_all2_map2 list.rel_refl_strong intro!: list.rel_refl_strong)
  then show thesis by (rule that)
qed

definition preflight_passed ::
    "rollout_setup \<Rightarrow> rollout_world \<Rightarrow> approval \<Rightarrow> revent list \<Rightarrow> bool" where
  "preflight_passed s w ap h \<longleftrightarrow> (\<exists>pf. fst (preflight_profiled_rollout (rs_sha s) (rs_codec s)
     (rs_promotion s) (rw_rollout w) (rs_inputs s) (ap_authorization ap) h) = Inr pf)"

lemma returns_published:
  "returns (publish_record s w ap pf canaries waves g final)
     (\<lambda>R. au_attempted R = pg_attempted g \<and> au_successful R = pg_successful g)"
proof -
  have signed: "au_attempted R = pg_attempted g \<and> au_successful R = pg_successful g"
    if "rollout_audit_signed (rs_sha s) (rs_uuid5 s) (rollout_audit_of s ap pipeline unblocker time pf
      canaries waves g final) = Inr R" for pipeline unblocker time R
    using that by (auto simp: rollout_audit_signed_def Let_def bindS_Inr_iff)
  show ?thesis
    unfolding publish_record_def
    by (rule returns_bindE, rule returns_bindE)
      (auto simp: returns_def bindE_def liftE_def store_def askE_def ret_def dest: signed
        split: sum.splits)
qed

lemma preflight_stage_passes:
  assumes "fst (preflight_stage s w ap t) = Inr (Some p, None)"
  shows "preflight_passed s w ap t"
  using assms
  by (auto simp: preflight_stage_def preflight_passed_def bindE_def handled_def tryE_def ret_def raise_def
      split: sum.splits prod.splits if_splits)

definition in_order ::
    "rollout_setup \<Rightarrow> rollout_world \<Rightarrow> approval \<Rightarrow> profiled_deployment_plan list \<Rightarrow> revent list \<Rightarrow> revent list
      \<Rightarrow> nat \<Rightarrow> nat \<Rightarrow> bool" where
  "in_order s w ap ps t u m k \<longleftrightarrow> (\<exists>a v b. u = a @ v @ b
     \<and> list_all (\<lambda>e. \<not> is_write_event e) a \<and> list_all (\<lambda>e. \<not> is_write_event e) b
     \<and> in_sequence s w ps (t @ a) v m k
     \<and> (m > 0 \<longrightarrow> (\<exists>h a'. a = h @ a' \<and> preflight_passed s w ap (t @ h))))"

lemma in_order_quiet: "list_all (\<lambda>e. \<not> is_write_event e) u \<Longrightarrow> in_order s w ap ps t u 0 0"
  unfolding in_order_def
  by (intro exI [of _ u] exI [of _ "[]"]) (simp add: in_sequence.not_entered)

lemma in_order_extend:
  assumes "in_order s w ap ps (t @ a) u m k" and "list_all (\<lambda>e. \<not> is_write_event e) a"
    and "list_all (\<lambda>e. \<not> is_write_event e) b"
  shows "in_order s w ap ps t (a @ u @ b) m k"
proof -
  obtain x v y where u: "u = x @ v @ y" "list_all (\<lambda>e. \<not> is_write_event e) x"
    "list_all (\<lambda>e. \<not> is_write_event e) y" "in_sequence s w ps ((t @ a) @ x) v m k"
    "m > 0 \<longrightarrow> (\<exists>h a'. x = h @ a' \<and> preflight_passed s w ap ((t @ a) @ h))"
    using assms(1) unfolding in_order_def by blast
  have "m > 0 \<longrightarrow> (\<exists>h a'. a @ x = h @ a' \<and> preflight_passed s w ap (t @ h))"
    using u(5) by (metis append_assoc)
  with u(1-4) assms(2,3) show ?thesis
    unfolding in_order_def by (intro exI [of _ "a @ x"] exI [of _ v] exI [of _ "y @ b"]) simp
qed

lemma calm: "list_all quiet u \<Longrightarrow> list_all (\<lambda>e. \<not> is_write_event e) u"
  by (auto simp: list_all_iff quiet_def)

lemma returns_final_kept:
  "returns (final_stage s w ap pf g)
     (\<lambda>(final, g'). pg_attempted g' = pg_attempted g \<and> pg_successful g' = pg_successful g)"
  unfolding final_stage_def by (rule returns_bindE)+ (auto split: option.split)

definition concluded ::
    "rollout_setup \<Rightarrow> rollout_world \<Rightarrow> approval \<Rightarrow> rollout_preflight \<Rightarrow> string list \<Rightarrow> string list list
      \<Rightarrow> progress \<Rightarrow> rollout_audit rio" where
  "concluded s w ap p canaries waves g = (if pg_reason g = None
     then bindE (final_stage s w ap p g) (\<lambda>(final, g). publish_record s w ap (Some p) canaries waves g final)
     else publish_record s w ap (Some p) canaries waves g None)"

lemma concluded_facts:
  "emits quiet (concluded s w ap p canaries waves g)"
  "returns (concluded s w ap p canaries waves g)
     (\<lambda>R. au_attempted R = pg_attempted g \<and> au_successful R = pg_successful g)"
proof -
  show "emits quiet (concluded s w ap p canaries waves g)"
    unfolding concluded_def by (auto intro!: emits_intros split: prod.split)
  have "returns (bindE (final_stage s w ap p g)
      (\<lambda>(final, g). publish_record s w ap (Some p) canaries waves g final))
      (\<lambda>R. au_attempted R = pg_attempted g \<and> au_successful R = pg_successful g)"
  proof (rule returns_seq [OF returns_final_kept], goal_cases)
    case (1 q)
    obtain final h where q: "q = (final, h)" by (cases q)
    show ?case
      unfolding q prod.case by (rule returns_conseq [OF returns_published]) (use 1 q in simp)
  qed
  then show "returns (concluded s w ap p canaries waves g)
     (\<lambda>R. au_attempted R = pg_attempted g \<and> au_successful R = pg_successful g)"
    using returns_published by (simp add: concluded_def)
qed

lemma reserved_in_order:
  assumes c: "ro_cohorts (ap_parent ap) = Some (canaries, waves)"
    and ps: "approved_plans s ap (canaries @ concat waves) ps"
  shows "\<exists>u m k. snd (reserved_rollout s w ap t) = t @ u \<and> in_order s w ap ps t u m k
    \<and> (\<forall>R. fst (reserved_rollout s w ap t) = Inr R
         \<longrightarrow> au_attempted R = take m (canaries @ concat waves)
           \<and> au_successful R = take k (canaries @ concat waves))"
proof -
  let ?order = "canaries @ concat waves"
  obtain a where a: "snd (preflight_stage s w ap t) = t @ a" "list_all quiet a"
    using emitsD [OF emits_stages(1)] by blast
  have ca: "list_all (\<lambda>e. \<not> is_write_event e) a" by (rule calm [OF a(2)])
  note stage = bind_run [of "preflight_stage s w ap" t a, OF a(1)]
  show ?thesis
  proof (cases "fst (preflight_stage s w ap t)")
    case (Inl e)
    with in_order_quiet [OF ca] show ?thesis
      by (intro exI [of _ a] exI [of _ 0]) (simp add: reserved_rollout_def stage)
  next
    case (Inr q)
    obtain pf reason where q: "q = (pf, reason)" by (cases q)
    show ?thesis
    proof (cases "\<exists>p. pf = Some p \<and> reason = None")
      case False
      let ?publish = "publish_record s w ap pf canaries waves (no_progress reason) None"
      have run: "reserved_rollout s w ap t = ?publish (t @ a)"
        using False by (auto simp: reserved_rollout_def stage Inr q c split: option.splits)
      obtain b where b: "snd (?publish (t @ a)) = (t @ a) @ b" "list_all quiet b"
        using emitsD [OF emits_publish] by blast
      have "in_order s w ap ps t (a @ b) 0 0"
        by (rule in_order_quiet) (use ca calm [OF b(2)] in simp)
      moreover have "au_attempted R = [] \<and> au_successful R = []" if "fst (?publish (t @ a)) = Inr R" for R
        using returnsD [OF returns_published that] by (simp add: no_progress_def)
      ultimately show ?thesis
        unfolding run by (intro exI [of _ "a @ b"] exI [of _ 0]) (simp add: b(1))
    next
      case True
      then obtain p where p: "pf = Some p" "reason = None" by blast
      let ?loop = "rollout_loop s w ap p 0 (cohort_list canaries waves) (no_progress None)"
      have run: "reserved_rollout s w ap t = bindE ?loop (concluded s w ap p canaries waves) (t @ a)"
        by (simp add: reserved_rollout_def stage Inr q c p concluded_def [abs_def] cong: if_cong)
      have plans: "list_all2 (\<lambda>x p. \<exists>c. approved_plan (rs_sha s) (rc_child (rs_codec s))
          (ro_children (ap_parent ap)) (fst x) = Inr (c, p)) (cohort_list canaries waves) ps"
        using ps unfolding approved_plans_def cohort_order [symmetric] list_all2_map1 .
      have start: "pg_reason (no_progress None) = None" "pg_attempted (no_progress None) = []"
        "pg_successful (no_progress None) = []" by (simp_all add: no_progress_def)
      obtain v m k where v: "snd (?loop (t @ a)) = (t @ a) @ v" "in_sequence s w ps (t @ a) v m k"
        "\<forall>g. fst (?loop (t @ a)) = Inr g \<longrightarrow> pg_attempted g = take m ?order \<and> pg_successful g = take k ?order"
        using loop_log [OF plans start(1), where n = 0 and t = "t @ a" and w = w and pf = p]
        unfolding start cohort_order append_Nil by blast
      have passed: "preflight_passed s w ap t"
        using Inr q p by (intro preflight_stage_passes) simp
      have seq: "in_order s w ap ps t (a @ v @ b) m k" if "list_all quiet b" for b
        unfolding in_order_def
        using ca calm [OF that] v(2) passed
        by - (rule exI [of _ a], rule exI [of _ v], rule exI [of _ b], auto intro: exI [of _ "[]"])
      show ?thesis
      proof (cases "fst (?loop (t @ a))")
        case (Inl e)
        with seq [of "[]"] show ?thesis
          by (intro exI [of _ "a @ v"] exI [of _ m] exI [of _ k])
            (simp add: run bind_run [of ?loop "t @ a" v, OF v(1)])
      next
        case (Inr g)
        then have run': "reserved_rollout s w ap t = concluded s w ap p canaries waves g (t @ a @ v)"
          by (simp add: run bind_run [of ?loop "t @ a" v, OF v(1)])
        obtain b where b: "snd (concluded s w ap p canaries waves g (t @ a @ v)) = (t @ a @ v) @ b"
          "list_all quiet b"
          using emitsD [OF concluded_facts(1)] by blast
        from v(3) Inr have "pg_attempted g = take m ?order" "pg_successful g = take k ?order" by blast+
        then show ?thesis
          unfolding run'
          using b(1) seq [OF b(2)] returnsD [OF concluded_facts(2)]
          by (intro exI [of _ "a @ v @ b"] exI [of _ m] exI [of _ k]) simp
      qed
    qed
  qed
qed

section \<open>The entry point\<close>

lemma reservation_wraps:
  assumes "\<And>e. P (lk_event lk e)"
  shows "\<exists>a. list_all P a \<and> ((\<exists>e. with_reservation lk ds body t = (Inl e, t @ a))
    \<or> (\<exists>b. list_all P b \<and> snd (with_reservation lk ds body t) = snd (body (t @ a)) @ b
        \<and> (\<forall>x. fst (with_reservation lk ds body t) = Inr x \<longrightarrow> fst (body (t @ a)) = Inr x)))"

proof -
  have P: "emits P (open_fd lk d)" "emits P (close_all lk held)" "emits P (inspect_fd lk d m)"
    "emits P (make_directory lk)" "emits P (flock_fd lk d)" for d held m
  proof -
    show "emits P (open_fd lk d)" and i: "emits P (inspect_fd lk d m)" and "emits P (make_directory lk)"
      and "emits P (flock_fd lk d)"
      unfolding open_fd_def inspect_fd_def make_directory_def flock_fd_def
      by (auto intro!: emits_intros assms split: made.split flocked.split)
    show "emits P (close_all lk held)"
      by (induction held) (auto intro!: emits_intros assms simp: close_fd_def)
  qed
  have hold: "emits P (hold_all lk held fs)" for held fs
    by (induction fs arbitrary: held) (auto intro!: emits_intros P split: sum.split)
  have acq: "emits P (acquire lk ds)"
    unfolding acquire_def by (auto intro!: emits_intros P hold split: sum.split)
  define rest where "rest = (\<lambda>(held, stopped). bindE (tryE (case stopped of Some e \<Rightarrow> raise e | None \<Rightarrow> body))
     (\<lambda>result. bindE (close_all lk (rev held)) (\<lambda>_. liftE result)))"
  have run: "with_reservation lk ds body t = (case reservation_identities ds of Inl e \<Rightarrow> (Inl e, t)
    | Inr _ \<Rightarrow> if \<not> lk_root_private lk t then (Inl (ValueError ''private external reservation root required''), t)
        else bindE (open_fd lk Root_Directory) (\<lambda>_. bindE (acquire lk ds) rest) t)"
    by (simp add: with_reservation_def rest_def bindE_def liftE_def split: sum.split)
  obtain a1 where a1: "snd (open_fd lk Root_Directory t) = t @ a1" "list_all P a1"
    using emitsD [OF P(1)] by blast
  obtain a2 where a2: "snd (acquire lk ds (t @ a1)) = (t @ a1) @ a2" "list_all P a2"
    using emitsD [OF acq] by blast
  note runs = bind_run [of "open_fd lk Root_Directory" t a1, OF a1(1)] bind_run [of "acquire lk ds" "t @ a1" a2, OF a2(1)]
  have inside: "\<exists>b. list_all P b \<and> (stopped \<noteq> None \<longrightarrow> snd (rest (held, stopped) h) = h @ b
        \<and> (\<exists>e. fst (rest (held, stopped) h) = Inl e))
      \<and> (stopped = None \<longrightarrow> snd (rest (held, stopped) h) = snd (body h) @ b
        \<and> (\<forall>x. fst (rest (held, stopped) h) = Inr x \<longrightarrow> fst (body h) = Inr x))" for held stopped h
  proof -
    define h' where "h' = (case stopped of None \<Rightarrow> snd (body h) | Some _ \<Rightarrow> h)"
    obtain q b where b: "close_all lk (rev held) h' = (q, h' @ b)" "list_all P b"
      using emitsD [OF P(2), of "rev held" h'] by (metis prod.collapse)
    then show ?thesis
      by (intro exI [of _ b], cases stopped; cases q; cases "body h")
        (auto simp: rest_def bindE_def tryE_def raise_def liftE_def h'_def split: sum.splits)
  qed
  show ?thesis
  proof (cases "reservation_identities ds = Inr () \<and> lk_root_private lk t
      \<and> fst (open_fd lk Root_Directory t) = Inr ()")
    case False
    then have "\<exists>e. with_reservation lk ds body t = (Inl e, t) \<or> with_reservation lk ds body t = (Inl e, t @ a1)"
      by (cases "reservation_identities ds"; cases "fst (open_fd lk Root_Directory t)")
        (auto simp: run runs(1))
    with a1(2) show ?thesis by (metis append_Nil2 list.pred_inject(1))
  next
    case True
    then have run': "with_reservation lk ds body t = bindE (acquire lk ds) rest (t @ a1)"
      by (simp add: run runs(1))
    show ?thesis
    proof (cases "fst (acquire lk ds (t @ a1))")
      case (Inl e)
      with a1(2) a2(2) show ?thesis
        by (intro exI [of _ "a1 @ a2"]) (simp add: run' runs(2))
    next
      case (Inr x)
      obtain held stopped where x: "x = (held, stopped)" by (cases x)
      obtain b where b: "list_all P b" "stopped \<noteq> None \<longrightarrow> snd (rest (held, stopped) (t @ a1 @ a2)) = (t @ a1 @ a2) @ b
          \<and> (\<exists>e. fst (rest (held, stopped) (t @ a1 @ a2)) = Inl e)"
        "stopped = None \<longrightarrow> snd (rest (held, stopped) (t @ a1 @ a2)) = snd (body (t @ a1 @ a2)) @ b
          \<and> (\<forall>x. fst (rest (held, stopped) (t @ a1 @ a2)) = Inr x \<longrightarrow> fst (body (t @ a1 @ a2)) = Inr x)"
        using inside [of stopped held "t @ a1 @ a2"] by blast
      have run'': "with_reservation lk ds body t = rest (held, stopped) (t @ a1 @ a2)"
        by (simp add: run' runs(2) Inr x)
      show ?thesis
      proof (cases stopped)
        case None
        with a1(2) a2(2) b show ?thesis
          unfolding run'' by (intro exI [of _ "a1 @ a2"]) auto
      next
        case (Some y)
        with b(2) obtain e where "rest (held, stopped) (t @ a1 @ a2) = (Inl e, (t @ a1 @ a2) @ b)"
          by (metis option.distinct(1) prod.collapse)
        with a1(2) a2(2) b(1) show ?thesis
          unfolding run'' by (intro exI [of _ "a1 @ a2 @ b"]) simp
      qed
    qed
  qed
qed

end
