(* ===== verification/Rollout_Entry.thy ===== *)
theory Rollout_Entry
  imports Rollout_Sequence Approval_Laws
begin

text \<open>
  The entry point of a rollout: what \<^verbatim>\<open>execute_rollout\<close> does before its first device write, and what
  carries over from the reserved rollout to the whole call.
\<close>

text \<open>A call either ends with an error before it reserves anything, after calls that neither write nor
  lock, or it is the reservation around the rollout of an approved parent.\<close>

definition reserves ::
    "rollout_setup \<Rightarrow> rollout_world \<Rightarrow> string \<Rightarrow> string \<Rightarrow> string \<Rightarrow> revent list \<Rightarrow> approval \<Rightarrow> revent list \<Rightarrow> bool" where
  "reserves s w semantic artifact unblocker t ap b \<longleftrightarrow> approved s ap
     \<and> authorize_rollout (rs_sha s) (rs_codec s) (rs_promotion s) (rs_inputs s) semantic artifact unblocker
         = Inr (ap_authorization ap)
     \<and> prepare_store s w ap t = (Inr (), t @ b) \<and> list_all quiet b
     \<and> execute_rollout s w semantic artifact unblocker t
         = with_reservation (locks_of w) (ra_selected_devices (ap_authorization ap))
             (reserved_rollout s w ap) (t @ b)"

lemma execute_rollout_cases:
  obtains (refused) e b where "execute_rollout s w semantic artifact unblocker t = (Inl e, t @ b)"
    and "list_all quiet b"
  | (reserved) ap b where "reserves s w semantic artifact unblocker t ap b"
proof (cases "authorize_rollout (rs_sha s) (rs_codec s) (rs_promotion s) (rs_inputs s) semantic artifact
    unblocker")
  case (Inl e)
  then have "execute_rollout s w semantic artifact unblocker t = (Inl e, t @ [])"
    by (simp add: execute_rollout_def bindE_def liftE_def)
  then show thesis by (rule refused) simp
next
  case (Inr a)
  then obtain r where r: "authorizes (rs_sha s) (rs_codec s) (rs_inputs s) a r"
    by (rule authorize_rollout_Inr)
  then have read: "read_profiled_rollout (rs_sha s) (rs_codec s) (ai_parent_bytes (rs_inputs s)) = Inr r"
    by (simp add: authorizes_def read_profiled_rollout_def)
  let ?ap = "\<lparr>ap_parent = r, ap_authorization = a\<rparr>"
  obtain q b where b: "prepare_store s w ?ap t = (q, t @ b)" "list_all quiet b"
    using emitsD [OF emits_prepare, of s w ?ap t] by (metis prod.collapse)
  have run: "execute_rollout s w semantic artifact unblocker t = (case q of Inl e \<Rightarrow> (Inl e, t @ b)
      | Inr _ \<Rightarrow> with_reservation (locks_of w) (ra_selected_devices a) (reserved_rollout s w ?ap) (t @ b))"
    by (simp add: execute_rollout_def Let_def bindE_def liftE_def Inr read b(1) split: sum.split)
  show thesis
  proof (cases q)
    case (Inl e)
    then show thesis using refused run b(2) by simp
  next
    case q: (Inr u)
    have "reserves s w semantic artifact unblocker t ?ap b"
      using r Inr b run q by (simp add: reserves_def approved_def)
    then show thesis by (rule reserved)
  qed
qed

lemma reserves_facts:
  assumes "reserves s w semantic artifact unblocker t ap b"
  shows "approved s ap"
    and "ro_cohorts (ap_parent ap)
      = Some (ra_canaries (ap_authorization ap), ra_waves (ap_authorization ap))"
    and "ra_selected_devices (ap_authorization ap) = map child_identity (ro_children (ap_parent ap))"
  using assms by (auto simp: reserves_def approved_def authorizes_def)

text \<open>The locks of a rollout appear in its log as lock events, and no lock event is a device write.\<close>

lemma locks_of_view: "seen_by lock_view (locks_of w)" "\<not> is_write_event (lk_event (locks_of w) e)"
  by (simp_all add: seen_by_def locks_of_def)

end
