(* ===== verification/Sample_Rollout.thy ===== *)
theory Sample_Rollout
  imports Rollout_Entry Approval_Properties Observation_Properties
begin

text \<open>
  One concrete rollout of the sample core router, used by the witnesses: inventory, secrets, observer,
  store and locks answer, and the device shows the description last written to it.
\<close>

definition sample_fleet :: "rollout_event write_event providers" where
  "sample_fleet = sample_providers sample_core ''1'' (sample_description ''uplink'')"

definition sample_device_writer :: "rollout_event writer" where
  "sample_device_writer = \<lparr>wr_verify_runtime = (\<lambda>_. Inr ()), wr_execute = (\<lambda>_ _ _ _. Inr (sample_result Succeeded)),
     wr_enter = (\<lambda>_ _ _ _. Inr ()), wr_prepare = (\<lambda>_. Inr (''sha256:'' @ sample_sha [])),
     wr_commit = (\<lambda>_ _. Inr (sample_result Succeeded)), wr_exit = (\<lambda>_. Inr False),
     wr_confirm = (\<lambda>_ _ _. Inr (sample_result Succeeded))\<rparr>"

definition sample_declared :: profiled_population_member where
  "sample_declared = (case declaration_member PROFILED_MANAGED_POPULATION ''core-02'' of Inr m \<Rightarrow> m
     | Inl _ \<Rightarrow> undefined)"

definition sample_population :: profiled_inventory_population where
  "sample_population = \<lparr>ip_declaration = [sample_declared], ip_devices = [sample_core]\<rparr>"

definition sample_rollout_providers :: rollout_providers where
  "sample_rollout_providers = \<lparr>rv_member = sample_fleet, rv_population = (\<lambda>_. Inr sample_population),
     rv_admit = (\<lambda>_ _. Inr (ch_credential_admission sample_child))\<rparr>"

lemma sample_population_valid:
  "profiled_inventory_population_valid sample_population = Inr ()"
  "declaration_member [sample_declared] ''core-02'' = Inr sample_declared"
  "pm_device_identity sample_declared = ''netbox:dcim.device:1''"
  by code_simp+

lemma sample_redumped:
  "redumped sample_core = sample_core" "redumped_population sample_population = sample_population"
  by (simp_all add: redumped_population_def redumped_def sample_population_def)
    (simp_all add: sample_core_def)

lemma sample_intent_of: "child_intent ''CHG-1'' sample_member = sample_intent sample_core"
  by (simp add: child_intent_def sample_member_def sample_intent_def sample_core_def)

definition sample_admitted :: admitted_member where
  "sample_admitted = (sample_member, sample_core, sample_interface sample_core ''Gi2'',
     cisco_admission CAT8000V_IOSXE IOSXE, ch_credential_admission sample_child)"


section \<open>Admission and credentials\<close>

abbreviation sample_request :: rollout_request where
  "sample_request \<equiv> Explicit_Request sample_rollout_intent"

lemma sample_fields:
  "ri_members sample_rollout_intent = [sample_member]" "ri_change_id sample_rollout_intent = ''CHG-1''"
  "mi_target sample_member = ''core-02''" "mi_interface sample_member = ''Gi2''"
  "ip_declaration sample_population = [sample_declared]" "ip_devices sample_population = [sample_core]"
  "dv_logical_name sample_core = ''core-02''" "dv_device_identity sample_core = ''netbox:dcim.device:1''"
  "rv_member sample_rollout_providers = sample_fleet"
  "cm_credential_reference (ch_credential_admission sample_child) = cf_reference (sample_reference ''1'')"
  "cm_device_identity (ch_credential_admission sample_child) = ''netbox:dcim.device:1''"
  by (simp_all add: sample_rollout_intent_def sample_member_def sample_population_def sample_core_def
      sample_rollout_providers_def sample_child_def)

lemma sample_admissible:
  "intent_valid (sample_intent sample_core) = Inr ()"
  "stable_interface_valid (sample_interface sample_core ''Gi2'')"
  "rollout_credential_admission_valid (ch_credential_admission sample_child) = Inr ()"
proof -
  show "intent_valid (sample_intent sample_core) = Inr ()" by code_simp
  show "stable_interface_valid (sample_interface sample_core ''Gi2'')" by code_simp
  show "rollout_credential_admission_valid (ch_credential_admission sample_child) = Inr ()"
    unfolding sample_child_def rollout_child.select_convs by code_simp
qed

lemma sample_member_admitted:
  "\<exists>u. admit_member sample_rollout_providers ''CHG-1'' sample_population [] [] sample_member t
     = (Inr sample_admitted, t @ u)"
  using sample_population_valid(2,3) sample_core_valid sample_core_admitted sample_bindings(1)
    sample_admissible sample_redumped(1)
  by (simp add: admit_member_def sample_fields sample_intent_of eff_simps provider_calls
      population_device_def dict_get_def admit_credential_def Let_def sample_admitted_def)
    (simp add: sample_rollout_providers_def sample_fleet_def sample_providers_def sample_fields)

lemma sample_admission:
  "\<exists>u. admit_rollout_members sample_rollout_providers sample_request (Some [''core-02'']) t
     = (Inr (sample_population, None, sample_rollout_intent, [sample_admitted]), t @ u)"
proof -
  obtain u where u: "admit_member sample_rollout_providers ''CHG-1'' sample_population [] [] sample_member
      (t @ [rollout_call (EvPopulation (Inr sample_population))])
    = (Inr sample_admitted, (t @ [rollout_call (EvPopulation (Inr sample_population))]) @ u)"
    using sample_member_admitted by blast
  have "rv_population sample_rollout_providers t = Inr sample_population"
    by (simp add: sample_rollout_providers_def)
  then show ?thesis
    using u sample_population_valid(1)
    by (simp add: admit_rollout_members_def resolve_population_def sample_redumped sample_fields eff_simps)
qed


lemma sample_reference_given:
  "\<exists>u. admitted_reference sample_rollout_providers message (sample_child, sample_admitted) t
     = (Inr (sample_reference ''1''), t @ u)"
  using sample_bindings(3)
  by (simp add: admitted_reference_def sample_admitted_def sample_fields eff_simps provider_calls)
    (simp add: sample_fleet_def sample_providers_def sample_fields)

abbreviation sample_secret :: loaded_secret where
  "sample_secret \<equiv> (sample_core, sample_reference ''1'', sample_credentials)"

lemma sample_secret_loaded:
  "\<exists>u. load_secret sample_rollout_providers (sample_admitted, sample_reference ''1'') t
     = (Inr sample_secret, t @ u)"
  by (simp add: load_secret_def sample_admitted_def sample_fields eff_simps provider_calls)
    (simp add: sample_fleet_def sample_providers_def sample_credentials_def)

section \<open>Planning again\<close>

lemma sample_fleet_answers:
  "pv_collect sample_fleet t tg c i = Inr (sample_state sample_core (sample_description ''uplink'' t))"
  "pv_now sample_fleet t = sample_time"
  by (simp_all add: sample_fleet_def sample_providers_def)

lemma sample_plan_built:
  "build_profiled_plan sample_sha (sample_intent sample_core) sample_core
       (sample_interface sample_core ''Gi2'') (sample_state sample_core (Some ''old''))
       (sample_reference ''1'') sample_time = Inr (sample_plan sample_core)"
proof -
  obtain p where "build_profiled_plan sample_sha (sample_intent sample_core) sample_core
       (sample_interface sample_core ''Gi2'') (sample_state sample_core (Some ''old''))
       (sample_reference ''1'') sample_time = Inr p"
    using build_profiled_plan_iff [OF sample_sha_hex sample_inputs_valid(1)] sample_guards(1) by blast
  then show ?thesis by (simp add: sample_plan_def)
qed

text \<open>Before the first write the device has its old description, and the plan is the approved one.\<close>

lemma sample_planned_before:
  assumes "\<not> list_ex is_write_event t"
  shows "\<exists>r. fst (plan_again sample_sha sample_rollout_providers ''CHG-1'' sample_admitted sample_secret t)
       = Inr r \<and> fresh_result r = Inr (Plan_Result (sample_plan sample_core))"
  using sample_core_admitted sample_core_live sample_safe(1) sample_bindings sample_plan_built assms
  by (simp add: plan_again_def sample_admitted_def sample_intent_of plan_profiled_change_def eff_simps
      provider_calls timestamp_def resolved_providers_def loaded_providers_def
      sample_target_binding sample_names sample_fields sample_fleet_answers sample_description_def
      sample_interface_name fresh_result_def)
    (simp add: sample_intent_def sample_fields)

definition sample_compliance :: "profiled_compliance_record res" where
  "sample_compliance = build_compliance sample_sha (sample_intent sample_core) sample_core
     (sample_interface sample_core ''Gi2'') (sample_state sample_core (Some ''uplink''))
     (sample_reference ''1'') sample_time"

lemma sample_planned_after:
  assumes "list_ex is_write_event t" and "sample_compliance = Inr c"
  shows "\<exists>r. fst (plan_again sample_sha sample_rollout_providers ''CHG-1'' sample_admitted sample_secret t)
       = Inr r \<and> pr_plan r = None \<and> pr_compliance r = Some c"
  using sample_core_admitted sample_core_live sample_safe(1) sample_bindings assms
  by (simp add: plan_again_def sample_admitted_def sample_intent_of plan_profiled_change_def eff_simps
      provider_calls timestamp_def resolved_providers_def loaded_providers_def
      sample_target_binding sample_names sample_fields sample_fleet_answers sample_description_def
      sample_interface_name sample_compliance_def)
    (simp add: sample_intent_def sample_fields)


definition sample_compliant :: profiled_compliance_record where
  "sample_compliant = \<lparr>cr_change_id = ''CHG-1'', cr_target = ''core-02'',
     cr_device_identity = ''netbox:dcim.device:1'', cr_interface = sample_interface sample_core ''Gi2'',
     cr_platform_slug = ''cisco-ios-xe'', cr_network_os = IOSXE,
     cr_automation_profile_id = CAT8000V_IOSXE, cr_operation = INTERFACE_DESCRIPTION,
     cr_host = ''192.168.1.1'', cr_port = 22, cr_expected_hostname = ''core-02'',
     cr_observed_description = ''uplink'', cr_desired_description = ''uplink'',
     cr_credential_source = ''openbao'', cr_credential_reference = cf_reference (sample_reference ''1''),
     cr_observed_at = sample_time, cr_digest = sha256_identity sample_sha ''''\<rparr>"

lemma sample_compliant_fields:
  "compliance_fields_valid sample_compliant"
  "admit_profiled_subject (cr_device_identity sample_compliant) (cr_target sample_compliant)
     (cr_platform_slug sample_compliant) (cr_network_os sample_compliant)
     (cr_automation_profile_id sample_compliant) PROFILED_MANAGED_POPULATION = Inr ()"
  "expected_credential (cr_device_identity sample_compliant) = Inr (cr_credential_reference sample_compliant)"
  "desired_description (cr_desired_description sample_compliant) = Inr ()"
  "admitted_operation (cr_automation_profile_id sample_compliant) (cr_operation sample_compliant)
     = Some (cisco_admission CAT8000V_IOSXE IOSXE)"
  "si_device (cr_interface sample_compliant) = cr_device_identity sample_compliant"
  "is_ip_address (cr_host sample_compliant)"
  by code_simp+

lemma sample_compliance_ok: "sample_compliance = Inr sample_compliant"
proof -
  have "compliance_calculated_digest sample_sha r = sha256_identity sample_sha ''''" for r
    by (simp add: compliance_calculated_digest_def sha256_identity_def sample_sha_def)
  moreover have "cr_change_id sample_compliant = ''CHG-1''" by (simp add: sample_compliant_def)
  ultimately show ?thesis
    using sample_compliant_fields sample_core_live
    by (simp add: sample_compliance_def build_compliance_def profiled_compliance_valid_def
        sample_names Let_def)
      (simp add: sample_compliant_def sample_target_def sample_intent_def sample_core_def
        cisco_admission_def sample_reference_def)
qed


section \<open>The sample approval and its world\<close>

definition sample_minted :: rollout_promotion where
  "sample_minted = minted_promotion sample_sha (sample_context ''profiled-rollout-promotion'') ''parent''
      sample_parent [''netbox:dcim.device:1''] []
      (sha256_identity sample_sha (dumps_strings sample_receipts)) (sha256_identity sample_sha '''')
      (sha256_identity sample_sha '''')"

definition sample_authorization :: rollout_authorization where
  "sample_authorization = minted_authorization sample_sha sample_minted
     (sha256_identity sample_sha ''promotion'') sample_uuid"

definition sample_approval :: approval where
  "sample_approval = \<lparr>ap_parent = sample_parent, ap_authorization = sample_authorization\<rparr>"

definition sample_setup :: rollout_setup where
  "sample_setup = \<lparr>rs_sha = sample_sha, rs_uuid5 = (\<lambda>a b. a @ b), rs_uuid = Inr,
     rs_codec = sample_rollout_codec, rs_promotion = (\<lambda>_. Inr sample_minted), rs_fuel = 3,
     rs_inputs = sample_inputs, rs_pipeline_id = sample_uuid, rs_build_number = 1\<rparr>"

lemma sample_inputs_sel:
  "ai_context sample_inputs = sample_context ''profiled-rollout-promotion''"
  "ai_parent_bytes sample_inputs = ''parent''" "ai_publication sample_inputs = sample_publication"
  "ai_receipts sample_inputs = sample_receipts" "ai_promotion_bytes sample_inputs = ''promotion''"
  "ai_batfish sample_inputs = sha256_identity sample_sha ''''"
  "ai_cml sample_inputs = sha256_identity sample_sha ''''"
  "ai_request sample_inputs = sample_request"
  by (simp_all add: sample_inputs_def)

lemma sample_authorize:
  "authorize_rollout sample_sha sample_rollout_codec (\<lambda>_. Inr sample_minted) sample_inputs
     (rm_digest sample_minted) (sha256_identity sample_sha ''promotion'') sample_uuid
     = Inr sample_authorization"
proof -
  have c: "bc_step (sample_context s) = s" "bc_job_id (sample_context s) = sample_uuid"
    "(sample_context s)\<lparr>bc_step := s'\<rparr> = sample_context s'" for s s'
    by (simp_all add: sample_context_def)
  have p: "promote_rollout sample_sha sample_rollout_codec (sample_context ''profiled-rollout-promotion'')
      ''parent'' sample_publication sample_receipts (sha256_identity sample_sha '''')
      (sha256_identity sample_sha '''') sample_request = Inr sample_minted"
    unfolding sample_minted_def
    by (rule promote_rollout_total [OF c(1) sample_publication_valid sample_publication_read
      sample_parent_shape(4) sample_validation sample_digest sample_digest sample_sha_hex])
  show ?thesis
    unfolding sample_authorization_def
    using authorize_rollout_total [where inp = sample_inputs and decode = "\<lambda>_. Inr sample_minted"
        and p = sample_minted, unfolded sample_inputs_sel c,
        OF p refl sample_sha_hex sample_uuid_canonical sample_uuid_canonical] .
qed

lemma sample_authorizes:
  "authorizes sample_sha sample_rollout_codec sample_inputs sample_authorization sample_parent"
proof -
  obtain r where "authorizes sample_sha sample_rollout_codec sample_inputs sample_authorization r"
    by (rule authorize_rollout_Inr [OF sample_authorize])
  moreover from this have "r = sample_parent"
    by (simp add: authorizes_def sample_inputs_sel sample_rollout_codec_def)
  ultimately show ?thesis by simp
qed

lemma sample_approved_parent:
  "approved_parent sample_sha sample_rollout_codec (\<lambda>_. Inr sample_minted) sample_inputs
     sample_authorization = Inr sample_parent"
proof -
  have "ra_promotion_digest sample_authorization = rm_digest sample_minted"
    "ra_promotion_artifact_digest sample_authorization = sha256_identity sample_sha ''promotion''"
    "ra_unblocker_id sample_authorization = sample_uuid"
    by (simp_all add: sample_authorization_def)
  then show ?thesis
    using sample_authorizes sample_authorize sample_parent_valid
    by (simp add: approved_parent_def authorizes_def read_profiled_rollout_def sample_inputs_sel
        sample_rollout_codec_def)
qed


section \<open>The read-only validations\<close>

definition quietly :: "'a rio \<Rightarrow> revent list \<Rightarrow> 'a \<Rightarrow> bool" where
  "quietly m t x \<longleftrightarrow> (\<exists>u. m t = (Inr x, t @ u) \<and> list_all quiet u)"

lemma quietlyI: "fst (m t) = Inr x \<Longrightarrow> emits quiet m \<Longrightarrow> quietly m t x"
  unfolding quietly_def using emitsD by (metis prod.collapse)

lemma quietly_bind:
  assumes "quietly m t x" and "\<And>u. list_all quiet u \<Longrightarrow> quietly (f x) (t @ u) y"
  shows "quietly (bindE m f) t y"
proof -
  obtain u where u: "m t = (Inr x, t @ u)" "list_all quiet u" using assms(1) by (auto simp: quietly_def)
  obtain v where v: "f x (t @ u) = (Inr y, (t @ u) @ v)" "list_all quiet v"
    using assms(2) [OF u(2)] by (auto simp: quietly_def)
  show ?thesis
    unfolding quietly_def using u v by (intro exI [of _ "u @ v"]) (simp add: bindE_def)
qed

lemma quietly_pure [simp]: "quietly (ret x) t y \<longleftrightarrow> x = y" "quietly (liftE r) t y \<longleftrightarrow> r = Inr y"
  by (auto simp: quietly_def ret_def liftE_def)

lemma bind_ret [simp]: "bindE (ret x) f = f x"
  by (simp add: bindE_def ret_def)

lemma quietly_lift: "r = Inr x \<Longrightarrow> quietly (f x) t y \<Longrightarrow> quietly (bindE (liftE r) f) t y"
  by simp

lemma quietly_try: "quietly m t x \<Longrightarrow> quietly (tryE m) t (Inr x)"
  by (auto simp: quietly_def tryE_def)

lemma quietly_handled: "quietly m t x \<Longrightarrow> quietly (attempt_any m) t (Some x)"
  by (auto simp: quietly_def handled_def tryE_def bindE_def ret_def)

lemma quietly_map1: "quietly (f a) t b \<Longrightarrow> quietly (mapE f [a]) t [b]"
  by (auto simp: quietly_def bindE_def ret_def)

lemma unwritten_quiet: "list_all quiet u \<Longrightarrow> \<not> list_ex is_write_event u"
  by (induction u) (auto simp: quiet_def)

lemma sample_quietly:
  "quietly (admit_rollout_members sample_rollout_providers sample_request (Some [''core-02''])) t
     (sample_population, None, sample_rollout_intent, [sample_admitted])"
  "quietly (admitted_reference sample_rollout_providers message (sample_child, sample_admitted)) t
     (sample_reference ''1'')"
  "quietly (load_secret sample_rollout_providers (sample_admitted, sample_reference ''1'')) t sample_secret"
  using sample_admission sample_reference_given sample_secret_loaded
  by (auto intro!: quietlyI emits_intros) (metis fst_conv)+

lemma sample_unchanged:
  "members_unchanged [sample_child] [sample_admitted]"
  "selection_unchanged (Explicit_Body r) ds p e"
  by (simp_all add: members_unchanged_def sample_admitted_def sample_child_def selection_unchanged_def)

definition sample_seen :: preflight_child where
  "sample_seen = (case preflight_observation sample_sha sample_child (Plan_Result (sample_plan sample_core))
      (Plan_Result (sample_plan sample_core)) of Inr x \<Rightarrow> x | Inl _ \<Rightarrow> undefined)"

lemma sample_observation:
  "preflight_observation sample_sha sample_child (Plan_Result (sample_plan sample_core))
      (Plan_Result (sample_plan sample_core)) = Inr sample_seen"
  using sample_plan_facts(1)
  by (simp add: sample_seen_def preflight_observation_def result_valid.simps)

lemma sample_observed_again:
  assumes "\<not> list_ex is_write_event t"
  shows "quietly (observe_child sample_sha sample_codec sample_rollout_providers ''CHG-1''
     (sample_child, sample_admitted, sample_secret)) t sample_seen"
proof -
  obtain r where r: "fst (plan_again sample_sha sample_rollout_providers ''CHG-1'' sample_admitted
      sample_secret t) = Inr r" "fresh_result r = Inr (Plan_Result (sample_plan sample_core))"
    using sample_planned_before [OF assms] by blast
  show ?thesis
    unfolding observe_child_def prod.case
    by (rule quietly_bind [OF quietlyI [OF r(1) emits_plan_again]])
      (simp add: r(2) sample_child_result sample_observation)
qed


lemma sample_seen_fields:
  "pf_device_identity sample_seen = ''netbox:dcim.device:1''"
  "pf_interface_identity sample_seen = ''netbox:dcim.interface:21''"
  "pf_kind sample_seen = DEPLOYABLE"
  "pf_approved_artifact_digest sample_seen = sha256_identity sample_sha ''plan''"
  "pf_approved_result_digest sample_seen = pp_digest (sample_plan sample_core)"
  "pf_execution_basis_digest sample_seen = sha256_identity sample_sha
     (canonical_json_bytes (JObj (execution_basis (Plan_Result (sample_plan sample_core)))))"
  "pf_observed_at sample_seen = pp_created_at (sample_plan sample_core)"
proof -
  have "preflight_observation sample_sha sample_child a b = Inr q \<Longrightarrow>
    q = \<lparr>pf_device_identity = ''netbox:dcim.device:1'', pf_interface_identity = ''netbox:dcim.interface:21'',
      pf_kind = DEPLOYABLE, pf_approved_artifact_digest = sha256_identity sample_sha ''plan'',
      pf_approved_result_digest = pp_digest (sample_plan sample_core),
      pf_execution_basis_digest =
        sha256_identity sample_sha (canonical_json_bytes (JObj (execution_basis b))),
      pf_observed_at = result_time b\<rparr>" for a b q
    by (auto simp: preflight_observation_def bindS_Inr_iff sample_child_shape)
      (auto simp: sample_child_def sample_interface_def)
  note e = this [OF sample_observation]
  show "pf_device_identity sample_seen = ''netbox:dcim.device:1''"
    "pf_interface_identity sample_seen = ''netbox:dcim.interface:21''" "pf_kind sample_seen = DEPLOYABLE"
    "pf_approved_artifact_digest sample_seen = sha256_identity sample_sha ''plan''"
    "pf_approved_result_digest sample_seen = pp_digest (sample_plan sample_core)"
    "pf_execution_basis_digest sample_seen = sha256_identity sample_sha
       (canonical_json_bytes (JObj (execution_basis (Plan_Result (sample_plan sample_core)))))"
    "pf_observed_at sample_seen = pp_created_at (sample_plan sample_core)"
    unfolding e by simp_all
qed

definition sample_passed :: rollout_preflight where
  "sample_passed = (let p = \<lparr>pf_parent_digest = ro_digest sample_parent,
      pf_promotion_digest = ra_promotion_digest sample_authorization,
      pf_authorization_digest = ra_digest sample_authorization, pf_children = [sample_seen], pf_digest = ''''\<rparr>
    in p\<lparr>pf_digest := preflight_digest sample_sha p\<rparr>)"

lemma sample_passed_valid:
  "passed_preflight sample_sha sample_parent sample_authorization [sample_seen] = Inr sample_passed"
proof -
  have "authorization_valid sample_sha sample_authorization = Inr ()"
    "ra_parent_digest sample_authorization = ro_digest sample_parent"
    using sample_authorizes by (simp_all add: authorizes_def)
  then have "sha256_pattern (ro_digest sample_parent)"
    "sha256_pattern (ra_promotion_digest sample_authorization)"
    "sha256_pattern (ra_digest sample_authorization)"
    by (auto simp: authorization_valid_def bindS_Inr_iff)
  moreover have "netbox_identity ''dcim.device'' ''netbox:dcim.device:1''"
    "netbox_identity ''dcim.interface'' ''netbox:dcim.interface:21''" by code_simp+
  moreover have "sha256_pattern (pp_digest (sample_plan sample_core))" using sample_child_facts by auto
  moreover have "dt_offset (pp_created_at (sample_plan sample_core)) \<noteq> None"
    by (simp add: sample_plan_fields Let_def unsigned_plan_def sample_time_def split: prod.splits)
  moreover have "preflight_digest sample_sha p = sha256_identity sample_sha ''''" for p
    by (simp add: preflight_digest_def sha256_identity_def sample_sha_def)
  ultimately show ?thesis
    using sample_digest
    by (simp add: passed_preflight_def rollout_preflight_valid_def preflight_child_valid_def
        sample_passed_def Let_def sample_seen_fields MAX_MEMBERS_def)
qed

lemma sample_preflight_passes:
  assumes "\<not> list_ex is_write_event t"
  shows "quietly (preflight_profiled_rollout sample_sha sample_rollout_codec (\<lambda>_. Inr sample_minted)
     sample_rollout_providers sample_inputs sample_authorization) t sample_passed"
proof -
  have sel: "body_change_id (Explicit_Body sample_rollout_intent) = ''CHG-1''"
    "rc_child sample_rollout_codec = sample_codec"
    by (simp_all add: sample_fields sample_rollout_codec_def)
  have seen: "quietly (bindE (mapE (observe_child sample_sha sample_codec sample_rollout_providers ''CHG-1'')
      [(sample_child, sample_admitted, sample_secret)])
      (\<lambda>seen. liftE (passed_preflight sample_sha sample_parent sample_authorization seen))) h sample_passed"
    if "\<not> list_ex is_write_event h" for h
    by (rule quietly_bind, rule quietly_map1, rule sample_observed_again)
      (use that sample_passed_valid in simp_all)
  show ?thesis
    unfolding preflight_profiled_rollout_def sample_inputs_sel
    by (rule quietly_lift [OF sample_approved_parent],
        unfold sel sample_parent_shape list.map sample_child_shape,
        rule quietly_bind [OF sample_quietly(1)], unfold prod.case, rule quietly_lift,
        simp add: sample_unchanged, unfold zip_Cons_Cons zip_Nil,
        rule quietly_bind, rule quietly_map1, rule sample_quietly(2), unfold zip_Cons_Cons zip_Nil,
        rule quietly_bind, rule quietly_map1, rule sample_quietly(3), unfold zip_Cons_Cons zip_Nil sel,
        rule seen)
      (use assms in \<open>simp add: unwritten_quiet\<close>)
qed

lemma sample_final_child:
  assumes "list_ex is_write_event t"
  shows "quietly (final_observations sample_sha sample_codec sample_rollout_providers ''CHG-1''
     [(sample_child, sample_admitted, sample_secret)]) t ([sample_compliant], None)"
proof -
  obtain r where r: "fst (plan_again sample_sha sample_rollout_providers ''CHG-1'' sample_admitted
      sample_secret t) = Inr r" "pr_plan r = None" "pr_compliance r = Some sample_compliant"
    using sample_planned_after [OF assms sample_compliance_ok] by blast
  have v: "profiled_compliance_valid sample_sha sample_compliant = Inr ()"
    using sample_compliance_ok
    by (auto simp: sample_compliance_def build_compliance_def bindS_Inr_iff Let_def split: option.splits)
  have d: "rf_desired_description (facts_of (Plan_Result (sample_plan sample_core))) = ''uplink''"
    using sample_child_facts by auto
  have "cr_desired_description sample_compliant = ''uplink''" by (simp add: sample_compliant_def)
  then have "proved_desired sample_sha sample_codec sample_child r = Inr sample_compliant"
    using r v d by (simp add: proved_desired_def sample_child_result del: facts_of.simps)
  then show ?thesis
    unfolding final_observations.simps final_child_def prod.case
    by (intro quietly_bind [where x = "Inr sample_compliant"]
        quietly_bind [OF quietly_try [OF quietlyI [OF r(1) emits_plan_again]]]) simp_all
qed


section \<open>The final validation\<close>

definition sample_final :: final_validation where
  "sample_final = (let v = \<lparr>fv_parent_digest = ro_digest sample_parent,
      fv_authorization_digest = ra_digest sample_authorization, fv_preflight_digest = pf_digest sample_passed,
      fv_selected_devices = [''netbox:dcim.device:1''], fv_observations = [sample_compliant],
      fv_status = PASSED, fv_failure = None, fv_digest = ''''\<rparr>
    in v\<lparr>fv_digest := final_validation_digest sample_sha v\<rparr>)"

lemma sample_passed_fields:
  "pf_parent_digest sample_passed = ro_digest sample_parent"
  "pf_authorization_digest sample_passed = ra_digest sample_authorization"
  "sha256_pattern (pf_digest sample_passed)"
  by (simp_all add: sample_passed_def Let_def preflight_digest_def sample_digest)

lemma sample_final_record:
  "final_record sample_sha sample_parent sample_authorization sample_passed [sample_compliant] None
     = Inr sample_final"
proof -
  have v: "profiled_compliance_valid sample_sha sample_compliant = Inr ()"
    using sample_compliance_ok
    by (auto simp: sample_compliance_def build_compliance_def bindS_Inr_iff Let_def split: option.splits)
  have "authorization_valid sample_sha sample_authorization = Inr ()"
    using sample_authorizes by (simp add: authorizes_def)
  then have a: "sha256_pattern (ra_digest sample_authorization)"
    by (auto simp: authorization_valid_def bindS_Inr_iff)
  have d: "netbox_identity ''dcim.device'' ''netbox:dcim.device:1''" by code_simp
  have p: "sha256_pattern (ro_digest sample_parent)"
    using sample_parent_valid by (auto simp: rollout_parent_valid_def bindS_Inr_iff)
  have c: "cr_device_identity sample_compliant = ''netbox:dcim.device:1''"
    by (simp add: sample_compliant_def)
  have dig: "final_validation_digest sample_sha v = sha256_identity sample_sha ''''" for v
    by (simp add: final_validation_digest_def sha256_identity_def sample_sha_def)
  show ?thesis
    using v a p d c sample_digest sample_passed_fields(3)
    by (simp add: final_record_def Let_def sample_final_def final_validation_valid_def
        sample_parent_shape sample_child_shape dig MAX_MEMBERS_def)
qed

lemma sample_final_passes:
  assumes "list_ex is_write_event t"
  shows "quietly (validate_rollout_final_state sample_sha sample_codec sample_rollout_providers
     sample_request sample_parent sample_authorization sample_passed) t sample_final"
proof -
  have "ra_parent_digest sample_authorization = ro_digest sample_parent"
    using sample_authorizes by (simp add: authorizes_def)
  then have admission: "quietly (failing ADMISSION (final_admission sample_rollout_providers sample_request
      sample_parent sample_authorization sample_passed)) h (Inr [sample_admitted])" for h
    unfolding failing_def final_admission_def
    by (intro quietly_bind [where x = "Inr [sample_admitted]"] quietly_try)
      (rule quietly_lift, simp add: sample_passed_fields, unfold sample_parent_shape list.map sample_child_shape,
       rule quietly_bind [OF sample_quietly(1)], simp_all add: sample_unchanged)
  have credentials: "quietly (failing CREDENTIAL (final_credentials sample_rollout_providers sample_parent
      [sample_admitted])) h (Inr [sample_secret])" for h
    unfolding failing_def final_credentials_def sample_parent_shape zip_Cons_Cons zip_Nil
    by (rule quietly_bind, rule quietly_try, rule quietly_bind, rule quietly_map1,
        rule sample_quietly(2), unfold zip_Cons_Cons zip_Nil, rule quietly_map1, rule sample_quietly(3)) simp
  have sel: "body_change_id (Explicit_Body sample_rollout_intent) = ''CHG-1''"
    by (simp_all add: sample_fields)
  have "quietly (final_evidence sample_sha sample_codec sample_rollout_providers sample_request sample_parent
      sample_authorization sample_passed) t ([sample_compliant], None)"
    unfolding final_evidence_def
    by (rule quietly_bind [OF admission], unfold sum.case, rule quietly_bind [OF credentials],
        unfold sum.case sample_parent_shape zip_Cons_Cons zip_Nil sel, rule sample_final_child)
      (use assms in \<open>simp add: unwritten_quiet\<close>)
  then show ?thesis
    unfolding validate_rollout_final_state_def
    by (rule quietly_bind) (simp add: sample_final_record)
qed


section \<open>A rollout whose evidence files cannot be written after the device was\<close>

definition sample_locks :: "revent lock_files" where
  "sample_locks = \<lparr>lk_event = (\<lambda>e. rollout_call (EvReserved e)), lk_root_private = (\<lambda>_. True),
     lk_open = (\<lambda>_ _. Inr ()), lk_inspect = (\<lambda>_ _. True), lk_mkdir = (\<lambda>_. Made),
     lk_flock = (\<lambda>_ _. Granted), lk_close = (\<lambda>_ _. Inr ())\<rparr>"

definition sample_rollout_observer :: "revent observer" where
  "sample_rollout_observer = \<lparr>os_event = (\<lambda>e. rollout_call (EvObserved e)),
     os_controller = (\<lambda>_. Inr ()), os_repository = (\<lambda>_. Inr ()),
     os_latest = (\<lambda>_ _. Inr (Some sample_revision)),
     os_collect = (\<lambda>_ _. Inr (sample_collection SUCCEEDED_Collection 20)),
     os_now = (\<lambda>_. noon 30), os_later = (\<lambda>_. noon 30),
     os_monotonic = (\<lambda>t. 10000000 * int (length t)), os_uuid = (\<lambda>_. ''u'')\<rparr>"

definition sample_world_of :: rollout_world where
  "sample_world_of = \<lparr>rw_rollout = sample_rollout_providers, rw_writer = sample_device_writer,
     rw_observer = sample_rollout_observer, rw_locks = sample_locks,
     rw_store = (\<lambda>_ _. Inr (sha256_identity sample_sha '''')),
     rw_read_child = (\<lambda>_ _. Inr (Plan_Result (sample_plan sample_core))),
     rw_read_record = (\<lambda>_ _. Inl (ValueError ''json'')),
     rw_file = (\<lambda>t _. if list_ex is_write_event t then Inl (OSError ''no space'') else Inr ()),
     rw_writer_factory = (\<lambda>_. Inr ()), rw_now = (\<lambda>_. sample_time)\<rparr>"

definition sample_attempt :: oxidized_observation where
  "sample_attempt = \<lparr>ob_request_id = ''r'', ob_requested_at = noon 10, ob_completed_at = Some (noon 30),
     ob_status = UNCHANGED, ob_before = Some sample_revision, ob_after = Some sample_revision,
     ob_failure = None\<rparr>"

lemma sample_attempt_valid: "observation_valid sample_attempt = Inr ()"
proof -
  have utc: "is_utc (noon s)" for s by (simp add: is_utc_def noon_def)
  note times = sample_instants [of 10] sample_instants [of 30]
  show ?thesis
    using sample_revision_valid utc times
    by (simp add: observation_valid_def revisions_valid_def chronology_checks_def success_checks_def
        finished_at_def same_revision_def successful_def sample_attempt_def sample_revision_def)
qed

lemma sample_captured:
  assumes "expected = None \<or> expected = Some sample_revision"
  shows "quietly (capture sample_setup sample_world_of (sample_plan sample_core) expected) t sample_attempt"
proof -
  have node: "node_for_target ''netbox:dcim.device:1'' = Inr ''netbox-device-1''" by code_simp
  have utc: "is_utc (noon s)" for s by (simp add: is_utc_def noon_def)
  note times = sample_instants [of 9] sample_instants [of 10] sample_instants [of 20]
    sample_instants [of 30]
  have d: "pp_device_identity (sample_plan sample_core) = ''netbox:dcim.device:1''"
    using sample_child_facts by (auto simp: sample_fields)
  have ob: "observed sample_attempt = Inr sample_attempt"
    by (simp add: observed_def sample_attempt_valid)
  have "fst (capture_target 3 (observer_of sample_world_of) ''netbox:dcim.device:1'' expected t)
      = Inr sample_attempt"
    using node utc times assms ob [unfolded sample_attempt_def]
    by (auto simp: capture_target_def capture_attempt_def latest_revision_def latest_or_none_def
        capture_collected_def bind_collection_result_def numeral_3_eq_3 settle_loop.simps
        revision_changed_def settled_def settlement_completed_at_def settlement_valid_def
        bound_attempt_def sample_world_of_def sample_rollout_observer_def observer_of_def
        sample_collection_def sample_revision_def sample_attempt_def REVISION_WAIT_SECONDS_def eff_simps)
  then have "fst (capture sample_setup sample_world_of (sample_plan sample_core) expected t) = Inr sample_attempt"
    using sample_plan_facts(1) d by (simp add: capture_def sample_setup_def)
  then show ?thesis by (rule quietlyI) (rule emits_capture)
qed


text \<open>A bound on the length of a JSON text: escaping makes a string at most six times longer, and sorting
  the keys keeps its length.\<close>

fun json_bound :: "json \<Rightarrow> nat" where
  "json_bound (JStr s) = 6 * length s + 2"
| "json_bound (JArr xs) = 2 + sum_list (map (\<lambda>x. Suc (json_bound x)) xs)"
| "json_bound (JObj kvs) = 2 + sum_list (map (\<lambda>kv. 6 * length (fst kv) + 4 + json_bound (snd kv)) kvs)"
| "json_bound j = length (json_print j)"

lemma length_quote: "length (quote s) \<le> 6 * length s + 2"
proof -
  have "length (esc c) \<le> 6" for c by (simp add: esc_def Let_def)
  then have "length (concat (map esc s)) \<le> 6 * length s"
    by (induction s) (auto intro: order_trans [OF add_mono])
  then show ?thesis by (simp add: quote_def)
qed

lemma length_sep: "length (sep xs) \<le> sum_list (map (\<lambda>x. Suc (length x)) xs)"
  by (induction xs rule: sep.induct) auto

lemma sum_list_sort: "sum_list (map f (sort_key k xs)) = (sum_list (map f xs) :: nat)"
proof -
  have "sum_list (map f (insort_key k x xs)) = (f x + sum_list (map f xs) :: nat)" for x xs
    by (induction xs) simp_all
  then show ?thesis by (induction xs) simp_all
qed

lemma json_bound_sort: "json_bound (sort_keys j) = json_bound j"
  by (induction j rule: sort_keys.induct) (simp_all add: comp_def sum_list_sort cong: map_cong)

lemma length_json: "length (json_print j) \<le> json_bound j"
proof (induction j rule: json_bound.induct)
  case (2 xs)
  then have "sum_list (map (\<lambda>x. Suc (length x)) (map json_print xs))
      \<le> sum_list (map (\<lambda>x. Suc (json_bound x)) xs)"
    by (auto simp: comp_def intro!: sum_list_mono)
  then show ?case using length_sep [of "map json_print xs"] by simp
next
  case (3 kvs)
  have "Suc (length (quote (fst kv) @ CHR '':'' # json_print (snd kv)))
      \<le> 6 * length (fst kv) + 4 + json_bound (snd kv)" if "kv \<in> set kvs" for kv
    using 3 [OF that] length_quote [of "fst kv"] by (cases kv) auto
  then have "sum_list (map (\<lambda>x. Suc (length x)) (map (\<lambda>kv. quote (fst kv) @ CHR '':'' # json_print (snd kv)) kvs))
      \<le> sum_list (map (\<lambda>kv. 6 * length (fst kv) + 4 + json_bound (snd kv)) kvs)"
    by (auto simp: comp_def intro!: sum_list_mono)
  then show ?case
    using length_sep [of "map (\<lambda>kv. quote (fst kv) @ CHR '':'' # json_print (snd kv)) kvs"] by simp
qed (use length_quote in simp_all)

lemma sample_evidence_size:
  "length (canonical_json_bytes (observation_json sample_attempt)) \<le> MAX_ATTEMPT_BYTES"
  "canonical_json_bytes (observation_json sample_attempt) \<noteq> []"
proof -
  have t: "length (isoformat (noon 10)) = 20" "length (isoformat (noon 30)) = 20"
    "length (isoformat (noon 0)) = 20"
    by code_simp+
  have "json_bound (observation_json sample_attempt) \<le> MAX_ATTEMPT_BYTES"
    by (simp add: observation_json_def sample_attempt_def revision_json_def sample_revision_def
        time_json_def t MAX_ATTEMPT_BYTES_def)
  then show "length (canonical_json_bytes (observation_json sample_attempt)) \<le> MAX_ATTEMPT_BYTES"
    using length_json [of "sort_keys (observation_json sample_attempt)"]
    by (simp add: canonical_json_bytes_def json_bound_sort)
  show "canonical_json_bytes (observation_json sample_attempt) \<noteq> []"
    by (simp add: canonical_json_bytes_def observation_json_def)
qed

lemma sample_attempt_persisted:
  "fst (persist_attempt sample_world_of name sample_attempt t)
     = (if list_ex is_write_event t then Inl (OSError ''no space'') else Inr ())"
  using sample_attempt_valid sample_evidence_size
  by (simp add: persist_attempt_def write_file_def eff_simps sample_world_of_def)

lemma sample_pre:
  assumes "\<not> list_ex is_write_event t"
  shows "quietly (capture_pre sample_setup sample_world_of (sample_plan sample_core) name) t sample_attempt"
proof -
  have d: "pp_device_identity (sample_plan sample_core) = ''netbox:dcim.device:1''"
    using sample_child_facts by (auto simp: sample_fields)
  have "node_for_target ''netbox:dcim.device:1'' = Inr ''netbox-device-1''" by code_simp
  then have v: "validate_pre ''netbox:dcim.device:1'' sample_attempt = Inr ()"
    using sample_attempt_valid
    by (simp add: validate_pre_def sample_attempt_def successful_def managed_path_def sample_revision_def)
  have p: "quietly (persist_attempt sample_world_of name sample_attempt) h ()"
    if "\<not> list_ex is_write_event h" for h
    by (rule quietlyI) (use that sample_attempt_persisted emits_evidence(1) in simp_all)
  show ?thesis
    unfolding capture_pre_def d
    by (rule quietly_bind, rule sample_captured, simp, rule quietly_lift [OF v], rule quietly_bind, rule p)
      (use assms in \<open>simp_all add: unwritten_quiet\<close>)
qed

lemma sample_fleet_world:
  "answers sample_fleet (sample_plan sample_core) sample_core (sample_reference ''1'') sample_credentials"
  "cisco_world sample_fleet sample_device_writer sample_credentials
     (sample_state sample_core (Some ''old'')) (sample_state sample_core (Some ''uplink'')) (sample_result Succeeded)"
proof -
  have "admitted_device sample_core" unfolding admitted_device_def by code_simp
  then show "answers sample_fleet (sample_plan sample_core) sample_core (sample_reference ''1'') sample_credentials"
    by (simp add: answers_def sample_fleet_def sample_providers_def sample_plan_facts sample_plan_cisco
        sample_interface_name)
      (simp add: sample_reference_def)
qed (simp add: cisco_world_def sample_fleet_def sample_providers_def sample_device_writer_def
    sample_description_def)


section \<open>The run of the sample child\<close>

lemma sample_setup_sel:
  "rs_sha sample_setup = sample_sha" "rs_codec sample_setup = sample_rollout_codec"
  "rs_inputs sample_setup = sample_inputs" "rs_promotion sample_setup = (\<lambda>_. Inr sample_minted)"
  "rv_member sample_rollout_providers = sample_fleet" "rw_writer sample_world_of = sample_device_writer"
  "rw_rollout sample_world_of = sample_rollout_providers" "rc_child sample_rollout_codec = sample_codec"
  "ap_parent sample_approval = sample_parent" "ap_authorization sample_approval = sample_authorization"
  by (simp_all add: sample_setup_def sample_world_of_def sample_rollout_providers_def
      sample_rollout_codec_def sample_approval_def)

lemma sample_child_executed:
  assumes t: "\<not> list_ex is_write_event t"
  shows "\<exists>r u. execute_child sample_setup sample_world_of (sample_plan sample_core) t = (Inr r, t @ u)
     \<and> xr_final_outcome r = SUCCEEDED \<and> list_ex is_write_event u"
proof -
  let ?p = "sample_plan sample_core"
  let ?w = "rollout_call (EvWriter (Inr ()))"
  let ?log = "child_log sample_setup sample_world_of ?p (t @ [?w])"
  have diffs: "diffs_are_digests sample_device_writer"
    using sample_writer_diffs [of Succeeded]
    by (simp add: diffs_are_digests_def sample_device_writer_def sample_writer_def)
  have "\<exists>r. fst (child_run sample_setup sample_world_of ?p (t @ [?w])) = Inr r
      \<and> xr_final_outcome r = SUCCEEDED"
    unfolding sample_setup_sel
    by (rule honest_run [OF sample_plan_facts(1) sample_plan_cisco(1) sample_fleet_world sample_states(1,2)])
      (use t in \<open>simp_all add: sample_plan_facts sample_names sample_result_def\<close>)
  then obtain r where r: "child_run sample_setup sample_world_of ?p (t @ [?w]) = (Inr r, (t @ [?w]) @ ?log)"
    "xr_final_outcome r = SUCCEEDED"
    using child_run_log [of sample_setup sample_world_of ?p "t @ [?w]"] by (metis prod.collapse)
  then have run: "fst (execute_profiled_plan sample_sha sample_fleet sample_device_writer ?p (pp_digest ?p)
      (t @ [?w])) = Inr r"
    by (simp add: sample_setup_sel)
  obtain s where s: "verdict ?p s = Some (xr_final_outcome r)" "change_record_valid r = Inr ()"
    "bound_record ?p r" "write_law ?p s (filter is_write_event ?log)"
    by (rule execution_record [OF sample_plan_facts(1) diffs run]) (simp add: sample_setup_sel)
  have v: "verify_profiled_record_plan sample_sha r ?p = Inr ()"
    by (rule bound_record_verifies [OF sample_plan_facts(1) s(2,3)])
  have "\<not> is_junos_plan ?p" using sample_plan_cisco(1) by (auto simp: is_junos_plan_def cisco_plan_def)
  with s(1,4) r(2) have "filter is_write_event ?log \<noteq> []"
    by (auto simp: verdict_inv write_shapes)
  then have "list_ex is_write_event ?log" by (auto simp: filter_empty_conv list_ex_iff)
  moreover have "make_writer sample_world_of t = (Inr (), t @ [?w])"
    by (simp add: make_writer_def eff_simps sample_world_of_def)
  then have "execute_child sample_setup sample_world_of ?p t = (Inr r, t @ ?w # ?log)"
    using r(1) v by (simp add: execute_child_def bindE_def as_rio_def sample_setup_sel liftE_def ret_def)
  ultimately show ?thesis using r(2) by (intro exI [of _ r] exI [of _ "?w # ?log"]) simp
qed


abbreviation sample_ended :: progress where
  "sample_ended \<equiv> \<lparr>pg_attempted = [''netbox:dcim.device:1''], pg_successful = [''netbox:dcim.device:1''],
     pg_children = [], pg_chronologies = [], pg_member = Some ''netbox:dcim.device:1'', pg_outcome = None,
     pg_reason = Some CHILD_EVIDENCE, pg_failed = True\<rparr>"

lemma sample_approved_plan:
  "approved_plan sample_sha sample_codec [sample_child] ''netbox:dcim.device:1''
     = Inr (sample_child, sample_plan sample_core)"
proof -
  have "cd_decode sample_codec DEPLOYABLE (ch_artifact_json sample_child)
      = Inr (Plan_Result (sample_plan sample_core))"
    "ch_artifact_digest sample_child = sha256_identity sample_sha (ch_artifact_json sample_child)"
    "ch_result_digest sample_child = pp_digest (sample_plan sample_core)"
    by (simp_all add: sample_child_def sample_codec_def)
  then show ?thesis
    using sample_plan_facts(1) sample_child_result
    by (simp add: approved_plan_def dict_get_def sample_child_shape)
qed

lemma sample_post:
  assumes "list_ex is_write_event t"
  shows "\<exists>u. capture_post sample_setup sample_world_of (sample_plan sample_core) name sample_attempt t
     = (Inr (Some sample_attempt, True), t @ u) \<and> list_all quiet u"
proof -
  have after: "ob_after sample_attempt = Some sample_revision" by (simp add: sample_attempt_def)
  have "quietly (attempt_any (persist_attempt sample_world_of name sample_attempt)) h None"
    if "list_ex is_write_event h" for h
  proof (rule quietlyI)
    show "fst (attempt_any (persist_attempt sample_world_of name sample_attempt) h) = Inr None"
      using sample_attempt_persisted [of name h] that
      by (auto simp: handled_def bindE_def tryE_def ret_def split: prod.split)
  qed (auto intro!: emits_intros)
  note lost = this
  have "quietly (capture_post sample_setup sample_world_of (sample_plan sample_core) name sample_attempt) t
      (Some sample_attempt, True)"
    unfolding capture_post_def after
    by (rule quietly_bind, rule quietly_handled, rule sample_captured, simp, unfold option.case,
        rule quietly_bind, rule lost) (use assms in simp_all)
  then show ?thesis by (simp add: quietly_def)
qed

lemma sample_unrecorded:
  assumes "list_ex is_write_event t"
  shows "\<exists>u. record_child sample_setup sample_world_of sample_approval sample_passed sample_child cohort index
      order sample_attempt (Some sample_attempt) (Some r) g t
     = (Inr (evidence_failure (child_identity sample_child) g), t @ u)"
proof -
  have "write_file sample_world_of name t = (Inl (OSError ''no space''),
      t @ [rollout_call (EvFile name (Inl (OSError ''no space'')))])" for name
    using assms by (simp add: write_file_def eff_simps sample_world_of_def)
  then show ?thesis
    by (simp add: record_child_def persist_child_audit_def persist_execution_def Let_def bindE_def
        handled_def tryE_def ret_def)
qed

lemma sample_step:
  assumes "\<not> list_ex is_write_event t"
  shows "\<exists>u. rollout_step sample_setup sample_world_of sample_approval sample_passed 0
      (''netbox:dcim.device:1'', CANARY, 0) (no_progress None) t = (Inr sample_ended, t @ u)"
proof -
  let ?id = "child_record_id (rs_uuid5 sample_setup) (run_id sample_setup) ''netbox:dcim.device:1''"
  obtain a where a: "attempt_any (capture_pre sample_setup sample_world_of (sample_plan sample_core)
      (?id @ ''-pre.json'')) t = (Inr (Some sample_attempt), t @ a)" "list_all quiet a"
    using quietly_handled [OF sample_pre [OF assms]] by (auto simp: quietly_def)
  obtain r b where b: "execute_child sample_setup sample_world_of (sample_plan sample_core) (t @ a)
      = (Inr r, (t @ a) @ b)" "xr_final_outcome r = SUCCEEDED" "list_ex is_write_event b"
    using sample_child_executed [of "t @ a"] assms a(2) by (auto simp: unwritten_quiet)
  obtain c where c: "capture_post sample_setup sample_world_of (sample_plan sample_core)
      (?id @ ''-post.json'') sample_attempt (t @ a @ b) = (Inr (Some sample_attempt, True), (t @ a @ b) @ c)"
    using sample_post [of "t @ a @ b"] b(3) by auto
  let ?g = "evidence_failure ''netbox:dcim.device:1'' (entered ''netbox:dcim.device:1'' (Some r) (no_progress None))"
  obtain d where d: "record_child sample_setup sample_world_of sample_approval sample_passed sample_child CANARY 0
      0 sample_attempt (Some sample_attempt) (Some r) ?g (t @ a @ b @ c)
     = (Inr (evidence_failure ''netbox:dcim.device:1'' ?g), (t @ a @ b @ c) @ d)"
    using sample_unrecorded [of "t @ a @ b @ c" CANARY 0 0 r ?g, unfolded sample_child_shape] b(3) by auto
  have run: "attempt_any (execute_child sample_setup sample_world_of (sample_plan sample_core)) (t @ a)
      = (Inr (Some r), t @ a @ b)"
    using b(1) by (simp add: handled_def bindE_def tryE_def ret_def)
  have "evidence_failure ''netbox:dcim.device:1'' ?g = sample_ended"
    using b(2) by (simp add: evidence_failure_def entered_def no_progress_def)
  with a(1) run c d show ?thesis
    using sample_approved_plan
    by (simp add: rollout_step_def sample_setup_sel sample_parent_shape bindE_def Let_def liftE_def)
qed


section \<open>The whole run\<close>

lemma sample_reportable: "reportable sample_setup sample_world_of sample_approval"
  using sample_authorizes sample_sha_hex
  by (simp add: reportable_def approved_def sample_setup_sel distinct_records_def sample_parent_shape
      deployables_def sample_child_shape)
    (simp add: sample_setup_def sample_world_of_def sample_time_def)

lemma sample_run_ended:
  "run_ended sample_setup ([''netbox:dcim.device:1''] @ concat []) (Some sample_passed) sample_ended None"
  by (simp add: run_ended_def sample_passed_fields sound_progress_def standing_def stopped_last_def traced_def)

lemma sample_published:
  "\<exists>R u. publish_record sample_setup sample_world_of sample_approval (Some sample_passed)
      [''netbox:dcim.device:1''] [] sample_ended None t = (Inr R, t @ u)
    \<and> au_attempted R = [''netbox:dcim.device:1''] \<and> au_successful R = [''netbox:dcim.device:1'']"
proof -
  have r: "approved sample_setup sample_approval" "rs_build_number sample_setup > 0"
    "hex_digest (rs_sha sample_setup)" "dt_offset (rw_now sample_world_of t) \<noteq> None"
    using sample_reportable by (simp_all add: reportable_def sample_setup_def)
  have c: "ro_cohorts (ap_parent sample_approval) = Some ([''netbox:dcim.device:1''], [])"
    by (simp add: sample_setup_sel sample_parent_shape)
  have d: "distinct_records sample_setup ([''netbox:dcim.device:1''] @ concat [])"
    by (simp add: distinct_records_def)
  obtain R x where R: "rollout_audit_signed (rs_sha sample_setup) (rs_uuid5 sample_setup)
      (rollout_audit_of sample_setup sample_approval sample_uuid sample_uuid (rw_now sample_world_of t)
        (Some sample_passed) [''netbox:dcim.device:1''] [] sample_ended None) = Inr R"
    "R = (rollout_audit_of sample_setup sample_approval sample_uuid sample_uuid (rw_now sample_world_of t)
        (Some sample_passed) [''netbox:dcim.device:1''] [] sample_ended None)\<lparr>au_digest := x\<rparr>"
    using ended_record_accepted [OF sample_run_ended r(1) c r(2) d r(4,3)] by blast
  have u: "rs_uuid sample_setup (rs_pipeline_id sample_setup) = Inr sample_uuid"
    "rs_uuid sample_setup (ra_unblocker_id (ap_authorization sample_approval)) = Inr sample_uuid"
    by (simp_all add: sample_setup_def sample_approval_def sample_authorization_def)
  have "publish_record sample_setup sample_world_of sample_approval (Some sample_passed)
      [''netbox:dcim.device:1''] [] sample_ended None t
    = (Inr R, t @ [rollout_call (EvStore (Persist_Record (au_record_id R) (au_digest R))
        (Inr (sha256_identity sample_sha '''')))])"
    by (simp add: publish_record_def u R(1) bindE_def liftE_def store_def askE_def ret_def)
      (simp add: sample_world_of_def)
  moreover have "au_attempted R = [''netbox:dcim.device:1'']" "au_successful R = [''netbox:dcim.device:1'']"
    unfolding R(2) by (simp_all add: rollout_audit_of_def Let_def)
  ultimately show ?thesis by blast
qed

lemma sample_reserved:
  assumes "\<not> list_ex is_write_event t"
  shows "\<exists>R u. reserved_rollout sample_setup sample_world_of sample_approval t = (Inr R, t @ u)
    \<and> au_attempted R = [''netbox:dcim.device:1''] \<and> au_successful R = [''netbox:dcim.device:1'']"
proof -
  have st: "quietly (attempt_any (store sample_world_of call)) h (Some (sha256_identity sample_sha ''''))"
    for call h
    by (rule quietly_handled, rule quietlyI [OF _ emits_world(1)])
      (simp add: store_def askE_def sample_world_of_def)
  have "quietly (preflight_stage sample_setup sample_world_of sample_approval) t (Some sample_passed, None)"
    unfolding preflight_stage_def sample_setup_sel
    by (rule quietly_bind, rule quietly_handled, rule sample_preflight_passes [OF assms], unfold option.case,
        rule quietly_bind, rule st) simp
  then obtain a where a: "preflight_stage sample_setup sample_world_of sample_approval t
      = (Inr (Some sample_passed, None), t @ a)" "list_all quiet a"
    by (auto simp: quietly_def)
  obtain b where b: "rollout_step sample_setup sample_world_of sample_approval sample_passed 0
      (''netbox:dcim.device:1'', CANARY, 0) (no_progress None) (t @ a) = (Inr sample_ended, (t @ a) @ b)"
    using sample_step [of "t @ a"] assms a(2) by (auto simp: unwritten_quiet)
  obtain R c where c: "publish_record sample_setup sample_world_of sample_approval (Some sample_passed)
      [''netbox:dcim.device:1''] [] sample_ended None ((t @ a) @ b) = (Inr R, ((t @ a) @ b) @ c)"
    "au_attempted R = [''netbox:dcim.device:1'']" "au_successful R = [''netbox:dcim.device:1'']"
    using sample_published by blast
  have "pg_reason (no_progress None) = None" by (simp add: no_progress_def)
  then have "reserved_rollout sample_setup sample_world_of sample_approval t = (Inr R, t @ a @ b @ c)"
    using a(1) b c(1) by (simp add: reserved_rollout_def bindE_def sample_setup_sel sample_parent_shape
        cohort_list_def ret_def)
  with c(2,3) show ?thesis by blast
qed


lemma sample_store_prepared:
  "quietly (prepare_store sample_setup sample_world_of sample_approval) t ()"
proof -
  have st: "quietly (store sample_world_of call) h (sha256_identity sample_sha '''')" for call h
    by (rule quietlyI [OF _ emits_world(1)]) (simp add: store_def askE_def sample_world_of_def)
  have rd: "quietly (read_child sample_world_of ref) h (Plan_Result (sample_plan sample_core))" for ref h
    by (rule quietlyI [OF _ emits_world(2)]) (simp add: read_child_def askE_def sample_world_of_def)
  have child: "quietly (persist_approved_child sample_setup sample_world_of sample_child) h ()" for h
    unfolding persist_approved_child_def sample_setup_sel
    by (rule quietly_bind [OF st], rule quietly_lift [OF sample_child_result], rule quietly_bind [OF st],
        rule quietly_bind [OF rd]) simp
  show ?thesis
    unfolding prepare_store_def sample_setup_sel sample_parent_shape
    by (rule quietly_bind [OF st], rule quietly_bind [OF st], rule quietly_bind [OF st],
        rule quietly_bind [OF st], rule quietly_bind, rule quietly_map1, rule child) simp
qed

lemma sample_reservation:
  "with_reservation (locks_of sample_world_of) [''netbox:dcim.device:1''] body t
     = (case body (t @ u) of (q, h) \<Rightarrow> (q, h @ v))"
  if "u = map (\<lambda>e. rollout_call (EvReserved e)) [EvOpen Root_Directory (Inr ()), EvInspect Root_Directory True,
        EvMkdir Made, EvOpen Lock_Directory (Inr ()), EvInspect Lock_Directory True,
        EvOpen (lock_file ''netbox:dcim.device:1'') (Inr ()), EvInspect (lock_file ''netbox:dcim.device:1'') True,
        EvFlock (lock_file ''netbox:dcim.device:1'') Granted]"
    and "v = map (\<lambda>e. rollout_call (EvReserved e)) [EvClose (lock_file ''netbox:dcim.device:1'') (Inr ()),
        EvClose Lock_Directory (Inr ()), EvClose Root_Directory (Inr ())]"
  for body t u v
proof -
  have "netbox_identity ''dcim.device'' ''netbox:dcim.device:1''" by code_simp
  then have r: "reservation_identities [''netbox:dcim.device:1''] = Inr ()"
    by (simp add: reservation_identities_def MAX_MEMBERS_def)
  show ?thesis
    unfolding that
    by (simp add: with_reservation_def r acquire_def open_fd_def inspect_fd_def make_directory_def
        flock_fd_def close_fd_def locks_of_def sample_world_of_def sample_locks_def eff_simps Let_def
        split: prod.split sum.split)
qed

lemma sample_rollout_run:
  "\<exists>R. fst (execute_rollout sample_setup sample_world_of (rm_digest sample_minted)
       (sha256_identity sample_sha ''promotion'') sample_uuid []) = Inr R
     \<and> au_attempted R = [''netbox:dcim.device:1''] \<and> au_successful R = [''netbox:dcim.device:1'']"
proof -
  have read: "read_profiled_rollout sample_sha sample_rollout_codec (ai_parent_bytes sample_inputs)
      = Inr sample_parent"
    using sample_parent_valid
    by (simp add: read_profiled_rollout_def sample_inputs_sel sample_rollout_codec_def)
  have sel: "ra_selected_devices sample_authorization = [''netbox:dcim.device:1'']"
    using sample_authorizes by (simp add: authorizes_def sample_parent_shape sample_child_shape)
  obtain b where b: "prepare_store sample_setup sample_world_of sample_approval [] = (Inr (), b)"
    "list_all quiet b"
    using sample_store_prepared [of "[]"] by (auto simp: quietly_def)
  define u where "u = map (\<lambda>e. rollout_call (EvReserved e)) [EvOpen Root_Directory (Inr ()),
        EvInspect Root_Directory True, EvMkdir Made, EvOpen Lock_Directory (Inr ()),
        EvInspect Lock_Directory True, EvOpen (lock_file ''netbox:dcim.device:1'') (Inr ()),
        EvInspect (lock_file ''netbox:dcim.device:1'') True,
        EvFlock (lock_file ''netbox:dcim.device:1'') Granted]"
  have "\<not> list_ex is_write_event (b @ u)" using b(2) by (simp add: unwritten_quiet u_def)
  then obtain R c where R: "reserved_rollout sample_setup sample_world_of sample_approval (b @ u)
      = (Inr R, (b @ u) @ c)" "au_attempted R = [''netbox:dcim.device:1'']"
    "au_successful R = [''netbox:dcim.device:1'']"
    using sample_reserved by blast
  have "fst (with_reservation (locks_of sample_world_of) [''netbox:dcim.device:1'']
      (reserved_rollout sample_setup sample_world_of sample_approval) b) = Inr R"
    using sample_reservation [OF u_def refl, of "reserved_rollout sample_setup sample_world_of sample_approval" b]
      R(1) by simp
  then have "fst (execute_rollout sample_setup sample_world_of (rm_digest sample_minted)
       (sha256_identity sample_sha ''promotion'') sample_uuid []) = Inr R"
    using sample_authorize read b(1)
    by (simp add: execute_rollout_def sample_setup_sel bindE_def liftE_def sel Let_def
        sample_approval_def [symmetric])
  with R(2,3) show ?thesis by blast
qed

end
