(* ===== verification/Rollout_Freshness.thy ===== *)
theory Rollout_Freshness
  imports Rollout_Validation_Laws
begin

text \<open>
  Where the observations of a preflight and of a final validation come from: each is the result of
  one planning run of that call, whose calls are a segment of its log of their own, after the
  credentials were loaded and ending in the read of the device.
\<close>

section \<open>Runs of an effect and their segments of the log\<close>

lemma bindE_InrE:
  assumes "bindE m f t = (Inr y, t')"
  obtains x s where "m t = (Inr x, s)" and "f x s = (Inr y, t')"
  using assms by (auto simp: bindE_def split: prod.splits sum.splits)

lemma pure_Inr [simp]:
  "liftE r t = (Inr x, s) \<longleftrightarrow> r = Inr x \<and> s = t" "raise e t \<noteq> (Inr x, s)" "ret y t = (Inr x, s) \<longleftrightarrow> x = y \<and> s = t"
  by (auto simp: eff_simps split: sum.splits)

text \<open>\<open>yields m P\<close>: when \<open>m\<close> returns, its log grew by a segment, and history, segment and result are
  related.\<close>

definition yields ::
    "('s, 'e, 'a) eff \<Rightarrow> ('s list \<Rightarrow> 's list \<Rightarrow> 'a \<Rightarrow> bool) \<Rightarrow> bool" where
  "yields m P \<longleftrightarrow> (\<forall>t t' x. m t = (Inr x, t') \<longrightarrow> (\<exists>u. t' = t @ u \<and> P t u x))"

lemma yieldsD: "yields m P \<Longrightarrow> m t = (Inr x, t') \<Longrightarrow> \<exists>u. t' = t @ u \<and> P t u x"
  by (simp add: yields_def)

lemma emits_segment: "emits Q m \<Longrightarrow> m t = (r, t') \<Longrightarrow> \<exists>u. t' = t @ u"
  by (metis emits_def snd_conv)

text \<open>One element after another, each on its own segment.\<close>

fun in_turn ::
    "('x \<Rightarrow> 's list \<Rightarrow> 's list \<Rightarrow> 'y \<Rightarrow> bool) \<Rightarrow> 's list \<Rightarrow> 'x list \<Rightarrow> 's list list \<Rightarrow> 'y list \<Rightarrow> bool" where
  "in_turn P t [] [] [] = True"
| "in_turn P t (x # xs) (w # ws) (y # ys) = (P x t w y \<and> in_turn P (t @ w) xs ws ys)"
| "in_turn P t _ _ _ = False"

lemma in_turn_mapE:
  assumes "\<And>x. x \<in> set xs \<Longrightarrow> yields (f x) (P x)" and "mapE f xs t = (Inr ys, t')"
  shows "\<exists>ws. t' = t @ concat ws \<and> in_turn P t xs ws ys"
  using assms
proof (induction xs arbitrary: t ys)
  case Nil
  then show ?case by (auto intro!: exI [of _ "[]"])
next
  case (Cons x xs)
  from Cons.prems(2) obtain y s zs where y: "f x t = (Inr y, s)" "mapE f xs s = (Inr zs, t')"
    "ys = y # zs"
    by (auto elim!: bindE_InrE)
  have "yields (f x) (P x)" using Cons.prems(1) by simp
  from yieldsD [OF this y(1)] obtain w where w: "s = t @ w" "P x t w y" by blast
  obtain ws where "t' = s @ concat ws" "in_turn P s xs ws zs"
    using Cons.IH [OF _ y(2)] Cons.prems(1) by auto
  with w y(3) show ?case by (intro exI [of _ "w # ws"]) simp
qed

lemma in_turn_all2:
  "in_turn P t xs ws ys \<Longrightarrow> list_all2 (\<lambda>x y. \<exists>h w. P x h w y \<and> set w \<subseteq> set (concat ws)) xs ys"
proof (induction P t xs ws ys rule: in_turn.induct)
  case (2 P t x xs w ws y ys)
  then have "list_all2 (\<lambda>x y. \<exists>h w'. P x h w' y \<and> set w' \<subseteq> set (concat ws)) xs ys" by simp
  then have "list_all2 (\<lambda>x y. \<exists>h w'. P x h w' y \<and> set w' \<subseteq> set (concat (w # ws))) xs ys"
    by (rule list_all2_mono) auto
  with 2 show ?case by auto
qed simp_all

lemma in_turn_lengths: "in_turn P t xs ws ys \<Longrightarrow> length ws = length xs \<and> length ys = length xs"
  by (induction P t xs ws ys rule: in_turn.induct) simp_all

lemma in_turn_map:
  "in_turn (\<lambda>z. P (g z)) t zs ws ys \<Longrightarrow> in_turn P t (map g zs) ws ys"
  by (induction "\<lambda>z. P (g z)" t zs ws ys rule: in_turn.induct) simp_all

text \<open>By position: what \<open>in_turn\<close> says of the \<open>i\<close>-th element.\<close>

lemma in_turn_nth:
  "in_turn P t xs ws ys \<Longrightarrow> i < length xs
     \<Longrightarrow> P (xs ! i) (t @ concat (take i ws)) (ws ! i) (ys ! i)"
proof (induction P t xs ws ys arbitrary: i rule: in_turn.induct)
  case (2 P t x xs w ws y ys)
  then show ?case by (cases i) auto
qed simp_all

section \<open>One planning run\<close>

fun result_description :: "child_result \<Rightarrow> string option" where
  "result_description (Plan_Result p) = pp_current_description p"
| "result_description (Compliance_Result q) = Some (cr_observed_description q)"

lemma plan_again_run:
  assumes "plan_again sha rv ch (m, d, i, op, au) (d, ref, k) t = (Inr planned, t')"
  shows "\<exists>w l. t' = t @ w @ [EvCollect l (si_name i) (Inr (pr_state planned))]
      \<and> live_read_only_target d = Inr l"
    and "pr_plan planned = Some p
      \<Longrightarrow> pp_device_identity p = dv_device_identity d \<and> pp_current_description p = is_description (pr_state planned)"
    and "pr_compliance planned = Some q \<Longrightarrow> cr_device_identity q = dv_device_identity d
        \<and> is_description (pr_state planned) = Some (cr_observed_description q)"
proof -
  from assms obtain l where l: "live_read_only_target d = Inr l"
    by (auto simp: plan_again_def plan_profiled_change_def eff_simps provider_calls
        resolved_providers_def loaded_providers_def split: sum.splits prod.splits if_splits)
  from assms l show "\<exists>w l. t' = t @ w @ [EvCollect l (si_name i) (Inr (pr_state planned))]
      \<and> live_read_only_target d = Inr l"
    by (auto simp: plan_again_def plan_profiled_change_def eff_simps provider_calls timestamp_def
        resolved_providers_def loaded_providers_def split: sum.splits prod.splits if_splits)
  have plan: "build_profiled_plan sha intent d i st c time = Inr p \<Longrightarrow>
      pp_device_identity p = dv_device_identity d \<and> pp_current_description p = is_description st"
    for intent st c time p i
  proof -
    have "pp_device_identity (unsigned_plan intent d i st c time a l) = dv_device_identity d"
      "pp_current_description (unsigned_plan intent d i st c time a l) = is_description st" for a l
      by (simp_all add: unsigned_plan_def split: prod.split)
    then show "build_profiled_plan sha intent d i st c time = Inr p \<Longrightarrow>
      pp_device_identity p = dv_device_identity d \<and> pp_current_description p = is_description st"
      by (auto simp: build_profiled_plan_def bindS_Inr_iff Let_def)
  qed
  have compliant: "build_compliance sha intent d i st c time = Inr q \<Longrightarrow>
      cr_device_identity q = dv_device_identity d \<and> is_description st = Some (cr_observed_description q)"
    for intent st c time q i
    by (auto simp: build_compliance_def bindS_Inr_iff Let_def split: option.splits)
  show "pr_plan planned = Some p
      \<Longrightarrow> pp_device_identity p = dv_device_identity d \<and> pp_current_description p = is_description (pr_state planned)"
    using assms
    by (auto simp: plan_again_def plan_profiled_change_def eff_simps provider_calls timestamp_def
        resolved_providers_def loaded_providers_def dest!: plan split: sum.splits prod.splits if_splits)
  show "pr_compliance planned = Some q \<Longrightarrow> cr_device_identity q = dv_device_identity d
        \<and> is_description (pr_state planned) = Some (cr_observed_description q)"
    using assms
    by (auto simp: plan_again_def plan_profiled_change_def eff_simps provider_calls timestamp_def
        resolved_providers_def loaded_providers_def dest!: compliant split: sum.splits prod.splits if_splits)
qed

text \<open>A fresh planning of the child: the run of the planner on the segment \<open>w\<close> after the history \<open>h\<close>,
  with the credentials loaded in \<open>v\<close>, returned \<open>planned\<close>; its last call read the state of the
  child's interface from the child's device.\<close>

definition planned_afresh ::
    "(string \<Rightarrow> string) \<Rightarrow> rollout_providers \<Rightarrow> string \<Rightarrow> revent list \<Rightarrow> rollout_child \<Rightarrow> revent list
      \<Rightarrow> revent list \<Rightarrow> profiled_planning_result \<Rightarrow> bool" where
  "planned_afresh sha rv ch v c h w planned \<longleftrightarrow> (\<exists>m op au ref k w' l.
     EvLoad (ch_device c) (Inr k) \<in> set v
     \<and> plan_again sha rv ch (m, ch_device c, ch_interface c, op, au) (ch_device c, ref, k) h
         = (Inr planned, h @ w)
     \<and> live_read_only_target (ch_device c) = Inr l
     \<and> w = w' @ [EvCollect l (si_name (ch_interface c)) (Inr (pr_state planned))])"

text \<open>What the preflight records of it.\<close>

definition fresh_child ::
    "(string \<Rightarrow> string) \<Rightarrow> child_codec \<Rightarrow> rollout_providers \<Rightarrow> string \<Rightarrow> revent list \<Rightarrow> rollout_child
      \<Rightarrow> revent list \<Rightarrow> revent list \<Rightarrow> preflight_child \<Rightarrow> bool" where
  "fresh_child sha cd rv ch v c h w q \<longleftrightarrow> (\<exists>planned approved fresh.
     planned_afresh sha rv ch v c h w planned \<and> fresh_result planned = Inr fresh
     \<and> result_description fresh = is_description (pr_state planned)
     \<and> child_result_of sha cd c = Inr approved \<and> result_valid sha fresh = Inr ()
     \<and> execution_basis fresh = execution_basis approved
     \<and> pf_device_identity q = child_identity c \<and> pf_kind q = ch_kind c
     \<and> pf_approved_artifact_digest q = ch_artifact_digest c
     \<and> pf_approved_result_digest q = ch_result_digest c
     \<and> pf_execution_basis_digest q
         = sha256_identity sha (canonical_json_bytes (JObj (execution_basis approved)))
     \<and> pf_observed_at q = result_time fresh)"

text \<open>What the final validation keeps of it.\<close>

definition fresh_compliance ::
    "(string \<Rightarrow> string) \<Rightarrow> child_codec \<Rightarrow> rollout_providers \<Rightarrow> string \<Rightarrow> revent list \<Rightarrow> rollout_child
      \<Rightarrow> revent list \<Rightarrow> revent list \<Rightarrow> profiled_compliance_record \<Rightarrow> bool" where
  "fresh_compliance sha cd rv ch v c h w seen \<longleftrightarrow> (\<exists>planned approved.
     planned_afresh sha rv ch v c h w planned \<and> pr_compliance planned = Some seen
     \<and> is_description (pr_state planned) = Some (cr_observed_description seen)
     \<and> profiled_compliance_valid sha seen = Inr () \<and> cr_device_identity seen = child_identity c
     \<and> child_result_of sha cd c = Inr approved
     \<and> cr_observed_description seen = rf_desired_description (facts_of approved))"

text \<open>A member and a loaded secret that belong to the child.\<close>

definition belongs :: "revent list \<Rightarrow> rollout_child \<Rightarrow> admitted_member \<Rightarrow> loaded_secret \<Rightarrow> bool" where
  "belongs v c member secret \<longleftrightarrow> (\<exists>m op au ref k. member = (m, ch_device c, ch_interface c, op, au)
     \<and> secret = (ch_device c, ref, k) \<and> EvLoad (ch_device c) (Inr k) \<in> set v)"

lemma planned_afresh_run:
  assumes b: "belongs v c member secret" and run: "plan_again sha rv ch member secret t = (Inr planned, t')"
  shows "\<exists>w. t' = t @ w \<and> planned_afresh sha rv ch v c t w planned"
proof -
  from b obtain m op au ref k where e: "member = (m, ch_device c, ch_interface c, op, au)"
    "secret = (ch_device c, ref, k)" "EvLoad (ch_device c) (Inr k) \<in> set v"
    by (auto simp: belongs_def)
  from plan_again_run(1) [OF run [unfolded e(1,2)]] obtain w l where
    "t' = t @ w @ [EvCollect l (si_name (ch_interface c)) (Inr (pr_state planned))]"
    "live_read_only_target (ch_device c) = Inr l" by blast
  with run e show ?thesis unfolding planned_afresh_def by blast
qed

lemma planned_descriptions:
  assumes b: "belongs v c member secret" and run: "plan_again sha rv ch member secret t = (Inr planned, t')"
  shows "fresh_result planned = Inr fresh \<Longrightarrow> result_description fresh = is_description (pr_state planned)"
    and "pr_compliance planned = Some q \<Longrightarrow> is_description (pr_state planned) = Some (cr_observed_description q)"
    and "pr_compliance planned = Some q \<Longrightarrow> cr_device_identity q = child_identity c"
proof -
  from b obtain m op au ref k where e: "member = (m, ch_device c, ch_interface c, op, au)"
    "secret = (ch_device c, ref, k)" by (auto simp: belongs_def)
  note r = plan_again_run(2,3) [OF run [unfolded e]]
  show "fresh_result planned = Inr fresh \<Longrightarrow> result_description fresh = is_description (pr_state planned)"
    using r by (auto simp: fresh_result_def split: option.splits)
  show "pr_compliance planned = Some q \<Longrightarrow> is_description (pr_state planned) = Some (cr_observed_description q)"
    and "pr_compliance planned = Some q \<Longrightarrow> cr_device_identity q = child_identity c"
    using r by (simp_all add: child_identity_def)
qed

lemma yields_observe_child:
  assumes "belongs v c member secret"
  shows "yields (observe_child sha cd rv ch (c, member, secret)) (fresh_child sha cd rv ch v c)"
  unfolding yields_def
proof (intro allI impI)
  fix t t' q
  assume "observe_child sha cd rv ch (c, member, secret) t = (Inr q, t')"
  then obtain planned fresh approved where run: "plan_again sha rv ch member secret t = (Inr planned, t')"
    and f: "fresh_result planned = Inr fresh" "child_result_of sha cd c = Inr approved"
      "preflight_observation sha c approved fresh = Inr q"
    unfolding observe_child_def by (auto elim!: bindE_InrE)
  obtain w where w: "t' = t @ w" "planned_afresh sha rv ch v c t w planned"
    using planned_afresh_run [OF assms run] by blast
  have "fresh_child sha cd rv ch v c t w q"
    unfolding fresh_child_def
    using w(2) f planned_descriptions(1) [OF assms run f(1)]
    by (intro exI [of _ planned] exI [of _ approved] exI [of _ fresh])
      (auto simp: preflight_observation_def bindS_Inr_iff)
  with w(1) show "\<exists>u. t' = t @ u \<and> fresh_child sha cd rv ch v c t u q" by blast
qed

lemma yields_final_child:
  assumes "belongs v c member secret"
  shows "yields (final_child sha cd rv ch (c, member, secret))
     (\<lambda>h w x. \<forall>seen. x = Inr seen \<longrightarrow> fresh_compliance sha cd rv ch v c h w seen)"
  unfolding yields_def
proof (intro allI impI)
  fix t t' x
  assume "final_child sha cd rv ch (c, member, secret) t = (Inr x, t')"
  then obtain r where run: "plan_again sha rv ch member secret t = (r, t')"
    and x: "x = (case r of Inl e \<Rightarrow> Inl (OBSERVATION, e) | Inr p \<Rightarrow> proved_desired sha cd c p)"
    unfolding final_child_def by (auto elim!: bindE_InrE simp: tryE_def split: prod.splits)
  obtain w where w: "t' = t @ w" using emits_segment [OF emits_plan_again run] by blast
  have "fresh_compliance sha cd rv ch v c t w seen" if "x = Inr seen" for seen
  proof -
    from that x obtain planned where p: "r = Inr planned" by (cases r) auto
    with that x have q: "pr_compliance planned = Some seen" "profiled_compliance_valid sha seen = Inr ()"
      "\<exists>approved. child_result_of sha cd c = Inr approved
         \<and> cr_desired_description seen = rf_desired_description (facts_of approved)"
      by (auto simp: proved_desired_def bindS_Inr_iff split: sum.splits option.splits if_splits)
    have "cr_observed_description seen = cr_desired_description seen"
      using q(2) by (auto simp: profiled_compliance_valid_def bindS_Inr_iff split: option.splits)
    moreover obtain w' where "t' = t @ w'" "planned_afresh sha rv ch v c t w' planned"
      using planned_afresh_run [OF assms run [unfolded p]] by blast
    ultimately show ?thesis
      unfolding fresh_compliance_def
      using q planned_descriptions(2,3) [OF assms run [unfolded p]] w by auto
  qed
  with w show "\<exists>u. t' = t @ u \<and> (\<forall>seen. x = Inr seen \<longrightarrow> fresh_compliance sha cd rv ch v c t u seen)"
    by blast
qed

section \<open>The credentials of a call\<close>

lemma load_secret_run:
  assumes "load_secret rv (member, ref) t = (Inr secret, t')"
  shows "\<exists>k w. t' = t @ w \<and> secret = (fst (snd member), ref, k) \<and> EvLoad (fst (snd member)) (Inr k) \<in> set w"
proof -
  obtain m d i op au where m: "member = (m, d, i, op, au)" by (cases member)
  from assms show ?thesis
    by (auto simp: load_secret_def m load_def askE_def elim!: bindE_InrE split: sum.splits)
qed

lemma loaded_belong:
  assumes u: "members_unchanged cs admitted" and l: "length references = length admitted"
    and run: "mapE (load_secret rv) (zip admitted references) t = (Inr loaded, t')"
  shows "\<exists>w. t' = t @ w \<and> length loaded = length admitted
    \<and> (\<forall>(c, member, secret) \<in> set (zip cs (zip admitted loaded)). belongs w c member secret)"
proof -
  have y: "yields (load_secret rv x) (\<lambda>h w secret. \<exists>k. secret = (fst (snd (fst x)), snd x, k)
      \<and> EvLoad (fst (snd (fst x))) (Inr k) \<in> set w)" for x
    unfolding yields_def using load_secret_run [of rv "fst x" "snd x"] by fastforce
  obtain ws where ws: "t' = t @ concat ws"
    "in_turn (\<lambda>x h w secret. \<exists>k. secret = (fst (snd (fst x)), snd x, k)
      \<and> EvLoad (fst (snd (fst x))) (Inr k) \<in> set w) t (zip admitted references) ws loaded"
    using in_turn_mapE [OF y run] by blast
  have all: "list_all2 (\<lambda>x secret. \<exists>k. secret = (fst (snd (fst x)), snd x, k)
      \<and> EvLoad (fst (snd (fst x))) (Inr k) \<in> set (concat ws)) (zip admitted references) loaded"
    by (rule list_all2_mono [OF in_turn_all2 [OF ws(2)]]) blast
  have len: "length loaded = length admitted" "length cs = length admitted"
    using list_all2_lengthD [OF all] l members_devices [OF u] by (auto dest: list_all2_lengthD)
  have "belongs (concat ws) (cs ! n) (admitted ! n) (loaded ! n)" if n: "n < length admitted" for n
  proof -
    obtain m d i op au where a: "admitted ! n = (m, d, i, op, au)" by (cases "admitted ! n")
    from u n len have "d = ch_device (cs ! n) \<and> i = ch_interface (cs ! n)"
      unfolding members_unchanged_def using list_all2_nthD2 [of _ cs admitted n] a by fastforce
    moreover from all n l len obtain k where "loaded ! n = (d, references ! n, k)"
      "EvLoad d (Inr k) \<in> set (concat ws)"
      using list_all2_nthD [OF all, of n] a by auto
    ultimately show ?thesis by (auto simp: belongs_def a)
  qed
  then show ?thesis
    using ws(1) len by (intro exI [of _ "concat ws"]) (auto simp: set_zip)
qed

lemma mapE_length: "mapE f xs t = (Inr ys, t') \<Longrightarrow> length ys = length xs"
  by (induction xs arbitrary: t ys) (auto elim!: bindE_InrE)

lemma belongs_mono: "belongs w c member secret \<Longrightarrow> set w \<subseteq> set v \<Longrightarrow> belongs v c member secret"
  by (auto simp: belongs_def)

text \<open>The observations of a list of children with what belongs to them.\<close>

lemma children_in_turn:
  assumes "in_turn (\<lambda>z. P (fst z)) t (zip cs (zip xs ys)) ws zs" and "length xs = length cs"
    and "length ys = length xs"
  shows "in_turn P t cs ws zs"
  using in_turn_map [where P = P and g = fst, OF assms(1)] assms(2,3) by simp

section \<open>The preflight\<close>

lemma preflight_run:
  assumes "preflight_profiled_rollout sha rc decode rv inp a t = (Inr pf, t')"
  shows "\<exists>r v ws. t' = t @ v @ concat ws
    \<and> read_profiled_rollout sha rc (ai_parent_bytes inp) = Inr r
    \<and> rollout_preflight_valid sha pf = Inr () \<and> pf_parent_digest pf = ro_digest r
    \<and> pf_authorization_digest pf = ra_digest a
    \<and> in_turn (fresh_child sha (rc_child rc) rv (body_change_id (ro_body r)) v) (t @ v)
        (ro_children r) ws (pf_children pf)"
proof -
  let ?fresh = "\<lambda>r. fresh_child sha (rc_child rc) rv (body_change_id (ro_body r))"
  from assms obtain r p expansion x admitted t1 references t2 loaded t3 seen where
    r: "approved_parent sha rc decode inp a = Inr r"
    and t1: "admit_rollout_members rv (ai_request inp) (Some (map child_name (ro_children r))) t
      = (Inr (p, expansion, x, admitted), t1)"
    and u: "members_unchanged (ro_children r) admitted"
    and t2: "mapE (admitted_reference rv ''stale rollout credential reference'')
      (zip (ro_children r) admitted) t1 = (Inr references, t2)"
    and t3: "mapE (load_secret rv) (zip admitted references) t2 = (Inr loaded, t3)"
    and t4: "mapE (observe_child sha (rc_child rc) rv (body_change_id (ro_body r)))
      (zip (ro_children r) (zip admitted loaded)) t3 = (Inr seen, t')"
    and pf: "passed_preflight sha r a seen = Inr pf"
    unfolding preflight_profiled_rollout_def by (auto elim!: bindE_InrE simp: checks_ok)
  have len: "length admitted = length (ro_children r)" using members_devices [OF u] by (simp add: list_all2_lengthD)
  have ref: "length references = length admitted" using mapE_length [OF t2] len by simp
  obtain v1 where v1: "t1 = t @ v1" using emits_segment [OF emits_admission t1] by blast
  obtain v2 where v2: "t2 = t1 @ v2"
    using emits_segment [OF emits_mapE [OF emits_references] t2] by blast
  obtain v3 where v3: "t3 = t2 @ v3" "length loaded = length admitted"
    "\<forall>(c, member, secret) \<in> set (zip (ro_children r) (zip admitted loaded)). belongs v3 c member secret"
    using loaded_belong [OF u ref t3] by blast
  have y: "yields (observe_child sha (rc_child rc) rv (body_change_id (ro_body r)) x)
      (?fresh r (v1 @ v2 @ v3) (fst x))"
    if "x \<in> set (zip (ro_children r) (zip admitted loaded))" for x
    using that v3(3) by (cases x) (auto intro!: yields_observe_child elim!: belongs_mono dest!: bspec)
  obtain ws where ws: "t' = t3 @ concat ws"
    "in_turn (\<lambda>z. ?fresh r (v1 @ v2 @ v3) (fst z)) t3 (zip (ro_children r) (zip admitted loaded)) ws seen"
    using in_turn_mapE [OF y t4] by blast
  have turn: "in_turn (?fresh r (v1 @ v2 @ v3)) t3 (ro_children r) ws seen"
    by (rule children_in_turn [OF ws(2)]) (simp_all add: len v3(2))
  have pf': "pf_children pf = seen" "rollout_preflight_valid sha pf = Inr ()"
    "pf_parent_digest pf = ro_digest r" "pf_authorization_digest pf = ra_digest a"
    using pf by (auto simp: passed_preflight_def Let_def bindS_Inr_iff)
  have "read_profiled_rollout sha rc (ai_parent_bytes inp) = Inr r"
    using r by (auto simp: approved_parent_def bindS_Inr_iff)
  with ws(1) turn pf' v1 v2 v3(1) show ?thesis
    by (intro exI [of _ r] exI [of _ "v1 @ v2 @ v3"] exI [of _ ws]) simp
qed

section \<open>The final validation\<close>

lemma final_observations_run:
  assumes "\<forall>(c, member, secret) \<in> set xs. belongs v c member secret"
    and "final_observations sha cd rv ch xs t = (Inr (obs, stop), t')"
  shows "\<exists>ws rest. t' = t @ concat ws @ rest
    \<and> in_turn (\<lambda>z. fresh_compliance sha cd rv ch v (fst z)) t (take (length obs) xs) ws obs
    \<and> (stop = None \<longrightarrow> length obs = length xs \<and> rest = [])"
  using assms
proof (induction xs arbitrary: t obs)
  case Nil
  then show ?case by (auto intro!: exI [of _ "[]"])
next
  case (Cons x xs)
  obtain c member secret where x: "x = (c, member, secret)" by (cases x)
  with Cons.prems(1) have b: "belongs v c member secret" by simp
  from Cons.prems(2) obtain q s where q: "final_child sha cd rv ch (c, member, secret) t = (Inr q, s)"
    and rest: "(case q of Inl stop \<Rightarrow> ret ([], Some stop)
      | Inr seen \<Rightarrow> bindE (final_observations sha cd rv ch xs) (\<lambda>(rest, stop). ret (seen # rest, stop))) s
      = (Inr (obs, stop), t')"
    unfolding final_observations.simps x by (auto elim!: bindE_InrE)
  from yieldsD [OF yields_final_child [OF b] q] obtain w where w: "s = t @ w"
    "\<And>seen. q = Inr seen \<Longrightarrow> fresh_compliance sha cd rv ch v c t w seen" by blast
  show ?case
  proof (cases q)
    case (Inl e)
    with rest w show ?thesis by (intro exI [of _ "[]"] exI [of _ w]) auto
  next
    case (Inr seen)
    with rest obtain obs' where o: "final_observations sha cd rv ch xs s = (Inr (obs', stop), t')"
      "obs = seen # obs'" by (auto elim!: bindE_InrE split: prod.splits)
    have "\<forall>(c, member, secret) \<in> set xs. belongs v c member secret" using Cons.prems(1) by simp
    from Cons.IH [OF this o(1)] obtain ws rest where "t' = s @ concat ws @ rest"
      "in_turn (\<lambda>z. fresh_compliance sha cd rv ch v (fst z)) s (take (length obs') xs) ws obs'"
      "stop = None \<longrightarrow> length obs' = length xs \<and> rest = []" by blast
    with w Inr o(2) x show ?thesis by (intro exI [of _ "w # ws"] exI [of _ rest]) auto
  qed
qed

lemma failing_run:
  "failing phase m t = (Inr (Inr x), t') \<Longrightarrow> m t = (Inr x, t')"
  by (auto simp: failing_def tryE_def elim!: bindE_InrE split: prod.splits sum.splits)

lemma final_admission_run:
  assumes "final_admission rv request r a pf t = (Inr admitted, t')"
  shows "\<exists>v. t' = t @ v" and "members_unchanged (ro_children r) admitted"
  using assms emits_segment [OF emits_admission]
  by (auto simp: final_admission_def checks_ok elim!: bindE_InrE)

lemma final_credentials_run:
  assumes u: "members_unchanged (ro_children r) admitted"
    and "final_credentials rv r admitted t = (Inr loaded, t')"
  shows "\<exists>v. t' = t @ v \<and> length loaded = length admitted
    \<and> (\<forall>(c, member, secret) \<in> set (zip (ro_children r) (zip admitted loaded)). belongs v c member secret)"
proof -
  have len: "length admitted = length (ro_children r)" using members_devices [OF u] by (simp add: list_all2_lengthD)
  from assms(2) obtain references s where refs: "mapE (admitted_reference rv ''final credential reference changed'')
      (zip (ro_children r) admitted) t = (Inr references, s)"
    and ld: "mapE (load_secret rv) (zip admitted references) s = (Inr loaded, t')"
    by (auto simp: final_credentials_def elim!: bindE_InrE)
  have l: "length references = length admitted" using mapE_length [OF refs] len by simp
  obtain v where v: "s = t @ v" using emits_segment [OF emits_mapE [OF emits_references] refs] by blast
  obtain w where w: "t' = s @ w" "length loaded = length admitted"
    "\<forall>(c, member, secret) \<in> set (zip (ro_children r) (zip admitted loaded)). belongs w c member secret"
    using loaded_belong [OF u l ld] by blast
  from v w show ?thesis
    by (intro exI [of _ "v @ w"]) (auto elim!: belongs_mono dest!: bspec)
qed

lemma emits_final_evidence: "emits quiet (final_evidence sha cd rv request r a pf)"
  unfolding final_evidence_def failing_def final_admission_def final_credentials_def
  by (auto intro!: emits_intros split: prod.split sum.split)

lemma final_evidence_run:
  assumes "final_evidence sha cd rv request r a pf t = (Inr (obs, stop), t')"
  shows "\<exists>v ws rest. t' = t @ v @ concat ws @ rest
    \<and> in_turn (fresh_compliance sha cd rv (body_change_id (ro_body r)) v) (t @ v)
        (take (length obs) (ro_children r)) ws obs
    \<and> (stop = None \<longrightarrow> length obs = length (ro_children r) \<and> rest = [])"
proof -
  have stopped: ?thesis if "obs = []" "stop \<noteq> None"
  proof -
    obtain u where "t' = t @ u" using emits_segment [OF emits_final_evidence assms] by blast
    with that show ?thesis by - (rule exI [of _ u], rule exI [of _ "[]"], rule exI [of _ "[]"], auto)
  qed
  from assms obtain q s where q: "failing ADMISSION (final_admission rv request r a pf) t = (Inr q, s)"
    and k: "(case q of Inl stop \<Rightarrow> ret ([], Some stop)
      | Inr admitted \<Rightarrow> bindE (failing CREDENTIAL (final_credentials rv r admitted)) (\<lambda>credentials.
          case credentials of Inl stop \<Rightarrow> ret ([], Some stop)
          | Inr loaded \<Rightarrow> final_observations sha cd rv (body_change_id (ro_body r))
              (zip (ro_children r) (zip admitted loaded)))) s = (Inr (obs, stop), t')"
    unfolding final_evidence_def by (auto elim!: bindE_InrE)
  show ?thesis
  proof (cases q)
    case (Inl e)
    with k show ?thesis by (intro stopped) auto
  next
    case (Inr admitted)
    note am = final_admission_run [OF failing_run [OF q [unfolded Inr]]]
    from k Inr obtain x s' where x: "failing CREDENTIAL (final_credentials rv r admitted) s = (Inr x, s')"
      and k': "(case x of Inl stop \<Rightarrow> ret ([], Some stop)
          | Inr loaded \<Rightarrow> final_observations sha cd rv (body_change_id (ro_body r))
              (zip (ro_children r) (zip admitted loaded))) s' = (Inr (obs, stop), t')"
      by (auto elim!: bindE_InrE)
    show ?thesis
    proof (cases x)
      case (Inl e)
      with k' show ?thesis by (intro stopped) auto
    next
      case (Inr loaded)
      from final_credentials_run [OF am(2) failing_run [OF x [unfolded Inr]]] obtain v2 where
        v2: "s' = s @ v2" "length loaded = length admitted"
          "\<forall>(c, member, secret) \<in> set (zip (ro_children r) (zip admitted loaded)). belongs v2 c member secret"
        by blast
      obtain v1 where v1: "s = t @ v1" using am(1) by blast
      have len: "length admitted = length (ro_children r)"
        using members_devices [OF am(2)] by (simp add: list_all2_lengthD)
      have b: "\<forall>(c, member, secret) \<in> set (zip (ro_children r) (zip admitted loaded)).
          belongs (v1 @ v2) c member secret"
        using v2(3) by (auto elim!: belongs_mono dest!: bspec)
      from k' Inr have o: "final_observations sha cd rv (body_change_id (ro_body r))
          (zip (ro_children r) (zip admitted loaded)) s' = (Inr (obs, stop), t')" by simp
      obtain ws rest where ws: "t' = s' @ concat ws @ rest"
        "in_turn (\<lambda>z. fresh_compliance sha cd rv (body_change_id (ro_body r)) (v1 @ v2) (fst z)) s'
          (take (length obs) (zip (ro_children r) (zip admitted loaded))) ws obs"
        "stop = None \<longrightarrow> length obs = length (zip (ro_children r) (zip admitted loaded)) \<and> rest = []"
        using final_observations_run [OF b o] by blast
      have "in_turn (fresh_compliance sha cd rv (body_change_id (ro_body r)) (v1 @ v2)) s'
          (take (length obs) (ro_children r)) ws obs"
        using ws(2) unfolding take_zip by (rule children_in_turn) (simp_all add: len v2(2))
      with ws(1,3) v1 v2(1,2) len show ?thesis
        by (intro exI [of _ "v1 @ v2"] exI [of _ ws] exI [of _ rest]) simp
    qed
  qed
qed

lemma final_state_run:
  assumes "validate_rollout_final_state sha cd rv request r a pf t = (Inr v, t')"
  shows "\<exists>u ws rest. t' = t @ u @ concat ws @ rest
    \<and> in_turn (fresh_compliance sha cd rv (body_change_id (ro_body r)) u) (t @ u)
        (take (length (fv_observations v)) (ro_children r)) ws (fv_observations v)
    \<and> final_validation_valid sha v = Inr () \<and> (fv_status v = PASSED \<longleftrightarrow> fv_failure v = None)
    \<and> (fv_status v = PASSED \<longrightarrow> length (fv_observations v) = length (ro_children r) \<and> rest = [])"
proof -
  from assms obtain obs stop s where e: "final_evidence sha cd rv request r a pf t = (Inr (obs, stop), s)"
    and k: "(case stop of None \<Rightarrow> liftE (final_record sha r a pf obs None)
      | Some (phase, e) \<Rightarrow> if is_exception e then liftE (final_record sha r a pf obs (Some phase))
          else raise e) s = (Inr v, t')"
    unfolding validate_rollout_final_state_def by (auto elim!: bindE_InrE split: prod.splits)
  have fields: "final_record sha r a pf obs f = Inr v \<Longrightarrow> final_validation_valid sha v = Inr ()
      \<and> fv_observations v = obs \<and> (fv_status v = PASSED \<longleftrightarrow> f = None) \<and> fv_failure v = f" for f
    by (auto simp: final_record_def bindS_Inr_iff Let_def split: if_splits)
  from k obtain f where f: "t' = s" "final_record sha r a pf obs f = Inr v" "(f = None) = (stop = None)"
    by (auto split: option.splits prod.splits if_splits)
  have v: "final_validation_valid sha v = Inr ()" "fv_observations v = obs"
    "(fv_status v = PASSED) = (fv_failure v = None)" "(fv_status v = PASSED) = (stop = None)"
    using fields [OF f(2)] f(3) by simp_all
  from final_evidence_run [OF e] obtain u ws rest where "s = t @ u @ concat ws @ rest"
    "in_turn (fresh_compliance sha cd rv (body_change_id (ro_body r)) u) (t @ u)
        (take (length obs) (ro_children r)) ws obs"
    "stop = None \<longrightarrow> length obs = length (ro_children r) \<and> rest = []"
    by blast
  with v f(1) show ?thesis
    by - (rule exI [of _ u], rule exI [of _ ws], rule exI [of _ rest], simp)
qed

end
