(* ===== verification/Rollout_Run_Properties.thy ===== *)
theory Rollout_Run_Properties
  imports Sample_Rollout Rollout_Freshness
begin

text \<open>
  The properties of a rollout run (\<^verbatim>\<open>profiled_rollout_execution.py\<close>, \<^verbatim>\<open>profiled_rollout_preflight.py\<close>,
  \<^verbatim>\<open>profiled_rollout_final_validation.py\<close>, \<^verbatim>\<open>profiled_rollout_reservation.py\<close>,
  \<^verbatim>\<open>profiled_rollout_audit.py\<close>).
\<close>

section \<open>Properties\<close>

text \<open>C16: a rollout writes its devices one after the other, in the approved order. Whatever the devices,
  the inventory, the observer, the store and the file system answer, a call of
  \<^verbatim>\<open>execute_rollout\<close> either ends with an error and writes to no device, or the rollout was
  approved and the device writes of its log are those of the child executor on the plans of the
  approved parent, in the order of its canaries and waves: each plan but the last one entered
  succeeded, none was entered twice, nothing was written between them, and none before the
  preflight of the whole population passed. The record returned reports exactly the devices entered
  and those that succeeded.\<close>

theorem rollout_writes_in_order:
  "\<exists>u. snd (execute_rollout s w semantic artifact unblocker t) = t @ u
     \<and> (list_all (\<lambda>e. \<not> is_write_event e) u
           \<and> (\<exists>e. fst (execute_rollout s w semantic artifact unblocker t) = Inl e)
        \<or> (\<exists>ap canaries waves ps m k. approved s ap
             \<and> ro_cohorts (ap_parent ap) = Some (canaries, waves)
             \<and> approved_plans s ap (canaries @ concat waves) ps \<and> in_order s w ap ps t u m k
             \<and> (\<forall>R. fst (execute_rollout s w semantic artifact unblocker t) = Inr R
                  \<longrightarrow> au_attempted R = take m (canaries @ concat waves)
                    \<and> au_successful R = take k (canaries @ concat waves))))"
proof (cases rule: execute_rollout_cases [of s w semantic artifact unblocker t])
  case (refused e b)
  then show ?thesis using calm by (intro exI [of _ b]) simp
next
  case (reserved ap b)
  note facts = reserves_facts [OF reserved]
  let ?order = "ra_canaries (ap_authorization ap) @ concat (ra_waves (ap_authorization ap))"
  let ?run = "execute_rollout s w semantic artifact unblocker t"
  obtain ps where ps: "approved_plans s ap ?order ps" by (rule approved_plans_exist [OF facts(1,2)])
  from reserved have b: "list_all (\<lambda>e. \<not> is_write_event e) b" and run: "?run
      = with_reservation (locks_of w) (ra_selected_devices (ap_authorization ap))
          (reserved_rollout s w ap) (t @ b)"
    using calm by (simp_all add: reserves_def)
  obtain a where a: "list_all (\<lambda>e. \<not> is_write_event e) a"
    and ends: "(\<exists>e. ?run = (Inl e, (t @ b) @ a))
      \<or> (\<exists>c. list_all (\<lambda>e. \<not> is_write_event e) c
            \<and> snd ?run = snd (reserved_rollout s w ap ((t @ b) @ a)) @ c
            \<and> (\<forall>x. fst ?run = Inr x \<longrightarrow> fst (reserved_rollout s w ap ((t @ b) @ a)) = Inr x))"
    unfolding run
    using reservation_wraps [of "\<lambda>e. \<not> is_write_event e" "locks_of w", OF locks_of_view(2)] by blast
  from ends show ?thesis
  proof (elim disjE exE conjE)
    fix e assume "?run = (Inl e, (t @ b) @ a)"
    with a b show ?thesis by (intro exI [of _ "b @ a"]) simp
  next
    fix c assume c: "list_all (\<lambda>e. \<not> is_write_event e) c"
      "snd ?run = snd (reserved_rollout s w ap ((t @ b) @ a)) @ c"
      "\<forall>x. fst ?run = Inr x \<longrightarrow> fst (reserved_rollout s w ap ((t @ b) @ a)) = Inr x"
    obtain u m k where u: "snd (reserved_rollout s w ap ((t @ b) @ a)) = ((t @ b) @ a) @ u"
      "in_order s w ap ps ((t @ b) @ a) u m k"
      "\<forall>R. fst (reserved_rollout s w ap ((t @ b) @ a)) = Inr R
         \<longrightarrow> au_attempted R = take m ?order \<and> au_successful R = take k ?order"
      using reserved_in_order [OF facts(2) ps] by blast
    have "in_order s w ap ps t ((b @ a) @ u @ c) m k"
      by (rule in_order_extend) (use u(2) a b c(1) in simp_all)
    moreover have "snd ?run = t @ (b @ a) @ u @ c" using c(2) u(1) by simp
    moreover have "\<forall>R. fst ?run = Inr R \<longrightarrow> au_attempted R = take m ?order \<and> au_successful R = take k ?order"
      using c(3) u(3) by blast
    ultimately show ?thesis using facts(1,2) ps by blast
  qed
qed

text \<open>C18: every device write of a rollout happens while all its devices are reserved. In the log of
  \<^verbatim>\<open>execute_rollout\<close>, when an event writes to a device, the lock files of every selected device
  are open and locked, taken in the lexical order of the identities; and when the call has ended,
  however it ended, every descriptor it opened is closed and every lock is released. The one
  assumption is that \<open>close\<close> does not fail.\<close>

theorem rollout_writes_under_reservation:
  assumes "closes_answer (rw_locks w)"
  shows "\<exists>u devices. snd (execute_rollout s w semantic artifact unblocker t) = t @ u
     \<and> held_after lock_view ([], []) u = ([], [])
     \<and> (\<forall>a e b. u = a @ e # b \<and> is_write_event e
          \<longrightarrow> (\<exists>ap. approved s ap \<and> devices = map child_identity (ro_children (ap_parent ap)))
            \<and> snd (held_after lock_view ([], []) a) = map lock_file (sort devices))"
proof -
  have unlocked: "held_after lock_view x u = x" if "list_all quiet u" for x u
    using that by (induction lock_view x u rule: held_after.induct) (auto simp: quiet_def)
  show ?thesis
  proof (cases rule: execute_rollout_cases [of s w semantic artifact unblocker t])
    case (refused e b)
    then show ?thesis
      using unlocked by (intro exI [of _ b] exI [of _ "[]"]) (auto simp: quiet_def)
  next
    case (reserved ap b)
    note facts = reserves_facts [OF reserved]
    let ?devices = "map child_identity (ro_children (ap_parent ap))"
    have run: "execute_rollout s w semantic artifact unblocker t
        = with_reservation (locks_of w) ?devices (reserved_rollout s w ap) (t @ b)" "list_all quiet b"
      using reserved facts(3) by (simp_all add: reserves_def)
    have "closes_answer (locks_of w)" using assms by (simp add: closes_answer_def locks_of_def)
    then obtain u where u: "snd (execute_rollout s w semantic artifact unblocker t) = (t @ b) @ u"
      "reserved_log lock_view (map lock_file (sort ?devices)) ([], []) u"
      unfolding run(1)
      using reserved_run [OF locks_of_view(1) _ emitsD [OF emits_reserved [of s w ap]], of w ?devices "t @ b"]
      by blast
    have "snd (held_after lock_view ([], []) x) = map lock_file (sort ?devices)"
      if x: "b @ u = x @ e # y" "is_write_event e" for x e y
    proof -
      have q: "\<not> quiet e" "lock_view e = None"
        using x(2) by (cases e rule: lock_view.cases; simp add: quiet_def)+
      from x(1) have "(\<exists>z. x = b @ z \<and> u = z @ e # y) \<or> (\<exists>z. b = x @ e # z)"
        by (auto simp: append_eq_append_conv2 append_eq_Cons_conv)
      with q(1) run(2) obtain z where "x = b @ z" "u = z @ e # y" by auto
      with u(2) q(2) show ?thesis
        by (auto simp: reserved_log_def held_after_append unlocked [OF run(2)])
    qed
    moreover have "held_after lock_view ([], []) (b @ u) = ([], [])"
      using u(2) by (simp add: reserved_log_def held_after_append unlocked [OF run(2)])
    ultimately show ?thesis
      using u(1) facts(1) by (intro exI [of _ "b @ u"] exI [of _ ?devices]) auto
  qed
qed


text \<open>C17: when a reserved rollout leaves a record. A rollout that holds its approval and its reservation
  ends, whatever its devices, its inventory, its observer, its files and its store answer and
  wherever it stops, in a parent record that every validator of the record accepts (population,
  order, stopping facts, evidence coverage, outcome and digest) and that the last call of the run
  stored. The three exceptions are an exception outside \<open>Exception\<close>, which no handler of the code
  catches; a store that refuses this last record; and a build whose number is not positive or whose
  pipeline or unblocker identity is no UUID, which nothing checks before the devices are written.
  \<open>reportable\<close> is what this rests on: the approval \<^verbatim>\<open>execute_rollout\<close> verified, a SHA-256 that
  prints 64 hexadecimal digits, an aware clock and a \<open>uuid5\<close> that tells the devices of the run
  apart; the approved parent has cohorts, that is, a child to deploy.\<close>

theorem reserved_rollout_is_recorded:
  assumes "reportable s w ap" and "ro_cohorts (ap_parent ap) = Some (canaries, waves)"
  shows "(\<exists>R u path. reserved_rollout s w ap t
            = (Inr R, u @ [rollout_call (EvStore (Persist_Record (au_record_id R) (au_digest R)) (Inr path))])
          \<and> rollout_audit_valid (rs_sha s) (rs_uuid5 s) R = Inr ())
      \<or> (\<exists>e h. reserved_rollout s w ap t = (Inl e, h)
          \<and> (\<not> is_exception e
             \<or> (\<exists>u i d. h = u @ [rollout_call (EvStore (Persist_Record i d) (Inl e))])
             \<or> \<not> (rs_build_number s > 0 \<and> ok (rs_uuid s (rs_pipeline_id s))
                   \<and> ok (rs_uuid s (ra_unblocker_id (ap_authorization ap))))))"
proof -
  obtain q h where run: "reserved_rollout s w ap t = (q, h)" by fastforce
  have "published s ap q h"
    using reserved_publishes [OF assms] run unfolding publishes_def by (metis fst_conv snd_conv)
  then show ?thesis
    unfolding run by (cases q) (auto simp: published_def identified_def)
qed

theorem reserved_rollout_is_recorded_witness:
  "\<exists>R. fst (reserved_rollout sample_setup sample_world_of sample_approval []) = Inr R
     \<and> rollout_audit_valid (rs_sha sample_setup) (rs_uuid5 sample_setup) R = Inr ()"
proof -
  have c: "ro_cohorts (ap_parent sample_approval) = Some ([''netbox:dcim.device:1''], [])"
    by (simp add: sample_setup_sel sample_parent_shape)
  obtain R u where "reserved_rollout sample_setup sample_world_of sample_approval [] = (Inr R, [] @ u)"
    using sample_reserved [of "[]"] by auto
  with reserved_rollout_is_recorded [OF sample_reportable c, of "[]"] show ?thesis by auto
qed

lemma sample_child_interface: "si_name (ch_interface sample_child) = ''Gi2''"
  by (simp add: sample_child_def sample_interface_name)

text \<open>C19: the preflight observes the whole population afresh. When \<^verbatim>\<open>preflight_profiled_rollout\<close> returns,
  its record is valid, carries the digests of the parent read from the approved bytes and of the
  authorization, and lists every child of that parent in order. Its log is an admission that loads
  the credentials of every child's device (\<open>v\<close>), followed by one segment per child, in order: on
  its segment the planner runs for the child's admitted device and interface with a credential
  loaded in \<open>v\<close>, its last call reads the interface from the device, and its result, which shows the
  description just read, is of the approved kind with exactly the approved execution basis
  (everything but the time of observation); the record holds the digest of that basis and the time
  of the result.\<close>

theorem preflight_observes_every_child:
  assumes "preflight_profiled_rollout sha rc decode rv inp a t = (Inr pf, t')"
  shows "rollout_preflight_valid sha pf = Inr ()
    \<and> (\<exists>r v ws. read_profiled_rollout sha rc (ai_parent_bytes inp) = Inr r
        \<and> pf_parent_digest pf = ro_digest r \<and> pf_authorization_digest pf = ra_digest a
        \<and> t' = t @ v @ concat ws
        \<and> in_turn (fresh_child sha (rc_child rc) rv (body_change_id (ro_body r)) v) (t @ v)
            (ro_children r) ws (pf_children pf))"
  using preflight_run [OF assms] by blast

theorem preflight_observes_every_child_witness:
  "\<exists>pf h. preflight_profiled_rollout sample_sha sample_rollout_codec (\<lambda>_. Inr sample_minted)
      sample_rollout_providers sample_inputs sample_authorization [] = (Inr pf, h)
    \<and> pf_parent_digest pf = ro_digest sample_parent \<and> length (pf_children pf) = 1
    \<and> (\<exists>l st. last h = EvCollect l ''Gi2'' (Inr st))"
proof -
  obtain pf h where pf: "preflight_profiled_rollout sample_sha sample_rollout_codec (\<lambda>_. Inr sample_minted)
      sample_rollout_providers sample_inputs sample_authorization [] = (Inr pf, h)"
    using sample_preflight_passes [of "[]"] by (auto simp: quietly_def)
  have r: "read_profiled_rollout sample_sha sample_rollout_codec (ai_parent_bytes sample_inputs) = Inr sample_parent"
    using sample_parent_valid
    by (simp add: read_profiled_rollout_def sample_inputs_sel sample_rollout_codec_def)
  obtain v ws where w: "pf_parent_digest pf = ro_digest sample_parent" "h = v @ concat ws"
    "in_turn (fresh_child sample_sha (rc_child sample_rollout_codec) sample_rollout_providers
       (body_change_id (ro_body sample_parent)) v) v [sample_child] ws (pf_children pf)"
    using preflight_observes_every_child [OF pf] r by (auto simp: sample_parent_shape)
  from in_turn_lengths [OF w(3)] obtain u where u: "ws = [u]" "length (pf_children pf) = 1"
    by (auto simp: length_Suc_conv)
  from in_turn_nth [OF w(3), of 0] obtain u' l st
    where "u = u' @ [EvCollect l (si_name (ch_interface sample_child)) (Inr st)]"
    by (auto simp: u fresh_child_def planned_afresh_def)
  with pf w u show ?thesis by (simp add: sample_child_interface)
qed

text \<open>C20: a rollout is declared compliant only on fresh evidence. When
  \<^verbatim>\<open>validate_rollout_final_state\<close> returns, its record is valid, and it says PASSED exactly when it
  names no failed phase. Its log is an admission that loads credentials (\<open>v\<close>), followed by one
  segment per observation, in order of the children of the approved parent: on its segment the
  planner runs for the child's admitted device and interface with a credential loaded in \<open>v\<close>, its
  last call reads the interface from the device, and the observation recorded is the valid
  compliance record of that run, for the child's device, whose observed description is the one just
  read and the approved desired one. A PASSED record has such an observation for every child, and
  nothing follows in the log; a FAILED one for a prefix of them.\<close>

theorem passed_final_is_observed:
  assumes "validate_rollout_final_state sha cd rv request r a pf t = (Inr fv, t')"
  shows "final_validation_valid sha fv = Inr () \<and> (fv_status fv = PASSED \<longleftrightarrow> fv_failure fv = None)
    \<and> (\<exists>v ws rest. t' = t @ v @ concat ws @ rest
        \<and> in_turn (fresh_compliance sha cd rv (body_change_id (ro_body r)) v) (t @ v)
            (take (length (fv_observations fv)) (ro_children r)) ws (fv_observations fv)
        \<and> (fv_status fv = PASSED \<longrightarrow> length (fv_observations fv) = length (ro_children r) \<and> rest = []))"
  using final_state_run [OF assms] by blast

theorem passed_final_is_observed_witness:
  "\<exists>v h seen. validate_rollout_final_state sample_sha sample_codec sample_rollout_providers
      sample_request sample_parent sample_authorization sample_passed
      [EvOther (EvCommitConfirmed 5 (Inr (sample_result Succeeded)))] = (Inr v, h)
    \<and> fv_status v = PASSED \<and> fv_observations v = [seen] \<and> cr_device_identity seen = ''netbox:dcim.device:1''
    \<and> cr_observed_description seen = ''uplink''
    \<and> (\<exists>l st. last h = EvCollect l ''Gi2'' (Inr st) \<and> is_description st = Some ''uplink'')"
proof -
  let ?t = "[EvOther (EvCommitConfirmed 5 (Inr (sample_result Succeeded)))] :: revent list"
  obtain h where v: "validate_rollout_final_state sample_sha sample_codec sample_rollout_providers
      sample_request sample_parent sample_authorization sample_passed ?t = (Inr sample_final, h)"
    using sample_final_passes [of ?t] by (auto simp: quietly_def)
  have f: "fv_status sample_final = PASSED" "fv_observations sample_final = [sample_compliant]"
    by (simp_all add: sample_final_def Let_def)
  obtain u ws where w: "h = ?t @ u @ concat ws"
    "in_turn (fresh_compliance sample_sha sample_codec sample_rollout_providers
       (body_change_id (ro_body sample_parent)) u) (?t @ u) [sample_child] ws [sample_compliant]"
    using passed_final_is_observed [OF v] by (auto simp: f sample_parent_shape)
  from in_turn_lengths [OF w(2)] obtain x where x: "ws = [x]" by (auto simp: length_Suc_conv)
  from in_turn_nth [OF w(2), of 0] obtain x' l st approved
    where c: "x = x' @ [EvCollect l (si_name (ch_interface sample_child)) (Inr st)]"
      "is_description st = Some (cr_observed_description sample_compliant)"
      "cr_device_identity sample_compliant = child_identity sample_child"
      "child_result_of sample_sha sample_codec sample_child = Inr approved"
      "cr_observed_description sample_compliant = rf_desired_description (facts_of approved)"
    by (auto simp: x fresh_compliance_def planned_afresh_def)
  then have "cr_observed_description sample_compliant = ''uplink''"
    "cr_device_identity sample_compliant = ''netbox:dcim.device:1''"
    using sample_child_facts by (auto simp: sample_child_result sample_child_shape simp del: facts_of.simps)
  with v f w(1) x c(1,2) show ?thesis
    by (intro exI [of _ sample_final] exI [of _ h] exI [of _ sample_compliant])
      (simp add: sample_child_interface)
qed

section \<open>Witnesses of the first two\<close>

theorem rollout_writes_in_order_witness:
  "\<exists>R u ap canaries waves ps m k.
     fst (execute_rollout sample_setup sample_world_of (rm_digest sample_minted)
       (sha256_identity sample_sha ''promotion'') sample_uuid []) = Inr R
     \<and> approved sample_setup ap \<and> ro_cohorts (ap_parent ap) = Some (canaries, waves)
     \<and> in_order sample_setup sample_world_of ap ps [] u m k
     \<and> take m (canaries @ concat waves) = [''netbox:dcim.device:1'']
     \<and> take k (canaries @ concat waves) = [''netbox:dcim.device:1'']"
proof -
  let ?run = "execute_rollout sample_setup sample_world_of (rm_digest sample_minted)
       (sha256_identity sample_sha ''promotion'') sample_uuid []"
  obtain R where R: "fst ?run = Inr R" "au_attempted R = [''netbox:dcim.device:1'']"
    "au_successful R = [''netbox:dcim.device:1'']"
    using sample_rollout_run by blast
  obtain u ap canaries waves ps m k where "approved sample_setup ap"
    "ro_cohorts (ap_parent ap) = Some (canaries, waves)"
    "in_order sample_setup sample_world_of ap ps [] u m k"
    "\<forall>R. fst ?run = Inr R \<longrightarrow> au_attempted R = take m (canaries @ concat waves)
           \<and> au_successful R = take k (canaries @ concat waves)"
    using rollout_writes_in_order [of sample_setup sample_world_of "rm_digest sample_minted"
        "sha256_identity sample_sha ''promotion''" sample_uuid "[]"] R(1) by auto
  with R show ?thesis by metis
qed

theorem rollout_writes_under_reservation_witness:
  "\<exists>u. snd (execute_rollout sample_setup sample_world_of (rm_digest sample_minted)
       (sha256_identity sample_sha ''promotion'') sample_uuid []) = u
     \<and> held_after lock_view ([], []) u = ([], [])"
proof -
  have "closes_answer (rw_locks sample_world_of)"
    by (simp add: closes_answer_def sample_world_of_def sample_locks_def)
  from rollout_writes_under_reservation [OF this, of sample_setup "rm_digest sample_minted"
      "sha256_identity sample_sha ''promotion''" sample_uuid "[]"]
  show ?thesis by auto
qed

end
