(* ===== verification/Ipv4.thy ===== *)
theory Ipv4
  imports Profile_Inventory
begin

text \<open>
  The IPv4 values of the standard library's \<^verbatim>\<open>ipaddress\<close> module as the reference services use
  them: an interface is a 32-bit address with a prefix length, \<open>network\<close>, \<open>netmask\<close> and
  \<open>hostmask\<close> are the attributes of the same name, \<open>interface_str\<close> and \<open>network_str\<close> are \<open>str\<close>,
  and \<open>read_interface\<close> is the constructor \<open>IPv4Interface(text)\<close> with its three forms of the
  prefix. The interfaces are ordered as \<open>IPv4Interface.__lt__\<close> orders them, by network and then
  by address, and printing determines an interface because reading it gives it back.
\<close>

unbundle bit_operations_syntax

section \<open>Interfaces and networks\<close>

datatype ipv4_interface = IPv4Interface (v4_ip: "32 word") (v4_prefix_length: nat)

datatype ipv4_network = IPv4Network (nw_address: "32 word") (nw_prefix_length: nat)

definition hostmask :: "nat \<Rightarrow> 32 word" where
  "hostmask n = mask (32 - n)"

definition netmask :: "nat \<Rightarrow> 32 word" where
  "netmask n = NOT (hostmask n)"

definition network :: "ipv4_interface \<Rightarrow> ipv4_network" where
  "network i = IPv4Network (v4_ip i AND netmask (v4_prefix_length i)) (v4_prefix_length i)"

definition octets :: "32 word \<Rightarrow> nat list" where
  "octets w = map (\<lambda>i. (unat w div 256 ^ i) mod 256) [3, 2, 1, 0 :: nat]"

definition ipv4_str :: "32 word \<Rightarrow> string" where
  "ipv4_str w = ip_str (IPv4Address w)"

definition interface_str :: "ipv4_interface \<Rightarrow> string" where
  "interface_str i = ipv4_str (v4_ip i) @ ''/'' @ nat_str (v4_prefix_length i)"

definition network_str :: "ipv4_network \<Rightarrow> string" where
  "network_str n = ipv4_str (nw_address n) @ ''/'' @ nat_str (nw_prefix_length n)"

section \<open>Reading\<close>

definition read_ipv4 :: "string \<Rightarrow> 32 word option" where
  "read_ipv4 s = (if is_ipv4_address s
     then Some (foldl (\<lambda>a d. 256 * a + word_of_nat (digits_val d)) 0 (split_on CHR ''.'' s))
     else None)"

text \<open>\<^verbatim>\<open>_make_netmask\<close>: a decimal prefix length, a netmask in dotted form, or a hostmask.\<close>

definition read_prefix_length :: "string \<Rightarrow> nat option" where
  "read_prefix_length s =
     (if s \<noteq> [] \<and> list_all is_digit s \<and> digits_val s \<le> 32 then Some (digits_val s)
      else case read_ipv4 s of
          None \<Rightarrow> None
        | Some w \<Rightarrow>
            (case List.find (\<lambda>p. netmask p = w) [0..<33] of
               Some p \<Rightarrow> Some p
             | None \<Rightarrow> List.find (\<lambda>p. hostmask p = w) [0..<33]))"

definition read_interface :: "string \<Rightarrow> ipv4_interface option" where
  "read_interface s = (case split_on CHR ''/'' s of
       [a] \<Rightarrow> map_option (\<lambda>w. IPv4Interface w 32) (read_ipv4 a)
     | [a, p] \<Rightarrow> (case (read_ipv4 a, read_prefix_length p) of
                   (Some w, Some n) \<Rightarrow> Some (IPv4Interface w n)
                 | _ \<Rightarrow> None)
     | _ \<Rightarrow> None)"

section \<open>Order\<close>

definition interface_key :: "ipv4_interface \<Rightarrow> nat list" where
  "interface_key i =
     [unat (nw_address (network i)), v4_prefix_length i, unat (v4_ip i)]"

lemma interface_key_inject: "interface_key i = interface_key j \<longleftrightarrow> i = j"
  by (cases i; cases j) (auto simp: interface_key_def network_def word_unat_eq_iff [symmetric])

instantiation ipv4_interface :: linorder
begin

definition less_eq_ipv4_interface :: "ipv4_interface \<Rightarrow> ipv4_interface \<Rightarrow> bool" where
  "i \<le> j \<longleftrightarrow> interface_key i \<le> interface_key j"

definition less_ipv4_interface :: "ipv4_interface \<Rightarrow> ipv4_interface \<Rightarrow> bool" where
  "i < j \<longleftrightarrow> interface_key i < interface_key j"

instance
  by standard
    (auto simp: less_eq_ipv4_interface_def less_ipv4_interface_def less_le_not_le
      interface_key_inject [symmetric])

end

section \<open>Printing determines the interface\<close>

lemma split_on_notin: "d \<notin> set s \<Longrightarrow> split_on d s = [s]"
  by (induction s) auto

lemma split_on_Cons: "split_on d s \<noteq> []"
  by (induction s) (auto split: list.splits)

lemma split_on_append: "d \<notin> set s \<Longrightarrow> split_on d (s @ d # t) = s # split_on d t"
  by (induction s) auto

lemma split_on_join:
  "ws \<noteq> [] \<Longrightarrow> \<forall>w \<in> set ws. d \<notin> set w \<Longrightarrow> split_on d (join [d] ws) = ws"
  by (induction "[d]" ws rule: join.induct) (auto simp: split_on_notin split_on_append)

lemma nat_str_digits:
  "list_all is_digit (nat_str n)" "digits_val (nat_str n) = n" "nat_str n \<noteq> []"
  using nat_str_props by auto

lemma nat_str_notin: "\<not> is_digit d \<Longrightarrow> d \<notin> set (nat_str n)"
  using nat_str_digits [of n] by (auto simp: list_all_iff)

lemma nat_str_hd_zero: "0 < n \<Longrightarrow> hd (nat_str n) \<noteq> CHR ''0''"
proof (induction n rule: nat_str.induct)
  case (1 n)
  show ?case
  proof (cases "n < 10")
    case True
    then have "code (char_of (48 + n)) = 48 + n" by simp
    moreover have "code CHR ''0'' = 48" by (simp add: code_def)
    ultimately have "char_of (48 + n) \<noteq> CHR ''0''" using 1(2) by (metis less_add_same_cancel1 less_irrefl)
    then show ?thesis using True by (simp add: nat_str.simps [of n])
  next
    case False
    with 1 show ?thesis by (simp add: nat_str.simps [of n] nat_str_digits)
  qed
qed

lemma nat_str_length: "n < 1000 \<Longrightarrow> length (nat_str n) \<le> 3"
  by (simp add: nat_str.simps [of n] nat_str.simps [of "n div 10"] nat_str.simps [of "n div 10 div 10"])

lemma octet_printed: "n < 256 \<Longrightarrow> ipv4_octet (nat_str n)"
  using nat_str_hd_zero [of n] nat_str_length [of n] nat_str_digits [of n]
  by (cases "n = 0") (auto simp: ipv4_octet_def nat_str.simps [of 0])

lemma octets_value: "foldl (\<lambda>a d. 256 * a + d) 0 (octets w) = unat w"
proof -
  let ?n = "unat w"
  have n: "?n < 256 * 256 * 256 * 256" using unsigned_less [of w] by simp
  have d: "?n div 65536 = ?n div 256 div 256" "?n div 16777216 = ?n div 256 div 256 div 256"
    by (simp_all add: div_mult2_eq [symmetric])
  have "?n div 256 div 256 div 256 < 256"
    using n by (simp add: div_mult2_eq [symmetric] less_mult_imp_div_less)
  then show ?thesis by (simp add: octets_def d mult.commute)
qed

text \<open>Evaluation takes the octets out of the word by shifting.\<close>

lemma octets_code [code]: "octets w = map (\<lambda>i. unat (drop_bit (8 * i) w AND 255)) [3, 2, 1, 0 :: nat]"
proof -
  have "unat (drop_bit (8 * i) w AND 255) = unat w div 256 ^ i mod 256" for i :: nat
  proof -
    have "(255 :: 32 word) = mask 8" by (simp add: mask_eq_exp_minus_1)
    then have "drop_bit (8 * i) w AND 255 = take_bit 8 (drop_bit (8 * i) w)"
      by (simp add: take_bit_eq_mask)
    moreover have "unat (take_bit 8 (drop_bit (8 * i) w)) = take_bit 8 (drop_bit (8 * i) (unat w))"
      using take_bit_nat_eq_self [of "unat w" 32] unsigned_less [of w, where ?'a = nat]
      by (simp add: unsigned_take_bit_eq unsigned_drop_bit_eq)
    ultimately show ?thesis
      by (simp add: take_bit_eq_mod drop_bit_eq_div power_mult)
  qed
  then show ?thesis by (simp add: octets_def)
qed

lemma ip_str_code [code]: "ip_str (IPv4Address w) = join ''.'' (map nat_str (octets w))"
  by (simp add: octets_def)

declare ip_str.simps(1) [code del]

lemma split_ipv4_str: "split_on CHR ''.'' (ipv4_str w) = map nat_str (octets w)"
  unfolding ipv4_str_def ip_str.simps octets_def [symmetric]
  by (subst split_on_join)
    (auto simp: octets_def is_digit_def code_def intro!: nat_str_notin)

lemma read_ipv4_str: "read_ipv4 (ipv4_str w) = Some w"
proof -
  have "is_ipv4_address (ipv4_str w)"
    unfolding is_ipv4_address_def split_ipv4_str
    by (auto simp: octets_def list_all_iff intro!: octet_printed)
  moreover have "foldl (\<lambda>a d. 256 * a + word_of_nat d) (word_of_nat n :: 32 word) ds
      = word_of_nat (foldl (\<lambda>a d. 256 * a + d) n ds)" for n ds
  proof (induction ds arbitrary: n)
    case (Cons d ds)
    from Cons [of "256 * n + d"] show ?case by simp
  qed simp
  from this [of 0 "octets w"]
  have "foldl (\<lambda>a d. 256 * a + word_of_nat (digits_val d)) 0 (map nat_str (octets w)) = w"
    by (simp add: foldl_map nat_str_digits octets_value)
  ultimately show ?thesis by (simp add: read_ipv4_def split_ipv4_str)
qed

lemma ipv4_str_inject [simp]: "ipv4_str v = ipv4_str w \<longleftrightarrow> v = w"
  by (metis read_ipv4_str option.inject)

lemma join_chars: "set (join d ws) \<subseteq> set d \<union> \<Union> (set ` set ws)"
  by (induction d ws rule: join.induct) auto

lemma ipv4_str_notin: "\<not> is_digit d \<Longrightarrow> d \<noteq> CHR ''.'' \<Longrightarrow> d \<notin> set (ipv4_str w)"
  using join_chars [of "''.''" "map nat_str (octets w)"] nat_str_notin [of d]
  by (auto simp: ipv4_str_def octets_def)

lemma not_digit_slash: "\<not> is_digit CHR ''/''"
  by (simp add: is_digit_def code_def)

lemma read_interface_str:
  assumes "v4_prefix_length i \<le> 32"
  shows "read_interface (interface_str i) = Some i"
proof -
  have "split_on CHR ''/'' (interface_str i) = [ipv4_str (v4_ip i), nat_str (v4_prefix_length i)]"
    by (simp add: interface_str_def split_on_append split_on_notin ipv4_str_notin nat_str_notin
      not_digit_slash)
  then show ?thesis
    using assms by (simp add: read_interface_def read_ipv4_str read_prefix_length_def nat_str_digits)
qed

lemma interface_str_inject:
  assumes "v4_prefix_length i \<le> 32" and "v4_prefix_length j \<le> 32"
  shows "interface_str i = interface_str j \<longleftrightarrow> i = j"
  using assms by (metis read_interface_str option.inject)

lemma network_str_interface: "network_str n = interface_str (IPv4Interface (nw_address n) (nw_prefix_length n))"
  by (simp add: network_str_def interface_str_def)

lemma network_str_inject:
  assumes "nw_prefix_length m \<le> 32" and "nw_prefix_length n \<le> 32"
  shows "network_str m = network_str n \<longleftrightarrow> m = n"
  using assms by (cases m; cases n) (simp add: network_str_interface interface_str_inject)

text \<open>Printing literals.\<close>

lemma digit_chars_of:
  "char_of (48 :: nat) = CHR ''0''" "char_of (49 :: nat) = CHR ''1''" "char_of (50 :: nat) = CHR ''2''"
  "char_of (51 :: nat) = CHR ''3''" "char_of (52 :: nat) = CHR ''4''" "char_of (53 :: nat) = CHR ''5''"
  "char_of (54 :: nat) = CHR ''6''" "char_of (55 :: nat) = CHR ''7''" "char_of (56 :: nat) = CHR ''8''"
  "char_of (57 :: nat) = CHR ''9''"
  by code_simp+

lemmas print_simps = interface_str_def network_str_def ipv4_str_def nat_str.simps digit_chars_of

lemmas mask_simps = network_def netmask_def hostmask_def mask_eq_exp_minus_1

end
