(* ===== verification/Netbox_Api.thy ===== *)
theory Netbox_Api
  imports Canonical_Json
begin

text \<open>
  \<open>NetBoxReadOnlyAPI\<close> of \<^verbatim>\<open>inventory.py\<close>: the GET-only transport every NetBox resolver of
  the program shares. A server is a function of the requests made so far, of the query (the path
  and the parameters of the caller) and of the offset; what it answers is read as JSON and checked page by page. \<open>get_all\<close> is the pagination
  loop: its bound on the announced population makes it end whatever the server answers, and a
  result is the concatenation of the pages of one consistent answer.
\<close>

section \<open>Values of a payload\<close>

text \<open>\<^verbatim>\<open>payload.get(key)\<close>: a missing key and a JSON null are both \<open>None\<close>.\<close>

definition py_get :: "string \<Rightarrow> json \<Rightarrow> json" where
  "py_get k j = (case field k j of Some v \<Rightarrow> v | None \<Rightarrow> JNull)"

fun is_dict :: "json \<Rightarrow> bool" where
  "is_dict (JObj _) = True"
| "is_dict _ = False"

text \<open>\<^verbatim>\<open>value == n\<close> for an integer: a bool is an int in Python.\<close>

fun py_eq_int :: "json \<Rightarrow> int \<Rightarrow> bool" where
  "py_eq_int (JInt i) n = (i = n)"
| "py_eq_int (JBool b) n = (n = (if b then 1 else 0))"
| "py_eq_int _ n = False"

fun is_int :: "json \<Rightarrow> bool" where
  "is_int (JInt _) = True"
| "is_int (JBool _) = True"
| "is_int _ = False"

section \<open>One request\<close>

text \<open>A query is the path with the parameters of the caller; every page adds \<^verbatim>\<open>limit=100\<close> and its offset.\<close>

datatype http_query = Query string "(string \<times> string) list"

datatype http_answer = Timed_Out | Request_Failed | Answered int "json option"

datatype http_event = Get http_query nat http_answer

type_synonym http_server = "http_event list \<Rightarrow> http_query \<Rightarrow> nat \<Rightarrow> http_answer"

text \<open>The two kinds of query the providers make.\<close>

definition by_tag :: "string \<Rightarrow> string \<Rightarrow> http_query" where
  "by_tag path t = Query path [(''tag'', t), (''ordering'', ''id'')]"

definition by_id :: "string \<Rightarrow> nat \<Rightarrow> http_query" where
  "by_id path i = Query path [(''id'', nat_str i), (''ordering'', ''id'')]"

fun read_answer :: "http_answer \<Rightarrow> json res" where
  "read_answer Timed_Out = Inl (ValueError ''NetBox unavailable or timed out'')"
| "read_answer Request_Failed = Inl (ValueError ''NetBox unavailable or timed out'')"
| "read_answer (Answered status body) =
     (if status = 401 \<or> status = 403
      then Inl (ValueError ''NetBox authentication or authorization failed'')
      else if status \<noteq> 200
      then Inl (ValueError (''NetBox returned unexpected HTTP status '' @ int_str status))
      else case body of
          Some payload \<Rightarrow>
            if is_dict payload then Inr payload
            else Inl (ValueError ''NetBox returned invalid JSON or schema'')
        | None \<Rightarrow> Inl (ValueError ''NetBox returned invalid JSON or schema''))"

definition http_get :: "http_server \<Rightarrow> http_query \<Rightarrow> nat \<Rightarrow> (http_event, exn, json) eff" where
  "http_get srv query offset =
     bindE (ask (\<lambda>h. srv h query offset) (Get query offset)) (\<lambda>r. liftE (read_answer r))"

definition results_of :: "json \<Rightarrow> json list res" where
  "results_of payload = (case py_get ''results'' payload of
       JArr items \<Rightarrow>
         if \<not> is_int (py_get ''count'' payload) \<or> \<not> list_all is_dict items
         then Inl (ValueError ''NetBox returned invalid JSON or schema'') else Inr items
     | _ \<Rightarrow> Inl (ValueError ''NetBox returned invalid JSON or schema''))"

definition tag_slugs :: "json \<Rightarrow> string list res" where
  "tag_slugs value = (case value of
       JArr tags \<Rightarrow>
         if \<not> list_all is_dict tags
         then Inl (ValueError ''NetBox returned invalid JSON or schema'')
         else mapS (\<lambda>tag. case py_get ''slug'' tag of
             JStr s \<Rightarrow>
               if s = [] then Inl (ValueError ''NetBox returned invalid JSON or schema'')
               else Inr s
           | _ \<Rightarrow> Inl (ValueError ''NetBox returned invalid JSON or schema'')) tags
     | _ \<Rightarrow> Inl (ValueError ''NetBox returned invalid JSON or schema''))"

section \<open>Pagination\<close>

definition page_limit :: nat where
  "page_limit = 10000"

text \<open>What the loop does with one page: end with all results, or go on from a later offset.\<close>

datatype pagination = Finished "json list" | Continue nat nat "json list"

definition page_step :: "nat \<Rightarrow> nat option \<Rightarrow> json list \<Rightarrow> json \<Rightarrow> pagination res" where
  "page_step offset expected results payload =
     bindS (results_of payload) (\<lambda>page.
     bindS (case py_get ''count'' payload of
              JInt n \<Rightarrow> if n < 0 then Inl (ValueError ''NetBox returned invalid JSON or schema'')
                        else Inr (nat n)
            | _ \<Rightarrow> Inl (ValueError ''NetBox returned invalid JSON or schema'')) (\<lambda>count.
     bindS (case expected of
              None \<Rightarrow> if page_limit < count
                then Inl (ValueError ''NetBox selected population is too large'') else Inr ()
            | Some n \<Rightarrow> if count \<noteq> n
                then Inl (ValueError ''NetBox pagination changed during resolution'') else Inr ())
       (\<lambda>_.
     let results' = results @ page in
     case py_get ''next'' payload of
       JNull \<Rightarrow> if length results' \<noteq> count
         then Inl (ValueError ''NetBox pagination is incomplete'') else Inr (Finished results')
     | JStr next_page \<Rightarrow>
         if next_page = [] \<or> page = []
         then Inl (ValueError ''NetBox pagination is invalid'')
         else if count \<le> offset + length page
         then Inl (ValueError ''NetBox pagination is invalid'')
         else Inr (Continue (offset + length page) count results')
     | _ \<Rightarrow> Inl (ValueError ''NetBox pagination is invalid''))))"

lemma page_step_Continue:
  assumes "page_step offset expected results payload = Inr (Continue offset' n results')"
  shows "offset < offset'" and "offset' < n" and "expected = None \<Longrightarrow> n \<le> page_limit"
    and "expected \<noteq> None \<Longrightarrow> expected = Some n"
proof -
  have "offset < offset' \<and> offset' < n \<and> (case expected of None \<Rightarrow> n \<le> page_limit | Some k \<Rightarrow> k = n)"
    using assms
    by (auto simp: page_step_def bindS_Inr_iff Let_def split: if_splits json.splits option.splits)
  then show "offset < offset'" and "offset' < n" and "expected = None \<Longrightarrow> n \<le> page_limit"
    and "expected \<noteq> None \<Longrightarrow> expected = Some n"
    by (auto split: option.splits)
qed

function get_pages ::
    "http_server \<Rightarrow> http_query \<Rightarrow> nat \<Rightarrow> nat option \<Rightarrow> json list \<Rightarrow> http_event list
      \<Rightarrow> (exn + json list) \<times> http_event list" where
  "get_pages srv query offset expected results t =
    (case http_get srv query offset t of
       (Inl e, t') \<Rightarrow> (Inl e, t')
     | (Inr payload, t') \<Rightarrow>
         (case page_step offset expected results payload of
            Inl e \<Rightarrow> (Inl e, t')
          | Inr (Finished rs) \<Rightarrow> (Inr rs, t')
          | Inr (Continue offset' n results') \<Rightarrow>
              get_pages srv query offset' (Some n) results' t'))"
  by pat_completeness auto

termination
proof (relation "measure (\<lambda>(srv, query, offset, expected, results, t).
    case expected of None \<Rightarrow> Suc page_limit | Some n \<Rightarrow> n - offset)", goal_cases)
  case (2 srv query offset expected results t r t' payload q offset' n results')
  then have "page_step offset expected results payload = Inr (Continue offset' n results')"
    by simp
  from page_step_Continue [OF this] show ?case by (cases expected) auto
qed simp

declare get_pages.simps [simp del]

definition get_all :: "http_server \<Rightarrow> http_query \<Rightarrow> (http_event, exn, json list) eff" where
  "get_all srv query = get_pages srv query 0 None []"


section \<open>What the loop returns\<close>

fun page_of :: "http_event \<Rightarrow> json list" where
  "page_of (Get query offset a) =
     (case bindS (read_answer a) results_of of Inr items \<Rightarrow> items | Inl _ \<Rightarrow> [])"

fun requested :: "http_query \<Rightarrow> http_event \<Rightarrow> bool" where
  "requested query (Get p offset a) = (p = query)"

lemma page_step_facts:
  assumes "page_step offset expected results payload = Inr q"
  shows "\<exists>page. results_of payload = Inr page
    \<and> (case q of Finished rs \<Rightarrow> rs = results @ page
                   \<and> py_get ''count'' payload = JInt (int (length rs))
                   \<and> (\<forall>n. expected = Some n \<longrightarrow> n = length rs)
               | Continue _ _ rs \<Rightarrow> rs = results @ page)"
  using assms
  by (cases "py_get ''next'' payload"; cases "py_get ''count'' payload"; cases expected;
      auto simp: page_step_def bindS_Inr_iff Let_def split: if_splits)+

lemma http_get_event:
  "\<exists>a. http_get srv query offset t = (read_answer a, t @ [Get query offset a])"
  by (auto simp: http_get_def bindE_def ask_def liftE_def)

text \<open>The requests left from a state of the loop.\<close>

fun requests_left :: "nat option \<Rightarrow> nat \<Rightarrow> nat" where
  "requests_left None offset = page_limit"
| "requests_left (Some n) offset = n - offset"

lemma page_limit_positive: "0 < page_limit"
  by (simp add: page_limit_def)

lemma get_pages_cases:
  assumes "get_pages srv query offset expected results t = (r, t')"
  obtains (ended) a where "t' = t @ [Get query offset a]"
      and "\<forall>rs. r = Inr rs \<longrightarrow> rs = results @ page_of (Get query offset a)"
  | (continued) a payload offset' n results' where
      "http_get srv query offset t = (Inr payload, t @ [Get query offset a])"
      and "page_step offset expected results payload = Inr (Continue offset' n results')"
      and "results' = results @ page_of (Get query offset a)"
      and "get_pages srv query offset' (Some n) results' (t @ [Get query offset a]) = (r, t')"
proof -
  obtain a where a: "http_get srv query offset t = (read_answer a, t @ [Get query offset a])"
    using http_get_event by blast
  show ?thesis
  proof (cases "bindS (read_answer a) (page_step offset expected results)")
    case (Inl e)
    then show ?thesis
      using assms a by (intro ended [of a]; cases "read_answer a") (auto simp: get_pages.simps [of srv])
  next
    case (Inr q)
    then obtain payload where p: "read_answer a = Inr payload"
      and q: "page_step offset expected results payload = Inr q" by (auto simp: bindS_Inr_iff)
    from page_step_facts [OF q] p show ?thesis
      using assms a q
      by (cases q; simp add: get_pages.simps [of srv query offset])
        (auto intro: ended [of a] continued [of payload a])
  qed
qed

lemma get_pages_run:
  assumes "get_pages srv query offset expected results t = (r, t')"
    and "\<forall>n. expected = Some n \<longrightarrow> offset < n"
  shows "\<exists>evs. t' = t @ evs \<and> list_all (requested query) evs
    \<and> 1 \<le> length evs \<and> length evs \<le> requests_left expected offset
    \<and> (\<forall>rs. r = Inr rs \<longrightarrow> rs = results @ concat (map page_of evs))"
  using assms
proof (induction srv query offset expected results t arbitrary: r t' rule: get_pages.induct)
  case (1 srv query offset expected results t)
  from 1(2) show ?case
  proof (cases rule: get_pages_cases)
    case (ended a)
    have "1 \<le> requests_left expected offset"
      using 1(3) page_limit_positive by (cases expected) auto
    then show ?thesis using ended by (intro exI [of _ "[Get query offset a]"]) auto
  next
    case (continued a payload offset' n results')
    note step = page_step_Continue [OF continued(2)]
    obtain evs where evs: "t' = (t @ [Get query offset a]) @ evs" "list_all (requested query) evs"
      "length evs \<le> n - offset'" "\<forall>rs. r = Inr rs \<longrightarrow> rs = results' @ concat (map page_of evs)"
      using 1(1) [OF continued(1) [symmetric] refl continued(2) refl continued(4)] step by auto
    have "Suc (length evs) \<le> requests_left expected offset"
      using evs(3) step by (cases expected) auto
    then show ?thesis
      using evs continued(3) by (intro exI [of _ "Get query offset a # evs"]) auto
  qed
qed

text \<open>One paginated read in front of a computation: the segment of its requests, and either its failure
  or the computation on the pages received.\<close>

definition read_segment :: "http_query \<Rightarrow> http_event list \<Rightarrow> bool" where
  "read_segment query evs \<longleftrightarrow> list_all (requested query) evs \<and> length evs \<le> page_limit"

abbreviation received :: "http_event list \<Rightarrow> json list" where
  "received evs \<equiv> concat (map page_of evs)"

lemma get_all_bindE:
  assumes "bindE (get_all srv query) f t = (r, t')"
  obtains (failed) e evs where "r = Inl e" and "t' = t @ evs" and "read_segment query evs"
  | (got) evs where "read_segment query evs" and "f (received evs) (t @ evs) = (r, t')"
proof -
  obtain q s where g: "get_pages srv query 0 None [] t = (q, s)" by fastforce
  from get_pages_run [OF g] obtain evs where e: "s = t @ evs" "read_segment query evs"
    "\<forall>rs. q = Inr rs \<longrightarrow> rs = received evs"
    by (auto simp: read_segment_def)
  show ?thesis
    using assms g e that by (cases q) (auto simp: bindE_def get_all_def)
qed

end
