(* ===== verification/Reference_Allocation.thy ===== *)
theory Reference_Allocation
  imports Ipv4 Json_Binding Netbox_Api
begin

text \<open>
  \<^verbatim>\<open>reference_data_plane.py\<close>: the routed links, VLANs and prefixes of the reference data plane as
  NetBox owns them. The catalogs are the accepted copies of NetBox identities, the validators admit
  exactly the accepted allocation, and the GET-only provider builds an allocation from four
  paginated answers after checking every field of every object in them.
\<close>

section \<open>Catalogs\<close>

definition DATA_PLANE_TAG :: string where
  "DATA_PLANE_TAG = ''ncdp-data-plane''"

definition ACCEPTED_REFERENCE_ALLOCATION_DIGEST :: string where
  "ACCEPTED_REFERENCE_ALLOCATION_DIGEST =
     ''sha256:1352521feec8f787eb1a468c586dd3390428289314c3984416ab987a8af61b3d''"

datatype routed_link_identity = CORE_JUNOS | CORE_TRANSIT | JUNOS_TRANSIT

fun routed_link_identity_value :: "routed_link_identity \<Rightarrow> string" where
  "routed_link_identity_value CORE_JUNOS = ''core-junos-link''"
| "routed_link_identity_value CORE_TRANSIT = ''core-transit-link''"
| "routed_link_identity_value JUNOS_TRANSIT = ''junos-transit-link''"

definition routed_link_identities :: "routed_link_identity list" where
  "routed_link_identities = [CORE_JUNOS, CORE_TRANSIT, JUNOS_TRANSIT]"

definition PREFIX_IDENTITIES :: "(string \<times> nat) list" where
  "PREFIX_IDENTITIES =
    [(''10.60.0.0/16'', 2), (''10.60.0.0/30'', 3), (''10.60.0.4/30'', 4), (''10.60.0.8/30'', 5),
     (''10.60.10.0/24'', 6), (''10.60.20.0/24'', 7), (''10.60.255.0/24'', 8)]"

definition VLAN_IDENTITIES :: "(nat \<times> nat \<times> string) list" where
  "VLAN_IDENTITIES = [(10, 1, ''USERS''), (20, 2, ''SERVERS'')]"

record interface_fact =
  if_device_id :: nat
  if_device_name :: string
  if_name :: string
  if_cable :: nat

definition INTERFACE_IDENTITIES :: "(nat \<times> interface_fact) list" where
  "INTERFACE_IDENTITIES = map (\<lambda>(i, d, n, m, c).
     (i, \<lparr>if_device_id = d, if_device_name = n, if_name = m, if_cable = c\<rparr>))
    [(11, 1, ''core-02'', ''GigabitEthernet4'', 1),
     (12, 2, ''edge-junos-01'', ''ge-0/0/0'', 1),
     (2, 1, ''core-02'', ''GigabitEthernet2'', 2),
     (14, 8, ''transit-ios-01'', ''GigabitEthernet0/1'', 2),
     (4, 2, ''edge-junos-01'', ''ge-0/0/1'', 3),
     (15, 8, ''transit-ios-01'', ''GigabitEthernet0/2'', 3)]"

definition ROUTED_IP_IDENTITIES :: "(string \<times> nat \<times> nat) list" where
  "ROUTED_IP_IDENTITIES =
    [(''10.60.0.1/30'', 17, 11), (''10.60.0.2/30'', 18, 12), (''10.60.0.5/30'', 19, 2),
     (''10.60.0.6/30'', 20, 14), (''10.60.0.9/30'', 21, 4), (''10.60.0.10/30'', 22, 15)]"

record link_fact =
  lf_link :: routed_link_identity
  lf_prefix :: string
  lf_addresses :: "string list"
  lf_cable :: nat

definition LINK_CATALOG :: "link_fact list" where
  "LINK_CATALOG = map (\<lambda>(l, p, a, c).
     \<lparr>lf_link = l, lf_prefix = p, lf_addresses = a, lf_cable = c\<rparr>)
    [(CORE_JUNOS, ''10.60.0.0/30'', [''10.60.0.1/30'', ''10.60.0.2/30''], 1),
     (CORE_TRANSIT, ''10.60.0.4/30'', [''10.60.0.5/30'', ''10.60.0.6/30''], 2),
     (JUNOS_TRANSIT, ''10.60.0.8/30'', [''10.60.0.9/30'', ''10.60.0.10/30''], 3)]"

text \<open>\<^verbatim>\<open>catalog[key]\<close>: a missing key is a KeyError.\<close>

definition lookup :: "('k \<times> 'v) list \<Rightarrow> 'k \<Rightarrow> 'v res" where
  "lookup catalog k = (case map_of catalog k of Some v \<Rightarrow> Inr v | None \<Rightarrow> Inl (OtherException ''KeyError''))"

definition netbox_id :: "string \<Rightarrow> nat \<Rightarrow> string" where
  "netbox_id noun i = ''netbox:'' @ noun @ '':'' @ nat_str i"

section \<open>The allocation\<close>

record routed_link_endpoint =
  rle_interface :: stable_interface
  rle_ip_address_identity :: string
  rle_address :: ipv4_interface

record routed_link_allocation =
  rla_logical_link :: routed_link_identity
  rla_prefix_identity :: string
  rla_prefix :: ipv4_network
  rla_cable_id :: int
  rla_endpoints :: "routed_link_endpoint list"

record vlan_service_allocation =
  vsa_vlan_identity :: string
  vsa_vid :: nat
  vsa_canonical_name :: string
  vsa_prefix_identity :: string
  vsa_prefix :: ipv4_network

record reference_data_plane =
  rda_parent_prefix_identity :: string
  rda_parent_prefix :: ipv4_network
  rda_routed_links :: "routed_link_allocation list"
  rda_vlans :: "vlan_service_allocation list"
  rda_pool_identity :: string
  rda_pool :: ipv4_network

definition wf_interface :: "ipv4_interface \<Rightarrow> bool" where
  "wf_interface i \<longleftrightarrow> v4_prefix_length i \<le> 32"

definition wf_network :: "ipv4_network \<Rightarrow> bool" where
  "wf_network n \<longleftrightarrow> nw_prefix_length n \<le> 32 \<and> nw_address n AND hostmask (nw_prefix_length n) = 0"

definition read_network :: "string \<Rightarrow> ipv4_network res" where
  "read_network s = (case read_interface s of
       Some i \<Rightarrow>
         if v4_ip i AND hostmask (v4_prefix_length i) = 0 then Inr (network i)
         else Inl (ValueError ''value is not a valid IPv4 network'')
     | None \<Rightarrow> Inl (ValueError ''value is not a valid IPv4 network''))"

definition read_address :: "string \<Rightarrow> ipv4_interface res" where
  "read_address s = (case read_interface s of
       Some i \<Rightarrow> Inr i | None \<Rightarrow> Inl (ValueError ''value is not a valid IPv4 interface''))"

section \<open>Validators\<close>

definition endpoint_valid :: "routed_link_endpoint \<Rightarrow> unit res" where
  "endpoint_valid e = checks
    [(\<not> stable_interface_valid (rle_interface e), ValueError ''interface''),
     (\<not> netbox_identity ''ipam.ipaddress'' (rle_ip_address_identity e), ValueError ''ip_address_identity''),
     (\<not> wf_interface (rle_address e), ValueError ''address'')]"

definition routed_link_valid :: "routed_link_allocation \<Rightarrow> unit res" where
  "routed_link_valid l =
    bindS (mapS endpoint_valid (rla_endpoints l)) (\<lambda>_. checks
     [(\<not> netbox_identity ''ipam.prefix'' (rla_prefix_identity l), ValueError ''prefix_identity''),
      (\<not> wf_network (rla_prefix l), ValueError ''prefix''),
      (rla_cable_id l < 1, ValueError ''cable_id''),
      (length (rla_endpoints l) \<noteq> 2, ValueError ''endpoints''),
      (\<not> distinct (map (si_device \<circ> rle_interface) (rla_endpoints l))
       \<or> \<not> distinct (map (si_interface \<circ> rle_interface) (rla_endpoints l))
       \<or> \<not> distinct (map rle_ip_address_identity (rla_endpoints l))
       \<or> list_ex (\<lambda>e. network (rle_address e) \<noteq> rla_prefix l) (rla_endpoints l),
         ValueError ''routed link endpoints are not exact'')])"

definition vlan_service_valid :: "vlan_service_allocation \<Rightarrow> unit res" where
  "vlan_service_valid v = checks
    [(\<not> netbox_identity ''ipam.vlan'' (vsa_vlan_identity v), ValueError ''vlan_identity''),
     (vsa_vid v \<notin> {10, 20}, ValueError ''vid''),
     (vsa_canonical_name v \<notin> {''USERS'', ''SERVERS''}, ValueError ''canonical_name''),
     (\<not> netbox_identity ''ipam.prefix'' (vsa_prefix_identity v), ValueError ''prefix_identity''),
     (\<not> wf_network (vsa_prefix v), ValueError ''prefix''),
     ((vsa_canonical_name v, network_str (vsa_prefix v)) \<noteq>
        (if vsa_vid v = 10 then (''USERS'', ''10.60.10.0/24'') else (''SERVERS'', ''10.60.20.0/24'')),
        ValueError ''VLAN service allocation is inconsistent'')]"

definition exact_endpoint :: "nat \<Rightarrow> routed_link_endpoint \<times> string \<Rightarrow> unit res" where
  "exact_endpoint cable_id = (\<lambda>(e, address).
     bindS (lookup ROUTED_IP_IDENTITIES address) (\<lambda>(ip_id, interface_id).
     bindS (lookup INTERFACE_IDENTITIES interface_id) (\<lambda>g. checks
      [(si_device (rle_interface e) \<noteq> netbox_id ''dcim.device'' (if_device_id g)
        \<or> si_interface (rle_interface e) \<noteq> netbox_id ''dcim.interface'' interface_id
        \<or> si_name (rle_interface e) \<noteq> if_name g
        \<or> rle_ip_address_identity e \<noteq> netbox_id ''ipam.ipaddress'' ip_id
        \<or> interface_str (rle_address e) \<noteq> address
        \<or> if_cable g \<noteq> cable_id,
        ValueError ''reference routed endpoint is not exact'')])))"

definition exact_link :: "routed_link_allocation \<times> link_fact \<Rightarrow> unit res" where
  "exact_link = (\<lambda>(l, f).
     bindS (lookup PREFIX_IDENTITIES (lf_prefix f)) (\<lambda>i.
     bindS (checks
       [(rla_logical_link l \<noteq> lf_link f \<or> rla_prefix_identity l \<noteq> netbox_id ''ipam.prefix'' i
          \<or> network_str (rla_prefix l) \<noteq> lf_prefix f \<or> rla_cable_id l \<noteq> int (lf_cable f),
          ValueError ''reference routed-link allocation is not exact'')]) (\<lambda>_.
     bindS (mapS (exact_endpoint (lf_cable f)) (zip (rla_endpoints l) (lf_addresses f)))
       (\<lambda>_. Inr ()))))"

definition exact_vlan :: "vlan_service_allocation \<times> nat \<times> string \<Rightarrow> unit res" where
  "exact_vlan = (\<lambda>(v, vid, prefix).
     bindS (lookup VLAN_IDENTITIES vid) (\<lambda>(vlan_id, name).
     bindS (lookup PREFIX_IDENTITIES prefix) (\<lambda>i. checks
      [(vsa_vlan_identity v \<noteq> netbox_id ''ipam.vlan'' vlan_id \<or> vsa_vid v \<noteq> vid
        \<or> vsa_canonical_name v \<noteq> name \<or> vsa_prefix_identity v \<noteq> netbox_id ''ipam.prefix'' i
        \<or> network_str (vsa_prefix v) \<noteq> prefix,
        ValueError ''reference VLAN allocation is not exact'')])))"

definition VLAN_PREFIXES :: "(nat \<times> string) list" where
  "VLAN_PREFIXES = [(10, ''10.60.10.0/24''), (20, ''10.60.20.0/24'')]"

definition reference_allocation_valid :: "reference_data_plane \<Rightarrow> unit res" where
  "reference_allocation_valid a =
    bindS (mapS routed_link_valid (rda_routed_links a)) (\<lambda>_.
    bindS (mapS vlan_service_valid (rda_vlans a)) (\<lambda>_.
    bindS (checks
     [(\<not> netbox_identity ''ipam.prefix'' (rda_parent_prefix_identity a)
        \<or> \<not> netbox_identity ''ipam.prefix'' (rda_pool_identity a)
        \<or> \<not> wf_network (rda_parent_prefix a) \<or> \<not> wf_network (rda_pool a)
        \<or> length (rda_routed_links a) \<noteq> 3 \<or> length (rda_vlans a) \<noteq> 2, ValueError ''fields''),
      (rda_parent_prefix_identity a \<noteq> ''netbox:ipam.prefix:2''
        \<or> network_str (rda_parent_prefix a) \<noteq> ''10.60.0.0/16''
        \<or> map rla_logical_link (rda_routed_links a) \<noteq> routed_link_identities
        \<or> map vsa_vid (rda_vlans a) \<noteq> [10, 20]
        \<or> rda_pool_identity a \<noteq> ''netbox:ipam.prefix:8''
        \<or> network_str (rda_pool a) \<noteq> ''10.60.255.0/24'',
        ValueError ''reference data-plane allocation is not exact'')]) (\<lambda>_.
    bindS (mapS exact_link (zip (rda_routed_links a) LINK_CATALOG)) (\<lambda>_.
    bindS (mapS exact_vlan (zip (rda_vlans a) VLAN_PREFIXES)) (\<lambda>_. Inr ())))))"


section \<open>Building an allocation\<close>

definition build_link ::
    "(string \<times> routed_link_endpoint) list \<Rightarrow> link_fact \<Rightarrow> routed_link_allocation res" where
  "build_link endpoints f =
    bindS (lookup PREFIX_IDENTITIES (lf_prefix f)) (\<lambda>i.
    bindS (mapS (lookup endpoints) (lf_addresses f)) (\<lambda>es.
    bindS (read_network (lf_prefix f)) (\<lambda>n.
    let l = \<lparr>rla_logical_link = lf_link f, rla_prefix_identity = netbox_id ''ipam.prefix'' i,
             rla_prefix = n, rla_cable_id = int (lf_cable f), rla_endpoints = es\<rparr>
    in bindS (routed_link_valid l) (\<lambda>_. Inr l))))"

definition build_vlan :: "nat \<times> string \<Rightarrow> vlan_service_allocation res" where
  "build_vlan = (\<lambda>(vid, prefix).
    bindS (lookup VLAN_IDENTITIES vid) (\<lambda>(vlan_id, name).
    bindS (lookup PREFIX_IDENTITIES prefix) (\<lambda>i.
    bindS (read_network prefix) (\<lambda>n.
    let v = \<lparr>vsa_vlan_identity = netbox_id ''ipam.vlan'' vlan_id, vsa_vid = vid,
             vsa_canonical_name = name, vsa_prefix_identity = netbox_id ''ipam.prefix'' i,
             vsa_prefix = n\<rparr>
    in bindS (vlan_service_valid v) (\<lambda>_. Inr v)))))"

definition build_reference_allocation ::
    "(string \<times> routed_link_endpoint) list \<Rightarrow> reference_data_plane res" where
  "build_reference_allocation endpoints =
    bindS (mapS (build_link endpoints) LINK_CATALOG) (\<lambda>links.
    bindS (mapS build_vlan VLAN_PREFIXES) (\<lambda>vlans.
    bindS (read_network ''10.60.0.0/16'') (\<lambda>parent.
    bindS (read_network ''10.60.255.0/24'') (\<lambda>pool.
    let a = \<lparr>rda_parent_prefix_identity = ''netbox:ipam.prefix:2'', rda_parent_prefix = parent,
             rda_routed_links = links, rda_vlans = vlans,
             rda_pool_identity = ''netbox:ipam.prefix:8'', rda_pool = pool\<rparr>
    in bindS (reference_allocation_valid a) (\<lambda>_. Inr a)))))"

definition link_interface :: "nat \<Rightarrow> interface_fact \<Rightarrow> stable_interface" where
  "link_interface i g = \<lparr>si_device = netbox_id ''dcim.device'' (if_device_id g),
     si_interface = netbox_id ''dcim.interface'' i, si_name = if_name g\<rparr>"

definition accepted_endpoint ::
    "string \<times> nat \<times> nat \<Rightarrow> (string \<times> routed_link_endpoint) res" where
  "accepted_endpoint = (\<lambda>(address, ip_id, interface_id).
    bindS (lookup INTERFACE_IDENTITIES interface_id) (\<lambda>g.
    bindS (read_address address) (\<lambda>i.
    let e = \<lparr>rle_interface = link_interface interface_id g,
             rle_ip_address_identity = netbox_id ''ipam.ipaddress'' ip_id, rle_address = i\<rparr>
    in bindS (endpoint_valid e) (\<lambda>_. Inr (address, e)))))"

section \<open>Canonical JSON\<close>

definition endpoint_json :: "routed_link_endpoint \<Rightarrow> json" where
  "endpoint_json e = JObj
    [(''interface'', interface_json (rle_interface e)),
     (''ip_address_identity'', JStr (rle_ip_address_identity e)),
     (''address'', JStr (interface_str (rle_address e)))]"

definition routed_link_json :: "routed_link_allocation \<Rightarrow> json" where
  "routed_link_json l = JObj
    [(''logical_link'', JStr (routed_link_identity_value (rla_logical_link l))),
     (''prefix_identity'', JStr (rla_prefix_identity l)),
     (''prefix'', JStr (network_str (rla_prefix l))),
     (''cable_id'', JInt (rla_cable_id l)),
     (''endpoints'', JArr (map endpoint_json (rla_endpoints l)))]"

definition vlan_service_json :: "vlan_service_allocation \<Rightarrow> json" where
  "vlan_service_json v = JObj
    [(''vlan_identity'', JStr (vsa_vlan_identity v)), (''vid'', JInt (int (vsa_vid v))),
     (''canonical_name'', JStr (vsa_canonical_name v)),
     (''prefix_identity'', JStr (vsa_prefix_identity v)),
     (''prefix'', JStr (network_str (vsa_prefix v)))]"

definition reference_allocation_json :: "reference_data_plane \<Rightarrow> json" where
  "reference_allocation_json a = JObj
    [(''schema_version'', JStr ''1''), (''population_tag'', JStr DATA_PLANE_TAG),
     (''parent_prefix_identity'', JStr (rda_parent_prefix_identity a)),
     (''parent_prefix'', JStr (network_str (rda_parent_prefix a))),
     (''routed_links'', JArr (map routed_link_json (rda_routed_links a))),
     (''vlans'', JArr (map vlan_service_json (rda_vlans a))),
     (''routing_identity_pool_identity'', JStr (rda_pool_identity a)),
     (''routing_identity_pool'', JStr (network_str (rda_pool a)))]"

definition reference_allocation_digest :: "(string \<Rightarrow> string) \<Rightarrow> reference_data_plane \<Rightarrow> string" where
  "reference_allocation_digest sha a =
     sha256_identity sha (canonical_json_bytes (reference_allocation_json a))"

definition build_accepted_reference_allocation_evidence ::
    "(string \<Rightarrow> string) \<Rightarrow> reference_data_plane res" where
  "build_accepted_reference_allocation_evidence sha =
    bindS (mapS accepted_endpoint ROUTED_IP_IDENTITIES) (\<lambda>endpoints.
    bindS (build_reference_allocation endpoints) (\<lambda>a.
    if reference_allocation_digest sha a \<noteq> ACCEPTED_REFERENCE_ALLOCATION_DIGEST
    then Inl (RuntimeError ''accepted reference allocation evidence digest changed'')
    else Inr a))"

section \<open>The provider\<close>

definition positive_id :: "string \<Rightarrow> json \<Rightarrow> nat res" where
  "positive_id noun value = (case value of
       JInt i \<Rightarrow> if i \<le> 0 then Inl (ValueError (''NetBox '' @ noun @ '' identity is invalid''))
                 else Inr (nat i)
     | _ \<Rightarrow> Inl (ValueError (''NetBox '' @ noun @ '' identity is invalid'')))"

definition required_string :: "string \<Rightarrow> json \<Rightarrow> string res" where
  "required_string noun value = (case value of
       JStr s \<Rightarrow> if py_strip s = [] then Inl (ValueError (''NetBox '' @ noun @ '' is invalid''))
                 else Inr (py_strip s)
     | _ \<Rightarrow> Inl (ValueError (''NetBox '' @ noun @ '' is invalid'')))"

definition active :: "json \<Rightarrow> bool" where
  "active value \<longleftrightarrow> is_dict value \<and> py_get ''value'' value = JStr ''active''"

text \<open>The conditions of one \<open>if\<close>, left to right: the tags are read only when the ones before hold.\<close>

definition conflicts :: "string \<Rightarrow> bool \<Rightarrow> json \<Rightarrow> bool \<Rightarrow> unit res" where
  "conflicts message before payload after =
    (if before then Inl (ValueError message)
     else bindS (tag_slugs (py_get ''tags'' payload)) (\<lambda>tags.
       if DATA_PLANE_TAG \<notin> set tags \<or> after then Inl (ValueError message) else Inr ()))"

definition expected_vlan_by_prefix :: "(string \<times> nat \<times> nat \<times> string) list" where
  "expected_vlan_by_prefix =
    [(''10.60.10.0/24'', 10, 1, ''USERS''), (''10.60.20.0/24'', 20, 2, ''SERVERS'')]"

fun read_prefixes :: "string list \<Rightarrow> json list \<Rightarrow> string list res" where
  "read_prefixes resolved [] = Inr resolved"
| "read_prefixes resolved (payload # rest) =
    bindS (required_string ''prefix'' (py_get ''prefix'' payload)) (\<lambda>prefix.
    bindS (positive_id ''prefix'' (py_get ''id'' payload)) (\<lambda>prefix_id.
    bindS (conflicts ''NetBox prefix authority conflicts''
      (map_of PREFIX_IDENTITIES prefix \<noteq> Some prefix_id \<or> prefix \<in> set resolved
       \<or> \<not> active (py_get ''status'' payload)
       \<or> py_get ''scope_type'' payload \<noteq> JStr ''dcim.site''
       \<or> \<not> py_eq_int (py_get ''scope_id'' payload) 1
       \<or> \<not> is_dict (py_get ''scope'' payload)
       \<or> \<not> py_eq_int (py_get ''id'' (py_get ''scope'' payload)) 1
       \<or> py_get ''slug'' (py_get ''scope'' payload) \<noteq> JStr ''lab'')
      payload (py_get ''vrf'' payload \<noteq> JNull)) (\<lambda>_.
    bindS (case map_of expected_vlan_by_prefix prefix of
        None \<Rightarrow> checks [(py_get ''vlan'' payload \<noteq> JNull,
                          ValueError ''NetBox prefix VLAN association conflicts'')]
      | Some (vid, i, n) \<Rightarrow> checks
          [(\<not> is_dict (py_get ''vlan'' payload)
            \<or> \<not> py_eq_int (py_get ''vid'' (py_get ''vlan'' payload)) (int vid)
            \<or> \<not> py_eq_int (py_get ''id'' (py_get ''vlan'' payload)) (int i)
            \<or> py_get ''name'' (py_get ''vlan'' payload) \<noteq> JStr n,
            ValueError ''NetBox prefix VLAN association conflicts'')]) (\<lambda>_.
    read_prefixes (resolved @ [prefix]) rest))))"

fun read_vlans :: "nat list \<Rightarrow> json list \<Rightarrow> nat list res" where
  "read_vlans resolved [] = Inr resolved"
| "read_vlans resolved (payload # rest) =
    (case py_get ''vid'' payload of
       JInt vid \<Rightarrow>
         (case (if vid < 0 then None else map_of VLAN_IDENTITIES (nat vid)) of
            None \<Rightarrow> Inl (ValueError ''NetBox VLAN authority conflicts'')
          | Some (i, n) \<Rightarrow>
              bindS (conflicts ''NetBox VLAN authority conflicts''
                (\<not> py_eq_int (py_get ''id'' payload) (int i)
                 \<or> py_get ''name'' payload \<noteq> JStr n \<or> nat vid \<in> set resolved
                 \<or> \<not> active (py_get ''status'' payload)
                 \<or> py_get ''group'' payload \<noteq> JNull
                 \<or> \<not> is_dict (py_get ''site'' payload)
                 \<or> \<not> py_eq_int (py_get ''id'' (py_get ''site'' payload)) 1
                 \<or> py_get ''slug'' (py_get ''site'' payload) \<noteq> JStr ''lab'')
                payload False) (\<lambda>_. read_vlans (resolved @ [nat vid]) rest))
     | _ \<Rightarrow> Inl (ValueError ''NetBox VLAN VID is invalid''))"

fun read_interfaces ::
    "(nat \<times> stable_interface) list \<Rightarrow> json list \<Rightarrow> (nat \<times> stable_interface) list res" where
  "read_interfaces resolved [] = Inr resolved"
| "read_interfaces resolved (payload # rest) =
    bindS (positive_id ''interface'' (py_get ''id'' payload)) (\<lambda>i.
    (case map_of INTERFACE_IDENTITIES i of
       None \<Rightarrow> Inl (ValueError ''NetBox routed interface authority conflicts'')
     | Some g \<Rightarrow>
         bindS (conflicts ''NetBox routed interface authority conflicts''
           (i \<in> set (map fst resolved)
            \<or> \<not> is_dict (py_get ''device'' payload)
            \<or> \<not> py_eq_int (py_get ''id'' (py_get ''device'' payload)) (int (if_device_id g))
            \<or> py_get ''name'' (py_get ''device'' payload) \<noteq> JStr (if_device_name g)
            \<or> py_get ''name'' payload \<noteq> JStr (if_name g)
            \<or> \<not> is_dict (py_get ''cable'' payload)
            \<or> \<not> py_eq_int (py_get ''id'' (py_get ''cable'' payload)) (int (if_cable g)))
           payload False) (\<lambda>_.
         read_interfaces (resolved @ [(i, link_interface i g)]) rest)))"


fun read_ips ::
    "(nat \<times> stable_interface) list \<Rightarrow> (string \<times> routed_link_endpoint) list \<Rightarrow> json list
      \<Rightarrow> (string \<times> routed_link_endpoint) list res" where
  "read_ips interfaces resolved [] = Inr resolved"
| "read_ips interfaces resolved (payload # rest) =
    bindS (required_string ''IP address'' (py_get ''address'' payload)) (\<lambda>address.
    bindS (positive_id ''IP address'' (py_get ''id'' payload)) (\<lambda>ip_id.
    let assigned = py_get ''assigned_object'' payload; device = py_get ''device'' assigned in
    (case map_of ROUTED_IP_IDENTITIES address of
       None \<Rightarrow> Inl (ValueError ''NetBox routed IP authority conflicts'')
     | Some (expected_ip, expected_interface) \<Rightarrow>
         bindS (checks [(\<not> is_dict assigned, ValueError ''NetBox routed IP authority conflicts'')]) (\<lambda>_.
         bindS (lookup INTERFACE_IDENTITIES expected_interface) (\<lambda>g.
         bindS (conflicts ''NetBox routed IP authority conflicts''
           (ip_id \<noteq> expected_ip \<or> address \<in> set (map fst resolved)
            \<or> \<not> active (py_get ''status'' payload)
            \<or> py_get ''assigned_object_type'' payload \<noteq> JStr ''dcim.interface''
            \<or> \<not> py_eq_int (py_get ''assigned_object_id'' payload) (int expected_interface)
            \<or> \<not> py_eq_int (py_get ''id'' assigned) (int expected_interface)
            \<or> py_get ''name'' assigned \<noteq> JStr (if_name g)
            \<or> \<not> is_dict device
            \<or> \<not> py_eq_int (py_get ''id'' device) (int (if_device_id g))
            \<or> py_get ''name'' device \<noteq> JStr (if_device_name g)
            \<or> map_of interfaces expected_interface = None)
           payload False) (\<lambda>_.
         bindS (lookup interfaces expected_interface) (\<lambda>interface.
         bindS (read_address address) (\<lambda>i.
         let e = \<lparr>rle_interface = interface,
                  rle_ip_address_identity = netbox_id ''ipam.ipaddress'' ip_id, rle_address = i\<rparr>
         in bindS (endpoint_valid e) (\<lambda>_.
         read_ips interfaces (resolved @ [(address, e)]) rest)))))))))"

text \<open>\<open>resolve_reference_allocation\<close>: four paginated reads, then the checks, then the allocation.\<close>

definition resolve_payloads ::
    "json list \<Rightarrow> json list \<Rightarrow> json list \<Rightarrow> json list \<Rightarrow> reference_data_plane res" where
  "resolve_payloads prefix_payloads vlan_payloads interface_payloads ip_payloads =
    bindS (checks
      [(length prefix_payloads \<noteq> length PREFIX_IDENTITIES
        \<or> length vlan_payloads \<noteq> length VLAN_IDENTITIES
        \<or> length interface_payloads \<noteq> length INTERFACE_IDENTITIES
        \<or> length ip_payloads \<noteq> length ROUTED_IP_IDENTITIES,
        ValueError ''NetBox data-plane population is not exact'')]) (\<lambda>_.
    bindS (read_prefixes [] prefix_payloads) (\<lambda>prefixes.
    bindS (read_vlans [] vlan_payloads) (\<lambda>vlans.
    bindS (read_interfaces [] interface_payloads) (\<lambda>interfaces.
    bindS (read_ips interfaces [] ip_payloads) (\<lambda>ips.
    bindS (checks
      [(\<not> same_set prefixes (map fst PREFIX_IDENTITIES) \<or> \<not> same_set vlans (map fst VLAN_IDENTITIES),
        ValueError ''NetBox data-plane authority is incomplete'')]) (\<lambda>_.
    build_reference_allocation ips))))))"

definition resolve_reference_allocation ::
    "http_server \<Rightarrow> (http_event, exn, reference_data_plane) eff" where
  "resolve_reference_allocation srv =
    bindE (get_all srv (by_tag ''/api/ipam/prefixes/'' DATA_PLANE_TAG)) (\<lambda>prefix_payloads.
    bindE (get_all srv (by_tag ''/api/ipam/vlans/'' DATA_PLANE_TAG)) (\<lambda>vlan_payloads.
    bindE (get_all srv (by_tag ''/api/dcim/interfaces/'' DATA_PLANE_TAG)) (\<lambda>interface_payloads.
    bindE (get_all srv (by_tag ''/api/ipam/ip-addresses/'' DATA_PLANE_TAG)) (\<lambda>ip_payloads.
    liftE (resolve_payloads prefix_payloads vlan_payloads interface_payloads ip_payloads)))))"

section \<open>Exactly one allocation is admitted\<close>

definition reference_endpoint :: "nat \<times> nat \<times> 32 word \<Rightarrow> routed_link_endpoint" where
  "reference_endpoint = (\<lambda>(ip_id, i, w).
    \<lparr>rle_interface = link_interface i (the (map_of INTERFACE_IDENTITIES i)),
     rle_ip_address_identity = netbox_id ''ipam.ipaddress'' ip_id,
     rle_address = IPv4Interface w 30\<rparr>)"

definition ACCEPTED_ENDPOINTS :: "(string \<times> nat \<times> nat \<times> 32 word) list" where
  "ACCEPTED_ENDPOINTS =
    [(''10.60.0.1/30'', 17, 11, 0x0A3C0001), (''10.60.0.2/30'', 18, 12, 0x0A3C0002),
     (''10.60.0.5/30'', 19, 2, 0x0A3C0005), (''10.60.0.6/30'', 20, 14, 0x0A3C0006),
     (''10.60.0.9/30'', 21, 4, 0x0A3C0009), (''10.60.0.10/30'', 22, 15, 0x0A3C000A)]"

definition accepted_link ::
    "routed_link_identity \<Rightarrow> nat \<Rightarrow> nat \<Rightarrow> 32 word \<Rightarrow> (nat \<times> nat \<times> 32 word) list
      \<Rightarrow> routed_link_allocation" where
  "accepted_link link prefix cable net es =
    \<lparr>rla_logical_link = link, rla_prefix_identity = netbox_id ''ipam.prefix'' prefix,
     rla_prefix = IPv4Network net 30, rla_cable_id = int cable,
     rla_endpoints = map reference_endpoint es\<rparr>"

definition accepted_vlan :: "nat \<Rightarrow> nat \<Rightarrow> string \<Rightarrow> nat \<Rightarrow> 32 word \<Rightarrow> vlan_service_allocation" where
  "accepted_vlan i vid name prefix net =
    \<lparr>vsa_vlan_identity = netbox_id ''ipam.vlan'' i, vsa_vid = vid, vsa_canonical_name = name,
     vsa_prefix_identity = netbox_id ''ipam.prefix'' prefix, vsa_prefix = IPv4Network net 24\<rparr>"

definition accepted_allocation :: reference_data_plane where
  "accepted_allocation =
    \<lparr>rda_parent_prefix_identity = ''netbox:ipam.prefix:2'',
     rda_parent_prefix = IPv4Network 0x0A3C0000 16,
     rda_routed_links =
       [accepted_link CORE_JUNOS 3 1 0x0A3C0000 [(17, 11, 0x0A3C0001), (18, 12, 0x0A3C0002)],
        accepted_link CORE_TRANSIT 4 2 0x0A3C0004 [(19, 2, 0x0A3C0005), (20, 14, 0x0A3C0006)],
        accepted_link JUNOS_TRANSIT 5 3 0x0A3C0008 [(21, 4, 0x0A3C0009), (22, 15, 0x0A3C000A)]],
     rda_vlans = [accepted_vlan 1 10 ''USERS'' 6 0x0A3C0A00, accepted_vlan 2 20 ''SERVERS'' 7 0x0A3C1400],
     rda_pool_identity = ''netbox:ipam.prefix:8'', rda_pool = IPv4Network 0x0A3CFF00 24\<rparr>"

lemma interface_literal:
  "interface_str j = s \<Longrightarrow> v4_prefix_length j \<le> 32 \<Longrightarrow> wf_interface i \<Longrightarrow> interface_str i = s \<longleftrightarrow> i = j"
  using interface_str_inject by (auto simp: wf_interface_def)

lemma network_literal:
  "network_str m = s \<Longrightarrow> nw_prefix_length m \<le> 32 \<Longrightarrow> wf_network n \<Longrightarrow> network_str n = s \<longleftrightarrow> n = m"
  using network_str_inject by (auto simp: wf_network_def)

lemma accepted_addresses:
  "interface_str (IPv4Interface 0x0A3C0001 30) = ''10.60.0.1/30''"
  "interface_str (IPv4Interface 0x0A3C0002 30) = ''10.60.0.2/30''"
  "interface_str (IPv4Interface 0x0A3C0005 30) = ''10.60.0.5/30''"
  "interface_str (IPv4Interface 0x0A3C0006 30) = ''10.60.0.6/30''"
  "interface_str (IPv4Interface 0x0A3C0009 30) = ''10.60.0.9/30''"
  "interface_str (IPv4Interface 0x0A3C000A 30) = ''10.60.0.10/30''"
  by (simp_all add: print_simps flip: One_nat_def)

lemma accepted_prefixes:
  "network_str (IPv4Network 0x0A3C0000 16) = ''10.60.0.0/16''"
  "network_str (IPv4Network 0x0A3C0000 30) = ''10.60.0.0/30''"
  "network_str (IPv4Network 0x0A3C0004 30) = ''10.60.0.4/30''"
  "network_str (IPv4Network 0x0A3C0008 30) = ''10.60.0.8/30''"
  "network_str (IPv4Network 0x0A3C0A00 24) = ''10.60.10.0/24''"
  "network_str (IPv4Network 0x0A3C1400 24) = ''10.60.20.0/24''"
  "network_str (IPv4Network 0x0A3CFF00 24) = ''10.60.255.0/24''"
  by (simp_all add: print_simps flip: One_nat_def)

lemmas address_literals = accepted_addresses [THEN interface_literal, simplified]
lemmas prefix_literals = accepted_prefixes [THEN network_literal, simplified]

lemmas catalog_defs = PREFIX_IDENTITIES_def VLAN_IDENTITIES_def INTERFACE_IDENTITIES_def
  ROUTED_IP_IDENTITIES_def LINK_CATALOG_def VLAN_PREFIXES_def

lemma lookup_Inr: "lookup c k = Inr v \<longleftrightarrow> map_of c k = Some v"
  by (auto simp: lookup_def split: option.splits)

lemma endpoint_valid_wf: "endpoint_valid e = Inr u \<Longrightarrow> wf_interface (rle_address e)"
  by (simp add: endpoint_valid_def checks_ok)

lemma mapS_unit: "mapS f xs = Inr us \<Longrightarrow> x \<in> set xs \<Longrightarrow> \<exists>u. f x = Inr u"
  by (auto simp: mapS_Inr_iff in_set_conv_nth list_all2_conv_all_nth)

lemma mapS_Cons_Inr [simp]:
  "mapS f (x # xs) = Inr ys \<longleftrightarrow> (\<exists>y zs. f x = Inr y \<and> mapS f xs = Inr zs \<and> ys = y # zs)"
  by (auto split: sum.splits)

lemma length2E: "length xs = 2 \<Longrightarrow> (\<And>x y. xs = [x, y] \<Longrightarrow> P) \<Longrightarrow> P"
  by (auto simp: numeral_2_eq_2 length_Suc_conv)

lemma length3E: "length xs = 3 \<Longrightarrow> (\<And>x y z. xs = [x, y, z] \<Longrightarrow> P) \<Longrightarrow> P"
  by (auto simp: numeral_3_eq_3 length_Suc_conv)

lemma exact_endpoint_unique:
  assumes "wf_interface (rle_address e)" and "exact_endpoint c (e, address) = Inr v"
    and "(address, f) \<in> set ACCEPTED_ENDPOINTS"
  shows "e = reference_endpoint f"
proof -
  have "\<exists>g. map_of INTERFACE_IDENTITIES (fst (snd f)) = Some g
      \<and> si_device (rle_interface e) = netbox_id ''dcim.device'' (if_device_id g)
      \<and> si_interface (rle_interface e) = netbox_id ''dcim.interface'' (fst (snd f))
      \<and> si_name (rle_interface e) = if_name g
      \<and> rle_ip_address_identity e = netbox_id ''ipam.ipaddress'' (fst f)
      \<and> rle_address e = IPv4Interface (snd (snd f)) 30"
    using assms(3)
    by (simp add: ACCEPTED_ENDPOINTS_def, elim disjE;
      use assms(1,2) in \<open>simp add: exact_endpoint_def bindS_Inr_iff lookup_Inr checks_ok
        ROUTED_IP_IDENTITIES_def address_literals; blast\<close>)
  then show ?thesis
    by (auto simp: reference_endpoint_def link_interface_def split: prod.splits)
qed

lemma endpoints_unique:
  assumes "routed_link_valid l = Inr u" and "exact_link (l, f) = Inr v"
    and "lf_addresses f = [p, q]" and "(p, g) \<in> set ACCEPTED_ENDPOINTS" and "(q, h) \<in> set ACCEPTED_ENDPOINTS"
  shows "rla_endpoints l = map reference_endpoint [g, h]"
proof -
  from assms(1) obtain us where es: "mapS endpoint_valid (rla_endpoints l) = Inr us"
    and "length (rla_endpoints l) = 2"
    by (auto simp: routed_link_valid_def bindS_Inr_iff checks_ok)
  then obtain x y where xy: "rla_endpoints l = [x, y]" by (auto elim: length2E)
  have wf: "wf_interface (rle_address x)" "wf_interface (rle_address y)"
    using mapS_unit [OF es] endpoint_valid_wf by (auto simp: xy)
  obtain v1 v2 where "exact_endpoint (lf_cable f) (x, p) = Inr v1" "exact_endpoint (lf_cable f) (y, q) = Inr v2"
    using assms(2,3) by (auto simp: exact_link_def bindS_Inr_iff xy simp del: mapS.simps)
  then show ?thesis
    using exact_endpoint_unique [OF wf(1)] exact_endpoint_unique [OF wf(2)] assms(4,5) by (simp add: xy)
qed

lemma exact_link_fields:
  assumes "routed_link_valid l = Inr u" and "exact_link (l, f) = Inr v"
  shows "wf_network (rla_prefix l)" and "network_str (rla_prefix l) = lf_prefix f"
    and "rla_logical_link l = lf_link f" and "rla_cable_id l = int (lf_cable f)"
    and "map_of PREFIX_IDENTITIES (lf_prefix f) = Some i \<Longrightarrow> rla_prefix_identity l = netbox_id ''ipam.prefix'' i"
  using assms by (auto simp: routed_link_valid_def exact_link_def bindS_Inr_iff lookup_Inr checks_ok)

lemma exact_link_unique:
  assumes "routed_link_valid l = Inr u" and "exact_link (l, f) = Inr v"
    and "(f, m) \<in> set (zip LINK_CATALOG (rda_routed_links accepted_allocation))"
  shows "l = m"
proof -
  note fields = exact_link_fields [OF assms(1,2)]
  have "rla_endpoints l = rla_endpoints m"
    using assms(3) endpoints_unique [OF assms(1,2)]
    by (simp add: LINK_CATALOG_def accepted_allocation_def, elim disjE)
      (simp_all add: accepted_link_def ACCEPTED_ENDPOINTS_def)
  moreover have "rla_prefix l = rla_prefix m \<and> rla_prefix_identity l = rla_prefix_identity m
      \<and> rla_logical_link l = rla_logical_link m \<and> rla_cable_id l = rla_cable_id m"
    using assms(3) fields
    by (simp add: LINK_CATALOG_def accepted_allocation_def, elim disjE)
      (simp_all add: accepted_link_def PREFIX_IDENTITIES_def prefix_literals)
  ultimately show ?thesis by (intro routed_link_allocation.equality) simp_all
qed

lemma exact_vlan_unique:
  assumes "vlan_service_valid v = Inr u" and "exact_vlan (v, p) = Inr w"
    and "(p, m) \<in> set (zip VLAN_PREFIXES (rda_vlans accepted_allocation))"
  shows "v = m"
  using assms
  by (auto simp: vlan_service_valid_def checks_ok exact_vlan_def VLAN_PREFIXES_def
    accepted_allocation_def bindS_Inr_iff lookup_Inr VLAN_IDENTITIES_def PREFIX_IDENTITIES_def
    prefix_literals accepted_vlan_def)

lemma mapS_zip_unique:
  assumes "mapS v xs = Inr us" and "mapS e (zip xs fs) = Inr ws"
    and "length xs = length fs" and "length fs = length ms"
    and "\<And>x f m u w. v x = Inr u \<Longrightarrow> e (x, f) = Inr w \<Longrightarrow> (f, m) \<in> set (zip fs ms) \<Longrightarrow> x = m"
  shows "xs = ms"
proof (rule nth_equalityI)
  show "length xs = length ms" using assms(3,4) by simp
  fix i assume i: "i < length xs"
  with assms(3,4) have "e (xs ! i, fs ! i) = Inr (ws ! i)" "(fs ! i, ms ! i) \<in> set (zip fs ms)"
    using mapS_nth [OF assms(2), of i] by (auto simp: in_set_zip)
  with assms(5) mapS_nth [OF assms(1) i] show "xs ! i = ms ! i" by blast
qed

lemma allocation_unique:
  assumes "reference_allocation_valid a = Inr u"
  shows "a = accepted_allocation"
proof -
  note parts = assms [unfolded reference_allocation_valid_def bindS_Inr_iff checks_ok, simplified]
  from parts obtain us vs ws xs where
    links: "mapS routed_link_valid (rda_routed_links a) = Inr us"
      "mapS exact_link (zip (rda_routed_links a) LINK_CATALOG) = Inr ws"
    and vlans: "mapS vlan_service_valid (rda_vlans a) = Inr vs"
      "mapS exact_vlan (zip (rda_vlans a) VLAN_PREFIXES) = Inr xs" by blast
  have "rda_routed_links a = rda_routed_links accepted_allocation"
    by (rule mapS_zip_unique [OF links _ _ exact_link_unique])
      (use parts in \<open>simp_all add: LINK_CATALOG_def accepted_allocation_def\<close>)
  moreover have "rda_vlans a = rda_vlans accepted_allocation"
    by (rule mapS_zip_unique [OF vlans _ _ exact_vlan_unique])
      (use parts in \<open>simp_all add: VLAN_PREFIXES_def accepted_allocation_def\<close>)
  moreover have "wf_network (rda_parent_prefix a)" "wf_network (rda_pool a)"
    "network_str (rda_parent_prefix a) = ''10.60.0.0/16''" "network_str (rda_pool a) = ''10.60.255.0/24''"
    "rda_parent_prefix_identity a = ''netbox:ipam.prefix:2''" "rda_pool_identity a = ''netbox:ipam.prefix:8''"
    using parts by blast+
  ultimately show ?thesis
    by (intro reference_data_plane.equality) (simp_all add: prefix_literals accepted_allocation_def)
qed


section \<open>The accepted allocation is admitted\<close>

lemma netbox_id_valid: "0 < n \<Longrightarrow> netbox_identity noun (netbox_id noun n)"
  using nat_str_digits [of n] nat_str_hd_zero [of n]
  by (simp add: netbox_id_def netbox_identity_def starts_with_def positive_decimal_def Let_def)

lemma netbox_id_inject [simp]: "netbox_id noun m = netbox_id noun n \<longleftrightarrow> m = n"
  using nat_str_digits(2) by (metis netbox_id_def same_append_eq)

lemma interface_facts:
  "map_of INTERFACE_IDENTITIES i = Some g \<Longrightarrow>
     nonempty_string (if_name g) \<and> 0 < if_device_id g \<and> 0 < i"
proof -
  have "list_all (\<lambda>(i, g). nonempty_string (if_name g) \<and> 0 < if_device_id g \<and> 0 < i) INTERFACE_IDENTITIES"
    by code_simp
  then show "map_of INTERFACE_IDENTITIES i = Some g \<Longrightarrow> ?thesis"
    by (auto simp: list_all_iff dest!: map_of_SomeD)
qed

lemma link_interface_valid:
  "map_of INTERFACE_IDENTITIES i = Some g \<Longrightarrow> stable_interface_valid (link_interface i g)"
  using interface_facts by (simp add: stable_interface_valid_def link_interface_def netbox_id_valid)

lemma reference_endpoint_valid:
  assumes "(s, f) \<in> set ACCEPTED_ENDPOINTS"
  shows "endpoint_valid (reference_endpoint f) = Inr ()"
    and "rle_address (reference_endpoint f) = IPv4Interface (snd (snd f)) 30"
proof -
  have "\<exists>g. map_of INTERFACE_IDENTITIES (fst (snd f)) = Some g \<and> 0 < fst f"
    using assms by (auto simp: ACCEPTED_ENDPOINTS_def INTERFACE_IDENTITIES_def)
  then show "endpoint_valid (reference_endpoint f) = Inr ()"
    using link_interface_valid
    by (auto simp: endpoint_valid_def checks_ok reference_endpoint_def netbox_id_valid wf_interface_def
      split: prod.splits)
qed (simp add: reference_endpoint_def split: prod.splits)

lemma accepted_endpoints:
  "concat (map rla_endpoints (rda_routed_links accepted_allocation))
     = map (reference_endpoint \<circ> snd) ACCEPTED_ENDPOINTS"
  by (simp add: accepted_allocation_def accepted_link_def ACCEPTED_ENDPOINTS_def)

lemma accepted_link_endpoints:
  assumes "l \<in> set (rda_routed_links accepted_allocation)"
  shows "mapS endpoint_valid (rla_endpoints l) = Inr (map (\<lambda>_. ()) (rla_endpoints l))"
proof (rule mapS_total)
  fix e assume "e \<in> set (rla_endpoints l)"
  with assms have "e \<in> set (map (reference_endpoint \<circ> snd) ACCEPTED_ENDPOINTS)"
    by (auto simp flip: accepted_endpoints)
  then show "endpoint_valid e = Inr ()" using reference_endpoint_valid(1) by auto
qed

lemma accepted_links_valid:
  assumes "l \<in> set (rda_routed_links accepted_allocation)"
  shows "routed_link_valid l = Inr ()"
proof -
  have "distinct (map (si_device \<circ> rle_interface) (rla_endpoints l))
      \<and> distinct (map (si_interface \<circ> rle_interface) (rla_endpoints l))
      \<and> distinct (map rle_ip_address_identity (rla_endpoints l))
      \<and> list_all (\<lambda>e. network (rle_address e) = rla_prefix l) (rla_endpoints l)
      \<and> netbox_identity ''ipam.prefix'' (rla_prefix_identity l) \<and> wf_network (rla_prefix l)
      \<and> 1 \<le> rla_cable_id l \<and> length (rla_endpoints l) = 2"
    using assms
    by (auto simp: accepted_allocation_def accepted_link_def reference_endpoint_def link_interface_def
      INTERFACE_IDENTITIES_def netbox_id_valid wf_network_def mask_simps)
  then show ?thesis
    unfolding routed_link_valid_def accepted_link_endpoints [OF assms]
    by (simp add: checks_ok list_ex_iff list_all_iff)
qed

lemma accepted_vlans_valid:
  assumes "v \<in> set (rda_vlans accepted_allocation)"
  shows "vlan_service_valid v = Inr ()"
  using assms
  by (auto simp: accepted_allocation_def accepted_vlan_def vlan_service_valid_def checks_ok
    netbox_id_valid wf_network_def mask_simps accepted_prefixes)


lemma accepted_exact_endpoint:
  "exact_endpoint (Suc 0) (reference_endpoint (17, 11, 0x0A3C0001), ''10.60.0.1/30'') = Inr ()"
  "exact_endpoint (Suc 0) (reference_endpoint (18, 12, 0x0A3C0002), ''10.60.0.2/30'') = Inr ()"
  "exact_endpoint 2 (reference_endpoint (19, 2, 0x0A3C0005), ''10.60.0.5/30'') = Inr ()"
  "exact_endpoint 2 (reference_endpoint (20, 14, 0x0A3C0006), ''10.60.0.6/30'') = Inr ()"
  "exact_endpoint 3 (reference_endpoint (21, 4, 0x0A3C0009), ''10.60.0.9/30'') = Inr ()"
  "exact_endpoint 3 (reference_endpoint (22, 15, 0x0A3C000A), ''10.60.0.10/30'') = Inr ()"
  by (simp_all add: exact_endpoint_def bindS_Inr_iff lookup_def checks_ok ROUTED_IP_IDENTITIES_def
      INTERFACE_IDENTITIES_def reference_endpoint_def link_interface_def accepted_addresses)

lemma accepted_exact_link:
  assumes "p \<in> set (zip (rda_routed_links accepted_allocation) LINK_CATALOG)"
  shows "exact_link p = Inr ()"
proof (cases p)
  case (Pair l f)
  note assms = assms [unfolded Pair]
  have fields: "map_of PREFIX_IDENTITIES (lf_prefix f) \<noteq> None
      \<and> rla_logical_link l = lf_link f
      \<and> rla_prefix_identity l = netbox_id ''ipam.prefix'' (the (map_of PREFIX_IDENTITIES (lf_prefix f)))
      \<and> network_str (rla_prefix l) = lf_prefix f \<and> rla_cable_id l = int (lf_cable f)"
    using assms
    by (simp add: accepted_allocation_def LINK_CATALOG_def, elim disjE)
      (simp_all add: accepted_link_def PREFIX_IDENTITIES_def accepted_prefixes)
  have "mapS (exact_endpoint (lf_cable f)) (zip (rla_endpoints l) (lf_addresses f)) = Inr [(), ()]"
    using assms
    by (simp add: accepted_allocation_def LINK_CATALOG_def, elim disjE)
      (simp_all add: accepted_link_def accepted_exact_endpoint)
  with fields show ?thesis
    by (auto simp: Pair exact_link_def bindS_Inr_iff checks_ok lookup_def split: option.splits)
qed

lemma accepted_exact_vlan:
  assumes "p \<in> set (zip (rda_vlans accepted_allocation) VLAN_PREFIXES)"
  shows "exact_vlan p = Inr ()"
  using assms
  by (simp add: accepted_allocation_def VLAN_PREFIXES_def, elim disjE)
    (simp_all add: exact_vlan_def bindS_Inr_iff lookup_def checks_ok accepted_vlan_def
      VLAN_IDENTITIES_def PREFIX_IDENTITIES_def accepted_prefixes)

lemma mapS_units: "(\<And>x. x \<in> set xs \<Longrightarrow> f x = Inr ()) \<Longrightarrow> mapS f xs = Inr (map (\<lambda>_. ()) xs)"
  by (rule mapS_total)

lemma accepted_allocation_valid: "reference_allocation_valid accepted_allocation = Inr ()"
proof -
  have units: "ok (mapS routed_link_valid (rda_routed_links accepted_allocation))"
    "ok (mapS vlan_service_valid (rda_vlans accepted_allocation))"
    "ok (mapS exact_link (zip (rda_routed_links accepted_allocation) LINK_CATALOG))"
    "ok (mapS exact_vlan (zip (rda_vlans accepted_allocation) VLAN_PREFIXES))"
    using accepted_links_valid accepted_vlans_valid accepted_exact_link accepted_exact_vlan
    by (simp_all add: mapS_units)
  have "netbox_identity ''ipam.prefix'' ''netbox:ipam.prefix:2''"
    "netbox_identity ''ipam.prefix'' ''netbox:ipam.prefix:8''"
    by code_simp+
  then have fields: "netbox_identity ''ipam.prefix'' (rda_parent_prefix_identity accepted_allocation)
      \<and> netbox_identity ''ipam.prefix'' (rda_pool_identity accepted_allocation)
      \<and> wf_network (rda_parent_prefix accepted_allocation) \<and> wf_network (rda_pool accepted_allocation)
      \<and> length (rda_routed_links accepted_allocation) = 3 \<and> length (rda_vlans accepted_allocation) = 2
      \<and> rda_parent_prefix_identity accepted_allocation = ''netbox:ipam.prefix:2''
      \<and> network_str (rda_parent_prefix accepted_allocation) = ''10.60.0.0/16''
      \<and> map rla_logical_link (rda_routed_links accepted_allocation) = routed_link_identities
      \<and> map vsa_vid (rda_vlans accepted_allocation) = [10, 20]
      \<and> rda_pool_identity accepted_allocation = ''netbox:ipam.prefix:8''
      \<and> network_str (rda_pool accepted_allocation) = ''10.60.255.0/24''"
    by (simp add: accepted_allocation_def accepted_link_def accepted_vlan_def routed_link_identities_def
      wf_network_def mask_simps accepted_prefixes)
  show ?thesis
    using units fields
    by (auto simp: reference_allocation_valid_def bindS_def ok_def checks_ok split: sum.splits)
qed


lemma read_accepted_address:
  assumes "(s, f) \<in> set ACCEPTED_ENDPOINTS"
  shows "read_address s = Inr (rle_address (reference_endpoint f))"
proof -
  have "s = interface_str (IPv4Interface (snd (snd f)) 30)"
    using assms by (auto simp: ACCEPTED_ENDPOINTS_def accepted_addresses)
  then show ?thesis
    by (simp add: read_address_def read_interface_str reference_endpoint_valid(2) [OF assms])
qed

lemma read_network_str: "wf_network n \<Longrightarrow> read_network (network_str n) = Inr n"
proof (cases n)
  case (IPv4Network w p)
  assume "wf_network n"
  then have "p \<le> 32" and host: "w AND hostmask p = 0" by (auto simp: wf_network_def IPv4Network)
  moreover have "w AND NOT (hostmask p) = w"
  proof -
    have "w = (w AND hostmask p) OR (w AND NOT (hostmask p))"
      by (simp flip: bit.conj_disj_distrib)
    then show ?thesis by (simp add: host)
  qed
  ultimately show ?thesis
    by (simp add: read_network_def network_str_interface read_interface_str network_def netmask_def IPv4Network)
qed

lemma read_accepted_network:
  "read_network ''10.60.0.0/16'' = Inr (IPv4Network 0x0A3C0000 16)"
  "read_network ''10.60.0.0/30'' = Inr (IPv4Network 0x0A3C0000 30)"
  "read_network ''10.60.0.4/30'' = Inr (IPv4Network 0x0A3C0004 30)"
  "read_network ''10.60.0.8/30'' = Inr (IPv4Network 0x0A3C0008 30)"
  "read_network ''10.60.10.0/24'' = Inr (IPv4Network 0x0A3C0A00 24)"
  "read_network ''10.60.20.0/24'' = Inr (IPv4Network 0x0A3C1400 24)"
  "read_network ''10.60.255.0/24'' = Inr (IPv4Network 0x0A3CFF00 24)"
  unfolding accepted_prefixes [symmetric]
  by (rule read_network_str; simp add: wf_network_def mask_simps)+

lemma build_links_accepted:
  "mapS (build_link (map (\<lambda>(s, f). (s, reference_endpoint f)) ACCEPTED_ENDPOINTS)) LINK_CATALOG
     = Inr (rda_routed_links accepted_allocation)"
proof -
  have "map_of PREFIX_IDENTITIES ''10.60.0.0/30'' = Some 3" "map_of PREFIX_IDENTITIES ''10.60.0.4/30'' = Some 4"
    "map_of PREFIX_IDENTITIES ''10.60.0.8/30'' = Some 5"
    by (simp_all add: PREFIX_IDENTITIES_def)
  then show ?thesis
    using accepted_links_valid
    by (simp add: accepted_allocation_def accepted_link_def LINK_CATALOG_def build_link_def lookup_def
      ACCEPTED_ENDPOINTS_def read_accepted_network)
qed

lemma build_vlans_accepted: "mapS build_vlan VLAN_PREFIXES = Inr (rda_vlans accepted_allocation)"
  using accepted_vlans_valid
  by (simp add: accepted_allocation_def accepted_vlan_def VLAN_PREFIXES_def build_vlan_def lookup_def
    VLAN_IDENTITIES_def PREFIX_IDENTITIES_def read_accepted_network)

lemma build_accepted:
  "build_reference_allocation (map (\<lambda>(s, f). (s, reference_endpoint f)) ACCEPTED_ENDPOINTS)
     = Inr accepted_allocation"
proof -
  have a: "accepted_allocation = \<lparr>rda_parent_prefix_identity = ''netbox:ipam.prefix:2'',
      rda_parent_prefix = IPv4Network 0x0A3C0000 16,
      rda_routed_links = rda_routed_links accepted_allocation,
      rda_vlans = rda_vlans accepted_allocation,
      rda_pool_identity = ''netbox:ipam.prefix:8'', rda_pool = IPv4Network 0x0A3CFF00 24\<rparr>"
    by (rule reference_data_plane.equality) (simp_all add: accepted_allocation_def)
  show ?thesis
    using accepted_allocation_valid
    by (simp add: build_reference_allocation_def build_links_accepted build_vlans_accepted
      read_accepted_network flip: a)
qed

lemma build_unique: "build_reference_allocation es = Inr a \<Longrightarrow> a = accepted_allocation"
  by (auto simp: build_reference_allocation_def bindS_Inr_iff Let_def dest: allocation_unique)


section \<open>What a resolution does\<close>

lemma resolve_payloads_unique: "resolve_payloads ps vs fs is = Inr a \<Longrightarrow> a = accepted_allocation"
  by (auto simp: resolve_payloads_def bindS_Inr_iff dest: build_unique)

lemma accepted_evidence_unique:
  "build_accepted_reference_allocation_evidence sha = Inr a \<Longrightarrow> a = accepted_allocation"
  by (auto simp: build_accepted_reference_allocation_evidence_def bindS_Inr_iff split: if_splits
    dest: build_unique)

end
