(* ===== verification/Routed_Underlay.thy ===== *)
theory Routed_Underlay
  imports Reference_Allocation Providers
begin

text \<open>
  \<^verbatim>\<open>routed_underlay.py\<close>, the desired side and the observation: the intent bound to one resolved
  allocation, the desired state D1 and its digest, the ownership envelope over the six routed
  interfaces, the observation of exactly these interfaces and its collection through the LIVE
  read-only targets. Literal fields of the models (\<open>schema_version\<close>, \<open>routed_l3_present\<close>, the
  desired \<open>admin_enabled\<close>) are constants and appear where they are serialized or compared.
\<close>

section \<open>Catalogs\<close>

definition UNDERLAY_DEVICE_IDENTITIES :: "string list" where
  "UNDERLAY_DEVICE_IDENTITIES =
    [''netbox:dcim.device:1'', ''netbox:dcim.device:2'', ''netbox:dcim.device:8'']"

definition MANAGEMENT_INTERFACE_IDENTITIES :: "string list" where
  "MANAGEMENT_INTERFACE_IDENTITIES =
    [''netbox:dcim.interface:1'', ''netbox:dcim.interface:5'', ''netbox:dcim.interface:13'',
     ''netbox:dcim.interface:17'']"

definition MANAGEMENT_ADDRESSES :: "32 word list" where
  "MANAGEMENT_ADDRESSES =
    [0xC0A8040E, 0xC0A80414, 0xC0A80410, 0xC0A80411, 0xC0A8041E, 0xC0A80428, 0xC0A8041F, 0xC0A80420]"

text \<open>\<^verbatim>\<open>tuple(dict.fromkeys(xs))\<close>: the distinct elements in the order of their first occurrence.\<close>

definition first_occurrences :: "'a list \<Rightarrow> 'a list" where
  "first_occurrences xs = rev (remdups (rev xs))"

section \<open>Intent\<close>

record underlay_endpoint =
  ue_interface :: stable_interface
  ue_ip_address_identity :: string
  ue_address :: ipv4_interface

record underlay_link =
  ul_logical_link :: routed_link_identity
  ul_prefix_identity :: string
  ul_prefix :: ipv4_network
  ul_endpoints :: "underlay_endpoint list"

record underlay_intent =
  ui_source_allocation :: reference_data_plane
  ui_links :: "underlay_link list"

definition link_from_allocation :: "routed_link_allocation \<Rightarrow> underlay_link" where
  "link_from_allocation l =
    \<lparr>ul_logical_link = rla_logical_link l, ul_prefix_identity = rla_prefix_identity l,
     ul_prefix = rla_prefix l,
     ul_endpoints = map (\<lambda>e. \<lparr>ue_interface = rle_interface e,
        ue_ip_address_identity = rle_ip_address_identity e, ue_address = rle_address e\<rparr>)
       (rla_endpoints l)\<rparr>"

definition intent_endpoints :: "underlay_intent \<Rightarrow> underlay_endpoint list" where
  "intent_endpoints i = concat (map ul_endpoints (ui_links i))"

definition underlay_intent_valid :: "underlay_intent \<Rightarrow> unit res" where
  "underlay_intent_valid i =
    bindS (reference_allocation_valid (ui_source_allocation i)) (\<lambda>_. checks
     [(ui_links i \<noteq> map link_from_allocation (rda_routed_links (ui_source_allocation i)),
        ValueError ''routed-underlay intent is detached from NetBox allocation''),
      (map ul_logical_link (ui_links i) \<noteq> routed_link_identities
       \<or> length (intent_endpoints i) \<noteq> 6
       \<or> \<not> distinct (map (si_interface \<circ> ue_interface) (intent_endpoints i))
       \<or> \<not> distinct (map ue_ip_address_identity (intent_endpoints i))
       \<or> first_occurrences (map (si_device \<circ> ue_interface) (intent_endpoints i)) \<noteq> UNDERLAY_DEVICE_IDENTITIES
       \<or> list_ex (\<lambda>e. si_interface (ue_interface e) \<in> set MANAGEMENT_INTERFACE_IDENTITIES
              \<or> v4_ip (ue_address e) \<in> set MANAGEMENT_ADDRESSES) (intent_endpoints i),
        ValueError ''routed-underlay intent scope is not exact'')])"

definition intent_from_reference_allocation :: "reference_data_plane \<Rightarrow> underlay_intent res" where
  "intent_from_reference_allocation a =
    (let i = \<lparr>ui_source_allocation = a, ui_links = map link_from_allocation (rda_routed_links a)\<rparr>
     in bindS (underlay_intent_valid i) (\<lambda>_. Inr i))"

section \<open>Desired state\<close>

record desired_interface =
  di_device_identity :: string
  di_interface :: stable_interface
  di_ip_address_identity :: string
  di_ipv4_addresses :: "ipv4_interface list"

definition desired_interface_valid :: "desired_interface \<Rightarrow> unit res" where
  "desired_interface_valid d = checks
    [(\<not> netbox_identity ''dcim.device'' (di_device_identity d)
      \<or> \<not> stable_interface_valid (di_interface d)
      \<or> \<not> netbox_identity ''ipam.ipaddress'' (di_ip_address_identity d)
      \<or> \<not> list_all wf_interface (di_ipv4_addresses d), ValueError ''fields''),
     (di_device_identity d \<noteq> si_device (di_interface d)
      \<or> length (di_ipv4_addresses d) \<noteq> 1
      \<or> si_interface (di_interface d) \<in> set MANAGEMENT_INTERFACE_IDENTITIES
      \<or> v4_ip (hd (di_ipv4_addresses d)) \<in> set MANAGEMENT_ADDRESSES,
       ValueError ''desired routed-interface state is not exact'')]"

record underlay_desired =
  ud_interfaces :: "desired_interface list"
  ud_digest :: string

definition underlay_desired_valid :: "underlay_desired \<Rightarrow> unit res" where
  "underlay_desired_valid d =
    bindS (mapS desired_interface_valid (ud_interfaces d)) (\<lambda>_. checks
     [(length (ud_interfaces d) \<noteq> 6 \<or> \<not> sha256_pattern (ud_digest d), ValueError ''fields''),
      (\<not> distinct (map (si_interface \<circ> di_interface) (ud_interfaces d))
       \<or> \<not> distinct (map (interface_str \<circ> hd \<circ> di_ipv4_addresses) (ud_interfaces d))
       \<or> first_occurrences (map di_device_identity (ud_interfaces d)) \<noteq> UNDERLAY_DEVICE_IDENTITIES,
        ValueError ''desired routed-underlay population is not exact'')])"

definition addresses_json :: "ipv4_interface list \<Rightarrow> json" where
  "addresses_json is = JArr (map (\<lambda>i. JStr (interface_str i)) is)"

definition desired_interface_json :: "desired_interface \<Rightarrow> json" where
  "desired_interface_json d = JObj
    [(''device_identity'', JStr (di_device_identity d)),
     (''interface'', interface_json (di_interface d)),
     (''ip_address_identity'', JStr (di_ip_address_identity d)),
     (''routed_l3_present'', JBool True),
     (''ipv4_addresses'', addresses_json (di_ipv4_addresses d)),
     (''admin_enabled'', JBool True)]"

definition underlay_desired_json :: "underlay_desired \<Rightarrow> json" where
  "underlay_desired_json d = JObj
    [(''schema_version'', JStr ''1''),
     (''interfaces'', JArr (map desired_interface_json (ud_interfaces d)))]"

definition underlay_calculated_digest :: "(string \<Rightarrow> string) \<Rightarrow> underlay_desired \<Rightarrow> string" where
  "underlay_calculated_digest sha d =
     sha256_identity sha (canonical_json_bytes (underlay_desired_json d))"

definition underlay_verify_digest :: "(string \<Rightarrow> string) \<Rightarrow> underlay_desired \<Rightarrow> bool" where
  "underlay_verify_digest sha d \<longleftrightarrow> ud_digest d = underlay_calculated_digest sha d"

definition desired_of_endpoint :: "underlay_endpoint \<Rightarrow> desired_interface" where
  "desired_of_endpoint e =
    \<lparr>di_device_identity = si_device (ue_interface e), di_interface = ue_interface e,
     di_ip_address_identity = ue_ip_address_identity e, di_ipv4_addresses = [ue_address e]\<rparr>"

definition zero_digest :: string where
  "zero_digest = ''sha256:'' @ replicate 64 CHR ''0''"

definition build_underlay_desired :: "(string \<Rightarrow> string) \<Rightarrow> underlay_intent \<Rightarrow> underlay_desired res" where
  "build_underlay_desired sha i =
    (let unsigned = \<lparr>ud_interfaces = map desired_of_endpoint (intent_endpoints i), ud_digest = zero_digest\<rparr>
     in bindS (underlay_desired_valid unsigned) (\<lambda>_.
        Inr (unsigned\<lparr>ud_digest := underlay_calculated_digest sha unsigned\<rparr>)))"

section \<open>Ownership\<close>

definition scope_identity :: "managed_scope_kind \<Rightarrow> string \<Rightarrow> managed_scope_identity" where
  "scope_identity k s = \<lparr>mi_kind = k, mi_identity = s\<rparr>"

definition underlay_envelope :: "underlay_intent \<Rightarrow> managed_ownership_envelope" where
  "underlay_envelope i =
    \<lparr>oe_vertical = ROUTED_UNDERLAY, oe_envelope_version = 1, oe_targets = UNDERLAY_DEVICE_IDENTITIES,
     oe_scope = map (scope_identity PREFIX_Scope \<circ> ul_prefix_identity) (ui_links i)
       @ map (scope_identity INTERFACE_Scope \<circ> si_interface \<circ> ue_interface) (intent_endpoints i),
     oe_normalized_fields =
       [ROUTED_UNDERLAY_L3_PRESENCE, ROUTED_UNDERLAY_ADDRESS, ROUTED_UNDERLAY_ADMIN_ENABLED]\<rparr>"

definition build_underlay_envelope :: "underlay_intent \<Rightarrow> managed_ownership_envelope res" where
  "build_underlay_envelope i =
    bindS (managed_ownership_envelope_valid (underlay_envelope i)) (\<lambda>_. Inr (underlay_envelope i))"

section \<open>Observation\<close>

record observed_interface =
  ob_device_identity :: string
  ob_interface :: stable_interface
  ob_exists :: bool
  ob_ipv4_addresses :: "ipv4_interface list"
  ob_admin_enabled :: "bool option"
  ob_operational_status :: "operational_status option"

definition observed_interface_valid :: "observed_interface \<Rightarrow> unit res" where
  "observed_interface_valid s = checks
    [(\<not> netbox_identity ''dcim.device'' (ob_device_identity s)
      \<or> \<not> stable_interface_valid (ob_interface s)
      \<or> \<not> list_all wf_interface (ob_ipv4_addresses s), ValueError ''fields''),
     (ob_device_identity s \<noteq> si_device (ob_interface s)
      \<or> si_interface (ob_interface s) \<in> set MANAGEMENT_INTERFACE_IDENTITIES
      \<or> \<not> distinct (ob_ipv4_addresses s),
       ValueError ''observed routed-interface identity is invalid'')]"

record underlay_observation =
  uo_observed_at :: py_datetime
  uo_interfaces :: "observed_interface list"

definition underlay_observation_valid :: "underlay_observation \<Rightarrow> unit res" where
  "underlay_observation_valid s =
    bindS (mapS observed_interface_valid (uo_interfaces s)) (\<lambda>_. checks
     [(length (uo_interfaces s) \<noteq> 6, ValueError ''interfaces''),
      (\<not> distinct (map (si_interface \<circ> ob_interface) (uo_interfaces s)),
        ValueError ''routed-underlay observation is not exact-six'')])"

definition observed_interface_json :: "observed_interface \<Rightarrow> json" where
  "observed_interface_json s = JObj
    [(''device_identity'', JStr (ob_device_identity s)),
     (''interface'', interface_json (ob_interface s)),
     (''exists'', JBool (ob_exists s)),
     (''ipv4_addresses'', addresses_json (ob_ipv4_addresses s)),
     (''admin_enabled'', jopt JBool (ob_admin_enabled s))]"

definition underlay_managed_digest :: "(string \<Rightarrow> string) \<Rightarrow> underlay_observation \<Rightarrow> string" where
  "underlay_managed_digest sha s = sha256_identity sha (canonical_json_bytes (JObj
    [(''schema_version'', JStr ''1''),
     (''interfaces'', JArr (map observed_interface_json (uo_interfaces s)))]))"

definition normalized_ipv4_addresses :: "string list \<Rightarrow> ipv4_interface list res" where
  "normalized_ipv4_addresses values =
    bindS (mapS (\<lambda>v. case read_interface v of Some i \<Rightarrow> Inr i
       | None \<Rightarrow> Inl (ValueError ''read-only interface observation contains invalid IPv4'')) values)
     (\<lambda>is. Inr (sort (remdups is)))"

section \<open>Collection\<close>

definition ROUTED_SERVICE_SCOPE :: "profiled_population_scope res" where
  "ROUTED_SERVICE_SCOPE =
     population_scope ''routed-underlay-service'' UNDERLAY_DEVICE_IDENTITIES PROFILED_MANAGED_POPULATION"

definition collect_endpoint ::
    "'x providers \<Rightarrow> profiled_inventory_device \<Rightarrow> profile_read_only_target \<Rightarrow> device_credentials
      \<Rightarrow> string \<Rightarrow> underlay_endpoint \<Rightarrow> ('x, observed_interface) io" where
  "collect_endpoint pv device target credentials identity e =
    bindE (collect pv target credentials (si_name (ue_interface e))) (\<lambda>state.
    bindE (liftE (checks
      [(is_observed_hostname state \<noteq> dv_expected_hostname device,
         ValueError ''read-only routed-underlay hostname mismatch''),
       (is_interface state \<noteq> si_name (ue_interface e),
         ValueError ''read-only routed-underlay interface mismatch'')])) (\<lambda>_.
    bindE (liftE (normalized_ipv4_addresses (is_ipv4_addresses state))) (\<lambda>addresses.
    let s = \<lparr>ob_device_identity = identity, ob_interface = ue_interface e,
             ob_exists = is_exists state, ob_ipv4_addresses = addresses,
             ob_admin_enabled = is_enabled state,
             ob_operational_status = is_operational_status state\<rparr>
    in bindE (liftE (observed_interface_valid s)) (\<lambda>_. ret s))))"

definition collect_device ::
    "'x providers \<Rightarrow> underlay_intent \<Rightarrow> profiled_inventory_device list \<Rightarrow> string
      \<Rightarrow> ('x, observed_interface list) io" where
  "collect_device pv i devices identity =
    (case List.find (\<lambda>d. dv_device_identity d = identity) devices of
       None \<Rightarrow> raise (ValueError ''routed-underlay target is absent from profiled inventory'')
     | Some device \<Rightarrow>
         bindE (load pv device) (\<lambda>credentials.
         bindE (liftE (live_read_only_target device)) (\<lambda>target.
         mapE (collect_endpoint pv device target credentials identity)
           (filter (\<lambda>e. si_device (ue_interface e) = identity) (intent_endpoints i)))))"

definition collect_underlay_observation ::
    "'x providers \<Rightarrow> underlay_intent \<Rightarrow> profiled_inventory_population \<Rightarrow> py_datetime
      \<Rightarrow> ('x, underlay_observation) io" where
  "collect_underlay_observation pv i population observed_at =
    bindE (liftE (bindS ROUTED_SERVICE_SCOPE (project_scope population))) (\<lambda>selected.
    bindE (mapE (collect_device pv i (sc_devices selected)) UNDERLAY_DEVICE_IDENTITIES) (\<lambda>observed.
    let s = \<lparr>uo_observed_at = observed_at, uo_interfaces = concat observed\<rparr>
    in bindE (liftE (underlay_observation_valid s)) (\<lambda>_. ret s)))"

end
