(* ===== verification/Managed_State.thy ===== *)
theory Managed_State
  imports Routed_Underlay
begin

text \<open>
  \<^verbatim>\<open>managed_state.py\<close>: the canonical managed-state snapshots. A snapshot holds only the fields its
  ownership envelope owns, so the projection of an observation and that of a desired state have
  the same digest exactly when their managed semantics agree. The first part is the snapshot every
  vertical shares, with the serializer and the scope of its payload as arguments; the second is the
  routed underlay.
\<close>

section \<open>Snapshots\<close>

fun scope_kind_value :: "managed_scope_kind \<Rightarrow> string" where
  "scope_kind_value DEVICE_Scope = ''device''"
| "scope_kind_value INTERFACE_Scope = ''interface''"
| "scope_kind_value IP_ADDRESS_Scope = ''ip_address''"
| "scope_kind_value VLAN_Scope = ''vlan''"
| "scope_kind_value PREFIX_Scope = ''prefix''"
| "scope_kind_value POLICY_Scope = ''policy''"

definition scope_identity_json :: "managed_scope_identity \<Rightarrow> json" where
  "scope_identity_json m = JObj
    [(''kind'', JStr (scope_kind_value (mi_kind m))), (''identity'', JStr (mi_identity m))]"

definition envelope_json :: "managed_ownership_envelope \<Rightarrow> json" where
  "envelope_json e = JObj
    [(''schema_version'', JStr ''1''),
     (''vertical'', JStr (managed_vertical_value (oe_vertical e))),
     (''envelope_version'', JInt (oe_envelope_version e)),
     (''targets'', JArr (map JStr (oe_targets e))),
     (''scope'', JArr (map scope_identity_json (oe_scope e))),
     (''normalized_fields'', JArr (map (\<lambda>f. JStr (managed_field_value f)) (oe_normalized_fields e)))]"

record 'p managed_snapshot =
  ms_ownership_envelope :: managed_ownership_envelope
  ms_payload :: 'p
  ms_digest :: string

text \<open>What one vertical adds to the shared snapshot: its literal, the validator and the serializer of
  its payload, and whether a payload covers exactly the interfaces and targets of an envelope.\<close>

record 'p vertical =
  vt_vertical :: managed_vertical
  vt_payload_valid :: "'p \<Rightarrow> unit res"
  vt_payload_json :: "'p \<Rightarrow> json"
  vt_exact_scope :: "managed_ownership_envelope \<Rightarrow> 'p \<Rightarrow> bool"
  vt_scope_message :: string

definition snapshot_json :: "'p vertical \<Rightarrow> 'p managed_snapshot \<Rightarrow> json" where
  "snapshot_json v s = JObj
    [(''schema_version'', JStr ''1''),
     (''vertical'', JStr (managed_vertical_value (vt_vertical v))),
     (''ownership_envelope'', envelope_json (ms_ownership_envelope s)),
     (''payload'', vt_payload_json v (ms_payload s))]"

definition snapshot_calculated_digest ::
    "(string \<Rightarrow> string) \<Rightarrow> 'p vertical \<Rightarrow> 'p managed_snapshot \<Rightarrow> string" where
  "snapshot_calculated_digest sha v s = sha256_identity sha (canonical_json_bytes (snapshot_json v s))"

definition snapshot_valid ::
    "(string \<Rightarrow> string) \<Rightarrow> 'p vertical \<Rightarrow> 'p managed_snapshot \<Rightarrow> unit res" where
  "snapshot_valid sha v s =
    bindS (managed_ownership_envelope_valid (ms_ownership_envelope s)) (\<lambda>_.
    bindS (vt_payload_valid v (ms_payload s)) (\<lambda>_. checks
     [(oe_vertical (ms_ownership_envelope s) \<noteq> vt_vertical v,
        ValueError ''managed-state vertical and ownership envelope disagree''),
      (ms_digest s \<noteq> snapshot_calculated_digest sha v s, ValueError ''managed-state digest is invalid''),
      (\<not> vt_exact_scope v (ms_ownership_envelope s) (ms_payload s), ValueError (vt_scope_message v))]))"

definition build_snapshot ::
    "(string \<Rightarrow> string) \<Rightarrow> 'p vertical \<Rightarrow> managed_ownership_envelope \<Rightarrow> 'p \<Rightarrow> 'p managed_snapshot res" where
  "build_snapshot sha v e p =
    (let unsigned = \<lparr>ms_ownership_envelope = e, ms_payload = p, ms_digest = zero_digest\<rparr>;
         s = unsigned\<lparr>ms_digest := snapshot_calculated_digest sha v unsigned\<rparr>
     in bindS (snapshot_valid sha v s) (\<lambda>_. Inr s))"

definition scope_interfaces :: "managed_ownership_envelope \<Rightarrow> string list" where
  "scope_interfaces e = map mi_identity (filter (\<lambda>m. mi_kind m = INTERFACE_Scope) (oe_scope e))"

section \<open>Routed underlay\<close>

record routed_managed =
  rm_interface :: stable_interface
  rm_routed_l3_present :: bool
  rm_ipv4_addresses :: "ipv4_interface list"
  rm_admin_enabled :: "bool option"

definition routed_managed_valid :: "routed_managed \<Rightarrow> unit res" where
  "routed_managed_valid s = checks
    [(\<not> stable_interface_valid (rm_interface s) \<or> \<not> list_all wf_interface (rm_ipv4_addresses s),
       ValueError ''fields''),
     (\<not> rm_routed_l3_present s \<and> (rm_ipv4_addresses s \<noteq> [] \<or> rm_admin_enabled s \<noteq> None),
       ValueError ''absent routed interface has managed state''),
     (rm_routed_l3_present s \<and> rm_admin_enabled s = None,
       ValueError ''routed interface admin state is unobservable'')]"

definition routed_managed_json :: "routed_managed \<Rightarrow> json" where
  "routed_managed_json s = JObj
    [(''interface'', interface_json (rm_interface s)),
     (''routed_l3_present'', JBool (rm_routed_l3_present s)),
     (''ipv4_addresses'', addresses_json (rm_ipv4_addresses s)),
     (''admin_enabled'', jopt JBool (rm_admin_enabled s))]"

definition underlay_vertical :: "routed_managed list vertical" where
  "underlay_vertical =
    \<lparr>vt_vertical = ROUTED_UNDERLAY,
     vt_payload_valid = (\<lambda>p. bindS (mapS routed_managed_valid p) (\<lambda>_. Inr ())),
     vt_payload_json = (\<lambda>p. JObj [(''interfaces'', JArr (map routed_managed_json p))]),
     vt_exact_scope = (\<lambda>e p. map (si_interface \<circ> rm_interface) p = scope_interfaces e),
     vt_scope_message = ''routed-underlay payload is outside its exact scope''\<rparr>"

definition managed_of_observed :: "observed_interface \<Rightarrow> routed_managed" where
  "managed_of_observed c =
    \<lparr>rm_interface = ob_interface c, rm_routed_l3_present = ob_exists c,
     rm_ipv4_addresses = sort_key interface_str (ob_ipv4_addresses c),
     rm_admin_enabled = (if ob_exists c then ob_admin_enabled c else None)\<rparr>"

definition managed_of_desired :: "desired_interface \<Rightarrow> routed_managed" where
  "managed_of_desired d =
    \<lparr>rm_interface = di_interface d, rm_routed_l3_present = True,
     rm_ipv4_addresses = sort_key interface_str (di_ipv4_addresses d), rm_admin_enabled = Some True\<rparr>"

definition checked :: "('a \<Rightarrow> unit res) \<Rightarrow> 'a \<Rightarrow> 'a res" where
  "checked valid x = bindS (valid x) (\<lambda>_. Inr x)"

definition observed_by_identity :: "underlay_observation \<Rightarrow> string \<Rightarrow> observed_interface option" where
  "observed_by_identity s j = List.find (\<lambda>c. si_interface (ob_interface c) = j) (rev (uo_interfaces s))"

definition project_underlay_observation ::
    "(string \<Rightarrow> string) \<Rightarrow> underlay_observation \<Rightarrow> underlay_intent \<Rightarrow> routed_managed list managed_snapshot res" where
  "project_underlay_observation sha s i =
    bindS (build_underlay_envelope i) (\<lambda>e.
    bindS (checks
      [(\<not> same_set (map (si_interface \<circ> ob_interface) (uo_interfaces s)) (scope_interfaces e),
        ValueError ''routed-underlay observation identities do not match the envelope'')]) (\<lambda>_.
    bindS (mapS (\<lambda>j. case observed_by_identity s j of
        None \<Rightarrow> Inl (OtherException ''KeyError'')
      | Some c \<Rightarrow> checked routed_managed_valid (managed_of_observed c)) (scope_interfaces e)) (\<lambda>p.
    build_snapshot sha underlay_vertical e p)))"

definition project_underlay_desired ::
    "(string \<Rightarrow> string) \<Rightarrow> underlay_desired \<Rightarrow> underlay_intent \<Rightarrow> routed_managed list managed_snapshot res" where
  "project_underlay_desired sha d i =
    bindS (mapS (\<lambda>x. checked routed_managed_valid (managed_of_desired x)) (ud_interfaces d)) (\<lambda>p.
    bindS (build_underlay_envelope i) (\<lambda>e.
    build_snapshot sha underlay_vertical e p))"

end
