(* ===== verification/Underlay_Render.thy ===== *)
theory Underlay_Render
  imports Routed_Underlay
begin

text \<open>
  \<^verbatim>\<open>routed_underlay.py\<close>, from an observation to the change: the exactness checks of
  \<open>_observation_by_interface\<close>, the IOS and Junos change artifacts of \<open>_render_change_exact\<close>, the
  final-state candidate files, the delta, and the Batfish invariants of the candidate with the
  evidence and the proposal that bind them. The Batfish session is behind
  \<open>underlay_batfish\<close>, the observation it returns.
\<close>

section \<open>Documents\<close>

text \<open>\<open>ElementTree.Element\<close> with attributes; an element without text and children is written in
  the short form.\<close>

datatype xml_doc = Node string "(string \<times> string) list" string "xml_doc list"

definition xml_attribute :: "string \<times> string \<Rightarrow> string" where
  "xml_attribute = (\<lambda>(k, v). '' '' @ k @ [CHR ''='', CHR 0x22]
     @ concat (map (\<lambda>c. if c = CHR 0x22 then ''&quot;'' else if c = CHR 0x0D then ''&#13;''
         else if c = CHR 0x0A then ''&#10;'' else if c = CHR 0x09 then ''&#09;''
         else xml_escape [c]) v)
     @ [CHR 0x22])"

fun xml_doc_str :: "xml_doc \<Rightarrow> string" where
  "xml_doc_str (Node tag attrs body children) =
     ''<'' @ tag @ concat (map xml_attribute attrs) @
     (if body = [] \<and> children = [] then '' />''
      else ''>'' @ xml_escape body @ concat (map xml_doc_str children) @ ''</'' @ tag @ ''>'')"

definition text_node :: "string \<Rightarrow> string \<Rightarrow> xml_doc" where
  "text_node tag body = Node tag [] body []"

definition lines_text :: "string list \<Rightarrow> string" where
  "lines_text ls = join [CHR 0x0A] ls @ [CHR 0x0A]"

section \<open>The exact change\<close>

definition removed_addresses :: "observed_interface \<Rightarrow> desired_interface \<Rightarrow> ipv4_interface list" where
  "removed_addresses s d =
     filter (\<lambda>a. a \<notin> set (di_ipv4_addresses d)) (ob_ipv4_addresses s)"

definition added_addresses :: "observed_interface \<Rightarrow> desired_interface \<Rightarrow> ipv4_interface list" where
  "added_addresses s d =
     filter (\<lambda>a. a \<notin> set (ob_ipv4_addresses s)) (di_ipv4_addresses d)"

definition ios_address :: "ipv4_interface \<Rightarrow> string" where
  "ios_address a = ipv4_str (v4_ip a) @ '' '' @ ipv4_str (netmask (v4_prefix_length a))"

definition junos_interface_change :: "observed_interface \<times> desired_interface \<Rightarrow> xml_doc" where
  "junos_interface_change = (\<lambda>(s, d).
     Node ''interface'' [] []
      [text_node ''name'' (si_name (di_interface d)),
       Node ''disable'' [(''operation'', ''delete'')] [] [],
       Node ''unit'' [] []
        [text_node ''name'' ''0'',
         Node ''family'' [] []
          [Node ''inet'' [] []
            (map (\<lambda>a. Node ''address'' [(''operation'', ''delete'')] []
                        [text_node ''name'' (interface_str a)]) (removed_addresses s d)
             @ map (\<lambda>a. Node ''address'' [] [] [text_node ''name'' (interface_str a)])
                 (added_addresses s d))]]])"

definition junos_change_xml :: "(observed_interface \<times> desired_interface) list \<Rightarrow> string" where
  "junos_change_xml changes = xml_doc_str (Node ''configuration'' [] []
     [Node ''interfaces'' [] [] (map junos_interface_change changes)])"

definition ios_block :: "observed_interface \<times> desired_interface \<Rightarrow> string list" where
  "ios_block = (\<lambda>(s, d).
     [''interface '' @ si_name (di_interface d)]
     @ map (\<lambda>a. '' no ip address '' @ ios_address a) (removed_addresses s d)
     @ map (\<lambda>a. '' ip address '' @ ios_address a) (added_addresses s d)
     @ ['' no shutdown''])"

datatype render_format = IOS_CLI | JUNOS_XML

record rendered_target =
  rt_device_identity :: string
  rt_device_name :: string
  rt_profile :: automation_profile_id
  rt_observation_digest :: string
  rt_desired_digest :: string
  rt_format :: render_format
  rt_content :: string

definition RENDER_BINDINGS :: "(string \<times> string \<times> automation_profile_id) list" where
  "RENDER_BINDINGS =
    [(''netbox:dcim.device:1'', ''core-02'', CAT8000V_IOSXE),
     (''netbox:dcim.device:2'', ''edge-junos-01'', VJUNOS_ROUTER),
     (''netbox:dcim.device:8'', ''transit-ios-01'', IOSV_159_3_M12)]"

text \<open>\<^verbatim>\<open>{item.interface.interface: item ...}\<close>: the last of several observations of an interface.\<close>

definition find_observed :: "underlay_observation \<Rightarrow> desired_interface \<Rightarrow> observed_interface option" where
  "find_observed s d =
     List.find (\<lambda>c. si_interface (ob_interface c) = si_interface (di_interface d)) (rev (uo_interfaces s))"

text \<open>\<open>_observation_by_interface\<close>: the interface identities of the observation are those of D1,
  and each is the very interface, on its device, without a management address.\<close>

definition check_current :: "underlay_observation \<Rightarrow> desired_interface \<Rightarrow> unit res" where
  "check_current s d = (case find_observed s d of
       None \<Rightarrow> Inl (OtherException ''KeyError'')
     | Some c \<Rightarrow> checks
        [(ob_device_identity c \<noteq> di_device_identity d \<or> ob_interface c \<noteq> di_interface d,
           ValueError ''routed-underlay observation identity is inconsistent''),
         (list_ex (\<lambda>a. v4_ip a \<in> set MANAGEMENT_ADDRESSES) (ob_ipv4_addresses c),
           ValueError ''management address cannot enter routed-underlay rendering'')])"

definition observation_by_interface :: "underlay_observation \<Rightarrow> underlay_desired \<Rightarrow> unit res" where
  "observation_by_interface s d =
    bindS (checks
      [(\<not> same_set (map (si_interface \<circ> ob_interface) (uo_interfaces s))
            (map (si_interface \<circ> di_interface) (ud_interfaces d)),
        ValueError ''routed-underlay observation is not exact for desired state'')]) (\<lambda>_.
    bindS (mapS (check_current s) (ud_interfaces d)) (\<lambda>_. Inr ()))"

text \<open>The pairs of one device, in the order of D1.\<close>

definition device_changes ::
    "underlay_observation \<Rightarrow> underlay_desired \<Rightarrow> string \<Rightarrow> (observed_interface \<times> desired_interface) list" where
  "device_changes s d identity =
     map (\<lambda>x. (the (find_observed s x), x))
       (filter (\<lambda>x. di_device_identity x = identity) (ud_interfaces d))"

definition render_content ::
    "automation_profile_id \<Rightarrow> (observed_interface \<times> desired_interface) list
      \<Rightarrow> (render_format \<times> string) res" where
  "render_content profile changes =
    (if profile \<in> {CAT8000V_IOSXE, IOSV_159_3_M12}
     then if list_ex (\<lambda>(c, x). 1 < length (ob_ipv4_addresses c)) changes
       then Inl (ValueError ''multiple observed Cisco IPv4 addresses are unsupported'')
       else Inr (IOS_CLI, lines_text (concat (map ios_block changes)))
     else if profile = VJUNOS_ROUTER then Inr (JUNOS_XML, junos_change_xml changes)
     else Inl (ValueError ''routed-underlay renderer profile is unsupported''))"

definition render_device ::
    "(string \<Rightarrow> string) \<Rightarrow> underlay_observation \<Rightarrow> underlay_desired
      \<Rightarrow> string \<times> string \<times> automation_profile_id \<Rightarrow> rendered_target res" where
  "render_device sha s d = (\<lambda>(identity, name, profile).
     bindS (render_content profile (device_changes s d identity)) (\<lambda>(f, content).
     if content = [] then Inl (ValueError ''content'')
     else Inr \<lparr>rt_device_identity = identity, rt_device_name = name, rt_profile = profile,
       rt_observation_digest = underlay_managed_digest sha s, rt_desired_digest = ud_digest d,
       rt_format = f, rt_content = content\<rparr>))"

definition render_change_exact ::
    "(string \<Rightarrow> string) \<Rightarrow> underlay_observation \<Rightarrow> underlay_desired \<Rightarrow> rendered_target list res" where
  "render_change_exact sha s d =
    bindS (checks [(\<not> underlay_verify_digest sha d,
        ValueError ''routed-underlay desired-state digest is invalid'')]) (\<lambda>_.
    bindS (observation_by_interface s d) (\<lambda>_.
    mapS (render_device sha s d) RENDER_BINDINGS))"

text \<open>\<^verbatim>\<open>desired != build_routed_underlay_desired_state(intent)\<close>; what the builder raises comes first.\<close>

definition require_desired :: "(string \<Rightarrow> string) \<Rightarrow> underlay_intent \<Rightarrow> underlay_desired \<Rightarrow> unit res" where
  "require_desired sha i d =
    bindS (build_underlay_desired sha i) (\<lambda>e. checks
      [(d \<noteq> e, ValueError ''routed-underlay desired state is detached from intent'')])"

definition render_routed_underlay ::
    "(string \<Rightarrow> string) \<Rightarrow> underlay_intent \<Rightarrow> underlay_observation \<Rightarrow> underlay_desired
      \<Rightarrow> profiled_inventory_population \<Rightarrow> rendered_target list res" where
  "render_routed_underlay sha i s d population =
    bindS (require_desired sha i d) (\<lambda>_.
    bindS (bindS ROUTED_SERVICE_SCOPE (project_scope population)) (\<lambda>selected.
    bindS (checks
      [(map (\<lambda>v. (dv_device_identity v, dv_logical_name v, dv_automation_profile_id v)) (sc_devices selected)
          \<noteq> RENDER_BINDINGS,
        ValueError ''routed-underlay rendered population is not exact'')]) (\<lambda>_.
    render_change_exact sha s d)))"

section \<open>The candidate\<close>

definition final_state_ios :: "desired_interface list \<Rightarrow> string" where
  "final_state_ios ds = lines_text (concat (map (\<lambda>d.
     [''interface '' @ si_name (di_interface d),
      '' ip address '' @ ios_address (hd (di_ipv4_addresses d)), '' no shutdown'']) ds))"

definition REFERENCE_ASSURANCE_SCOPE :: "profiled_population_scope res" where
  "REFERENCE_ASSURANCE_SCOPE = population_scope ''reference-assurance''
     [''netbox:dcim.device:1'', ''netbox:dcim.device:2'', ''netbox:dcim.device:8'', ''netbox:dcim.device:9'']
     PROFILED_MANAGED_POPULATION"

definition EXPECTED_PROFILED_NAMES :: "string list" where
  "EXPECTED_PROFILED_NAMES = [''core-02'', ''edge-junos-01'', ''transit-ios-01'', ''access-sw-01'']"

definition identity_by_name :: "(string \<times> string) list" where
  "identity_by_name =
    [(''core-02'', ''netbox:dcim.device:1''), (''edge-junos-01'', ''netbox:dcim.device:2''),
     (''transit-ios-01'', ''netbox:dcim.device:8'')]"

definition candidate_file ::
    "underlay_desired \<Rightarrow> string \<times> automation_profile_id \<Rightarrow> (string \<times> string) res" where
  "candidate_file d = (\<lambda>(name, profile).
    let states = (case map_of identity_by_name name of
          None \<Rightarrow> [] | Some i \<Rightarrow> filter (\<lambda>x. di_device_identity x = i) (ud_interfaces d));
        file = (\<lambda>content. Inr (name @ ''.cfg'', content))
    in if profile \<in> {CAT8000V_IOSXE, IOSV_159_3_M12}
       then file (''hostname '' @ name @ [CHR 0x0A] @ final_state_ios states)
       else if profile = VJUNOS_ROUTER
       then file (lines_text ([''set system host-name '' @ name]
         @ map (\<lambda>x. ''set interfaces '' @ si_name (di_interface x) @ '' unit 0 family inet address ''
             @ interface_str (hd (di_ipv4_addresses x))) states))
       else if profile = IOSVL2_2020
       then if states \<noteq> [] then Inl (ValueError ''access switch cannot join routed underlay'')
         else file (lines_text [''version 15.2'', ''hostname '' @ name, ''interface GigabitEthernet0/0'',
           '' no switchport'', '' no shutdown''])
       else Inl (ValueError ''routed-underlay candidate profile is unsupported''))"

definition build_underlay_candidate ::
    "(string \<Rightarrow> string) \<Rightarrow> underlay_intent \<Rightarrow> underlay_desired \<Rightarrow> (string \<times> string) list res" where
  "build_underlay_candidate sha i d =
    bindS (require_desired sha i d) (\<lambda>_.
    bindS REFERENCE_ASSURANCE_SCOPE (\<lambda>scope.
    bindS (checks [(map pm_logical_name (ps_members scope) \<noteq> EXPECTED_PROFILED_NAMES,
        ValueError ''routed-underlay candidate population is not exact'')]) (\<lambda>_.
    bindS (mapS (candidate_file d)
        (map (\<lambda>m. (pm_logical_name m, pm_automation_profile_id m)) (ps_members scope))) (\<lambda>files.
    Inr (sort_key fst files)))))"

section \<open>The delta\<close>

record underlay_delta =
  de_interface :: stable_interface
  de_observed_addresses :: "ipv4_interface list"
  de_desired_addresses :: "ipv4_interface list"
  de_observed_admin_enabled :: "bool option"
  de_addresses_match :: bool
  de_admin_matches :: bool

definition interface_delta :: "underlay_observation \<Rightarrow> desired_interface \<Rightarrow> underlay_delta res" where
  "interface_delta s d = (case find_observed s d of
       None \<Rightarrow> Inl (ValueError ''routed-underlay observation does not cover desired state'')
     | Some c \<Rightarrow> Inr
        \<lparr>de_interface = di_interface d, de_observed_addresses = ob_ipv4_addresses c,
         de_desired_addresses = di_ipv4_addresses d, de_observed_admin_enabled = ob_admin_enabled c,
         de_addresses_match = (ob_exists c \<and> ob_ipv4_addresses c = di_ipv4_addresses d),
         de_admin_matches = (ob_exists c \<and> ob_admin_enabled c = Some True)\<rparr>)"

definition routed_underlay_delta ::
    "underlay_observation \<Rightarrow> underlay_desired \<Rightarrow> underlay_delta list res" where
  "routed_underlay_delta s d = mapS (interface_delta s) (ud_interfaces d)"

end
