(* ===== verification/Managed_State_Laws.thy ===== *)
theory Managed_State_Laws
  imports Managed_State Underlay_Render
begin

text \<open>
  Facts of the routed underlay and of its snapshots: a valid intent is the accepted one, its
  desired state and envelope are built, two snapshots over one envelope have equal digests exactly
  when their payloads serialize alike, and the payload of the routed underlay is determined by its
  serialization.
\<close>

section \<open>The accepted intent\<close>

definition accepted_intent :: underlay_intent where
  "accepted_intent = \<lparr>ui_source_allocation = accepted_allocation,
     ui_links = map link_from_allocation (rda_routed_links accepted_allocation)\<rparr>"

definition accepted_desired :: "(string \<Rightarrow> string) \<Rightarrow> underlay_desired" where
  "accepted_desired sha =
    (let u = \<lparr>ud_interfaces = map desired_of_endpoint (intent_endpoints accepted_intent), ud_digest = zero_digest\<rparr>
     in u\<lparr>ud_digest := underlay_calculated_digest sha u\<rparr>)"

lemma underlay_intent_unique: "underlay_intent_valid i = Inr u \<Longrightarrow> i = accepted_intent"
  by (cases i) (auto simp: underlay_intent_valid_def bindS_Inr_iff checks_ok accepted_intent_def
    dest: allocation_unique)

lemma accepted_intent_valid: "underlay_intent_valid accepted_intent = Inr ()"
proof -
  have "ok (underlay_intent_valid accepted_intent)" by code_simp
  then show ?thesis by (simp add: ok_unit)
qed

lemma intent_from_accepted: "intent_from_reference_allocation accepted_allocation = Inr accepted_intent"
  using accepted_intent_valid by (simp add: intent_from_reference_allocation_def accepted_intent_def)

lemma desired_interfaces_accepted:
  "ud_interfaces (accepted_desired sha) = map desired_of_endpoint (intent_endpoints accepted_intent)"
  by (simp add: accepted_desired_def Let_def)

lemma build_desired_accepted: "build_underlay_desired sha accepted_intent = Inr (accepted_desired sha)"
proof -
  have "ok (underlay_desired_valid
      \<lparr>ud_interfaces = map desired_of_endpoint (intent_endpoints accepted_intent), ud_digest = zero_digest\<rparr>)"
    by code_simp
  then show ?thesis by (simp add: build_underlay_desired_def accepted_desired_def Let_def ok_unit)
qed

lemma build_envelope_accepted:
  "build_underlay_envelope accepted_intent = Inr (underlay_envelope accepted_intent)"
proof -
  have "ok (managed_ownership_envelope_valid (underlay_envelope accepted_intent))" by code_simp
  then show ?thesis by (simp add: build_underlay_envelope_def ok_unit)
qed

lemma scope_interfaces_underlay:
  "scope_interfaces (underlay_envelope i) = map (si_interface \<circ> ue_interface) (intent_endpoints i)"
  by (simp add: scope_interfaces_def underlay_envelope_def scope_identity_def filter_map comp_def)

lemma desired_single_address:
  "d \<in> set (ud_interfaces (accepted_desired sha)) \<Longrightarrow>
     \<exists>a. di_ipv4_addresses d = [a] \<and> wf_interface a \<and> stable_interface_valid (di_interface d)"
proof -
  have "list_all (\<lambda>e. wf_interface (ue_address e) \<and> stable_interface_valid (ue_interface e))
      (intent_endpoints accepted_intent)" by code_simp
  then show "d \<in> set (ud_interfaces (accepted_desired sha)) \<Longrightarrow> ?thesis"
    by (auto simp: desired_interfaces_accepted desired_of_endpoint_def list_all_iff)
qed

section \<open>Snapshots with one envelope\<close>

lemma build_snapshot_Inr:
  assumes "build_snapshot sha v e p = Inr s"
  shows "ms_ownership_envelope s = e" and "ms_payload s = p"
    and "ms_digest s = snapshot_calculated_digest sha v s" and "vt_payload_valid v p = Inr ()"
    and "vt_exact_scope v e p"
  using assms
  by (auto simp: build_snapshot_def Let_def bindS_Inr_iff snapshot_valid_def checks_ok
    snapshot_calculated_digest_def snapshot_json_def)

lemma snapshot_json_payload:
  assumes "ms_ownership_envelope s = ms_ownership_envelope t"
  shows "sort_keys (snapshot_json v s) = sort_keys (snapshot_json v t)
    \<longleftrightarrow> sort_keys (vt_payload_json v (ms_payload s)) = sort_keys (vt_payload_json v (ms_payload t))"
proof
  assume "sort_keys (snapshot_json v s) = sort_keys (snapshot_json v t)"
  from sorted_objects_eq [OF this [unfolded snapshot_json_def], of "''payload''"]
  show "sort_keys (vt_payload_json v (ms_payload s)) = sort_keys (vt_payload_json v (ms_payload t))"
    by simp
qed (simp add: snapshot_json_def assms)

lemma snapshots_digest_iff:
  assumes "build_snapshot sha v e p = Inr s" and "build_snapshot sha v e q = Inr t"
    and "sha (canonical_json_bytes (snapshot_json v s)) = sha (canonical_json_bytes (snapshot_json v t))
      \<Longrightarrow> canonical_json_bytes (snapshot_json v s) = canonical_json_bytes (snapshot_json v t)"
  shows "ms_digest s = ms_digest t \<longleftrightarrow> sort_keys (vt_payload_json v p) = sort_keys (vt_payload_json v q)"
proof -
  note s = build_snapshot_Inr [OF assms(1)] and t = build_snapshot_Inr [OF assms(2)]
  have "ms_digest s = ms_digest t
      \<longleftrightarrow> canonical_json_bytes (snapshot_json v s) = canonical_json_bytes (snapshot_json v t)"
    using s(3) t(3) assms(3) by (auto simp: snapshot_calculated_digest_def sha256_identity_def)
  also have "\<dots> \<longleftrightarrow> sort_keys (snapshot_json v s) = sort_keys (snapshot_json v t)"
    using json_print_inject by (auto simp: canonical_json_bytes_def)
  also have "\<dots> \<longleftrightarrow> sort_keys (vt_payload_json v p) = sort_keys (vt_payload_json v q)"
    using snapshot_json_payload [of s t v] s(1,2) t(1,2) by simp
  finally show ?thesis .
qed

section \<open>The routed-underlay payload\<close>

lemma addresses_json_inject:
  assumes "list_all wf_interface xs" and "list_all wf_interface ys"
    and "sort_keys (addresses_json xs) = sort_keys (addresses_json ys)"
  shows "xs = ys"
proof -
  have "map interface_str xs = map interface_str ys"
    by (rule bindsD [OF binds_list [OF binds_str]]) (use assms(3) in \<open>simp add: addresses_json_def comp_def\<close>)
  moreover have "inj_on interface_str (set xs \<union> set ys)"
    using assms(1,2) interface_str_inject by (auto simp: inj_on_def list_all_iff wf_interface_def)
  ultimately show ?thesis by (simp add: map_inj_on)
qed

lemma jopt_bool_inject: "sort_keys (jopt JBool a) = sort_keys (jopt JBool b) \<longleftrightarrow> a = b"
  by (cases a; cases b) auto

lemma routed_managed_json_inject:
  assumes "routed_managed_valid a = Inr u" and "routed_managed_valid b = Inr w"
    and "sort_keys (routed_managed_json a) = sort_keys (routed_managed_json b)"
  shows "a = b"
proof -
  note eq = sorted_objects_eq [OF assms(3) [unfolded routed_managed_json_def], simplified]
  have "rm_interface a = rm_interface b"
    using eq [of "''interface''"] by (simp add: interface_json_inject)
  moreover have "rm_ipv4_addresses a = rm_ipv4_addresses b"
    using assms(1,2) eq [of "''ipv4_addresses''"]
    by (auto simp: routed_managed_valid_def checks_ok intro: addresses_json_inject)
  ultimately show ?thesis
    using eq [of "''routed_l3_present''"] eq [of "''admin_enabled''"]
    by (auto simp: jopt_bool_inject)
qed

lemma underlay_payload_json_inject:
  assumes "vt_payload_valid underlay_vertical p = Inr u" and "vt_payload_valid underlay_vertical q = Inr w"
    and "sort_keys (vt_payload_json underlay_vertical p) = sort_keys (vt_payload_json underlay_vertical q)"
  shows "p = q"
proof -
  have valid: "\<exists>u. routed_managed_valid x = Inr u" if "x \<in> set p \<union> set q" for x
    using assms(1,2) that mapS_unit [of routed_managed_valid]
    by (auto simp: underlay_vertical_def bindS_Inr_iff)
  have "map (sort_keys \<circ> routed_managed_json) p = map (sort_keys \<circ> routed_managed_json) q"
    using assms(3) by (simp add: underlay_vertical_def)
  moreover have "inj_on (sort_keys \<circ> routed_managed_json) (set p \<union> set q)"
    using valid routed_managed_json_inject by (fastforce simp: inj_on_def)
  ultimately show ?thesis by (simp add: map_inj_on)
qed


section \<open>In sync\<close>

lemma mapS_Inr_map:
  assumes "mapS f xs = Inr ys" and "\<And>x y. x \<in> set xs \<Longrightarrow> f x = Inr y \<Longrightarrow> y = g x"
  shows "ys = map g xs"
proof (rule nth_equalityI)
  show "length ys = length (map g xs)" using mapS_length [OF assms(1)] by simp
  fix i assume "i < length ys"
  then show "ys ! i = map g xs ! i"
    using mapS_nth [OF assms(1), of i] mapS_length [OF assms(1)] assms(2) by simp
qed

lemma checked_managed_Inr: "checked v x = Inr y \<longleftrightarrow> v x = Inr () \<and> y = x"
  by (auto simp: checked_def bindS_Inr_iff)

lemma project_observation_payload:
  assumes "project_underlay_observation sha s accepted_intent = Inr m"
  shows "build_snapshot sha underlay_vertical (underlay_envelope accepted_intent)
    (map (\<lambda>d. managed_of_observed (the (find_observed s d))) (ud_interfaces (accepted_desired sha))) = Inr m"
proof -
  from assms obtain p where
    p: "mapS (\<lambda>j. case observed_by_identity s j of None \<Rightarrow> Inl (OtherException ''KeyError'')
        | Some c \<Rightarrow> checked routed_managed_valid (managed_of_observed c))
      (scope_interfaces (underlay_envelope accepted_intent)) = Inr p"
    and m: "build_snapshot sha underlay_vertical (underlay_envelope accepted_intent) p = Inr m"
    by (auto simp: project_underlay_observation_def bindS_Inr_iff build_envelope_accepted)
  have "p = map (\<lambda>j. managed_of_observed (the (observed_by_identity s j)))
      (scope_interfaces (underlay_envelope accepted_intent))"
    by (rule mapS_Inr_map [OF p]) (auto simp: checked_managed_Inr split: option.splits)
  then show ?thesis
    using m by (simp add: scope_interfaces_underlay desired_interfaces_accepted find_observed_def
      observed_by_identity_def desired_of_endpoint_def comp_def)
qed

lemma project_desired_payload:
  assumes "project_underlay_desired sha d accepted_intent = Inr n"
  shows "build_snapshot sha underlay_vertical (underlay_envelope accepted_intent)
    (map managed_of_desired (ud_interfaces d)) = Inr n"
proof -
  from assms obtain p where
    p: "mapS (\<lambda>x. checked routed_managed_valid (managed_of_desired x)) (ud_interfaces d) = Inr p"
    and n: "build_snapshot sha underlay_vertical (underlay_envelope accepted_intent) p = Inr n"
    by (auto simp: project_underlay_desired_def bindS_Inr_iff build_envelope_accepted)
  have "p = map managed_of_desired (ud_interfaces d)"
    by (rule mapS_Inr_map [OF p]) (simp add: checked_managed_Inr)
  with n show ?thesis by simp
qed

definition interface_in_sync :: "observed_interface \<Rightarrow> desired_interface \<Rightarrow> bool" where
  "interface_in_sync c d \<longleftrightarrow>
     ob_exists c \<and> ob_ipv4_addresses c = di_ipv4_addresses d \<and> ob_admin_enabled c = Some True"

lemma sort_key_singleton: "sort_key f xs = [a] \<longleftrightarrow> xs = [a]"
proof
  assume s: "sort_key f xs = [a]"
  then have "length xs = 1" using length_sort [of f xs] by simp
  then obtain b where "xs = [b]" by (auto simp: length_Suc_conv)
  with s show "xs = [a]" by simp
qed simp

lemma managed_equal_iff:
  assumes "ob_interface c = di_interface d" and "di_ipv4_addresses d = [a]"
  shows "managed_of_observed c = managed_of_desired d \<longleftrightarrow> interface_in_sync c d"
  using assms
  by (auto simp: managed_of_observed_def managed_of_desired_def interface_in_sync_def sort_key_singleton
    split: if_splits)

lemma find_observed_in: "find_observed s x = Some c \<Longrightarrow> c \<in> set (uo_interfaces s)"
  unfolding find_observed_def find_Some_iff by (metis nth_mem set_rev)

lemma current_interface:
  assumes "observation_by_interface s d = Inr u" and "x \<in> set (ud_interfaces d)"
  shows "\<exists>c. find_observed s x = Some c \<and> ob_interface c = di_interface x
    \<and> ob_device_identity c = di_device_identity x
    \<and> (\<forall>a \<in> set (ob_ipv4_addresses c). v4_ip a \<notin> set MANAGEMENT_ADDRESSES)"
proof -
  have "\<exists>u. check_current s x = Inr u"
    using assms mapS_unit [of "check_current s"] by (auto simp: observation_by_interface_def bindS_Inr_iff)
  then show ?thesis
    by (auto simp: check_current_def checks_ok list_ex_iff split: option.splits)
qed

lemma delta_matches:
  assumes "routed_underlay_delta s d = Inr ds" and "observation_by_interface s d = Inr u"
  shows "list_all (\<lambda>e. de_addresses_match e \<and> de_admin_matches e) ds
    \<longleftrightarrow> (\<forall>x \<in> set (ud_interfaces d). interface_in_sync (the (find_observed s x)) x)"
proof -
  have "ds = map (\<lambda>x. let c = the (find_observed s x) in
      \<lparr>de_interface = di_interface x, de_observed_addresses = ob_ipv4_addresses c,
       de_desired_addresses = di_ipv4_addresses x, de_observed_admin_enabled = ob_admin_enabled c,
       de_addresses_match = (ob_exists c \<and> ob_ipv4_addresses c = di_ipv4_addresses x),
       de_admin_matches = (ob_exists c \<and> ob_admin_enabled c = Some True)\<rparr>) (ud_interfaces d)"
    by (rule mapS_Inr_map [OF assms(1) [unfolded routed_underlay_delta_def]])
      (auto simp: interface_delta_def Let_def split: option.splits)
  then show ?thesis by (auto simp: list_all_iff interface_in_sync_def Let_def)
qed

lemma underlay_payloads_equal_iff:
  assumes "observation_by_interface s (accepted_desired sha) = Inr u"
  shows "map (\<lambda>d. managed_of_observed (the (find_observed s d))) (ud_interfaces (accepted_desired sha))
      = map managed_of_desired (ud_interfaces (accepted_desired sha))
    \<longleftrightarrow> (\<forall>x \<in> set (ud_interfaces (accepted_desired sha)). interface_in_sync (the (find_observed s x)) x)"
proof -
  have "managed_of_observed (the (find_observed s d)) = managed_of_desired d
      \<longleftrightarrow> interface_in_sync (the (find_observed s d)) d"
    if d: "d \<in> set (ud_interfaces (accepted_desired sha))" for d
    using current_interface [OF assms d] desired_single_address [OF d] managed_equal_iff by fastforce
  then show ?thesis by auto
qed


section \<open>Projections that succeed\<close>

lemma build_snapshot_ok:
  assumes "managed_ownership_envelope_valid e = Inr ()" and "vt_payload_valid v p = Inr ()"
    and "oe_vertical e = vt_vertical v" and "vt_exact_scope v e p"
  shows "\<exists>s. build_snapshot sha v e p = Inr s"
  using assms
  by (auto simp: build_snapshot_def Let_def snapshot_valid_def checks_ok bindS_Inr_iff
    snapshot_calculated_digest_def snapshot_json_def)

lemma envelope_accepted_valid: "managed_ownership_envelope_valid (underlay_envelope accepted_intent) = Inr ()"
  using build_envelope_accepted by (auto simp: build_underlay_envelope_def bindS_Inr_iff)

lemma underlay_snapshot_ok:
  assumes "\<And>x. x \<in> set p \<Longrightarrow> routed_managed_valid x = Inr ()"
    and "map (si_interface \<circ> rm_interface) p = map (si_interface \<circ> ue_interface) (intent_endpoints accepted_intent)"
  shows "\<exists>s. build_snapshot sha underlay_vertical (underlay_envelope accepted_intent) p = Inr s"
proof (rule build_snapshot_ok)
  show "vt_payload_valid underlay_vertical p = Inr ()"
    using mapS_units [of p routed_managed_valid, OF assms(1)] by (simp add: underlay_vertical_def)
  show "vt_exact_scope underlay_vertical (underlay_envelope accepted_intent) p"
    using assms(2) by (simp add: underlay_vertical_def scope_interfaces_underlay)
qed (rule envelope_accepted_valid, simp add: underlay_vertical_def underlay_envelope_def)

lemma project_desired_ok: "\<exists>n. project_underlay_desired sha (accepted_desired sha) accepted_intent = Inr n"
proof -
  have valid: "routed_managed_valid (managed_of_desired d) = Inr ()"
    if "d \<in> set (ud_interfaces (accepted_desired sha))" for d
    using desired_single_address [OF that]
    by (auto simp: routed_managed_valid_def managed_of_desired_def checks_ok)
  have "mapS (\<lambda>x. checked routed_managed_valid (managed_of_desired x)) (ud_interfaces (accepted_desired sha))
      = Inr (map managed_of_desired (ud_interfaces (accepted_desired sha)))"
    by (rule mapS_total) (simp add: checked_managed_Inr valid)
  moreover have "\<exists>n. build_snapshot sha underlay_vertical (underlay_envelope accepted_intent)
      (map managed_of_desired (ud_interfaces (accepted_desired sha))) = Inr n"
  proof (rule underlay_snapshot_ok)
    show "map (si_interface \<circ> rm_interface) (map managed_of_desired (ud_interfaces (accepted_desired sha)))
        = map (si_interface \<circ> ue_interface) (intent_endpoints accepted_intent)"
      by (simp add: managed_of_desired_def desired_interfaces_accepted desired_of_endpoint_def)
  qed (use valid in auto)
  ultimately show ?thesis by (simp add: project_underlay_desired_def build_envelope_accepted)
qed

lemma project_observation_ok:
  assumes "observation_by_interface s (accepted_desired sha) = Inr u"
    and "\<And>c. c \<in> set (uo_interfaces s) \<Longrightarrow> routed_managed_valid (managed_of_observed c) = Inr ()"
  shows "\<exists>m. project_underlay_observation sha s accepted_intent = Inr m"
proof -
  let ?E = "underlay_envelope accepted_intent"
  have found: "\<exists>c. observed_by_identity s (si_interface (ue_interface e)) = Some c \<and> c \<in> set (uo_interfaces s)
      \<and> si_interface (ob_interface c) = si_interface (ue_interface e)"
    if "e \<in> set (intent_endpoints accepted_intent)" for e
  proof -
    let ?x = "desired_of_endpoint e"
    have x: "?x \<in> set (ud_interfaces (accepted_desired sha))"
      using that by (simp add: desired_interfaces_accepted)
    obtain c where c: "find_observed s ?x = Some c" "ob_interface c = di_interface ?x"
      using current_interface [OF assms(1) x] by blast
    have "observed_by_identity s (si_interface (ue_interface e)) = find_observed s ?x"
      by (simp add: find_observed_def observed_by_identity_def desired_of_endpoint_def)
    then show ?thesis using c find_observed_in [OF c(1)] by (auto simp: desired_of_endpoint_def)
  qed
  let ?g = "\<lambda>j. managed_of_observed (the (observed_by_identity s j))"
  have "mapS (\<lambda>j. case observed_by_identity s j of None \<Rightarrow> Inl (OtherException ''KeyError'')
        | Some c \<Rightarrow> checked routed_managed_valid (managed_of_observed c)) (scope_interfaces ?E)
      = Inr (map ?g (scope_interfaces ?E))"
    by (rule mapS_total) (use found assms(2) in \<open>fastforce simp: scope_interfaces_underlay checked_managed_Inr\<close>)
  moreover have "\<exists>m. build_snapshot sha underlay_vertical ?E (map ?g (scope_interfaces ?E)) = Inr m"
    by (rule underlay_snapshot_ok)
      (use found assms(2) in \<open>fastforce simp: scope_interfaces_underlay managed_of_observed_def\<close>)+
  moreover have "set (map (si_interface \<circ> ob_interface) (uo_interfaces s)) = set (scope_interfaces ?E)"
    using assms(1)
    by (simp add: observation_by_interface_def bindS_Inr_iff checks_ok scope_interfaces_underlay
      desired_interfaces_accepted desired_of_endpoint_def image_image)
  ultimately show ?thesis
    by (simp add: project_underlay_observation_def build_envelope_accepted)
qed

end
