(* ===== verification/Underlay_Converges.thy ===== *)
theory Underlay_Converges
  imports Managed_State_Laws
begin

text \<open>
  What a rendered IOS change does to a router. The specification is the documented meaning of the
  four configuration lines the renderer writes: \<open>interface\<close> selects an interface, \<open>ip address\<close>
  replaces its address, \<open>no ip address\<close> with the configured address removes it, \<open>no shutdown\<close>
  enables it. The lemmas run the text of \<open>_render_change_exact\<close>, split at its newlines, through
  this interpreter.
\<close>

section \<open>The meaning of the configuration lines\<close>

record ios_port =
  port_address :: "ipv4_interface option"
  port_shutdown :: bool

type_synonym ios_config = "string \<Rightarrow> ios_port"

definition read_ios_address :: "string \<Rightarrow> string \<Rightarrow> ipv4_interface option" where
  "read_ios_address a m = (case (read_ipv4 a, read_prefix_length m) of
     (Some w, Some n) \<Rightarrow> Some (IPv4Interface w n) | _ \<Rightarrow> None)"

definition on_port :: "string option \<Rightarrow> (ios_port \<Rightarrow> ios_port) \<Rightarrow> ios_config \<Rightarrow> ios_config" where
  "on_port current f cfg = (case current of None \<Rightarrow> cfg | Some n \<Rightarrow> cfg(n := f (cfg n)))"

definition ios_step :: "string option \<times> ios_config \<Rightarrow> string \<Rightarrow> string option \<times> ios_config" where
  "ios_step = (\<lambda>(current, cfg) line. (case split_on CHR '' '' line of
      [a, n] \<Rightarrow> if a = ''interface'' then (Some n, cfg) else (current, cfg)
    | [e, a, b] \<Rightarrow>
        if (e, a, b) = ([], ''no'', ''shutdown'')
        then (current, on_port current (\<lambda>p. p\<lparr>port_shutdown := False\<rparr>) cfg) else (current, cfg)
    | [e, a, b, x, m] \<Rightarrow>
        if (e, a, b) = ([], ''ip'', ''address'')
        then (case read_ios_address x m of
            Some i \<Rightarrow> (current, on_port current (\<lambda>p. p\<lparr>port_address := Some i\<rparr>) cfg)
          | None \<Rightarrow> (current, cfg))
        else (current, cfg)
    | [e, a, b, c, x, m] \<Rightarrow>
        if (e, a, b, c) = ([], ''no'', ''ip'', ''address'')
        then (current, on_port current (\<lambda>p.
            if port_address p = read_ios_address x m then p\<lparr>port_address := None\<rparr> else p) cfg)
        else (current, cfg)
    | _ \<Rightarrow> (current, cfg)))"

definition ios_apply :: "ios_config \<Rightarrow> string \<Rightarrow> ios_config" where
  "ios_apply cfg text = snd (foldl ios_step (None, cfg) (split_on CHR 0x0A text))"

section \<open>Reading back what is printed\<close>

lemma netmask_inject: "m \<le> 32 \<Longrightarrow> n \<le> 32 \<Longrightarrow> netmask m = netmask n \<longleftrightarrow> m = n"
proof -
  have "distinct (map netmask [0..<33])" by code_simp
  then have "inj_on netmask (set [0..<33])" by (simp add: distinct_map)
  then show "m \<le> 32 \<Longrightarrow> n \<le> 32 \<Longrightarrow> ?thesis" by (auto simp: inj_on_def)
qed

lemma read_netmask: "n \<le> 32 \<Longrightarrow> read_prefix_length (ipv4_str (netmask n)) = Some n"
proof -
  assume n: "n \<le> 32"
  have "CHR ''.'' \<in> set (ipv4_str (netmask n))"
    by (simp add: ipv4_str_def)
  moreover have "\<not> is_digit CHR ''.''" by (simp add: is_digit_def code_def)
  ultimately have "\<not> list_all is_digit (ipv4_str (netmask n))" by (auto simp: list_all_iff)
  moreover have "List.find (\<lambda>p. netmask p = netmask n) [0..<33] = Some n"
    using n netmask_inject by (auto simp: find_Some_iff intro!: exI [of _ n])
  ultimately show ?thesis by (simp add: read_prefix_length_def read_ipv4_str)
qed

lemma split_ios_address:
  "split_on CHR '' '' (ios_address a) = [ipv4_str (v4_ip a), ipv4_str (netmask (v4_prefix_length a))]"
proof -
  have "CHR '' '' \<notin> set (ipv4_str w)" for w
    by (rule ipv4_str_notin) (auto simp: is_digit_def code_def)
  then show ?thesis by (simp add: ios_address_def split_on_append split_on_notin)
qed

lemma read_ios_address_str:
  "wf_interface a \<Longrightarrow> read_ios_address (ipv4_str (v4_ip a)) (ipv4_str (netmask (v4_prefix_length a))) = Some a"
  by (cases a) (simp add: read_ios_address_def read_ipv4_str read_netmask wf_interface_def)

lemma ios_step_interface:
  "CHR '' '' \<notin> set n \<Longrightarrow> ios_step (current, cfg) (''interface '' @ n) = (Some n, cfg)"
  by (simp add: ios_step_def split_on_notin)

lemma ios_step_address:
  "wf_interface a \<Longrightarrow> ios_step (current, cfg) ('' ip address '' @ ios_address a)
     = (current, on_port current (\<lambda>p. p\<lparr>port_address := Some a\<rparr>) cfg)"
  by (simp add: ios_step_def split_ios_address read_ios_address_str)

lemma ios_step_no_address:
  "wf_interface a \<Longrightarrow> ios_step (current, cfg) ('' no ip address '' @ ios_address a)
     = (current, on_port current (\<lambda>p. if port_address p = Some a then p\<lparr>port_address := None\<rparr> else p) cfg)"
  by (simp add: ios_step_def split_ios_address read_ios_address_str)

lemma ios_step_enable:
  "ios_step (current, cfg) '' no shutdown'' = (current, on_port current (\<lambda>p. p\<lparr>port_shutdown := False\<rparr>) cfg)"
  by (simp add: ios_step_def)

section \<open>One interface, then all of a device\<close>

definition first_address :: "observed_interface \<Rightarrow> ipv4_interface option" where
  "first_address c = (case ob_ipv4_addresses c of [] \<Rightarrow> None | a # _ \<Rightarrow> Some a)"

definition enabled_port :: "desired_interface \<Rightarrow> ios_port" where
  "enabled_port x = \<lparr>port_address = Some (hd (di_ipv4_addresses x)), port_shutdown = False\<rparr>"

lemma port_update:
  "(p :: ios_port)\<lparr>port_address := a, port_shutdown := b\<rparr> = \<lparr>port_address = a, port_shutdown = b\<rparr>"
  by (cases p) simp

lemma ios_block_run:
  assumes "di_ipv4_addresses x = [a]" and "wf_interface a"
    and "length (ob_ipv4_addresses c) \<le> 1" and "list_all wf_interface (ob_ipv4_addresses c)"
    and "port_address (cfg (si_name (di_interface x))) = first_address c"
    and "CHR '' '' \<notin> set (si_name (di_interface x))"
  shows "foldl ios_step (current, cfg) (ios_block (c, x))
    = (Some (si_name (di_interface x)), cfg(si_name (di_interface x) := enabled_port x))"
proof -
  note steps = ios_step_interface [OF assms(6), simplified] ios_step_address [simplified]
    ios_step_no_address [simplified] ios_step_enable
  consider "ob_ipv4_addresses c = []" | b where "ob_ipv4_addresses c = [b]" "wf_interface b"
    using assms(3,4) by (cases "ob_ipv4_addresses c") auto
  then show ?thesis
  proof cases
    case 1
    then show ?thesis
      using assms(1,2)
      by (simp add: ios_block_def removed_addresses_def added_addresses_def steps on_port_def port_update enabled_port_def)
  next
    case 2
    then show ?thesis
      using assms(1,2,5)
      by (cases "a = b"; cases "cfg (si_name (di_interface x))")
        (simp_all add: ios_block_def removed_addresses_def added_addresses_def steps on_port_def
          port_update enabled_port_def first_address_def)
  qed
qed

lemma ios_blocks_run:
  assumes "\<And>c x. (c, x) \<in> set changes \<Longrightarrow> (\<exists>a. di_ipv4_addresses x = [a] \<and> wf_interface a)
      \<and> length (ob_ipv4_addresses c) \<le> 1 \<and> list_all wf_interface (ob_ipv4_addresses c)
      \<and> CHR '' '' \<notin> set (si_name (di_interface x))"
    and "distinct (map (si_name \<circ> di_interface \<circ> snd) changes)"
    and "\<And>c x. (c, x) \<in> set changes \<Longrightarrow> port_address (cfg (si_name (di_interface x))) = first_address c"
  shows "snd (foldl ios_step (current, cfg) (concat (map ios_block changes)))
    = (\<lambda>n. case List.find (\<lambda>x. si_name (di_interface x) = n) (map snd changes) of
        Some x \<Rightarrow> enabled_port x | None \<Rightarrow> cfg n)"
  using assms
proof (induction changes arbitrary: current cfg)
  case (Cons p changes)
  obtain c x where p: "p = (c, x)" by fastforce
  let ?n = "si_name (di_interface x)"
  obtain a where "di_ipv4_addresses x = [a]" "wf_interface a" using Cons.prems(1) [of c x] p by auto
  then have "foldl ios_step (current, cfg) (ios_block p) = (Some ?n, cfg(?n := enabled_port x))"
    unfolding p by (rule ios_block_run) (use Cons.prems(1,3) [of c x] p in auto)
  moreover have "snd (foldl ios_step (Some ?n, cfg(?n := enabled_port x)) (concat (map ios_block changes)))
      = (\<lambda>n. case List.find (\<lambda>x. si_name (di_interface x) = n) (map snd changes) of
          Some x \<Rightarrow> enabled_port x | None \<Rightarrow> (cfg(?n := enabled_port x)) n)"
  proof (rule Cons.IH)
    fix c' x' assume "(c', x') \<in> set changes"
    moreover from this have "si_name (di_interface x') \<noteq> ?n"
      using Cons.prems(2) p by force
    ultimately show "port_address ((cfg(?n := enabled_port x)) (si_name (di_interface x'))) = first_address c'"
      using Cons.prems(3) by simp
  qed (use Cons.prems in auto)
  moreover have "List.find (\<lambda>x. si_name (di_interface x) = ?n) (map snd changes) = None"
    using Cons.prems(2) p by (force simp: find_None_iff)
  ultimately show ?case by (auto simp: p fun_eq_iff split: option.splits)
qed simp

lemma join_snoc: "ls \<noteq> [] \<Longrightarrow> join d (ls @ [w]) = join d ls @ d @ w"
  by (induction d ls rule: join.induct) auto

lemma split_lines_text:
  assumes "ls \<noteq> []" and "\<forall>l \<in> set ls. CHR 0x0A \<notin> set l"
  shows "split_on CHR 0x0A (lines_text ls) = ls @ [[]]"
proof -
  have "lines_text ls = join [CHR 0x0A] (ls @ [[]])"
    using join_snoc [OF assms(1), of "[CHR 0x0A]" "[]"] by (simp add: lines_text_def)
  then show ?thesis using assms split_on_join [of "ls @ [[]]" "CHR 0x0A"] by auto
qed

lemma ios_step_empty: "ios_step st [] = st"
  by (cases st) (simp add: ios_step_def)

lemma ios_apply_lines:
  assumes "\<forall>l \<in> set ls. CHR 0x0A \<notin> set l"
  shows "ios_apply cfg (lines_text ls) = snd (foldl ios_step (None, cfg) ls)"
proof (cases "ls = []")
  case True
  then show ?thesis by (simp add: ios_apply_def lines_text_def ios_step_empty)
next
  case False
  with assms show ?thesis by (simp add: ios_apply_def split_lines_text ios_step_empty)
qed

section \<open>A rendered target\<close>

definition plain_name :: "string \<Rightarrow> bool" where
  "plain_name n \<longleftrightarrow> CHR '' '' \<notin> set n \<and> CHR 0x0A \<notin> set n"

lemma distinct_filter_key:
  "distinct (map (\<lambda>x. (f x, g x)) xs) \<Longrightarrow> distinct (map g (filter (\<lambda>x. f x = i) xs))"
  by (auto simp: distinct_map inj_on_def)

lemma accepted_names:
  "x \<in> set (ud_interfaces (accepted_desired sha)) \<Longrightarrow> plain_name (si_name (di_interface x))"
  "distinct (map (si_name \<circ> di_interface) (filter (\<lambda>x. di_device_identity x = i) (ud_interfaces (accepted_desired sha))))"
proof -
  let ?X = "map desired_of_endpoint (intent_endpoints accepted_intent)"
  have "list_all (\<lambda>x. plain_name (si_name (di_interface x))) ?X"
    and "distinct (map (\<lambda>x. (di_device_identity x, si_name (di_interface x))) ?X)"
    by code_simp+
  then show "x \<in> set (ud_interfaces (accepted_desired sha)) \<Longrightarrow> plain_name (si_name (di_interface x))"
    and "distinct (map (si_name \<circ> di_interface) (filter (\<lambda>x. di_device_identity x = i) (ud_interfaces (accepted_desired sha))))"
    using distinct_filter_key [of di_device_identity "si_name \<circ> di_interface" ?X]
    unfolding desired_interfaces_accepted by (auto simp: list_all_iff comp_def)
qed

lemma ios_block_newline:
  assumes "plain_name (si_name (di_interface x))" and "l \<in> set (ios_block (c, x))"
  shows "CHR 0x0A \<notin> set l"
proof -
  have "CHR 0x0A \<notin> set (ios_address a)" for a
    by (auto simp: ios_address_def is_digit_def code_def dest: ipv4_str_notin [of "CHR 0x0A", THEN notE, rotated 2])
  with assms show ?thesis by (auto simp: ios_block_def plain_name_def)
qed

lemma mapS_image: "mapS f xs = Inr ys \<Longrightarrow> y \<in> set ys \<Longrightarrow> \<exists>x \<in> set xs. f x = Inr y"
  using mapS_nth [of f xs ys] mapS_length [of f xs ys] by (metis in_set_conv_nth)

lemma rendered_ios:
  assumes "render_change_exact sha s d = Inr ts" and "t \<in> set ts" and "rt_format t = IOS_CLI"
  shows "rt_content t = lines_text (concat (map ios_block (device_changes s d (rt_device_identity t))))"
    and "\<forall>(c, x) \<in> set (device_changes s d (rt_device_identity t)). length (ob_ipv4_addresses c) \<le> 1"
proof -
  from assms(1) have "mapS (render_device sha s d) RENDER_BINDINGS = Inr ts"
    by (auto simp: render_change_exact_def bindS_Inr_iff)
  from mapS_image [OF this assms(2)] obtain b where b: "render_device sha s d b = Inr t" by blast
  obtain i n f where "b = (i, n, f)" by (cases b) auto
  with b obtain content where c: "render_content f (device_changes s d i) = Inr (rt_format t, content)"
    and t: "rt_device_identity t = i" "rt_content t = content"
    by (auto simp: render_device_def bindS_Inr_iff split: if_splits)
  from c assms(3) have "content = lines_text (concat (map ios_block (device_changes s d i)))"
    and "\<not> list_ex (\<lambda>(c, x). 1 < length (ob_ipv4_addresses c)) (device_changes s d i)"
    by (auto simp: render_content_def split: if_splits)
  then show "rt_content t = lines_text (concat (map ios_block (device_changes s d (rt_device_identity t))))"
    and "\<forall>(c, x) \<in> set (device_changes s d (rt_device_identity t)). length (ob_ipv4_addresses c) \<le> 1"
    unfolding t by (simp_all add: list_ex_iff not_less case_prod_beta)
qed

lemma device_changes_facts:
  assumes "observation_by_interface s (accepted_desired sha) = Inr u" and "underlay_observation_valid s = Inr w"
    and "(c, x) \<in> set (device_changes s (accepted_desired sha) i)"
  shows "x \<in> set (ud_interfaces (accepted_desired sha))" and "list_all wf_interface (ob_ipv4_addresses c)"
proof -
  show x: "x \<in> set (ud_interfaces (accepted_desired sha))"
    using assms(3) by (auto simp: device_changes_def)
  have "find_observed s x = Some c"
    using current_interface [OF assms(1) x] assms(3) by (auto simp: device_changes_def)
  then have "c \<in> set (uo_interfaces s)" by (rule find_observed_in)
  then have "\<exists>u. observed_interface_valid c = Inr u"
    using assms(2) mapS_unit [of observed_interface_valid]
    by (auto simp: underlay_observation_valid_def bindS_Inr_iff)
  then show "list_all wf_interface (ob_ipv4_addresses c)"
    by (auto simp: observed_interface_valid_def checks_ok)
qed

end
