(* ===== verification/Underlay_Assurance.thy ===== *)
theory Underlay_Assurance
  imports Underlay_Render
begin

text \<open>
  \<^verbatim>\<open>routed_underlay.py\<close>, the offline assurance of the candidate: the nine common invariants over
  what Batfish reports and the OSPF one, the evidence with its outcome, and the proposal that
  binds intent, envelope, observation, desired state, delta, change and evidence. The records of
  \<^verbatim>\<open>assurance.py\<close> the evaluation reads (\<open>ParseSummary\<close>, \<open>InvariantResult\<close>, the outcome) are here too.
\<close>

section \<open>What Batfish reports\<close>

record parse_summary =
  pa_files :: "(string \<times> string) list"
  pa_nodes :: "string list"
  pa_issues :: int

definition parse_summary_valid :: "parse_summary \<Rightarrow> unit res" where
  "parse_summary_valid p = checks
    [(pa_issues p < 0, ValueError ''initialization_issue_count''),
     (\<not> distinct (map fst (pa_files p)), ValueError ''parse file identities must be unique''),
     (\<not> distinct (pa_nodes p), ValueError ''node identities must be unique'')]"

record underlay_flow =
  fl_source_node :: string
  fl_source_ip :: "32 word"
  fl_destination_ip :: "32 word"
  fl_reachable :: bool

record interface_prefix =
  xp_node :: string
  xp_interface :: string
  xp_prefix :: ipv4_interface

record underlay_batfish =
  bo_pybatfish_version :: string
  bo_batfish_version :: string
  bo_candidate_parse :: parse_summary
  bo_interface_prefixes :: "interface_prefix list"
  bo_flows :: "underlay_flow list"
  bo_ospf_process_count :: int

record invariant_result =
  iv_name :: string
  iv_passed :: bool
  iv_detail :: string

definition invariant :: "string \<Rightarrow> bool \<Rightarrow> string \<Rightarrow> invariant_result" where
  "invariant n b d = \<lparr>iv_name = n, iv_passed = b, iv_detail = d\<rparr>"

datatype assurance_outcome = ASSURANCE_PASSED | ASSURANCE_FAILED | ASSURANCE_BLOCKED

section \<open>The invariants\<close>

definition name_by_identity :: "(string \<times> string) list" where
  "name_by_identity =
    [(''netbox:dcim.device:1'', ''core-02''), (''netbox:dcim.device:2'', ''edge-junos-01''),
     (''netbox:dcim.device:8'', ''transit-ios-01'')]"

definition expected_prefixes :: "underlay_desired \<Rightarrow> (string \<times> string \<times> string) list res" where
  "expected_prefixes d = mapS (\<lambda>x. bindS (lookup name_by_identity (di_device_identity x)) (\<lambda>name.
     Inr (name, si_name (di_interface x), interface_str (hd (di_ipv4_addresses x))))) (ud_interfaces d)"

definition observed_prefixes :: "underlay_batfish \<Rightarrow> (string \<times> string \<times> string) list" where
  "observed_prefixes o' = map (\<lambda>x. (xp_node x, xp_interface x, interface_str (xp_prefix x)))
     (bo_interface_prefixes o')"

definition link_networks :: "underlay_desired \<Rightarrow> string list" where
  "link_networks d = map (network_str \<circ> network \<circ> hd \<circ> di_ipv4_addresses) (ud_interfaces d)"

definition LINK_PREFIXES :: "string list" where
  "LINK_PREFIXES = [''10.60.0.0/30'', ''10.60.0.4/30'', ''10.60.0.8/30'']"

definition EXPECTED_FLOWS :: "(string \<times> string \<times> string) list" where
  "EXPECTED_FLOWS =
    [(''core-02'', ''10.60.0.1'', ''10.60.0.2''), (''core-02'', ''10.60.0.5'', ''10.60.0.6''),
     (''edge-junos-01'', ''10.60.0.9'', ''10.60.0.10'')]"

definition exact_parse_files :: "underlay_batfish \<Rightarrow> bool" where
  "exact_parse_files o' \<longleftrightarrow> same_set (map fst (pa_files (bo_candidate_parse o')))
     (map (\<lambda>n. n @ ''.cfg'') EXPECTED_PROFILED_NAMES)"

definition underlay_common_invariants ::
    "underlay_desired \<Rightarrow> underlay_batfish \<Rightarrow> invariant_result list res" where
  "underlay_common_invariants d o' =
    bindS (expected_prefixes d) (\<lambda>expected. Inr
     [invariant ''candidate_exact_parse_files'' (exact_parse_files o')
        ''parse results cover exactly four candidate files'',
      invariant ''candidate_parse_status''
        (exact_parse_files o' \<and> list_all (\<lambda>f. snd f = ''PASSED'') (pa_files (bo_candidate_parse o')))
        ''all four candidate configurations parse'',
      invariant ''candidate_exact_nodes''
        (pa_nodes (bo_candidate_parse o') = sort EXPECTED_PROFILED_NAMES)
        ''candidate recognizes the exact four profiled nodes'',
      invariant ''candidate_initialization_issues'' (pa_issues (bo_candidate_parse o') = 0)
        ''candidate initialization issue count is zero'',
      invariant ''exact_routed_interface_prefixes'' (same_set (observed_prefixes o') expected)
        ''Batfish reports exactly the six intended routed interface prefixes'',
      invariant ''exact_two_participants_per_link''
        (same_set (link_networks d) LINK_PREFIXES
          \<and> list_all (\<lambda>n. count_list (link_networks d) n = 2) LINK_PREFIXES)
        ''each routed /30 has exactly its two intended participants'',
      invariant ''access_switch_excluded''
        (\<not> list_ex (\<lambda>x. xp_node x = ''access-sw-01'') (bo_interface_prefixes o'))
        ''access-sw-01 has no routed-underlay participation'',
      invariant ''management_addresses_excluded''
        (\<not> list_ex (\<lambda>x. v4_ip (xp_prefix x) \<in> set MANAGEMENT_ADDRESSES) (bo_interface_prefixes o'))
        ''no management address enters the candidate data-plane envelope'',
      invariant ''exact_direct_neighbor_flows''
        (same_set (map (\<lambda>f. (fl_source_node f, ipv4_str (fl_source_ip f), ipv4_str (fl_destination_ip f)))
            (bo_flows o')) EXPECTED_FLOWS
          \<and> list_all fl_reachable (bo_flows o'))
        ''all three direct-neighbor reachability checks pass''])"

section \<open>Evidence and proposal\<close>

record underlay_evidence =
  ae_generated_at :: py_datetime
  ae_subject_digest :: string
  ae_candidate_snapshot_digest :: string
  ae_pybatfish_version :: string
  ae_batfish_version :: string
  ae_candidate_parse :: parse_summary
  ae_interface_prefixes :: "interface_prefix list"
  ae_flows :: "underlay_flow list"
  ae_ospf_process_count :: int
  ae_invariants :: "invariant_result list"
  ae_outcome :: assurance_outcome

definition underlay_evidence_valid :: "underlay_evidence \<Rightarrow> unit res" where
  "underlay_evidence_valid e = checks
    [(ae_outcome e \<noteq> (if ae_invariants e \<noteq> [] \<and> list_all iv_passed (ae_invariants e)
        then ASSURANCE_PASSED else ASSURANCE_FAILED),
       ValueError ''routed-underlay assurance outcome is inconsistent'')]"

definition evaluate_underlay_assurance ::
    "underlay_desired \<Rightarrow> string \<Rightarrow> underlay_batfish \<Rightarrow> py_datetime \<Rightarrow> underlay_evidence res" where
  "evaluate_underlay_assurance d snapshot_digest o' now =
    bindS (underlay_common_invariants d o') (\<lambda>common.
    let invariants = common @ [invariant ''ospf_absent'' (bo_ospf_process_count o' = 0)
          ''candidate contains no OSPF process''];
        e = \<lparr>ae_generated_at = now, ae_subject_digest = ud_digest d,
             ae_candidate_snapshot_digest = snapshot_digest,
             ae_pybatfish_version = bo_pybatfish_version o', ae_batfish_version = bo_batfish_version o',
             ae_candidate_parse = bo_candidate_parse o',
             ae_interface_prefixes = bo_interface_prefixes o', ae_flows = bo_flows o',
             ae_ospf_process_count = bo_ospf_process_count o', ae_invariants = invariants,
             ae_outcome = (if list_all iv_passed invariants then ASSURANCE_PASSED else ASSURANCE_FAILED)\<rparr>
    in bindS (underlay_evidence_valid e) (\<lambda>_. Inr e))"

record underlay_proposal =
  up_generated_at :: py_datetime
  up_intent :: underlay_intent
  up_ownership_envelope :: managed_ownership_envelope
  up_current_observation :: underlay_observation
  up_desired_state :: underlay_desired
  up_delta :: "underlay_delta list"
  up_rendered_targets :: "rendered_target list"
  up_batfish :: underlay_evidence

definition underlay_proposal_valid :: "(string \<Rightarrow> string) \<Rightarrow> underlay_proposal \<Rightarrow> unit res" where
  "underlay_proposal_valid sha p =
    (let message = ValueError ''routed-underlay proposal evidence is inconsistent'' in
    bindS (underlay_intent_valid (up_intent p)) (\<lambda>_.
    bindS (managed_ownership_envelope_valid (up_ownership_envelope p)) (\<lambda>_.
    bindS (underlay_observation_valid (up_current_observation p)) (\<lambda>_.
    bindS (underlay_desired_valid (up_desired_state p)) (\<lambda>_.
    bindS (underlay_evidence_valid (up_batfish p)) (\<lambda>_.
    bindS (build_underlay_envelope (up_intent p)) (\<lambda>e.
    bindS (checks [(up_ownership_envelope p \<noteq> e, message)]) (\<lambda>_.
    bindS (build_underlay_desired sha (up_intent p)) (\<lambda>d.
    bindS (checks [(up_desired_state p \<noteq> d, message)]) (\<lambda>_.
    bindS (routed_underlay_delta (up_current_observation p) (up_desired_state p)) (\<lambda>delta.
    bindS (checks [(up_delta p \<noteq> delta, message)]) (\<lambda>_.
    bindS (render_change_exact sha (up_current_observation p) (up_desired_state p)) (\<lambda>targets. checks
      [(up_rendered_targets p \<noteq> targets
        \<or> ae_subject_digest (up_batfish p) \<noteq> ud_digest (up_desired_state p)
        \<or> ae_outcome (up_batfish p) \<noteq> ASSURANCE_PASSED, message)])))))))))))))"

end
