(* ===== verification/Sample_Reference.thy ===== *)
theory Sample_Reference
  imports Reference_Allocation
begin

text \<open>
  A NetBox that holds exactly the accepted reference objects, answering the prefixes in two
  pages, and the resolution of the allocation against it.
\<close>

definition sample_tags :: "string \<times> json" where
  "sample_tags = (''tags'', JArr [JObj [(''slug'', JStr ''ncdp-data-plane'')]])"

definition sample_active :: "string \<times> json" where
  "sample_active = (''status'', JObj [(''value'', JStr ''active'')])"

definition named_id :: "nat \<Rightarrow> string \<Rightarrow> json" where
  "named_id i n = JObj [(''id'', JInt (int i)), (''name'', JStr n)]"

definition sample_prefix :: "string \<times> nat \<Rightarrow> json" where
  "sample_prefix = (\<lambda>(p, i). JObj
    [(''id'', JInt (int i)), (''prefix'', JStr p), sample_active, sample_tags,
     (''scope_type'', JStr ''dcim.site''), (''scope_id'', JInt 1),
     (''scope'', JObj [(''id'', JInt 1), (''slug'', JStr ''lab'')]), (''vrf'', JNull),
     (''vlan'', case map_of expected_vlan_by_prefix p of
        None \<Rightarrow> JNull
      | Some (vid, j, n) \<Rightarrow> JObj [(''vid'', JInt (int vid)), (''id'', JInt (int j)), (''name'', JStr n)])])"

definition sample_vlan :: "nat \<times> nat \<times> string \<Rightarrow> json" where
  "sample_vlan = (\<lambda>(vid, i, n). JObj
    [(''id'', JInt (int i)), (''vid'', JInt (int vid)), (''name'', JStr n), sample_active, sample_tags,
     (''group'', JNull), (''site'', JObj [(''id'', JInt 1), (''slug'', JStr ''lab'')])])"

definition sample_interface_payload :: "nat \<times> interface_fact \<Rightarrow> json" where
  "sample_interface_payload = (\<lambda>(i, g). JObj
    [(''id'', JInt (int i)), (''name'', JStr (if_name g)), sample_tags,
     (''device'', named_id (if_device_id g) (if_device_name g)),
     (''cable'', JObj [(''id'', JInt (int (if_cable g)))])])"

definition sample_ip :: "string \<times> nat \<times> nat \<Rightarrow> json" where
  "sample_ip = (\<lambda>(address, ip_id, i). let g = the (map_of INTERFACE_IDENTITIES i) in JObj
    [(''id'', JInt (int ip_id)), (''address'', JStr address), sample_active, sample_tags,
     (''assigned_object_type'', JStr ''dcim.interface''), (''assigned_object_id'', JInt (int i)),
     (''assigned_object'', JObj [(''id'', JInt (int i)), (''name'', JStr (if_name g)),
        (''device'', named_id (if_device_id g) (if_device_name g))])])"

definition sample_page :: "nat \<Rightarrow> json \<Rightarrow> json list \<Rightarrow> http_answer" where
  "sample_page n next_page items = Answered 200 (Some (JObj
     [(''count'', JInt (int n)), (''next'', next_page), (''results'', JArr items)]))"

definition sample_netbox :: http_server where
  "sample_netbox h query offset =
    (if query = by_tag ''/api/ipam/prefixes/'' DATA_PLANE_TAG
     then if offset = 0 then sample_page 7 (JStr ''page-2'') (map sample_prefix (take 4 PREFIX_IDENTITIES))
          else sample_page 7 JNull (map sample_prefix (drop 4 PREFIX_IDENTITIES))
     else if query = by_tag ''/api/ipam/vlans/'' DATA_PLANE_TAG then sample_page 2 JNull (map sample_vlan VLAN_IDENTITIES)
     else if query = by_tag ''/api/dcim/interfaces/'' DATA_PLANE_TAG
     then sample_page 6 JNull (map sample_interface_payload INTERFACE_IDENTITIES)
     else sample_page 6 JNull (map sample_ip ROUTED_IP_IDENTITIES))"

definition sample_interfaces :: "(nat \<times> stable_interface) list" where
  "sample_interfaces = map (\<lambda>(i, g). (i, link_interface i g)) INTERFACE_IDENTITIES"

lemma read_sample_prefixes:
  "read_prefixes [] (map sample_prefix PREFIX_IDENTITIES) = Inr (map fst PREFIX_IDENTITIES)"
  by code_simp

lemma read_sample_vlans:
  "read_vlans [] (map sample_vlan VLAN_IDENTITIES) = Inr (map fst VLAN_IDENTITIES)"
  by code_simp

lemma read_sample_interfaces:
  "read_interfaces [] (map sample_interface_payload INTERFACE_IDENTITIES) = Inr sample_interfaces"
  by code_simp

lemma read_sample_ips:
  "read_ips sample_interfaces [] (map sample_ip ROUTED_IP_IDENTITIES)
     = Inr (map (\<lambda>(s, f). (s, reference_endpoint f)) ACCEPTED_ENDPOINTS)"
  by code_simp

lemma resolve_sample_payloads:
  "resolve_payloads (map sample_prefix PREFIX_IDENTITIES) (map sample_vlan VLAN_IDENTITIES)
     (map sample_interface_payload INTERFACE_IDENTITIES) (map sample_ip ROUTED_IP_IDENTITIES)
   = Inr accepted_allocation"
  by (simp add: resolve_payloads_def read_sample_prefixes read_sample_vlans read_sample_interfaces
    read_sample_ips build_accepted)

lemma sample_page_step:
  "list_all is_dict items \<Longrightarrow> 0 \<le> k \<Longrightarrow> nat k = n \<Longrightarrow>
     page_step offset expected results (JObj [(''count'', JInt k), (''next'', next_page), (''results'', JArr items)])
   = (if expected = None \<and> page_limit < n then Inl (ValueError ''NetBox selected population is too large'')
      else if expected \<noteq> None \<and> expected \<noteq> Some n then Inl (ValueError ''NetBox pagination changed during resolution'')
      else case next_page of
        JNull \<Rightarrow> if length (results @ items) \<noteq> n then Inl (ValueError ''NetBox pagination is incomplete'')
                 else Inr (Finished (results @ items))
      | JStr p \<Rightarrow> if p = [] \<or> items = [] \<or> n \<le> offset + length items
                  then Inl (ValueError ''NetBox pagination is invalid'')
                  else Inr (Continue (offset + length items) n (results @ items))
      | _ \<Rightarrow> Inl (ValueError ''NetBox pagination is invalid''))"
  by (auto simp: page_step_def results_of_def py_get_def field_def Let_def split: option.splits json.splits)

lemma get_sample:
  "http_get sample_netbox query offset t = (read_answer (sample_netbox t query offset),
     t @ [Get query offset (sample_netbox t query offset)])"
  by (simp add: http_get_def bindE_def ask_def liftE_def)

lemma sample_dicts:
  "is_dict (sample_prefix p)" "is_dict (sample_vlan v)" "is_dict (sample_interface_payload f)"
  "is_dict (sample_ip i)"
  by (auto simp: sample_prefix_def sample_vlan_def sample_interface_payload_def sample_ip_def Let_def
    split: prod.splits)

lemma get_all_sample:
  "fst (get_all sample_netbox (by_tag ''/api/ipam/prefixes/'' DATA_PLANE_TAG) t) = Inr (map sample_prefix PREFIX_IDENTITIES)"
  "fst (get_all sample_netbox (by_tag ''/api/ipam/vlans/'' DATA_PLANE_TAG) t) = Inr (map sample_vlan VLAN_IDENTITIES)"
  "fst (get_all sample_netbox (by_tag ''/api/dcim/interfaces/'' DATA_PLANE_TAG) t)
     = Inr (map sample_interface_payload INTERFACE_IDENTITIES)"
  "fst (get_all sample_netbox (by_tag ''/api/ipam/ip-addresses/'' DATA_PLANE_TAG) t) = Inr (map sample_ip ROUTED_IP_IDENTITIES)"
  by (simp_all add: get_all_def get_pages.simps get_sample sample_netbox_def by_tag_def sample_page_def
      sample_page_step sample_dicts page_limit_def PREFIX_IDENTITIES_def
      VLAN_IDENTITIES_def INTERFACE_IDENTITIES_def ROUTED_IP_IDENTITIES_def)

lemma resolve_sample:
  "fst (resolve_reference_allocation sample_netbox t) = Inr accepted_allocation"
proof -
  have bind: "fst (bindE m f t) = fst (f x (snd (m t)))" if "fst (m t) = Inr x" for m f t x
    using that by (cases "m t") (simp add: bindE_def)
  show ?thesis
    unfolding resolve_reference_allocation_def
    by (simp add: bind [OF get_all_sample(1)] bind [OF get_all_sample(2)] bind [OF get_all_sample(3)]
      bind [OF get_all_sample(4)] liftE_def resolve_sample_payloads)
qed

end
