(* ===== verification/Reference_Authority.thy ===== *)
theory Reference_Authority
  imports Reference_Allocation
begin

text \<open>
  What an accepted NetBox answer looks like: for each of the four collections, the objects received
  are exactly the identities of its catalog, each once, and every object has the status, place, tag,
  association, cable and assignment the catalog owns.
\<close>

section \<open>Objects\<close>

definition tagged :: "json \<Rightarrow> bool" where
  "tagged item \<longleftrightarrow> (\<exists>tags. tag_slugs (py_get ''tags'' item) = Inr tags \<and> DATA_PLANE_TAG \<in> set tags)"

definition lab_site :: "json \<Rightarrow> bool" where
  "lab_site v \<longleftrightarrow> is_dict v \<and> py_eq_int (py_get ''id'' v) 1 \<and> py_get ''slug'' v = JStr ''lab''"

definition vlan_association :: "string \<Rightarrow> json \<Rightarrow> bool" where
  "vlan_association prefix v \<longleftrightarrow> (case map_of expected_vlan_by_prefix prefix of
     None \<Rightarrow> v = JNull
   | Some (vid, i, n) \<Rightarrow> is_dict v \<and> py_eq_int (py_get ''vid'' v) (int vid)
       \<and> py_eq_int (py_get ''id'' v) (int i) \<and> py_get ''name'' v = JStr n)"

definition prefix_object :: "json \<Rightarrow> string \<times> nat \<Rightarrow> bool" where
  "prefix_object item = (\<lambda>(prefix, i).
     (\<exists>s. py_get ''prefix'' item = JStr s \<and> py_strip s = prefix) \<and> py_get ''id'' item = JInt (int i)
     \<and> active (py_get ''status'' item) \<and> tagged item \<and> py_get ''vrf'' item = JNull
     \<and> py_get ''scope_type'' item = JStr ''dcim.site'' \<and> py_eq_int (py_get ''scope_id'' item) 1
     \<and> lab_site (py_get ''scope'' item) \<and> vlan_association prefix (py_get ''vlan'' item))"

definition vlan_object :: "json \<Rightarrow> nat \<times> nat \<times> string \<Rightarrow> bool" where
  "vlan_object item = (\<lambda>(vid, i, n).
     py_get ''vid'' item = JInt (int vid) \<and> py_eq_int (py_get ''id'' item) (int i)
     \<and> py_get ''name'' item = JStr n \<and> active (py_get ''status'' item) \<and> tagged item
     \<and> py_get ''group'' item = JNull \<and> lab_site (py_get ''site'' item))"

definition named_device :: "interface_fact \<Rightarrow> json \<Rightarrow> bool" where
  "named_device g v \<longleftrightarrow> is_dict v \<and> py_eq_int (py_get ''id'' v) (int (if_device_id g))
     \<and> py_get ''name'' v = JStr (if_device_name g)"

definition interface_object :: "json \<Rightarrow> nat \<times> interface_fact \<Rightarrow> bool" where
  "interface_object item = (\<lambda>(i, g).
     py_get ''id'' item = JInt (int i) \<and> py_get ''name'' item = JStr (if_name g) \<and> tagged item
     \<and> named_device g (py_get ''device'' item) \<and> is_dict (py_get ''cable'' item)
     \<and> py_eq_int (py_get ''id'' (py_get ''cable'' item)) (int (if_cable g)))"

definition ip_object :: "json \<Rightarrow> string \<times> nat \<times> nat \<Rightarrow> bool" where
  "ip_object item = (\<lambda>(address, ip_id, i).
     (\<exists>s. py_get ''address'' item = JStr s \<and> py_strip s = address) \<and> py_get ''id'' item = JInt (int ip_id)
     \<and> active (py_get ''status'' item) \<and> tagged item
     \<and> py_get ''assigned_object_type'' item = JStr ''dcim.interface''
     \<and> py_eq_int (py_get ''assigned_object_id'' item) (int i)
     \<and> (let assigned = py_get ''assigned_object'' item in is_dict assigned
          \<and> py_eq_int (py_get ''id'' assigned) (int i)
          \<and> (\<exists>g. map_of INTERFACE_IDENTITIES i = Some g \<and> py_get ''name'' assigned = JStr (if_name g)
               \<and> named_device g (py_get ''device'' assigned))))"

text \<open>Every identity of the catalog once, in some order, and nothing else.\<close>

definition exact_population :: "(json \<Rightarrow> 'c \<Rightarrow> bool) \<Rightarrow> 'c list \<Rightarrow> json list \<Rightarrow> bool" where
  "exact_population R catalog items \<longleftrightarrow> (\<exists>cs. distinct cs \<and> set cs = set catalog \<and> list_all2 R items cs)"

section \<open>The readers admit only exact populations\<close>

lemma conflicts_Inr:
  "conflicts m before item after = Inr u \<longleftrightarrow> \<not> before \<and> tagged item \<and> \<not> after"
  by (auto simp: conflicts_def tagged_def bindS_Inr_iff)

lemma required_string_Inr:
  "required_string noun v = Inr s \<Longrightarrow> \<exists>w. v = JStr w \<and> py_strip w = s"
  by (auto simp: required_string_def split: json.splits if_splits)

lemma positive_id_Inr: "positive_id noun v = Inr i \<Longrightarrow> v = JInt (int i)"
  by (auto simp: positive_id_def split: json.splits if_splits)

lemma same_elements:
  assumes "distinct cs" and "set cs \<subseteq> set catalog" and "length cs = length catalog" and "distinct catalog"
  shows "set cs = set catalog"
  by (rule card_subset_eq) (use assms in \<open>simp_all add: distinct_card\<close>)

text \<open>A reader that takes an object of an unseen key of the catalog at a time.\<close>

definition read_by :: "(json \<Rightarrow> 'c \<Rightarrow> bool) \<Rightarrow> ('c \<Rightarrow> 'k) \<Rightarrow> 'c list \<Rightarrow> 'k list \<Rightarrow> json list \<Rightarrow> bool" where
  "read_by R key catalog seen items \<longleftrightarrow> (\<exists>cs. list_all2 R items cs \<and> set cs \<subseteq> set catalog
     \<and> distinct (map key cs) \<and> set (map key cs) \<inter> set seen = {})"

lemma read_by_Nil [simp]: "read_by R key catalog seen []"
  by (simp add: read_by_def exI [of _ "[]"])

lemma read_by_Cons:
  assumes "R item c" and "c \<in> set catalog" and "key c \<notin> set seen"
    and "read_by R key catalog (seen @ [key c]) items"
  shows "read_by R key catalog seen (item # items)"
proof -
  obtain cs where cs: "list_all2 R items cs" "set cs \<subseteq> set catalog" "distinct (map key cs)"
    "set (map key cs) \<inter> set (seen @ [key c]) = {}"
    using assms(4) by (auto simp: read_by_def)
  then have "list_all2 R (item # items) (c # cs) \<and> set (c # cs) \<subseteq> set catalog
      \<and> distinct (map key (c # cs)) \<and> set (map key (c # cs)) \<inter> set seen = {}"
    using assms(1-3) by auto
  then show ?thesis unfolding read_by_def by blast
qed

lemma read_by_exact:
  assumes "read_by R key catalog [] items" and "length items = length catalog"
    and "distinct catalog"
  shows "exact_population R catalog items"
proof -
  obtain cs where cs: "list_all2 R items cs" "set cs \<subseteq> set catalog" "distinct (map key cs)"
    using assms(1) by (auto simp: read_by_def)
  moreover have "set cs = set catalog"
    using cs assms(2,3) by (intro same_elements) (auto simp: distinct_map dest: list_all2_lengthD)
  moreover have "distinct cs" using cs(3) by (simp add: distinct_map)
  ultimately show ?thesis unfolding exact_population_def by blast
qed

lemma read_prefixes_by:
  "read_prefixes seen items = Inr out \<Longrightarrow> read_by prefix_object fst PREFIX_IDENTITIES seen items"
proof (induction items arbitrary: seen)
  case (Cons item rest)
  from Cons.prems obtain prefix i where p: "required_string ''prefix'' (py_get ''prefix'' item) = Inr prefix"
    "positive_id ''prefix'' (py_get ''id'' item) = Inr i"
    and c: "map_of PREFIX_IDENTITIES prefix = Some i" "prefix \<notin> set seen"
    and o: "active (py_get ''status'' item)" "tagged item" "py_get ''vrf'' item = JNull"
      "py_get ''scope_type'' item = JStr ''dcim.site''" "py_eq_int (py_get ''scope_id'' item) 1"
      "lab_site (py_get ''scope'' item)" "vlan_association prefix (py_get ''vlan'' item)"
    and rest: "read_prefixes (seen @ [prefix]) rest = Inr out"
    by (auto simp: bindS_Inr_iff conflicts_Inr checks_ok lab_site_def vlan_association_def
        split: option.splits prod.splits)
  from required_string_Inr [OF p(1)] positive_id_Inr [OF p(2)] o
  have "prefix_object item (prefix, i)" by (simp add: prefix_object_def)
  then show ?case
    by (rule read_by_Cons) (use map_of_SomeD [OF c(1)] c(2) Cons.IH [OF rest] in simp_all)
qed simp

lemma read_vlans_by:
  "read_vlans seen items = Inr out \<Longrightarrow> read_by vlan_object fst VLAN_IDENTITIES seen items"
proof (induction items arbitrary: seen)
  case (Cons item rest)
  from Cons.prems obtain v i n where v: "py_get ''vid'' item = JInt v" "\<not> v < 0"
    and c: "map_of VLAN_IDENTITIES (nat v) = Some (i, n)" "nat v \<notin> set seen"
    and o: "py_eq_int (py_get ''id'' item) (int i)" "py_get ''name'' item = JStr n"
      "active (py_get ''status'' item)" "tagged item" "py_get ''group'' item = JNull"
      "lab_site (py_get ''site'' item)"
    and rest: "read_vlans (seen @ [nat v]) rest = Inr out"
    by (auto simp: bindS_Inr_iff conflicts_Inr lab_site_def
        split: json.splits option.splits prod.splits if_splits)
  from v o have "vlan_object item (nat v, i, n)" by (simp add: vlan_object_def)
  then show ?case
    by (rule read_by_Cons) (use map_of_SomeD [OF c(1)] c(2) Cons.IH [OF rest] in simp_all)
qed simp

lemma read_interfaces_by:
  "read_interfaces resolved items = Inr out
     \<Longrightarrow> read_by interface_object fst INTERFACE_IDENTITIES (map fst resolved) items"
proof (induction items arbitrary: resolved)
  case (Cons item rest)
  from Cons.prems obtain i g where i: "positive_id ''interface'' (py_get ''id'' item) = Inr i"
    and c: "map_of INTERFACE_IDENTITIES i = Some g" "i \<notin> set (map fst resolved)"
    and o: "named_device g (py_get ''device'' item)" "py_get ''name'' item = JStr (if_name g)"
      "is_dict (py_get ''cable'' item)" "tagged item"
      "py_eq_int (py_get ''id'' (py_get ''cable'' item)) (int (if_cable g))"
    and rest: "read_interfaces (resolved @ [(i, link_interface i g)]) rest = Inr out"
    by (auto simp: bindS_Inr_iff conflicts_Inr named_device_def split: option.splits)
  from positive_id_Inr [OF i] o have "interface_object item (i, g)" by (simp add: interface_object_def)
  then show ?case
    by (rule read_by_Cons) (use map_of_SomeD [OF c(1)] c(2) Cons.IH [OF rest] in simp_all)
qed simp

lemma read_ips_by:
  "read_ips interfaces resolved items = Inr out
     \<Longrightarrow> read_by ip_object fst ROUTED_IP_IDENTITIES (map fst resolved) items"
proof (induction items arbitrary: resolved)
  case (Cons item rest)
  let ?assigned = "py_get ''assigned_object'' item"
  from Cons.prems obtain address where a: "required_string ''IP address'' (py_get ''address'' item) = Inr address"
    by (auto simp: bindS_Inr_iff)
  with Cons.prems obtain m i where m: "map_of ROUTED_IP_IDENTITIES address = Some (m, i)"
    by (cases "map_of ROUTED_IP_IDENTITIES address") (auto simp: bindS_Inr_iff Let_def)
  with Cons.prems a obtain g e where
    c: "address \<notin> set (map fst resolved)"
    and o: "positive_id ''IP address'' (py_get ''id'' item) = Inr m"
      "active (py_get ''status'' item)" "tagged item"
      "py_get ''assigned_object_type'' item = JStr ''dcim.interface''"
      "py_eq_int (py_get ''assigned_object_id'' item) (int i)" "is_dict ?assigned"
      "py_eq_int (py_get ''id'' ?assigned) (int i)" "map_of INTERFACE_IDENTITIES i = Some g"
      "py_get ''name'' ?assigned = JStr (if_name g)" "named_device g (py_get ''device'' ?assigned)"
    and rest: "read_ips interfaces (resolved @ [(address, e)]) rest = Inr out"
    by (auto simp: bindS_Inr_iff conflicts_Inr named_device_def Let_def checks_ok lookup_def
        split: option.splits)
  from required_string_Inr [OF a] positive_id_Inr [OF o(1)] o
  have "ip_object item (address, m, i)" by (simp add: ip_object_def)
  then show ?case
    by (rule read_by_Cons) (use map_of_SomeD [OF m] c Cons.IH [OF rest] in simp_all)
qed simp

section \<open>A resolution\<close>

definition authoritative :: "json list \<Rightarrow> json list \<Rightarrow> json list \<Rightarrow> json list \<Rightarrow> bool" where
  "authoritative prefixes vlans interfaces ips \<longleftrightarrow>
     exact_population prefix_object PREFIX_IDENTITIES prefixes
     \<and> exact_population vlan_object VLAN_IDENTITIES vlans
     \<and> exact_population interface_object INTERFACE_IDENTITIES interfaces
     \<and> exact_population ip_object ROUTED_IP_IDENTITIES ips"

lemma resolve_payloads_authoritative:
  assumes "resolve_payloads ps vs fs qs = Inr a"
  shows "authoritative ps vs fs qs"
proof -
  have catalogs: "distinct PREFIX_IDENTITIES" "distinct VLAN_IDENTITIES" "distinct (map fst INTERFACE_IDENTITIES)"
    "distinct ROUTED_IP_IDENTITIES"
    by (simp_all add: PREFIX_IDENTITIES_def VLAN_IDENTITIES_def INTERFACE_IDENTITIES_def
        ROUTED_IP_IDENTITIES_def)
  from assms obtain prefixes vlans interfaces ips where
    "length ps = length PREFIX_IDENTITIES" "length vs = length VLAN_IDENTITIES"
    "length fs = length INTERFACE_IDENTITIES" "length qs = length ROUTED_IP_IDENTITIES"
    "read_prefixes [] ps = Inr prefixes" "read_vlans [] vs = Inr vlans"
    "read_interfaces [] fs = Inr interfaces" "read_ips interfaces [] qs = Inr ips"
    by (auto simp: resolve_payloads_def bindS_Inr_iff checks_ok)
  then show ?thesis
    unfolding authoritative_def
    using read_prefixes_by read_vlans_by read_interfaces_by [of "[]"] read_ips_by [of _ "[]"] catalogs
    by (auto intro!: read_by_exact simp: distinct_map)
qed

text \<open>Its requests are four paginated reads, one after the other.\<close>

abbreviation data_plane :: "string \<Rightarrow> http_query" where
  "data_plane path \<equiv> by_tag path DATA_PLANE_TAG"

definition four_reads ::
    "http_event list \<Rightarrow> http_event list \<Rightarrow> http_event list \<Rightarrow> http_event list \<Rightarrow> bool" where
  "four_reads us vs fs qs \<longleftrightarrow> read_segment (data_plane ''/api/ipam/prefixes/'') us
     \<and> read_segment (data_plane ''/api/ipam/vlans/'') vs
     \<and> read_segment (data_plane ''/api/dcim/interfaces/'') fs
     \<and> read_segment (data_plane ''/api/ipam/ip-addresses/'') qs"

lemma read_segment_Nil [simp]: "read_segment query []"
  by (simp add: read_segment_def)

lemma resolve_run:
  assumes "resolve_reference_allocation srv t = (r, t')"
  shows "\<exists>us vs fs qs. t' = t @ us @ vs @ fs @ qs \<and> four_reads us vs fs qs
    \<and> (\<forall>a. r = Inr a \<longrightarrow> resolve_payloads (received us) (received vs) (received fs) (received qs) = Inr a)"
  using assms unfolding resolve_reference_allocation_def
proof (cases rule: get_all_bindE)
  case (failed e us)
  then show ?thesis
    by - (rule exI [of _ us], rule exI [of _ "[]"], rule exI [of _ "[]"], rule exI [of _ "[]"],
      simp add: four_reads_def)
next
  case (got us)
  note u = got(1)
  from got(2) show ?thesis
  proof (cases rule: get_all_bindE)
    case (failed e vs)
    with u show ?thesis
      by - (rule exI [of _ us], rule exI [of _ vs], rule exI [of _ "[]"], rule exI [of _ "[]"],
        simp add: four_reads_def)
  next
    case (got vs)
    note v = got(1)
    from got(2) show ?thesis
    proof (cases rule: get_all_bindE)
      case (failed e fs)
      with u v show ?thesis
        by - (rule exI [of _ us], rule exI [of _ vs], rule exI [of _ fs], rule exI [of _ "[]"],
          simp add: four_reads_def)
    next
      case (got fs)
      note f = got(1)
      from got(2) show ?thesis
      proof (cases rule: get_all_bindE)
        case (failed e qs)
        with u v f show ?thesis
          by - (rule exI [of _ us], rule exI [of _ vs], rule exI [of _ fs], rule exI [of _ qs],
            simp add: four_reads_def)
      next
        case (got qs)
        with u v f show ?thesis
          by - (rule exI [of _ us], rule exI [of _ vs], rule exI [of _ fs], rule exI [of _ qs],
            auto simp: four_reads_def liftE_def)
      qed
    qed
  qed
qed

end
