(* ===== verification/Reference_Properties.thy ===== *)
theory Reference_Properties
  imports Managed_State_Laws Underlay_Assurance Sample_Reference Reference_Authority
begin

text \<open>
  The properties of the reference data plane: the NetBox resolution fails closed and ends, and the
  managed-state snapshots of the routed underlay agree exactly when the delta is empty.
\<close>

text \<open>C35: reading a NetBox collection ends whatever the server answers. The pagination loop makes at
  least one and at most ten thousand requests, all of them with the query it was asked for, and a
  result is the concatenation of the pages received, in order.\<close>

theorem pagination_ends:
  "\<exists>evs. snd (get_all srv query t) = t @ evs \<and> list_all (requested query) evs
    \<and> 1 \<le> length evs \<and> length evs \<le> 10000
    \<and> (case fst (get_all srv query t) of Inr items \<Rightarrow> items = concat (map page_of evs) | Inl _ \<Rightarrow> True)"
proof -
  obtain r t' where run: "get_pages srv query 0 None [] t = (r, t')" by fastforce
  from get_pages_run [OF run] show ?thesis
    by (auto simp: get_all_def run page_limit_def split: sum.splits)
qed

text \<open>C32: the resolution of the reference data plane fails closed. Whatever the server answers, the
  requests are four paginated reads, one after the other: prefixes, VLANs, interfaces and addresses
  with the data-plane tag, each of at most ten thousand requests. When an allocation is returned,
  the objects received on each of the four reads were exactly the identities of its catalog, every
  one of them once and nothing else, and every object had the identity, status, tag, place, VLAN
  association, device, cable and assignment the catalog owns; and the allocation is the accepted
  one, field by field.\<close>

theorem resolution_fails_closed:
  assumes "resolve_reference_allocation srv t = (r, t')"
  shows "\<exists>us vs fs qs. t' = t @ us @ vs @ fs @ qs
    \<and> read_segment (by_tag ''/api/ipam/prefixes/'' DATA_PLANE_TAG) us
    \<and> read_segment (by_tag ''/api/ipam/vlans/'' DATA_PLANE_TAG) vs
    \<and> read_segment (by_tag ''/api/dcim/interfaces/'' DATA_PLANE_TAG) fs
    \<and> read_segment (by_tag ''/api/ipam/ip-addresses/'' DATA_PLANE_TAG) qs
    \<and> (case r of
         Inr a \<Rightarrow> exact_population prefix_object PREFIX_IDENTITIES (received us)
           \<and> exact_population vlan_object VLAN_IDENTITIES (received vs)
           \<and> exact_population interface_object INTERFACE_IDENTITIES (received fs)
           \<and> exact_population ip_object ROUTED_IP_IDENTITIES (received qs)
           \<and> a = accepted_allocation \<and> reference_allocation_valid a = Inr ()
       | Inl _ \<Rightarrow> True)"
proof -
  obtain us vs fs qs where run: "t' = t @ us @ vs @ fs @ qs" "four_reads us vs fs qs"
    "\<forall>a. r = Inr a \<longrightarrow> resolve_payloads (received us) (received vs) (received fs) (received qs) = Inr a"
    using resolve_run [OF assms] by blast
  show ?thesis
    using run(2,3) resolve_payloads_authoritative resolve_payloads_unique accepted_allocation_valid
    by - (rule exI [of _ us], rule exI [of _ vs], rule exI [of _ fs], rule exI [of _ qs],
      cases r; fastforce simp: run(1) four_reads_def authoritative_def)
qed

theorem resolution_fails_closed_witness:
  "\<exists>us vs fs qs. snd (resolve_reference_allocation sample_netbox []) = us @ vs @ fs @ qs
     \<and> exact_population prefix_object PREFIX_IDENTITIES (received us)
     \<and> exact_population interface_object INTERFACE_IDENTITIES (received fs)
     \<and> fst (resolve_reference_allocation sample_netbox []) = Inr accepted_allocation"
proof -
  obtain r t' where run: "resolve_reference_allocation sample_netbox [] = (r, t')" by fastforce
  with resolve_sample [of "[]"] resolution_fails_closed [OF run] show ?thesis by auto
qed

text \<open>C33: the managed state of the routed underlay. For the desired state of a valid intent and an
  observation of exactly its interfaces, the snapshot projected from the observation and the one
  projected from the desired state have the same digest, up to a SHA-256 collision, exactly when
  every entry of the delta matches in addresses and admin state. A digest comparison therefore
  neither hides a difference of the owned fields nor reports one outside them.\<close>

theorem underlay_in_sync_iff_no_delta:
  assumes "underlay_intent_valid i = Inr ()" and "build_underlay_desired sha i = Inr d"
    and "observation_by_interface s d = Inr ()"
    and "project_underlay_observation sha s i = Inr m" and "project_underlay_desired sha d i = Inr n"
    and "routed_underlay_delta s d = Inr ds"
    and "sha (canonical_json_bytes (snapshot_json underlay_vertical m))
        = sha (canonical_json_bytes (snapshot_json underlay_vertical n))
      \<Longrightarrow> canonical_json_bytes (snapshot_json underlay_vertical m)
        = canonical_json_bytes (snapshot_json underlay_vertical n)"
  shows "ms_digest m = ms_digest n \<longleftrightarrow> list_all (\<lambda>e. de_addresses_match e \<and> de_admin_matches e) ds"
proof -
  have i: "i = accepted_intent" using underlay_intent_unique assms(1) by simp
  then have d: "d = accepted_desired sha" using assms(2) build_desired_accepted by simp
  note m = project_observation_payload [OF assms(4) [unfolded i]]
  note n = project_desired_payload [OF assms(5) [unfolded i d]]
  have "ms_digest m = ms_digest n
      \<longleftrightarrow> ms_payload m = ms_payload n"
    using snapshots_digest_iff [OF m n assms(7)] underlay_payload_json_inject
      build_snapshot_Inr(2,4) [OF m] build_snapshot_Inr(2,4) [OF n] by metis
  then show ?thesis
    using underlay_payloads_equal_iff assms(3) delta_matches [OF assms(6,3)]
      build_snapshot_Inr(2) [OF m] build_snapshot_Inr(2) [OF n] by (simp add: d)
qed

text \<open>An observation with one interface shut.\<close>

definition sample_observation :: underlay_observation where
  "sample_observation =
    \<lparr>uo_observed_at = \<lparr>dt_date = (2026, 9, 1), dt_time = (0, 0, 0), dt_microsecond = 0, dt_offset = Some 0\<rparr>,
     uo_interfaces = map (\<lambda>e.
       \<lparr>ob_device_identity = si_device (ue_interface e), ob_interface = ue_interface e, ob_exists = True,
        ob_ipv4_addresses = [ue_address e],
        ob_admin_enabled = Some (si_name (ue_interface e) \<noteq> ''GigabitEthernet2''),
        ob_operational_status = Some UP\<rparr>) (intent_endpoints accepted_intent)\<rparr>"

lemma by_interface_cong:
  "ud_interfaces d = ud_interfaces e \<Longrightarrow> observation_by_interface s d = observation_by_interface s e"
  by (simp add: observation_by_interface_def)

lemma sample_observation_exact: "observation_by_interface sample_observation (accepted_desired sha) = Inr ()"
proof -
  have "ok (observation_by_interface sample_observation
      \<lparr>ud_interfaces = map desired_of_endpoint (intent_endpoints accepted_intent), ud_digest = []\<rparr>)"
    by code_simp
  then show ?thesis
    using by_interface_cong [of "accepted_desired sha" "\<lparr>ud_interfaces =
        map desired_of_endpoint (intent_endpoints accepted_intent), ud_digest = []\<rparr>"]
    by (simp add: ok_unit desired_interfaces_accepted)
qed

lemma sample_observation_observable:
  "c \<in> set (uo_interfaces sample_observation) \<Longrightarrow> routed_managed_valid (managed_of_observed c) = Inr ()"
proof -
  have "list_all (\<lambda>c. ok (routed_managed_valid (managed_of_observed c))) (uo_interfaces sample_observation)"
    by code_simp
  then show "c \<in> set (uo_interfaces sample_observation) \<Longrightarrow> ?thesis" by (simp add: list_all_iff ok_unit)
qed

lemma sample_delta:
  "\<exists>ds. routed_underlay_delta sample_observation (accepted_desired sha) = Inr ds
    \<and> \<not> list_all (\<lambda>e. de_addresses_match e \<and> de_admin_matches e) ds"
proof -
  have "case mapS (interface_delta sample_observation)
        (map desired_of_endpoint (intent_endpoints accepted_intent)) of
      Inr ds \<Rightarrow> \<not> list_all (\<lambda>e. de_addresses_match e \<and> de_admin_matches e) ds | Inl _ \<Rightarrow> False"
    by code_simp
  then show ?thesis
    by (auto simp: routed_underlay_delta_def desired_interfaces_accepted split: sum.splits)
qed

theorem underlay_in_sync_iff_no_delta_witness:
  "\<exists>m n. project_underlay_observation id sample_observation accepted_intent = Inr m
    \<and> project_underlay_desired id (accepted_desired id) accepted_intent = Inr n
    \<and> ms_digest m \<noteq> ms_digest n"
proof -
  obtain m where m: "project_underlay_observation id sample_observation accepted_intent = Inr m"
    using project_observation_ok [OF sample_observation_exact sample_observation_observable] by blast
  obtain n where n: "project_underlay_desired id (accepted_desired id) accepted_intent = Inr n"
    using project_desired_ok by blast
  obtain ds where ds: "routed_underlay_delta sample_observation (accepted_desired id) = Inr ds"
    "\<not> list_all (\<lambda>e. de_addresses_match e \<and> de_admin_matches e) ds"
    using sample_delta by blast
  have "ms_digest m \<noteq> ms_digest n"
    using underlay_in_sync_iff_no_delta [OF accepted_intent_valid build_desired_accepted
      sample_observation_exact m n ds(1)] ds(2) by simp
  with m n show ?thesis by blast
qed

end
