(* ===== verification/Underlay_Properties.thy ===== *)
theory Underlay_Properties
  imports Underlay_Converges Reference_Properties
begin

text \<open>
  The routed underlay end to end: the IOS text rendered from an observation, applied to the
  configuration the observation read, gives the desired interfaces and touches no other.
\<close>

lemma device_change_shape:
  assumes "observation_by_interface s (accepted_desired sha) = Inr u" and "underlay_observation_valid s = Inr w"
    and "(c, x) \<in> set (device_changes s (accepted_desired sha) i)"
  shows "\<exists>a. di_ipv4_addresses x = [a] \<and> wf_interface a" and "list_all wf_interface (ob_ipv4_addresses c)"
    and "plain_name (si_name (di_interface x))"
  using device_changes_facts [OF assms] desired_single_address accepted_names(1) by blast+

lemma ios_target_apply:
  assumes "observation_by_interface s (accepted_desired sha) = Inr u" and "underlay_observation_valid s = Inr w"
    and "render_change_exact sha s (accepted_desired sha) = Inr ts" and "t \<in> set ts" and "rt_format t = IOS_CLI"
    and "\<And>c x. (c, x) \<in> set (device_changes s (accepted_desired sha) (rt_device_identity t)) \<Longrightarrow>
      port_address (cfg (si_name (di_interface x))) = first_address c"
  shows "ios_apply cfg (rt_content t)
    = (\<lambda>n. case List.find (\<lambda>x. si_name (di_interface x) = n)
          (filter (\<lambda>x. di_device_identity x = rt_device_identity t) (ud_interfaces (accepted_desired sha))) of
        Some x \<Rightarrow> enabled_port x | None \<Rightarrow> cfg n)"
proof -
  let ?ch = "device_changes s (accepted_desired sha) (rt_device_identity t)"
  note content = rendered_ios [OF assms(3-5)] and shape = device_change_shape [OF assms(1,2)]
  have "\<forall>l \<in> set (concat (map ios_block ?ch)). CHR 0x0A \<notin> set l"
    using shape(3) ios_block_newline by fastforce
  then have "ios_apply cfg (rt_content t) = snd (foldl ios_step (None, cfg) (concat (map ios_block ?ch)))"
    by (simp add: content(1) ios_apply_lines)
  also have "\<dots> = (\<lambda>n. case List.find (\<lambda>x. si_name (di_interface x) = n) (map snd ?ch) of
      Some x \<Rightarrow> enabled_port x | None \<Rightarrow> cfg n)"
  proof (rule ios_blocks_run)
    show "distinct (map (si_name \<circ> di_interface \<circ> snd) ?ch)"
      using accepted_names(2) [where i = "rt_device_identity t" and sha = sha]
      by (simp add: device_changes_def comp_def)
  qed (use content(2) shape assms(6) in \<open>auto simp: plain_name_def\<close>)
  also have "map snd ?ch
      = filter (\<lambda>x. di_device_identity x = rt_device_identity t) (ud_interfaces (accepted_desired sha))"
    by (simp add: device_changes_def comp_def)
  finally show ?thesis .
qed

lemma find_unique_key:
  "distinct (map f xs) \<Longrightarrow> x \<in> set xs \<Longrightarrow> List.find (\<lambda>y. f y = f x) xs = Some x"
  by (induction xs) (auto simp: image_iff)

lemma rendered_identities:
  assumes "render_change_exact sha s d = Inr ts"
  shows "map rt_device_identity ts = map fst RENDER_BINDINGS"
proof -
  have "mapS (render_device sha s d) RENDER_BINDINGS = Inr ts"
    using assms by (auto simp: render_change_exact_def bindS_Inr_iff)
  then have "list_all2 (\<lambda>b t. render_device sha s d b = Inr t) RENDER_BINDINGS ts"
    using mapS_nth [of "render_device sha s d" RENDER_BINDINGS ts] mapS_length [of "render_device sha s d" RENDER_BINDINGS ts]
    by (simp add: list_all2_conv_all_nth)
  then have "list_all2 (\<lambda>b t. fst b = rt_device_identity t) RENDER_BINDINGS ts"
    by (rule list_all2_mono) (auto simp: render_device_def bindS_Inr_iff split: if_splits)
  then show ?thesis by (induction rule: list_all2_induct) auto
qed


text \<open>C34: The rendered IOS change does what the desired state says. Take the valid intent, its desired
  state and a valid observation, and a router configuration whose addresses are the observed ones.
  Running the rendered text line by line leaves every owned interface of the router enabled with
  exactly its desired address, and every other interface as it was.\<close>

theorem underlay_render_converges:
  assumes "underlay_intent_valid i = Inr u" and "build_underlay_desired sha i = Inr d"
    and "underlay_observation_valid s = Inr w"
    and "render_change_exact sha s d = Inr ts" and "t \<in> set ts" and "rt_format t = IOS_CLI"
    and "\<And>c x. (c, x) \<in> set (device_changes s d (rt_device_identity t)) \<Longrightarrow>
      port_address (cfg (si_name (di_interface x))) = first_address c"
  shows "(\<forall>x \<in> set (ud_interfaces d). di_device_identity x = rt_device_identity t \<longrightarrow>
        ios_apply cfg (rt_content t) (si_name (di_interface x)) = enabled_port x)
    \<and> (\<forall>n. (\<forall>x \<in> set (ud_interfaces d). di_device_identity x = rt_device_identity t \<longrightarrow> si_name (di_interface x) \<noteq> n) \<longrightarrow>
        ios_apply cfg (rt_content t) n = cfg n)"
proof -
  have i: "i = accepted_intent" using assms(1) by (rule underlay_intent_unique)
  have d: "d = accepted_desired sha" using assms(2) build_desired_accepted by (simp add: i)
  let ?D = "filter (\<lambda>x. di_device_identity x = rt_device_identity t) (ud_interfaces d)"
  obtain z where z: "observation_by_interface s d = Inr z"
    using assms(4) by (auto simp: render_change_exact_def bindS_Inr_iff)
  have run: "ios_apply cfg (rt_content t) = (\<lambda>n. case List.find (\<lambda>x. si_name (di_interface x) = n) ?D of
      Some x \<Rightarrow> enabled_port x | None \<Rightarrow> cfg n)"
    using z assms(3-7) unfolding d by (intro ios_target_apply)
  have "ios_apply cfg (rt_content t) (si_name (di_interface x)) = enabled_port x" if x: "x \<in> set ?D" for x
  proof -
    have "List.find (\<lambda>y. si_name (di_interface y) = si_name (di_interface x)) ?D = Some x"
      by (rule find_unique_key [OF _ x]) (use accepted_names(2) in \<open>simp add: d comp_def\<close>)
    then show ?thesis by (simp add: run)
  qed
  moreover have "List.find (\<lambda>y. si_name (di_interface y) = n) ?D = None"
    if "\<forall>x \<in> set (ud_interfaces d). di_device_identity x = rt_device_identity t \<longrightarrow> si_name (di_interface x) \<noteq> n" for n
    using that by (auto simp: find_None_iff)
  ultimately show ?thesis by (auto simp: run)
qed


text \<open>A rendering from the sample observation: the interface that was shut comes up with its address.\<close>

lemma sample_observation_valid: "underlay_observation_valid sample_observation = Inr ()"
proof -
  have "ok (underlay_observation_valid sample_observation)" by code_simp
  then show ?thesis by (simp add: ok_unit)
qed

lemma sample_rendering:
  "\<exists>ts. render_change_exact id sample_observation (accepted_desired id) = Inr ts"
proof -
  have changes: "device_changes sample_observation (accepted_desired id) i = device_changes sample_observation
      \<lparr>ud_interfaces = map desired_of_endpoint (intent_endpoints accepted_intent), ud_digest = []\<rparr> i" for i
    by (simp add: device_changes_def desired_interfaces_accepted)
  have "list_all (\<lambda>(i, n, p). case render_content p (device_changes sample_observation
        \<lparr>ud_interfaces = map desired_of_endpoint (intent_endpoints accepted_intent), ud_digest = []\<rparr> i) of
      Inr (f, content) \<Rightarrow> content \<noteq> [] | Inl _ \<Rightarrow> False) RENDER_BINDINGS"
    by code_simp
  then have "\<exists>t. render_device id sample_observation (accepted_desired id) b = Inr t" if "b \<in> set RENDER_BINDINGS" for b
    using that unfolding list_all_iff render_device_def changes [symmetric]
    by (cases b; cases "render_content (snd (snd b)) (device_changes sample_observation (accepted_desired id) (fst b))")
      (auto split: sum.splits prod.splits)
  then obtain f where "\<And>b. b \<in> set RENDER_BINDINGS \<Longrightarrow> render_device id sample_observation (accepted_desired id) b = Inr (f b)"
    by metis
  then have "mapS (render_device id sample_observation (accepted_desired id)) RENDER_BINDINGS = Inr (map f RENDER_BINDINGS)"
    by (rule mapS_total)
  moreover have "underlay_verify_digest id (accepted_desired id)"
    by (simp add: underlay_verify_digest_def accepted_desired_def Let_def underlay_calculated_digest_def
      underlay_desired_json_def)
  ultimately show ?thesis
    using sample_observation_exact by (simp add: render_change_exact_def)
qed


definition sample_ports :: "string \<Rightarrow> ios_config" where
  "sample_ports i n = (case List.find (\<lambda>c. si_name (ob_interface c) = n \<and> ob_device_identity c = i)
        (uo_interfaces sample_observation) of
     None \<Rightarrow> \<lparr>port_address = None, port_shutdown = True\<rparr>
   | Some c \<Rightarrow> \<lparr>port_address = first_address c, port_shutdown = (ob_admin_enabled c \<noteq> Some True)\<rparr>)"

lemma sample_ports_agree:
  "(c, x) \<in> set (device_changes sample_observation (accepted_desired sha) ''netbox:dcim.device:1'') \<Longrightarrow>
     port_address (sample_ports ''netbox:dcim.device:1'' (si_name (di_interface x))) = first_address c"
proof -
  have "list_all (\<lambda>(c, x).
      port_address (sample_ports ''netbox:dcim.device:1'' (si_name (di_interface x))) = first_address c)
    (device_changes sample_observation
      \<lparr>ud_interfaces = map desired_of_endpoint (intent_endpoints accepted_intent), ud_digest = []\<rparr>
      ''netbox:dcim.device:1'')"
    by code_simp
  then show "(c, x) \<in> set (device_changes sample_observation (accepted_desired sha) ''netbox:dcim.device:1'') \<Longrightarrow> ?thesis"
    by (auto simp: device_changes_def desired_interfaces_accepted list_all_iff)
qed

lemma sample_shut_interface:
  "\<exists>x \<in> set (ud_interfaces (accepted_desired sha)). di_device_identity x = ''netbox:dcim.device:1''
     \<and> si_name (di_interface x) = ''GigabitEthernet2''"
proof -
  have "list_ex (\<lambda>x. di_device_identity x = ''netbox:dcim.device:1'' \<and> si_name (di_interface x) = ''GigabitEthernet2'')
      (map desired_of_endpoint (intent_endpoints accepted_intent))"
    by code_simp
  then show ?thesis by (simp add: desired_interfaces_accepted list_ex_iff)
qed

lemma sample_ios_target:
  "render_change_exact sha sample_observation (accepted_desired sha) = Inr ts \<Longrightarrow>
     \<exists>t \<in> set ts. rt_device_identity t = ''netbox:dcim.device:1'' \<and> rt_format t = IOS_CLI"
  by (auto simp: render_change_exact_def bindS_Inr_iff RENDER_BINDINGS_def mapS_Cons_Inr render_device_def
    render_content_def split: if_splits)

theorem underlay_render_converges_witness:
  "\<exists>ts t. render_change_exact id sample_observation (accepted_desired id) = Inr ts \<and> t \<in> set ts
     \<and> port_shutdown (sample_ports (rt_device_identity t) ''GigabitEthernet2'')
     \<and> \<not> port_shutdown (ios_apply (sample_ports (rt_device_identity t)) (rt_content t) ''GigabitEthernet2'')"
proof -
  obtain ts t where ts: "render_change_exact id sample_observation (accepted_desired id) = Inr ts" and t: "t \<in> set ts"
      "rt_device_identity t = ''netbox:dcim.device:1''" "rt_format t = IOS_CLI"
    using sample_rendering sample_ios_target by blast
  note run = underlay_render_converges [where cfg = "sample_ports (rt_device_identity t)",
      OF accepted_intent_valid build_desired_accepted sample_observation_valid ts t(1,3)]
  have "port_shutdown (sample_ports ''netbox:dcim.device:1'' ''GigabitEthernet2'')" by code_simp
  then show ?thesis
    using ts t(1,2) run [unfolded t(2), OF sample_ports_agree] sample_shut_interface [of id]
    by (fastforce simp: enabled_port_def)
qed

end
