(* ===== verification/Reference_Vlan.thy ===== *)
theory Reference_Vlan
  imports Reference_Allocation
begin

text \<open>
  \<^verbatim>\<open>reference_vlan_service.py\<close>: the gateways, subinterfaces and attachment ports of the VLAN
  service as NetBox owns them. The validator admits exactly one allocation, and the GET-only
  provider checks every object of five populations before it builds that allocation. A request is
  named by its path and query.
\<close>

section \<open>The allocation\<close>

definition VLAN_GATEWAY_TAG :: string where
  "VLAN_GATEWAY_TAG = ''ncdp-vlan-gateway''"

definition ACCEPTED_VLAN_SERVICE_ALLOCATION_DIGEST :: string where
  "ACCEPTED_VLAN_SERVICE_ALLOCATION_DIGEST =
     ''sha256:3068c48d95639a5f46cffefd53b0f778399b06a58b1a0704cd02e2a9dd338a1b''"

record vlan_gateway_allocation =
  vga_vlan_identity :: string
  vga_vid :: nat
  vga_canonical_name :: string
  vga_prefix_identity :: string
  vga_prefix :: ipv4_network
  vga_parent_interface :: stable_interface
  vga_gateway_interface :: stable_interface
  vga_gateway_ip_identity :: string
  vga_gateway :: ipv4_interface

record reference_vlan_service =
  rvs_source_data_plane_digest :: string
  rvs_cable_id :: int
  rvs_core_parent :: stable_interface
  rvs_access_trunk :: stable_interface
  rvs_access_users_port :: stable_interface
  rvs_access_servers_port :: stable_interface
  rvs_gateways :: "vlan_gateway_allocation list"

definition lab_interface :: "nat \<Rightarrow> nat \<Rightarrow> string \<Rightarrow> stable_interface" where
  "lab_interface device_id interface_id name =
    \<lparr>si_device = netbox_id ''dcim.device'' device_id,
     si_interface = netbox_id ''dcim.interface'' interface_id, si_name = name\<rparr>"

definition gateway_fields_valid :: "vlan_gateway_allocation \<Rightarrow> unit res" where
  "gateway_fields_valid g = checks
    [(\<not> netbox_identity ''ipam.vlan'' (vga_vlan_identity g), ValueError ''vlan_identity''),
     (vga_vid g \<notin> {10, 20}, ValueError ''vid''),
     (vga_canonical_name g \<notin> {''USERS'', ''SERVERS''}, ValueError ''canonical_name''),
     (\<not> netbox_identity ''ipam.prefix'' (vga_prefix_identity g), ValueError ''prefix_identity''),
     (\<not> wf_network (vga_prefix g), ValueError ''prefix''),
     (\<not> stable_interface_valid (vga_parent_interface g)
       \<or> \<not> stable_interface_valid (vga_gateway_interface g), ValueError ''interface''),
     (\<not> netbox_identity ''ipam.ipaddress'' (vga_gateway_ip_identity g), ValueError ''gateway_ip_identity''),
     (\<not> wf_interface (vga_gateway g), ValueError ''gateway'')]"

record gateway_fact =
  gf_vlan_id :: nat
  gf_vid :: nat
  gf_name :: string
  gf_prefix_id :: nat
  gf_prefix :: string
  gf_interface_id :: nat
  gf_ip_id :: nat
  gf_gateway :: string

definition GATEWAY_FACTS :: "gateway_fact list" where
  "GATEWAY_FACTS =
    [\<lparr>gf_vlan_id = 1, gf_vid = 10, gf_name = ''USERS'', gf_prefix_id = 6, gf_prefix = ''10.60.10.0/24'',
      gf_interface_id = 21, gf_ip_id = 26, gf_gateway = ''10.60.10.1/24''\<rparr>,
     \<lparr>gf_vlan_id = 2, gf_vid = 20, gf_name = ''SERVERS'', gf_prefix_id = 7, gf_prefix = ''10.60.20.0/24'',
      gf_interface_id = 22, gf_ip_id = 27, gf_gateway = ''10.60.20.1/24''\<rparr>]"

definition exact_gateway :: "stable_interface \<Rightarrow> vlan_gateway_allocation \<times> gateway_fact \<Rightarrow> unit res" where
  "exact_gateway core_parent = (\<lambda>(g, f). checks
    [(vga_vlan_identity g \<noteq> netbox_id ''ipam.vlan'' (gf_vlan_id f) \<or> vga_vid g \<noteq> gf_vid f
      \<or> vga_canonical_name g \<noteq> gf_name f \<or> vga_prefix_identity g \<noteq> netbox_id ''ipam.prefix'' (gf_prefix_id f)
      \<or> network_str (vga_prefix g) \<noteq> gf_prefix f \<or> vga_parent_interface g \<noteq> core_parent
      \<or> vga_gateway_interface g
          \<noteq> lab_interface 1 (gf_interface_id f) (''GigabitEthernet3.'' @ nat_str (gf_vid f))
      \<or> vga_gateway_ip_identity g \<noteq> netbox_id ''ipam.ipaddress'' (gf_ip_id f)
      \<or> interface_str (vga_gateway g) \<noteq> gf_gateway f,
      ValueError ''reference VLAN gateway authority is not exact'')])"

definition reference_vlan_valid :: "reference_vlan_service \<Rightarrow> unit res" where
  "reference_vlan_valid a =
    bindS (mapS gateway_fields_valid (rvs_gateways a)) (\<lambda>_.
    bindS (checks
     [(rvs_source_data_plane_digest a \<noteq> ACCEPTED_REFERENCE_ALLOCATION_DIGEST,
         ValueError ''source_data_plane_digest''),
      (rvs_cable_id a < 1, ValueError ''cable_id''),
      (\<not> stable_interface_valid (rvs_core_parent a) \<or> \<not> stable_interface_valid (rvs_access_trunk a)
        \<or> \<not> stable_interface_valid (rvs_access_users_port a)
        \<or> \<not> stable_interface_valid (rvs_access_servers_port a), ValueError ''interface''),
      (length (rvs_gateways a) \<noteq> 2, ValueError ''gateways''),
      (rvs_source_data_plane_digest a \<noteq> ACCEPTED_REFERENCE_ALLOCATION_DIGEST
        \<or> rvs_cable_id a \<noteq> 4
        \<or> rvs_core_parent a \<noteq> lab_interface 1 7 ''GigabitEthernet3''
        \<or> rvs_access_trunk a \<noteq> lab_interface 9 18 ''GigabitEthernet0/1''
        \<or> rvs_access_users_port a \<noteq> lab_interface 9 19 ''GigabitEthernet0/2''
        \<or> rvs_access_servers_port a \<noteq> lab_interface 9 20 ''GigabitEthernet0/3'',
        ValueError ''reference VLAN attachment authority is not exact'')]) (\<lambda>_.
    bindS (mapS (exact_gateway (rvs_core_parent a)) (zip (rvs_gateways a) GATEWAY_FACTS)) (\<lambda>_. Inr ())))"

section \<open>Building and digest\<close>

definition gateway_literal :: "gateway_fact \<Rightarrow> vlan_gateway_allocation res" where
  "gateway_literal f =
    bindS (read_network (gf_prefix f)) (\<lambda>n.
    bindS (read_address (gf_gateway f)) (\<lambda>i.
    let g = \<lparr>vga_vlan_identity = netbox_id ''ipam.vlan'' (gf_vlan_id f), vga_vid = gf_vid f,
       vga_canonical_name = gf_name f, vga_prefix_identity = netbox_id ''ipam.prefix'' (gf_prefix_id f),
       vga_prefix = n, vga_parent_interface = lab_interface 1 7 ''GigabitEthernet3'',
       vga_gateway_interface =
         lab_interface 1 (gf_interface_id f) (''GigabitEthernet3.'' @ nat_str (gf_vid f)),
       vga_gateway_ip_identity = netbox_id ''ipam.ipaddress'' (gf_ip_id f), vga_gateway = i\<rparr>
    in bindS (gateway_fields_valid g) (\<lambda>_. Inr g)))"

definition build_reference_vlan_service :: "(string \<Rightarrow> string) \<Rightarrow> reference_vlan_service res" where
  "build_reference_vlan_service sha =
    bindS (build_accepted_reference_allocation_evidence sha) (\<lambda>underlay.
    bindS (mapS gateway_literal GATEWAY_FACTS) (\<lambda>gs.
    let a = \<lparr>rvs_source_data_plane_digest = reference_allocation_digest sha underlay, rvs_cable_id = 4,
       rvs_core_parent = lab_interface 1 7 ''GigabitEthernet3'',
       rvs_access_trunk = lab_interface 9 18 ''GigabitEthernet0/1'',
       rvs_access_users_port = lab_interface 9 19 ''GigabitEthernet0/2'',
       rvs_access_servers_port = lab_interface 9 20 ''GigabitEthernet0/3'', rvs_gateways = gs\<rparr>
    in bindS (reference_vlan_valid a) (\<lambda>_. Inr a)))"

definition gateway_allocation_json :: "vlan_gateway_allocation \<Rightarrow> json" where
  "gateway_allocation_json g = JObj
    [(''vlan_identity'', JStr (vga_vlan_identity g)), (''vid'', JInt (int (vga_vid g))),
     (''canonical_name'', JStr (vga_canonical_name g)), (''prefix_identity'', JStr (vga_prefix_identity g)),
     (''prefix'', JStr (network_str (vga_prefix g))),
     (''parent_interface'', interface_json (vga_parent_interface g)),
     (''gateway_interface'', interface_json (vga_gateway_interface g)),
     (''gateway_ip_identity'', JStr (vga_gateway_ip_identity g)),
     (''gateway'', JStr (interface_str (vga_gateway g)))]"

definition vlan_service_allocation_json :: "reference_vlan_service \<Rightarrow> json" where
  "vlan_service_allocation_json a = JObj
    [(''schema_version'', JStr ''1''), (''source_data_plane_digest'', JStr (rvs_source_data_plane_digest a)),
     (''population_tag'', JStr VLAN_GATEWAY_TAG), (''cable_id'', JInt (rvs_cable_id a)),
     (''core_parent'', interface_json (rvs_core_parent a)),
     (''access_trunk'', interface_json (rvs_access_trunk a)),
     (''access_users_port'', interface_json (rvs_access_users_port a)),
     (''access_servers_port'', interface_json (rvs_access_servers_port a)),
     (''gateways'', JArr (map gateway_allocation_json (rvs_gateways a)))]"

definition vlan_service_allocation_digest :: "(string \<Rightarrow> string) \<Rightarrow> reference_vlan_service \<Rightarrow> string" where
  "vlan_service_allocation_digest sha a =
     sha256_identity sha (canonical_json_bytes (vlan_service_allocation_json a))"

definition build_accepted_vlan_service_evidence :: "(string \<Rightarrow> string) \<Rightarrow> reference_vlan_service res" where
  "build_accepted_vlan_service_evidence sha =
    bindS (build_reference_vlan_service sha) (\<lambda>a.
    if vlan_service_allocation_digest sha a \<noteq> ACCEPTED_VLAN_SERVICE_ALLOCATION_DIGEST
    then Inl (RuntimeError ''accepted VLAN service evidence digest changed'') else Inr a)"

section \<open>The provider\<close>

text \<open>\<^verbatim>\<open>value.get("id") if isinstance(value, dict) else None\<close>, compared with an optional integer.\<close>

definition id_of :: "json \<Rightarrow> json" where
  "id_of v = (if is_dict v then py_get ''id'' v else JNull)"

fun py_eq_optional :: "json \<Rightarrow> nat option \<Rightarrow> bool" where
  "py_eq_optional v None = (v = JNull)"
| "py_eq_optional v (Some n) = py_eq_int v (int n)"

definition interface_facts_by_id :: "(nat \<times> nat \<times> string \<times> string \<times> nat option \<times> nat option) list" where
  "interface_facts_by_id =
    [(7, 1, ''core-02'', ''GigabitEthernet3'', None, Some 4),
     (18, 9, ''access-sw-01'', ''GigabitEthernet0/1'', None, Some 4),
     (19, 9, ''access-sw-01'', ''GigabitEthernet0/2'', None, None),
     (20, 9, ''access-sw-01'', ''GigabitEthernet0/3'', None, None),
     (21, 1, ''core-02'', ''GigabitEthernet3.10'', Some 7, None),
     (22, 1, ''core-02'', ''GigabitEthernet3.20'', Some 7, None)]"

text \<open>\<^verbatim>\<open>payload.get("type", {}).get("value")\<close>: an absent type is an empty dict, any other value that
  is not a dict has no \<open>get\<close>.\<close>

definition type_value :: "json \<Rightarrow> json res" where
  "type_value payload = (case field ''type'' payload of
       None \<Rightarrow> Inr JNull
     | Some v \<Rightarrow> if is_dict v then Inr (py_get ''value'' v) else Inl (OtherException ''AttributeError''))"

definition check_gateway_interface :: "json \<Rightarrow> unit res" where
  "check_gateway_interface payload =
    (let conflict = ValueError ''NetBox VLAN interface authority conflicts'';
         device = py_get ''device'' payload
     in bindS (positive_id ''interface'' (py_get ''id'' payload)) (\<lambda>i.
        bindS (tag_slugs (py_get ''tags'' payload)) (\<lambda>tags.
        case map_of interface_facts_by_id i of
          None \<Rightarrow> Inl conflict
        | Some (device_id, device_name, name, parent_id, cable_id) \<Rightarrow>
            bindS (checks
              [(\<not> is_dict device
                \<or> \<not> py_eq_int (py_get ''id'' device) (int device_id)
                \<or> py_get ''name'' device \<noteq> JStr device_name \<or> py_get ''name'' payload \<noteq> JStr name
                \<or> \<not> py_eq_optional (id_of (py_get ''parent'' payload)) parent_id
                \<or> \<not> py_eq_optional (id_of (py_get ''cable'' payload)) cable_id
                \<or> py_get ''mode'' payload \<noteq> JNull \<or> py_get ''untagged_vlan'' payload \<noteq> JNull
                \<or> py_get ''tagged_vlans'' payload \<notin> {JArr [], JNull}
                \<or> (i \<in> {21, 22} \<and> (VLAN_GATEWAY_TAG \<notin> set tags \<or> DATA_PLANE_TAG \<in> set tags)),
                conflict)]) (\<lambda>_.
            bindS (if i \<in> {21, 22} then type_value payload else Inr (JStr ''virtual'')) (\<lambda>v. checks
              [(v \<noteq> JStr ''virtual'', conflict),
               (i \<in> {7, 18, 19, 20} \<and> VLAN_GATEWAY_TAG \<in> set tags, conflict)])))))"

definition check_service_vlan :: "json \<Rightarrow> unit res" where
  "check_service_vlan payload =
    bindS (positive_id ''VLAN'' (py_get ''id'' payload)) (\<lambda>i. checks
     [(case map_of [(1 :: nat, 10 :: int, ''USERS''), (2, 20, ''SERVERS'')] i of
         None \<Rightarrow> True
       | Some (vid, name) \<Rightarrow>
           \<not> py_eq_int (py_get ''vid'' payload) vid \<or> py_get ''name'' payload \<noteq> JStr name
             \<or> \<not> active (py_get ''status'' payload),
       ValueError ''NetBox VLAN authority conflicts'')])"

definition check_service_prefix :: "json \<Rightarrow> unit res" where
  "check_service_prefix payload =
    bindS (positive_id ''prefix'' (py_get ''id'' payload)) (\<lambda>i. checks
     [(case map_of [(6 :: nat, ''10.60.10.0/24'', 1 :: nat), (7, ''10.60.20.0/24'', 2)] i of
         None \<Rightarrow> True
       | Some (prefix, vlan_id) \<Rightarrow>
           py_get ''prefix'' payload \<noteq> JStr prefix
             \<or> \<not> py_eq_optional (id_of (py_get ''vlan'' payload)) (Some vlan_id)
             \<or> \<not> active (py_get ''status'' payload),
       ValueError ''NetBox VLAN prefix authority conflicts'')])"

text \<open>The set of primary addresses; a dict or a list cannot be put in a set.\<close>

fun hashable :: "json \<Rightarrow> bool" where
  "hashable (JArr _) = False"
| "hashable (JObj _) = False"
| "hashable _ = True"

definition primary_ids :: "json list \<Rightarrow> json list res" where
  "primary_ids devices =
    mapS (\<lambda>p. if hashable (py_get ''id'' p) then Inr (py_get ''id'' p) else Inl (OtherException ''TypeError''))
      (filter is_dict (map (py_get ''primary_ip4'') devices))"

definition check_gateway_ip :: "json list \<Rightarrow> json \<Rightarrow> unit res" where
  "check_gateway_ip primary payload =
    bindS (positive_id ''gateway IP'' (py_get ''id'' payload)) (\<lambda>i.
    bindS (tag_slugs (py_get ''tags'' payload)) (\<lambda>tags. checks
     [(case map_of [(26 :: nat, ''10.60.10.1/24'', 21 :: int), (27, ''10.60.20.1/24'', 22)] i of
         None \<Rightarrow> True
       | Some (address, interface_id) \<Rightarrow>
           py_get ''address'' payload \<noteq> JStr address
             \<or> \<not> py_eq_int (py_get ''assigned_object_id'' payload) interface_id
             \<or> py_get ''assigned_object_type'' payload \<noteq> JStr ''dcim.interface''
             \<or> \<not> active (py_get ''status'' payload)
             \<or> list_ex (\<lambda>p. py_eq_int p (int i)) primary
             \<or> VLAN_GATEWAY_TAG \<notin> set tags \<or> DATA_PLANE_TAG \<in> set tags,
       ValueError ''NetBox VLAN gateway authority conflicts'')]))"

definition vlan_payloads_valid ::
    "json list \<Rightarrow> json list \<Rightarrow> json list \<Rightarrow> json list \<Rightarrow> json list \<Rightarrow> unit res" where
  "vlan_payloads_valid interfaces gateways vlans prefixes devices =
    bindS (checks
     [([length interfaces, length gateways, length vlans, length prefixes, length devices] \<noteq> [6, 2, 2, 2, 4],
        ValueError ''NetBox VLAN service population is not exact'')]) (\<lambda>_.
    bindS (mapS check_gateway_interface interfaces) (\<lambda>_.
    bindS (mapS check_service_vlan vlans) (\<lambda>_.
    bindS (mapS check_service_prefix prefixes) (\<lambda>_.
    bindS (primary_ids devices) (\<lambda>primary.
    bindS (mapS (check_gateway_ip primary) gateways) (\<lambda>_. Inr ()))))))"

definition resolve_vlan_service ::
    "(string \<Rightarrow> string) \<Rightarrow> http_server \<Rightarrow> (http_event, exn, reference_vlan_service) eff" where
  "resolve_vlan_service sha srv =
    bindE (mapE (\<lambda>i. get_all srv (by_id ''/api/dcim/interfaces/'' i)) [7, 18, 19, 20]) (\<lambda>physical.
    bindE (get_all srv (by_tag ''/api/dcim/interfaces/'' VLAN_GATEWAY_TAG)) (\<lambda>tagged.
    bindE (get_all srv (by_tag ''/api/ipam/ip-addresses/'' VLAN_GATEWAY_TAG)) (\<lambda>gateways.
    bindE (mapE (\<lambda>i. get_all srv (by_id ''/api/ipam/vlans/'' i)) [1, 2]) (\<lambda>vlans.
    bindE (mapE (\<lambda>i. get_all srv (by_id ''/api/ipam/prefixes/'' i)) [6, 7]) (\<lambda>prefixes.
    bindE (get_all srv (by_tag ''/api/dcim/devices/'' ''ncdp-profiled-inventory'')) (\<lambda>devices.
    liftE (bindS (vlan_payloads_valid (concat physical @ tagged) gateways (concat vlans) (concat prefixes) devices)
      (\<lambda>_. build_reference_vlan_service sha))))))))"

section \<open>Exactly one allocation is admitted\<close>

definition users_gateway :: vlan_gateway_allocation where
  "users_gateway = \<lparr>vga_vlan_identity = ''netbox:ipam.vlan:1'', vga_vid = 10, vga_canonical_name = ''USERS'',
     vga_prefix_identity = ''netbox:ipam.prefix:6'', vga_prefix = IPv4Network 0x0A3C0A00 24,
     vga_parent_interface = lab_interface 1 7 ''GigabitEthernet3'',
     vga_gateway_interface = lab_interface 1 21 ''GigabitEthernet3.10'',
     vga_gateway_ip_identity = ''netbox:ipam.ipaddress:26'', vga_gateway = IPv4Interface 0x0A3C0A01 24\<rparr>"

definition servers_gateway :: vlan_gateway_allocation where
  "servers_gateway = \<lparr>vga_vlan_identity = ''netbox:ipam.vlan:2'', vga_vid = 20, vga_canonical_name = ''SERVERS'',
     vga_prefix_identity = ''netbox:ipam.prefix:7'', vga_prefix = IPv4Network 0x0A3C1400 24,
     vga_parent_interface = lab_interface 1 7 ''GigabitEthernet3'',
     vga_gateway_interface = lab_interface 1 22 ''GigabitEthernet3.20'',
     vga_gateway_ip_identity = ''netbox:ipam.ipaddress:27'', vga_gateway = IPv4Interface 0x0A3C1401 24\<rparr>"

definition accepted_vlan_service :: reference_vlan_service where
  "accepted_vlan_service =
    \<lparr>rvs_source_data_plane_digest = ACCEPTED_REFERENCE_ALLOCATION_DIGEST, rvs_cable_id = 4,
     rvs_core_parent = lab_interface 1 7 ''GigabitEthernet3'',
     rvs_access_trunk = lab_interface 9 18 ''GigabitEthernet0/1'',
     rvs_access_users_port = lab_interface 9 19 ''GigabitEthernet0/2'',
     rvs_access_servers_port = lab_interface 9 20 ''GigabitEthernet0/3'',
     rvs_gateways = [users_gateway, servers_gateway]\<rparr>"

lemma gateway_addresses:
  "interface_str (IPv4Interface 0x0A3C0A01 24) = ''10.60.10.1/24''"
  "interface_str (IPv4Interface 0x0A3C1401 24) = ''10.60.20.1/24''"
  by (simp_all add: print_simps flip: One_nat_def)

lemma vlan_service_accepted: "reference_vlan_valid accepted_vlan_service = Inr ()"
proof -
  have "ok (reference_vlan_valid accepted_vlan_service)" by code_simp
  then show ?thesis by (simp add: ok_unit)
qed

lemma gateway_literals:
  "gateway_literal (GATEWAY_FACTS ! 0) = Inr users_gateway"
  "gateway_literal (GATEWAY_FACTS ! 1) = Inr servers_gateway"
  by code_simp+

lemma exact_gateway_unique:
  assumes "gateway_fields_valid g = Inr u" and "exact_gateway p (g, f) = Inr w" and "gateway_literal f = Inr m"
    and "p = lab_interface 1 7 ''GigabitEthernet3''"
  shows "g = m"
proof -
  note fields = assms(1) [unfolded gateway_fields_valid_def, simplified checks_ok, simplified]
  note g = assms(2) [unfolded exact_gateway_def prod.case, simplified checks_ok, simplified]
  have "read_network (network_str (vga_prefix g)) = Inr (vga_prefix g)"
    using fields read_network_str [of "vga_prefix g"] by simp
  then have network: "read_network (gf_prefix f) = Inr (vga_prefix g)" using g by simp
  have "read_address (interface_str (vga_gateway g)) = Inr (vga_gateway g)"
    using fields read_interface_str [of "vga_gateway g"] by (simp add: read_address_def wf_interface_def)
  then have address: "read_address (gf_gateway f) = Inr (vga_gateway g)" using g by simp
  obtain n where "m = \<lparr>vga_vlan_identity = netbox_id ''ipam.vlan'' (gf_vlan_id f), vga_vid = gf_vid f,
       vga_canonical_name = gf_name f, vga_prefix_identity = netbox_id ''ipam.prefix'' (gf_prefix_id f),
       vga_prefix = vga_prefix g, vga_parent_interface = lab_interface 1 7 ''GigabitEthernet3'',
       vga_gateway_interface =
         lab_interface 1 (gf_interface_id f) (''GigabitEthernet3.'' @ nat_str (gf_vid f)),
       vga_gateway_ip_identity = netbox_id ''ipam.ipaddress'' (gf_ip_id f), vga_gateway = vga_gateway g\<rparr>"
    using assms(3) unfolding gateway_literal_def network address bindS_simps Let_def bindS_Inr_iff by blast
  then show ?thesis
    using g assms(4) by (intro vlan_gateway_allocation.equality) simp_all
qed

lemma vlan_service_unique:
  assumes "reference_vlan_valid a = Inr u"
  shows "a = accepted_vlan_service"
proof -
  note parts = assms [unfolded reference_vlan_valid_def bindS_Inr_iff checks_ok, simplified]
  from parts obtain us ws where gs: "mapS gateway_fields_valid (rvs_gateways a) = Inr us"
      "mapS (exact_gateway (rvs_core_parent a)) (zip (rvs_gateways a) GATEWAY_FACTS) = Inr ws" by blast
  have p: "rvs_core_parent a = lab_interface 1 7 ''GigabitEthernet3''" using parts by simp
  have "rvs_gateways a = [users_gateway, servers_gateway]"
  proof (rule mapS_zip_unique [OF gs])
    show "length (rvs_gateways a) = length GATEWAY_FACTS" using parts by (simp add: GATEWAY_FACTS_def)
    fix g f m u w
    assume "gateway_fields_valid g = Inr u" and "exact_gateway (rvs_core_parent a) (g, f) = Inr w"
      and "(f, m) \<in> set (zip GATEWAY_FACTS [users_gateway, servers_gateway])"
    moreover from this(3) have "gateway_literal f = Inr m"
      using gateway_literals by (auto simp: GATEWAY_FACTS_def)
    ultimately show "g = m" using p exact_gateway_unique by blast
  qed (simp add: GATEWAY_FACTS_def)
  then show ?thesis
    using parts by (intro reference_vlan_service.equality) (simp_all add: accepted_vlan_service_def)
qed

lemma build_vlan_unique: "build_reference_vlan_service sha = Inr a \<Longrightarrow> a = accepted_vlan_service"
  by (auto simp: build_reference_vlan_service_def bindS_Inr_iff Let_def dest: vlan_service_unique)

lemma resolve_vlan_unique:
  assumes "fst (resolve_vlan_service sha srv t) = Inr a"
  shows "a = accepted_vlan_service"
proof -
  have "build_reference_vlan_service sha = Inr a"
    using assms
    by (auto simp: resolve_vlan_service_def bindE_def liftE_def bindS_Inr_iff split: sum.splits prod.splits)
  then show ?thesis by (rule build_vlan_unique)
qed

end
