(* ===== verification/Vlan_Service.thy ===== *)
theory Vlan_Service
  imports Reference_Vlan Managed_State
begin

text \<open>
  \<^verbatim>\<open>vlan_service.py\<close>, the desired side: the intent over the two resolved allocations, the desired
  state with its digest and the ownership envelope. Ports and VLANs that the models bind by a literal
  (\<open>admin_enabled\<close> of an intent, the allowed VLANs of the trunk) are constants.
\<close>

section \<open>Intent\<close>

definition VLAN_POLICY_IDENTITY :: string where
  "VLAN_POLICY_IDENTITY = ''git:policy:vlan-access-service''"

definition VLAN_DEVICE_IDENTITIES :: "string list" where
  "VLAN_DEVICE_IDENTITIES = [''netbox:dcim.device:1'', ''netbox:dcim.device:9'']"

definition ACCEPTED_VLAN_D1_DIGEST :: string where
  "ACCEPTED_VLAN_D1_DIGEST = ''sha256:57fe2decfcf6ecaf595a877fac9d2fa4befa0286ec7a70b8235fd514ca3995b3''"

record vlan_gateway_intent =
  vgi_vid :: nat
  vgi_name :: string
  vgi_vlan_identity :: string
  vgi_prefix_identity :: string
  vgi_prefix :: ipv4_network
  vgi_parent_interface :: stable_interface
  vgi_subinterface :: stable_interface
  vgi_gateway_ip_identity :: string
  vgi_gateway :: ipv4_interface
  vgi_encapsulation_vlan :: nat

record vlan_access_port_intent =
  vpi_interface :: stable_interface
  vpi_access_vlan :: nat

record vlan_service_intent =
  vsi_source_data_plane :: reference_data_plane
  vsi_source_vlan_service :: reference_vlan_service
  vsi_gateways :: "vlan_gateway_intent list"
  vsi_trunk :: stable_interface
  vsi_access_ports :: "vlan_access_port_intent list"

definition vlan_gateway_intent_valid :: "vlan_gateway_intent \<Rightarrow> unit res" where
  "vlan_gateway_intent_valid g = checks
    [(vgi_vid g \<notin> {10, 20}, ValueError ''vid''),
     (vgi_name g \<notin> {''USERS'', ''SERVERS''}, ValueError ''name''),
     (\<not> wf_network (vgi_prefix g), ValueError ''prefix''),
     (\<not> stable_interface_valid (vgi_parent_interface g) \<or> \<not> stable_interface_valid (vgi_subinterface g),
       ValueError ''interface''),
     (\<not> wf_interface (vgi_gateway g), ValueError ''gateway''),
     (vgi_encapsulation_vlan g \<notin> {10, 20}, ValueError ''encapsulation_vlan'')]"

definition vlan_access_port_intent_valid :: "vlan_access_port_intent \<Rightarrow> unit res" where
  "vlan_access_port_intent_valid p = checks
    [(\<not> stable_interface_valid (vpi_interface p), ValueError ''interface''),
     (vpi_access_vlan p \<notin> {10, 20}, ValueError ''access_vlan'')]"

definition gateway_follows :: "vlan_gateway_intent \<times> vlan_gateway_allocation \<Rightarrow> bool" where
  "gateway_follows = (\<lambda>(g, f). vgi_vlan_identity g = vga_vlan_identity f
     \<and> vgi_prefix_identity g = vga_prefix_identity f \<and> vgi_parent_interface g = vga_parent_interface f
     \<and> vgi_subinterface g = vga_gateway_interface f \<and> vgi_gateway_ip_identity g = vga_gateway_ip_identity f
     \<and> vgi_gateway g = vga_gateway f)"

definition vlan_intent_valid :: "(string \<Rightarrow> string) \<Rightarrow> vlan_service_intent \<Rightarrow> unit res" where
  "vlan_intent_valid sha i =
    bindS (reference_allocation_valid (vsi_source_data_plane i)) (\<lambda>_.
    bindS (reference_vlan_valid (vsi_source_vlan_service i)) (\<lambda>_.
    bindS (mapS vlan_gateway_intent_valid (vsi_gateways i)) (\<lambda>_.
    bindS (mapS vlan_access_port_intent_valid (vsi_access_ports i)) (\<lambda>_.
    let detached = ValueError ''VLAN intent is detached from source authority''; v = vsi_source_vlan_service i
    in checks
     [(length (vsi_gateways i) \<noteq> 2, ValueError ''gateways''),
      (\<not> stable_interface_valid (vsi_trunk i), ValueError ''trunk''),
      (length (vsi_access_ports i) \<noteq> 2, ValueError ''access_ports''),
      (reference_allocation_digest sha (vsi_source_data_plane i) \<noteq> ACCEPTED_REFERENCE_ALLOCATION_DIGEST
        \<or> vlan_service_allocation_digest sha v \<noteq> ACCEPTED_VLAN_SERVICE_ALLOCATION_DIGEST
        \<or> map vgi_vid (vsi_gateways i) \<noteq> [10, 20] \<or> map vgi_encapsulation_vlan (vsi_gateways i) \<noteq> [10, 20]
        \<or> map vpi_access_vlan (vsi_access_ports i) \<noteq> [10, 20], detached),
      (\<not> list_all gateway_follows (zip (vsi_gateways i) (rvs_gateways v)), detached),
      (vsi_trunk i \<noteq> rvs_access_trunk v
        \<or> map vpi_interface (vsi_access_ports i) \<noteq> [rvs_access_users_port v, rvs_access_servers_port v],
        detached)]))))"

definition gateway_intent_of :: "vlan_gateway_allocation \<Rightarrow> vlan_gateway_intent" where
  "gateway_intent_of g =
    \<lparr>vgi_vid = vga_vid g, vgi_name = vga_canonical_name g, vgi_vlan_identity = vga_vlan_identity g,
     vgi_prefix_identity = vga_prefix_identity g, vgi_prefix = vga_prefix g,
     vgi_parent_interface = vga_parent_interface g, vgi_subinterface = vga_gateway_interface g,
     vgi_gateway_ip_identity = vga_gateway_ip_identity g, vgi_gateway = vga_gateway g,
     vgi_encapsulation_vlan = vga_vid g\<rparr>"

definition vlan_intent_from_allocations ::
    "(string \<Rightarrow> string) \<Rightarrow> reference_data_plane \<Rightarrow> reference_vlan_service \<Rightarrow> vlan_service_intent res" where
  "vlan_intent_from_allocations sha a v =
    (let i = \<lparr>vsi_source_data_plane = a, vsi_source_vlan_service = v,
              vsi_gateways = map gateway_intent_of (rvs_gateways v), vsi_trunk = rvs_access_trunk v,
              vsi_access_ports =
                [\<lparr>vpi_interface = rvs_access_users_port v, vpi_access_vlan = 10\<rparr>,
                 \<lparr>vpi_interface = rvs_access_servers_port v, vpi_access_vlan = 20\<rparr>]\<rparr>
     in bindS (vlan_intent_valid sha i) (\<lambda>_. Inr i))"

section \<open>Desired state\<close>

record desired_vlan_gateway =
  dvg_vid :: nat
  dvg_name :: string
  dvg_subinterface :: stable_interface
  dvg_gateway :: ipv4_interface
  dvg_gateway_ip_identity :: string
  dvg_admin_enabled :: bool

record desired_vlan_port =
  dvp_interface :: stable_interface
  dvp_mode :: string
  dvp_allowed_vlans :: "nat list"
  dvp_access_vlan :: "nat option"
  dvp_admin_enabled :: bool

record vlan_desired =
  vd_core_parent :: stable_interface
  vd_gateways :: "desired_vlan_gateway list"
  vd_access_ports :: "desired_vlan_port list"
  vd_digest :: string

definition desired_vlan_gateway_json :: "desired_vlan_gateway \<Rightarrow> json" where
  "desired_vlan_gateway_json g = JObj
    [(''vid'', JInt (int (dvg_vid g))), (''name'', JStr (dvg_name g)),
     (''subinterface'', interface_json (dvg_subinterface g)),
     (''gateway'', JStr (interface_str (dvg_gateway g))),
     (''gateway_ip_identity'', JStr (dvg_gateway_ip_identity g)),
     (''admin_enabled'', JBool (dvg_admin_enabled g))]"

definition vlan_ids_json :: "nat list \<Rightarrow> json" where
  "vlan_ids_json vs = JArr (map (\<lambda>v. JInt (int v)) vs)"

definition vlan_id_json :: "nat option \<Rightarrow> json" where
  "vlan_id_json = jopt (\<lambda>v. JInt (int v))"

definition desired_vlan_port_json :: "desired_vlan_port \<Rightarrow> json" where
  "desired_vlan_port_json p = JObj
    [(''interface'', interface_json (dvp_interface p)), (''mode'', JStr (dvp_mode p)),
     (''allowed_vlans'', vlan_ids_json (dvp_allowed_vlans p)),
     (''access_vlan'', vlan_id_json (dvp_access_vlan p)),
     (''admin_enabled'', JBool (dvp_admin_enabled p))]"

definition vlan_desired_json :: "vlan_desired \<Rightarrow> json" where
  "vlan_desired_json d = JObj
    [(''schema_version'', JStr ''1''), (''core_parent'', interface_json (vd_core_parent d)),
     (''gateways'', JArr (map desired_vlan_gateway_json (vd_gateways d))),
     (''access_ports'', JArr (map desired_vlan_port_json (vd_access_ports d)))]"

definition vlan_calculated_digest :: "(string \<Rightarrow> string) \<Rightarrow> vlan_desired \<Rightarrow> string" where
  "vlan_calculated_digest sha d = sha256_identity sha (canonical_json_bytes (vlan_desired_json d))"

definition vlan_desired_valid :: "(string \<Rightarrow> string) \<Rightarrow> vlan_desired \<Rightarrow> unit res" where
  "vlan_desired_valid sha d = checks
    [(map dvg_vid (vd_gateways d) \<noteq> [10, 20] \<or> map dvp_mode (vd_access_ports d) \<noteq> [''trunk'', ''access'', ''access'']
      \<or> dvp_allowed_vlans (hd (vd_access_ports d)) \<noteq> [10, 20]
      \<or> map dvp_access_vlan (tl (vd_access_ports d)) \<noteq> [Some 10, Some 20]
      \<or> vd_digest d \<noteq> vlan_calculated_digest sha d,
      ValueError ''VLAN desired state is not exact'')]"

definition desired_gateway_of :: "vlan_gateway_intent \<Rightarrow> desired_vlan_gateway" where
  "desired_gateway_of g =
    \<lparr>dvg_vid = vgi_vid g, dvg_name = vgi_name g, dvg_subinterface = vgi_subinterface g,
     dvg_gateway = vgi_gateway g, dvg_gateway_ip_identity = vgi_gateway_ip_identity g,
     dvg_admin_enabled = True\<rparr>"

definition access_port :: "stable_interface \<Rightarrow> nat \<Rightarrow> desired_vlan_port" where
  "access_port i v = \<lparr>dvp_interface = i, dvp_mode = ''access'', dvp_allowed_vlans = [],
     dvp_access_vlan = Some v, dvp_admin_enabled = True\<rparr>"

definition trunk_port :: "stable_interface \<Rightarrow> desired_vlan_port" where
  "trunk_port i = \<lparr>dvp_interface = i, dvp_mode = ''trunk'', dvp_allowed_vlans = [10, 20],
     dvp_access_vlan = None, dvp_admin_enabled = True\<rparr>"

definition desired_ports :: "vlan_service_intent \<Rightarrow> desired_vlan_port list" where
  "desired_ports i = trunk_port (vsi_trunk i)
     # map (\<lambda>(p, v). access_port (vpi_interface p) v) (zip (vsi_access_ports i) [10, 20])"

definition build_vlan_desired :: "(string \<Rightarrow> string) \<Rightarrow> vlan_service_intent \<Rightarrow> vlan_desired res" where
  "build_vlan_desired sha i =
    (let unsigned = \<lparr>vd_core_parent = rvs_core_parent (vsi_source_vlan_service i),
           vd_gateways = map desired_gateway_of (vsi_gateways i), vd_access_ports = desired_ports i,
           vd_digest = zero_digest\<rparr>;
         d = unsigned\<lparr>vd_digest := vlan_calculated_digest sha unsigned\<rparr>
     in bindS (vlan_desired_valid sha d) (\<lambda>_. Inr d))"

section \<open>Ownership\<close>

definition vlan_interfaces :: "vlan_service_intent \<Rightarrow> stable_interface list" where
  "vlan_interfaces i = rvs_core_parent (vsi_source_vlan_service i) # map vgi_subinterface (vsi_gateways i)
     @ vsi_trunk i # map vpi_interface (vsi_access_ports i)"

definition vlan_envelope :: "vlan_service_intent \<Rightarrow> managed_ownership_envelope" where
  "vlan_envelope i =
    \<lparr>oe_vertical = VLAN, oe_envelope_version = 1, oe_targets = VLAN_DEVICE_IDENTITIES,
     oe_scope = map (scope_identity DEVICE_Scope) VLAN_DEVICE_IDENTITIES
       @ map (scope_identity VLAN_Scope \<circ> vgi_vlan_identity) (vsi_gateways i)
       @ map (scope_identity PREFIX_Scope \<circ> vgi_prefix_identity) (vsi_gateways i)
       @ map (scope_identity INTERFACE_Scope \<circ> si_interface) (vlan_interfaces i)
       @ map (scope_identity IP_ADDRESS_Scope \<circ> vgi_gateway_ip_identity) (vsi_gateways i)
       @ [scope_identity POLICY_Scope VLAN_POLICY_IDENTITY],
     oe_normalized_fields = [VLAN_PRESENCE, VLAN_PORT_MODE, VLAN_ACCESS_VLAN, VLAN_ALLOWED_VLANS,
       VLAN_GATEWAY, VLAN_INTERFACE_ADMIN_ENABLED]\<rparr>"

definition build_vlan_envelope :: "vlan_service_intent \<Rightarrow> managed_ownership_envelope res" where
  "build_vlan_envelope i = bindS (managed_ownership_envelope_valid (vlan_envelope i)) (\<lambda>_. Inr (vlan_envelope i))"

end
