(* ===== verification/Show_Text.thy ===== *)
theory Show_Text
  imports Junos_Transaction
begin

text \<open>
  Reading the text of \<^verbatim>\<open>show\<close> commands: the substring test, the multi-line regular expressions of the
  collectors as functions on lines, and Python's \<open>int(text)\<close>. In a multi-line pattern \<open>^\<close> and \<open>$\<close>
  are the ends of the lines separated by newlines, and \<open>\s\<close> also matches a newline, which matters
  where a pattern goes on after it.
\<close>

fun contains :: "string \<Rightarrow> string \<Rightarrow> bool" where
  "contains p [] = (p = [])"
| "contains p (c # cs) = (starts_with p (c # cs) \<or> contains p cs)"

definition after_prefix :: "string \<Rightarrow> string \<Rightarrow> string option" where
  "after_prefix p s = (if starts_with p s then Some (drop (length p) s) else None)"

definition text_lines :: "string \<Rightarrow> string list" where
  "text_lines = split_on CHR 0x0A"

definition word_of :: "string \<Rightarrow> string" where
  "word_of = takeWhile (\<lambda>c. \<not> is_space c)"

definition all_space :: "string \<Rightarrow> bool" where
  "all_space = list_all is_space"

definition rstrip :: "string \<Rightarrow> string" where
  "rstrip s = rev (dropWhile is_space (rev s))"

definition digits_of :: "string \<Rightarrow> string" where
  "digits_of = takeWhile is_digit"

text \<open>The lines with their newlines, as \<^verbatim>\<open>re.split(r"(?=^interface )")\<close> keeps them, and the sections
  that begin at an interface line.\<close>

fun kept_lines :: "string \<Rightarrow> string list" where
  "kept_lines [] = []"
| "kept_lines (c # cs) =
     (if c = CHR 0x0A then [c] # kept_lines cs
      else case kept_lines cs of [] \<Rightarrow> [[c]] | l # ls \<Rightarrow> (c # l) # ls)"

definition interface_line :: "string \<Rightarrow> bool" where
  "interface_line = starts_with ''interface ''"

fun line_sections :: "string list \<Rightarrow> string list" where
  "line_sections [] = []"
| "line_sections (l # ls) =
     (if interface_line l then (l @ concat (takeWhile (\<lambda>m. \<not> interface_line m) ls)) # line_sections ls
      else line_sections ls)"

definition interface_sections :: "string \<Rightarrow> string list" where
  "interface_sections s = line_sections (kept_lines s)"

text \<open>\<^verbatim>\<open>re.match(r"^interface (\S+)", section)\<close>\<close>

definition section_interface :: "string \<Rightarrow> string option" where
  "section_interface s = (case after_prefix ''interface '' s of
       None \<Rightarrow> None
     | Some r \<Rightarrow> if word_of r = [] then None else Some (word_of r))"

text \<open>The suffixes of a text that begin a line.\<close>

fun line_starts :: "string \<Rightarrow> string list" where
  "line_starts [] = []"
| "line_starts (c # cs) = (if c = CHR 0x0A then cs # line_starts cs else line_starts cs)"

definition from_line_starts :: "string \<Rightarrow> string list" where
  "from_line_starts s = s # line_starts s"

fun first_match :: "('a \<Rightarrow> 'b option) \<Rightarrow> 'a list \<Rightarrow> 'b option" where
  "first_match f [] = None"
| "first_match f (x # xs) = (case f x of Some y \<Rightarrow> Some y | None \<Rightarrow> first_match f xs)"

text \<open>\<^verbatim>\<open>re.search(r"\d+", s)\<close>\<close>

definition first_int :: "string \<Rightarrow> nat option" where
  "first_int s =
    (let d = digits_of (dropWhile (\<lambda>c. \<not> is_digit c) s)
     in if d = [] then None else Some (digits_val d))"

text \<open>\<open>int(text)\<close>: white space around, a sign, and digits with single underscores between.\<close>

definition py_int :: "string \<Rightarrow> int option" where
  "py_int s =
    (let t = py_strip s;
         (negative, u) = (case t of
            [] \<Rightarrow> (False, [])
          | c # cs \<Rightarrow> if c = CHR ''-'' then (True, cs) else if c = CHR ''+'' then (False, cs) else (False, t));
         ws = split_on CHR ''_'' u
     in if list_all (\<lambda>w. w \<noteq> [] \<and> list_all is_digit w) ws
        then Some (if negative then - int (digits_val (concat ws)) else int (digits_val (concat ws)))
        else None)"

text \<open>The word characters (\<open>\w\<close>) below code point 256.\<close>

definition is_word :: "char \<Rightarrow> bool" where
  "is_word c \<longleftrightarrow> is_digit c \<or> is_lower c \<or> (65 \<le> code c \<and> code c \<le> 90) \<or> code c \<in> {95, 170, 178, 179, 181, 185, 186, 188, 189, 190}
     \<or> (192 \<le> code c \<and> code c \<noteq> 215 \<and> code c \<noteq> 247)"

definition lower_ascii :: "char \<Rightarrow> char" where
  "lower_ascii c = (if 65 \<le> code c \<and> code c \<le> 90 then char_of (code c + 32) else c)"

section \<open>Facts\<close>

lemma starts_with_append [simp]: "starts_with p (p @ s)"
  by (simp add: starts_with_def)

lemma after_prefix_append [simp]: "after_prefix p (p @ s) = Some s"
  by (simp add: after_prefix_def)

lemma contains_prefix: "contains p (p @ s)"
  using starts_with_append [of p s] by (cases "p @ s") simp_all

lemma contains_append: "contains p s \<Longrightarrow> contains p (u @ s)"
  by (induction u) auto

lemma kept_lines_concat: "concat (kept_lines s) = s"
  by (induction s) (auto split: list.splits)

lemma word_of_append: "list_all (\<lambda>c. \<not> is_space c) w \<Longrightarrow> word_of (w @ s) = w @ word_of s"
  by (induction w) (auto simp: word_of_def)


text \<open>White space as a list of characters, which the simplifier evaluates faster.\<close>

lemma code_eq: "n < 256 \<Longrightarrow> code c = n \<longleftrightarrow> c = char_of n"
  by (auto simp: code_def)

lemma is_space_code [code]:
  "is_space c \<longleftrightarrow> c \<in> set [CHR '' '', CHR 0x0A, CHR 0x0D, CHR 0x09, CHR 0x0B, CHR 0x0C, CHR 0x1C,
     CHR 0x1D, CHR 0x1E, CHR 0x1F, CHR 0x85, CHR 0xA0]"
proof -
  have "is_space c \<longleftrightarrow> code c \<in> {32, 10, 13, 9, 11, 12, 28, 29, 30, 31, 133, 160}"
    unfolding is_space_def by auto
  also have "\<dots> \<longleftrightarrow> c \<in> char_of ` {32, 10, 13, 9, 11, 12, 28, 29, 30, 31, 133, 160 :: nat}"
    by (simp add: code_eq)
  also have "char_of ` {32, 10, 13, 9, 11, 12, 28, 29, 30, 31, 133, 160 :: nat}
      = set [CHR '' '', CHR 0x0A, CHR 0x0D, CHR 0x09, CHR 0x0B, CHR 0x0C, CHR 0x1C, CHR 0x1D, CHR 0x1E,
        CHR 0x1F, CHR 0x85, CHR 0xA0]"
    by code_simp
  finally show ?thesis .
qed

lemma is_line_break_code [code]:
  "is_line_break c \<longleftrightarrow> c \<in> set [CHR 0x0A, CHR 0x0D, CHR 0x0B, CHR 0x0C, CHR 0x1C, CHR 0x1D, CHR 0x1E, CHR 0x85]"
proof -
  have "is_line_break c \<longleftrightarrow> code c \<in> {10, 13, 11, 12, 28, 29, 30, 133}"
    unfolding is_line_break_def by auto
  also have "\<dots> \<longleftrightarrow> c \<in> char_of ` {10, 13, 11, 12, 28, 29, 30, 133 :: nat}"
    by (simp add: code_eq)
  also have "char_of ` {10, 13, 11, 12, 28, 29, 30, 133 :: nat}
      = set [CHR 0x0A, CHR 0x0D, CHR 0x0B, CHR 0x0C, CHR 0x1C, CHR 0x1D, CHR 0x1E, CHR 0x85]"
    by code_simp
  finally show ?thesis .
qed

end
