(* ===== verification/Vlan_Observation.thy ===== *)
theory Vlan_Observation
  imports Vlan_Service Show_Text Underlay_Render
begin

text \<open>
  \<^verbatim>\<open>vlan_service.py\<close>, from the devices to the change artifacts: the observation models and their
  validators, the parsers of the core router and of the access switch, the collection through the
  two admitted profiles, and \<open>render_vlan_changes\<close>.
\<close>

section \<open>Observation\<close>

record observed_core_vlan =
  oc_interface :: stable_interface
  oc_exists :: bool
  oc_admin_enabled :: "bool option"
  oc_encapsulation_vlan :: "nat option"
  oc_ipv4_addresses :: "ipv4_interface list"
  oc_ospf_participating :: bool

definition observed_core_vlan_valid :: "observed_core_vlan \<Rightarrow> unit res" where
  "observed_core_vlan_valid s = checks
    [(\<not> stable_interface_valid (oc_interface s) \<or> \<not> list_all wf_interface (oc_ipv4_addresses s),
       ValueError ''fields''),
     (\<not> oc_exists s \<and> (oc_admin_enabled s \<noteq> None \<or> oc_encapsulation_vlan s \<noteq> None
        \<or> oc_ipv4_addresses s \<noteq> [] \<or> oc_ospf_participating s),
       ValueError ''absent core VLAN interface has observed state''),
     (1 < length (oc_ipv4_addresses s) \<or> oc_ospf_participating s,
       ValueError ''core VLAN interface state is unsupported'')]"

record observed_access_vlan =
  ov_vid :: nat
  ov_present :: bool
  ov_name :: "string option"
  ov_member_interfaces :: "string list"

record observed_access_port =
  op_interface :: stable_interface
  op_mode :: string
  op_admin_enabled :: bool
  op_allowed_vlans :: "nat list"
  op_access_vlan :: "nat option"
  op_native_vlan :: "nat option"
  op_voice_vlan :: "nat option"

definition observed_access_port_valid :: "observed_access_port \<Rightarrow> unit res" where
  "observed_access_port_valid p = checks
    [(\<not> stable_interface_valid (op_interface p), ValueError ''interface''),
     (op_native_vlan p \<in> {Some 10, Some 20} \<or> op_voice_vlan p \<noteq> None
        \<or> op_mode p \<notin> {''access'', ''trunk'', ''dynamic auto'', ''dynamic desirable'', ''none''},
       ValueError ''access switchport state is unsupported'')]"

record vlan_observation =
  vo_observed_at :: py_datetime
  vo_core_parent :: observed_core_vlan
  vo_core_subinterfaces :: "observed_core_vlan list"
  vo_access_vlans :: "observed_access_vlan list"
  vo_access_ports :: "observed_access_port list"
  vo_access_gateway_svis :: "string list"

definition EXPECTED_MEMBERS :: "string list" where
  "EXPECTED_MEMBERS = [''GigabitEthernet0/1'', ''GigabitEthernet0/2'', ''GigabitEthernet0/3'']"

definition vlan_observation_valid :: "vlan_observation \<Rightarrow> unit res" where
  "vlan_observation_valid s = checks
    [(si_interface (oc_interface (vo_core_parent s)) \<noteq> ''netbox:dcim.interface:7''
      \<or> oc_ipv4_addresses (vo_core_parent s) \<noteq> []
      \<or> map (si_interface \<circ> oc_interface) (vo_core_subinterfaces s)
          \<noteq> [''netbox:dcim.interface:21'', ''netbox:dcim.interface:22'']
      \<or> map ov_vid (vo_access_vlans s) \<noteq> [10, 20]
      \<or> map (si_interface \<circ> op_interface) (vo_access_ports s)
          \<noteq> [''netbox:dcim.interface:18'', ''netbox:dcim.interface:19'', ''netbox:dcim.interface:20'']
      \<or> vo_access_gateway_svis s \<noteq> [], ValueError ''VLAN observation conflicts with managed envelope''),
     (list_ex (\<lambda>v. \<not> subset_list (ov_member_interfaces v) EXPECTED_MEMBERS) (vo_access_vlans s),
       ValueError ''service VLAN is attached to an unexpected port'')]"

definition observed_core_vlan_json :: "observed_core_vlan \<Rightarrow> json" where
  "observed_core_vlan_json s = JObj
    [(''interface'', interface_json (oc_interface s)), (''exists'', JBool (oc_exists s)),
     (''admin_enabled'', jopt JBool (oc_admin_enabled s)),
     (''encapsulation_vlan'', vlan_id_json (oc_encapsulation_vlan s)),
     (''ipv4_addresses'', addresses_json (oc_ipv4_addresses s)),
     (''ospf_participating'', JBool (oc_ospf_participating s))]"

definition observed_access_vlan_json :: "observed_access_vlan \<Rightarrow> json" where
  "observed_access_vlan_json v = JObj
    [(''vid'', JInt (int (ov_vid v))), (''present'', JBool (ov_present v)), (''name'', jopt JStr (ov_name v)),
     (''member_interfaces'', JArr (map JStr (ov_member_interfaces v)))]"

definition observed_access_port_json :: "observed_access_port \<Rightarrow> json" where
  "observed_access_port_json p = JObj
    [(''interface'', interface_json (op_interface p)), (''mode'', JStr (op_mode p)),
     (''admin_enabled'', JBool (op_admin_enabled p)), (''allowed_vlans'', vlan_ids_json (op_allowed_vlans p)),
     (''access_vlan'', vlan_id_json (op_access_vlan p)), (''native_vlan'', vlan_id_json (op_native_vlan p)),
     (''voice_vlan'', vlan_id_json (op_voice_vlan p))]"

definition vlan_observation_json :: "vlan_observation \<Rightarrow> json" where
  "vlan_observation_json s = JObj
    [(''schema_version'', JStr ''1''), (''core_parent'', observed_core_vlan_json (vo_core_parent s)),
     (''core_subinterfaces'', JArr (map observed_core_vlan_json (vo_core_subinterfaces s))),
     (''access_vlans'', JArr (map observed_access_vlan_json (vo_access_vlans s))),
     (''access_ports'', JArr (map observed_access_port_json (vo_access_ports s))),
     (''access_gateway_svis'', JArr (map JStr (vo_access_gateway_svis s)))]"

definition vlan_managed_digest :: "(string \<Rightarrow> string) \<Rightarrow> vlan_observation \<Rightarrow> string" where
  "vlan_managed_digest sha s = sha256_identity sha (canonical_json_bytes (vlan_observation_json s))"

section \<open>The core router\<close>

text \<open>\<^verbatim>\<open>^\s*ip address (\S+) (\S+)\<close>\<close>

definition ip_address_line :: "string \<Rightarrow> (string \<times> string) option" where
  "ip_address_line line = (case after_prefix ''ip address '' (lstrip line) of
       None \<Rightarrow> None
     | Some r \<Rightarrow>
         (case after_prefix '' '' (drop (length (word_of r)) r) of
            None \<Rightarrow> None
          | Some m \<Rightarrow> if word_of r = [] \<or> word_of m = [] then None else Some (word_of r, word_of m)))"

definition ip_interfaces :: "string \<Rightarrow> ipv4_interface list res" where
  "ip_interfaces raw =
    mapS (\<lambda>(address, m).
      if address = ''dhcp'' then Inl (provider_error ''dynamic address is unsupported in VLAN envelope'')
      else read_address (address @ ''/'' @ m))
    (List.map_filter ip_address_line (text_lines raw))"

text \<open>\<^verbatim>\<open>^\s*encapsulation dot1Q (\d+)(?:\s|$)\<close> and \<^verbatim>\<open>encapsulation dot1Q \d+\s+native\<close>\<close>

definition encapsulation_line :: "string \<Rightarrow> nat option" where
  "encapsulation_line line = (case after_prefix ''encapsulation dot1Q '' (lstrip line) of
       None \<Rightarrow> None
     | Some r \<Rightarrow>
         let d = digits_of r; rest = drop (length d) r
         in if d \<noteq> [] \<and> (rest = [] \<or> is_space (hd rest)) then Some (digits_val d) else None)"

fun native_encapsulation :: "string \<Rightarrow> bool" where
  "native_encapsulation [] = False"
| "native_encapsulation (c # cs) =
     ((case after_prefix ''encapsulation dot1Q '' (c # cs) of
         None \<Rightarrow> False
       | Some r \<Rightarrow>
           let d = digits_of r; rest = drop (length d) r
           in d \<noteq> [] \<and> rest \<noteq> [] \<and> is_space (hd rest) \<and> starts_with ''native'' (lstrip rest))
      \<or> native_encapsulation cs)"

text \<open>\<^verbatim>\<open>^\s*ip ospf\b\<close>\<close>

definition ospf_line :: "string \<Rightarrow> bool" where
  "ospf_line line = (case after_prefix ''ip ospf'' (lstrip line) of
       None \<Rightarrow> False | Some r \<Rightarrow> r = [] \<or> \<not> is_word (hd r))"

definition subinterface_config :: "string list \<Rightarrow> string \<Rightarrow> string" where
  "subinterface_config sections name =
    (case List.find (starts_with (''interface '' @ name @ [CHR 0x0A])) sections of
       Some s \<Rightarrow> s | None \<Rightarrow> [])"

definition parse_subinterface :: "string list \<Rightarrow> vlan_gateway_intent \<Rightarrow> observed_core_vlan res" where
  "parse_subinterface sections g =
    (let name = si_name (vgi_subinterface g); config = subinterface_config sections name;
         exists = contains (''interface '' @ name) config \<and> \<not> contains ''Invalid input'' config;
         encapsulations = List.map_filter encapsulation_line (text_lines config)
     in bindS (checks
          [(exists \<and> (1 < length encapsulations \<or> native_encapsulation config),
            provider_error ''core VLAN encapsulation is unsupported'')]) (\<lambda>_.
        bindS (if exists then ip_interfaces config else Inr []) (\<lambda>addresses.
        checked observed_core_vlan_valid
         \<lparr>oc_interface = vgi_subinterface g, oc_exists = exists,
          oc_admin_enabled = (if exists then Some (\<not> contains ''shutdown'' config) else None),
          oc_encapsulation_vlan = (case encapsulations of [] \<Rightarrow> None | e # _ \<Rightarrow> Some e),
          oc_ipv4_addresses = addresses,
          oc_ospf_participating = (exists \<and> list_ex ospf_line (text_lines config))\<rparr>)))"

definition parse_core_vlan ::
    "vlan_service_intent \<Rightarrow> string list \<Rightarrow> (observed_core_vlan \<times> observed_core_vlan list) res" where
  "parse_core_vlan i raw = (case raw of
       [parent_raw, subinterface_raw, ospf_raw] \<Rightarrow>
         bindS (checks
           [(list_ex (\<lambda>l. starts_with ''interface GigabitEthernet3.'' l
                \<and> l \<notin> {''interface GigabitEthernet3.10'', ''interface GigabitEthernet3.20''})
              (map py_strip (splitlines subinterface_raw)),
              provider_error ''unexpected core VLAN subinterface exists''),
            (contains ''encapsulation dot1Q'' parent_raw \<or> contains ''ip ospf'' parent_raw,
              provider_error ''core VLAN parent configuration is unsupported'')]) (\<lambda>_.
         bindS (ip_interfaces parent_raw) (\<lambda>parent_addresses.
         bindS (checked observed_core_vlan_valid
           \<lparr>oc_interface = rvs_core_parent (vsi_source_vlan_service i), oc_exists = True,
            oc_admin_enabled = Some (\<not> contains ''shutdown'' parent_raw), oc_encapsulation_vlan = None,
            oc_ipv4_addresses = parent_addresses, oc_ospf_participating = False\<rparr>) (\<lambda>parent.
         bindS (mapS (parse_subinterface (interface_sections subinterface_raw)) (vsi_gateways i)) (\<lambda>states.
         bindS (checks
           [(contains ''GigabitEthernet3.10'' ospf_raw \<or> contains ''GigabitEthernet3.20'' ospf_raw,
              provider_error ''core gateway subinterface participates in OSPF'')]) (\<lambda>_.
         Inr (parent, states))))))
     | _ \<Rightarrow> Inl (provider_error ''core VLAN read-only result was incomplete''))"

section \<open>The access switch\<close>

text \<open>\<^verbatim>\<open>^label:\s*(.+?)\s*$\<close>, ignoring case, and the stripped group. The white space after the colon may
  contain newlines; when nothing but white space follows, the group is one character of it.\<close>

fun ci_prefix :: "string \<Rightarrow> string \<Rightarrow> bool" where
  "ci_prefix [] s = True"
| "ci_prefix (c # cs) [] = False"
| "ci_prefix (c # cs) (d # ds) = ((c = d \<or> lower_ascii c = lower_ascii d) \<and> ci_prefix cs ds)"

definition switchport_line :: "string \<Rightarrow> string \<Rightarrow> string option" where
  "switchport_line label s =
    (let p = label @ '':''
     in if ci_prefix p s
        then let r = drop (length p) s; v = lstrip r
             in if v \<noteq> [] then Some (py_strip (hd (text_lines v)))
                else if list_ex (\<lambda>c. c \<noteq> CHR 0x0A) r then Some [] else None
        else None)"

definition switchport_value :: "string \<Rightarrow> string \<Rightarrow> string option" where
  "switchport_value raw label = first_match (switchport_line label) (from_line_starts raw)"

text \<open>A part of a VLAN list: \<^verbatim>\<open>str.isdigit\<close> also holds of the superscripts, which \<open>int\<close> rejects.\<close>

definition vlan_part :: "string \<Rightarrow> nat list res" where
  "vlan_part part =
    (if CHR ''-'' \<in> set part
     then let a = takeWhile (\<lambda>c. c \<noteq> CHR ''-'') part; b = tl (dropWhile (\<lambda>c. c \<noteq> CHR ''-'') part)
          in case (py_int a, py_int b) of
               (Some m, Some n) \<Rightarrow> Inr (map nat [m..n])
             | _ \<Rightarrow> Inl (ValueError ''invalid literal for int()'')
     else if part \<noteq> [] \<and> list_all (\<lambda>c. is_digit c \<or> code c \<in> {178, 179, 185}) part
     then if list_all is_digit part then Inr [digits_val part] else Inl (ValueError ''invalid literal for int()'')
     else Inr [])"

definition vlan_set :: "string option \<Rightarrow> nat list res" where
  "vlan_set value = (case value of
       None \<Rightarrow> Inr []
     | Some v \<Rightarrow>
         if v = [] \<or> casefold v = ''none'' then Inr []
         else if casefold v = ''all'' then Inr [1..<4095]
         else bindS (mapS (vlan_part \<circ> py_strip) (split_on CHR '','' v)) (\<lambda>vss.
           Inr (sort (remdups (concat vss)))))"

text \<open>\<^verbatim>\<open>^\s*10\s+(\S+)\s+\S+\s*(.*?)\s*$\<close>: the name and the text of the members. The white space after
  the status runs over a newline when the line ends there, and then the group is the next line.\<close>

definition vlan_row :: "nat \<Rightarrow> string \<Rightarrow> (string \<times> string) option" where
  "vlan_row vid s = (case after_prefix (nat_str vid) (lstrip s) of
       None \<Rightarrow> None
     | Some a \<Rightarrow>
         let n = lstrip a; b = drop (length (word_of n)) n; status = lstrip b;
             rest = lstrip (drop (length (word_of status)) status)
         in if a = n \<or> n = [] \<or> b = status \<or> status = [] then None
            else Some (word_of n, rstrip (hd (text_lines rest))))"

definition port_at :: "string \<Rightarrow> string \<Rightarrow> string option" where
  "port_at p s = (case after_prefix p s of
       None \<Rightarrow> None
     | Some r \<Rightarrow>
         let m = digits_of r; t = drop (length m) r
         in if m = [] \<or> t = [] \<or> hd t \<noteq> CHR ''/'' \<or> digits_of (tl t) = [] then None
            else Some (p @ m @ ''/'' @ digits_of (tl t)))"

text \<open>\<^verbatim>\<open>re.findall(r"Gi\d+/\d+|GigabitEthernet\d+/\d+", s)\<close>; the first argument counts the characters
  of the match that are still to be passed over.\<close>

fun port_names :: "nat \<Rightarrow> string \<Rightarrow> string list" where
  "port_names k [] = []"
| "port_names (Suc k) (c # cs) = port_names k cs"
| "port_names 0 (c # cs) =
     (case port_at ''Gi'' (c # cs) of
        Some n \<Rightarrow> n # port_names (length n - 1) cs
      | None \<Rightarrow>
          (case port_at ''GigabitEthernet'' (c # cs) of
             Some n \<Rightarrow> n # port_names (length n - 1) cs
           | None \<Rightarrow> port_names 0 cs))"

definition full_port_name :: "string \<Rightarrow> string" where
  "full_port_name n = (case after_prefix ''Gi'' n of Some r \<Rightarrow> ''GigabitEthernet'' @ r | None \<Rightarrow> n)"

definition parse_access_vlan_row :: "string \<Rightarrow> nat \<Rightarrow> observed_access_vlan" where
  "parse_access_vlan_row vlan_raw vid =
    (case first_match (vlan_row vid) (from_line_starts vlan_raw) of
       None \<Rightarrow> \<lparr>ov_vid = vid, ov_present = False, ov_name = None, ov_member_interfaces = []\<rparr>
     | Some (name, members) \<Rightarrow>
         \<lparr>ov_vid = vid, ov_present = True, ov_name = Some name,
          ov_member_interfaces = map full_port_name (port_names 0 members)\<rparr>)"

definition or_none :: "string option \<Rightarrow> string" where
  "or_none v = (case v of None \<Rightarrow> ''none'' | Some s \<Rightarrow> if s = [] then ''none'' else s)"

definition parse_access_port :: "stable_interface \<times> string \<times> string \<Rightarrow> observed_access_port res" where
  "parse_access_port = (\<lambda>(interface, switchport, config).
     let admin_mode = casefold (or_none (switchport_value switchport ''Administrative Mode''));
         number = (\<lambda>label. case switchport_value switchport label of None \<Rightarrow> None | Some s \<Rightarrow> first_int s)
     in bindS (checks
          [(list_ex (\<lambda>v. contains v (casefold config))
              [''switchport voice vlan'', ''switchport mode dot1q-tunnel'', ''private-vlan'', ''channel-group''],
            provider_error ''access switchport feature is unsupported'')]) (\<lambda>_.
        bindS (if contains ''trunk'' admin_mode
               then vlan_set (switchport_value switchport ''Trunking VLANs Enabled'') else Inr []) (\<lambda>allowed.
        checked observed_access_port_valid
         \<lparr>op_interface = interface, op_mode = admin_mode,
          op_admin_enabled = (\<not> contains ''shutdown'' config), op_allowed_vlans = allowed,
          op_access_vlan = number ''Access Mode VLAN'', op_native_vlan = number ''Trunking Native Mode VLAN'',
          op_voice_vlan =
            (if casefold (or_none (switchport_value switchport ''Voice VLAN'')) = ''none'' then None
             else number ''Voice VLAN'')\<rparr>)))"

definition parse_access_vlan ::
    "vlan_service_intent \<Rightarrow> string list
      \<Rightarrow> (observed_access_vlan list \<times> observed_access_port list \<times> string list) res" where
  "parse_access_vlan i raw = (case raw of
       [vlan_raw, s1, s2, s3, c1, c2, c3, svi_raw] \<Rightarrow>
         bindS (mapS parse_access_port
           (zip (vsi_trunk i # map vpi_interface (vsi_access_ports i)) [(s1, c1), (s2, c2), (s3, c3)])) (\<lambda>ports.
         Inr (map (parse_access_vlan_row vlan_raw) [10, 20], ports,
              filter (\<lambda>n. contains (''interface '' @ n) svi_raw) [''Vlan10'', ''Vlan20'']))
     | _ \<Rightarrow> Inl (provider_error ''access VLAN read-only result was incomplete''))"


section \<open>Collection\<close>

text \<open>Credentials and the Cisco collector answer as functions of the history; a call is one event.\<close>

datatype collector_event =
    Loaded_Credentials profiled_inventory_device "device_credentials res"
  | Collected_Text profile_read_only_target string "string list res"

type_synonym 'a collecting = "(collector_event, exn, 'a) eff"

record show_collector =
  sc_load :: "collector_event list \<Rightarrow> profiled_inventory_device \<Rightarrow> device_credentials res"
  sc_collect :: "collector_event list \<Rightarrow> profile_read_only_target \<Rightarrow> device_credentials \<Rightarrow> string \<Rightarrow> string list res"
  sc_now :: "collector_event list \<Rightarrow> py_datetime"

definition load_credentials :: "show_collector \<Rightarrow> profiled_inventory_device \<Rightarrow> device_credentials collecting" where
  "load_credentials c d = askE (\<lambda>h. sc_load c h d) (Loaded_Credentials d)"

definition collect_show ::
    "show_collector \<Rightarrow> profile_read_only_target \<Rightarrow> device_credentials \<Rightarrow> string \<Rightarrow> string list collecting" where
  "collect_show c t k scope = askE (\<lambda>h. sc_collect c h t k scope) (Collected_Text t scope)"

definition device_named :: "profiled_inventory_device list \<Rightarrow> string \<Rightarrow> profiled_inventory_device res" where
  "device_named ds n = lookup (rev (map (\<lambda>d. (dv_logical_name d, d)) ds)) n"

definition VLAN_SERVICE_SCOPE :: "profiled_population_scope res" where
  "VLAN_SERVICE_SCOPE = population_scope ''vlan-service'' VLAN_DEVICE_IDENTITIES PROFILED_MANAGED_POPULATION"

text \<open>\<open>ProfileVlanReadOnlyAdapter.collect\<close> for the two admitted profiles: which one a device is, and
  the text its scope collects.\<close>

datatype vlan_read_scope = CORE_Scope | ACCESS_Scope

fun vlan_read_scope_value :: "vlan_read_scope \<Rightarrow> string" where
  "vlan_read_scope_value CORE_Scope = ''core_vlan_service''"
| "vlan_read_scope_value ACCESS_Scope = ''access_vlan_service''"

definition admitted_vlan_scope :: "profiled_inventory_device \<Rightarrow> vlan_read_scope res" where
  "admitted_vlan_scope d =
    (if dv_logical_name d = ''core-02'' \<and> dv_automation_profile_id d = CAT8000V_IOSXE then Inr CORE_Scope
     else if dv_logical_name d = ''access-sw-01'' \<and> dv_automation_profile_id d = IOSVL2_2020 then Inr ACCESS_Scope
     else Inl (provider_error ''profile is not admitted for VLAN observation''))"

definition collect_vlan_text ::
    "show_collector \<Rightarrow> profiled_inventory_device \<Rightarrow> device_credentials \<Rightarrow> (vlan_read_scope \<times> string list) collecting" where
  "collect_vlan_text c d k =
    bindE (liftE (live_read_only_target d)) (\<lambda>t.
    bindE (liftE (admitted_vlan_scope d)) (\<lambda>s.
    bindE (collect_show c t k (vlan_read_scope_value s)) (\<lambda>raw. ret (s, raw))))"

text \<open>The devices are looked up by their literal names, so the scope of each is the one of its name, and
  a result of the other shape cannot be unpacked.\<close>

definition collect_vlan_observation ::
    "show_collector \<Rightarrow> vlan_service_intent \<Rightarrow> profiled_inventory_population \<Rightarrow> vlan_observation collecting" where
  "collect_vlan_observation c i population =
    bindE (liftE (bindS VLAN_SERVICE_SCOPE (project_scope population))) (\<lambda>selected.
    bindE (liftE (device_named (sc_devices selected) ''core-02'')) (\<lambda>core.
    bindE (liftE (device_named (sc_devices selected) ''access-sw-01'')) (\<lambda>access.
    bindE (load_credentials c core) (\<lambda>core_credentials.
    bindE (collect_vlan_text c core core_credentials) (\<lambda>(core_scope, core_raw).
    bindE (liftE (parse_core_vlan i core_raw)) (\<lambda>(parent, subinterfaces).
    bindE (load_credentials c access) (\<lambda>access_credentials.
    bindE (collect_vlan_text c access access_credentials) (\<lambda>(access_scope, access_raw).
    bindE (liftE (parse_access_vlan i access_raw)) (\<lambda>(vlans, ports, svis).
    bindE (\<lambda>h. (Inr (sc_now c h), h)) (\<lambda>now.
    let s = \<lparr>vo_observed_at = now, vo_core_parent = parent, vo_core_subinterfaces = subinterfaces,
             vo_access_vlans = vlans, vo_access_ports = ports, vo_access_gateway_svis = svis\<rparr>
    in liftE (checked vlan_observation_valid s)))))))))))"

section \<open>The change\<close>

record vlan_rendered_target =
  vrt_device_identity :: string
  vrt_logical_name :: string
  vrt_profile :: automation_profile_id
  vrt_observation_digest :: string
  vrt_desired_digest :: string
  vrt_payload :: string

definition core_gateway_lines :: "desired_vlan_gateway \<times> observed_core_vlan \<Rightarrow> string list" where
  "core_gateway_lines = (\<lambda>(wanted, seen).
     [''interface '' @ si_name (dvg_subinterface wanted)]
     @ (case oc_encapsulation_vlan seen of
          Some v \<Rightarrow> if v \<noteq> dvg_vid wanted then ['' no encapsulation dot1Q '' @ nat_str v] else []
        | None \<Rightarrow> [])
     @ map (\<lambda>a. '' no ip address '' @ ios_address a) (filter (\<lambda>a. a \<noteq> dvg_gateway wanted) (oc_ipv4_addresses seen))
     @ ['' encapsulation dot1Q '' @ nat_str (dvg_vid wanted), '' ip address '' @ ios_address (dvg_gateway wanted),
        '' no shutdown''])"

definition core_vlan_lines :: "vlan_observation \<Rightarrow> vlan_desired \<Rightarrow> string list" where
  "core_vlan_lines s d = [''interface GigabitEthernet3'']
     @ map (\<lambda>a. '' no ip address '' @ ios_address a) (oc_ipv4_addresses (vo_core_parent s))
     @ ['' no ip address'', '' no shutdown'']
     @ concat (map core_gateway_lines (zip (vd_gateways d) (vo_core_subinterfaces s)))"

definition access_port_lines :: "desired_vlan_port \<Rightarrow> string list" where
  "access_port_lines p = [''interface '' @ si_name (dvp_interface p), '' switchport'']
     @ (if dvp_mode p = ''trunk'' then ['' switchport mode trunk'', '' switchport trunk allowed vlan 10,20'']
        else ['' switchport mode access'', '' switchport access vlan '' @
          (case dvp_access_vlan p of Some v \<Rightarrow> nat_str v | None \<Rightarrow> ''None'')])
     @ ['' no shutdown'']"

definition access_vlan_lines :: "vlan_desired \<Rightarrow> string list" where
  "access_vlan_lines d =
     concat (map (\<lambda>g. [''vlan '' @ nat_str (dvg_vid g), '' name '' @ dvg_name g]) (vd_gateways d))
     @ concat (map access_port_lines (vd_access_ports d))"

definition render_vlan_changes ::
    "(string \<Rightarrow> string) \<Rightarrow> vlan_service_intent \<Rightarrow> vlan_observation \<Rightarrow> vlan_desired
      \<Rightarrow> (vlan_rendered_target \<times> vlan_rendered_target) res" where
  "render_vlan_changes sha i s d =
    bindS (build_vlan_desired sha i) (\<lambda>e.
    bindS (checks [(d \<noteq> e, ValueError ''VLAN desired state is detached from intent'')]) (\<lambda>_.
    Inr (\<lparr>vrt_device_identity = ''netbox:dcim.device:1'', vrt_logical_name = ''core-02'',
          vrt_profile = CAT8000V_IOSXE, vrt_observation_digest = vlan_managed_digest sha s,
          vrt_desired_digest = vd_digest d, vrt_payload = lines_text (core_vlan_lines s d)\<rparr>,
         \<lparr>vrt_device_identity = ''netbox:dcim.device:9'', vrt_logical_name = ''access-sw-01'',
          vrt_profile = IOSVL2_2020, vrt_observation_digest = vlan_managed_digest sha s,
          vrt_desired_digest = vd_digest d, vrt_payload = lines_text (access_vlan_lines d)\<rparr>)))"

end
