(* ===== verification/Security_Policy.thy ===== *)
theory Security_Policy
  imports Vlan_Observation
begin

text \<open>
  \<^verbatim>\<open>security_policy.py\<close>: the ACL between the USERS and the SERVERS prefixes. The intent and its
  desired state over the accepted allocations, the ownership envelope, the observation with its
  parser and its collection, and the change artifact. The literal fields (policy identity and name,
  device, direction, default action) are constants.
\<close>

section \<open>Rules\<close>

definition ACL_POLICY_IDENTITY :: string where
  "ACL_POLICY_IDENTITY = ''git:policy:users-servers-https''"

definition ACL_NAME :: string where
  "ACL_NAME = ''NCDP-SERVERS-PROTECT-OUT''"

definition ACL_TARGET_DEVICE :: string where
  "ACL_TARGET_DEVICE = ''netbox:dcim.device:1''"

definition ACL_TARGET_INTERFACE_IDENTITY :: string where
  "ACL_TARGET_INTERFACE_IDENTITY = ''netbox:dcim.interface:22''"

definition ACL_TARGET_INTERFACE_NAME :: string where
  "ACL_TARGET_INTERFACE_NAME = ''GigabitEthernet3.20''"

definition ACCEPTED_ACL_D1_DIGEST :: string where
  "ACCEPTED_ACL_D1_DIGEST = ''sha256:e4b8c5485d87476b4132351f5a9059bd7f9603a5205966834e9220ab70349b0d''"

datatype acl_action = Permit | Deny

datatype acl_protocol = IP_Protocol | TCP_Protocol

fun acl_action_value :: "acl_action \<Rightarrow> string" where
  "acl_action_value Permit = ''permit''"
| "acl_action_value Deny = ''deny''"

fun acl_protocol_value :: "acl_protocol \<Rightarrow> string" where
  "acl_protocol_value IP_Protocol = ''ip''"
| "acl_protocol_value TCP_Protocol = ''tcp''"

record acl_match =
  am_prefix_identity :: "string option"
  am_prefix :: "ipv4_network option"
  am_any :: bool

record acl_rule =
  ar_sequence :: nat
  ar_action :: acl_action
  ar_protocol :: acl_protocol
  ar_source :: acl_match
  ar_destination :: acl_match
  ar_destination_port :: "nat option"

definition acl_match_valid :: "acl_match \<Rightarrow> unit res" where
  "acl_match_valid m = checks
    [(case am_prefix m of None \<Rightarrow> False | Some n \<Rightarrow> \<not> wf_network n, ValueError ''prefix''),
     (am_any m \<noteq> (am_prefix_identity m = None \<and> am_prefix m = None),
       ValueError ''ACL address match is ambiguous''),
     (\<not> am_any m \<and> am_prefix_identity m \<in> {None, Some []}, ValueError ''ACL prefix identity is missing'')]"

definition acl_rule_valid :: "acl_rule \<Rightarrow> unit res" where
  "acl_rule_valid r =
    bindS (acl_match_valid (ar_source r)) (\<lambda>_.
    bindS (acl_match_valid (ar_destination r)) (\<lambda>_. checks
     [(ar_sequence r \<notin> {10, 20, 30}, ValueError ''sequence''),
      (ar_destination_port r \<notin> {None, Some 443}, ValueError ''destination_port''),
      ((ar_destination_port r \<noteq> None) \<noteq> (ar_protocol r = TCP_Protocol),
        ValueError ''ACL destination port does not match protocol'')]))"

definition prefix_match :: "vlan_gateway_allocation \<Rightarrow> acl_match" where
  "prefix_match g = \<lparr>am_prefix_identity = Some (vga_prefix_identity g), am_prefix = Some (vga_prefix g), am_any = False\<rparr>"

definition any_match :: acl_match where
  "any_match = \<lparr>am_prefix_identity = None, am_prefix = None, am_any = True\<rparr>"

definition expected_rules :: "reference_vlan_service \<Rightarrow> acl_rule list res" where
  "expected_rules v = (case rvs_gateways v of
       [users, servers] \<Rightarrow>
         let rs =
          [\<lparr>ar_sequence = 10, ar_action = Permit, ar_protocol = TCP_Protocol, ar_source = prefix_match users,
            ar_destination = prefix_match servers, ar_destination_port = Some 443\<rparr>,
           \<lparr>ar_sequence = 20, ar_action = Deny, ar_protocol = IP_Protocol, ar_source = prefix_match users,
            ar_destination = prefix_match servers, ar_destination_port = None\<rparr>,
           \<lparr>ar_sequence = 30, ar_action = Permit, ar_protocol = IP_Protocol, ar_source = any_match,
            ar_destination = any_match, ar_destination_port = None\<rparr>]
         in bindS (mapS acl_rule_valid rs) (\<lambda>_. Inr rs)
     | _ \<Rightarrow> Inl (ValueError ''not enough values to unpack''))"

section \<open>Intent and desired state\<close>

record acl_intent =
  ai_source_data_plane :: reference_data_plane
  ai_source_vlan_service :: reference_vlan_service
  ai_vlan_d1_dependency :: string
  ai_rules :: "acl_rule list"
  ai_attachment :: stable_interface

definition acl_intent_valid :: "(string \<Rightarrow> string) \<Rightarrow> acl_intent \<Rightarrow> unit res" where
  "acl_intent_valid sha i =
    bindS (reference_allocation_valid (ai_source_data_plane i)) (\<lambda>_.
    bindS (reference_vlan_valid (ai_source_vlan_service i)) (\<lambda>_.
    bindS (mapS acl_rule_valid (ai_rules i)) (\<lambda>_.
    bindS (checks
     [(ai_vlan_d1_dependency i \<noteq> ACCEPTED_VLAN_D1_DIGEST, ValueError ''vlan_d1_dependency''),
      (length (ai_rules i) \<noteq> 3, ValueError ''rules''),
      (\<not> stable_interface_valid (ai_attachment i), ValueError ''attachment'')]) (\<lambda>_.
    bindS (expected_rules (ai_source_vlan_service i)) (\<lambda>expected. checks
     [(reference_allocation_digest sha (ai_source_data_plane i) \<noteq> ACCEPTED_REFERENCE_ALLOCATION_DIGEST
       \<or> vlan_service_allocation_digest sha (ai_source_vlan_service i) \<noteq> ACCEPTED_VLAN_SERVICE_ALLOCATION_DIGEST
       \<or> ai_vlan_d1_dependency i \<noteq> ACCEPTED_VLAN_D1_DIGEST
       \<or> ai_rules i \<noteq> expected
       \<or> ai_attachment i \<noteq> vga_gateway_interface (rvs_gateways (ai_source_vlan_service i) ! 1)
       \<or> si_interface (ai_attachment i) \<noteq> ACL_TARGET_INTERFACE_IDENTITY,
       ValueError ''ACL intent is detached from accepted authority'')])))))"

definition acl_intent_from_allocations ::
    "(string \<Rightarrow> string) \<Rightarrow> reference_data_plane \<Rightarrow> reference_vlan_service \<Rightarrow> vlan_desired \<Rightarrow> acl_intent res" where
  "acl_intent_from_allocations sha a v d =
    bindS (expected_rules v) (\<lambda>rs.
    let i = \<lparr>ai_source_data_plane = a, ai_source_vlan_service = v, ai_vlan_d1_dependency = vd_digest d,
             ai_rules = rs, ai_attachment = vga_gateway_interface (rvs_gateways v ! 1)\<rparr>
    in bindS (acl_intent_valid sha i) (\<lambda>_. Inr i))"

record acl_desired =
  ad_source_data_plane_digest :: string
  ad_source_vlan_service_digest :: string
  ad_vlan_d1_dependency :: string
  ad_rules :: "acl_rule list"
  ad_attachment :: stable_interface
  ad_digest :: string

definition acl_match_json :: "acl_match \<Rightarrow> json" where
  "acl_match_json m = JObj
    [(''prefix_identity'', jopt JStr (am_prefix_identity m)),
     (''prefix'', jopt (\<lambda>n. JStr (network_str n)) (am_prefix m)), (''any'', JBool (am_any m))]"

definition acl_rule_json :: "acl_rule \<Rightarrow> json" where
  "acl_rule_json r = JObj
    [(''sequence'', JInt (int (ar_sequence r))), (''action'', JStr (acl_action_value (ar_action r))),
     (''protocol'', JStr (acl_protocol_value (ar_protocol r))), (''source'', acl_match_json (ar_source r)),
     (''destination'', acl_match_json (ar_destination r)),
     (''destination_port'', jopt (\<lambda>p. JInt (int p)) (ar_destination_port r))]"

definition acl_desired_json :: "acl_desired \<Rightarrow> json" where
  "acl_desired_json d = JObj
    [(''schema_version'', JStr ''1''), (''source_data_plane_digest'', JStr (ad_source_data_plane_digest d)),
     (''source_vlan_service_digest'', JStr (ad_source_vlan_service_digest d)),
     (''vlan_d1_dependency'', JStr (ad_vlan_d1_dependency d)),
     (''policy_identity'', JStr ACL_POLICY_IDENTITY), (''policy_name'', JStr ACL_NAME),
     (''rules'', JArr (map acl_rule_json (ad_rules d))),
     (''attachment'', JObj
       [(''device_identity'', JStr ACL_TARGET_DEVICE), (''interface'', interface_json (ad_attachment d)),
        (''direction'', JStr ''out'')]),
     (''effective_default_action'', JStr ''permit'')]"

definition acl_calculated_digest :: "(string \<Rightarrow> string) \<Rightarrow> acl_desired \<Rightarrow> string" where
  "acl_calculated_digest sha d = sha256_identity sha (canonical_json_bytes (acl_desired_json d))"

definition acl_desired_valid :: "(string \<Rightarrow> string) \<Rightarrow> acl_desired \<Rightarrow> unit res" where
  "acl_desired_valid sha d = checks
    [(ad_digest d \<noteq> acl_calculated_digest sha d \<or> ad_digest d \<noteq> ACCEPTED_ACL_D1_DIGEST,
      ValueError ''ACL desired-state digest is invalid'')]"

definition build_acl_desired :: "(string \<Rightarrow> string) \<Rightarrow> acl_intent \<Rightarrow> acl_desired res" where
  "build_acl_desired sha i =
    (let unsigned =
      \<lparr>ad_source_data_plane_digest = reference_allocation_digest sha (ai_source_data_plane i),
       ad_source_vlan_service_digest = vlan_service_allocation_digest sha (ai_source_vlan_service i),
       ad_vlan_d1_dependency = ai_vlan_d1_dependency i, ad_rules = ai_rules i,
       ad_attachment = ai_attachment i, ad_digest = zero_digest\<rparr>;
      d = unsigned\<lparr>ad_digest := acl_calculated_digest sha unsigned\<rparr>
     in bindS (acl_desired_valid sha d) (\<lambda>_. Inr d))"

definition acl_envelope :: "acl_intent \<Rightarrow> managed_ownership_envelope" where
  "acl_envelope i =
    \<lparr>oe_vertical = ACL, oe_envelope_version = 1, oe_targets = [ACL_TARGET_DEVICE],
     oe_scope =
      [scope_identity DEVICE_Scope ACL_TARGET_DEVICE,
       scope_identity INTERFACE_Scope (si_interface (ai_attachment i)),
       scope_identity PREFIX_Scope ''netbox:ipam.prefix:6'', scope_identity PREFIX_Scope ''netbox:ipam.prefix:7'',
       scope_identity POLICY_Scope ACL_POLICY_IDENTITY],
     oe_normalized_fields =
      [ACL_RULE_SEMANTICS, ACL_RULE_ORDER, ACL_ATTACHMENT, ACL_DIRECTION, ACL_DEFAULT_ACTION]\<rparr>"

definition build_acl_envelope :: "acl_intent \<Rightarrow> managed_ownership_envelope res" where
  "build_acl_envelope i = bindS (managed_ownership_envelope_valid (acl_envelope i)) (\<lambda>_. Inr (acl_envelope i))"

section \<open>Observation\<close>

record observed_attachment =
  oa_interface_name :: string
  oa_acl_name :: string
  oa_direction :: string

record acl_observation =
  ao_observed_at :: py_datetime
  ao_policy_present :: bool
  ao_reserved_acl_names :: "string list"
  ao_rules :: "acl_rule list"
  ao_attachments :: "observed_attachment list"

definition EXACT_ATTACHMENT :: observed_attachment where
  "EXACT_ATTACHMENT = \<lparr>oa_interface_name = ACL_TARGET_INTERFACE_NAME, oa_acl_name = ACL_NAME, oa_direction = ''out''\<rparr>"

definition acl_absent :: "acl_observation \<Rightarrow> bool" where
  "acl_absent s \<longleftrightarrow> \<not> ao_policy_present s \<and> ao_reserved_acl_names s = [] \<and> ao_rules s = [] \<and> ao_attachments s = []"

definition acl_exact :: "acl_observation \<Rightarrow> bool" where
  "acl_exact s \<longleftrightarrow> ao_policy_present s \<and> ao_reserved_acl_names s = [ACL_NAME]
     \<and> map ar_sequence (ao_rules s) = [10, 20, 30] \<and> ao_attachments s = [EXACT_ATTACHMENT]"

definition acl_observation_valid :: "acl_observation \<Rightarrow> unit res" where
  "acl_observation_valid s =
    bindS (mapS acl_rule_valid (ao_rules s)) (\<lambda>_. checks
     [(\<not> list_all (\<lambda>a. oa_direction a \<in> {''in'', ''out''}) (ao_attachments s), ValueError ''direction''),
      (\<not> (acl_absent s \<or> acl_exact s), ValueError ''ACL observation conflicts with managed namespace'')])"

definition attachment_json :: "observed_attachment \<Rightarrow> json" where
  "attachment_json a = JObj
    [(''interface_name'', JStr (oa_interface_name a)), (''acl_name'', JStr (oa_acl_name a)),
     (''direction'', JStr (oa_direction a))]"

definition acl_observation_json :: "acl_observation \<Rightarrow> json" where
  "acl_observation_json s = JObj
    [(''schema_version'', JStr ''1''), (''policy_present'', JBool (ao_policy_present s)),
     (''reserved_acl_names'', JArr (map JStr (ao_reserved_acl_names s))),
     (''rules'', JArr (map acl_rule_json (ao_rules s))),
     (''attachments'', JArr (map attachment_json (ao_attachments s)))]"

definition acl_managed_digest :: "(string \<Rightarrow> string) \<Rightarrow> acl_observation \<Rightarrow> string" where
  "acl_managed_digest sha s = sha256_identity sha (canonical_json_bytes (acl_observation_json s))"

section \<open>Text\<close>

text \<open>\<^verbatim>\<open>assert value.prefix is not None\<close>\<close>

definition match_cli :: "acl_match \<Rightarrow> string res" where
  "match_cli m =
    (if am_any m then Inr ''any''
     else case am_prefix m of
         Some n \<Rightarrow> Inr (ipv4_str (nw_address n) @ '' '' @ ipv4_str (hostmask (nw_prefix_length n)))
       | None \<Rightarrow> Inl (OtherException ''AssertionError''))"

definition rule_cli :: "acl_rule \<Rightarrow> string res" where
  "rule_cli r =
    bindS (match_cli (ar_source r)) (\<lambda>source.
    bindS (match_cli (ar_destination r)) (\<lambda>destination.
    Inr (nat_str (ar_sequence r) @ '' '' @ acl_action_value (ar_action r) @ '' ''
      @ acl_protocol_value (ar_protocol r) @ '' '' @ source @ '' '' @ destination
      @ (case ar_destination_port r of None \<Rightarrow> [] | Some p \<Rightarrow> '' eq '' @ nat_str p))))"

text \<open>\<^verbatim>\<open>^ip access-list extended (NCDP-[A-Z0-9-]+)\s*$\<close>\<close>

definition is_acl_name_char :: "char \<Rightarrow> bool" where
  "is_acl_name_char c \<longleftrightarrow> (65 \<le> code c \<and> code c \<le> 90) \<or> is_digit c \<or> c = CHR ''-''"

definition reserved_acl_line :: "string \<Rightarrow> string option" where
  "reserved_acl_line line = (case after_prefix ''ip access-list extended '' line of
       None \<Rightarrow> None
     | Some r \<Rightarrow>
         let n = takeWhile is_acl_name_char r
         in if starts_with ''NCDP-'' n \<and> 5 < length n \<and> all_space (drop (length n) r) then Some n else None)"

text \<open>\<^verbatim>\<open>^\s*ip access-group (\S+) (in|out)\s*$\<close>\<close>

definition access_group_line :: "string \<Rightarrow> (string \<times> string) option" where
  "access_group_line line = (case after_prefix ''ip access-group '' (lstrip line) of
       None \<Rightarrow> None
     | Some r \<Rightarrow>
         (case after_prefix '' '' (drop (length (word_of r)) r) of
            None \<Rightarrow> None
          | Some d \<Rightarrow>
              if word_of r \<noteq> [] \<and> word_of d \<in> {''in'', ''out''} \<and> all_space (drop (length (word_of d)) d)
              then Some (word_of r, word_of d) else None))"

definition section_attachments :: "string \<Rightarrow> observed_attachment list" where
  "section_attachments s = (case section_interface s of
       None \<Rightarrow> []
     | Some i \<Rightarrow>
         if i \<in> {''GigabitEthernet3.10'', ACL_TARGET_INTERFACE_NAME}
         then map (\<lambda>(n, d). \<lparr>oa_interface_name = i, oa_acl_name = n, oa_direction = d\<rparr>)
           (List.map_filter access_group_line (text_lines s))
         else [])"

text \<open>The interfaces of the attachment map whose section attaches the managed ACL.\<close>

definition mapped_interface :: "string \<Rightarrow> string option" where
  "mapped_interface s =
    (if list_ex (\<lambda>l. case access_group_line l of Some (n, d) \<Rightarrow> n = ACL_NAME | None \<Rightarrow> False) (text_lines s)
     then section_interface s else None)"

definition policy_lines :: "string \<Rightarrow> string list" where
  "policy_lines raw = filter (\<lambda>l. l \<noteq> [] \<and> l \<noteq> ''ip access-list extended '' @ ACL_NAME \<and> l \<noteq> ''!'')
     (map py_strip (splitlines raw))"

definition parse_acl_observation :: "acl_intent \<Rightarrow> py_datetime \<Rightarrow> string list \<Rightarrow> acl_observation res" where
  "parse_acl_observation i now raw = (case raw of
       [names_raw, policy_raw, service_interfaces_raw, attachment_map_raw] \<Rightarrow>
         if list_ex (contains ''% Invalid input'') raw
         then Inl (provider_error ''ACL read-only result was incomplete'')
         else let names = sort (remdups (List.map_filter reserved_acl_line (text_lines names_raw)));
                  lines = policy_lines policy_raw;
                  mapped = List.map_filter mapped_interface (interface_sections attachment_map_raw)
         in bindS (checks
              [(\<not> subset_list names [ACL_NAME], provider_error ''another reserved NCDP ACL exists'')]) (\<lambda>_.
            bindS (mapS rule_cli (ai_rules i)) (\<lambda>expected.
            bindS (checks
              [(lines \<noteq> [] \<and> lines \<noteq> expected, provider_error ''managed ACL rule state conflicts''),
               ((py_strip policy_raw \<noteq> []) \<noteq> (names \<noteq> []), provider_error ''managed ACL namespace is ambiguous''),
               (mapped \<noteq> [] \<and> \<not> same_set mapped [ACL_TARGET_INTERFACE_NAME],
                 provider_error ''managed ACL is attached to another interface'')]) (\<lambda>_.
            let s = \<lparr>ao_observed_at = now, ao_policy_present = (names \<noteq> []), ao_reserved_acl_names = names,
              ao_rules = (if lines \<noteq> [] then ai_rules i else []),
              ao_attachments = concat (map section_attachments (interface_sections service_interfaces_raw))\<rparr>
            in case acl_observation_valid s of
                Inr _ \<Rightarrow> Inr s
              | Inl _ \<Rightarrow> Inl (provider_error ''ACL observation conflicts with managed namespace''))))
     | _ \<Rightarrow> Inl (provider_error ''ACL read-only result was incomplete''))"

definition ACL_SERVICE_SCOPE :: "profiled_population_scope res" where
  "ACL_SERVICE_SCOPE = population_scope ''acl-service'' [ACL_TARGET_DEVICE] PROFILED_MANAGED_POPULATION"

definition collect_acl_observation ::
    "show_collector \<Rightarrow> acl_intent \<Rightarrow> profiled_inventory_population \<Rightarrow> acl_observation collecting" where
  "collect_acl_observation c i population =
    bindE (liftE (bindS ACL_SERVICE_SCOPE (project_scope population))) (\<lambda>selected.
    bindE (liftE (device_named (sc_devices selected) ''core-02'')) (\<lambda>core.
    bindE (load_credentials c core) (\<lambda>k.
    bindE (liftE (checks
      [(dv_logical_name core \<noteq> ''core-02'' \<or> dv_automation_profile_id core \<noteq> CAT8000V_IOSXE,
        provider_error ''profile is not admitted for ACL observation'')])) (\<lambda>_.
    bindE (liftE (live_read_only_target core)) (\<lambda>t.
    bindE (collect_show c t k ''users_servers_security_policy'') (\<lambda>raw.
    bindE (\<lambda>h. (Inr (sc_now c h), h)) (\<lambda>now.
    liftE (parse_acl_observation i now raw))))))))"

section \<open>The change\<close>

record acl_rendered_target =
  art_observation_digest :: string
  art_desired_digest :: string
  art_no_op :: bool
  art_payload :: string

definition acl_rendered_target_valid :: "acl_rendered_target \<Rightarrow> unit res" where
  "acl_rendered_target_valid t = checks
    [(art_no_op t \<noteq> (art_payload t = []), ValueError ''ACL rendered target no-op state is inconsistent'')]"

definition desired_cli :: "acl_desired \<Rightarrow> string res" where
  "desired_cli d =
    bindS (mapS rule_cli (ad_rules d)) (\<lambda>rules.
    Inr (lines_text ([''ip access-list extended '' @ ACL_NAME] @ map (\<lambda>r. '' '' @ r) rules
      @ [''interface '' @ si_name (ad_attachment d), '' ip access-group '' @ ACL_NAME @ '' out''])))"

definition render_acl_changes ::
    "(string \<Rightarrow> string) \<Rightarrow> acl_intent \<Rightarrow> acl_observation \<Rightarrow> acl_desired \<Rightarrow> acl_rendered_target res" where
  "render_acl_changes sha i s d =
    bindS (build_acl_desired sha i) (\<lambda>e.
    bindS (checks
      [(d \<noteq> e, ValueError ''ACL desired state is detached from intent''),
       (ao_policy_present s \<and> (ao_rules s \<noteq> ad_rules d \<or> ao_attachments s \<noteq> [EXACT_ATTACHMENT]),
         ValueError ''observed ACL is not exactly the proposed managed state'')]) (\<lambda>_.
    bindS (if ao_policy_present s then Inr [] else desired_cli d) (\<lambda>payload.
    checked acl_rendered_target_valid
     \<lparr>art_observation_digest = acl_managed_digest sha s, art_desired_digest = ad_digest d,
      art_no_op = ao_policy_present s, art_payload = payload\<rparr>)))"

section \<open>Managed state\<close>

record acl_managed =
  acm_policy_present :: bool
  acm_rules :: "acl_rule list"
  acm_attachment :: "(string \<times> stable_interface) option"
  acm_direction :: "string option"
  acm_default_action :: "acl_action option"

definition acl_managed_valid :: "acl_managed \<Rightarrow> unit res" where
  "acl_managed_valid m =
    bindS (mapS acl_rule_valid (acm_rules m)) (\<lambda>_. checks
     [(case acm_attachment m of None \<Rightarrow> False
         | Some (d, i) \<Rightarrow> \<not> netbox_identity ''dcim.device'' d \<or> \<not> stable_interface_valid i, ValueError ''attachment''),
      (acm_direction m \<notin> {None, Some ''in'', Some ''out''}, ValueError ''direction''),
      (acm_policy_present m \<and> (acm_rules m = [] \<or> acm_attachment m = None \<or> acm_direction m = None
          \<or> acm_default_action m = None), ValueError ''present ACL managed state is incomplete''),
      (\<not> acm_policy_present m \<and> (acm_rules m \<noteq> [] \<or> acm_attachment m \<noteq> None \<or> acm_direction m \<noteq> None
          \<or> acm_default_action m \<noteq> None), ValueError ''absent ACL has managed state'')])"

definition acl_managed_json :: "acl_managed \<Rightarrow> json" where
  "acl_managed_json m = JObj
    [(''policy_present'', JBool (acm_policy_present m)), (''rules'', JArr (map acl_rule_json (acm_rules m))),
     (''attachment'', jopt (\<lambda>(d, i). JObj [(''device_identity'', JStr d), (''interface'', interface_json i)])
        (acm_attachment m)),
     (''direction'', jopt JStr (acm_direction m)),
     (''effective_default_action'', jopt (\<lambda>a. JStr (acl_action_value a)) (acm_default_action m))]"

definition acl_vertical :: "acl_managed vertical" where
  "acl_vertical =
    \<lparr>vt_vertical = ACL, vt_payload_valid = acl_managed_valid, vt_payload_json = acl_managed_json,
     vt_exact_scope = (\<lambda>e p. case acm_attachment p of
        None \<Rightarrow> True | Some (d, i) \<Rightarrow> scope_interfaces e = [si_interface i]),
     vt_scope_message = ''ACL attachment is outside its exact scope''\<rparr>"

text \<open>\<^verbatim>\<open>observation.attachments[0]\<close> of a present policy.\<close>

definition managed_of_acl_observation :: "acl_observation \<Rightarrow> acl_intent \<Rightarrow> acl_managed res" where
  "managed_of_acl_observation s i =
    (if ao_policy_present s
     then case ao_attachments s of
         [] \<Rightarrow> Inl (OtherException ''IndexError'')
       | a # _ \<Rightarrow> Inr \<lparr>acm_policy_present = True, acm_rules = ao_rules s,
           acm_attachment = Some (ACL_TARGET_DEVICE, ai_attachment i),
           acm_direction = Some (oa_direction a), acm_default_action = Some Permit\<rparr>
     else Inr \<lparr>acm_policy_present = False, acm_rules = ao_rules s, acm_attachment = None,
           acm_direction = None, acm_default_action = None\<rparr>)"

definition managed_of_acl_desired :: "acl_desired \<Rightarrow> acl_managed" where
  "managed_of_acl_desired d =
    \<lparr>acm_policy_present = True, acm_rules = ad_rules d,
     acm_attachment = Some (ACL_TARGET_DEVICE, ad_attachment d), acm_direction = Some ''out'',
     acm_default_action = Some Permit\<rparr>"

definition project_acl_observation ::
    "(string \<Rightarrow> string) \<Rightarrow> acl_observation \<Rightarrow> acl_intent \<Rightarrow> acl_managed managed_snapshot res" where
  "project_acl_observation sha s i =
    bindS (bindS (managed_of_acl_observation s i) (checked acl_managed_valid)) (\<lambda>p.
    bindS (build_acl_envelope i) (\<lambda>e. build_snapshot sha acl_vertical e p))"

definition project_acl_desired ::
    "(string \<Rightarrow> string) \<Rightarrow> acl_desired \<Rightarrow> acl_intent \<Rightarrow> acl_managed managed_snapshot res" where
  "project_acl_desired sha d i =
    bindS (checked acl_managed_valid (managed_of_acl_desired d)) (\<lambda>p.
    bindS (build_acl_envelope i) (\<lambda>e. build_snapshot sha acl_vertical e p))"

end
