(* ===== verification/Acl_Semantics.thy ===== *)
theory Acl_Semantics
  imports Security_Policy Underlay_Converges
begin

text \<open>
  What the ACL does. The specification is the documented meaning of the IOS lines the renderer
  writes: a numbered entry of an extended access list with wildcard masks, the attachment of a list
  to the outbound direction of an interface, and first match with an implicit deny. The lemmas fix
  the one valid intent, run the rendered text through this interpreter, and compare the managed-state snapshots.
\<close>

section \<open>The meaning of the configuration lines\<close>

record packet =
  pk_source :: "32 word"
  pk_destination :: "32 word"
  pk_tcp :: bool
  pk_port :: nat

type_synonym wildcard = "(32 word \<times> 32 word) option"

record acl_entry =
  ae_permit :: bool
  ae_tcp :: bool
  ae_source :: wildcard
  ae_destination :: wildcard
  ae_port :: "nat option"

record acl_config =
  ac_lists :: "string \<Rightarrow> (nat \<times> acl_entry) list"
  ac_outbound :: "string \<Rightarrow> string option"

datatype acl_mode = Top_Mode | List_Mode string | Interface_Mode string

fun read_wildcard :: "string list \<Rightarrow> (wildcard \<times> string list) option" where
  "read_wildcard (a # ws) =
     (if a = ''any'' then Some (None, ws)
      else case ws of
          m # vs \<Rightarrow> (case (read_ipv4 a, read_ipv4 m) of
              (Some base, Some wild) \<Rightarrow> Some (Some (base, wild), vs) | _ \<Rightarrow> None)
        | [] \<Rightarrow> None)"
| "read_wildcard [] = None"

definition read_entry :: "string list \<Rightarrow> (nat \<times> acl_entry) option" where
  "read_entry ws = (case ws of
      n # action # protocol # rest \<Rightarrow>
        if n \<noteq> [] \<and> list_all is_digit n \<and> action \<in> {''permit'', ''deny''} \<and> protocol \<in> {''ip'', ''tcp''}
        then (case read_wildcard rest of
            None \<Rightarrow> None
          | Some (source, rest') \<Rightarrow>
              (case read_wildcard rest' of
                 Some (destination, port) \<Rightarrow>
                   let e = (\<lambda>p. Some (digits_val n, \<lparr>ae_permit = (action = ''permit''), ae_tcp = (protocol = ''tcp''),
                          ae_source = source, ae_destination = destination, ae_port = p\<rparr>))
                   in (case port of
                        [] \<Rightarrow> e None
                      | [q, p] \<Rightarrow> if q = ''eq'' then e (Some (digits_val p)) else None
                      | _ \<Rightarrow> None)
               | None \<Rightarrow> None))
        else None
    | _ \<Rightarrow> None)"

definition acl_step :: "acl_mode \<times> acl_config \<Rightarrow> string \<Rightarrow> acl_mode \<times> acl_config" where
  "acl_step = (\<lambda>(mode, cfg) line. case split_on CHR '' '' line of
      [] \<Rightarrow> (mode, cfg)
    | w # ws \<Rightarrow>
       if w = [] then
         (case mode of
            List_Mode n \<Rightarrow>
              (case read_entry ws of
                 Some (k, e) \<Rightarrow> (mode, cfg\<lparr>ac_lists := (ac_lists cfg)
                   (n := insort_key fst (k, e) (filter (\<lambda>p. fst p \<noteq> k) (ac_lists cfg n)))\<rparr>)
               | None \<Rightarrow> (mode, cfg))
          | Interface_Mode i \<Rightarrow>
              (case ws of
                 [a, b, n, d] \<Rightarrow>
                   if (a, b, d) = (''ip'', ''access-group'', ''out'')
                   then (mode, cfg\<lparr>ac_outbound := (ac_outbound cfg)(i := Some n)\<rparr>) else (mode, cfg)
               | _ \<Rightarrow> (mode, cfg))
          | Top_Mode \<Rightarrow> (mode, cfg))
       else (case ws of
            [i] \<Rightarrow> if w = ''interface'' then (Interface_Mode i, cfg) else (Top_Mode, cfg)
          | [a, b, n] \<Rightarrow> if (w, a, b) = (''ip'', ''access-list'', ''extended'') then (List_Mode n, cfg) else (Top_Mode, cfg)
          | _ \<Rightarrow> (Top_Mode, cfg)))"

definition acl_apply :: "acl_config \<Rightarrow> string \<Rightarrow> acl_config" where
  "acl_apply cfg text = snd (foldl acl_step (Top_Mode, cfg) (filter (\<lambda>l. l \<noteq> []) (text_lines text)))"

fun wildcard_matches :: "wildcard \<Rightarrow> 32 word \<Rightarrow> bool" where
  "wildcard_matches None a = True"
| "wildcard_matches (Some (base, wild)) a = (a AND NOT wild = base AND NOT wild)"

definition entry_matches :: "acl_entry \<Rightarrow> packet \<Rightarrow> bool" where
  "entry_matches e p \<longleftrightarrow> (ae_tcp e \<longrightarrow> pk_tcp p) \<and> wildcard_matches (ae_source e) (pk_source p)
     \<and> wildcard_matches (ae_destination e) (pk_destination p)
     \<and> (case ae_port e of None \<Rightarrow> True | Some q \<Rightarrow> pk_port p = q)"

fun first_decision :: "(nat \<times> acl_entry) list \<Rightarrow> packet \<Rightarrow> bool" where
  "first_decision [] p = False"
| "first_decision ((k, e) # es) p = (if entry_matches e p then ae_permit e else first_decision es p)"

text \<open>A packet leaves an interface without a list, and an attached list without entries filters
  nothing.\<close>

definition leaves :: "acl_config \<Rightarrow> string \<Rightarrow> packet \<Rightarrow> bool" where
  "leaves cfg i p = (case ac_outbound cfg i of
       None \<Rightarrow> True
     | Some n \<Rightarrow> ac_lists cfg n = [] \<or> first_decision (ac_lists cfg n) p)"

definition in_network :: "ipv4_network \<Rightarrow> 32 word \<Rightarrow> bool" where
  "in_network n a \<longleftrightarrow> a AND netmask (nw_prefix_length n) = nw_address n"

section \<open>The valid intent\<close>

definition USERS_PREFIX :: ipv4_network where
  "USERS_PREFIX = IPv4Network 0x0A3C0A00 24"

definition SERVERS_PREFIX :: ipv4_network where
  "SERVERS_PREFIX = IPv4Network 0x0A3C1400 24"

definition accepted_rules :: "acl_rule list" where
  "accepted_rules =
    [\<lparr>ar_sequence = 10, ar_action = Permit, ar_protocol = TCP_Protocol, ar_source = prefix_match users_gateway,
      ar_destination = prefix_match servers_gateway, ar_destination_port = Some 443\<rparr>,
     \<lparr>ar_sequence = 20, ar_action = Deny, ar_protocol = IP_Protocol, ar_source = prefix_match users_gateway,
      ar_destination = prefix_match servers_gateway, ar_destination_port = None\<rparr>,
     \<lparr>ar_sequence = 30, ar_action = Permit, ar_protocol = IP_Protocol, ar_source = any_match,
      ar_destination = any_match, ar_destination_port = None\<rparr>]"

definition accepted_acl_intent :: acl_intent where
  "accepted_acl_intent = \<lparr>ai_source_data_plane = accepted_allocation,
     ai_source_vlan_service = accepted_vlan_service, ai_vlan_d1_dependency = ACCEPTED_VLAN_D1_DIGEST,
     ai_rules = accepted_rules, ai_attachment = lab_interface 1 22 ''GigabitEthernet3.20''\<rparr>"

lemma expected_rules_accepted: "expected_rules accepted_vlan_service = Inr accepted_rules"
proof -
  have "ok (mapS acl_rule_valid accepted_rules)" by code_simp
  then show ?thesis
    by (cases "mapS acl_rule_valid accepted_rules")
      (simp_all add: expected_rules_def accepted_vlan_service_def Let_def accepted_rules_def)
qed

lemma acl_intent_unique:
  assumes "acl_intent_valid sha i = Inr u"
  shows "i = accepted_acl_intent"
proof -
  note parts = assms [unfolded acl_intent_valid_def bindS_Inr_iff checks_ok, simplified]
  have "ai_source_data_plane i = accepted_allocation" using parts allocation_unique by blast
  moreover have v: "ai_source_vlan_service i = accepted_vlan_service" using parts vlan_service_unique by blast
  moreover have "ai_rules i = accepted_rules" using parts v expected_rules_accepted by simp
  moreover have "ai_attachment i = lab_interface 1 22 ''GigabitEthernet3.20''"
    using parts v by (simp add: accepted_vlan_service_def servers_gateway_def)
  ultimately show ?thesis
    using parts by (intro acl_intent.equality) (simp_all add: accepted_acl_intent_def)
qed

lemma build_acl_Inr:
  assumes "build_acl_desired sha i = Inr d"
  shows "ad_rules d = ai_rules i" and "ad_attachment d = ai_attachment i"
  using assms by (auto simp: build_acl_desired_def Let_def bindS_Inr_iff)

section \<open>The rendered text\<close>

definition RULE_LINES :: "string list" where
  "RULE_LINES =
    [''10 permit tcp 10.60.10.0 0.0.0.255 10.60.20.0 0.0.0.255 eq 443'',
     ''20 deny ip 10.60.10.0 0.0.0.255 10.60.20.0 0.0.0.255'',
     ''30 permit ip any any'']"

lemma accepted_rule_lines: "mapS rule_cli accepted_rules = Inr RULE_LINES"
  by code_simp

definition accepted_entries :: "(nat \<times> acl_entry) list" where
  "accepted_entries =
    [(10, \<lparr>ae_permit = True, ae_tcp = True, ae_source = Some (0x0A3C0A00, 0xFF),
       ae_destination = Some (0x0A3C1400, 0xFF), ae_port = Some 443\<rparr>),
     (20, \<lparr>ae_permit = False, ae_tcp = False, ae_source = Some (0x0A3C0A00, 0xFF),
       ae_destination = Some (0x0A3C1400, 0xFF), ae_port = None\<rparr>),
     (30, \<lparr>ae_permit = True, ae_tcp = False, ae_source = None, ae_destination = None, ae_port = None\<rparr>)]"

lemma read_rule_lines:
  "map (\<lambda>l. read_entry (split_on CHR '' '' l)) RULE_LINES = map Some accepted_entries"
  by code_simp


lemma acl_step_entry:
  assumes "read_entry (split_on CHR '' '' l) = Some (k, e)"
  shows "acl_step (List_Mode n, cfg) (CHR '' '' # l) = (List_Mode n, cfg\<lparr>ac_lists := (ac_lists cfg)
    (n := insort_key fst (k, e) (filter (\<lambda>p. fst p \<noteq> k) (ac_lists cfg n)))\<rparr>)"
  using assms by (simp add: acl_step_def)

lemma acl_step_headers:
  "acl_step (m, cfg) (''ip access-list extended '' @ ACL_NAME) = (List_Mode ACL_NAME, cfg)"
  "acl_step (m, cfg) (''interface GigabitEthernet3.20'') = (Interface_Mode ''GigabitEthernet3.20'', cfg)"
  "acl_step (Interface_Mode i, cfg) ('' ip access-group '' @ ACL_NAME @ '' out'')
    = (Interface_Mode i, cfg\<lparr>ac_outbound := (ac_outbound cfg)(i := Some ACL_NAME)\<rparr>)"
  by (simp_all add: acl_step_def ACL_NAME_def)

definition CLI_LINES :: "string list" where
  "CLI_LINES = [''ip access-list extended '' @ ACL_NAME] @ map (\<lambda>r. '' '' @ r) RULE_LINES
     @ [''interface GigabitEthernet3.20'', '' ip access-group '' @ ACL_NAME @ '' out'']"

lemma cli_lines_plain: "\<forall>l \<in> set CLI_LINES. CHR 0x0A \<notin> set l \<and> l \<noteq> []"
  by code_simp

lemma cli_run:
  assumes "ac_lists cfg ACL_NAME = []"
  shows "snd (foldl acl_step (Top_Mode, cfg) CLI_LINES)
    = cfg\<lparr>ac_lists := (ac_lists cfg)(ACL_NAME := accepted_entries),
          ac_outbound := (ac_outbound cfg)(''GigabitEthernet3.20'' := Some ACL_NAME)\<rparr>"
proof -
  obtain a b c where l: "RULE_LINES = [a, b, c]" by (simp add: RULE_LINES_def)
  obtain x y z where e: "accepted_entries = [(10, x), (20, y), (30, z)]" by (simp add: accepted_entries_def)
  have "read_entry (split_on CHR '' '' a) = Some (10, x)" "read_entry (split_on CHR '' '' b) = Some (20, y)"
    "read_entry (split_on CHR '' '' c) = Some (30, z)"
    using read_rule_lines by (simp_all add: l e)
  then show ?thesis
    using assms
    by (simp add: CLI_LINES_def l e acl_step_headers [simplified] acl_step_entry fun_upd_idem_iff)
qed

lemma apply_desired_cli:
  assumes "desired_cli d = Inr payload" and "ad_rules d = accepted_rules"
    and "ad_attachment d = lab_interface 1 22 ''GigabitEthernet3.20''" and "ac_lists cfg ACL_NAME = []"
  shows "acl_apply cfg payload
    = cfg\<lparr>ac_lists := (ac_lists cfg)(ACL_NAME := accepted_entries),
          ac_outbound := (ac_outbound cfg)(''GigabitEthernet3.20'' := Some ACL_NAME)\<rparr>"
proof -
  have "payload = lines_text CLI_LINES"
    using assms(1-3) by (simp add: desired_cli_def accepted_rule_lines lab_interface_def CLI_LINES_def)
  moreover have "CLI_LINES \<noteq> []" by (simp add: CLI_LINES_def)
  moreover have "filter (\<lambda>l. l \<noteq> []) CLI_LINES = CLI_LINES" using cli_lines_plain by (simp add: filter_id_conv)
  ultimately show ?thesis
    using cli_lines_plain cli_run [OF assms(4)]
    by (simp add: acl_apply_def text_lines_def split_lines_text)
qed

lemma prefix_wildcards:
  "wildcard_matches (Some (0x0A3C0A00, 0xFF)) a \<longleftrightarrow> in_network USERS_PREFIX a"
  "wildcard_matches (Some (0x0A3C1400, 0xFF)) a \<longleftrightarrow> in_network SERVERS_PREFIX a"
proof -
  have "NOT 0xFF = netmask 24" "0x0A3C0A00 AND NOT 0xFF = (0x0A3C0A00 :: 32 word)"
    "0x0A3C1400 AND NOT 0xFF = (0x0A3C1400 :: 32 word)"
    by code_simp+
  then show "wildcard_matches (Some (0x0A3C0A00, 0xFF)) a \<longleftrightarrow> in_network USERS_PREFIX a"
    "wildcard_matches (Some (0x0A3C1400, 0xFF)) a \<longleftrightarrow> in_network SERVERS_PREFIX a"
    by (simp_all add: in_network_def USERS_PREFIX_def SERVERS_PREFIX_def)
qed

lemma accepted_decision:
  "first_decision accepted_entries p \<longleftrightarrow>
    (in_network USERS_PREFIX (pk_source p) \<and> in_network SERVERS_PREFIX (pk_destination p)
      \<longrightarrow> pk_tcp p \<and> pk_port p = 443)"
  by (auto simp: accepted_entries_def entry_matches_def prefix_wildcards simp del: wildcard_matches.simps(2))

section \<open>The observation of the desired ACL\<close>

definition exact_observation :: "py_datetime \<Rightarrow> acl_observation" where
  "exact_observation now = \<lparr>ao_observed_at = now, ao_policy_present = True, ao_reserved_acl_names = [ACL_NAME],
     ao_rules = accepted_rules, ao_attachments = [EXACT_ATTACHMENT]\<rparr>"

lemma exact_observation_valid: "acl_observation_valid (exact_observation now) = Inr ()"
proof -
  have "ok (mapS acl_rule_valid accepted_rules)" "map ar_sequence accepted_rules = [10, 20, 30]"
    by code_simp+
  then show ?thesis
    by (cases "mapS acl_rule_valid accepted_rules")
      (auto simp: acl_observation_valid_def exact_observation_def acl_exact_def EXACT_ATTACHMENT_def)
qed

section \<open>The managed state\<close>

lemma render_Inr:
  assumes "render_acl_changes sha i s d = Inr t"
  shows "build_acl_desired sha i = Inr d" and "art_no_op t = ao_policy_present s"
    and "ao_policy_present s \<Longrightarrow> ao_rules s = ad_rules d \<and> ao_attachments s = [EXACT_ATTACHMENT]"
    and "\<not> ao_policy_present s \<Longrightarrow> desired_cli d = Inr (art_payload t)"
    and "ao_policy_present s \<Longrightarrow> art_payload t = []"
  using assms by (auto simp: render_acl_changes_def bindS_Inr_iff checked_def split: if_splits)

lemma projected_payloads:
  assumes "project_acl_observation sha s i = Inr m" and "project_acl_desired sha d i = Inr n"
  shows "\<exists>e p. build_acl_envelope i = Inr e \<and> managed_of_acl_observation s i = Inr p
    \<and> build_snapshot sha acl_vertical e p = Inr m
    \<and> build_snapshot sha acl_vertical e (managed_of_acl_desired d) = Inr n"
  using assms
  by (auto simp: project_acl_observation_def project_acl_desired_def bindS_Inr_iff checked_def)

lemma acl_payload_json_present:
  assumes "sort_keys (acl_managed_json p) = sort_keys (acl_managed_json q)"
  shows "acm_policy_present p = acm_policy_present q"
  using sorted_objects_eq [OF assms [unfolded acl_managed_json_def], of "''policy_present''"] by simp

lemma acl_observation_payload:
  assumes "managed_of_acl_observation s i = Inr p"
  shows "acm_policy_present p = ao_policy_present s"
    and "ao_policy_present s \<Longrightarrow> ao_rules s = ad_rules d \<Longrightarrow> ao_attachments s = [EXACT_ATTACHMENT] \<Longrightarrow>
      ai_attachment i = ad_attachment d \<Longrightarrow> p = managed_of_acl_desired d"
  using assms
  by (auto simp: managed_of_acl_observation_def managed_of_acl_desired_def EXACT_ATTACHMENT_def
    split: if_splits list.splits)

end
