(* ===== verification/Sample_Policy.thy ===== *)
theory Sample_Policy
  imports Acl_Semantics
begin

text \<open>
  A digest function that gives the accepted allocations and the desired ACL their recorded
  digests, the intent that is valid under it, its desired state, and the observations of a router
  without the ACL.
\<close>

definition policy_sha :: "string \<Rightarrow> string" where
  "policy_sha b =
    (if b = canonical_json_bytes (reference_allocation_json accepted_allocation)
     then drop 7 ACCEPTED_REFERENCE_ALLOCATION_DIGEST
     else if b = canonical_json_bytes (vlan_service_allocation_json accepted_vlan_service)
     then drop 7 ACCEPTED_VLAN_SERVICE_ALLOCATION_DIGEST
     else drop 7 ACCEPTED_ACL_D1_DIGEST)"

lemma other_key_other_bytes:
  assumes "map_of xs k \<noteq> None" and "map_of ys k = None" and "distinct (map fst xs)" and "distinct (map fst ys)"
  shows "canonical_json_bytes (JObj ys) \<noteq> canonical_json_bytes (JObj xs)"
  using assms canonical_fields_eq [of ys xs k] by auto

lemma policy_bytes:
  "canonical_json_bytes (vlan_service_allocation_json v) \<noteq> canonical_json_bytes (reference_allocation_json a)"
  "canonical_json_bytes (acl_desired_json d) \<noteq> canonical_json_bytes (reference_allocation_json a)"
  "canonical_json_bytes (acl_desired_json d) \<noteq> canonical_json_bytes (vlan_service_allocation_json v)"
proof -
  note defs = vlan_service_allocation_json_def reference_allocation_json_def acl_desired_json_def
  show "canonical_json_bytes (vlan_service_allocation_json v) \<noteq> canonical_json_bytes (reference_allocation_json a)"
    "canonical_json_bytes (acl_desired_json d) \<noteq> canonical_json_bytes (reference_allocation_json a)"
    unfolding defs by (rule other_key_other_bytes [where k = "''routed_links''"]; simp)+
  show "canonical_json_bytes (acl_desired_json d) \<noteq> canonical_json_bytes (vlan_service_allocation_json v)"
    unfolding defs by (rule other_key_other_bytes [where k = "''cable_id''"]; simp)
qed

lemma policy_digests:
  "reference_allocation_digest policy_sha accepted_allocation = ACCEPTED_REFERENCE_ALLOCATION_DIGEST"
  "vlan_service_allocation_digest policy_sha accepted_vlan_service = ACCEPTED_VLAN_SERVICE_ALLOCATION_DIGEST"
  "acl_calculated_digest policy_sha d = ACCEPTED_ACL_D1_DIGEST"
  using policy_bytes
  by (simp_all add: reference_allocation_digest_def vlan_service_allocation_digest_def acl_calculated_digest_def
    sha256_identity_def policy_sha_def ACCEPTED_REFERENCE_ALLOCATION_DIGEST_def
    ACCEPTED_VLAN_SERVICE_ALLOCATION_DIGEST_def ACCEPTED_ACL_D1_DIGEST_def)

lemma accepted_acl_intent_valid: "acl_intent_valid policy_sha accepted_acl_intent = Inr ()"
proof -
  have "ok (mapS acl_rule_valid accepted_rules)" by code_simp
  then obtain us where us: "mapS acl_rule_valid accepted_rules = Inr us"
    by (cases "mapS acl_rule_valid accepted_rules") auto
  have attachment: "stable_interface_valid (lab_interface 1 22 ''GigabitEthernet3.20'')"
    "si_interface (lab_interface 1 22 ''GigabitEthernet3.20'') = ACL_TARGET_INTERFACE_IDENTITY"
    "vga_gateway_interface (rvs_gateways accepted_vlan_service ! 1) = lab_interface 1 22 ''GigabitEthernet3.20''"
    by code_simp+
  have "length accepted_rules = 3" by (simp add: accepted_rules_def)
  then show ?thesis
    using attachment policy_digests us accepted_allocation_valid vlan_service_accepted expected_rules_accepted
    by (simp add: acl_intent_valid_def accepted_acl_intent_def)
qed

definition policy_desired :: acl_desired where
  "policy_desired = \<lparr>ad_source_data_plane_digest = ACCEPTED_REFERENCE_ALLOCATION_DIGEST,
     ad_source_vlan_service_digest = ACCEPTED_VLAN_SERVICE_ALLOCATION_DIGEST,
     ad_vlan_d1_dependency = ACCEPTED_VLAN_D1_DIGEST, ad_rules = accepted_rules,
     ad_attachment = lab_interface 1 22 ''GigabitEthernet3.20'', ad_digest = ACCEPTED_ACL_D1_DIGEST\<rparr>"

lemma build_policy_desired: "build_acl_desired policy_sha accepted_acl_intent = Inr policy_desired"
proof -
  note digests = policy_digests
  show ?thesis
    by (simp add: build_acl_desired_def Let_def acl_desired_valid_def digests accepted_acl_intent_def
      policy_desired_def)
qed

definition absent_acl :: acl_observation where
  "absent_acl = \<lparr>ao_observed_at = \<lparr>dt_date = (2026, 9, 1), dt_time = (0, 0, 0), dt_microsecond = 0, dt_offset = Some 0\<rparr>,
     ao_policy_present = False, ao_reserved_acl_names = [], ao_rules = [], ao_attachments = []\<rparr>"

lemma absent_acl_valid: "acl_observation_valid absent_acl = Inr ()"
  by (simp add: acl_observation_valid_def absent_acl_def acl_absent_def)

lemma render_absent: "\<exists>t. render_acl_changes policy_sha accepted_acl_intent absent_acl policy_desired = Inr t"
  by (simp add: render_acl_changes_def build_policy_desired absent_acl_def desired_cli_def policy_desired_def
    accepted_rule_lines checked_def acl_rendered_target_valid_def lines_text_def)

lemma render_exact:
  "\<exists>t. render_acl_changes policy_sha accepted_acl_intent (exact_observation now) policy_desired = Inr t \<and> art_no_op t"
  by (simp add: render_acl_changes_def build_policy_desired exact_observation_def policy_desired_def
    checked_def acl_rendered_target_valid_def)

lemma policy_managed: "managed_of_acl_observation (exact_observation now) accepted_acl_intent
    = Inr (managed_of_acl_desired policy_desired)"
  by (simp add: managed_of_acl_observation_def exact_observation_def managed_of_acl_desired_def policy_desired_def
    accepted_acl_intent_def EXACT_ATTACHMENT_def)

lemma policy_snapshot:
  "\<exists>m. project_acl_observation policy_sha (exact_observation now) accepted_acl_intent = Inr m
    \<and> project_acl_desired policy_sha policy_desired accepted_acl_intent = Inr m"
proof -
  have "ok (acl_managed_valid (managed_of_acl_desired policy_desired))"
    and "ok (managed_ownership_envelope_valid (acl_envelope accepted_acl_intent))"
    and "vt_exact_scope acl_vertical (acl_envelope accepted_acl_intent) (managed_of_acl_desired policy_desired)"
    by code_simp+
  then have valid: "acl_managed_valid (managed_of_acl_desired policy_desired) = Inr ()"
    and "managed_ownership_envelope_valid (acl_envelope accepted_acl_intent) = Inr ()"
    and "\<exists>m. build_snapshot policy_sha acl_vertical (acl_envelope accepted_acl_intent)
      (managed_of_acl_desired policy_desired) = Inr m"
    by (auto simp: ok_unit acl_vertical_def acl_envelope_def intro!: build_snapshot_ok)
  then show ?thesis
    using valid by (auto simp: project_acl_observation_def project_acl_desired_def policy_managed checked_def
      build_acl_envelope_def)
qed

end
