(* ===== verification/Acl_Show.thy ===== *)
theory Acl_Show
  imports Acl_Semantics
begin

text \<open>
  What a router shows of its access lists. The four show commands of the read scope are printed from
  the configuration the CLI lines left: the lists with entries, their entries, and the sections of
  the interfaces with the lists attached to them. The lemmas read the printed sections back with
  the parser of the collector.
\<close>

section \<open>The show commands\<close>

definition printed :: "string list \<Rightarrow> string" where
  "printed ls = concat (map (\<lambda>l. l @ [CHR 0x0A]) ls)"

fun wildcard_text :: "wildcard \<Rightarrow> string" where
  "wildcard_text None = ''any''"
| "wildcard_text (Some (base, wild)) = ipv4_str base @ '' '' @ ipv4_str wild"

definition entry_text :: "nat \<times> acl_entry \<Rightarrow> string" where
  "entry_text = (\<lambda>(k, e). '' '' @ nat_str k @ (if ae_permit e then '' permit '' else '' deny '')
     @ (if ae_tcp e then ''tcp '' else ''ip '') @ wildcard_text (ae_source e) @ '' ''
     @ wildcard_text (ae_destination e)
     @ (case ae_port e of None \<Rightarrow> [] | Some p \<Rightarrow> '' eq '' @ nat_str p))"

definition list_header :: "string \<Rightarrow> string" where
  "list_header n = ''ip access-list extended '' @ n"

definition list_section :: "acl_config \<Rightarrow> string \<Rightarrow> string list" where
  "list_section cfg n = list_header n # map entry_text (ac_lists cfg n)"

definition group_lines :: "string option \<Rightarrow> string list" where
  "group_lines g = (case g of None \<Rightarrow> [] | Some n \<Rightarrow> ['' ip access-group '' @ n @ '' out''])"

text \<open>An interface of the running configuration: its name and its other lines.\<close>

type_synonym shown_interface = "string \<times> string list"

definition interface_section :: "acl_config \<Rightarrow> shown_interface \<Rightarrow> string list" where
  "interface_section cfg = (\<lambda>(i, other). (''interface '' @ i) # other @ group_lines (ac_outbound cfg i))"

text \<open>\<open>names\<close> are the names of the router's lists, in order; a list without entries is not shown.\<close>

definition show_acl :: "string list \<Rightarrow> shown_interface list \<Rightarrow> acl_config \<Rightarrow> string list" where
  "show_acl names ifs cfg =
    (let running = filter (\<lambda>n. ac_lists cfg n \<noteq> []) names in
    [printed (map list_header (filter (starts_with ''NCDP-'') running)),
     printed (concat (map (list_section cfg) (filter (starts_with ACL_NAME) running))),
     printed (concat (map (interface_section cfg)
       (filter (\<lambda>x. starts_with ''GigabitEthernet3.'' (fst x)) ifs))),
     printed (filter (\<lambda>l. starts_with ''interface'' l \<or> contains (''ip access-group '' @ ACL_NAME) l)
       (concat (map (interface_section cfg) ifs)))])"

text \<open>What the running configuration looks like: names and other lines the device can show.\<close>

definition token :: "string \<Rightarrow> bool" where
  "token n \<longleftrightarrow> n \<noteq> [] \<and> list_all (\<lambda>c. \<not> is_space c \<and> c \<noteq> CHR ''%'') n"

definition other_line :: "string \<Rightarrow> bool" where
  "other_line l \<longleftrightarrow> starts_with '' '' l \<and> CHR 0x0A \<notin> set l \<and> CHR ''%'' \<notin> set l \<and> access_group_line l = None"

definition shown_interfaces_ok :: "shown_interface list \<Rightarrow> bool" where
  "shown_interfaces_ok ifs \<longleftrightarrow> distinct (map fst ifs) \<and> ''GigabitEthernet3.20'' \<in> set (map fst ifs)
     \<and> list_all (\<lambda>(i, other). token i \<and> list_all other_line other) ifs"

text \<open>A router on which nothing of the managed ACL is configured.\<close>

definition fresh_router :: "string list \<Rightarrow> shown_interface list \<Rightarrow> acl_config \<Rightarrow> bool" where
  "fresh_router names ifs cfg \<longleftrightarrow> distinct names \<and> ACL_NAME \<in> set names \<and> shown_interfaces_ok ifs
     \<and> (\<forall>n. starts_with ''NCDP-'' n \<longrightarrow> ac_lists cfg n = [])
     \<and> (\<forall>i n. ac_outbound cfg i = Some n \<longrightarrow> token n \<and> n \<noteq> ACL_NAME)
     \<and> ac_outbound cfg ''GigabitEthernet3.10'' = None"

section \<open>Reading printed sections\<close>

lemma printed_simps [simp]: "printed [] = []" "printed (l # ls) = l @ CHR 0x0A # printed ls"
  "printed (ls @ ms) = printed ls @ printed ms"
  by (simp_all add: printed_def)

lemma kept_printed:
  "CHR 0x0A \<notin> set l \<Longrightarrow> kept_lines (l @ CHR 0x0A # s) = (l @ [CHR 0x0A]) # kept_lines s"
  by (induction l) auto

lemma kept_lines_printed:
  "\<forall>l \<in> set ls. CHR 0x0A \<notin> set l \<Longrightarrow> kept_lines (printed ls) = map (\<lambda>l. l @ [CHR 0x0A]) ls"
  by (induction ls) (simp_all add: kept_printed)

lemma text_lines_printed:
  "\<forall>l \<in> set ls. CHR 0x0A \<notin> set l \<Longrightarrow> text_lines (printed ls) = ls @ [[]]"
  by (induction ls) (simp_all add: text_lines_def split_on_append)

lemma line_sections_skip:
  "\<forall>b \<in> set bs. \<not> interface_line b \<Longrightarrow> line_sections (bs @ ls) = line_sections ls"
  by (induction bs) simp_all

lemma line_sections_head:
  assumes "interface_line h" and "\<forall>b \<in> set bs. \<not> interface_line b"
    and "ls = [] \<or> interface_line (hd ls)"
  shows "line_sections (h # bs @ ls) = (h @ concat bs) # line_sections ls"
proof -
  have "takeWhile (\<lambda>m. \<not> interface_line m) (bs @ ls) = bs"
    using assms(2,3) by (cases ls) (auto simp: takeWhile_append)
  then show ?thesis using assms(1) line_sections_skip [OF assms(2)] by simp
qed

text \<open>The sections of printed interfaces: a header line, and body lines that begin with a blank.\<close>

definition body_line :: "string \<Rightarrow> bool" where
  "body_line l \<longleftrightarrow> starts_with '' '' l \<and> CHR 0x0A \<notin> set l"

lemma blank_not_interface: "starts_with '' '' l \<Longrightarrow> \<not> interface_line (l @ m)"
  by (cases l) (auto simp: starts_with_def interface_line_def)

lemma header_interface: "interface_line (''interface '' @ i)"
  by (simp add: interface_line_def starts_with_def)

lemma sections_printed:
  assumes "\<forall>(i, body) \<in> set secs. CHR 0x0A \<notin> set i \<and> list_all body_line body"
  shows "interface_sections (printed (concat (map (\<lambda>(i, body). (''interface '' @ i) # body) secs)))
     = map (\<lambda>(i, body). printed ((''interface '' @ i) # body)) secs"
proof -
  let ?nl = "\<lambda>l. l @ [CHR 0x0A]"
  let ?ls = "concat (map (\<lambda>(i, body). (''interface '' @ i) # body) secs)"
  have nl: "\<forall>l \<in> set ?ls. CHR 0x0A \<notin> set l"
    using assms by (auto simp: list_all_iff body_line_def)
  have "line_sections (map ?nl ?ls) = map (\<lambda>(i, body). printed ((''interface '' @ i) # body)) secs"
    using assms
  proof (induction secs)
    case (Cons x secs)
    obtain i body where x: "x = (i, body)" by (cases x)
    let ?rest = "map ?nl (concat (map (\<lambda>(i, body). (''interface '' @ i) # body) secs))"
    have b: "\<forall>b \<in> set (map ?nl body). \<not> interface_line b"
      using Cons.prems x blank_not_interface by (auto simp: list_all_iff body_line_def)
    have r: "?rest = [] \<or> interface_line (hd ?rest)"
      by (cases secs) (auto simp: interface_line_def starts_with_def split: prod.splits)
    have h: "interface_line (?nl (''interface '' @ i))" by (simp add: interface_line_def starts_with_def)
    have "line_sections (map ?nl (concat (map (\<lambda>(i, body). (''interface '' @ i) # body) (x # secs))))
        = (?nl (''interface '' @ i) @ concat (map ?nl body)) # line_sections ?rest"
      using line_sections_head [OF h b r] by (simp add: x)
    moreover have "line_sections ?rest = map (\<lambda>(i, body). printed ((''interface '' @ i) # body)) secs"
      using Cons by simp
    ultimately show ?case by (simp add: x printed_def)
  qed simp
  then show ?thesis unfolding interface_sections_def kept_lines_printed [OF nl] .
qed

lemma token_plain: "token n \<Longrightarrow> CHR 0x0A \<notin> set n \<and> CHR ''%'' \<notin> set n \<and> CHR '' '' \<notin> set n \<and> n \<noteq> []"
  by (auto simp: token_def list_all_iff is_space_code)

lemma token_word: "token n \<Longrightarrow> is_space c \<Longrightarrow> word_of (n @ c # s) = n"
proof -
  assume "token n" and c: "is_space c"
  then have "list_all (\<lambda>c. \<not> is_space c) n" by (auto simp: token_def list_all_iff)
  then show ?thesis using c by (simp add: word_of_append) (simp add: word_of_def)
qed

lemma section_interface_printed:
  "token i \<Longrightarrow> section_interface (printed ((''interface '' @ i) # body)) = Some i"
proof -
  assume t: "token i"
  have "after_prefix ''interface '' (''interface '' @ i @ CHR 0x0A # printed body) = Some (i @ CHR 0x0A # printed body)"
    by (rule after_prefix_append)
  then show ?thesis
    using t token_word [OF t, of "CHR 0x0A" "printed body"] token_plain [OF t]
    by (simp add: section_interface_def is_space_code)
qed

lemma access_group_header: "access_group_line (''interface '' @ i) = None" "access_group_line [] = None"
  by (simp_all add: access_group_line_def lstrip_def after_prefix_def starts_with_def is_space_code)

lemma access_group_out:
  assumes "token n"
  shows "access_group_line ('' ip access-group '' @ n @ '' out'') = Some (n, ''out'')"
proof -
  have l: "lstrip ('' ip access-group '' @ n @ '' out'') = ''ip access-group '' @ n @ '' out''"
    by (simp add: lstrip_def is_space_code)
  have w: "word_of (n @ '' out'') = n" using token_word [OF assms, of "CHR '' ''"] by (simp add: is_space_code)
  have o: "word_of ''out'' = ''out''" by code_simp
  have "after_prefix '' '' ('' out'') = Some ''out''" by code_simp
  then show ?thesis
    unfolding access_group_line_def l after_prefix_append option.case w
    using token_plain [OF assms] o by (simp add: all_space_def)
qed

section \<open>The attachments of a printed configuration\<close>

lemma map_filter_append: "List.map_filter f (xs @ ys) = List.map_filter f xs @ List.map_filter f ys"
  by (simp add: List.map_filter_def)

lemma map_filter_none: "\<forall>x \<in> set xs. f x = None \<Longrightarrow> List.map_filter f xs = []"
  by (induction xs) simp_all

definition shown_group :: "(string \<Rightarrow> bool) \<Rightarrow> string option \<Rightarrow> (string \<times> string) list" where
  "shown_group P g = (case g of None \<Rightarrow> []
     | Some n \<Rightarrow> if P ('' ip access-group '' @ n @ '' out'') then [(n, ''out'')] else [])"

lemma section_groups:
  assumes "token i" and "list_all other_line other" and "\<forall>n. g = Some n \<longrightarrow> token n"
  shows "List.map_filter access_group_line
      (text_lines (printed ((''interface '' @ i) # filter P (other @ group_lines g)))) = shown_group P g"
proof -
  have nl: "\<forall>l \<in> set ((''interface '' @ i) # filter P (other @ group_lines g)). CHR 0x0A \<notin> set l"
    using assms token_plain by (auto simp: group_lines_def other_line_def list_all_iff split: option.splits)
  have other: "List.map_filter access_group_line (filter P other) = []"
    using assms(2) by (intro map_filter_none) (auto simp: other_line_def list_all_iff)
  have group: "List.map_filter access_group_line (filter P (group_lines g)) = shown_group P g"
    using assms(3) access_group_out by (auto simp: group_lines_def shown_group_def split: option.split)
  show ?thesis
    unfolding text_lines_printed [OF nl]
    by (simp add: map_filter_append other group access_group_header [simplified])
qed

lemma section_body_lines:
  assumes "list_all other_line other" and "\<forall>n. g = Some n \<longrightarrow> token n"
  shows "list_all body_line (filter P (other @ group_lines g))"
  using assms token_plain
  by (auto simp: list_all_iff body_line_def other_line_def group_lines_def starts_with_def split: option.splits)

text \<open>The lines of a filtered configuration, section by section.\<close>

lemma filtered_sections:
  assumes "list_all (\<lambda>(i, other). token i \<and> list_all other_line other) ifs"
    and "\<forall>i n. ac_outbound cfg i = Some n \<longrightarrow> token n"
    and "\<forall>i. P (''interface '' @ i)"
  shows "interface_sections (printed (filter P (concat (map (interface_section cfg) ifs))))
     = map (\<lambda>(i, other). printed ((''interface '' @ i) # filter P (other @ group_lines (ac_outbound cfg i)))) ifs"
proof -
  let ?secs = "map (\<lambda>(i, other). (i, filter P (other @ group_lines (ac_outbound cfg i)))) ifs"
  have "filter P (concat (map (interface_section cfg) ifs))
      = concat (map (\<lambda>(i, body). (''interface '' @ i) # body) ?secs)"
  proof (induction ifs)
    case (Cons x ifs)
    then show ?case using assms(3) by (cases x) (simp add: interface_section_def)
  qed simp
  moreover have "interface_sections (printed (concat (map (\<lambda>(i, body). (''interface '' @ i) # body) ?secs)))
      = map (\<lambda>(i, body). printed ((''interface '' @ i) # body)) ?secs"
  proof (rule sections_printed, goal_cases)
    case 1
    have "CHR 0x0A \<notin> set i \<and> list_all body_line (filter P (other @ group_lines (ac_outbound cfg i)))"
      if "(i, other) \<in> set ifs" for i other
      using that assms(1,2) token_plain section_body_lines [of other "ac_outbound cfg i" P]
      by (auto simp: list_all_iff)
    then show ?case by auto
  qed
  ultimately show ?thesis by (simp add: comp_def split_beta)
qed

lemma section_attachments_printed:
  assumes "token i" and "list_all other_line other" and "\<forall>n. g = Some n \<longrightarrow> token n"
  shows "section_attachments (printed ((''interface '' @ i) # filter P (other @ group_lines g)))
     = (if i \<in> {''GigabitEthernet3.10'', ACL_TARGET_INTERFACE_NAME}
        then map (\<lambda>(n, d). \<lparr>oa_interface_name = i, oa_acl_name = n, oa_direction = d\<rparr>) (shown_group P g) else [])"
  unfolding section_attachments_def section_interface_printed [OF assms(1)] section_groups [OF assms] by simp

lemma list_ex_map_filter:
  "list_ex (\<lambda>l. case f l of Some (n, d) \<Rightarrow> n = k | None \<Rightarrow> False) ls \<longleftrightarrow> k \<in> fst ` set (List.map_filter f ls)"
  by (induction ls) (auto split: option.split)

lemma mapped_interface_printed:
  assumes "token i" and "list_all other_line other" and "\<forall>n. g = Some n \<longrightarrow> token n"
    and "P ('' ip access-group '' @ ACL_NAME @ '' out'')"
  shows "mapped_interface (printed ((''interface '' @ i) # filter P (other @ group_lines g)))
     = (if g = Some ACL_NAME then Some i else None)"
  using assms(4)
  unfolding mapped_interface_def list_ex_map_filter section_groups [OF assms(1-3)]
    section_interface_printed [OF assms(1)]
  by (auto simp: shown_group_def split: option.splits)

text \<open>One of distinct names.\<close>

lemma filter_unique:
  assumes "distinct xs" and "k \<in> set xs" and "\<And>x. x \<in> set xs \<Longrightarrow> P x \<longleftrightarrow> x = k"
  shows "filter P xs = [k]"
proof -
  have "filter P xs = filter (\<lambda>x. x = k) xs" using assms(3) by (rule filter_cong [OF refl])
  also have "\<dots> = [k]"
    using assms(1,2) by (induction xs) (auto simp: filter_empty_conv)
  finally show ?thesis .
qed

lemma concat_none: "k \<notin> fst ` set xs \<Longrightarrow> concat (map (\<lambda>(i, y). if i = k then [e] else []) xs) = []"
  by (induction xs) auto

lemma concat_unique:
  assumes "distinct (map fst xs)" and "k \<in> fst ` set xs"
  shows "concat (map (\<lambda>(i, y). if i = k then [e] else []) xs) = [e]"
  using assms
proof (induction xs)
  case (Cons x xs)
  obtain i y where x: "x = (i, y)" by (cases x)
  show ?case
  proof (cases "i = k")
    case True
    then have "k \<notin> fst ` set xs" using Cons.prems x by simp
    then show ?thesis using True concat_none [of k xs e] by (simp add: x)
  next
    case False
    then have "k \<in> fst ` set xs" "distinct (map fst xs)" using Cons.prems x by auto
    then show ?thesis using False Cons.IH by (simp add: x)
  qed
qed simp

lemma map_filter_concat: "List.map_filter f xs = concat (map (\<lambda>x. case f x of None \<Rightarrow> [] | Some y \<Rightarrow> [y]) xs)"
  by (induction xs) (auto split: option.split)

lemma contains_set: "contains p s \<Longrightarrow> set p \<subseteq> set s"
proof (induction s)
  case (Cons c s)
  have "set p \<subseteq> set (c # s)" if "starts_with p (c # s)"
    using that by (metis starts_with_def set_take_subset)
  then show ?case using Cons by auto
qed simp

lemma printed_without: "c \<noteq> CHR 0x0A \<Longrightarrow> \<forall>l \<in> set ls. c \<notin> set l \<Longrightarrow> c \<notin> set (printed ls)"
  by (induction ls) auto

section \<open>The router that runs the desired ACL\<close>

definition with_policy :: "acl_config \<Rightarrow> acl_config" where
  "with_policy cfg = cfg\<lparr>ac_lists := (ac_lists cfg)(ACL_NAME := accepted_entries),
     ac_outbound := (ac_outbound cfg)(''GigabitEthernet3.20'' := Some ACL_NAME)\<rparr>"

lemma entry_lines: "map entry_text accepted_entries = map (\<lambda>r. '' '' @ r) RULE_LINES"
  by code_simp

lemma acl_name_reserved: "starts_with ACL_NAME n \<Longrightarrow> starts_with ''NCDP-'' n"
proof -
  assume "starts_with ACL_NAME n"
  then have "take 5 (take (length ACL_NAME) n) = take 5 ACL_NAME" by (simp add: starts_with_def)
  then show "starts_with ''NCDP-'' n" by (simp add: starts_with_def ACL_NAME_def)
qed

lemma acl_name_token: "token ACL_NAME"
  by (simp add: token_def ACL_NAME_def is_space_code)

lemma reserved_names_shown:
  "sort (remdups (List.map_filter reserved_acl_line (text_lines (printed [list_header ACL_NAME])))) = [ACL_NAME]"
  by code_simp

lemma policy_lines_shown:
  "policy_lines (printed (list_header ACL_NAME # map (\<lambda>r. '' '' @ r) RULE_LINES)) = RULE_LINES"
  "py_strip (printed (list_header ACL_NAME # map (\<lambda>r. '' '' @ r) RULE_LINES)) \<noteq> []"
  by code_simp+

lemma with_policy_lists:
  assumes "fresh_router names ifs cfg"
  shows "filter (starts_with ''NCDP-'') (filter (\<lambda>n. ac_lists (with_policy cfg) n \<noteq> []) names) = [ACL_NAME]"
    and "filter (starts_with ACL_NAME) (filter (\<lambda>n. ac_lists (with_policy cfg) n \<noteq> []) names) = [ACL_NAME]"
proof -
  have n: "distinct names" "ACL_NAME \<in> set names" using assms by (auto simp: fresh_router_def)
  have entries: "ac_lists (with_policy cfg) ACL_NAME \<noteq> []" by (simp add: with_policy_def accepted_entries_def)
  have only: "starts_with ''NCDP-'' m \<Longrightarrow> ac_lists (with_policy cfg) m \<noteq> [] \<longleftrightarrow> m = ACL_NAME" for m
    using assms entries by (auto simp: fresh_router_def with_policy_def)
  have self: "starts_with ''NCDP-'' ACL_NAME" "starts_with ACL_NAME ACL_NAME"
    by (simp_all add: ACL_NAME_def starts_with_def)
  show "filter (starts_with ''NCDP-'') (filter (\<lambda>n. ac_lists (with_policy cfg) n \<noteq> []) names) = [ACL_NAME]"
    "filter (starts_with ACL_NAME) (filter (\<lambda>n. ac_lists (with_policy cfg) n \<noteq> []) names) = [ACL_NAME]"
    unfolding filter_filter using only entries self acl_name_reserved
    by (intro filter_unique [OF n]; blast)+
qed

lemma with_policy_outbound:
  assumes "fresh_router names ifs cfg"
  shows "ac_outbound (with_policy cfg) i = Some ACL_NAME \<longleftrightarrow> i = ''GigabitEthernet3.20''"
    and "ac_outbound (with_policy cfg) ''GigabitEthernet3.10'' = None"
    and "\<forall>i n. ac_outbound (with_policy cfg) i = Some n \<longrightarrow> token n"
  using assms acl_name_token by (auto simp: fresh_router_def with_policy_def)

lemma shown_interfaces_facts:
  assumes "fresh_router names ifs cfg"
  shows "list_all (\<lambda>(i, other). token i \<and> list_all other_line other) ifs"
    and "distinct (map fst ifs)" and "''GigabitEthernet3.20'' \<in> fst ` set ifs"
  using assms by (auto simp: fresh_router_def shown_interfaces_ok_def)

lemma shown_attachments:
  assumes "fresh_router names ifs cfg"
  shows "concat (map section_attachments (interface_sections (show_acl names ifs (with_policy cfg) ! 2)))
    = [EXACT_ATTACHMENT]"
proof -
  let ?out = "ac_outbound (with_policy cfg)"
  let ?ifs = "filter (\<lambda>x. starts_with ''GigabitEthernet3.'' (fst x)) ifs"
  note out = with_policy_outbound [OF assms] and facts = shown_interfaces_facts [OF assms]
  have ok: "list_all (\<lambda>(i, other). token i \<and> list_all other_line other) ?ifs"
    using facts(1) by (auto simp: list_all_iff)
  have unique: "distinct (map fst ?ifs)" "''GigabitEthernet3.20'' \<in> fst ` set ?ifs"
    using facts(2,3) by (simp add: distinct_map_filter) (use facts(3) in \<open>force simp: starts_with_def\<close>)
  have reading: "section_attachments (printed ((''interface '' @ i) # filter (\<lambda>_. True) (other @ group_lines (?out i))))
      = (if i = ''GigabitEthernet3.20'' then [EXACT_ATTACHMENT] else [])" if "(i, other) \<in> set ?ifs" for i other
  proof -
    have t: "token i" "list_all other_line other" using ok that by (auto simp: list_all_iff)
    have g: "\<forall>n. ?out i = Some n \<longrightarrow> token n" using out(3) by blast
    show ?thesis
      unfolding section_attachments_printed [OF t g] using out(1) [of i] out(2)
      by (auto simp: shown_group_def EXACT_ATTACHMENT_def ACL_TARGET_INTERFACE_NAME_def)
  qed
  have shown: "show_acl names ifs (with_policy cfg) ! 2
      = printed (filter (\<lambda>_. True) (concat (map (interface_section (with_policy cfg)) ?ifs)))"
    by (simp add: show_acl_def Let_def)
  have always: "\<forall>i :: string. True" by simp
  have "concat (map section_attachments (interface_sections (show_acl names ifs (with_policy cfg) ! 2)))
      = concat (map (\<lambda>(i, other). section_attachments
          (printed ((''interface '' @ i) # filter (\<lambda>_. True) (other @ group_lines (?out i))))) ?ifs)"
    unfolding shown filtered_sections [OF ok out(3), of "\<lambda>_. True", OF always] map_map comp_def
    by (intro arg_cong [of _ _ concat] map_cong refl) (auto simp del: printed_simps)
  also have "\<dots> = concat (map (\<lambda>(i, other). if i = ''GigabitEthernet3.20'' then [EXACT_ATTACHMENT] else []) ?ifs)"
    using reading by (intro arg_cong [of _ _ concat] map_cong refl) auto
  also have "\<dots> = [EXACT_ATTACHMENT]" by (rule concat_unique [OF unique])
  finally show ?thesis .
qed

lemma shown_mapped:
  assumes "fresh_router names ifs cfg"
  shows "List.map_filter mapped_interface (interface_sections (show_acl names ifs (with_policy cfg) ! 3))
    = [ACL_TARGET_INTERFACE_NAME]"
proof -
  let ?out = "ac_outbound (with_policy cfg)"
  let ?P = "\<lambda>l. starts_with ''interface'' l \<or> contains (''ip access-group '' @ ACL_NAME) l"
  let ?sec = "\<lambda>i other. printed ((''interface '' @ i) # filter ?P (other @ group_lines (?out i)))"
  note out = with_policy_outbound [OF assms] and facts = shown_interfaces_facts [OF assms]
  have header: "\<forall>i. ?P (''interface '' @ i)" by (simp add: starts_with_def)
  have group: "?P ('' ip access-group '' @ ACL_NAME @ '' out'')" by code_simp
  have reading: "(case mapped_interface (?sec i other) of None \<Rightarrow> [] | Some j \<Rightarrow> [j])
      = (if i = ''GigabitEthernet3.20'' then [ACL_TARGET_INTERFACE_NAME] else [])"
    if "(i, other) \<in> set ifs" for i other
  proof -
    have t: "token i" "list_all other_line other" using facts(1) that by (auto simp: list_all_iff)
    have g: "\<forall>n. ?out i = Some n \<longrightarrow> token n" using out(3) by blast
    show ?thesis
      unfolding mapped_interface_printed [OF t g, of ?P, OF group] using out(1) [of i]
      by (simp add: ACL_TARGET_INTERFACE_NAME_def)
  qed
  have shown: "show_acl names ifs (with_policy cfg) ! 3
      = printed (filter ?P (concat (map (interface_section (with_policy cfg)) ifs)))"
    by (simp add: show_acl_def Let_def)
  have "List.map_filter mapped_interface (interface_sections (show_acl names ifs (with_policy cfg) ! 3))
      = concat (map (\<lambda>(i, other). case mapped_interface (?sec i other) of None \<Rightarrow> [] | Some j \<Rightarrow> [j]) ifs)"
    unfolding map_filter_concat shown filtered_sections [OF facts(1) out(3), of ?P, OF header] map_map comp_def
    by (intro arg_cong [of _ _ concat] map_cong refl) (auto simp del: printed_simps)
  also have "\<dots> = concat (map (\<lambda>(i, other). if i = ''GigabitEthernet3.20'' then [ACL_TARGET_INTERFACE_NAME] else []) ifs)"
    using reading by (intro arg_cong [of _ _ concat] map_cong refl) auto
  also have "\<dots> = [ACL_TARGET_INTERFACE_NAME]" by (rule concat_unique [OF facts(2,3)])
  finally show ?thesis .
qed

lemma section_plain:
  assumes "fresh_router names ifs cfg" and "x \<in> set ifs"
    and "l \<in> set (interface_section (with_policy cfg) x)"
  shows "CHR ''%'' \<notin> set l"
proof -
  obtain i other where x: "x = (i, other)" by (cases x)
  have "token i" "list_all other_line other"
    using shown_interfaces_facts(1) [OF assms(1)] assms(2) by (auto simp: x list_all_iff)
  moreover have "\<And>n. ac_outbound (with_policy cfg) i = Some n \<Longrightarrow> CHR ''%'' \<notin> set n"
    using with_policy_outbound(3) [OF assms(1)] token_plain by blast
  ultimately show ?thesis
    using assms(3) token_plain [of i]
    by (auto simp: x interface_section_def group_lines_def list_all_iff other_line_def split: option.splits)
qed

lemma shown_valid:
  assumes "fresh_router names ifs cfg"
  shows "\<not> list_ex (contains ''% Invalid input'') (show_acl names ifs (with_policy cfg))"
proof -
  have "CHR ''%'' \<notin> set s" if "s \<in> set (show_acl names ifs (with_policy cfg))" for s
  proof -
    have "CHR ''%'' \<notin> set l" if "l \<in> set (list_header ACL_NAME # map entry_text accepted_entries)" for l
    proof -
      have "list_all (\<lambda>l. CHR ''%'' \<notin> set l) (list_header ACL_NAME # map entry_text accepted_entries)"
        by code_simp
      then show ?thesis using that unfolding list_all_iff by blast
    qed
    then have policy: "CHR ''%'' \<notin> set (printed [list_header ACL_NAME])"
      "CHR ''%'' \<notin> set (printed (list_header ACL_NAME # map entry_text accepted_entries))"
      by (intro printed_without; simp)+
    have plain: "CHR ''%'' \<notin> set (printed ls)"
      if "set ls \<subseteq> set (concat (map (interface_section (with_policy cfg)) ifs))" for ls
      using that section_plain [OF assms] by (intro printed_without) auto
    have sections: "CHR ''%'' \<notin> set (printed (concat (map (interface_section (with_policy cfg)) (filter P ifs))))"
      "CHR ''%'' \<notin> set (printed (filter Q (concat (map (interface_section (with_policy cfg)) ifs))))" for P Q
      by (rule plain; auto)+
    have "ac_lists (with_policy cfg) ACL_NAME = accepted_entries" by (simp add: with_policy_def)
    then show ?thesis
      using that policy sections unfolding show_acl_def Let_def with_policy_lists [OF assms]
      by (auto simp: list_section_def simp del: printed_simps)
  qed
  then show ?thesis using contains_set by (fastforce simp: list_ex_iff)
qed

lemma parse_exact:
  assumes "\<not> list_ex (contains ''% Invalid input'') [a, b, c, e]"
    and "sort (remdups (List.map_filter reserved_acl_line (text_lines a))) = [ACL_NAME]"
    and "policy_lines b = RULE_LINES" and "py_strip b \<noteq> []"
    and "concat (map section_attachments (interface_sections c)) = [EXACT_ATTACHMENT]"
    and "List.map_filter mapped_interface (interface_sections e) = [ACL_TARGET_INTERFACE_NAME]"
  shows "parse_acl_observation accepted_acl_intent now [a, b, c, e] = Inr (exact_observation now)"
proof -
  have "RULE_LINES \<noteq> []" by (simp add: RULE_LINES_def)
  moreover have "ai_rules accepted_acl_intent = accepted_rules" by (simp add: accepted_acl_intent_def)
  moreover have "subset_list [ACL_NAME] [ACL_NAME]" "same_set [ACL_TARGET_INTERFACE_NAME] [ACL_TARGET_INTERFACE_NAME]"
    by (simp_all add: subset_list_def same_set_def)
  ultimately show ?thesis
    using assms exact_observation_valid [of now] accepted_rule_lines
    unfolding parse_acl_observation_def
    by (simp add: Let_def exact_observation_def)
qed

lemma parse_shown_policy:
  assumes "fresh_router names ifs cfg"
  shows "parse_acl_observation accepted_acl_intent now (show_acl names ifs (with_policy cfg)) = Inr (exact_observation now)"
proof -
  let ?raw = "show_acl names ifs (with_policy cfg)"
  obtain a b c e where raw: "?raw = [a, b, c, e]" by (simp add: show_acl_def Let_def)
  have "a = printed [list_header ACL_NAME]" "b = printed (list_header ACL_NAME # map (\<lambda>r. '' '' @ r) RULE_LINES)"
    using raw unfolding show_acl_def Let_def with_policy_lists [OF assms]
    by (auto simp: list_section_def with_policy_def entry_lines simp del: printed_simps)
  then show ?thesis
    using shown_attachments [OF assms] shown_mapped [OF assms] shown_valid [OF assms]
      reserved_names_shown policy_lines_shown
    unfolding raw by (intro parse_exact) simp_all
qed

end
