(* ===== verification/Acl_Properties.thy ===== *)
theory Acl_Properties
  imports Sample_Policy Acl_Show
begin

text \<open>
  The properties of the ACL: the rendered text filters exactly what the policy says, the text a
  router shows afterwards is read back as the desired state, and comparing managed-state snapshots
  is the same as asking the renderer whether anything is to be done.
\<close>

text \<open>C36: What the renderer sends when no managed ACL is present filters exactly what the policy says.
  On a router whose configuration has no list of that name, executing the rendered text makes the
  SERVERS subinterface let a packet out precisely when it is not from USERS to SERVERS or is HTTPS;
  every other interface that does not already use the list lets out what it did before.\<close>

theorem acl_filters_exactly:
  assumes "acl_intent_valid sha i = Inr u" and "acl_observation_valid s = Inr w"
    and "render_acl_changes sha i s d = Inr t" and "\<not> ao_policy_present s"
    and "ac_lists cfg ACL_NAME = []"
  shows "(\<forall>p. leaves (acl_apply cfg (art_payload t)) ''GigabitEthernet3.20'' p \<longleftrightarrow>
        (in_network USERS_PREFIX (pk_source p) \<and> in_network SERVERS_PREFIX (pk_destination p)
          \<longrightarrow> pk_tcp p \<and> pk_port p = 443))
    \<and> (\<forall>j p. j \<noteq> ''GigabitEthernet3.20'' \<and> ac_outbound cfg j \<noteq> Some ACL_NAME \<longrightarrow>
        leaves (acl_apply cfg (art_payload t)) j p = leaves cfg j p)"
proof -
  have i: "i = accepted_acl_intent" using assms(1) by (rule acl_intent_unique)
  note d = build_acl_Inr [OF render_Inr(1) [OF assms(3)]]
  have "acl_apply cfg (art_payload t) = cfg\<lparr>ac_lists := (ac_lists cfg)(ACL_NAME := accepted_entries),
      ac_outbound := (ac_outbound cfg)(''GigabitEthernet3.20'' := Some ACL_NAME)\<rparr>"
    by (rule apply_desired_cli [OF render_Inr(4) [OF assms(3,4)] _ _ assms(5)])
      (simp_all add: d i accepted_acl_intent_def)
  moreover have "accepted_entries \<noteq> []" by (simp add: accepted_entries_def)
  ultimately show ?thesis
    by (auto simp: leaves_def accepted_decision split: option.splits)
qed

text \<open>C37: What the renderer sends is read back as the desired state. On a router with nothing of the
  managed ACL, run the rendered text and let the four show commands print the configuration it
  leaves, whatever other lists and interfaces the router has: the parser accepts the text, reports the
  policy with exactly the desired rules and attachment, and rendering against that observation is a
  no-op with an empty payload.\<close>

theorem acl_applied_is_read_back:
  assumes "acl_intent_valid sha i = Inr u" and "acl_observation_valid s = Inr w"
    and "render_acl_changes sha i s d = Inr t" and "\<not> ao_policy_present s"
    and "fresh_router names ifs cfg"
  shows "\<exists>s' t'. parse_acl_observation i now (show_acl names ifs (acl_apply cfg (art_payload t))) = Inr s'
    \<and> acl_exact s' \<and> ao_rules s' = ad_rules d
    \<and> render_acl_changes sha i s' d = Inr t' \<and> art_no_op t' \<and> art_payload t' = []"
proof -
  have i: "i = accepted_acl_intent" using assms(1) by (rule acl_intent_unique)
  note built = render_Inr(1) [OF assms(3)]
  note d = build_acl_Inr [OF built]
  have rules: "ad_rules d = accepted_rules" by (simp add: d i accepted_acl_intent_def)
  have empty: "ac_lists cfg ACL_NAME = []"
    using assms(5) by (simp add: fresh_router_def ACL_NAME_def starts_with_def)
  have "acl_apply cfg (art_payload t) = with_policy cfg"
    unfolding with_policy_def
    by (rule apply_desired_cli [OF render_Inr(4) [OF assms(3,4)] rules _ empty])
      (simp add: d i accepted_acl_intent_def)
  moreover have "acl_exact (exact_observation now)"
    using exact_observation_valid [of now]
    by (auto simp: acl_observation_valid_def bindS_Inr_iff checks_ok acl_absent_def exact_observation_def)
  ultimately show ?thesis
    using built rules parse_shown_policy [OF assms(5), of now]
    by (intro exI conjI)
      (auto simp: i render_acl_changes_def exact_observation_def checked_def acl_rendered_target_valid_def)
qed

text \<open>C38: The two notions of drift agree for the ACL: the renderer has nothing to do exactly when the
  managed-state snapshots of the observation and of the desired state have the same digest, as long
  as SHA-256 does not collide on these two snapshots.\<close>

theorem acl_noop_iff_in_sync:
  assumes "acl_intent_valid sha i = Inr u" and "acl_observation_valid s = Inr w"
    and "render_acl_changes sha i s d = Inr t"
    and "project_acl_observation sha s i = Inr m" and "project_acl_desired sha d i = Inr n"
    and "sha (canonical_json_bytes (snapshot_json acl_vertical m))
        = sha (canonical_json_bytes (snapshot_json acl_vertical n))
      \<Longrightarrow> canonical_json_bytes (snapshot_json acl_vertical m) = canonical_json_bytes (snapshot_json acl_vertical n)"
  shows "art_no_op t \<longleftrightarrow> ms_digest m = ms_digest n"
proof -
  obtain e p where p: "managed_of_acl_observation s i = Inr p"
    and snaps: "build_snapshot sha acl_vertical e p = Inr m"
      "build_snapshot sha acl_vertical e (managed_of_acl_desired d) = Inr n"
    using projected_payloads [OF assms(4,5)] by blast
  note render = render_Inr [OF assms(3)]
  have digests: "ms_digest m = ms_digest n
      \<longleftrightarrow> sort_keys (acl_managed_json p) = sort_keys (acl_managed_json (managed_of_acl_desired d))"
    using snapshots_digest_iff [OF snaps assms(6)] unfolding acl_vertical_def vertical.simps .
  show ?thesis
  proof (cases "ao_policy_present s")
    case True
    then have "p = managed_of_acl_desired d"
      using acl_observation_payload(2) [OF p] render(3) build_acl_Inr(2) [OF render(1)] by simp
    then show ?thesis using True render(2) digests by simp
  next
    case False
    then have "acm_policy_present p \<noteq> acm_policy_present (managed_of_acl_desired d)"
      using acl_observation_payload(1) [OF p] by (simp add: managed_of_acl_desired_def)
    then have "sort_keys (acl_managed_json p) \<noteq> sort_keys (acl_managed_json (managed_of_acl_desired d))"
      using acl_payload_json_present by blast
    then show ?thesis using False render(2) digests by simp
  qed
qed


definition empty_acl_config :: acl_config where
  "empty_acl_config = \<lparr>ac_lists = (\<lambda>n. []), ac_outbound = (\<lambda>i. None)\<rparr>"

definition users_packet :: "nat \<Rightarrow> packet" where
  "users_packet port = \<lparr>pk_source = 0x0A3C0A64, pk_destination = 0x0A3C1464, pk_tcp = True, pk_port = port\<rparr>"

lemma users_packet_between:
  "in_network USERS_PREFIX (pk_source (users_packet port))"
  "in_network SERVERS_PREFIX (pk_destination (users_packet port))"
proof -
  have "in_network USERS_PREFIX 0x0A3C0A64" "in_network SERVERS_PREFIX 0x0A3C1464" by code_simp+
  then show "in_network USERS_PREFIX (pk_source (users_packet port))"
    "in_network SERVERS_PREFIX (pk_destination (users_packet port))"
    by (simp_all add: users_packet_def)
qed

theorem acl_filters_exactly_witness:
  "\<exists>t. render_acl_changes policy_sha accepted_acl_intent absent_acl policy_desired = Inr t
    \<and> leaves (acl_apply empty_acl_config (art_payload t)) ''GigabitEthernet3.20'' (users_packet 443)
    \<and> \<not> leaves (acl_apply empty_acl_config (art_payload t)) ''GigabitEthernet3.20'' (users_packet 22)
    \<and> leaves (acl_apply empty_acl_config (art_payload t)) ''GigabitEthernet2'' (users_packet 22)"
proof -
  obtain t where t: "render_acl_changes policy_sha accepted_acl_intent absent_acl policy_desired = Inr t"
    using render_absent by blast
  have "\<not> ao_policy_present absent_acl" "ac_lists empty_acl_config ACL_NAME = []"
    by (simp_all add: absent_acl_def empty_acl_config_def)
  from acl_filters_exactly [OF accepted_acl_intent_valid absent_acl_valid t this]
  have "leaves (acl_apply empty_acl_config (art_payload t)) ''GigabitEthernet3.20'' (users_packet port) = (port = 443)"
    and "leaves (acl_apply empty_acl_config (art_payload t)) ''GigabitEthernet2'' (users_packet port)" for port
    using users_packet_between [of port] by (simp_all add: users_packet_def empty_acl_config_def leaves_def)
  then show ?thesis using t by (intro exI [of _ t]) simp
qed

definition sample_lists :: "string list" where
  "sample_lists = [''MANAGEMENT-IN'', ACL_NAME]"

definition sample_interfaces :: "shown_interface list" where
  "sample_interfaces =
    [(''GigabitEthernet2'', ['' ip address 10.60.0.2 255.255.255.252'']),
     (''GigabitEthernet3.10'', ['' encapsulation dot1Q 10'']),
     (''GigabitEthernet3.20'', ['' encapsulation dot1Q 20'', '' ip address 10.60.20.1 255.255.255.0''])]"

lemma empty_router_fresh: "fresh_router sample_lists sample_interfaces empty_acl_config"
proof -
  have "distinct sample_lists" "ACL_NAME \<in> set sample_lists" "shown_interfaces_ok sample_interfaces" by code_simp+
  then show ?thesis by (simp add: fresh_router_def empty_acl_config_def)
qed

theorem acl_applied_is_read_back_witness:
  "\<exists>t s' t'. render_acl_changes policy_sha accepted_acl_intent absent_acl policy_desired = Inr t
    \<and> parse_acl_observation accepted_acl_intent (ao_observed_at absent_acl)
        (show_acl sample_lists sample_interfaces (acl_apply empty_acl_config (art_payload t))) = Inr s'
    \<and> render_acl_changes policy_sha accepted_acl_intent s' policy_desired = Inr t' \<and> art_no_op t'"
proof -
  obtain t where t: "render_acl_changes policy_sha accepted_acl_intent absent_acl policy_desired = Inr t"
    using render_absent by blast
  have "\<not> ao_policy_present absent_acl" by (simp add: absent_acl_def)
  from acl_applied_is_read_back [OF accepted_acl_intent_valid absent_acl_valid t this empty_router_fresh] t
  show ?thesis by blast
qed

theorem acl_noop_iff_in_sync_witness:
  "\<exists>m n. project_acl_observation policy_sha (exact_observation (ao_observed_at absent_acl)) accepted_acl_intent = Inr m
    \<and> project_acl_desired policy_sha policy_desired accepted_acl_intent = Inr n \<and> ms_digest m = ms_digest n"
proof -
  let ?s = "exact_observation (ao_observed_at absent_acl)"
  obtain t where t: "render_acl_changes policy_sha accepted_acl_intent ?s policy_desired = Inr t" "art_no_op t"
    using render_exact by blast
  obtain m where m: "project_acl_observation policy_sha ?s accepted_acl_intent = Inr m"
      "project_acl_desired policy_sha policy_desired accepted_acl_intent = Inr m"
    using policy_snapshot by blast
  from acl_noop_iff_in_sync [OF accepted_acl_intent_valid exact_observation_valid t(1) m refl] t(2) m
  show ?thesis by blast
qed

end
