(* ===== verification/Vlan_Managed.thy ===== *)
theory Vlan_Managed
  imports Vlan_Observation Managed_State_Laws
begin

text \<open>
  \<^verbatim>\<open>managed_state.py\<close> for the VLAN service: the managed payload with its validators and serializer,
  the projections of an observation and of a desired state, and the facts that make a comparison of
  the two digests a comparison of the service itself.
\<close>

section \<open>Payload\<close>

record vlan_managed_vlan =
  vmv_vid :: nat
  vmv_present :: bool
  vmv_name :: "string option"

record vlan_managed_core =
  vmc_interface :: stable_interface
  vmc_present :: bool
  vmc_admin_enabled :: "bool option"
  vmc_encapsulation_vlan :: "nat option"
  vmc_gateway_addresses :: "ipv4_interface list"

record vlan_managed_port =
  vmp_interface :: stable_interface
  vmp_mode :: string
  vmp_allowed_vlans :: "nat list"
  vmp_access_vlan :: "nat option"
  vmp_admin_enabled :: bool

record vlan_managed =
  vm_vlans :: "vlan_managed_vlan list"
  vm_core_interfaces :: "vlan_managed_core list"
  vm_access_ports :: "vlan_managed_port list"

definition vlan_managed_vlan_valid :: "vlan_managed_vlan \<Rightarrow> unit res" where
  "vlan_managed_vlan_valid v = checks
    [(vmv_vid v \<notin> {10, 20}, ValueError ''vid''),
     (vmv_present v \<noteq> (vmv_name v \<noteq> None), ValueError ''VLAN presence and name disagree'')]"

definition vlan_managed_core_valid :: "vlan_managed_core \<Rightarrow> unit res" where
  "vlan_managed_core_valid c = checks
    [(\<not> stable_interface_valid (vmc_interface c) \<or> \<not> list_all wf_interface (vmc_gateway_addresses c),
       ValueError ''fields''),
     (\<not> vmc_present c \<and> (vmc_admin_enabled c \<noteq> None \<or> vmc_encapsulation_vlan c \<noteq> None
        \<or> vmc_gateway_addresses c \<noteq> []), ValueError ''absent VLAN interface has managed state''),
     (vmc_present c \<and> vmc_admin_enabled c = None, ValueError ''VLAN interface admin state is unobservable'')]"

definition vlan_managed_port_valid :: "vlan_managed_port \<Rightarrow> unit res" where
  "vlan_managed_port_valid p = checks
    [(\<not> stable_interface_valid (vmp_interface p), ValueError ''interface''),
     (vmp_mode p \<notin> {''trunk'', ''access'', ''dynamic auto'', ''dynamic desirable'', ''none''}, ValueError ''mode'')]"

definition vlan_managed_valid :: "vlan_managed \<Rightarrow> unit res" where
  "vlan_managed_valid m =
    bindS (mapS vlan_managed_vlan_valid (vm_vlans m)) (\<lambda>_.
    bindS (mapS vlan_managed_core_valid (vm_core_interfaces m)) (\<lambda>_.
    bindS (mapS vlan_managed_port_valid (vm_access_ports m)) (\<lambda>_. checks
     [(length (vm_vlans m) \<noteq> 2, ValueError ''vlans''),
      (length (vm_core_interfaces m) \<noteq> 3, ValueError ''core_interfaces''),
      (length (vm_access_ports m) \<noteq> 3, ValueError ''access_ports'')])))"

definition vlan_managed_vlan_json :: "vlan_managed_vlan \<Rightarrow> json" where
  "vlan_managed_vlan_json v = JObj
    [(''vid'', JInt (int (vmv_vid v))), (''present'', JBool (vmv_present v)), (''name'', jopt JStr (vmv_name v))]"

definition vlan_managed_core_json :: "vlan_managed_core \<Rightarrow> json" where
  "vlan_managed_core_json c = JObj
    [(''interface'', interface_json (vmc_interface c)), (''present'', JBool (vmc_present c)),
     (''admin_enabled'', jopt JBool (vmc_admin_enabled c)),
     (''encapsulation_vlan'', vlan_id_json (vmc_encapsulation_vlan c)),
     (''gateway_addresses'', addresses_json (vmc_gateway_addresses c))]"

definition vlan_managed_port_json :: "vlan_managed_port \<Rightarrow> json" where
  "vlan_managed_port_json p = JObj
    [(''interface'', interface_json (vmp_interface p)), (''mode'', JStr (vmp_mode p)),
     (''allowed_vlans'', vlan_ids_json (vmp_allowed_vlans p)), (''access_vlan'', vlan_id_json (vmp_access_vlan p)),
     (''admin_enabled'', JBool (vmp_admin_enabled p))]"

definition vlan_managed_json :: "vlan_managed \<Rightarrow> json" where
  "vlan_managed_json m = JObj
    [(''vlans'', JArr (map vlan_managed_vlan_json (vm_vlans m))),
     (''core_interfaces'', JArr (map vlan_managed_core_json (vm_core_interfaces m))),
     (''access_ports'', JArr (map vlan_managed_port_json (vm_access_ports m)))]"

definition vlan_vertical :: "vlan_managed vertical" where
  "vlan_vertical =
    \<lparr>vt_vertical = VLAN, vt_payload_valid = vlan_managed_valid, vt_payload_json = vlan_managed_json,
     vt_exact_scope = (\<lambda>e p. map (si_interface \<circ> vmc_interface) (vm_core_interfaces p)
       @ map (si_interface \<circ> vmp_interface) (vm_access_ports p) = scope_interfaces e),
     vt_scope_message = ''VLAN payload is outside its exact scope''\<rparr>"

section \<open>Projections\<close>

definition managed_core_of :: "observed_core_vlan \<Rightarrow> vlan_managed_core" where
  "managed_core_of c =
    \<lparr>vmc_interface = oc_interface c, vmc_present = oc_exists c,
     vmc_admin_enabled = (if oc_exists c then oc_admin_enabled c else None),
     vmc_encapsulation_vlan = oc_encapsulation_vlan c,
     vmc_gateway_addresses = sort_key interface_str (oc_ipv4_addresses c)\<rparr>"

definition managed_vlan_of :: "observed_access_vlan \<Rightarrow> vlan_managed_vlan" where
  "managed_vlan_of v =
    \<lparr>vmv_vid = ov_vid v, vmv_present = ov_present v, vmv_name = (if ov_present v then ov_name v else None)\<rparr>"

definition managed_port_of :: "observed_access_port \<Rightarrow> vlan_managed_port" where
  "managed_port_of p =
    \<lparr>vmp_interface = op_interface p, vmp_mode = op_mode p, vmp_allowed_vlans = sort (op_allowed_vlans p),
     vmp_access_vlan = op_access_vlan p, vmp_admin_enabled = op_admin_enabled p\<rparr>"

definition managed_of_vlan_observation :: "vlan_observation \<Rightarrow> vlan_managed" where
  "managed_of_vlan_observation s =
    \<lparr>vm_vlans = map managed_vlan_of (vo_access_vlans s),
     vm_core_interfaces = map managed_core_of (vo_core_parent s # vo_core_subinterfaces s),
     vm_access_ports = map managed_port_of (vo_access_ports s)\<rparr>"

definition managed_parent_of :: "stable_interface \<Rightarrow> vlan_managed_core" where
  "managed_parent_of i = \<lparr>vmc_interface = i, vmc_present = True, vmc_admin_enabled = Some True,
     vmc_encapsulation_vlan = None, vmc_gateway_addresses = []\<rparr>"

definition managed_gateway_of :: "desired_vlan_gateway \<Rightarrow> vlan_managed_core" where
  "managed_gateway_of g = \<lparr>vmc_interface = dvg_subinterface g, vmc_present = True,
     vmc_admin_enabled = Some (dvg_admin_enabled g), vmc_encapsulation_vlan = Some (dvg_vid g),
     vmc_gateway_addresses = [dvg_gateway g]\<rparr>"

definition managed_of_vlan_desired :: "vlan_desired \<Rightarrow> vlan_managed" where
  "managed_of_vlan_desired d =
    \<lparr>vm_vlans = map (\<lambda>g. \<lparr>vmv_vid = dvg_vid g, vmv_present = True, vmv_name = Some (dvg_name g)\<rparr>) (vd_gateways d),
     vm_core_interfaces = managed_parent_of (vd_core_parent d) # map managed_gateway_of (vd_gateways d),
     vm_access_ports = map (\<lambda>p. \<lparr>vmp_interface = dvp_interface p, vmp_mode = dvp_mode p,
        vmp_allowed_vlans = dvp_allowed_vlans p, vmp_access_vlan = dvp_access_vlan p,
        vmp_admin_enabled = dvp_admin_enabled p\<rparr>) (vd_access_ports d)\<rparr>"

definition project_vlan_observation ::
    "(string \<Rightarrow> string) \<Rightarrow> vlan_observation \<Rightarrow> vlan_service_intent \<Rightarrow> vlan_managed managed_snapshot res" where
  "project_vlan_observation sha s i =
    bindS (checked vlan_managed_valid (managed_of_vlan_observation s)) (\<lambda>p.
    bindS (build_vlan_envelope i) (\<lambda>e. build_snapshot sha vlan_vertical e p))"

definition project_vlan_desired ::
    "(string \<Rightarrow> string) \<Rightarrow> vlan_desired \<Rightarrow> vlan_service_intent \<Rightarrow> vlan_managed managed_snapshot res" where
  "project_vlan_desired sha d i =
    bindS (checked vlan_managed_valid (managed_of_vlan_desired d)) (\<lambda>p.
    bindS (build_vlan_envelope i) (\<lambda>e. build_snapshot sha vlan_vertical e p))"

section \<open>The serialized payload determines the payload\<close>

lemma json_int_inject: "sort_keys (JInt (int m)) = sort_keys (JInt (int n)) \<longleftrightarrow> m = n"
  by simp

lemma vlan_id_json_inject: "sort_keys (vlan_id_json a) = sort_keys (vlan_id_json b) \<longleftrightarrow> a = b"
  by (cases a; cases b) (auto simp: vlan_id_json_def)

lemma vlan_ids_json_inject: "sort_keys (vlan_ids_json a) = sort_keys (vlan_ids_json b) \<longleftrightarrow> a = b"
proof
  assume "sort_keys (vlan_ids_json a) = sort_keys (vlan_ids_json b)"
  then have "map (JInt \<circ> int) a = map (JInt \<circ> int) b" by (simp add: vlan_ids_json_def comp_def)
  then show "a = b" by (rule map_injective) (simp add: inj_def)
qed simp

lemma jopt_str_inject: "sort_keys (jopt JStr a) = sort_keys (jopt JStr b) \<longleftrightarrow> a = b"
  by (cases a; cases b) auto

lemma map_json_inject:
  assumes "map (sort_keys \<circ> f) xs = map (sort_keys \<circ> f) ys"
    and "\<And>x y. x \<in> set xs \<Longrightarrow> y \<in> set ys \<Longrightarrow> sort_keys (f x) = sort_keys (f y) \<Longrightarrow> x = y"
  shows "xs = ys"
proof (rule nth_equalityI)
  show length: "length xs = length ys" using assms(1) by (metis length_map)
  fix k assume k: "k < length xs"
  then have "sort_keys (f (xs ! k)) = sort_keys (f (ys ! k))"
    using length arg_cong [OF assms(1), of "\<lambda>l. l ! k"] by simp
  then show "xs ! k = ys ! k" using k length by (intro assms(2)) auto
qed

lemma vlan_managed_vlan_inject:
  assumes "sort_keys (vlan_managed_vlan_json a) = sort_keys (vlan_managed_vlan_json b)"
  shows "a = b"
proof -
  note eq = sorted_objects_eq [OF assms [unfolded vlan_managed_vlan_json_def], simplified]
  show ?thesis
    using eq [of "''vid''"] eq [of "''present''"] eq [of "''name''"]
    by (intro vlan_managed_vlan.equality) (simp_all add: jopt_str_inject)
qed

lemma vlan_managed_core_inject:
  assumes "sort_keys (vlan_managed_core_json a) = sort_keys (vlan_managed_core_json b)"
    and "vlan_managed_core_valid a = Inr u" and "vlan_managed_core_valid b = Inr w"
  shows "a = b"
proof -
  note eq = sorted_objects_eq [OF assms(1) [unfolded vlan_managed_core_json_def], simplified]
  have "vmc_gateway_addresses a = vmc_gateway_addresses b"
    using assms(2,3) eq [of "''gateway_addresses''"]
    by (auto simp: vlan_managed_core_valid_def checks_ok intro: addresses_json_inject)
  then show ?thesis
    using eq [of "''interface''"] eq [of "''present''"] eq [of "''admin_enabled''"] eq [of "''encapsulation_vlan''"]
    by (intro vlan_managed_core.equality)
      (simp_all add: interface_json_inject jopt_bool_inject vlan_id_json_inject)
qed

lemma vlan_managed_port_inject:
  assumes "sort_keys (vlan_managed_port_json a) = sort_keys (vlan_managed_port_json b)"
  shows "a = b"
proof -
  note eq = sorted_objects_eq [OF assms [unfolded vlan_managed_port_json_def], simplified]
  show ?thesis
    using eq [of "''interface''"] eq [of "''mode''"] eq [of "''allowed_vlans''"] eq [of "''access_vlan''"]
      eq [of "''admin_enabled''"]
    by (intro vlan_managed_port.equality)
      (simp_all add: interface_json_inject vlan_ids_json_inject vlan_id_json_inject)
qed

lemma vlan_managed_json_inject:
  assumes "sort_keys (vlan_managed_json a) = sort_keys (vlan_managed_json b)"
    and "vlan_managed_valid a = Inr u" and "vlan_managed_valid b = Inr w"
  shows "a = b"
proof -
  note eq = sorted_objects_eq [OF assms(1) [unfolded vlan_managed_json_def], simplified]
  have core: "\<exists>u. vlan_managed_core_valid c = Inr u" if "c \<in> set (vm_core_interfaces a) \<union> set (vm_core_interfaces b)" for c
    using assms(2,3) that mapS_unit [of vlan_managed_core_valid]
    by (auto simp: vlan_managed_valid_def bindS_Inr_iff)
  have "vm_core_interfaces a = vm_core_interfaces b"
    by (rule map_json_inject [where f = vlan_managed_core_json])
      (use eq [of "''core_interfaces''"] core vlan_managed_core_inject in \<open>auto simp: comp_def\<close>)
  moreover have "vm_vlans a = vm_vlans b"
    by (rule map_json_inject [where f = vlan_managed_vlan_json])
      (use eq [of "''vlans''"] vlan_managed_vlan_inject in \<open>auto simp: comp_def\<close>)
  moreover have "vm_access_ports a = vm_access_ports b"
    by (rule map_json_inject [where f = vlan_managed_port_json])
      (use eq [of "''access_ports''"] vlan_managed_port_inject in \<open>auto simp: comp_def\<close>)
  ultimately show ?thesis by (intro vlan_managed.equality) simp_all
qed

end
