(* ===== verification/Vlan_Properties.thy ===== *)
theory Vlan_Properties
  imports Vlan_Managed Sample_Policy
begin

text \<open>
  The VLAN service: comparing the managed-state digests is the same as checking that the service is
  up, field by field; and what the parsers make of some outputs of the switch.
\<close>

section \<open>The service is up\<close>

definition vlan_service_up :: "vlan_observation \<Rightarrow> bool" where
  "vlan_service_up s \<longleftrightarrow>
    map (\<lambda>v. (ov_vid v, ov_present v, ov_name v)) (vo_access_vlans s)
      = [(10, True, Some ''USERS''), (20, True, Some ''SERVERS'')]
    \<and> map (\<lambda>c. (oc_interface c, oc_exists c, oc_admin_enabled c, oc_encapsulation_vlan c, oc_ipv4_addresses c))
        (vo_core_parent s # vo_core_subinterfaces s)
      = [(lab_interface 1 7 ''GigabitEthernet3'', True, Some True, None, []),
         (lab_interface 1 21 ''GigabitEthernet3.10'', True, Some True, Some 10, [IPv4Interface 0x0A3C0A01 24]),
         (lab_interface 1 22 ''GigabitEthernet3.20'', True, Some True, Some 20, [IPv4Interface 0x0A3C1401 24])]
    \<and> (case vo_access_ports s of
        [trunk, users, servers] \<Rightarrow>
          (op_interface trunk, op_mode trunk, sort (op_allowed_vlans trunk), op_admin_enabled trunk)
            = (lab_interface 9 18 ''GigabitEthernet0/1'', ''trunk'', [10, 20], True)
          \<and> (op_interface users, op_mode users, op_access_vlan users, op_admin_enabled users)
            = (lab_interface 9 19 ''GigabitEthernet0/2'', ''access'', Some 10, True)
          \<and> (op_interface servers, op_mode servers, op_access_vlan servers, op_admin_enabled servers)
            = (lab_interface 9 20 ''GigabitEthernet0/3'', ''access'', Some 20, True)
      | _ \<Rightarrow> False)"

text \<open>The port fields that have no effect in the mode of the port: the access VLAN of a trunk and the
  allowed VLANs of an access port.\<close>

definition idle_port_fields_unset :: "vlan_observation \<Rightarrow> bool" where
  "idle_port_fields_unset s \<longleftrightarrow> list_all (\<lambda>p. if op_mode p = ''trunk'' then op_access_vlan p = None
     else op_allowed_vlans p = []) (vo_access_ports s)"

definition accepted_vlan_intent :: vlan_service_intent where
  "accepted_vlan_intent =
    \<lparr>vsi_source_data_plane = accepted_allocation, vsi_source_vlan_service = accepted_vlan_service,
     vsi_gateways = map gateway_intent_of [users_gateway, servers_gateway],
     vsi_trunk = lab_interface 9 18 ''GigabitEthernet0/1'',
     vsi_access_ports = [\<lparr>vpi_interface = lab_interface 9 19 ''GigabitEthernet0/2'', vpi_access_vlan = 10\<rparr>,
       \<lparr>vpi_interface = lab_interface 9 20 ''GigabitEthernet0/3'', vpi_access_vlan = 20\<rparr>]\<rparr>"

definition up_payload :: vlan_managed where
  "up_payload =
    \<lparr>vm_vlans = [\<lparr>vmv_vid = 10, vmv_present = True, vmv_name = Some ''USERS''\<rparr>,
       \<lparr>vmv_vid = 20, vmv_present = True, vmv_name = Some ''SERVERS''\<rparr>],
     vm_core_interfaces =
      [managed_parent_of (lab_interface 1 7 ''GigabitEthernet3''),
       \<lparr>vmc_interface = lab_interface 1 21 ''GigabitEthernet3.10'', vmc_present = True,
        vmc_admin_enabled = Some True, vmc_encapsulation_vlan = Some 10,
        vmc_gateway_addresses = [IPv4Interface 0x0A3C0A01 24]\<rparr>,
       \<lparr>vmc_interface = lab_interface 1 22 ''GigabitEthernet3.20'', vmc_present = True,
        vmc_admin_enabled = Some True, vmc_encapsulation_vlan = Some 20,
        vmc_gateway_addresses = [IPv4Interface 0x0A3C1401 24]\<rparr>],
     vm_access_ports =
      [\<lparr>vmp_interface = lab_interface 9 18 ''GigabitEthernet0/1'', vmp_mode = ''trunk'',
        vmp_allowed_vlans = [10, 20], vmp_access_vlan = None, vmp_admin_enabled = True\<rparr>,
       \<lparr>vmp_interface = lab_interface 9 19 ''GigabitEthernet0/2'', vmp_mode = ''access'',
        vmp_allowed_vlans = [], vmp_access_vlan = Some 10, vmp_admin_enabled = True\<rparr>,
       \<lparr>vmp_interface = lab_interface 9 20 ''GigabitEthernet0/3'', vmp_mode = ''access'',
        vmp_allowed_vlans = [], vmp_access_vlan = Some 20, vmp_admin_enabled = True\<rparr>]\<rparr>"

lemma from_allocations_unique:
  assumes "vlan_intent_from_allocations sha a v = Inr i"
  shows "i = accepted_vlan_intent"
proof -
  have "a = accepted_allocation" "v = accepted_vlan_service"
    using assms allocation_unique vlan_service_unique
    by (auto simp: vlan_intent_from_allocations_def Let_def vlan_intent_valid_def bindS_Inr_iff)
  then show ?thesis
    using assms
    by (auto simp: vlan_intent_from_allocations_def Let_def bindS_Inr_iff accepted_vlan_intent_def
      accepted_vlan_service_def)
qed

lemma desired_payload:
  assumes "build_vlan_desired sha accepted_vlan_intent = Inr d"
  shows "managed_of_vlan_desired d = up_payload"
  using assms
  by (auto simp: build_vlan_desired_def Let_def bindS_Inr_iff managed_of_vlan_desired_def up_payload_def
    accepted_vlan_intent_def accepted_vlan_service_def desired_gateway_of_def gateway_intent_of_def
    users_gateway_def servers_gateway_def managed_gateway_of_def desired_ports_def trunk_port_def access_port_def)

lemma sort_key_nil: "sort_key f xs = [] \<longleftrightarrow> xs = []"
  by (metis length_0_conv length_sort)

lemma managed_core_iff:
  "managed_core_of c = \<lparr>vmc_interface = i, vmc_present = True, vmc_admin_enabled = Some b,
      vmc_encapsulation_vlan = e, vmc_gateway_addresses = []\<rparr>
    \<longleftrightarrow> (oc_interface c, oc_exists c, oc_admin_enabled c, oc_encapsulation_vlan c, oc_ipv4_addresses c)
      = (i, True, Some b, e, [])"
  "managed_core_of c = \<lparr>vmc_interface = i, vmc_present = True, vmc_admin_enabled = Some b,
      vmc_encapsulation_vlan = e, vmc_gateway_addresses = [x]\<rparr>
    \<longleftrightarrow> (oc_interface c, oc_exists c, oc_admin_enabled c, oc_encapsulation_vlan c, oc_ipv4_addresses c)
      = (i, True, Some b, e, [x])"
  by (auto simp: managed_core_of_def sort_key_singleton sort_key_nil)

lemma observed_payload:
  "managed_of_vlan_observation s = up_payload \<longleftrightarrow> vlan_service_up s \<and> idle_port_fields_unset s"
proof -
  have vlans: "map managed_vlan_of vs = vm_vlans up_payload \<longleftrightarrow>
      map (\<lambda>v. (ov_vid v, ov_present v, ov_name v)) vs = [(10, True, Some ''USERS''), (20, True, Some ''SERVERS'')]" for vs
    by (auto simp: up_payload_def managed_vlan_of_def map_eq_Cons_conv split: if_splits)
  have cores: "map managed_core_of cs = vm_core_interfaces up_payload \<longleftrightarrow>
      map (\<lambda>c. (oc_interface c, oc_exists c, oc_admin_enabled c, oc_encapsulation_vlan c, oc_ipv4_addresses c)) cs
      = [(lab_interface 1 7 ''GigabitEthernet3'', True, Some True, None, []),
         (lab_interface 1 21 ''GigabitEthernet3.10'', True, Some True, Some 10, [IPv4Interface 0x0A3C0A01 24]),
         (lab_interface 1 22 ''GigabitEthernet3.20'', True, Some True, Some 20, [IPv4Interface 0x0A3C1401 24])]" for cs
    by (simp only: up_payload_def vlan_managed.simps managed_parent_of_def map_eq_Cons_conv managed_core_iff
      map_is_Nil_conv Nil_is_map_conv)
  have ports: "map managed_port_of ps = vm_access_ports up_payload \<longleftrightarrow>
      (case ps of
        [trunk, users, servers] \<Rightarrow>
          (op_interface trunk, op_mode trunk, sort (op_allowed_vlans trunk), op_admin_enabled trunk)
            = (lab_interface 9 18 ''GigabitEthernet0/1'', ''trunk'', [10, 20], True)
          \<and> (op_interface users, op_mode users, op_access_vlan users, op_admin_enabled users)
            = (lab_interface 9 19 ''GigabitEthernet0/2'', ''access'', Some 10, True)
          \<and> (op_interface servers, op_mode servers, op_access_vlan servers, op_admin_enabled servers)
            = (lab_interface 9 20 ''GigabitEthernet0/3'', ''access'', Some 20, True)
      | _ \<Rightarrow> False)
      \<and> list_all (\<lambda>p. if op_mode p = ''trunk'' then op_access_vlan p = None else op_allowed_vlans p = []) ps" for ps
    by (auto simp: up_payload_def managed_port_of_def map_eq_Cons_conv sort_key_nil split: list.split)
  have "managed_of_vlan_observation s = up_payload \<longleftrightarrow>
      map managed_vlan_of (vo_access_vlans s) = vm_vlans up_payload
      \<and> map managed_core_of (vo_core_parent s # vo_core_subinterfaces s) = vm_core_interfaces up_payload
      \<and> map managed_port_of (vo_access_ports s) = vm_access_ports up_payload"
    unfolding managed_of_vlan_observation_def up_payload_def by simp
  then show ?thesis unfolding vlan_service_up_def idle_port_fields_unset_def vlans cores ports conj_assoc .
qed

text \<open>C39: The digests of the observed and of the desired VLAN snapshot are equal exactly when the service
  is up, both VLANs present under their names, the parent and both gateway subinterfaces enabled with
  their encapsulation and address, the trunk carrying the two VLANs and both access ports in their
  VLAN, and the port fields without effect are unset: the trunk reports no access VLAN and the access
  ports no allowed VLANs, as long as SHA-256 does not collide on these two snapshots. The second half is
  a defect of the comparison: a switch reports an access VLAN for a working trunk, and the digests of a
  service that is up then differ.\<close>

theorem vlan_in_sync_iff_up:
  assumes "vlan_intent_from_allocations sha a v = Inr i" and "build_vlan_desired sha i = Inr d"
    and "project_vlan_observation sha s i = Inr m" and "project_vlan_desired sha d i = Inr n"
    and "sha (canonical_json_bytes (snapshot_json vlan_vertical m))
        = sha (canonical_json_bytes (snapshot_json vlan_vertical n))
      \<Longrightarrow> canonical_json_bytes (snapshot_json vlan_vertical m) = canonical_json_bytes (snapshot_json vlan_vertical n)"
  shows "ms_digest m = ms_digest n \<longleftrightarrow> vlan_service_up s \<and> idle_port_fields_unset s"
proof -
  have i: "i = accepted_vlan_intent" using assms(1) by (rule from_allocations_unique)
  obtain e where snaps: "build_snapshot sha vlan_vertical e (managed_of_vlan_observation s) = Inr m"
      "build_snapshot sha vlan_vertical e (managed_of_vlan_desired d) = Inr n"
    and valid: "vlan_managed_valid (managed_of_vlan_observation s) = Inr ()"
      "vlan_managed_valid (managed_of_vlan_desired d) = Inr ()"
    using assms(3,4)
    by (auto simp: project_vlan_observation_def project_vlan_desired_def bindS_Inr_iff checked_managed_Inr)
  have "ms_digest m = ms_digest n
      \<longleftrightarrow> sort_keys (vlan_managed_json (managed_of_vlan_observation s)) = sort_keys (vlan_managed_json (managed_of_vlan_desired d))"
    using snapshots_digest_iff [OF snaps assms(5)] unfolding vlan_vertical_def vertical.simps .
  also have "\<dots> \<longleftrightarrow> managed_of_vlan_observation s = managed_of_vlan_desired d"
  proof
    assume "sort_keys (vlan_managed_json (managed_of_vlan_observation s))
      = sort_keys (vlan_managed_json (managed_of_vlan_desired d))"
    then show "managed_of_vlan_observation s = managed_of_vlan_desired d"
      using valid by (rule vlan_managed_json_inject)
  qed simp
  finally show ?thesis
    using observed_payload desired_payload [OF assms(2) [unfolded i]] by simp
qed


section \<open>A service that is up\<close>

definition up_observation :: vlan_observation where
  "up_observation = \<lparr>vo_observed_at = ao_observed_at absent_acl,
     vo_core_parent = \<lparr>oc_interface = lab_interface 1 7 ''GigabitEthernet3'', oc_exists = True,
       oc_admin_enabled = Some True, oc_encapsulation_vlan = None, oc_ipv4_addresses = [],
       oc_ospf_participating = False\<rparr>,
     vo_core_subinterfaces =
      [\<lparr>oc_interface = lab_interface 1 21 ''GigabitEthernet3.10'', oc_exists = True, oc_admin_enabled = Some True,
        oc_encapsulation_vlan = Some 10, oc_ipv4_addresses = [IPv4Interface 0x0A3C0A01 24],
        oc_ospf_participating = False\<rparr>,
       \<lparr>oc_interface = lab_interface 1 22 ''GigabitEthernet3.20'', oc_exists = True, oc_admin_enabled = Some True,
        oc_encapsulation_vlan = Some 20, oc_ipv4_addresses = [IPv4Interface 0x0A3C1401 24],
        oc_ospf_participating = False\<rparr>],
     vo_access_vlans =
      [\<lparr>ov_vid = 10, ov_present = True, ov_name = Some ''USERS'', ov_member_interfaces = [''GigabitEthernet0/2'']\<rparr>,
       \<lparr>ov_vid = 20, ov_present = True, ov_name = Some ''SERVERS'', ov_member_interfaces = [''GigabitEthernet0/3'']\<rparr>],
     vo_access_ports =
      [\<lparr>op_interface = lab_interface 9 18 ''GigabitEthernet0/1'', op_mode = ''trunk'', op_admin_enabled = True,
        op_allowed_vlans = [10, 20], op_access_vlan = None, op_native_vlan = Some 1, op_voice_vlan = None\<rparr>,
       \<lparr>op_interface = lab_interface 9 19 ''GigabitEthernet0/2'', op_mode = ''access'', op_admin_enabled = True,
        op_allowed_vlans = [], op_access_vlan = Some 10, op_native_vlan = Some 1, op_voice_vlan = None\<rparr>,
       \<lparr>op_interface = lab_interface 9 20 ''GigabitEthernet0/3'', op_mode = ''access'', op_admin_enabled = True,
        op_allowed_vlans = [], op_access_vlan = Some 20, op_native_vlan = Some 1, op_voice_vlan = None\<rparr>],
     vo_access_gateway_svis = []\<rparr>"

lemma up_observation_up: "vlan_service_up up_observation" "idle_port_fields_unset up_observation"
  by (simp_all add: vlan_service_up_def idle_port_fields_unset_def up_observation_def)

lemma accepted_vlan_intent_valid: "vlan_intent_valid policy_sha accepted_vlan_intent = Inr ()"
proof -
  have gateways: "ok (mapS vlan_gateway_intent_valid (vsi_gateways accepted_vlan_intent))"
    "ok (mapS vlan_access_port_intent_valid (vsi_access_ports accepted_vlan_intent))"
    "stable_interface_valid (vsi_trunk accepted_vlan_intent)"
    "list_all gateway_follows (zip (vsi_gateways accepted_vlan_intent) (rvs_gateways accepted_vlan_service))"
    by code_simp+
  then obtain us ws where "mapS vlan_gateway_intent_valid (vsi_gateways accepted_vlan_intent) = Inr us"
    "mapS vlan_access_port_intent_valid (vsi_access_ports accepted_vlan_intent) = Inr ws"
    by (auto simp: ok_def split: sum.splits)
  then show ?thesis
    using gateways policy_digests accepted_allocation_valid vlan_service_accepted
    by (simp add: vlan_intent_valid_def accepted_vlan_intent_def accepted_vlan_service_def gateway_intent_of_def
      users_gateway_def servers_gateway_def)
qed

lemma from_accepted_allocations:
  "vlan_intent_from_allocations policy_sha accepted_allocation accepted_vlan_service = Inr accepted_vlan_intent"
  using accepted_vlan_intent_valid
  by (simp add: vlan_intent_from_allocations_def accepted_vlan_intent_def accepted_vlan_service_def)

lemma build_accepted_vlan: "\<exists>d. build_vlan_desired sha accepted_vlan_intent = Inr d"
  by (simp add: build_vlan_desired_def Let_def vlan_desired_valid_def vlan_calculated_digest_def vlan_desired_json_def
    accepted_vlan_intent_def desired_gateway_of_def gateway_intent_of_def users_gateway_def servers_gateway_def
    desired_ports_def trunk_port_def access_port_def)

lemma up_snapshot: "\<exists>m. bindS (build_vlan_envelope accepted_vlan_intent)
    (\<lambda>e. build_snapshot sha vlan_vertical e up_payload) = Inr m" and up_payload_valid: "vlan_managed_valid up_payload = Inr ()"
proof -
  have "ok (managed_ownership_envelope_valid (vlan_envelope accepted_vlan_intent))"
    and "ok (vlan_managed_valid up_payload)"
    and "vt_exact_scope vlan_vertical (vlan_envelope accepted_vlan_intent) up_payload"
    by code_simp+
  then have parts: "managed_ownership_envelope_valid (vlan_envelope accepted_vlan_intent) = Inr ()"
    "vlan_managed_valid up_payload = Inr ()" by (simp_all add: ok_unit)
  moreover have "\<exists>m. build_snapshot sha vlan_vertical (vlan_envelope accepted_vlan_intent) up_payload = Inr m"
    by (rule build_snapshot_ok)
      (use parts \<open>vt_exact_scope vlan_vertical (vlan_envelope accepted_vlan_intent) up_payload\<close> in
        \<open>simp_all add: vlan_vertical_def vlan_envelope_def\<close>)
  ultimately show "\<exists>m. bindS (build_vlan_envelope accepted_vlan_intent)
      (\<lambda>e. build_snapshot sha vlan_vertical e up_payload) = Inr m" and "vlan_managed_valid up_payload = Inr ()"
    by (simp_all add: build_vlan_envelope_def)
qed

theorem vlan_in_sync_iff_up_witness:
  "\<exists>d m n. build_vlan_desired policy_sha accepted_vlan_intent = Inr d
    \<and> project_vlan_observation policy_sha up_observation accepted_vlan_intent = Inr m
    \<and> project_vlan_desired policy_sha d accepted_vlan_intent = Inr n \<and> ms_digest m = ms_digest n"
proof -
  obtain d where d: "build_vlan_desired policy_sha accepted_vlan_intent = Inr d" using build_accepted_vlan by blast
  obtain m where "bindS (build_vlan_envelope accepted_vlan_intent)
      (\<lambda>e. build_snapshot policy_sha vlan_vertical e up_payload) = Inr m" using up_snapshot by blast
  then have m: "project_vlan_observation policy_sha up_observation accepted_vlan_intent = Inr m"
    "project_vlan_desired policy_sha d accepted_vlan_intent = Inr m"
    using observed_payload [of up_observation] up_observation_up desired_payload [OF d] up_payload_valid
    by (simp_all add: project_vlan_observation_def project_vlan_desired_def checked_def)
  from vlan_in_sync_iff_up [OF from_accepted_allocations d m refl] up_observation_up
  have "ms_digest m = ms_digest m" by simp
  with d m show ?thesis by blast
qed

section \<open>Outputs of the switch\<close>

text \<open>A VLAN without ports takes the ports of the next row, and a full interface name is doubled.\<close>

definition brief_row :: "string \<Rightarrow> string \<Rightarrow> string \<Rightarrow> string" where
  "brief_row vid name ports = vid @ '' '' @ name @ '' active '' @ ports"

theorem empty_vlan_takes_next_row:
  "ov_member_interfaces (parse_access_vlan_row
     (lines_text [brief_row ''10'' ''USERS'' [], brief_row ''20'' ''SERVERS'' ''Gi0/3'']) 10) = [''GigabitEthernet0/3'']"
  by code_simp

theorem full_port_name_doubled:
  "ov_member_interfaces (parse_access_vlan_row
     (lines_text [brief_row ''10'' ''USERS'' ''GigabitEthernet0/2'']) 10) = [''GigabitEthernetgabitEthernet0/2'']"
  by code_simp

text \<open>The trunk as the switch reports it: the access VLAN is set although the port is a trunk, and
  a port set to access mode is reported with a mode the observation rejects.\<close>

definition switchport_text :: "string \<Rightarrow> string" where
  "switchport_text mode = lines_text [''Administrative Mode: '' @ mode, ''Access Mode VLAN: 1'']"

theorem trunk_reports_access_vlan:
  "case parse_access_port (lab_interface 9 18 ''GigabitEthernet0/1'', switchport_text ''trunk'', []) of
     Inr p \<Rightarrow> op_mode p = ''trunk'' \<and> op_access_vlan p = Some 1 | Inl e \<Rightarrow> False"
  by code_simp

definition reported_observation :: vlan_observation where
  "reported_observation = up_observation\<lparr>vo_access_ports := (case vo_access_ports up_observation of
     trunk # ports \<Rightarrow> trunk\<lparr>op_access_vlan := Some 1\<rparr> # ports | [] \<Rightarrow> [])\<rparr>"

theorem reported_trunk_differs:
  assumes "build_vlan_desired sha accepted_vlan_intent = Inr d"
  shows "vlan_service_up reported_observation \<and> managed_of_vlan_observation reported_observation \<noteq> managed_of_vlan_desired d"
proof -
  have "vlan_service_up reported_observation" "\<not> idle_port_fields_unset reported_observation"
    by (simp_all add: vlan_service_up_def idle_port_fields_unset_def reported_observation_def up_observation_def)
  then show ?thesis using observed_payload desired_payload [OF assms] by simp
qed

theorem static_access_is_rejected:
  "parse_access_port (lab_interface 9 19 ''GigabitEthernet0/2'', switchport_text ''static access'', [])
     = Inl (ValueError ''access switchport state is unsupported'')"
  by code_simp

text \<open>The intent validator does not compare the names of the gateways with the allocation.\<close>

theorem swapped_names_are_admitted:
  "vlan_intent_valid policy_sha (accepted_vlan_intent\<lparr>vsi_gateways :=
     [(gateway_intent_of users_gateway)\<lparr>vgi_name := ''SERVERS''\<rparr>,
      (gateway_intent_of servers_gateway)\<lparr>vgi_name := ''USERS''\<rparr>]\<rparr>) = Inr ()"
proof -
  let ?gs = "[(gateway_intent_of users_gateway)\<lparr>vgi_name := ''SERVERS''\<rparr>,
      (gateway_intent_of servers_gateway)\<lparr>vgi_name := ''USERS''\<rparr>]"
  have gateways: "ok (mapS vlan_gateway_intent_valid ?gs)"
    "ok (mapS vlan_access_port_intent_valid (vsi_access_ports accepted_vlan_intent))"
    "stable_interface_valid (vsi_trunk accepted_vlan_intent)"
    "list_all gateway_follows (zip ?gs (rvs_gateways accepted_vlan_service))"
    by code_simp+
  then obtain us ws where "mapS vlan_gateway_intent_valid ?gs = Inr us"
    "mapS vlan_access_port_intent_valid (vsi_access_ports accepted_vlan_intent) = Inr ws"
    by (auto simp: ok_def split: sum.splits)
  then show ?thesis
    using gateways policy_digests accepted_allocation_valid vlan_service_accepted
    by (simp add: vlan_intent_valid_def accepted_vlan_intent_def accepted_vlan_service_def gateway_intent_of_def
      users_gateway_def servers_gateway_def)
qed

end
