(* ===== verification/Routing_Identity.thy ===== *)
theory Routing_Identity
  imports Reference_Vlan
begin

text \<open>
  \<^verbatim>\<open>reference_routing_identity.py\<close>: the three OSPF router identities as NetBox owns them. The
  validator admits exactly one allocation, and the GET-only provider checks the pool, the devices
  and every router ID before it builds that allocation.
\<close>

section \<open>The allocation\<close>

definition ROUTING_IDENTITY_TAG :: string where
  "ROUTING_IDENTITY_TAG = ''ncdp-routing-identity''"

definition ACCEPTED_ROUTING_IDENTITY_ALLOCATION_DIGEST :: string where
  "ACCEPTED_ROUTING_IDENTITY_ALLOCATION_DIGEST =
     ''sha256:7e57aaa1dd066fecadb2e43d1f1f82a32cf2250648ddd656d7f0068194d4b7ca''"

definition ROUTER_IDENTITIES :: "(string \<times> nat \<times> nat \<times> string) list" where
  "ROUTER_IDENTITIES =
    [(''core-02'', 1, 23, ''10.60.255.1/32''), (''edge-junos-01'', 2, 24, ''10.60.255.2/32''),
     (''transit-ios-01'', 8, 25, ''10.60.255.3/32'')]"

record ospf_router_identity =
  ori_device_identity :: string
  ori_logical_name :: string
  ori_ip_address_identity :: string
  ori_router_id :: "32 word"

record routing_identity_allocation =
  ria_pool_identity :: string
  ria_pool_prefix :: ipv4_network
  ria_routers :: "ospf_router_identity list"

text \<open>\<^verbatim>\<open>address.removesuffix("/32")\<close>\<close>

definition host_part :: "string \<Rightarrow> string" where
  "host_part s = (if 3 \<le> length s \<and> drop (length s - 3) s = ''/32'' then take (length s - 3) s else s)"

definition router_identity_valid :: "ospf_router_identity \<Rightarrow> unit res" where
  "router_identity_valid r =
    bindS (checks
     [(\<not> netbox_identity ''dcim.device'' (ori_device_identity r), ValueError ''device_identity''),
      (ori_logical_name r \<notin> set (map fst ROUTER_IDENTITIES), ValueError ''logical_name''),
      (\<not> netbox_identity ''ipam.ipaddress'' (ori_ip_address_identity r), ValueError ''ip_address_identity'')]) (\<lambda>_.
    bindS (lookup ROUTER_IDENTITIES (ori_logical_name r)) (\<lambda>(device_id, ip_id, address). checks
     [(ori_device_identity r \<noteq> netbox_id ''dcim.device'' device_id
       \<or> ori_ip_address_identity r \<noteq> netbox_id ''ipam.ipaddress'' ip_id
       \<or> ipv4_str (ori_router_id r) \<noteq> host_part address,
       ValueError ''OSPF router identity is not exact'')]))"

text \<open>\<^verbatim>\<open>address in network\<close>\<close>

definition in_pool :: "32 word \<Rightarrow> ipv4_network \<Rightarrow> bool" where
  "in_pool w n \<longleftrightarrow> w AND netmask (nw_prefix_length n) = nw_address n"

definition routing_allocation_valid :: "routing_identity_allocation \<Rightarrow> unit res" where
  "routing_allocation_valid a =
    bindS (mapS router_identity_valid (ria_routers a)) (\<lambda>_. checks
     [(\<not> netbox_identity ''ipam.prefix'' (ria_pool_identity a), ValueError ''pool_identity''),
      (\<not> wf_network (ria_pool_prefix a), ValueError ''pool_prefix''),
      (length (ria_routers a) \<noteq> 3, ValueError ''routers''),
      (ria_pool_identity a \<noteq> ''netbox:ipam.prefix:8'' \<or> network_str (ria_pool_prefix a) \<noteq> ''10.60.255.0/24''
       \<or> map ori_logical_name (ria_routers a) \<noteq> map fst ROUTER_IDENTITIES
       \<or> \<not> distinct (map ori_device_identity (ria_routers a))
       \<or> \<not> distinct (map ori_ip_address_identity (ria_routers a))
       \<or> \<not> distinct (map ori_router_id (ria_routers a))
       \<or> list_ex (\<lambda>r. \<not> in_pool (ori_router_id r) (ria_pool_prefix a)) (ria_routers a),
       ValueError ''routing-identity allocation is not exact'')])"

section \<open>Building and digest\<close>

definition router_identity_json :: "ospf_router_identity \<Rightarrow> json" where
  "router_identity_json r = JObj
    [(''device_identity'', JStr (ori_device_identity r)), (''logical_name'', JStr (ori_logical_name r)),
     (''ip_address_identity'', JStr (ori_ip_address_identity r)), (''router_id'', JStr (ipv4_str (ori_router_id r)))]"

definition routing_allocation_json :: "routing_identity_allocation \<Rightarrow> json" where
  "routing_allocation_json a = JObj
    [(''schema_version'', JStr ''1''), (''population_tag'', JStr ROUTING_IDENTITY_TAG),
     (''pool_identity'', JStr (ria_pool_identity a)), (''pool_prefix'', JStr (network_str (ria_pool_prefix a))),
     (''routers'', JArr (map router_identity_json (ria_routers a)))]"

definition routing_allocation_digest :: "(string \<Rightarrow> string) \<Rightarrow> routing_identity_allocation \<Rightarrow> string" where
  "routing_allocation_digest sha a = sha256_identity sha (canonical_json_bytes (routing_allocation_json a))"

definition router_identity_literal :: "string \<times> nat \<times> nat \<times> string \<Rightarrow> ospf_router_identity res" where
  "router_identity_literal = (\<lambda>(name, device_id, ip_id, address).
    case read_ipv4 (host_part address) of
      None \<Rightarrow> Inl (ValueError ''router_id'')
    | Some w \<Rightarrow>
        let r = \<lparr>ori_device_identity = netbox_id ''dcim.device'' device_id, ori_logical_name = name,
          ori_ip_address_identity = netbox_id ''ipam.ipaddress'' ip_id, ori_router_id = w\<rparr>
        in bindS (router_identity_valid r) (\<lambda>_. Inr r))"

definition build_routing_allocation :: "routing_identity_allocation res" where
  "build_routing_allocation =
    bindS (mapS router_identity_literal ROUTER_IDENTITIES) (\<lambda>rs.
    bindS (read_network ''10.60.255.0/24'') (\<lambda>n.
    let a = \<lparr>ria_pool_identity = ''netbox:ipam.prefix:8'', ria_pool_prefix = n, ria_routers = rs\<rparr>
    in bindS (routing_allocation_valid a) (\<lambda>_. Inr a)))"

definition build_accepted_routing_evidence :: "(string \<Rightarrow> string) \<Rightarrow> routing_identity_allocation res" where
  "build_accepted_routing_evidence sha =
    bindS build_routing_allocation (\<lambda>a.
    if routing_allocation_digest sha a \<noteq> ACCEPTED_ROUTING_IDENTITY_ALLOCATION_DIGEST
    then Inl (RuntimeError ''accepted routing-identity evidence digest changed'') else Inr a)"

section \<open>The provider\<close>

definition subject_ids :: "nat list" where
  "subject_ids = map (fst \<circ> snd) ROUTER_IDENTITIES"

text \<open>\<^verbatim>\<open>device.get("id") in subjects\<close>: a dict or a list cannot be looked up in a set.\<close>

definition subject_devices :: "json list \<Rightarrow> json list res" where
  "subject_devices devices =
    bindS (mapS (\<lambda>d.
      if hashable (py_get ''id'' d)
      then Inr (if list_ex (\<lambda>i. py_eq_int (py_get ''id'' d) (int i)) subject_ids then [d] else [])
      else Inl (OtherException ''TypeError'')) devices) (\<lambda>dss. Inr (concat dss))"

definition check_pool :: "json \<Rightarrow> unit res" where
  "check_pool prefix =
    (let conflict = ValueError ''NetBox routing-identity pool conflicts''
     in bindS (positive_id ''prefix'' (py_get ''id'' prefix)) (\<lambda>i.
        bindS (checks [(i \<noteq> 8, conflict)]) (\<lambda>_.
        bindS (required_string ''prefix'' (py_get ''prefix'' prefix)) (\<lambda>p. checks
          [(p \<noteq> ''10.60.255.0/24'' \<or> \<not> active (py_get ''status'' prefix), conflict)]))))"

fun read_device_facts :: "(nat \<times> string \<times> nat) list \<Rightarrow> json list \<Rightarrow> (nat \<times> string \<times> nat) list res" where
  "read_device_facts facts [] = Inr facts"
| "read_device_facts facts (device # rest) =
    bindS (positive_id ''device'' (py_get ''id'' device)) (\<lambda>i.
    bindS (required_string ''device name'' (py_get ''name'' device)) (\<lambda>name.
    bindS (if is_dict (py_get ''primary_ip4'' device)
           then positive_id ''primary IP'' (py_get ''id'' (py_get ''primary_ip4'' device)) else Inr 0) (\<lambda>primary.
    bindS (checks [(i \<in> set (map fst facts), ValueError ''NetBox routing-identity device is duplicated'')]) (\<lambda>_.
    read_device_facts (facts @ [(i, name, primary)]) rest))))"

definition check_device_facts :: "(nat \<times> string \<times> nat) list \<Rightarrow> unit res" where
  "check_device_facts facts = checks
    [(\<not> same_set facts [(1, ''core-02'', 1), (2, ''edge-junos-01'', 2), (8, ''transit-ios-01'', 13)]
      \<or> \<not> same_set (map (snd \<circ> snd) facts) [1, 2, 13],
      ValueError ''NetBox routing-identity device authority conflicts'')]"

definition expected_by_address :: "(string \<times> string \<times> nat) list" where
  "expected_by_address = map (\<lambda>(name, device_id, ip_id, address). (address, name, ip_id)) ROUTER_IDENTITIES"

definition check_router_ip :: "nat list \<Rightarrow> string \<Rightarrow> nat \<Rightarrow> json \<Rightarrow> unit res" where
  "check_router_ip primary name expected_id payload =
    (let conflict = ValueError ''NetBox router-ID authority conflicts''
     in bindS (tag_slugs (py_get ''tags'' payload)) (\<lambda>tags.
        bindS (positive_id ''router ID'' (py_get ''id'' payload)) (\<lambda>i.
        bindS (checks
          [(i \<noteq> expected_id \<or> \<not> active (py_get ''status'' payload)
            \<or> py_get ''assigned_object_type'' payload \<noteq> JNull \<or> py_get ''assigned_object_id'' payload \<noteq> JNull
            \<or> py_get ''assigned_object'' payload \<noteq> JNull, conflict)]) (\<lambda>_.
        bindS (required_string ''description'' (py_get ''description'' payload)) (\<lambda>text. checks
          [(text \<noteq> ''NCDP OSPF router ID for '' @ name \<or> ROUTING_IDENTITY_TAG \<notin> set tags
            \<or> DATA_PLANE_TAG \<in> set tags \<or> expected_id \<in> set primary, conflict)])))))"

fun read_router_ips :: "nat list \<Rightarrow> string list \<Rightarrow> json list \<Rightarrow> string list res" where
  "read_router_ips primary seen [] = Inr seen"
| "read_router_ips primary seen (payload # rest) =
    bindS (required_string ''router ID'' (py_get ''address'' payload)) (\<lambda>address.
    (case (if address \<in> set seen then None else map_of expected_by_address address) of
       None \<Rightarrow> Inl (ValueError ''NetBox router-ID authority conflicts'')
     | Some (name, expected_id) \<Rightarrow>
         bindS (check_router_ip primary name expected_id payload) (\<lambda>_.
         read_router_ips primary (seen @ [address]) rest)))"

definition routing_payloads_valid :: "json list \<Rightarrow> json list \<Rightarrow> json list \<Rightarrow> unit res" where
  "routing_payloads_valid prefixes ips devices =
    bindS (subject_devices devices) (\<lambda>subjects.
    bindS (checks
      [(length prefixes \<noteq> 1 \<or> length ips \<noteq> length subject_ids \<or> length subjects \<noteq> length subject_ids,
        ValueError ''NetBox routing-identity population is not exact'')]) (\<lambda>_.
    bindS (check_pool (hd prefixes)) (\<lambda>_.
    bindS (read_device_facts [] subjects) (\<lambda>facts.
    bindS (check_device_facts facts) (\<lambda>_.
    bindS (read_router_ips (map (snd \<circ> snd) facts) [] ips) (\<lambda>seen. checks
      [(\<not> same_set seen (map fst expected_by_address),
        ValueError ''NetBox router-ID authority is incomplete'')]))))))"

definition resolve_routing_identities :: "http_server \<Rightarrow> (http_event, exn, routing_identity_allocation) eff" where
  "resolve_routing_identities srv =
    bindE (get_all srv (by_id ''/api/ipam/prefixes/'' 8)) (\<lambda>prefixes.
    bindE (get_all srv (by_tag ''/api/ipam/ip-addresses/'' ROUTING_IDENTITY_TAG)) (\<lambda>ips.
    bindE (get_all srv (by_tag ''/api/dcim/devices/'' ''ncdp-profiled-inventory'')) (\<lambda>devices.
    liftE (bindS (routing_payloads_valid prefixes ips devices) (\<lambda>_. build_routing_allocation)))))"

section \<open>Exactly one allocation is admitted\<close>

definition accepted_router :: "nat \<Rightarrow> string \<Rightarrow> nat \<Rightarrow> 32 word \<Rightarrow> ospf_router_identity" where
  "accepted_router device_id name ip_id w = \<lparr>ori_device_identity = netbox_id ''dcim.device'' device_id,
     ori_logical_name = name, ori_ip_address_identity = netbox_id ''ipam.ipaddress'' ip_id, ori_router_id = w\<rparr>"

definition accepted_routing :: routing_identity_allocation where
  "accepted_routing = \<lparr>ria_pool_identity = ''netbox:ipam.prefix:8'', ria_pool_prefix = IPv4Network 0x0A3CFF00 24,
     ria_routers = [accepted_router 1 ''core-02'' 23 0x0A3CFF01, accepted_router 2 ''edge-junos-01'' 24 0x0A3CFF02,
       accepted_router 8 ''transit-ios-01'' 25 0x0A3CFF03]\<rparr>"

lemma router_ids:
  "ipv4_str 0x0A3CFF01 = ''10.60.255.1''" "ipv4_str 0x0A3CFF02 = ''10.60.255.2''"
  "ipv4_str 0x0A3CFF03 = ''10.60.255.3''"
  by (simp_all add: print_simps flip: One_nat_def)

lemma router_id_literal:
  "ipv4_str w = ''10.60.255.1'' \<longleftrightarrow> w = 0x0A3CFF01" "ipv4_str w = ''10.60.255.2'' \<longleftrightarrow> w = 0x0A3CFF02"
  "ipv4_str w = ''10.60.255.3'' \<longleftrightarrow> w = 0x0A3CFF03"
  by (simp_all flip: router_ids)

lemma router_unique:
  assumes "router_identity_valid r = Inr u" and "map_of ROUTER_IDENTITIES (ori_logical_name r) = Some (d, i, address)"
    and "host_part address = ipv4_str w"
  shows "r = accepted_router d (ori_logical_name r) i w"
  using assms
  by (intro ospf_router_identity.equality)
    (auto simp: router_identity_valid_def bindS_Inr_iff checks_ok lookup_def accepted_router_def)

lemma routing_unique:
  assumes "routing_allocation_valid a = Inr u"
  shows "a = accepted_routing"
proof -
  note parts = assms [unfolded routing_allocation_valid_def bindS_Inr_iff checks_ok, simplified]
  have names: "map ori_logical_name (ria_routers a) = [''core-02'', ''edge-junos-01'', ''transit-ios-01'']"
    using parts by (simp add: ROUTER_IDENTITIES_def)
  then obtain r s t where rs: "ria_routers a = [r, s, t]"
    and n: "ori_logical_name r = ''core-02''" "ori_logical_name s = ''edge-junos-01''" "ori_logical_name t = ''transit-ios-01''"
    by (auto simp: map_eq_Cons_conv)
  obtain us where us: "mapS router_identity_valid [r, s, t] = Inr us" using parts rs by auto
  have catalog: "map_of ROUTER_IDENTITIES ''core-02'' = Some (1, 23, ''10.60.255.1/32'')"
    "map_of ROUTER_IDENTITIES ''edge-junos-01'' = Some (2, 24, ''10.60.255.2/32'')"
    "map_of ROUTER_IDENTITIES ''transit-ios-01'' = Some (8, 25, ''10.60.255.3/32'')"
    by (simp_all add: ROUTER_IDENTITIES_def)
  have host: "host_part ''10.60.255.1/32'' = ipv4_str 0x0A3CFF01" "host_part ''10.60.255.2/32'' = ipv4_str 0x0A3CFF02"
    "host_part ''10.60.255.3/32'' = ipv4_str 0x0A3CFF03"
    by (simp_all add: host_part_def router_ids)
  have "r = accepted_router 1 ''core-02'' 23 0x0A3CFF01" "s = accepted_router 2 ''edge-junos-01'' 24 0x0A3CFF02"
    "t = accepted_router 8 ''transit-ios-01'' 25 0x0A3CFF03"
    using mapS_unit [OF us, of r] mapS_unit [OF us, of s] mapS_unit [OF us, of t]
      router_unique [OF _ _ host(1), of r] router_unique [OF _ _ host(2), of s]
      router_unique [OF _ _ host(3), of t] n catalog
    by auto
  moreover have "ria_pool_prefix a = IPv4Network 0x0A3CFF00 24"
    using parts by (auto simp: prefix_literals)
  moreover have "ria_pool_identity a = ''netbox:ipam.prefix:8''" using parts by blast
  ultimately show ?thesis
    using rs by (intro routing_identity_allocation.equality) (simp_all add: accepted_routing_def)
qed

lemma build_routing_unique: "build_routing_allocation = Inr a \<Longrightarrow> a = accepted_routing"
  by (auto simp: build_routing_allocation_def bindS_Inr_iff Let_def dest: routing_unique)

lemma resolve_routing_unique:
  assumes "fst (resolve_routing_identities srv t) = Inr a"
  shows "a = accepted_routing"
proof -
  have "build_routing_allocation = Inr a"
    using assms
    by (auto simp: resolve_routing_identities_def bindE_def liftE_def bindS_Inr_iff split: sum.splits prod.splits)
  then show ?thesis by (rule build_routing_unique)
qed

lemma routing_accepted: "routing_allocation_valid accepted_routing = Inr ()"
proof -
  have routers: "router_identity_valid r = Inr ()" if "r \<in> set (ria_routers accepted_routing)" for r
    using that
    by (auto simp: accepted_routing_def accepted_router_def router_identity_valid_def lookup_def ROUTER_IDENTITIES_def
      netbox_id_valid router_ids host_part_def)
  have "in_pool (ori_router_id r) (ria_pool_prefix accepted_routing)" if "r \<in> set (ria_routers accepted_routing)" for r
    using that by (auto simp: accepted_routing_def accepted_router_def in_pool_def mask_simps)
  then show ?thesis
    using mapS_units [of "ria_routers accepted_routing" router_identity_valid, OF routers]
      netbox_id_valid [of 8 "''ipam.prefix''"]
    by (simp add: routing_allocation_valid_def checks_ok list_ex_iff)
      (simp add: accepted_routing_def accepted_router_def accepted_prefixes wf_network_def mask_simps ROUTER_IDENTITIES_def
        netbox_id_def nat_str.simps)
qed

end
