(* ===== verification/Ospf_Intent.thy ===== *)
theory Ospf_Intent
  imports Routing_Identity Managed_State
begin

text \<open>
  \<^verbatim>\<open>ospf_triangle.py\<close>, the desired side: the intent over the two resolved allocations, the desired
  state with its digest and the ownership envelope. The area, the network type and the passive flag
  of an intended interface are literals of the models and appear where they are serialized or
  compared, so an intended interface is its identity.
\<close>

section \<open>Intent\<close>

definition OSPF_POLICY_IDENTITY :: string where
  "OSPF_POLICY_IDENTITY = ''git:policy:ospf-underlay''"

definition OSPF_AREA_ID :: string where
  "OSPF_AREA_ID = ''0.0.0.0''"

definition CISCO_OSPF_PROCESS_ID :: nat where
  "CISCO_OSPF_PROCESS_ID = 1"

definition POINT_TO_POINT :: string where
  "POINT_TO_POINT = ''point-to-point''"

definition OSPF_DEVICE_IDENTITIES :: "string list" where
  "OSPF_DEVICE_IDENTITIES = [''netbox:dcim.device:1'', ''netbox:dcim.device:2'', ''netbox:dcim.device:8'']"

definition OSPF_NAMES :: "string list" where
  "OSPF_NAMES = [''core-02'', ''edge-junos-01'', ''transit-ios-01'']"

record ospf_router_intent =
  ifr_device_identity :: string
  ifr_logical_name :: string
  ifr_profile :: automation_profile_id
  ifr_router_id_identity :: string
  ifr_router_id :: "32 word"
  ifr_interfaces :: "stable_interface list"

record ospf_intent =
  oti_source_underlay :: reference_data_plane
  oti_source_routing :: routing_identity_allocation
  oti_routers :: "ospf_router_intent list"

definition ospf_router_intent_valid :: "ospf_router_intent \<Rightarrow> unit res" where
  "ospf_router_intent_valid r = checks
    [(\<not> netbox_identity ''dcim.device'' (ifr_device_identity r), ValueError ''device_identity''),
     (ifr_logical_name r \<notin> set OSPF_NAMES, ValueError ''logical_name''),
     (\<not> netbox_identity ''ipam.ipaddress'' (ifr_router_id_identity r), ValueError ''router_id_identity''),
     (length (ifr_interfaces r) \<noteq> 2 \<or> \<not> list_all stable_interface_valid (ifr_interfaces r),
       ValueError ''interfaces'')]"

definition ospf_profiles :: "(string \<times> automation_profile_id) list" where
  "ospf_profiles =
    [(''core-02'', CAT8000V_IOSXE), (''edge-junos-01'', VJUNOS_ROUTER), (''transit-ios-01'', IOSV_159_3_M12)]"

text \<open>The interfaces of the routed links by device; a device outside the three is a KeyError.\<close>

definition ospf_endpoints :: "reference_data_plane \<Rightarrow> stable_interface list res" where
  "ospf_endpoints a =
    (let is = map rle_interface (concat (map rla_endpoints (rda_routed_links a)))
     in bindS (checks [(list_ex (\<lambda>i. si_device i \<notin> set OSPF_DEVICE_IDENTITIES) is, OtherException ''KeyError'')])
          (\<lambda>_. Inr is))"

definition ospf_router_of :: "stable_interface list \<Rightarrow> ospf_router_identity \<Rightarrow> ospf_router_intent res" where
  "ospf_router_of is r =
    bindS (lookup ospf_profiles (ori_logical_name r)) (\<lambda>p.
    bindS (checks [(ori_device_identity r \<notin> set OSPF_DEVICE_IDENTITIES, OtherException ''KeyError'')]) (\<lambda>_.
    let t = \<lparr>ifr_device_identity = ori_device_identity r, ifr_logical_name = ori_logical_name r, ifr_profile = p,
       ifr_router_id_identity = ori_ip_address_identity r, ifr_router_id = ori_router_id r,
       ifr_interfaces = filter (\<lambda>i. si_device i = ori_device_identity r) is\<rparr>
    in bindS (ospf_router_intent_valid t) (\<lambda>_. Inr t)))"

definition ospf_routers_from_allocations ::
    "reference_data_plane \<Rightarrow> routing_identity_allocation \<Rightarrow> ospf_router_intent list res" where
  "ospf_routers_from_allocations a g =
    bindS (ospf_endpoints a) (\<lambda>is. mapS (ospf_router_of is) (ria_routers g))"

definition ospf_population_exact :: "(string \<times> string \<times> stable_interface list) list \<Rightarrow> bool" where
  "ospf_population_exact rs \<longleftrightarrow>
     (let is = concat (map (snd \<circ> snd) rs)
      in map fst rs = OSPF_DEVICE_IDENTITIES \<and> map (fst \<circ> snd) rs = OSPF_NAMES
         \<and> length (remdups (map si_interface is)) = 6
         \<and> \<not> list_ex (\<lambda>i. si_interface i \<in> set MANAGEMENT_INTERFACE_IDENTITIES) is)"

definition ospf_intent_valid :: "ospf_intent \<Rightarrow> unit res" where
  "ospf_intent_valid i =
    bindS (reference_allocation_valid (oti_source_underlay i)) (\<lambda>_.
    bindS (routing_allocation_valid (oti_source_routing i)) (\<lambda>_.
    bindS (mapS ospf_router_intent_valid (oti_routers i)) (\<lambda>_.
    bindS (checks [(length (oti_routers i) \<noteq> 3, ValueError ''routers'')]) (\<lambda>_.
    bindS (ospf_routers_from_allocations (oti_source_underlay i) (oti_source_routing i)) (\<lambda>expected. checks
     [(oti_routers i \<noteq> expected
       \<or> \<not> ospf_population_exact
            (map (\<lambda>r. (ifr_device_identity r, ifr_logical_name r, ifr_interfaces r)) (oti_routers i)),
       ValueError ''OSPF triangle intent is detached from source authority'')])))))"

definition ospf_from_allocations ::
    "reference_data_plane \<Rightarrow> routing_identity_allocation \<Rightarrow> ospf_intent res" where
  "ospf_from_allocations a g =
    bindS (ospf_routers_from_allocations a g) (\<lambda>rs.
    let i = \<lparr>oti_source_underlay = a, oti_source_routing = g, oti_routers = rs\<rparr>
    in bindS (ospf_intent_valid i) (\<lambda>_. Inr i))"

section \<open>Desired state\<close>

record ospf_router_desired =
  dfr_device_identity :: string
  dfr_logical_name :: string
  dfr_profile :: automation_profile_id
  dfr_router_id_identity :: string
  dfr_router_id :: "32 word"
  dfr_interfaces :: "stable_interface list"

record ospf_desired =
  dfs_routers :: "ospf_router_desired list"
  dfs_digest :: string

definition desired_ospf_interface_json :: "stable_interface \<Rightarrow> json" where
  "desired_ospf_interface_json i = JObj
    [(''interface'', interface_json i), (''participating'', JBool True), (''area'', JStr OSPF_AREA_ID),
     (''network_type'', JStr POINT_TO_POINT), (''passive'', JBool False)]"

definition desired_ospf_router_json :: "ospf_router_desired \<Rightarrow> json" where
  "desired_ospf_router_json r = JObj
    [(''device_identity'', JStr (dfr_device_identity r)), (''logical_name'', JStr (dfr_logical_name r)),
     (''automation_profile_id'', JStr (automation_profile_id_value (dfr_profile r))),
     (''process_present'', JBool True), (''router_id_identity'', JStr (dfr_router_id_identity r)),
     (''router_id'', JStr (ipv4_str (dfr_router_id r))),
     (''interfaces'', JArr (map desired_ospf_interface_json (dfr_interfaces r)))]"

definition ospf_desired_json :: "ospf_desired \<Rightarrow> json" where
  "ospf_desired_json d = JObj
    [(''schema_version'', JStr ''1''), (''routers'', JArr (map desired_ospf_router_json (dfs_routers d)))]"

definition ospf_calculated_digest :: "(string \<Rightarrow> string) \<Rightarrow> ospf_desired \<Rightarrow> string" where
  "ospf_calculated_digest sha d = sha256_identity sha (canonical_json_bytes (ospf_desired_json d))"

definition ospf_desired_valid :: "ospf_desired \<Rightarrow> unit res" where
  "ospf_desired_valid d = checks
    [(\<not> ospf_population_exact
         (map (\<lambda>r. (dfr_device_identity r, dfr_logical_name r, dfr_interfaces r)) (dfs_routers d)),
      ValueError ''OSPF desired state is not exact'')]"

definition desired_ospf_router :: "ospf_router_intent \<Rightarrow> ospf_router_desired" where
  "desired_ospf_router r =
    \<lparr>dfr_device_identity = ifr_device_identity r, dfr_logical_name = ifr_logical_name r,
     dfr_profile = ifr_profile r, dfr_router_id_identity = ifr_router_id_identity r,
     dfr_router_id = ifr_router_id r, dfr_interfaces = ifr_interfaces r\<rparr>"

definition build_ospf_desired :: "(string \<Rightarrow> string) \<Rightarrow> ospf_intent \<Rightarrow> ospf_desired res" where
  "build_ospf_desired sha i =
    (let unsigned = \<lparr>dfs_routers = map desired_ospf_router (oti_routers i), dfs_digest = zero_digest\<rparr>
     in bindS (ospf_desired_valid unsigned) (\<lambda>_.
        Inr (unsigned\<lparr>dfs_digest := ospf_calculated_digest sha unsigned\<rparr>)))"

section \<open>Ownership\<close>

definition ospf_envelope :: "ospf_intent \<Rightarrow> managed_ownership_envelope" where
  "ospf_envelope i =
    \<lparr>oe_vertical = OSPF_Vertical, oe_envelope_version = 1, oe_targets = OSPF_DEVICE_IDENTITIES,
     oe_scope = map (scope_identity DEVICE_Scope \<circ> ifr_device_identity) (oti_routers i)
       @ map (scope_identity INTERFACE_Scope \<circ> si_interface) (concat (map ifr_interfaces (oti_routers i)))
       @ map (scope_identity IP_ADDRESS_Scope \<circ> ifr_router_id_identity) (oti_routers i)
       @ [scope_identity POLICY_Scope OSPF_POLICY_IDENTITY],
     oe_normalized_fields = [OSPF_PROCESS, OSPF_ROUTER_ID, OSPF_INTERFACE_PARTICIPATION, OSPF_AREA,
       OSPF_NETWORK_TYPE, OSPF_PASSIVE]\<rparr>"

definition build_ospf_envelope :: "ospf_intent \<Rightarrow> managed_ownership_envelope res" where
  "build_ospf_envelope i = bindS (managed_ownership_envelope_valid (ospf_envelope i)) (\<lambda>_. Inr (ospf_envelope i))"

section \<open>The intent over the accepted allocations\<close>

definition accepted_ospf_router ::
    "nat \<Rightarrow> string \<Rightarrow> automation_profile_id \<Rightarrow> nat \<Rightarrow> 32 word \<Rightarrow> (nat \<times> string) list \<Rightarrow> ospf_router_intent" where
  "accepted_ospf_router device_id name p ip_id w is =
    \<lparr>ifr_device_identity = netbox_id ''dcim.device'' device_id, ifr_logical_name = name, ifr_profile = p,
     ifr_router_id_identity = netbox_id ''ipam.ipaddress'' ip_id, ifr_router_id = w,
     ifr_interfaces = map (\<lambda>(i, n). lab_interface device_id i n) is\<rparr>"

definition accepted_ospf_intent :: ospf_intent where
  "accepted_ospf_intent =
    \<lparr>oti_source_underlay = accepted_allocation, oti_source_routing = accepted_routing,
     oti_routers =
      [accepted_ospf_router 1 ''core-02'' CAT8000V_IOSXE 23 0x0A3CFF01
         [(11, ''GigabitEthernet4''), (2, ''GigabitEthernet2'')],
       accepted_ospf_router 2 ''edge-junos-01'' VJUNOS_ROUTER 24 0x0A3CFF02
         [(12, ''ge-0/0/0''), (4, ''ge-0/0/1'')],
       accepted_ospf_router 8 ''transit-ios-01'' IOSV_159_3_M12 25 0x0A3CFF03
         [(14, ''GigabitEthernet0/1''), (15, ''GigabitEthernet0/2'')]]\<rparr>"

lemma accepted_interfaces:
  "map rle_interface (concat (map rla_endpoints (rda_routed_links accepted_allocation)))
    = [lab_interface 1 11 ''GigabitEthernet4'', lab_interface 2 12 ''ge-0/0/0'',
       lab_interface 1 2 ''GigabitEthernet2'', lab_interface 8 14 ''GigabitEthernet0/1'',
       lab_interface 2 4 ''ge-0/0/1'', lab_interface 8 15 ''GigabitEthernet0/2'']"
  by (simp add: accepted_allocation_def accepted_link_def reference_endpoint_def link_interface_def
    INTERFACE_IDENTITIES_def lab_interface_def)

lemma ospf_devices:
  "OSPF_DEVICE_IDENTITIES = [netbox_id ''dcim.device'' 1, netbox_id ''dcim.device'' 2, netbox_id ''dcim.device'' 8]"
  by (simp add: OSPF_DEVICE_IDENTITIES_def netbox_id_def nat_str.simps digit_chars_of flip: One_nat_def)

lemma lab_interface_parts [simp]:
  "si_device (lab_interface d i n) = netbox_id ''dcim.device'' d"
  "si_interface (lab_interface d i n) = netbox_id ''dcim.interface'' i" "si_name (lab_interface d i n) = n"
  by (simp_all add: lab_interface_def)

lemma lab_interface_valid: "0 < d \<Longrightarrow> 0 < i \<Longrightarrow> nonempty_string n \<Longrightarrow> stable_interface_valid (lab_interface d i n)"
  by (simp add: stable_interface_valid_def netbox_id_valid)

lemma ospf_names_nonempty:
  "nonempty_string ''GigabitEthernet4''" "nonempty_string ''GigabitEthernet2''" "nonempty_string ''ge-0/0/0''"
  "nonempty_string ''ge-0/0/1''" "nonempty_string ''GigabitEthernet0/1''" "nonempty_string ''GigabitEthernet0/2''"
  by code_simp+

lemma ospf_routers_accepted:
  "ospf_routers_from_allocations accepted_allocation accepted_routing = Inr (oti_routers accepted_ospf_intent)"
  by (simp add: ospf_routers_from_allocations_def ospf_endpoints_def accepted_interfaces ospf_devices
    accepted_routing_def accepted_router_def ospf_router_of_def lookup_def ospf_profiles_def
    ospf_router_intent_valid_def netbox_id_valid OSPF_NAMES_def lab_interface_valid ospf_names_nonempty
    accepted_ospf_intent_def accepted_ospf_router_def)

lemma management_ids:
  "MANAGEMENT_INTERFACE_IDENTITIES = map (netbox_id ''dcim.interface'') [1, 5, 13, 17]"
  by (simp add: MANAGEMENT_INTERFACE_IDENTITIES_def netbox_id_def nat_str.simps digit_chars_of flip: One_nat_def)

lemma accepted_ospf_population:
  "ospf_population_exact
     (map (\<lambda>r. (ifr_device_identity r, ifr_logical_name r, ifr_interfaces r)) (oti_routers accepted_ospf_intent))"
  by (simp add: ospf_population_exact_def accepted_ospf_intent_def accepted_ospf_router_def ospf_devices OSPF_NAMES_def
    management_ids)

lemma accepted_ospf_intent_valid: "ospf_intent_valid accepted_ospf_intent = Inr ()"
proof -
  have "mapS ospf_router_intent_valid (oti_routers accepted_ospf_intent) = Inr [(), (), ()]"
    by (simp add: accepted_ospf_intent_def accepted_ospf_router_def ospf_router_intent_valid_def netbox_id_valid
      OSPF_NAMES_def lab_interface_valid ospf_names_nonempty)
  then show ?thesis
    using accepted_ospf_population ospf_routers_accepted accepted_allocation_valid routing_accepted
    by (simp add: ospf_intent_valid_def) (simp add: accepted_ospf_intent_def)
qed

lemma ospf_intent_unique:
  assumes "ospf_intent_valid i = Inr u"
  shows "i = accepted_ospf_intent"
proof -
  have sources: "oti_source_underlay i = accepted_allocation" "oti_source_routing i = accepted_routing"
    using assms allocation_unique routing_unique by (auto simp: ospf_intent_valid_def bindS_Inr_iff)
  then have "oti_routers i = oti_routers accepted_ospf_intent"
    using assms ospf_routers_accepted by (auto simp: ospf_intent_valid_def bindS_Inr_iff checks_ok)
  then show ?thesis
    using sources by (intro ospf_intent.equality) (simp_all add: accepted_ospf_intent_def)
qed

lemma build_ospf_desired_Inr:
  assumes "build_ospf_desired sha i = Inr d"
  shows "dfs_routers d = map desired_ospf_router (oti_routers i)"
  using assms by (auto simp: build_ospf_desired_def Let_def bindS_Inr_iff)

lemma build_ospf_accepted: "\<exists>d. build_ospf_desired sha accepted_ospf_intent = Inr d"
  using accepted_ospf_population
  by (simp add: build_ospf_desired_def Let_def ospf_desired_valid_def desired_ospf_router_def comp_def)

end
