(* ===== verification/Ospf_Observation.thy ===== *)
theory Ospf_Observation
  imports Ospf_Intent Vlan_Observation
begin

text \<open>
  \<^verbatim>\<open>ospf_triangle.py\<close>, from the routers to the change artifacts: the observation models and their
  validators, the readers of the Cisco text and of the Junos document, the collection by profile,
  the exact change and the candidate files. The Junos reader starts from the parsed document:
  \<open>None\<close> stands for a text that \<^verbatim>\<open>ElementTree.fromstring\<close> rejects.
\<close>

section \<open>Observation\<close>

record observed_ospf_interface =
  ofi_interface :: stable_interface
  ofi_participating :: bool
  ofi_area :: "string option"
  ofi_network_type :: "string option"
  ofi_passive :: "bool option"

definition observed_ospf_interface_valid :: "observed_ospf_interface \<Rightarrow> unit res" where
  "observed_ospf_interface_valid s = checks
    [(\<not> stable_interface_valid (ofi_interface s), ValueError ''interface''),
     (si_interface (ofi_interface s) \<in> set MANAGEMENT_INTERFACE_IDENTITIES,
       ValueError ''management interface cannot enter OSPF observation''),
     (\<not> ofi_participating s
        \<and> (ofi_area s \<noteq> None \<or> ofi_network_type s \<noteq> None \<or> ofi_passive s \<noteq> None),
       ValueError ''nonparticipating OSPF interface has managed facts'')]"

record observed_ospf_router =
  ofr_device_identity :: string
  ofr_logical_name :: string
  ofr_profile :: automation_profile_id
  ofr_process_present :: bool
  ofr_process_identity :: "string option"
  ofr_router_id :: "32 word option"
  ofr_interfaces :: "observed_ospf_interface list"

definition observed_ospf_router_valid :: "observed_ospf_router \<Rightarrow> unit res" where
  "observed_ospf_router_valid r = checks
    [(\<not> netbox_identity ''dcim.device'' (ofr_device_identity r), ValueError ''device_identity''),
     (ofr_logical_name r \<notin> set OSPF_NAMES, ValueError ''logical_name''),
     (length (ofr_interfaces r) \<noteq> 2, ValueError ''interfaces''),
     (\<not> ofr_process_present r
        \<and> (ofr_process_identity r \<noteq> None \<or> list_ex ofi_participating (ofr_interfaces r)),
       ValueError ''absent OSPF process has observed managed facts'')]"

record ospf_observation =
  ofo_observed_at :: py_datetime
  ofo_routers :: "observed_ospf_router list"

definition ospf_observation_valid :: "ospf_observation \<Rightarrow> unit res" where
  "ospf_observation_valid s = checks
    [(length (ofo_routers s) \<noteq> 3, ValueError ''routers''),
     (map ofr_device_identity (ofo_routers s) \<noteq> OSPF_DEVICE_IDENTITIES,
       ValueError ''OSPF observation population is not exact'')]"

definition observed_ospf_interface_json :: "observed_ospf_interface \<Rightarrow> json" where
  "observed_ospf_interface_json s = JObj
    [(''interface'', interface_json (ofi_interface s)), (''participating'', JBool (ofi_participating s)),
     (''area'', jopt JStr (ofi_area s)), (''network_type'', jopt JStr (ofi_network_type s)),
     (''passive'', jopt JBool (ofi_passive s))]"

definition observed_ospf_router_json :: "observed_ospf_router \<Rightarrow> json" where
  "observed_ospf_router_json r = JObj
    [(''device_identity'', JStr (ofr_device_identity r)), (''logical_name'', JStr (ofr_logical_name r)),
     (''automation_profile_id'', JStr (automation_profile_id_value (ofr_profile r))),
     (''process_present'', JBool (ofr_process_present r)),
     (''process_identity'', jopt JStr (ofr_process_identity r)),
     (''router_id'', jopt (\<lambda>w. JStr (ipv4_str w)) (ofr_router_id r)),
     (''interfaces'', JArr (map observed_ospf_interface_json (ofr_interfaces r)))]"

definition ospf_observation_json :: "ospf_observation \<Rightarrow> json" where
  "ospf_observation_json s = JObj
    [(''schema_version'', JStr ''1''), (''routers'', JArr (map observed_ospf_router_json (ofo_routers s)))]"

definition ospf_managed_digest :: "(string \<Rightarrow> string) \<Rightarrow> ospf_observation \<Rightarrow> string" where
  "ospf_managed_digest sha s = sha256_identity sha (canonical_json_bytes (ospf_observation_json s))"

section \<open>Matches of a multi-line pattern\<close>

text \<open>\<^verbatim>\<open>re.findall(p, s, re.MULTILINE)\<close> for a pattern that begins with \<open>^\<close>: a matcher gives the groups and
  the length of its match, and the scan goes on after it. The arguments of the scan are the number of
  characters still to be passed over and whether the text is at the start of a line.\<close>

fun line_matches :: "(string \<Rightarrow> ('a \<times> nat) option) \<Rightarrow> nat \<Rightarrow> bool \<Rightarrow> string \<Rightarrow> 'a list" where
  "line_matches m k bol [] = []"
| "line_matches m (Suc k) bol (c # cs) = line_matches m k (c = CHR 0x0A) cs"
| "line_matches m 0 bol (c # cs) =
     (case (if bol then m (c # cs) else None) of
        None \<Rightarrow> line_matches m 0 (c = CHR 0x0A) cs
      | Some (x, n) \<Rightarrow> x # line_matches m (n - 1) (c = CHR 0x0A) cs)"

definition find_matches :: "(string \<Rightarrow> ('a \<times> nat) option) \<Rightarrow> string \<Rightarrow> 'a list" where
  "find_matches m s = line_matches m 0 True s"

definition has_match :: "(string \<Rightarrow> ('a \<times> nat) option) \<Rightarrow> string \<Rightarrow> bool" where
  "has_match m s \<longleftrightarrow> find_matches m s \<noteq> []"

text \<open>The pieces of the patterns, each giving what is left: a literal, at least one white space, a run
  of characters of one class, and the end of the line after white space (\<^verbatim>\<open>\s*$\<close>).\<close>

definition spaces :: "string \<Rightarrow> string option" where
  "spaces s = (if lstrip s = s then None else Some (lstrip s))"

definition run_of :: "(char \<Rightarrow> bool) \<Rightarrow> string \<Rightarrow> (string \<times> string) option" where
  "run_of p s = (let w = takeWhile p s in if w = [] then None else Some (w, drop (length w) s))"

definition line_end :: "string \<Rightarrow> string option" where
  "line_end s = (let l = hd (text_lines s) in if all_space l then Some (drop (length l) s) else None)"

definition matched :: "string \<Rightarrow> ('a \<times> string) option \<Rightarrow> ('a \<times> nat) option" where
  "matched s r = map_option (\<lambda>(x, rest). (x, length s - length rest)) r"

section \<open>The Cisco text\<close>

text \<open>\<^verbatim>\<open>^router ospf\s+(\d+)\s*$\<close>\<close>

definition process_pattern :: "string \<Rightarrow> (string \<times> nat) option" where
  "process_pattern s = matched s
    (Option.bind (after_prefix ''router ospf'' s) (\<lambda>a.
     Option.bind (spaces a) (\<lambda>b.
     Option.bind (run_of is_digit b) (\<lambda>(d, c).
     Option.bind (line_end c) (\<lambda>rest. Some (d, rest))))))"

text \<open>\<^verbatim>\<open>^\s*network\s+\<close>\<close>

definition network_statement :: "string \<Rightarrow> (unit \<times> nat) option" where
  "network_statement s = matched s
    (Option.bind (after_prefix ''network'' (lstrip s)) (\<lambda>a.
     Option.bind (spaces a) (\<lambda>rest. Some ((), rest))))"

text \<open>\<^verbatim>\<open>^\s*router-id\s+([0-9.]+)\s*$\<close>\<close>

definition router_id_pattern :: "string \<Rightarrow> (string \<times> nat) option" where
  "router_id_pattern s = matched s
    (Option.bind (after_prefix ''router-id'' (lstrip s)) (\<lambda>a.
     Option.bind (spaces a) (\<lambda>b.
     Option.bind (run_of (\<lambda>c. is_digit c \<or> c = CHR ''.'') b) (\<lambda>(d, c).
     Option.bind (line_end c) (\<lambda>rest. Some (d, rest))))))"

text \<open>\<^verbatim>\<open>^\s*passive-interface default\s*$\<close>, and the two statements of one interface.\<close>

definition passive_default_pattern :: "string \<Rightarrow> (unit \<times> nat) option" where
  "passive_default_pattern s = matched s
    (Option.bind (after_prefix ''passive-interface default'' (lstrip s)) (\<lambda>a.
     Option.bind (line_end a) (\<lambda>rest. Some ((), rest))))"

definition passive_pattern :: "string \<Rightarrow> string \<Rightarrow> string \<Rightarrow> (unit \<times> nat) option" where
  "passive_pattern verb name s = matched s
    (Option.bind (after_prefix verb (lstrip s)) (\<lambda>a.
     Option.bind (spaces a) (\<lambda>b.
     Option.bind (after_prefix name b) (\<lambda>c.
     Option.bind (line_end c) (\<lambda>rest. Some ((), rest))))))"

text \<open>\<^verbatim>\<open>_UNSUPPORTED_CISCO_OSPF\<close>\<close>

definition unsupported_pattern :: "string \<Rightarrow> (unit \<times> nat) option" where
  "unsupported_pattern s = matched s
    (Option.bind (after_prefix ''ip ospf '' (lstrip s)) (\<lambda>a.
     first_match (\<lambda>p. Option.bind (after_prefix p a) (\<lambda>rest.
         if rest = [] \<or> \<not> is_word (hd rest) then Some ((), rest) else None))
      [''cost'', ''authentication'', ''message-digest-key'', ''hello-interval'', ''dead-interval'',
       ''retransmit-interval'', ''transmit-delay'']))"

text \<open>\<^verbatim>\<open>^\s*ip ospf\s+(\d+)\s+area\s+(\S+)\s*$\<close>\<close>

definition participation_pattern :: "string \<Rightarrow> ((string \<times> string) \<times> nat) option" where
  "participation_pattern s = matched s
    (Option.bind (after_prefix ''ip ospf'' (lstrip s)) (\<lambda>a.
     Option.bind (spaces a) (\<lambda>b.
     Option.bind (run_of is_digit b) (\<lambda>(process, c).
     Option.bind (spaces c) (\<lambda>d.
     Option.bind (after_prefix ''area'' d) (\<lambda>e.
     Option.bind (spaces e) (\<lambda>f.
     Option.bind (run_of (\<lambda>c. \<not> is_space c) f) (\<lambda>(area, g).
     Option.bind (line_end g) (\<lambda>rest. Some ((process, area), rest))))))))))"

text \<open>\<^verbatim>\<open>^\s*ip ospf network\s+(.+?)\s*$\<close>, the group stripped: when nothing but white space follows, the
  group is one character of it that is not a newline.\<close>

definition network_type_pattern :: "string \<Rightarrow> (string \<times> nat) option" where
  "network_type_pattern s = matched s
    (Option.bind (after_prefix ''ip ospf network'' (lstrip s)) (\<lambda>a.
     Option.bind (spaces a) (\<lambda>b.
     if b \<noteq> [] then Some (rstrip (hd (text_lines b)), drop (length (hd (text_lines b))) b)
     else if list_ex (\<lambda>c. c \<noteq> CHR 0x0A) (tl a) then Some ([], []) else None)))"

definition read_router_id :: "string option \<Rightarrow> 32 word option res" where
  "read_router_id s = (case s of
       None \<Rightarrow> Inr None
     | Some t \<Rightarrow> (case read_ipv4 t of Some w \<Rightarrow> Inr (Some w) | None \<Rightarrow> Inl (ValueError ''router_id'')))"

definition not_participating :: "stable_interface \<Rightarrow> observed_ospf_interface" where
  "not_participating i = \<lparr>ofi_interface = i, ofi_participating = False, ofi_area = None,
     ofi_network_type = None, ofi_passive = None\<rparr>"

definition cisco_passive :: "string \<Rightarrow> string \<Rightarrow> bool" where
  "cisco_passive process_text name \<longleftrightarrow>
     has_match (passive_pattern ''passive-interface'' name) process_text
     \<or> (has_match passive_default_pattern process_text
        \<and> \<not> has_match (passive_pattern ''no passive-interface'' name) process_text)"

definition parse_cisco_interface :: "string \<Rightarrow> stable_interface \<times> string \<Rightarrow> observed_ospf_interface res" where
  "parse_cisco_interface process_text = (\<lambda>(i, text).
     let participation = find_matches participation_pattern text;
         networks = find_matches network_type_pattern text
     in bindS (checks
          [(has_match unsupported_pattern text, provider_error ''Cisco OSPF managed interface state is unsupported''),
           (1 < length participation, provider_error ''Cisco OSPF interface participation is ambiguous'')]) (\<lambda>_.
        case participation of
          [] \<Rightarrow> checked observed_ospf_interface_valid (not_participating i)
        | (process, area) # _ \<Rightarrow>
            bindS (checks
              [(process \<noteq> nat_str CISCO_OSPF_PROCESS_ID, provider_error ''Cisco OSPF process identity is unsupported''),
               (1 < length networks, provider_error ''Cisco OSPF network type is ambiguous'')]) (\<lambda>_.
            checked observed_ospf_interface_valid
             \<lparr>ofi_interface = i, ofi_participating = True,
              ofi_area = Some (if area = ''0'' then OSPF_AREA_ID else area),
              ofi_network_type = Some (case networks of [] \<Rightarrow> ''broadcast'' | n # _ \<Rightarrow> py_strip n),
              ofi_passive = Some (cisco_passive process_text (si_name i))\<rparr>)))"

definition parse_cisco_ospf ::
    "profiled_inventory_device \<Rightarrow> stable_interface list \<Rightarrow> string \<times> string \<times> string \<Rightarrow> observed_ospf_router res" where
  "parse_cisco_ospf device is = (\<lambda>(process_text, first_text, second_text).
     let processes = find_matches process_pattern process_text;
         process = (case processes of [] \<Rightarrow> None | p # _ \<Rightarrow> Some p);
         router = (case find_matches router_id_pattern process_text of [] \<Rightarrow> None | r # _ \<Rightarrow> Some r)
     in bindS (checks
          [(1 < length processes, provider_error ''Cisco OSPF multiple-process state is unsupported''),
           (has_match network_statement process_text,
             provider_error ''Cisco OSPF broad network statement is unsupported''),
           (process \<notin> {None, Some (nat_str CISCO_OSPF_PROCESS_ID)},
             provider_error ''Cisco OSPF process identity is unsupported'')]) (\<lambda>_.
        bindS (mapS (parse_cisco_interface process_text) (zip is [first_text, second_text])) (\<lambda>observed.
        bindS (read_router_id router) (\<lambda>router_id.
        checked observed_ospf_router_valid
         \<lparr>ofr_device_identity = dv_device_identity device, ofr_logical_name = dv_logical_name device,
          ofr_profile = dv_automation_profile_id device, ofr_process_present = (process \<noteq> None),
          ofr_process_identity = process, ofr_router_id = router_id, ofr_interfaces = observed\<rparr>))))"

section \<open>The Junos document\<close>

text \<open>\<open>_child_text\<close>: the first child of the name that has a text.\<close>

definition ospf_child_text :: "xml \<Rightarrow> string \<Rightarrow> string option" where
  "ospf_child_text e name =
    (case List.find (\<lambda>c. local_name (xml_tag c) = name \<and> xml_text c \<noteq> None) (xml_children e) of
       None \<Rightarrow> None
     | Some c \<Rightarrow> (let v = py_strip (the (xml_text c)) in if v = [] then None else Some v))"

definition named_elements :: "string \<Rightarrow> xml list \<Rightarrow> xml list" where
  "named_elements name es = filter (\<lambda>e. local_name (xml_tag e) = name) es"

definition junos_router_ids :: "xml \<Rightarrow> string list" where
  "junos_router_ids root = filter (\<lambda>s. s \<noteq> [])
     (List.map_filter (\<lambda>e. map_option py_strip (xml_text e)) (named_elements ''router-id'' (xml_iter root)))"

definition UNSUPPORTED_JUNOS :: "string list" where
  "UNSUPPORTED_JUNOS = [''metric'', ''authentication'', ''authentication-key'', ''hello-interval'',
     ''dead-interval'', ''retransmit-interval'', ''transit-delay'']"

text \<open>The interface elements of the areas of the process, with the name and the area of each; an area
  without a name is passed over.\<close>

definition area_interfaces :: "xml \<Rightarrow> (string option \<times> string \<times> xml) list" where
  "area_interfaces ospf = concat (map (\<lambda>area. case ospf_child_text area ''name'' of
       None \<Rightarrow> []
     | Some a \<Rightarrow> map (\<lambda>e. (ospf_child_text e ''name'', a, e)) (named_elements ''interface'' (xml_children area)))
     (named_elements ''area'' (xml_children ospf)))"

definition unit_name :: "stable_interface \<Rightarrow> string" where
  "unit_name i = si_name i @ ''.0''"

definition memberships :: "stable_interface list \<Rightarrow> xml list \<Rightarrow> (string \<times> string \<times> xml) list res" where
  "memberships is processes = (case processes of
       [] \<Rightarrow> Inr []
     | ospf # _ \<Rightarrow>
         mapS (\<lambda>(n, a, e).
             if list_ex (\<lambda>x. List.member UNSUPPORTED_JUNOS (local_name (xml_tag x))) (xml_iter e)
             then Inl (provider_error ''Junos OSPF managed interface state is unsupported'')
             else Inr (the n, a, e))
           (filter (\<lambda>(n, a, e). n \<in> Some ` set (map unit_name is)) (area_interfaces ospf)))"

definition parse_junos_interface ::
    "(string \<times> string \<times> xml) list \<Rightarrow> stable_interface \<Rightarrow> observed_ospf_interface res" where
  "parse_junos_interface members i =
    (case filter (\<lambda>(n, a, e). n = unit_name i) members of
       [] \<Rightarrow> checked observed_ospf_interface_valid (not_participating i)
     | [(n, area, e)] \<Rightarrow>
         let t = (case ospf_child_text e ''interface-type'' of None \<Rightarrow> ''broadcast'' | Some t \<Rightarrow> t)
         in checked observed_ospf_interface_valid
             \<lparr>ofi_interface = i, ofi_participating = True, ofi_area = Some area,
              ofi_network_type = Some (if t = ''p2p'' then POINT_TO_POINT else t),
              ofi_passive = Some (named_elements ''passive'' (xml_children e) \<noteq> [])\<rparr>
     | _ \<Rightarrow> Inl (provider_error ''Junos OSPF interface has ambiguous area membership''))"

definition parse_junos_ospf ::
    "profiled_inventory_device \<Rightarrow> stable_interface list \<Rightarrow> xml option \<Rightarrow> observed_ospf_router res" where
  "parse_junos_ospf device is document = (case document of
       None \<Rightarrow> Inl (provider_error ''Junos OSPF read-only result was invalid'')
     | Some root \<Rightarrow>
         let router_ids = junos_router_ids root; processes = named_elements ''ospf'' (xml_iter root)
         in bindS (checks
              [(1 < length router_ids, provider_error ''Junos router-ID state is ambiguous''),
               (1 < length processes, provider_error ''Junos OSPF process state is ambiguous'')]) (\<lambda>_.
            bindS (memberships is processes) (\<lambda>members.
            bindS (mapS (parse_junos_interface members) is) (\<lambda>observed.
            bindS (read_router_id (case router_ids of [] \<Rightarrow> None | r # _ \<Rightarrow> Some r)) (\<lambda>router_id.
            checked observed_ospf_router_valid
             \<lparr>ofr_device_identity = dv_device_identity device, ofr_logical_name = dv_logical_name device,
              ofr_profile = dv_automation_profile_id device, ofr_process_present = (processes \<noteq> []),
              ofr_process_identity = (if processes \<noteq> [] then Some ''ospf'' else None),
              ofr_router_id = router_id, ofr_interfaces = observed\<rparr>)))))"

section \<open>Collection\<close>

datatype ospf_event =
    Loaded_Ospf_Credentials profiled_inventory_device "device_credentials res"
  | Collected_Cisco_Ospf profile_read_only_target "string list" "(string \<times> string \<times> string) res"
  | Collected_Junos_Ospf profile_read_only_target "xml option res"

record ospf_collector =
  xc_load :: "ospf_event list \<Rightarrow> profiled_inventory_device \<Rightarrow> device_credentials res"
  xc_cisco :: "ospf_event list \<Rightarrow> profile_read_only_target \<Rightarrow> device_credentials \<Rightarrow> string list
     \<Rightarrow> (string \<times> string \<times> string) res"
  xc_junos :: "ospf_event list \<Rightarrow> profile_read_only_target \<Rightarrow> device_credentials \<Rightarrow> xml option res"
  xc_now :: "ospf_event list \<Rightarrow> py_datetime"

definition OSPF_SERVICE_SCOPE :: "profiled_population_scope res" where
  "OSPF_SERVICE_SCOPE = bindS ROUTED_SERVICE_SCOPE (\<lambda>routed.
     let s = \<lparr>ps_identity = ''ospf-service'', ps_members = ps_members routed\<rparr>
     in bindS (population_scope_valid s) (\<lambda>_. Inr s))"

definition collect_ospf_router ::
    "ospf_collector \<Rightarrow> profiled_inventory_device \<Rightarrow> device_credentials \<Rightarrow> stable_interface list
      \<Rightarrow> (ospf_event, exn, observed_ospf_router) eff" where
  "collect_ospf_router c d k is =
    bindE (liftE (checks
      [(list_ex (\<lambda>i. si_device i \<noteq> dv_device_identity d) is,
        provider_error ''OSPF collection interface identity mismatch'')])) (\<lambda>_.
    if dv_automation_profile_id d \<in> {CAT8000V_IOSXE, IOSV_159_3_M12}
    then bindE (liftE (live_read_only_target d)) (\<lambda>t.
         bindE (askE (\<lambda>h. xc_cisco c h t k (map si_name is)) (Collected_Cisco_Ospf t (map si_name is))) (\<lambda>raw.
         liftE (parse_cisco_ospf d is raw)))
    else if dv_automation_profile_id d = VJUNOS_ROUTER
    then bindE (liftE (live_read_only_target d)) (\<lambda>t.
         bindE (askE (\<lambda>h. xc_junos c h t k) (Collected_Junos_Ospf t)) (\<lambda>document.
         liftE (parse_junos_ospf d is document)))
    else raise (provider_error ''OSPF read-only profile is unsupported''))"

definition collect_ospf_device ::
    "ospf_collector \<Rightarrow> profiled_inventory_device list \<Rightarrow> ospf_router_intent
      \<Rightarrow> (ospf_event, exn, observed_ospf_router) eff" where
  "collect_ospf_device c devices r =
    bindE (liftE (lookup (rev (map (\<lambda>d. (dv_device_identity d, d)) devices)) (ifr_device_identity r))) (\<lambda>d.
    bindE (liftE (checks
      [(dv_logical_name d \<noteq> ifr_logical_name r \<or> dv_automation_profile_id d \<noteq> ifr_profile r,
        provider_error ''profiled OSPF inventory binding is inconsistent'')])) (\<lambda>_.
    bindE (askE (\<lambda>h. xc_load c h d) (Loaded_Ospf_Credentials d)) (\<lambda>k.
    collect_ospf_router c d k (ifr_interfaces r))))"

definition collect_ospf_observation ::
    "ospf_collector \<Rightarrow> ospf_intent \<Rightarrow> profiled_inventory_population \<Rightarrow> py_datetime option
      \<Rightarrow> (ospf_event, exn, ospf_observation) eff" where
  "collect_ospf_observation c i population observed_at =
    bindE (liftE (bindS OSPF_SERVICE_SCOPE (project_scope population))) (\<lambda>selected.
    bindE (mapE (collect_ospf_device c (sc_devices selected)) (oti_routers i)) (\<lambda>routers.
    bindE (\<lambda>h. (Inr (case observed_at of Some t \<Rightarrow> t | None \<Rightarrow> xc_now c h), h)) (\<lambda>now.
    liftE (checked ospf_observation_valid \<lparr>ofo_observed_at = now, ofo_routers = routers\<rparr>))))"

section \<open>The change\<close>

record ospf_rendered_target =
  xrt_device_identity :: string
  xrt_logical_name :: string
  xrt_profile :: automation_profile_id
  xrt_observation_digest :: string
  xrt_desired_digest :: string
  xrt_format :: render_format
  xrt_payload :: string

definition current_ospf :: "observed_ospf_router \<Rightarrow> stable_interface \<Rightarrow> observed_ospf_interface res" where
  "current_ospf s i = lookup (rev (map (\<lambda>x. (si_interface (ofi_interface x), x)) (ofr_interfaces s))) (si_interface i)"

definition foreign_area :: "observed_ospf_interface \<Rightarrow> bool" where
  "foreign_area s \<longleftrightarrow> ofi_participating s \<and> ofi_area s \<noteq> Some OSPF_AREA_ID"

definition area_text :: "string option \<Rightarrow> string" where
  "area_text a = (case a of None \<Rightarrow> ''None'' | Some s \<Rightarrow> if s = OSPF_AREA_ID then ''0'' else s)"

definition process_str :: string where
  "process_str = nat_str CISCO_OSPF_PROCESS_ID"

definition cisco_interface_lines :: "observed_ospf_router \<Rightarrow> stable_interface \<Rightarrow> string list res" where
  "cisco_interface_lines s i =
    bindS (current_ospf s i) (\<lambda>x.
    Inr ([''interface '' @ si_name i]
      @ (if foreign_area x then ['' no ip ospf '' @ process_str @ '' area '' @ area_text (ofi_area x)] else [])
      @ ['' ip ospf '' @ process_str @ '' area 0'', '' ip ospf network point-to-point'']))"

definition render_cisco_ospf :: "observed_ospf_router \<Rightarrow> ospf_router_desired \<Rightarrow> string res" where
  "render_cisco_ospf s d =
    bindS (mapS (cisco_interface_lines s) (dfr_interfaces d)) (\<lambda>blocks.
    Inr (lines_text ([''router ospf '' @ process_str, '' router-id '' @ ipv4_str (dfr_router_id d)]
      @ map (\<lambda>i. '' no passive-interface '' @ si_name i) (dfr_interfaces d) @ concat blocks)))"

definition junos_ospf_areas :: "observed_ospf_router \<Rightarrow> stable_interface \<Rightarrow> xml_doc list res" where
  "junos_ospf_areas s i =
    bindS (current_ospf s i) (\<lambda>x.
    Inr ((if foreign_area x
          then [Node ''area'' [] []
            [text_node ''name'' (case ofi_area x of None \<Rightarrow> [] | Some a \<Rightarrow> a),
             Node ''interface'' [(''operation'', ''delete'')] [] [text_node ''name'' (unit_name i)]]] else [])
      @ [Node ''area'' [] []
          [text_node ''name'' OSPF_AREA_ID,
           Node ''interface'' [] []
            ([text_node ''name'' (unit_name i), text_node ''interface-type'' ''p2p'']
             @ (if ofi_participating x \<and> ofi_passive x = Some True
                then [Node ''passive'' [(''operation'', ''delete'')] [] []] else []))]]))"

definition render_junos_ospf :: "observed_ospf_router \<Rightarrow> ospf_router_desired \<Rightarrow> string res" where
  "render_junos_ospf s d =
    bindS (mapS (junos_ospf_areas s) (dfr_interfaces d)) (\<lambda>areas.
    Inr (xml_doc_str (Node ''configuration'' [] []
      [Node ''routing-options'' [] [] [text_node ''router-id'' (ipv4_str (dfr_router_id d))],
       Node ''protocols'' [] [] [Node ''ospf'' [] [] (concat areas)]])))"

definition render_ospf_router ::
    "(string \<Rightarrow> string) \<Rightarrow> ospf_observation \<Rightarrow> ospf_desired \<Rightarrow> ospf_router_desired \<Rightarrow> ospf_rendered_target res" where
  "render_ospf_router sha s d r =
    bindS (lookup (rev (map (\<lambda>x. (ofr_device_identity x, x)) (ofo_routers s))) (dfr_device_identity r)) (\<lambda>current.
    bindS (if dfr_profile r \<in> {CAT8000V_IOSXE, IOSV_159_3_M12}
           then bindS (render_cisco_ospf current r) (\<lambda>p. Inr (IOS_CLI, p))
           else if dfr_profile r = VJUNOS_ROUTER
           then bindS (render_junos_ospf current r) (\<lambda>p. Inr (JUNOS_XML, p))
           else Inl (ValueError ''OSPF renderer profile is unsupported'')) (\<lambda>(f, payload).
    Inr \<lparr>xrt_device_identity = dfr_device_identity r, xrt_logical_name = dfr_logical_name r,
         xrt_profile = dfr_profile r, xrt_observation_digest = ospf_managed_digest sha s,
         xrt_desired_digest = dfs_digest d, xrt_format = f, xrt_payload = payload\<rparr>))"

definition require_ospf_desired :: "(string \<Rightarrow> string) \<Rightarrow> ospf_intent \<Rightarrow> ospf_desired \<Rightarrow> string \<Rightarrow> unit res" where
  "require_ospf_desired sha i d message = bindS (build_ospf_desired sha i) (\<lambda>e. checks [(d \<noteq> e, ValueError message)])"

definition render_ospf_changes ::
    "(string \<Rightarrow> string) \<Rightarrow> ospf_intent \<Rightarrow> ospf_observation \<Rightarrow> ospf_desired \<Rightarrow> ospf_rendered_target list res" where
  "render_ospf_changes sha i s d =
    bindS (require_ospf_desired sha i d ''OSPF desired state is detached from intent'') (\<lambda>_.
    bindS (checks
      [(map ofr_device_identity (ofo_routers s) \<noteq> map dfr_device_identity (dfs_routers d),
        ValueError ''OSPF observation is detached from desired state'')]) (\<lambda>_.
    mapS (render_ospf_router sha s d) (dfs_routers d)))"

section \<open>The combined candidate\<close>

definition cisco_candidate_lines :: "string \<Rightarrow> desired_interface list \<Rightarrow> ospf_router_desired \<Rightarrow> string list" where
  "cisco_candidate_lines name routed r =
     [''hostname '' @ name]
     @ concat (map (\<lambda>x. [''interface '' @ si_name (di_interface x),
         '' ip address '' @ ios_address (hd (di_ipv4_addresses x)), '' ip ospf network point-to-point'',
         '' ip ospf '' @ process_str @ '' area 0'', '' no shutdown'']) routed)
     @ [''router ospf '' @ process_str, '' router-id '' @ ipv4_str (dfr_router_id r), '' passive-interface default'']
     @ map (\<lambda>i. '' no passive-interface '' @ si_name i) (dfr_interfaces r)"

definition junos_candidate_lines :: "string \<Rightarrow> desired_interface list \<Rightarrow> ospf_router_desired \<Rightarrow> string list" where
  "junos_candidate_lines name routed r =
     [''set system host-name '' @ name]
     @ map (\<lambda>x. ''set interfaces '' @ si_name (di_interface x) @ '' unit 0 family inet address ''
         @ interface_str (hd (di_ipv4_addresses x))) routed
     @ [''set routing-options router-id '' @ ipv4_str (dfr_router_id r)]
     @ map (\<lambda>i. ''set protocols ospf area 0.0.0.0 interface '' @ unit_name i @ '' interface-type p2p'') (dfr_interfaces r)"

definition ospf_candidate_file ::
    "underlay_desired \<Rightarrow> ospf_desired \<Rightarrow> string \<times> automation_profile_id \<Rightarrow> (string \<times> string) res" where
  "ospf_candidate_file u d = (\<lambda>(name, profile).
    let identity = map_of identity_by_name name;
        routed = (case identity of
          None \<Rightarrow> [] | Some j \<Rightarrow> filter (\<lambda>x. di_device_identity x = j) (ud_interfaces u));
        ospf = (case identity of
          None \<Rightarrow> None
        | Some j \<Rightarrow> map_of (rev (map (\<lambda>r. (dfr_device_identity r, r)) (dfs_routers d))) j);
        file = (\<lambda>ls. Inr (name @ ''.cfg'', lines_text ls))
    in if profile \<in> {CAT8000V_IOSXE, IOSV_159_3_M12}
       then (case ospf of
           None \<Rightarrow> Inl (ValueError ''combined Cisco candidate lacks OSPF state'')
         | Some r \<Rightarrow> file (cisco_candidate_lines name routed r))
       else if profile = VJUNOS_ROUTER
       then (case ospf of
           None \<Rightarrow> Inl (ValueError ''combined Junos candidate lacks OSPF state'')
         | Some r \<Rightarrow> file (junos_candidate_lines name routed r))
       else if profile = IOSVL2_2020
       then if routed \<noteq> [] \<or> ospf \<noteq> None then Inl (ValueError ''access switch cannot join OSPF candidate'')
         else file [''hostname '' @ name, ''version 15.2'', ''interface GigabitEthernet0/0'', '' no switchport'',
           '' no shutdown'']
       else Inl (ValueError ''combined candidate profile is unsupported''))"

definition build_ospf_candidate ::
    "(string \<Rightarrow> string) \<Rightarrow> underlay_intent \<Rightarrow> underlay_desired \<Rightarrow> ospf_intent \<Rightarrow> ospf_desired
      \<Rightarrow> (string \<times> string) list res" where
  "build_ospf_candidate sha ui u i d =
    bindS (build_underlay_desired sha ui) (\<lambda>e.
    bindS (checks [(u \<noteq> e, ValueError ''combined candidate underlay is detached from intent'')]) (\<lambda>_.
    bindS (require_ospf_desired sha i d ''combined candidate OSPF state is detached from intent'') (\<lambda>_.
    bindS (checks [(ui_source_allocation ui \<noteq> oti_source_underlay i,
      ValueError ''combined candidate source authority is inconsistent'')]) (\<lambda>_.
    bindS REFERENCE_ASSURANCE_SCOPE (\<lambda>scope.
    bindS (checks [(map pm_logical_name (ps_members scope) \<noteq> EXPECTED_PROFILED_NAMES,
      ValueError ''combined candidate population is not exact'')]) (\<lambda>_.
    bindS (mapS (ospf_candidate_file u d)
        (map (\<lambda>m. (pm_logical_name m, pm_automation_profile_id m)) (ps_members scope))) (\<lambda>files.
    Inr (sort_key fst files))))))))"

end
