(* ===== verification/Ospf_Managed.thy ===== *)
theory Ospf_Managed
  imports Ospf_Observation Vlan_Managed
begin

text \<open>
  \<^verbatim>\<open>managed_state.py\<close> for OSPF: the managed payload with its validators and serializer, the
  projections of an observation and of a desired state, and the injectivity of the serialization.
\<close>

section \<open>Payload\<close>

record ospf_managed_interface =
  xmi_interface :: stable_interface
  xmi_participating :: bool
  xmi_area :: "string option"
  xmi_network_type :: "string option"
  xmi_passive :: "bool option"

record ospf_managed_router =
  xmr_device_identity :: string
  xmr_process_present :: bool
  xmr_router_id :: "32 word option"
  xmr_interfaces :: "ospf_managed_interface list"

definition ospf_managed_interface_valid :: "ospf_managed_interface \<Rightarrow> unit res" where
  "ospf_managed_interface_valid x = checks
    [(\<not> stable_interface_valid (xmi_interface x), ValueError ''interface''),
     (xmi_participating x \<noteq> (xmi_area x \<noteq> None \<and> xmi_network_type x \<noteq> None \<and> xmi_passive x \<noteq> None),
       ValueError ''OSPF interface managed state is incomplete'')]"

definition ospf_managed_router_valid :: "ospf_managed_router \<Rightarrow> unit res" where
  "ospf_managed_router_valid r =
    bindS (mapS ospf_managed_interface_valid (xmr_interfaces r)) (\<lambda>_. checks
     [(\<not> netbox_identity ''dcim.device'' (xmr_device_identity r), ValueError ''device_identity''),
      (\<not> xmr_process_present r \<and> list_ex xmi_participating (xmr_interfaces r),
        ValueError ''absent OSPF process has participating interfaces'')])"

definition ospf_managed_valid :: "ospf_managed_router list \<Rightarrow> unit res" where
  "ospf_managed_valid rs = bindS (mapS ospf_managed_router_valid rs) (\<lambda>_. Inr ())"

definition ospf_managed_interface_json :: "ospf_managed_interface \<Rightarrow> json" where
  "ospf_managed_interface_json x = JObj
    [(''interface'', interface_json (xmi_interface x)), (''participating'', JBool (xmi_participating x)),
     (''area'', jopt JStr (xmi_area x)), (''network_type'', jopt JStr (xmi_network_type x)),
     (''passive'', jopt JBool (xmi_passive x))]"

definition ospf_managed_router_json :: "ospf_managed_router \<Rightarrow> json" where
  "ospf_managed_router_json r = JObj
    [(''device_identity'', JStr (xmr_device_identity r)), (''process_present'', JBool (xmr_process_present r)),
     (''router_id'', jopt (\<lambda>w. JStr (ipv4_str w)) (xmr_router_id r)),
     (''interfaces'', JArr (map ospf_managed_interface_json (xmr_interfaces r)))]"

definition ospf_managed_json :: "ospf_managed_router list \<Rightarrow> json" where
  "ospf_managed_json rs = JObj [(''routers'', JArr (map ospf_managed_router_json rs))]"

definition ospf_vertical :: "ospf_managed_router list vertical" where
  "ospf_vertical =
    \<lparr>vt_vertical = OSPF_Vertical, vt_payload_valid = ospf_managed_valid, vt_payload_json = ospf_managed_json,
     vt_exact_scope = (\<lambda>e rs. map xmr_device_identity rs = oe_targets e
       \<and> map (si_interface \<circ> xmi_interface) (concat (map xmr_interfaces rs)) = scope_interfaces e),
     vt_scope_message = ''OSPF payload is outside its exact scope''\<rparr>"

section \<open>Projections\<close>

definition managed_ospf_interface :: "observed_ospf_interface \<Rightarrow> ospf_managed_interface" where
  "managed_ospf_interface s =
    \<lparr>xmi_interface = ofi_interface s, xmi_participating = ofi_participating s, xmi_area = ofi_area s,
     xmi_network_type = ofi_network_type s, xmi_passive = ofi_passive s\<rparr>"

definition managed_ospf_router :: "observed_ospf_router \<Rightarrow> ospf_managed_router" where
  "managed_ospf_router r =
    \<lparr>xmr_device_identity = ofr_device_identity r, xmr_process_present = ofr_process_present r,
     xmr_router_id = ofr_router_id r, xmr_interfaces = map managed_ospf_interface (ofr_interfaces r)\<rparr>"

definition desired_managed_interface :: "stable_interface \<Rightarrow> ospf_managed_interface" where
  "desired_managed_interface i =
    \<lparr>xmi_interface = i, xmi_participating = True, xmi_area = Some OSPF_AREA_ID,
     xmi_network_type = Some POINT_TO_POINT, xmi_passive = Some False\<rparr>"

definition desired_managed_router :: "ospf_router_desired \<Rightarrow> ospf_managed_router" where
  "desired_managed_router r =
    \<lparr>xmr_device_identity = dfr_device_identity r, xmr_process_present = True,
     xmr_router_id = Some (dfr_router_id r), xmr_interfaces = map desired_managed_interface (dfr_interfaces r)\<rparr>"

definition project_ospf_observation ::
    "(string \<Rightarrow> string) \<Rightarrow> ospf_observation \<Rightarrow> ospf_intent \<Rightarrow> ospf_managed_router list managed_snapshot res" where
  "project_ospf_observation sha s i =
    bindS (checked ospf_managed_valid (map managed_ospf_router (ofo_routers s))) (\<lambda>p.
    bindS (build_ospf_envelope i) (\<lambda>e. build_snapshot sha ospf_vertical e p))"

definition project_ospf_desired ::
    "(string \<Rightarrow> string) \<Rightarrow> ospf_desired \<Rightarrow> ospf_intent \<Rightarrow> ospf_managed_router list managed_snapshot res" where
  "project_ospf_desired sha d i =
    bindS (checked ospf_managed_valid (map desired_managed_router (dfs_routers d))) (\<lambda>p.
    bindS (build_ospf_envelope i) (\<lambda>e. build_snapshot sha ospf_vertical e p))"

section \<open>The serialized payload determines the payload\<close>

lemma ospf_managed_interface_inject:
  assumes "sort_keys (ospf_managed_interface_json a) = sort_keys (ospf_managed_interface_json b)"
  shows "a = b"
proof -
  note eq = sorted_objects_eq [OF assms [unfolded ospf_managed_interface_json_def], simplified]
  show ?thesis
    using eq [of "''interface''"] eq [of "''participating''"] eq [of "''area''"] eq [of "''network_type''"]
      eq [of "''passive''"]
    by (intro ospf_managed_interface.equality)
      (simp_all add: interface_json_inject jopt_str_inject jopt_bool_inject)
qed

lemma jopt_address_inject:
  "sort_keys (jopt (\<lambda>w. JStr (ipv4_str w)) a) = sort_keys (jopt (\<lambda>w. JStr (ipv4_str w)) b) \<longleftrightarrow> a = b"
  by (cases a; cases b) auto

lemma ospf_managed_router_inject:
  assumes "sort_keys (ospf_managed_router_json a) = sort_keys (ospf_managed_router_json b)"
  shows "a = b"
proof -
  note eq = sorted_objects_eq [OF assms [unfolded ospf_managed_router_json_def], simplified]
  have "xmr_interfaces a = xmr_interfaces b"
    by (rule map_json_inject [where f = ospf_managed_interface_json])
      (use eq [of "''interfaces''"] ospf_managed_interface_inject in \<open>auto simp: comp_def\<close>)
  then show ?thesis
    using eq [of "''device_identity''"] eq [of "''process_present''"] eq [of "''router_id''"]
    by (intro ospf_managed_router.equality) (simp_all add: jopt_address_inject)
qed

lemma ospf_managed_json_inject:
  assumes "sort_keys (ospf_managed_json a) = sort_keys (ospf_managed_json b)"
  shows "a = b"
proof -
  note eq = sorted_objects_eq [OF assms [unfolded ospf_managed_json_def], simplified]
  show ?thesis
    by (rule map_json_inject [where f = ospf_managed_router_json])
      (use eq [of "''routers''"] ospf_managed_router_inject in \<open>auto simp: comp_def\<close>)
qed

end
