(* ===== verification/Ospf_Properties.thy ===== *)
theory Ospf_Properties
  imports Ospf_Managed Sample_Policy
begin

text \<open>
  OSPF: comparing the managed-state digests is the same as checking, router by router and interface
  by interface, that the triangle is configured as intended.
\<close>

section \<open>The triangle is configured\<close>

definition interface_joined :: "observed_ospf_interface \<Rightarrow> stable_interface \<Rightarrow> bool" where
  "interface_joined x i \<longleftrightarrow> ofi_interface x = i \<and> ofi_participating x \<and> ofi_area x = Some ''0.0.0.0''
     \<and> ofi_network_type x = Some ''point-to-point'' \<and> ofi_passive x = Some False"

definition router_joined :: "observed_ospf_router \<Rightarrow> nat \<times> 32 word \<times> stable_interface list \<Rightarrow> bool" where
  "router_joined r = (\<lambda>(device_id, w, is). ofr_device_identity r = netbox_id ''dcim.device'' device_id
     \<and> ofr_process_present r \<and> ofr_router_id r = Some w \<and> list_all2 interface_joined (ofr_interfaces r) is)"

definition ospf_converged :: "ospf_observation \<Rightarrow> bool" where
  "ospf_converged s \<longleftrightarrow> list_all2 router_joined (ofo_routers s)
     [(1, 0x0A3CFF01, [lab_interface 1 11 ''GigabitEthernet4'', lab_interface 1 2 ''GigabitEthernet2'']),
      (2, 0x0A3CFF02, [lab_interface 2 12 ''ge-0/0/0'', lab_interface 2 4 ''ge-0/0/1'']),
      (8, 0x0A3CFF03, [lab_interface 8 14 ''GigabitEthernet0/1'', lab_interface 8 15 ''GigabitEthernet0/2''])]"

lemma managed_interface_joined: "managed_ospf_interface x = desired_managed_interface i \<longleftrightarrow> interface_joined x i"
  by (auto simp: managed_ospf_interface_def desired_managed_interface_def interface_joined_def OSPF_AREA_ID_def
    POINT_TO_POINT_def)

lemma map_eq_list_all2: "map f xs = map g ys \<longleftrightarrow> list_all2 (\<lambda>x y. f x = g y) xs ys"
  by (simp add: list_all2_conv_all_nth list_eq_iff_nth_eq) auto

lemma managed_router_joined:
  "managed_ospf_router r = desired_managed_router (desired_ospf_router (accepted_ospf_router d n p k w is))
    \<longleftrightarrow> router_joined r (d, w, map (\<lambda>(i, m). lab_interface d i m) is)"
  by (auto simp: managed_ospf_router_def desired_managed_router_def desired_ospf_router_def accepted_ospf_router_def
    router_joined_def map_eq_list_all2 managed_interface_joined list_all2_map2 case_prod_beta)

lemma observed_ospf_payload:
  "map managed_ospf_router (ofo_routers s)
      = map desired_managed_router (map desired_ospf_router (oti_routers accepted_ospf_intent))
    \<longleftrightarrow> ospf_converged s"
  by (simp add: ospf_converged_def accepted_ospf_intent_def map_eq_Cons_conv list_all2_Cons2 managed_router_joined)

text \<open>C40: The digests of the observed and of the desired OSPF snapshot are equal exactly when the
  triangle is configured as intended: on each of the three routers the process runs under its router
  ID, and both interfaces take part in area 0.0.0.0 as active point-to-point interfaces; as long as
  SHA-256 does not collide on these two snapshots.\<close>

theorem ospf_in_sync_iff_converged:
  assumes "ospf_intent_valid i = Inr u" and "build_ospf_desired sha i = Inr d"
    and "project_ospf_observation sha s i = Inr m" and "project_ospf_desired sha d i = Inr n"
    and "sha (canonical_json_bytes (snapshot_json ospf_vertical m))
        = sha (canonical_json_bytes (snapshot_json ospf_vertical n))
      \<Longrightarrow> canonical_json_bytes (snapshot_json ospf_vertical m) = canonical_json_bytes (snapshot_json ospf_vertical n)"
  shows "ms_digest m = ms_digest n \<longleftrightarrow> ospf_converged s"
proof -
  have i: "i = accepted_ospf_intent" using assms(1) by (rule ospf_intent_unique)
  let ?p = "map managed_ospf_router (ofo_routers s)" and ?q = "map desired_managed_router (dfs_routers d)"
  obtain e where snaps: "build_snapshot sha ospf_vertical e ?p = Inr m" "build_snapshot sha ospf_vertical e ?q = Inr n"
    using assms(3,4) unfolding project_ospf_observation_def project_ospf_desired_def bindS_Inr_iff checked_managed_Inr
    by force
  have "ms_digest m = ms_digest n \<longleftrightarrow> sort_keys (ospf_managed_json ?p) = sort_keys (ospf_managed_json ?q)"
    using snapshots_digest_iff [OF snaps assms(5)] unfolding ospf_vertical_def vertical.simps .
  also have "\<dots> \<longleftrightarrow> ?p = ?q"
  proof
    assume "sort_keys (ospf_managed_json ?p) = sort_keys (ospf_managed_json ?q)"
    then show "?p = ?q" by (rule ospf_managed_json_inject)
  qed (simp only:)
  also have "\<dots> \<longleftrightarrow> ospf_converged s"
    unfolding build_ospf_desired_Inr [OF assms(2)] i by (rule observed_ospf_payload)
  finally show ?thesis .
qed

section \<open>A triangle that is configured\<close>

definition joined_interface :: "stable_interface \<Rightarrow> observed_ospf_interface" where
  "joined_interface i = \<lparr>ofi_interface = i, ofi_participating = True, ofi_area = Some ''0.0.0.0'',
     ofi_network_type = Some ''point-to-point'', ofi_passive = Some False\<rparr>"

definition joined_router :: "ospf_router_intent \<Rightarrow> observed_ospf_router" where
  "joined_router r = \<lparr>ofr_device_identity = ifr_device_identity r, ofr_logical_name = ifr_logical_name r,
     ofr_profile = ifr_profile r, ofr_process_present = True, ofr_process_identity = Some ''1'',
     ofr_router_id = Some (ifr_router_id r), ofr_interfaces = map joined_interface (ifr_interfaces r)\<rparr>"

definition converged_ospf :: ospf_observation where
  "converged_ospf = \<lparr>ofo_observed_at = ao_observed_at absent_acl,
     ofo_routers = map joined_router (oti_routers accepted_ospf_intent)\<rparr>"

lemma converged_ospf_converged: "ospf_converged converged_ospf"
  by (simp add: ospf_converged_def converged_ospf_def accepted_ospf_intent_def accepted_ospf_router_def
    joined_router_def joined_interface_def router_joined_def interface_joined_def)

lemma ospf_payload_valid:
  "ospf_managed_valid (map desired_managed_router (map desired_ospf_router (oti_routers accepted_ospf_intent))) = Inr ()"
  by (simp add: ospf_managed_valid_def accepted_ospf_intent_def accepted_ospf_router_def desired_ospf_router_def
    desired_managed_router_def ospf_managed_router_valid_def desired_managed_interface_def netbox_id_valid
    ospf_managed_interface_valid_def lab_interface_valid ospf_names_nonempty)

lemma ospf_envelope_valid: "managed_ownership_envelope_valid (ospf_envelope accepted_ospf_intent) = Inr ()"
proof -
  have "ok (managed_ownership_envelope_valid (ospf_envelope accepted_ospf_intent))" by code_simp
  then show ?thesis by (simp add: ok_unit)
qed

lemma ospf_snapshot:
  "\<exists>m. build_snapshot sha ospf_vertical (ospf_envelope accepted_ospf_intent)
     (map desired_managed_router (map desired_ospf_router (oti_routers accepted_ospf_intent))) = Inr m"
proof (rule build_snapshot_ok)
  show "vt_exact_scope ospf_vertical (ospf_envelope accepted_ospf_intent)
     (map desired_managed_router (map desired_ospf_router (oti_routers accepted_ospf_intent)))"
    by (simp add: ospf_vertical_def ospf_envelope_def accepted_ospf_intent_def accepted_ospf_router_def
      desired_ospf_router_def desired_managed_router_def desired_managed_interface_def scope_interfaces_def
      scope_identity_def ospf_devices)
qed (use ospf_payload_valid ospf_envelope_valid in \<open>simp_all add: ospf_vertical_def ospf_envelope_def\<close>)

theorem ospf_in_sync_iff_converged_witness:
  "\<exists>d m n. build_ospf_desired policy_sha accepted_ospf_intent = Inr d
    \<and> project_ospf_observation policy_sha converged_ospf accepted_ospf_intent = Inr m
    \<and> project_ospf_desired policy_sha d accepted_ospf_intent = Inr n \<and> ms_digest m = ms_digest n"
proof -
  let ?p = "map desired_managed_router (map desired_ospf_router (oti_routers accepted_ospf_intent))"
  obtain d where d: "build_ospf_desired policy_sha accepted_ospf_intent = Inr d" using build_ospf_accepted by blast
  obtain m where "build_snapshot policy_sha ospf_vertical (ospf_envelope accepted_ospf_intent) ?p = Inr m"
    using ospf_snapshot by blast
  then have "bindS (build_ospf_envelope accepted_ospf_intent) (\<lambda>e. build_snapshot policy_sha ospf_vertical e ?p) = Inr m"
    using ospf_envelope_valid by (simp add: build_ospf_envelope_def)
  then have m: "project_ospf_observation policy_sha converged_ospf accepted_ospf_intent = Inr m"
    "project_ospf_desired policy_sha d accepted_ospf_intent = Inr m"
    using observed_ospf_payload [of converged_ospf] converged_ospf_converged build_ospf_desired_Inr [OF d]
      ospf_payload_valid
    by (simp_all add: project_ospf_observation_def project_ospf_desired_def checked_def)
  from ospf_in_sync_iff_converged [OF accepted_ospf_intent_valid d m refl] converged_ospf_converged
  have "ms_digest m = ms_digest m" by simp
  with d m show ?thesis by blast
qed

end
