(* ===== verification/Spec2Isabelle.thy ===== *)
theory Spec2Isabelle
  imports Execution_Properties Junos_Properties Rollout_Properties Approval_Properties
    Observation_Properties Rollout_Run_Properties Underlay_Properties Underlay_Assurance
    Acl_Properties Vlan_Properties Ospf_Properties
begin

text \<open>
  Network change delivery platform: verification development.

  The program (the Python package \<^verbatim>\<open>network_change_delivery\<close> under \<^verbatim>\<open>src/src/\<close>) delivers reviewed changes
  to network devices. A committed intent is planned against fresh observations of the device, the
  plan is frozen under a SHA-256 digest, a human approves exactly those bytes in a build pipeline,
  and only then is the change executed, observed again and recorded. A rollout does the same for a
  population of devices: all of them are reserved, read and checked before the first write, they
  are written one after the other (canaries, then waves), and one parent audit record says what
  happened (with the exceptions that the property on recorded rollouts names). Beside the delivery of interface descriptions, four reference
  services (routed underlay, OSPF triangle, VLAN service, security policy) are computed from
  allocations owned by NetBox: desired state, observation, rendered change, managed-state digest.

  This file only collects the development. Every theory opens with a text that says what it holds.

  \<^bold>\<open>Theories and sources.\<close> (File names are those of \<^verbatim>\<open>src/src/network_change_delivery/\<close>.)

  Shared:
  \<^item> \<open>Prelude\<close>: exceptions as values, results as sums, \<open>checks\<close> (the chain of
    \<^verbatim>\<open>if ...: raise\<close> of a validator), ASCII string functions, and the effect type: a computation maps
    the log of calls made so far to its result and the longer log.
  \<^item> \<open>Canonical_Json\<close>, \<open>Json_Binding\<close>: \<open>canonical_json_bytes\<close> of \<^verbatim>\<open>audit.py\<close>, its injectivity, and the
    serializers whose canonical bytes determine their argument.
  \<^item> \<open>Protocol\<close>: paths of a step relation, reachable phases, and the locale \<open>monitored\<close> of a law that
    every log of a protocol obeys.
  \<^item> \<open>Architecture_Contracts\<close>, \<open>Models\<close>, \<open>Profile_Inventory\<close>: \<^verbatim>\<open>architecture_contracts.py\<close>, \<^verbatim>\<open>models.py\<close>
    (what every lifecycle shares), \<^verbatim>\<open>profile_inventory.py\<close> and \<^verbatim>\<open>read_only_target.py\<close>.
  \<^item> \<open>Providers\<close>: the protocol classes the program is given from outside (inventory, secrets, device
    reader and writer) as functions of the history of calls, one event per call.

  Delivery of one plan:
  \<^item> \<open>Profiled_Planning\<close>: \<^verbatim>\<open>profiled_planning.py\<close>, the plan, the compliance record, their validators and
    digests, the builder and \<open>plan_profiled\<close>; properties in \<open>Planning_Properties\<close>.
  \<^item> \<open>Write_Adapter\<close>, \<open>Profiled_Execution\<close>: \<^verbatim>\<open>profiled_write_adapter.py\<close> and \<^verbatim>\<open>profiled_execution.py\<close>, the change
    record, \<open>verify_profiled_record_plan\<close>, the preflight and the Cisco and Junos lifecycles.
    \<open>Execution_Lifecycle\<close> is the abstract step relation, \<open>Execution_Refinement\<close> the simulation,
    \<open>Execution_Laws\<close> the laws of its logs, \<open>Execution_Properties\<close> what follows for the code.
  \<^item> \<open>Junos_Transaction\<close>, \<open>Junos_Properties\<close>: the transaction of \<^verbatim>\<open>junos_adapter.py\<close> over any session.
  \<^item> \<open>Approval\<close>: \<^verbatim>\<open>profiled_promotion.py\<close>.

  Delivery of a rollout:
  \<^item> \<open>Profiled_Rollout\<close>, \<open>Rollout_Planning\<close>: \<^verbatim>\<open>profiled_rollout.py\<close> (intents, selectors, children, cohorts,
    parents of both versions, admission, planner). \<open>Rollout_Laws\<close>, \<open>Rollout_Digest\<close>,
    \<open>Rollout_Parents\<close> and \<open>Rollout_Properties\<close> prove what a valid parent says.
  \<^item> \<open>Rollout_Approval\<close>, \<open>Approval_Laws\<close>, \<open>Approval_Properties\<close>: \<^verbatim>\<open>profiled_rollout_promotion.py\<close>,
    \<^verbatim>\<open>profiled_rollout_authorization.py\<close> and the static credential authority of
    \<^verbatim>\<open>openbao_profiled_deploy_config.py\<close>.
  \<^item> \<open>Reservation\<close>: \<^verbatim>\<open>profiled_rollout_reservation.py\<close>, system call by system call.
  \<^item> \<open>Observation\<close>, \<open>Capture\<close>, \<open>Observation_Properties\<close>: \<^verbatim>\<open>configuration_observation.py\<close>,
    \<^verbatim>\<open>profiled_configuration_observation.py\<close> and \<^verbatim>\<open>oxidized_observation.py\<close>.
  \<^item> \<open>Rollout_Events\<close>, \<open>Rollout_Audit\<close>, \<open>Rollout_Record\<close>, \<open>Rollout_Validation\<close>, \<open>Rollout_Execution\<close>:
    \<^verbatim>\<open>profiled_rollout_audit.py\<close>, \<^verbatim>\<open>profiled_rollout_preflight.py\<close>,
    \<^verbatim>\<open>profiled_rollout_final_validation.py\<close> and \<^verbatim>\<open>profiled_rollout_execution.py\<close>. The laws of a run are in
    \<open>Rollout_Emissions\<close> (which calls each part may make), \<open>Rollout_Run_Laws\<close>,
    \<open>Rollout_Validation_Laws\<close>, \<open>Rollout_Freshness\<close> (each observation of a preflight and of a final
    validation is planned on its own segment of the log), \<open>Rollout_Audit_Laws\<close>, \<open>Rollout_Report\<close>,
    \<open>Rollout_Sequence\<close> and \<open>Rollout_Entry\<close>; the properties in \<open>Rollout_Run_Properties\<close>.

  Reference services:
  \<^item> \<open>Ipv4\<close>, \<open>Netbox_Api\<close>: the IPv4 part of \<^verbatim>\<open>ipaddress\<close>, and the GET-only transport of
    \<^verbatim>\<open>inventory.py\<close>. \<open>Reference_Allocation\<close>, \<open>Reference_Vlan\<close>, \<open>Routing_Identity\<close>: the three allocations of
    \<^verbatim>\<open>reference_data_plane.py\<close>, \<^verbatim>\<open>reference_vlan_service.py\<close>, \<^verbatim>\<open>reference_routing_identity.py\<close>.
    \<open>Reference_Authority\<close> says what the four populations of the first must hold for it to resolve.
  \<^item> \<open>Routed_Underlay\<close>, \<open>Underlay_Render\<close>, \<open>Underlay_Converges\<close>, \<open>Underlay_Assurance\<close>,
    \<open>Underlay_Properties\<close>: \<^verbatim>\<open>routed_underlay.py\<close> and the parts of \<^verbatim>\<open>plan_assurance.py\<close> it uses.
  \<^item> \<open>Managed_State\<close>, \<open>Managed_State_Laws\<close>, \<open>Vlan_Managed\<close>, \<open>Ospf_Managed\<close> and the last section of
    \<open>Security_Policy\<close>: \<^verbatim>\<open>managed_state.py\<close>, one canonical snapshot per service.
    \<open>Reference_Properties\<close> holds the properties of the resolution and of the underlay's snapshots.
  \<^item> \<open>Show_Text\<close>: the regular expressions over \<^verbatim>\<open>show\<close> output, as explicit matchers.
  \<^item> \<open>Security_Policy\<close>, \<open>Acl_Semantics\<close>, \<open>Acl_Show\<close>, \<open>Acl_Properties\<close>: \<^verbatim>\<open>security_policy.py\<close>, what a
    router does with the rendered lines, and what its show commands print afterwards.
  \<^item> \<open>Vlan_Service\<close>, \<open>Vlan_Observation\<close>, \<open>Vlan_Properties\<close>: \<^verbatim>\<open>vlan_service.py\<close>.
  \<^item> \<open>Ospf_Intent\<close>, \<open>Ospf_Observation\<close>, \<open>Ospf_Properties\<close>: \<^verbatim>\<open>ospf_triangle.py\<close>.

  \<open>Sample_Delivery\<close>, \<open>Sample_Rollout\<close>, \<open>Sample_Reference\<close> and \<open>Sample_Policy\<close> hold concrete worlds, the
  inputs at which the properties are applied to show that their hypotheses can hold together.

  \<^bold>\<open>What the lemmas show.\<close>
  \<^item> Validators: each is a chain of \<open>checks\<close> in the order of the code, with a lemma giving the
    conjunction it accepts. What a constructor of the program returns is always valid, and a record
    of a run is never rejected by its own validator.
  \<^item> Calls: each part of the program appends to one log. An execution follows the lifecycle step
    relation, so that what may be written, when, and to which endpoint is read off the log by
    induction on that relation. A rollout is shown to be the sequence of its children's logs in the
    frozen order, after a complete preflight and inside the reservation.
  \<^item> Digests: the canonical JSON is injective on every artifact a digest is taken of, so equal
    digests bind every field unless the two byte strings at hand are a collision of SHA-256; that
    they are not is the named hypothesis, about these two strings only.
  \<^item> Reference services: rendering is right against the documented meaning of the IOS lines it
    writes (\<open>Underlay_Converges\<close>, \<open>Acl_Semantics\<close>), the text printed from the configuration those lines
    leave is read back as the desired state (\<open>Acl_Show\<close>), and equality of managed-state digests is the
    same as a field by field comparison of the configuration; for the VLAN service this includes two
    fields that have no effect, one of which a working trunk reports (\<open>Vlan_Properties\<close>).

  \<^bold>\<open>Conventions.\<close>
  \<^item> A raised exception is a value of \<open>exn\<close>, with the message of the source;
    \<^verbatim>\<open>except Exception\<close> does not catch \<open>BaseException\<close>. \<open>InventoryError\<close> is a \<open>ValueError\<close>, as in the code.
  \<^item> Strings are lists of characters below 256; JSON numbers are integers; UUIDs and byte strings
    are strings; aware datetimes are compared by their instant. Fields that pydantic fixes to one
    literal are no fields of the records and appear as constants where they are serialized.
    \<open>model_validate\<close> of an instance reruns its \<^verbatim>\<open>after\<close> validators only, as pydantic does.
  \<^item> Parameters, because their code is not in the repository: SHA-256 (\<open>sha\<close>), \<^verbatim>\<open>uuid5\<close> and \<^verbatim>\<open>uuid4\<close>,
    and the JSON readers of pydantic (codecs), whose documented behaviour (reading back what was
    written) is a named hypothesis where it is needed. The providers, the observer, the lock
    files, the audit store, the NetBox server, the \<^verbatim>\<open>show\<close> collectors and the parsed XML document of
    the Junos OSPF configuration are arbitrary functions of the history. The resolutions that the
    code answers itself from values it holds (\<open>_ResolvedInventory\<close>, \<open>_LoadedSecret\<close>) appear in the
    log with those answers.

  \<^bold>\<open>Bounds and fuel.\<close> The settlement of one collection waits until a monotonic clock reaches a deadline;
  no bound follows from the code, so \<open>settle_loop\<close> carries fuel and running out is the exception
  \<open>diverged\<close>, which no handler catches. If the clock reaches the deadline after \<open>n\<close> further calls, any
  fuel above \<open>n\<close> is enough. The pagination loop of \<open>Netbox_Api\<close> terminates because the offset grows below
  the announced count, which the source limits to ten thousand (\<open>page_limit\<close>). Every other loop is a
  structural recursion.

  \<^bold>\<open>Not modelled.\<close>
  \<^item> Input and output proper: Ansible processes, PyEZ and NETCONF, the Batfish sessions (and with them
    the offline assurance of the VLAN service, the ACL and OSPF, which queries Batfish answers), HTTP to
    OpenBao and Oxidized, Git, no-follow file reads and YAML. They are parameters where the
    modelled code calls them.
  \<^item> The stores of audit, observation and managed state (files with exclusive creation and object
    storage): the rollout sees its store as an arbitrary function of the history.
  \<^item> The first, unprofiled generation of the delivery (\<^verbatim>\<open>fleet.py\<close>, \<^verbatim>\<open>workflow.py\<close>, \<^verbatim>\<open>promotion.py\<close>),
    which the profiled lifecycle supersedes.
  \<^item> Staging in CML, host-key enrolment, the Buildkite plumbing, the provisioning of OpenBao policies,
    SNMP, Prometheus and Grafana, the command line and the viewers: they prepare or display, and
    decide nothing about a delivery.
\<close>

end
